(* ===== verification/Prelude.thy ===== *)
theory Prelude
  imports Complex_Main "HOL-Library.AList" "HOL-Library.Char_ord" "HOL-Library.List_Lexorder"
begin

text \<open>
  What every component of the development shares: the Python values the code computes with
  (dictionaries in insertion order, JSON values, slices, stable sorting, decimal printing,
  exceptions as values), the collections of simplification facts, and the interface locales
  that several components implement.

  Conventions. A UUID is the text \<open>str(uuid)\<close>; a \<open>datetime\<close> is the number of microseconds since
  the epoch (the resolution of Python's datetime); a Python float is a rational number, so that
  arithmetic on it is exact; \<open>uuid4()\<close>, \<open>secrets.token_hex()\<close> and the clock are arguments of the
  operation that reads them.
\<close>

named_theorems dict_simps "facts about dictionaries as association lists"
named_theorems step_defs "the operations of a component, unfolded one level"

type_synonym uuid = string
type_synonym datetime = int

subsection \<open>Exceptions\<close>

datatype py_error =
    KeyError string
  | ValueError string
  | TypeError string
  | IndexError string
  | ZeroDivisionError string
  | AttributeError string
  | OverflowError string
  | RuntimeError string
  | HTTPException int string

text \<open>\<open>str(exc)\<close>: a \<open>KeyError\<close> prints its key between quotes.\<close>

fun error_text :: "py_error \<Rightarrow> string" where
  "error_text (KeyError k) = CHR 0x27 # k @ [CHR 0x27]"
| "error_text (ValueError m) = m"
| "error_text (TypeError m) = m"
| "error_text (IndexError m) = m"
| "error_text (ZeroDivisionError m) = m"
| "error_text (AttributeError m) = m"
| "error_text (OverflowError m) = m"
| "error_text (RuntimeError m) = m"
| "error_text (HTTPException _ m) = m"

subsection \<open>Dictionaries in insertion order\<close>

type_synonym ('k, 'v) dict = "('k \<times> 'v) list"

abbreviation dict_get :: "('k, 'v) dict \<Rightarrow> 'k \<Rightarrow> 'v option" where
  "dict_get \<equiv> map_of"

abbreviation dict_set :: "'k \<Rightarrow> 'v \<Rightarrow> ('k, 'v) dict \<Rightarrow> ('k, 'v) dict" where
  "dict_set \<equiv> AList.update"

abbreviation dict_pop :: "'k \<Rightarrow> ('k, 'v) dict \<Rightarrow> ('k, 'v) dict" where
  "dict_pop \<equiv> AList.delete"

definition dict_get_or :: "('k, 'v) dict \<Rightarrow> 'k \<Rightarrow> 'v \<Rightarrow> 'v" where
  "dict_get_or d k v = (case map_of d k of None \<Rightarrow> v | Some w \<Rightarrow> w)"

definition dict_values :: "('k, 'v) dict \<Rightarrow> 'v list" where
  "dict_values d = map snd d"

definition dict_has :: "('k, 'v) dict \<Rightarrow> 'k \<Rightarrow> bool" where
  "dict_has d k \<longleftrightarrow> map_of d k \<noteq> None"

definition dict_ok :: "('k, 'v) dict \<Rightarrow> bool" where
  "dict_ok d \<longleftrightarrow> distinct (map fst d)"

lemma dict_get_set [dict_simps, simp]: "dict_get (dict_set k v d) = (dict_get d)(k \<mapsto> v)"
  by (rule update_conv')

lemma dict_get_pop [dict_simps, simp]: "dict_get (dict_pop k d) = (dict_get d)(k := None)"
  by (rule delete_conv')

lemma dict_ok_empty [simp]: "dict_ok []"
  by (simp add: dict_ok_def)

lemma dict_ok_set [simp, intro]: "dict_ok d \<Longrightarrow> dict_ok (dict_set k v d)"
  by (simp add: dict_ok_def distinct_update)

lemma dict_ok_pop [simp, intro]: "dict_ok d \<Longrightarrow> dict_ok (dict_pop k d)"
  by (simp add: dict_ok_def distinct_delete)

lemma dict_keys_set [dict_simps]: "fst ` set (dict_set k v d) = insert k (fst ` set d)"
  by (simp add: dom_update)

lemma dict_keys_pop [dict_simps]: "fst ` set (dict_pop k d) = fst ` set d - {k}"
  by (metis delete_conv' dom_map_of_conv_image_fst dom_fun_upd)

lemma dict_values_mem: "dict_ok d \<Longrightarrow> v \<in> set (dict_values d) \<longleftrightarrow> (\<exists>k. dict_get d k = Some v)"
  by (force simp: dict_ok_def dict_values_def)

lemma dict_get_in_values: "dict_get d k = Some v \<Longrightarrow> v \<in> set (dict_values d)"
  by (metis dict_values_def in_set_zipE map_of_SomeD zip_map_fst_snd)

lemma dict_get_or_set [simp]: "dict_get_or (dict_set k v d) k' w = (if k = k' then v else dict_get_or d k' w)"
  by (simp add: dict_get_or_def)

lemma dict_values_append [simp]: "dict_values (d @ e) = dict_values d @ dict_values e"
  by (simp add: dict_values_def)

lemma dict_values_Nil [simp]: "dict_values [] = []"
  by (simp add: dict_values_def)

lemma dict_set_fresh: "dict_get d k = None \<Longrightarrow> dict_set k v d = d @ [(k, v)]"
  by (induction d) (auto split: if_splits)

lemma length_dict_set: "length (dict_set k v d) \<le> Suc (length d)"
  by (induction d) auto

lemma length_dict_pop: "k \<in> fst ` set d \<Longrightarrow> length (dict_pop k d) < length d"
  by (auto simp: AList.delete_eq length_filter_less)

lemma fold_keeps: "(\<And>x m. P m \<Longrightarrow> P (f x m)) \<Longrightarrow> P m \<Longrightarrow> P (fold f xs m)"
  by (induction xs arbitrary: m) auto

lemma dict_set_mem: "(k', w) \<in> set (dict_set k v d) \<Longrightarrow> (k', w) = (k, v) \<or> (k', w) \<in> set d"
  by (induction d) (auto split: if_splits)

text \<open>The sum of a dictionary's values.\<close>

lemma dict_sum_set:
  "sum_list (dict_values (dict_set k v d)) = sum_list (dict_values d) + v - dict_get_or d k (0::int)"
  by (induction d) (auto simp: dict_values_def dict_get_or_def)

text \<open>\<open>info.get(key, default)\<close> of an optional entry.\<close>

definition or_default :: "'a option \<Rightarrow> 'a \<Rightarrow> 'a" where
  "or_default v d = (case v of None \<Rightarrow> d | Some w \<Rightarrow> w)"

lemma or_default_simps [simp]: "or_default None d = d" "or_default (Some w) d = w"
  by (simp_all add: or_default_def)

lemma find_SomeD: "find P xs = Some x \<Longrightarrow> x \<in> set xs \<and> P x"
  by (metis find_Some_iff nth_mem)

lemma all2_refl: "(\<And>x. P x x) \<Longrightarrow> list_all2 P xs xs"
  by (induction xs) auto

subsection \<open>JSON values\<close>

datatype json =
    JNull
  | JBool bool
  | JInt int
  | JFloat rat
  | JStr string
  | JList "json list"
  | JObj "(string \<times> json) list"

text \<open>Python truthiness of a JSON value.\<close>

fun json_true :: "json \<Rightarrow> bool" where
  "json_true JNull = False"
| "json_true (JBool b) = b"
| "json_true (JInt i) = (i \<noteq> 0)"
| "json_true (JFloat x) = (x \<noteq> 0)"
| "json_true (JStr s) = (s \<noteq> [])"
| "json_true (JList xs) = (xs \<noteq> [])"
| "json_true (JObj kvs) = (kvs \<noteq> [])"

subsection \<open>Slices, stable sorting, bounded logs\<close>

text \<open>\<open>xs[-n:]\<close>: a slice from \<open>-0\<close> is the whole list, and a negative \<open>n\<close> counts from the front.\<close>

definition slice_last :: "int \<Rightarrow> 'a list \<Rightarrow> 'a list" where
  "slice_last n xs =
     (if 0 < n then drop (length xs - nat n) xs else if n = 0 then xs else drop (nat (- n)) xs)"

text \<open>\<open>xs[:n]\<close>.\<close>

definition slice_first :: "int \<Rightarrow> 'a list \<Rightarrow> 'a list" where
  "slice_first n xs = (if 0 \<le> n then take (nat n) xs else take (length xs - nat (- n)) xs)"

text \<open>\<open>sorted(xs, key=f)\<close> is stable, and \<open>reverse=True\<close> keeps equal elements in their order.\<close>

definition sorted_by :: "('a \<Rightarrow> 'b::linorder) \<Rightarrow> 'a list \<Rightarrow> 'a list" where
  "sorted_by f xs = sort_key f xs"

definition sorted_by_desc :: "('a \<Rightarrow> 'b::linorder) \<Rightarrow> 'a list \<Rightarrow> 'a list" where
  "sorted_by_desc f xs = rev (sort_key f (rev xs))"

text \<open>\<open>max(xs, key=f)\<close> of a non-empty list is its first largest element.\<close>

fun max_by :: "('a \<Rightarrow> 'b::linorder) \<Rightarrow> 'a \<Rightarrow> 'a list \<Rightarrow> 'a" where
  "max_by f best [] = best"
| "max_by f best (x # xs) = (if f best < f x then max_by f x xs else max_by f best xs)"

lemma length_slice_last: "0 < n \<Longrightarrow> length (slice_last n xs) = min (nat n) (length xs)"
  by (auto simp: slice_last_def)

lemma set_sorted_by [simp]: "set (sorted_by f xs) = set xs"
  by (simp add: sorted_by_def)

lemma set_sorted_by_desc [simp]: "set (sorted_by_desc f xs) = set xs"
  by (simp add: sorted_by_desc_def)

lemma length_sorted_by_desc [simp]: "length (sorted_by_desc f xs) = length xs"
  by (simp add: sorted_by_desc_def)

lemma distinct_sorted:
  "distinct (map f xs) \<Longrightarrow> distinct (map f (sorted_by g xs))"
  "distinct (map f xs) \<Longrightarrow> distinct (map f (sorted_by_desc h xs))"
  by (simp_all add: distinct_map sorted_by_def sorted_by_desc_def)

lemma sorted_by_desc_sorted: "sorted_wrt (\<lambda>x y. f y \<le> f x) (sorted_by_desc f xs)"
proof -
  have "sorted (map f (sort_key f (rev xs)))" by simp
  then show ?thesis by (simp add: sorted_by_desc_def sorted_wrt_rev sorted_wrt_map)
qed

lemma sorted_by_head: "sorted_by f xs = y # ys \<Longrightarrow> y \<in> set xs \<and> (\<forall>x \<in> set xs. f y \<le> f x)"
proof -
  assume s: "sorted_by f xs = y # ys"
  then have "sorted (map f (y # ys))" by (metis sorted_by_def sorted_sort_key)
  moreover have "set (y # ys) = set xs" using s by (metis set_sorted_by)
  ultimately show ?thesis by auto
qed

lemma foldl_max_ge: "x \<in> set (i # js) \<Longrightarrow> x \<le> foldl max i js" for x :: "'a::linorder"
proof (induction js arbitrary: i x)
  case (Cons j js)
  have "max i j \<le> foldl max (max i j) js" by (rule Cons.IH) simp
  moreover have "y \<le> foldl max (max i j) js" if "y \<in> set js" for y by (rule Cons.IH) (use that in simp)
  ultimately show ?case using Cons.prems by auto
qed simp

lemma max_by_mem: "max_by f x xs \<in> set (x # xs)"
  by (induction xs arbitrary: x) auto

lemma max_by_start: "f x \<le> f (max_by f x xs)"
  by (induction xs arbitrary: x) (auto intro: order.trans less_imp_le)

lemma max_by_ge: "y \<in> set (x # xs) \<Longrightarrow> f y \<le> f (max_by f x xs)"
proof (induction xs arbitrary: x)
  case Nil
  then show ?case by simp
next
  case (Cons a xs)
  have start: "f x \<le> f (max_by f x xs)" "f a \<le> f (max_by f a xs)"
    by (rule max_by_start)+
  show ?case
    using Cons.prems Cons.IH [of x] Cons.IH [of a] start by auto
qed

text \<open>\<open>events.append(e)\<close>, then keep the last \<open>limit\<close> of them when there are more.\<close>

definition append_bounded :: "nat \<Rightarrow> 'a \<Rightarrow> 'a list \<Rightarrow> 'a list" where
  "append_bounded limit e es =
     (let es' = es @ [e] in if limit < length es' then slice_last (int limit) es' else es')"

lemma append_bounded_full:
  "0 < limit \<Longrightarrow> append_bounded limit e es = drop (Suc (length es) - limit) es @ [e]"
  by (auto simp: append_bounded_def slice_last_def Let_def)

subsection \<open>Strings\<close>

definition digit_char :: "nat \<Rightarrow> char" where
  "digit_char d = ''0123456789'' ! d"

fun nat_str :: "nat \<Rightarrow> string" where
  "nat_str n = (if n < 10 then [digit_char n] else nat_str (n div 10) @ [digit_char (n mod 10)])"

declare nat_str.simps [simp del]

definition int_str :: "int \<Rightarrow> string" where
  "int_str i = (if i < 0 then ''-'' @ nat_str (nat (- i)) else nat_str (nat i))"

text \<open>A text between single quotes, as the messages print it.\<close>

definition quoted :: "string \<Rightarrow> string" where
  "quoted s = CHR 0x27 # s @ [CHR 0x27]"

text \<open>\<open>s.lower()\<close> on ASCII text.\<close>

definition lower_char :: "char \<Rightarrow> char" where
  "lower_char c =
     (case map_of (zip ''ABCDEFGHIJKLMNOPQRSTUVWXYZ'' ''abcdefghijklmnopqrstuvwxyz'') c of
        None \<Rightarrow> c | Some d \<Rightarrow> d)"

definition str_lower :: "string \<Rightarrow> string" where
  "str_lower s = map lower_char s"

definition starts_with :: "string \<Rightarrow> string \<Rightarrow> bool" where
  "starts_with p s \<longleftrightarrow> take (length p) s = p"

fun str_contains :: "string \<Rightarrow> string \<Rightarrow> bool" where
  "str_contains p [] = (p = [])"
| "str_contains p (c # s) = (starts_with p (c # s) \<or> str_contains p s)"

lemma str_contains_iff: "str_contains p s \<longleftrightarrow> (\<exists>a b. s = a @ p @ b)"
proof (induction s)
  case Nil
  then show ?case by auto
next
  case (Cons c s)
  have "starts_with p (c # s) \<longleftrightarrow> (\<exists>b. c # s = p @ b)"
    by (metis append_eq_conv_conj append_take_drop_id starts_with_def)
  moreover have "(\<exists>a b. c # s = a @ p @ b) \<longleftrightarrow> (\<exists>b. c # s = p @ b) \<or> (\<exists>a b. s = a @ p @ b)"
    by (metis (no_types, opaque_lifting) append_Cons append_eq_Cons_conv append_Nil)
  ultimately show ?case using Cons.IH by simp
qed

text \<open>
  An f-string with interpolated values that are not texts is the list of its pieces; the text is
  the concatenation of the pieces' \<open>str()\<close>; \<open>Fmt spec v\<close> is a value printed with a format
  specification. An em dash is written as two hyphens.
\<close>

datatype piece = Txt string | Val json | Fmt string json

subsection \<open>Numbers\<close>

text \<open>\<open>round(x)\<close> rounds half to even, \<open>round(x, n)\<close> to \<open>n\<close> decimals.\<close>

definition round_half_even :: "rat \<Rightarrow> int" where
  "round_half_even x =
     (let f = \<lfloor>x\<rfloor>; d = x - of_int f
      in if d < 1 / 2 then f else if 1 / 2 < d then f + 1 else if even f then f else f + 1)"

definition py_round :: "nat \<Rightarrow> rat \<Rightarrow> rat" where
  "py_round n x = of_int (round_half_even (x * 10 ^ n)) / 10 ^ n"

text \<open>\<open>int(x)\<close> of a float truncates towards zero.\<close>

definition int_of :: "rat \<Rightarrow> int" where
  "int_of x = (if 0 \<le> x then \<lfloor>x\<rfloor> else \<lceil>x\<rceil>)"

lemma round_half_even_near: "\<bar>of_int (round_half_even x) - x\<bar> \<le> 1 / 2"
proof -
  have "of_int \<lfloor>x\<rfloor> \<le> x" "x < of_int \<lfloor>x\<rfloor> + 1" by linarith+
  then show ?thesis by (auto simp: round_half_even_def Let_def)
qed

lemma round_half_even_mono: "x \<le> y \<Longrightarrow> round_half_even x \<le> round_half_even y"
proof -
  assume le: "x \<le> y"
  have b: "of_int \<lfloor>x\<rfloor> \<le> x" "x < of_int \<lfloor>x\<rfloor> + 1" "of_int \<lfloor>y\<rfloor> \<le> y" "y < of_int \<lfloor>y\<rfloor> + 1" by linarith+
  have f: "\<lfloor>x\<rfloor> \<le> \<lfloor>y\<rfloor>" using le by (rule floor_mono)
  show ?thesis
  proof (cases "\<lfloor>x\<rfloor> = \<lfloor>y\<rfloor>")
    case True
    then show ?thesis using le by (auto simp: round_half_even_def Let_def)
  next
    case False
    then have "\<lfloor>x\<rfloor> + 1 \<le> \<lfloor>y\<rfloor>" using f by simp
    then show ?thesis by (auto simp: round_half_even_def Let_def)
  qed
qed

lemma round_half_even_int [simp]: "round_half_even (of_int i) = i"
  by (simp add: round_half_even_def)

lemma py_round_mono: "x \<le> y \<Longrightarrow> py_round n x \<le> py_round n y"
  by (simp add: py_round_def divide_right_mono round_half_even_mono)

lemma py_round_int: "py_round n (of_int k) = of_int k"
proof -
  have "(of_int k :: rat) * 10 ^ n = of_int (k * 10 ^ n)" by simp
  then show ?thesis by (simp only: py_round_def round_half_even_int) simp
qed

lemma py_round_bounds:
  "of_int a \<le> x \<Longrightarrow> x \<le> of_int b \<Longrightarrow> of_int a \<le> py_round n x \<and> py_round n x \<le> of_int b"
  using py_round_mono [of "of_int a" x n] py_round_mono [of x "of_int b" n]
  by (simp add: py_round_int)

lemma py_round_near: "\<bar>py_round n x - x\<bar> \<le> 1 / (2 * 10 ^ n)"
proof -
  have "\<bar>of_int (round_half_even (x * 10 ^ n)) - x * 10 ^ n\<bar> / 10 ^ n \<le> (1 / 2) / 10 ^ n"
    by (intro divide_right_mono round_half_even_near) simp
  moreover have "\<bar>of_int (round_half_even (x * 10 ^ n)) - x * 10 ^ n\<bar> / 10 ^ n = \<bar>py_round n x - x\<bar>"
  proof -
    have "py_round n x - x = (of_int (round_half_even (x * 10 ^ n)) - x * 10 ^ n) / 10 ^ n"
      by (simp add: py_round_def diff_divide_distrib)
    then show ?thesis by (simp add: abs_divide)
  qed
  ultimately show ?thesis by simp
qed

text \<open>The number a JSON value counts as in a comparison; other values raise \<open>TypeError\<close>.\<close>

fun json_num :: "json \<Rightarrow> rat option" where
  "json_num (JInt i) = Some (of_int i)"
| "json_num (JFloat x) = Some x"
| "json_num (JBool b) = Some (if b then 1 else 0)"
| "json_num _ = None"

subsection \<open>Errors as values\<close>

text \<open>Sequencing of computations that may raise, and a loop over them.\<close>

definition try_bind :: "'e + 'a \<Rightarrow> ('a \<Rightarrow> 'e + 'b) \<Rightarrow> 'e + 'b" where
  "try_bind m f = (case m of Inl e \<Rightarrow> Inl e | Inr a \<Rightarrow> f a)"

lemma try_bind_simps [simp]: "try_bind (Inl e) f = Inl e" "try_bind (Inr a) f = f a"
  by (simp_all add: try_bind_def)

lemma try_bind_Inr_iff: "try_bind m f = Inr b \<longleftrightarrow> (\<exists>a. m = Inr a \<and> f a = Inr b)"
  by (cases m) auto

fun try_map :: "('a \<Rightarrow> 'e + 'b) \<Rightarrow> 'a list \<Rightarrow> 'e + 'b list" where
  "try_map f [] = Inr []"
| "try_map f (x # xs) = try_bind (f x) (\<lambda>y. try_bind (try_map f xs) (\<lambda>ys. Inr (y # ys)))"

lemma try_map_Inr_iff: "try_map f xs = Inr ys \<longleftrightarrow> list_all2 (\<lambda>x y. f x = Inr y) xs ys"
  by (induction xs arbitrary: ys) (auto simp: try_bind_Inr_iff list_all2_Cons1)

lemma try_map_total: "(\<And>x. x \<in> set xs \<Longrightarrow> \<exists>y. f x = Inr y) \<Longrightarrow> \<exists>ys. try_map f xs = Inr ys"
  by (induction xs) (fastforce simp: try_bind_Inr_iff)+

subsection \<open>Interfaces\<close>

text \<open>A store addressed by keys: what a lookup returns after each operation.\<close>

locale keyed_store =
  fixes lookup :: "'s \<Rightarrow> 'k \<Rightarrow> 'v option"
    and insert_at :: "'k \<Rightarrow> 'v \<Rightarrow> 's \<Rightarrow> 's"
    and remove_at :: "'k \<Rightarrow> 's \<Rightarrow> 's"
    and wf :: "'s \<Rightarrow> bool"
  assumes lookup_insert: "wf s \<Longrightarrow> lookup (insert_at k v s) = (lookup s)(k \<mapsto> v)"
    and lookup_remove: "wf s \<Longrightarrow> lookup (remove_at k s) = (lookup s)(k := None)"
    and wf_insert: "wf s \<Longrightarrow> wf (insert_at k v s)"
    and wf_remove: "wf s \<Longrightarrow> wf (remove_at k s)"
begin

lemma lookup_insert_other: "wf s \<Longrightarrow> k' \<noteq> k \<Longrightarrow> lookup (insert_at k v s) k' = lookup s k'"
  by (simp add: lookup_insert)

lemma remove_after_insert:
  "wf s \<Longrightarrow> lookup (remove_at k (insert_at k v s)) = (lookup s)(k := None)"
  by (simp add: lookup_insert lookup_remove wf_insert)

lemma insert_twice:
  "wf s \<Longrightarrow> lookup (insert_at k w (insert_at k v s)) = lookup (insert_at k w s)"
  by (simp add: lookup_insert wf_insert)

end

interpretation py_dict: keyed_store dict_get dict_set dict_pop dict_ok
  by unfold_locales auto

text \<open>
  A run of operations in which each operation is one the environment may issue in the state it
  meets (fresh identifiers, well-formed tokens, clocks that do not run back).
\<close>

fun run_allowed :: "('op \<Rightarrow> 's \<Rightarrow> 's) \<Rightarrow> ('s \<Rightarrow> 'op \<Rightarrow> bool) \<Rightarrow> 'op list \<Rightarrow> 's \<Rightarrow> bool" where
  "run_allowed step ok [] s = True"
| "run_allowed step ok (x # xs) s = (ok s x \<and> run_allowed step ok xs (step x s))"

lemma run_allowed_True [simp]: "run_allowed step (\<lambda>_ _. True) xs s"
  by (induction xs arbitrary: s) auto

text \<open>A machine whose operations all keep an invariant: every run of allowed operations keeps it.\<close>

locale invariant_machine =
  fixes step :: "'op \<Rightarrow> 's \<Rightarrow> 's"
    and allowed :: "'s \<Rightarrow> 'op \<Rightarrow> bool"
    and inv :: "'s \<Rightarrow> bool"
  assumes step_inv: "inv s \<Longrightarrow> allowed s x \<Longrightarrow> inv (step x s)"
begin

lemma run_inv: "run_allowed step allowed xs s \<Longrightarrow> inv s \<Longrightarrow> inv (fold step xs s)"
  by (induction xs arbitrary: s) (auto intro: step_inv)

end

text \<open>A log with a bound on its length: newest entries kept, oldest dropped.\<close>

locale bounded_log =
  fixes push :: "'e \<Rightarrow> 'e list \<Rightarrow> 'e list"
    and bound :: nat
  assumes push_suffix: "\<exists>dropped. dropped @ push e es = es @ [e]"
    and push_length: "length es \<le> bound \<Longrightarrow> length (push e es) \<le> bound"
    and push_nonempty: "push e es \<noteq> []"
begin

lemma push_last: "last (push e es) = e"
  by (metis push_suffix push_nonempty last_appendR last_snoc)

lemma pushes_length: "length es \<le> bound \<Longrightarrow> length (fold push xs es) \<le> bound"
  by (induction xs arbitrary: es) (auto intro: push_length)

lemma pushes_suffix: "\<exists>dropped. dropped @ fold push xs es = es @ xs"
proof (induction xs arbitrary: es)
  case Nil
  then show ?case by simp
next
  case (Cons x xs)
  obtain d where "d @ fold push xs (push x es) = push x es @ xs"
    using Cons.IH by blast
  moreover obtain d' where "d' @ push x es = es @ [x]"
    using push_suffix by blast
  ultimately have "(d' @ d) @ fold push (x # xs) es = es @ x # xs"
    by (metis append.assoc append_Cons append_Nil fold_simps(2))
  then show ?case by blast
qed

end

lemma append_bounded_log: "0 < limit \<Longrightarrow> bounded_log (append_bounded limit) limit"
proof
  fix e :: 'a and es
  assume limit: "0 < limit"
  have "take (Suc (length es) - limit) es @ append_bounded limit e es = es @ [e]"
    using limit by (simp add: append_bounded_full)
  then show "\<exists>dropped. dropped @ append_bounded limit e es = es @ [e]" by blast
  show "length es \<le> limit \<Longrightarrow> length (append_bounded limit e es) \<le> limit"
    using limit by (auto simp: append_bounded_full)
  show "append_bounded limit e es \<noteq> []"
    using limit by (simp add: append_bounded_full)
qed

end
