(* ===== verification/Rbac.thy ===== *)
theory Rbac
  imports Prelude
begin

text \<open>
  Users, roles and API keys (src/src/gpuopt/rbac.py). The state is \<open>RBACManager\<close>'s three
  dictionaries; SHA-256 is the parameter \<open>h\<close>, and a fresh UUID, a fresh \<open>token_hex(32)\<close> and the
  clock are arguments. Logging is left out.
\<close>

subsection \<open>Data\<close>

datatype role_type = ADMIN | OPERATOR | VIEWER | FINOPS | DEVELOPER

fun role_type_value :: "role_type \<Rightarrow> string" where
  "role_type_value ADMIN = ''admin''"
| "role_type_value OPERATOR = ''operator''"
| "role_type_value VIEWER = ''viewer''"
| "role_type_value FINOPS = ''finops''"
| "role_type_value DEVELOPER = ''developer''"

datatype permission =
    CLUSTER_CREATE | CLUSTER_READ | CLUSTER_UPDATE | CLUSTER_DELETE
  | STATE_READ | STATE_COLLECT | ANALYSIS_READ | ANALYSIS_RUN
  | RECOMMENDATION_READ | RECOMMENDATION_GENERATE
  | ACTUATE_DRY_RUN | ACTUATE_LIVE | ACTUATE_ROLLBACK
  | ALERT_READ | ALERT_MANAGE | POLICY_READ | POLICY_MANAGE | APPROVAL_MANAGE
  | COST_READ | COST_MANAGE | POWER_READ | POWER_MANAGE
  | TENANT_READ | TENANT_MANAGE | COMPLIANCE_READ | DASHBOARD_READ
  | REPORT_MANAGE | REMEDIATION_MANAGE | RBAC_MANAGE | STREAM_READ

fun permission_value :: "permission \<Rightarrow> string" where
  "permission_value CLUSTER_CREATE = ''cluster:create''"
| "permission_value CLUSTER_READ = ''cluster:read''"
| "permission_value CLUSTER_UPDATE = ''cluster:update''"
| "permission_value CLUSTER_DELETE = ''cluster:delete''"
| "permission_value STATE_READ = ''state:read''"
| "permission_value STATE_COLLECT = ''state:collect''"
| "permission_value ANALYSIS_READ = ''analysis:read''"
| "permission_value ANALYSIS_RUN = ''analysis:run''"
| "permission_value RECOMMENDATION_READ = ''recommendation:read''"
| "permission_value RECOMMENDATION_GENERATE = ''recommendation:generate''"
| "permission_value ACTUATE_DRY_RUN = ''actuate:dry_run''"
| "permission_value ACTUATE_LIVE = ''actuate:live''"
| "permission_value ACTUATE_ROLLBACK = ''actuate:rollback''"
| "permission_value ALERT_READ = ''alert:read''"
| "permission_value ALERT_MANAGE = ''alert:manage''"
| "permission_value POLICY_READ = ''policy:read''"
| "permission_value POLICY_MANAGE = ''policy:manage''"
| "permission_value APPROVAL_MANAGE = ''approval:manage''"
| "permission_value COST_READ = ''cost:read''"
| "permission_value COST_MANAGE = ''cost:manage''"
| "permission_value POWER_READ = ''power:read''"
| "permission_value POWER_MANAGE = ''power:manage''"
| "permission_value TENANT_READ = ''tenant:read''"
| "permission_value TENANT_MANAGE = ''tenant:manage''"
| "permission_value COMPLIANCE_READ = ''compliance:read''"
| "permission_value DASHBOARD_READ = ''dashboard:read''"
| "permission_value REPORT_MANAGE = ''report:manage''"
| "permission_value REMEDIATION_MANAGE = ''remediation:manage''"
| "permission_value RBAC_MANAGE = ''rbac:manage''"
| "permission_value STREAM_READ = ''stream:read''"

record role =
  r_id :: uuid
  r_name :: string
  r_role_type :: role_type
  r_permissions :: "permission set"
  r_description :: string
  r_is_system :: bool

record user =
  u_id :: uuid
  u_username :: string
  u_email :: string
  u_role_ids :: "uuid list"
  u_api_key_hash :: string
  u_api_key_prefix :: string
  u_enabled :: bool
  u_created_at :: datetime
  u_last_login :: "datetime option"
  u_metadata :: "(string, json) dict"

record rbac =
  rb_users :: "(uuid, user) dict"
  rb_roles :: "(uuid, role) dict"
  rb_api_key_to_user :: "(string, uuid) dict"

definition role_definitions :: "(role_type \<times> permission set) list" where
  "role_definitions =
    [(ADMIN,
       {CLUSTER_CREATE, CLUSTER_READ, CLUSTER_UPDATE, CLUSTER_DELETE,
        STATE_READ, STATE_COLLECT, ANALYSIS_READ, ANALYSIS_RUN,
        RECOMMENDATION_READ, RECOMMENDATION_GENERATE,
        ACTUATE_DRY_RUN, ACTUATE_LIVE, ACTUATE_ROLLBACK,
        ALERT_READ, ALERT_MANAGE, POLICY_READ, POLICY_MANAGE, APPROVAL_MANAGE,
        COST_READ, COST_MANAGE, POWER_READ, POWER_MANAGE, TENANT_READ, TENANT_MANAGE,
        COMPLIANCE_READ, DASHBOARD_READ, REPORT_MANAGE, REMEDIATION_MANAGE,
        RBAC_MANAGE, STREAM_READ}),
     (OPERATOR,
       {CLUSTER_READ, CLUSTER_UPDATE, STATE_READ, STATE_COLLECT, ANALYSIS_READ, ANALYSIS_RUN,
        RECOMMENDATION_READ, RECOMMENDATION_GENERATE, ACTUATE_DRY_RUN, ACTUATE_LIVE,
        ALERT_READ, ALERT_MANAGE, POLICY_READ, POLICY_MANAGE, APPROVAL_MANAGE,
        COST_READ, POWER_READ, DASHBOARD_READ, REPORT_MANAGE, REMEDIATION_MANAGE, STREAM_READ}),
     (VIEWER,
       {CLUSTER_READ, STATE_READ, ANALYSIS_READ, RECOMMENDATION_READ, ALERT_READ, POLICY_READ,
        COST_READ, POWER_READ, COMPLIANCE_READ, DASHBOARD_READ, STREAM_READ}),
     (FINOPS,
       {CLUSTER_READ, STATE_READ, ANALYSIS_READ, RECOMMENDATION_READ, ALERT_READ,
        COST_READ, COST_MANAGE, POWER_READ, COMPLIANCE_READ, DASHBOARD_READ, REPORT_MANAGE,
        STREAM_READ}),
     (DEVELOPER,
       {CLUSTER_READ, STATE_READ, STATE_COLLECT, ANALYSIS_READ, ANALYSIS_RUN,
        RECOMMENDATION_READ, RECOMMENDATION_GENERATE, ACTUATE_DRY_RUN, ALERT_READ, POLICY_READ,
        COST_READ, POWER_READ, DASHBOARD_READ, STREAM_READ})]"

subsection \<open>Operations\<close>

definition generate_api_key :: "string \<Rightarrow> string" where
  "generate_api_key tok = ''gpuopt_'' @ tok"

definition empty_rbac :: rbac where
  "empty_rbac = \<lparr>rb_users = [], rb_roles = [], rb_api_key_to_user = []\<rparr>"

definition seed_system_roles :: "uuid list \<Rightarrow> rbac \<Rightarrow> rbac" where
  "seed_system_roles ids s =
     s\<lparr>rb_roles :=
        fold (\<lambda>(rid, rt, perms).
                dict_set rid \<lparr>r_id = rid, r_name = role_type_value rt, r_role_type = rt,
                              r_permissions = perms,
                              r_description = ''System '' @ role_type_value rt @ '' role'',
                              r_is_system = True\<rparr>)
             (zip ids role_definitions) (rb_roles s)\<rparr>"

definition role_of_type :: "role_type \<Rightarrow> rbac \<Rightarrow> role option" where
  "role_of_type rt s = find (\<lambda>r. r_role_type r = rt) (dict_values (rb_roles s))"

definition new_user :: "(string \<Rightarrow> string) \<Rightarrow> uuid \<Rightarrow> string \<Rightarrow> datetime \<Rightarrow> string \<Rightarrow> string \<Rightarrow> uuid \<Rightarrow> user" where
  "new_user h uid key now name mail rid =
     \<lparr>u_id = uid, u_username = name, u_email = mail, u_role_ids = [rid],
      u_api_key_hash = h key, u_api_key_prefix = take 8 key, u_enabled = True,
      u_created_at = now, u_last_login = None, u_metadata = []\<rparr>"

definition store_user :: "user \<Rightarrow> rbac \<Rightarrow> rbac" where
  "store_user u s =
     s\<lparr>rb_users := dict_set (u_id u) u (rb_users s),
       rb_api_key_to_user := dict_set (u_api_key_prefix u) (u_id u) (rb_api_key_to_user s)\<rparr>"

definition seed_default_admin ::
  "(string \<Rightarrow> string) \<Rightarrow> uuid \<Rightarrow> string \<Rightarrow> datetime \<Rightarrow> rbac \<Rightarrow> rbac" where
  "seed_default_admin h uid tok now s =
     (case role_of_type ADMIN s of
        None \<Rightarrow> s
      | Some r \<Rightarrow>
          store_user (new_user h uid (generate_api_key tok) now ''admin'' ''admin@gpuopt.local'' (r_id r)) s)"

definition rbac_init ::
  "(string \<Rightarrow> string) \<Rightarrow> uuid list \<Rightarrow> uuid \<Rightarrow> string \<Rightarrow> datetime \<Rightarrow> rbac" where
  "rbac_init h ids uid tok now =
     seed_default_admin h uid tok now (seed_system_roles ids empty_rbac)"

definition create_user ::
  "(string \<Rightarrow> string) \<Rightarrow> uuid \<Rightarrow> string \<Rightarrow> datetime \<Rightarrow> string \<Rightarrow> string \<Rightarrow> role_type \<Rightarrow> rbac
     \<Rightarrow> py_error + rbac \<times> user \<times> string" where
  "create_user h uid tok now name mail rt s =
     (case role_of_type rt s of
        None \<Rightarrow> Inl (ValueError (''Unknown role type: '' @ role_type_value rt))
      | Some r \<Rightarrow>
          let key = generate_api_key tok;
              u = new_user h uid key now name mail (r_id r)
          in Inr (store_user u s, u, key))"

definition get_user :: "uuid \<Rightarrow> rbac \<Rightarrow> user option" where
  "get_user uid s = dict_get (rb_users s) uid"

definition get_user_by_api_key :: "(string \<Rightarrow> string) \<Rightarrow> string \<Rightarrow> rbac \<Rightarrow> user option" where
  "get_user_by_api_key h key s =
     (case dict_get (rb_api_key_to_user s) (take 8 key) of
        None \<Rightarrow> None
      | Some uid \<Rightarrow>
          (case dict_get (rb_users s) uid of
             None \<Rightarrow> None
           | Some u \<Rightarrow> if u_api_key_hash u = h key \<and> u_enabled u then Some u else None))"

definition authenticate :: "(string \<Rightarrow> string) \<Rightarrow> string \<Rightarrow> rbac \<Rightarrow> user option" where
  "authenticate h key s = get_user_by_api_key h key s"

definition list_users :: "rbac \<Rightarrow> user list" where
  "list_users s = sorted_by u_username (dict_values (rb_users s))"

text \<open>
  \<open>updates\<close> of \<open>update_user\<close> is a dictionary from attribute names; an entry is one constructor
  here. The protected names \<open>id\<close>, \<open>api_key_hash\<close> and \<open>created_at\<close>, and names that are no attribute
  of a user, are skipped by the code.
\<close>

datatype user_update =
    SetUsername string
  | SetEmail string
  | SetRoleIds "uuid list"
  | SetApiKeyPrefix string
  | SetEnabled bool
  | SetLastLogin "datetime option"
  | SetMetadata "(string, json) dict"
  | SetSkipped string

fun apply_user_update :: "user_update \<Rightarrow> user \<Rightarrow> user" where
  "apply_user_update (SetUsername x) u = u\<lparr>u_username := x\<rparr>"
| "apply_user_update (SetEmail x) u = u\<lparr>u_email := x\<rparr>"
| "apply_user_update (SetRoleIds x) u = u\<lparr>u_role_ids := x\<rparr>"
| "apply_user_update (SetApiKeyPrefix x) u = u\<lparr>u_api_key_prefix := x\<rparr>"
| "apply_user_update (SetEnabled x) u = u\<lparr>u_enabled := x\<rparr>"
| "apply_user_update (SetLastLogin x) u = u\<lparr>u_last_login := x\<rparr>"
| "apply_user_update (SetMetadata x) u = u\<lparr>u_metadata := x\<rparr>"
| "apply_user_update (SetSkipped x) u = u"

definition update_user :: "uuid \<Rightarrow> user_update list \<Rightarrow> rbac \<Rightarrow> rbac \<times> user option" where
  "update_user uid ups s =
     (case dict_get (rb_users s) uid of
        None \<Rightarrow> (s, None)
      | Some u \<Rightarrow>
          let u' = fold apply_user_update ups u
          in (s\<lparr>rb_users := dict_set uid u' (rb_users s)\<rparr>, Some u'))"

definition delete_user :: "uuid \<Rightarrow> rbac \<Rightarrow> rbac \<times> bool" where
  "delete_user uid s =
     (case dict_get (rb_users s) uid of
        None \<Rightarrow> (s, False)
      | Some u \<Rightarrow>
          (s\<lparr>rb_users := dict_pop uid (rb_users s),
             rb_api_key_to_user := dict_pop (u_api_key_prefix u) (rb_api_key_to_user s)\<rparr>, True))"

definition rotate_api_key :: "(string \<Rightarrow> string) \<Rightarrow> uuid \<Rightarrow> string \<Rightarrow> rbac \<Rightarrow> rbac \<times> string option" where
  "rotate_api_key h uid tok s =
     (case dict_get (rb_users s) uid of
        None \<Rightarrow> (s, None)
      | Some u \<Rightarrow>
          let key = generate_api_key tok;
              u' = u\<lparr>u_api_key_hash := h key, u_api_key_prefix := take 8 key\<rparr>
          in (s\<lparr>rb_users := dict_set uid u' (rb_users s),
                rb_api_key_to_user :=
                  dict_set (u_api_key_prefix u') (u_id u)
                    (dict_pop (u_api_key_prefix u) (rb_api_key_to_user s))\<rparr>, Some key))"

definition get_role :: "uuid \<Rightarrow> rbac \<Rightarrow> role option" where
  "get_role rid s = dict_get (rb_roles s) rid"

definition list_roles :: "rbac \<Rightarrow> role list" where
  "list_roles s = sorted_by r_name (dict_values (rb_roles s))"

definition create_role :: "uuid \<Rightarrow> string \<Rightarrow> permission list \<Rightarrow> string \<Rightarrow> rbac \<Rightarrow> rbac \<times> role" where
  "create_role rid name perms desc s =
     (let r = \<lparr>r_id = rid, r_name = name, r_role_type = VIEWER, r_permissions = set perms,
               r_description = desc, r_is_system = False\<rparr>
      in (s\<lparr>rb_roles := dict_set rid r (rb_roles s)\<rparr>, r))"

fun role_permissions :: "(uuid, role) dict \<Rightarrow> uuid list \<Rightarrow> permission set" where
  "role_permissions roles [] = {}"
| "role_permissions roles (rid # rids) =
     (case dict_get roles rid of
        None \<Rightarrow> role_permissions roles rids
      | Some r \<Rightarrow> r_permissions r \<union> role_permissions roles rids)"

definition get_user_permissions :: "uuid \<Rightarrow> rbac \<Rightarrow> permission set" where
  "get_user_permissions uid s =
     (case dict_get (rb_users s) uid of
        None \<Rightarrow> {}
      | Some u \<Rightarrow> role_permissions (rb_roles s) (u_role_ids u))"

definition check_permission :: "uuid \<Rightarrow> permission \<Rightarrow> rbac \<Rightarrow> bool" where
  "check_permission uid p s \<longleftrightarrow> p \<in> get_user_permissions uid s"

definition check_api_key_permission :: "(string \<Rightarrow> string) \<Rightarrow> string \<Rightarrow> permission \<Rightarrow> rbac \<Rightarrow> bool" where
  "check_api_key_permission h key p s =
     (case get_user_by_api_key h key s of
        None \<Rightarrow> False
      | Some u \<Rightarrow> p \<in> get_user_permissions (u_id u) s)"

definition rbac_reset :: "(string \<Rightarrow> string) \<Rightarrow> uuid list \<Rightarrow> uuid \<Rightarrow> string \<Rightarrow> datetime \<Rightarrow> rbac \<Rightarrow> rbac" where
  "rbac_reset h ids uid tok now s =
     seed_default_admin h uid tok now
       (seed_system_roles ids (s\<lparr>rb_users := [], rb_roles := [], rb_api_key_to_user := []\<rparr>))"

text \<open>
  \<open>PermissionChecker.__call__\<close>: the request's \<open>user_id\<close> (empty when the middleware set none) and
  the setting \<open>api_keyless_mode\<close> decide first.
\<close>

definition permission_checker :: "bool \<Rightarrow> string \<Rightarrow> permission \<Rightarrow> rbac \<Rightarrow> py_error + unit" where
  "permission_checker keyless user_id p s =
     (if keyless \<and> (user_id = [] \<or> user_id = ''system'') then Inr ()
      else if user_id = [] \<or> user_id = ''system'' then
        Inl (HTTPException 401 ''Authentication required'')
      else if \<not> check_permission user_id p s then
        Inl (HTTPException 403 (''Missing permission: '' @ permission_value p))
      else Inr ())"

subsection \<open>The manager as a machine\<close>

datatype rbac_op =
    OpCreateUser uuid string datetime string string role_type
  | OpUpdateUser uuid "user_update list"
  | OpDeleteUser uuid
  | OpRotateKey uuid string
  | OpCreateRole uuid string "permission list" string
  | OpReset "uuid list" uuid string datetime

fun rbac_step :: "(string \<Rightarrow> string) \<Rightarrow> rbac_op \<Rightarrow> rbac \<Rightarrow> rbac" where
  "rbac_step h (OpCreateUser uid tok now name mail rt) s =
     (case create_user h uid tok now name mail rt s of Inl e \<Rightarrow> s | Inr (s', _) \<Rightarrow> s')"
| "rbac_step h (OpUpdateUser uid ups) s = fst (update_user uid ups s)"
| "rbac_step h (OpDeleteUser uid) s = fst (delete_user uid s)"
| "rbac_step h (OpRotateKey uid tok) s = fst (rotate_api_key h uid tok s)"
| "rbac_step h (OpCreateRole rid name perms desc) s = fst (create_role rid name perms desc s)"
| "rbac_step h (OpReset ids uid tok now) s = rbac_reset h ids uid tok now s"

definition hex_digits :: string where
  "hex_digits = ''0123456789abcdef''"

definition is_token :: "string \<Rightarrow> bool" where
  "is_token tok \<longleftrightarrow> length tok = 64 \<and> list_all (\<lambda>c. c \<in> set hex_digits) tok"

definition keeps_prefix :: "user_update \<Rightarrow> bool" where
  "keeps_prefix up = (case up of SetApiKeyPrefix _ \<Rightarrow> False | _ \<Rightarrow> True)"

text \<open>
  What the environment guarantees: \<open>token_hex(32)\<close> gives 64 hexadecimal digits, \<open>uuid4()\<close> gives an
  identifier no user has, and callers do not overwrite the stored key prefix by hand.
\<close>

fun rbac_allowed :: "rbac \<Rightarrow> rbac_op \<Rightarrow> bool" where
  "rbac_allowed s (OpCreateUser uid tok now name mail rt) = (is_token tok \<and> dict_get (rb_users s) uid = None)"
| "rbac_allowed s (OpUpdateUser uid ups) = list_all keeps_prefix ups"
| "rbac_allowed s (OpDeleteUser uid) = True"
| "rbac_allowed s (OpRotateKey uid tok) = is_token tok"
| "rbac_allowed s (OpCreateRole rid name perms desc) = True"
| "rbac_allowed s (OpReset ids uid tok now) = is_token tok"

definition key_prefixes :: "string list" where
  "key_prefixes = map (\<lambda>c. ''gpuopt_'' @ [c]) hex_digits"

definition rbac_inv :: "rbac \<Rightarrow> bool" where
  "rbac_inv s \<longleftrightarrow>
     dict_ok (rb_users s) \<and> dict_ok (rb_api_key_to_user s) \<and>
     (\<forall>uid u. dict_get (rb_users s) uid = Some u \<longrightarrow> u_id u = uid) \<and>
     (\<forall>p uid. dict_get (rb_api_key_to_user s) p = Some uid \<longrightarrow>
        (\<exists>u. dict_get (rb_users s) uid = Some u \<and> u_api_key_prefix u = p)) \<and>
     fst ` set (rb_api_key_to_user s) \<subseteq> set key_prefixes"

lemma take8_generated_key: "is_token tok \<Longrightarrow> take 8 (generate_api_key tok) \<in> set key_prefixes"
  by (cases tok) (auto simp: is_token_def generate_api_key_def key_prefixes_def)

lemma rbac_invD:
  assumes "rbac_inv s"
  shows "dict_ok (rb_users s)" "dict_ok (rb_api_key_to_user s)"
    and "dict_get (rb_users s) uid = Some u \<Longrightarrow> u_id u = uid"
    and "dict_get (rb_api_key_to_user s) p = Some uid \<Longrightarrow>
           \<exists>u. dict_get (rb_users s) uid = Some u \<and> u_api_key_prefix u = p"
    and "fst ` set (rb_api_key_to_user s) \<subseteq> set key_prefixes"
  using assms by (simp_all add: rbac_inv_def)

lemma rbac_inv_store_user:
  assumes inv: "rbac_inv s" and fresh: "dict_get (rb_users s) (u_id u) = None"
    and pre: "u_api_key_prefix u \<in> set key_prefixes"
  shows "rbac_inv (store_user u s)"
proof -
  have old: "uid \<noteq> u_id u" if "dict_get (rb_api_key_to_user s) p = Some uid" for p uid
    using rbac_invD(4) [OF inv that] fresh by auto
  show ?thesis
    using inv pre unfolding rbac_inv_def store_user_def
    by (auto simp: dict_simps dest: old)
qed

lemma rbac_inv_empty: "rbac_inv \<lparr>rb_users = [], rb_roles = roles, rb_api_key_to_user = []\<rparr>"
  by (simp add: rbac_inv_def)

lemma rbac_inv_roles: "rbac_inv (s\<lparr>rb_roles := roles\<rparr>) = rbac_inv s"
  by (simp add: rbac_inv_def)

lemma rbac_inv_seed_default_admin:
  assumes "rbac_inv s" "dict_get (rb_users s) uid = None" "is_token tok"
  shows "rbac_inv (seed_default_admin h uid tok now s)"
  using assms
  by (auto simp: seed_default_admin_def new_user_def take8_generated_key
           intro!: rbac_inv_store_user split: option.splits)

lemma rbac_inv_init: "is_token tok \<Longrightarrow> rbac_inv (rbac_init h ids uid tok now)"
  unfolding rbac_init_def
  by (rule rbac_inv_seed_default_admin) (auto simp: seed_system_roles_def empty_rbac_def rbac_inv_def)

lemma rbac_inv_reset: "is_token tok \<Longrightarrow> rbac_inv (rbac_reset h ids uid tok now s)"
  unfolding rbac_reset_def
  by (rule rbac_inv_seed_default_admin) (auto simp: seed_system_roles_def rbac_inv_def)

lemma user_updates_keep:
  "list_all keeps_prefix ups \<Longrightarrow> u_api_key_prefix (fold apply_user_update ups u) = u_api_key_prefix u"
  by (induction ups arbitrary: u) (auto simp: keeps_prefix_def split: user_update.splits)

lemma user_updates_id [simp]: "u_id (fold apply_user_update ups u) = u_id u"
proof (induction ups arbitrary: u)
  case (Cons a ups)
  then show ?case by (cases a) auto
qed simp

lemma user_updates_hash [simp]: "u_api_key_hash (fold apply_user_update ups u) = u_api_key_hash u"
proof (induction ups arbitrary: u)
  case (Cons a ups)
  then show ?case by (cases a) auto
qed simp

lemma rbac_inv_replace_user:
  assumes inv: "rbac_inv s" and u: "dict_get (rb_users s) uid = Some u"
    and same: "u_id u' = uid" "u_api_key_prefix u' = u_api_key_prefix u"
  shows "rbac_inv (s\<lparr>rb_users := dict_set uid u' (rb_users s)\<rparr>)"
proof -
  have "\<exists>w. (if k = uid then Some u' else dict_get (rb_users s) k) = Some w \<and> u_api_key_prefix w = p"
    if "dict_get (rb_api_key_to_user s) p = Some k" for p k
    using rbac_invD(4) [OF inv that] u same by auto
  then show ?thesis
    using inv same(1) by (auto simp: rbac_inv_def)
qed

lemma rbac_inv_update_user:
  assumes inv: "rbac_inv s" and keep: "list_all keeps_prefix ups"
  shows "rbac_inv (fst (update_user uid ups s))"
proof (cases "dict_get (rb_users s) uid")
  case None
  then show ?thesis using inv by (simp add: update_user_def)
next
  case (Some u)
  have "rbac_inv (s\<lparr>rb_users := dict_set uid (fold apply_user_update ups u) (rb_users s)\<rparr>)"
    using inv Some by (rule rbac_inv_replace_user)
      (simp_all add: user_updates_keep [OF keep] rbac_invD(3) [OF inv Some])
  then show ?thesis using Some by (simp add: update_user_def Let_def)
qed

lemma rbac_inv_delete_user:
  assumes inv: "rbac_inv s"
  shows "rbac_inv (fst (delete_user uid s))"
proof (cases "dict_get (rb_users s) uid")
  case None
  then show ?thesis using inv by (simp add: delete_user_def)
next
  case (Some u)
  have "p = u_api_key_prefix u" if "dict_get (rb_api_key_to_user s) p = Some uid" for p
    using rbac_invD(4) [OF inv that] Some by auto
  then show ?thesis
    using inv Some unfolding rbac_inv_def delete_user_def
    by (auto simp: dict_simps)
qed

lemma rbac_inv_rotate:
  assumes inv: "rbac_inv s" and tok: "is_token tok"
  shows "rbac_inv (fst (rotate_api_key h uid tok s))"
proof (cases "dict_get (rb_users s) uid")
  case None
  then show ?thesis using inv by (simp add: rotate_api_key_def)
next
  case (Some u)
  have own: "p = u_api_key_prefix u" if "dict_get (rb_api_key_to_user s) p = Some uid" for p
    using rbac_invD(4) [OF inv that] Some by auto
  have uid: "u_id u = uid" using rbac_invD(3) [OF inv Some] .
  show ?thesis
    using inv Some uid own take8_generated_key [OF tok]
    unfolding rbac_inv_def rotate_api_key_def Let_def
    by (auto simp: dict_simps)
qed

interpretation rbac_machine: invariant_machine "rbac_step h" rbac_allowed rbac_inv for h
proof
  fix s x assume inv: "rbac_inv s" and ok: "rbac_allowed s x"
  show "rbac_inv (rbac_step h x s)"
  proof (cases x)
    case (OpCreateUser uid tok now name mail rt)
    with inv ok show ?thesis
      by (auto simp: create_user_def Let_def new_user_def take8_generated_key
               intro!: rbac_inv_store_user split: option.splits)
  next
    case (OpCreateRole rid name perms desc)
    with inv show ?thesis by (simp add: create_role_def Let_def rbac_inv_roles)
  qed (use inv ok in \<open>simp_all add: rbac_inv_update_user rbac_inv_delete_user rbac_inv_rotate rbac_inv_reset\<close>)
qed

subsection \<open>Who can log in\<close>

lemma authenticate_SomeE:
  assumes "authenticate h k s = Some u"
  obtains uid where "dict_get (rb_api_key_to_user s) (take 8 k) = Some uid"
    and "dict_get (rb_users s) uid = Some u" and "u_api_key_hash u = h k" and "u_enabled u"
  using assms
  by (auto simp: authenticate_def get_user_by_api_key_def split: option.splits if_splits)

lemma authenticate_SomeI:
  assumes "dict_get (rb_api_key_to_user s) (take 8 k) = Some uid"
    and "dict_get (rb_users s) uid = Some u" and "u_api_key_hash u = h k" and "u_enabled u"
  shows "authenticate h k s = Some u"
  using assms by (simp add: authenticate_def get_user_by_api_key_def)

lemma card_index_le:
  assumes "rbac_inv s"
  shows "card (fst ` set (rb_api_key_to_user s)) \<le> 16"
proof -
  have "card (fst ` set (rb_api_key_to_user s)) \<le> card (set key_prefixes)"
    using rbac_invD(5) [OF assms] by (simp add: card_mono)
  also have "\<dots> \<le> length key_prefixes" by (rule card_length)
  also have "\<dots> = 16" by (simp add: key_prefixes_def hex_digits_def)
  finally show ?thesis .
qed

definition login_ids :: "(string \<Rightarrow> string) \<Rightarrow> rbac \<Rightarrow> uuid set" where
  "login_ids h s = {u_id u | k u. authenticate h k s = Some u}"

lemma login_id_stored:
  assumes inv: "rbac_inv s" and "x \<in> login_ids h s"
  shows "dict_get (rb_users s) x \<noteq> None"
proof -
  obtain k u where k: "authenticate h k s = Some u" and x: "x = u_id u"
    using assms(2) by (auto simp: login_ids_def)
  from k obtain i where i: "dict_get (rb_users s) i = Some u"
    by (rule authenticate_SomeE)
  then show ?thesis using rbac_invD(3) [OF inv i] x by simp
qed

lemma login_ids_subset:
  assumes inv: "rbac_inv s"
  shows "login_ids h s \<subseteq> (\<lambda>p. the (dict_get (rb_api_key_to_user s) p)) ` fst ` set (rb_api_key_to_user s)"
proof
  fix x assume "x \<in> login_ids h s"
  then obtain k u where "authenticate h k s = Some u" and x: "x = u_id u"
    by (auto simp: login_ids_def)
  then obtain uid where i: "dict_get (rb_api_key_to_user s) (take 8 k) = Some uid"
    and "dict_get (rb_users s) uid = Some u" by (blast elim: authenticate_SomeE)
  then have "x = the (dict_get (rb_api_key_to_user s) (take 8 k))"
    using x rbac_invD(3) [OF inv] by simp
  moreover have "take 8 k \<in> fst ` set (rb_api_key_to_user s)"
    using i by (metis domI dom_map_of_conv_image_fst)
  ultimately show "x \<in> (\<lambda>p. the (dict_get (rb_api_key_to_user s) p)) ` fst ` set (rb_api_key_to_user s)"
    by blast
qed

lemma card_login_ids: "rbac_inv s \<Longrightarrow> card (login_ids h s) \<le> 16"
  by (meson card_image_le card_index_le card_mono finite_imageI finite_set le_trans login_ids_subset)

text \<open>
  Every key starts with \<open>gpuopt_\<close>, so the eight characters under which the manager files a key
  differ in one hexadecimal digit only. After any run of operations from start-up, whatever the
  number of users created, at most sixteen of them can log in with any key at all.
\<close>

theorem rbac_login_bound:
  assumes "is_token tok"
    and "run_allowed (rbac_step h) rbac_allowed ops (rbac_init h ids uid tok now)"
  shows "card (login_ids h (fold (rbac_step h) ops (rbac_init h ids uid tok now))) \<le> 16"
  by (rule card_login_ids, rule rbac_machine.run_inv [OF assms(2)], rule rbac_inv_init [OF assms(1)])

definition sample_token :: "char \<Rightarrow> string" where
  "sample_token c = replicate 64 c"

definition sample_init :: rbac where
  "sample_init = rbac_init (\<lambda>k. k) [''r1'', ''r2'', ''r3'', ''r4'', ''r5''] ''admin-id'' (sample_token CHR ''0'') 0"

lemma sample_token_ok [simp]: "c \<in> set hex_digits \<Longrightarrow> is_token (sample_token c)"
  by (simp add: is_token_def sample_token_def list_all_iff)

lemma hex_digits_mem [simp]: "CHR ''0'' \<in> set hex_digits" "CHR ''1'' \<in> set hex_digits"
    "CHR ''a'' \<in> set hex_digits"
  by (simp_all add: hex_digits_def)

lemmas sample_init_defs = sample_init_def rbac_init_def seed_default_admin_def seed_system_roles_def
  empty_rbac_def role_of_type_def role_definitions_def store_user_def new_user_def dict_values_def
  generate_api_key_def

theorem rbac_login_bound_witness:
  "card (login_ids (\<lambda>k. k)
     (fold (rbac_step (\<lambda>k. k)) [OpCreateUser ''u1'' (sample_token CHR ''a'') 5 ''eve'' ''e@x'' VIEWER] sample_init)) \<le> 16"
  unfolding sample_init_def
  by (rule rbac_login_bound) (simp_all add: sample_init_defs)

text \<open>
  C8: a key is accepted only if it is the key of an enabled user of the store: after any run from
  start-up, a successful login returns a stored, enabled user whose key hash and key prefix are
  those of the key presented.
\<close>

theorem rbac_login_sound:
  assumes "is_token tok"
    and "run_allowed (rbac_step h) rbac_allowed ops (rbac_init h ids uid tok now)"
    and "authenticate h k (fold (rbac_step h) ops (rbac_init h ids uid tok now)) = Some u"
  shows "get_user (u_id u) (fold (rbac_step h) ops (rbac_init h ids uid tok now)) = Some u
    \<and> u_enabled u \<and> u_api_key_hash u = h k \<and> u_api_key_prefix u = take 8 k"
proof -
  let ?s = "fold (rbac_step h) ops (rbac_init h ids uid tok now)"
  have inv: "rbac_inv ?s"
    by (rule rbac_machine.run_inv [OF assms(2)], rule rbac_inv_init [OF assms(1)])
  from assms(3) obtain i where i: "dict_get (rb_api_key_to_user ?s) (take 8 k) = Some i"
    and u: "dict_get (rb_users ?s) i = Some u" and "u_api_key_hash u = h k" "u_enabled u"
    by (rule authenticate_SomeE)
  moreover have "u_id u = i" using rbac_invD(3) [OF inv u] .
  moreover have "u_api_key_prefix u = take 8 k" using rbac_invD(4) [OF inv i] u by auto
  ultimately show ?thesis by (simp add: get_user_def)
qed

lemma sample_login:
  "authenticate (\<lambda>k. k) (''gpuopt_'' @ sample_token CHR ''0'') sample_init =
     Some (new_user (\<lambda>k. k) ''admin-id'' (''gpuopt_'' @ sample_token CHR ''0'') 0 ''admin'' ''admin@gpuopt.local'' ''r1'')"
  by (rule authenticate_SomeI [where uid = "''admin-id''"]) (simp_all add: sample_init_defs)

theorem rbac_login_sound_witness:
  "get_user ''admin-id'' sample_init \<noteq> None"
  using rbac_login_sound [where h = "\<lambda>k. k" and ops = "[]" and ids = "[''r1'', ''r2'', ''r3'', ''r4'', ''r5'']"
      and uid = "''admin-id''" and tok = "sample_token CHR ''0''" and now = 0
      and k = "''gpuopt_'' @ sample_token CHR ''0''", folded sample_init_def] sample_login
  by (auto simp: new_user_def)

text \<open>
  Creating a user hands out a working key: whatever was stored before, the key returned by
  \<open>create_user\<close> logs in as exactly the new user, who has the role asked for.
\<close>

theorem create_user_login:
  assumes "create_user h uid tok now name mail rt s = Inr (s', u, key)"
  shows "authenticate h key s' = Some u \<and> u_id u = uid \<and> u_username u = name
    \<and> (\<exists>r. role_of_type rt s = Some r \<and> u_role_ids u = [r_id r])"
  using assms
  by (auto simp: create_user_def Let_def store_user_def new_user_def authenticate_def
                 get_user_by_api_key_def split: option.splits)

theorem create_user_login_witness:
  "\<exists>s' u key. create_user (\<lambda>k. k) ''u1'' (sample_token CHR ''a'') 5 ''eve'' ''e@x'' VIEWER sample_init = Inr (s', u, key)
     \<and> authenticate (\<lambda>k. k) key s' = Some u"
proof -
  have "\<exists>s' u key. create_user (\<lambda>k. k) ''u1'' (sample_token CHR ''a'') 5 ''eve'' ''e@x'' VIEWER sample_init = Inr (s', u, key)"
    by (simp add: create_user_def sample_init_defs Let_def)
  then show ?thesis using create_user_login by blast
qed

text \<open>
  The prefix index has one slot per prefix, so a new user whose key begins with the same eight
  characters takes over the slot of a working key: that key stops working, although its user is
  still stored and enabled.
\<close>

theorem create_user_lockout:
  assumes old: "authenticate h k s = Some v"
    and new: "create_user h uid tok now name mail rt s = Inr (s', u, key)"
    and same: "take 8 k = take 8 key" and diff: "h k \<noteq> h key" and other: "u_id v \<noteq> uid"
    and inv: "rbac_inv s"
  shows "authenticate h k s' = None \<and> get_user (u_id v) s' = Some v \<and> u_enabled v"
proof -
  from old obtain i where "dict_get (rb_users s) i = Some v" and en: "u_enabled v"
    by (rule authenticate_SomeE)
  then have v: "dict_get (rb_users s) (u_id v) = Some v" using rbac_invD(3) [OF inv] by metis
  from new have s': "s' = store_user u s" and u: "u_id u = uid" "u_api_key_prefix u = take 8 key"
    "u_api_key_hash u = h key"
    by (auto simp: create_user_def Let_def new_user_def split: option.splits)
  have "authenticate h k s' = None"
    using same diff u by (simp add: s' store_user_def authenticate_def get_user_by_api_key_def)
  then show ?thesis using v en u other by (simp add: s' store_user_def get_user_def)
qed

theorem create_user_lockout_witness:
  "\<exists>s' u key. create_user (\<lambda>k. k) ''u1'' (CHR ''0'' # replicate 63 CHR ''1'') 5 ''eve'' ''e@x'' VIEWER sample_init
       = Inr (s', u, key)
     \<and> authenticate (\<lambda>k. k) (''gpuopt_'' @ sample_token CHR ''0'') s' = None"
proof -
  let ?k = "''gpuopt_'' @ sample_token CHR ''0''"
  obtain s' u key where c: "create_user (\<lambda>k. k) ''u1'' (CHR ''0'' # replicate 63 CHR ''1'') 5 ''eve'' ''e@x'' VIEWER sample_init
       = Inr (s', u, key)" and key: "key = ''gpuopt_'' @ CHR ''0'' # replicate 63 CHR ''1''"
    by (simp add: create_user_def sample_init_defs Let_def)
  have "rbac_inv sample_init"
    unfolding sample_init_def by (rule rbac_inv_init) simp
  with create_user_lockout [OF sample_login c] key
  have "authenticate (\<lambda>k. k) ?k s' = None"
    by (simp add: new_user_def sample_token_def numeral_eq_Suc)
  then show ?thesis using c by blast
qed

text \<open>
  Deleting a user or rotating the user's key revokes the old key: after \<open>delete_user\<close> no key
  logs in as the user, and after \<open>rotate_api_key\<close> a key logs in as the user only if it has the
  hash of the new key.
\<close>

theorem key_revocation:
  assumes inv: "rbac_inv s"
  shows "uid \<notin> login_ids h (fst (delete_user uid s))
    \<and> (rotate_api_key h uid tok s = (s', Some key) \<longrightarrow> authenticate h k s' = Some u \<longrightarrow> u_id u = uid
        \<longrightarrow> h k = h key)"
proof
  have inv': "rbac_inv (fst (delete_user uid s))" by (rule rbac_inv_delete_user [OF inv])
  have "dict_get (rb_users (fst (delete_user uid s))) uid = None"
    by (simp add: delete_user_def split: option.splits)
  then show "uid \<notin> login_ids h (fst (delete_user uid s))"
    using login_id_stored [OF inv'] by blast
next
  show "rotate_api_key h uid tok s = (s', Some key) \<longrightarrow> authenticate h k s' = Some u \<longrightarrow> u_id u = uid
        \<longrightarrow> h k = h key"
  proof (intro impI)
    assume rot: "rotate_api_key h uid tok s = (s', Some key)"
      and auth: "authenticate h k s' = Some u" and uid: "u_id u = uid"
    from rot obtain v where v: "dict_get (rb_users s) uid = Some v"
      and users: "rb_users s' = dict_set uid (v\<lparr>u_api_key_hash := h key, u_api_key_prefix := take 8 key\<rparr>) (rb_users s)"
      by (auto simp: rotate_api_key_def Let_def split: option.splits)
    from auth obtain i where i: "dict_get (rb_users s') i = Some u" and hash: "u_api_key_hash u = h k"
      by (rule authenticate_SomeE)
    have "i = uid"
    proof (rule ccontr)
      assume "i \<noteq> uid"
      then have "dict_get (rb_users s) i = Some u" using i by (simp add: users)
      then show False using rbac_invD(3) [OF inv, of i u] uid \<open>i \<noteq> uid\<close> by simp
    qed
    then show "h k = h key" using i hash by (auto simp: users)
  qed
qed

theorem key_revocation_witness:
  "''admin-id'' \<notin> login_ids (\<lambda>k. k) (fst (delete_user ''admin-id'' sample_init))"
proof -
  have "rbac_inv sample_init"
    unfolding sample_init_def by (rule rbac_inv_init) simp
  then show ?thesis using key_revocation by blast
qed

definition admin_only :: "permission list" where
  "admin_only = [CLUSTER_CREATE, CLUSTER_DELETE, ACTUATE_ROLLBACK, POWER_MANAGE, TENANT_READ,
                 TENANT_MANAGE, RBAC_MANAGE]"

definition seeded_role :: "uuid \<Rightarrow> role_type \<times> permission set \<Rightarrow> role" where
  "seeded_role rid d =
     \<lparr>r_id = rid, r_name = role_type_value (fst d), r_role_type = fst d, r_permissions = snd d,
      r_description = ''System '' @ role_type_value (fst d) @ '' role'', r_is_system = True\<rparr>"

lemma seed_fold:
  assumes "distinct (map fst xs @ map fst ps)"
  shows "fold (\<lambda>(rid, d). dict_set rid (seeded_role rid d)) xs ps
    = ps @ map (\<lambda>(rid, d). (rid, seeded_role rid d)) xs"
  using assms
proof (induction xs arbitrary: ps)
  case (Cons x xs)
  obtain rid d where x: "x = (rid, d)" by (cases x)
  have "dict_get ps rid = None"
    using Cons.prems x by (auto simp: map_of_eq_None_iff)
  then have "dict_set rid (seeded_role rid d) ps = ps @ [(rid, seeded_role rid d)]"
    by (rule dict_set_fresh)
  moreover have "distinct (map fst xs @ map fst (ps @ [(rid, seeded_role rid d)]))"
    using Cons.prems x by auto
  ultimately show ?case using Cons.IH x by simp
qed simp

lemma seeded_roles:
  assumes "distinct ids" "length ids = 5"
  shows "rb_roles (seed_system_roles ids empty_rbac)
    = map (\<lambda>(rid, d). (rid, seeded_role rid d)) (zip ids role_definitions)"
proof -
  have "distinct (map fst (zip ids role_definitions))"
    using assms by (simp add: role_definitions_def)
  then show ?thesis
    using seed_fold [of "zip ids role_definitions" "[]"]
    by (simp add: seed_system_roles_def empty_rbac_def seeded_role_def case_prod_beta')
qed

lemma role_definitions_admin_only:
  "(rt, perms) \<in> set role_definitions \<Longrightarrow> rt \<noteq> ADMIN \<Longrightarrow> p \<in> set admin_only \<Longrightarrow> p \<notin> perms"
  by (auto simp: role_definitions_def admin_only_def)

lemma role_definitions_admin: "(ADMIN, perms) \<in> set role_definitions \<Longrightarrow> p \<in> set admin_only \<Longrightarrow> p \<in> perms"
  by (auto simp: role_definitions_def admin_only_def)

lemma rb_roles_init: "rb_roles (rbac_init h ids uid tok now) = rb_roles (seed_system_roles ids empty_rbac)"
  by (simp add: rbac_init_def seed_default_admin_def store_user_def split: option.splits)

lemma seeded_role_permissions:
  assumes ids: "distinct ids" "length ids = 5"
    and r: "role_of_type rt (rbac_init h ids uid tok now) = Some r"
  shows "dict_get (rb_roles (rbac_init h ids uid tok now)) (r_id r) = Some r
    \<and> (rt, r_permissions r) \<in> set role_definitions"
proof -
  let ?roles = "map (\<lambda>(rid, d). (rid, seeded_role rid d)) (zip ids role_definitions)"
  have roles: "rb_roles (rbac_init h ids uid tok now) = ?roles"
    using seeded_roles [OF ids] by (simp add: rb_roles_init)
  have found: "r \<in> set (map snd ?roles) \<and> r_role_type r = rt"
    using r unfolding role_of_type_def roles dict_values_def by (rule find_SomeD)
  then have rt: "r_role_type r = rt" by simp
  from found obtain rid d where rd: "(rid, d) \<in> set (zip ids role_definitions)" and "r = seeded_role rid d"
    by auto
  then have in_roles: "(r_id r, r) \<in> set ?roles" and d: "d = (rt, r_permissions r)"
    using rt by (auto simp: seeded_role_def intro!: image_eqI [where x = "(rid, d)"])
  have "distinct (map fst ?roles)"
    using ids by (simp add: role_definitions_def case_prod_beta' comp_def)
  then have "map_of ?roles (r_id r) = Some r"
    using in_roles by (rule map_of_is_SomeI)
  moreover have "(rt, r_permissions r) \<in> set role_definitions"
    using rd d by (auto dest: set_zip_rightD)
  ultimately show ?thesis by (simp add: roles)
qed

text \<open>
  C17: least privilege of the system roles: in a freshly started manager, a user created with one of the five
  roles passes the check of a route exactly when the permission is in the set that the role is
  defined with, and is refused (403, naming the permission) otherwise, in keyless mode or not. For
  cluster creation or deletion, rollback, power or tenant management and role management these are
  exactly the administrators.
\<close>

theorem permission_checker_least_privilege:
  assumes ids: "distinct ids" "length ids = 5"
    and new: "create_user h uid tok now name mail rt (rbac_init h ids uid0 tok0 now0) = Inr (s', u, key)"
    and uid: "uid \<noteq> []" "uid \<noteq> ''system''"
  shows "(\<exists>perms. (rt, perms) \<in> set role_definitions \<and> permission_checker keyless uid p s'
        = (if p \<in> perms then Inr () else Inl (HTTPException 403 (''Missing permission: '' @ permission_value p))))
    \<and> (p \<in> set admin_only \<longrightarrow> (permission_checker keyless uid p s' = Inr () \<longleftrightarrow> rt = ADMIN))"
proof -
  let ?s = "rbac_init h ids uid0 tok0 now0"
  from new obtain r where r: "role_of_type rt ?s = Some r"
    and s': "s' = store_user u ?s" and u: "u_id u = uid" "u_role_ids u = [r_id r]"
    by (auto simp: create_user_def Let_def new_user_def split: option.splits)
  have perms: "(rt, r_permissions r) \<in> set role_definitions" and "dict_get (rb_roles ?s) (r_id r) = Some r"
    using seeded_role_permissions [OF ids r] by auto
  then have "check_permission uid p s' \<longleftrightarrow> p \<in> r_permissions r"
    using u by (simp add: check_permission_def get_user_permissions_def s' store_user_def)
  then have check: "permission_checker keyless uid p s'
      = (if p \<in> r_permissions r then Inr () else Inl (HTTPException 403 (''Missing permission: '' @ permission_value p)))"
    using uid by (simp add: permission_checker_def)
  moreover have "p \<in> r_permissions r \<longleftrightarrow> rt = ADMIN" if "p \<in> set admin_only"
    using perms that role_definitions_admin_only role_definitions_admin by blast
  ultimately show ?thesis using perms by auto
qed

theorem permission_checker_least_privilege_witness:
  "\<exists>s' u key. create_user (\<lambda>k. k) ''u1'' (sample_token CHR ''a'') 5 ''eve'' ''e@x'' OPERATOR sample_init = Inr (s', u, key)
     \<and> permission_checker True ''u1'' ACTUATE_ROLLBACK s' = Inl (HTTPException 403 ''Missing permission: actuate:rollback'')
     \<and> permission_checker True ''u1'' ACTUATE_LIVE s' = Inr ()"
proof -
  have "\<exists>s' u key. create_user (\<lambda>k. k) ''u1'' (sample_token CHR ''a'') 5 ''eve'' ''e@x'' OPERATOR sample_init = Inr (s', u, key)"
    by (simp add: create_user_def sample_init_defs Let_def)
  then obtain s' u key where c: "create_user (\<lambda>k. k) ''u1'' (sample_token CHR ''a'') 5 ''eve'' ''e@x'' OPERATOR sample_init = Inr (s', u, key)"
    by blast
  obtain perms perms' where "(OPERATOR, perms) \<in> set role_definitions" "(OPERATOR, perms') \<in> set role_definitions"
    "permission_checker True ''u1'' ACTUATE_ROLLBACK s'
      = (if ACTUATE_ROLLBACK \<in> perms then Inr () else Inl (HTTPException 403 (''Missing permission: '' @ permission_value ACTUATE_ROLLBACK)))"
    "permission_checker True ''u1'' ACTUATE_LIVE s'
      = (if ACTUATE_LIVE \<in> perms' then Inr () else Inl (HTTPException 403 (''Missing permission: '' @ permission_value ACTUATE_LIVE)))"
    using permission_checker_least_privilege [OF _ _ c [unfolded sample_init_def], of True ACTUATE_ROLLBACK]
      permission_checker_least_privilege [OF _ _ c [unfolded sample_init_def], of True ACTUATE_LIVE] by auto
  moreover from this(1) have "ACTUATE_ROLLBACK \<notin> perms"
    by (rule role_definitions_admin_only) (simp_all add: admin_only_def)
  moreover have "ACTUATE_LIVE \<in> perms'" using calculation(2) by (simp add: role_definitions_def)
  ultimately show ?thesis using c by auto
qed

end
