(* ===== verification/AuthPipeline.thy ===== *)
theory AuthPipeline
  imports Rbac
begin

text \<open>
  How a request is authenticated: \<open>AuthMiddleware\<close> of src/src/gpuopt/middleware.py, the external
  back ends of src/src/gpuopt/auth/service.py and auth/backends.py, and the permission check of
  \<open>Rbac\<close> behind them. What a web server answers to a GET request, what the ldap3 package finds
  and Python's \<open>str()\<close> of a JSON value are arguments. Logging is left out.
\<close>

subsection \<open>Results and the world outside\<close>

record auth_result =
  ax_authenticated :: bool
  ax_username :: json
  ax_email :: json
  ax_groups :: json
  ax_metadata :: json
  ax_error :: string

definition auth_error :: "string \<Rightarrow> auth_result" where
  "auth_error msg = \<lparr>ax_authenticated = False, ax_username = JStr [], ax_email = JStr [],
     ax_groups = JList [], ax_metadata = JList [], ax_error = msg\<rparr>"

record ldap_entry =
  le_cn :: "string option"
  le_entry_dn :: string
  le_mail :: "string option"
  le_member_of :: "string list option"

datatype ldap_reply = LdapNoPackage | LdapRaises py_error | LdapEntries "ldap_entry list"

text \<open>
  The answer to a GET of a URL with an Authorization header, decoded as JSON, or the exception;
  and the answer of the directory to a search with a filter template and the name put into it.
\<close>

record world =
  wo_get :: "string \<Rightarrow> string option \<Rightarrow> py_error + json"
  wo_ldap :: "string \<Rightarrow> string \<Rightarrow> string \<Rightarrow> ldap_reply"
  wo_str :: "json \<Rightarrow> string"

record auth_settings =
  se_keyless_mode :: bool
  se_oauth2_token_url :: string
  se_oauth2_verify_url :: string
  se_oidc_issuer_url :: string
  se_ldap_server_url :: string
  se_ldap_search_filter :: string

subsection \<open>Back ends\<close>

text \<open>An OIDC back end holds the issuer without trailing slashes and the key set's URI.\<close>

datatype backend = OAuth2PasswordBackend string | OIDCBackend string json | LDAPBackend string string

definition rstrip_slash :: "string \<Rightarrow> string" where
  "rstrip_slash s = rev (dropWhile (\<lambda>c. c = CHR ''/'') (rev s))"

definition load_config :: "world \<Rightarrow> string \<Rightarrow> json" where
  "load_config w issuer =
     (if issuer = [] then JStr []
      else (case wo_get w (issuer @ ''/.well-known/openid-configuration'') None of
              Inr (JObj kvs) \<Rightarrow> dict_get_or kvs ''jwks_uri'' (JStr [])
            | _ \<Rightarrow> JStr []))"

definition claims_result :: "(string, json) dict \<Rightarrow> auth_result" where
  "claims_result body =
     (let preferred = dict_get_or body ''preferred_username'' JNull
      in \<lparr>ax_authenticated = True,
          ax_username = (if json_true preferred then preferred else dict_get_or body ''sub'' (JStr [])),
          ax_email = dict_get_or body ''email'' (JStr []),
          ax_groups = dict_get_or body ''groups'' (JList []),
          ax_metadata = JObj body, ax_error = []\<rparr>)"

definition ask :: "world \<Rightarrow> string \<Rightarrow> string \<Rightarrow> auth_result" where
  "ask w url header =
     (case wo_get w url (Some header) of
        Inl err \<Rightarrow> auth_error (error_text err)
      | Inr (JObj body) \<Rightarrow> claims_result body
      | Inr _ \<Rightarrow> auth_error ''object has no attribute get'')"

definition oauth2_authenticate :: "world \<Rightarrow> string \<Rightarrow> string \<Rightarrow> auth_result" where
  "oauth2_authenticate w verify_url token =
     (if verify_url = [] then auth_error ''OAuth2 not configured''
      else ask w verify_url (if starts_with ''Bearer '' token then token else ''Bearer '' @ token))"

definition oidc_authenticate :: "world \<Rightarrow> string \<Rightarrow> json \<Rightarrow> string \<Rightarrow> auth_result" where
  "oidc_authenticate w issuer jwks_uri token =
     (if issuer = [] then auth_error ''OIDC not configured''
      else if \<not> json_true jwks_uri then auth_error ''OIDC issuer unreachable''
      else ask w (issuer @ ''/userinfo'') (''Bearer '' @ token))"

definition ldap_authenticate :: "world \<Rightarrow> string \<Rightarrow> string \<Rightarrow> string \<Rightarrow> auth_result" where
  "ldap_authenticate w server_url search_filter token =
     (if server_url = [] then auth_error ''LDAP not configured''
      else (case wo_ldap w server_url search_filter token of
              LdapNoPackage \<Rightarrow> auth_error ''ldap3 package not installed''
            | LdapRaises err \<Rightarrow> auth_error (error_text err)
            | LdapEntries [] \<Rightarrow> auth_error ''User not found in LDAP''
            | LdapEntries (entry # _) \<Rightarrow>
                \<lparr>ax_authenticated = True,
                 ax_username = JStr (case le_cn entry of Some n \<Rightarrow> n | None \<Rightarrow> le_entry_dn entry),
                 ax_email = JStr (case le_mail entry of Some n \<Rightarrow> n | None \<Rightarrow> []),
                 ax_groups = JList (case le_member_of entry of None \<Rightarrow> [] | Some gs \<Rightarrow> map JStr gs),
                 ax_metadata = JList [], ax_error = []\<rparr>))"

fun backend_authenticate :: "world \<Rightarrow> backend \<Rightarrow> string \<Rightarrow> auth_result" where
  "backend_authenticate w (OAuth2PasswordBackend url) token = oauth2_authenticate w url token"
| "backend_authenticate w (OIDCBackend issuer jwks) token = oidc_authenticate w issuer jwks token"
| "backend_authenticate w (LDAPBackend url filt) token = ldap_authenticate w url filt token"

subsection \<open>The external service\<close>

record external_service =
  xs_backends :: "backend list"
  xs_enabled :: bool

definition configure :: "world \<Rightarrow> auth_settings \<Rightarrow> external_service" where
  "configure w se =
     (let bs =
        (if se_oauth2_token_url se \<noteq> [] \<or> se_oauth2_verify_url se \<noteq> []
         then [OAuth2PasswordBackend (se_oauth2_verify_url se)] else []) @
        (if se_oidc_issuer_url se \<noteq> []
         then (let issuer = rstrip_slash (se_oidc_issuer_url se) in [OIDCBackend issuer (load_config w issuer)]) else []) @
        (if se_ldap_server_url se \<noteq> []
         then [LDAPBackend (se_ldap_server_url se) (se_ldap_search_filter se)] else [])
      in \<lparr>xs_backends = bs, xs_enabled = (bs \<noteq> [])\<rparr>)"

fun try_backends :: "world \<Rightarrow> backend list \<Rightarrow> string \<Rightarrow> auth_result" where
  "try_backends w [] token = auth_error ''All authentication backends rejected the token''"
| "try_backends w (b # bs) token =
     (let r = backend_authenticate w b token in if ax_authenticated r then r else try_backends w bs token)"

definition external_authenticate :: "world \<Rightarrow> external_service \<Rightarrow> string \<Rightarrow> auth_result" where
  "external_authenticate w xs token =
     (if \<not> xs_enabled xs \<or> xs_backends xs = [] then auth_error ''No external auth backends configured''
      else try_backends w (xs_backends xs) token)"

subsection \<open>The middleware\<close>

record http_request =
  hq_path :: string
  hq_api_key :: "string option"
  hq_authorization :: string

record request_state =
  qs_user_id :: string
  qs_user :: "user option"
  qs_username :: json
  qs_external :: "auth_result option"

definition system_state :: request_state where
  "system_state = \<lparr>qs_user_id = ''system'', qs_user = None, qs_username = JStr ''system'', qs_external = None\<rparr>"

definition user_state :: "user \<Rightarrow> request_state" where
  "user_state u = \<lparr>qs_user_id = u_id u, qs_user = Some u, qs_username = JStr (u_username u), qs_external = None\<rparr>"

definition external_state :: "world \<Rightarrow> auth_result \<Rightarrow> request_state" where
  "external_state w r =
     system_state\<lparr>qs_user_id := ''external:'' @ wo_str w (ax_username r), qs_username := ax_username r,
                  qs_external := Some r\<rparr>"

definition public_paths :: "string list" where
  "public_paths = [''/health/live'', ''/health/ready'', ''/health/detailed'', ''/metrics'', ''/docs'', ''/openapi.json'',
     ''/redoc'', ''/api/version'', ''/api/v2/health'', ''/api/v2/version'']"

definition bearer_token :: "external_service \<Rightarrow> string \<Rightarrow> string" where
  "bearer_token external api_key =
     (if xs_enabled external \<and> \<not> str_contains ''Bearer'' api_key then ''Bearer '' @ api_key else api_key)"

datatype auth_outcome = Forward request_state | Refuse int string

definition auth_dispatch ::
  "world \<Rightarrow> auth_settings \<Rightarrow> (string \<Rightarrow> string) \<Rightarrow> http_request \<Rightarrow> rbac \<Rightarrow> auth_outcome" where
  "auth_dispatch w se h req s =
     (if hq_path req \<in> set public_paths then Forward system_state
      else (case hq_api_key req of
        Some (c # cs) \<Rightarrow>
          (let api_key = c # cs in
           case authenticate h api_key s of
             Some u \<Rightarrow> Forward (user_state u)
           | None \<Rightarrow>
               (let external = configure w se;
                    r = external_authenticate w external (bearer_token external api_key)
                in if ax_authenticated r then Forward (external_state w r)
                   else Refuse 403 ''Invalid API key or token''))
      | _ \<Rightarrow>
          (if se_keyless_mode se then Forward system_state
           else
             (if (se_oauth2_token_url se \<noteq> [] \<or> se_oidc_issuer_url se \<noteq> [] \<or> se_ldap_server_url se \<noteq> [])
                 \<and> starts_with ''Bearer '' (hq_authorization req)
              then (let r = external_authenticate w (configure w se) (hq_authorization req)
                    in if ax_authenticated r then Forward (external_state w r)
                       else Refuse 401 ''Missing API key'')
              else Refuse 401 ''Missing API key''))))"

text \<open>A route that depends on \<open>require_permission\<close>: the middleware, then the checker.\<close>

definition guarded_route ::
  "world \<Rightarrow> auth_settings \<Rightarrow> (string \<Rightarrow> string) \<Rightarrow> permission \<Rightarrow> http_request \<Rightarrow> rbac \<Rightarrow> py_error + request_state" where
  "guarded_route w se h p req s =
     (case auth_dispatch w se h req s of
        Refuse code msg \<Rightarrow> Inl (HTTPException code msg)
      | Forward st \<Rightarrow> try_bind (permission_checker (se_keyless_mode se) (qs_user_id st) p s) (\<lambda>_. Inr st))"

subsection \<open>Who reaches a guarded route\<close>

definition plain_ids :: "rbac \<Rightarrow> bool" where
  "plain_ids s \<longleftrightarrow> list_all (\<lambda>ku. fst ku \<noteq> [] \<and> fst ku \<noteq> ''system'' \<and> \<not> starts_with ''external:'' (fst ku)) (rb_users s)"

lemma plain_idsD:
  "plain_ids s \<Longrightarrow> dict_get (rb_users s) i = Some u \<Longrightarrow> i \<noteq> [] \<and> i \<noteq> ''system'' \<and> \<not> starts_with ''external:'' i"
  by (auto simp: plain_ids_def list_all_iff dest!: map_of_SomeD)

lemma external_has_nothing:
  "plain_ids s \<Longrightarrow> permission_checker keyless (''external:'' @ name) p s
     = Inl (HTTPException 403 (''Missing permission: '' @ permission_value p))"
  by (auto simp: permission_checker_def check_permission_def get_user_permissions_def starts_with_def
      dest: plain_idsD split: option.split)

lemma external_refused:
  "plain_ids s \<Longrightarrow> permission_checker keyless (qs_user_id (external_state w r)) p s
     = Inl (HTTPException 403 (''Missing permission: '' @ permission_value p))"
  using external_has_nothing [of s keyless "wo_str w (ax_username r)" p] by (simp add: external_state_def)

lemma system_passes:
  "permission_checker keyless (qs_user_id system_state) p s
     = (if keyless then Inr () else Inl (HTTPException 401 ''Authentication required''))"
  by (simp add: permission_checker_def system_state_def)

lemma user_passes:
  assumes "rbac_inv s" and "plain_ids s" and "authenticate h k s = Some u"
  shows "permission_checker keyless (u_id u) p s
    = (if p \<in> get_user_permissions (u_id u) s then Inr ()
       else Inl (HTTPException 403 (''Missing permission: '' @ permission_value p)))"
proof -
  from assms(3) obtain i where "dict_get (rb_users s) i = Some u" by (rule authenticate_SomeE)
  then have "dict_get (rb_users s) (u_id u) = Some u" using rbac_invD(3) [OF assms(1)] by metis
  then show ?thesis
    using plain_idsD [OF assms(2)] by (simp add: permission_checker_def check_permission_def)
qed

text \<open>
  C16: who reaches a guarded route: outside the public paths, with user identifiers as the manager
  draws them, a request passes the middleware and the permission check exactly when it presents the
  API key of an enabled user whose roles grant the permission, and then runs as that user, or when
  the service is in keyless mode and the request presents no key at all. A token that an external
  back end accepts, of whatever kind and whatever groups it names, never does: it is let through by
  the middleware and refused by the check.
\<close>

theorem guarded_request:
  assumes "rbac_inv s" and "plain_ids s" and "hq_path req \<notin> set public_paths"
  shows "guarded_route w se h p req s = Inr st \<longleftrightarrow>
      (\<exists>k u. hq_api_key req = Some k \<and> k \<noteq> [] \<and> authenticate h k s = Some u
         \<and> p \<in> get_user_permissions (u_id u) s \<and> st = user_state u)
    \<or> (se_keyless_mode se \<and> hq_api_key req \<in> {None, Some []} \<and> st = system_state)"
proof (cases "hq_api_key req \<in> {None, Some []}")
  case True
  then have "auth_dispatch w se h req s =
      (if se_keyless_mode se then Forward system_state
       else if (se_oauth2_token_url se \<noteq> [] \<or> se_oidc_issuer_url se \<noteq> [] \<or> se_ldap_server_url se \<noteq> [])
               \<and> starts_with ''Bearer '' (hq_authorization req)
               \<and> ax_authenticated (external_authenticate w (configure w se) (hq_authorization req))
            then Forward (external_state w (external_authenticate w (configure w se) (hq_authorization req)))
            else Refuse 401 ''Missing API key'')"
    using assms(3) by (auto simp: auth_dispatch_def Let_def)
  then show ?thesis
    using True by (auto simp: guarded_route_def system_passes external_refused [OF assms(2)])
next
  case False
  then obtain k where k: "hq_api_key req = Some k" "k \<noteq> []" by auto
  show ?thesis
  proof (cases "authenticate h k s")
    case None
    with k assms(3) show ?thesis
      by (cases k) (auto simp: guarded_route_def auth_dispatch_def Let_def external_refused [OF assms(2)])
  next
    case (Some u)
    with k assms(3) have "auth_dispatch w se h req s = Forward (user_state u)"
      by (cases k) (auto simp: auth_dispatch_def Let_def)
    with k Some show ?thesis
      by (auto simp: guarded_route_def user_state_def user_passes [OF assms(1,2) Some] try_bind_def split: if_splits)
  qed
qed

definition closed_settings :: auth_settings where
  "closed_settings = \<lparr>se_keyless_mode = False, se_oauth2_token_url = [], se_oauth2_verify_url = ''https://idp/verify'',
     se_oidc_issuer_url = [], se_ldap_server_url = [], se_ldap_search_filter = ''(uid={username})''\<rparr>"

definition trusting_world :: world where
  "trusting_world = \<lparr>wo_get = (\<lambda>_ _. Inr (JObj [(''sub'', JStr ''eve'')])), wo_ldap = (\<lambda>_ _ _. LdapEntries []), wo_str = (\<lambda>_. ''eve'')\<rparr>"

theorem guarded_request_witness:
  "\<exists>err. guarded_route trusting_world closed_settings (\<lambda>k. k) RBAC_MANAGE
     \<lparr>hq_path = ''/api/v1/rbac/users'', hq_api_key = Some ''some-token'', hq_authorization = []\<rparr> sample_init = Inl err"
proof -
  let ?req = "\<lparr>hq_path = ''/api/v1/rbac/users'', hq_api_key = Some ''some-token'', hq_authorization = []\<rparr>"
  have "rbac_inv sample_init" unfolding sample_init_def by (rule rbac_inv_init) simp
  moreover have "plain_ids sample_init" by (simp add: plain_ids_def sample_init_defs starts_with_def)
  moreover have "hq_path ?req \<notin> set public_paths" by (simp add: public_paths_def)
  moreover have "authenticate (\<lambda>k. k) ''some-token'' sample_init = None"
    by (simp add: authenticate_def get_user_by_api_key_def sample_init_defs sample_token_def numeral_eq_Suc)
  ultimately have "guarded_route trusting_world closed_settings (\<lambda>k. k) RBAC_MANAGE ?req sample_init \<noteq> Inr st" for st
    using guarded_request [of sample_init ?req trusting_world closed_settings "\<lambda>k. k" RBAC_MANAGE st]
    by (simp add: closed_settings_def)
  then show ?thesis by (cases "guarded_route trusting_world closed_settings (\<lambda>k. k) RBAC_MANAGE ?req sample_init") auto
qed

subsection \<open>Tokens sent to the OIDC issuer\<close>

lemma try_backends_cong:
  "(\<And>b. b \<in> set bs \<Longrightarrow> backend_authenticate w1 b t = backend_authenticate w2 b t) \<Longrightarrow>
    try_backends w1 bs t = try_backends w2 bs t"
  by (induction bs) (simp_all add: Let_def)

text \<open>
  The OIDC issuer never sees a bare token: when no OAuth2 back end is configured, the outcome of
  authentication does not depend on what web servers answer to an Authorization header in which the
  word Bearer stands only once, at the front. The middleware puts Bearer in front of the token and
  the back end puts it there again.
\<close>

theorem oidc_bearer_twice:
  assumes "se_oauth2_token_url se = []" and "se_oauth2_verify_url se = []"
    and "\<And>url. wo_get w1 url None = wo_get w2 url None"
    and "\<And>url t. str_contains ''Bearer'' t \<Longrightarrow> wo_get w1 url (Some (''Bearer '' @ t)) = wo_get w2 url (Some (''Bearer '' @ t))"
    and "wo_ldap w1 = wo_ldap w2" and "wo_str w1 = wo_str w2"
  shows "auth_dispatch w1 se h req s = auth_dispatch w2 se h req s"
proof -
  have conf: "configure w1 se = configure w2 se"
    by (simp add: configure_def load_config_def assms(3) Let_def)
  have kinds: "b \<in> set (xs_backends (configure w2 se)) \<Longrightarrow> \<exists>i j f. b = OIDCBackend i j \<or> b = LDAPBackend i f" for b
    by (auto simp: configure_def Let_def assms(1,2) split: if_splits)
  have same: "external_authenticate w1 (configure w2 se) t = external_authenticate w2 (configure w2 se) t"
    if t: "str_contains ''Bearer'' t" for t
  proof -
    have "backend_authenticate w1 b t = backend_authenticate w2 b t" if "b \<in> set (xs_backends (configure w2 se))" for b
      using kinds [OF that] assms(4) [OF t] by (auto simp: oidc_authenticate_def ldap_authenticate_def ask_def assms(5))
    then have "try_backends w1 (xs_backends (configure w2 se)) t = try_backends w2 (xs_backends (configure w2 se)) t"
      by (rule try_backends_cong)
    then show ?thesis by (simp add: external_authenticate_def)
  qed
  have bearer: "str_contains ''Bearer'' t" if "starts_with ''Bearer '' t" for t
  proof -
    have "take (length ''Bearer '') t @ drop (length ''Bearer '') t = t" by (rule append_take_drop_id)
    then have "t = ''Bearer '' @ drop (length ''Bearer '') t" using that unfolding starts_with_def by metis
    then have "t = [] @ ''Bearer'' @ ('' '' @ drop (length ''Bearer '') t)" by simp
    then show ?thesis unfolding str_contains_iff by blast
  qed
  have pre: "str_contains ''Bearer'' (''Bearer '' @ t)" for t by (rule bearer) (simp add: starts_with_def)
  have none: "external_authenticate w1 (configure w2 se) t = external_authenticate w2 (configure w2 se) t"
    if "\<not> xs_enabled (configure w2 se)" for t
    using that by (simp add: external_authenticate_def)
  have ext: "external_state w1 = external_state w2" by (simp add: external_state_def assms(6) fun_eq_iff)
  show ?thesis
  proof (cases "hq_api_key req")
    case None
    then show ?thesis by (simp add: auth_dispatch_def conf ext same bearer Let_def)
  next
    case (Some k)
    show ?thesis
    proof (cases k)
      case Nil
      with Some show ?thesis by (simp add: auth_dispatch_def conf ext same bearer Let_def)
    next
      case (Cons c cs)
      have "external_authenticate w1 (configure w2 se) (bearer_token (configure w2 se) k)
          = external_authenticate w2 (configure w2 se) (bearer_token (configure w2 se) k)"
        using same [OF pre, of k] same [of k] none [of k] by (auto simp: bearer_token_def)
      then show ?thesis
        using Some Cons by (cases "authenticate h k s") (simp_all add: auth_dispatch_def conf ext Let_def)
    qed
  qed
qed

theorem oidc_bearer_twice_witness:
  "auth_dispatch trusting_world (closed_settings\<lparr>se_oauth2_verify_url := [], se_oidc_issuer_url := ''https://idp''\<rparr>) (\<lambda>k. k)
      \<lparr>hq_path = ''/x'', hq_api_key = Some ''tok'', hq_authorization = []\<rparr> sample_init
   = auth_dispatch (trusting_world\<lparr>wo_get := (\<lambda>url header. if header = Some ''Bearer tok'' then Inr JNull
        else wo_get trusting_world url header)\<rparr>) (closed_settings\<lparr>se_oauth2_verify_url := [], se_oidc_issuer_url := ''https://idp''\<rparr>)
      (\<lambda>k. k) \<lparr>hq_path = ''/x'', hq_api_key = Some ''tok'', hq_authorization = []\<rparr> sample_init"
proof (rule oidc_bearer_twice)
  have "\<not> str_contains ''Bearer'' ''tok''" by (simp add: starts_with_def)
  then show "str_contains ''Bearer'' t \<Longrightarrow> wo_get trusting_world url (Some (''Bearer '' @ t))
     = wo_get (trusting_world\<lparr>wo_get := (\<lambda>url header. if header = Some ''Bearer tok'' then Inr JNull
        else wo_get trusting_world url header)\<rparr>) url (Some (''Bearer '' @ t))" for url t
    by auto
qed (simp_all add: closed_settings_def)

end
