(* ===== verification/Repository.thy ===== *)
theory Repository
  imports Prelude
begin

text \<open>
  The part of src/src/gpuopt/repository.py that the guarded-automation components read and
  write, on its SQLite backend: the records of schemas.py, the tables as lists of rows in rowid
  order, and one definition per query. \<open>INSERT OR REPLACE\<close> deletes the rows that clash with the new
  row in a UNIQUE column and inserts the new row last. A column that holds JSON text holds the
  value that was dumped: \<open>json.loads(json.dumps(x))\<close> gives \<open>x\<close> back. Times are compared as the
  isoformat texts are, which for UTC times is the order of the times; rows with equal times keep
  rowid order. The foreign keys of the schema are not enforced, since no connection switches
  SQLite's \<open>foreign_keys\<close> pragma on. The PostgreSQL branches are not modelled.
\<close>

subsection \<open>Clusters and recommendations\<close>

record cluster =
  cl_id :: uuid
  cl_name :: string
  cl_environment :: string

datatype recommendation_type = PLACEMENT | RIGHT_SIZING | SCALING | RISK_MITIGATION | EFFICIENCY

fun recommendation_type_value :: "recommendation_type \<Rightarrow> string" where
  "recommendation_type_value PLACEMENT = ''placement''"
| "recommendation_type_value RIGHT_SIZING = ''right_sizing''"
| "recommendation_type_value SCALING = ''scaling''"
| "recommendation_type_value RISK_MITIGATION = ''risk_mitigation''"
| "recommendation_type_value EFFICIENCY = ''efficiency''"

record recommendation =
  rc_id :: uuid
  rc_type :: recommendation_type
  rc_title :: string
  rc_affected_resources :: "string list"
  rc_actions :: "string list"
  rc_score :: rat

record recommendation_set =
  rs_id :: uuid
  rs_cluster_id :: uuid
  rs_generated_at :: datetime
  rs_recommendations :: "recommendation list"

subsection \<open>Twins and actuations\<close>

text \<open>\<open>state_json\<close> is a JSON text; \<open>None\<close> stands for the empty text.\<close>

record twin_state =
  tw_id :: uuid
  tw_cluster_id :: uuid
  tw_cluster_name :: string
  tw_environment :: string
  tw_synced_at :: datetime
  tw_original_collected_at :: "datetime option"
  tw_node_count :: int
  tw_gpu_count :: int
  tw_state_json :: "json option"
  tw_has_diverged :: bool
  tw_divergence_reason :: string

datatype actuation_status =
  ACT_PENDING | ACT_IN_PROGRESS | ACT_COMPLETED | ACT_FAILED | ACT_ROLLED_BACK

fun actuation_status_value :: "actuation_status \<Rightarrow> string" where
  "actuation_status_value ACT_PENDING = ''pending''"
| "actuation_status_value ACT_IN_PROGRESS = ''in_progress''"
| "actuation_status_value ACT_COMPLETED = ''completed''"
| "actuation_status_value ACT_FAILED = ''failed''"
| "actuation_status_value ACT_ROLLED_BACK = ''rolled_back''"

record actuation_action =
  aa_action_type :: string
  aa_target :: string
  aa_value :: string
  aa_status :: string
  aa_message :: string

record actuation_record =
  ac_id :: uuid
  ac_cluster_id :: uuid
  ac_cluster_name :: string
  ac_environment :: string
  ac_rec_id :: uuid
  ac_rec_title :: string
  ac_rec_type :: string
  ac_status :: actuation_status
  ac_dry_run :: bool
  ac_started_at :: datetime
  ac_completed_at :: "datetime option"
  ac_actions :: "actuation_action list"
  ac_result_summary :: string
  ac_error_message :: string
  ac_rollback_of :: string
  ac_rolled_back_by :: string

subsection \<open>Policies and approvals\<close>

datatype policy_severity = SEV_LOW | SEV_MEDIUM | SEV_HIGH | SEV_CRITICAL

record policy_rule =
  po_id :: uuid
  po_name :: string
  po_description :: string
  po_scope_type :: string
  po_scope_value :: string
  po_rule_type :: string
  po_rule_config :: "(string, json) dict"
  po_severity :: policy_severity
  po_enabled :: bool
  po_fail_action :: string
  po_created_at :: datetime
  po_updated_at :: datetime

datatype approval_status = AP_PENDING | AP_APPROVED | AP_REJECTED | AP_CANCELLED

fun approval_status_value :: "approval_status \<Rightarrow> string" where
  "approval_status_value AP_PENDING = ''pending''"
| "approval_status_value AP_APPROVED = ''approved''"
| "approval_status_value AP_REJECTED = ''rejected''"
| "approval_status_value AP_CANCELLED = ''cancelled''"

record approval_step =
  st_step_order :: int
  st_approver :: string
  st_status :: approval_status
  st_decided_at :: "datetime option"
  st_reason :: string

record approval_record =
  ap_id :: uuid
  ap_actuation_id :: uuid
  ap_cluster_id :: uuid
  ap_cluster_name :: string
  ap_status :: approval_status
  ap_steps :: "approval_step list"
  ap_required_approvers :: "string list"
  ap_reason :: string
  ap_created_at :: datetime
  ap_decided_at :: "datetime option"
  ap_final_reason :: string

text \<open>A row of the \<open>approvals\<close> table: the table has no column for the cluster name.\<close>

record approval_row =
  aw_id :: uuid
  aw_actuation_id :: uuid
  aw_cluster_id :: uuid
  aw_status :: approval_status
  aw_steps :: "approval_step list"
  aw_required_approvers :: "string list"
  aw_reason :: string
  aw_created_at :: datetime
  aw_decided_at :: "datetime option"
  aw_final_reason :: string

record repo =
  re_clusters :: "cluster list"
  re_recommendations :: "recommendation_set list"
  re_twins :: "twin_state list"
  re_actuations :: "actuation_record list"
  re_policies :: "policy_rule list"
  re_approvals :: "approval_row list"

definition empty_repo :: repo where
  "empty_repo = \<lparr>re_clusters = [], re_recommendations = [], re_twins = [], re_actuations = [],
                 re_policies = [], re_approvals = []\<rparr>"

subsection \<open>Tables\<close>

definition replace_row :: "('r \<Rightarrow> 'r \<Rightarrow> bool) \<Rightarrow> 'r \<Rightarrow> 'r list \<Rightarrow> 'r list" where
  "replace_row clash r rows = filter (\<lambda>r'. \<not> clash r r') rows @ [r]"

definition select_one :: "('r \<Rightarrow> bool) \<Rightarrow> 'r list \<Rightarrow> 'r option" where
  "select_one P rows = find P rows"

definition select_desc :: "('r \<Rightarrow> bool) \<Rightarrow> ('r \<Rightarrow> 't::linorder) \<Rightarrow> 'r list \<Rightarrow> 'r list" where
  "select_desc P t rows = sorted_by_desc t (filter P rows)"

text \<open>
  A table addressed by a key column: reading after saving, for rows that come back from the
  table as \<open>norm\<close> describes.
\<close>

locale record_store =
  fixes load :: "'s \<Rightarrow> 'k \<Rightarrow> 'r option"
    and save :: "'r \<Rightarrow> 's \<Rightarrow> 's"
    and key :: "'r \<Rightarrow> 'k"
    and norm :: "'r \<Rightarrow> 'r"
  assumes load_save: "load (save r s) = (load s)(key r \<mapsto> norm r)"
    and norm_norm: "norm (norm r) = norm r"
    and key_norm: "key (norm r) = key r"
    and load_norm: "load s k = Some r \<Longrightarrow> norm r = r \<and> key r = k"
begin

lemma load_save_same: "load (save r s) (key r) = Some (norm r)"
  by (simp add: load_save)

lemma load_save_other: "k \<noteq> key r \<Longrightarrow> load (save r s) k = load s k"
  by (simp add: load_save)

text \<open>A read-modify-write that keeps the key and the columns the table drops touches one record.\<close>

lemma modify_one:
  assumes "load s k = Some r" and "key r' = key r" and "norm r' = r'"
  shows "load (save r' s) = (load s)(k \<mapsto> r')"
  using assms load_norm [OF assms(1)] by (simp add: load_save)

lemma save_save: "key r' = key r \<Longrightarrow> load (save r' (save r s)) = load (save r' s)"
  by (simp add: load_save)

end

lemma find_append: "find P (xs @ ys) = (case find P xs of None \<Rightarrow> find P ys | Some x \<Rightarrow> Some x)"
  by (induction xs) auto

lemma find_filter_keep: "(\<And>x. x \<in> set xs \<Longrightarrow> P x \<Longrightarrow> Q x) \<Longrightarrow> find P (filter Q xs) = find P xs"
  by (induction xs) auto

lemma find_filter_none: "(\<And>x. P x \<Longrightarrow> \<not> Q x) \<Longrightarrow> find P (filter Q xs) = None"
  by (induction xs) auto

lemma find_replace_hit:
  "P r \<Longrightarrow> (\<And>x. P x \<Longrightarrow> clash r x) \<Longrightarrow> find P (replace_row clash r rows) = Some r"
  by (simp add: replace_row_def find_append find_filter_none)

lemma find_replace_gone:
  "\<not> P r \<Longrightarrow> (\<And>x. P x \<Longrightarrow> clash r x) \<Longrightarrow> find P (replace_row clash r rows) = None"
  by (simp add: replace_row_def find_append find_filter_none)

lemma find_replace_miss:
  assumes "\<not> P r" and "\<And>x. x \<in> set rows \<Longrightarrow> P x \<Longrightarrow> \<not> clash r x"
  shows "find P (replace_row clash r rows) = find P rows"
proof -
  have "find P (filter (\<lambda>x. \<not> clash r x) rows) = find P rows"
    by (rule find_filter_keep) (rule assms(2))
  then show ?thesis using assms(1) by (simp add: replace_row_def find_append split: option.split)
qed

lemma select_replace:
  "find (\<lambda>x. k = f x) (replace_row (\<lambda>r r'. f r = f r') r rows)
     = (if k = f r then Some r else find (\<lambda>x. k = f x) rows)"
proof (cases "k = f r")
  case True
  have "find (\<lambda>x. k = f x) (replace_row (\<lambda>r r'. f r = f r') r rows) = Some r"
    by (rule find_replace_hit) (use True in simp_all)
  then show ?thesis using True by simp
next
  case False
  have "find (\<lambda>x. k = f x) (replace_row (\<lambda>r r'. f r = f r') r rows) = find (\<lambda>x. k = f x) rows"
    by (rule find_replace_miss) (use False in simp_all)
  then show ?thesis using False by simp
qed

subsection \<open>Queries\<close>

definition get_cluster :: "uuid \<Rightarrow> repo \<Rightarrow> cluster option" where
  "get_cluster cid s = select_one (\<lambda>c. cid = cl_id c) (re_clusters s)"

definition save_recommendations :: "recommendation_set \<Rightarrow> repo \<Rightarrow> repo" where
  "save_recommendations r s = s\<lparr>re_recommendations := re_recommendations s @ [r]\<rparr>"

definition latest_recommendations :: "uuid \<Rightarrow> repo \<Rightarrow> recommendation_set option" where
  "latest_recommendations cid s =
     (case select_desc (\<lambda>r. rs_cluster_id r = cid) rs_generated_at (re_recommendations s) of
        [] \<Rightarrow> None | r # _ \<Rightarrow> Some r)"

definition save_twin :: "twin_state \<Rightarrow> repo \<Rightarrow> repo" where
  "save_twin t s =
     s\<lparr>re_twins := replace_row (\<lambda>a b. tw_id a = tw_id b \<or> tw_cluster_id a = tw_cluster_id b) t (re_twins s)\<rparr>"

definition get_twin :: "uuid \<Rightarrow> repo \<Rightarrow> twin_state option" where
  "get_twin cid s = select_one (\<lambda>t. cid = tw_cluster_id t) (re_twins s)"

definition delete_twin :: "uuid \<Rightarrow> repo \<Rightarrow> repo" where
  "delete_twin cid s = s\<lparr>re_twins := filter (\<lambda>t. tw_cluster_id t \<noteq> cid) (re_twins s)\<rparr>"

definition save_actuation :: "actuation_record \<Rightarrow> repo \<Rightarrow> repo" where
  "save_actuation r s =
     s\<lparr>re_actuations := replace_row (\<lambda>a b. ac_id a = ac_id b) r (re_actuations s)\<rparr>"

definition repo_get_actuation :: "uuid \<Rightarrow> uuid \<Rightarrow> repo \<Rightarrow> actuation_record option" where
  "repo_get_actuation cid aid s =
     select_one (\<lambda>r. ac_cluster_id r = cid \<and> ac_id r = aid) (re_actuations s)"

definition repo_list_actuations :: "uuid \<Rightarrow> int \<Rightarrow> repo \<Rightarrow> actuation_record list" where
  "repo_list_actuations cid lmt s =
     (let rows = select_desc (\<lambda>r. ac_cluster_id r = cid) ac_started_at (re_actuations s)
      in if lmt < 0 then rows else take (nat lmt) rows)"

definition save_policy :: "policy_rule \<Rightarrow> repo \<Rightarrow> repo" where
  "save_policy p s = s\<lparr>re_policies := replace_row (\<lambda>a b. po_id a = po_id b) p (re_policies s)\<rparr>"

definition repo_get_policy :: "repo \<Rightarrow> uuid \<Rightarrow> policy_rule option" where
  "repo_get_policy s pid = select_one (\<lambda>p. pid = po_id p) (re_policies s)"

definition repo_list_policies :: "repo \<Rightarrow> policy_rule list" where
  "repo_list_policies s = sorted_by po_name (re_policies s)"

definition repo_delete_policy :: "uuid \<Rightarrow> repo \<Rightarrow> repo \<times> bool" where
  "repo_delete_policy pid s =
     (s\<lparr>re_policies := filter (\<lambda>p. po_id p \<noteq> pid) (re_policies s)\<rparr>,
      list_ex (\<lambda>p. po_id p = pid) (re_policies s))"

definition row_of_approval :: "approval_record \<Rightarrow> approval_row" where
  "row_of_approval r =
     \<lparr>aw_id = ap_id r, aw_actuation_id = ap_actuation_id r, aw_cluster_id = ap_cluster_id r,
      aw_status = ap_status r, aw_steps = ap_steps r, aw_required_approvers = ap_required_approvers r,
      aw_reason = ap_reason r, aw_created_at = ap_created_at r, aw_decided_at = ap_decided_at r,
      aw_final_reason = ap_final_reason r\<rparr>"

definition row_to_approval :: "approval_row \<Rightarrow> approval_record" where
  "row_to_approval w =
     \<lparr>ap_id = aw_id w, ap_actuation_id = aw_actuation_id w, ap_cluster_id = aw_cluster_id w,
      ap_cluster_name = [], ap_status = aw_status w, ap_steps = aw_steps w,
      ap_required_approvers = aw_required_approvers w, ap_reason = aw_reason w,
      ap_created_at = aw_created_at w, ap_decided_at = aw_decided_at w,
      ap_final_reason = aw_final_reason w\<rparr>"

definition save_approval :: "approval_record \<Rightarrow> repo \<Rightarrow> repo" where
  "save_approval r s =
     s\<lparr>re_approvals := replace_row (\<lambda>a b. aw_id a = aw_id b) (row_of_approval r) (re_approvals s)\<rparr>"

definition repo_get_approval :: "repo \<Rightarrow> uuid \<Rightarrow> approval_record option" where
  "repo_get_approval s aid = map_option row_to_approval (select_one (\<lambda>w. aid = aw_id w) (re_approvals s))"

text \<open>\<open>if cluster_id\<close>: a UUID object is always true, so \<open>None\<close> alone means no filter.\<close>

definition repo_list_approvals :: "uuid option \<Rightarrow> repo \<Rightarrow> approval_record list" where
  "repo_list_approvals c s =
     (case c of
        Some cid \<Rightarrow> map row_to_approval (select_desc (\<lambda>w. aw_cluster_id w = cid) aw_created_at (re_approvals s))
      | None \<Rightarrow> map row_to_approval (select_desc (\<lambda>_. True) aw_created_at (re_approvals s)))"

definition list_approvals_for_actuation :: "uuid \<Rightarrow> repo \<Rightarrow> approval_record list" where
  "list_approvals_for_actuation aid s =
     map row_to_approval (select_desc (\<lambda>w. aw_actuation_id w = aid) aw_created_at (re_approvals s))"

subsection \<open>The tables as stores\<close>

definition forget_cluster_name :: "approval_record \<Rightarrow> approval_record" where
  "forget_cluster_name r = r\<lparr>ap_cluster_name := []\<rparr>"

lemma approval_row_roundtrip: "row_to_approval (row_of_approval r) = forget_cluster_name r"
  by (simp add: row_to_approval_def row_of_approval_def forget_cluster_name_def)

lemma row_of_to_approval [simp]: "row_of_approval (row_to_approval w) = w"
  by (simp add: row_to_approval_def row_of_approval_def)

interpretation approvals: record_store repo_get_approval save_approval ap_id forget_cluster_name
proof
  fix r s
  show "repo_get_approval (save_approval r s) = (repo_get_approval s)(ap_id r \<mapsto> forget_cluster_name r)"
  proof
    fix k
    show "repo_get_approval (save_approval r s) k = ((repo_get_approval s)(ap_id r \<mapsto> forget_cluster_name r)) k"
      by (simp add: repo_get_approval_def save_approval_def select_one_def select_replace
            approval_row_roundtrip [symmetric]) (simp add: row_of_approval_def)
  qed
next
  fix s k r assume "repo_get_approval s k = Some r"
  then show "forget_cluster_name r = r \<and> ap_id r = k"
    by (auto simp: repo_get_approval_def select_one_def forget_cluster_name_def row_to_approval_def
          dest!: find_SomeD)
qed (simp_all add: forget_cluster_name_def)

interpretation policies: record_store repo_get_policy save_policy po_id "\<lambda>p. p"
  by unfold_locales
     (auto simp: repo_get_policy_def save_policy_def select_one_def select_replace dest!: find_SomeD)

lemma get_twin_save:
  assumes "\<And>t'. t' \<in> set (re_twins s) \<Longrightarrow> tw_id t' = tw_id t \<Longrightarrow> tw_cluster_id t' = tw_cluster_id t"
  shows "get_twin cid (save_twin t s) = (if cid = tw_cluster_id t then Some t else get_twin cid s)"
proof (cases "cid = tw_cluster_id t")
  case True
  then show ?thesis by (simp add: get_twin_def save_twin_def select_one_def find_replace_hit)
next
  case False
  have "\<not> (tw_id t = tw_id x \<or> tw_cluster_id t = tw_cluster_id x)"
    if "x \<in> set (re_twins s)" and "cid = tw_cluster_id x" for x
    using assms [OF that(1)] that(2) False by auto
  then show ?thesis
    using False by (simp add: get_twin_def save_twin_def select_one_def find_replace_miss)
qed

lemma get_twin_save_same [simp]: "get_twin (tw_cluster_id t) (save_twin t s) = Some t"
  by (simp add: get_twin_def save_twin_def select_one_def find_replace_hit)

lemma repo_get_actuation_save:
  "repo_get_actuation cid aid (save_actuation r s)
     = (if aid = ac_id r then (if cid = ac_cluster_id r then Some r else None)
        else repo_get_actuation cid aid s)"
proof -
  let ?P = "\<lambda>r. ac_cluster_id r = cid \<and> ac_id r = aid"
  let ?rows = "replace_row (\<lambda>a b. ac_id a = ac_id b) r (re_actuations s)"
  have hit: "find ?P ?rows = Some r" if "aid = ac_id r" "cid = ac_cluster_id r"
    by (rule find_replace_hit) (use that in simp_all)
  have gone: "find ?P ?rows = None" if "aid = ac_id r" "cid \<noteq> ac_cluster_id r"
    by (rule find_replace_gone) (use that in simp_all)
  have miss: "find ?P ?rows = find ?P (re_actuations s)" if "aid \<noteq> ac_id r"
    by (rule find_replace_miss) (use that in auto)
  show ?thesis
    using hit gone miss by (auto simp: repo_get_actuation_def save_actuation_def select_one_def)
qed

lemmas repo_frame = save_twin_def save_actuation_def save_policy_def save_approval_def

lemma get_cluster_frame [simp]:
  "get_cluster cid (save_twin t s) = get_cluster cid s"
  "get_cluster cid (save_actuation r s) = get_cluster cid s"
  "get_cluster cid (save_policy p s) = get_cluster cid s"
  "get_cluster cid (save_approval a s) = get_cluster cid s"
  by (simp_all add: get_cluster_def repo_frame)

lemma get_twin_frame [simp]:
  "get_twin cid (save_actuation r s) = get_twin cid s"
  "get_twin cid (save_policy p s) = get_twin cid s"
  "get_twin cid (save_approval a s) = get_twin cid s"
  by (simp_all add: get_twin_def repo_frame)

lemma actuations_frame [simp]:
  "re_actuations (save_twin t s) = re_actuations s"
  "re_actuations (save_policy p s) = re_actuations s"
  "re_actuations (save_approval a s) = re_actuations s"
  by (simp_all add: repo_frame)

end
