(* ===== verification/Approval.thy ===== *)
theory Approval
  imports Repository "HOL-Library.Multiset"
begin

text \<open>
  \<open>ApprovalWorkflow\<close> of src/src/gpuopt/guarded_automation.py: multi-step approvals. The workflow's
  operations are written over the two repository calls they make, so that their lemmas rest on
  the store's contract alone; the operations of the program are their instances on the SQLite
  repository. The clock readings of one operation are separate arguments.
\<close>

subsection \<open>Requests\<close>

record approval_request =
  aq_actuation_id :: uuid
  aq_cluster_id :: "uuid option"
  aq_required_approvers :: "string list"
  aq_reason :: string

definition request_steps :: "string list \<Rightarrow> approval_step list" where
  "request_steps approvers =
     (let steps = map (\<lambda>(i, a). \<lparr>st_step_order = int i, st_approver = a, st_status = AP_PENDING,
                                 st_decided_at = None, st_reason = []\<rparr>)
                      (enumerate 1 approvers)
      in if steps = []
         then [\<lparr>st_step_order = 1, st_approver = ''default_approver'', st_status = AP_PENDING,
                st_decided_at = None, st_reason = []\<rparr>]
         else steps)"

definition create_request ::
  "uuid \<Rightarrow> uuid \<Rightarrow> datetime \<Rightarrow> approval_request \<Rightarrow> repo \<Rightarrow> repo \<times> approval_record" where
  "create_request new_id new_cluster now q s =
     (let cl = (case aq_cluster_id q of None \<Rightarrow> None | Some cid \<Rightarrow> get_cluster cid s);
          r = \<lparr>ap_id = new_id, ap_actuation_id = aq_actuation_id q,
               ap_cluster_id = (case aq_cluster_id q of None \<Rightarrow> new_cluster | Some cid \<Rightarrow> cid),
               ap_cluster_name = (case cl of None \<Rightarrow> [] | Some c \<Rightarrow> cl_name c),
               ap_status = AP_PENDING, ap_steps = request_steps (aq_required_approvers q),
               ap_required_approvers = aq_required_approvers q, ap_reason = aq_reason q,
               ap_created_at = now, ap_decided_at = None, ap_final_reason = []\<rparr>
      in (save_approval r s, r))"

subsection \<open>Decisions\<close>

text \<open>The \<open>for ... else\<close> loop: the first pending step of the approver is decided, or the loop fails.\<close>

fun decide_step ::
  "approval_status \<Rightarrow> string \<Rightarrow> datetime \<Rightarrow> string \<Rightarrow> approval_step list \<Rightarrow> approval_step list option" where
  "decide_step d approver now why [] = None"
| "decide_step d approver now why (st # sts) =
     (if st_approver st = approver \<and> st_status st = AP_PENDING
      then Some (st\<lparr>st_status := d, st_decided_at := Some now, st_reason := why\<rparr> # sts)
      else map_option ((#) st) (decide_step d approver now why sts))"

definition or_else :: "string \<Rightarrow> string \<Rightarrow> string" where
  "or_else x y = (if x = [] then y else x)"

definition already_error :: "approval_status \<Rightarrow> py_error" where
  "already_error st = ValueError (''Approval is already '' @ approval_status_value st)"

definition approver_error :: "string \<Rightarrow> py_error" where
  "approver_error a = ValueError (''Approver '' @ quoted a @ '' not found in workflow or already decided'')"

definition approve_record ::
  "string \<Rightarrow> string \<Rightarrow> datetime \<Rightarrow> datetime \<Rightarrow> approval_record \<Rightarrow> py_error + approval_record" where
  "approve_record approver why now now2 r =
     (if ap_status r \<noteq> AP_PENDING then Inl (already_error (ap_status r))
      else (case decide_step AP_APPROVED approver now why (ap_steps r) of
        None \<Rightarrow> Inl (approver_error approver)
      | Some steps \<Rightarrow>
          let all_decided = list_all (\<lambda>st. st_status st \<noteq> AP_PENDING) steps;
              all_approved = list_all (\<lambda>st. st_status st = AP_APPROVED) steps;
              any_rejected = list_ex (\<lambda>st. st_status st = AP_REJECTED) steps;
              r1 = r\<lparr>ap_steps := steps\<rparr>
          in Inr (if all_decided \<and> all_approved then
                    r1\<lparr>ap_status := AP_APPROVED, ap_decided_at := Some now2,
                       ap_final_reason := or_else why ''All approvers approved''\<rparr>
                  else if any_rejected then
                    r1\<lparr>ap_status := AP_REJECTED, ap_decided_at := Some now2,
                       ap_final_reason := or_else why ''Rejected by approver''\<rparr>
                  else r1)))"

definition reject_record ::
  "string \<Rightarrow> string \<Rightarrow> datetime \<Rightarrow> datetime \<Rightarrow> approval_record \<Rightarrow> py_error + approval_record" where
  "reject_record approver why now now2 r =
     (if ap_status r \<noteq> AP_PENDING then Inl (already_error (ap_status r))
      else (case decide_step AP_REJECTED approver now why (ap_steps r) of
        None \<Rightarrow> Inl (approver_error approver)
      | Some steps \<Rightarrow>
          Inr (r\<lparr>ap_steps := steps, ap_status := AP_REJECTED, ap_decided_at := Some now2,
                 ap_final_reason := or_else why ''Rejected by approver''\<rparr>)))"

definition decide_in ::
  "('s \<Rightarrow> uuid \<Rightarrow> approval_record option) \<Rightarrow> (approval_record \<Rightarrow> 's \<Rightarrow> 's) \<Rightarrow>
   (approval_record \<Rightarrow> py_error + approval_record) \<Rightarrow> uuid \<Rightarrow> 's \<Rightarrow> py_error + 's \<times> approval_record" where
  "decide_in get save f aid s =
     (case get s aid of
        None \<Rightarrow> Inl (KeyError (''Approval record not found: '' @ aid))
      | Some r \<Rightarrow> (case f r of Inl e \<Rightarrow> Inl e | Inr r' \<Rightarrow> Inr (save r' s, r')))"

definition approve ::
  "uuid \<Rightarrow> string \<Rightarrow> string \<Rightarrow> datetime \<Rightarrow> datetime \<Rightarrow> repo \<Rightarrow> py_error + repo \<times> approval_record" where
  "approve aid approver why now now2 s =
     decide_in repo_get_approval save_approval (approve_record approver why now now2) aid s"

definition reject ::
  "uuid \<Rightarrow> string \<Rightarrow> string \<Rightarrow> datetime \<Rightarrow> datetime \<Rightarrow> repo \<Rightarrow> py_error + repo \<times> approval_record" where
  "reject aid approver why now now2 s =
     decide_in repo_get_approval save_approval (reject_record approver why now now2) aid s"

definition get_approval :: "uuid \<Rightarrow> repo \<Rightarrow> approval_record option" where
  "get_approval aid s = repo_get_approval s aid"

definition list_approvals :: "uuid option \<Rightarrow> repo \<Rightarrow> approval_record list" where
  "list_approvals c s = repo_list_approvals c s"

definition check_actuation_approved :: "uuid \<Rightarrow> repo \<Rightarrow> bool" where
  "check_actuation_approved aid s =
     (case list_approvals_for_actuation aid s of
        [] \<Rightarrow> False
      | r # rs \<Rightarrow> ap_status (max_by ap_created_at r rs) = AP_APPROVED)"

subsection \<open>What one decision does to a record\<close>

lemma decide_step_SomeD:
  assumes "decide_step d a now why sts = Some sts'"
  shows "\<exists>pre st post. sts = pre @ st # post \<and> st_approver st = a \<and> st_status st = AP_PENDING
    \<and> sts' = pre @ st\<lparr>st_status := d, st_decided_at := Some now, st_reason := why\<rparr> # post"
  using assms
proof (induction sts arbitrary: sts')
  case (Cons x xs)
  show ?case
  proof (cases "st_approver x = a \<and> st_status x = AP_PENDING")
    case True
    with Cons.prems show ?thesis
      by (intro exI [of _ "[]"] exI [of _ x] exI [of _ xs]) auto
  next
    case False
    with Cons.prems obtain ys where ys: "decide_step d a now why xs = Some ys" and sts': "sts' = x # ys"
      by auto
    from Cons.IH [OF ys] obtain pre st post where "xs = pre @ st # post" "st_approver st = a"
      "st_status st = AP_PENDING"
      "ys = pre @ st\<lparr>st_status := d, st_decided_at := Some now, st_reason := why\<rparr> # post"
      by blast
    then show ?thesis
      by (intro exI [of _ "x # pre"] exI [of _ st] exI [of _ post]) (simp add: sts')
  qed
qed simp

lemma decide_step_None_iff:
  "decide_step d a now why sts = None \<longleftrightarrow>
     (\<forall>st \<in> set sts. \<not> (st_approver st = a \<and> st_status st = AP_PENDING))"
  by (induction sts) auto

lemma decide_step_approvers:
  "decide_step d a now why sts = Some sts' \<Longrightarrow> map st_approver sts' = map st_approver sts"
  by (auto dest!: decide_step_SomeD)

text \<open>
  The invariant of a stored record: its steps name the required approvers, and its status is the
  verdict of its steps. A pending record has only pending and approved steps, at least one of
  them pending.
\<close>

definition approval_wf :: "approval_record \<Rightarrow> bool" where
  "approval_wf r \<longleftrightarrow>
     set (ap_required_approvers r) \<subseteq> st_approver ` set (ap_steps r) \<and>
     (case ap_status r of
        AP_PENDING \<Rightarrow>
          (\<forall>st \<in> set (ap_steps r). st_status st \<in> {AP_PENDING, AP_APPROVED}) \<and>
          (\<exists>st \<in> set (ap_steps r). st_status st = AP_PENDING) \<and> ap_decided_at r = None
      | AP_APPROVED \<Rightarrow>
          (\<forall>st \<in> set (ap_steps r). st_status st = AP_APPROVED) \<and> ap_decided_at r \<noteq> None
      | AP_REJECTED \<Rightarrow>
          (\<exists>st \<in> set (ap_steps r). st_status st = AP_REJECTED) \<and> ap_decided_at r \<noteq> None
      | AP_CANCELLED \<Rightarrow> False)"

lemma approval_wf_forget [simp]: "approval_wf (forget_cluster_name r) = approval_wf r"
  by (simp add: approval_wf_def forget_cluster_name_def split: approval_status.split)

lemma approve_record_cases:
  assumes "approve_record a why now now2 r = Inr r'"
  obtains steps where "ap_status r = AP_PENDING"
    and "decide_step AP_APPROVED a now why (ap_steps r) = Some steps" and "ap_steps r' = steps"
    and "ap_id r' = ap_id r" and "ap_cluster_name r' = ap_cluster_name r"
    and "ap_required_approvers r' = ap_required_approvers r"
    and "ap_status r' = (if list_all (\<lambda>st. st_status st = AP_APPROVED) steps then AP_APPROVED
            else if list_ex (\<lambda>st. st_status st = AP_REJECTED) steps then AP_REJECTED else AP_PENDING)"
    and "ap_decided_at r' = (if ap_status r' = AP_PENDING then ap_decided_at r else Some now2)"
proof -
  have both: "(list_all (\<lambda>st. st_status st \<noteq> AP_PENDING) steps \<and> list_all (\<lambda>st. st_status st = AP_APPROVED) steps)
     = list_all (\<lambda>st. st_status st = AP_APPROVED) steps" for steps :: "approval_step list"
    by (induction steps) auto
  obtain steps where "ap_status r = AP_PENDING"
    and "decide_step AP_APPROVED a now why (ap_steps r) = Some steps"
    using assms by (auto simp: approve_record_def split: if_splits option.splits)
  then show thesis
    using assms that [of steps] by (auto simp: approve_record_def Let_def both split: if_splits)
qed

lemma approve_record_wf:
  assumes wf: "approval_wf r" and "approve_record a why now now2 r = Inr r'"
  shows "approval_wf r'"
  using assms(2)
proof (rule approve_record_cases)
  fix steps
  assume st: "ap_status r = AP_PENDING"
    and dec: "decide_step AP_APPROVED a now why (ap_steps r) = Some steps"
    and r': "ap_steps r' = steps" "ap_required_approvers r' = ap_required_approvers r"
      "ap_status r' = (if list_all (\<lambda>st. st_status st = AP_APPROVED) steps then AP_APPROVED
            else if list_ex (\<lambda>st. st_status st = AP_REJECTED) steps then AP_REJECTED else AP_PENDING)"
      "ap_decided_at r' = (if ap_status r' = AP_PENDING then ap_decided_at r else Some now2)"
  have names: "st_approver ` set steps = st_approver ` set (ap_steps r)"
    using decide_step_approvers [OF dec] by (metis set_map)
  have only: "\<forall>st \<in> set steps. st_status st \<in> {AP_PENDING, AP_APPROVED}"
    using wf st decide_step_SomeD [OF dec] by (auto simp: approval_wf_def)
  then have "\<not> list_ex (\<lambda>st. st_status st = AP_REJECTED) steps"
    by (fastforce simp: list_ex_iff)
  then show ?thesis
    using wf st only r' names by (auto simp: approval_wf_def list_all_iff)
qed

lemma reject_record_wf:
  assumes wf: "approval_wf r" and "reject_record a why now now2 r = Inr r'"
  shows "approval_wf r'"
proof -
  from assms(2) obtain steps where dec: "decide_step AP_REJECTED a now why (ap_steps r) = Some steps"
    and r': "r' = r\<lparr>ap_steps := steps, ap_status := AP_REJECTED, ap_decided_at := Some now2,
                 ap_final_reason := or_else why ''Rejected by approver''\<rparr>"
    by (auto simp: reject_record_def split: if_splits option.splits)
  have "st_approver ` set steps = st_approver ` set (ap_steps r)"
    using decide_step_approvers [OF dec] by (metis set_map)
  then show ?thesis
    using wf decide_step_SomeD [OF dec] by (auto simp: r' approval_wf_def)
qed

lemma request_steps_approvers:
  "map st_approver (request_steps as) = (if as = [] then [''default_approver''] else as)"
proof (cases "as = []")
  case False
  then have "enumerate (Suc 0) as \<noteq> []" by (cases as) simp_all
  then show ?thesis
    using False by (simp add: request_steps_def Let_def comp_def case_prod_beta')
qed (simp add: request_steps_def)

lemma request_steps_pending: "st \<in> set (request_steps as) \<Longrightarrow> st_status st = AP_PENDING"
  by (auto simp: request_steps_def Let_def split: if_splits)

lemma request_steps_nonempty: "request_steps as \<noteq> []"
  using request_steps_approvers [of as] by (metis list.simps(8) list.distinct(1))

lemma create_request_wf: "approval_wf (snd (create_request i c now q s))"
proof -
  have "set (aq_required_approvers q) \<subseteq> st_approver ` set (request_steps (aq_required_approvers q))"
    by (metis empty_set empty_subsetI order_refl request_steps_approvers set_map)
  moreover have "\<exists>st \<in> set (request_steps (aq_required_approvers q)). st_status st = AP_PENDING"
    using request_steps_nonempty [of "aq_required_approvers q"]
    by (metis last_in_set request_steps_pending)
  ultimately show ?thesis
    by (auto simp: create_request_def Let_def approval_wf_def dest: request_steps_pending)
qed

subsection \<open>The workflow over any store of approvals\<close>

lemma approve_record_keeps:
  "approve_record a why now now2 r = Inr r' \<Longrightarrow> ap_id r' = ap_id r \<and> ap_cluster_name r' = ap_cluster_name r"
  by (auto elim: approve_record_cases)

lemma reject_record_keeps:
  "reject_record a why now now2 r = Inr r' \<Longrightarrow> ap_id r' = ap_id r \<and> ap_cluster_name r' = ap_cluster_name r"
  by (auto simp: reject_record_def split: if_splits option.splits)

locale approval_client = record_store get save ap_id forget_cluster_name
  for get :: "'s \<Rightarrow> uuid \<Rightarrow> approval_record option" and save :: "approval_record \<Rightarrow> 's \<Rightarrow> 's"
begin

lemma decide_in_load:
  assumes dec: "decide_in get save f aid s = Inr (s', r')"
    and keeps: "\<And>r r'. f r = Inr r' \<Longrightarrow> ap_id r' = ap_id r \<and> ap_cluster_name r' = ap_cluster_name r"
  shows "\<exists>r. get s aid = Some r \<and> f r = Inr r' \<and> get s' = (get s)(aid \<mapsto> r')"
proof -
  from dec obtain r where r: "get s aid = Some r" and f: "f r = Inr r'" and s': "s' = save r' s"
    by (auto simp: decide_in_def split: option.splits sum.splits)
  have "forget_cluster_name r = r" using load_norm [OF r] by simp
  then have "ap_cluster_name r = []" by (metis approval_record.select_convs(4) approval_record.simps(20)
      approval_record.surjective forget_cluster_name_def approval_record.update_convs(4))
  then have "forget_cluster_name r' = r'" using keeps [OF f] by (simp add: forget_cluster_name_def)
  then have "get (save r' s) = (get s)(aid \<mapsto> r')"
    using modify_one [OF r] keeps [OF f] by simp
  with r f s' show ?thesis by blast
qed

lemma decide_in_error:
  assumes "get s aid = Some r" and "f r = Inl e"
  shows "decide_in get save f aid s = Inl e"
  using assms by (simp add: decide_in_def)

lemma decide_in_ok:
  assumes "get s aid = Some r" and "f r = Inr r'"
  shows "decide_in get save f aid s = Inr (save r' s, r')"
  using assms by (simp add: decide_in_def)

end

interpretation workflow: approval_client repo_get_approval save_approval
  by unfold_locales

lemmas decide_defs = approve_def reject_def

subsection \<open>The workflow as a machine\<close>

datatype approval_op =
    OpRequest uuid uuid datetime approval_request
  | OpApprove uuid string string datetime datetime
  | OpReject uuid string string datetime datetime

fun approval_op_step :: "approval_op \<Rightarrow> repo \<Rightarrow> repo" where
  "approval_op_step (OpRequest i c now q) s = fst (create_request i c now q s)"
| "approval_op_step (OpApprove aid a why now now2) s =
     (case approve aid a why now now2 s of Inl e \<Rightarrow> s | Inr (s', _) \<Rightarrow> s')"
| "approval_op_step (OpReject aid a why now now2) s =
     (case reject aid a why now now2 s of Inl e \<Rightarrow> s | Inr (s', _) \<Rightarrow> s')"

definition approvals_wf :: "repo \<Rightarrow> bool" where
  "approvals_wf s \<longleftrightarrow> (\<forall>aid r. repo_get_approval s aid = Some r \<longrightarrow> approval_wf r)"

lemma approvals_wf_empty: "approvals_wf empty_repo"
  by (simp add: approvals_wf_def repo_get_approval_def select_one_def empty_repo_def)

lemma approvals_wf_update:
  assumes "approvals_wf s" and "approval_wf r'"
    and "repo_get_approval s' = (repo_get_approval s)(aid \<mapsto> r')"
  shows "approvals_wf s'"
  using assms by (simp add: approvals_wf_def)

lemma approvals_wf_decide:
  assumes "approvals_wf s" and "decide_in repo_get_approval save_approval f aid s = Inr (s', r')"
    and "\<And>r r'. f r = Inr r' \<Longrightarrow> ap_id r' = ap_id r \<and> ap_cluster_name r' = ap_cluster_name r"
    and "\<And>r r'. approval_wf r \<Longrightarrow> f r = Inr r' \<Longrightarrow> approval_wf r'"
  shows "approvals_wf s'"
proof -
  from workflow.decide_in_load [OF assms(2,3)] obtain r where r: "repo_get_approval s aid = Some r"
    "f r = Inr r'" and s': "repo_get_approval s' = (repo_get_approval s)(aid \<mapsto> r')" by blast
  have "approval_wf r" using assms(1) r(1) by (simp add: approvals_wf_def)
  then have "approval_wf r'" using r(2) by (rule assms(4))
  with assms(1) show ?thesis using s' by (rule approvals_wf_update)
qed

interpretation approval_machine: invariant_machine approval_op_step "\<lambda>_ _. True" approvals_wf
proof
  fix s x assume wf: "approvals_wf s"
  show "approvals_wf (approval_op_step x s)"
  proof (cases x)
    case (OpRequest i c now q)
    have "repo_get_approval (fst (create_request i c now q s))
        = (repo_get_approval s)(i \<mapsto> forget_cluster_name (snd (create_request i c now q s)))"
      by (simp add: create_request_def Let_def approvals.load_save)
    then have "approvals_wf (fst (create_request i c now q s))"
      using wf create_request_wf [of i c now q s] by (simp add: approvals_wf_def)
    with OpRequest show ?thesis by simp
  next
    case (OpApprove aid a why now now2)
    with wf show ?thesis
      by (auto simp: approve_def split: sum.splits
          intro: approvals_wf_decide approve_record_wf dest: approve_record_keeps)
  next
    case (OpReject aid a why now now2)
    with wf show ?thesis
      by (auto simp: reject_def split: sum.splits
          intro: approvals_wf_decide reject_record_wf dest: reject_record_keeps)
  qed
qed

text \<open>
  C3: an approval is the verdict of all its approvers: in any store built by requests, approvals
  and rejections, in any order and with failing calls in between, a record that reads approved has
  an approved step of every required approver and no other kind of step, and a record that reads
  rejected has a rejected step.
\<close>

theorem approval_needs_every_approver:
  assumes "repo_get_approval (fold approval_op_step ops empty_repo) aid = Some r"
  shows "(ap_status r = AP_APPROVED \<longrightarrow>
            (\<forall>st \<in> set (ap_steps r). st_status st = AP_APPROVED) \<and>
            (\<forall>a \<in> set (ap_required_approvers r).
               \<exists>st \<in> set (ap_steps r). st_approver st = a \<and> st_status st = AP_APPROVED))
       \<and> (ap_status r = AP_REJECTED \<longrightarrow> (\<exists>st \<in> set (ap_steps r). st_status st = AP_REJECTED))"
proof -
  have run: "run_allowed approval_op_step (\<lambda>_ _. True) ops s" for s
    by (induction ops arbitrary: s) auto
  have "approval_wf r"
    using approval_machine.run_inv [OF run approvals_wf_empty] assms by (simp add: approvals_wf_def)
  then show ?thesis by (fastforce simp: approval_wf_def)
qed

definition sample_request :: approval_request where
  "sample_request = \<lparr>aq_actuation_id = ''act-1'', aq_cluster_id = None,
     aq_required_approvers = [''ann'', ''bob''], aq_reason = ''scale''\<rparr>"

definition sample_approvals :: repo where
  "sample_approvals = fst (create_request ''ap-1'' ''cl-9'' 10 sample_request empty_repo)"

lemmas sample_approval_defs = sample_approvals_def create_request_def sample_request_def
  request_steps_def enumerate_eq_zip save_approval_def replace_row_def row_of_approval_def
  empty_repo_def repo_get_approval_def select_one_def row_to_approval_def

definition sample_record :: approval_record where
  "sample_record = \<lparr>ap_id = ''ap-1'', ap_actuation_id = ''act-1'', ap_cluster_id = ''cl-9'',
     ap_cluster_name = [], ap_status = AP_PENDING,
     ap_steps = [\<lparr>st_step_order = 1, st_approver = ''ann'', st_status = AP_PENDING, st_decided_at = None, st_reason = []\<rparr>,
                 \<lparr>st_step_order = 2, st_approver = ''bob'', st_status = AP_PENDING, st_decided_at = None, st_reason = []\<rparr>],
     ap_required_approvers = [''ann'', ''bob''], ap_reason = ''scale'', ap_created_at = 10,
     ap_decided_at = None, ap_final_reason = []\<rparr>"

lemma sample_approvals_get: "repo_get_approval sample_approvals ''ap-1'' = Some sample_record"
  by (simp add: sample_approval_defs sample_record_def Let_def upt_rec)

definition sample_approved :: approval_record where
  "sample_approved = sample_record\<lparr>ap_status := AP_APPROVED,
     ap_steps := [\<lparr>st_step_order = 1, st_approver = ''ann'', st_status = AP_APPROVED, st_decided_at = Some 30, st_reason = []\<rparr>,
                  \<lparr>st_step_order = 2, st_approver = ''bob'', st_status = AP_APPROVED, st_decided_at = Some 20, st_reason = []\<rparr>],
     ap_decided_at := Some 31, ap_final_reason := ''All approvers approved''\<rparr>"

definition sample_ops :: "approval_op list" where
  "sample_ops = [OpRequest ''ap-1'' ''cl-9'' 10 sample_request, OpApprove ''ap-1'' ''bob'' [] 20 21,
     OpReject ''ap-1'' ''eve'' [] 25 26, OpApprove ''ap-1'' ''ann'' [] 30 31]"

lemma sample_ops_get: "repo_get_approval (fold approval_op_step sample_ops empty_repo) ''ap-1'' = Some sample_approved"
  by (simp add: sample_ops_def sample_approval_defs sample_approved_def sample_record_def Let_def upt_rec
        approve_def reject_def decide_in_def approve_record_def reject_record_def or_else_def)

theorem approval_needs_every_approver_witness:
  "ap_status sample_approved = AP_APPROVED \<and>
     (\<exists>st \<in> set (ap_steps sample_approved). st_approver st = ''bob'' \<and> st_status st = AP_APPROVED)"
proof -
  have "ap_status sample_approved = AP_APPROVED" "''bob'' \<in> set (ap_required_approvers sample_approved)"
    by (simp_all add: sample_approved_def sample_record_def)
  then show ?thesis
    using approval_needs_every_approver [OF sample_ops_get] by blast
qed

text \<open>A decision touches the record it names and no other.\<close>

lemma decide_frame:
  assumes "decide_in repo_get_approval save_approval f x s = Inr (s', r')"
    and "\<And>r r'. f r = Inr r' \<Longrightarrow> ap_id r' = ap_id r \<and> ap_cluster_name r' = ap_cluster_name r"
    and "repo_get_approval s aid = Some r" and "\<And>r'. f r \<noteq> Inr r'"
  shows "repo_get_approval s' aid = Some r"
proof -
  from workflow.decide_in_load [OF assms(1,2)] obtain q where "repo_get_approval s x = Some q"
    "f q = Inr r'" "repo_get_approval s' = (repo_get_approval s)(x \<mapsto> r')" by blast
  with assms(3,4) show ?thesis by auto
qed

lemma approve_record_final: "ap_status r \<noteq> AP_PENDING \<Longrightarrow> approve_record a why now now2 r = Inl (already_error (ap_status r))"
  by (simp add: approve_record_def)

lemma reject_record_final: "ap_status r \<noteq> AP_PENDING \<Longrightarrow> reject_record a why now now2 r = Inl (already_error (ap_status r))"
  by (simp add: reject_record_def)

fun reopens :: "uuid \<Rightarrow> approval_op \<Rightarrow> bool" where
  "reopens aid (OpRequest i c now q) = (i = aid)"
| "reopens aid x = False"

lemma final_step:
  assumes r: "repo_get_approval s aid = Some r" and fin: "ap_status r \<noteq> AP_PENDING"
    and "\<not> reopens aid x"
  shows "repo_get_approval (approval_op_step x s) aid = Some r"
proof (cases x)
  case (OpRequest i c now q)
  then show ?thesis
    using assms by (simp add: create_request_def Let_def approvals.load_save_other)
next
  case (OpApprove i a why now now2)
  show ?thesis
  proof (cases "approve i a why now now2 s")
    case (Inl e)
    with OpApprove r show ?thesis by simp
  next
    case (Inr sr)
    then obtain s' r' where ok: "approve i a why now now2 s = Inr (s', r')" by (cases sr) auto
    have "repo_get_approval s' aid = Some r"
      by (rule decide_frame [OF ok [unfolded approve_def] approve_record_keeps r])
        (simp_all add: approve_record_final [OF fin])
    with ok OpApprove show ?thesis by simp
  qed
next
  case (OpReject i a why now now2)
  show ?thesis
  proof (cases "reject i a why now now2 s")
    case (Inl e)
    with OpReject r show ?thesis by simp
  next
    case (Inr sr)
    then obtain s' r' where ok: "reject i a why now now2 s = Inr (s', r')" by (cases sr) auto
    have "repo_get_approval s' aid = Some r"
      by (rule decide_frame [OF ok [unfolded reject_def] reject_record_keeps r])
        (simp_all add: reject_record_final [OF fin])
    with ok OpReject show ?thesis by simp
  qed
qed

lemma final_run:
  "repo_get_approval s aid = Some r \<Longrightarrow> ap_status r \<noteq> AP_PENDING \<Longrightarrow> list_all (\<lambda>x. \<not> reopens aid x) ops
    \<Longrightarrow> repo_get_approval (fold approval_op_step ops s) aid = Some r"
  by (induction ops arbitrary: s) (auto intro: final_step)

text \<open>
  C18: a decided approval is final: whatever requests (with other identifiers), approvals and
  rejections follow, the record stays as it is, and each further attempt to approve or reject it
  raises the error that names its status.
\<close>

theorem approval_final:
  assumes "repo_get_approval s aid = Some r" and "ap_status r \<noteq> AP_PENDING"
    and "list_all (\<lambda>x. \<not> reopens aid x) ops"
  shows "repo_get_approval (fold approval_op_step ops s) aid = Some r
    \<and> approve aid a why now now2 (fold approval_op_step ops s) = Inl (already_error (ap_status r))
    \<and> reject aid a why now now2 (fold approval_op_step ops s) = Inl (already_error (ap_status r))"
  using final_run [OF assms] assms(2)
  by (simp add: approve_def reject_def decide_in_def approve_record_final reject_record_final)

theorem approval_final_witness:
  "reject ''ap-1'' ''ann'' [] 40 41
     (fold approval_op_step [OpReject ''ap-1'' ''bob'' [] 35 36] (fold approval_op_step sample_ops empty_repo))
   = Inl (ValueError ''Approval is already approved'')"
  using approval_final [OF sample_ops_get, of "[OpReject ''ap-1'' ''bob'' [] 35 36]" "''ann''" "[]" 40 41]
  by (simp add: sample_approved_def already_error_def)

subsection \<open>Approving by everyone completes the record\<close>

definition pending_approvers :: "approval_step list \<Rightarrow> string list" where
  "pending_approvers sts = map st_approver (filter (\<lambda>st. st_status st = AP_PENDING) sts)"

lemma decide_step_pending:
  assumes "a \<in> set (pending_approvers sts)"
  shows "\<exists>sts'. decide_step AP_APPROVED a now why sts = Some sts'
    \<and> pending_approvers sts' = remove1 a (pending_approvers sts)"
  using assms
proof (induction sts)
  case (Cons x xs)
  show ?case
  proof (cases "st_approver x = a \<and> st_status x = AP_PENDING")
    case True
    then show ?thesis by (simp add: pending_approvers_def)
  next
    case False
    with Cons obtain ys where "decide_step AP_APPROVED a now why xs = Some ys"
      "pending_approvers ys = remove1 a (pending_approvers xs)"
      by (auto simp: pending_approvers_def split: if_splits)
    with False show ?thesis by (auto simp: pending_approvers_def)
  qed
qed (simp add: pending_approvers_def)

definition open_or_done :: "approval_record \<Rightarrow> bool" where
  "open_or_done r \<longleftrightarrow>
     (\<forall>st \<in> set (ap_steps r). st_status st \<in> {AP_PENDING, AP_APPROVED}) \<and>
     ap_status r = (if pending_approvers (ap_steps r) = [] then AP_APPROVED else AP_PENDING)"

lemma pending_approvers_Nil:
  "(\<forall>st \<in> set sts. st_status st \<in> {AP_PENDING, AP_APPROVED}) \<Longrightarrow>
   pending_approvers sts = [] \<longleftrightarrow> list_all (\<lambda>st. st_status st = AP_APPROVED) sts"
  by (auto simp: pending_approvers_def filter_empty_conv list_all_iff)

lemma approve_record_progress:
  assumes "open_or_done r" and "a \<in> set (pending_approvers (ap_steps r))"
  shows "\<exists>r'. approve_record a why now now2 r = Inr r' \<and> open_or_done r'
    \<and> pending_approvers (ap_steps r') = remove1 a (pending_approvers (ap_steps r))"
proof -
  from decide_step_pending [OF assms(2)] obtain sts where
    dec: "decide_step AP_APPROVED a now why (ap_steps r) = Some sts"
    and pend: "pending_approvers sts = remove1 a (pending_approvers (ap_steps r))" by blast
  have pre: "ap_status r = AP_PENDING" using assms by (auto simp: open_or_done_def)
  have only: "\<forall>st \<in> set sts. st_status st \<in> {AP_PENDING, AP_APPROVED}"
    using assms(1) decide_step_SomeD [OF dec] by (auto simp: open_or_done_def)
  then have norej: "\<not> list_ex (\<lambda>st. st_status st = AP_REJECTED) sts"
    by (fastforce simp: list_ex_iff)
  obtain r' where r': "approve_record a why now now2 r = Inr r'"
    using pre dec by (simp add: approve_record_def Let_def)
  from r' have "ap_steps r' = sts \<and> ap_status r' = (if pending_approvers sts = [] then AP_APPROVED else AP_PENDING)"
    using dec norej by (auto elim!: approve_record_cases simp: pending_approvers_Nil [OF only])
  with r' only pend show ?thesis by (auto simp: open_or_done_def)
qed

lemma approve_everyone:
  assumes "repo_get_approval s aid = Some r" and "open_or_done r"
    and "mset as = mset (pending_approvers (ap_steps r))"
  shows "\<exists>r'. repo_get_approval (fold (\<lambda>a. approval_op_step (OpApprove aid a why now now2)) as s) aid = Some r'
    \<and> open_or_done r' \<and> pending_approvers (ap_steps r') = []"
  using assms
proof (induction as arbitrary: s r)
  case Nil
  then show ?case by auto
next
  case (Cons a as)
  have "a \<in> set (pending_approvers (ap_steps r))"
    by (metis Cons.prems(3) list.set_intros(1) set_mset_mset)
  then obtain r' where r': "approve_record a why now now2 r = Inr r'" "open_or_done r'"
    and pend: "pending_approvers (ap_steps r') = remove1 a (pending_approvers (ap_steps r))"
    using approve_record_progress [OF Cons.prems(2)] by blast
  obtain s' where s': "approve aid a why now now2 s = Inr (s', r')"
    using Cons.prems(1) r'(1) by (simp add: approve_def decide_in_def)
  have "\<exists>r. repo_get_approval s aid = Some r \<and> approve_record a why now now2 r = Inr r'
      \<and> repo_get_approval s' = (repo_get_approval s)(aid \<mapsto> r')"
    by (rule workflow.decide_in_load [OF s' [unfolded approve_def]]) (rule approve_record_keeps)
  then have "repo_get_approval s' aid = Some r'" by auto
  moreover have "mset as = mset (pending_approvers (ap_steps r'))"
    using Cons.prems(3) pend by (metis add_mset_remove_trivial mset.simps(2) mset_remove1)
  ultimately show ?case using Cons.IH r'(2) s' by simp
qed

text \<open>
  C21: the workflow can always be completed: after a request, when every required approver (as
  often as listed) approves, in any order whatever, no call fails and the stored record reads
  approved.
\<close>

theorem approval_completes:
  assumes "aq_required_approvers q \<noteq> []" and "mset as = mset (aq_required_approvers q)"
  shows "\<exists>r. repo_get_approval
      (fold (\<lambda>a. approval_op_step (OpApprove aid a why now now2)) as (fst (create_request aid c t q s))) aid = Some r
    \<and> ap_status r = AP_APPROVED"
proof -
  let ?r = "forget_cluster_name (snd (create_request aid c t q s))"
  have id: "ap_id (snd (create_request aid c t q s)) = aid"
    by (simp add: create_request_def Let_def)
  have get: "repo_get_approval (fst (create_request aid c t q s)) aid = Some ?r"
    using approvals.load_save_same [of "snd (create_request aid c t q s)" s] id
    by (simp add: create_request_def Let_def)
  have steps: "ap_steps ?r = request_steps (aq_required_approvers q)" "ap_status ?r = AP_PENDING"
    by (simp_all add: create_request_def Let_def forget_cluster_name_def)
  have "filter (\<lambda>st. st_status st = AP_PENDING) (ap_steps ?r) = ap_steps ?r"
    by (rule filter_True) (auto simp: steps dest: request_steps_pending)
  then have pend: "pending_approvers (ap_steps ?r) = aq_required_approvers q"
    using assms(1) by (simp add: pending_approvers_def steps request_steps_approvers)
  have "open_or_done ?r"
    using assms(1) pend by (auto simp: open_or_done_def steps dest: request_steps_pending)
  from approve_everyone [OF get this] assms(2) pend show ?thesis
    by (fastforce simp: open_or_done_def)
qed

theorem approval_completes_witness:
  "\<exists>r. repo_get_approval
      (fold (\<lambda>a. approval_op_step (OpApprove ''ap-1'' a ''ok'' 5 6)) [''bob'', ''ann'']
        (fst (create_request ''ap-1'' ''cl-9'' 1 sample_request empty_repo))) ''ap-1'' = Some r
    \<and> ap_status r = AP_APPROVED"
  by (rule approval_completes) (simp_all add: sample_request_def)

text \<open>
  What the database keeps of a request: reading a request back gives the record that
  \<open>create_request\<close> returned except for its cluster name, for which the table has no column; every
  other stored approval reads as before.
\<close>

theorem create_request_stored:
  "repo_get_approval (fst (create_request aid c t q s))
     = (repo_get_approval s)(aid \<mapsto> (snd (create_request aid c t q s))\<lparr>ap_cluster_name := []\<rparr>)"
  by (simp add: create_request_def Let_def approvals.load_save forget_cluster_name_def)

end
