(* ===== verification/Values.thy ===== *)
theory Values
  imports Prelude
begin

text \<open>
  Python's operations on values that come from texts and JSON: the comparisons \<open>==\<close>, \<open><\<close>, \<open><=\<close> and
  \<open>in\<close>, as the rule evaluators of the repository use them (numbers and booleans compare by value,
  texts and lists lexicographically, dictionaries by content; other orders raise \<open>TypeError\<close>), the
  reading of numbers by \<open>int()\<close> and \<open>float()\<close> and of identifiers by \<open>UUID()\<close>, and \<open>split\<close>.
\<close>

function json_eq :: "json \<Rightarrow> json \<Rightarrow> bool"
  and json_sub :: "(string \<times> json) list \<Rightarrow> (string \<times> json) list \<Rightarrow> bool" where
  "json_eq a b =
     (case (a, b) of
        (JNull, JNull) \<Rightarrow> True
      | (JStr s, JStr t) \<Rightarrow> s = t
      | (JList xs, JList ys) \<Rightarrow>
          (case (xs, ys) of
             ([], []) \<Rightarrow> True
           | (x # xs', y # ys') \<Rightarrow> json_eq x y \<and> json_eq (JList xs') (JList ys')
           | _ \<Rightarrow> False)
      | (JObj kvs, JObj ls) \<Rightarrow> length kvs = length ls \<and> json_sub kvs ls
      | _ \<Rightarrow> (case (json_num a, json_num b) of (Some x, Some y) \<Rightarrow> x = y | _ \<Rightarrow> False))"
| "json_sub kvs ls =
     (case kvs of
        [] \<Rightarrow> True
      | (k, v) # kvs' \<Rightarrow> (case dict_get ls k of None \<Rightarrow> False | Some w \<Rightarrow> json_eq v w) \<and> json_sub kvs' ls)"
  by pat_completeness auto
termination
  by (relation "measure (\<lambda>x. case x of Inl (a, b) \<Rightarrow> 2 * size a | Inr (kvs, ls) \<Rightarrow> 2 * size_list (size_prod (\<lambda>_. 0) size) kvs + 1)")
    auto


declare json_eq.simps [simp del] json_sub.simps [simp del]

lemma json_eq_simps [simp]:
  "json_eq JNull JNull"
  "json_eq (JStr s) (JStr t) \<longleftrightarrow> s = t"
  "json_eq (JList []) (JList ys) \<longleftrightarrow> ys = []"
  "json_eq (JList (x # xs)) (JList []) \<longleftrightarrow> False"
  "json_eq (JList (x # xs)) (JList (y # ys)) \<longleftrightarrow> json_eq x y \<and> json_eq (JList xs) (JList ys)"
  "json_eq (JObj kvs) (JObj ls) \<longleftrightarrow> length kvs = length ls \<and> json_sub kvs ls"
  by (subst json_eq.simps; simp split: list.splits)+

lemma json_eq_num: "json_num a = Some u \<Longrightarrow> json_eq a b \<longleftrightarrow> json_num b = Some u"
  by (subst json_eq.simps) (cases a; cases b; auto)

lemma json_sub_simps [simp]:
  "json_sub [] ls"
  "json_sub ((k, v) # kvs) ls \<longleftrightarrow> (case dict_get ls k of None \<Rightarrow> False | Some w \<Rightarrow> json_eq v w) \<and> json_sub kvs ls"
  by (subst json_sub.simps; simp)+

text \<open>\<open>a < b\<close>. Lists compare by their first two elements that are not equal.\<close>

definition num_or_type_error :: "json \<Rightarrow> json \<Rightarrow> py_error + bool" where
  "num_or_type_error a b =
     (case (json_num a, json_num b) of
        (Some x, Some y) \<Rightarrow> Inr (x < y)
      | _ \<Rightarrow> Inl (TypeError ''not supported between instances''))"

fun py_less :: "json \<Rightarrow> json \<Rightarrow> py_error + bool" where
  "py_less (JStr s) (JStr t) = Inr (s < t)"
| "py_less (JList []) (JList ys) = Inr (ys \<noteq> [])"
| "py_less (JList (x # xs)) (JList []) = Inr False"
| "py_less (JList (x # xs)) (JList (y # ys)) =
     (if json_eq x y then py_less (JList xs) (JList ys) else py_less x y)"
| "py_less a b = num_or_type_error a b"

definition py_le :: "json \<Rightarrow> json \<Rightarrow> py_error + bool" where
  "py_le a b = try_bind (py_less a b) (\<lambda>l. Inr (l \<or> json_eq a b))"

text \<open>\<open>x in v\<close>: an element of a list, a substring, a key; a list or dictionary is no key.\<close>

fun py_in :: "json \<Rightarrow> json \<Rightarrow> py_error + bool" where
  "py_in x (JList vs) = Inr (list_ex (json_eq x) vs)"
| "py_in (JStr s) (JStr t) = Inr (str_contains s t)"
| "py_in x (JStr t) = Inl (TypeError ''in <string> requires string as left operand'')"
| "py_in (JList xs) (JObj kvs) = Inl (TypeError ''unhashable type: list'')"
| "py_in (JObj xs) (JObj kvs) = Inl (TypeError ''unhashable type: dict'')"
| "py_in (JStr s) (JObj kvs) = Inr (dict_has kvs s)"
| "py_in x (JObj kvs) = Inr False"
| "py_in x v = Inl (TypeError ''argument is not iterable'')"

lemma py_less_num:
  "json_num a = Some u \<Longrightarrow> json_num b = Some v \<Longrightarrow> py_less a b = Inr (u < v)"
  by (cases a; cases b) (auto simp: num_or_type_error_def)

lemma py_le_num:
  "json_num a = Some u \<Longrightarrow> json_num b = Some v \<Longrightarrow> py_le a b = Inr (u \<le> v)"
  by (auto simp: py_le_def py_less_num json_eq_num)

text \<open>Membership in a list of texts is membership.\<close>

lemma py_in_strs: "py_in (JStr s) (JList (map JStr ts)) = Inr (s \<in> set ts)"
  by (auto simp: list_ex_iff)

text \<open>Iterating over a value gives the elements of a list, the keys of a dictionary, the characters of a text.\<close>

fun json_iter :: "json \<Rightarrow> py_error + json list" where
  "json_iter (JList xs) = Inr xs"
| "json_iter (JObj kvs) = Inr (map (\<lambda>kv. JStr (fst kv)) kvs)"
| "json_iter (JStr s) = Inr (map (\<lambda>c. JStr [c]) s)"
| "json_iter _ = Inl (TypeError ''object is not iterable'')"

text \<open>\<open>d.get(key, default)\<close> on a value that must be an object.\<close>

fun obj_get :: "json \<Rightarrow> string \<Rightarrow> json \<Rightarrow> py_error + json" where
  "obj_get (JObj kvs) k d = Inr (dict_get_or kvs k d)"
| "obj_get _ k d = Inl (AttributeError ''object has no attribute get'')"

text \<open>\<open>s.upper()\<close> on ASCII text, and \<open>s.title()\<close> of a lower-case word.\<close>

definition upper_char :: "char \<Rightarrow> char" where
  "upper_char c =
     (case map_of (zip ''abcdefghijklmnopqrstuvwxyz'' ''ABCDEFGHIJKLMNOPQRSTUVWXYZ'') c of None \<Rightarrow> c | Some d \<Rightarrow> d)"

definition str_upper :: "string \<Rightarrow> string" where
  "str_upper s = map upper_char s"

definition title_word :: "string \<Rightarrow> string" where
  "title_word s = (case s of [] \<Rightarrow> [] | c # cs \<Rightarrow> upper_char c # cs)"

subsection \<open>Python's float() and int() on texts\<close>

datatype pyfloat = Finite rat | Infinite bool | NaN

definition is_space :: "char \<Rightarrow> bool" where
  "is_space c \<longleftrightarrow> c \<in> {CHR 0x20, CHR 0x09, CHR 0x0A, CHR 0x0B, CHR 0x0C, CHR 0x0D}"

definition strip :: "string \<Rightarrow> string" where
  "strip s = rev (dropWhile is_space (rev (dropWhile is_space s)))"

definition digit_val :: "char \<Rightarrow> nat option" where
  "digit_val c = map_of (zip ''0123456789'' [0..<10]) c"

text \<open>A run of digits, with single underscores allowed between two digits.\<close>

fun digit_run :: "bool \<Rightarrow> string \<Rightarrow> nat list \<times> string" where
  "digit_run after_digit [] = ([], [])"
| "digit_run after_digit (c # s) =
     (case digit_val c of
        Some d \<Rightarrow> (let (ds, rest) = digit_run True s in (d # ds, rest))
      | None \<Rightarrow>
          (if c = CHR ''_'' \<and> after_digit
           then (let (ds, rest) = digit_run False s in if ds = [] then ([], c # s) else (ds, rest))
           else ([], c # s)))"

definition digits_nat :: "nat list \<Rightarrow> nat" where
  "digits_nat ds = foldl (\<lambda>n d. 10 * n + d) 0 ds"

fun take_sign :: "string \<Rightarrow> int \<times> string" where
  "take_sign (c # s) = (if c = CHR ''-'' then (- 1, s) else if c = CHR ''+'' then (1, s) else (1, c # s))"
| "take_sign [] = (1, [])"

definition parse_int :: "string \<Rightarrow> int option" where
  "parse_int s =
     (let (sg, body) = take_sign (strip s); (ds, rest) = digit_run False body
      in if ds = [] \<or> rest \<noteq> [] then None else Some (sg * int (digits_nat ds)))"

definition parse_fraction :: "string \<Rightarrow> nat list \<times> string" where
  "parse_fraction s = (case s of c # r \<Rightarrow> if c = CHR ''.'' then digit_run False r else ([], s) | [] \<Rightarrow> ([], s))"

definition parse_exponent :: "string \<Rightarrow> int option" where
  "parse_exponent s =
     (case s of
        [] \<Rightarrow> Some 0
      | c # r \<Rightarrow>
          (if c = CHR ''e'' \<or> c = CHR ''E'' then
             (let (sg, body) = take_sign r; (ds, rest) = digit_run False body
              in if ds = [] \<or> rest \<noteq> [] then None else Some (sg * int (digits_nat ds)))
           else None))"

definition scale10 :: "rat \<Rightarrow> int \<Rightarrow> rat" where
  "scale10 x e = (if 0 \<le> e then x * 10 ^ nat e else x / 10 ^ nat (- e))"

definition parse_float :: "string \<Rightarrow> pyfloat option" where
  "parse_float s =
     (let (sg, body) = take_sign (strip s);
          low = str_lower body
      in if low = ''inf'' \<or> low = ''infinity'' then Some (Infinite (sg < 0))
         else if low = ''nan'' then Some NaN
         else
           (let (ds, rest) = digit_run False body; (fs, rest') = parse_fraction rest
            in if ds = [] \<and> fs = [] then None
               else (case parse_exponent rest' of
                 None \<Rightarrow> None
               | Some e \<Rightarrow>
                   Some (Finite (scale10 (of_int sg * of_nat (digits_nat (ds @ fs))) (e - int (length fs)))))))"

text \<open>\<open>float(str(v))\<close> and \<open>int(str(v))\<close> of a JSON value, and \<open>int(x)\<close> of a float.\<close>

fun json_float :: "json \<Rightarrow> py_error + pyfloat" where
  "json_float (JStr s) =
     (case parse_float s of None \<Rightarrow> Inl (ValueError ''could not convert string to float'') | Some x \<Rightarrow> Inr x)"
| "json_float (JInt i) = Inr (Finite (of_int i))"
| "json_float (JFloat x) = Inr (Finite x)"
| "json_float _ = Inl (ValueError ''could not convert string to float'')"

fun json_int :: "json \<Rightarrow> py_error + int" where
  "json_int (JStr s) =
     (case parse_int s of None \<Rightarrow> Inl (ValueError ''invalid literal for int()'') | Some i \<Rightarrow> Inr i)"
| "json_int (JInt i) = Inr i"
| "json_int _ = Inl (ValueError ''invalid literal for int()'')"

fun float_to_int :: "pyfloat \<Rightarrow> py_error + int" where
  "float_to_int (Finite x) = Inr (int_of x)"
| "float_to_int (Infinite _) = Inl (OverflowError ''cannot convert float infinity to integer'')"
| "float_to_int NaN = Inl (ValueError ''cannot convert float NaN to integer'')"

fun float_mult :: "pyfloat \<Rightarrow> rat \<Rightarrow> pyfloat" where
  "float_mult (Finite x) y = Finite (x * y)"
| "float_mult x y = x"

subsection \<open>Splitting texts and printing numbers\<close>

text \<open>\<open>s.split(c)\<close> at a single character.\<close>

fun split_on :: "char \<Rightarrow> string \<Rightarrow> string list" where
  "split_on c [] = [[]]"
| "split_on c (x # xs) =
     (if x = c then [] # split_on c xs else (x # hd (split_on c xs)) # tl (split_on c xs))"

fun join_with :: "char \<Rightarrow> string list \<Rightarrow> string" where
  "join_with c [] = []"
| "join_with c [s] = s"
| "join_with c (s # t # ts) = s @ c # join_with c (t # ts)"

lemma split_on_nonempty [simp]: "split_on c s \<noteq> []"
  by (induction s) auto

lemma split_on_free: "c \<notin> set s \<Longrightarrow> split_on c s = [s]"
  by (induction s) auto

lemma split_on_append: "c \<notin> set s \<Longrightarrow> split_on c (s @ c # t) = s # split_on c t"
  by (induction s) auto

lemma split_join: "ss \<noteq> [] \<Longrightarrow> (\<forall>s \<in> set ss. c \<notin> set s) \<Longrightarrow> split_on c (join_with c ss) = ss"
  by (induction c ss rule: join_with.induct) (simp_all add: split_on_free split_on_append)

text \<open>\<open>s.split()\<close>: the words between white space.\<close>

definition words :: "string \<Rightarrow> string list" where
  "words s =
     filter (\<lambda>w. w \<noteq> []) (split_on (CHR '' '') (map (\<lambda>c. if is_space c then CHR '' '' else c) s))"

lemma digit_val_char: "d < 10 \<Longrightarrow> digit_val (digit_char d) = Some d"
proof -
  assume "d < 10"
  then have "d \<in> {0, 1, 2, 3, 4, 5, 6, 7, 8, 9}" by auto
  then show ?thesis by (auto simp: digit_val_def digit_char_def upt_rec)
qed

lemma nat_str_nonempty [simp]: "nat_str n \<noteq> []"
  by (simp add: nat_str.simps [of n])

lemma nat_str_digits: "c \<in> set (nat_str n) \<Longrightarrow> digit_val c \<noteq> None"
proof (induction n rule: nat_str.induct)
  case (1 n)
  then show ?case by (auto simp: nat_str.simps [of n] digit_val_char split: if_splits)
qed

lemma nat_str_value: "digits_nat (map (\<lambda>c. the (digit_val c)) (nat_str n)) = n"
proof (induction n rule: nat_str.induct)
  case (1 n)
  show ?case
  proof (cases "n < 10")
    case True
    then show ?thesis by (simp add: nat_str.simps [of n] digits_nat_def digit_val_char)
  next
    case False
    then show ?thesis
      using "1" [OF False] by (simp add: nat_str.simps [of n] digits_nat_def digit_val_char)
  qed
qed

lemma digit_run_digits:
  "(\<forall>c \<in> set s. digit_val c \<noteq> None) \<Longrightarrow> digit_run b s = (map (\<lambda>c. the (digit_val c)) s, [])"
  by (induction s arbitrary: b) auto

lemma dropWhile_none: "(\<forall>c \<in> set s. \<not> P c) \<Longrightarrow> dropWhile P s = s"
  by (cases s) auto

lemma digit_plain:
  "digit_val c \<noteq> None \<Longrightarrow> \<not> is_space c \<and> c \<noteq> CHR ''-'' \<and> c \<noteq> CHR ''+'' \<and> c \<noteq> CHR ''.'' \<and> c \<noteq> CHR ''i'' \<and> c \<noteq> CHR ''n''"
  by (auto simp: digit_val_def is_space_def split: if_splits)

lemma digit_cases: "digit_val c \<noteq> None \<Longrightarrow> c \<in> set ''0123456789''"
  by (auto simp: digit_val_def split: if_splits)

lemma digits_lower: "list_all (\<lambda>c. lower_char c = c) ''0123456789''"
  by code_simp

lemma digit_lower: "digit_val c \<noteq> None \<Longrightarrow> lower_char c = c"
  using digit_cases [of c] digits_lower unfolding list_all_iff by blast

text \<open>Reading texts of digits, and reading back what \<open>str\<close> prints.\<close>

definition digit_text :: "string \<Rightarrow> bool" where
  "digit_text s \<longleftrightarrow> s \<noteq> [] \<and> (\<forall>c \<in> set s. digit_val c \<noteq> None)"

definition text_value :: "string \<Rightarrow> nat" where
  "text_value s = digits_nat (map (\<lambda>c. the (digit_val c)) s)"

lemma digit_text_reads:
  assumes "digit_text s"
  shows "strip s = s" and "take_sign s = (1, s)" and "digit_run False s = (map (\<lambda>c. the (digit_val c)) s, [])"
proof -
  have d: "\<forall>c \<in> set s. digit_val c \<noteq> None" using assms by (simp add: digit_text_def)
  then have "\<forall>c \<in> set s. \<not> is_space c" using digit_plain by blast
  then show "strip s = s" by (simp add: strip_def dropWhile_none)
  show "take_sign s = (1, s)" using assms digit_plain by (cases s) (auto simp: digit_text_def)
  show "digit_run False s = (map (\<lambda>c. the (digit_val c)) s, [])" using d by (rule digit_run_digits)
qed

lemma parse_int_digits:
  assumes "digit_text s"
  shows "parse_int s = Some (int (text_value s))"
proof -
  have "s \<noteq> []" using assms by (simp add: digit_text_def)
  then show ?thesis unfolding parse_int_def digit_text_reads(1,2) [OF assms] prod.case Let_def
    by (simp add: digit_text_reads(3) [OF assms] text_value_def)
qed

lemma parse_float_digits:
  assumes "digit_text s"
  shows "parse_float s = Some (Finite (of_nat (text_value s)))"
proof -
  obtain c cs where s: "s = c # cs" "digit_val c \<noteq> None" using assms by (cases s) (auto simp: digit_text_def)
  have low: "str_lower s \<noteq> ''inf'' \<and> str_lower s \<noteq> ''infinity'' \<and> str_lower s \<noteq> ''nan''"
    using digit_plain [OF s(2)] digit_lower [OF s(2)] by (simp add: s(1) str_lower_def)
  have "s \<noteq> []" by (simp add: s(1))
  then show ?thesis using low
    unfolding parse_float_def digit_text_reads(1,2) [OF assms] Let_def prod.case
    by (simp add: digit_text_reads(3) [OF assms] text_value_def parse_fraction_def parse_exponent_def scale10_def)
qed

lemma digit_text_nat_str [simp]: "digit_text (nat_str n)"
  using nat_str_digits by (auto simp: digit_text_def)

lemma text_value_nat_str [simp]: "text_value (nat_str n) = n"
  by (simp add: text_value_def nat_str_value)

lemma parse_int_nat_str: "parse_int (nat_str n) = Some (int n)"
  by (simp add: parse_int_digits)

lemma nat_str_no_dot: "CHR ''.'' \<notin> set (nat_str n)"
  using nat_str_digits [of "CHR ''.''" n] by (auto simp: digit_val_def split: if_splits)

subsection \<open>Equality of well-formed values\<close>

text \<open>A dictionary read from JSON has no key twice.\<close>

fun json_ok :: "json \<Rightarrow> bool" where
  "json_ok (JList xs) = (\<forall>x \<in> set xs. json_ok x)"
| "json_ok (JObj kvs) = (distinct (map fst kvs) \<and> (\<forall>kv \<in> set kvs. json_ok (snd kv)))"
| "json_ok _ = True"

lemma json_eq_refl: "json_ok a \<Longrightarrow> json_eq a a"
proof (induction a rule: json_ok.induct)
  case (1 xs)
  then show ?case by (induction xs) auto
next
  case (2 kvs)
  have "json_sub ls kvs" if "set ls \<subseteq> set kvs" for ls
    using that "2" by (induction ls) (auto simp: dict_ok_def split: option.splits)
  then show ?case by simp
qed (auto simp: json_eq_num)

subsection \<open>UUID(text)\<close>

text \<open>
  The reading of a UUID text: \<open>urn:\<close> and \<open>uuid:\<close> are dropped, braces at the ends and hyphens too,
  and 32 hexadecimal digits must remain; the result is the canonical text. Python's \<open>int(hex, 16)\<close>
  would also take signs, spaces and underscores among the 32 characters; these are read as errors.
\<close>

function str_remove :: "string \<Rightarrow> string \<Rightarrow> string" where
  "str_remove p [] = []"
| "str_remove p (c # s) =
     (if starts_with p (c # s) then str_remove p (drop (length p - 1) s) else c # str_remove p s)"
  by pat_completeness auto
termination by (relation "measure (\<lambda>(p, s). length s)") auto

definition strip_braces :: "string \<Rightarrow> string" where
  "strip_braces s =
     (let brace = (\<lambda>c. c = CHR ''{'' \<or> c = CHR ''}'')
      in rev (dropWhile brace (rev (dropWhile brace s))))"

definition is_hex :: "char \<Rightarrow> bool" where
  "is_hex c \<longleftrightarrow> c \<in> set ''0123456789abcdef''"

definition canonical_uuid :: "string \<Rightarrow> string" where
  "canonical_uuid h =
     take 8 h @ ''-'' @ take 4 (drop 8 h) @ ''-'' @ take 4 (drop 12 h) @ ''-'' @ take 4 (drop 16 h) @ ''-'' @ drop 20 h"

definition parse_uuid :: "string \<Rightarrow> py_error + uuid" where
  "parse_uuid s =
     (let h = filter (\<lambda>c. c \<noteq> CHR ''-'') (strip_braces (str_remove ''uuid:'' (str_remove ''urn:'' s)))
      in if length h \<noteq> 32 then Inl (ValueError ''badly formed hexadecimal UUID string'')
         else if \<not> list_all is_hex (str_lower h)
         then Inl (ValueError (''invalid literal for int() with base 16: '' @ quoted h))
         else Inr (canonical_uuid (str_lower h)))"

end
