(* ===== verification/Policy.thy ===== *)
theory Policy
  imports Repository Values
begin

text \<open>
  \<open>PolicyEngine\<close> and \<open>ChaosEngine\<close> of src/src/gpuopt/guarded_automation.py: guardrail policies
  stored in the repository and checked before an actuation, and the store of chaos experiments
  with their simulated runs. A policy's configuration is JSON, so every rule reads it dynamically
  and a value of an unexpected type raises. The abstract specification \<open>permits\<close> says what a
  well-typed rule means; evaluation refines it.
\<close>

subsection \<open>Evaluation results\<close>

record policy_result =
  pr_policy_id :: uuid
  pr_policy_name :: string
  pr_rule_type :: string
  pr_severity :: policy_severity
  pr_passed :: bool
  pr_action :: string
  pr_message :: "piece list"
  pr_details :: "piece list list"

record pre_flight =
  pf_rec_id :: uuid
  pf_cluster_id :: uuid
  pf_cluster_name :: string
  pf_overall_passed :: bool
  pf_policy_count :: int
  pf_passed_count :: int
  pf_blocked_count :: int
  pf_warned_count :: int
  pf_results :: "policy_result list"
  pf_requires_approval :: bool
  pf_checked_at :: datetime

subsection \<open>Dynamic operations on configuration values\<close>

text \<open>\<open>x in v\<close> for a text and for a number: membership in a list, a substring test, a key test.\<close>

fun str_in_json :: "string \<Rightarrow> json \<Rightarrow> py_error + bool" where
  "str_in_json s (JList xs) = Inr (JStr s \<in> set xs)"
| "str_in_json s (JStr t) = Inr (str_contains s t)"
| "str_in_json s (JObj kvs) = Inr (dict_has kvs s)"
| "str_in_json s _ = Inl (TypeError ''argument is not iterable'')"

fun int_in_json :: "int \<Rightarrow> json \<Rightarrow> py_error + bool" where
  "int_in_json i (JList xs) = Inr (list_ex (\<lambda>x. json_num x = Some (of_int i)) xs)"
| "int_in_json i (JStr t) = Inl (TypeError ''in <string> requires string as left operand, not int'')"
| "int_in_json i (JObj kvs) = Inr False"
| "int_in_json i _ = Inl (TypeError ''argument is not iterable'')"

definition num_less :: "json \<Rightarrow> json \<Rightarrow> py_error + bool" where
  "num_less a b =
     (case (json_num a, json_num b) of
        (Some x, Some y) \<Rightarrow> Inr (x < y)
      | _ \<Rightarrow> Inl (TypeError ''not supported between instances''))"

text \<open>A field of type \<open>list[str]\<close> accepts texts only.\<close>

fun str_field :: "json \<Rightarrow> py_error + string" where
  "str_field (JStr s) = Inr s"
| "str_field _ = Inl (ValueError ''Input should be a valid string'')"

definition day_names :: "string list" where
  "day_names = [''Mon'', ''Tue'', ''Wed'', ''Thu'', ''Fri'', ''Sat'', ''Sun'']"

text \<open>\<open>day_names[d]\<close>: a negative index counts from the end.\<close>

definition day_name_at :: "int \<Rightarrow> py_error + string" where
  "day_name_at d =
     (if 0 \<le> d \<and> d < 7 then Inr (day_names ! nat d)
      else if - 7 \<le> d \<and> d < 0 then Inr (day_names ! nat (7 + d))
      else Inl (IndexError ''list index out of range''))"

fun day_name :: "json \<Rightarrow> py_error + string" where
  "day_name (JInt d) = day_name_at d"
| "day_name (JBool b) = day_name_at (if b then 1 else 0)"
| "day_name _ = Inl (TypeError ''list indices must be integers or slices'')"

text \<open>\<open>now.hour\<close> and \<open>now.weekday()\<close>, Monday being 0; the epoch was a Thursday.\<close>

definition hour_of :: "datetime \<Rightarrow> int" where
  "hour_of now = now div 3600000000 mod 24"

definition weekday_of :: "datetime \<Rightarrow> int" where
  "weekday_of now = (now div 86400000000 + 3) mod 7"

subsection \<open>Evaluating one policy\<close>

definition verdict :: "policy_rule \<Rightarrow> bool \<Rightarrow> string \<Rightarrow> piece list \<Rightarrow> piece list list \<Rightarrow> policy_result" where
  "verdict p passed action msg details =
     \<lparr>pr_policy_id = po_id p, pr_policy_name = po_name p, pr_rule_type = po_rule_type p,
      pr_severity = po_severity p, pr_passed = passed, pr_action = action,
      pr_message = msg, pr_details = details\<rparr>"

abbreviation blocked :: "policy_rule \<Rightarrow> piece list \<Rightarrow> piece list list \<Rightarrow> policy_result" where
  "blocked p \<equiv> verdict p False ''block''"

abbreviation allowed :: "policy_rule \<Rightarrow> string \<Rightarrow> policy_result" where
  "allowed p msg \<equiv> verdict p True ''allow'' [Txt msg] []"

definition eval_environment :: "policy_rule \<Rightarrow> string \<Rightarrow> py_error + policy_result" where
  "eval_environment p env =
     (let config = po_rule_config p;
          allowed_envs = dict_get_or config ''allowed_environments'' (JList []);
          denied_envs = dict_get_or config ''denied_environments'' (JList [])
      in try_bind (if json_true denied_envs then str_in_json env denied_envs else Inr False) (\<lambda>is_denied.
         if is_denied then
           Inr (blocked p [Txt (''Environment '' @ quoted env @ '' is restricted'')]
                  [[Txt (''Environment '' @ quoted env @ '' is in denied list: ''), Val denied_envs]])
         else
           try_bind (if json_true allowed_envs then str_in_json env allowed_envs else Inr True) (\<lambda>is_allowed.
             if \<not> is_allowed then
               Inr (blocked p [Txt (''Environment '' @ quoted env @ '' is not in allowed list'')]
                      [[Txt ''Allowed environments: '', Val allowed_envs]])
             else Inr (allowed p (''Environment '' @ quoted env @ '' is permitted'')))))"

definition eval_time_window :: "policy_rule \<Rightarrow> datetime \<Rightarrow> py_error + policy_result" where
  "eval_time_window p now =
     (let config = po_rule_config p;
          window_start = dict_get_or config ''start_hour'' (JInt 0);
          window_end = dict_get_or config ''end_hour'' (JInt 23);
          allowed_days = dict_get_or config ''allowed_days'' (JList (map JInt [0, 1, 2, 3, 4, 5, 6]));
          current_hour = hour_of now;
          current_day = weekday_of now
      in try_bind (int_in_json current_day allowed_days) (\<lambda>day_ok.
         if \<not> day_ok then
           try_bind (try_bind (json_iter allowed_days) (try_map day_name)) (\<lambda>names.
             Inr (blocked p [Txt (''Actuations not allowed on '' @ day_names ! nat current_day)]
                    [[Txt ''Allowed days: '', Val (JList (map JStr names))]]))
         else
           try_bind (num_less (JInt current_hour) window_start) (\<lambda>early.
           try_bind (if early then Inr True
                     else try_bind (num_less (JInt current_hour) window_end) (\<lambda>b. Inr (\<not> b))) (\<lambda>outside.
             if outside then
               Inr (blocked p [Txt ''Outside allowed window ('', Val window_start, Txt '':00-'',
                               Val window_end, Txt '':00 UTC)'']
                      [[Txt (''Current hour: '' @ int_str current_hour @ '':00 UTC'')]])
             else Inr (allowed p ''Within allowed time window'')))))"

definition eval_approval_required :: "policy_rule \<Rightarrow> py_error + policy_result" where
  "eval_approval_required p =
     try_bind (str_field (dict_get_or (po_rule_config p) ''reason'' (JStr ''Policy requires manual approval'')))
       (\<lambda>why. Inr (blocked p [Txt ''This actuation requires approval before execution''] [[Txt why]]))"

definition gpu_involved :: "recommendation \<Rightarrow> int" where
  "gpu_involved r = int (length (filter (\<lambda>x. str_contains ''gpu'' (str_lower x)) (rc_affected_resources r)))"

definition eval_resource_limit :: "policy_rule \<Rightarrow> uuid \<Rightarrow> uuid \<Rightarrow> repo \<Rightarrow> py_error + policy_result" where
  "eval_resource_limit p cluster_id rec_id s =
     (case json_num (dict_get_or (po_rule_config p) ''max_gpu_count'' (JInt 0)) of
        None \<Rightarrow> Inl (TypeError ''not supported between instances'')
      | Some max_gpu \<Rightarrow>
          (let recs = (if 0 < max_gpu
                       then (case latest_recommendations cluster_id s of
                               None \<Rightarrow> [] | Some rs \<Rightarrow> rs_recommendations rs)
                       else [])
           in case find (\<lambda>r. rc_id r = rec_id \<and> max_gpu < of_int (gpu_involved r)) recs of
                Some r \<Rightarrow>
                  Inr (blocked p [Txt (''Exceeds max GPU count ('' @ int_str (gpu_involved r) @ '' > ''),
                                  Val (dict_get_or (po_rule_config p) ''max_gpu_count'' (JInt 0)), Txt '')'']
                         [[Txt ''Resources: '', Val (JList (map JStr (rc_affected_resources r)))]])
              | None \<Rightarrow> Inr (allowed p ''Within resource limits'')))"

definition eval_maintenance_window :: "policy_rule \<Rightarrow> py_error + policy_result" where
  "eval_maintenance_window p =
     (if json_true (dict_get_or (po_rule_config p) ''in_maintenance'' (JBool False)) then
        try_bind (str_field (dict_get_or (po_rule_config p) ''message'' (JStr ''Maintenance in progress'')))
          (\<lambda>msg. Inr (blocked p [Txt ''Cluster is in maintenance window''] [[Txt msg]]))
      else Inr (allowed p ''No active maintenance window''))"

definition evaluate_policy ::
  "policy_rule \<Rightarrow> uuid \<Rightarrow> uuid \<Rightarrow> string \<Rightarrow> datetime \<Rightarrow> repo \<Rightarrow> py_error + policy_result" where
  "evaluate_policy p cluster_id rec_id env now s =
     (if po_rule_type p = ''environment_restriction'' then eval_environment p env
      else if po_rule_type p = ''time_window'' then eval_time_window p now
      else if po_rule_type p = ''approval_required'' then eval_approval_required p
      else if po_rule_type p = ''resource_limit'' then eval_resource_limit p cluster_id rec_id s
      else if po_rule_type p = ''maintenance_window'' then eval_maintenance_window p
      else Inr (allowed p (''Unknown rule type '' @ quoted (po_rule_type p) @ '', defaulting to allow'')))"

definition policy_applies :: "policy_rule \<Rightarrow> uuid \<Rightarrow> string \<Rightarrow> bool" where
  "policy_applies p cluster_id env =
     (if po_scope_type p = ''global'' then True
      else if po_scope_type p = ''cluster'' then po_scope_value p = cluster_id
      else if po_scope_type p = ''environment'' then po_scope_value p = env
      else True)"

subsection \<open>The pre-flight check\<close>

text \<open>\<open>_default_policies\<close> is empty and nothing fills it.\<close>

definition load_policies :: "repo \<Rightarrow> policy_rule list" where
  "load_policies s = repo_list_policies s @ []"

text \<open>The clock is read anew for each policy: \<open>clk p\<close> is the reading while \<open>p\<close> is evaluated.\<close>

definition relevant_policies :: "uuid \<Rightarrow> string \<Rightarrow> repo \<Rightarrow> policy_rule list" where
  "relevant_policies cluster_id env s =
     filter (\<lambda>p. po_enabled p \<and> policy_applies p cluster_id env) (load_policies s)"

definition check_pre_flight ::
  "uuid \<Rightarrow> uuid \<Rightarrow> string \<Rightarrow> (policy_rule \<Rightarrow> datetime) \<Rightarrow> datetime \<Rightarrow> repo \<Rightarrow> py_error + pre_flight" where
  "check_pre_flight cluster_id rec_id env clk now s =
     (let cluster_name = (case get_cluster cluster_id s of None \<Rightarrow> [] | Some c \<Rightarrow> cl_name c)
      in try_bind (try_map (\<lambda>p. evaluate_policy p cluster_id rec_id env (clk p) s)
                           (relevant_policies cluster_id env s)) (\<lambda>results.
         let passed_count = length (filter pr_passed results);
             blocked_count = length (filter (\<lambda>r. \<not> pr_passed r \<and> pr_action r = ''block'') results);
             warned_count = length (filter (\<lambda>r. \<not> pr_passed r \<and> pr_action r = ''warn'') results)
         in Inr \<lparr>pf_rec_id = rec_id, pf_cluster_id = cluster_id, pf_cluster_name = cluster_name,
                 pf_overall_passed = (blocked_count = 0), pf_policy_count = int (length results),
                 pf_passed_count = int passed_count, pf_blocked_count = int blocked_count,
                 pf_warned_count = int warned_count, pf_results = results,
                 pf_requires_approval = list_ex (\<lambda>r. pr_action r = ''block'' \<and> \<not> pr_passed r) results,
                 pf_checked_at = now\<rparr>))"

definition create_policy :: "policy_rule \<Rightarrow> repo \<Rightarrow> repo \<times> policy_rule" where
  "create_policy p s = (save_policy p s, p)"

text \<open>An entry of the \<open>updates\<close> dictionary that names a field; any other key is skipped.\<close>

datatype policy_update =
    SetPolicyId uuid
  | SetPolicyName string
  | SetPolicyDescription string
  | SetScopeType string
  | SetScopeValue string
  | SetRuleType string
  | SetRuleConfig "(string, json) dict"
  | SetSeverity policy_severity
  | SetPolicyEnabled bool
  | SetFailAction string
  | SetPolicyCreatedAt datetime
  | SetPolicyUpdatedAt datetime
  | SetPolicyOther string

fun apply_policy_update :: "policy_update \<Rightarrow> policy_rule \<Rightarrow> policy_rule" where
  "apply_policy_update (SetPolicyId _) p = p"
| "apply_policy_update (SetPolicyName v) p = p\<lparr>po_name := v\<rparr>"
| "apply_policy_update (SetPolicyDescription v) p = p\<lparr>po_description := v\<rparr>"
| "apply_policy_update (SetScopeType v) p = p\<lparr>po_scope_type := v\<rparr>"
| "apply_policy_update (SetScopeValue v) p = p\<lparr>po_scope_value := v\<rparr>"
| "apply_policy_update (SetRuleType v) p = p\<lparr>po_rule_type := v\<rparr>"
| "apply_policy_update (SetRuleConfig v) p = p\<lparr>po_rule_config := v\<rparr>"
| "apply_policy_update (SetSeverity v) p = p\<lparr>po_severity := v\<rparr>"
| "apply_policy_update (SetPolicyEnabled v) p = p\<lparr>po_enabled := v\<rparr>"
| "apply_policy_update (SetFailAction v) p = p\<lparr>po_fail_action := v\<rparr>"
| "apply_policy_update (SetPolicyCreatedAt v) p = p\<lparr>po_created_at := v\<rparr>"
| "apply_policy_update (SetPolicyUpdatedAt v) p = p\<lparr>po_updated_at := v\<rparr>"
| "apply_policy_update (SetPolicyOther _) p = p"

definition update_policy ::
  "uuid \<Rightarrow> policy_update list \<Rightarrow> datetime \<Rightarrow> repo \<Rightarrow> repo \<times> policy_rule option" where
  "update_policy pid updates now s =
     (case repo_get_policy s pid of
        None \<Rightarrow> (s, None)
      | Some p \<Rightarrow>
          (let p' = (fold apply_policy_update updates p)\<lparr>po_updated_at := now\<rparr>
           in (save_policy p' s, Some p')))"

definition delete_policy :: "uuid \<Rightarrow> repo \<Rightarrow> repo \<times> bool" where
  "delete_policy pid s = repo_delete_policy pid s"

definition get_policy :: "uuid \<Rightarrow> repo \<Rightarrow> policy_rule option" where
  "get_policy pid s = repo_get_policy s pid"

definition list_policies :: "repo \<Rightarrow> policy_rule list" where
  "list_policies s = load_policies s"

subsection \<open>What a well-typed rule means\<close>

text \<open>
  The rules an operator writes, and the configuration that encodes each of them. \<open>permits\<close> is
  the meaning of a rule: whether the actuation of a recommendation may go ahead.
\<close>

datatype rule =
    EnvironmentRule "string list" "string list"
  | TimeRule int int "int list"
  | ApprovalRule string
  | GpuLimitRule int
  | MaintenanceRule bool string
  | CustomRule string

fun rule_type_of :: "rule \<Rightarrow> string" where
  "rule_type_of (EnvironmentRule _ _) = ''environment_restriction''"
| "rule_type_of (TimeRule _ _ _) = ''time_window''"
| "rule_type_of (ApprovalRule _) = ''approval_required''"
| "rule_type_of (GpuLimitRule _) = ''resource_limit''"
| "rule_type_of (MaintenanceRule _ _) = ''maintenance_window''"
| "rule_type_of (CustomRule t) = t"

fun config_of :: "rule \<Rightarrow> (string, json) dict" where
  "config_of (EnvironmentRule allow deny) =
     [(''allowed_environments'', JList (map JStr allow)), (''denied_environments'', JList (map JStr deny))]"
| "config_of (TimeRule start till days) =
     [(''start_hour'', JInt start), (''end_hour'', JInt till), (''allowed_days'', JList (map JInt days))]"
| "config_of (ApprovalRule why) = [(''reason'', JStr why)]"
| "config_of (GpuLimitRule n) = [(''max_gpu_count'', JInt n)]"
| "config_of (MaintenanceRule active msg) = [(''in_maintenance'', JBool active), (''message'', JStr msg)]"
| "config_of (CustomRule _) = []"

definition known_rule_types :: "string list" where
  "known_rule_types = [''environment_restriction'', ''time_window'', ''approval_required'',
     ''resource_limit'', ''maintenance_window'']"

fun rule_ok :: "rule \<Rightarrow> bool" where
  "rule_ok (TimeRule _ _ days) = list_all (\<lambda>d. 0 \<le> d \<and> d < 7) days"
| "rule_ok (CustomRule t) = (t \<notin> set known_rule_types)"
| "rule_ok _ = True"

text \<open>The recommendation an actuation names, among the latest set of its cluster.\<close>

definition target_recs :: "uuid \<Rightarrow> uuid \<Rightarrow> repo \<Rightarrow> recommendation list" where
  "target_recs cluster_id rec_id s =
     (case latest_recommendations cluster_id s of
        None \<Rightarrow> [] | Some rs \<Rightarrow> filter (\<lambda>r. rc_id r = rec_id) (rs_recommendations rs))"

fun permits :: "rule \<Rightarrow> uuid \<Rightarrow> uuid \<Rightarrow> string \<Rightarrow> datetime \<Rightarrow> repo \<Rightarrow> bool" where
  "permits (EnvironmentRule allow deny) c r env now s = (env \<notin> set deny \<and> (allow = [] \<or> env \<in> set allow))"
| "permits (TimeRule start till days) c r env now s =
     (weekday_of now \<in> set days \<and> start \<le> hour_of now \<and> hour_of now < till)"
| "permits (ApprovalRule _) c r env now s = False"
| "permits (GpuLimitRule n) c r env now s = (n \<le> 0 \<or> (\<forall>x \<in> set (target_recs c r s). gpu_involved x \<le> n))"
| "permits (MaintenanceRule active _) c r env now s = (\<not> active)"
| "permits (CustomRule _) c r env now s = True"

lemma int_in_json_ints: "int_in_json d (JList (map JInt ds)) = Inr (d \<in> set ds)"
  by (induction ds) auto

lemma day_names_ints:
  "list_all (\<lambda>d. 0 \<le> d \<and> d < 7) ds \<Longrightarrow> \<exists>ns. try_map day_name (map JInt ds) = Inr ns"
  by (rule try_map_total) (auto simp: list_all_iff day_name_at_def)

lemma str_in_json_strs: "str_in_json s (JList (map JStr xs)) = Inr (s \<in> set xs)"
  by auto

lemma num_less_ints [simp]: "num_less (JInt a) (JInt b) = Inr (a < b)"
  by (simp add: num_less_def)

lemma eval_resource_limit_permits:
  assumes cfg: "dict_get_or (po_rule_config p) ''max_gpu_count'' (JInt 0) = JInt n"
  shows "\<exists>res. eval_resource_limit p c r s = Inr res
    \<and> pr_passed res = permits (GpuLimitRule n) c r env now s
    \<and> pr_action res = (if permits (GpuLimitRule n) c r env now s then ''allow'' else ''block'')
    \<and> pr_policy_id res = po_id p \<and> pr_severity res = po_severity p"
proof (cases "n \<le> 0")
  case True
  then show ?thesis by (simp add: eval_resource_limit_def cfg verdict_def)
next
  case False
  let ?recs = "case latest_recommendations c s of None \<Rightarrow> [] | Some rs \<Rightarrow> rs_recommendations rs"
  have recs: "target_recs c r s = filter (\<lambda>x. rc_id x = r) ?recs"
    by (simp add: target_recs_def split: option.split)
  show ?thesis
  proof (cases "find (\<lambda>x. rc_id x = r \<and> n < gpu_involved x) ?recs")
    case None
    then have "\<forall>x \<in> set (target_recs c r s). gpu_involved x \<le> n"
      by (auto simp: recs find_None_iff)
    with None False show ?thesis by (simp add: eval_resource_limit_def cfg verdict_def)
  next
    case (Some x)
    then have "x \<in> set (target_recs c r s)" "n < gpu_involved x"
      by (auto simp: recs dest: find_SomeD)
    then have "\<not> permits (GpuLimitRule n) c r env now s"
      using False by (auto simp: not_le intro!: bexI [of _ x])
    with Some False show ?thesis by (simp add: eval_resource_limit_def cfg verdict_def)
  qed
qed

text \<open>
  C5: refinement of the policy language: whatever well-typed rule a policy carries, evaluating it
  never raises, its result passes exactly when the rule permits the actuation, and a result that
  does not pass always asks to block.
\<close>

theorem evaluate_policy_refines:
  assumes "rule_ok ru" and "po_rule_type p = rule_type_of ru" and "po_rule_config p = config_of ru"
  shows "\<exists>res. evaluate_policy p c r env now s = Inr res
    \<and> pr_passed res = permits ru c r env now s
    \<and> pr_action res = (if permits ru c r env now s then ''allow'' else ''block'')
    \<and> pr_policy_id res = po_id p \<and> pr_severity res = po_severity p"
proof (cases ru)
  case (EnvironmentRule allow deny)
  then show ?thesis
    using assms by (auto simp: evaluate_policy_def eval_environment_def dict_get_or_def Let_def verdict_def)
next
  case (TimeRule start till days)
  from assms(1) TimeRule obtain ns where "try_map day_name (map JInt days) = Inr ns"
    using day_names_ints by auto
  then show ?thesis
    using assms TimeRule
    by (auto simp: evaluate_policy_def eval_time_window_def dict_get_or_def Let_def verdict_def
          int_in_json_ints simp del: int_in_json.simps)
next
  case (ApprovalRule why)
  then show ?thesis
    using assms by (auto simp: evaluate_policy_def eval_approval_required_def dict_get_or_def verdict_def)
next
  case (GpuLimitRule n)
  have "evaluate_policy p c r env now s = eval_resource_limit p c r s"
    and "dict_get_or (po_rule_config p) ''max_gpu_count'' (JInt 0) = JInt n"
    using assms GpuLimitRule by (simp_all add: evaluate_policy_def dict_get_or_def)
  then show ?thesis
    using GpuLimitRule eval_resource_limit_permits by simp
next
  case (MaintenanceRule active msg)
  then show ?thesis
    using assms by (auto simp: evaluate_policy_def eval_maintenance_window_def dict_get_or_def verdict_def)
next
  case (CustomRule t)
  then show ?thesis
    using assms by (auto simp: evaluate_policy_def known_rule_types_def verdict_def)
qed

definition sample_policy :: "uuid \<Rightarrow> rule \<Rightarrow> policy_rule" where
  "sample_policy i ru = \<lparr>po_id = i, po_name = i, po_description = [], po_scope_type = ''global'',
     po_scope_value = [], po_rule_type = rule_type_of ru, po_rule_config = config_of ru,
     po_severity = SEV_HIGH, po_enabled = True, po_fail_action = ''block'',
     po_created_at = 0, po_updated_at = 0\<rparr>"

theorem evaluate_policy_refines_witness:
  "\<exists>res. evaluate_policy (sample_policy ''p'' (TimeRule 9 17 [0, 1, 2, 3, 4])) ''c'' ''r'' ''prod'' 36000000000 empty_repo
      = Inr res \<and> pr_passed res"
proof -
  have "permits (TimeRule 9 17 [0, 1, 2, 3, 4]) ''c'' ''r'' ''prod'' 36000000000 empty_repo"
    by (simp add: weekday_of_def hour_of_def)
  then show ?thesis
    using evaluate_policy_refines [of "TimeRule 9 17 [0, 1, 2, 3, 4]" "sample_policy ''p'' (TimeRule 9 17 [0, 1, 2, 3, 4])"
        "''c''" "''r''" "''prod''" 36000000000 empty_repo]
    by (auto simp: sample_policy_def)
qed

subsection \<open>The verdict of a pre-flight check\<close>

lemma evaluate_policy_action:
  "evaluate_policy p c r env now s = Inr res \<Longrightarrow> pr_action res = (if pr_passed res then ''allow'' else ''block'')"
  by (auto simp: evaluate_policy_def eval_environment_def eval_time_window_def eval_approval_required_def
        eval_resource_limit_def eval_maintenance_window_def Let_def verdict_def try_bind_Inr_iff
        split: if_splits option.splits)

definition policy_passes :: "policy_rule \<Rightarrow> uuid \<Rightarrow> uuid \<Rightarrow> string \<Rightarrow> datetime \<Rightarrow> repo \<Rightarrow> bool" where
  "policy_passes p c r env now s \<longleftrightarrow> (\<exists>res. evaluate_policy p c r env now s = Inr res \<and> pr_passed res)"

lemma results_pass_iff:
  "list_all2 (\<lambda>p res. evaluate_policy p c r env (clk p) s = Inr res) ps results \<Longrightarrow>
    list_all pr_passed results \<longleftrightarrow> list_all (\<lambda>p. policy_passes p c r env (clk p) s) ps"
  by (induction rule: list_all2_induct) (auto simp: policy_passes_def)

lemma results_actions:
  "list_all2 (\<lambda>p res. evaluate_policy p c r env (clk p) s = Inr res) ps results \<Longrightarrow> x \<in> set results
    \<Longrightarrow> pr_action x = (if pr_passed x then ''allow'' else ''block'')"
  by (induction rule: list_all2_induct) (auto dest: evaluate_policy_action)

lemma check_pre_flight_InrE:
  assumes "check_pre_flight c r env clk now s = Inr f"
  obtains results where
    "list_all2 (\<lambda>p res. evaluate_policy p c r env (clk p) s = Inr res) (relevant_policies c env s) results"
    and "pf_results f = results" and "pf_policy_count f = int (length results)"
    and "pf_passed_count f = int (length (filter pr_passed results))"
    and "pf_blocked_count f = int (length (filter (\<lambda>x. \<not> pr_passed x) results))"
    and "pf_warned_count f = 0"
    and "pf_overall_passed f = list_all pr_passed results"
    and "pf_requires_approval f = (\<not> list_all pr_passed results)"
proof -
  from assms obtain results where
    all: "list_all2 (\<lambda>p res. evaluate_policy p c r env (clk p) s = Inr res) (relevant_policies c env s) results"
    and ev: "try_map (\<lambda>p. evaluate_policy p c r env (clk p) s) (relevant_policies c env s) = Inr results"
    by (auto simp: check_pre_flight_def Let_def try_bind_Inr_iff try_map_Inr_iff)
  have act: "x \<in> set results \<Longrightarrow> pr_action x = (if pr_passed x then ''allow'' else ''block'')" for x
    by (rule results_actions [OF all])
  have blk: "filter (\<lambda>x. \<not> pr_passed x \<and> pr_action x = ''block'') results = filter (\<lambda>x. \<not> pr_passed x) results"
    by (rule filter_cong) (auto dest: act)
  have wrn: "filter (\<lambda>x. \<not> pr_passed x \<and> pr_action x = ''warn'') results = []"
    by (auto simp: filter_empty_conv dest: act)
  have nec: "list_ex (\<lambda>x. pr_action x = ''block'' \<and> \<not> pr_passed x) results = (\<not> list_all pr_passed results)"
    using act by (auto simp: list_ex_iff list_all_iff)
  have none: "(filter (\<lambda>x. \<not> pr_passed x) results = []) = list_all pr_passed results"
    by (auto simp: filter_empty_conv list_all_iff)
  show thesis
    using assms that [OF all] by (auto simp: check_pre_flight_def Let_def ev blk wrn nec none)
qed

lemma pre_flight_overall:
  assumes "check_pre_flight c r env clk now s = Inr f"
  shows "pf_overall_passed f \<longleftrightarrow>
    (\<forall>p \<in> set (repo_list_policies s). po_enabled p \<and> policy_applies p c env \<longrightarrow> policy_passes p c r env (clk p) s)"
  using assms
proof (rule check_pre_flight_InrE)
  fix results
  assume all: "list_all2 (\<lambda>p res. evaluate_policy p c r env (clk p) s = Inr res) (relevant_policies c env s) results"
    and f: "pf_overall_passed f = list_all pr_passed results"
  show ?thesis
    unfolding f results_pass_iff [OF all] by (auto simp: relevant_policies_def load_policies_def list_all_iff)
qed

text \<open>
  C19: the verdict of a pre-flight check that returns: it passes exactly when every enabled policy
  that applies to the cluster and environment passes, approval is required exactly when it does
  not pass, the passed and blocked results add up to the policies checked, and no result is ever a
  warning, whatever a policy's \<open>fail_action\<close> says.
\<close>

theorem pre_flight_verdict:
  assumes "check_pre_flight c r env clk now s = Inr f"
  shows "(pf_overall_passed f \<longleftrightarrow>
            (\<forall>p \<in> set (repo_list_policies s). po_enabled p \<and> policy_applies p c env \<longrightarrow>
               policy_passes p c r env (clk p) s))
    \<and> pf_requires_approval f = (\<not> pf_overall_passed f)
    \<and> pf_passed_count f + pf_blocked_count f = pf_policy_count f
    \<and> pf_policy_count f = int (length (relevant_policies c env s))
    \<and> pf_warned_count f = 0"
  using assms
proof (rule check_pre_flight_InrE)
  fix results
  assume all: "list_all2 (\<lambda>p res. evaluate_policy p c r env (clk p) s = Inr res) (relevant_policies c env s) results"
    and f: "pf_policy_count f = int (length results)" "pf_passed_count f = int (length (filter pr_passed results))"
      "pf_blocked_count f = int (length (filter (\<lambda>x. \<not> pr_passed x) results))" "pf_warned_count f = 0"
      "pf_overall_passed f = list_all pr_passed results" "pf_requires_approval f = (\<not> list_all pr_passed results)"
  have "pf_requires_approval f = (\<not> pf_overall_passed f)"
    using f by simp
  then show ?thesis
    using f(1-4) list_all2_lengthD [OF all] sum_length_filter_compl [of pr_passed results]
      pre_flight_overall [OF assms] by simp
qed

definition sample_policies :: repo where
  "sample_policies = fst (create_policy (sample_policy ''p1'' (EnvironmentRule [''dev''] []))
     (fst (create_policy (sample_policy ''p2'' (ApprovalRule ''peer review'')) empty_repo)))"

lemmas sample_policies_defs = sample_policies_def sample_policy_def create_policy_def save_policy_def
  replace_row_def empty_repo_def check_pre_flight_def relevant_policies_def load_policies_def
  repo_list_policies_def sorted_by_def policy_applies_def evaluate_policy_def eval_environment_def
  eval_approval_required_def dict_get_or_def verdict_def get_cluster_def select_one_def

lemma sample_check: "\<exists>f. check_pre_flight ''c'' ''r'' ''dev'' (\<lambda>_. 0) 0 sample_policies = Inr f
    \<and> pf_policy_count f = 2 \<and> pf_passed_count f = 1"
  by (simp add: sample_policies_defs Let_def)

theorem pre_flight_verdict_witness:
  "\<exists>f. check_pre_flight ''c'' ''r'' ''dev'' (\<lambda>_. 0) 0 sample_policies = Inr f
     \<and> pf_blocked_count f = 1 \<and> pf_requires_approval f = (\<not> pf_overall_passed f)"
proof -
  obtain f where f: "check_pre_flight ''c'' ''r'' ''dev'' (\<lambda>_. 0) 0 sample_policies = Inr f"
    "pf_policy_count f = 2" "pf_passed_count f = 1" using sample_check by blast
  with pre_flight_verdict [OF f(1)] show ?thesis by auto
qed

subsection \<open>Guardrails only tighten\<close>

lemma latest_recommendations_save_policy [simp]:
  "latest_recommendations c (save_policy p s) = latest_recommendations c s"
  by (simp add: latest_recommendations_def save_policy_def)

lemma evaluate_policy_save_policy [simp]:
  "evaluate_policy q c r env now (save_policy p s) = evaluate_policy q c r env now s"
  unfolding evaluate_policy_def eval_resource_limit_def latest_recommendations_save_policy by (rule refl)

lemma policy_passes_save_policy [simp]:
  "policy_passes q c r env now (save_policy p s) = policy_passes q c r env now s"
  by (simp add: policy_passes_def)

lemma set_policies_save:
  "set (repo_list_policies (save_policy p s)) = insert p {q \<in> set (repo_list_policies s). po_id q \<noteq> po_id p}"
  by (auto simp: repo_list_policies_def save_policy_def replace_row_def)

lemma get_policy_None: "repo_get_policy s i = None \<longleftrightarrow> (\<forall>q \<in> set (repo_list_policies s). po_id q \<noteq> i)"
  by (auto simp: repo_get_policy_def select_one_def repo_list_policies_def find_None_iff)

text \<open>
  A new policy can only tighten: when the check passes after a policy under a fresh identifier
  was created, it passed before too, and the new policy, where it is enabled and applies, passes;
  and conversely the check passes after creating a policy that passes or does not apply.
\<close>

theorem create_policy_tightens:
  assumes "get_policy (po_id p) s = None"
    and "check_pre_flight c r env clk now s = Inr before"
    and "check_pre_flight c r env clk now (fst (create_policy p s)) = Inr after"
  shows "pf_overall_passed after \<longleftrightarrow> pf_overall_passed before \<and>
    (po_enabled p \<and> policy_applies p c env \<longrightarrow> policy_passes p c r env (clk p) s)"
proof -
  have fresh: "\<forall>q \<in> set (repo_list_policies s). po_id q \<noteq> po_id p"
    using assms(1) by (simp add: get_policy_def get_policy_None)
  then have all: "set (repo_list_policies (fst (create_policy p s))) = insert p (set (repo_list_policies s))"
    by (auto simp: create_policy_def set_policies_save)
  show ?thesis
    unfolding pre_flight_overall [OF assms(2)] pre_flight_overall [OF assms(3)] all
    by (auto simp: create_policy_def)
qed

theorem create_policy_tightens_witness:
  "\<exists>f. check_pre_flight ''c'' ''r'' ''dev'' (\<lambda>_. 0) 0
        (fst (create_policy (sample_policy ''p2'' (ApprovalRule ''peer review'')) empty_repo)) = Inr f
     \<and> \<not> pf_overall_passed f"
proof -
  let ?p = "sample_policy ''p2'' (ApprovalRule ''peer review'')"
  obtain f where f: "check_pre_flight ''c'' ''r'' ''dev'' (\<lambda>_. 0) 0 (fst (create_policy ?p empty_repo)) = Inr f"
    by (simp add: sample_policies_defs Let_def)
  obtain g where g: "check_pre_flight ''c'' ''r'' ''dev'' (\<lambda>_. 0) 0 empty_repo = Inr g"
    by (simp add: sample_policies_defs Let_def)
  have "get_policy (po_id ?p) empty_repo = None"
    by (simp add: get_policy_def repo_get_policy_def select_one_def empty_repo_def)
  from create_policy_tightens [OF this g f] have "\<not> pf_overall_passed f"
    by (simp add: policy_passes_def sample_policies_defs)
  with f show ?thesis by blast
qed

text \<open>A deleted policy is gone, and updating one keeps its identifier and creation of others.\<close>

lemma fold_policy_update_id [simp]: "po_id (fold apply_policy_update us p) = po_id p"
proof (induction us arbitrary: p)
  case (Cons u us)
  have "po_id (apply_policy_update u p) = po_id p" by (cases u) simp_all
  with Cons show ?case by simp
qed simp

text \<open>
  Managing policies: after an update, reading the policy gives its old fields with the updates
  applied and the time of the update, its identifier unchanged, and every other policy reads as
  before; after a deletion, reading the policy gives nothing and every other one reads as before;
  the result of deleting tells whether the policy was there.
\<close>

theorem manage_policies:
  "repo_get_policy (fst (update_policy i us now s)) =
     (case repo_get_policy s i of None \<Rightarrow> repo_get_policy s
      | Some p \<Rightarrow> (repo_get_policy s)(i \<mapsto> (fold apply_policy_update us p)\<lparr>po_updated_at := now\<rparr>))
   \<and> repo_get_policy (fst (delete_policy i s)) = (repo_get_policy s)(i := None)
   \<and> snd (delete_policy i s) = (repo_get_policy s i \<noteq> None)"
proof (intro conjI)
  show "repo_get_policy (fst (update_policy i us now s)) =
     (case repo_get_policy s i of None \<Rightarrow> repo_get_policy s
      | Some p \<Rightarrow> (repo_get_policy s)(i \<mapsto> (fold apply_policy_update us p)\<lparr>po_updated_at := now\<rparr>))"
    by (auto simp: update_policy_def Let_def policies.load_save dest: policies.load_norm split: option.split)
  have "find (\<lambda>p. k = po_id p) (filter (\<lambda>p. po_id p \<noteq> i) ps) = (if k = i then None else find (\<lambda>p. k = po_id p) ps)"
    for k and ps :: "policy_rule list"
    by (induction ps) auto
  then show "repo_get_policy (fst (delete_policy i s)) = (repo_get_policy s)(i := None)"
    by (auto simp: delete_policy_def repo_delete_policy_def repo_get_policy_def select_one_def)
  show "snd (delete_policy i s) = (repo_get_policy s i \<noteq> None)"
    by (auto simp: delete_policy_def repo_delete_policy_def repo_get_policy_def select_one_def
        find_None_iff list_ex_iff)
qed

subsection \<open>Chaos experiments\<close>

datatype chaos_fault = NODE_FAILURE | GPU_FAILURE | NETWORK_PARTITION | MEMORY_PRESSURE
  | DISK_FILL | LATENCY_INJECTION | POD_KILL

fun chaos_fault_value :: "chaos_fault \<Rightarrow> string" where
  "chaos_fault_value NODE_FAILURE = ''node_failure''"
| "chaos_fault_value GPU_FAILURE = ''gpu_failure''"
| "chaos_fault_value NETWORK_PARTITION = ''network_partition''"
| "chaos_fault_value MEMORY_PRESSURE = ''memory_pressure''"
| "chaos_fault_value DISK_FILL = ''disk_fill''"
| "chaos_fault_value LATENCY_INJECTION = ''latency_injection''"
| "chaos_fault_value POD_KILL = ''pod_kill''"

record chaos_target =
  ct_target_type :: string
  ct_selector :: "(string, json) dict"
  ct_count :: int

record chaos_experiment =
  ce_id :: uuid
  ce_cluster_id :: uuid
  ce_cluster_name :: string
  ce_name :: string
  ce_description :: string
  ce_fault_type :: chaos_fault
  ce_target :: chaos_target
  ce_duration_seconds :: int
  ce_intensity :: rat
  ce_status :: string
  ce_started_at :: "datetime option"
  ce_completed_at :: "datetime option"
  ce_created_at :: datetime
  ce_created_by :: string

record chaos_result =
  cr_experiment :: chaos_experiment
  cr_experiment_status :: string
  cr_target_impacted :: int
  cr_gpu_drop :: rat
  cr_latency_increase :: rat
  cr_error_count :: int
  cr_recovery_time :: rat
  cr_system_resilient :: bool
  cr_observations :: "piece list list"
  cr_recommendations :: "string list"
  cr_summary :: "piece list"

type_synonym chaos = "(uuid, chaos_experiment) dict"

definition create_experiment :: "uuid \<Rightarrow> datetime \<Rightarrow> chaos_experiment \<Rightarrow> chaos \<Rightarrow> chaos \<times> chaos_experiment" where
  "create_experiment i now e s =
     (let e' = e\<lparr>ce_id := i, ce_created_at := now\<rparr> in (dict_set i e' s, e'))"

definition get_experiment :: "uuid \<Rightarrow> chaos \<Rightarrow> chaos_experiment option" where
  "get_experiment i s = dict_get s i"

definition list_experiments :: "uuid option \<Rightarrow> chaos \<Rightarrow> chaos_experiment list" where
  "list_experiments c s =
     sorted_by_desc ce_created_at
       (case c of None \<Rightarrow> dict_values s | Some cid \<Rightarrow> filter (\<lambda>e. ce_cluster_id e = cid) (dict_values s))"

text \<open>The four random draws of a run, before rounding, and its two clock readings are arguments.\<close>

definition run_experiment ::
  "uuid \<Rightarrow> rat \<Rightarrow> rat \<Rightarrow> rat \<Rightarrow> int \<Rightarrow> datetime \<Rightarrow> datetime \<Rightarrow> chaos \<Rightarrow> py_error + chaos \<times> chaos_result" where
  "run_experiment i u_recovery u_drop u_latency errors now now2 s =
     (case dict_get s i of
        None \<Rightarrow> Inl (KeyError (''Chaos experiment not found: '' @ i))
      | Some e \<Rightarrow>
          (let e1 = e\<lparr>ce_status := ''running'', ce_started_at := Some now\<rparr>;
               target_count = max 1 (ct_count (ce_target e1));
               recovery_time = py_round 1 u_recovery;
               gpu_drop = py_round 1 u_drop;
               latency_inc = py_round 1 u_latency;
               resilient = (errors < 5 \<and> gpu_drop < 40);
               observations =
                 [[Txt (''Targeted '' @ int_str target_count @ '' resources with '' @ chaos_fault_value (ce_fault_type e1))],
                  [Txt ''GPU utilization dropped '', Val (JFloat gpu_drop), Txt ''% during fault''],
                  [Txt ''Latency increased by '', Val (JFloat latency_inc), Txt ''ms'']] @
                 (if resilient then [[Txt ''System self-healed within expected timeframe''], [Txt ''No cascading failures detected'']]
                  else [[Txt ''System showed signs of instability''], [Txt ''Manual intervention may be required'']]);
               recs =
                 (if \<not> resilient then [''Add circuit breakers to prevent cascading failures'',
                    ''Implement pod disruption budgets'', ''Review resource limits and requests'']
                  else [''Continue current resilience practices'',
                    ''Consider expanding chaos coverage to more fault types'']);
               e2 = e1\<lparr>ce_status := ''completed'', ce_completed_at := Some now2\<rparr>
           in Inr (dict_set i e2 s,
                \<lparr>cr_experiment = e2, cr_experiment_status = ''completed'', cr_target_impacted = target_count,
                 cr_gpu_drop = gpu_drop, cr_latency_increase = latency_inc, cr_error_count = errors,
                 cr_recovery_time = recovery_time, cr_system_resilient = resilient,
                 cr_observations = observations, cr_recommendations = recs,
                 cr_summary = [Txt (''Chaos experiment '' @ quoted (ce_name e2) @ '': '' @
                     (if resilient then ''RESILIENT'' else ''FAILURES DETECTED'') @ '' (GPU drop: ''),
                     Val (JFloat gpu_drop), Txt ''%, errors: '', Val (JInt errors),
                     Txt '', recovery: '', Val (JFloat recovery_time), Txt ''s)'']\<rparr>)))"

definition delete_experiment :: "uuid \<Rightarrow> chaos \<Rightarrow> chaos \<times> bool" where
  "delete_experiment i s = (if dict_has s i then (dict_pop i s, True) else (s, False))"

text \<open>
  A chaos run with draws in the ranges the code asks for completes the experiment it names and
  leaves every other one alone; the reported figures stay in the ranges of the draws, at least one
  target is impacted, and the run is judged resilient exactly when fewer than five errors occurred
  and the GPU utilization dropped by less than forty percent.
\<close>

theorem run_experiment_sound:
  assumes "dict_get s i = Some e" and "5 \<le> u_recovery" and "u_recovery \<le> 120"
    and "5 \<le> u_drop" and "u_drop \<le> 60" and "10 \<le> u_latency" and "u_latency \<le> 500"
  shows "\<exists>s' r. run_experiment i u_recovery u_drop u_latency errors now now2 s = Inr (s', r)
    \<and> get_experiment i s' = Some (e\<lparr>ce_status := ''completed'', ce_started_at := Some now, ce_completed_at := Some now2\<rparr>)
    \<and> (\<forall>j. j \<noteq> i \<longrightarrow> get_experiment j s' = get_experiment j s)
    \<and> cr_gpu_drop r \<in> {5..60} \<and> cr_latency_increase r \<in> {10..500} \<and> cr_recovery_time r \<in> {5..120}
    \<and> 1 \<le> cr_target_impacted r
    \<and> cr_system_resilient r = (errors < 5 \<and> cr_gpu_drop r < 40)"
proof -
  have "py_round 1 u_drop \<in> {5..60}" "py_round 1 u_latency \<in> {10..500}" "py_round 1 u_recovery \<in> {5..120}"
    using py_round_bounds [of 5 u_drop 60 1] py_round_bounds [of 10 u_latency 500 1]
      py_round_bounds [of 5 u_recovery 120 1] assms by auto
  then show ?thesis
    using assms(1) by (simp add: run_experiment_def get_experiment_def Let_def)
qed

definition sample_experiment :: chaos_experiment where
  "sample_experiment = \<lparr>ce_id = ''x'', ce_cluster_id = ''c'', ce_cluster_name = [], ce_name = ''drill'',
     ce_description = [], ce_fault_type = GPU_FAILURE,
     ce_target = \<lparr>ct_target_type = ''gpu'', ct_selector = [], ct_count = 0\<rparr>, ce_duration_seconds = 60,
     ce_intensity = 1 / 2, ce_status = ''pending'', ce_started_at = None, ce_completed_at = None,
     ce_created_at = 0, ce_created_by = ''system''\<rparr>"

theorem run_experiment_sound_witness:
  "\<exists>s' r. run_experiment ''x'' 60 41 100 2 1 2 [(''x'', sample_experiment)] = Inr (s', r)
     \<and> cr_system_resilient r = (cr_gpu_drop r < 40)"
  using run_experiment_sound [of "[(''x'', sample_experiment)]" "''x''" sample_experiment 60 41 100 2 1 2]
  by auto

end
