(* ===== verification/Actuation.thy ===== *)
theory Actuation
  imports Repository Values
begin

text \<open>
  \<open>ActuationService\<close> of src/src/gpuopt/actuation.py: applying a recommendation to the digital twin
  of a cluster, dry runs, rollback and the summary. The twin's state is JSON, so the code parses
  the nodes dynamically: an exception there ends in a stored record of status failed. The
  functions that call nvidia-smi are not modelled.
\<close>

subsection \<open>The nodes of a twin\<close>

type_synonym node = "(string, json) dict"
type_synonym node_map = "(json, node) dict"

text \<open>Python dictionary keys: numbers that are equal are the same key; lists and objects are unhashable.\<close>

fun hash_key :: "json \<Rightarrow> py_error + json" where
  "hash_key (JBool b) = Inr (JInt (if b then 1 else 0))"
| "hash_key (JFloat x) = Inr (if of_int \<lfloor>x\<rfloor> = x then JInt \<lfloor>x\<rfloor> else JFloat x)"
| "hash_key (JList _) = Inl (TypeError ''unhashable type: list'')"
| "hash_key (JObj _) = Inl (TypeError ''unhashable type: dict'')"
| "hash_key v = Inr v"

fun node_entry :: "json \<Rightarrow> py_error + json \<times> node" where
  "node_entry (JObj kvs) =
     (case dict_get kvs ''name'' of
        None \<Rightarrow> Inl (KeyError ''name'')
      | Some v \<Rightarrow> try_bind (hash_key v) (\<lambda>k. Inr (k, kvs)))"
| "node_entry _ = Inl (TypeError ''indices must be integers'')"

fun iter_nodes :: "json \<Rightarrow> py_error + json list" where
  "iter_nodes (JList xs) = Inr xs"
| "iter_nodes (JObj kvs) = Inr (map (\<lambda>kv. JStr (fst kv)) kvs)"
| "iter_nodes (JStr s) = Inr (map (\<lambda>c. JStr [c]) s)"
| "iter_nodes _ = Inl (TypeError ''object is not iterable'')"

fun state_nodes :: "json \<Rightarrow> py_error + json list" where
  "state_nodes (JObj kvs) = iter_nodes (dict_get_or kvs ''nodes'' (JList []))"
| "state_nodes _ = Inl (AttributeError ''object has no attribute get'')"

definition build_node_map :: "json \<Rightarrow> py_error + node_map" where
  "build_node_map st =
     try_bind (state_nodes st) (\<lambda>ns. try_bind (try_map node_entry ns) (\<lambda>es.
       Inr (fold (\<lambda>(k, n) m. dict_set k n m) es [])))"

definition dump_nodes :: "node_map \<Rightarrow> json" where
  "dump_nodes m = JObj [(''nodes'', JList (map JObj (dict_values m)))]"

subsection \<open>Applying a recommendation\<close>

record applied =
  apl_type :: string
  apl_target :: json
  apl_value :: string
  apl_message :: string

definition mentions :: "string \<Rightarrow> recommendation \<Rightarrow> bool" where
  "mentions w r \<longleftrightarrow> str_contains w (str_lower (recommendation_type_value (rc_type r))) \<or>
                   str_contains w (str_lower (rc_title r))"

definition rec_prefix :: "recommendation \<Rightarrow> string" where
  "rec_prefix r = ''['' @ recommendation_type_value (rc_type r) @ ''] '' @ rc_title r"

definition reduce_gpu_memory :: "node \<Rightarrow> py_error + node" where
  "reduce_gpu_memory n =
     try_bind (json_float (dict_get_or n ''allocatable_gpu_memory'' (JStr ''0''))) (\<lambda>x.
     try_bind (float_to_int (float_mult x (9 / 10))) (\<lambda>i.
       Inr (dict_set ''allocatable_gpu_memory'' (JStr (int_str i)) n)))"

definition drop_pod :: "node \<Rightarrow> py_error + node" where
  "drop_pod n =
     try_bind (json_int (dict_get_or n ''pod_count'' (JStr ''0''))) (\<lambda>i.
       Inr (dict_set ''pod_count'' (JInt (max (i - 1) 0)) n))"

definition on_node :: "(node \<Rightarrow> py_error + node) \<Rightarrow> json \<times> node \<Rightarrow> py_error + json \<times> node" where
  "on_node f kn = try_bind (f (snd kn)) (\<lambda>n. Inr (fst kn, n))"

definition apply_rec_to_twin :: "recommendation \<Rightarrow> node_map \<Rightarrow> py_error + node_map \<times> applied" where
  "apply_rec_to_twin r m =
     (if mentions ''gpu'' r then
        (case m of
           [] \<Rightarrow> Inr (m, \<lparr>apl_type = ''resource_adjustment'', apl_target = JStr ''unknown'',
                      apl_value = ''gpu_memory_reduced_10pct'',
                      apl_message = rec_prefix r @ '': reduced GPU memory by 10%''\<rparr>)
         | kn # rest \<Rightarrow>
             try_bind (on_node reduce_gpu_memory kn) (\<lambda>kn'.
               Inr (kn' # rest, \<lparr>apl_type = ''resource_adjustment'', apl_target = fst kn,
                      apl_value = ''gpu_memory_reduced_10pct'',
                      apl_message = rec_prefix r @ '': reduced GPU memory by 10%''\<rparr>)))
      else if mentions ''node'' r then
        Inr (m, \<lparr>apl_type = ''node_recommendation'', apl_target = JStr ''cluster'',
               apl_value = ''node_count_adjusted'', apl_message = rec_prefix r @ '': node recommendation applied''\<rparr>)
      else if mentions ''pod'' r then
        try_bind (try_map (on_node drop_pod) m) (\<lambda>m'.
          Inr (m', \<lparr>apl_type = ''pod_consolidation'', apl_target = JStr ''cluster'',
               apl_value = ''pods_reduced'', apl_message = rec_prefix r @ '': pod consolidation applied''\<rparr>))
      else
        Inr (m, \<lparr>apl_type = ''general_adjustment'', apl_target = JStr ''cluster'',
               apl_value = ''config_updated'', apl_message = rec_prefix r @ '': general adjustment applied''\<rparr>))"

subsection \<open>Actuation\<close>

text \<open>
  The identifiers drawn and the clock readings of one call: the record's identifier, the
  identifier of a twin built on the way, and the readings at the start, for that twin and at the
  end.
\<close>

record act_env =
  ae_record_id :: uuid
  ae_twin_id :: uuid
  ae_start :: datetime
  ae_twin_time :: datetime
  ae_end :: datetime

definition build_twin_from_state :: "act_env \<Rightarrow> cluster \<Rightarrow> twin_state option" where
  "build_twin_from_state e c =
     Some \<lparr>tw_id = ae_twin_id e, tw_cluster_id = cl_id c, tw_cluster_name = cl_name c,
           tw_environment = cl_environment c, tw_synced_at = ae_twin_time e,
           tw_original_collected_at = None, tw_node_count = 0, tw_gpu_count = 0,
           tw_state_json = Some (JObj [(''nodes'', JList [])]), tw_has_diverged = False,
           tw_divergence_reason = []\<rparr>"

definition new_record :: "act_env \<Rightarrow> cluster \<Rightarrow> recommendation \<Rightarrow> bool \<Rightarrow> actuation_record" where
  "new_record e c r dry =
     \<lparr>ac_id = ae_record_id e, ac_cluster_id = cl_id c, ac_cluster_name = cl_name c,
      ac_environment = cl_environment c, ac_rec_id = rc_id r, ac_rec_title = rc_title r,
      ac_rec_type = recommendation_type_value (rc_type r), ac_status = ACT_IN_PROGRESS,
      ac_dry_run = dry, ac_started_at = ae_start e, ac_completed_at = None, ac_actions = [],
      ac_result_summary = [], ac_error_message = [], ac_rollback_of = [], ac_rolled_back_by = []\<rparr>"

definition finish ::
  "act_env \<Rightarrow> actuation_action list \<Rightarrow> actuation_status \<Rightarrow> string \<Rightarrow> string \<Rightarrow> actuation_record \<Rightarrow> actuation_record" where
  "finish e acts st summary err rec =
     rec\<lparr>ac_actions := acts, ac_status := st, ac_completed_at := Some (ae_end e),
         ac_result_summary := summary, ac_error_message := err\<rparr>"

text \<open>
  The part of the try block that works on the twin: the node map, the change, the saved twin and
  the action. The action's target must be a text. When building the action raises, the twin is
  already saved.
\<close>

definition apply_to_twin ::
  "act_env \<Rightarrow> recommendation \<Rightarrow> twin_state \<Rightarrow> repo \<Rightarrow> repo \<times> (py_error + actuation_action)" where
  "apply_to_twin e r tw s =
     (case try_bind (build_node_map (case tw_state_json tw of None \<Rightarrow> JObj [] | Some v \<Rightarrow> v))
                    (apply_rec_to_twin r) of
        Inl err \<Rightarrow> (s, Inl err)
      | Inr (m, a) \<Rightarrow>
          (let tw' = tw\<lparr>tw_state_json := Some (dump_nodes m), tw_has_diverged := True,
                        tw_divergence_reason := ''Applied recommendation: '' @ rc_title r @
                          '' (actuation '' @ ae_record_id e @ '')''\<rparr>
           in (save_twin tw' s,
               case apl_target a of
                 JStr t \<Rightarrow> Inr \<lparr>aa_action_type = apl_type a, aa_target = t, aa_value = apl_value a,
                               aa_status = ''success'', aa_message = apl_message a\<rparr>
               | _ \<Rightarrow> Inl (ValueError ''Input should be a valid string''))))"

definition actuate :: "act_env \<Rightarrow> uuid \<Rightarrow> uuid \<Rightarrow> bool \<Rightarrow> repo \<Rightarrow> py_error + repo \<times> actuation_record" where
  "actuate e cluster_id rec_id dry_run s =
     (case get_cluster cluster_id s of
        None \<Rightarrow> Inl (KeyError (''Cluster not found: '' @ cluster_id))
      | Some c \<Rightarrow>
     (case latest_recommendations cluster_id s of
        None \<Rightarrow> Inl (KeyError ''No recommendations available for this cluster'')
      | Some rs \<Rightarrow>
     (case find (\<lambda>r. rc_id r = rec_id) (rs_recommendations rs) of
        None \<Rightarrow> Inl (KeyError (''Recommendation not found: '' @ rec_id))
      | Some r \<Rightarrow>
          (let rec = new_record e c r dry_run
           in Inr
            (if dry_run then
               (let rec' = finish e [\<lparr>aa_action_type = ''dry_run'', aa_target = ''cluster'', aa_value = ''simulated'',
                                    aa_status = ''success'', aa_message = ''Dry-run validation passed''\<rparr>]
                             ACT_COMPLETED (''Dry-run completed for recommendation: '' @ rc_title r) [] rec
                in (save_actuation rec' s, rec'))
             else
               (case (case get_twin cluster_id s of Some tw \<Rightarrow> Some tw | None \<Rightarrow> build_twin_from_state e c) of
                  None \<Rightarrow>
                    (let rec' = finish e [\<lparr>aa_action_type = ''state_check'', aa_target = ''cluster'', aa_value = ''no_state'',
                                    aa_status = ''failed'', aa_message = ''No cluster state or twin available''\<rparr>]
                             ACT_FAILED [] ''No cluster state or twin available for actuation'' rec
                     in (save_actuation rec' s, rec'))
                | Some tw \<Rightarrow>
                    (case apply_to_twin e r tw s of
                       (s', Inr a) \<Rightarrow>
                         (let rec' = finish e [a] ACT_COMPLETED (''Applied recommendation: '' @ rc_title r) [] rec
                          in (save_actuation rec' s', rec'))
                     | (s', Inl err) \<Rightarrow>
                         (let rec' = finish e [] ACT_FAILED [] (error_text err) rec
                          in (save_actuation rec' s', rec')))))))))"

subsection \<open>Rollback and queries\<close>

definition mark_converged :: "json option \<Rightarrow> py_error + json option" where
  "mark_converged st =
     (case st of
        None \<Rightarrow> Inr None
      | Some (JObj kvs) \<Rightarrow> Inr (Some (JObj (dict_set ''diverged'' (JBool False) kvs)))
      | Some _ \<Rightarrow> Inl (TypeError ''object does not support item assignment''))"

definition rollback :: "act_env \<Rightarrow> uuid \<Rightarrow> uuid \<Rightarrow> repo \<Rightarrow> py_error + repo \<times> actuation_record" where
  "rollback e cluster_id actuation_id s =
     (case repo_get_actuation cluster_id actuation_id s of
        None \<Rightarrow> Inl (KeyError (''Actuation not found: '' @ actuation_id))
      | Some orig \<Rightarrow>
          (if ac_status orig \<noteq> ACT_COMPLETED then
             Inl (KeyError (''Actuation '' @ actuation_id @ '' is in status '' @
                    quoted (actuation_status_value (ac_status orig)) @ '' and cannot be rolled back''))
           else (case get_twin cluster_id s of
             None \<Rightarrow> Inl (KeyError ''No twin available to roll back'')
           | Some tw \<Rightarrow>
               try_bind (mark_converged (tw_state_json tw)) (\<lambda>st.
                 (let what = ''Rolled back actuation '' @ actuation_id;
                      tw' = tw\<lparr>tw_state_json := st, tw_has_diverged := False, tw_divergence_reason := what\<rparr>;
                      c = get_cluster cluster_id s;
                      rec = \<lparr>ac_id = ae_record_id e, ac_cluster_id = cluster_id,
                             ac_cluster_name = (case c of Some c \<Rightarrow> cl_name c | None \<Rightarrow> ''unknown''),
                             ac_environment = (case c of Some c \<Rightarrow> cl_environment c | None \<Rightarrow> []),
                             ac_rec_id = ac_rec_id orig, ac_rec_title = ac_rec_title orig,
                             ac_rec_type = ac_rec_type orig, ac_status = ACT_ROLLED_BACK,
                             ac_dry_run = False, ac_started_at = ae_start e,
                             ac_completed_at = Some (ae_end e),
                             ac_actions = [\<lparr>aa_action_type = ''rollback'', aa_target = ''twin'', aa_value = ''restored'',
                                            aa_status = ''success'', aa_message = what\<rparr>],
                             ac_result_summary = what @ '' for recommendation: '' @ ac_rec_title orig,
                             ac_error_message = [], ac_rollback_of = actuation_id, ac_rolled_back_by = []\<rparr>
                  in Inr (save_actuation rec (save_twin tw' s), rec))))))"

definition get_actuation :: "uuid \<Rightarrow> uuid \<Rightarrow> repo \<Rightarrow> actuation_record option" where
  "get_actuation cid aid s = repo_get_actuation cid aid s"

definition list_actuations :: "uuid \<Rightarrow> int \<Rightarrow> repo \<Rightarrow> py_error + actuation_record list" where
  "list_actuations cid lmt s =
     (case get_cluster cid s of
        None \<Rightarrow> Inl (KeyError (''Cluster not found: '' @ cid))
      | Some c \<Rightarrow> Inr (repo_list_actuations cid lmt s))"

record actuation_summary =
  as_cluster_id :: uuid
  as_cluster_name :: string
  as_environment :: string
  as_total :: int
  as_successful :: int
  as_failed :: int
  as_in_progress :: int
  as_rolled_back :: int
  as_pending :: int
  as_latest :: "actuation_record option"

definition count_status :: "actuation_status \<Rightarrow> actuation_record list \<Rightarrow> int" where
  "count_status st rs = int (length (filter (\<lambda>a. ac_status a = st) rs))"

definition summarize :: "uuid \<Rightarrow> repo \<Rightarrow> py_error + actuation_summary" where
  "summarize cid s =
     (case get_cluster cid s of
        None \<Rightarrow> Inl (KeyError (''Cluster not found: '' @ cid))
      | Some c \<Rightarrow>
          try_bind (list_actuations cid 1000 s) (\<lambda>as.
            Inr \<lparr>as_cluster_id = cid, as_cluster_name = cl_name c, as_environment = cl_environment c,
                 as_total = int (length as), as_successful = count_status ACT_COMPLETED as,
                 as_failed = count_status ACT_FAILED as, as_in_progress = count_status ACT_IN_PROGRESS as,
                 as_rolled_back = count_status ACT_ROLLED_BACK as, as_pending = count_status ACT_PENDING as,
                 as_latest = (case as of [] \<Rightarrow> None | a # _ \<Rightarrow> Some a)\<rparr>))"

subsection \<open>What applying a recommendation may change\<close>

lemma on_node_Inr: "on_node f kn = Inr kn' \<longleftrightarrow> fst kn' = fst kn \<and> f (snd kn) = Inr (snd kn')"
  by (cases kn') (auto simp: on_node_def try_bind_Inr_iff)

text \<open>The numeric reading of a node's GPU memory and of its pods.\<close>

definition gpu_memory :: "node \<Rightarrow> pyfloat option" where
  "gpu_memory n = (case json_float (dict_get_or n ''allocatable_gpu_memory'' (JStr ''0'')) of Inl _ \<Rightarrow> None | Inr x \<Rightarrow> Some x)"

definition pods :: "node \<Rightarrow> int option" where
  "pods n = (case json_int (dict_get_or n ''pod_count'' (JStr ''0'')) of Inl _ \<Rightarrow> None | Inr i \<Rightarrow> Some i)"

text \<open>
  How one node may change: a field other than the two that recommendations adjust stays as it is,
  and a pod count never grows except from below zero.
\<close>

definition node_change :: "node \<Rightarrow> node \<Rightarrow> bool" where
  "node_change n n' \<longleftrightarrow>
     (\<forall>k. k \<notin> {''allocatable_gpu_memory'', ''pod_count''} \<longrightarrow> dict_get n' k = dict_get n k) \<and>
     (\<forall>i. pods n = Some i \<and> 0 \<le> i \<longrightarrow> (\<exists>j. pods n' = Some j \<and> 0 \<le> j \<and> j \<le> i \<and> i \<le> j + 1))"

lemma node_change_refl [simp]: "node_change n n"
  by (auto simp: node_change_def)

lemma reduce_gpu_memory_change: "reduce_gpu_memory n = Inr n' \<Longrightarrow> node_change n n'"
  by (auto simp: reduce_gpu_memory_def try_bind_Inr_iff node_change_def pods_def dict_get_or_set)

lemma drop_pod_change: "drop_pod n = Inr n' \<Longrightarrow> node_change n n'"
  by (auto simp: drop_pod_def try_bind_Inr_iff node_change_def pods_def split: sum.splits)

lemma drop_pod_pods: "drop_pod n = Inr n' \<Longrightarrow> \<exists>i. pods n = Some i \<and> pods n' = Some (max (i - 1) 0)"
  by (auto simp: drop_pod_def try_bind_Inr_iff pods_def)

lemma drop_pods_all:
  "try_map (on_node drop_pod) m = Inr m' \<Longrightarrow>
    list_all2 (\<lambda>kn kn'. fst kn' = fst kn \<and> node_change (snd kn) (snd kn')) m m'"
  by (auto simp: try_map_Inr_iff on_node_Inr drop_pod_change elim!: list_all2_mono)

text \<open>
  Applying a recommendation adjusts nodes in place: it keeps the nodes, their order and every
  field but the GPU memory and the pod count, a pod count loses at most one pod and never turns
  negative, and a recommendation that mentions neither GPUs nor pods changes no node at all.
\<close>

theorem apply_rec_local:
  assumes "apply_rec_to_twin r m = Inr (m', a)"
  shows "list_all2 (\<lambda>kn kn'. fst kn' = fst kn \<and> node_change (snd kn) (snd kn')) m m'
    \<and> (\<not> mentions ''gpu'' r \<and> \<not> mentions ''pod'' r \<longrightarrow> m' = m)"
proof (cases "mentions ''gpu'' r")
  case gpu: True
  show ?thesis
  proof (cases m)
    case Nil
    with assms gpu show ?thesis by (simp add: apply_rec_to_twin_def)
  next
    case (Cons kn rest)
    with assms gpu obtain kn' where "on_node reduce_gpu_memory kn = Inr kn'" "m' = kn' # rest"
      by (auto simp: apply_rec_to_twin_def try_bind_Inr_iff)
    then show ?thesis
      using gpu Cons by (auto simp: on_node_Inr reduce_gpu_memory_change intro!: all2_refl)
  qed
next
  case nogpu: False
  show ?thesis
  proof (cases "mentions ''node'' r \<or> \<not> mentions ''pod'' r")
    case True
    with assms nogpu have "m' = m" by (auto simp: apply_rec_to_twin_def split: if_splits)
    then show ?thesis by (simp add: all2_refl)
  next
    case False
    with assms nogpu have "try_map (on_node drop_pod) m = Inr m'"
      by (auto simp: apply_rec_to_twin_def try_bind_Inr_iff)
    with False show ?thesis by (simp add: drop_pods_all)
  qed
qed

definition sample_rec :: "string \<Rightarrow> recommendation" where
  "sample_rec t = \<lparr>rc_id = ''r1'', rc_type = SCALING, rc_title = t, rc_affected_resources = [], rc_actions = [], rc_score = 50\<rparr>"

theorem apply_rec_local_witness:
  "\<exists>m' a. apply_rec_to_twin (sample_rec ''Consolidate pods'')
      [(JStr ''n1'', [(''name'', JStr ''n1''), (''pod_count'', JStr ''3'')])] = Inr (m', a)
     \<and> list_all2 (\<lambda>kn kn'. fst kn' = fst kn \<and> node_change (snd kn) (snd kn'))
         [(JStr ''n1'', [(''name'', JStr ''n1''), (''pod_count'', JStr ''3'')])] m'"
proof -
  have "parse_int ''3'' = Some 3"
    by (simp add: parse_int_def strip_def is_space_def digit_val_def digits_nat_def upt_rec)
  then have "apply_rec_to_twin (sample_rec ''Consolidate pods'')
      [(JStr ''n1'', [(''name'', JStr ''n1''), (''pod_count'', JStr ''3'')])]
    = Inr ([(JStr ''n1'', [(''name'', JStr ''n1''), (''pod_count'', JInt 2)])],
        \<lparr>apl_type = ''pod_consolidation'', apl_target = JStr ''cluster'', apl_value = ''pods_reduced'',
         apl_message = ''[scaling] Consolidate pods: pod consolidation applied''\<rparr>)"
    by (simp add: apply_rec_to_twin_def mentions_def sample_rec_def str_lower_def lower_char_def
        starts_with_def on_node_def drop_pod_def dict_get_or_def rec_prefix_def)
  from this apply_rec_local [OF this] show ?thesis by blast
qed

subsection \<open>What an actuation leaves behind\<close>

lemma build_twin_cases:
  "(case get_twin c s of Some tw \<Rightarrow> Some tw | None \<Rightarrow> build_twin_from_state e k) \<noteq> None"
  by (simp add: build_twin_from_state_def split: option.split)

lemma apply_to_twin_frame:
  assumes "apply_to_twin e r tw s = (s', res)"
  shows "re_actuations s' = re_actuations s \<and> re_clusters s' = re_clusters s
    \<and> re_recommendations s' = re_recommendations s \<and> re_policies s' = re_policies s
    \<and> re_approvals s' = re_approvals s"
  using assms by (auto simp: apply_to_twin_def Let_def save_twin_def split: sum.splits)

lemma save_actuation_frame:
  "re_clusters (save_actuation r s) = re_clusters s \<and> re_recommendations (save_actuation r s) = re_recommendations s
   \<and> re_policies (save_actuation r s) = re_policies s \<and> re_approvals (save_actuation r s) = re_approvals s
   \<and> re_twins (save_actuation r s) = re_twins s"
  by (simp add: save_actuation_def)

lemma actuate_cases:
  assumes "actuate e c rid dry s = Inr (s', rec)"
  obtains k r s0 acts st summary err where
    "rec = finish e acts st summary err (new_record e k r dry)" and "cl_id k = c"
    and "s' = save_actuation rec s0" and "st \<in> {ACT_COMPLETED, ACT_FAILED}"
    and "re_actuations s0 = re_actuations s" and "dry \<Longrightarrow> s0 = s \<and> st = ACT_COMPLETED"
    and "rc_id r = rid"
proof -
  from assms obtain k rs r where k: "get_cluster c s = Some k" and "latest_recommendations c s = Some rs"
    and r: "find (\<lambda>r. rc_id r = rid) (rs_recommendations rs) = Some r"
    by (auto simp: actuate_def split: option.splits)
  have kid: "cl_id k = c" using k by (auto simp: get_cluster_def select_one_def dest: find_SomeD)
  have rid: "rc_id r = rid" using r by (auto dest: find_SomeD)
  show thesis
  proof (cases dry)
    case True
    with assms k \<open>latest_recommendations c s = Some rs\<close> r kid rid show ?thesis
      by (auto simp: actuate_def Let_def intro!: that)
  next
    case False
    obtain tw where tw: "(case get_twin c s of Some tw \<Rightarrow> Some tw | None \<Rightarrow> build_twin_from_state e k) = Some tw"
      using build_twin_cases by blast
    obtain s0 res where ap: "apply_to_twin e r tw s = (s0, res)" by (cases "apply_to_twin e r tw s")
    note fr = apply_to_twin_frame [OF ap]
    show ?thesis
      using assms False k \<open>latest_recommendations c s = Some rs\<close> r tw ap kid rid fr
      by (cases res) (auto simp: actuate_def Let_def intro: that)
  qed
qed

text \<open>
  C1: every actuation that starts ends in a stored verdict: when the cluster, its recommendations
  and the named one exist, the call returns whatever the twin's JSON holds, its record is completed
  or failed with a completion time, it can be read back under its identifier, and no other record
  changes; a dry run always completes and leaves everything but the new record as it was.
\<close>

theorem actuate_recorded:
  assumes "get_cluster c s = Some k" and "latest_recommendations c s = Some rs"
    and "find (\<lambda>r. rc_id r = rid) (rs_recommendations rs) \<noteq> None"
  shows "\<exists>s' rec. actuate e c rid dry s = Inr (s', rec)
    \<and> ac_status rec \<in> {ACT_COMPLETED, ACT_FAILED} \<and> ac_completed_at rec = Some (ae_end e)
    \<and> ac_rec_id rec = rid \<and> ac_dry_run rec = dry
    \<and> (\<forall>c' a. get_actuation c' a s' =
         (if a = ae_record_id e then (if c' = c then Some rec else None) else get_actuation c' a s))
    \<and> (dry \<longrightarrow> ac_status rec = ACT_COMPLETED \<and> s' = save_actuation rec s)"
proof -
  obtain s' rec where ok: "actuate e c rid dry s = Inr (s', rec)"
    using assms by (cases "actuate e c rid dry s") (auto simp: actuate_def Let_def split: option.splits prod.splits sum.splits)
  then show ?thesis
  proof (rule actuate_cases)
    fix k r s0 acts st summary err
    assume rec: "rec = finish e acts st summary err (new_record e k r dry)" and kid: "cl_id k = c"
      and s': "s' = save_actuation rec s0" and st: "st \<in> {ACT_COMPLETED, ACT_FAILED}"
      and same: "re_actuations s0 = re_actuations s" and dry: "dry \<Longrightarrow> s0 = s \<and> st = ACT_COMPLETED"
      and rid: "rc_id r = rid"
    have fields: "ac_id rec = ae_record_id e" "ac_cluster_id rec = c" "ac_status rec = st"
      "ac_completed_at rec = Some (ae_end e)" "ac_rec_id rec = rid" "ac_dry_run rec = dry"
      using rec kid rid by (simp_all add: finish_def new_record_def)
    have "repo_get_actuation c' a s0 = repo_get_actuation c' a s" for c' a
      by (simp add: repo_get_actuation_def same)
    then have "get_actuation c' a s' =
         (if a = ae_record_id e then (if c' = c then Some rec else None) else get_actuation c' a s)" for c' a
      by (simp add: get_actuation_def s' repo_get_actuation_save fields)
    then show ?thesis
      using ok fields st dry s' by auto
  qed
qed

definition sample_cluster :: cluster where
  "sample_cluster = \<lparr>cl_id = ''c1'', cl_name = ''east'', cl_environment = ''prod''\<rparr>"

definition sample_repo :: repo where
  "sample_repo = empty_repo\<lparr>re_clusters := [sample_cluster],
     re_recommendations := [\<lparr>rs_id = ''s1'', rs_cluster_id = ''c1'', rs_generated_at = 5,
        rs_recommendations = [sample_rec ''Consolidate pods'']\<rparr>]\<rparr>"

definition sample_env :: act_env where
  "sample_env = \<lparr>ae_record_id = ''a1'', ae_twin_id = ''t1'', ae_start = 10, ae_twin_time = 11, ae_end = 12\<rparr>"

lemma sample_repo_facts:
  "get_cluster ''c1'' sample_repo = Some sample_cluster"
  "\<exists>rs. latest_recommendations ''c1'' sample_repo = Some rs
     \<and> find (\<lambda>r. rc_id r = ''r1'') (rs_recommendations rs) \<noteq> None"
  by (simp_all add: get_cluster_def select_one_def sample_repo_def sample_cluster_def empty_repo_def
      latest_recommendations_def select_desc_def sorted_by_desc_def sample_rec_def)

theorem actuate_recorded_witness:
  "\<exists>s' rec. actuate sample_env ''c1'' ''r1'' False sample_repo = Inr (s', rec)
     \<and> get_actuation ''c1'' ''a1'' s' = Some rec"
proof -
  obtain rs where "latest_recommendations ''c1'' sample_repo = Some rs"
    "find (\<lambda>r. rc_id r = ''r1'') (rs_recommendations rs) \<noteq> None"
    using sample_repo_facts(2) by blast
  from actuate_recorded [OF sample_repo_facts(1) this, of sample_env False] show ?thesis
    by (auto simp: sample_env_def)
qed

subsection \<open>Actuation and the guardrails\<close>

definition with_guardrails :: "policy_rule list \<Rightarrow> approval_row list \<Rightarrow> repo \<Rightarrow> repo" where
  "with_guardrails ps as s = s\<lparr>re_policies := ps, re_approvals := as\<rparr>"

lemma guardrails_queries [simp]:
  "get_cluster c (with_guardrails ps as s) = get_cluster c s"
  "latest_recommendations c (with_guardrails ps as s) = latest_recommendations c s"
  "get_twin c (with_guardrails ps as s) = get_twin c s"
  "save_twin t (with_guardrails ps as s) = with_guardrails ps as (save_twin t s)"
  "save_actuation r (with_guardrails ps as s) = with_guardrails ps as (save_actuation r s)"
  by (simp_all add: with_guardrails_def get_cluster_def latest_recommendations_def get_twin_def
      save_twin_def save_actuation_def)

lemma guardrails_apply:
  "apply_to_twin e r tw (with_guardrails ps as s)
     = (let (s', res) = apply_to_twin e r tw s in (with_guardrails ps as s', res))"
  by (auto simp: apply_to_twin_def Let_def split: sum.split prod.split)

lemma guardrails_actuate:
  "actuate e c rid dry (with_guardrails ps as s)
     = (case actuate e c rid dry s of
          Inl err \<Rightarrow> Inl err
        | Inr (s', rec) \<Rightarrow> Inr (with_guardrails ps as s', rec))"
  by (auto simp: actuate_def Let_def guardrails_apply split: option.split prod.split sum.split)

text \<open>
  Actuation does not consult the guardrails: replacing the stored policies and approvals by any
  others, among them policies that block everything and approvals that are all rejected, changes
  neither whether a live actuation goes ahead nor its record nor the twin it writes.
\<close>

theorem actuate_ignores_guardrails:
  "actuate e c rid dry (with_guardrails ps as s)
     = (case actuate e c rid dry s of
          Inl err \<Rightarrow> Inl err
        | Inr (s', rec) \<Rightarrow> Inr (with_guardrails ps as s', rec))"
  by (rule guardrails_actuate)

subsection \<open>Rolling back\<close>

text \<open>The node list of a twin's state.\<close>

definition twin_nodes :: "twin_state \<Rightarrow> json option" where
  "twin_nodes t = (case tw_state_json t of Some (JObj kvs) \<Rightarrow> dict_get kvs ''nodes'' | _ \<Rightarrow> None)"

lemma mark_converged_nodes:
  "mark_converged (tw_state_json t) = Inr st \<Longrightarrow>
    twin_nodes (t\<lparr>tw_state_json := st, tw_has_diverged := b, tw_divergence_reason := w\<rparr>) = twin_nodes t"
  by (auto simp: mark_converged_def twin_nodes_def split: option.splits json.splits)

text \<open>
  A rollback needs a completed actuation of the cluster and only clears the divergence mark:
  when it succeeds the actuation it names was completed and reads as before, so that it can be
  rolled back again; the new record names it and reads as rolled back; and the twin no longer reads
  as diverged although its nodes are exactly the ones the actuation left.
\<close>

theorem rollback_marks_only:
  assumes "rollback e c aid s = Inr (s', rec)" and "ae_record_id e \<noteq> aid"
  shows "\<exists>orig tw tw'. get_actuation c aid s = Some orig \<and> ac_status orig = ACT_COMPLETED
    \<and> get_actuation c aid s' = Some orig
    \<and> get_actuation c (ae_record_id e) s' = Some rec
    \<and> ac_status rec = ACT_ROLLED_BACK \<and> ac_rollback_of rec = aid
    \<and> get_twin c s = Some tw \<and> get_twin c s' = Some tw'
    \<and> \<not> tw_has_diverged tw' \<and> twin_nodes tw' = twin_nodes tw"
proof -
  from assms(1) obtain orig tw st where orig: "repo_get_actuation c aid s = Some orig" "ac_status orig = ACT_COMPLETED"
    and tw: "get_twin c s = Some tw" and st: "mark_converged (tw_state_json tw) = Inr st"
    by (auto simp: rollback_def try_bind_Inr_iff split: option.splits if_splits)
  define tw' where "tw' = tw\<lparr>tw_state_json := st, tw_has_diverged := False,
    tw_divergence_reason := ''Rolled back actuation '' @ aid\<rparr>"
  have s': "s' = save_actuation rec (save_twin tw' s)" "ac_id rec = ae_record_id e" "ac_cluster_id rec = c"
    "ac_status rec = ACT_ROLLED_BACK" "ac_rollback_of rec = aid"
    using assms(1) orig tw st by (auto simp: rollback_def tw'_def Let_def)
  have cid: "tw_cluster_id tw' = c"
    using tw by (auto simp: tw'_def get_twin_def select_one_def dest: find_SomeD)
  have "get_twin c s' = Some tw'"
    using get_twin_save_same [of tw' s] by (simp add: s'(1) cid)
  moreover have "twin_nodes tw' = twin_nodes tw"
    unfolding tw'_def by (rule mark_converged_nodes [OF st])
  moreover have "get_actuation c aid s' = Some orig" "get_actuation c (ae_record_id e) s' = Some rec"
    using orig(1) assms(2) s' by (simp_all add: get_actuation_def repo_get_actuation_save)
      (simp add: repo_get_actuation_def)
  ultimately show ?thesis
    using orig tw s' by (auto simp: get_actuation_def tw'_def)
qed

definition sample_done :: repo where
  "sample_done = save_actuation (finish sample_env [] ACT_COMPLETED [] [] (new_record sample_env sample_cluster (sample_rec ''Add node'') False))
     (save_twin \<lparr>tw_id = ''t1'', tw_cluster_id = ''c1'', tw_cluster_name = ''east'', tw_environment = ''prod'',
        tw_synced_at = 11, tw_original_collected_at = None, tw_node_count = 0, tw_gpu_count = 0,
        tw_state_json = Some (JObj [(''nodes'', JList [])]), tw_has_diverged = True,
        tw_divergence_reason = []\<rparr> sample_repo)"

lemma sample_rollback: "\<exists>s' rec. rollback (sample_env\<lparr>ae_record_id := ''a2''\<rparr>) ''c1'' ''a1'' sample_done = Inr (s', rec)"
  by (simp add: rollback_def sample_done_def repo_get_actuation_save save_actuation_frame finish_def new_record_def sample_env_def Let_def
      sample_cluster_def get_twin_def save_twin_def select_one_def replace_row_def sample_repo_def empty_repo_def
      mark_converged_def)

theorem rollback_marks_only_witness:
  "\<exists>s' rec. rollback (sample_env\<lparr>ae_record_id := ''a2''\<rparr>) ''c1'' ''a1'' sample_done = Inr (s', rec)
     \<and> ac_rollback_of rec = ''a1''"
proof -
  obtain s' rec where ok: "rollback (sample_env\<lparr>ae_record_id := ''a2''\<rparr>) ''c1'' ''a1'' sample_done = Inr (s', rec)"
    using sample_rollback by blast
  from rollback_marks_only [OF ok] ok show ?thesis by auto
qed

text \<open>
  The summary accounts for every actuation it reads: for a known cluster the counts of the five
  statuses add up to the total, which is at most a thousand, and the latest actuation is one that
  started no earlier than any other of the cluster.
\<close>

theorem summarize_counts:
  assumes "get_cluster c s = Some k"
  shows "\<exists>u. summarize c s = Inr u
    \<and> as_total u = as_successful u + as_failed u + as_in_progress u + as_rolled_back u + as_pending u
    \<and> as_total u \<le> 1000
    \<and> (\<forall>a. as_latest u = Some a \<longrightarrow> (\<forall>r \<in> set (re_actuations s). ac_cluster_id r = c \<longrightarrow> ac_started_at r \<le> ac_started_at a))"
proof -
  let ?rows = "select_desc (\<lambda>r. ac_cluster_id r = c) ac_started_at (re_actuations s)"
  have part: "int (length rs) = count_status ACT_COMPLETED rs + count_status ACT_FAILED rs
      + count_status ACT_IN_PROGRESS rs + count_status ACT_ROLLED_BACK rs + count_status ACT_PENDING rs" for rs
  proof (induction rs)
    case (Cons r rs)
    then show ?case by (cases "ac_status r") (simp_all add: count_status_def)
  qed (simp add: count_status_def)
  have latest: "\<forall>r \<in> set (re_actuations s). ac_cluster_id r = c \<longrightarrow> ac_started_at r \<le> ac_started_at a"
    if "take 1000 ?rows = a # rest" for a rest
  proof -
    from that obtain rest' where rows: "?rows = a # rest'" by (cases ?rows) auto
    have "sorted_wrt (\<lambda>x y. ac_started_at y \<le> ac_started_at x) ?rows"
      by (simp add: select_desc_def sorted_by_desc_sorted)
    then have "\<forall>r \<in> set ?rows. ac_started_at r \<le> ac_started_at a" by (simp add: rows)
    then show ?thesis by (simp add: select_desc_def)
  qed
  show ?thesis
    using assms part [of "take 1000 ?rows"] latest
    by (auto simp: summarize_def list_actuations_def repo_list_actuations_def split: list.split)
qed

theorem summarize_counts_witness: "\<exists>u. summarize ''c1'' sample_done = Inr u \<and> as_total u \<le> 1000"
proof -
  have "get_cluster ''c1'' sample_done = Some sample_cluster"
    using sample_repo_facts(1) by (simp add: sample_done_def)
  from summarize_counts [OF this] show ?thesis by auto
qed

end
