(* ===== verification/ModelRegistry.thy ===== *)
theory ModelRegistry
  imports Prelude
begin

text \<open>
  Model governance, first part: the versions of src/src/gpuopt/model_governance/models.py, the
  \<open>ModelRegistry\<close> of registry.py, the \<open>ApprovalManager\<close> of approval.py and the
  \<open>ChampionChallenger\<close> evaluations of champion_challenger.py. Version objects live in the registry
  and the callers hold the same objects, so operations take identifiers and read and write the
  registry. Dictionaries keyed by \<open>action_class.value\<close> are keyed by the class itself. Fields of a
  version that no operation reads or writes are left out.
\<close>

subsection \<open>Versions\<close>

datatype action_class = ANOMALY_DETECTION | DEMAND_FORECAST | RECOMMENDATION_SCORING
  | PLACEMENT_OPTIMIZATION | COST_ESTIMATION | DRIFT_DETECTION | POWER_OPTIMIZATION

definition all_action_classes :: "action_class list" where
  "all_action_classes = [ANOMALY_DETECTION, DEMAND_FORECAST, RECOMMENDATION_SCORING,
     PLACEMENT_OPTIMIZATION, COST_ESTIMATION, DRIFT_DETECTION, POWER_OPTIMIZATION]"

datatype model_status = MS_DRAFT | MS_CHALLENGER | MS_CHAMPION | MS_DEPRECATED | MS_REJECTED | MS_ARCHIVED

datatype cert_status = CERT_PENDING | CERT_APPROVED | CERT_REJECTED | CERT_EXPIRED

record model_version =
  mv_id :: uuid
  mv_model_name :: string
  mv_version :: string
  mv_action_class :: action_class
  mv_status :: model_status
  mv_owner :: string
  mv_created_at :: datetime
  mv_updated_at :: datetime
  mv_window_start :: "datetime option"
  mv_window_end :: "datetime option"
  mv_features :: "string list"
  mv_training_metrics :: "(string, rat) dict"
  mv_approved_by :: "string option"
  mv_approved_at :: "datetime option"
  mv_approval_note :: string
  mv_certification_days :: int
  mv_certified_until :: "datetime option"
  mv_shadow_evaluation_id :: "string option"

record model_metadata =
  md_model_name :: string
  md_action_class :: action_class
  md_champion :: "model_version option"
  md_challenger :: "model_version option"
  md_version_count :: int
  md_last_trained_at :: "datetime option"
  md_total_predictions :: int
  md_avg_confidence :: rat
  md_fallback_active :: bool
  md_drift_detected :: bool
  md_needs_recertification :: bool

subsection \<open>The registry\<close>

record registry =
  mr_versions :: "(uuid, model_version) dict"
  mr_champions :: "(action_class, uuid) dict"
  mr_challengers :: "(action_class, uuid) dict"
  mr_prediction_counts :: "(uuid, int) dict"
  mr_confidence_sum :: "(uuid, rat) dict"
  mr_confidence_count :: "(uuid, int) dict"
  mr_fallback_active :: "action_class set"
  mr_drift_alerts :: "(action_class, int) dict"

definition empty_registry :: registry where
  "empty_registry = \<lparr>mr_versions = [], mr_champions = [], mr_challengers = [], mr_prediction_counts = [],
     mr_confidence_sum = [], mr_confidence_count = [], mr_fallback_active = {}, mr_drift_alerts = []\<rparr>"

definition mr_register :: "model_version \<Rightarrow> registry \<Rightarrow> registry" where
  "mr_register v s = s\<lparr>mr_versions := dict_set (mv_id v) v (mr_versions s)\<rparr>"

definition mr_get :: "registry \<Rightarrow> uuid \<Rightarrow> model_version option" where
  "mr_get s i = dict_get (mr_versions s) i"

definition mr_list :: "action_class option \<Rightarrow> model_status option \<Rightarrow> int \<Rightarrow> registry \<Rightarrow> model_version list" where
  "mr_list cls st lmt s =
     (let results = dict_values (mr_versions s);
          results = (case cls of None \<Rightarrow> results | Some c \<Rightarrow> filter (\<lambda>v. mv_action_class v = c) results);
          results = (case st of None \<Rightarrow> results | Some x \<Rightarrow> filter (\<lambda>v. mv_status v = x) results)
      in slice_first lmt (sorted_by_desc mv_created_at results))"

definition mr_update_status :: "uuid \<Rightarrow> model_status \<Rightarrow> datetime \<Rightarrow> registry \<Rightarrow> registry" where
  "mr_update_status i st now s =
     (case mr_get s i of
        None \<Rightarrow> s
      | Some v \<Rightarrow>
          (let s1 = s\<lparr>mr_versions := dict_set i (v\<lparr>mv_status := st, mv_updated_at := now\<rparr>) (mr_versions s)\<rparr>;
               key = mv_action_class v
           in if st = MS_CHAMPION then
                (let s2 = s1\<lparr>mr_champions := dict_set key i (mr_champions s1)\<rparr>
                 in if dict_get (mr_challengers s2) key = Some i
                    then s2\<lparr>mr_challengers := dict_pop key (mr_challengers s2)\<rparr> else s2)
              else if st = MS_CHALLENGER then s1\<lparr>mr_challengers := dict_set key i (mr_challengers s1)\<rparr>
              else s1))"

definition mr_delete :: "uuid \<Rightarrow> registry \<Rightarrow> registry \<times> bool" where
  "mr_delete i s =
     (case mr_get s i of
        None \<Rightarrow> (s, False)
      | Some v \<Rightarrow>
          (s\<lparr>mr_versions := dict_pop i (mr_versions s),
             mr_champions := dict_pop (mv_action_class v) (mr_champions s),
             mr_challengers := dict_pop (mv_action_class v) (mr_challengers s)\<rparr>, True))"

definition get_champion :: "action_class \<Rightarrow> registry \<Rightarrow> model_version option" where
  "get_champion c s = (case dict_get (mr_champions s) c of None \<Rightarrow> None | Some i \<Rightarrow> mr_get s i)"

definition get_challenger :: "action_class \<Rightarrow> registry \<Rightarrow> model_version option" where
  "get_challenger c s = (case dict_get (mr_challengers s) c of None \<Rightarrow> None | Some i \<Rightarrow> mr_get s i)"

definition promote_challenger :: "action_class \<Rightarrow> datetime \<Rightarrow> datetime \<Rightarrow> registry \<Rightarrow> registry \<times> model_version option" where
  "promote_challenger c now now2 s =
     (case get_challenger c s of
        None \<Rightarrow> (s, None)
      | Some challenger \<Rightarrow>
          (let s1 = (case get_champion c s of
                       None \<Rightarrow> s | Some champ \<Rightarrow> mr_update_status (mv_id champ) MS_DEPRECATED now s);
               s2 = mr_update_status (mv_id challenger) MS_CHAMPION now2 s1
           in (s2, mr_get s2 (mv_id challenger))))"

definition check_recertification_due :: "model_version option \<Rightarrow> datetime \<Rightarrow> bool" where
  "check_recertification_due champ now =
     (case champ of
        None \<Rightarrow> True
      | Some v \<Rightarrow> (case mv_certified_until v of None \<Rightarrow> True | Some t \<Rightarrow> t < now))"

definition get_metadata :: "string \<Rightarrow> action_class \<Rightarrow> datetime \<Rightarrow> registry \<Rightarrow> model_metadata" where
  "get_metadata name c now s =
     (let all_versions = mr_list (Some c) None 100 s;
          champ = get_champion c s;
          chal = get_challenger c s;
          total_preds = sum_list (map (\<lambda>v. dict_get_or (mr_prediction_counts s) (mv_id v) 0) all_versions);
          total_conf_count = sum_list (map (\<lambda>v. dict_get_or (mr_confidence_count s) (mv_id v) 0) all_versions);
          avg_conf = (if 0 < total_conf_count
                      then sum_list (map (\<lambda>v. dict_get_or (mr_confidence_sum s) (mv_id v) 0) all_versions)
                           / of_int total_conf_count
                      else 0)
      in \<lparr>md_model_name = name, md_action_class = c, md_champion = champ, md_challenger = chal,
          md_version_count = int (length all_versions),
          md_last_trained_at = (case all_versions of [] \<Rightarrow> None
                                | v # vs \<Rightarrow> Some (foldl max (mv_updated_at v) (map mv_updated_at vs))),
          md_total_predictions = total_preds, md_avg_confidence = py_round 4 avg_conf,
          md_fallback_active = (c \<in> mr_fallback_active s),
          md_drift_detected = (0 < dict_get_or (mr_drift_alerts s) c 0),
          md_needs_recertification = check_recertification_due champ now\<rparr>)"

definition record_prediction :: "uuid \<Rightarrow> rat \<Rightarrow> registry \<Rightarrow> registry" where
  "record_prediction i confidence s =
     s\<lparr>mr_prediction_counts := dict_set i (dict_get_or (mr_prediction_counts s) i 0 + 1) (mr_prediction_counts s),
       mr_confidence_sum := dict_set i (dict_get_or (mr_confidence_sum s) i 0 + confidence) (mr_confidence_sum s),
       mr_confidence_count := dict_set i (dict_get_or (mr_confidence_count s) i 0 + 1) (mr_confidence_count s)\<rparr>"

definition set_fallback :: "action_class \<Rightarrow> bool \<Rightarrow> registry \<Rightarrow> registry" where
  "set_fallback c active s =
     s\<lparr>mr_fallback_active := (if active then insert c (mr_fallback_active s) else mr_fallback_active s - {c})\<rparr>"

definition record_drift :: "action_class \<Rightarrow> registry \<Rightarrow> registry \<times> int" where
  "record_drift c s =
     (let count = dict_get_or (mr_drift_alerts s) c 0 + 1
      in (s\<lparr>mr_drift_alerts := dict_set c count (mr_drift_alerts s)\<rparr>, count))"

definition clear_drift :: "action_class \<Rightarrow> registry \<Rightarrow> registry" where
  "clear_drift c s = s\<lparr>mr_drift_alerts := dict_pop c (mr_drift_alerts s)\<rparr>"

definition mr_clear_all :: "registry \<Rightarrow> registry" where
  "mr_clear_all s = empty_registry"

subsection \<open>Approval of high-impact models\<close>

record cert_request =
  cq_id :: uuid
  cq_model_version_id :: uuid
  cq_action_class :: action_class
  cq_requested_by :: string
  cq_requested_at :: datetime
  cq_status :: cert_status
  cq_reviewed_by :: "string option"
  cq_reviewed_at :: "datetime option"
  cq_review_notes :: string
  cq_certification_period_days :: int
  cq_certified_until :: "datetime option"

type_synonym cert_requests = "(uuid, cert_request) dict"

definition high_impact_action_classes :: "action_class list" where
  "high_impact_action_classes = [RECOMMENDATION_SCORING, PLACEMENT_OPTIMIZATION, POWER_OPTIMIZATION]"

definition requires_approval :: "action_class list \<Rightarrow> model_version \<Rightarrow> bool" where
  "requires_approval high v = (mv_action_class v \<in> set high)"

definition days_us :: "int \<Rightarrow> int" where
  "days_us d = d * 86400000000"

text \<open>\<open>days or default\<close>: zero and \<open>None\<close> give the default.\<close>

definition int_or :: "int option \<Rightarrow> int \<Rightarrow> int" where
  "int_or x d = (case x of None \<Rightarrow> d | Some i \<Rightarrow> if i = 0 then d else i)"

definition request_approval ::
  "uuid \<Rightarrow> datetime \<Rightarrow> model_version \<Rightarrow> string \<Rightarrow> int option \<Rightarrow> cert_requests \<Rightarrow> cert_requests" where
  "request_approval i now v requested_by days rs =
     dict_set i \<lparr>cq_id = i, cq_model_version_id = mv_id v, cq_action_class = mv_action_class v,
                 cq_requested_by = (if requested_by = [] then mv_owner v else requested_by),
                 cq_requested_at = now, cq_status = CERT_PENDING, cq_reviewed_by = None,
                 cq_reviewed_at = None, cq_review_notes = [], cq_certification_period_days = int_or days 90,
                 cq_certified_until = None\<rparr> rs"

definition certify :: "uuid \<Rightarrow> (model_version \<Rightarrow> model_version) \<Rightarrow> registry \<Rightarrow> registry" where
  "certify i f s =
     (case mr_get s i of None \<Rightarrow> s | Some v \<Rightarrow> s\<lparr>mr_versions := dict_set i (f v) (mr_versions s)\<rparr>)"

definition approve_model ::
  "uuid \<Rightarrow> string \<Rightarrow> string \<Rightarrow> int option \<Rightarrow> datetime \<Rightarrow> datetime \<Rightarrow> cert_requests \<times> registry
    \<Rightarrow> (cert_requests \<times> registry) \<times> cert_request option" where
  "approve_model i reviewer notes days now now2 st =
     (let (rs, s) = st in
      case dict_get rs i of
        None \<Rightarrow> (st, None)
      | Some q \<Rightarrow>
          (let d = int_or days (cq_certification_period_days q);
               q' = q\<lparr>cq_status := CERT_APPROVED, cq_reviewed_by := Some reviewer, cq_reviewed_at := Some now,
                      cq_review_notes := notes, cq_certified_until := Some (now2 + days_us d)\<rparr>;
               s' = certify (cq_model_version_id q)
                      (\<lambda>v. v\<lparr>mv_approved_by := Some reviewer, mv_approved_at := Some now, mv_approval_note := notes,
                             mv_certification_days := d, mv_certified_until := Some (now2 + days_us d)\<rparr>) s
           in ((dict_set i q' rs, s'), Some q')))"

definition reject_model ::
  "uuid \<Rightarrow> string \<Rightarrow> string \<Rightarrow> datetime \<Rightarrow> datetime \<Rightarrow> cert_requests \<times> registry
    \<Rightarrow> (cert_requests \<times> registry) \<times> cert_request option" where
  "reject_model i reviewer notes now now2 st =
     (let (rs, s) = st in
      case dict_get rs i of
        None \<Rightarrow> (st, None)
      | Some q \<Rightarrow>
          (let q' = q\<lparr>cq_status := CERT_REJECTED, cq_reviewed_by := Some reviewer, cq_reviewed_at := Some now,
                      cq_review_notes := notes\<rparr>
           in ((dict_set i q' rs, mr_update_status (cq_model_version_id q) MS_REJECTED now2 s), Some q')))"

text \<open>One request in the recertification sweep: whether it is due, and its new state.\<close>

definition recert_one :: "int \<Rightarrow> datetime \<Rightarrow> cert_request \<Rightarrow> cert_request \<times> bool" where
  "recert_one reminder_days now q =
     (if cq_status q \<noteq> CERT_APPROVED then (q, False)
      else (case cq_certified_until q of
        None \<Rightarrow> (q, False)
      | Some t \<Rightarrow> (if t < now then (q\<lparr>cq_status := CERT_EXPIRED\<rparr>, True)
                   else (q, t - now < days_us reminder_days))))"

definition check_recertification :: "int \<Rightarrow> datetime \<Rightarrow> cert_requests \<Rightarrow> cert_requests \<times> cert_request list" where
  "check_recertification reminder_days now rs =
     (map (\<lambda>(i, q). (i, fst (recert_one reminder_days now q))) rs,
      map (\<lambda>(i, q). fst (recert_one reminder_days now q))
        (filter (\<lambda>(i, q). snd (recert_one reminder_days now q)) rs))"

definition get_request :: "uuid \<Rightarrow> cert_requests \<Rightarrow> cert_request option" where
  "get_request i rs = dict_get rs i"

definition list_requests :: "cert_status option \<Rightarrow> action_class option \<Rightarrow> int \<Rightarrow> cert_requests \<Rightarrow> cert_request list" where
  "list_requests st cls lmt rs =
     (let results = dict_values rs;
          results = (case st of None \<Rightarrow> results | Some x \<Rightarrow> filter (\<lambda>q. cq_status q = x) results);
          results = (case cls of None \<Rightarrow> results | Some c \<Rightarrow> filter (\<lambda>q. cq_action_class q = c) results)
      in slice_first lmt (sorted_by_desc cq_requested_at results))"

subsection \<open>Champion against challenger\<close>

record shadow_evaluation =
  se_id :: uuid
  se_champion_id :: uuid
  se_challenger_id :: uuid
  se_action_class :: action_class
  se_started_at :: datetime
  se_completed_at :: "datetime option"
  se_sample_count :: int
  se_champion_wins :: int
  se_challenger_wins :: int
  se_ties :: int
  se_metric_comparison :: "(string, (string, rat) dict) dict"
  se_promoted :: bool
  se_rejected :: bool
  se_summary :: "piece list"

record shadow_config =
  sc_sample_minimum :: int
  sc_win_threshold :: rat
  sc_auto_promote :: bool

type_synonym evaluations = "(uuid, shadow_evaluation) dict"

definition start_evaluation ::
  "uuid \<Rightarrow> datetime \<Rightarrow> uuid \<Rightarrow> uuid \<Rightarrow> evaluations \<times> registry \<Rightarrow> py_error + (evaluations \<times> registry) \<times> shadow_evaluation" where
  "start_evaluation i now champion_id challenger_id st =
     (let (es, s) = st in
      case (mr_get s champion_id, mr_get s challenger_id) of
        (Some champion, Some challenger) \<Rightarrow>
          (let s1 = (if mv_status champion \<noteq> MS_CHAMPION then mr_update_status champion_id MS_CHAMPION now s else s);
               chal_status = (case mr_get s1 challenger_id of None \<Rightarrow> mv_status challenger | Some v \<Rightarrow> mv_status v);
               s2 = (if chal_status \<noteq> MS_CHALLENGER then mr_update_status challenger_id MS_CHALLENGER now s1 else s1);
               ev = \<lparr>se_id = i, se_champion_id = champion_id, se_challenger_id = challenger_id,
                     se_action_class = mv_action_class champion, se_started_at = now, se_completed_at = None,
                     se_sample_count = 0, se_champion_wins = 0, se_challenger_wins = 0, se_ties = 0,
                     se_metric_comparison = [], se_promoted = False, se_rejected = False, se_summary = []\<rparr>
           in Inr ((dict_set i ev es, certify challenger_id (\<lambda>v. v\<lparr>mv_shadow_evaluation_id := Some i\<rparr>) s2), ev))
      | _ \<Rightarrow> Inl (ValueError ''Champion or challenger not found''))"

definition dict_add :: "string \<Rightarrow> rat \<Rightarrow> (string, rat) dict \<Rightarrow> (string, rat) dict" where
  "dict_add k x d = dict_set k (dict_get_or d k 0 + x) d"

definition add_metric ::
  "string \<times> (string, rat) dict \<Rightarrow> (string, (string, rat) dict) dict \<Rightarrow> (string, (string, rat) dict) dict" where
  "add_metric nv m =
     (let (name, vals) = nv;
          d = dict_get_or m name [(''champion_sum'', 0), (''challenger_sum'', 0), (''count'', 0)]
      in dict_set name
           (dict_add ''count'' 1
             (dict_add ''challenger_sum'' (dict_get_or vals ''challenger'' 0)
               (dict_add ''champion_sum'' (dict_get_or vals ''champion'' 0) d))) m)"

definition count_result :: "rat \<Rightarrow> rat \<Rightarrow> shadow_evaluation \<Rightarrow> shadow_evaluation" where
  "count_result champion_score challenger_score ev =
     (let ev1 = ev\<lparr>se_sample_count := se_sample_count ev + 1\<rparr>
      in if challenger_score < champion_score then ev1\<lparr>se_champion_wins := se_champion_wins ev1 + 1\<rparr>
         else if champion_score < challenger_score then ev1\<lparr>se_challenger_wins := se_challenger_wins ev1 + 1\<rparr>
         else ev1\<lparr>se_ties := se_ties ev1 + 1\<rparr>)"

definition record_result ::
  "uuid \<Rightarrow> rat \<Rightarrow> rat \<Rightarrow> (string, (string, rat) dict) dict \<Rightarrow> evaluations \<Rightarrow> py_error + evaluations \<times> shadow_evaluation" where
  "record_result i champion_score challenger_score metrics es =
     (case dict_get es i of
        None \<Rightarrow> Inl (KeyError (''Evaluation not found: '' @ i))
      | Some ev \<Rightarrow>
          (let ev1 = count_result champion_score challenger_score ev;
               ev2 = ev1\<lparr>se_metric_comparison := fold add_metric metrics (se_metric_comparison ev1)\<rparr>
           in Inr (dict_set i ev2 es, ev2)))"

definition average_metric :: "(string, rat) dict \<Rightarrow> (string, rat) dict" where
  "average_metric d =
     (if 0 < dict_get_or d ''count'' 0 then
        (let n = dict_get_or d ''count'' 0;
             a = py_round 4 (dict_get_or d ''champion_sum'' 0 / n);
             b = py_round 4 (dict_get_or d ''challenger_sum'' 0 / n)
         in dict_set ''delta'' (py_round 4 (b - a)) (dict_set ''challenger_avg'' b (dict_set ''champion_avg'' a d)))
      else d)"

definition complete_evaluation ::
  "shadow_config \<Rightarrow> datetime \<Rightarrow> uuid \<Rightarrow> evaluations \<times> registry \<Rightarrow> py_error + (evaluations \<times> registry) \<times> shadow_evaluation" where
  "complete_evaluation cfg now i st =
     (let (es, s) = st in
      case dict_get es i of
        None \<Rightarrow> Inl (KeyError (''Evaluation not found: '' @ i))
      | Some ev \<Rightarrow>
          (let ev1 = ev\<lparr>se_completed_at := Some now\<rparr>; total = se_sample_count ev1
           in if total = 0 then
                (let ev2 = ev1\<lparr>se_summary := [Txt ''No samples collected'']\<rparr> in Inr ((dict_set i ev2 es, s), ev2))
              else
                (let champion_rate = of_int (se_champion_wins ev1) / of_int total;
                     challenger_rate = of_int (se_challenger_wins ev1) / of_int total;
                     ev2 = ev1\<lparr>se_metric_comparison := map (\<lambda>(k, d). (k, average_metric d)) (se_metric_comparison ev1)\<rparr>;
                     champ = Fmt ''.1%'' (JFloat champion_rate);
                     chal = Fmt ''.1%'' (JFloat challenger_rate);
                     over = Txt '' over '' # Val (JInt total) # [Txt '' samples''];
                     (ev3, s1) =
                       (if sc_win_threshold cfg \<le> challenger_rate \<and> sc_sample_minimum cfg \<le> total then
                          (if sc_auto_promote cfg then
                             (ev2\<lparr>se_promoted := True,
                                  se_summary := [Txt ''Challenger won '', chal, Txt '' vs champion '', champ] @ over
                                                @ [Txt '' -- auto-promoted'']\<rparr>,
                              fst (promote_challenger (se_action_class ev2) now now s))
                           else
                             (ev2\<lparr>se_summary := [Txt ''Challenger won '', chal, Txt '' vs champion '', champ] @ over
                                                @ [Txt '' -- ready for manual promotion'']\<rparr>, s))
                        else if sc_win_threshold cfg \<le> champion_rate then
                          (ev2\<lparr>se_rejected := True,
                               se_summary := [Txt ''Champion retained with '', champ, Txt '' vs challenger '', chal] @ over\<rparr>, s)
                        else
                          (ev2\<lparr>se_summary := [Txt ''Inconclusive: champion '', champ, Txt '' challenger '', chal] @ over
                                             @ [Txt '' (need '', Val (JInt (sc_sample_minimum cfg)), Txt '' min)'']\<rparr>, s));
                     s2 = record_prediction (se_champion_id ev3) champion_rate s1;
                     s3 = record_prediction (se_challenger_id ev3) challenger_rate s2
                 in Inr ((dict_set i ev3 es, s3), ev3))))"

definition get_evaluation :: "uuid \<Rightarrow> evaluations \<Rightarrow> shadow_evaluation option" where
  "get_evaluation i es = dict_get es i"

definition list_evaluations :: "action_class option \<Rightarrow> evaluations \<Rightarrow> shadow_evaluation list" where
  "list_evaluations cls es =
     sorted_by_desc se_started_at
       (case cls of None \<Rightarrow> dict_values es | Some c \<Rightarrow> filter (\<lambda>e. se_action_class e = c) (dict_values es))"

definition score_prediction :: "json \<Rightarrow> json \<Rightarrow> rat" where
  "score_prediction p a =
     (case (json_num p, json_num a) of
        (Some x, Some y) \<Rightarrow>
          (if y = 0 then (if x = 0 then 1 else 0)
           else max 0 (1 - \<bar>x - y\<bar> / max \<bar>y\<bar> (1 / 10 ^ 10)))
      | _ \<Rightarrow> (if p = a then 1 else 0))"

definition abs_error :: "json \<Rightarrow> json \<Rightarrow> rat" where
  "abs_error p a = (case (json_num p, json_num a) of (Some x, Some y) \<Rightarrow> \<bar>x - y\<bar> | _ \<Rightarrow> 0)"

definition compute_metrics :: "json \<Rightarrow> json \<Rightarrow> json \<Rightarrow> (string, (string, rat) dict) dict" where
  "compute_metrics champion_pred challenger_pred actual =
     [(''absolute_error'', [(''champion'', abs_error champion_pred actual), (''challenger'', abs_error challenger_pred actual)])]"

definition evaluate_shadow ::
  "json \<Rightarrow> json \<Rightarrow> json \<Rightarrow> uuid \<Rightarrow> evaluations \<Rightarrow> py_error + evaluations \<times> shadow_evaluation" where
  "evaluate_shadow champion_pred challenger_pred actual i es =
     record_result i (score_prediction champion_pred actual) (score_prediction challenger_pred actual)
       (compute_metrics champion_pred challenger_pred actual) es"

subsection \<open>The registry's pointers\<close>

datatype registry_op =
    RegRegister model_version
  | RegStatus uuid model_status datetime
  | RegDelete uuid
  | RegPromote action_class datetime datetime
  | RegPredict uuid rat
  | RegFallback action_class bool
  | RegDrift action_class
  | RegClearDrift action_class

fun registry_step :: "registry_op \<Rightarrow> registry \<Rightarrow> registry" where
  "registry_step (RegRegister v) s = mr_register v s"
| "registry_step (RegStatus i st now) s = mr_update_status i st now s"
| "registry_step (RegDelete i) s = fst (mr_delete i s)"
| "registry_step (RegPromote c now now2) s = fst (promote_challenger c now now2 s)"
| "registry_step (RegPredict i x) s = record_prediction i x s"
| "registry_step (RegFallback c b) s = set_fallback c b s"
| "registry_step (RegDrift c) s = fst (record_drift c s)"
| "registry_step (RegClearDrift c) s = clear_drift c s"

text \<open>A version is registered under a fresh identifier.\<close>

fun registry_allowed :: "registry \<Rightarrow> registry_op \<Rightarrow> bool" where
  "registry_allowed s (RegRegister v) = (mr_get s (mv_id v) = None)"
| "registry_allowed s x = True"

definition points_to :: "registry \<Rightarrow> (action_class, uuid) dict \<Rightarrow> bool" where
  "points_to s d \<longleftrightarrow> (\<forall>c i. dict_get d c = Some i \<longrightarrow> (\<exists>v. mr_get s i = Some v \<and> mv_action_class v = c))"

definition registry_wf :: "registry \<Rightarrow> bool" where
  "registry_wf s \<longleftrightarrow> (\<forall>i v. mr_get s i = Some v \<longrightarrow> mv_id v = i)
     \<and> points_to s (mr_champions s) \<and> points_to s (mr_challengers s)"

lemma registry_wf_empty: "registry_wf empty_registry"
  by (simp add: registry_wf_def points_to_def empty_registry_def mr_get_def)

lemma update_status_get:
  "mr_get (mr_update_status i st now s) =
     (case mr_get s i of None \<Rightarrow> mr_get s | Some v \<Rightarrow> (mr_get s)(i \<mapsto> v\<lparr>mv_status := st, mv_updated_at := now\<rparr>))"
  by (auto simp: mr_update_status_def mr_get_def Let_def fun_eq_iff split: option.split)

lemma update_status_champions:
  "mr_champions (mr_update_status i st now s) =
     (case mr_get s i of None \<Rightarrow> mr_champions s
      | Some v \<Rightarrow> if st = MS_CHAMPION then dict_set (mv_action_class v) i (mr_champions s) else mr_champions s)"
  by (auto simp: mr_update_status_def Let_def split: option.split)

lemma update_status_challengers:
  "mr_challengers (mr_update_status i st now s) =
     (case mr_get s i of None \<Rightarrow> mr_challengers s
      | Some v \<Rightarrow>
          if st = MS_CHAMPION then
            (if dict_get (mr_challengers s) (mv_action_class v) = Some i
             then dict_pop (mv_action_class v) (mr_challengers s) else mr_challengers s)
          else if st = MS_CHALLENGER then dict_set (mv_action_class v) i (mr_challengers s)
          else mr_challengers s)"
  by (auto simp: mr_update_status_def Let_def split: option.split)

lemmas update_status_effects = update_status_get update_status_champions update_status_challengers

lemma points_to_keep:
  assumes "points_to s d" and "\<And>i v. mr_get s i = Some v \<Longrightarrow> \<exists>w. mr_get s' i = Some w \<and> mv_action_class w = mv_action_class v"
  shows "points_to s' d"
  using assms unfolding points_to_def by metis

lemma update_status_keeps:
  "mr_get s i = Some v \<Longrightarrow> \<exists>w. mr_get (mr_update_status j st now s) i = Some w \<and> mv_action_class w = mv_action_class v"
  by (auto simp: update_status_get split: option.split)

lemma points_to_set:
  "points_to s d \<Longrightarrow> mr_get s i = Some v \<Longrightarrow> mv_action_class v = c \<Longrightarrow> points_to s (dict_set c i d)"
  by (auto simp: points_to_def)

lemma points_to_pop: "points_to s d \<Longrightarrow> points_to s (dict_pop c d)"
  by (auto simp: points_to_def)

lemma update_status_wf:
  assumes wf: "registry_wf s"
  shows "registry_wf (mr_update_status i st now s)"
proof (cases "mr_get s i")
  case None
  then show ?thesis using wf by (simp add: mr_update_status_def)
next
  case (Some v)
  let ?s = "mr_update_status i st now s"
  have v: "\<exists>w. mr_get ?s i = Some w \<and> mv_action_class w = mv_action_class v"
    by (rule update_status_keeps [OF Some])
  have "points_to ?s (mr_champions s)" "points_to ?s (mr_challengers s)"
    using wf update_status_keeps by (auto simp: registry_wf_def intro: points_to_keep)
  then have "points_to ?s (mr_champions ?s)" "points_to ?s (mr_challengers ?s)"
    using v Some by (auto simp: update_status_champions update_status_challengers
        intro: points_to_set points_to_pop)
  moreover have "\<forall>j w. mr_get ?s j = Some w \<longrightarrow> mv_id w = j"
    using wf Some by (auto simp: update_status_get registry_wf_def)
  ultimately show ?thesis by (simp add: registry_wf_def)
qed

lemma delete_wf:
  assumes wf: "registry_wf s"
  shows "registry_wf (fst (mr_delete i s))"
proof (cases "mr_get s i")
  case None
  then show ?thesis using wf by (simp add: mr_delete_def)
next
  case (Some v)
  let ?s = "fst (mr_delete i s)"
  have get: "mr_get ?s = (mr_get s)(i := None)"
    using Some by (auto simp: mr_delete_def mr_get_def)
  have "points_to ?s (dict_pop (mv_action_class v) d)" if "points_to s d" for d
    using that Some by (fastforce simp: points_to_def get)
  then show ?thesis
    using wf Some by (auto simp: registry_wf_def get) (auto simp: mr_delete_def)
qed

lemma promote_wf: "registry_wf s \<Longrightarrow> registry_wf (fst (promote_challenger c now now2 s))"
  by (auto simp: promote_challenger_def Let_def update_status_wf split: option.split)

lemma same_versions_wf:
  "registry_wf s \<Longrightarrow> mr_versions s' = mr_versions s \<Longrightarrow> mr_champions s' = mr_champions s
    \<Longrightarrow> mr_challengers s' = mr_challengers s \<Longrightarrow> registry_wf s'"
  by (simp add: registry_wf_def points_to_def mr_get_def)

interpretation registry_machine: invariant_machine registry_step registry_allowed registry_wf
proof
  fix s x assume wf: "registry_wf s" and ok: "registry_allowed s x"
  show "registry_wf (registry_step x s)"
  proof (cases x)
    case (RegRegister v)
    then have new: "mr_get s (mv_id v) = None" using ok by simp
    have get: "mr_get (mr_register v s) = (mr_get s)(mv_id v \<mapsto> v)"
      by (simp add: mr_get_def mr_register_def fun_eq_iff)
    have "points_to (mr_register v s) d" if "points_to s d" for d
      using that new by (fastforce simp: points_to_def get)
    then show ?thesis
      using wf RegRegister by (auto simp: registry_wf_def get) (simp_all add: mr_register_def)
  qed (use wf in \<open>auto simp: update_status_wf delete_wf promote_wf record_prediction_def set_fallback_def
      record_drift_def clear_drift_def Let_def elim!: same_versions_wf\<close>)
qed

text \<open>
  C6: no run of the registry leaves a dangling role: after any operations that register versions
  under fresh identifiers, the champion and the challenger recorded for an action class are
  registered versions of that class, so that looking either up finds it.
\<close>

theorem registry_roles:
  assumes "run_allowed registry_step registry_allowed ops empty_registry"
    and "s = fold registry_step ops empty_registry"
  shows "(dict_get (mr_champions s) c = Some i \<longrightarrow> (\<exists>v. get_champion c s = Some v \<and> mv_id v = i \<and> mv_action_class v = c))
    \<and> (dict_get (mr_challengers s) c = Some i \<longrightarrow> (\<exists>v. get_challenger c s = Some v \<and> mv_id v = i \<and> mv_action_class v = c))"
proof -
  have "registry_wf s"
    using registry_machine.run_inv [OF assms(1) registry_wf_empty] assms(2) by simp
  then show ?thesis
    by (fastforce simp: registry_wf_def points_to_def get_champion_def get_challenger_def)
qed

definition sample_version :: "uuid \<Rightarrow> model_version" where
  "sample_version i = \<lparr>mv_id = i, mv_model_name = ''power'', mv_version = i, mv_action_class = POWER_OPTIMIZATION,
     mv_status = MS_DRAFT, mv_owner = ''ops'', mv_created_at = 0, mv_updated_at = 0, mv_window_start = None,
     mv_window_end = None, mv_features = [], mv_training_metrics = [], mv_approved_by = None,
     mv_approved_at = None, mv_approval_note = [], mv_certification_days = 90, mv_certified_until = None,
     mv_shadow_evaluation_id = None\<rparr>"

definition sample_registry_ops :: "registry_op list" where
  "sample_registry_ops = [RegRegister (sample_version ''1''), RegRegister (sample_version ''2''),
     RegStatus ''1'' MS_CHAMPION 5, RegStatus ''2'' MS_CHALLENGER 6]"

lemmas sample_registry_defs = sample_registry_ops_def empty_registry_def mr_register_def mr_get_def
  mr_update_status_def sample_version_def Let_def

definition sample_registry :: registry where
  "sample_registry = fold registry_step sample_registry_ops empty_registry"

lemma sample_registry_run: "run_allowed registry_step registry_allowed sample_registry_ops empty_registry"
  by (simp add: sample_registry_defs)

lemma sample_registry_roles:
  "dict_get (mr_champions sample_registry) POWER_OPTIMIZATION = Some ''1''"
  "dict_get (mr_challengers sample_registry) POWER_OPTIMIZATION = Some ''2''"
  by (simp_all add: sample_registry_def sample_registry_defs)

theorem registry_roles_witness:
  "\<exists>v. get_champion POWER_OPTIMIZATION sample_registry = Some v \<and> mv_id v = ''1''"
  using registry_roles [OF sample_registry_run sample_registry_def] sample_registry_roles(1) by blast

lemma registry_idD: "registry_wf s \<Longrightarrow> mr_get s i = Some v \<Longrightarrow> mv_id v = i"
  by (simp add: registry_wf_def)

lemma registry_roleD:
  "registry_wf s \<Longrightarrow> dict_get (mr_champions s) c = Some i \<Longrightarrow> \<exists>v. mr_get s i = Some v \<and> mv_action_class v = c"
  "registry_wf s \<Longrightarrow> dict_get (mr_challengers s) c = Some i \<Longrightarrow> \<exists>v. mr_get s i = Some v \<and> mv_action_class v = c"
  by (simp_all add: registry_wf_def points_to_def)

lemma champion_SomeD:
  assumes "registry_wf s" and "get_champion c s = Some u"
  shows "dict_get (mr_champions s) c = Some (mv_id u) \<and> mr_get s (mv_id u) = Some u \<and> mv_action_class u = c"
proof -
  from assms(2) obtain i where i: "dict_get (mr_champions s) c = Some i" "mr_get s i = Some u"
    by (auto simp: get_champion_def split: option.splits)
  with registry_idD [OF assms(1) i(2)] registry_roleD(1) [OF assms(1) i(1)] show ?thesis by auto
qed

lemma challenger_SomeD:
  assumes "registry_wf s" and "get_challenger c s = Some u"
  shows "dict_get (mr_challengers s) c = Some (mv_id u) \<and> mr_get s (mv_id u) = Some u \<and> mv_action_class u = c"
proof -
  from assms(2) obtain i where i: "dict_get (mr_challengers s) c = Some i" "mr_get s i = Some u"
    by (auto simp: get_challenger_def split: option.splits)
  with registry_idD [OF assms(1) i(2)] registry_roleD(2) [OF assms(1) i(1)] show ?thesis by auto
qed

lemma promote_effect:
  assumes wf: "registry_wf s" and chal: "get_challenger c s = Some v"
    and p: "promote_challenger c now now2 s = (s', r)"
  shows "mr_get s' = (case get_champion c s of None \<Rightarrow> mr_get s
            | Some u \<Rightarrow> (mr_get s)(mv_id u \<mapsto> u\<lparr>mv_status := MS_DEPRECATED, mv_updated_at := now\<rparr>))
          (mv_id v \<mapsto> v\<lparr>mv_status := MS_CHAMPION, mv_updated_at := now2\<rparr>)"
    and "dict_get (mr_champions s') = (dict_get (mr_champions s))(c \<mapsto> mv_id v)"
    and "dict_get (mr_challengers s') = (dict_get (mr_challengers s))(c := None)"
    and "r = Some (v\<lparr>mv_status := MS_CHAMPION, mv_updated_at := now2\<rparr>)"
proof -
  define s1 where "s1 = (case get_champion c s of None \<Rightarrow> s | Some u \<Rightarrow> mr_update_status (mv_id u) MS_DEPRECATED now s)"
  define w where "w = v\<lparr>mv_status := MS_CHAMPION, mv_updated_at := now2\<rparr>"
  note v = challenger_SomeD [OF wf chal]
  have get1: "mr_get s1 = (case get_champion c s of None \<Rightarrow> mr_get s
      | Some u \<Rightarrow> (mr_get s)(mv_id u \<mapsto> u\<lparr>mv_status := MS_DEPRECATED, mv_updated_at := now\<rparr>))"
    by (auto simp: s1_def update_status_get dest: champion_SomeD [OF wf] split: option.split)
  have roles: "mr_champions s1 = mr_champions s" "mr_challengers s1 = mr_challengers s"
    by (auto simp: s1_def update_status_effects split: option.split)
  obtain v1 where v1: "mr_get s1 (mv_id v) = Some v1" "mv_action_class v1 = c"
    "v1\<lparr>mv_status := MS_CHAMPION, mv_updated_at := now2\<rparr> = w"
  proof (cases "\<exists>u. get_champion c s = Some u \<and> mv_id u = mv_id v")
    case True
    then obtain u where u: "get_champion c s = Some u" "mv_id u = mv_id v" by blast
    have "u = v" using champion_SomeD [OF wf u(1)] v u(2) by (metis option.inject)
    then show ?thesis
      using u(1) v by (intro that [of "v\<lparr>mv_status := MS_DEPRECATED, mv_updated_at := now\<rparr>"]) (simp_all add: get1 w_def)
  next
    case False
    then have "mr_get s1 (mv_id v) = Some v" unfolding get1 using v by (cases "get_champion c s") auto
    then show ?thesis using v by (intro that [of v]) (simp_all add: w_def)
  qed
  have s': "s' = mr_update_status (mv_id v) MS_CHAMPION now2 s1" "r = mr_get s' (mv_id v)"
    using p chal by (auto simp: promote_challenger_def Let_def s1_def)
  have get2: "mr_get s' = (mr_get s1)(mv_id v \<mapsto> w)"
    by (simp add: s'(1) update_status_get v1)
  then show "mr_get s' = (case get_champion c s of None \<Rightarrow> mr_get s
            | Some u \<Rightarrow> (mr_get s)(mv_id u \<mapsto> u\<lparr>mv_status := MS_DEPRECATED, mv_updated_at := now\<rparr>))
          (mv_id v \<mapsto> v\<lparr>mv_status := MS_CHAMPION, mv_updated_at := now2\<rparr>)"
    by (simp add: get1 w_def)
  show "r = Some (v\<lparr>mv_status := MS_CHAMPION, mv_updated_at := now2\<rparr>)"
    by (simp add: s'(2) get2 w_def)
  show "dict_get (mr_champions s') = (dict_get (mr_champions s))(c \<mapsto> mv_id v)"
    by (simp add: s'(1) update_status_champions v1 roles)
  show "dict_get (mr_challengers s') = (dict_get (mr_challengers s))(c := None)"
    using v by (simp add: s'(1) update_status_challengers v1 roles)
qed

text \<open>
  Promotion swaps the roles of one class: when the class has a challenger, that version becomes
  the champion, the challenger's place is empty afterwards, a champion it replaces is deprecated,
  and no other version and no other class is touched; without a challenger nothing happens.
\<close>

theorem promote_swaps:
  assumes "registry_wf s"
  shows "(get_challenger c s = None \<longrightarrow> promote_challenger c now now2 s = (s, None))
    \<and> (\<forall>v. get_challenger c s = Some v \<longrightarrow>
        (\<exists>s' w. promote_challenger c now now2 s = (s', Some w)
          \<and> w = v\<lparr>mv_status := MS_CHAMPION, mv_updated_at := now2\<rparr>
          \<and> get_champion c s' = Some w \<and> get_challenger c s' = None
          \<and> (\<forall>u. get_champion c s = Some u \<and> mv_id u \<noteq> mv_id v \<longrightarrow>
               mr_get s' (mv_id u) = Some (u\<lparr>mv_status := MS_DEPRECATED, mv_updated_at := now\<rparr>))
          \<and> (\<forall>j. j \<noteq> mv_id v \<and> dict_get (mr_champions s) c \<noteq> Some j \<longrightarrow> mr_get s' j = mr_get s j)
          \<and> (\<forall>d. d \<noteq> c \<longrightarrow> get_champion d s' = get_champion d s \<and> get_challenger d s' = get_challenger d s)))"
proof (intro conjI allI impI)
  show "get_challenger c s = None \<Longrightarrow> promote_challenger c now now2 s = (s, None)"
    by (simp add: promote_challenger_def)
next
  fix v assume chal: "get_challenger c s = Some v"
  obtain s' r where p: "promote_challenger c now now2 s = (s', r)" by (cases "promote_challenger c now now2 s")
  note eff = promote_effect [OF assms chal p]
  let ?w = "v\<lparr>mv_status := MS_CHAMPION, mv_updated_at := now2\<rparr>"
  have elsewhere: "mr_get s' j = mr_get s j" if "j \<noteq> mv_id v" "dict_get (mr_champions s) c \<noteq> Some j" for j
    using that champion_SomeD [OF assms] by (auto simp: eff(1) split: option.split)
  have other: "i \<noteq> mv_id v \<and> dict_get (mr_champions s) c \<noteq> Some i"
    if "d \<noteq> c" "mr_get s i = Some x" "mv_action_class x = d" for d i x
    using that challenger_SomeD [OF assms chal] registry_roleD(1) [OF assms, of c i] by auto
  have same: "get_champion d s' = get_champion d s \<and> get_challenger d s' = get_challenger d s" if "d \<noteq> c" for d
  proof -
    have "mr_get s' i = mr_get s i" if "dict_get (mr_champions s) d = Some i \<or> dict_get (mr_challengers s) d = Some i" for i
      using that registry_roleD [OF assms, of d i] other [OF \<open>d \<noteq> c\<close>, of i] elsewhere [of i] by blast
    then show ?thesis
      using \<open>d \<noteq> c\<close> by (auto simp: get_champion_def get_challenger_def eff split: option.split)
  qed
  have "get_champion c s' = Some ?w" "get_challenger c s' = None"
    by (simp_all add: get_champion_def get_challenger_def eff)
  moreover have "mr_get s' (mv_id u) = Some (u\<lparr>mv_status := MS_DEPRECATED, mv_updated_at := now\<rparr>)"
    if "get_champion c s = Some u" "mv_id u \<noteq> mv_id v" for u
    using that by (simp add: eff(1))
  ultimately show "\<exists>s' w. promote_challenger c now now2 s = (s', Some w) \<and> w = ?w
      \<and> get_champion c s' = Some w \<and> get_challenger c s' = None
      \<and> (\<forall>u. get_champion c s = Some u \<and> mv_id u \<noteq> mv_id v \<longrightarrow>
           mr_get s' (mv_id u) = Some (u\<lparr>mv_status := MS_DEPRECATED, mv_updated_at := now\<rparr>))
      \<and> (\<forall>j. j \<noteq> mv_id v \<and> dict_get (mr_champions s) c \<noteq> Some j \<longrightarrow> mr_get s' j = mr_get s j)
      \<and> (\<forall>d. d \<noteq> c \<longrightarrow> get_champion d s' = get_champion d s \<and> get_challenger d s' = get_challenger d s)"
    using p eff(4) elsewhere same by blast
qed

lemma sample_registry_wf: "registry_wf sample_registry"
  unfolding sample_registry_def by (rule registry_machine.run_inv [OF sample_registry_run registry_wf_empty])

theorem promote_swaps_witness:
  "\<exists>s' w. promote_challenger POWER_OPTIMIZATION 7 8 sample_registry = (s', Some w)
     \<and> get_champion POWER_OPTIMIZATION s' = Some w \<and> mv_id w = ''2''"
proof -
  obtain v where "get_challenger POWER_OPTIMIZATION sample_registry = Some v" "mv_id v = ''2''"
    by (simp add: get_challenger_def sample_registry_roles) (simp add: sample_registry_def sample_registry_defs)
  with promote_swaps [OF sample_registry_wf, of POWER_OPTIMIZATION 7 8] show ?thesis by auto
qed

subsection \<open>Shadow evaluations\<close>

fun record_scores :: "uuid \<Rightarrow> (rat \<times> rat) list \<Rightarrow> evaluations \<Rightarrow> py_error + evaluations" where
  "record_scores i [] es = Inr es"
| "record_scores i (x # xs) es = try_bind (record_result i (fst x) (snd x) [] es) (\<lambda>(es', _). record_scores i xs es')"

definition wins :: "(rat \<times> rat) list \<Rightarrow> int" where
  "wins xs = int (length (filter (\<lambda>(c, h). h < c) xs))"

definition losses :: "(rat \<times> rat) list \<Rightarrow> int" where
  "losses xs = int (length (filter (\<lambda>(c, h). c < h) xs))"

lemma count_result_effect:
  "count_result c h ev = ev\<lparr>se_sample_count := se_sample_count ev + 1,
     se_champion_wins := se_champion_wins ev + wins [(c, h)],
     se_challenger_wins := se_challenger_wins ev + losses [(c, h)],
     se_ties := se_ties ev + (1 - wins [(c, h)] - losses [(c, h)])\<rparr>"
  by (simp add: count_result_def wins_def losses_def Let_def)

lemma wins_Cons: "wins (x # xs) = wins [x] + wins xs" "losses (x # xs) = losses [x] + losses xs"
  by (simp_all add: wins_def losses_def)

lemma record_scores_effect:
  assumes "dict_get es i = Some ev"
  shows "\<exists>es'. record_scores i xs es = Inr es' \<and> dict_get es' i = Some (ev\<lparr>
     se_sample_count := se_sample_count ev + int (length xs),
     se_champion_wins := se_champion_wins ev + wins xs,
     se_challenger_wins := se_challenger_wins ev + losses xs,
     se_ties := se_ties ev + (int (length xs) - wins xs - losses xs)\<rparr>)"
  using assms
proof (induction xs arbitrary: es ev)
  case Nil
  then show ?case by (simp add: wins_def losses_def)
next
  case (Cons x xs)
  define ev1 where "ev1 = count_result (fst x) (snd x) ev"
  have "record_result i (fst x) (snd x) [] es = Inr (dict_set i ev1 es, ev1)"
    using Cons.prems by (simp add: record_result_def ev1_def Let_def)
  moreover have "dict_get (dict_set i ev1 es) i = Some ev1" by simp
  from Cons.IH [OF this] obtain es' where "record_scores i xs (dict_set i ev1 es) = Inr es'"
    and "dict_get es' i = Some (ev1\<lparr>se_sample_count := se_sample_count ev1 + int (length xs),
     se_champion_wins := se_champion_wins ev1 + wins xs,
     se_challenger_wins := se_challenger_wins ev1 + losses xs,
     se_ties := se_ties ev1 + (int (length xs) - wins xs - losses xs)\<rparr>)" by blast
  ultimately show ?case
    by (simp add: ev1_def count_result_effect wins_Cons [of x xs] algebra_simps)
qed

text \<open>
  The verdict of a shadow evaluation follows its samples: after recording a non-empty series of
  scores for a fresh evaluation, completing it counts every sample once as a win, a loss or a tie;
  it promotes the challenger exactly when the configuration promotes automatically, enough samples
  were taken and the share of samples the challenger won reaches the threshold; it never both
  promotes and rejects; and unless it promotes, no champion changes.
\<close>

theorem shadow_verdict:
  assumes "dict_get es i = Some ev" and "se_sample_count ev = 0" and "se_champion_wins ev = 0"
    and "se_challenger_wins ev = 0" and "se_ties ev = 0" and "\<not> se_promoted ev" and "\<not> se_rejected ev"
    and "xs \<noteq> []"
  shows "\<exists>es1 es2 s' r. record_scores i xs es = Inr es1
    \<and> complete_evaluation cfg now i (es1, s) = Inr ((es2, s'), r)
    \<and> se_sample_count r = int (length xs)
    \<and> se_champion_wins r + se_challenger_wins r + se_ties r = se_sample_count r
    \<and> (se_promoted r \<longleftrightarrow> sc_auto_promote cfg \<and> sc_sample_minimum cfg \<le> int (length xs)
         \<and> sc_win_threshold cfg \<le> of_int (losses xs) / of_nat (length xs))
    \<and> \<not> (se_promoted r \<and> se_rejected r)
    \<and> (\<not> se_promoted r \<longrightarrow> mr_champions s' = mr_champions s)"
proof -
  define ev1 where "ev1 = ev\<lparr>se_sample_count := int (length xs), se_champion_wins := wins xs,
     se_challenger_wins := losses xs, se_ties := int (length xs) - wins xs - losses xs\<rparr>"
  obtain es1 where es1: "record_scores i xs es = Inr es1" "dict_get es1 i = Some ev1"
    using record_scores_effect [OF assms(1), of xs] assms(2-5) by (auto simp: ev1_def)
  obtain es2 s' r where r: "complete_evaluation cfg now i (es1, s) = Inr ((es2, s'), r)"
    using es1(2) assms(8)
    by (cases "complete_evaluation cfg now i (es1, s)") (auto simp: complete_evaluation_def Let_def ev1_def split: prod.splits)
  have "se_sample_count r = int (length xs)
    \<and> se_champion_wins r + se_challenger_wins r + se_ties r = se_sample_count r
    \<and> (se_promoted r \<longleftrightarrow> sc_auto_promote cfg \<and> sc_sample_minimum cfg \<le> int (length xs)
         \<and> sc_win_threshold cfg \<le> of_int (losses xs) / of_nat (length xs))
    \<and> \<not> (se_promoted r \<and> se_rejected r)
    \<and> (\<not> se_promoted r \<longrightarrow> mr_champions s' = mr_champions s)"
    using r es1(2) assms(6-8)
    by (auto simp: complete_evaluation_def Let_def ev1_def record_prediction_def split: if_splits)
  with es1(1) r show ?thesis by blast
qed

definition sample_evaluation :: shadow_evaluation where
  "sample_evaluation = \<lparr>se_id = ''e'', se_champion_id = ''1'', se_challenger_id = ''2'',
     se_action_class = POWER_OPTIMIZATION, se_started_at = 0, se_completed_at = None, se_sample_count = 0,
     se_champion_wins = 0, se_challenger_wins = 0, se_ties = 0, se_metric_comparison = [],
     se_promoted = False, se_rejected = False, se_summary = []\<rparr>"

theorem shadow_verdict_witness:
  "\<exists>es1 es2 s' r. record_scores ''e'' [(1, 2), (1, 2), (2, 1)] [(''e'', sample_evaluation)] = Inr es1
     \<and> complete_evaluation \<lparr>sc_sample_minimum = 2, sc_win_threshold = 11 / 20, sc_auto_promote = True\<rparr> 9 ''e''
         (es1, sample_registry) = Inr ((es2, s'), r)
     \<and> se_promoted r"
  using shadow_verdict [of "[(''e'', sample_evaluation)]" "''e''" sample_evaluation "[(1, 2), (1, 2), (2, 1)]"
      "\<lparr>sc_sample_minimum = 2, sc_win_threshold = 11 / 20, sc_auto_promote = True\<rparr>" 9 sample_registry]
  by (auto simp: sample_evaluation_def losses_def)

subsection \<open>Certificates\<close>

lemma recert_one_idle:
  "recert_one d now q = (q', due) \<Longrightarrow> recert_one d now q' = (q', due \<and> cq_status q' = CERT_APPROVED)"
  by (auto simp: recert_one_def split: if_splits option.splits)

text \<open>
  The recertification sweep expires what is out of date and nothing else: afterwards no
  approved request is past its date, every other request that was not approved is as before, an
  approved one keeps its status until its date, the requests reported as due are exactly the ones
  that expired now or expire within the reminder period, and running the sweep again at the same
  time expires nothing more.
\<close>

theorem recertification_sweep:
  assumes "check_recertification d now rs = (rs', due)"
  shows "(\<forall>q \<in> set (dict_values rs'). cq_status q = CERT_APPROVED \<longrightarrow>
            (\<forall>t. cq_certified_until q = Some t \<longrightarrow> now \<le> t))
    \<and> list_all2 (\<lambda>(i, q) (i', q'). i' = i \<and> (q' = q \<or>
          (cq_status q = CERT_APPROVED \<and> q' = q\<lparr>cq_status := CERT_EXPIRED\<rparr>
           \<and> (\<exists>t < now. cq_certified_until q = Some t)))) rs rs'
    \<and> set due = {q' \<in> set (dict_values rs'). \<exists>i q. (i, q) \<in> set rs \<and> cq_status q = CERT_APPROVED
          \<and> q' = fst (recert_one d now q)
          \<and> (\<exists>t. cq_certified_until q = Some t \<and> (t < now \<or> t - now < days_us d))}
    \<and> fst (check_recertification d now rs') = rs'"
proof -
  have rs': "rs' = map (\<lambda>(i, q). (i, fst (recert_one d now q))) rs"
    and due: "due = map (\<lambda>(i, q). fst (recert_one d now q)) (filter (\<lambda>(i, q). snd (recert_one d now q)) rs)"
    using assms by (simp_all add: check_recertification_def)
  have "\<forall>q \<in> set (dict_values rs'). cq_status q = CERT_APPROVED \<longrightarrow>
            (\<forall>t. cq_certified_until q = Some t \<longrightarrow> now \<le> t)"
    by (auto simp: rs' dict_values_def recert_one_def split: option.splits if_splits)
  moreover have "list_all2 (\<lambda>(i, q) (i', q'). i' = i \<and> (q' = q \<or>
          (cq_status q = CERT_APPROVED \<and> q' = q\<lparr>cq_status := CERT_EXPIRED\<rparr>
           \<and> (\<exists>t < now. cq_certified_until q = Some t)))) rs rs'"
    unfolding rs' list_all2_map2 by (rule all2_refl) (auto simp: recert_one_def split: option.splits if_splits)
  moreover have "snd (recert_one d now q) \<longleftrightarrow> cq_status q = CERT_APPROVED
          \<and> (\<exists>t. cq_certified_until q = Some t \<and> (t < now \<or> t - now < days_us d))" for q
    by (auto simp: recert_one_def split: option.split)
  then have "set due = {q' \<in> set (dict_values rs'). \<exists>i q. (i, q) \<in> set rs \<and> cq_status q = CERT_APPROVED
          \<and> q' = fst (recert_one d now q)
          \<and> (\<exists>t. cq_certified_until q = Some t \<and> (t < now \<or> t - now < days_us d))}"
    by (force simp: due rs' dict_values_def)
  moreover have "fst (recert_one d now (fst (recert_one d now q))) = fst (recert_one d now q)" for q
    using recert_one_idle [of d now q] by (cases "recert_one d now q") auto
  then have "fst (check_recertification d now rs') = rs'"
    by (auto simp: check_recertification_def rs')
  ultimately show ?thesis by blast
qed

theorem recertification_sweep_witness:
  "\<exists>rs' due. check_recertification 14 100 (request_approval ''q'' 0 (sample_version ''1'') [] None []) = (rs', due)
     \<and> fst (check_recertification 14 100 rs') = rs'"
proof -
  obtain rs' due where e: "check_recertification 14 100 (request_approval ''q'' 0 (sample_version ''1'') [] None []) = (rs', due)"
    by (cases "check_recertification 14 100 (request_approval ''q'' 0 (sample_version ''1'') [] None [])")
  from recertification_sweep [OF e] e show ?thesis by blast
qed

end
