(* ===== verification/Governance.thy ===== *)
theory Governance
  imports ModelRegistry
begin

text \<open>
  Model governance, second part: the \<open>DriftMonitor\<close> of
  src/src/gpuopt/model_governance/drift_monitor.py, the \<open>FallbackEngine\<close> of fallback.py and the
  \<open>ModelGovernor\<close> of governance.py, which runs predictions over them. The identifiers of the reports
  of one drift check and the clock are arguments. The drift histories are the bounded logs of the
  prelude with a bound of a thousand.
\<close>

subsection \<open>Drift reports\<close>

datatype drift_type = WORKLOAD_MIX | FEATURE_DISTRIBUTION | PREDICTION_ERROR
  | ACTION_OUTCOME_DIVERGENCE | DATA_STALENESS

fun drift_type_value :: "drift_type \<Rightarrow> string" where
  "drift_type_value WORKLOAD_MIX = ''workload_mix''"
| "drift_type_value FEATURE_DISTRIBUTION = ''feature_distribution''"
| "drift_type_value PREDICTION_ERROR = ''prediction_error''"
| "drift_type_value ACTION_OUTCOME_DIVERGENCE = ''action_outcome_divergence''"
| "drift_type_value DATA_STALENESS = ''data_staleness''"

record drift_report =
  dr_id :: uuid
  dr_model_version_id :: uuid
  dr_drift_type :: drift_type
  dr_detected_at :: datetime
  dr_drift_score :: rat
  dr_drifted_features :: "string list"
  dr_feature_deltas :: "(string, rat) dict"
  dr_action_class :: action_class
  dr_severity :: string
  dr_description :: "piece list"
  dr_recommended_action :: string

record outcome =
  oc_predicted :: json
  oc_actual :: json
  oc_divergence :: rat
  oc_timestamp :: datetime

record drift_monitor =
  dm_feature_baselines :: "(string, (string, rat) dict) dict"
  dm_feature_history :: "(string, (string, rat) dict list) dict"
  dm_outcome_history :: "(string, outcome list) dict"
  dm_prediction_errors :: "(string, rat list) dict"
  dm_workload_distributions :: "(string, (string, int) dict list) dict"
  dm_reports :: "(uuid, drift_report) dict"

definition empty_monitor :: drift_monitor where
  "empty_monitor = \<lparr>dm_feature_baselines = [], dm_feature_history = [], dm_outcome_history = [],
     dm_prediction_errors = [], dm_workload_distributions = [], dm_reports = []\<rparr>"

definition max_history :: nat where
  "max_history = 1000"

interpretation drift_history: bounded_log "append_bounded max_history" max_history
  by (rule append_bounded_log) (simp add: max_history_def)

definition model_key :: "model_version \<Rightarrow> string" where
  "model_key v = mv_model_name v @ ''/'' @ mv_version v"

text \<open>The identifier and the creation time a check gives to its report of each type.\<close>

type_synonym report_env = "drift_type \<Rightarrow> uuid \<times> datetime"

definition drift_report_of ::
  "report_env \<Rightarrow> model_version \<Rightarrow> drift_type \<Rightarrow> rat \<Rightarrow> string \<Rightarrow> piece list \<Rightarrow> string \<Rightarrow> drift_report" where
  "drift_report_of env v t score severity description action =
     \<lparr>dr_id = fst (env t), dr_model_version_id = mv_id v, dr_drift_type = t, dr_detected_at = snd (env t),
      dr_drift_score = score, dr_drifted_features = [], dr_feature_deltas = [],
      dr_action_class = mv_action_class v, dr_severity = severity, dr_description = description,
      dr_recommended_action = action\<rparr>"

definition severity_of :: "rat \<Rightarrow> rat \<Rightarrow> rat \<Rightarrow> string" where
  "severity_of medium high x = (if high < x then ''high'' else if medium < x then ''medium'' else ''low'')"

definition feature_delta :: "rat \<Rightarrow> rat \<Rightarrow> rat" where
  "feature_delta baseline x =
     (if 1 / 10 ^ 10 < \<bar>baseline\<bar> then \<bar>x - baseline\<bar> / \<bar>baseline\<bar> else \<bar>x - baseline\<bar>)"

text \<open>The deltas of the features of the baseline that the latest observation has, in order.\<close>

definition feature_deltas :: "(string, rat) dict \<Rightarrow> (string, rat) dict \<Rightarrow> (string, rat) dict" where
  "feature_deltas baseline latest =
     concat (map (\<lambda>(f, b). case dict_get latest f of None \<Rightarrow> [] | Some x \<Rightarrow> [(f, feature_delta b x)]) baseline)"

definition check_feature_distribution :: "report_env \<Rightarrow> model_version \<Rightarrow> drift_monitor \<Rightarrow> drift_report" where
  "check_feature_distribution env v m =
     (let history = dict_get_or (dm_feature_history m) (model_key v) [] in
      case (dict_get (dm_feature_baselines m) (model_key v), history) of
        (Some baseline, _ # _) \<Rightarrow>
          (let deltas = feature_deltas baseline (last history);
               drifted = filter (\<lambda>(f, d). 1 / 5 < d) deltas;
               max_drift = foldl max 0 (map snd drifted);
               score = min max_drift 1
           in (drift_report_of env v FEATURE_DISTRIBUTION (py_round 4 score) (severity_of (1 / 2) (4 / 5) score)
                 [Txt ''Feature distribution drift: '', Val (JInt (int (length drifted))),
                  Txt '' drifted features (max delta='', Fmt ''.2f'' (JFloat max_drift), Txt '')'']
                 (if 1 / 2 < score then ''Retrain model with recent data'' else []))
              \<lparr>dr_drifted_features := map fst drifted,
               dr_feature_deltas := map (\<lambda>(f, d). (f, py_round 4 d)) deltas\<rparr>)
      | _ \<Rightarrow> drift_report_of env v FEATURE_DISTRIBUTION 0 ''low''
               [Txt ''Insufficient data for feature distribution drift check''] [])"

definition mean :: "rat list \<Rightarrow> rat" where
  "mean xs = sum_list xs / of_nat (length xs)"

definition check_prediction_error :: "report_env \<Rightarrow> model_version \<Rightarrow> drift_monitor \<Rightarrow> drift_report" where
  "check_prediction_error env v m =
     (let errors = dict_get_or (dm_prediction_errors m) (''err_'' @ model_key v) [] in
      if length errors < 10 then
        drift_report_of env v PREDICTION_ERROR 0 ''low'' [Txt ''Insufficient prediction error data''] []
      else
        (let mean_err = mean (slice_last 50 errors);
             baseline_err = sum_list (take 50 errors) / of_nat (min 50 (length errors));
             drift = (if 0 < baseline_err then (mean_err - baseline_err) / baseline_err else mean_err);
             score = min (max drift 0) 1
         in drift_report_of env v PREDICTION_ERROR (py_round 4 score) (severity_of (3 / 10) (3 / 5) score)
              [Txt ''Prediction error drift: baseline='', Fmt ''.4f'' (JFloat baseline_err),
               Txt '' recent='', Fmt ''.4f'' (JFloat mean_err)]
              (if 3 / 10 < score then ''Investigate model accuracy degradation'' else [])))"

definition check_action_outcome_divergence :: "report_env \<Rightarrow> model_version \<Rightarrow> drift_monitor \<Rightarrow> drift_report" where
  "check_action_outcome_divergence env v m =
     (let outcomes = dict_get_or (dm_outcome_history m) (''out_'' @ model_key v) [] in
      if length outcomes < 5 then
        drift_report_of env v ACTION_OUTCOME_DIVERGENCE 0 ''low'' [Txt ''Insufficient outcome data''] []
      else
        (let divergences = map oc_divergence (slice_last 20 outcomes) in
         if divergences = [] then
           drift_report_of env v ACTION_OUTCOME_DIVERGENCE 0 ''low'' [Txt ''No divergence data recorded''] []
         else
           (let avg_div = mean divergences;
                score = min avg_div 1
            in drift_report_of env v ACTION_OUTCOME_DIVERGENCE (py_round 4 score) (severity_of (3 / 10) (3 / 5) score)
                 [Txt ''Action-outcome divergence: avg divergence='', Fmt ''.2f'' (JFloat avg_div), Txt '' over '',
                  Val (JInt (int (length divergences))), Txt '' actions'']
                 (if 3 / 10 < score then ''Review action effectiveness and update model if needed'' else []))))"

definition workload_delta :: "(string, int) dict \<Rightarrow> (string, int) dict \<Rightarrow> string \<Rightarrow> rat" where
  "workload_delta first lst k =
     (let v1 = dict_get_or first k 0; v2 = dict_get_or lst k 0; total = v1 + v2
      in if 0 < total then \<bar>of_int v1 / of_int total - of_int v2 / of_int total\<bar> else 0)"

definition check_workload_mix :: "report_env \<Rightarrow> model_version \<Rightarrow> drift_monitor \<Rightarrow> drift_report" where
  "check_workload_mix env v m =
     (let distributions = dict_get_or (dm_workload_distributions m) (''wl_'' @ model_key v) [] in
      if length distributions < 2 then
        drift_report_of env v WORKLOAD_MIX 0 ''low'' [Txt ''Insufficient workload distribution data''] []
      else
        (let first = hd distributions; lst = last distributions;
             all_keys = remdups (map fst first @ map fst lst);
             total_drift = sum_list (map (workload_delta first lst) all_keys);
             score = min (total_drift / of_nat (max (length all_keys) 1)) 1
         in drift_report_of env v WORKLOAD_MIX (py_round 4 score) (severity_of (3 / 10) (3 / 5) score)
              [Txt ''Workload mix drift: score='', Fmt ''.2f'' (JFloat score)]
              (if 3 / 10 < score then ''Evaluate if training data still represents current workload'' else [])))"

definition hours_between :: "datetime \<Rightarrow> datetime \<Rightarrow> rat" where
  "hours_between a b = of_int (b - a) / 1000000 / 3600"

definition check_data_staleness :: "report_env \<Rightarrow> datetime \<Rightarrow> model_version \<Rightarrow> drift_report" where
  "check_data_staleness env now v =
     (case mv_window_end v of
        None \<Rightarrow> drift_report_of env v DATA_STALENESS 0 ''low'' [Txt ''No training window recorded''] []
      | Some t \<Rightarrow>
          (let age_hours = hours_between t now;
               score = min (age_hours / 720) 1
           in drift_report_of env v DATA_STALENESS (py_round 4 score) (severity_of 168 720 age_hours)
                [Txt ''Training data '', Fmt ''.0f'' (JFloat age_hours), Txt ''h old'']
                (if 168 < age_hours then ''Retrain with fresh data'' else [])))"

definition keep_report :: "drift_report \<Rightarrow> drift_monitor \<times> registry \<Rightarrow> drift_monitor \<times> registry" where
  "keep_report r st =
     (let (m, s) = st in
      if 3 / 10 < dr_drift_score r
      then (m\<lparr>dm_reports := dict_set (dr_id r) r (dm_reports m)\<rparr>, fst (record_drift (dr_action_class r) s))
      else st)"

definition drift_reports :: "report_env \<Rightarrow> datetime \<Rightarrow> model_version \<Rightarrow> drift_monitor \<Rightarrow> drift_report list" where
  "drift_reports env now v m =
     [check_feature_distribution env v m, check_prediction_error env v m,
      check_action_outcome_divergence env v m, check_workload_mix env v m, check_data_staleness env now v]"

definition check_all ::
  "report_env \<Rightarrow> datetime \<Rightarrow> model_version \<Rightarrow> drift_monitor \<times> registry \<Rightarrow> (drift_monitor \<times> registry) \<times> drift_report list" where
  "check_all env now v st =
     (let reports = drift_reports env now v (fst st) in (fold keep_report reports st, reports))"

definition push_history :: "string \<Rightarrow> 'a \<Rightarrow> (string, 'a list) dict \<Rightarrow> (string, 'a list) dict" where
  "push_history k x d = dict_set k (append_bounded max_history x (dict_get_or d k [])) d"

definition record_features :: "model_version \<Rightarrow> (string, rat) dict \<Rightarrow> drift_monitor \<Rightarrow> drift_monitor" where
  "record_features v features m =
     (let key = model_key v;
          m1 = (if dict_has (dm_feature_history m) key then m
                else m\<lparr>dm_feature_baselines := dict_set key features (dm_feature_baselines m)\<rparr>)
      in m1\<lparr>dm_feature_history := push_history key features (dm_feature_history m1)\<rparr>)"

definition record_prediction_error :: "model_version \<Rightarrow> rat \<Rightarrow> drift_monitor \<Rightarrow> drift_monitor" where
  "record_prediction_error v x m =
     m\<lparr>dm_prediction_errors := push_history (''err_'' @ model_key v) x (dm_prediction_errors m)\<rparr>"

definition record_outcome :: "model_version \<Rightarrow> json \<Rightarrow> json \<Rightarrow> rat \<Rightarrow> datetime \<Rightarrow> drift_monitor \<Rightarrow> drift_monitor" where
  "record_outcome v predicted actual divergence now m =
     m\<lparr>dm_outcome_history := push_history (''out_'' @ model_key v)
         \<lparr>oc_predicted = predicted, oc_actual = actual, oc_divergence = divergence, oc_timestamp = now\<rparr>
         (dm_outcome_history m)\<rparr>"

definition record_workload_distribution :: "model_version \<Rightarrow> (string, int) dict \<Rightarrow> drift_monitor \<Rightarrow> drift_monitor" where
  "record_workload_distribution v d m =
     m\<lparr>dm_workload_distributions := push_history (''wl_'' @ model_key v) d (dm_workload_distributions m)\<rparr>"

definition list_reports :: "uuid option \<Rightarrow> int \<Rightarrow> drift_monitor \<Rightarrow> drift_report list" where
  "list_reports i lmt m =
     slice_first lmt (sorted_by_desc dr_detected_at
       (case i of None \<Rightarrow> dict_values (dm_reports m)
        | Some x \<Rightarrow> filter (\<lambda>r. dr_model_version_id r = x) (dict_values (dm_reports m))))"

definition clear_reports :: "drift_monitor \<Rightarrow> drift_monitor" where
  "clear_reports m = m\<lparr>dm_reports := []\<rparr>"

definition monitor_reset :: "drift_monitor \<Rightarrow> drift_monitor" where
  "monitor_reset m = empty_monitor"

subsection \<open>Fallback\<close>

record fallback_config =
  fc_enabled :: bool
  fc_confidence_threshold :: rat
  fc_max_data_stale_hours :: int
  fc_drift_score_threshold :: rat
  fc_strategy :: string
  fc_max_fallback_duration_hours :: int

definition default_fallback_config :: fallback_config where
  "default_fallback_config = \<lparr>fc_enabled = True, fc_confidence_threshold = 3 / 10, fc_max_data_stale_hours = 48,
     fc_drift_score_threshold = 7 / 10, fc_strategy = ''deterministic_heuristic'',
     fc_max_fallback_duration_hours = 72\<rparr>"

type_synonym fallback_start = "(action_class, datetime) dict"

fun join_pieces :: "piece list list \<Rightarrow> piece list" where
  "join_pieces [] = []"
| "join_pieces [p] = p"
| "join_pieces (p # ps) = p @ Txt '', '' # join_pieces ps"

text \<open>\<open>now\<close> and \<open>now2\<close> are the readings for the age of the training data and of the fallback.\<close>

definition should_fallback ::
  "fallback_config \<Rightarrow> datetime \<Rightarrow> datetime \<Rightarrow> model_version \<Rightarrow> rat \<Rightarrow> drift_report list \<Rightarrow> fallback_start \<Rightarrow> bool \<times> piece list" where
  "should_fallback cfg now now2 v confidence reports start =
     (let high_drift = filter (\<lambda>r. fc_drift_score_threshold cfg < dr_drift_score r) reports;
          age_hours = (case mv_window_end v of None \<Rightarrow> 0 | Some t \<Rightarrow> hours_between t now)
      in if \<not> fc_enabled cfg then (False, [Txt ''Fallback disabled''])
         else if confidence < fc_confidence_threshold cfg then
           (True, [Txt ''Confidence '', Fmt ''.2f'' (JFloat confidence), Txt '' below threshold '',
                   Val (JFloat (fc_confidence_threshold cfg))])
         else if high_drift \<noteq> [] then
           (True, Txt ''Drift threshold exceeded: '' # join_pieces
              (map (\<lambda>r. [Txt (drift_type_value (dr_drift_type r) @ ''=''), Fmt ''.2f'' (JFloat (dr_drift_score r))]) high_drift))
         else if mv_window_end v \<noteq> None \<and> of_int (fc_max_data_stale_hours cfg) < age_hours then
           (True, [Txt ''Training data '', Fmt ''.0f'' (JFloat age_hours), Txt ''h old (max '',
                   Val (JInt (fc_max_data_stale_hours cfg)), Txt ''h)''])
         else (case dict_get start (mv_action_class v) of
                 None \<Rightarrow> (False, [])
               | Some t \<Rightarrow>
                   (if of_int (fc_max_fallback_duration_hours cfg) < hours_between t now2
                    then (False, [Txt ''Forcing recovery check after max fallback duration'']) else (False, []))))"

definition deterministic_heuristic :: "model_version \<Rightarrow> (string, json) dict \<Rightarrow> json" where
  "deterministic_heuristic v data =
     (let base = [(''fallback'', JBool True), (''strategy'', JStr ''deterministic_heuristic'')]
      in JObj (base @
        (case mv_action_class v of
           RECOMMENDATION_SCORING \<Rightarrow>
             [(''score'', dict_get_or data ''heuristic_score'' (JFloat 50)), (''confidence'', JFloat (1 / 2))]
         | DEMAND_FORECAST \<Rightarrow>
             [(''forecast_type'', JStr ''linear_trend''),
              (''prediction'', dict_get_or data ''last_observed_value'' (JFloat 0)), (''confidence'', JFloat (3 / 10))]
         | ANOMALY_DETECTION \<Rightarrow>
             [(''anomaly_detected'', JBool False), (''confidence'', JFloat (2 / 5)), (''method'', JStr ''z_score_only'')]
         | _ \<Rightarrow> [(''confidence'', JFloat (3 / 10))])))"

definition get_heuristic :: "fallback_config \<Rightarrow> model_version \<Rightarrow> (string, json) dict \<Rightarrow> json" where
  "get_heuristic cfg v data =
     (if fc_strategy cfg = ''deterministic_heuristic'' then deterministic_heuristic v data
      else JObj [(''fallback'', JBool True), (''strategy'', JStr (fc_strategy cfg)), (''input'', JObj data)])"

definition activate_fallback ::
  "action_class \<Rightarrow> datetime \<Rightarrow> fallback_start \<times> registry \<Rightarrow> fallback_start \<times> registry" where
  "activate_fallback c now st =
     (let (start, s) = st in
      ((if dict_has start c then start else dict_set c now start), set_fallback c True s))"

definition deactivate_fallback :: "action_class \<Rightarrow> fallback_start \<times> registry \<Rightarrow> fallback_start \<times> registry" where
  "deactivate_fallback c st = (let (start, s) = st in (dict_pop c start, set_fallback c False s))"

definition is_fallback_active :: "action_class \<Rightarrow> fallback_start \<Rightarrow> bool" where
  "is_fallback_active c start = dict_has start c"

definition check_recovery ::
  "fallback_config \<Rightarrow> datetime \<Rightarrow> datetime \<Rightarrow> model_version \<Rightarrow> rat \<Rightarrow> drift_report list \<Rightarrow> fallback_start \<times> registry
    \<Rightarrow> (fallback_start \<times> registry) \<times> bool \<times> piece list" where
  "check_recovery cfg now now2 v confidence reports st =
     (if get_champion (mv_action_class v) (snd st) = None
      then (st, False, [Txt ''No champion model available for recovery''])
      else (let (should, reason) = should_fallback cfg now now2 v confidence reports (fst st)
            in if \<not> should then (deactivate_fallback (mv_action_class v) st, True,
                                  [Txt ''Recovered -- confidence and drift within limits''])
               else (st, False, Txt ''Still in fallback: '' # reason)))"

subsection \<open>The governor\<close>

record governor =
  go_registry :: registry
  go_evaluations :: evaluations
  go_monitor :: drift_monitor
  go_start :: fallback_start
  go_requests :: cert_requests

record governor_config =
  gc_shadow :: shadow_config
  gc_fallback :: fallback_config
  gc_high_impact :: "action_class list"
  gc_reminder_days :: int

definition empty_governor :: governor where
  "empty_governor = \<lparr>go_registry = empty_registry, go_evaluations = [], go_monitor = empty_monitor,
     go_start = [], go_requests = []\<rparr>"

definition register_model ::
  "governor_config \<Rightarrow> uuid \<Rightarrow> uuid \<Rightarrow> datetime \<Rightarrow> string \<Rightarrow> string \<Rightarrow> action_class \<Rightarrow> string \<Rightarrow> string list
    \<Rightarrow> (string, rat) dict \<Rightarrow> (datetime \<times> datetime) option \<Rightarrow> governor \<Rightarrow> governor" where
  "register_model cfg i rid now name version c owner features metrics window g =
     (let v = \<lparr>mv_id = i, mv_model_name = name, mv_version = version, mv_action_class = c,
               mv_status = MS_DRAFT, mv_owner = owner, mv_created_at = now, mv_updated_at = now,
               mv_window_start = map_option fst window, mv_window_end = map_option snd window,
               mv_features = features, mv_training_metrics = metrics, mv_approved_by = None,
               mv_approved_at = None, mv_approval_note = [], mv_certification_days = 90,
               mv_certified_until = None, mv_shadow_evaluation_id = None\<rparr>;
          g1 = g\<lparr>go_registry := mr_register v (go_registry g)\<rparr>
      in if requires_approval (gc_high_impact cfg) v
         then g1\<lparr>go_requests := request_approval rid now v owner None (go_requests g1)\<rparr>
         else g1\<lparr>go_registry := mr_update_status i MS_CHALLENGER now (go_registry g1)\<rparr>)"

definition set_champion :: "governor_config \<Rightarrow> datetime \<Rightarrow> uuid \<Rightarrow> governor \<Rightarrow> governor \<times> model_version option" where
  "set_champion cfg now i g =
     (case mr_get (go_registry g) i of
        None \<Rightarrow> (g, None)
      | Some v \<Rightarrow>
          (if requires_approval (gc_high_impact cfg) v \<and> mv_approved_by v = None then (g, None)
           else if (case mv_certified_until v of None \<Rightarrow> False | Some t \<Rightarrow> t < now) then (g, None)
           else (let (s, r) = promote_challenger (mv_action_class v) now now (go_registry g)
                 in (g\<lparr>go_registry := s\<rparr>, r))))"

datatype prediction =
    NoChampion
  | FallbackResult "piece list" "drift_report list" json
  | StillFallback "piece list" json
  | ModelResult string string rat

definition predict ::
  "governor_config \<Rightarrow> report_env \<Rightarrow> datetime \<Rightarrow> datetime \<Rightarrow> action_class \<Rightarrow> (string, json) dict \<Rightarrow> rat \<Rightarrow> governor
    \<Rightarrow> governor \<times> prediction" where
  "predict cfg env now now2 c data confidence g =
     (case get_champion c (go_registry g) of
        None \<Rightarrow> (g, NoChampion)
      | Some champion \<Rightarrow>
          (let fb = gc_fallback cfg;
               ((m, s), reports) = check_all env now champion (go_monitor g, go_registry g);
               g1 = g\<lparr>go_monitor := m, go_registry := s\<rparr>;
               (should, reason) = should_fallback fb now now champion confidence reports (go_start g1)
           in if should then
                (let (start, s') = activate_fallback c now (go_start g1, go_registry g1)
                 in (g1\<lparr>go_start := start, go_registry := s'\<rparr>,
                     FallbackResult reason (filter (\<lambda>r. 0 < dr_drift_score r) reports) (get_heuristic fb champion data)))
              else
                (let ((start, s'), recovered, msg) =
                       (if is_fallback_active c (go_start g1)
                        then check_recovery fb now2 now2 champion confidence reports (go_start g1, go_registry g1)
                        else ((go_start g1, go_registry g1), True, []));
                     g2 = g1\<lparr>go_start := start, go_registry := s'\<rparr>
                 in if \<not> recovered then (g2, StillFallback msg (get_heuristic fb champion data))
                    else (g2\<lparr>go_registry := record_prediction (mv_id champion) confidence (go_registry g2)\<rparr>,
                          ModelResult (mv_model_name champion) (mv_version champion) confidence))))"

definition record_observation ::
  "datetime \<Rightarrow> action_class \<Rightarrow> (string, rat) dict \<Rightarrow> rat option \<Rightarrow> rat option \<Rightarrow> (string, int) dict \<Rightarrow> governor \<Rightarrow> governor" where
  "record_observation now c features err divergence workload g =
     (case get_champion c (go_registry g) of
        None \<Rightarrow> g
      | Some v \<Rightarrow>
          (let m = go_monitor g;
               m = (if features \<noteq> [] then record_features v features m else m);
               m = (case err of None \<Rightarrow> m | Some x \<Rightarrow> record_prediction_error v x m);
               m = (case divergence of None \<Rightarrow> m | Some x \<Rightarrow> record_outcome v JNull JNull x now m);
               m = (if workload \<noteq> [] then record_workload_distribution v workload m else m)
           in g\<lparr>go_monitor := m\<rparr>))"

record periodic_result =
  pe_recertification_due :: "cert_request list"
  pe_drift_alerts :: "(action_class \<times> drift_report) list"
  pe_fallback_status :: "(action_class \<times> bool \<times> bool \<times> piece list) list"

definition periodic_class ::
  "governor_config \<Rightarrow> (action_class \<Rightarrow> report_env) \<Rightarrow> datetime \<Rightarrow> action_class \<Rightarrow> governor \<times> periodic_result
    \<Rightarrow> governor \<times> periodic_result" where
  "periodic_class cfg env now c st =
     (let (g, res) = st in
      case get_champion c (go_registry g) of
        None \<Rightarrow> st
      | Some champion \<Rightarrow>
          (let ((m, s), reports) = check_all (env c) now champion (go_monitor g, go_registry g);
               (should_fb, reason) = should_fallback (gc_fallback cfg) now now champion (4 / 5) reports (go_start g)
           in (g\<lparr>go_monitor := m, go_registry := s\<rparr>,
               res\<lparr>pe_drift_alerts := pe_drift_alerts res @
                      map (\<lambda>r. (c, r)) (filter (\<lambda>r. 3 / 10 < dr_drift_score r) reports),
                   pe_fallback_status := pe_fallback_status res @
                      [(c, is_fallback_active c (go_start g), should_fb, if should_fb then reason else [])]\<rparr>)))"

definition run_periodic_checks ::
  "governor_config \<Rightarrow> (action_class \<Rightarrow> report_env) \<Rightarrow> datetime \<Rightarrow> governor \<Rightarrow> governor \<times> periodic_result" where
  "run_periodic_checks cfg env now g =
     (let (g1, res) = fold (periodic_class cfg env now) all_action_classes
            (g, \<lparr>pe_recertification_due = [], pe_drift_alerts = [], pe_fallback_status = []\<rparr>);
          (rs, due) = check_recertification (gc_reminder_days cfg) now (go_requests g1)
      in (g1\<lparr>go_requests := rs\<rparr>, res\<lparr>pe_recertification_due := due\<rparr>))"

subsection \<open>Drift scores\<close>

lemma py_round_le: "x \<le> of_int b \<Longrightarrow> py_round n x \<le> of_int b"
  by (metis py_round_int py_round_mono)

lemma py_round_ge: "of_int a \<le> x \<Longrightarrow> of_int a \<le> py_round n x"
  by (metis py_round_int py_round_mono)

lemma drift_report_of_simps [simp]:
  "dr_drift_score (drift_report_of env v t x sv d a) = x"
  "dr_action_class (drift_report_of env v t x sv d a) = mv_action_class v"
  "dr_model_version_id (drift_report_of env v t x sv d a) = mv_id v"
  "dr_drift_type (drift_report_of env v t x sv d a) = t"
  "dr_id (drift_report_of env v t x sv d a) = fst (env t)"
  by (simp_all add: drift_report_of_def)

lemma feature_score: "0 \<le> dr_drift_score (check_feature_distribution env v m) \<and> dr_drift_score (check_feature_distribution env v m) \<le> 1"
proof -
  have "0 \<le> py_round 4 (min (foldl max 0 xs) 1) \<and> py_round 4 (min (foldl max 0 xs) 1) \<le> 1" for xs
    using py_round_bounds [of 0 "min (foldl max 0 xs) 1" 1 4] foldl_max_ge [of 0 0 xs] by simp
  then show ?thesis
    by (simp add: check_feature_distribution_def Let_def split: option.split list.split)
qed

lemma error_score: "0 \<le> dr_drift_score (check_prediction_error env v m) \<and> dr_drift_score (check_prediction_error env v m) \<le> 1"
proof -
  have "0 \<le> py_round 4 (min (max x 0) 1) \<and> py_round 4 (min (max x 0) 1) \<le> 1" for x
    using py_round_bounds [of 0 "min (max x 0) 1" 1 4] by simp
  then show ?thesis by (simp add: check_prediction_error_def Let_def)
qed

lemma rounded_min_one: "py_round n (min x 1) \<le> 1"
  using py_round_le [of "min x 1" 1 n] by simp

lemma outcome_score: "dr_drift_score (check_action_outcome_divergence env v m) \<le> 1"
  by (simp add: check_action_outcome_divergence_def Let_def rounded_min_one)

lemma workload_score: "0 \<le> dr_drift_score (check_workload_mix env v m) \<and> dr_drift_score (check_workload_mix env v m) \<le> 1"
proof -
  have nonneg: "0 \<le> sum_list (map (workload_delta a b) ks)" for a b ks
    by (rule sum_list_nonneg) (auto simp: workload_delta_def Let_def)
  have "0 \<le> py_round n (min (sum_list (map (workload_delta a b) ks) / of_nat k) 1)" for n a b ks k
    using py_round_ge [of 0 "min (sum_list (map (workload_delta a b) ks) / of_nat k) 1" n] nonneg [of a b ks] by simp
  then show ?thesis by (simp add: check_workload_mix_def Let_def rounded_min_one)
qed

lemma staleness_score: "dr_drift_score (check_data_staleness env now v) \<le> 1"
  by (simp add: check_data_staleness_def Let_def rounded_min_one split: option.split)

lemma drift_reports_class: "r \<in> set (drift_reports env now v m) \<Longrightarrow> dr_action_class r = mv_action_class v \<and> dr_model_version_id r = mv_id v"
  by (auto simp: drift_reports_def check_feature_distribution_def check_prediction_error_def
      check_action_outcome_divergence_def check_workload_mix_def check_data_staleness_def Let_def
      split: option.split list.split)

lemma drift_reports_ids: "map dr_id (drift_reports env now v m) =
  map (\<lambda>t. fst (env t)) [FEATURE_DISTRIBUTION, PREDICTION_ERROR, ACTION_OUTCOME_DIVERGENCE, WORKLOAD_MIX, DATA_STALENESS]"
  by (simp add: drift_reports_def check_feature_distribution_def check_prediction_error_def
      check_action_outcome_divergence_def check_workload_mix_def check_data_staleness_def Let_def
      split: option.split list.split)

lemma keep_reports_alerts:
  "\<forall>r \<in> set rs. dr_action_class r = c \<Longrightarrow> fold keep_report rs (m, s) = (m', s') \<Longrightarrow>
    dict_get_or (mr_drift_alerts s') c 0 = dict_get_or (mr_drift_alerts s) c 0 + int (length (filter (\<lambda>r. 3 / 10 < dr_drift_score r) rs))
    \<and> (\<forall>d. d \<noteq> c \<longrightarrow> dict_get (mr_drift_alerts s') d = dict_get (mr_drift_alerts s) d)"
  by (induction rs arbitrary: m s) (auto simp: keep_report_def record_drift_def Let_def split: if_splits)

lemma keep_reports_registry:
  "fold keep_report rs (m, s) = (m', s') \<Longrightarrow> s' = s\<lparr>mr_drift_alerts := mr_drift_alerts s'\<rparr>"
proof (induction rs arbitrary: m s)
  case (Cons r rs)
  obtain m1 s1 where k: "keep_report r (m, s) = (m1, s1)" by (cases "keep_report r (m, s)")
  have s1: "s1 = s\<lparr>mr_drift_alerts := mr_drift_alerts s1\<rparr>"
    using k by (auto simp: keep_report_def record_drift_def Let_def split: if_splits)
  have "s' = s1\<lparr>mr_drift_alerts := mr_drift_alerts s'\<rparr>"
    using Cons.IH [of m1 s1] Cons.prems k by simp
  then show ?case using s1 by (metis registry.surjective registry.update_convs(8))
qed simp

text \<open>
  A drift check reports on all five kinds of drift with scores of at most one, never negative
  for the features, the prediction errors and the workload mix; it raises the class's alert count
  by the number of its reports above three tenths, leaves the alerts of the other classes alone and
  changes nothing else of the registry.
\<close>

theorem drift_check_scores:
  assumes "check_all env now v (m, s) = ((m', s'), reports)"
  shows "map dr_drift_type reports = [FEATURE_DISTRIBUTION, PREDICTION_ERROR, ACTION_OUTCOME_DIVERGENCE, WORKLOAD_MIX, DATA_STALENESS]
    \<and> (\<forall>r \<in> set reports. dr_drift_score r \<le> 1 \<and> dr_model_version_id r = mv_id v
         \<and> (dr_drift_type r \<in> {FEATURE_DISTRIBUTION, PREDICTION_ERROR, WORKLOAD_MIX} \<longrightarrow> 0 \<le> dr_drift_score r))
    \<and> dict_get_or (mr_drift_alerts s') (mv_action_class v) 0 = dict_get_or (mr_drift_alerts s) (mv_action_class v) 0
         + int (length (filter (\<lambda>r. 3 / 10 < dr_drift_score r) reports))
    \<and> (\<forall>d. d \<noteq> mv_action_class v \<longrightarrow> dict_get (mr_drift_alerts s') d = dict_get (mr_drift_alerts s) d)
    \<and> s' = s\<lparr>mr_drift_alerts := mr_drift_alerts s'\<rparr>"
proof -
  have reports: "reports = drift_reports env now v m" and fold: "fold keep_report reports (m, s) = (m', s')"
    using assms by (auto simp: check_all_def Let_def)
  have types: "map dr_drift_type reports = [FEATURE_DISTRIBUTION, PREDICTION_ERROR, ACTION_OUTCOME_DIVERGENCE, WORKLOAD_MIX, DATA_STALENESS]"
    by (simp add: reports drift_reports_def check_feature_distribution_def check_prediction_error_def
        check_action_outcome_divergence_def check_workload_mix_def check_data_staleness_def Let_def
        split: option.split list.split)
  have cls: "\<forall>r \<in> set reports. dr_action_class r = mv_action_class v"
    using drift_reports_class reports by auto
  have "\<forall>r \<in> set reports. dr_drift_score r \<le> 1 \<and> dr_model_version_id r = mv_id v
         \<and> (dr_drift_type r \<in> {FEATURE_DISTRIBUTION, PREDICTION_ERROR, WORKLOAD_MIX} \<longrightarrow> 0 \<le> dr_drift_score r)"
    using types drift_reports_class [of _ env now v m] feature_score [of env v m] error_score [of env v m] outcome_score [of env v m] workload_score [of env v m] staleness_score [of env now v]
    by (auto simp: reports drift_reports_def)
  then show ?thesis
    using types keep_reports_alerts [OF cls fold] keep_reports_registry [OF fold] by blast
qed

theorem drift_check_scores_witness:
  "\<exists>m' s' reports. check_all (\<lambda>_. (''r'', 0)) 0 (sample_version ''1'') (empty_monitor, empty_registry) = ((m', s'), reports)
     \<and> length reports = 5"
proof -
  obtain m' s' reports where e: "check_all (\<lambda>_. (''r'', 0)) 0 (sample_version ''1'') (empty_monitor, empty_registry) = ((m', s'), reports)"
    by (metis prod.exhaust)
  have "map dr_drift_type reports = [FEATURE_DISTRIBUTION, PREDICTION_ERROR, ACTION_OUTCOME_DIVERGENCE, WORKLOAD_MIX, DATA_STALENESS]"
    using drift_check_scores [OF e] by blast
  from arg_cong [OF this, of length] e show ?thesis by auto
qed

subsection \<open>Fallback as a machine\<close>

lemma update_status_fallback [simp]: "mr_fallback_active (mr_update_status i st now s) = mr_fallback_active s"
  by (simp add: mr_update_status_def Let_def split: option.split)

lemma promote_fallback [simp]: "mr_fallback_active (fst (promote_challenger c now now2 s)) = mr_fallback_active s"
  by (simp add: promote_challenger_def Let_def split: option.split)

lemma check_all_cases:
  obtains m' s' where "check_all env now v (m, s) = ((m', s'), drift_reports env now v m)"
    and "s' = s\<lparr>mr_drift_alerts := mr_drift_alerts s'\<rparr>"
proof -
  obtain m' s' where f: "fold keep_report (drift_reports env now v m) (m, s) = (m', s')"
    by (cases "fold keep_report (drift_reports env now v m) (m, s)")
  show thesis
    by (rule that [OF _ keep_reports_registry [OF f]]) (simp add: check_all_def Let_def f)
qed

text \<open>The engine's start times and the registry's flags name the same classes.\<close>

definition fallback_agrees :: "governor \<Rightarrow> bool" where
  "fallback_agrees g \<longleftrightarrow> (\<forall>c. is_fallback_active c (go_start g) \<longleftrightarrow> c \<in> mr_fallback_active (go_registry g))"

lemma fallback_agrees_activate:
  assumes "activate_fallback c now (go_start g, s) = (start, s')"
    and "mr_fallback_active s = mr_fallback_active (go_registry g)" and "fallback_agrees g"
  shows "fallback_agrees (g\<lparr>go_monitor := m, go_registry := s', go_start := start\<rparr>)"
  using assms by (auto simp: fallback_agrees_def activate_fallback_def is_fallback_active_def
      set_fallback_def dict_has_def split: if_splits)

lemma fallback_agrees_deactivate:
  assumes "deactivate_fallback c (go_start g, s) = (start, s')"
    and "mr_fallback_active s = mr_fallback_active (go_registry g)" and "fallback_agrees g"
  shows "fallback_agrees (g\<lparr>go_monitor := m, go_registry := s', go_start := start\<rparr>)"
  using assms by (auto simp: fallback_agrees_def deactivate_fallback_def is_fallback_active_def
      set_fallback_def dict_has_def split: if_splits)

text \<open>What a prediction does, by its result.\<close>

lemma predict_cases:
  assumes "predict cfg env now now2 c data confidence g = (g', p)"
  obtains
    (none) "get_champion c (go_registry g) = None" "g' = g" "p = NoChampion"
  | (fallback) champ s m start s' reason where "get_champion c (go_registry g) = Some champ"
      "s = (go_registry g)\<lparr>mr_drift_alerts := mr_drift_alerts s\<rparr>"
      "fst (should_fallback (gc_fallback cfg) now now champ confidence (drift_reports env now champ (go_monitor g)) (go_start g))"
      "activate_fallback c now (go_start g, s) = (start, s')"
      "g' = g\<lparr>go_monitor := m, go_registry := s', go_start := start\<rparr>"
      "\<exists>rs h. p = FallbackResult reason rs h"
  | (still) champ s m msg h where "get_champion c (go_registry g) = Some champ"
      "s = (go_registry g)\<lparr>mr_drift_alerts := mr_drift_alerts s\<rparr>"
      "is_fallback_active c (go_start g)"
      "g' = g\<lparr>go_monitor := m, go_registry := s\<rparr>" "p = StillFallback msg h"
      "get_champion (mv_action_class champ) s = None
         \<or> fst (should_fallback (gc_fallback cfg) now2 now2 champ confidence (drift_reports env now champ (go_monitor g)) (go_start g))"
  | (model) champ s m where "get_champion c (go_registry g) = Some champ"
      "s = (go_registry g)\<lparr>mr_drift_alerts := mr_drift_alerts s\<rparr>"
      "\<not> fst (should_fallback (gc_fallback cfg) now now champ confidence (drift_reports env now champ (go_monitor g)) (go_start g))"
      "\<not> is_fallback_active c (go_start g)"
      "g' = g\<lparr>go_monitor := m, go_registry := ModelRegistry.record_prediction (mv_id champ) confidence s\<rparr>"
      "p = ModelResult (mv_model_name champ) (mv_version champ) confidence"
  | (recovered) champ s m start s' where "get_champion c (go_registry g) = Some champ"
      "s = (go_registry g)\<lparr>mr_drift_alerts := mr_drift_alerts s\<rparr>"
      "\<not> fst (should_fallback (gc_fallback cfg) now now champ confidence (drift_reports env now champ (go_monitor g)) (go_start g))"
      "is_fallback_active c (go_start g)"
      "deactivate_fallback (mv_action_class champ) (go_start g, s) = (start, s')"
      "g' = g\<lparr>go_monitor := m, go_registry := ModelRegistry.record_prediction (mv_id champ) confidence s', go_start := start\<rparr>"
      "p = ModelResult (mv_model_name champ) (mv_version champ) confidence"
      "\<not> fst (should_fallback (gc_fallback cfg) now2 now2 champ confidence (drift_reports env now champ (go_monitor g)) (go_start g))"
proof (cases "get_champion c (go_registry g)")
  case None
  with assms show ?thesis by (intro none) (simp_all add: predict_def)
next
  case (Some champ)
  let ?reports = "drift_reports env now champ (go_monitor g)"
  obtain m s where ca: "check_all env now champ (go_monitor g, go_registry g) = ((m, s), ?reports)"
    and s: "s = (go_registry g)\<lparr>mr_drift_alerts := mr_drift_alerts s\<rparr>" by (rule check_all_cases)
  obtain should reason where sf: "should_fallback (gc_fallback cfg) now now champ confidence ?reports (go_start g) = (should, reason)"
    by (cases "should_fallback (gc_fallback cfg) now now champ confidence ?reports (go_start g)")
  show ?thesis
  proof (cases should)
    case True
    obtain start s' where act: "activate_fallback c now (go_start g, s) = (start, s')"
      by (cases "activate_fallback c now (go_start g, s)")
    show ?thesis
      by (rule fallback [OF Some s _ act, of m reason]) (use assms Some ca sf act True in \<open>auto simp: predict_def Let_def\<close>)
  next
    case no: False
    show ?thesis
    proof (cases "is_fallback_active c (go_start g)")
      case False
      show ?thesis
        by (rule model [OF Some s _ False, of m]) (use assms Some ca sf no False in \<open>auto simp: predict_def Let_def\<close>)
    next
      case act: True
      obtain st rec msg where cr: "check_recovery (gc_fallback cfg) now2 now2 champ confidence ?reports (go_start g, s) = (st, rec, msg)"
        by (metis prod.exhaust)
      show ?thesis
      proof (cases rec)
        case True
        then obtain start s' where de: "deactivate_fallback (mv_action_class champ) (go_start g, s) = (start, s')" "st = (start, s')"
          using cr by (cases st) (auto simp: check_recovery_def Let_def split: if_splits prod.splits)
        show ?thesis
          by (rule recovered [OF Some s _ act de(1), of m])
            (use assms Some ca sf no act cr de(2) True in \<open>auto simp: predict_def check_recovery_def Let_def split: if_splits prod.splits\<close>)
      next
        case False
        then have "st = (go_start g, s)"
          using cr by (auto simp: check_recovery_def Let_def split: if_splits prod.splits)
        then show ?thesis
          by (intro still [OF Some s act, of m msg "get_heuristic (gc_fallback cfg) champ data"])
            (use assms Some ca sf no act cr False in \<open>auto simp: predict_def check_recovery_def Let_def split: if_splits prod.splits\<close>)
      qed
    qed
  qed
qed

lemma drift_alerts_only:
  assumes "s = r\<lparr>mr_drift_alerts := mr_drift_alerts s\<rparr>"
  shows "mr_fallback_active s = mr_fallback_active r" "mr_champions s = mr_champions r"
    "mr_versions s = mr_versions r" "mr_prediction_counts s = mr_prediction_counts r"
  using assms by (metis registry.ext_inject registry.surjective registry.update_convs(8))+

lemma record_prediction_fallback [simp]:
  "mr_fallback_active (ModelRegistry.record_prediction i x s) = mr_fallback_active s"
  by (simp add: ModelRegistry.record_prediction_def)

lemma predict_agrees:
  assumes "fallback_agrees g" and "predict cfg env now now2 c data confidence g = (g', p)"
  shows "fallback_agrees g'"
  using assms(2)
proof (cases rule: predict_cases)
  case none
  with assms(1) show ?thesis by simp
next
  case (fallback champ s m start s' reason)
  then show ?thesis
    using fallback_agrees_activate [OF fallback(4) drift_alerts_only(1) [OF fallback(2)] assms(1)] by simp
next
  case (still champ s m msg h)
  then show ?thesis
    using assms(1) drift_alerts_only(1) [OF still(2)] by (simp add: fallback_agrees_def)
next
  case (model champ s m)
  then show ?thesis
    using assms(1) drift_alerts_only(1) [OF model(2)] by (simp add: fallback_agrees_def)
next
  case (recovered champ s m start s')
  then show ?thesis
    using fallback_agrees_deactivate [OF recovered(5) drift_alerts_only(1) [OF recovered(2)] assms(1), of m]
    by (simp add: fallback_agrees_def)
qed

datatype governor_op =
    GovRegister uuid uuid datetime string string action_class string "string list" "(string, rat) dict" "(datetime \<times> datetime) option"
  | GovSetChampion datetime uuid
  | GovPredict report_env datetime datetime action_class "(string, json) dict" rat
  | GovObserve datetime action_class "(string, rat) dict" "rat option" "rat option" "(string, int) dict"
  | GovPeriodic "action_class \<Rightarrow> report_env" datetime
  | GovActivate action_class datetime
  | GovDeactivate action_class
  | GovApprove uuid string string "int option" datetime datetime
  | GovReject uuid string string datetime datetime

definition with_fallback :: "fallback_start \<times> registry \<Rightarrow> governor \<Rightarrow> governor" where
  "with_fallback st g = g\<lparr>go_start := fst st, go_registry := snd st\<rparr>"

definition with_requests :: "cert_requests \<times> registry \<Rightarrow> governor \<Rightarrow> governor" where
  "with_requests st g = g\<lparr>go_requests := fst st, go_registry := snd st\<rparr>"

fun governor_step :: "governor_config \<Rightarrow> governor_op \<Rightarrow> governor \<Rightarrow> governor" where
  "governor_step cfg (GovRegister i rid now n ver c ow fs ms w) g = register_model cfg i rid now n ver c ow fs ms w g"
| "governor_step cfg (GovSetChampion now i) g = fst (set_champion cfg now i g)"
| "governor_step cfg (GovPredict env now now2 c d x) g = fst (predict cfg env now now2 c d x g)"
| "governor_step cfg (GovObserve now c fs e dv w) g = record_observation now c fs e dv w g"
| "governor_step cfg (GovPeriodic env now) g = fst (run_periodic_checks cfg env now g)"
| "governor_step cfg (GovActivate c now) g = with_fallback (activate_fallback c now (go_start g, go_registry g)) g"
| "governor_step cfg (GovDeactivate c) g = with_fallback (deactivate_fallback c (go_start g, go_registry g)) g"
| "governor_step cfg (GovApprove i r n d now now2) g = with_requests (fst (approve_model i r n d now now2 (go_requests g, go_registry g))) g"
| "governor_step cfg (GovReject i r n now now2) g = with_requests (fst (reject_model i r n now now2 (go_requests g, go_registry g))) g"

lemma certify_fallback [simp]: "mr_fallback_active (certify i f s) = mr_fallback_active s"
  by (simp add: certify_def split: option.split)

lemma periodic_class_frame:
  "go_start (fst (periodic_class cfg env now c (g, res))) = go_start g \<and>
   mr_fallback_active (go_registry (fst (periodic_class cfg env now c (g, res)))) = mr_fallback_active (go_registry g)"
proof (cases "get_champion c (go_registry g)")
  case None
  then show ?thesis by (simp add: periodic_class_def)
next
  case (Some champ)
  obtain m s where ca: "check_all (env c) now champ (go_monitor g, go_registry g) = ((m, s), drift_reports (env c) now champ (go_monitor g))"
    and s: "s = (go_registry g)\<lparr>mr_drift_alerts := mr_drift_alerts s\<rparr>" by (rule check_all_cases)
  show ?thesis
    using Some ca drift_alerts_only(1) [OF s] by (simp add: periodic_class_def Let_def split: prod.split)
qed

lemma periodic_fold_frame:
  "go_start (fst (fold (periodic_class cfg env now) cs (g, res))) = go_start g \<and>
   mr_fallback_active (go_registry (fst (fold (periodic_class cfg env now) cs (g, res)))) = mr_fallback_active (go_registry g)"
proof (induction cs arbitrary: g res)
  case (Cons c cs)
  obtain g1 r1 where p: "periodic_class cfg env now c (g, res) = (g1, r1)"
    by (cases "periodic_class cfg env now c (g, res)")
  show ?case
    using Cons.IH [of g1 r1] periodic_class_frame [of cfg env now c g res] by (simp add: p)
qed simp

lemma fallback_agrees_frame:
  "fallback_agrees g \<Longrightarrow> go_start g' = go_start g \<Longrightarrow> mr_fallback_active (go_registry g') = mr_fallback_active (go_registry g)
    \<Longrightarrow> fallback_agrees g'"
  by (simp add: fallback_agrees_def)

lemma periodic_checks_frame:
  "go_start (fst (run_periodic_checks cfg env now g)) = go_start g \<and>
   mr_fallback_active (go_registry (fst (run_periodic_checks cfg env now g))) = mr_fallback_active (go_registry g)"
proof -
  let ?r = "\<lparr>pe_recertification_due = [], pe_drift_alerts = [], pe_fallback_status = []\<rparr>"
  obtain g1 res where f: "fold (periodic_class cfg env now) all_action_classes (g, ?r) = (g1, res)"
    by (cases "fold (periodic_class cfg env now) all_action_classes (g, ?r)")
  show ?thesis
    using periodic_fold_frame [of cfg env now all_action_classes g ?r]
    by (simp add: run_periodic_checks_def f split: prod.split)
qed

lemma set_champion_frame:
  "go_start (fst (set_champion cfg now i g)) = go_start g \<and>
   mr_fallback_active (go_registry (fst (set_champion cfg now i g))) = mr_fallback_active (go_registry g)"
proof -
  have "mr_fallback_active s = mr_fallback_active (go_registry g)"
    if "promote_challenger c now now (go_registry g) = (s, r)" for c s r
    using promote_fallback [of c now now "go_registry g"] that by simp
  then show ?thesis by (simp add: set_champion_def split: option.split prod.split)
qed

interpretation governor_machine: invariant_machine "governor_step cfg" "\<lambda>_ _. True" fallback_agrees
  for cfg
proof
  fix g x assume inv: "fallback_agrees g"
  show "fallback_agrees (governor_step cfg x g)"
  proof (cases x)
    case (GovPredict env now now2 c d y)
    then show ?thesis using predict_agrees [OF inv] by (cases "predict cfg env now now2 c d y g") simp
  next
    case (GovPeriodic env now)
    show ?thesis
      unfolding GovPeriodic governor_step.simps
      by (rule fallback_agrees_frame [OF inv]) (simp_all add: periodic_checks_frame)
  next
    case (GovSetChampion now i)
    show ?thesis
      unfolding GovSetChampion governor_step.simps
      by (rule fallback_agrees_frame [OF inv]) (simp_all add: set_champion_frame)
  next
    case (GovActivate c now)
    then show ?thesis
      using inv by (auto simp: with_fallback_def activate_fallback_def fallback_agrees_def is_fallback_active_def
          set_fallback_def dict_has_def)
  next
    case (GovDeactivate c)
    then show ?thesis
      using inv by (auto simp: with_fallback_def deactivate_fallback_def fallback_agrees_def is_fallback_active_def
          set_fallback_def dict_has_def)
  qed (use inv in \<open>auto simp: fallback_agrees_def register_model_def mr_register_def Let_def record_observation_def
      with_requests_def approve_model_def reject_model_def split: option.splits\<close>)
qed

text \<open>
  The two records of fallback never disagree: after any run of the governor's operations, the
  fallback engine holds a start time for an action class exactly when the registry marks the class
  as in fallback.
\<close>

theorem fallback_records_agree:
  "is_fallback_active c (go_start (fold (governor_step cfg) ops empty_governor))
     \<longleftrightarrow> c \<in> mr_fallback_active (go_registry (fold (governor_step cfg) ops empty_governor))"
proof -
  have run: "run_allowed (governor_step cfg) (\<lambda>_ _. True) ops g" for g
    by (induction ops arbitrary: g) auto
  have "fallback_agrees empty_governor"
    by (simp add: fallback_agrees_def empty_governor_def empty_registry_def is_fallback_active_def dict_has_def)
  from governor_machine.run_inv [OF run this] show ?thesis by (simp add: fallback_agrees_def)
qed

text \<open>What the fallback engine asks of a model: confidence, drift and the age of its training data.\<close>

definition within_limits :: "fallback_config \<Rightarrow> datetime \<Rightarrow> model_version \<Rightarrow> rat \<Rightarrow> drift_report list \<Rightarrow> bool" where
  "within_limits cfg now v confidence reports \<longleftrightarrow>
     fc_confidence_threshold cfg \<le> confidence
     \<and> list_all (\<lambda>r. dr_drift_score r \<le> fc_drift_score_threshold cfg) reports
     \<and> (case mv_window_end v of None \<Rightarrow> True | Some t \<Rightarrow> hours_between t now \<le> of_int (fc_max_data_stale_hours cfg))"

lemma should_fallback_iff:
  "fst (should_fallback cfg now now2 v confidence reports start)
     \<longleftrightarrow> fc_enabled cfg \<and> \<not> within_limits cfg now v confidence reports"
  by (auto simp: should_fallback_def within_limits_def Let_def not_less not_le filter_empty_conv list_all_iff split: option.split)

text \<open>
  C4: when a model is used: without a champion there is no prediction and nothing changes. In a registry without
  dangling roles, a class with a champion gets the champion's prediction exactly when fallback is
  disabled or the confidence reaches its threshold, no drift score exceeds its own and the training
  data is not too old, by the first clock and, if the class was in fallback, by the second one too; then the
  class is out of fallback and the champion's predictions are counted up by one. Otherwise the answer
  is a heuristic's, the class is in fallback and no prediction is counted.
\<close>

theorem predict_gate:
  assumes "registry_wf (go_registry g)" and "predict cfg env now now2 c data confidence g = (g', p)"
  shows "case get_champion c (go_registry g) of
      None \<Rightarrow> p = NoChampion \<and> g' = g
    | Some champ \<Rightarrow>
        (let fine = (\<lambda>t. within_limits (gc_fallback cfg) t champ confidence (drift_reports env now champ (go_monitor g))) in
         if \<not> fc_enabled (gc_fallback cfg) \<or> fine now \<and> (is_fallback_active c (go_start g) \<longrightarrow> fine now2)
         then p = ModelResult (mv_model_name champ) (mv_version champ) confidence \<and> \<not> is_fallback_active c (go_start g')
           \<and> dict_get_or (mr_prediction_counts (go_registry g')) (mv_id champ) 0
               = dict_get_or (mr_prediction_counts (go_registry g)) (mv_id champ) 0 + 1
         else (\<exists>why rs h. p = FallbackResult why rs h \<or> p = StillFallback why h) \<and> is_fallback_active c (go_start g')
           \<and> mr_prediction_counts (go_registry g') = mr_prediction_counts (go_registry g))"
  using assms(2)
proof (cases rule: predict_cases)
  case none
  then show ?thesis by simp
next
  case (fallback champ s m start s' reason)
  then show ?thesis using drift_alerts_only(4) [OF fallback(2)]
    by (auto simp: should_fallback_iff activate_fallback_def set_fallback_def is_fallback_active_def dict_has_def Let_def split: if_splits)
next
  case (still champ s m msg h)
  have "mv_action_class champ = c" using champion_SomeD [OF assms(1) still(1)] by simp
  moreover have "mr_get s i = mr_get (go_registry g) i" for i using drift_alerts_only(3) [OF still(2)] by (simp add: mr_get_def)
  ultimately have "get_champion (mv_action_class champ) s = Some champ"
    using still(1) drift_alerts_only(2) [OF still(2)] by (simp add: get_champion_def split: option.splits)
  then have "fc_enabled (gc_fallback cfg) \<and> \<not> within_limits (gc_fallback cfg) now2 champ confidence (drift_reports env now champ (go_monitor g))"
    using still(6) by (simp add: should_fallback_iff)
  then show ?thesis using drift_alerts_only(4) [OF still(2)] still by (auto simp: Let_def)
next
  case (model champ s m)
  then show ?thesis
    using drift_alerts_only(4) [OF model(2)] by (auto simp: should_fallback_iff ModelRegistry.record_prediction_def Let_def)
next
  case (recovered champ s m start s')
  have "mv_action_class champ = c" using champion_SomeD [OF assms(1) recovered(1)] by simp
  then have "start = dict_pop c (go_start g)" "mr_prediction_counts s' = mr_prediction_counts (go_registry g)"
    using recovered(5) drift_alerts_only(4) [OF recovered(2)]
    by (auto simp: deactivate_fallback_def set_fallback_def)
  then show ?thesis
    using recovered
    by (auto simp: should_fallback_iff ModelRegistry.record_prediction_def is_fallback_active_def dict_has_def Let_def)
qed

definition sample_config :: governor_config where
  "sample_config = \<lparr>gc_shadow = \<lparr>sc_sample_minimum = 1000, sc_win_threshold = 11 / 20, sc_auto_promote = False\<rparr>,
     gc_fallback = default_fallback_config, gc_high_impact = high_impact_action_classes, gc_reminder_days = 14\<rparr>"

definition sample_governor :: governor where
  "sample_governor = empty_governor\<lparr>go_registry := sample_registry\<rparr>"

theorem predict_gate_witness:
  "\<exists>g1 p1 g2 p2. predict sample_config (\<lambda>_. (''r'', 0)) 0 0 POWER_OPTIMIZATION [] (9 / 10) sample_governor = (g1, p1)
     \<and> p1 = ModelResult ''power'' ''1'' (9 / 10) \<and> \<not> is_fallback_active POWER_OPTIMIZATION (go_start g1)
     \<and> predict sample_config (\<lambda>_. (''r'', 0)) 0 0 POWER_OPTIMIZATION [] (1 / 10) sample_governor = (g2, p2)
     \<and> (\<forall>n ver x. p2 \<noteq> ModelResult n ver x) \<and> is_fallback_active POWER_OPTIMIZATION (go_start g2)"
proof -
  let ?env = "\<lambda>_ :: drift_type. (''r'', 0 :: datetime)" and ?g = sample_governor
  define v where "v = (sample_version ''1'')\<lparr>mv_status := MS_CHAMPION, mv_updated_at := 5\<rparr>"
  obtain g1 p1 where e1: "predict sample_config ?env 0 0 POWER_OPTIMIZATION [] (9 / 10) ?g = (g1, p1)" by (metis prod.exhaust)
  obtain g2 p2 where e2: "predict sample_config ?env 0 0 POWER_OPTIMIZATION [] (1 / 10) ?g = (g2, p2)" by (metis prod.exhaust)
  have wf: "registry_wf (go_registry ?g)" by (simp add: sample_governor_def sample_registry_wf)
  have champ: "get_champion POWER_OPTIMIZATION (go_registry ?g) = Some v"
    by (simp add: sample_governor_def get_champion_def sample_registry_roles v_def) (simp add: sample_registry_def sample_registry_defs)
  have names: "mv_model_name v = ''power''" "mv_version v = ''1''" by (simp_all add: v_def sample_version_def)
  have "is_fallback_active POWER_OPTIMIZATION (go_start ?g) = False" "fc_enabled (gc_fallback sample_config)" by code_simp+
  moreover have "within_limits (gc_fallback sample_config) 0 v (9 / 10) (drift_reports ?env 0 v (go_monitor ?g))"
    unfolding v_def by code_simp
  moreover have "\<not> within_limits (gc_fallback sample_config) 0 v (1 / 10) rs" for rs
    by (simp add: within_limits_def sample_config_def default_fallback_config_def)
  ultimately have "p1 = ModelResult ''power'' ''1'' (9 / 10)" "\<not> is_fallback_active POWER_OPTIMIZATION (go_start g1)"
    "\<forall>n ver x. p2 \<noteq> ModelResult n ver x" "is_fallback_active POWER_OPTIMIZATION (go_start g2)"
    using predict_gate [OF wf e1, unfolded champ] predict_gate [OF wf e2, unfolded champ] by (auto simp: Let_def names)
  then show ?thesis using e1 e2 by auto
qed

subsection \<open>What stands between a model and its promotion\<close>

text \<open>
  The gate in front of promotion looks at the version that is named and promotes the challenger
  of its class: naming an unknown version, a high-impact version without approval or one whose
  certificate ran out changes nothing; naming any other one makes the class's challenger the
  champion, whichever version that is and whether or not it was itself approved.
\<close>

theorem set_champion_gate:
  assumes "registry_wf (go_registry g)" and "mr_get (go_registry g) i = Some v"
  shows "(mv_action_class v \<in> set (gc_high_impact cfg) \<and> mv_approved_by v = None \<longrightarrow> set_champion cfg now i g = (g, None))
    \<and> (\<forall>t. mv_certified_until v = Some t \<and> t < now \<longrightarrow> set_champion cfg now i g = (g, None))
    \<and> ((mv_action_class v \<in> set (gc_high_impact cfg) \<longrightarrow> mv_approved_by v \<noteq> None)
         \<and> (\<forall>t. mv_certified_until v = Some t \<longrightarrow> now \<le> t)
         \<and> get_challenger (mv_action_class v) (go_registry g) = Some w \<longrightarrow>
       (\<exists>g'. set_champion cfg now i g = (g', Some (w\<lparr>mv_status := MS_CHAMPION, mv_updated_at := now\<rparr>))
          \<and> get_champion (mv_action_class v) (go_registry g') = Some (w\<lparr>mv_status := MS_CHAMPION, mv_updated_at := now\<rparr>)))"
proof -
  have "\<exists>g'. set_champion cfg now i g = (g', Some (w\<lparr>mv_status := MS_CHAMPION, mv_updated_at := now\<rparr>))
          \<and> get_champion (mv_action_class v) (go_registry g') = Some (w\<lparr>mv_status := MS_CHAMPION, mv_updated_at := now\<rparr>)"
    if ok: "mv_action_class v \<in> set (gc_high_impact cfg) \<longrightarrow> mv_approved_by v \<noteq> None"
      "\<forall>t. mv_certified_until v = Some t \<longrightarrow> now \<le> t"
      and chal: "get_challenger (mv_action_class v) (go_registry g) = Some w"
  proof -
    obtain s r where p: "promote_challenger (mv_action_class v) now now (go_registry g) = (s, r)"
      by (cases "promote_challenger (mv_action_class v) now now (go_registry g)")
    note eff = promote_effect [OF assms(1) chal p]
    have "get_champion (mv_action_class v) s = Some (w\<lparr>mv_status := MS_CHAMPION, mv_updated_at := now\<rparr>)"
      by (simp add: get_champion_def eff)
    moreover have "set_champion cfg now i g = (g\<lparr>go_registry := s\<rparr>, r)"
      using ok p assms(2) by (auto simp: set_champion_def requires_approval_def split: option.split)
    ultimately show ?thesis using eff(4) by simp
  qed
  then show ?thesis
    using assms(2) by (auto simp: set_champion_def requires_approval_def split: option.split)
qed

definition approved_governor :: governor where
  "approved_governor = sample_governor\<lparr>go_registry := certify ''1'' (\<lambda>v. v\<lparr>mv_approved_by := Some ''ann''\<rparr>) sample_registry\<rparr>"

lemma certify_wf:
  assumes "registry_wf s" and "\<And>v. mv_id (f v) = mv_id v \<and> mv_action_class (f v) = mv_action_class v"
  shows "registry_wf (certify i f s)"
proof (cases "mr_get s i")
  case None
  then show ?thesis using assms by (simp add: certify_def)
next
  case (Some v)
  have get: "mr_get (certify i f s) = (mr_get s)(i \<mapsto> f v)"
    using Some by (auto simp: certify_def mr_get_def fun_eq_iff)
  have roles: "mr_champions (certify i f s) = mr_champions s" "mr_challengers (certify i f s) = mr_challengers s"
    using Some by (simp_all add: certify_def)
  have "points_to (certify i f s) d" if "points_to s d" for d
    by (rule points_to_keep [OF that]) (use Some assms(2) in \<open>auto simp: get\<close>)
  then show ?thesis
    using assms Some by (auto simp: registry_wf_def get roles)
qed

theorem set_champion_gate_witness:
  "\<exists>g' w. set_champion sample_config 9 ''1'' approved_governor = (g', Some w) \<and> mv_id w = ''2'' \<and> mv_approved_by w = None"
proof -
  have wf: "registry_wf (go_registry approved_governor)"
    by (simp add: approved_governor_def certify_wf sample_registry_wf)
  obtain v where v: "mr_get (go_registry approved_governor) ''1'' = Some v" "mv_approved_by v = Some ''ann''"
    "mv_certified_until v = None" "mv_action_class v = POWER_OPTIMIZATION"
    by (simp add: approved_governor_def certify_def sample_registry_def sample_registry_defs)
  obtain w where w: "get_challenger POWER_OPTIMIZATION (go_registry approved_governor) = Some w" "mv_id w = ''2''" "mv_approved_by w = None"
    by (simp add: approved_governor_def certify_def get_challenger_def sample_registry_def sample_registry_defs)
  from set_champion_gate [OF wf v(1), of sample_config 9 w] v w show ?thesis by auto
qed

end
