(* ===== verification/Operator.thy ===== *)
theory Operator
  imports Prelude
begin

text \<open>
  The Kubernetes operator: \<open>GPUOptimizationController\<close> of
  src/src/gpuopt/k8s_operator/controller.py and \<open>ActionAdapter\<close> of adapters.py, with the types of
  models.py. The API server is outside the repository: what it answers is an argument (the pods and
  nodes it lists, whether a call succeeds), and what the operator does to it is the list of calls
  it makes. pydantic's field validation is third-party code and an argument too. The client wrapper
  turns every failure into a value, so that no handler raises.
\<close>

subsection \<open>Custom objects\<close>

datatype action_type = SCALE_GPU_COUNT | ADJUST_POWER_CAP | MIGRATE_WORKLOAD | APPLY_RECOMMENDATION | REQUEST_APPROVAL

datatype action_phase = PH_PENDING | PH_APPROVED | PH_RUNNING | PH_COMPLETED | PH_FAILED | PH_ROLLED_BACK

fun action_type_value :: "action_type \<Rightarrow> string" where
  "action_type_value SCALE_GPU_COUNT = ''scale_gpu_count''"
| "action_type_value ADJUST_POWER_CAP = ''adjust_power_cap''"
| "action_type_value MIGRATE_WORKLOAD = ''migrate_workload''"
| "action_type_value APPLY_RECOMMENDATION = ''apply_recommendation''"
| "action_type_value REQUEST_APPROVAL = ''request_approval''"

fun action_phase_value :: "action_phase \<Rightarrow> string" where
  "action_phase_value PH_PENDING = ''pending''"
| "action_phase_value PH_APPROVED = ''approved''"
| "action_phase_value PH_RUNNING = ''running''"
| "action_phase_value PH_COMPLETED = ''completed''"
| "action_phase_value PH_FAILED = ''failed''"
| "action_phase_value PH_ROLLED_BACK = ''rolled_back''"

definition all_phases :: "action_phase list" where
  "all_phases = [PH_PENDING, PH_APPROVED, PH_RUNNING, PH_COMPLETED, PH_FAILED, PH_ROLLED_BACK]"

definition all_action_types :: "action_type list" where
  "all_action_types = [SCALE_GPU_COUNT, ADJUST_POWER_CAP, MIGRATE_WORKLOAD, APPLY_RECOMMENDATION, REQUEST_APPROVAL]"

text \<open>\<open>ActionPhase(v)\<close> and \<open>ActionType(v)\<close>; \<open>None\<close> is the \<open>ValueError\<close>.\<close>

definition phase_of :: "json \<Rightarrow> action_phase option" where
  "phase_of v = find (\<lambda>p. JStr (action_phase_value p) = v) all_phases"

definition action_type_of :: "json \<Rightarrow> action_type option" where
  "action_type_of v = find (\<lambda>t. JStr (action_type_value t) = v) all_action_types"

record action_parameters =
  pm_gpu_count :: int
  pm_power_cap_watts :: int
  pm_node_selector :: "(string, string) dict"
  pm_reason :: string
  pm_dry_run :: bool

record action =
  ga_name :: string
  ga_namespace :: string
  ga_action_type :: action_type
  ga_target_cluster :: string
  ga_recommendation_ref :: string
  ga_parameters :: action_parameters
  ga_approval_required :: bool
  ga_phase :: action_phase

text \<open>A custom object as the API server lists it.\<close>

record custom_object =
  co_name :: string
  co_namespace :: "string option"
  co_generation :: int
  co_spec :: "(string, json) dict"
  co_status :: "(string, json) dict"

text \<open>pydantic's validation of the fields of an action; \<open>None\<close> is a \<open>ValidationError\<close>.\<close>

record validators =
  va_int :: "json \<Rightarrow> int option"
  va_str :: "json \<Rightarrow> string option"
  va_bool :: "json \<Rightarrow> bool option"
  va_labels :: "json \<Rightarrow> (string, string) dict option"

subsection \<open>The API server, seen from the operator\<close>

record pod =
  pd_name :: string
  pd_namespace :: string

record k8s_node =
  kn_name :: string
  kn_gpu_capacity :: int

datatype k8s_call =
    UpdateActionStatus string string "(string, json) dict"
  | UpdateProfileStatus string string "(string, json) dict"
  | PatchDeployment string string json
  | LabelNode string "(string, string) dict"

record api =
  api_pods :: "string \<Rightarrow> string \<Rightarrow> pod list"
  api_nodes :: "k8s_node list"
  api_ok :: "k8s_call \<Rightarrow> bool"

subsection \<open>The adapter\<close>

text \<open>\<open>name.rsplit("-", 1)[0]\<close>.\<close>

definition rsplit_dash :: "string \<Rightarrow> string" where
  "rsplit_dash s =
     (if CHR ''-'' \<in> set s then rev (tl (dropWhile (\<lambda>c. c \<noteq> CHR ''-'') (rev s))) else s)"

definition labels_json :: "(string, string) dict \<Rightarrow> json" where
  "labels_json ls = JObj (map (\<lambda>(k, v). (k, JStr v)) ls)"

definition parameters_json :: "action_parameters \<Rightarrow> json" where
  "parameters_json p = JObj [(''gpuCount'', JInt (pm_gpu_count p)), (''powerCapWatts'', JInt (pm_power_cap_watts p)),
     (''nodeSelector'', labels_json (pm_node_selector p)), (''reason'', JStr (pm_reason p)), (''dryRun'', JBool (pm_dry_run p))]"

text \<open>The result of a handler: the message is kept as pieces, the rest as JSON.\<close>

record action_result =
  ar_success :: bool
  ar_message :: "piece list option"
  ar_error :: "string option"
  ar_fields :: "(string, json) dict"

definition dry_run_result :: "action \<Rightarrow> action_result" where
  "dry_run_result a =
     \<lparr>ar_success = True,
      ar_message = Some [Txt (''Would execute '' @ action_type_value (ga_action_type a) @ '' on '' @ ga_target_cluster a
                              @ '' with params: ''), Val (parameters_json (ga_parameters a))],
      ar_error = None, ar_fields = [(''dryRun'', JBool True)]\<rparr>"

definition scale_gpu_count :: "api \<Rightarrow> action \<Rightarrow> k8s_call list \<times> action_result" where
  "scale_gpu_count k a =
     (let gpu_count = pm_gpu_count (ga_parameters a);
          pods = take 5 (api_pods k (ga_namespace a) ''gpuopt.ai/managed=true'');
          body = JObj [(''metadata'', JObj [(''annotations'', JObj [(''gpuopt.ai/requested-gpus'',
                    if 0 < gpu_count then JStr (int_str gpu_count) else JNull)])])];
          call = (\<lambda>p. PatchDeployment (pd_namespace p) (rsplit_dash (pd_name p)) body);
          results = map (\<lambda>p. JObj [(''pod'', JStr (pd_name p)), (''patched'', JBool (api_ok k (call p)))]) pods
      in (map call pods,
          \<lparr>ar_success = True, ar_message = None, ar_error = None,
           ar_fields = [(''action'', JStr ''scale_gpu_count''), (''gpuCount'', JInt gpu_count), (''results'', JList results)]\<rparr>))"

definition adjust_power_cap :: "api \<Rightarrow> action \<Rightarrow> k8s_call list \<times> action_result" where
  "adjust_power_cap k a =
     (let watts = pm_power_cap_watts (ga_parameters a);
          nodes = filter (\<lambda>n. 0 < kn_gpu_capacity n) (api_nodes k);
          labels = [(''gpuopt.ai/power-cap-watts'', int_str watts), (''gpuopt.ai/power-cap-requested'', ga_name a)];
          call = (\<lambda>n. LabelNode (kn_name n) labels);
          results = map (\<lambda>n. JObj [(''node'', JStr (kn_name n)), (''labeled'', JBool (api_ok k (call n)))]) nodes
      in (map call nodes,
          \<lparr>ar_success = True, ar_message = None, ar_error = None,
           ar_fields = [(''action'', JStr ''adjust_power_cap''), (''powerWatts'', JInt watts), (''results'', JList results)]\<rparr>))"

definition migrate_workload :: "api \<Rightarrow> action \<Rightarrow> k8s_call list \<times> action_result" where
  "migrate_workload k a =
     (let sel = pm_node_selector (ga_parameters a);
          pods = take 3 (api_pods k (ga_namespace a) ''gpuopt.ai/migratable=true'');
          body = JObj [(''spec'', JObj [(''nodeSelector'', if sel \<noteq> [] then labels_json sel else JNull),
                    (''tolerations'', JList [JObj [(''key'', JStr ''gpuopt.ai/migrated''), (''operator'', JStr ''Exists'')]])])];
          call = (\<lambda>p. PatchDeployment (pd_namespace p) (rsplit_dash (pd_name p)) body);
          results = map (\<lambda>p. JObj [(''pod'', JStr (pd_name p)), (''patched'', JBool (api_ok k (call p)))]) pods
      in (map call pods,
          \<lparr>ar_success = True, ar_message = None, ar_error = None,
           ar_fields = [(''action'', JStr ''migrate_workload''), (''results'', JList results)]\<rparr>))"

definition apply_recommendation :: "action \<Rightarrow> k8s_call list \<times> action_result" where
  "apply_recommendation a =
     ([], \<lparr>ar_success = True,
           ar_message = Some [Txt (''Recommendation '' @ ga_recommendation_ref a @ '' would be applied via actuation service'')],
           ar_error = None,
           ar_fields = [(''action'', JStr ''apply_recommendation''), (''recommendationRef'', JStr (ga_recommendation_ref a))]\<rparr>)"

definition request_approval :: "action \<Rightarrow> k8s_call list \<times> action_result" where
  "request_approval a =
     ([], \<lparr>ar_success = True,
           ar_message = Some [Txt (''Approval request created for action '' @ ga_name a)],
           ar_error = None,
           ar_fields = [(''action'', JStr ''request_approval''), (''approvalRequired'', JBool True)]\<rparr>)"

text \<open>Every action type has a handler, and none of them raises.\<close>

definition execute :: "api \<Rightarrow> action \<Rightarrow> k8s_call list \<times> action_result" where
  "execute k a =
     (if pm_dry_run (ga_parameters a) then ([], dry_run_result a)
      else (case ga_action_type a of
        SCALE_GPU_COUNT \<Rightarrow> scale_gpu_count k a
      | ADJUST_POWER_CAP \<Rightarrow> adjust_power_cap k a
      | MIGRATE_WORKLOAD \<Rightarrow> migrate_workload k a
      | APPLY_RECOMMENDATION \<Rightarrow> apply_recommendation a
      | REQUEST_APPROVAL \<Rightarrow> request_approval a))"

subsection \<open>The controller\<close>

definition build_action :: "validators \<Rightarrow> custom_object \<Rightarrow> action option" where
  "build_action va o1 =
     (let spec = co_spec o1;
          atype = dict_get_or spec ''actionType'' (JStr []);
          phase = (case phase_of (dict_get_or (co_status o1) ''phase'' (JStr ''pending'')) of None \<Rightarrow> PH_PENDING | Some p \<Rightarrow> p)
      in case dict_get_or spec ''parameters'' (JObj []) of
           JObj params \<Rightarrow>
             (case (if json_true atype then action_type_of atype else Some APPLY_RECOMMENDATION,
                    va_str va (dict_get_or spec ''targetCluster'' (JStr [])),
                    va_str va (dict_get_or spec ''recommendationRef'' (JStr [])),
                    va_bool va (dict_get_or spec ''approvalRequired'' (JBool False)),
                    va_int va (dict_get_or params ''gpuCount'' (JInt 0)),
                    va_int va (dict_get_or params ''powerCapWatts'' (JInt 0)),
                    va_labels va (dict_get_or params ''nodeSelector'' (JObj [])),
                    va_str va (dict_get_or params ''reason'' (JStr [])),
                    va_bool va (dict_get_or params ''dryRun'' (JBool True))) of
                (Some t, Some cluster, Some rec_ref, Some approval, Some gpus, Some watts, Some sel, Some why, Some dry) \<Rightarrow>
                  Some \<lparr>ga_name = co_name o1,
                        ga_namespace = (case co_namespace o1 of None \<Rightarrow> ''default'' | Some ns \<Rightarrow> ns),
                        ga_action_type = t, ga_target_cluster = cluster, ga_recommendation_ref = rec_ref,
                        ga_parameters = \<lparr>pm_gpu_count = gpus, pm_power_cap_watts = watts, pm_node_selector = sel,
                                         pm_reason = why, pm_dry_run = dry\<rparr>,
                        ga_approval_required = approval, ga_phase = phase\<rparr>
              | _ \<Rightarrow> None)
         | _ \<Rightarrow> None)"

definition condition_json :: "string \<Rightarrow> string \<Rightarrow> json \<Rightarrow> datetime \<Rightarrow> json" where
  "condition_json st reason message now =
     JList [JObj [(''type'', JStr ''Reconciled''), (''status'', JStr st), (''reason'', JStr reason),
                  (''message'', message), (''lastTransitionTime'', JInt now)]]"

definition running_status :: "action \<Rightarrow> datetime \<Rightarrow> (string, json) dict" where
  "running_status a now =
     [(''phase'', JStr (action_phase_value PH_RUNNING)), (''startTime'', JInt now), (''observedGeneration'', JInt 1),
      (''conditions'', condition_json ''True'' ''ExecutionStarted''
         (JStr (''Action '' @ ga_name a @ '' execution started'')) now)]"

text \<open>A message made of pieces travels as the list of its parts.\<close>

fun piece_json :: "piece \<Rightarrow> json" where
  "piece_json (Txt t) = JStr t"
| "piece_json (Val v) = v"
| "piece_json (Fmt f v) = v"

definition result_message :: "action_result \<Rightarrow> json" where
  "result_message r =
     (case ar_message r of Some ps \<Rightarrow> JList (map piece_json ps)
      | None \<Rightarrow> (case ar_error r of Some e \<Rightarrow> JStr e | None \<Rightarrow> JStr ''Unknown''))"

definition result_json :: "action_result \<Rightarrow> json" where
  "result_json r = JObj ((''success'', JBool (ar_success r)) # ar_fields r @
     (case ar_message r of None \<Rightarrow> [] | Some ps \<Rightarrow> [(''message'', JList (map piece_json ps))]) @
     (case ar_error r of None \<Rightarrow> [] | Some e \<Rightarrow> [(''error'', JStr e)]))"

definition final_phase :: "action_result \<Rightarrow> action_phase" where
  "final_phase r = (if ar_success r then PH_COMPLETED else PH_FAILED)"

definition final_status :: "action_result \<Rightarrow> datetime \<Rightarrow> (string, json) dict" where
  "final_status r now =
     (let ok = (final_phase r = PH_COMPLETED)
      in [(''phase'', JStr (action_phase_value (final_phase r))), (''completionTime'', JInt now),
          (''result'', result_json r), (''observedGeneration'', JInt 1),
          (''conditions'', condition_json (if ok then ''True'' else ''False'')
             (if ok then ''ExecutionCompleted'' else ''ExecutionFailed'') (result_message r) now)])"

definition reconcile_action :: "validators \<Rightarrow> api \<Rightarrow> datetime \<Rightarrow> custom_object \<Rightarrow> k8s_call list" where
  "reconcile_action va k now o1 =
     (case build_action va o1 of
        None \<Rightarrow> []
      | Some a \<Rightarrow>
          (if ga_phase a \<in> {PH_COMPLETED, PH_FAILED, PH_ROLLED_BACK} then []
           else
             (let started = (if ga_phase a = PH_PENDING
                             then [UpdateActionStatus (ga_namespace a) (ga_name a) (running_status a now)] else []);
                  phase = (if ga_phase a = PH_PENDING then PH_RUNNING else ga_phase a)
              in started @
                 (if phase = PH_RUNNING then
                    (let (calls, r) = execute k a
                     in calls @ [UpdateActionStatus (ga_namespace a) (ga_name a) (final_status r now)])
                  else []))))"

text \<open>\<open>len(rules)\<close>.\<close>

fun json_len :: "json \<Rightarrow> nat option" where
  "json_len (JList xs) = Some (length xs)"
| "json_len (JStr t) = Some (length t)"
| "json_len (JObj kvs) = Some (length kvs)"
| "json_len _ = None"

definition reconcile_profile :: "datetime \<Rightarrow> custom_object \<Rightarrow> py_error + k8s_call list" where
  "reconcile_profile now o1 =
     (case json_num (dict_get_or (co_status o1) ''observedGeneration'' (JInt 0)) of
        None \<Rightarrow> Inl (TypeError ''not supported between instances'')
      | Some observed \<Rightarrow>
          (if of_int (co_generation o1) \<le> observed then Inr []
           else (case (json_len (dict_get_or (co_spec o1) ''optimizationRules'' (JList [])),
                       dict_get_or (co_spec o1) ''targetRef'' (JObj [])) of
             (Some rules, JObj _) \<Rightarrow>
               Inr [UpdateProfileStatus (case co_namespace o1 of None \<Rightarrow> ''default'' | Some ns \<Rightarrow> ns) (co_name o1)
                      [(''observedGeneration'', JInt (co_generation o1)),
                       (''conditions'', condition_json ''True'' ''ProfileApplied''
                          (JStr (''Profile '' @ co_name o1 @ '' reconciled with '' @ nat_str rules @ '' rules'')) now)]]
           | _ \<Rightarrow> Inl (TypeError ''object has no len() or get''))))"

definition reconcile_actions :: "validators \<Rightarrow> api \<Rightarrow> datetime \<Rightarrow> custom_object list \<Rightarrow> k8s_call list \<times> int" where
  "reconcile_actions va k now items = (concat (map (reconcile_action va k now) items), int (length items))"

text \<open>A profile whose reconciliation raises is logged and not counted.\<close>

definition reconcile_profiles :: "datetime \<Rightarrow> custom_object list \<Rightarrow> k8s_call list \<times> int" where
  "reconcile_profiles now items =
     (concat (map (\<lambda>o1. case reconcile_profile now o1 of Inl _ \<Rightarrow> [] | Inr calls \<Rightarrow> calls) items),
      int (length (filter (\<lambda>o1. case reconcile_profile now o1 of Inl _ \<Rightarrow> False | Inr _ \<Rightarrow> True) items)))"

definition reconcile_once ::
  "validators \<Rightarrow> api \<Rightarrow> datetime \<Rightarrow> custom_object list \<Rightarrow> custom_object list \<Rightarrow> k8s_call list \<times> int \<times> int" where
  "reconcile_once va k now actions profiles =
     (let (c1, n1) = reconcile_actions va k now actions; (c2, n2) = reconcile_profiles now profiles
      in (c1 @ c2, n1, n2))"

subsection \<open>Dry runs\<close>

definition touches_cluster :: "k8s_call \<Rightarrow> bool" where
  "touches_cluster c = (case c of UpdateActionStatus _ _ _ \<Rightarrow> False | UpdateProfileStatus _ _ _ \<Rightarrow> False
     | PatchDeployment _ _ _ \<Rightarrow> True | LabelNode _ _ \<Rightarrow> True)"

lemma build_action_SomeD:
  assumes "build_action va o1 = Some a"
  shows "\<exists>params. dict_get_or (co_spec o1) ''parameters'' (JObj []) = JObj params
    \<and> va_bool va (dict_get_or params ''dryRun'' (JBool True)) = Some (pm_dry_run (ga_parameters a))
    \<and> ga_name a = co_name o1
    \<and> ga_namespace a = (case co_namespace o1 of None \<Rightarrow> ''default'' | Some ns \<Rightarrow> ns)
    \<and> ga_phase a = (case phase_of (dict_get_or (co_status o1) ''phase'' (JStr ''pending'')) of None \<Rightarrow> PH_PENDING | Some p \<Rightarrow> p)"
  using assms by (auto simp: build_action_def Let_def split: json.splits option.splits if_splits)

lemma execute_dry: "pm_dry_run (ga_parameters a) \<Longrightarrow> execute k a = ([], dry_run_result a)"
  by (simp add: execute_def)

text \<open>
  C7: actions are dry runs unless they say otherwise: when validation reads the JSON booleans as
  themselves, reconciling an action whose parameters leave out \<open>dryRun\<close> or set it to true makes no
  call that changes a deployment or a node, whatever its type, phase and the cluster's contents are.
\<close>

theorem dry_run_by_default:
  assumes "\<And>b. va_bool va (JBool b) = Some b"
    and "\<forall>params. dict_get (co_spec o1) ''parameters'' = Some (JObj params) \<longrightarrow>
           dict_get params ''dryRun'' \<in> {None, Some (JBool True)}"
  shows "\<forall>c \<in> set (reconcile_action va k now o1). \<not> touches_cluster c"
proof (cases "build_action va o1")
  case None
  then show ?thesis by (simp add: reconcile_action_def)
next
  case (Some a)
  then obtain params where params: "dict_get_or (co_spec o1) ''parameters'' (JObj []) = JObj params"
    and dry: "va_bool va (dict_get_or params ''dryRun'' (JBool True)) = Some (pm_dry_run (ga_parameters a))"
    using build_action_SomeD by blast
  have "dict_get params ''dryRun'' \<in> {None, Some (JBool True)}"
    using params assms(2) by (auto simp: dict_get_or_def split: option.splits)
  then have "dict_get_or params ''dryRun'' (JBool True) = JBool True" by (auto simp: dict_get_or_def)
  with dry assms(1) have "pm_dry_run (ga_parameters a)" by simp
  with Some show ?thesis
    by (auto simp: reconcile_action_def execute_dry Let_def touches_cluster_def)
qed

fun plain_bool :: "json \<Rightarrow> bool option" where
  "plain_bool (JBool b) = Some b" | "plain_bool _ = None"

fun plain_str :: "json \<Rightarrow> string option" where
  "plain_str (JStr t) = Some t" | "plain_str _ = None"

fun plain_int :: "json \<Rightarrow> int option" where
  "plain_int (JInt i) = Some i" | "plain_int _ = None"

definition plain_validators :: validators where
  "plain_validators = \<lparr>va_int = plain_int, va_str = plain_str, va_bool = plain_bool, va_labels = (\<lambda>_. Some [])\<rparr>"

definition sample_object :: custom_object where
  "sample_object = \<lparr>co_name = ''act'', co_namespace = Some ''ml'', co_generation = 1,
     co_spec = [(''actionType'', JStr ''scale_gpu_count''), (''approvalRequired'', JBool True),
                (''parameters'', JObj [(''gpuCount'', JInt 4)])], co_status = []\<rparr>"

definition sample_api :: api where
  "sample_api = \<lparr>api_pods = (\<lambda>_ _. [\<lparr>pd_name = ''trainer-0'', pd_namespace = ''ml''\<rparr>]), api_nodes = [], api_ok = (\<lambda>_. False)\<rparr>"

theorem dry_run_by_default_witness:
  "filter touches_cluster (reconcile_action plain_validators sample_api 5 sample_object) = []"
proof -
  have "\<forall>c \<in> set (reconcile_action plain_validators sample_api 5 sample_object). \<not> touches_cluster c"
    by (rule dry_run_by_default) (simp_all add: plain_validators_def sample_object_def)
  then show ?thesis by (simp add: filter_empty_conv)
qed

subsection \<open>One execution per action\<close>

text \<open>The object after the operator's status updates, where \<open>merge\<close> is how the server patches a status.\<close>

definition patch_object ::
  "((string, json) dict \<Rightarrow> (string, json) dict \<Rightarrow> (string, json) dict) \<Rightarrow> k8s_call \<Rightarrow> custom_object \<Rightarrow> custom_object" where
  "patch_object merge c o1 =
     (case c of
        UpdateActionStatus ns name st \<Rightarrow>
          (if name = co_name o1 \<and> ns = (case co_namespace o1 of None \<Rightarrow> ''default'' | Some x \<Rightarrow> x)
           then o1\<lparr>co_status := merge (co_status o1) st\<rparr> else o1)
      | _ \<Rightarrow> o1)"

lemma patch_other [simp]: "touches_cluster c \<Longrightarrow> patch_object merge c o1 = o1"
  by (cases c) (simp_all add: patch_object_def touches_cluster_def)

lemma patch_others: "\<forall>c \<in> set cs. touches_cluster c \<Longrightarrow> fold (patch_object merge) cs o1 = o1"
  by (induction cs arbitrary: o1) simp_all

lemma patch_identity [simp]:
  "co_name (patch_object merge c o1) = co_name o1" "co_namespace (patch_object merge c o1) = co_namespace o1"
  "co_spec (patch_object merge c o1) = co_spec o1"
  by (simp_all add: patch_object_def split: k8s_call.split)

lemma execute_touches: "c \<in> set (fst (execute k a)) \<Longrightarrow> touches_cluster c"
  by (auto simp: execute_def scale_gpu_count_def adjust_power_cap_def migrate_workload_def apply_recommendation_def
      request_approval_def Let_def touches_cluster_def split: if_splits action_type.splits)

lemma execute_success: "ar_success (snd (execute k a))"
  by (simp add: execute_def dry_run_result_def scale_gpu_count_def adjust_power_cap_def migrate_workload_def
      apply_recommendation_def request_approval_def Let_def split: action_type.split)

lemma phase_of_value [simp]: "phase_of (JStr (action_phase_value p)) = Some p"
  by (cases p) (simp_all add: phase_of_def all_phases_def)

lemma build_action_status:
  "build_action va (o1\<lparr>co_status := st\<rparr>) = map_option (\<lambda>a. a\<lparr>ga_phase :=
     (case phase_of (dict_get_or st ''phase'' (JStr ''pending'')) of None \<Rightarrow> PH_PENDING | Some p \<Rightarrow> p)\<rparr>) (build_action va o1)"
  by (simp add: build_action_def Let_def split: json.split option.split)

text \<open>
  An action runs once: when a status patch stores the fields it sends, reconciling a pending or
  running action leaves it completed, even when every call of its handler failed, and reconciling
  the patched object again makes no call at all. An action in phase approved is never run.
\<close>

theorem reconcile_runs_once:
  assumes merge: "\<And>old p key v. dict_get p key = Some v \<Longrightarrow> v \<noteq> JNull \<Longrightarrow> dict_get (merge old p) key = Some v"
    and "build_action va o1 = Some a"
  shows "(ga_phase a \<in> {PH_PENDING, PH_RUNNING} \<longrightarrow>
      dict_get (co_status (fold (patch_object merge) (reconcile_action va k now o1) o1)) ''phase'' = Some (JStr ''completed'')
      \<and> reconcile_action va k' now' (fold (patch_object merge) (reconcile_action va k now o1) o1) = [])
    \<and> (ga_phase a = PH_APPROVED \<longrightarrow> reconcile_action va k now o1 = [])"
proof -
  obtain calls r where ex: "execute k a = (calls, r)" by (cases "execute k a")
  have touch: "\<forall>c \<in> set calls. touches_cluster c" and ok: "ar_success r"
    using execute_touches [of _ k a] execute_success [of k a] ex by auto
  have ids: "ga_name a = co_name o1" "ga_namespace a = (case co_namespace o1 of None \<Rightarrow> ''default'' | Some ns \<Rightarrow> ns)"
    using build_action_SomeD [OF assms(2)] by blast+
  let ?final = "UpdateActionStatus (ga_namespace a) (ga_name a) (final_status r now)"
  have fin: "dict_get (final_status r now) ''phase'' = Some (JStr ''completed'')"
    using ok by (simp add: final_status_def final_phase_def Let_def)
  have "dict_get (co_status (fold (patch_object merge) (reconcile_action va k now o1) o1)) ''phase'' = Some (JStr ''completed'')
      \<and> reconcile_action va k' now' (fold (patch_object merge) (reconcile_action va k now o1) o1) = []"
    if run: "ga_phase a \<in> {PH_PENDING, PH_RUNNING}"
  proof -
    obtain started where calls: "reconcile_action va k now o1 = started @ calls @ [?final]"
      and started: "started = [] \<or> (\<exists>st. started = [UpdateActionStatus (ga_namespace a) (ga_name a) st])"
      using run assms(2) ex by (auto simp: reconcile_action_def Let_def split: prod.split)
    define o2 where "o2 = fold (patch_object merge) started o1"
    have o2: "co_name o2 = co_name o1" "co_namespace o2 = co_namespace o1" "\<exists>st. o2 = o1\<lparr>co_status := st\<rparr>"
      using started by (auto simp: o2_def patch_object_def) (metis custom_object.surjective custom_object.update_convs(5))+
    have after: "fold (patch_object merge) (reconcile_action va k now o1) o1 = o2\<lparr>co_status := merge (co_status o2) (final_status r now)\<rparr>"
      by (simp add: calls o2_def [symmetric] patch_others [OF touch]) (simp add: patch_object_def o2 ids)
    have ph: "dict_get (merge (co_status o2) (final_status r now)) ''phase'' = Some (JStr ''completed'')"
      by (rule merge [OF fin]) simp
    obtain st where st: "o2 = o1\<lparr>co_status := st\<rparr>" using o2(3) by blast
    have "phase_of (JStr ''completed'') = Some PH_COMPLETED"
      using phase_of_value [of PH_COMPLETED] by simp
    then have "build_action va (o2\<lparr>co_status := merge (co_status o2) (final_status r now)\<rparr>) = Some (a\<lparr>ga_phase := PH_COMPLETED\<rparr>)"
      using ph assms(2) by (simp add: st build_action_status dict_get_or_def)
    then have "reconcile_action va k' now' (o2\<lparr>co_status := merge (co_status o2) (final_status r now)\<rparr>) = []"
      by (simp add: reconcile_action_def)
    then show ?thesis unfolding after using ph by simp
  qed
  moreover have "ga_phase a = PH_APPROVED \<Longrightarrow> reconcile_action va k now o1 = []"
    using assms(2) by (simp add: reconcile_action_def Let_def)
  ultimately show ?thesis by blast
qed

definition overwrite :: "(string, json) dict \<Rightarrow> (string, json) dict \<Rightarrow> (string, json) dict" where
  "overwrite old p = p @ old"

theorem reconcile_runs_once_witness:
  "dict_get (co_status (fold (patch_object overwrite) (reconcile_action plain_validators sample_api 5 sample_object) sample_object)) ''phase''
     = Some (JStr ''completed'')"
proof -
  have b: "build_action plain_validators sample_object = Some \<lparr>ga_name = ''act'', ga_namespace = ''ml'', ga_action_type = SCALE_GPU_COUNT,
      ga_target_cluster = [], ga_recommendation_ref = [],
      ga_parameters = \<lparr>pm_gpu_count = 4, pm_power_cap_watts = 0, pm_node_selector = [], pm_reason = [], pm_dry_run = True\<rparr>,
      ga_approval_required = True, ga_phase = PH_PENDING\<rparr>"
    by (simp add: build_action_def sample_object_def plain_validators_def dict_get_or_def Let_def action_type_of_def
        all_action_types_def phase_of_def all_phases_def)
  have m: "dict_get p key = Some v \<Longrightarrow> v \<noteq> JNull \<Longrightarrow> dict_get (overwrite old p) key = Some v" for old p key v
    by (simp add: overwrite_def map_add_dom_app_simps(1) domI)
  show ?thesis
    using reconcile_runs_once [of overwrite, OF m b, of sample_api 5 sample_api 6] by simp
qed

subsection \<open>Approval\<close>

lemma spec_approval:
  assumes "\<And>b. va_bool va (JBool b) = Some b"
  shows "build_action va (o1\<lparr>co_spec := dict_set ''approvalRequired'' (JBool b) (co_spec o1)\<rparr>)
    = map_option (\<lambda>a. a\<lparr>ga_approval_required := b\<rparr>)
        (build_action va (o1\<lparr>co_spec := dict_set ''approvalRequired'' (JBool False) (co_spec o1)\<rparr>))"
  by (simp add: build_action_def Let_def assms split: json.split option.split)

lemma reconcile_ignores_flag:
  "execute k (a\<lparr>ga_approval_required := b\<rparr>) = execute k a"
  by (simp add: execute_def dry_run_result_def scale_gpu_count_def adjust_power_cap_def migrate_workload_def
      apply_recommendation_def request_approval_def Let_def split: action_type.split)

text \<open>
  The operator does not wait for approval: marking an action as requiring approval changes no
  call that reconciling it makes, in any phase.
\<close>

theorem approval_flag_ignored:
  assumes "\<And>b. va_bool va (JBool b) = Some b"
  shows "reconcile_action va k now (o1\<lparr>co_spec := dict_set ''approvalRequired'' (JBool True) (co_spec o1)\<rparr>)
    = reconcile_action va k now (o1\<lparr>co_spec := dict_set ''approvalRequired'' (JBool False) (co_spec o1)\<rparr>)"
  by (simp add: reconcile_action_def spec_approval [OF assms, where b = True] reconcile_ignores_flag running_status_def Let_def
      split: option.split)

theorem approval_flag_ignored_witness:
  "reconcile_action plain_validators sample_api 5 (sample_object\<lparr>co_spec := dict_set ''approvalRequired'' (JBool True) (co_spec sample_object)\<rparr>)
    = reconcile_action plain_validators sample_api 5 (sample_object\<lparr>co_spec := dict_set ''approvalRequired'' (JBool False) (co_spec sample_object)\<rparr>)"
  by (rule approval_flag_ignored) (simp add: plain_validators_def)

end
