(* ===== verification/RateLimit.thy ===== *)
theory RateLimit
  imports Prelude
begin

text \<open>
  \<open>RateLimitMiddleware\<close> of src/src/gpuopt/ratelimit.py: the sliding windows per client, the periodic
  cleanup and the decision on a request. Clock readings are rational seconds and arguments; the
  next handler's response is left out, so a request that passes is answered by the headers set.
\<close>

record limit_settings =
  ls_per_minute :: int
  ls_per_hour :: int

record limiter =
  li_requests :: "(string, rat list) dict"
  li_last_cleanup :: rat

definition limiter_init :: "rat \<Rightarrow> limiter" where
  "limiter_init now = \<lparr>li_requests = [], li_last_cleanup = now\<rparr>"

definition skip_paths :: "string list" where
  "skip_paths = [''/health/live'', ''/health/ready'', ''/metrics'']"

definition cleanup_old_entries :: "rat \<Rightarrow> limiter \<Rightarrow> limiter" where
  "cleanup_old_entries now s =
     (if now - li_last_cleanup s < 300 then s
      else (let cutoff = now - 3600;
                kept = map (\<lambda>(ip, ts). (ip, filter (\<lambda>t. cutoff < t) ts)) (li_requests s)
            in \<lparr>li_requests = filter (\<lambda>(ip, ts). ts \<noteq> []) kept, li_last_cleanup = now\<rparr>))"

text \<open>\<open>min(ts)\<close> of a non-empty list.\<close>

definition oldest :: "rat list \<Rightarrow> rat" where
  "oldest ts = foldl min (hd ts) (tl ts)"

definition is_rate_limited :: "limit_settings \<Rightarrow> rat \<Rightarrow> string \<Rightarrow> limiter \<Rightarrow> limiter \<times> bool \<times> int \<times> int" where
  "is_rate_limited cfg now ip s =
     (let minute_cutoff = now - 60; hour_cutoff = now - 3600;
          ts = filter (\<lambda>t. hour_cutoff < t) (dict_get_or (li_requests s) ip []);
          s' = s\<lparr>li_requests := dict_set ip ts (li_requests s)\<rparr>;
          minute_requests = filter (\<lambda>t. minute_cutoff < t) ts;
          hour_requests = filter (\<lambda>t. hour_cutoff < t) ts
      in if ls_per_minute cfg \<le> int (length minute_requests) then
           (s', True, int_of (oldest minute_requests + 60 - now) + 1, 0)
         else if ls_per_hour cfg \<le> int (length hour_requests) then
           (s', True, int_of (oldest hour_requests + 3600 - now) + 1, 0)
         else (s', False, 0, ls_per_minute cfg - int (length minute_requests)))"

datatype rate_outcome =
    Skipped
  | Limited int
  | Passed int int

record rate_request =
  rq_path :: string
  rq_client :: "string option"
  rq_cleanup_time :: rat
  rq_check_time :: rat

definition rate_dispatch :: "limit_settings \<Rightarrow> rate_request \<Rightarrow> limiter \<Rightarrow> limiter \<times> rate_outcome" where
  "rate_dispatch cfg r s =
     (if rq_path r \<in> set skip_paths then (s, Skipped)
      else (let ip = (case rq_client r of Some h \<Rightarrow> h | None \<Rightarrow> ''unknown'');
                s1 = cleanup_old_entries (rq_cleanup_time r) s;
                (s2, limited, retry_after, remaining) = is_rate_limited cfg (rq_check_time r) ip s1
            in (s2, if limited then Limited retry_after else Passed (ls_per_minute cfg) (remaining - 1))))"

fun rate_run :: "limit_settings \<Rightarrow> rate_request list \<Rightarrow> limiter \<Rightarrow> limiter \<times> rate_outcome list" where
  "rate_run cfg [] s = (s, [])"
| "rate_run cfg (r # rs) s =
     (let (s1, x) = rate_dispatch cfg r s; (s2, xs) = rate_run cfg rs s1 in (s2, x # xs))"

subsection \<open>What the limiter remembers\<close>

definition no_entries :: "limiter \<Rightarrow> bool" where
  "no_entries s \<longleftrightarrow> list_all (\<lambda>(ip, ts). ts = []) (li_requests s)"

lemma no_entries_get: "no_entries s \<Longrightarrow> dict_get_or (li_requests s) ip [] = []"
  by (auto simp: no_entries_def dict_get_or_def list_all_iff split: option.split dest: map_of_SomeD)

lemma set_update_subset: "set (dict_set k v d) \<subseteq> insert (k, v) (set d)"
  by (induction d) auto

lemma no_entries_cleanup: "no_entries s \<Longrightarrow> no_entries (cleanup_old_entries now s)"
  by (auto simp: no_entries_def cleanup_old_entries_def list_all_iff Let_def)

lemma no_entries_check:
  assumes "no_entries s" and "1 \<le> ls_per_minute cfg" and "1 \<le> ls_per_hour cfg"
  shows "\<exists>s'. is_rate_limited cfg now ip s = (s', False, 0, ls_per_minute cfg) \<and> no_entries s'"
  using assms set_update_subset [of ip "[]" "li_requests s"]
  by (auto simp: is_rate_limited_def no_entries_get Let_def) (auto simp: no_entries_def list_all_iff)

lemma no_entries_dispatch:
  assumes "no_entries s" and "1 \<le> ls_per_minute cfg" and "1 \<le> ls_per_hour cfg"
  shows "\<exists>s' x. rate_dispatch cfg r s = (s', x) \<and> no_entries s' \<and> x \<in> {Skipped, Passed (ls_per_minute cfg) (ls_per_minute cfg - 1)}"
proof (cases "rq_path r \<in> set skip_paths")
  case True
  then show ?thesis using assms(1) by (simp add: rate_dispatch_def)
next
  case False
  let ?ip = "case rq_client r of Some h \<Rightarrow> h | None \<Rightarrow> ''unknown''"
  obtain s' where "is_rate_limited cfg (rq_check_time r) ?ip (cleanup_old_entries (rq_cleanup_time r) s)
      = (s', False, 0, ls_per_minute cfg)" "no_entries s'"
    using no_entries_check [OF no_entries_cleanup [OF assms(1)] assms(2,3)] by blast
  then show ?thesis using False by (simp add: rate_dispatch_def Let_def)
qed

text \<open>
  The limiter never limits: from its initial state, with limits of at least one request per
  minute and hour, every request of any sequence, from however many clients and however fast,
  passes with the same remaining count, because no request is ever recorded.
\<close>

theorem limiter_never_limits:
  assumes "1 \<le> ls_per_minute cfg" and "1 \<le> ls_per_hour cfg"
  shows "set (snd (rate_run cfg rs (limiter_init t0))) \<subseteq> {Skipped, Passed (ls_per_minute cfg) (ls_per_minute cfg - 1)}"
proof -
  have "set (snd (rate_run cfg rs s)) \<subseteq> {Skipped, Passed (ls_per_minute cfg) (ls_per_minute cfg - 1)}" if "no_entries s" for s
    using that
  proof (induction rs arbitrary: s)
    case (Cons r rs)
    obtain s1 x where d: "rate_dispatch cfg r s = (s1, x)" "no_entries s1"
      "x \<in> {Skipped, Passed (ls_per_minute cfg) (ls_per_minute cfg - 1)}"
      using no_entries_dispatch [OF Cons.prems assms] by blast
    with Cons.IH [OF d(2)] show ?case by (cases "rate_run cfg rs s1") auto
  qed simp
  then show ?thesis by (simp add: no_entries_def limiter_init_def)
qed

definition sample_limits :: limit_settings where
  "sample_limits = \<lparr>ls_per_minute = 2, ls_per_hour = 5\<rparr>"

theorem limiter_never_limits_witness:
  "set (snd (rate_run sample_limits (replicate 100 \<lparr>rq_path = ''/api'', rq_client = Some ''10.0.0.1'', rq_cleanup_time = 7, rq_check_time = 7\<rparr>)
      (limiter_init 0))) \<subseteq> {Skipped, Passed 2 1}"
  using limiter_never_limits [of sample_limits] by (simp add: sample_limits_def)

subsection \<open>The delay a limited client is told\<close>

lemma foldl_min_mem: "foldl min (x :: rat) xs \<in> set (x # xs)"
proof (induction xs arbitrary: x)
  case (Cons y ys)
  then show ?case using Cons.IH [of "min x y"] by (auto simp: min_def split: if_splits)
qed simp

lemma oldest_mem: "ts \<noteq> [] \<Longrightarrow> oldest ts \<in> set ts"
  using foldl_min_mem [of "hd ts" "tl ts"] by (simp add: oldest_def)

lemma delay_bounds:
  assumes "ts \<noteq> []" and "\<forall>t \<in> set ts. now - w < t \<and> t \<le> now" and "w = of_int n"
  shows "1 \<le> int_of (oldest ts + w - now) + 1 \<and> int_of (oldest ts + w - now) + 1 \<le> n + 1"
proof -
  have "now - w < oldest ts" "oldest ts \<le> now" using oldest_mem [OF assms(1)] assms(2) by auto
  then have x: "0 \<le> oldest ts + w - now" "oldest ts + w - now \<le> of_int n" using assms(3) by auto
  then have "\<lfloor>oldest ts + w - now\<rfloor> \<le> n" by linarith
  with x show ?thesis by (simp add: int_of_def)
qed

text \<open>
  What the windows would enforce: with positive limits, whatever entries not in the future are
  recorded for a client, a request is limited exactly when the entries of the last minute reach the
  limit per minute or those of the last hour the limit per hour; a limited client is told to wait
  at least one second and at most a minute or an hour plus one second; another client's entries
  are left alone.
\<close>

theorem rate_limit_decision:
  assumes "1 \<le> ls_per_minute cfg" and "1 \<le> ls_per_hour cfg"
    and "\<forall>t \<in> set (dict_get_or (li_requests s) ip []). t \<le> now"
    and "is_rate_limited cfg now ip s = (s', limited, retry, remaining)"
  shows "(limited \<longleftrightarrow>
      ls_per_minute cfg \<le> int (length (filter (\<lambda>t. now - 60 < t) (dict_get_or (li_requests s) ip [])))
      \<or> ls_per_hour cfg \<le> int (length (filter (\<lambda>t. now - 3600 < t) (dict_get_or (li_requests s) ip []))))
    \<and> (limited \<longrightarrow> 1 \<le> retry \<and> retry \<le> 3601)
    \<and> (\<not> limited \<longrightarrow> 1 \<le> remaining \<and> remaining \<le> ls_per_minute cfg)
    \<and> (\<forall>ip'. ip' \<noteq> ip \<longrightarrow> dict_get (li_requests s') ip' = dict_get (li_requests s) ip')"
proof -
  let ?ts = "dict_get_or (li_requests s) ip []"
  have minute: "filter (\<lambda>t. now - 60 < t) (filter (\<lambda>t. now - 3600 < t) ?ts) = filter (\<lambda>t. now - 60 < t) ?ts"
    by (simp, rule filter_cong) auto
  let ?m = "filter (\<lambda>t. now - 60 < t) ?ts" and ?h = "filter (\<lambda>t. now - 3600 < t) ?ts"
  have m: "1 \<le> int_of (oldest ?m + 60 - now) + 1 \<and> int_of (oldest ?m + 60 - now) + 1 \<le> 61" if "ls_per_minute cfg \<le> int (length ?m)"
    using delay_bounds [of ?m now 60 60] that assms by fastforce
  have h: "1 \<le> int_of (oldest ?h + 3600 - now) + 1 \<and> int_of (oldest ?h + 3600 - now) + 1 \<le> 3601" if "ls_per_hour cfg \<le> int (length ?h)"
    using delay_bounds [of ?h now 3600 3600] that assms by fastforce
  have res: "is_rate_limited cfg now ip s =
    (let s' = s\<lparr>li_requests := dict_set ip ?h (li_requests s)\<rparr>
     in if ls_per_minute cfg \<le> int (length ?m) then (s', True, int_of (oldest ?m + 60 - now) + 1, 0)
        else if ls_per_hour cfg \<le> int (length ?h) then (s', True, int_of (oldest ?h + 3600 - now) + 1, 0)
        else (s', False, 0, ls_per_minute cfg - int (length ?m)))"
    by (simp add: is_rate_limited_def Let_def minute del: filter_filter)
  show ?thesis
  proof (cases "ls_per_minute cfg \<le> int (length ?m)")
    case True
    then show ?thesis using assms(4) m unfolding res by (auto simp: Let_def)
  next
    case no: False
    show ?thesis
    proof (cases "ls_per_hour cfg \<le> int (length ?h)")
      case True
      then show ?thesis using assms(4) no h unfolding res by (auto simp: Let_def)
    next
      case False
      then show ?thesis using assms(4) no unfolding res by (auto simp: Let_def)
    qed
  qed
qed

theorem rate_limit_decision_witness:
  "\<exists>s' retry remaining. is_rate_limited sample_limits 100 ''10.0.0.1''
      \<lparr>li_requests = [(''10.0.0.1'', [10, 50, 90])], li_last_cleanup = 0\<rparr> = (s', True, retry, remaining) \<and> 1 \<le> retry"
proof -
  obtain s' lm retry remaining where e: "is_rate_limited sample_limits 100 ''10.0.0.1''
      \<lparr>li_requests = [(''10.0.0.1'', [10, 50, 90])], li_last_cleanup = 0\<rparr> = (s', lm, retry, remaining)"
    by (metis prod.exhaust)
  from rate_limit_decision [OF _ _ _ e] e show ?thesis by (auto simp: sample_limits_def dict_get_or_def)
qed

end
