(* ===== verification/Preemption.thy ===== *)
theory Preemption
  imports Values
begin

text \<open>
  \<open>PreemptionEngine\<close> of src/src/gpuopt/preemption.py: discovering workloads from the pods the
  client wrapper lists, finding pairs of workloads whose priorities differ enough, and one
  preemption cycle. Priorities are a linear order by their score. The threads, the deletion of pods
  and the labelling of workloads are calls to the cluster: whether an eviction raises is an
  argument. The GPU count and the age of a workload, which no decision reads, are left out.
\<close>

subsection \<open>Priorities\<close>

datatype priority_class = BATCH | INTERACTIVE | PRODUCTION | CRITICAL

fun priority_score :: "priority_class \<Rightarrow> int" where
  "priority_score CRITICAL = 1000"
| "priority_score PRODUCTION = 500"
| "priority_score INTERACTIVE = 200"
| "priority_score BATCH = 100"

fun priority_value :: "priority_class \<Rightarrow> string" where
  "priority_value BATCH = ''batch''"
| "priority_value INTERACTIVE = ''interactive''"
| "priority_value PRODUCTION = ''production''"
| "priority_value CRITICAL = ''critical''"

lemma priority_score_inj: "priority_score a = priority_score b \<longleftrightarrow> a = b"
  by (cases a; cases b) simp_all

instantiation priority_class :: linorder
begin

definition less_eq_priority_class :: "priority_class \<Rightarrow> priority_class \<Rightarrow> bool" where
  "less_eq_priority_class a b \<longleftrightarrow> priority_score a \<le> priority_score b"

definition less_priority_class :: "priority_class \<Rightarrow> priority_class \<Rightarrow> bool" where
  "less_priority_class a b \<longleftrightarrow> priority_score a < priority_score b"

instance
  by standard (auto simp: less_eq_priority_class_def less_priority_class_def priority_score_inj)

end

datatype preemption_policy = PP_NEVER | PP_LOWER_PRIORITY

record preemption_config =
  pc_policy :: preemption_policy
  pc_min_priority_delta :: int
  pc_oldest_first :: bool
  pc_max_per_cycle :: int

record workload =
  wl_name :: string
  wl_namespace :: string
  wl_priority :: priority_class

record preemption_action =
  pa_workload_name :: string
  pa_namespace :: string
  pa_priority :: priority_class
  pa_reason :: string
  pa_eviction_strategy :: string
  pa_initiated_at :: datetime
  pa_status :: string

subsection \<open>Discovering workloads\<close>

fun first_item :: "json \<Rightarrow> py_error + json" where
  "first_item (JList (x # xs)) = Inr x"
| "first_item (JList []) = Inl (IndexError ''list index out of range'')"
| "first_item (JStr (c # s)) = Inr (JStr [c])"
| "first_item (JStr []) = Inl (IndexError ''string index out of range'')"
| "first_item (JObj _) = Inl (KeyError ''0'')"
| "first_item _ = Inl (TypeError ''object is not subscriptable'')"

text \<open>\<open>PriorityClass(s) if s else BATCH\<close>, with BATCH for an unknown value.\<close>

definition priority_of :: "json \<Rightarrow> priority_class" where
  "priority_of v =
     (case find (\<lambda>p. JStr (priority_value p) = v) [BATCH, INTERACTIVE, PRODUCTION, CRITICAL] of
        None \<Rightarrow> BATCH | Some p \<Rightarrow> p)"

text \<open>A pod as the wrapper's \<open>list_pods\<close> describes it: five keys, none of them \<open>metadata\<close>.\<close>

definition listed_pod :: "string \<Rightarrow> string \<Rightarrow> json \<Rightarrow> json \<Rightarrow> (string, json) dict \<Rightarrow> json" where
  "listed_pod name namespace phase node labels =
     JObj [(''name'', JStr name), (''namespace'', JStr namespace), (''phase'', phase), (''node'', node), (''labels'', JObj labels)]"

text \<open>
  One round of the loop. The wrapper's pods are dictionaries, so the branches for client objects
  are not taken. Names and namespaces that are not texts are printed by the key and are rejected
  here.
\<close>

definition discover_pod :: "json \<Rightarrow> (string, workload) dict \<Rightarrow> py_error + (string, workload) dict" where
  "discover_pod p wls =
     try_bind (obj_get p ''metadata'' (JObj [])) (\<lambda>meta.
     try_bind (obj_get meta ''namespace'' (JStr ''default'')) (\<lambda>ns.
     try_bind (obj_get meta ''owner_references'' (JList [JObj []])) (\<lambda>refs.
     try_bind (first_item refs) (\<lambda>ref.
     try_bind (obj_get meta ''name'' (JStr ''unknown'')) (\<lambda>own.
     try_bind (obj_get ref ''name'' own) (\<lambda>owner.
     case (ns, owner) of
       (JStr n, JStr w) \<Rightarrow>
         (let key = n @ ''/'' @ w in
          if dict_has wls key then Inr wls
          else
            try_bind (obj_get meta ''labels'' (JObj [])) (\<lambda>labels.
            try_bind (obj_get labels ''priority-class'' (JStr [])) (\<lambda>pr.
              Inr (dict_set key \<lparr>wl_name = w, wl_namespace = n, wl_priority = priority_of pr\<rparr> wls))))
     | _ \<Rightarrow> Inl (TypeError ''name is not a text'')))))))"

fun discover_loop :: "json list \<Rightarrow> (string, workload) dict \<Rightarrow> py_error + (string, workload) dict" where
  "discover_loop [] wls = Inr wls"
| "discover_loop (p # ps) wls = try_bind (discover_pod p wls) (discover_loop ps)"

text \<open>When anything raises, and without a client, the engine goes on with invented workloads.\<close>

definition discover_workloads :: "json list option \<Rightarrow> workload list \<Rightarrow> workload list" where
  "discover_workloads pods mock =
     (case pods of
        None \<Rightarrow> mock
      | Some ps \<Rightarrow> (case discover_loop ps [] of Inl _ \<Rightarrow> mock | Inr wls \<Rightarrow> dict_values wls))"

subsection \<open>Collisions and the cycle\<close>

fun pairs_after :: "'a list \<Rightarrow> ('a \<times> 'a) list" where
  "pairs_after [] = []"
| "pairs_after (x # xs) = map (Pair x) xs @ pairs_after xs"

definition detect_collisions :: "preemption_config \<Rightarrow> workload list \<Rightarrow> (workload \<times> workload) list" where
  "detect_collisions cfg wls =
     (let sorted_wl = sorted_by_desc (\<lambda>w. priority_score (wl_priority w)) wls
      in filter (\<lambda>(high, low). pc_min_priority_delta cfg \<le> priority_score (wl_priority high) - priority_score (wl_priority low))
           (pairs_after sorted_wl))"

definition preempt :: "(workload \<Rightarrow> bool) \<Rightarrow> datetime \<Rightarrow> workload \<Rightarrow> workload \<Rightarrow> preemption_action" where
  "preempt evicts now higher lower =
     \<lparr>pa_workload_name = wl_name lower, pa_namespace = wl_namespace lower, pa_priority = wl_priority lower,
      pa_reason = ''Preempted by '' @ wl_name higher @ '' (priority delta='' @
        int_str (priority_score (wl_priority higher) - priority_score (wl_priority lower)) @ '')'',
      pa_eviction_strategy = ''k8s-evict'', pa_initiated_at = now,
      pa_status = (if evicts lower then ''executed'' else ''failed'')\<rparr>"

text \<open>The loop over the collisions: every one gives an action, and the loop stops at the maximum.\<close>

fun cycle_loop ::
  "preemption_config \<Rightarrow> (workload \<Rightarrow> bool) \<Rightarrow> datetime \<Rightarrow> (workload \<times> workload) list \<Rightarrow> preemption_action list
    \<Rightarrow> preemption_action list" where
  "cycle_loop cfg evicts now [] actions = actions"
| "cycle_loop cfg evicts now ((high, low) # cs) actions =
     (let actions' = actions @ [preempt evicts now high low]
      in if pc_max_per_cycle cfg \<le> int (length actions') then actions'
         else cycle_loop cfg evicts now cs actions')"

definition preemption_cycle ::
  "preemption_config \<Rightarrow> json list option \<Rightarrow> workload list \<Rightarrow> (workload \<Rightarrow> bool) \<Rightarrow> datetime \<Rightarrow> preemption_action list
    \<Rightarrow> preemption_action list \<times> preemption_action list" where
  "preemption_cycle cfg pods mock evicts now history =
     (if pc_policy cfg = PP_NEVER then (history, [])
      else (let actions = cycle_loop cfg evicts now (detect_collisions cfg (discover_workloads pods mock)) []
            in (history @ actions, actions)))"

definition preemption_history :: "int \<Rightarrow> preemption_action list \<Rightarrow> preemption_action list" where
  "preemption_history lmt history = slice_last lmt history"

subsection \<open>Who is preempted\<close>

lemma pairs_after_mem: "(x, y) \<in> set (pairs_after xs) \<Longrightarrow> x \<in> set xs \<and> y \<in> set xs"
  by (induction xs) auto

lemma collision_mem:
  "(h, l) \<in> set (detect_collisions cfg wls) \<Longrightarrow> h \<in> set wls \<and> l \<in> set wls
    \<and> pc_min_priority_delta cfg \<le> priority_score (wl_priority h) - priority_score (wl_priority l)"
  by (auto simp: detect_collisions_def Let_def dest: pairs_after_mem)

lemma cycle_loop_prefix:
  "\<exists>n. cycle_loop cfg evicts now cs actions = actions @ map (\<lambda>(h, l). preempt evicts now h l) (take n cs)"
proof (induction cs arbitrary: actions)
  case (Cons c cs)
  obtain h l where c: "c = (h, l)" by (cases c)
  let ?a = "actions @ [preempt evicts now h l]"
  show ?case
  proof (cases "pc_max_per_cycle cfg \<le> int (length ?a)")
    case True
    then show ?thesis by (intro exI [of _ 1]) (simp add: c Let_def)
  next
    case False
    obtain n where "cycle_loop cfg evicts now cs ?a = ?a @ map (\<lambda>(h, l). preempt evicts now h l) (take n cs)"
      using Cons.IH by blast
    with False show ?thesis by (intro exI [of _ "Suc n"]) (simp add: c Let_def)
  qed
qed simp

lemma cycle_loop_length:
  "int (length actions) < max 1 (pc_max_per_cycle cfg) \<Longrightarrow>
    int (length (cycle_loop cfg evicts now cs actions)) \<le> max 1 (pc_max_per_cycle cfg)"
  by (induction cs arbitrary: actions) (auto simp: Let_def)

text \<open>
  C10: preemption respects priority: a cycle takes at most the configured number of actions (and at
  most one when that number is not positive); each action names a discovered workload that another
  discovered workload outranks by at least the configured difference; so, with a positive
  difference, a workload of critical priority is never preempted; and every action is added to the
  history.
\<close>

theorem preemption_respects_priority:
  assumes "preemption_cycle cfg pods mock evicts now history = (history', actions)"
  shows "int (length actions) \<le> max 1 (pc_max_per_cycle cfg)
    \<and> history' = history @ actions
    \<and> (\<forall>a \<in> set actions. \<exists>h \<in> set (discover_workloads pods mock). \<exists>l \<in> set (discover_workloads pods mock).
         a = preempt evicts now h l \<and>
         pc_min_priority_delta cfg \<le> priority_score (wl_priority h) - priority_score (wl_priority l))
    \<and> (0 < pc_min_priority_delta cfg \<longrightarrow> (\<forall>a \<in> set actions. pa_priority a < CRITICAL))"
proof (cases "pc_policy cfg = PP_NEVER")
  case True
  with assms show ?thesis by (auto simp: preemption_cycle_def)
next
  case False
  let ?wls = "discover_workloads pods mock"
  have actions: "actions = cycle_loop cfg evicts now (detect_collisions cfg ?wls) []" "history' = history @ actions"
    using assms False by (auto simp: preemption_cycle_def Let_def)
  obtain n where n: "actions = map (\<lambda>(h, l). preempt evicts now h l) (take n (detect_collisions cfg ?wls))"
    using cycle_loop_prefix [of cfg evicts now "detect_collisions cfg ?wls" "[]"] actions(1) by auto
  have each: "\<exists>h \<in> set ?wls. \<exists>l \<in> set ?wls. a = preempt evicts now h l \<and>
      pc_min_priority_delta cfg \<le> priority_score (wl_priority h) - priority_score (wl_priority l)"
    if "a \<in> set actions" for a
  proof -
    from that n obtain h l where "(h, l) \<in> set (detect_collisions cfg ?wls)" "a = preempt evicts now h l"
      by (auto dest!: in_set_takeD)
    with collision_mem show ?thesis by blast
  qed
  have top: "priority_score p \<le> 1000" for p by (cases p) simp_all
  have "pa_priority a < CRITICAL" if pos: "0 < pc_min_priority_delta cfg" and a: "a \<in> set actions" for a
  proof -
    from each [OF a] obtain h l where hl: "a = preempt evicts now h l"
      "pc_min_priority_delta cfg \<le> priority_score (wl_priority h) - priority_score (wl_priority l)" by blast
    then have "priority_score (wl_priority l) < 1000" using pos top [of "wl_priority h"] by linarith
    then show ?thesis using hl(1) by (simp add: preempt_def less_priority_class_def)
  qed
  with each actions(2) cycle_loop_length [of "[]" cfg evicts now "detect_collisions cfg ?wls"] actions(1)
  show ?thesis by simp
qed

definition sample_workload :: "string \<Rightarrow> priority_class \<Rightarrow> workload" where
  "sample_workload n p = \<lparr>wl_name = n, wl_namespace = ''ml'', wl_priority = p\<rparr>"

definition sample_preemption :: preemption_config where
  "sample_preemption = \<lparr>pc_policy = PP_LOWER_PRIORITY, pc_min_priority_delta = 100, pc_oldest_first = True, pc_max_per_cycle = 5\<rparr>"

theorem preemption_respects_priority_witness:
  "\<exists>history actions. preemption_cycle sample_preemption None
      [sample_workload ''a'' BATCH, sample_workload ''b'' CRITICAL, sample_workload ''c'' PRODUCTION] (\<lambda>_. True) 0 [] = (history, actions)
     \<and> filter (\<lambda>a. pa_priority a = CRITICAL) actions = []"
proof -
  obtain history actions where e: "preemption_cycle sample_preemption None
      [sample_workload ''a'' BATCH, sample_workload ''b'' CRITICAL, sample_workload ''c'' PRODUCTION] (\<lambda>_. True) 0 [] = (history, actions)"
    by (metis prod.exhaust)
  from preemption_respects_priority [OF e] have "\<forall>a \<in> set actions. pa_priority a < CRITICAL"
    by (simp add: sample_preemption_def)
  then show ?thesis using e by (auto simp: filter_empty_conv)
qed

subsection \<open>Discovery from the wrapper's pods\<close>

definition unknown_workload :: workload where
  "unknown_workload = \<lparr>wl_name = ''unknown'', wl_namespace = ''default'', wl_priority = BATCH\<rparr>"

lemma discover_listed:
  "discover_pod (listed_pod n ns ph nd ls) wls = Inr
     (if dict_has wls ''default/unknown'' then wls else dict_set ''default/unknown'' unknown_workload wls)"
  by (simp add: discover_pod_def listed_pod_def dict_get_or_def Let_def unknown_workload_def priority_of_def)

lemma discover_listed_loop:
  "wls \<in> {[], [(''default/unknown'', unknown_workload)]} \<Longrightarrow>
    discover_loop (map (\<lambda>(n, ns, ph, nd, ls). listed_pod n ns ph nd ls) pods) wls
      = Inr (if pods = [] then wls else [(''default/unknown'', unknown_workload)])"
proof (induction pods arbitrary: wls)
  case (Cons p ps)
  obtain n ns ph nd ls where p: "p = (n, ns, ph, nd, ls)" by (cases p)
  have "discover_pod (listed_pod n ns ph nd ls) wls = Inr [(''default/unknown'', unknown_workload)]"
    using Cons.prems by (auto simp: discover_listed dict_has_def)
  then show ?case using Cons.IH [of "[(''default/unknown'', unknown_workload)]"] by (simp add: p)
qed simp

text \<open>
  With a cluster attached nothing is ever preempted: whatever pods the client wrapper lists,
  with whatever namespaces and priority labels, discovery merges them into one batch workload called
  unknown, because it looks for a \<open>metadata\<close> entry the wrapper's descriptions do not have; so a
  cycle finds no collision and takes no action.
\<close>

theorem listed_pods_never_preempt:
  "preemption_cycle cfg (Some (map (\<lambda>(n, ns, ph, nd, ls). listed_pod n ns ph nd ls) pods)) mock evicts now history = (history, [])
   \<and> discover_workloads (Some (map (\<lambda>(n, ns, ph, nd, ls). listed_pod n ns ph nd ls) pods)) mock
       = (if pods = [] then [] else [unknown_workload])"
proof -
  have d: "discover_workloads (Some (map (\<lambda>(n, ns, ph, nd, ls). listed_pod n ns ph nd ls) pods)) mock
       = (if pods = [] then [] else [unknown_workload])"
    using discover_listed_loop [of "[]" pods] by (auto simp: discover_workloads_def dict_values_def)
  then have "detect_collisions cfg (discover_workloads (Some (map (\<lambda>(n, ns, ph, nd, ls). listed_pod n ns ph nd ls) pods)) mock) = []"
    by (auto simp: detect_collisions_def Let_def sorted_by_desc_def)
  with d show ?thesis by (simp add: preemption_cycle_def)
qed

end
