(* ===== verification/Autoscaler.thy ===== *)
theory Autoscaler
  imports Prelude
begin

text \<open>
  \<open>AutoscalerEngine\<close> of src/src/gpuopt/autoscaler.py: the automatic cycle with its thresholds,
  bounds and cooldown, manual scaling and the event log. What the cluster reports (GPU capacities
  and requests, node counts, whether a resize succeeds) and the clock are arguments, one for each
  reading; times are rational seconds. The thread loop and the calls of the cluster client are not
  modelled.
\<close>

datatype scale_direction = UP | DOWN | NONE

datatype scaling_policy = POL_MANUAL | POL_AUTOMATIC | POL_SCHEDULED

record node_group =
  ng_name :: string
  ng_min_size :: int
  ng_max_size :: int
  ng_current_size :: int

record scale_event =
  sv_direction :: scale_direction
  sv_node_group :: string
  sv_delta :: int
  sv_reason :: "piece list"
  sv_completed_at :: rat
  sv_status :: string
  sv_target_size :: int

record autoscaling_config =
  au_policy :: scaling_policy
  au_up_threshold :: rat
  au_down_threshold :: rat
  au_up_increment :: int
  au_down_decrement :: int
  au_cooldown_seconds :: int
  au_min_nodes :: int
  au_max_nodes :: int
  au_node_groups :: "node_group list"

record autoscaler =
  at_events :: "scale_event list"
  at_last_scale_time :: rat

definition autoscaler_init :: autoscaler where
  "autoscaler_init = \<lparr>at_events = [], at_last_scale_time = 0\<rparr>"

text \<open>
  One cycle's readings: the clock at the start, when the event is made and when it is stored; the
  utilization; the node counts the cluster reports in the cycle and in the scaling step (\<open>None\<close>
  without a cluster); whether the resize succeeds.
\<close>

record cycle_env =
  cy_now :: rat
  cy_event_time :: rat
  cy_done_time :: rat
  cy_utilization :: rat
  cy_nodes :: "int option"
  cy_nodes_again :: "int option"
  cy_resize_ok :: bool

text \<open>The utilization computed from the capacities of the nodes and the requests of the containers.\<close>

definition cluster_utilization :: "int list \<Rightarrow> int list \<Rightarrow> rat" where
  "cluster_utilization capacities requests =
     (if capacities = [] then 0
      else if sum_list capacities = 0 then 0
      else of_int (sum_list requests) / of_int (sum_list capacities) * 100)"

definition total_nodes :: "autoscaling_config \<Rightarrow> int option \<Rightarrow> int" where
  "total_nodes cfg reported =
     (case reported of
        None \<Rightarrow> (if au_node_groups cfg \<noteq> [] then int (length (au_node_groups cfg)) else 3)
      | Some n \<Rightarrow> n)"

definition select_node_group :: "autoscaling_config \<Rightarrow> string" where
  "select_node_group cfg = (case au_node_groups cfg of [] \<Rightarrow> ''default-gpu-group'' | g # _ \<Rightarrow> ng_name g)"

definition store_event :: "scale_event \<Rightarrow> cycle_env \<Rightarrow> autoscaler \<Rightarrow> autoscaler" where
  "store_event ev e s = \<lparr>at_events = at_events s @ [ev], at_last_scale_time = cy_done_time e\<rparr>"

definition scale_up :: "autoscaling_config \<Rightarrow> cycle_env \<Rightarrow> autoscaler \<Rightarrow> autoscaler \<times> scale_event option" where
  "scale_up cfg e s =
     (let total = total_nodes cfg (cy_nodes_again e) in
      if au_max_nodes cfg \<le> total then (s, None)
      else
        (let delta = min (au_up_increment cfg) (au_max_nodes cfg - total);
             ev = \<lparr>sv_direction = UP, sv_node_group = select_node_group cfg, sv_delta = delta,
                   sv_reason = [Txt ''Utilization '', Fmt ''.1f'' (JFloat (cy_utilization e)), Txt ''% > threshold '',
                                Val (JFloat (au_up_threshold cfg)), Txt ''%''],
                   sv_completed_at = cy_event_time e,
                   sv_status = (if cy_resize_ok e then ''executed'' else ''failed''),
                   sv_target_size = total + delta\<rparr>
         in (store_event ev e s, Some ev)))"

definition scale_down :: "autoscaling_config \<Rightarrow> cycle_env \<Rightarrow> autoscaler \<Rightarrow> autoscaler \<times> scale_event option" where
  "scale_down cfg e s =
     (let total = total_nodes cfg (cy_nodes_again e) in
      if total \<le> au_min_nodes cfg then (s, None)
      else
        (let delta = min (au_down_decrement cfg) (total - au_min_nodes cfg);
             ev = \<lparr>sv_direction = DOWN, sv_node_group = select_node_group cfg, sv_delta = delta,
                   sv_reason = [Txt ''Utilization '', Fmt ''.1f'' (JFloat (cy_utilization e)), Txt ''% < threshold '',
                                Val (JFloat (au_down_threshold cfg)), Txt ''%''],
                   sv_completed_at = cy_event_time e,
                   sv_status = (if cy_resize_ok e then ''executed'' else ''failed''),
                   sv_target_size = total - delta\<rparr>
         in (store_event ev e s, Some ev)))"

definition autoscale_cycle :: "autoscaling_config \<Rightarrow> cycle_env \<Rightarrow> autoscaler \<Rightarrow> autoscaler" where
  "autoscale_cycle cfg e s =
     (if cy_now e - at_last_scale_time s < of_int (au_cooldown_seconds cfg) then s
      else if au_up_threshold cfg \<le> cy_utilization e then fst (scale_up cfg e s)
      else if cy_utilization e \<le> au_down_threshold cfg \<and> au_min_nodes cfg < total_nodes cfg (cy_nodes e)
        then fst (scale_down cfg e s)
      else s)"

text \<open>Manual scaling reads the size of the group twice.\<close>

definition scale_manual :: "string \<Rightarrow> int \<Rightarrow> int \<Rightarrow> int \<Rightarrow> bool \<Rightarrow> rat \<Rightarrow> autoscaler \<Rightarrow> autoscaler \<times> scale_event" where
  "scale_manual grp target sz sz2 ok now s =
     (let ev = \<lparr>sv_direction = (if sz < target then UP else DOWN), sv_node_group = grp,
                sv_delta = \<bar>target - sz2\<bar>, sv_reason = [Txt ''Manual scaling request''],
                sv_completed_at = now, sv_status = (if ok then ''executed'' else ''failed''),
                sv_target_size = target\<rparr>
      in (s\<lparr>at_events := at_events s @ [ev]\<rparr>, ev))"

definition get_events :: "int \<Rightarrow> autoscaler \<Rightarrow> scale_event list" where
  "get_events lmt s = slice_last lmt (at_events s)"

record autoscaler_status =
  ast_running :: bool
  ast_config :: autoscaling_config
  ast_last_event :: "scale_event option"
  ast_event_count :: int

definition get_status :: "bool \<Rightarrow> autoscaling_config \<Rightarrow> autoscaler \<Rightarrow> autoscaler_status" where
  "get_status running cfg s =
     \<lparr>ast_running = running, ast_config = cfg,
      ast_last_event = (if at_events s = [] then None else Some (last (at_events s))),
      ast_event_count = int (length (at_events s))\<rparr>"

subsection \<open>One cycle\<close>

text \<open>A cycle as a step: it stores at most one event.\<close>

inductive cycle_step :: "autoscaling_config \<Rightarrow> cycle_env \<Rightarrow> autoscaler \<Rightarrow> scale_event option \<Rightarrow> autoscaler \<Rightarrow> bool"
  for cfg :: autoscaling_config and e :: cycle_env where
  cooling: "cy_now e - at_last_scale_time s < of_int (au_cooldown_seconds cfg) \<Longrightarrow> cycle_step cfg e s None s"
| up: "of_int (au_cooldown_seconds cfg) \<le> cy_now e - at_last_scale_time s \<Longrightarrow> au_up_threshold cfg \<le> cy_utilization e \<Longrightarrow>
    scale_up cfg e s = (s', r) \<Longrightarrow> cycle_step cfg e s r s'"
| down: "of_int (au_cooldown_seconds cfg) \<le> cy_now e - at_last_scale_time s \<Longrightarrow> cy_utilization e < au_up_threshold cfg \<Longrightarrow>
    cy_utilization e \<le> au_down_threshold cfg \<Longrightarrow> au_min_nodes cfg < total_nodes cfg (cy_nodes e) \<Longrightarrow>
    scale_down cfg e s = (s', r) \<Longrightarrow> cycle_step cfg e s r s'"
| steady: "cy_utilization e < au_up_threshold cfg \<Longrightarrow>
    \<not> (cy_utilization e \<le> au_down_threshold cfg \<and> au_min_nodes cfg < total_nodes cfg (cy_nodes e)) \<Longrightarrow> cycle_step cfg e s None s"

inductive_cases cycle_step_eventE: "cycle_step cfg e s (Some ev) s'"
inductive_cases cycle_step_quietE: "cycle_step cfg e s None s'"

text \<open>The function takes a step, and steps are only taken that way.\<close>

lemma cycle_refines: "\<exists>r. cycle_step cfg e s r (autoscale_cycle cfg e s)"
proof -
  obtain s1 r1 where u: "scale_up cfg e s = (s1, r1)" by (cases "scale_up cfg e s")
  obtain s2 r2 where d: "scale_down cfg e s = (s2, r2)" by (cases "scale_down cfg e s")
  show ?thesis
    using cycle_step.cooling [of e s cfg] cycle_step.up [OF _ _ u] cycle_step.down [OF _ _ _ _ d] cycle_step.steady [of e cfg s]
    by (cases "cy_now e - at_last_scale_time s < of_int (au_cooldown_seconds cfg)"; cases "au_up_threshold cfg \<le> cy_utilization e";
        cases "cy_utilization e \<le> au_down_threshold cfg \<and> au_min_nodes cfg < total_nodes cfg (cy_nodes e)")
      (auto simp: autoscale_cycle_def u d not_le not_less)
qed

lemma scale_up_cases:
  assumes "scale_up cfg e s = (s', r)"
  shows "(r = None \<and> s' = s) \<or> (\<exists>ev. r = Some ev \<and> s' = store_event ev e s \<and> sv_completed_at ev = cy_event_time e
    \<and> sv_direction ev = UP \<and> total_nodes cfg (cy_nodes_again e) < au_max_nodes cfg
    \<and> sv_target_size ev = total_nodes cfg (cy_nodes_again e) + min (au_up_increment cfg) (au_max_nodes cfg - total_nodes cfg (cy_nodes_again e)))"
  using assms by (auto simp: scale_up_def Let_def split: if_splits)

lemma scale_down_cases:
  assumes "scale_down cfg e s = (s', r)"
  shows "(r = None \<and> s' = s) \<or> (\<exists>ev. r = Some ev \<and> s' = store_event ev e s \<and> sv_completed_at ev = cy_event_time e
    \<and> sv_direction ev = DOWN \<and> au_min_nodes cfg < total_nodes cfg (cy_nodes_again e)
    \<and> sv_target_size ev = total_nodes cfg (cy_nodes_again e) - min (au_down_decrement cfg) (total_nodes cfg (cy_nodes_again e) - au_min_nodes cfg))"
  using assms by (auto simp: scale_down_def Let_def split: if_splits)

lemma cycle_quiet: "cycle_step cfg e s None s' \<Longrightarrow> s' = s"
  by (erule cycle_step_quietE) (auto dest: scale_up_cases scale_down_cases)

lemma cycle_event:
  assumes "cycle_step cfg e s (Some ev) s'"
  shows "s' = store_event ev e s \<and> sv_completed_at ev = cy_event_time e
    \<and> of_int (au_cooldown_seconds cfg) \<le> cy_now e - at_last_scale_time s
    \<and> (sv_direction ev = UP \<longrightarrow> au_up_threshold cfg \<le> cy_utilization e)
    \<and> (sv_direction ev = DOWN \<longrightarrow> cy_utilization e \<le> au_down_threshold cfg)
    \<and> (0 \<le> au_up_increment cfg \<longrightarrow> 0 \<le> au_down_decrement cfg \<longrightarrow> sv_direction ev = UP \<longrightarrow>
         total_nodes cfg (cy_nodes_again e) \<le> sv_target_size ev \<and> sv_target_size ev \<le> au_max_nodes cfg)
    \<and> (0 \<le> au_up_increment cfg \<longrightarrow> 0 \<le> au_down_decrement cfg \<longrightarrow> sv_direction ev = DOWN \<longrightarrow>
         au_min_nodes cfg \<le> sv_target_size ev \<and> sv_target_size ev \<le> total_nodes cfg (cy_nodes_again e))
    \<and> sv_direction ev \<noteq> NONE"
  using assms by (rule cycle_step_eventE) (auto dest!: scale_up_cases scale_down_cases simp: min_def split: if_splits)


definition sample_autoscaling :: autoscaling_config where
  "sample_autoscaling = \<lparr>au_policy = POL_AUTOMATIC, au_up_threshold = 80, au_down_threshold = 30, au_up_increment = 4,
     au_down_decrement = 1, au_cooldown_seconds = 300, au_min_nodes = 1, au_max_nodes = 5, au_node_groups = []\<rparr>"

definition sample_cycle :: cycle_env where
  "sample_cycle = \<lparr>cy_now = 1000, cy_event_time = 1001, cy_done_time = 1002, cy_utilization = 95, cy_nodes = Some 3,
     cy_nodes_again = Some 3, cy_resize_ok = True\<rparr>"


subsection \<open>The cooldown over runs\<close>

text \<open>The readings of successive cycles never run back.\<close>

fun clock_ok :: "rat \<Rightarrow> cycle_env list \<Rightarrow> bool" where
  "clock_ok t [] = True"
| "clock_ok t (e # es) = (t \<le> cy_now e \<and> cy_now e \<le> cy_event_time e \<and> cy_event_time e \<le> cy_done_time e \<and> clock_ok (cy_done_time e) es)"

definition spaced :: "autoscaling_config \<Rightarrow> scale_event list \<Rightarrow> bool" where
  "spaced cfg evs = sorted_wrt (\<lambda>a b. of_int (au_cooldown_seconds cfg) \<le> sv_completed_at b - sv_completed_at a) evs"

lemma spaced_snoc:
  "spaced cfg evs \<Longrightarrow> (\<forall>a \<in> set evs. of_int (au_cooldown_seconds cfg) \<le> sv_completed_at ev - sv_completed_at a) \<Longrightarrow>
    spaced cfg (evs @ [ev])"
  by (simp add: spaced_def sorted_wrt_append)

lemma cycle_spaced:
  assumes "spaced cfg (at_events s)" and "\<forall>a \<in> set (at_events s). sv_completed_at a \<le> at_last_scale_time s"
    and "cy_now e \<le> cy_event_time e" and "cy_event_time e \<le> cy_done_time e" and "0 \<le> au_cooldown_seconds cfg"
  shows "spaced cfg (at_events (autoscale_cycle cfg e s))
    \<and> (\<forall>a \<in> set (at_events (autoscale_cycle cfg e s)). sv_completed_at a \<le> at_last_scale_time (autoscale_cycle cfg e s))"
proof -
  obtain r where r: "cycle_step cfg e s r (autoscale_cycle cfg e s)" using cycle_refines by blast
  show ?thesis
  proof (cases r)
    case None
    with r have "autoscale_cycle cfg e s = s" using cycle_quiet by blast
    with assms show ?thesis by simp
  next
    case (Some ev)
    with r have "cycle_step cfg e s (Some ev) (autoscale_cycle cfg e s)" by simp
    note ev = cycle_event [OF this]
    have gap: "of_int (au_cooldown_seconds cfg) \<le> sv_completed_at ev - sv_completed_at a"
      and old: "sv_completed_at a \<le> cy_done_time e" if "a \<in> set (at_events s)" for a
    proof -
      have "sv_completed_at a \<le> at_last_scale_time s" using that assms(2) by blast
      moreover have "(0 :: rat) \<le> of_int (au_cooldown_seconds cfg)" using assms(5) by simp
      moreover have "of_int (au_cooldown_seconds cfg) \<le> cy_now e - at_last_scale_time s" "sv_completed_at ev = cy_event_time e"
        using ev by auto
      ultimately show "of_int (au_cooldown_seconds cfg) \<le> sv_completed_at ev - sv_completed_at a" "sv_completed_at a \<le> cy_done_time e"
        using assms(3,4) by linarith+
    qed
    show ?thesis
      using ev spaced_snoc [OF assms(1)] gap old assms(4) by (auto simp: store_event_def)
  qed
qed

text \<open>
  Automatic events keep their distance: over any run of automatic cycles whose clock readings
  never run back, any two stored events are at least the cooldown apart.
\<close>

theorem autoscale_cooldown:
  assumes "clock_ok t es" and "0 \<le> au_cooldown_seconds cfg"
    and "i < j" and "j < length (at_events (fold (autoscale_cycle cfg) es autoscaler_init))"
  shows "of_int (au_cooldown_seconds cfg) \<le>
    sv_completed_at (at_events (fold (autoscale_cycle cfg) es autoscaler_init) ! j)
    - sv_completed_at (at_events (fold (autoscale_cycle cfg) es autoscaler_init) ! i)"
proof -
  have "spaced cfg (at_events (fold (autoscale_cycle cfg) es s))"
    if "clock_ok t es" "spaced cfg (at_events s)" "\<forall>a \<in> set (at_events s). sv_completed_at a \<le> at_last_scale_time s" for t s
    using that
  proof (induction es arbitrary: t s)
    case (Cons e es)
    then have "spaced cfg (at_events (autoscale_cycle cfg e s))
      \<and> (\<forall>a \<in> set (at_events (autoscale_cycle cfg e s)). sv_completed_at a \<le> at_last_scale_time (autoscale_cycle cfg e s))"
      using cycle_spaced [OF Cons.prems(2,3) _ _ assms(2)] by simp
    with Cons.IH [of "cy_done_time e"] Cons.prems(1) show ?case by simp
  qed simp
  from this [OF assms(1), of autoscaler_init]
  have "spaced cfg (at_events (fold (autoscale_cycle cfg) es autoscaler_init))"
    by (simp add: autoscaler_init_def spaced_def)
  then show ?thesis using assms(3,4) by (simp add: spaced_def sorted_wrt_iff_nth_less)
qed

lemma sample_two_events:
  "map sv_completed_at (at_events (fold (autoscale_cycle sample_autoscaling)
     [sample_cycle, sample_cycle\<lparr>cy_now := 1100, cy_event_time := 1100, cy_done_time := 1100\<rparr>,
      sample_cycle\<lparr>cy_now := 1400, cy_event_time := 1401, cy_done_time := 1402\<rparr>] autoscaler_init)) = [1001, 1401]"
  by (simp add: autoscale_cycle_def sample_autoscaling_def sample_cycle_def autoscaler_init_def scale_up_def store_event_def
      total_nodes_def Let_def)

theorem autoscale_cooldown_witness:
  "(300 :: rat) \<le> map sv_completed_at (at_events (fold (autoscale_cycle sample_autoscaling)
     [sample_cycle, sample_cycle\<lparr>cy_now := 1100, cy_event_time := 1100, cy_done_time := 1100\<rparr>,
      sample_cycle\<lparr>cy_now := 1400, cy_event_time := 1401, cy_done_time := 1402\<rparr>] autoscaler_init)) ! 1 - 1001"
proof -
  let ?es = "[sample_cycle, sample_cycle\<lparr>cy_now := 1100, cy_event_time := 1100, cy_done_time := 1100\<rparr>,
      sample_cycle\<lparr>cy_now := 1400, cy_event_time := 1401, cy_done_time := 1402\<rparr>]"
  let ?evs = "at_events (fold (autoscale_cycle sample_autoscaling) ?es autoscaler_init)"
  have two: "map sv_completed_at ?evs = [1001, 1401]" by (rule sample_two_events)
  then have len: "length ?evs = 2" by (metis length_map length_Cons list.size(3) numeral_2_eq_2)
  have "of_int (au_cooldown_seconds sample_autoscaling) \<le> sv_completed_at (?evs ! 1) - sv_completed_at (?evs ! 0)"
    by (rule autoscale_cooldown [of 0]) (simp add: sample_cycle_def, simp add: sample_autoscaling_def, simp, simp only: len)
  moreover have "sv_completed_at (?evs ! 1) = map sv_completed_at ?evs ! 1" "sv_completed_at (?evs ! 0) = map sv_completed_at ?evs ! 0"
    using len by simp_all
  moreover have "map sv_completed_at ?evs ! 0 = 1001" by (simp only: two nth_Cons_0)
  ultimately show ?thesis by (simp add: sample_autoscaling_def)
qed

end
