(* ===== verification/Agents.thy ===== *)
theory Agents
  imports Prelude
begin

text \<open>
  \<open>AgentRegistry\<close> of src/src/gpuopt/agent_protocol.py: registration, heartbeats, status changes, the
  stale check and the bounded event log, which is the bounded log of the prelude with a bound of ten
  thousand. Times written as ISO texts are the times themselves. The thread of the stale checker,
  the lock and the TLS context are not modelled.
\<close>

datatype agent_status = AS_REGISTERED | AS_ACTIVE | AS_INACTIVE | AS_DEGRADED | AS_UNREACHABLE | AS_DECOMMISSIONED

fun agent_status_value :: "agent_status \<Rightarrow> string" where
  "agent_status_value AS_REGISTERED = ''registered''"
| "agent_status_value AS_ACTIVE = ''active''"
| "agent_status_value AS_INACTIVE = ''inactive''"
| "agent_status_value AS_DEGRADED = ''degraded''"
| "agent_status_value AS_UNREACHABLE = ''unreachable''"
| "agent_status_value AS_DECOMMISSIONED = ''decommissioned''"

datatype agent_event_type = EV_REGISTERED | EV_HEARTBEAT | EV_STATUS_CHANGE | EV_TELEMETRY
  | EV_DISCONNECTED | EV_RECONNECTED | EV_ERROR

record agent =
  an_agent_id :: string
  an_hostname :: string
  an_version :: string
  an_capabilities :: "string list"
  an_labels :: "(string, string) dict"
  an_registered_at :: datetime
  an_last_heartbeat :: datetime
  an_status :: agent_status
  an_public_key_pem :: string
  an_mtls_enabled :: bool
  an_api_key_hash :: string

record heartbeat =
  hb_agent_id :: string
  hb_timestamp :: datetime
  hb_sequence :: int
  hb_status :: agent_status
  hb_load :: "(string, rat) dict"
  hb_metrics_summary :: "(string, json) dict"

record agent_event =
  ev_event_id :: uuid
  ev_agent_id :: string
  ev_event_type :: agent_event_type
  ev_timestamp :: datetime
  ev_previous_status :: "agent_status option"
  ev_new_status :: agent_status
  ev_message :: "piece list"
  ev_details :: "(string, json) dict"

record agents =
  ag_agents :: "(string, agent) dict"
  ag_heartbeats :: "(string, heartbeat) dict"
  ag_events :: "agent_event list"

definition event_limit :: nat where
  "event_limit = 10000"

definition heartbeat_timeout_seconds :: int where
  "heartbeat_timeout_seconds = 180"

definition agents_init :: agents where
  "agents_init = \<lparr>ag_agents = [], ag_heartbeats = [], ag_events = []\<rparr>"

interpretation event_log: bounded_log "append_bounded event_limit" event_limit
  by (rule append_bounded_log) (simp add: event_limit_def)

text \<open>The identifier and the time of an event are drawn while it is recorded.\<close>

definition record_event ::
  "uuid \<times> datetime \<Rightarrow> string \<Rightarrow> agent_event_type \<Rightarrow> agent_status option \<Rightarrow> agent_status \<Rightarrow> piece list
    \<Rightarrow> (string, json) dict \<Rightarrow> agents \<Rightarrow> agents" where
  "record_event env a t prev new msg details s =
     s\<lparr>ag_events := append_bounded event_limit
        \<lparr>ev_event_id = fst env, ev_agent_id = a, ev_event_type = t, ev_timestamp = snd env,
         ev_previous_status = prev, ev_new_status = new, ev_message = msg, ev_details = details\<rparr> (ag_events s)\<rparr>"

definition register_agent ::
  "string \<Rightarrow> datetime \<Rightarrow> uuid \<times> datetime \<Rightarrow> string \<Rightarrow> string \<Rightarrow> string list \<Rightarrow> (string, string) dict \<Rightarrow> string
    \<Rightarrow> string \<Rightarrow> bool \<Rightarrow> agents \<Rightarrow> agents \<times> agent" where
  "register_agent i now env hostname version capabilities labels pem key_hash mtls s =
     (let r = \<lparr>an_agent_id = i, an_hostname = hostname, an_version = version, an_capabilities = capabilities,
               an_labels = labels, an_registered_at = now, an_last_heartbeat = now, an_status = AS_REGISTERED,
               an_public_key_pem = pem, an_mtls_enabled = mtls, an_api_key_hash = key_hash\<rparr>
      in (record_event env i EV_REGISTERED None AS_REGISTERED
            [Txt (''Agent '' @ hostname @ '' v'' @ version @ '' registered'')]
            [(''hostname'', JStr hostname), (''version'', JStr version), (''capabilities'', JList (map JStr capabilities))]
            (s\<lparr>ag_agents := dict_set i r (ag_agents s)\<rparr>), r))"

definition process_heartbeat ::
  "string \<Rightarrow> datetime \<Rightarrow> uuid \<times> datetime \<Rightarrow> (string, rat) dict \<Rightarrow> (string, json) dict \<Rightarrow> agents \<Rightarrow> agents \<times> heartbeat option" where
  "process_heartbeat i now env load_avg metrics s =
     (case dict_get (ag_agents s) i of
        None \<Rightarrow> (s, None)
      | Some a \<Rightarrow>
          (let seq = (case dict_get (ag_heartbeats s) i of Some h \<Rightarrow> hb_sequence h + 1 | None \<Rightarrow> 1);
               hb = \<lparr>hb_agent_id = i, hb_timestamp = now, hb_sequence = seq, hb_status = AS_ACTIVE,
                     hb_load = load_avg, hb_metrics_summary = metrics\<rparr>;
               s1 = s\<lparr>ag_agents := dict_set i (a\<lparr>an_last_heartbeat := now, an_status := AS_ACTIVE\<rparr>) (ag_agents s),
                      ag_heartbeats := dict_set i hb (ag_heartbeats s)\<rparr>
           in (if an_status a \<noteq> AS_ACTIVE then
                 record_event env i EV_STATUS_CHANGE (Some (an_status a)) AS_ACTIVE
                   [Txt (''Agent '' @ an_hostname a @ '' became active'')]
                   [(''previous_status'', JStr (agent_status_value (an_status a)))] s1
               else s1, Some hb)))"

definition agent_update_status ::
  "string \<Rightarrow> agent_status \<Rightarrow> string \<Rightarrow> (string, json) dict \<Rightarrow> uuid \<times> datetime \<Rightarrow> agents \<Rightarrow> agents \<times> bool" where
  "agent_update_status i new msg details env s =
     (case dict_get (ag_agents s) i of
        None \<Rightarrow> (s, False)
      | Some a \<Rightarrow>
          (if an_status a = new then (s, True)
           else (record_event env i EV_STATUS_CHANGE (Some (an_status a)) new
                   [Txt (if msg = [] then ''Status changed: '' @ agent_status_value (an_status a) @ '' -> '' @ agent_status_value new else msg)]
                   details
                   (s\<lparr>ag_agents := dict_set i (a\<lparr>an_status := new\<rparr>) (ag_agents s)\<rparr>), True)))"

definition seconds_between :: "datetime \<Rightarrow> datetime \<Rightarrow> rat" where
  "seconds_between a b = of_int (b - a) / 1000000"

definition is_stale :: "datetime \<Rightarrow> agent \<Rightarrow> bool" where
  "is_stale now a \<longleftrightarrow> an_status a \<notin> {AS_DECOMMISSIONED, AS_UNREACHABLE}
     \<and> of_int heartbeat_timeout_seconds < seconds_between (an_last_heartbeat a) now"

text \<open>One agent of the loop; \<open>env\<close> gives the identifier and time of its event.\<close>

definition check_stale_one ::
  "datetime \<Rightarrow> (string \<Rightarrow> uuid \<times> datetime) \<Rightarrow> string \<times> agent \<Rightarrow> agents \<times> string list \<Rightarrow> agents \<times> string list" where
  "check_stale_one now env ia st =
     (let (i, a) = ia; (s, stale) = st in
      if is_stale now a then
        (let elapsed = seconds_between (an_last_heartbeat a) now in
         (record_event (env i) i EV_STATUS_CHANGE (Some (an_status a)) AS_UNREACHABLE
            [Txt (''Agent '' @ an_hostname a @ '' unreachable for ''), Fmt ''.0f'' (JFloat elapsed), Txt ''s'']
            [(''elapsed_seconds'', JFloat elapsed), (''timeout'', JInt heartbeat_timeout_seconds)]
            (s\<lparr>ag_agents := dict_set i (a\<lparr>an_status := AS_UNREACHABLE\<rparr>) (ag_agents s)\<rparr>), stale @ [i]))
      else st)"

definition check_stale_agents :: "datetime \<Rightarrow> (string \<Rightarrow> uuid \<times> datetime) \<Rightarrow> agents \<Rightarrow> agents \<times> string list" where
  "check_stale_agents now env s = fold (check_stale_one now env) (ag_agents s) (s, [])"

definition decommission :: "string \<Rightarrow> uuid \<times> datetime \<Rightarrow> agents \<Rightarrow> agents \<times> bool" where
  "decommission i env s = agent_update_status i AS_DECOMMISSIONED ''Agent decommissioned'' [] env s"

definition get_agent :: "string \<Rightarrow> agents \<Rightarrow> agent option" where
  "get_agent i s = dict_get (ag_agents s) i"

definition list_agents :: "agent_status option \<Rightarrow> agents \<Rightarrow> agent list" where
  "list_agents st s = (case st of None \<Rightarrow> dict_values (ag_agents s)
     | Some x \<Rightarrow> filter (\<lambda>a. an_status a = x) (dict_values (ag_agents s)))"

definition list_events :: "string \<Rightarrow> int \<Rightarrow> agents \<Rightarrow> agent_event list" where
  "list_events i lmt s = slice_last lmt (if i = [] then ag_events s else filter (\<lambda>e. ev_agent_id e = i) (ag_events s))"

definition get_latest_heartbeat :: "string \<Rightarrow> agents \<Rightarrow> heartbeat option" where
  "get_latest_heartbeat i s = dict_get (ag_heartbeats s) i"

definition get_agent_count :: "agents \<Rightarrow> (string, int) dict" where
  "get_agent_count s =
     fold (\<lambda>a d. dict_set (agent_status_value (an_status a)) (dict_get_or d (agent_status_value (an_status a)) 0 + 1) d)
       (dict_values (ag_agents s)) []"

definition get_heartbeat_stats :: "agents \<Rightarrow> int \<times> int \<times> int \<times> int" where
  "get_heartbeat_stats s =
     (let total = int (length (ag_agents s));
          active = int (length (list_agents (Some AS_ACTIVE) s));
          stale = int (length (list_agents (Some AS_UNREACHABLE) s))
      in (total, active, stale, total - active - stale))"

subsection \<open>The registry as a machine\<close>

datatype agent_op =
    AgRegister string datetime "uuid \<times> datetime" string string "string list" "(string, string) dict" string string bool
  | AgHeartbeat string datetime "uuid \<times> datetime" "(string, rat) dict" "(string, json) dict"
  | AgStatus string agent_status string "(string, json) dict" "uuid \<times> datetime"
  | AgStale datetime "string \<Rightarrow> uuid \<times> datetime"
  | AgDecommission string "uuid \<times> datetime"

fun agent_step :: "agent_op \<Rightarrow> agents \<Rightarrow> agents" where
  "agent_step (AgRegister i now env h v cs ls p k m) s = fst (register_agent i now env h v cs ls p k m s)"
| "agent_step (AgHeartbeat i now env l ms) s = fst (process_heartbeat i now env l ms s)"
| "agent_step (AgStatus i st msg d env) s = fst (agent_update_status i st msg d env s)"
| "agent_step (AgStale now env) s = fst (check_stale_agents now env s)"
| "agent_step (AgDecommission i env) s = fst (decommission i env s)"

definition last_logged :: "string \<Rightarrow> agent_event list \<Rightarrow> agent_status option" where
  "last_logged i es = (case filter (\<lambda>e. ev_agent_id e = i) es of [] \<Rightarrow> None | xs \<Rightarrow> Some (ev_new_status (last xs)))"

text \<open>
  The log is bounded, and while it is below its bound, so that nothing was dropped yet, the last
  event of every agent carries its present status.
\<close>

definition agents_inv :: "agents \<Rightarrow> bool" where
  "agents_inv s \<longleftrightarrow> dict_ok (ag_agents s) \<and> length (ag_events s) \<le> event_limit
     \<and> (length (ag_events s) < event_limit \<longrightarrow>
          (\<forall>i a. dict_get (ag_agents s) i = Some a \<longrightarrow> last_logged i (ag_events s) = Some (an_status a)))"

lemma push_below: "length es < event_limit \<Longrightarrow> append_bounded event_limit e es = es @ [e]"
  by (simp add: append_bounded_def Let_def)

lemma push_full: "event_limit \<le> length es \<Longrightarrow> event_limit \<le> length (append_bounded event_limit e es)"
  by (simp add: append_bounded_def slice_last_def event_limit_def Let_def)

lemma last_logged_snoc:
  "last_logged i (es @ [e]) = (if ev_agent_id e = i then Some (ev_new_status e) else last_logged i es)"
  by (cases "filter (\<lambda>e. ev_agent_id e = i) es") (auto simp: last_logged_def)

text \<open>Writing an agent and recording its new status keeps the invariant.\<close>

lemma agents_inv_record:
  assumes "agents_inv s" and "an_status a = new"
  shows "agents_inv (record_event env i t prev new msg details (s\<lparr>ag_agents := dict_set i a (ag_agents s)\<rparr>))"
proof (cases "length (ag_events s) < event_limit")
  case True
  then show ?thesis
    using assms by (auto simp: agents_inv_def record_event_def push_below last_logged_snoc)
next
  case False
  let ?e = "\<lparr>ev_event_id = fst env, ev_agent_id = i, ev_event_type = t, ev_timestamp = snd env,
         ev_previous_status = prev, ev_new_status = new, ev_message = msg, ev_details = details\<rparr>"
  have "event_limit \<le> length (append_bounded event_limit ?e (ag_events s))"
    by (rule push_full) (use False in simp)
  moreover have "length (append_bounded event_limit ?e (ag_events s)) \<le> event_limit"
    by (rule event_log.push_length) (use assms(1) in \<open>simp add: agents_inv_def\<close>)
  ultimately show ?thesis using assms(1) by (simp add: agents_inv_def record_event_def)
qed

lemma agents_inv_same_status:
  assumes "agents_inv s" and "dict_get (ag_agents s) i = Some a" and "an_status a' = an_status a"
  shows "agents_inv (s\<lparr>ag_agents := dict_set i a' (ag_agents s)\<rparr>)"
  using assms by (auto simp: agents_inv_def)

lemma agents_inv_heartbeats [simp]: "agents_inv (s\<lparr>ag_heartbeats := h\<rparr>) = agents_inv s"
  by (simp add: agents_inv_def)

lemma record_event_heartbeats:
  "record_event env i t p n m d (s\<lparr>ag_heartbeats := h\<rparr>) = (record_event env i t p n m d s)\<lparr>ag_heartbeats := h\<rparr>"
  by (simp add: record_event_def)

lemma heartbeat_inv: "agents_inv s \<Longrightarrow> agents_inv (fst (process_heartbeat i now env l ms s))"
proof (cases "dict_get (ag_agents s) i")
  case (Some a)
  assume inv: "agents_inv s"
  let ?a = "a\<lparr>an_last_heartbeat := now, an_status := AS_ACTIVE\<rparr>"
  have "agents_inv (record_event env i EV_STATUS_CHANGE p AS_ACTIVE m d (s\<lparr>ag_agents := dict_set i ?a (ag_agents s)\<rparr>))" for p m d
    by (rule agents_inv_record [OF inv]) simp
  moreover have "an_status a = AS_ACTIVE \<Longrightarrow> agents_inv (s\<lparr>ag_agents := dict_set i ?a (ag_agents s)\<rparr>)"
    by (rule agents_inv_same_status [OF inv Some]) simp
  ultimately show ?thesis
    using Some by (simp add: process_heartbeat_def Let_def record_event_heartbeats)
qed (simp add: process_heartbeat_def)

lemma update_status_inv: "agents_inv s \<Longrightarrow> agents_inv (fst (agent_update_status i st msg d env s))"
  by (auto simp: agent_update_status_def intro!: agents_inv_record split: option.split)

lemma stale_fold_inv: "agents_inv s \<Longrightarrow> agents_inv (fst (fold (check_stale_one now env) ias (s, stale)))"
proof (induction ias arbitrary: s stale)
  case (Cons ia ias)
  obtain i a where ia: "ia = (i, a)" by (cases ia)
  show ?case
  proof (cases "is_stale now a")
    case True
    have "agents_inv (fst (check_stale_one now env ia (s, stale)))"
      using Cons.prems True by (auto simp: check_stale_one_def ia Let_def intro!: agents_inv_record)
    then show ?thesis using Cons.IH by (cases "check_stale_one now env ia (s, stale)") simp
  next
    case False
    then show ?thesis using Cons by (simp add: check_stale_one_def ia)
  qed
qed simp

interpretation agent_machine: invariant_machine agent_step "\<lambda>_ _. True" agents_inv
proof
  fix s x assume inv: "agents_inv s"
  show "agents_inv (agent_step x s)"
  proof (cases x)
    case (AgRegister i now env h v cs ls p k m)
    then show ?thesis using inv by (auto simp: register_agent_def Let_def intro!: agents_inv_record)
  qed (use inv in \<open>simp_all add: heartbeat_inv update_status_inv check_stale_agents_def stale_fold_inv decommission_def\<close>)
qed

text \<open>
  C20: the event log tells every agent's status: in any run of the registry's operations the log
  never exceeds ten thousand events, and as long as it has not reached that bound, the last event
  recorded for an agent names the status the agent has.
\<close>

theorem agent_log_faithful:
  shows "length (ag_events (fold agent_step ops agents_init)) \<le> event_limit
    \<and> (length (ag_events (fold agent_step ops agents_init)) < event_limit \<longrightarrow>
        (\<forall>a. get_agent i (fold agent_step ops agents_init) = Some a \<longrightarrow>
           last_logged i (ag_events (fold agent_step ops agents_init)) = Some (an_status a)))"
proof -
  have run: "run_allowed agent_step (\<lambda>_ _. True) ops s" for s
    by (induction ops arbitrary: s) auto
  have "agents_inv agents_init" by (simp add: agents_inv_def agents_init_def)
  from agent_machine.run_inv [OF run this] show ?thesis by (simp add: agents_inv_def get_agent_def)
qed

definition sample_agent_ops :: "agent_op list" where
  "sample_agent_ops = [AgRegister ''a1'' 0 (''e1'', 0) ''node-1'' ''1.0'' [] [] [] [] False,
     AgDecommission ''a1'' (''e2'', 1), AgHeartbeat ''a1'' 2 (''e3'', 2) [] []]"

lemma sample_agents:
  "\<exists>a. get_agent ''a1'' (fold agent_step sample_agent_ops agents_init) = Some a \<and> an_status a = AS_ACTIVE"
  "length (ag_events (fold agent_step sample_agent_ops agents_init)) = 3"
  by (simp_all add: sample_agent_ops_def agents_init_def register_agent_def decommission_def agent_update_status_def
      process_heartbeat_def record_event_def get_agent_def append_bounded_def event_limit_def Let_def)

theorem agent_log_faithful_witness:
  "last_logged ''a1'' (ag_events (fold agent_step sample_agent_ops agents_init)) = Some AS_ACTIVE"
  using agent_log_faithful [of sample_agent_ops "''a1''"] sample_agents by (auto simp: event_limit_def)

end
