(* ===== verification/ClusterState.thy ===== *)
theory ClusterState
  imports Repository
begin

text \<open>
  The snapshot of a cluster that alerts, scheduling, twins and dashboards read: \<open>GPUDeviceState\<close>,
  \<open>NodeState\<close> and \<open>ClusterStateData\<close> of src/src/gpuopt/schemas.py, with the telemetry a snapshot may
  carry, and the \<open>CheckItem\<close> that connectors and replays report.
\<close>

record gpu_state =
  gs_index :: int
  gs_uuid :: string
  gs_model :: string
  gs_memory_total_bytes :: int
  gs_memory_used_bytes :: int
  gs_status :: string

record node_state =
  ns_name :: string
  ns_status :: string
  ns_capacity :: "(string, json) dict"
  ns_allocatable :: "(string, json) dict"
  ns_labels :: "(string, string) dict"
  ns_gpu_devices :: "gpu_state list"
  ns_pod_count :: int
  ns_pod_capacity :: int
  ns_created_at :: "datetime option"

record gpu_telemetry =
  gt_index :: int
  gt_uuid :: string
  gt_model :: string
  gt_memory_total_bytes :: int
  gt_memory_used_bytes :: int
  gt_utilization_gpu_percent :: rat
  gt_utilization_memory_percent :: rat
  gt_temperature_gpu_celsius :: rat
  gt_power_draw_watts :: rat
  gt_power_limit_watts :: rat
  gt_ecc_errors_volatile :: int
  gt_ecc_errors_aggregate :: int
  gt_clock_sm_mhz :: int
  gt_clock_mem_mhz :: int

record node_telemetry =
  nt_node_name :: string
  nt_status :: string
  nt_cpu_usage_millicores :: int
  nt_cpu_capacity_millicores :: int
  nt_memory_usage_bytes :: int
  nt_memory_capacity_bytes :: int
  nt_pod_count :: int
  nt_pod_capacity :: int
  nt_gpu_devices :: "gpu_telemetry list"

record cluster_telemetry =
  ct_cluster_id :: uuid
  ct_cluster_name :: string
  ct_collected_at :: datetime
  ct_node_count :: int
  ct_gpu_count :: int
  ct_nodes :: "node_telemetry list"
  ct_freshness_seconds :: rat

record cluster_state =
  cs_cluster_id :: uuid
  cs_cluster_name :: string
  cs_environment :: string
  cs_collected_at :: datetime
  cs_generated_at :: datetime
  cs_node_count :: int
  cs_gpu_count :: int
  cs_total_gpu_memory_bytes :: int
  cs_nodes :: "node_state list"
  cs_telemetry :: "cluster_telemetry option"

text \<open>A device whose memory use is between nothing and all of it, and a node of such devices.\<close>

definition gpu_ok :: "gpu_state \<Rightarrow> bool" where
  "gpu_ok g \<longleftrightarrow> 0 \<le> gs_memory_used_bytes g \<and> gs_memory_used_bytes g \<le> gs_memory_total_bytes g"

definition node_ok :: "node_state \<Rightarrow> bool" where
  "node_ok n \<longleftrightarrow> list_all gpu_ok (ns_gpu_devices n) \<and> 0 \<le> ns_pod_count n"

abbreviation gpu_free :: "gpu_state \<Rightarrow> int" where
  "gpu_free g \<equiv> gs_memory_total_bytes g - gs_memory_used_bytes g"

text \<open>\<open>g.memory_used_bytes < g.memory_total_bytes * 0.1\<close>.\<close>

definition gpu_idle :: "gpu_state \<Rightarrow> bool" where
  "gpu_idle g \<longleftrightarrow> (of_int (gs_memory_used_bytes g) :: rat) < of_int (gs_memory_total_bytes g) * (1 / 10)"

subsection \<open>Check items\<close>

datatype check_status = CHECK_PASS | CHECK_WARN | CHECK_FAIL | CHECK_SKIP

record check_item =
  ck_name :: string
  ck_status :: check_status
  ck_message :: "piece list"
  ck_latency_ms :: "rat option"
  ck_details :: "(string, json) dict"
  ck_remediation :: "string option"

definition check :: "string \<Rightarrow> check_status \<Rightarrow> piece list \<Rightarrow> (string, json) dict \<Rightarrow> string option \<Rightarrow> check_item" where
  "check name st msg details rem =
     \<lparr>ck_name = name, ck_status = st, ck_message = msg, ck_latency_ms = None, ck_details = details, ck_remediation = rem\<rparr>"

definition count_val :: "'a list \<Rightarrow> json" where
  "count_val xs = JInt (int (length xs))"

end
