(* ===== verification/Alerts.thy ===== *)
theory Alerts
  imports ClusterState
begin

text \<open>
  \<open>AlertManager\<close> of src/src/gpuopt/s23_features.py: alert rules over the latest state of a cluster,
  the alerts they raise, their acknowledgement and resolution, and the notification channels. The
  manager keeps its rules, alerts, channels and messages in memory. The latest cluster state (a
  query of the repository), the random draws of the simulated conditions, fresh identifiers, the
  clock and what a notification service answers are arguments. Values set by \<open>update_rule\<close> and
  \<open>update_channel\<close> have the declared types.
\<close>

subsection \<open>The data\<close>

datatype alert_severity = AL_INFO | AL_WARNING | AL_CRITICAL

fun severity_upper :: "alert_severity \<Rightarrow> string" where
  "severity_upper AL_INFO = ''INFO''"
| "severity_upper AL_WARNING = ''WARNING''"
| "severity_upper AL_CRITICAL = ''CRITICAL''"

datatype alert_condition =
    GPU_UTILIZATION | MEMORY_UTILIZATION | GPU_TEMPERATURE | IDLE_GPU | COST_ANOMALY
  | DRIFT_DETECTED | POWER_EFFICIENCY | JOB_FAILURE | BUDGET_ALERT

fun alert_condition_value :: "alert_condition \<Rightarrow> string" where
  "alert_condition_value GPU_UTILIZATION = ''gpu_utilization''"
| "alert_condition_value MEMORY_UTILIZATION = ''memory_utilization''"
| "alert_condition_value GPU_TEMPERATURE = ''gpu_temperature''"
| "alert_condition_value IDLE_GPU = ''idle_gpu''"
| "alert_condition_value COST_ANOMALY = ''cost_anomaly''"
| "alert_condition_value DRIFT_DETECTED = ''drift_detected''"
| "alert_condition_value POWER_EFFICIENCY = ''power_efficiency''"
| "alert_condition_value JOB_FAILURE = ''job_failure''"
| "alert_condition_value BUDGET_ALERT = ''budget_alert''"

record alert_rule =
  lr_id :: uuid
  lr_name :: string
  lr_description :: string
  lr_cluster_id :: uuid
  lr_condition_type :: alert_condition
  lr_operator :: string
  lr_threshold :: rat
  lr_severity :: alert_severity
  lr_enabled :: bool
  lr_cooldown_minutes :: int
  lr_channel_ids :: "string list"
  lr_created_at :: datetime
  lr_updated_at :: datetime

record alert =
  al_id :: uuid
  al_rule_id :: uuid
  al_cluster_id :: uuid
  al_cluster_name :: string
  al_severity :: alert_severity
  al_condition_type :: alert_condition
  al_current_value :: rat
  al_threshold :: rat
  al_message :: "piece list"
  al_status :: string
  al_triggered_at :: datetime
  al_resolved_at :: "datetime option"
  al_acknowledged_by :: string

record rule_evaluation =
  re_rule_id :: uuid
  re_rule_name :: string
  re_passed :: bool
  re_current_value :: rat
  re_threshold :: rat
  re_message :: "piece list"

datatype channel_type = SLACK | EMAIL | WEBHOOK | PAGERDUTY | OPSGENIE

record channel =
  ch_id :: uuid
  ch_name :: string
  ch_channel_type :: channel_type
  ch_config :: "(string, json) dict"
  ch_enabled :: bool
  ch_created_at :: datetime

record message =
  nm_id :: uuid
  nm_channel_id :: uuid
  nm_channel_name :: string
  nm_subject :: "piece list"
  nm_body :: "piece list"
  nm_status :: string
  nm_sent_at :: "datetime option"
  nm_error_message :: string

record alert_manager =
  am_rules :: "(uuid, alert_rule) dict"
  am_alerts :: "(uuid, alert) dict"
  am_channels :: "(uuid, channel) dict"
  am_messages :: "(uuid, message) dict"

definition new_manager :: alert_manager where
  "new_manager = \<lparr>am_rules = [], am_alerts = [], am_channels = [], am_messages = []\<rparr>"

subsection \<open>Rules and channels\<close>

definition al_create_rule :: "uuid \<Rightarrow> alert_rule \<Rightarrow> alert_manager \<Rightarrow> alert_manager \<times> alert_rule" where
  "al_create_rule i r m =
     (let r' = r\<lparr>lr_id := i\<rparr> in (m\<lparr>am_rules := dict_set i r' (am_rules m)\<rparr>, r'))"

definition al_get_rule :: "uuid \<Rightarrow> alert_manager \<Rightarrow> alert_rule option" where
  "al_get_rule i m = dict_get (am_rules m) i"

datatype alert_rule_update =
    SetAlertRuleId uuid
  | SetAlertRuleName string
  | SetAlertRuleDescription string
  | SetAlertRuleCluster uuid
  | SetAlertRuleCondition alert_condition
  | SetAlertRuleOperator string
  | SetAlertRuleThreshold rat
  | SetAlertRuleSeverity alert_severity
  | SetAlertRuleEnabled bool
  | SetAlertRuleCooldown int
  | SetAlertRuleChannels "string list"
  | SetAlertRuleCreatedAt datetime
  | SetAlertRuleUpdatedAt datetime
  | SetAlertRuleOther string

fun apply_alert_rule_update :: "alert_rule_update \<Rightarrow> alert_rule \<Rightarrow> alert_rule" where
  "apply_alert_rule_update (SetAlertRuleId _) r = r"
| "apply_alert_rule_update (SetAlertRuleName v) r = r\<lparr>lr_name := v\<rparr>"
| "apply_alert_rule_update (SetAlertRuleDescription v) r = r\<lparr>lr_description := v\<rparr>"
| "apply_alert_rule_update (SetAlertRuleCluster v) r = r\<lparr>lr_cluster_id := v\<rparr>"
| "apply_alert_rule_update (SetAlertRuleCondition v) r = r\<lparr>lr_condition_type := v\<rparr>"
| "apply_alert_rule_update (SetAlertRuleOperator v) r = r\<lparr>lr_operator := v\<rparr>"
| "apply_alert_rule_update (SetAlertRuleThreshold v) r = r\<lparr>lr_threshold := v\<rparr>"
| "apply_alert_rule_update (SetAlertRuleSeverity v) r = r\<lparr>lr_severity := v\<rparr>"
| "apply_alert_rule_update (SetAlertRuleEnabled v) r = r\<lparr>lr_enabled := v\<rparr>"
| "apply_alert_rule_update (SetAlertRuleCooldown v) r = r\<lparr>lr_cooldown_minutes := v\<rparr>"
| "apply_alert_rule_update (SetAlertRuleChannels v) r = r\<lparr>lr_channel_ids := v\<rparr>"
| "apply_alert_rule_update (SetAlertRuleCreatedAt v) r = r\<lparr>lr_created_at := v\<rparr>"
| "apply_alert_rule_update (SetAlertRuleUpdatedAt v) r = r\<lparr>lr_updated_at := v\<rparr>"
| "apply_alert_rule_update (SetAlertRuleOther _) r = r"

definition al_update_rule ::
  "uuid \<Rightarrow> alert_rule_update list \<Rightarrow> datetime \<Rightarrow> alert_manager \<Rightarrow> alert_manager \<times> alert_rule option" where
  "al_update_rule i us now m =
     (case dict_get (am_rules m) i of
        None \<Rightarrow> (m, None)
      | Some r \<Rightarrow>
          (let r' = (fold apply_alert_rule_update us r)\<lparr>lr_updated_at := now\<rparr>
           in (m\<lparr>am_rules := dict_set i r' (am_rules m)\<rparr>, Some r')))"

definition al_delete_rule :: "uuid \<Rightarrow> alert_manager \<Rightarrow> alert_manager \<times> bool" where
  "al_delete_rule i m =
     (if dict_has (am_rules m) i then (m\<lparr>am_rules := dict_pop i (am_rules m)\<rparr>, True) else (m, False))"

definition al_list_rules :: "uuid option \<Rightarrow> alert_manager \<Rightarrow> alert_rule list" where
  "al_list_rules c m =
     sorted_by_desc lr_created_at
       (case c of None \<Rightarrow> dict_values (am_rules m)
        | Some cid \<Rightarrow> filter (\<lambda>r. lr_cluster_id r = cid) (dict_values (am_rules m)))"

definition create_channel :: "uuid \<Rightarrow> channel \<Rightarrow> alert_manager \<Rightarrow> alert_manager \<times> channel" where
  "create_channel i c m =
     (let c' = c\<lparr>ch_id := i\<rparr> in (m\<lparr>am_channels := dict_set i c' (am_channels m)\<rparr>, c'))"

definition get_channel :: "uuid \<Rightarrow> alert_manager \<Rightarrow> channel option" where
  "get_channel i m = dict_get (am_channels m) i"

datatype channel_update =
    SetChannelId uuid
  | SetChannelName string
  | SetChannelType channel_type
  | SetChannelConfig "(string, json) dict"
  | SetChannelEnabled bool
  | SetChannelCreatedAt datetime
  | SetChannelOther string

fun apply_channel_update :: "channel_update \<Rightarrow> channel \<Rightarrow> channel" where
  "apply_channel_update (SetChannelId _) c = c"
| "apply_channel_update (SetChannelName v) c = c\<lparr>ch_name := v\<rparr>"
| "apply_channel_update (SetChannelType v) c = c\<lparr>ch_channel_type := v\<rparr>"
| "apply_channel_update (SetChannelConfig v) c = c\<lparr>ch_config := v\<rparr>"
| "apply_channel_update (SetChannelEnabled v) c = c\<lparr>ch_enabled := v\<rparr>"
| "apply_channel_update (SetChannelCreatedAt v) c = c\<lparr>ch_created_at := v\<rparr>"
| "apply_channel_update (SetChannelOther _) c = c"

definition update_channel :: "uuid \<Rightarrow> channel_update list \<Rightarrow> alert_manager \<Rightarrow> alert_manager \<times> channel option" where
  "update_channel i us m =
     (case dict_get (am_channels m) i of
        None \<Rightarrow> (m, None)
      | Some c \<Rightarrow>
          (let c' = fold apply_channel_update us c
           in (m\<lparr>am_channels := dict_set i c' (am_channels m)\<rparr>, Some c')))"

definition delete_channel :: "uuid \<Rightarrow> alert_manager \<Rightarrow> alert_manager \<times> bool" where
  "delete_channel i m =
     (if dict_has (am_channels m) i then (m\<lparr>am_channels := dict_pop i (am_channels m)\<rparr>, True) else (m, False))"

definition list_channels :: "alert_manager \<Rightarrow> channel list" where
  "list_channels m = sorted_by ch_name (dict_values (am_channels m))"

subsection \<open>Conditions\<close>

definition compare_value :: "rat \<Rightarrow> rat \<Rightarrow> string \<Rightarrow> bool" where
  "compare_value v threshold oper =
     (if oper = ''lt'' then v < threshold
      else if oper = ''gt'' then threshold < v
      else if oper = ''lte'' then v \<le> threshold
      else if oper = ''gte'' then threshold \<le> v
      else if oper = ''eq'' then \<bar>v - threshold\<bar> < 1 / 1000
      else True)"

definition telemetry_gpus :: "cluster_state option \<Rightarrow> gpu_telemetry list" where
  "telemetry_gpus st =
     (case st of None \<Rightarrow> [] | Some s \<Rightarrow> (case cs_telemetry s of None \<Rightarrow> [] | Some ct \<Rightarrow> concat (map nt_gpu_devices (ct_nodes ct))))"

definition mean :: "rat list \<Rightarrow> rat" where
  "mean xs = (if xs = [] then 0 else sum_list xs / of_nat (length xs))"

definition max_of :: "rat list \<Rightarrow> rat" where
  "max_of xs = (case xs of [] \<Rightarrow> 0 | y # ys \<Rightarrow> max_by (\<lambda>v. v) y ys)"

definition memory_percents :: "cluster_state option \<Rightarrow> rat list" where
  "memory_percents st =
     (case st of None \<Rightarrow> []
      | Some s \<Rightarrow>
          map (\<lambda>g. of_int (gs_memory_used_bytes g) / of_int (max (gs_memory_total_bytes g) 1) * 100)
            (filter (\<lambda>g. 0 < gs_memory_total_bytes g) (concat (map ns_gpu_devices (cs_nodes s)))))"

definition idle_percent :: "gpu_telemetry list \<Rightarrow> rat" where
  "idle_percent gs =
     (if gs = [] then 0
      else of_nat (length (filter (\<lambda>g. gt_utilization_gpu_percent g < 5) gs)) / of_nat (length gs) * 100)"

text \<open>
  The value a condition measures; \<open>draw\<close> is the number \<open>random.uniform\<close> returns for the four
  conditions that are only simulated.
\<close>

definition measured :: "rat \<Rightarrow> alert_rule \<Rightarrow> cluster_state option \<Rightarrow> repo \<Rightarrow> rat" where
  "measured draw r st s =
     (case lr_condition_type r of
        GPU_UTILIZATION \<Rightarrow> mean (map gt_utilization_gpu_percent (telemetry_gpus st))
      | MEMORY_UTILIZATION \<Rightarrow> mean (memory_percents st)
      | IDLE_GPU \<Rightarrow> idle_percent (telemetry_gpus st)
      | GPU_TEMPERATURE \<Rightarrow> max_of (map gt_temperature_gpu_celsius (telemetry_gpus st))
      | COST_ANOMALY \<Rightarrow> draw
      | DRIFT_DETECTED \<Rightarrow>
          (case get_twin (lr_cluster_id r) s of None \<Rightarrow> 0 | Some tw \<Rightarrow> if tw_has_diverged tw then 1 else 0)
      | POWER_EFFICIENCY \<Rightarrow> draw
      | JOB_FAILURE \<Rightarrow> draw
      | BUDGET_ALERT \<Rightarrow> draw)"

definition verdict :: "bool \<Rightarrow> string" where
  "verdict passed = (if passed then ''passed'' else ''FAILED'')"

definition threshold_text :: "string \<Rightarrow> string \<Rightarrow> rat \<Rightarrow> bool \<Rightarrow> alert_rule \<Rightarrow> string \<Rightarrow> piece list" where
  "threshold_text intro spec v passed r unit =
     [Txt intro, Fmt spec (JFloat v), Txt (unit @ '' ('' @ verdict passed @ '', threshold '' @ lr_operator r @ '' ''),
      Val (JFloat (lr_threshold r)), Txt (unit @ '')'')]"

definition condition_message :: "rat \<Rightarrow> bool \<Rightarrow> alert_rule \<Rightarrow> piece list" where
  "condition_message v passed r =
     (case lr_condition_type r of
        GPU_UTILIZATION \<Rightarrow> threshold_text ''GPU utilization '' ''.1f'' v passed r ''%''
      | MEMORY_UTILIZATION \<Rightarrow> threshold_text ''Memory utilization '' ''.1f'' v passed r ''%''
      | IDLE_GPU \<Rightarrow> threshold_text ''Idle GPU ratio '' ''.1f'' v passed r ''%''
      | GPU_TEMPERATURE \<Rightarrow> threshold_text ''Max GPU temperature '' ''.0f'' v passed r ''C''
      | COST_ANOMALY \<Rightarrow> threshold_text ''Cost anomaly score '' ''.1f'' v passed r []
      | DRIFT_DETECTED \<Rightarrow>
          [Txt ''Drift detected: '', Val (JBool (v \<noteq> 0)), Txt ('' ('' @ verdict passed @ '')'')]
      | POWER_EFFICIENCY \<Rightarrow> threshold_text ''Power efficiency '' ''.2f'' v passed r []
      | JOB_FAILURE \<Rightarrow> threshold_text ''Recent job failures: '' ''.0f'' v passed r []
      | BUDGET_ALERT \<Rightarrow> threshold_text ''Budget utilization '' ''.1f'' v passed r ''%'')"

definition rule_passes :: "rat \<Rightarrow> alert_rule \<Rightarrow> cluster_state option \<Rightarrow> repo \<Rightarrow> bool" where
  "rule_passes draw r st s = compare_value (measured draw r st s) (lr_threshold r) (lr_operator r)"

definition evaluate_condition ::
  "rat \<Rightarrow> alert_rule \<Rightarrow> cluster_state option \<Rightarrow> repo \<Rightarrow> rat \<times> bool \<times> piece list" where
  "evaluate_condition draw r st s =
     (let v = measured draw r st s; passed = rule_passes draw r st s
      in (py_round 2 v, passed, condition_message v passed r))"

subsection \<open>Alerts\<close>

text \<open>
  What the evaluation of one rule draws: the random value, the alert's identifier and time, and for
  each of the rule's channels the message's identifier, the service's answer (\<open>Inl\<close> when it raises,
  otherwise the success flag and the error) and the time of sending.
\<close>

record rule_env =
  ne_draw :: rat
  ne_alert_id :: uuid
  ne_triggered_at :: datetime
  ne_message_id :: "nat \<Rightarrow> uuid"
  ne_answer :: "channel \<Rightarrow> piece list \<Rightarrow> piece list \<Rightarrow> py_error + bool \<times> string"
  ne_sent_at :: "nat \<Rightarrow> datetime"

definition sent_message :: "py_error + bool \<times> string \<Rightarrow> message \<Rightarrow> message" where
  "sent_message answer msg =
     (case answer of
        Inl err \<Rightarrow> msg\<lparr>nm_status := ''failed'', nm_error_message := error_text err\<rparr>
      | Inr (ok, err) \<Rightarrow>
          (if ok then msg\<lparr>nm_status := ''sent''\<rparr> else msg\<lparr>nm_status := ''failed'', nm_error_message := err\<rparr>))"

definition notify_channel :: "rule_env \<Rightarrow> alert \<Rightarrow> nat \<times> string \<Rightarrow> alert_manager \<Rightarrow> alert_manager" where
  "notify_channel e a nc m =
     (case dict_get (am_channels m) (snd nc) of
        None \<Rightarrow> m
      | Some c \<Rightarrow>
          (if ch_enabled c then
             (let msg = \<lparr>nm_id = ne_message_id e (fst nc), nm_channel_id = ch_id c, nm_channel_name = ch_name c,
                         nm_subject = Txt (''['' @ severity_upper (al_severity a) @ ''] '') # al_message a,
                         nm_body = al_message a, nm_status = ''pending'', nm_sent_at = None, nm_error_message = []\<rparr>;
                  msg' = (sent_message (ne_answer e c (nm_subject msg) (nm_body msg)) msg)
                           \<lparr>nm_sent_at := Some (ne_sent_at e (fst nc))\<rparr>
              in m\<lparr>am_messages := dict_set (nm_id msg') msg' (am_messages m)\<rparr>)
           else m))"

definition al_send_notification :: "rule_env \<Rightarrow> alert_rule \<Rightarrow> alert \<Rightarrow> alert_manager \<Rightarrow> alert_manager" where
  "al_send_notification e r a m = fold (notify_channel e a) (zip [0..<length (lr_channel_ids r)] (lr_channel_ids r)) m"

definition firing_for :: "uuid \<Rightarrow> alert \<Rightarrow> bool" where
  "firing_for i a \<longleftrightarrow> al_rule_id a = i \<and> al_status a = ''firing''"

definition evaluate_one ::
  "(uuid \<Rightarrow> rule_env) \<Rightarrow> cluster \<Rightarrow> cluster_state option \<Rightarrow> repo \<Rightarrow> alert_rule
    \<Rightarrow> alert_manager \<times> rule_evaluation list \<Rightarrow> alert_manager \<times> rule_evaluation list" where
  "evaluate_one env c st s r me =
     (let (m, evs) = me in
      if \<not> lr_enabled r then (m, evs)
      else
        (let e = env (lr_id r);
             (v, passed, msg) = evaluate_condition (ne_draw e) r st s;
             evs' = evs @ [\<lparr>re_rule_id = lr_id r, re_rule_name = lr_name r, re_passed = passed,
                           re_current_value = v, re_threshold = lr_threshold r, re_message = msg\<rparr>]
         in if passed \<or> filter (firing_for (lr_id r)) (dict_values (am_alerts m)) \<noteq> [] then (m, evs')
            else
              (let a = \<lparr>al_id = ne_alert_id e, al_rule_id = lr_id r, al_cluster_id = cl_id c,
                        al_cluster_name = cl_name c, al_severity = lr_severity r,
                        al_condition_type = lr_condition_type r, al_current_value = v,
                        al_threshold = lr_threshold r, al_message = msg, al_status = ''firing'',
                        al_triggered_at = ne_triggered_at e, al_resolved_at = None, al_acknowledged_by = []\<rparr>
               in (al_send_notification e r a (m\<lparr>am_alerts := dict_set (al_id a) a (am_alerts m)\<rparr>), evs'))))"

definition evaluate_rules ::
  "(uuid \<Rightarrow> rule_env) \<Rightarrow> uuid \<Rightarrow> cluster_state option \<Rightarrow> repo \<Rightarrow> alert_manager
    \<Rightarrow> alert_manager \<times> rule_evaluation list" where
  "evaluate_rules env cid st s m =
     (case get_cluster cid s of
        None \<Rightarrow> (m, [])
      | Some c \<Rightarrow> fold (evaluate_one env c st s) (al_list_rules (Some cid) m) (m, []))"

definition list_alerts :: "uuid option \<Rightarrow> string \<Rightarrow> alert_manager \<Rightarrow> alert list" where
  "list_alerts c status m =
     sorted_by_desc al_triggered_at
       (filter (\<lambda>a. (c = None \<or> c = Some (al_cluster_id a)) \<and> (status = [] \<or> al_status a = status))
          (dict_values (am_alerts m)))"

definition acknowledge_alert :: "uuid \<Rightarrow> string \<Rightarrow> alert_manager \<Rightarrow> alert_manager \<times> alert option" where
  "acknowledge_alert i user m =
     (case dict_get (am_alerts m) i of
        None \<Rightarrow> (m, None)
      | Some a \<Rightarrow>
          (let a' = a\<lparr>al_status := ''acknowledged'', al_acknowledged_by := user\<rparr>
           in (m\<lparr>am_alerts := dict_set i a' (am_alerts m)\<rparr>, Some a')))"

definition resolve_alert :: "uuid \<Rightarrow> datetime \<Rightarrow> alert_manager \<Rightarrow> alert_manager \<times> alert option" where
  "resolve_alert i now m =
     (case dict_get (am_alerts m) i of
        None \<Rightarrow> (m, None)
      | Some a \<Rightarrow>
          (let a' = a\<lparr>al_status := ''resolved'', al_resolved_at := Some now\<rparr>
           in (m\<lparr>am_alerts := dict_set i a' (am_alerts m)\<rparr>, Some a')))"

definition send_test_message :: "rule_env \<Rightarrow> uuid \<Rightarrow> alert_manager \<Rightarrow> py_error + alert_manager \<times> message" where
  "send_test_message e i m =
     (case dict_get (am_channels m) i of
        None \<Rightarrow> Inl (KeyError (''Channel not found: '' @ i))
      | Some c \<Rightarrow>
          (let msg = \<lparr>nm_id = ne_message_id e 0, nm_channel_id = ch_id c, nm_channel_name = ch_name c,
                      nm_subject = [Txt ''Test notification from GPUOpt''],
                      nm_body = [Txt ''This is a test message to verify your notification channel is configured correctly.''],
                      nm_status = ''pending'', nm_sent_at = None, nm_error_message = []\<rparr>;
               msg' = (sent_message (ne_answer e c (nm_subject msg) (nm_body msg)) msg)
                        \<lparr>nm_sent_at := Some (ne_sent_at e 0)\<rparr>
           in Inr (m\<lparr>am_messages := dict_set (nm_id msg') msg' (am_messages m)\<rparr>, msg')))"

text \<open>\<open>datetime.min\<close> is the first of January of year one.\<close>

definition datetime_min :: datetime where
  "datetime_min = - 62135596800000000"

definition list_messages :: "uuid option \<Rightarrow> alert_manager \<Rightarrow> message list" where
  "list_messages c m =
     sorted_by_desc (\<lambda>x. case nm_sent_at x of None \<Rightarrow> datetime_min | Some t \<Rightarrow> t)
       (filter (\<lambda>x. c = None \<or> c = Some (nm_channel_id x)) (dict_values (am_messages m)))"

subsection \<open>The manager as a machine\<close>

datatype alert_op =
    AoCreateRule uuid alert_rule
  | AoUpdateRule uuid "alert_rule_update list" datetime
  | AoDeleteRule uuid
  | AoEvaluate "uuid \<Rightarrow> rule_env" uuid "cluster_state option" repo
  | AoAcknowledge uuid string
  | AoResolve uuid datetime
  | AoCreateChannel uuid channel
  | AoUpdateChannel uuid "channel_update list"
  | AoDeleteChannel uuid
  | AoTestMessage rule_env uuid

fun alert_step :: "alert_op \<Rightarrow> alert_manager \<Rightarrow> alert_manager" where
  "alert_step (AoCreateRule i r) m = fst (al_create_rule i r m)"
| "alert_step (AoUpdateRule i us now) m = fst (al_update_rule i us now m)"
| "alert_step (AoDeleteRule i) m = fst (al_delete_rule i m)"
| "alert_step (AoEvaluate env cid st s) m = fst (evaluate_rules env cid st s m)"
| "alert_step (AoAcknowledge i user) m = fst (acknowledge_alert i user m)"
| "alert_step (AoResolve i now) m = fst (resolve_alert i now m)"
| "alert_step (AoCreateChannel i c) m = fst (create_channel i c m)"
| "alert_step (AoUpdateChannel i us) m = fst (update_channel i us m)"
| "alert_step (AoDeleteChannel i) m = fst (delete_channel i m)"
| "alert_step (AoTestMessage e i) m = (case send_test_message e i m of Inl err \<Rightarrow> m | Inr (m', msg) \<Rightarrow> m')"

definition fires :: "uuid \<Rightarrow> (uuid, alert) dict \<Rightarrow> bool" where
  "fires i d \<longleftrightarrow> (\<exists>k a. dict_get d k = Some a \<and> firing_for i a)"

definition alerts_inv :: "alert_manager \<Rightarrow> bool" where
  "alerts_inv m \<longleftrightarrow> dict_ok (am_rules m) \<and> dict_ok (am_alerts m)
     \<and> (\<forall>i r. dict_get (am_rules m) i = Some r \<longrightarrow> lr_id r = i)
     \<and> (\<forall>i j k a b. dict_get (am_alerts m) i = Some a \<and> dict_get (am_alerts m) j = Some b
          \<and> firing_for k a \<and> firing_for k b \<longrightarrow> i = j)"

lemma fires_filter: "dict_ok d \<Longrightarrow> filter (firing_for i) (dict_values d) = [] \<longleftrightarrow> \<not> fires i d"
  by (auto simp: filter_empty_conv dict_values_mem fires_def)

lemma notify_frame:
  "am_alerts (notify_channel e a nc m) = am_alerts m"
  "am_rules (notify_channel e a nc m) = am_rules m"
  "am_channels (notify_channel e a nc m) = am_channels m"
  by (simp_all add: notify_channel_def Let_def split: option.split)

lemma notify_fold_frame:
  "am_alerts (fold (notify_channel e a) xs m) = am_alerts m"
  "am_rules (fold (notify_channel e a) xs m) = am_rules m"
  "am_channels (fold (notify_channel e a) xs m) = am_channels m"
  by (induction xs arbitrary: m) (simp_all add: notify_frame)

lemma send_frame:
  "am_alerts (al_send_notification e r a m) = am_alerts m"
  "am_rules (al_send_notification e r a m) = am_rules m"
  "am_channels (al_send_notification e r a m) = am_channels m"
  by (simp_all add: al_send_notification_def notify_fold_frame)

text \<open>What the evaluation of one rule does: nothing, or one new firing alert of the rule.\<close>

lemma evaluate_one_cases:
  assumes "evaluate_one env c st s r (m, evs) = (m', evs')" and "dict_ok (am_alerts m)"
  shows "am_rules m' = am_rules m \<and> am_channels m' = am_channels m
    \<and> map re_rule_id evs' = map re_rule_id evs @ (if lr_enabled r then [lr_id r] else [])
    \<and> (if lr_enabled r \<and> \<not> rule_passes (ne_draw (env (lr_id r))) r st s \<and> \<not> fires (lr_id r) (am_alerts m)
       then \<exists>a. am_alerts m' = dict_set (ne_alert_id (env (lr_id r))) a (am_alerts m)
              \<and> firing_for (lr_id r) a \<and> al_cluster_id a = cl_id c
       else am_alerts m' = am_alerts m)"
  using assms fires_filter [OF assms(2), of "lr_id r"]
  by (auto simp: evaluate_one_def evaluate_condition_def Let_def send_frame firing_for_def split: if_splits)

lemma alerts_inv_new:
  assumes "alerts_inv m" and "\<not> fires i (am_alerts m)" and "firing_for i a"
    and "am_rules m' = am_rules m" and "am_alerts m' = dict_set k a (am_alerts m)"
  shows "alerts_inv m'"
proof -
  have "j = i" if "firing_for j a" for j using that assms(3) by (simp add: firing_for_def)
  moreover have "dict_get (am_alerts m) l = Some b \<Longrightarrow> \<not> firing_for i b" for l b
    using assms(2) by (auto simp: fires_def)
  ultimately show ?thesis
    using assms(1,4,5) unfolding alerts_inv_def by (auto split: if_splits)
qed

lemma evaluate_one_inv:
  assumes "alerts_inv m"
  shows "alerts_inv (fst (evaluate_one env c st s r (m, evs)))"
proof -
  obtain m' evs' where x: "evaluate_one env c st s r (m, evs) = (m', evs')" by fastforce
  have ok: "dict_ok (am_alerts m)" using assms by (simp add: alerts_inv_def)
  note f = evaluate_one_cases [OF x ok]
  show ?thesis
  proof (cases "am_alerts m' = am_alerts m")
    case True
    then show ?thesis using assms f x by (simp add: alerts_inv_def)
  next
    case False
    then obtain a where "am_alerts m' = dict_set (ne_alert_id (env (lr_id r))) a (am_alerts m)"
      and "firing_for (lr_id r) a" and "\<not> fires (lr_id r) (am_alerts m)"
      using f by (auto split: if_splits)
    then show ?thesis using alerts_inv_new [OF assms] f x by auto
  qed
qed

lemma evaluate_fold_inv: "alerts_inv m \<Longrightarrow> alerts_inv (fst (fold (evaluate_one env c st s) rs (m, evs)))"
proof (induction rs arbitrary: m evs)
  case (Cons r rs)
  then show ?case
    using evaluate_one_inv [OF Cons.prems, of env c st s r evs]
    by (cases "evaluate_one env c st s r (m, evs)") simp
qed simp

text \<open>An alert that stops firing, and a rule stored under its identifier, keep the invariant.\<close>

lemma alerts_inv_quiet:
  assumes "alerts_inv m" and "al_status a \<noteq> ''firing''"
  shows "alerts_inv (m\<lparr>am_alerts := dict_set i a (am_alerts m)\<rparr>)"
proof -
  have "\<not> firing_for k a" for k using assms(2) by (simp add: firing_for_def)
  then show ?thesis using assms(1) unfolding alerts_inv_def by (simp split: if_splits)
qed

lemma alerts_inv_rule: "alerts_inv m \<Longrightarrow> lr_id r = i \<Longrightarrow> alerts_inv (m\<lparr>am_rules := dict_set i r (am_rules m)\<rparr>)"
  by (auto simp: alerts_inv_def)

lemma alert_rule_updates_id [simp]: "lr_id (fold apply_alert_rule_update us r) = lr_id r"
proof (induction us arbitrary: r)
  case (Cons u us)
  have "lr_id (apply_alert_rule_update u r) = lr_id r" by (cases u) simp_all
  with Cons show ?case by simp
qed simp

lemma update_alert_rule_inv:
  assumes "alerts_inv m"
  shows "alerts_inv (fst (al_update_rule i us now m))"
proof (cases "dict_get (am_rules m) i")
  case None
  then show ?thesis using assms by (simp add: al_update_rule_def)
next
  case (Some r)
  then have "lr_id r = i" using assms by (simp add: alerts_inv_def)
  then show ?thesis using Some by (simp add: al_update_rule_def Let_def alerts_inv_rule [OF assms])
qed

lemma alerts_inv_frame:
  "alerts_inv (m\<lparr>am_channels := cs\<rparr>) = alerts_inv m"
  "alerts_inv (m\<lparr>am_messages := ms\<rparr>) = alerts_inv m"
  by (simp_all add: alerts_inv_def)

lemma delete_alert_rule_inv: "alerts_inv m \<Longrightarrow> alerts_inv (fst (al_delete_rule i m))"
  by (auto simp: al_delete_rule_def alerts_inv_def split: if_splits)

interpretation alert_machine: invariant_machine alert_step "\<lambda>_ _. True" alerts_inv
proof
  fix m x assume inv: "alerts_inv m"
  show "alerts_inv (alert_step x m)"
  proof (cases x)
    case (AoCreateRule i r)
    then show ?thesis by (simp add: al_create_rule_def Let_def alerts_inv_rule [OF inv])
  next
    case (AoEvaluate env cid st s)
    then show ?thesis
      using inv evaluate_fold_inv [OF inv] by (simp add: evaluate_rules_def split: option.split)
  next
    case (AoAcknowledge i user)
    then show ?thesis
      using inv alerts_inv_quiet [OF inv] by (simp add: acknowledge_alert_def Let_def split: option.split)
  next
    case (AoResolve i now)
    then show ?thesis
      using inv alerts_inv_quiet [OF inv] by (simp add: resolve_alert_def Let_def split: option.split)
  qed (use inv in \<open>simp_all add: update_alert_rule_inv delete_alert_rule_inv alerts_inv_frame create_channel_def
        update_channel_def delete_channel_def send_test_message_def Let_def split: option.split sum.split\<close>)
qed

subsection \<open>One firing alert per rule\<close>

lemma at_most_one:
  assumes "dict_ok d" and "\<forall>i j a b. dict_get d i = Some a \<and> dict_get d j = Some b \<and> Q a \<and> Q b \<longrightarrow> i = j"
  shows "length (filter Q (dict_values d)) \<le> 1"
  using assms
proof (induction d)
  case (Cons kv d)
  obtain k v where kv: "kv = (k, v)" by (cases kv)
  have fresh: "dict_get d k = None" and ok: "dict_ok d"
    using Cons.prems(1) kv by (auto simp: dict_ok_def map_of_eq_None_iff)
  have later: "i \<noteq> k" if "dict_get d i = Some a" for i a using that fresh by auto
  have IH: "length (filter Q (dict_values d)) \<le> 1"
  proof (rule Cons.IH [OF ok], intro allI impI)
    fix i j a b
    assume A: "dict_get d i = Some a \<and> dict_get d j = Some b \<and> Q a \<and> Q b"
    then have "dict_get (kv # d) i = Some a" "dict_get (kv # d) j = Some b" using kv later by auto
    then show "i = j" using Cons.prems(2) A by blast
  qed
  show ?case
  proof (cases "Q v")
    case True
    have "filter Q (dict_values d) = []"
    proof (rule ccontr)
      assume "filter Q (dict_values d) \<noteq> []"
      then obtain w where "w \<in> set (dict_values d)" "Q w" by (auto simp: filter_empty_conv)
      then obtain i where i: "dict_get d i = Some w" using ok by (auto simp: dict_values_mem)
      then have "dict_get (kv # d) i = Some w" "dict_get (kv # d) k = Some v" using kv later by auto
      then have "i = k" using Cons.prems(2) \<open>Q w\<close> True by blast
      then show False using later [OF i] by simp
    qed
    then show ?thesis using kv by (simp add: dict_values_def)
  next
    case False
    then show ?thesis using IH kv by (simp add: dict_values_def)
  qed
qed (simp add: dict_values_def)

lemma filter_sorted_by_desc: "filter P (sorted_by_desc f xs) = sorted_by_desc f (filter P xs)"
  by (simp add: sorted_by_desc_def rev_filter [symmetric] filter_sort)

lemma listed_firing: "set (list_alerts None ''firing'' m) = {a \<in> set (dict_values (am_alerts m)). al_status a = ''firing''}"
  by (auto simp: list_alerts_def)

text \<open>
  The alert list never shows a rule twice: after any run of the manager's operations, whatever
  rules are created, edited and deleted, states evaluated and alerts acknowledged or resolved, at
  most one of the firing alerts belongs to a given rule.
\<close>

theorem one_firing_alert:
  "length (filter (\<lambda>a. al_rule_id a = i) (list_alerts None ''firing'' (fold alert_step ops new_manager))) \<le> 1"
proof -
  let ?m = "fold alert_step ops new_manager"
  have run: "run_allowed alert_step (\<lambda>_ _. True) ops m" for m by (induction ops arbitrary: m) auto
  have "alerts_inv new_manager" by (simp add: alerts_inv_def new_manager_def)
  from alert_machine.run_inv [OF run this] have inv: "alerts_inv ?m" .
  have "length (filter (firing_for i) (dict_values (am_alerts ?m))) \<le> 1"
    using inv unfolding alerts_inv_def by (intro at_most_one) blast+
  then show ?thesis
    by (simp add: list_alerts_def filter_sorted_by_desc firing_for_def [abs_def] conj_commute)
qed

subsection \<open>What an evaluation raises\<close>

lemma fires_new:
  assumes "dict_get d k = None"
  shows "fires i (dict_set k a d) \<longleftrightarrow> fires i d \<or> firing_for i a"
proof
  assume "fires i (dict_set k a d)"
  then show "fires i d \<or> firing_for i a" by (auto simp: fires_def split: if_splits)
next
  assume R: "fires i d \<or> firing_for i a"
  show "fires i (dict_set k a d)"
  proof (cases "firing_for i a")
    case True
    then have "dict_get (dict_set k a d) k = Some a \<and> firing_for i a" by simp
    then show ?thesis unfolding fires_def by blast
  next
    case False
    with R obtain l b where b: "dict_get d l = Some b" "firing_for i b" by (auto simp: fires_def)
    then have "dict_get (dict_set k a d) l = Some b" using assms by auto
    then show ?thesis using b unfolding fires_def by blast
  qed
qed

lemma evaluate_fold:
  assumes "fold (evaluate_one env c st s) rs (m, evs) = (m', evs')" and "dict_ok (am_alerts m)"
    and "distinct (map (\<lambda>r. ne_alert_id (env (lr_id r))) rs)"
    and "\<forall>r \<in> set rs. dict_get (am_alerts m) (ne_alert_id (env (lr_id r))) = None"
  shows "map re_rule_id evs' = map re_rule_id evs @ map lr_id (filter lr_enabled rs)
    \<and> am_rules m' = am_rules m \<and> dict_ok (am_alerts m')
    \<and> (\<forall>k a. dict_get (am_alerts m) k = Some a \<longrightarrow> dict_get (am_alerts m') k = Some a)
    \<and> (\<forall>i. fires i (am_alerts m') \<longleftrightarrow> fires i (am_alerts m)
         \<or> (\<exists>r \<in> set rs. lr_id r = i \<and> lr_enabled r \<and> \<not> rule_passes (ne_draw (env i)) r st s))"
  using assms
proof (induction rs arbitrary: m evs)
  case Nil
  then show ?case by simp
next
  case (Cons r rs)
  obtain m1 evs1 where x: "evaluate_one env c st s r (m, evs) = (m1, evs1)" by fastforce
  note f = evaluate_one_cases [OF x Cons.prems(2)]
  let ?k = "ne_alert_id (env (lr_id r))"
  have alerts: "am_alerts m1 = am_alerts m \<or> (\<exists>a. am_alerts m1 = dict_set ?k a (am_alerts m) \<and> firing_for (lr_id r) a)"
    using f by (auto split: if_splits)
  have new: "dict_get (am_alerts m) ?k = None" using Cons.prems(4) by simp
  have other: "dict_set ?k a (am_alerts m) \<noteq> am_alerts m" for a
    using new by (metis dict_get_set fun_upd_same option.discI)
  have ok1: "dict_ok (am_alerts m1)" using alerts Cons.prems(2) by auto
  have keep: "dict_get (am_alerts m) k = Some a \<Longrightarrow> dict_get (am_alerts m1) k = Some a" for k a
    using alerts new by auto
  have fires1: "fires i (am_alerts m1) \<longleftrightarrow> fires i (am_alerts m)
      \<or> lr_id r = i \<and> lr_enabled r \<and> \<not> rule_passes (ne_draw (env i)) r st s" for i
  proof (cases "am_alerts m1 = am_alerts m")
    case True
    then show ?thesis using f other by (metis (full_types))
  next
    case False
    then obtain a where a: "am_alerts m1 = dict_set ?k a (am_alerts m)" "firing_for (lr_id r) a"
      and "lr_enabled r" "\<not> rule_passes (ne_draw (env (lr_id r))) r st s"
      using f by (auto split: if_splits)
    moreover have "fires i (am_alerts m1) \<longleftrightarrow> fires i (am_alerts m) \<or> firing_for i a"
      using fires_new [OF new] a(1) by simp
    moreover have "firing_for i a \<longleftrightarrow> lr_id r = i" using a(2) by (auto simp: firing_for_def)
    ultimately show ?thesis by auto
  qed
  have "dict_get (am_alerts m1) (ne_alert_id (env (lr_id r'))) = None" if "r' \<in> set rs" for r'
  proof -
    have "ne_alert_id (env (lr_id r')) \<in> (\<lambda>q. ne_alert_id (env (lr_id q))) ` set rs" using that by simp
    then have "ne_alert_id (env (lr_id r')) \<noteq> ?k" using Cons.prems(3) by auto
    then show ?thesis using alerts Cons.prems(4) that by auto
  qed
  then have "map re_rule_id evs' = map re_rule_id evs1 @ map lr_id (filter lr_enabled rs)
    \<and> am_rules m' = am_rules m1 \<and> dict_ok (am_alerts m')
    \<and> (\<forall>k a. dict_get (am_alerts m1) k = Some a \<longrightarrow> dict_get (am_alerts m') k = Some a)
    \<and> (\<forall>i. fires i (am_alerts m') \<longleftrightarrow> fires i (am_alerts m1)
         \<or> (\<exists>r \<in> set rs. lr_id r = i \<and> lr_enabled r \<and> \<not> rule_passes (ne_draw (env i)) r st s))"
    using Cons.prems x by (intro Cons.IH) (simp_all add: ok1)
  then show ?case using f keep fires1 by auto
qed

lemma fires_listed: "dict_ok (am_alerts m) \<Longrightarrow> fires i (am_alerts m) \<longleftrightarrow> (\<exists>a \<in> set (list_alerts None ''firing'' m). al_rule_id a = i)"
  by (auto simp: listed_firing fires_def firing_for_def dict_values_mem)

text \<open>
  C23: an evaluation covers every rule and raises an alert when the comparison fails: in any state
  reached by the manager, with fresh identifiers for new alerts, evaluating a cluster reports on
  each enabled rule of the cluster once, newest rule first; afterwards an enabled rule of the cluster
  has a firing alert exactly when it had one before or the measured value does not satisfy the
  rule's own comparison; and no alert is changed, so one keeps firing when its rule passes again. A
  rule for a temperature greater than a threshold therefore fires while the temperature is at or
  below it.
\<close>

theorem alert_evaluation:
  assumes reach: "m = fold alert_step ops new_manager" and c: "get_cluster cid s = Some c"
    and e: "evaluate_rules env cid st s m = (m', evs)"
    and fresh: "distinct (map (\<lambda>r. ne_alert_id (env (lr_id r))) (al_list_rules (Some cid) m))"
      "\<forall>r \<in> set (al_list_rules (Some cid) m). dict_get (am_alerts m) (ne_alert_id (env (lr_id r))) = None"
  shows "map re_rule_id evs = map lr_id (filter lr_enabled (al_list_rules (Some cid) m))
    \<and> (\<forall>i r. al_get_rule i m = Some r \<and> lr_cluster_id r = cid \<and> lr_enabled r \<longrightarrow>
         ((\<exists>a \<in> set (list_alerts None ''firing'' m'). al_rule_id a = i) \<longleftrightarrow>
            (\<exists>a \<in> set (list_alerts None ''firing'' m). al_rule_id a = i)
            \<or> \<not> compare_value (measured (ne_draw (env i)) r st s) (lr_threshold r) (lr_operator r)))
    \<and> set (list_alerts None [] m) \<subseteq> set (list_alerts None [] m')"
proof -
  have run: "run_allowed alert_step (\<lambda>_ _. True) ops m" for m by (induction ops arbitrary: m) auto
  have "alerts_inv new_manager" by (simp add: alerts_inv_def new_manager_def)
  from alert_machine.run_inv [OF run this] have inv: "alerts_inv m" by (simp add: reach)
  then have ok: "dict_ok (am_alerts m)" "dict_ok (am_rules m)" by (simp_all add: alerts_inv_def)
  have "fold (evaluate_one env c st s) (al_list_rules (Some cid) m) (m, []) = (m', evs)"
    using e c by (simp add: evaluate_rules_def)
  note f = evaluate_fold [OF this ok(1) fresh]
  have listed: "r \<in> set (al_list_rules (Some cid) m) \<longleftrightarrow> al_get_rule (lr_id r) m = Some r \<and> lr_cluster_id r = cid" for r
    using inv ok by (auto simp: al_list_rules_def al_get_rule_def dict_values_mem alerts_inv_def)
  have key: "al_get_rule i m = Some r \<Longrightarrow> lr_id r = i" for i r
    using inv by (simp add: alerts_inv_def al_get_rule_def)
  have rules: "(\<exists>a \<in> set (list_alerts None ''firing'' m'). al_rule_id a = i) \<longleftrightarrow>
            (\<exists>a \<in> set (list_alerts None ''firing'' m). al_rule_id a = i)
            \<or> \<not> compare_value (measured (ne_draw (env i)) r st s) (lr_threshold r) (lr_operator r)"
    if "al_get_rule i m = Some r" "lr_cluster_id r = cid" "lr_enabled r" for i r
  proof -
    have "q = r" if "q \<in> set (al_list_rules (Some cid) m)" "lr_id q = i" for q
      using that \<open>al_get_rule i m = Some r\<close> by (simp add: listed)
    moreover have "r \<in> set (al_list_rules (Some cid) m)" "lr_id r = i" using that key listed by auto
    ultimately have "fires i (am_alerts m') \<longleftrightarrow> fires i (am_alerts m) \<or> \<not> rule_passes (ne_draw (env i)) r st s"
      using f \<open>lr_enabled r\<close> by metis
    moreover have "fires i (am_alerts m') \<longleftrightarrow> (\<exists>a \<in> set (list_alerts None ''firing'' m'). al_rule_id a = i)"
      by (rule fires_listed) (use f in simp)
    ultimately show ?thesis by (simp add: fires_listed [OF ok(1)] rule_passes_def)
  qed
  have "set (list_alerts None [] m) \<subseteq> set (list_alerts None [] m')"
  proof
    fix a assume "a \<in> set (list_alerts None [] m)"
    then obtain k where "dict_get (am_alerts m) k = Some a" using ok by (auto simp: list_alerts_def dict_values_mem)
    then have "dict_get (am_alerts m') k = Some a" using f by simp
    then show "a \<in> set (list_alerts None [] m')" by (simp add: list_alerts_def dict_get_in_values)
  qed
  with rules f show ?thesis by simp
qed

definition cold_rule :: alert_rule where
  "cold_rule = \<lparr>lr_id = [], lr_name = ''High GPU Temp'', lr_description = ''Alert when GPU temp exceeds 85C'',
     lr_cluster_id = ''c1'', lr_condition_type = GPU_TEMPERATURE, lr_operator = ''gt'', lr_threshold = 85,
     lr_severity = AL_CRITICAL, lr_enabled = True, lr_cooldown_minutes = 60, lr_channel_ids = [],
     lr_created_at = 0, lr_updated_at = 0\<rparr>"

definition cold_gpu :: gpu_telemetry where
  "cold_gpu =
     \<lparr>gt_index = 0, gt_uuid = [], gt_model = [], gt_memory_total_bytes = 0, gt_memory_used_bytes = 0,
      gt_utilization_gpu_percent = 50, gt_utilization_memory_percent = 0, gt_temperature_gpu_celsius = 40,
      gt_power_draw_watts = 0, gt_power_limit_watts = 0, gt_ecc_errors_volatile = 0, gt_ecc_errors_aggregate = 0,
      gt_clock_sm_mhz = 0, gt_clock_mem_mhz = 0\<rparr>"

definition cold_state :: cluster_state where
  "cold_state =
     \<lparr>cs_cluster_id = ''c1'', cs_cluster_name = ''east'', cs_environment = ''prod'', cs_collected_at = 0, cs_generated_at = 0,
      cs_node_count = 1, cs_gpu_count = 1, cs_total_gpu_memory_bytes = 0, cs_nodes = [],
      cs_telemetry = Some \<lparr>ct_cluster_id = ''c1'', ct_cluster_name = ''east'', ct_collected_at = 0, ct_node_count = 1,
        ct_gpu_count = 1, ct_nodes = [\<lparr>nt_node_name = ''n1'', nt_status = ''Ready'', nt_cpu_usage_millicores = 0,
          nt_cpu_capacity_millicores = 0, nt_memory_usage_bytes = 0, nt_memory_capacity_bytes = 0, nt_pod_count = 0,
          nt_pod_capacity = 0, nt_gpu_devices = [cold_gpu]\<rparr>], ct_freshness_seconds = 0\<rparr>\<rparr>"

definition cold_env :: rule_env where
  "cold_env = \<lparr>ne_draw = 0, ne_alert_id = ''al1'', ne_triggered_at = 5, ne_message_id = (\<lambda>_. ''msg''),
     ne_answer = (\<lambda>_ _ _. Inr (True, [])), ne_sent_at = (\<lambda>_. 6)\<rparr>"

definition cold_repo :: repo where
  "cold_repo = empty_repo\<lparr>re_clusters := [\<lparr>cl_id = ''c1'', cl_name = ''east'', cl_environment = ''prod''\<rparr>]\<rparr>"

definition cold_manager :: alert_manager where
  "cold_manager = fold alert_step [AoCreateRule ''r1'' cold_rule] new_manager"

lemma cold_facts:
  "get_cluster ''c1'' cold_repo = Some \<lparr>cl_id = ''c1'', cl_name = ''east'', cl_environment = ''prod''\<rparr>"
  "am_rules cold_manager = [(''r1'', cold_rule\<lparr>lr_id := ''r1''\<rparr>)]" "am_alerts cold_manager = []"
  by (simp_all add: get_cluster_def select_one_def cold_repo_def empty_repo_def cold_manager_def new_manager_def
      al_create_rule_def Let_def)

lemma cold_listed: "al_list_rules (Some ''c1'') cold_manager = [cold_rule\<lparr>lr_id := ''r1''\<rparr>]"
  "al_get_rule ''r1'' cold_manager = Some (cold_rule\<lparr>lr_id := ''r1''\<rparr>)"
  by (simp_all add: al_list_rules_def al_get_rule_def sorted_by_desc_def dict_values_def cold_facts cold_rule_def)

lemma cold_fails: "\<not> compare_value (measured d (cold_rule\<lparr>lr_id := ''r1''\<rparr>) (Some cold_state) cold_repo) 85 ''gt''"
  by (simp add: compare_value_def measured_def telemetry_gpus_def max_of_def cold_rule_def cold_state_def cold_gpu_def)

text \<open>The rule of the test suite for temperatures above 85 degrees fires at 40 degrees.\<close>

theorem alert_evaluation_witness:
  "\<exists>a. a \<in> set (list_alerts None ''firing'' (fst (evaluate_rules (\<lambda>_. cold_env) ''c1'' (Some cold_state) cold_repo
         cold_manager))) \<and> al_rule_id a = ''r1''"
proof -
  obtain m' evs where e: "evaluate_rules (\<lambda>_. cold_env) ''c1'' (Some cold_state) cold_repo cold_manager = (m', evs)"
    by fastforce
  have "lr_cluster_id (cold_rule\<lparr>lr_id := ''r1''\<rparr>) = ''c1''" "lr_enabled (cold_rule\<lparr>lr_id := ''r1''\<rparr>)"
    "lr_threshold (cold_rule\<lparr>lr_id := ''r1''\<rparr>) = 85" "lr_operator (cold_rule\<lparr>lr_id := ''r1''\<rparr>) = ''gt''"
    by (simp_all add: cold_rule_def)
  moreover have "distinct (map (\<lambda>r. ne_alert_id ((\<lambda>_. cold_env) (lr_id r))) (al_list_rules (Some ''c1'') cold_manager))"
    "\<forall>r \<in> set (al_list_rules (Some ''c1'') cold_manager).
        dict_get (am_alerts cold_manager) (ne_alert_id ((\<lambda>_. cold_env) (lr_id r))) = None"
    by (simp_all add: cold_listed cold_facts)
  from alert_evaluation [OF cold_manager_def cold_facts(1) e this] cold_listed(2) calculation cold_fails
  have "\<exists>a \<in> set (list_alerts None ''firing'' m'). al_rule_id a = ''r1''" by metis
  then show ?thesis using e by auto
qed

end
