(* ===== verification/Remediation.thy ===== *)
theory Remediation
  imports Actuation Alerts ClusterState
begin

text \<open>
  \<open>RemediationEngine\<close> of src/src/gpuopt/remediation.py: rules that answer firing alerts and policy
  violations with a list of actions, a cooldown per rule and cluster, and the record of every run.
  The alerts are those of \<open>Alerts\<close>. The actions act on the repository of \<open>Repository\<close> through \<open>actuate\<close> of \<open>Actuation\<close>. Values set by
  \<open>update_rule\<close> have the types the dataclass declares. Of the power analysis of power.py only the number
  of GPUs is read; it is counted in the latest state of the cluster, an argument. Log output is not modelled.
\<close>

subsection \<open>The data\<close>

datatype rem_action_type =
    ACTUATE_RECOMMENDATION | SCALE_CLUSTER | RESTART_SERVICE | DRAIN_NODE
  | ADJUST_POWER_CAP | SEND_NOTIFICATION | CREATE_TICKET | RUN_CHAOS

fun rem_action_type_value :: "rem_action_type \<Rightarrow> string" where
  "rem_action_type_value ACTUATE_RECOMMENDATION = ''actuate_recommendation''"
| "rem_action_type_value SCALE_CLUSTER = ''scale_cluster''"
| "rem_action_type_value RESTART_SERVICE = ''restart_service''"
| "rem_action_type_value DRAIN_NODE = ''drain_node''"
| "rem_action_type_value ADJUST_POWER_CAP = ''adjust_power_cap''"
| "rem_action_type_value SEND_NOTIFICATION = ''send_notification''"
| "rem_action_type_value CREATE_TICKET = ''create_ticket''"
| "rem_action_type_value RUN_CHAOS = ''run_chaos''"

datatype rem_status = RS_PENDING | RS_IN_PROGRESS | RS_COMPLETED | RS_FAILED | RS_SKIPPED

record rem_action =
  ra_id :: uuid
  ra_type :: rem_action_type
  ra_target :: string
  ra_params :: "(string, json) dict"
  ra_status :: rem_status
  ra_started_at :: "datetime option"
  ra_completed_at :: "datetime option"
  ra_result :: "piece list"
  ra_error :: string

record rem_rule =
  rr_id :: uuid
  rr_name :: string
  rr_description :: string
  rr_trigger_alert_severity :: "alert_severity list"
  rr_trigger_condition_types :: "string list"
  rr_trigger_policy_severity :: "policy_severity list"
  rr_actions :: "rem_action list"
  rr_cooldown_minutes :: int
  rr_enabled :: bool
  rr_max_retries :: int
  rr_created_at :: datetime

record rem_run =
  rn_id :: uuid
  rn_rule_id :: uuid
  rn_rule_name :: string
  rn_trigger_type :: string
  rn_trigger_id :: string
  rn_cluster_id :: string
  rn_status :: rem_status
  rn_actions :: "rem_action list"
  rn_started_at :: datetime
  rn_completed_at :: "datetime option"
  rn_summary :: string

record engine =
  rg_rules :: "(uuid, rem_rule) dict"
  rg_runs :: "(uuid, rem_run) dict"
  rg_last_run :: "(string, datetime) dict"

subsection \<open>The default rules\<close>

text \<open>\<open>u\<close> and \<open>t\<close> give the identifiers and clock readings in the order in which they are drawn.\<close>

definition template :: "uuid \<Rightarrow> rem_action_type \<Rightarrow> string \<Rightarrow> (string, json) dict \<Rightarrow> rem_action" where
  "template i ty target params =
     \<lparr>ra_id = i, ra_type = ty, ra_target = target, ra_params = params, ra_status = RS_PENDING,
      ra_started_at = None, ra_completed_at = None, ra_result = [], ra_error = []\<rparr>"

definition default_rules :: "(nat \<Rightarrow> uuid) \<Rightarrow> (nat \<Rightarrow> datetime) \<Rightarrow> rem_rule list" where
  "default_rules u t =
     [\<lparr>rr_id = u 2, rr_name = ''Critical GPU Alert Auto-Remediation'',
       rr_description = ''Apply top recommendation when critical GPU alerts fire'',
       rr_trigger_alert_severity = [AL_CRITICAL],
       rr_trigger_condition_types = [''gpu_utilization'', ''memory_utilization'', ''gpu_temperature''],
       rr_trigger_policy_severity = [],
       rr_actions =
         [template (u 0) ACTUATE_RECOMMENDATION ''cluster'' [(''dry_run'', JBool False), (''select'', JStr ''best'')],
          template (u 1) SEND_NOTIFICATION ''admin''
            [(''channel'', JStr ''slack''), (''template'', JStr ''remediation_started'')]],
       rr_cooldown_minutes = 120, rr_enabled = True, rr_max_retries = 3, rr_created_at = t 0\<rparr>,
      \<lparr>rr_id = u 4, rr_name = ''Power Efficiency Auto-Tuning'',
       rr_description = ''Apply power cap when power efficiency is low'',
       rr_trigger_alert_severity = [AL_WARNING, AL_CRITICAL],
       rr_trigger_condition_types = [''power_efficiency''],
       rr_trigger_policy_severity = [],
       rr_actions = [template (u 3) ADJUST_POWER_CAP ''gpu'' [(''reduction_percent'', JInt 10)]],
       rr_cooldown_minutes = 60, rr_enabled = True, rr_max_retries = 3, rr_created_at = t 1\<rparr>,
      \<lparr>rr_id = u 7, rr_name = ''Cost Anomaly Notification'',
       rr_description = ''Notify team when cost anomaly is detected'',
       rr_trigger_alert_severity = [AL_CRITICAL],
       rr_trigger_condition_types = [''cost_anomaly'', ''budget_alert''],
       rr_trigger_policy_severity = [],
       rr_actions =
         [template (u 5) SEND_NOTIFICATION ''finops-team''
            [(''channel'', JStr ''email''), (''template'', JStr ''cost_anomaly'')],
          template (u 6) CREATE_TICKET ''jira'' [(''project'', JStr ''FINops''), (''priority'', JStr ''high'')]],
       rr_cooldown_minutes = 1440, rr_enabled = True, rr_max_retries = 3, rr_created_at = t 2\<rparr>]"

definition seed_default_rules :: "(nat \<Rightarrow> uuid) \<Rightarrow> (nat \<Rightarrow> datetime) \<Rightarrow> engine \<Rightarrow> engine" where
  "seed_default_rules u t g =
     g\<lparr>rg_rules := fold (\<lambda>r d. dict_set (rr_id r) r d) (default_rules u t) (rg_rules g)\<rparr>"

definition rem_reset :: "(nat \<Rightarrow> uuid) \<Rightarrow> (nat \<Rightarrow> datetime) \<Rightarrow> engine \<Rightarrow> engine" where
  "rem_reset u t g = seed_default_rules u t (g\<lparr>rg_rules := [], rg_runs := [], rg_last_run := []\<rparr>)"

definition new_engine :: "(nat \<Rightarrow> uuid) \<Rightarrow> (nat \<Rightarrow> datetime) \<Rightarrow> engine" where
  "new_engine u t = seed_default_rules u t \<lparr>rg_rules = [], rg_runs = [], rg_last_run = []\<rparr>"

subsection \<open>Managing rules\<close>

definition list_rules :: "engine \<Rightarrow> rem_rule list" where
  "list_rules g = sorted_by rr_name (dict_values (rg_rules g))"

definition get_rule :: "uuid \<Rightarrow> engine \<Rightarrow> rem_rule option" where
  "get_rule i g = dict_get (rg_rules g) i"

definition add_rule :: "uuid \<Rightarrow> datetime \<Rightarrow> rem_rule \<Rightarrow> engine \<Rightarrow> engine \<times> rem_rule" where
  "add_rule new_id now r g =
     (let r' = (if rr_id r = [] then r\<lparr>rr_id := new_id\<rparr> else r)\<lparr>rr_created_at := now\<rparr>
      in (g\<lparr>rg_rules := dict_set (rr_id r') r' (rg_rules g)\<rparr>, r'))"

datatype rule_update =
    SetRuleId string
  | SetRuleName string
  | SetRuleDescription string
  | SetTriggerAlertSeverity "alert_severity list"
  | SetTriggerConditionTypes "string list"
  | SetTriggerPolicySeverity "policy_severity list"
  | SetRuleActions "rem_action list"
  | SetCooldownMinutes int
  | SetRuleEnabled bool
  | SetMaxRetries int
  | SetRuleCreatedAt datetime
  | SetRuleOther string

fun apply_rule_update :: "rule_update \<Rightarrow> rem_rule \<Rightarrow> rem_rule" where
  "apply_rule_update (SetRuleId _) r = r"
| "apply_rule_update (SetRuleName v) r = r\<lparr>rr_name := v\<rparr>"
| "apply_rule_update (SetRuleDescription v) r = r\<lparr>rr_description := v\<rparr>"
| "apply_rule_update (SetTriggerAlertSeverity v) r = r\<lparr>rr_trigger_alert_severity := v\<rparr>"
| "apply_rule_update (SetTriggerConditionTypes v) r = r\<lparr>rr_trigger_condition_types := v\<rparr>"
| "apply_rule_update (SetTriggerPolicySeverity v) r = r\<lparr>rr_trigger_policy_severity := v\<rparr>"
| "apply_rule_update (SetRuleActions v) r = r\<lparr>rr_actions := v\<rparr>"
| "apply_rule_update (SetCooldownMinutes v) r = r\<lparr>rr_cooldown_minutes := v\<rparr>"
| "apply_rule_update (SetRuleEnabled v) r = r\<lparr>rr_enabled := v\<rparr>"
| "apply_rule_update (SetMaxRetries v) r = r\<lparr>rr_max_retries := v\<rparr>"
| "apply_rule_update (SetRuleCreatedAt _) r = r"
| "apply_rule_update (SetRuleOther _) r = r"

definition update_rule :: "uuid \<Rightarrow> rule_update list \<Rightarrow> engine \<Rightarrow> engine \<times> rem_rule option" where
  "update_rule i us g =
     (case dict_get (rg_rules g) i of
        None \<Rightarrow> (g, None)
      | Some r \<Rightarrow>
          (let r' = fold apply_rule_update us r
           in (g\<lparr>rg_rules := dict_set i r' (rg_rules g)\<rparr>, Some r')))"

definition delete_rule :: "uuid \<Rightarrow> engine \<Rightarrow> engine \<times> bool" where
  "delete_rule i g = (g\<lparr>rg_rules := dict_pop i (rg_rules g)\<rparr>, dict_has (rg_rules g) i)"

subsection \<open>Actions\<close>

text \<open>
  What happens around one action: the clock before and after, the new action's identifier, the
  draws of \<open>actuate\<close>, the latest stored state of a cluster, from a table that no remediation writes,
  and pydantic's reading of a \<open>bool\<close> field.
\<close>

record action_env =
  xe_action_id :: uuid
  xe_started :: datetime
  xe_completed :: datetime
  xe_act :: act_env
  xe_latest_state :: "uuid \<Rightarrow> cluster_state option"
  xe_as_bool :: "json \<Rightarrow> py_error + bool"

text \<open>The dictionary an action returns; an absent \<open>error\<close> is the empty text.\<close>

record outcome =
  oc_success :: bool
  oc_message :: "piece list"
  oc_error :: string

definition failed_with :: "py_error \<Rightarrow> outcome" where
  "failed_with err = \<lparr>oc_success = False, oc_message = [Txt (error_text err)], oc_error = error_text err\<rparr>"

text \<open>
  \<open>actuate\<close> with an untyped \<open>dry_run\<close>: the branch taken follows the value's truth, the record holds
  the boolean that pydantic reads, and building the record fails when there is none.
\<close>

definition actuate_json ::
  "(json \<Rightarrow> py_error + bool) \<Rightarrow> act_env \<Rightarrow> uuid \<Rightarrow> uuid \<Rightarrow> json \<Rightarrow> repo \<Rightarrow> py_error + repo \<times> actuation_record" where
  "actuate_json as_bool e cid rid dry s =
     try_bind (actuate e cid rid (json_true dry) s) (\<lambda>(s', rec).
     try_bind (as_bool dry) (\<lambda>b.
       (let rec' = rec\<lparr>ac_dry_run := b\<rparr> in Inr (save_actuation rec' s', rec'))))"

definition pick_recommendation :: "json \<Rightarrow> recommendation \<Rightarrow> recommendation list \<Rightarrow> recommendation" where
  "pick_recommendation sel r rs = (if sel = JStr ''best'' then max_by rc_score r rs else r)"

definition actuate_recommendation ::
  "action_env \<Rightarrow> string \<Rightarrow> (string, json) dict \<Rightarrow> repo \<Rightarrow> repo \<times> outcome" where
  "actuate_recommendation x cluster_id params s =
     (case parse_uuid cluster_id of
        Inl err \<Rightarrow> (s, failed_with err)
      | Inr cid \<Rightarrow>
     (case (case latest_recommendations cid s of None \<Rightarrow> [] | Some rs \<Rightarrow> rs_recommendations rs) of
        [] \<Rightarrow> (s, \<lparr>oc_success = False, oc_message = [Txt ''No recommendations available''], oc_error = ''no_recs''\<rparr>)
      | r # rs \<Rightarrow>
          (let dry = dict_get_or params ''dry_run'' (JBool True);
               target = pick_recommendation (dict_get_or params ''select'' (JStr ''best'')) r rs
           in case actuate_json (xe_as_bool x) (xe_act x) cid (rc_id target) dry s of
                Inl err \<Rightarrow> (s, failed_with err)
              | Inr (s', rec) \<Rightarrow>
                  (s', \<lparr>oc_success = (ac_status rec = ACT_COMPLETED),
                        oc_message = [Txt (''Actuation '' @ ac_id rec @ '': '' @ actuation_status_value (ac_status rec))],
                        oc_error = []\<rparr>))))"

text \<open>The \<open>total_gpus\<close> of \<open>PowerService.analyze_power\<close>: the devices of the latest state, zero without one.\<close>

definition power_total_gpus :: "cluster_state option \<Rightarrow> int" where
  "power_total_gpus st =
     (case st of None \<Rightarrow> 0 | Some x \<Rightarrow> sum_list (map (\<lambda>n. int (length (ns_gpu_devices n))) (cs_nodes x)))"

definition adjust_power_cap :: "action_env \<Rightarrow> string \<Rightarrow> (string, json) dict \<Rightarrow> outcome" where
  "adjust_power_cap x cluster_id params =
     (case parse_uuid cluster_id of
        Inl err \<Rightarrow> failed_with err
      | Inr cid \<Rightarrow>
          (let total_gpus = power_total_gpus (xe_latest_state x cid) in
           if 0 < total_gpus then
             \<lparr>oc_success = True,
              oc_message = [Txt ''Suggested '', Val (dict_get_or params ''reduction_percent'' (JInt 10)),
                            Txt ''% power cap reduction for '', Val (JInt total_gpus), Txt '' GPUs''],
              oc_error = []\<rparr>
           else \<lparr>oc_success = False, oc_message = [Txt ''No power analysis available''], oc_error = ''no_data''\<rparr>))"

definition send_notification :: "string \<Rightarrow> (string, json) dict \<Rightarrow> outcome" where
  "send_notification target params =
     \<lparr>oc_success = True,
      oc_message = [Txt (''Notification sent to '' @ target @ '' via ''), Val (dict_get_or params ''channel'' (JStr ''log''))],
      oc_error = []\<rparr>"

definition create_ticket :: "(string, json) dict \<Rightarrow> outcome" where
  "create_ticket params =
     \<lparr>oc_success = True,
      oc_message = [Txt ''Ticket created in '', Val (dict_get_or params ''project'' (JStr ''OPS'')),
                    Txt '' with '', Val (dict_get_or params ''priority'' (JStr ''medium'')), Txt '' priority''],
      oc_error = []\<rparr>"

definition execute_action :: "action_env \<Rightarrow> rem_action \<Rightarrow> string \<Rightarrow> repo \<Rightarrow> repo \<times> outcome" where
  "execute_action x a cluster_id s =
     (if ra_type a = ACTUATE_RECOMMENDATION then actuate_recommendation x cluster_id (ra_params a) s
      else if ra_type a = ADJUST_POWER_CAP then (s, adjust_power_cap x cluster_id (ra_params a))
      else if ra_type a = SEND_NOTIFICATION then (s, send_notification (ra_target a) (ra_params a))
      else if ra_type a = CREATE_TICKET then (s, create_ticket (ra_params a))
      else (s, \<lparr>oc_success = False, oc_message = [Txt (''Unknown action type: '' @ rem_action_type_value (ra_type a))],
                oc_error = ''unknown_action''\<rparr>))"

subsection \<open>Running a rule\<close>

definition run_action :: "action_env \<Rightarrow> string \<Rightarrow> rem_action \<Rightarrow> repo \<Rightarrow> repo \<times> rem_action" where
  "run_action x cluster_id tmpl s =
     (let a = (template (xe_action_id x) (ra_type tmpl) (ra_target tmpl) (ra_params tmpl))
                \<lparr>ra_status := RS_IN_PROGRESS, ra_started_at := Some (xe_started x)\<rparr>;
          (s', oc) = execute_action x a cluster_id s
      in (s', a\<lparr>ra_status := (if oc_success oc then RS_COMPLETED else RS_FAILED),
                ra_result := oc_message oc,
                ra_error := (if oc_success oc then [] else oc_error oc),
                ra_completed_at := Some (xe_completed x)\<rparr>))"

fun run_actions :: "(nat \<Rightarrow> action_env) \<Rightarrow> nat \<Rightarrow> string \<Rightarrow> rem_action list \<Rightarrow> repo \<Rightarrow> repo \<times> rem_action list" where
  "run_actions xs n c [] s = (s, [])"
| "run_actions xs n c (a # as) s =
     (let (s1, a') = run_action (xs n) c a s; (s2, as') = run_actions xs (Suc n) c as s1
      in (s2, a' # as'))"

text \<open>
  The draws of one evaluation: the clock when a rule's cooldown is checked, the run's identifier
  and start, the environment of each action, the run's end and the time stored as last run.
\<close>

record eval_env =
  ee_clock :: "uuid \<Rightarrow> datetime"
  ee_run_id :: uuid
  ee_started :: datetime
  ee_actions :: "nat \<Rightarrow> action_env"
  ee_completed :: datetime
  ee_last_run :: datetime

definition run_key :: "uuid \<Rightarrow> string \<Rightarrow> string" where
  "run_key rule_id cluster_id = rule_id @ '':'' @ cluster_id"

definition execute_rule ::
  "eval_env \<Rightarrow> rem_rule \<Rightarrow> string \<Rightarrow> string \<Rightarrow> string \<Rightarrow> engine \<times> repo \<Rightarrow> (engine \<times> repo) \<times> rem_run" where
  "execute_rule e r trigger_type trigger_id cluster_id gs =
     (let (g, s) = gs;
          (s', as) = run_actions (ee_actions e) 0 cluster_id (rr_actions r) s;
          failed = length (filter (\<lambda>a. ra_status a = RS_FAILED) as);
          run = \<lparr>rn_id = ee_run_id e, rn_rule_id = rr_id r, rn_rule_name = rr_name r,
                 rn_trigger_type = trigger_type, rn_trigger_id = trigger_id, rn_cluster_id = cluster_id,
                 rn_status = (if failed = 0 then RS_COMPLETED else RS_FAILED), rn_actions = as,
                 rn_started_at = ee_started e, rn_completed_at = Some (ee_completed e),
                 rn_summary = nat_str (length as) @ '' actions, '' @ nat_str failed @ '' failed''\<rparr>
      in ((g\<lparr>rg_runs := dict_set (rn_id run) run (rg_runs g),
             rg_last_run := dict_set (run_key (rr_id r) cluster_id) (ee_last_run e) (rg_last_run g)\<rparr>, s'), run))"

definition in_cooldown :: "eval_env \<Rightarrow> engine \<Rightarrow> rem_rule \<Rightarrow> string \<Rightarrow> bool" where
  "in_cooldown e g r cluster_id =
     (case dict_get (rg_last_run g) (run_key (rr_id r) cluster_id) of
        None \<Rightarrow> False
      | Some t \<Rightarrow> ee_clock e (rr_id r) - t < rr_cooldown_minutes r * 60 * 1000000)"

definition alert_matches :: "alert \<Rightarrow> rem_rule \<Rightarrow> bool" where
  "alert_matches al r \<longleftrightarrow>
     rr_enabled r \<and> al_severity al \<in> set (rr_trigger_alert_severity r) \<and>
     (rr_trigger_condition_types r = [] \<or>
      alert_condition_value (al_condition_type al) \<in> set (rr_trigger_condition_types r))"

definition evaluate_alert ::
  "eval_env \<Rightarrow> alert \<Rightarrow> engine \<times> repo \<Rightarrow> (engine \<times> repo) \<times> rem_run option" where
  "evaluate_alert e al gs =
     (if al_status al \<noteq> ''firing'' then (gs, None)
      else (case find (\<lambda>r. alert_matches al r \<and> \<not> in_cooldown e (fst gs) r (al_cluster_id al))
                      (dict_values (rg_rules (fst gs))) of
              None \<Rightarrow> (gs, None)
            | Some r \<Rightarrow>
                (let (gs', run) = execute_rule e r ''alert'' (al_id al) (al_cluster_id al) gs
                 in (gs', Some run))))"

definition policy_matches :: "policy_rule \<Rightarrow> rem_rule \<Rightarrow> bool" where
  "policy_matches p r \<longleftrightarrow>
     rr_enabled r \<and> (rr_trigger_policy_severity r = [] \<or> po_severity p \<in> set (rr_trigger_policy_severity r))"

definition rem_evaluate_policy ::
  "eval_env \<Rightarrow> policy_rule \<Rightarrow> string \<Rightarrow> engine \<times> repo \<Rightarrow> (engine \<times> repo) \<times> rem_run option" where
  "rem_evaluate_policy e p cluster_id gs =
     (case find (\<lambda>r. policy_matches p r \<and> \<not> in_cooldown e (fst gs) r cluster_id)
                (dict_values (rg_rules (fst gs))) of
        None \<Rightarrow> (gs, None)
      | Some r \<Rightarrow>
          (let (gs', run) = execute_rule e r ''policy'' (po_id p) cluster_id gs in (gs', Some run)))"

definition list_runs :: "string \<Rightarrow> engine \<Rightarrow> rem_run list" where
  "list_runs cluster_id g =
     sorted_by_desc rn_started_at
       (filter (\<lambda>q. cluster_id = [] \<or> rn_cluster_id q = cluster_id) (dict_values (rg_runs g)))"

definition get_run :: "uuid \<Rightarrow> engine \<Rightarrow> rem_run option" where
  "get_run i g = dict_get (rg_runs g) i"

subsection \<open>Runs of the engine\<close>

datatype engine_op =
    OpAdd uuid datetime rem_rule
  | OpUpdate uuid "rule_update list"
  | OpDelete uuid
  | OpReset "nat \<Rightarrow> uuid" "nat \<Rightarrow> datetime"
  | OpAlert eval_env alert
  | OpPolicy eval_env policy_rule string

fun engine_step :: "engine_op \<Rightarrow> engine \<times> repo \<Rightarrow> engine \<times> repo" where
  "engine_step (OpAdd i now r) gs = (fst (add_rule i now r (fst gs)), snd gs)"
| "engine_step (OpUpdate i us) gs = (fst (update_rule i us (fst gs)), snd gs)"
| "engine_step (OpDelete i) gs = (fst (delete_rule i (fst gs)), snd gs)"
| "engine_step (OpReset u t) gs = (rem_reset u t (fst gs), snd gs)"
| "engine_step (OpAlert e al) gs = fst (evaluate_alert e al gs)"
| "engine_step (OpPolicy e p c) gs = fst (rem_evaluate_policy e p c gs)"

text \<open>The clock does not run back: it is read for the run's end before it is read for the last run.\<close>

definition clock_ok :: "eval_env \<Rightarrow> engine \<Rightarrow> bool" where
  "clock_ok e g \<longleftrightarrow> ee_completed e \<le> ee_last_run e \<and> list_all (\<lambda>kt. snd kt \<le> ee_last_run e) (rg_last_run g)"

fun op_ok :: "engine \<times> repo \<Rightarrow> engine_op \<Rightarrow> bool" where
  "op_ok gs (OpAlert e al) = clock_ok e (fst gs)"
| "op_ok gs (OpPolicy e p c) = clock_ok e (fst gs)"
| "op_ok gs _ = True"

text \<open>Every recorded run ended before the time stored for its rule and cluster.\<close>

definition engine_inv :: "engine \<times> repo \<Rightarrow> bool" where
  "engine_inv gs \<longleftrightarrow>
     (\<forall>i q. dict_get (rg_runs (fst gs)) i = Some q \<longrightarrow>
        (\<exists>d t. rn_completed_at q = Some d
           \<and> dict_get (rg_last_run (fst gs)) (run_key (rn_rule_id q) (rn_cluster_id q)) = Some t \<and> d \<le> t))"

lemma clock_last: "clock_ok e g \<Longrightarrow> dict_get (rg_last_run g) k = Some t \<Longrightarrow> t \<le> ee_last_run e"
  by (auto simp: clock_ok_def list_all_iff dest!: map_of_SomeD)

lemma execute_rule_run:
  assumes "execute_rule e r tt tid c gs = (gs', run)"
  shows "rg_runs (fst gs') = dict_set (ee_run_id e) run (rg_runs (fst gs))"
    and "rg_last_run (fst gs') = dict_set (run_key (rr_id r) c) (ee_last_run e) (rg_last_run (fst gs))"
    and "rg_rules (fst gs') = rg_rules (fst gs)"
    and "rn_id run = ee_run_id e" and "rn_rule_id run = rr_id r" and "rn_cluster_id run = c"
    and "rn_completed_at run = Some (ee_completed e)"
  using assms by (auto simp: execute_rule_def Let_def split: prod.splits)

lemma execute_rule_inv:
  assumes inv: "engine_inv gs" and clk: "clock_ok e (fst gs)"
  shows "engine_inv (fst (execute_rule e r tt tid c gs))"
proof -
  obtain gs' run where x: "execute_rule e r tt tid c gs = (gs', run)" by fastforce
  note f = execute_rule_run [OF x]
  have "ee_completed e \<le> ee_last_run e" using clk by (simp add: clock_ok_def)
  moreover have "d \<le> ee_last_run e" if "d \<le> t" "dict_get (rg_last_run (fst gs)) k = Some t" for d t k
    using clock_last [OF clk that(2)] that(1) by simp
  ultimately show ?thesis
    using inv by (fastforce simp: engine_inv_def x f)
qed

lemma evaluate_alert_cases:
  assumes "evaluate_alert e al gs = (gs', Some run)"
  obtains r where "r \<in> set (dict_values (rg_rules (fst gs)))" and "alert_matches al r"
    and "\<not> in_cooldown e (fst gs) r (al_cluster_id al)" and "al_status al = ''firing''"
    and "execute_rule e r ''alert'' (al_id al) (al_cluster_id al) gs = (gs', run)"
  using assms that
  by (auto simp: evaluate_alert_def split: if_splits option.splits prod.splits dest!: find_SomeD)

lemma evaluate_alert_inv:
  "engine_inv gs \<Longrightarrow> clock_ok e (fst gs) \<Longrightarrow> engine_inv (fst (evaluate_alert e al gs))"
  by (simp add: evaluate_alert_def case_prod_unfold Let_def execute_rule_inv split: option.split)

lemma rem_evaluate_policy_inv:
  "engine_inv gs \<Longrightarrow> clock_ok e (fst gs) \<Longrightarrow> engine_inv (fst (rem_evaluate_policy e p c gs))"
  by (simp add: rem_evaluate_policy_def case_prod_unfold Let_def execute_rule_inv split: option.split)

interpretation remediation: invariant_machine engine_step op_ok engine_inv
proof
  fix gs x assume inv: "engine_inv gs" and ok: "op_ok gs x"
  show "engine_inv (engine_step x gs)"
  proof (cases x)
    case (OpAlert e al)
    with ok show ?thesis using evaluate_alert_inv [OF inv] by simp
  next
    case (OpPolicy e p c)
    with ok show ?thesis using rem_evaluate_policy_inv [OF inv] by simp
  qed (use inv in \<open>auto simp: engine_inv_def add_rule_def update_rule_def delete_rule_def rem_reset_def
      seed_default_rules_def Let_def split: option.split\<close>)
qed

subsection \<open>What a run reports\<close>

text \<open>An executed action repeats its template and ends completed or failed.\<close>

definition answers :: "rem_action \<Rightarrow> rem_action \<Rightarrow> bool" where
  "answers tmpl a \<longleftrightarrow> ra_type a = ra_type tmpl \<and> ra_target a = ra_target tmpl \<and> ra_params a = ra_params tmpl
     \<and> ra_status a \<in> {RS_COMPLETED, RS_FAILED}"

lemma run_action_answers: "answers tmpl (snd (run_action x c tmpl s))"
  by (simp add: run_action_def Let_def answers_def template_def split: prod.split)

lemma run_actions_answer: "list_all2 answers as (snd (run_actions xs n c as s))"
proof (induction as arbitrary: n s)
  case (Cons a as)
  then show ?case
    using run_action_answers [of a "xs n" c s] by (simp split: prod.split) (metis snd_conv)
qed simp

text \<open>
  C2: remediation keeps its cooldown and its books: in any state reached by managing rules and
  evaluating alerts and policies while the clock does not run back, an alert starts a run only when
  it is firing, for an enabled rule that lists its severity and its condition, and only when every
  earlier run of that rule on that cluster ended at least the rule's cooldown before. The run is
  stored; it carries out every action of the rule, in order, each completed or failed; and it reads
  as completed exactly when none failed.
\<close>

theorem remediation_cooldown:
  assumes "run_allowed engine_step op_ok ops (new_engine u t, s0)"
    and "evaluate_alert e al (fold engine_step ops (new_engine u t, s0)) = ((g', s'), Some run)"
  shows "\<exists>r. r \<in> set (dict_values (rg_rules (fst (fold engine_step ops (new_engine u t, s0)))))
    \<and> al_status al = ''firing'' \<and> alert_matches al r \<and> rn_rule_id run = rr_id r \<and> rn_cluster_id run = al_cluster_id al
    \<and> (\<forall>i q. get_run i (fst (fold engine_step ops (new_engine u t, s0))) = Some q
         \<and> rn_rule_id q = rr_id r \<and> rn_cluster_id q = al_cluster_id al \<longrightarrow>
         (\<exists>d. rn_completed_at q = Some d
            \<and> d + rr_cooldown_minutes r * 60 * 1000000 \<le> ee_clock e (rr_id r)))
    \<and> get_run (ee_run_id e) g' = Some run
    \<and> list_all2 answers (rr_actions r) (rn_actions run)
    \<and> (rn_status run = RS_COMPLETED \<longleftrightarrow> (\<forall>a \<in> set (rn_actions run). ra_status a = RS_COMPLETED))"
proof -
  let ?gs = "fold engine_step ops (new_engine u t, s0)"
  have "engine_inv (new_engine u t, s0)"
    by (simp add: engine_inv_def new_engine_def seed_default_rules_def)
  from remediation.run_inv [OF assms(1) this] have inv: "engine_inv ?gs" .
  from assms(2) obtain r where r: "r \<in> set (dict_values (rg_rules (fst ?gs)))" "alert_matches al r"
    "\<not> in_cooldown e (fst ?gs) r (al_cluster_id al)" "al_status al = ''firing''"
    and x: "execute_rule e r ''alert'' (al_id al) (al_cluster_id al) ?gs = ((g', s'), run)"
    by (rule evaluate_alert_cases)
  note f = execute_rule_run [OF x]
  have cool: "\<exists>d. rn_completed_at q = Some d \<and> d + rr_cooldown_minutes r * 60 * 1000000 \<le> ee_clock e (rr_id r)"
    if "get_run i (fst ?gs) = Some q" "rn_rule_id q = rr_id r" "rn_cluster_id q = al_cluster_id al" for i q
    using inv that r(3) by (fastforce simp: engine_inv_def get_run_def in_cooldown_def)
  have acts: "list_all2 answers (rr_actions r) (rn_actions run)"
    and st: "rn_status run = RS_COMPLETED \<longleftrightarrow> filter (\<lambda>a. ra_status a = RS_FAILED) (rn_actions run) = []"
    using x run_actions_answer [of "rr_actions r" "ee_actions e" 0 "al_cluster_id al" "snd ?gs"]
    by (auto simp: execute_rule_def Let_def split: prod.splits if_splits)
  have "\<forall>a \<in> set (rn_actions run). ra_status a \<in> {RS_COMPLETED, RS_FAILED}"
    using acts by (auto simp: answers_def list_all2_conv_all_nth in_set_conv_nth)
  then have "rn_status run = RS_COMPLETED \<longleftrightarrow> (\<forall>a \<in> set (rn_actions run). ra_status a = RS_COMPLETED)"
    unfolding st by (auto simp: filter_empty_conv)
  moreover have "get_run (ee_run_id e) g' = Some run" using f(1) by (simp add: get_run_def)
  ultimately show ?thesis using r f(5,6) cool acts by blast
qed

definition sample_rule :: rem_rule where
  "sample_rule = \<lparr>rr_id = ''n1'', rr_name = ''Note'', rr_description = [], rr_trigger_alert_severity = [AL_INFO],
     rr_trigger_condition_types = [], rr_trigger_policy_severity = [SEV_LOW],
     rr_actions = [template ''x'' SEND_NOTIFICATION ''ops'' []],
     rr_cooldown_minutes = 1, rr_enabled = True, rr_max_retries = 3, rr_created_at = 0\<rparr>"

definition sample_alert :: alert where
  "sample_alert = \<lparr>al_id = ''al'', al_rule_id = ''r'', al_cluster_id = ''c1'', al_cluster_name = [], al_severity = AL_INFO,
     al_condition_type = IDLE_GPU, al_current_value = 0, al_threshold = 0, al_message = [], al_status = ''firing'',
     al_triggered_at = 0, al_resolved_at = None, al_acknowledged_by = []\<rparr>"

definition sample_eval :: "string \<Rightarrow> datetime \<Rightarrow> eval_env" where
  "sample_eval i t = \<lparr>ee_clock = (\<lambda>_. t), ee_run_id = i, ee_started = t,
     ee_actions = (\<lambda>_. \<lparr>xe_action_id = ''ra'', xe_started = t, xe_completed = t, xe_act = sample_env,
        xe_latest_state = (\<lambda>_. None), xe_as_bool = (\<lambda>v. Inr (json_true v))\<rparr>),
     ee_completed = t + 1, ee_last_run = t + 2\<rparr>"

definition sample_ids :: "nat \<Rightarrow> uuid" where
  "sample_ids n = ''u'' @ replicate n CHR ''i''"

definition sample_ops :: "engine_op list" where
  "sample_ops = [OpAdd [] 0 sample_rule, OpAlert (sample_eval ''q1'' 10) sample_alert]"

lemmas sample_engine_defs = sample_ops_def sample_rule_def sample_alert_def sample_eval_def new_engine_def
  seed_default_rules_def default_rules_def sample_ids_def add_rule_def evaluate_alert_def alert_matches_def
  in_cooldown_def execute_rule_def run_action_def execute_action_def send_notification_def template_def
  dict_values_def run_key_def clock_ok_def get_run_def numeral_2_eq_2 numeral_3_eq_3 eval_nat_numeral

lemma sample_engine_runs:
  "run_allowed engine_step op_ok sample_ops (new_engine sample_ids (\<lambda>_. 0), empty_repo)"
  "\<exists>q. get_run ''q1'' (fst (fold engine_step sample_ops (new_engine sample_ids (\<lambda>_. 0), empty_repo))) = Some q
     \<and> rn_rule_id q = ''n1'' \<and> rn_cluster_id q = ''c1''"
  "\<exists>g' s' run. evaluate_alert (sample_eval ''q2'' 60000012) sample_alert
     (fold engine_step sample_ops (new_engine sample_ids (\<lambda>_. 0), empty_repo)) = ((g', s'), Some run)"
  by (simp_all add: sample_engine_defs Let_def)

text \<open>A minute after the first run's end the rule runs again.\<close>

theorem remediation_cooldown_witness:
  "\<exists>g' s' run. evaluate_alert (sample_eval ''q2'' 60000012) sample_alert
     (fold engine_step sample_ops (new_engine sample_ids (\<lambda>_. 0), empty_repo)) = ((g', s'), Some run)
   \<and> get_run ''q2'' g' = Some run"
proof -
  obtain g' s' run where x: "evaluate_alert (sample_eval ''q2'' 60000012) sample_alert
     (fold engine_step sample_ops (new_engine sample_ids (\<lambda>_. 0), empty_repo)) = ((g', s'), Some run)"
    using sample_engine_runs(3) by blast
  have "ee_run_id (sample_eval ''q2'' 60000012) = ''q2''" by (simp add: sample_eval_def)
  with remediation_cooldown [OF sample_engine_runs(1) x] have "get_run ''q2'' g' = Some run" by auto
  with x show ?thesis by blast
qed

end
