(* ===== verification/Fairness.thy ===== *)
theory Fairness
  imports Prelude
begin

text \<open>
  Fair sharing of GPUs between tenants: \<open>DominantResourceFairness\<close> and
  \<open>ProportionalFairnessScheduler\<close> of src/src/gpuopt/scheduler/fairness.py. Both are functions of
  the tenants' figures; an entry that is absent from a tenant's dictionary is \<open>None\<close>.
\<close>

subsection \<open>Tenants and their shares\<close>

record tenant_info =
  tn_weight :: "rat option"
  tn_requested_gpus :: "int option"
  tn_allocated_gpus :: "int option"
  tn_quota :: "int option"
  tn_priority :: "rat option"
  tn_preemptible :: "bool option"

record allocation =
  fa_tenant_id :: string
  fa_fair_share :: rat
  fa_gpus_allocated :: int
  fa_gpus_requested :: int
  fa_gpu_quota :: int
  fa_usage_ratio :: rat
  fa_fair_share_ratio :: rat
  fa_dominant_share :: rat
  fa_priority :: rat
  fa_preemptible :: bool
  fa_adjustment :: rat

record drf_result =
  dr_allocations :: "allocation list"
  dr_total_gpus :: int
  dr_total_allocated :: int
  dr_dominant_share_threshold :: rat
  dr_over_allocated :: "string list"
  dr_under_allocated :: "string list"

definition default_weight :: rat where "default_weight = 1"
definition preemption_threshold :: rat where "preemption_threshold = 9 / 10"
definition min_fair_share :: rat where "min_fair_share = 5 / 100"

definition total_weight :: "(string, tenant_info) dict \<Rightarrow> rat" where
  "total_weight tenants = sum_list (map (\<lambda>t. or_default (tn_weight t) default_weight) (dict_values tenants))"

definition fair_share :: "rat \<Rightarrow> tenant_info \<Rightarrow> rat" where
  "fair_share tw info =
     max (if 0 < tw then or_default (tn_weight info) default_weight / tw else 0) min_fair_share"

definition share_adjustment :: "rat \<Rightarrow> rat \<Rightarrow> bool \<Rightarrow> rat" where
  "share_adjustment dominant priority preemptible =
     (if preemption_threshold < dominant \<and> preemptible then - 1 / 10
      else if dominant < 1 / 2 \<and> 1 < priority then 5 / 100
      else 0)"

definition allocation_of :: "rat \<Rightarrow> int \<Rightarrow> string \<times> tenant_info \<Rightarrow> allocation" where
  "allocation_of tw total_gpus t =
     (let info = snd t;
          share = fair_share tw info;
          requested = or_default (tn_requested_gpus info) 0;
          allocated = or_default (tn_allocated_gpus info) 0;
          quota = or_default (tn_quota info) total_gpus;
          priority = or_default (tn_priority info) 1;
          preemptible = or_default (tn_preemptible info) False;
          ideal = share * of_int total_gpus;
          dominant = (if 0 < ideal then of_int allocated / ideal else 0)
      in \<lparr>fa_tenant_id = fst t,
          fa_fair_share = py_round 4 share,
          fa_gpus_allocated = allocated,
          fa_gpus_requested = requested,
          fa_gpu_quota = quota,
          fa_usage_ratio = py_round 4 (of_int allocated / of_int (max quota 1)),
          fa_fair_share_ratio = py_round 4 (of_int allocated / max ideal 1),
          fa_dominant_share = py_round 4 dominant,
          fa_priority = priority,
          fa_preemptible = preemptible,
          fa_adjustment = py_round 4 (share_adjustment dominant priority preemptible)\<rparr>)"

definition share_threshold :: "allocation list \<Rightarrow> rat" where
  "share_threshold as =
     max (if as = [] then 0 else sum_list (map fa_dominant_share as) / of_nat (length as)) 1"

definition drf_compute :: "(string, tenant_info) dict \<Rightarrow> int \<Rightarrow> drf_result" where
  "drf_compute tenants total_gpus =
     (if tenants = [] \<or> total_gpus \<le> 0 then
        \<lparr>dr_allocations = [], dr_total_gpus = total_gpus, dr_total_allocated = 0,
         dr_dominant_share_threshold = 0, dr_over_allocated = [], dr_under_allocated = []\<rparr>
      else
        (let as = map (allocation_of (total_weight tenants) total_gpus) tenants;
             threshold = share_threshold as
         in \<lparr>dr_allocations = sorted_by (\<lambda>a. - fa_dominant_share a) as,
             dr_total_gpus = total_gpus,
             dr_total_allocated = sum_list (map (\<lambda>t. or_default (tn_allocated_gpus t) 0) (dict_values tenants)),
             dr_dominant_share_threshold = py_round 4 threshold,
             dr_over_allocated = map fa_tenant_id
               (filter (\<lambda>a. threshold < fa_dominant_share a \<and> 0 < fa_gpus_allocated a) as),
             dr_under_allocated = map fa_tenant_id
               (filter (\<lambda>a. fa_dominant_share a < 8 / 10 \<and> fa_gpus_allocated a < fa_gpus_requested a) as)\<rparr>))"

datatype rebalance = Reduce string "piece list" | Increase string

definition suggest_rebalance :: "drf_result \<Rightarrow> rebalance list" where
  "suggest_rebalance r =
     map (\<lambda>t. Reduce t [Txt ''Dominant share exceeds threshold ('', Fmt ''.2f'' (JFloat (dr_dominant_share_threshold r)), Txt '')''])
       (dr_over_allocated r) @
     map Increase (dr_under_allocated r)"

subsection \<open>The proportional scheduler\<close>

text \<open>The two loops carry the allocation and the GPUs that remain; the second one stops when none do.\<close>

definition give_share :: "int \<Rightarrow> allocation \<Rightarrow> (string, int) dict \<times> int \<Rightarrow> (string, int) dict \<times> int" where
  "give_share total_gpus a st =
     (let (given, remaining) = st;
          fair = int_of (fa_fair_share a * of_int total_gpus);
          adjusted = max 0 (fair + int_of (fa_adjustment a * of_int total_gpus));
          allocated = min (min (adjusted + fa_gpus_allocated a) (fa_gpu_quota a)) remaining
      in (dict_set (fa_tenant_id a) allocated given, remaining - allocated))"

fun give_extra :: "allocation list \<Rightarrow> (string, int) dict \<times> int \<Rightarrow> (string, int) dict \<times> int" where
  "give_extra [] st = st"
| "give_extra (a # as) (given, remaining) =
     (if remaining \<le> 0 then (given, remaining)
      else
        (let current = dict_get_or given (fa_tenant_id a) 0;
             extra = min remaining (fa_gpu_quota a - current)
         in if 0 < extra then give_extra as (dict_set (fa_tenant_id a) (current + extra) given, remaining - extra)
            else give_extra as (given, remaining)))"

definition schedule :: "(string, tenant_info) dict \<Rightarrow> int \<Rightarrow> (string, int) dict" where
  "schedule tenants total_gpus =
     (let as = dr_allocations (drf_compute tenants total_gpus);
          (given, remaining) = fold (give_share total_gpus) (sorted_by_desc fa_priority as) ([], total_gpus)
      in if 0 < remaining then fst (give_extra (sorted_by fa_dominant_share as) (given, remaining)) else given)"

subsection \<open>Every GPU is given away, within the quotas\<close>

definition within_quota :: "allocation list \<Rightarrow> (string, int) dict \<Rightarrow> bool" where
  "within_quota as given \<longleftrightarrow>
     (\<forall>a \<in> set as. 0 \<le> dict_get_or given (fa_tenant_id a) 0 \<and> dict_get_or given (fa_tenant_id a) 0 \<le> fa_gpu_quota a)"

lemma give_share_fold:
  fixes n :: int
  assumes "fold (give_share n) as (given, remaining) = (given', remaining')"
    and "0 \<le> remaining" and "\<forall>a \<in> set as. 0 \<le> fa_gpus_allocated a \<and> 0 \<le> fa_gpu_quota a"
    and "distinct (map fa_tenant_id as)" and "\<forall>a \<in> set as. dict_get given (fa_tenant_id a) = None"
  shows "0 \<le> remaining' \<and> sum_list (dict_values given') + remaining' = sum_list (dict_values given) + remaining
    \<and> within_quota as given' \<and> (\<forall>k. k \<notin> fa_tenant_id ` set as \<longrightarrow> dict_get given' k = dict_get given k)
    \<and> (\<forall>a \<in> set as. dict_get given' (fa_tenant_id a) \<noteq> None)"
  using assms
proof (induction as arbitrary: given remaining)
  case Nil
  then show ?case by (simp add: within_quota_def)
next
  case (Cons a as)
  obtain m where step: "give_share n a (given, remaining) = (dict_set (fa_tenant_id a) m given, remaining - m)"
    and m: "0 \<le> m" "m \<le> remaining" "m \<le> fa_gpu_quota a"
    using Cons.prems(2,3) by (simp add: give_share_def Let_def)
  have IH: "0 \<le> remaining' \<and> sum_list (dict_values given') + remaining'
      = sum_list (dict_values (dict_set (fa_tenant_id a) m given)) + (remaining - m)
    \<and> within_quota as given'
    \<and> (\<forall>k. k \<notin> fa_tenant_id ` set as \<longrightarrow> dict_get given' k = dict_get (dict_set (fa_tenant_id a) m given) k)
    \<and> (\<forall>b \<in> set as. dict_get given' (fa_tenant_id b) \<noteq> None)"
  proof (rule Cons.IH)
    show "fold (give_share n) as (dict_set (fa_tenant_id a) m given, remaining - m) = (given', remaining')"
      using Cons.prems(1) step by simp
    show "0 \<le> remaining - m" using m by simp
    show "\<forall>b \<in> set as. dict_get (dict_set (fa_tenant_id a) m given) (fa_tenant_id b) = None"
    proof
      fix b assume b: "b \<in> set as"
      have "fa_tenant_id a \<notin> fa_tenant_id ` set as" using Cons.prems(4) by simp
      then have "fa_tenant_id b \<noteq> fa_tenant_id a" using b by (metis imageI)
      then show "dict_get (dict_set (fa_tenant_id a) m given) (fa_tenant_id b) = None" using Cons.prems(5) b by simp
    qed
  qed (use Cons.prems in auto)
  then have here: "dict_get given' (fa_tenant_id a) = Some m" using Cons.prems(4) by auto
  moreover have "sum_list (dict_values (dict_set (fa_tenant_id a) m given)) = sum_list (dict_values given) + m"
    using Cons.prems(5) by (simp add: dict_sum_set dict_get_or_def)
  ultimately show ?case using IH m by (auto simp: within_quota_def dict_get_or_def)
qed

lemma give_extra_run:
  assumes "give_extra as (given, remaining) = (given', remaining')"
    and "0 \<le> remaining" and "distinct (map fa_tenant_id as)" and "set as \<subseteq> U"
    and "inj_on fa_tenant_id U" and "\<forall>a \<in> U. 0 \<le> dict_get_or given (fa_tenant_id a) 0 \<and> dict_get_or given (fa_tenant_id a) 0 \<le> fa_gpu_quota a"
  shows "0 \<le> remaining' \<and> remaining' \<le> remaining
    \<and> sum_list (dict_values given') + remaining' = sum_list (dict_values given) + remaining
    \<and> (\<forall>a \<in> U. dict_get_or given (fa_tenant_id a) 0 \<le> dict_get_or given' (fa_tenant_id a) 0
          \<and> dict_get_or given' (fa_tenant_id a) 0 \<le> fa_gpu_quota a)
    \<and> (\<forall>k. k \<notin> fa_tenant_id ` set as \<longrightarrow> dict_get given' k = dict_get given k)
    \<and> (0 < remaining' \<longrightarrow> (\<forall>a \<in> set as. dict_get_or given' (fa_tenant_id a) 0 = fa_gpu_quota a))"
  using assms
proof (induction as arbitrary: given remaining)
  case Nil
  then show ?case by simp
next
  case (Cons a as)
  let ?c = "dict_get_or given (fa_tenant_id a) 0"
  let ?x = "min remaining (fa_gpu_quota a - ?c)"
  let ?g = "if 0 < ?x then dict_set (fa_tenant_id a) (?c + ?x) given else given"
  let ?r = "if 0 < ?x then remaining - ?x else remaining"
  show ?case
  proof (cases "remaining \<le> 0")
    case True
    then show ?thesis using Cons.prems by auto
  next
    case False
    have aU: "a \<in> U" and fresh: "fa_tenant_id a \<notin> fa_tenant_id ` set as" using Cons.prems(3,4) by auto
    have rest: "give_extra as (?g, ?r) = (given', remaining')"
      using Cons.prems(1) False by (simp add: Let_def split: if_splits)
    have other: "b \<in> U \<Longrightarrow> dict_get_or ?g (fa_tenant_id b) 0 = (if b = a \<and> 0 < ?x then ?c + ?x else dict_get_or given (fa_tenant_id b) 0)" for b
      using inj_on_eq_iff [OF Cons.prems(5) aU, of b] by (cases "b = a") simp_all
    have bounds: "\<forall>b \<in> U. 0 \<le> dict_get_or ?g (fa_tenant_id b) 0 \<and> dict_get_or ?g (fa_tenant_id b) 0 \<le> fa_gpu_quota b"
    proof
      fix b assume b: "b \<in> U"
      then have "0 \<le> dict_get_or given (fa_tenant_id b) 0 \<and> dict_get_or given (fa_tenant_id b) 0 \<le> fa_gpu_quota b"
        using Cons.prems(6) by blast
      moreover have "0 \<le> ?c" using Cons.prems(6) aU by blast
      ultimately show "0 \<le> dict_get_or ?g (fa_tenant_id b) 0 \<and> dict_get_or ?g (fa_tenant_id b) 0 \<le> fa_gpu_quota b"
        unfolding other [OF b] by (auto simp: min_def)
    qed
    have sum: "sum_list (dict_values ?g) + ?r = sum_list (dict_values given) + remaining"
      by (simp add: dict_sum_set)
    have IH: "0 \<le> remaining' \<and> remaining' \<le> ?r
      \<and> sum_list (dict_values given') + remaining' = sum_list (dict_values ?g) + ?r
      \<and> (\<forall>b \<in> U. dict_get_or ?g (fa_tenant_id b) 0 \<le> dict_get_or given' (fa_tenant_id b) 0
            \<and> dict_get_or given' (fa_tenant_id b) 0 \<le> fa_gpu_quota b)
      \<and> (\<forall>k. k \<notin> fa_tenant_id ` set as \<longrightarrow> dict_get given' k = dict_get ?g k)
      \<and> (0 < remaining' \<longrightarrow> (\<forall>b \<in> set as. dict_get_or given' (fa_tenant_id b) 0 = fa_gpu_quota b))"
      by (rule Cons.IH [OF rest]) (use Cons.prems False bounds in auto)
    have mono: "dict_get_or given (fa_tenant_id b) 0 \<le> dict_get_or ?g (fa_tenant_id b) 0" if "b \<in> U" for b
      using other [OF that] by auto
    have mine: "dict_get_or given' (fa_tenant_id a) 0 = dict_get_or ?g (fa_tenant_id a) 0"
      using IH fresh by (simp add: dict_get_or_def)
    have full: "dict_get_or given' (fa_tenant_id a) 0 = fa_gpu_quota a" if "0 < remaining'"
    proof -
      have "0 < ?r" using IH that by simp
      moreover have "?c \<le> fa_gpu_quota a" using Cons.prems(6) aU by blast
      ultimately have "dict_get_or ?g (fa_tenant_id a) 0 = fa_gpu_quota a"
        using False by (auto simp: min_def split: if_splits)
      then show ?thesis using mine by simp
    qed
    have "?r \<le> remaining" using False by simp
    moreover have "dict_get given' k = dict_get given k" if "k \<notin> fa_tenant_id ` set (a # as)" for k
      using IH that by auto
    moreover have "dict_get_or given (fa_tenant_id b) 0 \<le> dict_get_or given' (fa_tenant_id b) 0
        \<and> dict_get_or given' (fa_tenant_id b) 0 \<le> fa_gpu_quota b" if "b \<in> U" for b
      using IH mono [OF that] that by (meson order.trans)
    moreover have "dict_get_or given' (fa_tenant_id b) 0 = fa_gpu_quota b" if "0 < remaining'" "b \<in> set (a # as)" for b
      using IH full that by auto
    moreover have "0 \<le> remaining'" "remaining' \<le> ?r"
      "sum_list (dict_values given') + remaining' = sum_list (dict_values given) + remaining"
      using IH sum by simp_all
    ultimately show ?thesis by (meson order.trans)
  qed
qed

lemma drf_allocations:
  assumes "dict_ok tenants" and "0 < n" and "tenants \<noteq> []"
  defines "as \<equiv> dr_allocations (drf_compute tenants n)"
  shows "set as = allocation_of (total_weight tenants) n ` set tenants"
    and "distinct (map fa_tenant_id (sorted_by f as))" and "distinct (map fa_tenant_id (sorted_by_desc g as))"
    and "inj_on fa_tenant_id (set as)"
proof -
  let ?a = "map (allocation_of (total_weight tenants) n) tenants"
  have as: "as = sorted_by (\<lambda>a. - fa_dominant_share a) ?a"
    using assms(2,3) by (simp add: as_def drf_compute_def Let_def)
  then show "set as = allocation_of (total_weight tenants) n ` set tenants" by simp
  have ids: "map fa_tenant_id ?a = map fst tenants" by (simp add: allocation_of_def Let_def)
  have "distinct (map fa_tenant_id ?a)" unfolding ids using assms(1) by (simp only: dict_ok_def)
  then have d: "distinct (map fa_tenant_id as)" unfolding as by (rule distinct_sorted)
  then show "distinct (map fa_tenant_id (sorted_by f as))" "distinct (map fa_tenant_id (sorted_by_desc g as))"
    by (rule distinct_sorted)+
  from d show "inj_on fa_tenant_id (set as)" by (simp add: distinct_map)
qed

lemma sum_over_keys:
  assumes "dict_ok d" and "distinct ks" and "set ks = dom (dict_get d)"
  shows "sum_list (dict_values d) = sum_list (map (\<lambda>k. dict_get_or d k (0::int)) ks)"
proof -
  have "sum_list (dict_values d) = sum_list (map (\<lambda>k. dict_get_or d k 0) (map fst d))"
    using assms(1) by (auto simp: dict_values_def dict_ok_def dict_get_or_def intro!: arg_cong [of _ _ sum_list])
  also have "... = (\<Sum>k \<in> set (map fst d). dict_get_or d k 0)"
    using assms(1) by (intro sum_list_distinct_conv_sum_set) (simp add: dict_ok_def)
  also have "... = (\<Sum>k \<in> set ks. dict_get_or d k 0)" using assms(3) by (simp add: dom_map_of_conv_image_fst)
  also have "... = sum_list (map (\<lambda>k. dict_get_or d k 0) ks)"
    using assms(2) by (intro sum_list_distinct_conv_sum_set [symmetric])
  finally show ?thesis .
qed

lemma give_share_ok: "dict_ok (fst st) \<Longrightarrow> dict_ok (fst (fold (give_share n) as st))"
  by (induction as arbitrary: st) (auto simp: give_share_def Let_def split: prod.splits)

lemma give_extra_ok:
  "dict_ok (fst st) \<Longrightarrow> dict_ok (fst (give_extra as st)) \<and>
    (\<forall>k. dict_get (fst st) k \<noteq> None \<longrightarrow> dict_get (fst (give_extra as st)) k \<noteq> None)"
  by (induction as st rule: give_extra.induct) (simp_all add: Let_def)

abbreviation quota_of :: "int \<Rightarrow> tenant_info \<Rightarrow> int" where
  "quota_of n info \<equiv> or_default (tn_quota info) n"

lemma schedule_run:
  assumes ok: "dict_ok tenants" and n: "0 < n" and ne: "tenants \<noteq> []"
    and pos: "\<forall>info \<in> set (dict_values tenants). 0 \<le> or_default (tn_allocated_gpus info) 0 \<and> 0 \<le> quota_of n info"
  obtains r where "dict_ok (schedule tenants n)" and "dom (dict_get (schedule tenants n)) = fst ` set tenants"
    and "0 \<le> r" and "sum_list (dict_values (schedule tenants n)) + r = n"
    and "\<And>k info. (k, info) \<in> set tenants \<Longrightarrow> 0 \<le> dict_get_or (schedule tenants n) k 0
      \<and> dict_get_or (schedule tenants n) k 0 \<le> quota_of n info
      \<and> (0 < r \<longrightarrow> dict_get_or (schedule tenants n) k 0 = quota_of n info)"
proof -
  define as where "as = dr_allocations (drf_compute tenants n)"
  note facts = drf_allocations [OF ok n ne, folded as_def]
  let ?one = "sorted_by_desc fa_priority as" and ?two = "sorted_by fa_dominant_share as"
  have alloc: "fa_tenant_id (allocation_of w n t) = fst t" "fa_gpu_quota (allocation_of w n t) = quota_of n (snd t)"
    "fa_gpus_allocated (allocation_of w n t) = or_default (tn_allocated_gpus (snd t)) 0" for w t
    by (simp_all add: allocation_of_def Let_def)
  have ids: "fa_tenant_id ` set as = fst ` set tenants" by (simp add: facts(1) alloc image_image)
  obtain g r where gr: "fold (give_share n) ?one ([], n) = (g, r)" by fastforce
  have "\<forall>a \<in> set ?one. 0 \<le> fa_gpus_allocated a \<and> 0 \<le> fa_gpu_quota a"
    using pos by (auto simp: facts(1) alloc dict_values_def)
  with gr have one: "0 \<le> r \<and> sum_list (dict_values g) + r = n \<and> within_quota ?one g
    \<and> (\<forall>k. k \<notin> fa_tenant_id ` set ?one \<longrightarrow> dict_get g k = None) \<and> (\<forall>a \<in> set ?one. dict_get g (fa_tenant_id a) \<noteq> None)"
    using give_share_fold [OF gr _ _ facts(3)] n by simp
  obtain g' r' where gr': "give_extra ?two (g, r) = (g', r')" by fastforce
  have bounded: "\<forall>a \<in> set as. 0 \<le> dict_get_or g (fa_tenant_id a) 0 \<and> dict_get_or g (fa_tenant_id a) 0 \<le> fa_gpu_quota a"
    using one by (simp add: within_quota_def)
  note two = give_extra_run [OF gr' _ facts(2) _ facts(4) bounded]
  have okg: "dict_ok g" using give_share_ok [of "([], n)" n ?one] gr by simp
  note okg' = give_extra_ok [of "(g, r)" ?two, simplified gr' fst_conv, OF okg]
  have stop: "r' = 0 \<and> g' = g" if "r = 0" using that gr' by (cases ?two) simp_all
  have sch: "schedule tenants n = g'"
    using gr gr' stop one by (auto simp: schedule_def as_def [symmetric] Let_def)
  show thesis
  proof (rule that [of r'])
    show "dict_ok (schedule tenants n)" using okg' sch by simp
    have "dict_get g' k \<noteq> None \<longleftrightarrow> k \<in> fa_tenant_id ` set as" for k
      using one two okg' by fastforce
    then show "dom (dict_get (schedule tenants n)) = fst ` set tenants" by (auto simp: sch ids)
    show "0 \<le> r'" "sum_list (dict_values (schedule tenants n)) + r' = n" using one two sch by simp_all
    fix k info assume t: "(k, info) \<in> set tenants"
    let ?a = "allocation_of (total_weight tenants) n (k, info)"
    have a: "?a \<in> set as" "fa_tenant_id ?a = k" "fa_gpu_quota ?a = quota_of n info" using t by (auto simp: facts(1) alloc)
    then have "0 \<le> dict_get_or g k 0" using bounded by metis
    then show "0 \<le> dict_get_or (schedule tenants n) k 0 \<and> dict_get_or (schedule tenants n) k 0 \<le> quota_of n info
      \<and> (0 < r' \<longrightarrow> dict_get_or (schedule tenants n) k 0 = quota_of n info)"
      using two one a sch by (metis order.trans set_sorted_by subset_refl)
  qed
qed

text \<open>
  C24: the proportional scheduler wastes nothing and respects every quota: with non-negative
  allocations and quotas, every tenant gets an entry between zero and its quota, and the GPUs given
  away are all of them or, where the quotas do not suffice for that, exactly the sum of the quotas.
\<close>

theorem schedule_gives_all:
  assumes "dict_ok tenants" and "0 < n"
    and "\<forall>info \<in> set (dict_values tenants). 0 \<le> or_default (tn_allocated_gpus info) 0 \<and> 0 \<le> or_default (tn_quota info) n"
  shows "dom (dict_get (schedule tenants n)) = fst ` set tenants
    \<and> (\<forall>k info. (k, info) \<in> set tenants \<longrightarrow>
          0 \<le> dict_get_or (schedule tenants n) k 0 \<and> dict_get_or (schedule tenants n) k 0 \<le> or_default (tn_quota info) n)
    \<and> sum_list (dict_values (schedule tenants n))
        = min n (sum_list (map (\<lambda>info. or_default (tn_quota info) n) (dict_values tenants)))"
proof (cases "tenants = []")
  case True
  then show ?thesis using assms(2) by (simp add: schedule_def drf_compute_def sorted_by_def sorted_by_desc_def)
next
  case False
  from schedule_run [OF assms(1,2) False assms(3)] obtain r where
    run: "dict_ok (schedule tenants n)" "dom (dict_get (schedule tenants n)) = fst ` set tenants"
      "0 \<le> r" "sum_list (dict_values (schedule tenants n)) + r = n"
    and each: "\<And>k info. (k, info) \<in> set tenants \<Longrightarrow> 0 \<le> dict_get_or (schedule tenants n) k 0
      \<and> dict_get_or (schedule tenants n) k 0 \<le> quota_of n info
      \<and> (0 < r \<longrightarrow> dict_get_or (schedule tenants n) k 0 = quota_of n info)" by blast
  let ?q = "sum_list (map (quota_of n) (dict_values tenants))"
  have "sum_list (dict_values (schedule tenants n)) = sum_list (map (\<lambda>k. dict_get_or (schedule tenants n) k 0) (map fst tenants))"
    using run(1,2) assms(1) by (intro sum_over_keys) (simp_all add: dict_ok_def)
  then have sum: "sum_list (dict_values (schedule tenants n)) = sum_list (map (\<lambda>t. dict_get_or (schedule tenants n) (fst t) 0) tenants)"
    by (simp add: comp_def)
  have q: "?q = sum_list (map (\<lambda>t. quota_of n (snd t)) tenants)" by (simp add: dict_values_def comp_def)
  have "sum_list (map (\<lambda>t. dict_get_or (schedule tenants n) (fst t) 0) tenants) \<le> sum_list (map (\<lambda>t. quota_of n (snd t)) tenants)"
    using each by (intro sum_list_mono) auto
  moreover have "map (\<lambda>t. dict_get_or (schedule tenants n) (fst t) 0) tenants = map (\<lambda>t. quota_of n (snd t)) tenants" if "0 < r"
    using each that by auto
  then have "0 < r \<Longrightarrow> sum_list (map (\<lambda>t. dict_get_or (schedule tenants n) (fst t) 0) tenants) = sum_list (map (\<lambda>t. quota_of n (snd t)) tenants)"
    by metis
  ultimately have "sum_list (dict_values (schedule tenants n)) = min n ?q"
    using run(3,4) sum q by (cases "0 < r") auto
  with run each show ?thesis by blast
qed

definition two_tenants :: "(string, tenant_info) dict" where
  "two_tenants =
     [(''red'', \<lparr>tn_weight = Some 3, tn_requested_gpus = Some 2, tn_allocated_gpus = Some 1, tn_quota = Some 4, tn_priority = Some 2, tn_preemptible = None\<rparr>),
      (''blue'', \<lparr>tn_weight = None, tn_requested_gpus = Some 0, tn_allocated_gpus = None, tn_quota = None, tn_priority = None, tn_preemptible = None\<rparr>)]"

theorem schedule_gives_all_witness: "sum_list (dict_values (schedule two_tenants 8)) = 8"
proof -
  have "dict_ok two_tenants" by (simp add: dict_ok_def two_tenants_def)
  moreover have "\<forall>info \<in> set (dict_values two_tenants).
      0 \<le> or_default (tn_allocated_gpus info) 0 \<and> 0 \<le> or_default (tn_quota info) 8"
    by (simp add: dict_values_def two_tenants_def)
  moreover have "sum_list (map (\<lambda>info. or_default (tn_quota info) 8) (dict_values two_tenants)) = 12"
    by (simp add: dict_values_def two_tenants_def)
  ultimately show ?thesis using schedule_gives_all [of two_tenants 8] by simp
qed

end
