(* ===== verification/Flavors.thy ===== *)
theory Flavors
  imports Prelude "HOL-Library.Product_Lexorder"
begin

text \<open>
  \<open>ResourceFlavorManager\<close> of src/src/gpuopt/scheduler/resource_flavors.py: the flavors of nodes, their
  reported usage and the choice of a flavor for a workload. Values set by \<open>update_flavor\<close> have the
  declared types.
\<close>

subsection \<open>Flavors and usage\<close>

datatype flavor_tier = PREMIUM | STANDARD | SPOT | RESERVED

fun flavor_tier_value :: "flavor_tier \<Rightarrow> string" where
  "flavor_tier_value PREMIUM = ''premium''"
| "flavor_tier_value STANDARD = ''standard''"
| "flavor_tier_value SPOT = ''spot''"
| "flavor_tier_value RESERVED = ''reserved''"

record flavor =
  fl_name :: string
  fl_node_labels :: "(string, string) dict"
  fl_node_taints :: "(string, string) dict list"
  fl_resources :: "(string, string) dict"
  fl_tier :: flavor_tier
  fl_priority :: int
  fl_max_workloads :: int
  fl_active :: bool
  fl_labels :: "(string, string) dict"

record flavor_usage =
  fu_flavor_name :: string
  fu_total_gpus :: int
  fu_used_gpus :: int
  fu_available_gpus :: int
  fu_total_memory_gib :: rat
  fu_used_memory_gib :: rat
  fu_utilization_percent :: rat
  fu_workloads_admitted :: int
  fu_workloads_pending :: int

record flavors =
  fm_flavors :: "(string, flavor) dict"
  fm_usage :: "(string, flavor_usage) dict"

definition no_flavors :: flavors where
  "no_flavors = \<lparr>fm_flavors = [], fm_usage = []\<rparr>"

definition create_flavor ::
  "string \<Rightarrow> (string, string) dict \<Rightarrow> (string, string) dict list \<Rightarrow> (string, string) dict \<Rightarrow> flavor_tier \<Rightarrow> int \<Rightarrow> int
    \<Rightarrow> flavors \<Rightarrow> flavors \<times> flavor" where
  "create_flavor name node_labels node_taints resources tier priority max_workloads s =
     (let f = \<lparr>fl_name = name, fl_node_labels = node_labels, fl_node_taints = node_taints,
               fl_resources = (if resources = [] then [(''nvidia.com/gpu'', ''1'')] else resources),
               fl_tier = tier, fl_priority = priority, fl_max_workloads = max_workloads, fl_active = True, fl_labels = []\<rparr>
      in (s\<lparr>fm_flavors := dict_set name f (fm_flavors s)\<rparr>, f))"

definition get_flavor :: "string \<Rightarrow> flavors \<Rightarrow> flavor option" where
  "get_flavor name s = dict_get (fm_flavors s) name"

definition list_flavors :: "flavor_tier option \<Rightarrow> flavors \<Rightarrow> flavor list" where
  "list_flavors tier s =
     (case tier of
        Some t \<Rightarrow> filter (\<lambda>f. fl_tier f = t) (dict_values (fm_flavors s))
      | None \<Rightarrow> dict_values (fm_flavors s))"

datatype flavor_update =
    SetFlavorName string
  | SetNodeLabels "(string, string) dict"
  | SetNodeTaints "(string, string) dict list"
  | SetResources "(string, string) dict"
  | SetTier flavor_tier
  | SetPriority int
  | SetMaxWorkloads int
  | SetActive bool
  | SetLabels "(string, string) dict"
  | SetUnknown string

fun apply_flavor_update :: "flavor_update \<Rightarrow> flavor \<Rightarrow> flavor" where
  "apply_flavor_update (SetFlavorName v) f = f\<lparr>fl_name := v\<rparr>"
| "apply_flavor_update (SetNodeLabels v) f = f\<lparr>fl_node_labels := v\<rparr>"
| "apply_flavor_update (SetNodeTaints v) f = f\<lparr>fl_node_taints := v\<rparr>"
| "apply_flavor_update (SetResources v) f = f\<lparr>fl_resources := v\<rparr>"
| "apply_flavor_update (SetTier v) f = f\<lparr>fl_tier := v\<rparr>"
| "apply_flavor_update (SetPriority v) f = f\<lparr>fl_priority := v\<rparr>"
| "apply_flavor_update (SetMaxWorkloads v) f = f\<lparr>fl_max_workloads := v\<rparr>"
| "apply_flavor_update (SetActive v) f = f\<lparr>fl_active := v\<rparr>"
| "apply_flavor_update (SetLabels v) f = f\<lparr>fl_labels := v\<rparr>"
| "apply_flavor_update (SetUnknown _) f = f"

definition update_flavor :: "string \<Rightarrow> flavor_update list \<Rightarrow> flavors \<Rightarrow> flavors \<times> flavor option" where
  "update_flavor name us s =
     (case dict_get (fm_flavors s) name of
        None \<Rightarrow> (s, None)
      | Some f \<Rightarrow>
          (let f' = fold apply_flavor_update us f in (s\<lparr>fm_flavors := dict_set name f' (fm_flavors s)\<rparr>, Some f')))"

definition delete_flavor :: "string \<Rightarrow> flavors \<Rightarrow> flavors \<times> bool" where
  "delete_flavor name s =
     (if dict_has (fm_flavors s) name then
        (\<lparr>fm_flavors = dict_pop name (fm_flavors s), fm_usage = dict_pop name (fm_usage s)\<rparr>, True)
      else (s, False))"

definition update_flavor_usage :: "string \<Rightarrow> int \<Rightarrow> int \<Rightarrow> rat \<Rightarrow> rat \<Rightarrow> int \<Rightarrow> int \<Rightarrow> flavors \<Rightarrow> flavors" where
  "update_flavor_usage name total_gpus used_gpus total_memory used_memory admitted pending s =
     s\<lparr>fm_usage := dict_set name
        \<lparr>fu_flavor_name = name, fu_total_gpus = total_gpus, fu_used_gpus = used_gpus,
         fu_available_gpus = total_gpus - used_gpus, fu_total_memory_gib = total_memory,
         fu_used_memory_gib = used_memory,
         fu_utilization_percent = py_round 1 (of_int used_gpus / of_int (max total_gpus 1) * 100),
         fu_workloads_admitted = admitted, fu_workloads_pending = pending\<rparr> (fm_usage s)\<rparr>"

definition get_usage :: "string \<Rightarrow> flavors \<Rightarrow> flavor_usage option" where
  "get_usage name s = dict_get (fm_usage s) name"

definition get_all_usage :: "flavors \<Rightarrow> flavor_usage list" where
  "get_all_usage s = dict_values (fm_usage s)"

subsection \<open>The choice of a flavor\<close>

definition flavor_order :: "flavor \<Rightarrow> int \<times> string" where
  "flavor_order f = (- fl_priority f, fl_name f)"

definition flavor_candidates :: "flavor_tier option \<Rightarrow> string list \<Rightarrow> flavors \<Rightarrow> flavor list" where
  "flavor_candidates preferred exclude s =
     (let candidates = sorted_by flavor_order
            (filter (\<lambda>f. fl_active f \<and> fl_name f \<notin> set exclude) (dict_values (fm_flavors s)))
      in case preferred of
           None \<Rightarrow> candidates
         | Some t \<Rightarrow>
             (let tier_candidates = filter (\<lambda>f. fl_tier f = t) candidates
              in if tier_candidates \<noteq> [] then tier_candidates else candidates))"

text \<open>A flavor whose usage was never reported counts as free.\<close>

definition has_capacity :: "int \<Rightarrow> flavors \<Rightarrow> flavor \<Rightarrow> bool" where
  "has_capacity required_gpus s f \<longleftrightarrow>
     (case dict_get (fm_usage s) (fl_name f) of None \<Rightarrow> True | Some u \<Rightarrow> required_gpus \<le> fu_available_gpus u)"

definition select_flavor :: "int \<Rightarrow> flavor_tier option \<Rightarrow> string list \<Rightarrow> flavors \<Rightarrow> flavor option" where
  "select_flavor required_gpus preferred exclude s =
     (let candidates = flavor_candidates preferred exclude s
      in case find (has_capacity required_gpus s) candidates of
           Some f \<Rightarrow> Some f
         | None \<Rightarrow> (case candidates of [] \<Rightarrow> None | f # _ \<Rightarrow> Some f))"

definition to_kueue_spec :: "flavor \<Rightarrow> json" where
  "to_kueue_spec f =
     JObj [(''name'', JStr (fl_name f)),
       (''nodeLabels'', JObj (map (\<lambda>(k, v). (k, JStr v)) (fl_node_labels f))),
       (''nodeTaints'', JList (map (\<lambda>t. JObj (map (\<lambda>(k, v). (k, JStr v)) t)) (fl_node_taints f))),
       (''resources'', JList (map (\<lambda>(k, v). JObj [(''name'', JStr k), (''nominalQuota'', JStr v)]) (fl_resources f))),
       (''tier'', JStr (flavor_tier_value (fl_tier f))), (''priority'', JInt (fl_priority f))]"

lemma find_first:
  assumes "find P xs = Some x" and "sorted (map f xs)" and "y \<in> set xs" and "P y"
  shows "f x \<le> f y"
  using assms by (induction xs) (auto split: if_splits)

lemma candidates_sorted: "sorted (map flavor_order (flavor_candidates preferred exclude s))"
proof -
  have "sorted (map flavor_order (filter P (sorted_by flavor_order xs)))" for P xs
    by (intro sorted_filter) (simp add: sorted_by_def)
  from this [of "\<lambda>_. True"] this show ?thesis
    by (auto simp: flavor_candidates_def Let_def split: option.split)
qed

text \<open>
  Which flavor a workload gets: none exactly when no active flavor remains after the exclusions;
  otherwise the choice is among the active flavors that are not excluded, of the preferred tier when
  there is one of it, and among those it is the one with enough free GPUs that comes first by
  priority and name. When none of them has room the choice is the first of all, although the
  workload does not fit, even if a flavor of another tier has room.
\<close>

theorem select_flavor_choice:
  assumes "eligible = {f \<in> set (dict_values (fm_flavors s)). fl_active f \<and> fl_name f \<notin> set exclude}"
    and "pool = (case preferred of None \<Rightarrow> eligible
       | Some t \<Rightarrow> if \<exists>f \<in> eligible. fl_tier f = t then {f \<in> eligible. fl_tier f = t} else eligible)"
  shows "(select_flavor n preferred exclude s = None \<longleftrightarrow> eligible = {})
    \<and> (\<forall>f. select_flavor n preferred exclude s = Some f \<longrightarrow> f \<in> pool
         \<and> (if \<exists>g \<in> pool. has_capacity n s g
            then has_capacity n s f \<and> (\<forall>g \<in> pool. has_capacity n s g \<longrightarrow> flavor_order f \<le> flavor_order g)
            else \<forall>g \<in> pool. flavor_order f \<le> flavor_order g))"
proof -
  let ?c = "flavor_candidates preferred exclude s"
  have pool: "set ?c = pool"
    using assms by (auto simp: flavor_candidates_def Let_def filter_empty_conv split: option.split)
  have some: "pool = {} \<longleftrightarrow> eligible = {}" using assms(2) by (auto split: option.split)
  show ?thesis
  proof (cases "find (has_capacity n s) ?c")
    case None
    then have full: "\<not> (\<exists>g \<in> pool. has_capacity n s g)" using pool by (auto simp: find_None_iff)
    show ?thesis
    proof (cases ?c)
      case Nil
      then have "select_flavor n preferred exclude s = None" using None by (simp add: select_flavor_def Let_def)
      then show ?thesis using Nil pool some by simp
    next
      case (Cons f fs)
      then have "select_flavor n preferred exclude s = Some f" using None by (simp add: select_flavor_def Let_def)
      moreover have "f \<in> pool" "\<forall>g \<in> pool. flavor_order f \<le> flavor_order g"
        using candidates_sorted [of preferred exclude s] Cons pool [symmetric] by auto
      ultimately show ?thesis using full some by auto
    qed
  next
    case (Some f)
    then have "select_flavor n preferred exclude s = Some f" by (simp add: select_flavor_def Let_def)
    moreover have "f \<in> pool" "has_capacity n s f" using find_SomeD [OF Some] pool by auto
    moreover have "flavor_order f \<le> flavor_order g" if "g \<in> pool" "has_capacity n s g" for g
      using find_first [OF Some candidates_sorted] that pool by auto
    ultimately show ?thesis using some by auto
  qed
qed

definition sample_flavors :: flavors where
  "sample_flavors =
     update_flavor_usage ''a100'' 8 8 640 640 3 2
       (fst (create_flavor ''t4'' [] [] [] SPOT 1 0 (fst (create_flavor ''a100'' [] [] [] PREMIUM 9 0 no_flavors))))"

text \<open>A full premium flavor is chosen although a spot flavor is free.\<close>

theorem select_flavor_choice_witness:
  "\<exists>f. select_flavor 4 (Some PREMIUM) [] sample_flavors = Some f \<and> fl_name f = ''a100'' \<and> \<not> has_capacity 4 sample_flavors f"
proof -
  let ?a = "\<lparr>fl_name = ''a100'', fl_node_labels = [], fl_node_taints = [], fl_resources = [(''nvidia.com/gpu'', ''1'')],
      fl_tier = PREMIUM, fl_priority = 9, fl_max_workloads = 0, fl_active = True, fl_labels = []\<rparr>"
  let ?t = "\<lparr>fl_name = ''t4'', fl_node_labels = [], fl_node_taints = [], fl_resources = [(''nvidia.com/gpu'', ''1'')],
      fl_tier = SPOT, fl_priority = 1, fl_max_workloads = 0, fl_active = True, fl_labels = []\<rparr>"
  have fs: "set (dict_values (fm_flavors sample_flavors)) = {?a, ?t}"
    by (simp add: sample_flavors_def update_flavor_usage_def create_flavor_def no_flavors_def dict_values_def Let_def)
  have full: "\<not> has_capacity 4 sample_flavors ?a"
    by (simp add: has_capacity_def sample_flavors_def update_flavor_usage_def create_flavor_def no_flavors_def Let_def)
  have e: "{f \<in> set (dict_values (fm_flavors sample_flavors)). fl_active f \<and> fl_name f \<notin> set []} = {?a, ?t}"
    unfolding fs by auto
  have p: "(case Some PREMIUM of None \<Rightarrow> {?a, ?t} | Some t \<Rightarrow> if \<exists>f \<in> {?a, ?t}. fl_tier f = t then {f \<in> {?a, ?t}. fl_tier f = t} else {?a, ?t}) = {?a}"
    by auto
  from select_flavor_choice [OF e [symmetric] p [symmetric], of 4] full show ?thesis
    by (cases "select_flavor 4 (Some PREMIUM) [] sample_flavors") auto
qed

end
