(* ===== verification/TenantControls.thy ===== *)
theory TenantControls
  imports Values
begin

text \<open>
  The extended governance of src/src/gpuopt/governance_extended.py: \<open>PolicyEnforcer\<close> (policy
  envelopes evaluated against a JSON context), \<open>RollbackManager\<close>, \<open>TenantQuotaManager\<close> and the
  operations of \<open>ExtendedGovernanceService\<close> on them. Fresh identifiers, random draws and the clock
  are arguments. The generators of explanations and reports only format texts and are left out.
\<close>

subsection \<open>Policy envelopes\<close>

record envelope =
  pe_policy_id :: uuid
  pe_name :: string
  pe_description :: string
  pe_domain :: string
  pe_rules :: "(string, json) dict list"
  pe_action :: string
  pe_enabled :: bool
  pe_created_at :: datetime

record failed_rule =
  fr_field :: json
  fr_operator :: json
  fr_expected :: json
  fr_actual :: json

record envelope_result =
  er_passed :: bool
  er_failed_rules :: "failed_rule list"
  er_action :: string

type_synonym enforcer = "(uuid, envelope) dict"

definition create_envelope ::
  "uuid \<Rightarrow> datetime \<Rightarrow> string \<Rightarrow> string \<Rightarrow> (string, json) dict list \<Rightarrow> string \<Rightarrow> enforcer \<Rightarrow> enforcer \<times> envelope" where
  "create_envelope i now name domain rules action s =
     (let e = \<lparr>pe_policy_id = i, pe_name = name,
               pe_description = ''Policy envelope for '' @ domain @ '': '' @ name,
               pe_domain = domain, pe_rules = rules, pe_action = action,
               pe_enabled = True, pe_created_at = now\<rparr>
      in (dict_set i e s, e))"

text \<open>\<open>context.get(field)\<close>: a list or dictionary is no key of a dictionary.\<close>

definition context_get :: "(string, json) dict \<Rightarrow> json \<Rightarrow> py_error + json" where
  "context_get ctx field =
     (case field of
        JStr f \<Rightarrow> Inr (dict_get_or ctx f JNull)
      | JList _ \<Rightarrow> Inl (TypeError ''unhashable type: list'')
      | JObj _ \<Rightarrow> Inl (TypeError ''unhashable type: dict'')
      | _ \<Rightarrow> Inr JNull)"

definition compare_by :: "json \<Rightarrow> json \<Rightarrow> json \<Rightarrow> py_error + bool" where
  "compare_by oper v expected =
     (let members = (if json_true expected then expected else JList []) in
      if oper = JStr ''eq'' then Inr (json_eq v expected)
      else if oper = JStr ''neq'' then Inr (\<not> json_eq v expected)
      else if oper = JStr ''gt'' then py_less expected v
      else if oper = JStr ''gte'' then py_le expected v
      else if oper = JStr ''lt'' then py_less v expected
      else if oper = JStr ''lte'' then py_le v expected
      else if oper = JStr ''in'' then py_in v members
      else if oper = JStr ''not_in'' then try_bind (py_in v members) (\<lambda>b. Inr (\<not> b))
      else Inr False)"

definition evaluate_rule :: "json \<Rightarrow> json \<Rightarrow> json \<Rightarrow> bool" where
  "evaluate_rule v oper expected =
     (v \<noteq> JNull \<and> (case compare_by oper v expected of Inl _ \<Rightarrow> False | Inr b \<Rightarrow> b))"

fun failed_rules :: "(string, json) dict \<Rightarrow> (string, json) dict list \<Rightarrow> py_error + failed_rule list" where
  "failed_rules ctx [] = Inr []"
| "failed_rules ctx (r # rs) =
     (let field = dict_get_or r ''field'' (JStr []);
          oper = dict_get_or r ''operator'' (JStr ''eq'');
          expected = dict_get_or r ''value'' JNull
      in try_bind (context_get ctx field) (\<lambda>v.
         try_bind (failed_rules ctx rs) (\<lambda>fs.
           Inr (if evaluate_rule v oper expected then fs
                else \<lparr>fr_field = field, fr_operator = oper, fr_expected = expected, fr_actual = v\<rparr> # fs))))"

definition evaluate_envelope :: "envelope \<Rightarrow> (string, json) dict \<Rightarrow> py_error + envelope_result" where
  "evaluate_envelope e ctx =
     try_bind (failed_rules ctx (pe_rules e)) (\<lambda>failed.
       Inr \<lparr>er_passed = (failed = []), er_failed_rules = failed,
            er_action = (if failed \<noteq> [] then pe_action e else ''allow'')\<rparr>)"

definition list_envelopes :: "string option \<Rightarrow> enforcer \<Rightarrow> envelope list" where
  "list_envelopes domain s =
     (case domain of
        Some (c # cs) \<Rightarrow> filter (\<lambda>e. pe_domain e = c # cs) (dict_values s)
      | _ \<Rightarrow> dict_values s)"

definition set_enabled :: "bool \<Rightarrow> uuid \<Rightarrow> enforcer \<Rightarrow> enforcer \<times> bool" where
  "set_enabled b i s =
     (case dict_get s i of
        None \<Rightarrow> (s, False)
      | Some e \<Rightarrow> (dict_set i (e\<lparr>pe_enabled := b\<rparr>) s, True))"

record policy_decision =
  pd_allowed :: bool
  pd_policy :: string
  pd_result :: envelope_result

fun enforce_loop :: "(string, json) dict \<Rightarrow> envelope list \<Rightarrow> py_error + policy_decision" where
  "enforce_loop ctx [] =
     Inr \<lparr>pd_allowed = True, pd_policy = ''all'',
          pd_result = \<lparr>er_passed = True, er_failed_rules = [], er_action = ''allow''\<rparr>\<rparr>"
| "enforce_loop ctx (e # es) =
     (if pe_enabled e then
        try_bind (evaluate_envelope e ctx) (\<lambda>r.
          if \<not> er_passed r then Inr \<lparr>pd_allowed = False, pd_policy = pe_name e, pd_result = r\<rparr>
          else enforce_loop ctx es)
      else enforce_loop ctx es)"

definition enforce_policy :: "string \<Rightarrow> (string, json) dict \<Rightarrow> enforcer \<Rightarrow> py_error + policy_decision" where
  "enforce_policy domain ctx s = enforce_loop ctx (list_envelopes (Some domain) s)"

subsection \<open>Rollback plans\<close>

record rollback_plan =
  rp_plan_id :: uuid
  rp_action_id :: string
  rp_action_type :: string
  rp_reason :: "piece list"
  rp_steps :: "string list"
  rp_estimated_time :: rat
  rp_risk_level :: string
  rp_automated :: bool
  rp_requires_approval :: bool

type_synonym rollback_plans = "(uuid, rollback_plan) dict"

definition create_plan ::
  "uuid \<Rightarrow> rat \<Rightarrow> string \<Rightarrow> string \<Rightarrow> piece list \<Rightarrow> rollback_plans \<Rightarrow> rollback_plans \<times> rollback_plan" where
  "create_plan i draw action_id action_type reason s =
     (let p = \<lparr>rp_plan_id = i, rp_action_id = action_id, rp_action_type = action_type, rp_reason = reason,
               rp_steps = [''Stop action '' @ action_id @ '' ('' @ action_type @ '')'',
                           ''Revert configuration changes for '' @ action_type,
                           ''Restore previous state from backup'',
                           ''Verify system health after rollback'',
                           ''Notify stakeholders of rollback''],
               rp_estimated_time = py_round 0 draw,
               rp_risk_level = (if action_type \<in> {''placement'', ''right_size''} then ''low'' else ''medium''),
               rp_automated = (action_type \<notin> {''preempt'', ''consolidate''}),
               rp_requires_approval = (action_type \<in> {''preempt'', ''consolidate''})\<rparr>
      in (dict_set i p s, p))"

record plan_execution =
  px_status :: string
  px_plan_id :: uuid
  px_steps_executed :: nat

definition execute_plan :: "rollback_plan \<Rightarrow> plan_execution" where
  "execute_plan p =
     \<lparr>px_status = ''completed'', px_plan_id = rp_plan_id p, px_steps_executed = length (rp_steps p)\<rparr>"

definition get_plan :: "uuid \<Rightarrow> rollback_plans \<Rightarrow> rollback_plan option" where
  "get_plan i s = dict_get s i"

definition list_plans :: "rollback_plans \<Rightarrow> rollback_plan list" where
  "list_plans s = dict_values s"

subsection \<open>Tenant quotas\<close>

record tenant_quota =
  tq_tenant_id :: string
  tq_tenant_name :: string
  tq_max_gpus :: int
  tq_max_memory_gb :: rat
  tq_max_priority :: int
  tq_gpus_in_use :: int
  tq_memory_in_use_gb :: rat
  tq_burst_allowed :: bool
  tq_burst_max_gpus :: int
  tq_quota_usage_percent :: rat

type_synonym quotas = "(string, tenant_quota) dict"

definition set_tenant_quota ::
  "string \<Rightarrow> string \<Rightarrow> int \<Rightarrow> rat \<Rightarrow> int \<Rightarrow> bool \<Rightarrow> int \<Rightarrow> quotas \<Rightarrow> quotas \<times> tenant_quota" where
  "set_tenant_quota tenant_id tenant_name max_gpus max_memory_gb priority burst_allowed burst_max_gpus s =
     (let q = (case dict_get s tenant_id of
          Some q \<Rightarrow> q\<lparr>tq_max_gpus := max_gpus, tq_max_memory_gb := max_memory_gb, tq_max_priority := priority,
                       tq_burst_allowed := burst_allowed, tq_burst_max_gpus := burst_max_gpus\<rparr>
        | None \<Rightarrow> \<lparr>tq_tenant_id = tenant_id, tq_tenant_name = tenant_name, tq_max_gpus = max_gpus,
                    tq_max_memory_gb = max_memory_gb, tq_max_priority = priority, tq_gpus_in_use = 0,
                    tq_memory_in_use_gb = 0, tq_burst_allowed = burst_allowed,
                    tq_burst_max_gpus = burst_max_gpus, tq_quota_usage_percent = 0\<rparr>)
      in (dict_set tenant_id q s, q))"

definition get_tenant_quota :: "string \<Rightarrow> quotas \<Rightarrow> tenant_quota option" where
  "get_tenant_quota tenant_id s = dict_get s tenant_id"

record quota_check =
  qc_allowed :: bool
  qc_reason :: "piece list"
  qc_usage_after :: rat

text \<open>\<open>round(x / y * 100, 1)\<close>.\<close>

definition percent_of :: "rat \<Rightarrow> rat \<Rightarrow> py_error + rat" where
  "percent_of x y =
     (if y = 0 then Inl (ZeroDivisionError ''division by zero'') else Inr (py_round 1 (x / y * 100)))"

definition check_quota :: "string \<Rightarrow> int \<Rightarrow> rat \<Rightarrow> quotas \<Rightarrow> py_error + quota_check" where
  "check_quota tenant_id requested_gpus requested_memory_gb s =
     (case dict_get s tenant_id of
        None \<Rightarrow> Inr \<lparr>qc_allowed = False, qc_reason = [Txt ''Tenant not found''], qc_usage_after = 0\<rparr>
      | Some q \<Rightarrow>
          (let gpus_after = tq_gpus_in_use q + requested_gpus;
               mem_after = tq_memory_in_use_gb q + requested_memory_gb;
               answer = (\<lambda>ok reason p. try_bind p (\<lambda>u. Inr \<lparr>qc_allowed = ok, qc_reason = reason, qc_usage_after = u\<rparr>));
               gpu_percent = percent_of (of_int gpus_after) (of_int (tq_max_gpus q))
           in if tq_max_gpus q < gpus_after then
                (if tq_burst_allowed q \<and> gpus_after \<le> tq_burst_max_gpus q
                 then answer True [Txt ''Burst quota used''] gpu_percent
                 else answer False [Txt (''GPU quota exceeded ('' @ int_str gpus_after @ '' > '' @ int_str (tq_max_gpus q) @ '')'')] gpu_percent)
              else if tq_max_memory_gb q < mem_after then
                answer False [Txt ''Memory quota exceeded ('', Fmt ''.0f'' (JFloat mem_after), Txt '' > '',
                              Fmt ''.0f'' (JFloat (tq_max_memory_gb q)), Txt '')'']
                  (percent_of mem_after (tq_max_memory_gb q))
              else answer True [Txt ''Quota available''] gpu_percent))"

definition list_quotas :: "quotas \<Rightarrow> tenant_quota list" where
  "list_quotas s = dict_values s"

definition update_usage :: "string \<Rightarrow> int \<Rightarrow> rat \<Rightarrow> quotas \<Rightarrow> quotas \<times> tenant_quota option" where
  "update_usage tenant_id gpus_used memory_used_gb s =
     (case dict_get s tenant_id of
        None \<Rightarrow> (s, None)
      | Some q \<Rightarrow>
          (let q' = q\<lparr>tq_gpus_in_use := gpus_used, tq_memory_in_use_gb := memory_used_gb,
                      tq_quota_usage_percent := py_round 1 (of_int gpus_used / of_int (max (tq_max_gpus q) 1) * 100)\<rparr>
           in (dict_set tenant_id q' s, Some q')))"

subsection \<open>The service\<close>

datatype quota_action =
    QuotaGet
  | QuotaSet string int rat "int option" "bool option" "int option"
  | QuotaCheck "int option" "rat option"
  | QuotaUpdateUsage "int option" "rat option"
  | QuotaOther string

datatype quota_answer = NoAnswer | QuotaAnswer tenant_quota | CheckAnswer quota_check

definition quota_or_none :: "tenant_quota option \<Rightarrow> quota_answer" where
  "quota_or_none q = (case q of None \<Rightarrow> NoAnswer | Some v \<Rightarrow> QuotaAnswer v)"

definition manage_tenant_quota :: "string \<Rightarrow> quota_action \<Rightarrow> quotas \<Rightarrow> py_error + quotas \<times> quota_answer" where
  "manage_tenant_quota tenant_id act s =
     (case act of
        QuotaGet \<Rightarrow> Inr (s, quota_or_none (get_tenant_quota tenant_id s))
      | QuotaSet name gpus mem priority burst burst_max \<Rightarrow>
          (let (s', q) = set_tenant_quota tenant_id name gpus mem (or_default priority 5) (or_default burst False)
                           (or_default burst_max 0) s
           in Inr (s', QuotaAnswer q))
      | QuotaCheck gpus mem \<Rightarrow>
          try_bind (check_quota tenant_id (or_default gpus 0) (or_default mem 0) s) (\<lambda>c. Inr (s, CheckAnswer c))
      | QuotaUpdateUsage gpus mem \<Rightarrow>
          (let (s', q) = update_usage tenant_id (or_default gpus 0) (or_default mem 0) s
           in Inr (s', quota_or_none q))
      | QuotaOther _ \<Rightarrow> Inr (s, NoAnswer))"

definition create_rollback ::
  "uuid \<Rightarrow> rat \<Rightarrow> string \<Rightarrow> string \<Rightarrow> string \<Rightarrow> rollback_plans \<Rightarrow> rollback_plans \<times> rollback_plan" where
  "create_rollback i draw action_id action_type reason s =
     create_plan i draw action_id action_type [Txt (if reason = [] then ''Manual rollback'' else reason)] s"

subsection \<open>What envelopes mean\<close>

text \<open>
  The abstract rules: a number in relation to a bound, a text equal to a value, a value that is, or
  is not, among some texts. \<open>holds_in\<close> says when a context satisfies one; \<open>encode\<close> is the JSON
  an operator writes for it.
\<close>

datatype order_rel = Below | AtMost | Above | AtLeast

datatype guard = Bound string order_rel rat | Is string string | Among string "string list" | NotAmong string "string list"

fun in_relation :: "order_rel \<Rightarrow> rat \<Rightarrow> rat \<Rightarrow> bool" where
  "in_relation Below x y = (x < y)"
| "in_relation AtMost x y = (x \<le> y)"
| "in_relation Above x y = (y < x)"
| "in_relation AtLeast x y = (y \<le> x)"

fun relation_name :: "order_rel \<Rightarrow> string" where
  "relation_name Below = ''lt''"
| "relation_name AtMost = ''lte''"
| "relation_name Above = ''gt''"
| "relation_name AtLeast = ''gte''"

fun encode :: "guard \<Rightarrow> (string, json) dict" where
  "encode (Bound f rel x) = [(''field'', JStr f), (''operator'', JStr (relation_name rel)), (''value'', JFloat x)]"
| "encode (Is f t) = [(''field'', JStr f), (''value'', JStr t)]"
| "encode (Among f ts) = [(''field'', JStr f), (''operator'', JStr ''in''), (''value'', JList (map JStr ts))]"
| "encode (NotAmong f ts) = [(''field'', JStr f), (''operator'', JStr ''not_in''), (''value'', JList (map JStr ts))]"

fun holds_in :: "(string, json) dict \<Rightarrow> guard \<Rightarrow> bool" where
  "holds_in ctx (Bound f rel x) = (\<exists>v n. dict_get ctx f = Some v \<and> json_num v = Some n \<and> in_relation rel n x)"
| "holds_in ctx (Is f t) = (dict_get ctx f = Some (JStr t))"
| "holds_in ctx (Among f ts) = (\<exists>t \<in> set ts. dict_get ctx f = Some (JStr t))"
| "holds_in ctx (NotAmong f ts) = (dict_get ctx f \<notin> {None, Some JNull} \<and> \<not> (\<exists>t \<in> set ts. dict_get ctx f = Some (JStr t)))"

fun guard_field :: "guard \<Rightarrow> string" where
  "guard_field (Bound f _ _) = f"
| "guard_field (Is f _) = f"
| "guard_field (Among f _) = f"
| "guard_field (NotAmong f _) = f"

lemma py_in_texts: "py_in v (JList (map JStr ts)) = Inr (\<exists>t \<in> set ts. v = JStr t)"
proof -
  have "json_eq v (JStr t) \<longleftrightarrow> v = JStr t" for t
    by (subst json_eq.simps) (cases v; auto)
  then show ?thesis by (auto simp: list_ex_iff)
qed

lemma py_less_number: "case_sum (\<lambda>_. False) (\<lambda>b. b) (py_less v (JFloat x)) \<longleftrightarrow> (\<exists>n. json_num v = Some n \<and> n < x)"
  "case_sum (\<lambda>_. False) (\<lambda>b. b) (py_less (JFloat x) v) \<longleftrightarrow> (\<exists>n. json_num v = Some n \<and> x < n)"
  by (cases v; simp add: num_or_type_error_def)+

lemma py_le_number: "case_sum (\<lambda>_. False) (\<lambda>b. b) (py_le v (JFloat x)) \<longleftrightarrow> (\<exists>n. json_num v = Some n \<and> n \<le> x)"
  "case_sum (\<lambda>_. False) (\<lambda>b. b) (py_le (JFloat x) v) \<longleftrightarrow> (\<exists>n. json_num v = Some n \<and> x \<le> n)"
  by (cases v; auto simp: py_le_def num_or_type_error_def json_eq_num)+

lemma json_eq_text: "json_eq v (JStr t) \<longleftrightarrow> v = JStr t"
  by (subst json_eq.simps) (cases v; auto)

lemma evaluate_guard:
  "evaluate_rule v (dict_get_or (encode g) ''operator'' (JStr ''eq'')) (dict_get_or (encode g) ''value'' JNull)
    \<longleftrightarrow> v \<noteq> JNull \<and>
      (case g of
         Bound f rel x \<Rightarrow> (\<exists>n. json_num v = Some n \<and> in_relation rel n x)
       | Is f t \<Rightarrow> v = JStr t
       | Among f ts \<Rightarrow> (\<exists>t \<in> set ts. v = JStr t)
       | NotAmong f ts \<Rightarrow> \<not> (\<exists>t \<in> set ts. v = JStr t))"
proof (cases g)
  case (Bound f rel x)
  then show ?thesis
    by (cases rel) (simp_all del: py_less.simps add: evaluate_rule_def compare_by_def dict_get_or_def py_less_number py_le_number)
next
  case (Is f t)
  then show ?thesis by (simp add: evaluate_rule_def compare_by_def dict_get_or_def json_eq_text)
next
  case (Among f ts)
  then show ?thesis using py_in_texts [of v ts] by (simp add: evaluate_rule_def compare_by_def dict_get_or_def)
next
  case (NotAmong f ts)
  then show ?thesis using py_in_texts [of v ts] by (simp add: evaluate_rule_def compare_by_def dict_get_or_def)
qed

lemma evaluate_encoded:
  "evaluate_rule (dict_get_or ctx (guard_field g) JNull)
     (dict_get_or (encode g) ''operator'' (JStr ''eq'')) (dict_get_or (encode g) ''value'' JNull) \<longleftrightarrow> holds_in ctx g"
proof (cases "dict_get ctx (guard_field g)")
  case None
  then show ?thesis unfolding evaluate_guard by (cases g) (simp_all add: dict_get_or_def)
next
  case (Some v)
  then show ?thesis unfolding evaluate_guard by (cases g; cases "v = JNull") (simp_all add: dict_get_or_def)
qed

lemma encode_field [simp]: "dict_get_or (encode g) ''field'' d = JStr (guard_field g)"
  by (cases g) (simp_all add: dict_get_or_def)

lemma failed_encoded:
  "\<exists>fs. failed_rules ctx (map encode gs) = Inr fs \<and> (fs = [] \<longleftrightarrow> (\<forall>g \<in> set gs. holds_in ctx g))"
proof (induction gs)
  case Nil
  then show ?case by simp
next
  case (Cons g gs)
  then obtain fs where "failed_rules ctx (map encode gs) = Inr fs" "fs = [] \<longleftrightarrow> (\<forall>g \<in> set gs. holds_in ctx g)" by blast
  then show ?case by (cases "holds_in ctx g") (simp_all add: Let_def context_get_def evaluate_encoded)
qed

lemma enforce_first:
  assumes "\<forall>e \<in> set es. \<exists>fs. failed_rules ctx (pe_rules e) = Inr fs \<and> (fs = [] \<longleftrightarrow> ok e)"
  shows "\<exists>d. enforce_loop ctx es = Inr d \<and>
    (if \<forall>e \<in> set es. pe_enabled e \<longrightarrow> ok e then pd_allowed d
     else \<not> pd_allowed d \<and>
       (\<exists>before e after. es = before @ e # after \<and> pe_enabled e \<and> pd_policy d = pe_name e
         \<and> \<not> ok e \<and> (\<forall>b \<in> set before. pe_enabled b \<longrightarrow> ok b)))"
  using assms
proof (induction es)
  case Nil
  then show ?case by simp
next
  case (Cons e es)
  obtain fs where fs: "failed_rules ctx (pe_rules e) = Inr fs" "fs = [] \<longleftrightarrow> ok e" using Cons.prems by auto
  obtain d where d: "enforce_loop ctx es = Inr d" and
    IH: "if \<forall>e \<in> set es. pe_enabled e \<longrightarrow> ok e then pd_allowed d
       else \<not> pd_allowed d \<and> (\<exists>before e after. es = before @ e # after \<and> pe_enabled e \<and> pd_policy d = pe_name e
         \<and> \<not> ok e \<and> (\<forall>b \<in> set before. pe_enabled b \<longrightarrow> ok b))"
    using Cons by auto
  show ?case
  proof (cases "pe_enabled e \<and> \<not> ok e")
    case True
    then have "enforce_loop ctx (e # es) = Inr \<lparr>pd_allowed = False, pd_policy = pe_name e,
        pd_result = \<lparr>er_passed = False, er_failed_rules = fs, er_action = pe_action e\<rparr>\<rparr>"
      using fs by (simp add: evaluate_envelope_def)
    moreover have "\<not> (\<forall>b \<in> set (e # es). pe_enabled b \<longrightarrow> ok b)" using True by auto
    moreover have "e # es = [] @ e # es" by simp
    ultimately show ?thesis using True by fastforce
  next
    case False
    then have run: "enforce_loop ctx (e # es) = Inr d" using d fs by (auto simp: evaluate_envelope_def)
    show ?thesis
    proof (cases "\<forall>b \<in> set es. pe_enabled b \<longrightarrow> ok b")
      case True
      then show ?thesis using run IH False by auto
    next
      case all: False
      obtain before b after where found: "\<not> pd_allowed d" "es = before @ b # after" "pe_enabled b"
        "pd_policy d = pe_name b" "\<not> ok b" "\<forall>c \<in> set before. pe_enabled c \<longrightarrow> ok c"
        using IH [unfolded if_not_P [OF all]] by blast
      then have "e # es = (e # before) @ b # after \<and> (\<forall>c \<in> set (e # before). pe_enabled c \<longrightarrow> ok c)" using False by auto
      moreover have "\<not> (\<forall>c \<in> set (e # es). pe_enabled c \<longrightarrow> ok c)" using all by auto
      ultimately show ?thesis using run found by metis
    qed
  qed
qed

text \<open>
  C25: policy envelopes decide as the rules they encode mean: when the rules of every envelope of a
  domain are JSON for bounds, equalities and memberships, a context is allowed exactly when it
  satisfies every rule of every enabled envelope, and otherwise the decision names the first enabled
  envelope, in the order of creation, that has a rule the context does not satisfy. A field the
  context lacks satisfies no rule, not even an exclusion, and the envelope's own action has no part
  in the decision: an envelope created to warn blocks.
\<close>

theorem enforce_policy_refines:
  assumes "\<forall>e \<in> set (list_envelopes (Some domain) s). pe_rules e = map encode (gs (pe_policy_id e))"
  shows "\<exists>d. enforce_policy domain ctx s = Inr d \<and>
    (if \<forall>e \<in> set (list_envelopes (Some domain) s). pe_enabled e \<longrightarrow> (\<forall>g \<in> set (gs (pe_policy_id e)). holds_in ctx g)
     then pd_allowed d
     else \<not> pd_allowed d \<and>
       (\<exists>before e after. list_envelopes (Some domain) s = before @ e # after \<and> pe_enabled e \<and> pd_policy d = pe_name e
         \<and> \<not> (\<forall>g \<in> set (gs (pe_policy_id e)). holds_in ctx g)
         \<and> (\<forall>b \<in> set before. pe_enabled b \<longrightarrow> (\<forall>g \<in> set (gs (pe_policy_id b)). holds_in ctx g))))"
proof -
  have "\<forall>e \<in> set (list_envelopes (Some domain) s). \<exists>fs. failed_rules ctx (pe_rules e) = Inr fs
      \<and> (fs = [] \<longleftrightarrow> (\<forall>g \<in> set (gs (pe_policy_id e)). holds_in ctx g))"
    using assms failed_encoded by metis
  from enforce_first [OF this] show ?thesis by (simp only: enforce_policy_def)
qed

definition night_guards :: "guard list" where
  "night_guards = [Bound ''gpus'' AtMost 8, NotAmong ''team'' [''guests'']]"

definition one_envelope :: enforcer where
  "one_envelope = fst (create_envelope ''e1'' 0 ''night'' ''jobs'' (map encode night_guards) ''warn'' [])"

theorem enforce_policy_refines_witness:
  "\<exists>d. enforce_policy ''jobs'' [(''gpus'', JInt 4)] one_envelope = Inr d \<and> \<not> pd_allowed d"
proof -
  have listed: "list_envelopes (Some ''jobs'') one_envelope =
      [\<lparr>pe_policy_id = ''e1'', pe_name = ''night'', pe_description = ''Policy envelope for jobs: night'', pe_domain = ''jobs'',
        pe_rules = map encode night_guards, pe_action = ''warn'', pe_enabled = True, pe_created_at = 0\<rparr>]"
    by (simp add: list_envelopes_def one_envelope_def create_envelope_def dict_values_def Let_def)
  have guard: "\<not> holds_in [(''gpus'', JInt 4)] (NotAmong ''team'' [''guests''])" by simp
  have "\<exists>d. enforce_policy ''jobs'' [(''gpus'', JInt 4)] one_envelope = Inr d \<and>
    (if \<forall>e \<in> set (list_envelopes (Some ''jobs'') one_envelope). pe_enabled e \<longrightarrow> (\<forall>g \<in> set night_guards. holds_in [(''gpus'', JInt 4)] g)
     then pd_allowed d else \<not> pd_allowed d \<and>
       (\<exists>before e after. list_envelopes (Some ''jobs'') one_envelope = before @ e # after \<and> pe_enabled e \<and> pd_policy d = pe_name e
         \<and> \<not> (\<forall>g \<in> set night_guards. holds_in [(''gpus'', JInt 4)] g)
         \<and> (\<forall>b \<in> set before. pe_enabled b \<longrightarrow> (\<forall>g \<in> set night_guards. holds_in [(''gpus'', JInt 4)] g))))"
    by (rule enforce_policy_refines) (simp add: listed)
  moreover have "\<not> (\<forall>g \<in> set night_guards. holds_in [(''gpus'', JInt 4)] g)"
    using guard unfolding night_guards_def by auto
  ultimately show ?thesis by (auto simp: listed)
qed

subsection \<open>Quota checks\<close>

text \<open>
  What a quota check answers and when it raises: for a tenant with a quota it raises
  \<open>ZeroDivisionError\<close> exactly when the figure it reports usage against is zero, which is every check
  of a tenant without GPUs unless the memory quota refuses the request first; otherwise it allows
  the request exactly when both totals stay within the quota, or when the GPUs exceed it and stay
  within the burst limit, whatever the memory then is.
\<close>

theorem check_quota_verdict:
  assumes "get_tenant_quota t s = Some q"
    and "g = tq_gpus_in_use q + req_gpus" and "m = tq_memory_in_use_gb q + req_mem"
  shows "((\<exists>msg. check_quota t req_gpus req_mem s = Inl (ZeroDivisionError msg)) \<longleftrightarrow>
       tq_max_gpus q = 0 \<and> \<not> (g \<le> 0 \<and> tq_max_memory_gb q < m)
       \<or> tq_max_memory_gb q = 0 \<and> g \<le> tq_max_gpus q \<and> 0 < m)
    \<and> (\<forall>c. check_quota t req_gpus req_mem s = Inr c \<longrightarrow>
         (qc_allowed c \<longleftrightarrow> g \<le> tq_max_gpus q \<and> m \<le> tq_max_memory_gb q
            \<or> tq_max_gpus q < g \<and> tq_burst_allowed q \<and> g \<le> tq_burst_max_gpus q))
    \<and> (\<forall>err. check_quota t req_gpus req_mem s = Inl err \<longrightarrow> (\<exists>msg. err = ZeroDivisionError msg))"
  using assms by (auto simp: check_quota_def get_tenant_quota_def Let_def percent_of_def)

definition burst_quotas :: quotas where
  "burst_quotas = fst (set_tenant_quota ''t1'' ''lab'' 4 64 5 True 8 [])"

text \<open>A burst request is allowed although it needs more memory than the tenant may have.\<close>

theorem check_quota_verdict_witness: "\<exists>c. check_quota ''t1'' 6 1000 burst_quotas = Inr c \<and> qc_allowed c"
proof -
  obtain q where q: "get_tenant_quota ''t1'' burst_quotas = Some q" "tq_gpus_in_use q = 0" "tq_max_gpus q = 4"
    "tq_burst_allowed q" "tq_burst_max_gpus q = 8" "tq_max_memory_gb q = 64" "tq_memory_in_use_gb q = 0"
    by (simp add: get_tenant_quota_def burst_quotas_def set_tenant_quota_def Let_def)
  note v = check_quota_verdict [OF q(1) refl refl, of 6 1000]
  show ?thesis using v q(2-7) by (cases "check_quota ''t1'' 6 1000 burst_quotas") auto
qed

end
