(* ===== verification/Canary.thy ===== *)
theory Canary
  imports TenantControls
begin

text \<open>
  \<open>CanaryManager\<close> of src/src/gpuopt/risk_r03_canary.py: a deployment goes through the steps of a
  template, each with its success criteria, and is rolled back when a criterion fails. A metric
  that the caller does not give is drawn at random; the draws, identifiers and the clock are
  arguments. The numbers at the end of the templates' criteria are finite.
\<close>

subsection \<open>Deployments\<close>

record canary_step =
  cn_name :: string
  cn_traffic_percent :: rat
  cn_duration_minutes :: rat
  cn_success_criteria :: "string list"
  cn_status :: string

record deployment =
  dp_deployment_id :: uuid
  dp_action_id :: string
  dp_action_type :: string
  dp_steps :: "canary_step list"
  dp_current_step :: nat
  dp_status :: string
  dp_rollback_triggered :: bool
  dp_started_at :: datetime
  dp_completed_at :: "datetime option"

record canary_manager =
  cm_deployments :: "(uuid, deployment) dict"
  cm_rollback :: rollback_plans

definition new_canaries :: canary_manager where
  "new_canaries = \<lparr>cm_deployments = [], cm_rollback = []\<rparr>"

definition step_of :: "string \<times> rat \<times> rat \<times> string list \<Rightarrow> canary_step" where
  "step_of t = (case t of (name, traffic, minutes, criteria) \<Rightarrow>
     \<lparr>cn_name = name, cn_traffic_percent = traffic, cn_duration_minutes = minutes,
      cn_success_criteria = criteria, cn_status = ''pending''\<rparr>)"

definition placement_steps :: "(string \<times> rat \<times> rat \<times> string list) list" where
  "placement_steps =
     [(''1% canary'', 1, 10, [''error_rate_below_0.01'', ''latency_p99_below_2x'']),
      (''5% canary'', 5, 15, [''error_rate_below_0.01'', ''latency_p99_below_1.5x'']),
      (''25% canary'', 25, 20, [''error_rate_below_0.005'', ''latency_p99_below_1.2x'']),
      (''50% canary'', 50, 30, [''error_rate_below_0.005'', ''latency_p99_below_1.1x'']),
      (''100% rollout'', 100, 60, [''error_rate_below_0.001'', ''latency_p99_below_1.0x''])]"

definition canary_templates :: "(string, (string \<times> rat \<times> rat \<times> string list) list) dict" where
  "canary_templates =
     [(''placement'', placement_steps),
      (''scale_down'',
        [(''drain 1 node'', 10, 15, [''workloads_migrated'', ''no_errors'']),
         (''drain 25% nodes'', 25, 20, [''workloads_migrated'', ''no_errors'', ''capacity_sufficient'']),
         (''drain 50% nodes'', 50, 30, [''workloads_migrated'', ''no_errors'']),
         (''full scale'', 100, 30, [''target_count_reached'', ''all_workloads_stable''])]),
      (''preempt'',
        [(''preempt 1 job'', 5, 5, [''job_preempted'', ''checkpoint_saved'']),
         (''preempt 10%'', 10, 10, [''all_preempted_ckpt_saved'', ''no_crashes'']),
         (''preempt 25%'', 25, 15, [''cluster_stable'', ''preempted_jobs_requeued''])])]"

definition create_canary ::
  "uuid \<Rightarrow> datetime \<Rightarrow> string \<Rightarrow> string \<Rightarrow> canary_manager \<Rightarrow> canary_manager \<times> deployment" where
  "create_canary i now action_id action_type m =
     (let d = \<lparr>dp_deployment_id = i, dp_action_id = action_id, dp_action_type = action_type,
               dp_steps = map step_of (dict_get_or canary_templates action_type placement_steps),
               dp_current_step = 0, dp_status = ''running'', dp_rollback_triggered = False,
               dp_started_at = now, dp_completed_at = None\<rparr>
      in (m\<lparr>cm_deployments := dict_set i d (cm_deployments m)\<rparr>, d))"

subsection \<open>Criteria\<close>

text \<open>\<open>criterion.split("_")[-1]\<close>, and the number it holds.\<close>

definition last_part :: "string \<Rightarrow> string" where
  "last_part s = rev (takeWhile (\<lambda>c. c \<noteq> CHR ''_'') (rev s))"

definition criterion_number :: "string \<Rightarrow> py_error + rat" where
  "criterion_number s =
     (case parse_float s of
        Some (Finite x) \<Rightarrow> Inr x
      | _ \<Rightarrow> Inl (ValueError ''could not convert string to float''))"

text \<open>What an attempt to advance reads besides the metrics: the random default of a criterion's metric, the clock, the rollback plan's identifier and draw.\<close>

record canary_env =
  ce_default :: "string \<Rightarrow> json"
  ce_now :: datetime
  ce_plan_id :: uuid
  ce_plan_draw :: rat

definition metric_above :: "json \<Rightarrow> rat \<Rightarrow> py_error + bool" where
  "metric_above v bound = py_less (JFloat bound) v"

definition criterion_met :: "canary_env \<Rightarrow> (string, json) dict \<Rightarrow> string \<Rightarrow> py_error + bool" where
  "criterion_met e metrics c =
     (if starts_with ''error_rate_below_'' c then
        try_bind (criterion_number (last_part c)) (\<lambda>threshold.
        try_bind (metric_above (dict_get_or metrics ''error_rate'' (ce_default e c)) threshold) (\<lambda>above. Inr (\<not> above)))
      else if starts_with ''latency_p99_below_'' c then
        try_bind (criterion_number (filter (\<lambda>x. x \<noteq> CHR ''x'') (last_part c))) (\<lambda>mult.
        try_bind (metric_above (dict_get_or metrics ''latency_p99'' (ce_default e c)) (100 * mult)) (\<lambda>above. Inr (\<not> above)))
      else if c = ''no_errors'' then
        try_bind (metric_above (dict_get_or metrics ''error_count'' (ce_default e c)) 0) (\<lambda>above. Inr (\<not> above))
      else Inr (json_true (dict_get_or metrics c (ce_default e c))))"

fun criteria_met :: "canary_env \<Rightarrow> (string, json) dict \<Rightarrow> string list \<Rightarrow> py_error + bool" where
  "criteria_met e metrics [] = Inr True"
| "criteria_met e metrics (c # cs) =
     try_bind (criterion_met e metrics c) (\<lambda>b. if b then criteria_met e metrics cs else Inr False)"

definition evaluate_step :: "canary_env \<Rightarrow> (string, json) dict \<Rightarrow> canary_step \<Rightarrow> py_error + bool" where
  "evaluate_step e metrics st = criteria_met e metrics (cn_success_criteria st)"

subsection \<open>Advancing\<close>

datatype advance_reply =
    NotFound
  | Completed uuid nat
  | Advancing uuid string string rat
  | RolledBack uuid string uuid

definition set_step_status :: "nat \<Rightarrow> string \<Rightarrow> deployment \<Rightarrow> deployment" where
  "set_step_status k status d = d\<lparr>dp_steps := (dp_steps d)[k := (dp_steps d ! k)\<lparr>cn_status := status\<rparr>]\<rparr>"

definition store_deployment :: "uuid \<Rightarrow> deployment \<Rightarrow> canary_manager \<Rightarrow> canary_manager" where
  "store_deployment i d m = m\<lparr>cm_deployments := dict_set i d (cm_deployments m)\<rparr>"

definition trigger_rollback ::
  "canary_env \<Rightarrow> uuid \<Rightarrow> string \<Rightarrow> deployment \<Rightarrow> canary_manager \<Rightarrow> canary_manager \<times> (py_error + advance_reply)" where
  "trigger_rollback e i reason d m =
     (let (plans, plan) = create_plan (ce_plan_id e) (ce_plan_draw e) (dp_action_id d) (dp_action_type d) [Txt reason] (cm_rollback m);
          d' = d\<lparr>dp_status := ''rolled_back'', dp_rollback_triggered := True, dp_completed_at := Some (ce_now e)\<rparr>
      in (store_deployment i d' (m\<lparr>cm_rollback := plans\<rparr>), Inr (RolledBack i reason (rp_plan_id plan))))"

definition advance_step ::
  "canary_env \<Rightarrow> uuid \<Rightarrow> (string, json) dict \<Rightarrow> canary_manager \<Rightarrow> canary_manager \<times> (py_error + advance_reply)" where
  "advance_step e i metrics m =
     (case dict_get (cm_deployments m) i of
        None \<Rightarrow> (m, Inr NotFound)
      | Some d \<Rightarrow>
          (let k = dp_current_step d in
           if length (dp_steps d) \<le> k then (m, Inl (IndexError ''list index out of range''))
           else
             (let st = dp_steps d ! k; running = set_step_status k ''running'' d in
              case evaluate_step e metrics st of
                Inl err \<Rightarrow> (store_deployment i running m, Inl err)
              | Inr True \<Rightarrow>
                  (let passed = (set_step_status k ''passed'' running)\<lparr>dp_current_step := Suc k\<rparr> in
                   if length (dp_steps d) \<le> Suc k then
                     (store_deployment i (passed\<lparr>dp_status := ''completed'', dp_completed_at := Some (ce_now e)\<rparr>) m,
                      Inr (Completed i (Suc k)))
                   else
                     (store_deployment i (set_step_status (Suc k) ''active'' passed) m,
                      Inr (Advancing i (cn_name st) (cn_name (dp_steps d ! Suc k)) (cn_traffic_percent (dp_steps d ! Suc k)))))
              | Inr False \<Rightarrow>
                  trigger_rollback e i (''Step '' @ quoted (cn_name st) @ '' failed criteria'')
                    (set_step_status k ''failed'' running) m)))"

definition get_deployment :: "uuid \<Rightarrow> canary_manager \<Rightarrow> deployment option" where
  "get_deployment i m = dict_get (cm_deployments m) i"

definition list_deployments :: "canary_manager \<Rightarrow> deployment list" where
  "list_deployments m = dict_values (cm_deployments m)"

subsection \<open>The moves of one deployment\<close>

text \<open>
  What an attempt may do to a deployment: nothing but the status of the current step when reading a
  metric raises, one step forward, the last step to completion, or a rollback at the same step.
\<close>

inductive canary_move :: "deployment \<Rightarrow> py_error + advance_reply \<Rightarrow> deployment \<Rightarrow> bool" where
  Raises: "k = dp_current_step d \<Longrightarrow> k < length (dp_steps d) \<Longrightarrow> canary_move d (Inl err) (set_step_status k ''running'' d)"
| Forward: "k = dp_current_step d \<Longrightarrow> Suc k < length (dp_steps d) \<Longrightarrow>
    canary_move d (Inr (Advancing i a b x))
      (set_step_status (Suc k) ''active'' ((set_step_status k ''passed'' d)\<lparr>dp_current_step := Suc k\<rparr>))"
| Finish: "k = dp_current_step d \<Longrightarrow> Suc k = length (dp_steps d) \<Longrightarrow>
    canary_move d (Inr (Completed i (Suc k)))
      ((set_step_status k ''passed'' d)\<lparr>dp_current_step := Suc k, dp_status := ''completed'', dp_completed_at := Some now\<rparr>)"
| Back: "k = dp_current_step d \<Longrightarrow> k < length (dp_steps d) \<Longrightarrow>
    canary_move d (Inr (RolledBack i why p))
      ((set_step_status k ''failed'' d)\<lparr>dp_status := ''rolled_back'', dp_rollback_triggered := True, dp_completed_at := Some now\<rparr>)"

inductive_cases canary_moveE: "canary_move d reply d'"

lemma set_step_status_twice [simp]: "set_step_status k a (set_step_status k b d) = set_step_status k a d"
  by (cases "k < length (dp_steps d)") (simp_all add: set_step_status_def list_update_beyond)

lemma set_step_status_fields [simp]:
  "dp_current_step (set_step_status k a d) = dp_current_step d" "dp_status (set_step_status k a d) = dp_status d"
  "length (dp_steps (set_step_status k a d)) = length (dp_steps d)"
  by (simp_all add: set_step_status_def)

lemma store_deployment_get [simp]:
  "dict_get (cm_deployments (store_deployment i d m)) = (dict_get (cm_deployments m))(i \<mapsto> d)"
  by (simp add: store_deployment_def)

lemma advance_moves:
  assumes "advance_step e i metrics m = (m', reply)" and "dict_get (cm_deployments m) i = Some d"
    and "dp_current_step d < length (dp_steps d)"
  shows "\<exists>d'. canary_move d reply d' \<and> dict_get (cm_deployments m') = (dict_get (cm_deployments m))(i \<mapsto> d')"
proof (cases "evaluate_step e metrics (dp_steps d ! dp_current_step d)")
  case (Inl err)
  then have "reply = Inl err \<and> m' = store_deployment i (set_step_status (dp_current_step d) ''running'' d) m"
    using assms by (auto simp: advance_step_def Let_def)
  then show ?thesis using assms(3) by (auto intro!: canary_move.intros)
next
  case (Inr b)
  show ?thesis
  proof (cases b)
    case False
    then show ?thesis
      using assms Inr by (auto simp: advance_step_def trigger_rollback_def create_plan_def Let_def intro!: canary_move.intros)
  next
    case True
    show ?thesis
    proof (cases "length (dp_steps d) \<le> Suc (dp_current_step d)")
      case last: True
      then show ?thesis
        using assms Inr True by (auto simp: advance_step_def Let_def intro!: exI canary_move.Finish)
    next
      case False
      then show ?thesis
        using assms Inr True by (auto simp: advance_step_def Let_def intro!: exI canary_move.Forward)
    qed
  qed
qed

lemma advance_closed:
  "dict_get (cm_deployments m) i = Some d \<Longrightarrow> length (dp_steps d) \<le> dp_current_step d \<Longrightarrow>
    advance_step e i metrics m = (m, Inl (IndexError ''list index out of range''))"
  "dict_get (cm_deployments m) i = None \<Longrightarrow> advance_step e i metrics m = (m, Inr NotFound)"
  by (simp_all add: advance_step_def Let_def)

subsection \<open>Runs of the manager\<close>

datatype canary_op =
    CoCreate uuid datetime string string
  | CoAdvance canary_env uuid "(string, json) dict"

fun canary_run :: "canary_op \<Rightarrow> canary_manager \<Rightarrow> canary_manager" where
  "canary_run (CoCreate i now action_id action_type) m = fst (create_canary i now action_id action_type m)"
| "canary_run (CoAdvance e i metrics) m = fst (advance_step e i metrics m)"

definition deployment_inv :: "deployment \<Rightarrow> bool" where
  "deployment_inv d \<longleftrightarrow>
     dp_current_step d \<le> length (dp_steps d)
     \<and> (\<forall>k < dp_current_step d. cn_status (dp_steps d ! k) = ''passed'')
     \<and> (dp_current_step d < length (dp_steps d) \<longrightarrow> cn_status (dp_steps d ! dp_current_step d) \<noteq> ''passed'')
     \<and> (\<forall>k. dp_current_step d < k \<and> k < length (dp_steps d) \<longrightarrow> cn_status (dp_steps d ! k) = ''pending'')
     \<and> (dp_status d = ''completed'' \<longleftrightarrow> dp_current_step d = length (dp_steps d))"

definition canaries_inv :: "canary_manager \<Rightarrow> bool" where
  "canaries_inv m \<longleftrightarrow> (\<forall>i d. dict_get (cm_deployments m) i = Some d \<longrightarrow> deployment_inv d)"

lemma set_step_status_nth:
  "j < length (dp_steps d) \<Longrightarrow>
    cn_status (dp_steps (set_step_status k a d) ! j) = (if j = k then a else cn_status (dp_steps d ! j))"
  by (simp add: set_step_status_def nth_list_update)

lemma move_inv: "canary_move d reply d' \<Longrightarrow> deployment_inv d \<Longrightarrow> deployment_inv d'"
proof (induction rule: canary_move.induct)
  case (Forward k d i a b x)
  then show ?case by (auto simp: deployment_inv_def set_step_status_nth less_Suc_eq)
next
  case (Finish k d i now)
  then show ?case by (auto simp: deployment_inv_def set_step_status_nth less_Suc_eq)
qed (auto simp: deployment_inv_def set_step_status_nth)

lemma template_steps: "dict_get_or canary_templates t placement_steps \<noteq> []"
  "length (dict_get_or canary_templates t placement_steps) \<le> 5"
  by (simp_all add: canary_templates_def placement_steps_def dict_get_or_def)

lemma created_inv: "deployment_inv (snd (create_canary i now a t m))"
  using template_steps [of t]
  by (simp add: create_canary_def deployment_inv_def Let_def step_of_def split: prod.splits)

lemma advance_keeps_inv: "canaries_inv m \<Longrightarrow> canaries_inv (fst (advance_step e i metrics m))"
proof (cases "dict_get (cm_deployments m) i")
  case (Some d)
  assume inv: "canaries_inv m"
  show ?thesis
  proof (cases "dp_current_step d < length (dp_steps d)")
    case True
    obtain m' reply where a: "advance_step e i metrics m = (m', reply)" by fastforce
    from advance_moves [OF a Some True] inv Some move_inv show ?thesis
      by (auto simp: a canaries_inv_def split: if_splits)
  qed (use inv Some in \<open>simp add: advance_closed\<close>)
qed (simp add: advance_closed)

interpretation canary_machine: invariant_machine canary_run "\<lambda>_ _. True" canaries_inv
proof
  fix s x assume inv: "canaries_inv s"
  show "canaries_inv (canary_run x s)"
  proof (cases x)
    case (CoCreate i now a t)
    then show ?thesis using inv created_inv [of i now a t s]
      by (auto simp: canaries_inv_def create_canary_def Let_def split: if_splits)
  next
    case (CoAdvance e i metrics)
    then show ?thesis using inv advance_keeps_inv by simp
  qed
qed

lemma reachable_inv: "canaries_inv (fold canary_run ops new_canaries)"
proof -
  have "run_allowed canary_run (\<lambda>_ _. True) ops m" for m by (induction ops arbitrary: m) auto
  then show ?thesis by (rule canary_machine.run_inv) (simp add: canaries_inv_def new_canaries_def)
qed

text \<open>
  C26: a canary exposes a step only after all earlier ones passed: in every state the manager reaches
  by creating deployments and attempting to advance them, with any metrics, a step of a stored
  deployment that is no longer pending has only passed steps before it, and the deployment reads
  completed exactly when every one of its steps has passed.
\<close>

theorem canary_in_order:
  assumes "get_deployment i (fold canary_run ops new_canaries) = Some d"
  shows "(\<forall>k < length (dp_steps d). cn_status (dp_steps d ! k) \<noteq> ''pending'' \<longrightarrow>
            (\<forall>j < k. cn_status (dp_steps d ! j) = ''passed''))
    \<and> (dp_status d = ''completed'' \<longleftrightarrow> (\<forall>st \<in> set (dp_steps d). cn_status st = ''passed''))"
proof -
  have inv: "deployment_inv d" using reachable_inv assms by (auto simp: canaries_inv_def get_deployment_def)
  have "cn_status (dp_steps d ! j) = ''passed''"
    if "j < k" "k < length (dp_steps d)" "cn_status (dp_steps d ! k) \<noteq> ''pending''" for j k
  proof -
    have "\<not> dp_current_step d < k" using inv that(2,3) unfolding deployment_inv_def by blast
    then show ?thesis using inv that(1) unfolding deployment_inv_def by simp
  qed
  moreover have "dp_status d = ''completed'' \<longleftrightarrow> (\<forall>st \<in> set (dp_steps d). cn_status st = ''passed'')"
    using inv unfolding deployment_inv_def all_set_conv_all_nth by (metis order_le_less)
  ultimately show ?thesis by blast
qed

text \<open>An attempt that succeeds moves the deployment one step on.\<close>

fun advanced :: "py_error + advance_reply \<Rightarrow> bool" where
  "advanced (Inr (Advancing _ _ _ _)) = True"
| "advanced (Inr (Completed _ _)) = True"
| "advanced _ = False"

fun attempts ::
  "uuid \<Rightarrow> (canary_env \<times> (string, json) dict) list \<Rightarrow> canary_manager \<Rightarrow> canary_manager \<times> (py_error + advance_reply) list" where
  "attempts i [] m = (m, [])"
| "attempts i ((e, metrics) # xs) m =
     (let (m1, r) = advance_step e i metrics m; (m2, rs) = attempts i xs m1 in (m2, r # rs))"

lemma move_counts:
  "canary_move d reply d' \<Longrightarrow>
    dp_current_step d' = dp_current_step d + (if advanced reply then 1 else 0) \<and> length (dp_steps d') = length (dp_steps d)"
  by (induction rule: canary_move.induct) simp_all

lemma attempts_count:
  assumes "attempts i xs m = (m', rs)" and "canaries_inv m" and "get_deployment i m = Some d"
  shows "canaries_inv m' \<and> (\<exists>d'. get_deployment i m' = Some d' \<and> length (dp_steps d') = length (dp_steps d)
    \<and> dp_current_step d' = dp_current_step d + length (filter advanced rs))"
  using assms
proof (induction xs arbitrary: m d rs)
  case Nil
  then show ?case by simp
next
  case (Cons x xs)
  obtain e metrics where x: "x = (e, metrics)" by fastforce
  obtain m1 r where a: "advance_step e i metrics m = (m1, r)" by fastforce
  obtain rs1 where b: "attempts i xs m1 = (m', rs1)" "rs = r # rs1"
    using Cons.prems(1) by (auto simp: x a split: prod.splits)
  have inv: "canaries_inv m1" using advance_keeps_inv [OF Cons.prems(2), of e i metrics] a by simp
  have d: "dict_get (cm_deployments m) i = Some d" using Cons.prems(3) by (simp add: get_deployment_def)
  have "\<exists>d1. get_deployment i m1 = Some d1 \<and> length (dp_steps d1) = length (dp_steps d)
      \<and> dp_current_step d1 = dp_current_step d + (if advanced r then 1 else 0)"
  proof (cases "dp_current_step d < length (dp_steps d)")
    case True
    then show ?thesis using advance_moves [OF a d] move_counts by (fastforce simp: get_deployment_def)
  next
    case False
    then show ?thesis using a d by (auto simp: advance_closed get_deployment_def)
  qed
  then obtain d1 where d1: "get_deployment i m1 = Some d1" "length (dp_steps d1) = length (dp_steps d)"
    "dp_current_step d1 = dp_current_step d + (if advanced r then 1 else 0)" by blast
  from Cons.IH [OF b(1) inv d1(1)] d1 show ?case by (auto simp: b(2))
qed

lemma criterion_not_index: "criterion_met e metrics c \<noteq> Inl (IndexError x)"
proof -
  have bind: "r \<noteq> Inl (IndexError x) \<Longrightarrow> (\<And>a. f a \<noteq> Inl (IndexError x)) \<Longrightarrow> try_bind r f \<noteq> Inl (IndexError x)"
    for r :: "py_error + 'a" and f :: "'a \<Rightarrow> py_error + bool"
    by (cases r) auto
  have bind_bool: "r \<noteq> Inl (IndexError x) \<Longrightarrow> (\<And>a. f a \<noteq> Inl (IndexError x)) \<Longrightarrow> try_bind r f \<noteq> Inl (IndexError x)"
    for r :: "py_error + bool" and f :: "bool \<Rightarrow> py_error + bool"
    by (cases r) auto
  have branch: "a \<noteq> Inl (IndexError x) \<Longrightarrow> b \<noteq> Inl (IndexError x) \<Longrightarrow> (if q then a else b) \<noteq> Inl (IndexError x)"
    for q and a b :: "py_error + bool" by simp
  have num: "criterion_number t \<noteq> Inl (IndexError x)" for t
    by (simp add: criterion_number_def split: option.splits pyfloat.splits)
  have above: "metric_above v b \<noteq> Inl (IndexError x)" for v b
    by (cases v) (simp_all add: metric_above_def num_or_type_error_def)
  show ?thesis
    unfolding criterion_met_def
    by (intro branch bind bind_bool num above) simp_all
qed

lemma criteria_not_index: "criteria_met e metrics cs \<noteq> Inl (IndexError x)"
proof (induction cs)
  case (Cons c cs)
  then show ?case using criterion_not_index [of e metrics c x]
    by (cases "criterion_met e metrics c") auto
qed simp

lemma advance_not_index:
  assumes "dict_get (cm_deployments m) i = Some d" and "dp_current_step d < length (dp_steps d)"
  shows "snd (advance_step e i metrics m) \<noteq> Inl (IndexError x)"
proof (cases "evaluate_step e metrics (dp_steps d ! dp_current_step d)")
  case (Inl err)
  then have "err \<noteq> IndexError x" using criteria_not_index by (auto simp: evaluate_step_def)
  then show ?thesis using assms Inl by (simp add: advance_step_def Let_def)
next
  case (Inr b)
  then show ?thesis using assms
    by (cases b) (simp_all add: advance_step_def trigger_rollback_def create_plan_def Let_def)
qed

text \<open>
  C27: a canary ends: however often and with whatever metrics a reachable deployment is advanced, at
  most as many attempts succeed as it has steps left, it reads completed as soon as that many did,
  and from then on, and only then, an attempt raises \<open>IndexError\<close> whatever the metrics, leaving the
  manager as it is.
\<close>

theorem canary_terminates:
  assumes "m = fold canary_run ops new_canaries" and "get_deployment i m = Some d"
    and "attempts i xs m = (m', rs)"
  shows "\<exists>d'. get_deployment i m' = Some d'
    \<and> length (filter advanced rs) \<le> length (dp_steps d) - dp_current_step d
    \<and> (dp_status d' = ''completed'' \<longleftrightarrow> length (filter advanced rs) = length (dp_steps d) - dp_current_step d)
    \<and> (dp_status d' = ''completed'' \<longleftrightarrow>
         (\<forall>e metrics. advance_step e i metrics m' = (m', Inl (IndexError ''list index out of range''))))"
proof -
  have "canaries_inv m" unfolding assms(1) by (rule reachable_inv)
  from attempts_count [OF assms(3) this assms(2)] obtain d' where inv': "canaries_inv m'"
    and d': "get_deployment i m' = Some d'" "length (dp_steps d') = length (dp_steps d)"
      "dp_current_step d' = dp_current_step d + length (filter advanced rs)" by blast
  have inv: "deployment_inv d" "deployment_inv d'"
    using \<open>canaries_inv m\<close> inv' assms(2) d'(1) by (auto simp: canaries_inv_def get_deployment_def)
  have fin: "dp_status d' = ''completed'' \<longleftrightarrow> dp_current_step d' = length (dp_steps d')"
    and le: "dp_current_step d' \<le> length (dp_steps d')" "dp_current_step d \<le> length (dp_steps d)"
    using inv by (auto simp: deployment_inv_def)
  have "(\<forall>e metrics. advance_step e i metrics m' = (m', Inl (IndexError ''list index out of range'')))
      \<longleftrightarrow> dp_current_step d' = length (dp_steps d')"
  proof
    assume "dp_current_step d' = length (dp_steps d')"
    then show "\<forall>e metrics. advance_step e i metrics m' = (m', Inl (IndexError ''list index out of range''))"
      using d'(1) by (simp add: advance_closed get_deployment_def)
  next
    assume A: "\<forall>e metrics. advance_step e i metrics m' = (m', Inl (IndexError ''list index out of range''))"
    show "dp_current_step d' = length (dp_steps d')"
    proof (rule ccontr)
      assume "dp_current_step d' \<noteq> length (dp_steps d')"
      then have lt: "dp_current_step d' < length (dp_steps d')" using le by simp
      have "dict_get (cm_deployments m') i = Some d'" using d'(1) by (simp add: get_deployment_def)
      then show False using advance_not_index [OF _ lt] A by (metis snd_conv)
    qed
  qed
  with d' fin le show ?thesis by (intro exI [of _ d']) auto
qed

subsection \<open>A sample deployment\<close>

definition sample_env :: canary_env where
  "sample_env = \<lparr>ce_default = (\<lambda>_. JBool True), ce_now = 7, ce_plan_id = ''p1'', ce_plan_draw = 60\<rparr>"

definition sample_created :: "canary_op list" where
  "sample_created = [CoCreate ''c1'' 0 ''a1'' ''preempt'']"

definition sample_deployment :: deployment where
  "sample_deployment = snd (create_canary ''c1'' 0 ''a1'' ''preempt'' new_canaries)"

lemma sample_stored: "get_deployment ''c1'' (fold canary_run sample_created new_canaries) = Some sample_deployment"
  by (simp add: get_deployment_def sample_created_def sample_deployment_def create_canary_def Let_def)

lemma sample_fields: "length (dp_steps sample_deployment) = 3" "dp_current_step sample_deployment = 0"
  "\<forall>st \<in> set (dp_steps sample_deployment). cn_status st = ''pending''"
  by (simp_all add: sample_deployment_def create_canary_def canary_templates_def dict_get_or_def step_of_def Let_def)

theorem canary_in_order_witness:
  "\<exists>d. get_deployment ''c1'' (fold canary_run sample_created new_canaries) = Some d \<and> dp_status d \<noteq> ''completed''"
proof -
  have "dp_steps sample_deployment \<noteq> []" using sample_fields(1) by auto
  then have "\<not> (\<forall>st \<in> set (dp_steps sample_deployment). cn_status st = ''passed'')"
    using sample_fields(3) by (cases "dp_steps sample_deployment") auto
  then show ?thesis using canary_in_order [OF sample_stored] sample_stored by blast
qed

definition three_passes :: "(canary_env \<times> (string, json) dict) list" where
  "three_passes = replicate 3 (sample_env, [])"

theorem canary_terminates_witness:
  "\<exists>m' d. attempts ''c1'' three_passes (fold canary_run sample_created new_canaries)
      = (m', snd (attempts ''c1'' three_passes (fold canary_run sample_created new_canaries)))
    \<and> get_deployment ''c1'' m' = Some d \<and> dp_status d = ''completed''"
proof -
  obtain m' rs where a: "attempts ''c1'' three_passes (fold canary_run sample_created new_canaries) = (m', rs)" by fastforce
  have "length (filter advanced (snd (attempts ''c1'' three_passes (fold canary_run sample_created new_canaries)))) = 3"
    by code_simp
  then have "length (filter advanced rs) = 3" using a by simp
  then show ?thesis
    using canary_terminates [OF refl sample_stored a] a sample_fields by auto
qed

text \<open>A deployment that was rolled back can be advanced again, up to completion.\<close>

definition resumed_ops :: "canary_op list" where
  "resumed_ops = sample_created @ [CoAdvance sample_env ''c1'' [(''job_preempted'', JBool False)]]
     @ map (\<lambda>x. CoAdvance (fst x) ''c1'' (snd x)) three_passes"

lemma rolled_back_resumes:
  "map_option (\<lambda>d. (dp_status d, dp_rollback_triggered d))
     (get_deployment ''c1'' (fold canary_run (take 2 resumed_ops) new_canaries)) = Some (''rolled_back'', True)"
  "map_option (\<lambda>d. (dp_status d, dp_rollback_triggered d))
     (get_deployment ''c1'' (fold canary_run resumed_ops new_canaries)) = Some (''completed'', True)"
  by code_simp+

end
