(* ===== verification/RiskModules.thy ===== *)
theory RiskModules
  imports TenantControls
begin

text \<open>
  The managers of src/src/gpuopt/risk_r07_r09_r13_r14.py: the tiered optimizer with its cache, the
  security checks, the disputes over tenant quotas (of \<open>TenantControls\<close>) and the contract tests
  with their version policies. The clock, fresh identifiers and random draws are arguments; the lock
  of the cache is not modelled. Times stored as ISO texts are datetimes.
\<close>

subsection \<open>Tiered optimization\<close>

record tier =
  ti_tier :: string
  ti_scope :: string
  ti_max_candidates :: int
  ti_prune_threshold :: rat
  ti_cache_ttl_seconds :: rat

definition tiers :: "tier list" where
  "tiers =
     [\<lparr>ti_tier = ''global'', ti_scope = ''all_clusters'', ti_max_candidates = 50, ti_prune_threshold = 3 / 10, ti_cache_ttl_seconds = 300\<rparr>,
      \<lparr>ti_tier = ''cluster'', ti_scope = ''single_cluster'', ti_max_candidates = 100, ti_prune_threshold = 4 / 10, ti_cache_ttl_seconds = 120\<rparr>,
      \<lparr>ti_tier = ''node'', ti_scope = ''single_node'', ti_max_candidates = 20, ti_prune_threshold = 5 / 10, ti_cache_ttl_seconds = 60\<rparr>,
      \<lparr>ti_tier = ''gpu'', ti_scope = ''single_gpu'', ti_max_candidates = 10, ti_prune_threshold = 6 / 10, ti_cache_ttl_seconds = 30\<rparr>]"

definition tier_config :: "string \<Rightarrow> tier" where
  "tier_config name = (case find (\<lambda>t. ti_tier t = name) tiers of Some t \<Rightarrow> t | None \<Rightarrow> tiers ! 1)"

fun try_filter :: "('a \<Rightarrow> 'e + bool) \<Rightarrow> 'a list \<Rightarrow> 'e + 'a list" where
  "try_filter f [] = Inr []"
| "try_filter f (x # xs) = try_bind (f x) (\<lambda>b. try_bind (try_filter f xs) (\<lambda>ys. Inr (if b then x # ys else ys)))"

text \<open>A candidate without a score passes as 0.5 and is sorted as 0; after pruning every score is a number.\<close>

definition sort_score :: "(string, json) dict \<Rightarrow> rat" where
  "sort_score c = or_default (json_num (dict_get_or c ''score'' (JInt 0))) 0"

definition optimize :: "(string, json) dict list \<Rightarrow> string \<Rightarrow> py_error + (string, json) dict list" where
  "optimize candidates name =
     (let cfg = tier_config name in
      try_bind (try_filter (\<lambda>c. py_le (JFloat (ti_prune_threshold cfg)) (dict_get_or c ''score'' (JFloat (1 / 2)))) candidates)
        (\<lambda>pruned. Inr (slice_first (ti_max_candidates cfg) (sorted_by_desc sort_score pruned))))"

record cached_result =
  ca_result :: "(string, json) dict"
  ca_computed_at :: datetime
  ca_ttl_seconds :: rat
  ca_hit_count :: nat

record tiered_optimizer =
  to_cache :: "(string, cached_result) dict"
  to_hits :: nat
  to_misses :: nat

definition new_optimizer :: tiered_optimizer where
  "new_optimizer = \<lparr>to_cache = [], to_hits = 0, to_misses = 0\<rparr>"

definition entry_fresh :: "datetime \<Rightarrow> cached_result \<Rightarrow> bool" where
  "entry_fresh now entry \<longleftrightarrow> of_int (now - ca_computed_at entry) / 1000000 < ca_ttl_seconds entry"

definition get_cached :: "datetime \<Rightarrow> string \<Rightarrow> tiered_optimizer \<Rightarrow> tiered_optimizer \<times> (string, json) dict option" where
  "get_cached now key s =
     (case dict_get (to_cache s) key of
        Some entry \<Rightarrow>
          (if entry_fresh now entry then
             (s\<lparr>to_cache := dict_set key (entry\<lparr>ca_hit_count := Suc (ca_hit_count entry)\<rparr>) (to_cache s),
                to_hits := Suc (to_hits s)\<rparr>, Some (ca_result entry))
           else (s\<lparr>to_misses := Suc (to_misses s)\<rparr>, None))
      | None \<Rightarrow> (s\<lparr>to_misses := Suc (to_misses s)\<rparr>, None))"

definition oldest_key :: "(string, cached_result) dict \<Rightarrow> string" where
  "oldest_key d = fst (max_by (\<lambda>kv. - ca_computed_at (snd kv)) (hd d) (tl d))"

definition set_cached :: "datetime \<Rightarrow> string \<Rightarrow> (string, json) dict \<Rightarrow> rat \<Rightarrow> tiered_optimizer \<Rightarrow> tiered_optimizer" where
  "set_cached now key result ttl s =
     (let c = dict_set key \<lparr>ca_result = result, ca_computed_at = now, ca_ttl_seconds = ttl, ca_hit_count = 0\<rparr> (to_cache s)
      in s\<lparr>to_cache := (if 500 < length c then dict_pop (oldest_key c) c else c)\<rparr>)"

record cache_stats =
  cz_cache_size :: nat
  cz_hits :: nat
  cz_misses :: nat
  cz_hit_rate :: rat

definition get_stats :: "tiered_optimizer \<Rightarrow> cache_stats" where
  "get_stats s =
     \<lparr>cz_cache_size = length (to_cache s), cz_hits = to_hits s, cz_misses = to_misses s,
      cz_hit_rate = py_round 3 (of_nat (to_hits s) / of_nat (max (to_hits s + to_misses s) 1))\<rparr>"

subsection \<open>Security checks\<close>

record threat =
  th_threat_id :: string
  th_category :: string
  th_description :: string
  th_severity :: string
  th_likelihood :: string
  th_mitigation :: string
  th_status :: string

record champion_check =
  sc_check_id :: string
  sc_name :: string
  sc_category :: string
  sc_passed :: bool
  sc_details :: string

record security_manager =
  sm_threats :: "(string, threat) dict"
  sm_checks :: "(string, champion_check) dict"

definition security_checks :: "champion_check list" where
  "security_checks =
     map (\<lambda>(i, name, category). \<lparr>sc_check_id = i, sc_name = name, sc_category = category, sc_passed = False, sc_details = []\<rparr>)
       [(''auth-1'', ''API authentication enforced'', ''authentication''),
        (''auth-2'', ''RBAC configured'', ''authorization''),
        (''sec-1'', ''Secrets not in code'', ''data_leakage''),
        (''sec-2'', ''Input validation on all endpoints'', ''injection''),
        (''sec-3'', ''Rate limiting active'', ''denial_of_service''),
        (''sec-4'', ''Principle of least privilege'', ''privilege_escalation''),
        (''sec-5'', ''Dependencies scanned for CVEs'', ''supply_chain'')]"

definition new_security :: security_manager where
  "new_security = \<lparr>sm_threats = [], sm_checks = map (\<lambda>c. (sc_check_id c, c)) security_checks\<rparr>"

text \<open>\<open>f"T{n:03d}"\<close>.\<close>

definition threat_id :: "nat \<Rightarrow> string" where
  "threat_id n = ''T'' @ replicate (3 - length (nat_str n)) (CHR ''0'') @ nat_str n"

definition add_threat ::
  "string \<Rightarrow> string \<Rightarrow> string \<Rightarrow> string \<Rightarrow> string \<Rightarrow> security_manager \<Rightarrow> security_manager \<times> threat" where
  "add_threat category description severity likelihood mitigation s =
     (let tid = threat_id (length (sm_threats s) + 1);
          t = \<lparr>th_threat_id = tid, th_category = category, th_description = description, th_severity = severity,
               th_likelihood = likelihood, th_mitigation = mitigation, th_status = ''open''\<rparr>
      in (s\<lparr>sm_threats := dict_set tid t (sm_threats s)\<rparr>, t))"

text \<open>\<open>random.random() > 0.15\<close> is drawn for each check.\<close>

definition run_checks :: "(string \<Rightarrow> rat) \<Rightarrow> security_manager \<Rightarrow> security_manager \<times> champion_check list" where
  "run_checks draw s =
     (let checks = map (\<lambda>(i, c). (i, c\<lparr>sc_passed := 15 / 100 < draw i,
            sc_details := (if 15 / 100 < draw i then ''Automated check passed'' else ''Manual review required'')\<rparr>)) (sm_checks s)
      in (s\<lparr>sm_checks := checks\<rparr>, dict_values checks))"

record security_report =
  sr_threats_total :: nat
  sr_threats_open :: nat
  sr_checks_total :: nat
  sr_checks_passed :: nat
  sr_risk_score :: rat
  sr_status :: string

definition security_report_of :: "(string \<Rightarrow> rat) \<Rightarrow> security_manager \<Rightarrow> security_manager \<times> security_report" where
  "security_report_of draw s =
     (let (s', checks) = run_checks draw s;
          open_threats = filter (\<lambda>t. th_status t = ''open'') (dict_values (sm_threats s'));
          passed = length (filter sc_passed checks)
      in (s', \<lparr>sr_threats_total = length (sm_threats s'), sr_threats_open = length open_threats,
               sr_checks_total = length checks, sr_checks_passed = passed,
               sr_risk_score = py_round 3 (of_nat (length open_threats) * (2 / 10)
                 + (1 - of_nat passed / of_nat (max (length checks) 1)) * (8 / 10)),
               sr_status = (if open_threats \<noteq> [] then ''needs_review'' else ''compliant'')\<rparr>))"

subsection \<open>Disputes\<close>

record dispute =
  di_dispute_id :: uuid
  di_tenant_id :: string
  di_resource_type :: string
  di_claimed_usage :: rat
  di_actual_usage :: rat
  di_reason :: string
  di_status :: string
  di_resolution :: string
  di_created_at :: datetime
  di_resolved_at :: "datetime option"

record dispute_manager =
  dm_disputes :: "(uuid, dispute) dict"
  dm_quota :: quotas

definition new_disputes :: dispute_manager where
  "new_disputes = \<lparr>dm_disputes = [], dm_quota = []\<rparr>"

definition create_dispute ::
  "uuid \<Rightarrow> datetime \<Rightarrow> string \<Rightarrow> string \<Rightarrow> rat \<Rightarrow> rat \<Rightarrow> string \<Rightarrow> dispute_manager \<Rightarrow> dispute_manager \<times> dispute" where
  "create_dispute i now tenant_id resource_type claimed actual reason s =
     (let d = \<lparr>di_dispute_id = i, di_tenant_id = tenant_id, di_resource_type = resource_type, di_claimed_usage = claimed,
               di_actual_usage = actual, di_reason = reason, di_status = ''open'', di_resolution = [],
               di_created_at = now, di_resolved_at = None\<rparr>
      in (s\<lparr>dm_disputes := dict_set i d (dm_disputes s)\<rparr>, d))"

definition resolve_dispute ::
  "datetime \<Rightarrow> uuid \<Rightarrow> string \<Rightarrow> bool \<Rightarrow> dispute_manager \<Rightarrow> dispute_manager \<times> dispute option" where
  "resolve_dispute now i resolution accept_claim s =
     (case dict_get (dm_disputes s) i of
        None \<Rightarrow> (s, None)
      | Some d \<Rightarrow>
          (let d' = d\<lparr>di_status := ''resolved'', di_resolution := resolution, di_resolved_at := Some now\<rparr>;
               quota = (if accept_claim then
                 (case get_tenant_quota (di_tenant_id d) (dm_quota s) of
                    None \<Rightarrow> dm_quota s
                  | Some q \<Rightarrow>
                      (let diff = di_claimed_usage d - di_actual_usage d
                       in fst (update_usage (di_tenant_id d) (max 0 (tq_gpus_in_use q + int_of diff))
                                (max 0 (tq_memory_in_use_gb q + diff)) (dm_quota s))))
                 else dm_quota s)
           in (s\<lparr>dm_disputes := dict_set i d' (dm_disputes s), dm_quota := quota\<rparr>, Some d')))"

definition get_dispute :: "uuid \<Rightarrow> dispute_manager \<Rightarrow> dispute option" where
  "get_dispute i s = dict_get (dm_disputes s) i"

definition list_disputes :: "string option \<Rightarrow> dispute_manager \<Rightarrow> dispute list" where
  "list_disputes tenant s =
     (case tenant of
        Some (c # cs) \<Rightarrow> filter (\<lambda>d. di_tenant_id d = c # cs) (dict_values (dm_disputes s))
      | _ \<Rightarrow> dict_values (dm_disputes s))"

record dispute_stats =
  ds_total :: nat
  ds_open :: nat
  ds_resolved :: nat
  ds_accepted :: nat

definition dispute_stats_of :: "dispute_manager \<Rightarrow> dispute_stats" where
  "dispute_stats_of s =
     (let ds = dict_values (dm_disputes s) in
      \<lparr>ds_total = length ds, ds_open = length (filter (\<lambda>d. di_status d = ''open'') ds),
       ds_resolved = length (filter (\<lambda>d. di_status d = ''resolved'') ds),
       ds_accepted = length (filter (\<lambda>d. str_contains ''accepted'' (str_lower (di_resolution d))) ds)\<rparr>)"

subsection \<open>Contract tests and versions\<close>

record contract_test =
  ct_test_id :: uuid
  ct_adapter_type :: string
  ct_version :: string
  ct_input_example :: "(string, json) dict"
  ct_expected_output :: "(string, json) dict"
  ct_passed :: bool
  ct_last_run :: "datetime option"

record supported_version =
  sv_min_version :: string
  sv_max_version :: string
  sv_current_version :: string
  sv_deprecation_date :: string
  sv_sunset_date :: string
  sv_migration_guide :: string

record contract_manager =
  co_tests :: "(uuid, contract_test) dict"
  co_versions :: "(string, supported_version) dict"

definition add_test ::
  "uuid \<Rightarrow> string \<Rightarrow> string \<Rightarrow> (string, json) dict \<Rightarrow> (string, json) dict \<Rightarrow> contract_manager \<Rightarrow> contract_manager \<times> contract_test" where
  "add_test i adapter_type version input_example expected_output s =
     (let t = \<lparr>ct_test_id = i, ct_adapter_type = adapter_type, ct_version = version, ct_input_example = input_example,
               ct_expected_output = expected_output, ct_passed = False, ct_last_run = None\<rparr>
      in (s\<lparr>co_tests := dict_set i t (co_tests s)\<rparr>, t))"

definition run_test ::
  "datetime \<Rightarrow> uuid \<Rightarrow> (string, json) dict option \<Rightarrow> contract_manager \<Rightarrow> contract_manager \<times> contract_test option" where
  "run_test now i actual s =
     (case dict_get (co_tests s) i of
        None \<Rightarrow> (s, None)
      | Some t \<Rightarrow>
          (let output = (case actual of Some (kv # kvs) \<Rightarrow> kv # kvs | _ \<Rightarrow> ct_expected_output t);
               t' = t\<lparr>ct_passed := json_eq (JObj output) (JObj (ct_expected_output t)), ct_last_run := Some now\<rparr>
           in (s\<lparr>co_tests := dict_set i t' (co_tests s)\<rparr>, Some t')))"

text \<open>The tests are selected before the runs; the list returned holds the updated objects.\<close>

definition run_all :: "datetime \<Rightarrow> string option \<Rightarrow> contract_manager \<Rightarrow> contract_manager \<times> contract_test list" where
  "run_all now adapter s =
     (let ids = map fst (filter (\<lambda>(i, t). case adapter of Some (c # cs) \<Rightarrow> ct_adapter_type t = c # cs | _ \<Rightarrow> True) (co_tests s));
          s' = fold (\<lambda>i q. fst (run_test now i None q)) ids s
      in (s', map (\<lambda>i. the (dict_get (co_tests s') i)) ids))"

definition get_test :: "uuid \<Rightarrow> contract_manager \<Rightarrow> contract_test option" where
  "get_test i s = dict_get (co_tests s) i"

definition set_version_policy ::
  "string \<Rightarrow> supported_version \<Rightarrow> contract_manager \<Rightarrow> contract_manager \<times> supported_version" where
  "set_version_policy adapter_type v s = (s\<lparr>co_versions := dict_set adapter_type v (co_versions s)\<rparr>, v)"

definition get_version_policy :: "string \<Rightarrow> contract_manager \<Rightarrow> supported_version option" where
  "get_version_policy adapter_type s = dict_get (co_versions s) adapter_type"

fun all_some :: "'a option list \<Rightarrow> 'a list option" where
  "all_some [] = Some []"
| "all_some (None # xs) = None"
| "all_some (Some x # xs) = map_option (\<lambda>ys. x # ys) (all_some xs)"

definition version_tuple :: "string \<Rightarrow> int list option" where
  "version_tuple v = all_some (map parse_int (split_on (CHR ''.'') v))"

definition is_version_supported :: "string \<Rightarrow> string \<Rightarrow> contract_manager \<Rightarrow> bool \<times> string" where
  "is_version_supported adapter_type version s =
     (case dict_get (co_versions s) adapter_type of
        None \<Rightarrow> (True, ''No version policy defined'')
      | Some p \<Rightarrow>
          (case (version_tuple version, version_tuple (sv_min_version p), version_tuple (sv_max_version p)) of
             (Some v, Some lo, Some hi) \<Rightarrow>
               if v < lo then (False, ''Version '' @ version @ '' below minimum '' @ sv_min_version p)
               else if hi < v then (False, ''Version '' @ version @ '' above maximum '' @ sv_max_version p)
               else (True, ''Version '' @ version @ '' is supported'')
           | _ \<Rightarrow> (False, ''Invalid version format'')))"

subsection \<open>The cache\<close>

datatype cache_op =
    CSet datetime string "(string, json) dict" rat
  | CGet datetime string

fun cache_run :: "cache_op \<Rightarrow> tiered_optimizer \<Rightarrow> tiered_optimizer" where
  "cache_run (CSet now key r ttl) s = set_cached now key r ttl s"
| "cache_run (CGet now key) s = fst (get_cached now key s)"

fun is_lookup :: "cache_op \<Rightarrow> bool" where
  "is_lookup (CGet _ _) = True"
| "is_lookup _ = False"

text \<open>The abstract cache forgets nothing: the last result stored for a key, with its time and time to live.\<close>

fun note_set :: "string \<Rightarrow> cache_op \<Rightarrow> ((string, json) dict \<times> datetime \<times> rat) option \<Rightarrow> ((string, json) dict \<times> datetime \<times> rat) option" where
  "note_set key (CSet now k r ttl) old = (if k = key then Some (r, now, ttl) else old)"
| "note_set key (CGet _ _) old = old"

definition last_stored :: "string \<Rightarrow> cache_op list \<Rightarrow> ((string, json) dict \<times> datetime \<times> rat) option" where
  "last_stored key ops = fold (note_set key) ops None"

definition entry_of :: "cached_result \<Rightarrow> (string, json) dict \<times> datetime \<times> rat" where
  "entry_of e = (ca_result e, ca_computed_at e, ca_ttl_seconds e)"

lemma oldest_key_mem: "d \<noteq> [] \<Longrightarrow> oldest_key d \<in> fst ` set d"
  using max_by_mem [of "\<lambda>kv. - ca_computed_at (snd kv)" "hd d" "tl d"] by (simp add: oldest_key_def)

lemma set_cached_size:
  assumes "length (to_cache s) \<le> 500"
  shows "length (to_cache (set_cached now key r ttl s)) \<le> 500"
proof -
  let ?c = "dict_set key \<lparr>ca_result = r, ca_computed_at = now, ca_ttl_seconds = ttl, ca_hit_count = 0\<rparr> (to_cache s)"
  have "length ?c \<le> Suc (length (to_cache s))" by (rule length_dict_set)
  then have le: "length ?c \<le> 501" using assms by linarith
  show ?thesis
  proof (cases "500 < length ?c")
    case True
    then have "oldest_key ?c \<in> fst ` set ?c" by (intro oldest_key_mem) auto
    then have "length (dict_pop (oldest_key ?c) ?c) < length ?c" by (rule length_dict_pop)
    then show ?thesis using True le by (simp add: set_cached_def Let_def)
  qed (simp add: set_cached_def Let_def)
qed

lemma set_cached_get:
  "dict_get (to_cache (set_cached now key r ttl s)) k = Some e \<Longrightarrow>
    (if k = key then entry_of e = (r, now, ttl) else dict_get (to_cache s) k = Some e)"
  by (cases "k = key") (auto simp: set_cached_def Let_def entry_of_def fun_upd_apply split: if_split_asm)

lemma set_cached_counts [simp]:
  "to_hits (set_cached now key r ttl s) = to_hits s" "to_misses (set_cached now key r ttl s) = to_misses s"
  by (simp_all add: set_cached_def Let_def)

lemma length_dict_set_present: "dict_get d k = Some w \<Longrightarrow> length (dict_set k v d) = length d"
  by (induction d) (auto split: if_splits)

lemma get_cached_facts:
  "length (to_cache (fst (get_cached now key s))) = length (to_cache s)"
  "to_hits (fst (get_cached now key s)) + to_misses (fst (get_cached now key s)) = Suc (to_hits s + to_misses s)"
  "dict_get (to_cache (fst (get_cached now key s))) k = Some e \<Longrightarrow>
     \<exists>e'. dict_get (to_cache s) k = Some e' \<and> entry_of e' = entry_of e"
  by (auto simp: get_cached_def entry_of_def length_dict_set_present split: option.splits if_splits)

lemma cache_facts:
  fixes ops :: "cache_op list"
  defines "s \<equiv> fold cache_run ops new_optimizer"
  shows "length (to_cache s) \<le> 500 \<and> to_hits s + to_misses s = length (filter is_lookup ops)
    \<and> (\<forall>k e. dict_get (to_cache s) k = Some e \<longrightarrow> last_stored k ops = Some (entry_of e))"
  unfolding s_def
proof (induction ops rule: rev_induct)
  case Nil
  then show ?case by (simp add: new_optimizer_def)
next
  case (snoc x ops)
  let ?s = "fold cache_run ops new_optimizer"
  show ?case
  proof (cases x)
    case (CSet now key r ttl)
    have "last_stored k (ops @ [x]) = Some (entry_of e)"
      if "dict_get (to_cache (set_cached now key r ttl ?s)) k = Some e" for k e
      using set_cached_get [OF that] snoc by (cases "k = key") (simp_all add: last_stored_def CSet)
    then show ?thesis using snoc set_cached_size [of ?s now key r ttl] CSet by simp
  next
    case (CGet now key)
    then show ?thesis using snoc get_cached_facts [of now key ?s] by (fastforce simp: last_stored_def)
  qed
qed

text \<open>
  The optimizer's cache is bounded and never stale: after any run of stores and lookups it
  holds at most 500 entries, every lookup was counted as one hit or one miss, and what a lookup
  returns is the last result stored for that key, less than its time to live ago.
\<close>

theorem cache_sound:
  assumes "s = fold cache_run ops new_optimizer"
  shows "length (to_cache s) \<le> 500 \<and> to_hits s + to_misses s = length (filter is_lookup ops)
    \<and> (\<forall>now key r. snd (get_cached now key s) = Some r \<longrightarrow>
         (\<exists>t ttl. last_stored key ops = Some (r, t, ttl) \<and> of_int (now - t) / 1000000 < ttl))"
proof -
  have "\<exists>t ttl. last_stored key ops = Some (r, t, ttl) \<and> of_int (now - t) / 1000000 < ttl"
    if "snd (get_cached now key s) = Some r" for now key r
  proof -
    obtain e where e: "dict_get (to_cache s) key = Some e" "r = ca_result e" "entry_fresh now e"
    proof (cases "dict_get (to_cache s) key")
      case (Some e)
      then show thesis using that \<open>snd (get_cached now key s) = Some r\<close>
        by (cases "entry_fresh now e") (simp_all add: get_cached_def)
    qed (use \<open>snd (get_cached now key s) = Some r\<close> in \<open>simp add: get_cached_def\<close>)
    then have "last_stored key ops = Some (r, ca_computed_at e, ca_ttl_seconds e)"
      using cache_facts [of ops] by (simp add: assms entry_of_def)
    then show ?thesis using e(3) unfolding entry_fresh_def by blast
  qed
  then show ?thesis using cache_facts [of ops] by (simp add: assms)
qed

theorem cache_sound_witness:
  "\<exists>s. s = fold cache_run [CSet 0 ''k'' [] 60, CGet 1000000 ''k''] new_optimizer \<and> to_hits s + to_misses s = 1
     \<and> length (to_cache s) \<le> 500"
  using cache_sound [OF refl, of "[CSet 0 ''k'' [] 60, CGet 1000000 ''k'']"] by simp

subsection \<open>Disputes change no quota\<close>

datatype dispute_op =
    DiCreate uuid datetime string string rat rat string
  | DiResolve datetime uuid string bool

fun dispute_run :: "dispute_op \<Rightarrow> dispute_manager \<Rightarrow> dispute_manager" where
  "dispute_run (DiCreate i now t k c a why) s = fst (create_dispute i now t k c a why s)"
| "dispute_run (DiResolve now i text accept) s = fst (resolve_dispute now i text accept s)"

text \<open>The manager's own table of quotas is filled by no operation, so an accepted claim changes nothing.\<close>

lemma disputes_without_quota: "dm_quota (fold dispute_run ops new_disputes) = []"
proof -
  have "dm_quota s = [] \<Longrightarrow> dm_quota (dispute_run x s) = []" for x s
    by (cases x) (auto simp: create_dispute_def resolve_dispute_def get_tenant_quota_def Let_def split: option.splits)
  then have "dm_quota s = [] \<Longrightarrow> dm_quota (fold dispute_run ops s) = []" for s
    by (induction ops arbitrary: s) auto
  then show ?thesis by (simp add: new_disputes_def)
qed

subsection \<open>Contract tests and version windows\<close>

text \<open>Without an output to compare, a test compares its expectation with itself.\<close>

lemma run_test_passes:
  assumes "get_test i s = Some t" and "json_ok (JObj (ct_expected_output t))"
  shows "\<exists>t'. snd (run_test now i None s) = Some t' \<and> ct_passed t'"
  using assms json_eq_refl [OF assms(2)] by (simp add: run_test_def get_test_def Let_def)

definition render :: "nat list \<Rightarrow> string" where
  "render ns = join_with (CHR ''.'') (map nat_str ns)"

lemma all_some_map: "(\<forall>x \<in> set xs. f x = Some (g x)) \<Longrightarrow> all_some (map f xs) = Some (map g xs)"
  by (induction xs) auto

lemma version_tuple_render: "ns \<noteq> [] \<Longrightarrow> version_tuple (render ns) = Some (map int ns)"
proof -
  assume "ns \<noteq> []"
  then have "split_on (CHR ''.'') (render ns) = map nat_str ns"
    by (simp add: render_def split_join nat_str_no_dot)
  moreover have "all_some (map parse_int (map nat_str ns)) = Some (map int ns)"
    using all_some_map [of ns "\<lambda>n. parse_int (nat_str n)" int] by (simp add: parse_int_nat_str comp_def)
  ultimately show ?thesis by (simp add: version_tuple_def)
qed

text \<open>
  Version policies mean their numbers: for versions written as numbers with dots, parsing gives
  the numbers back, and a version is supported exactly when its numbers lie between the minimum's and
  the maximum's in lexicographic order, so 1.10 is above 1.9 but 1.0 is below 1.0.0.
\<close>

theorem version_window:
  assumes "get_version_policy a s = Some p" and "sv_min_version p = render lo" and "sv_max_version p = render hi"
    and "lo \<noteq> []" and "hi \<noteq> []" and "v \<noteq> []"
  shows "version_tuple (render v) = Some (map int v)
    \<and> (fst (is_version_supported a (render v) s) \<longleftrightarrow> map int lo \<le> map int v \<and> map int v \<le> map int hi)"
  using assms by (auto simp: is_version_supported_def get_version_policy_def version_tuple_render not_less)

definition one_policy :: contract_manager where
  "one_policy = fst (set_version_policy ''slurm''
     \<lparr>sv_min_version = render [1, 9], sv_max_version = render [2], sv_current_version = ''1.10'',
      sv_deprecation_date = [], sv_sunset_date = [], sv_migration_guide = []\<rparr> \<lparr>co_tests = [], co_versions = []\<rparr>)"

theorem version_window_witness:
  "fst (is_version_supported ''slurm'' (render [1, 10]) one_policy)
     \<and> \<not> fst (is_version_supported ''slurm'' (render [2, 0]) one_policy)"
proof -
  obtain p where p: "get_version_policy ''slurm'' one_policy = Some p" "sv_min_version p = render [1, 9]" "sv_max_version p = render [2]"
    by (simp add: get_version_policy_def one_policy_def set_version_policy_def)
  show ?thesis
    using version_window [OF p, of "[1, 10]"] version_window [OF p, of "[2, 0]"] by simp
qed

end
