(* ===== verification/RlScheduler.thy ===== *)
theory RlScheduler
  imports Prelude
begin

text \<open>
  The learned scheduler, src/src/gpuopt/scheduler/rl_scheduler.py: Q-learning over features of a job and
  the nodes. The table's keys are the feature vectors themselves, so the rounding to 32 bits is left
  out; the random numbers of a call are its arguments. Reading a missing key of the table adds a row of
  zeros, which a call that raises is not shown to keep.
  The model's file is not modelled.
\<close>

subsection \<open>Jobs, nodes and the learner\<close>

record rl_job =
  rj_id :: string
  rj_required_gpus :: int
  rj_priority :: int
  rj_estimated_duration :: rat
  rj_memory_gb :: rat
  rj_checkpointable :: bool

record rl_node =
  rn_id :: string
  rn_available_gpus :: int
  rn_total_gpus :: int
  rn_free_memory_gb :: rat
  rn_temperature :: rat
  rn_gpu_model :: string
  rn_status :: string

record rl_placement =
  rp_node :: "rl_node option"
  rp_action :: string
  rp_node_id :: string
  rp_reward :: rat
  rp_success :: bool
  rp_reasoning :: "piece list"
  rp_q_value :: rat

type_synonym features = "rat list"

record experience =
  ex_state :: features
  ex_action :: nat
  ex_reward :: rat
  ex_next_state :: features
  ex_done :: bool

record placement_entry =
  pe_job_id :: string
  pe_node_id :: string
  pe_reward :: rat
  pe_success :: bool

record learner =
  le_action_size :: nat
  le_lr :: rat
  le_gamma :: rat
  le_q_table :: "(features, rat list) dict"
  le_experience_buffer :: "experience list"
  le_max_buffer_size :: nat
  le_episode_rewards :: "rat list"
  le_placement_history :: "placement_entry list"

definition new_learner :: learner where
  "new_learner =
     \<lparr>le_action_size = 5, le_lr = 1 / 10, le_gamma = 9 / 10, le_q_table = [], le_experience_buffer = [],
      le_max_buffer_size = 10000, le_episode_rewards = [], le_placement_history = []\<rparr>"

subsection \<open>Features and rewards\<close>

definition mean_of :: "rat list \<Rightarrow> rat" where
  "mean_of xs = (if xs = [] then 0 else sum_list xs / of_nat (length xs))"

definition max_total :: "rl_node list \<Rightarrow> int" where
  "max_total ns = (case map rn_total_gpus ns of [] \<Rightarrow> 1 | t # ts \<Rightarrow> foldl max t ts)"

text \<open>The features; when every node has no GPU at all, the first of them divides by zero.\<close>

definition state_features :: "rl_job \<Rightarrow> rl_node list \<Rightarrow> py_error + features" where
  "state_features j ns =
     (let avail = map (of_int \<circ> rn_available_gpus) ns; m = of_int (max_total ns) :: rat;
          fits = length (filter (\<lambda>n. rj_required_gpus j \<le> rn_available_gpus n) ns) in
      if m = 0 then Inl (ZeroDivisionError ''division by zero'')
      else Inr
        [min (of_int (rj_required_gpus j) / m) 1, of_int (rj_priority j) / 10, min (rj_estimated_duration j / 24) 1,
         if 0 < m then mean_of avail / m else 0,
         case avail of a # as \<Rightarrow> if 0 < m then foldl min a as / m else 0 | [] \<Rightarrow> 0,
         case avail of a # as \<Rightarrow> if 0 < m then foldl max a as / m else 0 | [] \<Rightarrow> 0,
         if ns \<noteq> [] \<and> 0 < m then 1 - sum_list avail / (of_nat (length ns) * m) else 0,
         if ns \<noteq> [] then mean_of (map rn_temperature ns) / 100 else 0,
         of_nat fits / of_nat (max (length ns) 1),
         if ns \<noteq> [] then mean_of (map rn_free_memory_gb ns) / 100 else 0])"

definition eligible_node :: "rl_job \<Rightarrow> rl_node \<Rightarrow> bool" where
  "eligible_node j n \<longleftrightarrow> rj_required_gpus j \<le> rn_available_gpus n \<and> 0 < rn_free_memory_gb n"

definition eligible_actions :: "rl_job \<Rightarrow> rl_node list \<Rightarrow> nat list" where
  "eligible_actions j ns = filter (\<lambda>i. eligible_node j (ns ! i)) [0..<length ns]"

definition compute_reward :: "rl_job \<Rightarrow> rl_node \<Rightarrow> bool \<Rightarrow> rat" where
  "compute_reward j n success =
     (if \<not> success then - 1
      else 1 + of_int (rj_required_gpus j) / of_int (max (rn_total_gpus n) 1) * (1 / 2)
           - (if 75 < rn_temperature n then 3 / 10 else 0) - (if 85 < rn_temperature n then 1 / 2 else 0)
           + of_int (rj_priority j) / 10 * (2 / 10)
           + (1 - rj_memory_gb j / max (rn_free_memory_gb n + rj_memory_gb j) 1) * (2 / 10))"

subsection \<open>Choosing and learning\<close>

definition q_row :: "learner \<Rightarrow> features \<Rightarrow> rat list" where
  "q_row s k = dict_get_or (le_q_table s) k (replicate (le_action_size s) 0)"

definition q_at :: "learner \<Rightarrow> features \<Rightarrow> nat \<Rightarrow> py_error + rat" where
  "q_at s k i =
     (if i < length (q_row s k) then Inr (q_row s k ! i) else Inl (IndexError ''index is out of bounds for axis 0''))"

definition epsilon :: "learner \<Rightarrow> rat" where
  "epsilon s = max (1 / 10) (1 - of_nat (length (le_episode_rewards s)) / 1000)"

text \<open>\<open>explore\<close> is the number drawn, \<open>pick\<close> the index that a random choice takes.\<close>

definition choose_action :: "rat \<Rightarrow> nat \<Rightarrow> features \<Rightarrow> nat list \<Rightarrow> learner \<Rightarrow> py_error + nat option" where
  "choose_action explore pick k eligible s =
     (case eligible of
        [] \<Rightarrow> Inr None
      | e # es \<Rightarrow>
          if explore < epsilon s then Inr (Some (eligible ! pick))
          else try_bind (try_map (q_at s k) eligible) (\<lambda>_. Inr (Some (max_by (\<lambda>x. q_row s k ! x) e es))))"

definition best_q :: "rat list \<Rightarrow> rat" where
  "best_q qs = (case qs of [] \<Rightarrow> 0 | q # r \<Rightarrow> foldl max q r)"

text \<open>Reading the table of a \<open>defaultdict\<close> adds the row of zeros that is missing.\<close>

definition touch :: "features \<Rightarrow> learner \<Rightarrow> learner" where
  "touch k s = s\<lparr>le_q_table := dict_set k (q_row s k) (le_q_table s)\<rparr>"

definition update_q :: "features \<Rightarrow> nat \<Rightarrow> rat \<Rightarrow> features \<Rightarrow> bool \<Rightarrow> learner \<Rightarrow> py_error + learner" where
  "update_q k a reward k' finished s =
     try_bind (q_at s k a) (\<lambda>current.
       let future = (if finished then 0 else best_q (q_row s k'));
           u = (if finished then touch k s else touch k' (touch k s));
           q = current + le_lr s * (reward + le_gamma s * future - current);
           buf = le_experience_buffer s
             @ [\<lparr>ex_state = k, ex_action = a, ex_reward = reward, ex_next_state = k', ex_done = finished\<rparr>] in
       Inr (u\<lparr>le_q_table := dict_set k ((q_row s k)[a := q]) (le_q_table u),
              le_experience_buffer := (if le_max_buffer_size s < length buf then tl buf else buf)\<rparr>))"

definition simulate :: "rl_node list \<Rightarrow> rl_node \<Rightarrow> rl_job \<Rightarrow> bool \<Rightarrow> rl_node list" where
  "simulate ns selected j success =
     (if \<not> success then ns
      else map (\<lambda>n.
        if rn_id n = rn_id selected
        then n\<lparr>rn_available_gpus := max 0 (rn_available_gpus n - rj_required_gpus j),
               rn_free_memory_gb := max 0 (rn_free_memory_gb n - rj_memory_gb j), rn_temperature := min 100 (rn_temperature n + 2)\<rparr>
        else n\<lparr>rn_temperature := max 30 (rn_temperature n - 1 / 2)\<rparr>) ns)"

definition explain :: "rat \<Rightarrow> rl_node \<Rightarrow> piece list" where
  "explain q n =
     [Txt ((if 8 / 10 < q then ''High confidence on '' else if 1 / 2 < q then ''Moderate confidence on '' else ''Exploring placement on '')
           @ rn_id n @ '' (Q=''), Fmt ''.2f'' (JFloat q), Txt '')'']"

definition queued_placement :: "string \<Rightarrow> rl_placement" where
  "queued_placement why =
     \<lparr>rp_node = None, rp_action = ''queued'', rp_node_id = [], rp_reward = 0, rp_success = False, rp_reasoning = [Txt why], rp_q_value = 0\<rparr>"

record draws =
  dr_explore :: rat
  dr_pick :: nat
  dr_success :: rat

definition placement_succeeds :: "draws \<Rightarrow> bool" where
  "placement_succeeds d \<longleftrightarrow> 5 / 100 < dr_success d"

definition rl_schedule :: "draws \<Rightarrow> rl_job \<Rightarrow> rl_node list \<Rightarrow> learner \<Rightarrow> py_error + learner \<times> rl_placement" where
  "rl_schedule d j ns s =
     try_bind (state_features j ns) (\<lambda>k.
       let eligible = eligible_actions j ns in
       if eligible = [] then Inr (s, queued_placement ''No eligible nodes available'')
       else try_bind (choose_action (dr_explore d) (dr_pick d) k eligible s) (\<lambda>action.
         case action of
           None \<Rightarrow> Inr (s, queued_placement ''No valid action found'')
         | Some a \<Rightarrow>
             if length ns \<le> a then Inr (s, queued_placement ''No valid action found'')
             else try_bind (q_at s k a) (\<lambda>q.
               let node = ns ! a; success = placement_succeeds d; reward = compute_reward j node success;
                   next_nodes = simulate ns node j success in
               try_bind (state_features j next_nodes) (\<lambda>k'.
               try_bind (update_q k a reward k' (\<not> success) s) (\<lambda>t. Inr
                 (t\<lparr>le_placement_history := le_placement_history t
                      @ [\<lparr>pe_job_id = rj_id j, pe_node_id = rn_id node, pe_reward = reward, pe_success = success\<rparr>]\<rparr>,
                  \<lparr>rp_node = Some node, rp_action = ''placed'', rp_node_id = rn_id node, rp_reward = reward, rp_success = success,
                   rp_reasoning = explain q node, rp_q_value = q\<rparr>))))))"

text \<open>A training episode: twenty placements, whose rewards are summed.\<close>

fun train_episode :: "(draws \<times> rl_job \<times> rl_node list) list \<Rightarrow> rat \<Rightarrow> learner \<Rightarrow> py_error + learner" where
  "train_episode [] total_reward s = Inr (s\<lparr>le_episode_rewards := le_episode_rewards s @ [total_reward]\<rparr>)"
| "train_episode ((d, j, ns) # xs) total_reward s =
     try_bind (rl_schedule d j ns s) (\<lambda>(t, r). train_episode xs (total_reward + rp_reward r) t)"

fun train_from_history :: "(draws \<times> rl_job \<times> rl_node list) list list \<Rightarrow> learner \<Rightarrow> py_error + learner" where
  "train_from_history [] s = Inr s"
| "train_from_history (e # es) s = try_bind (train_episode e 0 s) (train_from_history es)"

definition rl_metrics :: "learner \<Rightarrow> (string, json) dict" where
  "rl_metrics s =
     (let recent = slice_last 1000 (le_placement_history s) in
      [(''q_table_size'', JInt (int (length (le_q_table s)))),
       (''experience_buffer_size'', JInt (int (length (le_experience_buffer s)))),
       (''episode_count'', JInt (int (length (le_episode_rewards s)))),
       (''average_reward'', JFloat (mean_of (slice_last 100 (le_episode_rewards s)))),
       (''placement_success_rate'',
        JFloat (py_round 4 (of_nat (length (filter pe_success recent)) / of_nat (max (length recent) 1)))),
       (''total_placements'', JInt (int (length (le_placement_history s))))])"

subsection \<open>What a placement does\<close>

definition rows_ok :: "learner \<Rightarrow> bool" where
  "rows_ok s \<longleftrightarrow> (\<forall>k row. dict_get (le_q_table s) k = Some row \<longrightarrow> length row = le_action_size s)"

lemma q_row_length: "rows_ok s \<Longrightarrow> length (q_row s k) = le_action_size s"
  by (auto simp: q_row_def dict_get_or_def rows_ok_def split: option.split)

lemma q_at_cases:
  "rows_ok s \<Longrightarrow> (case q_at s k i of Inl e \<Rightarrow> (\<exists>m. e = IndexError m) \<and> le_action_size s \<le> i
     | Inr q \<Rightarrow> i < le_action_size s \<and> q = q_row s k ! i)"
  by (simp add: q_at_def q_row_length)

lemma try_q_at:
  "rows_ok s \<Longrightarrow> (case try_map (q_at s k) is of Inl e \<Rightarrow> (\<exists>m. e = IndexError m) \<and> (\<exists>i \<in> set is. le_action_size s \<le> i)
     | Inr _ \<Rightarrow> \<forall>i \<in> set is. i < le_action_size s)"
proof (induction "is")
  case (Cons i "is")
  then show ?case using q_at_cases [of s i k] by (auto split: sum.splits)
qed simp

lemma simulate_totals: "max_total (simulate ns n j success) = max_total ns"
proof -
  have "map rn_total_gpus (simulate ns n j success) = map rn_total_gpus ns" by (simp add: simulate_def)
  then show ?thesis by (simp add: max_total_def)
qed

lemma update_q_history: "update_q k a r k' finished s = Inr t \<Longrightarrow> le_placement_history t = le_placement_history s"
  by (auto simp: update_q_def touch_def try_bind_Inr_iff Let_def)

text \<open>A successful placement is recorded with the name of one of the nodes.\<close>

lemma recorded_placement:
  assumes "rl_schedule d j ns s = Inr (l, r)" and "rp_success r"
  obtains e n where "le_placement_history l = le_placement_history s @ [e]" "pe_job_id e = rj_id j" "pe_node_id e = rp_node_id r"
    "n \<in> set ns" "rn_id n = rp_node_id r"
proof -
  obtain k a where a: "state_features j ns = Inr k" "choose_action (dr_explore d) (dr_pick d) k (eligible_actions j ns) s = Inr a"
    using assms by (auto simp: rl_schedule_def queued_placement_def try_bind_Inr_iff Let_def split: if_splits)
  have "eligible_actions j ns \<noteq> []" using assms a by (auto simp: rl_schedule_def queued_placement_def)
  then obtain i where i: "a = Some i" "i < length ns"
    using assms a by (cases a) (auto simp: rl_schedule_def queued_placement_def not_le split: if_splits)
  obtain k' t where t: "update_q k i (compute_reward j (ns ! i) (placement_succeeds d)) k' (\<not> placement_succeeds d) s = Inr t"
    "le_placement_history l = le_placement_history t @ [\<lparr>pe_job_id = rj_id j, pe_node_id = rn_id (ns ! i),
       pe_reward = compute_reward j (ns ! i) (placement_succeeds d), pe_success = placement_succeeds d\<rparr>]"
    "rp_node_id r = rn_id (ns ! i)"
    using assms(1) a i \<open>eligible_actions j ns \<noteq> []\<close> by (auto simp: rl_schedule_def try_bind_Inr_iff Let_def)
  show thesis by (rule that [OF t(2) [unfolded update_q_history [OF t(1)]], of "ns ! i"]) (simp_all add: t(3) i(2))
qed

lemma features_defined: "max_total ns \<noteq> 0 \<Longrightarrow> \<exists>k. state_features j ns = Inr k"
  by (simp add: state_features_def Let_def)

lemma choose_outcome:
  assumes "rows_ok s" and "eligible \<noteq> []" and "pick < length eligible"
  shows "case choose_action explore pick k eligible s of
      Inl e \<Rightarrow> (\<exists>m. e = IndexError m) \<and> (\<exists>i \<in> set eligible. le_action_size s \<le> i)
    | Inr a \<Rightarrow> \<exists>i \<in> set eligible. a = Some i"
proof -
  obtain e es where el: "eligible = e # es" using assms(2) by (cases eligible) auto
  have "max_by f e es \<in> set eligible" for f :: "nat \<Rightarrow> rat" using max_by_mem [of f e es] el by simp
  then show ?thesis using try_q_at [OF assms(1), of eligible k] assms(3)
    using nth_mem [of pick eligible] by (auto simp: choose_action_def el simp del: nth_mem try_map.simps split: sum.splits)
qed

text \<open>
  A placement of the learned scheduler: with no eligible node the job is queued and nothing is
  learned; otherwise it goes to a node with the GPUs asked for and free memory, one entry of history
  is added, or the call raises \<open>IndexError\<close>, which it can only when an eligible node stands beyond the
  number of actions (five), and always does when all of them do.
\<close>

theorem rl_schedule_outcome:
  assumes "rows_ok s" and "max_total ns \<noteq> 0" and "eligible_actions j ns \<noteq> [] \<Longrightarrow> dr_pick d < length (eligible_actions j ns)"
  shows "(case rl_schedule d j ns s of
      Inl e \<Rightarrow> (\<exists>m. e = IndexError m) \<and> (\<exists>i \<in> set (eligible_actions j ns). le_action_size s \<le> i)
    | Inr (t, r) \<Rightarrow>
        if \<exists>n \<in> set ns. eligible_node j n
        then (\<exists>n \<in> set ns. eligible_node j n \<and> rp_node r = Some n \<and> rp_node_id r = rn_id n)
          \<and> length (le_placement_history t) = Suc (length (le_placement_history s))
        else rp_node r = None \<and> t = s)
    \<and> (eligible_actions j ns \<noteq> [] \<and> (\<forall>i \<in> set (eligible_actions j ns). le_action_size s \<le> i)
        \<longrightarrow> (\<exists>m. rl_schedule d j ns s = Inl (IndexError m)))"
proof -
  let ?el = "eligible_actions j ns"
  obtain k where k: "state_features j ns = Inr k" using features_defined [OF assms(2)] by blast
  have el: "i \<in> set ?el \<longleftrightarrow> i < length ns \<and> eligible_node j (ns ! i)" for i by (auto simp: eligible_actions_def)
  have some: "?el = [] \<longleftrightarrow> \<not> (\<exists>n \<in> set ns. eligible_node j n)"
    using el by (metis empty_iff empty_set in_set_conv_nth list.set_intros(1) list.exhaust nth_mem)
  show ?thesis
  proof (cases "?el = []")
    case True
    then show ?thesis using some by (simp add: rl_schedule_def k queued_placement_def)
  next
    case False
    note choice = choose_outcome [OF assms(1) False assms(3) [OF False], of "dr_explore d" k]
    show ?thesis
    proof (cases "choose_action (dr_explore d) (dr_pick d) k ?el s")
      case (Inl e)
      then show ?thesis using choice False by (auto simp: rl_schedule_def k Let_def)
    next
      case (Inr a)
      then obtain i where i: "i \<in> set ?el" "a = Some i" using choice by auto
      then have n: "i < length ns" "eligible_node j (ns ! i)" "ns ! i \<in> set ns" using el by auto
      let ?succ = "placement_succeeds d"
      obtain k' where k': "state_features j (simulate ns (ns ! i) j ?succ) = Inr k'"
        using features_defined [of "simulate ns (ns ! i) j ?succ" j] assms(2) by (auto simp: simulate_totals)
      have run: "rl_schedule d j ns s = try_bind (q_at s k i) (\<lambda>q.
          try_bind (update_q k i (compute_reward j (ns ! i) ?succ) k' (\<not> ?succ) s) (\<lambda>t. Inr
            (t\<lparr>le_placement_history := le_placement_history t @ [\<lparr>pe_job_id = rj_id j, pe_node_id = rn_id (ns ! i),
                 pe_reward = compute_reward j (ns ! i) ?succ, pe_success = ?succ\<rparr>]\<rparr>,
             \<lparr>rp_node = Some (ns ! i), rp_action = ''placed'', rp_node_id = rn_id (ns ! i),
              rp_reward = compute_reward j (ns ! i) ?succ, rp_success = ?succ, rp_reasoning = explain q (ns ! i), rp_q_value = q\<rparr>)))"
        using n(1) False by (simp add: rl_schedule_def k Inr i(2) k' Let_def)
      show ?thesis
      proof (cases "q_at s k i")
        case (Inl e)
        then show ?thesis using q_at_cases [OF assms(1), of i k] i(1) by (auto simp: run)
      next
        case (Inr q)
        then have "i < le_action_size s" using q_at_cases [OF assms(1), of i k] by simp
        moreover obtain t where "update_q k i (compute_reward j (ns ! i) ?succ) k' (\<not> ?succ) s = Inr t"
          "le_placement_history t = le_placement_history s"
          by (simp add: update_q_def Inr Let_def touch_def)
        ultimately show ?thesis using some False n i(1) by (auto simp: run Inr not_le)
      qed
    qed
  qed
qed

text \<open>
  When a placement raises: with an eligible node and without a division by zero the call fails exactly when the node
  taken at random, or any eligible node when the table decides, stands beyond the number of actions.
\<close>

lemma try_q_at_fails: "rows_ok s \<Longrightarrow> (\<exists>e. try_map (q_at s k) is = Inl e) \<longleftrightarrow> (\<exists>i \<in> set is. le_action_size s \<le> i)"
  using try_q_at [of s "is" k] by (cases "try_map (q_at s k) is") (auto simp: not_less)

lemma update_q_defined: "q_at s k a = Inr q \<Longrightarrow> \<exists>t. update_q k a r k' finished s = Inr t"
  by (simp add: update_q_def Let_def)

lemma rl_schedule_raises:
  assumes "rows_ok s" and "max_total ns \<noteq> 0" and "eligible_actions j ns \<noteq> []" and "dr_pick d < length (eligible_actions j ns)"
  shows "(\<exists>e. rl_schedule d j ns s = Inl e) \<longleftrightarrow>
    (if dr_explore d < epsilon s then le_action_size s \<le> eligible_actions j ns ! dr_pick d
     else \<exists>i \<in> set (eligible_actions j ns). le_action_size s \<le> i)"
proof -
  let ?el = "eligible_actions j ns"
  obtain k where k: "state_features j ns = Inr k" using features_defined [OF assms(2)] by blast
  have run: "(\<exists>e. rl_schedule d j ns s = Inl e) \<longleftrightarrow> le_action_size s \<le> a"
    if a: "choose_action (dr_explore d) (dr_pick d) k ?el s = Inr (Some a)" "a < length ns" for a
  proof -
    obtain k' where k': "state_features j (simulate ns (ns ! a) j (placement_succeeds d)) = Inr k'"
      using features_defined [of "simulate ns (ns ! a) j (placement_succeeds d)" j] assms(2) by (auto simp: simulate_totals)
    show ?thesis
    proof (cases "q_at s k a")
      case (Inl e)
      then show ?thesis using q_at_cases [OF assms(1), of a k] a by (simp add: rl_schedule_def k assms(3) Let_def)
    next
      case (Inr q)
      obtain t where "update_q k a (compute_reward j (ns ! a) (placement_succeeds d)) k' (\<not> placement_succeeds d) s = Inr t"
        using update_q_defined [OF Inr] by blast
      then show ?thesis using q_at_cases [OF assms(1), of a k] a Inr by (simp add: rl_schedule_def k k' assms(3) Let_def)
    qed
  qed
  have mem: "?el ! dr_pick d \<in> set ?el" using assms(4) by simp
  have below: "i \<in> set ?el \<Longrightarrow> i < length ns" for i by (simp add: eligible_actions_def)
  obtain e es where el: "?el = e # es" using assms(3) by (cases ?el) auto
  let ?best = "max_by (\<lambda>x. q_row s k ! x) e es"
  have best: "?best \<in> set ?el" using max_by_mem [of _ e es] by (simp add: el)
  show ?thesis
  proof (cases "dr_explore d < epsilon s")
    case True
    then have "choose_action (dr_explore d) (dr_pick d) k ?el s = Inr (Some (?el ! dr_pick d))" by (simp add: choose_action_def el)
    then show ?thesis using run below [OF mem] True by simp
  next
    case False
    show ?thesis
    proof (cases "\<exists>i \<in> set ?el. le_action_size s \<le> i")
      case True
      then obtain err where "try_map (q_at s k) ?el = Inl err" using try_q_at_fails [OF assms(1)] by blast
      then show ?thesis using True False by (simp add: rl_schedule_def k choose_action_def el del: try_map.simps)
    next
      case small: False
      then obtain qs where "try_map (q_at s k) ?el = Inr qs" using try_q_at_fails [OF assms(1), of k ?el] by (meson sum.exhaust)
      then have "choose_action (dr_explore d) (dr_pick d) k ?el s = Inr (Some ?best)" using False by (simp add: choose_action_def el del: try_map.simps)
      then show ?thesis using run [of ?best] below [OF best] best small False by auto
    qed
  qed
qed

subsection \<open>Bounds of what is learned\<close>

definition job_ok :: "rl_job \<Rightarrow> bool" where
  "job_ok j \<longleftrightarrow> 0 \<le> rj_required_gpus j \<and> 0 \<le> rj_priority j \<and> rj_priority j \<le> 10 \<and> 0 \<le> rj_memory_gb j"

definition sane_node :: "rl_node \<Rightarrow> bool" where
  "sane_node n \<longleftrightarrow> rn_available_gpus n \<le> rn_total_gpus n"

lemma reward_bounds:
  assumes "job_ok j" "sane_node n" "eligible_node j n"
  shows "compute_reward j n True \<in> {2 / 10 .. 19 / 10}" and "compute_reward j n False = - 1"
proof -
  define x where "x = (of_int (rj_required_gpus j) :: rat) / of_int (max (rn_total_gpus n) 1)"
  define m where "m = rj_memory_gb j / max (rn_free_memory_gb n + rj_memory_gb j) 1"
  define p where "p = (of_int (rj_priority j) :: rat) / 10"
  have "0 \<le> rj_required_gpus j" "rj_required_gpus j \<le> max (rn_total_gpus n) 1"
    using assms by (auto simp: job_ok_def sane_node_def eligible_node_def)
  then have x: "0 \<le> x" "x \<le> 1" unfolding x_def by (simp_all add: divide_le_eq)
  have p: "0 \<le> p" "p \<le> 1" using assms(1) by (simp_all add: p_def job_ok_def)
  have "0 \<le> rj_memory_gb j" "rj_memory_gb j \<le> max (rn_free_memory_gb n + rj_memory_gb j) 1"
    using assms by (auto simp: job_ok_def eligible_node_def)
  then have m: "0 \<le> m" "m \<le> 1" unfolding m_def by (simp_all add: divide_le_eq)
  define h where "h = (if 75 < rn_temperature n then 3 / 10 else (0::rat)) + (if 85 < rn_temperature n then 1 / 2 else 0)"
  have h: "0 \<le> h" "h \<le> 8 / 10" by (simp_all add: h_def)
  have "compute_reward j n True = 1 + x * (1 / 2) - h + p * (1 / 5) + 1 / 5 - m * (1 / 5)"
    by (simp add: compute_reward_def x_def m_def p_def h_def algebra_simps)
  then show "compute_reward j n True \<in> {2 / 10 .. 19 / 10}" using x p m h unfolding atLeastAtMost_iff by (intro conjI; linarith)
  show "compute_reward j n False = - 1" by (simp add: compute_reward_def)
qed

definition values_ok :: "learner \<Rightarrow> bool" where
  "values_ok s \<longleftrightarrow> le_action_size s = 5 \<and> le_lr s = 1 / 10 \<and> le_gamma s = 9 / 10 \<and> le_max_buffer_size s = 10000
     \<and> rows_ok s \<and> length (le_experience_buffer s) \<le> 10000
     \<and> (\<forall>k row. dict_get (le_q_table s) k = Some row \<longrightarrow> set row \<subseteq> {-10 .. 19})"

lemma q_row_bounds: "values_ok s \<Longrightarrow> set (q_row s k) \<subseteq> {-10 .. 19}"
  by (auto simp: values_ok_def q_row_def dict_get_or_def split: option.splits)

lemma foldl_max_mem: "foldl max q qs \<in> insert q (set qs)" for q :: "'a::linorder"
proof (induction qs arbitrary: q)
  case (Cons a qs)
  then show ?case using Cons.IH [of "max q a"] by (auto simp: max_def split: if_splits)
qed simp

lemma best_q_bounds: "values_ok s \<Longrightarrow> best_q (q_row s k) \<in> {-10 .. 19}"
proof -
  assume s: "values_ok s"
  then have "q_row s k \<noteq> []" using q_row_length [of s k] by (auto simp: values_ok_def)
  then obtain q r where row: "q_row s k = q # r" by (cases "q_row s k") auto
  then have "best_q (q_row s k) \<in> set (q_row s k)" using foldl_max_mem [of q r] by (simp add: best_q_def)
  then show ?thesis using q_row_bounds [OF s, of k] by (meson subsetD)
qed

lemma touch_keeps: "values_ok s \<Longrightarrow> values_ok (touch k s)"
  using q_row_bounds [of s k] q_row_length [of s k] by (auto simp: touch_def values_ok_def rows_ok_def)

lemma update_keeps:
  assumes "values_ok s" and "r \<in> {2 / 10 .. 19 / 10} \<or> (r = - 1 \<and> finished)" and "update_q k a r k' finished s = Inr t"
  shows "values_ok t"
proof -
  obtain current where cur: "q_at s k a = Inr current"
    and t: "t = (if finished then touch k s else touch k' (touch k s))\<lparr>le_q_table := dict_set k ((q_row s k)[a := current + le_lr s
          * (r + le_gamma s * (if finished then 0 else best_q (q_row s k')) - current)])
            (le_q_table (if finished then touch k s else touch k' (touch k s))),
        le_experience_buffer := (let buf = le_experience_buffer s @ [\<lparr>ex_state = k, ex_action = a, ex_reward = r, ex_next_state = k',
          ex_done = finished\<rparr>] in if le_max_buffer_size s < length buf then tl buf else buf)\<rparr>"
    using assms(3) by (auto simp: update_q_def try_bind_Inr_iff Let_def)
  have rows: "rows_ok s" "le_lr s = 1 / 10" "le_gamma s = 9 / 10" using assms(1) by (auto simp: values_ok_def)
  have "a < length (q_row s k)" "current = q_row s k ! a" using cur by (auto simp: q_at_def split: if_splits)
  then have c: "current \<in> {-10 .. 19}" using q_row_bounds [OF assms(1), of k] by (meson nth_mem subsetD)
  have f: "(if finished then 0 else best_q (q_row s k')) \<in> {-10 .. 19}" using best_q_bounds [OF assms(1), of k'] by auto
  define q where "q = current + le_lr s * (r + le_gamma s * (if finished then 0 else best_q (q_row s k')) - current)"
  have "q = current * (9 / 10) + r * (1 / 10) + (if finished then 0 else best_q (q_row s k')) * (9 / 100)"
    unfolding q_def rows(2,3) by (simp add: algebra_simps)
  then have "q \<in> {-10 .. 19}"
    using c f assms(2) by (simp only: atLeastAtMost_iff) linarith
  then have row: "set ((q_row s k)[a := q]) \<subseteq> {-10 .. 19}"
    using q_row_bounds [OF assms(1), of k] set_update_subset_insert [of "q_row s k" a q] by blast
  have "length ((q_row s k)[a := q]) = 5" using q_row_length [OF rows(1), of k] assms(1) by (simp add: values_ok_def)
  moreover have "values_ok (if finished then touch k s else touch k' (touch k s))"
    using assms(1) by (simp add: touch_keeps)
  ultimately show ?thesis using assms(1) row unfolding t q_def [symmetric]
    by (auto simp: values_ok_def rows_ok_def Let_def)
qed

lemma schedule_keeps:
  assumes "values_ok s" and "job_ok j" and "list_all sane_node ns"
    and "eligible_actions j ns \<noteq> [] \<Longrightarrow> dr_pick d < length (eligible_actions j ns)" and "rl_schedule d j ns s = Inr (t, r)"
  shows "values_ok t"
proof -
  obtain k where k: "state_features j ns = Inr k" using assms(5) by (auto simp: rl_schedule_def try_bind_Inr_iff)
  show ?thesis
  proof (cases "eligible_actions j ns = []")
    case True
    then show ?thesis using assms(1,5) by (simp add: rl_schedule_def k)
  next
    case False
    then obtain a where a: "choose_action (dr_explore d) (dr_pick d) k (eligible_actions j ns) s = Inr a"
      using assms(5) by (auto simp: rl_schedule_def k try_bind_Inr_iff Let_def)
    then obtain i where i: "i \<in> set (eligible_actions j ns)" "a = Some i"
      using choose_outcome [OF _ False assms(4) [OF False], of s "dr_explore d" k] assms(1) by (auto simp: values_ok_def)
    then have n: "i < length ns" "eligible_node j (ns ! i)" "sane_node (ns ! i)"
      using assms(3) by (auto simp: eligible_actions_def list_all_length)
    let ?succ = "placement_succeeds d"
    obtain u k' where u: "update_q k i (compute_reward j (ns ! i) ?succ) k' (\<not> ?succ) s = Inr u"
      and t: "t = u\<lparr>le_placement_history := le_placement_history t\<rparr>"
      using assms(5) n(1) False by (auto simp: rl_schedule_def k a i(2) try_bind_Inr_iff Let_def)
    have "values_ok u" by (rule update_keeps [OF assms(1) _ u]) (use reward_bounds [OF assms(2) n(3,2)] in \<open>cases ?succ; simp\<close>)
    then have "values_ok (u\<lparr>le_placement_history := le_placement_history t\<rparr>)" by (simp add: values_ok_def rows_ok_def q_row_def)
    then show ?thesis using t by metis
  qed
qed

text \<open>A call: an exception leaves the learner as it was, up to zero rows that reading the table adds.\<close>

definition rl_step :: "draws \<times> rl_job \<times> rl_node list \<Rightarrow> learner \<Rightarrow> learner" where
  "rl_step = (\<lambda>(d, j, ns) s. case rl_schedule d j ns s of Inl _ \<Rightarrow> s | Inr (t, _) \<Rightarrow> t)"

definition sane_call :: "learner \<Rightarrow> draws \<times> rl_job \<times> rl_node list \<Rightarrow> bool" where
  "sane_call s = (\<lambda>(d, j, ns). job_ok j \<and> list_all sane_node ns
     \<and> (eligible_actions j ns \<noteq> [] \<longrightarrow> dr_pick d < length (eligible_actions j ns)))"

interpretation learning: invariant_machine rl_step sane_call values_ok
proof
  fix s x assume s: "values_ok s" "sane_call s x"
  obtain d j ns where x: "x = (d, j, ns)" by (metis prod.exhaust)
  then show "values_ok (rl_step x s)"
    using s schedule_keeps [of s j ns d] by (auto simp: rl_step_def sane_call_def split: sum.split)
qed

text \<open>
  Learning stays bounded: after any run of placements of jobs with a priority up to ten on nodes
  with no more GPUs available than they have, every value of the table lies between -10 and 19, the
  table's rows keep their five actions and the buffer its bound.
\<close>

theorem rl_values_bounded:
  assumes "run_allowed rl_step sane_call calls new_learner"
  defines "s \<equiv> fold rl_step calls new_learner"
  shows "(\<forall>k row. dict_get (le_q_table s) k = Some row \<longrightarrow> length row = 5 \<and> (\<forall>q \<in> set row. -10 \<le> q \<and> q \<le> 19))
    \<and> length (le_experience_buffer s) \<le> 10000"
proof -
  have "values_ok new_learner" by (simp add: values_ok_def new_learner_def rows_ok_def)
  then have "values_ok s" unfolding s_def using assms(1) by (rule learning.run_inv [rotated])
  then show ?thesis by (fastforce simp: values_ok_def rows_ok_def)
qed

definition sample_job :: rl_job where
  "sample_job = \<lparr>rj_id = ''j'', rj_required_gpus = 2, rj_priority = 5, rj_estimated_duration = 1, rj_memory_gb = 8,
     rj_checkpointable = False\<rparr>"

definition sample_node :: rl_node where
  "sample_node = \<lparr>rn_id = ''n'', rn_available_gpus = 4, rn_total_gpus = 8, rn_free_memory_gb = 64, rn_temperature = 45,
     rn_gpu_model = ''A100'', rn_status = ''ready''\<rparr>"

definition sample_draws :: draws where
  "sample_draws = \<lparr>dr_explore = 1 / 2, dr_pick = 0, dr_success = 1 / 2\<rparr>"

lemma sample_eligible [simp]: "eligible_actions sample_job [sample_node] = [0]"
  by (simp add: eligible_actions_def eligible_node_def sample_job_def sample_node_def)

lemma rl_schedule_outcome_witness:
  "case rl_schedule sample_draws sample_job [sample_node] new_learner of Inl _ \<Rightarrow> False
   | Inr (t, r) \<Rightarrow> rp_node r = Some sample_node \<and> length (le_placement_history t) = 1"
proof -
  have sample: "rows_ok new_learner" "max_total [sample_node] \<noteq> 0" "dr_pick sample_draws = 0"
    "eligible_node sample_job sample_node" "le_action_size new_learner = 5" "le_placement_history new_learner = []"
    by (simp_all add: rows_ok_def new_learner_def max_total_def sample_node_def sample_draws_def eligible_node_def sample_job_def)
  show ?thesis using rl_schedule_outcome [of new_learner "[sample_node]" sample_job sample_draws]
    by (auto simp: sample split: sum.splits)
qed

lemma rl_values_bounded_witness:
  "length (le_experience_buffer (rl_step (sample_draws, sample_job, [sample_node]) new_learner)) \<le> 10000"
proof -
  have "run_allowed rl_step sane_call [(sample_draws, sample_job, [sample_node])] new_learner"
    by (simp add: sane_call_def) (simp add: sample_draws_def sample_job_def sample_node_def job_ok_def sane_node_def)
  then show ?thesis using rl_values_bounded [of "[(sample_draws, sample_job, [sample_node])]"] by simp
qed

end
