(* ===== verification/Federation.thy ===== *)
theory Federation
  imports RlScheduler
begin

text \<open>
  The federation of clusters: \<open>FederatedClusterRegistry\<close> of src/src/gpuopt/federation/registry.py
  and \<open>FederatedScheduler\<close> of federation/scheduler.py, with the types of federation/models.py. The
  learned scheduler that picks a node inside the chosen cluster is the one of \<open>RlScheduler\<close>, kept in
  the state; identifiers, its random numbers and the clock are arguments; the lock is not modelled.
\<close>

subsection \<open>Clusters and workloads\<close>

datatype cluster_health = UNKNOWN | ONLINE | DEGRADED | OFFLINE

datatype federation_role = ACTIVE | STANDBY | DRAINING

record fed_cluster =
  fc_id :: uuid
  fc_name :: string
  fc_endpoint :: string
  fc_environment :: string
  fc_health :: cluster_health
  fc_role :: federation_role
  fc_total_gpus :: int
  fc_free_gpus :: int
  fc_gpu_models :: "string list"
  fc_avg_utilization :: rat
  fc_region :: string
  fc_labels :: "(string, string) dict"
  fc_last_seen :: datetime
  fc_created_at :: datetime
  fc_options :: "(string, json) dict"

datatype workload_state = WL_PENDING | WL_QUEUED | WL_RUNNING | WL_COMPLETED | WL_FAILED | WL_PREEMPTED

record fed_workload =
  fw_id :: uuid
  fw_name :: string
  fw_required_gpus :: int
  fw_priority :: int
  fw_memory_gb :: rat
  fw_state :: workload_state
  fw_assigned_cluster :: string
  fw_assigned_node :: string
  fw_scheduler_type :: string
  fw_created_at :: datetime

type_synonym fed_registry = "(uuid, fed_cluster) dict"

subsection \<open>The registry\<close>

text \<open>\<open>d.update(e)\<close>.\<close>

definition dict_update :: "('k, 'v) dict \<Rightarrow> ('k, 'v) dict \<Rightarrow> ('k, 'v) dict" where
  "dict_update d e = fold (\<lambda>(k, v). dict_set k v) e d"

definition or_text :: "string \<Rightarrow> string \<Rightarrow> string" where
  "or_text a b = (if a \<noteq> [] then a else b)"

definition get_by_name :: "string \<Rightarrow> fed_registry \<Rightarrow> fed_cluster option" where
  "get_by_name name s = find (\<lambda>c. fc_name c = name) (dict_values s)"

definition register_cluster ::
  "uuid \<Rightarrow> datetime \<Rightarrow> string \<Rightarrow> string \<Rightarrow> string \<Rightarrow> string \<Rightarrow> (string, string) dict \<Rightarrow> (string, json) dict
    \<Rightarrow> fed_registry \<Rightarrow> fed_registry \<times> fed_cluster" where
  "register_cluster i now name endpoint environment region labels options s =
     (case get_by_name name s of
        Some c \<Rightarrow>
          (let c' = c\<lparr>fc_endpoint := or_text endpoint (fc_endpoint c),
                      fc_environment := or_text environment (fc_environment c),
                      fc_region := or_text region (fc_region c), fc_last_seen := now,
                      fc_labels := dict_update (fc_labels c) labels,
                      fc_options := dict_update (fc_options c) options\<rparr>
           in (dict_set (fc_id c) c' s, c'))
      | None \<Rightarrow>
          (let c = \<lparr>fc_id = i, fc_name = name, fc_endpoint = endpoint, fc_environment = environment,
                    fc_health = UNKNOWN, fc_role = ACTIVE, fc_total_gpus = 0, fc_free_gpus = 0, fc_gpu_models = [],
                    fc_avg_utilization = 0, fc_region = region, fc_labels = labels, fc_last_seen = now,
                    fc_created_at = now, fc_options = options\<rparr>
           in (dict_set i c s, c)))"

definition unregister_cluster :: "uuid \<Rightarrow> fed_registry \<Rightarrow> fed_registry \<times> bool" where
  "unregister_cluster i s = (if dict_has s i then (dict_pop i s, True) else (s, False))"

definition get_fed_cluster :: "uuid \<Rightarrow> fed_registry \<Rightarrow> fed_cluster option" where
  "get_fed_cluster i s = dict_get s i"

definition list_clusters :: "fed_registry \<Rightarrow> fed_cluster list" where
  "list_clusters s = dict_values s"

definition update_health ::
  "datetime \<Rightarrow> uuid \<Rightarrow> cluster_health \<Rightarrow> int \<Rightarrow> int \<Rightarrow> string list option \<Rightarrow> rat \<Rightarrow> fed_registry
    \<Rightarrow> fed_registry \<times> fed_cluster option" where
  "update_health now i health total_gpus free_gpus gpu_models avg_utilization s =
     (case dict_get s i of
        None \<Rightarrow> (s, None)
      | Some c \<Rightarrow>
          (let c' = c\<lparr>fc_health := health, fc_total_gpus := total_gpus, fc_free_gpus := free_gpus,
                      fc_gpu_models := (case gpu_models of None \<Rightarrow> fc_gpu_models c | Some g \<Rightarrow> g),
                      fc_avg_utilization := avg_utilization, fc_last_seen := now\<rparr>
           in (dict_set i c' s, Some c')))"

record federation_state =
  fs_clusters :: "fed_cluster list"
  fs_total_gpus_across_clusters :: int
  fs_total_free_gpus :: int

definition registry_state :: "fed_registry \<Rightarrow> federation_state" where
  "registry_state s =
     \<lparr>fs_clusters = dict_values s,
      fs_total_gpus_across_clusters = sum_list (map fc_total_gpus (dict_values s)),
      fs_total_free_gpus = sum_list (map fc_free_gpus (dict_values s))\<rparr>"

subsection \<open>Placement\<close>

definition qualifies :: "int \<Rightarrow> string \<Rightarrow> string \<Rightarrow> fed_cluster \<Rightarrow> bool" where
  "qualifies required_gpus gpu_model region c \<longleftrightarrow>
     fc_health c = ONLINE \<and> fc_role c \<noteq> DRAINING \<and> (region = [] \<or> fc_region c = region)
     \<and> required_gpus \<le> fc_free_gpus c \<and> (gpu_model = [] \<or> gpu_model \<in> set (fc_gpu_models c))"

definition placement_score :: "int \<Rightarrow> fed_cluster \<Rightarrow> rat" where
  "placement_score priority c =
     of_int (fc_free_gpus c) / of_int (max (fc_total_gpus c) 1) * (6 / 10)
     + (1 - fc_avg_utilization c / 100) * (3 / 10) + of_int priority / 10 * (1 / 10)"

definition find_best_cluster :: "int \<Rightarrow> string \<Rightarrow> int \<Rightarrow> string \<Rightarrow> fed_registry \<Rightarrow> fed_cluster option" where
  "find_best_cluster required_gpus gpu_model priority region s =
     (let candidates = sorted_by (\<lambda>x. - fst x)
            (map (\<lambda>c. (placement_score priority c, c)) (filter (qualifies required_gpus gpu_model region) (list_clusters s)))
      in case candidates of [] \<Rightarrow> None | x # _ \<Rightarrow> Some (snd x))"

definition federated_job :: "uuid \<Rightarrow> int \<Rightarrow> int \<Rightarrow> rat \<Rightarrow> rl_job" where
  "federated_job i required_gpus priority memory_gb =
     \<lparr>rj_id = i, rj_required_gpus = required_gpus, rj_priority = priority, rj_estimated_duration = 1, rj_memory_gb = memory_gb,
      rj_checkpointable = False\<rparr>"

definition rl_nodes :: "string \<Rightarrow> rat \<Rightarrow> fed_cluster \<Rightarrow> rl_node list" where
  "rl_nodes gpu_model memory_gb best =
     map (\<lambda>i. \<lparr>rn_id = fc_name best @ ''-node-'' @ nat_str i, rn_available_gpus = fc_free_gpus best,
               rn_total_gpus = fc_total_gpus best, rn_free_memory_gb = max 64 (memory_gb * 2),
               rn_temperature = 45, rn_gpu_model = (if gpu_model \<noteq> [] then gpu_model
                 else (case fc_gpu_models best of [] \<Rightarrow> ''A100'' | g # _ \<Rightarrow> g)),
               rn_status = ''ready''\<rparr>)
       [0..<nat (max 1 (fc_total_gpus best div 8))]"

record placement =
  pm_status :: string
  pm_cluster :: string
  pm_node :: string
  pm_reasoning :: "piece list"
  pm_q_value :: rat
  pm_workload_id :: uuid

datatype placement_reply = QueuedNoCluster | Placed placement

record fed_scheduler =
  fq_registry :: fed_registry
  fq_rl :: learner
  fq_workloads :: "(uuid, fed_workload) dict"

definition placed_workload ::
  "uuid \<Rightarrow> string \<Rightarrow> datetime \<Rightarrow> int \<Rightarrow> int \<Rightarrow> rat \<Rightarrow> string \<Rightarrow> fed_cluster \<Rightarrow> rl_placement \<Rightarrow> fed_workload" where
  "placed_workload i hex8 now required_gpus priority memory_gb workload_name best r =
     \<lparr>fw_id = i, fw_name = (if workload_name \<noteq> [] then workload_name else ''fed-'' @ hex8),
      fw_required_gpus = required_gpus, fw_priority = priority, fw_memory_gb = memory_gb,
      fw_state = (if rp_node r \<noteq> None then WL_PENDING else WL_QUEUED),
      fw_assigned_cluster = fc_name best, fw_assigned_node = (if rp_node r \<noteq> None then rp_node_id r else []),
      fw_scheduler_type = ''rl'', fw_created_at = now\<rparr>"

definition placement_of :: "uuid \<Rightarrow> fed_cluster \<Rightarrow> rl_placement \<Rightarrow> placement" where
  "placement_of i best r =
     \<lparr>pm_status = (if rp_node r \<noteq> None then ''scheduled'' else ''queued''), pm_cluster = fc_name best,
      pm_node = (if rp_node r \<noteq> None then rp_node_id r else []), pm_reasoning = rp_reasoning r, pm_q_value = rp_q_value r, pm_workload_id = i\<rparr>"

text \<open>\<open>i\<close> is the identifier of the workload, \<open>ji\<close> the one of the job that the learned scheduler sees.\<close>

definition schedule_across ::
  "uuid \<Rightarrow> uuid \<Rightarrow> string \<Rightarrow> datetime \<Rightarrow> draws \<Rightarrow> int \<Rightarrow> string \<Rightarrow> int \<Rightarrow> rat \<Rightarrow> string \<Rightarrow> string
    \<Rightarrow> fed_scheduler \<Rightarrow> py_error + fed_scheduler \<times> placement_reply" where
  "schedule_across i ji hex8 now d required_gpus gpu_model priority memory_gb region workload_name s =
     (case find_best_cluster required_gpus gpu_model priority region (fq_registry s) of
        None \<Rightarrow> Inr (s, QueuedNoCluster)
      | Some best \<Rightarrow>
          try_bind (rl_schedule d (federated_job ji required_gpus priority memory_gb) (rl_nodes gpu_model memory_gb best) (fq_rl s)) (\<lambda>(l, r).
            let w = placed_workload i hex8 now required_gpus priority memory_gb workload_name best r in
            Inr (s\<lparr>fq_rl := l, fq_workloads := dict_set i w (fq_workloads s)\<rparr>, Placed (placement_of i best r))))"

definition list_workloads :: "fed_scheduler \<Rightarrow> fed_workload list" where
  "list_workloads s = dict_values (fq_workloads s)"

definition get_workload :: "uuid \<Rightarrow> fed_scheduler \<Rightarrow> fed_workload option" where
  "get_workload i s = dict_get (fq_workloads s) i"

record scheduler_state =
  ss_clusters :: "fed_cluster list"
  ss_workloads :: "fed_workload list"
  ss_total_clusters :: nat
  ss_total_gpus :: int
  ss_total_free_gpus :: int
  ss_pending_workloads :: nat
  ss_running_workloads :: nat

definition scheduler_state_of :: "fed_scheduler \<Rightarrow> scheduler_state" where
  "scheduler_state_of s =
     (let cs = list_clusters (fq_registry s); ws = dict_values (fq_workloads s) in
      \<lparr>ss_clusters = cs, ss_workloads = ws, ss_total_clusters = length cs,
       ss_total_gpus = sum_list (map fc_total_gpus cs), ss_total_free_gpus = sum_list (map fc_free_gpus cs),
       ss_pending_workloads = length (filter (\<lambda>w. fw_state w \<in> {WL_PENDING, WL_QUEUED}) ws),
       ss_running_workloads = length (filter (\<lambda>w. fw_state w = WL_RUNNING) ws)\<rparr>)"

subsection \<open>Names stay unique\<close>

datatype fed_op =
    FoRegister uuid datetime string string string string "(string, string) dict" "(string, json) dict"
  | FoUnregister uuid
  | FoHealth datetime uuid cluster_health int int "string list option" rat

fun fed_step :: "fed_op \<Rightarrow> fed_registry \<Rightarrow> fed_registry" where
  "fed_step (FoRegister i now n e v r ls os) s = fst (register_cluster i now n e v r ls os s)"
| "fed_step (FoUnregister i) s = fst (unregister_cluster i s)"
| "fed_step (FoHealth now i h t f g u) s = fst (update_health now i h t f g u s)"

text \<open>A fresh identifier is one the registry does not hold.\<close>

fun fed_fresh :: "fed_registry \<Rightarrow> fed_op \<Rightarrow> bool" where
  "fed_fresh s (FoRegister i _ _ _ _ _ _ _) = (dict_get s i = None)"
| "fed_fresh s _ = True"

definition fed_inv :: "fed_registry \<Rightarrow> bool" where
  "fed_inv s \<longleftrightarrow> dict_ok s \<and> (\<forall>i c. dict_get s i = Some c \<longrightarrow> fc_id c = i)
     \<and> (\<forall>i j a b. dict_get s i = Some a \<longrightarrow> dict_get s j = Some b \<longrightarrow> fc_name a = fc_name b \<longrightarrow> i = j)"

lemma fed_inv_overwrite:
  assumes "fed_inv s" and "dict_get s i = Some c" and "fc_id c' = i" and "fc_name c' = fc_name c"
  shows "fed_inv (dict_set i c' s)"
proof -
  have old: "\<exists>b0. dict_get s j = Some b0 \<and> fc_name b0 = fc_name b" if "dict_get (dict_set i c' s) j = Some b" for j b
    using that assms(2,4) by (cases "j = i") auto
  have ids: "fc_id b = j" if "dict_get (dict_set i c' s) j = Some b" for j b
    using that assms(1,3) by (cases "j = i") (auto simp: fed_inv_def)
  show ?thesis unfolding fed_inv_def
  proof (intro conjI allI impI)
    show "dict_ok (dict_set i c' s)" using assms(1) by (simp add: fed_inv_def)
    fix j k a b
    assume ab: "dict_get (dict_set i c' s) j = Some a" "dict_get (dict_set i c' s) k = Some b" "fc_name a = fc_name b"
    then obtain a0 b0 where "dict_get s j = Some a0" "dict_get s k = Some b0" "fc_name a0 = fc_name b0"
      using old by metis
    then show "j = k" using assms(1) unfolding fed_inv_def by blast
  qed (rule ids)
qed

lemma fed_inv_new:
  assumes "fed_inv s" and "dict_get s i = None" and "fc_id c = i" and "get_by_name (fc_name c) s = None"
  shows "fed_inv (dict_set i c s)"
proof -
  have "fc_name b \<noteq> fc_name c" if "dict_get s j = Some b" for j b
    using assms(4) dict_get_in_values [OF that] by (auto simp: get_by_name_def find_None_iff)
  then have "fc_name c \<noteq> fc_name b" if "dict_get s j = Some b" for j b using that by metis
  then show ?thesis using assms(1-3) \<open>\<And>j b. dict_get s j = Some b \<Longrightarrow> fc_name b \<noteq> fc_name c\<close> unfolding fed_inv_def
    by (auto split: if_splits)
qed

lemma get_by_name_found:
  assumes "fed_inv s" and "get_by_name n s = Some c"
  shows "dict_get s (fc_id c) = Some c \<and> fc_name c = n"
proof -
  have "c \<in> set (dict_values s)" "fc_name c = n" using find_SomeD [OF assms(2) [unfolded get_by_name_def]] by auto
  moreover have "dict_ok s" using assms(1) by (simp add: fed_inv_def)
  ultimately show ?thesis using assms(1) by (auto simp: dict_values_mem fed_inv_def)
qed

interpretation fed_machine: invariant_machine fed_step fed_fresh fed_inv
proof
  fix s x assume inv: "fed_inv s" and ok: "fed_fresh s x"
  show "fed_inv (fed_step x s)"
  proof (cases x)
    case (FoRegister i now n e v r ls os)
    show ?thesis
    proof (cases "get_by_name n s")
      case None
      then show ?thesis using fed_inv_new [OF inv] ok FoRegister by (simp add: register_cluster_def Let_def)
    next
      case (Some c)
      then show ?thesis using fed_inv_overwrite [OF inv] get_by_name_found [OF inv Some] FoRegister
        by (simp add: register_cluster_def Let_def)
    qed
  next
    case (FoUnregister i)
    then show ?thesis using inv by (auto simp: unregister_cluster_def fed_inv_def split: if_splits)
  next
    case (FoHealth now i h t f g u)
    have "fc_id c = i" if "dict_get s i = Some c" for c using inv that by (simp add: fed_inv_def)
    then show ?thesis using fed_inv_overwrite [OF inv] FoHealth inv
      by (simp add: update_health_def Let_def split: option.split)
  qed
qed

lemma fed_reachable: "run_allowed fed_step fed_fresh ops [] \<Longrightarrow> fed_inv (fold fed_step ops [])"
  by (erule fed_machine.run_inv) (simp add: fed_inv_def)

text \<open>
  A federated cluster is known by its name: after any run of registrations with fresh
  identifiers, removals and health reports no two stored clusters share a name, looking a name up
  finds exactly the stored cluster of that name, and registering a name again keeps the identifier
  of the cluster that has it.
\<close>

theorem cluster_names_unique:
  assumes "run_allowed fed_step fed_fresh ops []" and "s = fold fed_step ops []"
  shows "distinct (map fc_name (list_clusters s))
    \<and> (\<forall>n c. get_by_name n s = Some c \<longleftrightarrow> (\<exists>i. get_fed_cluster i s = Some c \<and> fc_name c = n))
    \<and> (\<forall>i now n e v r ls os c. get_by_name n s = Some c \<longrightarrow> fc_id (snd (register_cluster i now n e v r ls os s)) = fc_id c)"
proof -
  have inv: "fed_inv s" using fed_reachable assms by simp
  have ok: "dict_ok s" using inv by (simp add: fed_inv_def)
  have uniq: "i = j" if "dict_get s i = Some a" "dict_get s j = Some b" "fc_name a = fc_name b" for i j a b
    using inv that unfolding fed_inv_def by blast
  have inj: "inj_on (\<lambda>kv. fc_name (snd kv)) (set s)"
  proof (rule inj_onI)
    fix x y assume xy: "x \<in> set s" "y \<in> set s" "fc_name (snd x) = fc_name (snd y)"
    then have "dict_get s (fst x) = Some (snd x)" "dict_get s (fst y) = Some (snd y)"
      using ok by (simp_all add: dict_ok_def)
    then show "x = y" using uniq xy(3) by (metis option.inject prod_eqI)
  qed
  have "distinct s" using ok by (simp add: dict_ok_def distinct_map)
  then have "distinct (map fc_name (list_clusters s))"
    using inj by (simp add: list_clusters_def dict_values_def distinct_map comp_def)
  moreover have "get_by_name n s = Some c \<longleftrightarrow> (\<exists>i. get_fed_cluster i s = Some c \<and> fc_name c = n)" for n c
  proof
    assume "get_by_name n s = Some c"
    then show "\<exists>i. get_fed_cluster i s = Some c \<and> fc_name c = n"
      using get_by_name_found [OF inv] by (auto simp: get_fed_cluster_def)
  next
    assume "\<exists>i. get_fed_cluster i s = Some c \<and> fc_name c = n"
    then obtain i where i: "dict_get s i = Some c" "fc_name c = n" by (auto simp: get_fed_cluster_def)
    then obtain d where d: "get_by_name n s = Some d"
      using dict_get_in_values [OF i(1)] by (cases "get_by_name n s") (auto simp: get_by_name_def find_None_iff)
    then have "dict_get s (fc_id d) = Some d" "fc_name d = n" using get_by_name_found [OF inv] by auto
    then show "get_by_name n s = Some c" using uniq [of i c "fc_id d" d] i d by simp
  qed
  moreover have "fc_id (snd (register_cluster i now n e v r ls os s)) = fc_id c"
    if "get_by_name n s = Some c" for i now n e v r ls os c
    using that by (simp add: register_cluster_def Let_def)
  ultimately show ?thesis by blast
qed

text \<open>The number of nodes a cluster is taken to have.\<close>

definition node_count :: "fed_cluster \<Rightarrow> nat" where
  "node_count c = nat (max 1 (fc_total_gpus c div 8))"

lemma federated_nodes:
  assumes "gpus \<le> fc_free_gpus c"
  shows "eligible_actions (federated_job ji gpus priority mem) (rl_nodes model mem c) = [0..<node_count c]"
    and "max_total (rl_nodes model mem c) = fc_total_gpus c" and "0 < node_count c"
proof -
  show pos: "0 < node_count c" by (simp add: node_count_def)
  have len: "length (rl_nodes model mem c) = node_count c" by (simp add: rl_nodes_def node_count_def)
  have "eligible_node (federated_job ji gpus priority mem) (rl_nodes model mem c ! i)" if "i < node_count c" for i
    using that assms by (simp add: eligible_node_def federated_job_def rl_nodes_def node_count_def)
  then show "eligible_actions (federated_job ji gpus priority mem) (rl_nodes model mem c) = [0..<node_count c]"
    by (auto simp: eligible_actions_def len filter_id_conv)
  have "foldl max x (replicate n x) = x" for n and x :: int by (induction n) simp_all
  moreover have "map rn_total_gpus (rl_nodes model mem c) = replicate (node_count c) (fc_total_gpus c)"
    by (simp add: rl_nodes_def node_count_def comp_def map_replicate_const)
  moreover obtain n where "node_count c = Suc n" using pos by (cases "node_count c") auto
  ultimately show "max_total (rl_nodes model mem c) = fc_total_gpus c" by (simp add: max_total_def)
qed

text \<open>The learned scheduler raises on a cluster without GPUs and when it picks a node beyond its actions.\<close>

definition cluster_raises :: "draws \<Rightarrow> learner \<Rightarrow> fed_cluster \<Rightarrow> bool" where
  "cluster_raises d l c \<longleftrightarrow> fc_total_gpus c = 0
     \<or> (if dr_explore d < epsilon l then le_action_size l \<le> dr_pick d else le_action_size l < node_count c)"

lemma federated_run:
  assumes "rows_ok l" and "gpus \<le> fc_free_gpus c" and "dr_pick d < node_count c"
  shows "case rl_schedule d (federated_job ji gpus priority mem) (rl_nodes model mem c) l of
      Inl e \<Rightarrow> cluster_raises d l c \<and> (if fc_total_gpus c = 0 then \<exists>m. e = ZeroDivisionError m else \<exists>m. e = IndexError m)
    | Inr (l', r) \<Rightarrow> \<not> cluster_raises d l c \<and> (\<exists>k < node_count c. rp_node r \<noteq> None \<and> rp_node_id r = fc_name c @ ''-node-'' @ nat_str k)
        \<and> length (le_placement_history l') = Suc (length (le_placement_history l))"
proof -
  let ?j = "federated_job ji gpus priority mem" and ?ns = "rl_nodes model mem c"
  note nodes = federated_nodes(1) [OF assms(2), where ji = ji and priority = priority and mem = mem and model = model]
    federated_nodes(2) [OF assms(2), where mem = mem and model = model]
  show ?thesis
  proof (cases "fc_total_gpus c = 0")
    case True
    then show ?thesis using nodes(2) by (simp add: rl_schedule_def state_features_def cluster_raises_def Let_def)
  next
    case False
    then have total: "max_total ?ns \<noteq> 0" using nodes(2) by simp
    have el: "eligible_actions ?j ?ns \<noteq> []" "dr_pick d < length (eligible_actions ?j ?ns)" using nodes assms(3) by simp_all
    have raises: "(\<exists>e. rl_schedule d ?j ?ns l = Inl e) \<longleftrightarrow> cluster_raises d l c"
      using rl_schedule_raises [OF assms(1) total el] assms(3) nodes False by (auto simp: cluster_raises_def intro: bexI [of _ "node_count c - 1"])
    have name: "n \<in> set ?ns \<Longrightarrow> \<exists>k < node_count c. rn_id n = fc_name c @ ''-node-'' @ nat_str k" for n
      by (auto simp: rl_nodes_def node_count_def)
    have "\<exists>n \<in> set ?ns. eligible_node ?j n" using el by (auto simp: eligible_actions_def filter_empty_conv)
    then show ?thesis using rl_schedule_outcome [OF assms(1) total, of ?j d] el raises name False
      by (cases "rl_schedule d ?j ?ns l") (auto split: prod.splits)
  qed
qed

lemma best_cluster:
  "case find_best_cluster gpus model priority region s of
     None \<Rightarrow> \<forall>c \<in> set (list_clusters s). \<not> qualifies gpus model region c
   | Some c \<Rightarrow> c \<in> set (list_clusters s) \<and> qualifies gpus model region c
       \<and> (\<forall>d \<in> set (list_clusters s). qualifies gpus model region d \<longrightarrow> placement_score priority d \<le> placement_score priority c)"
proof -
  let ?q = "filter (qualifies gpus model region) (list_clusters s)"
  let ?s = "sorted_by (\<lambda>x. - fst x) (map (\<lambda>c. (placement_score priority c, c)) ?q)"
  show ?thesis
  proof (cases ?s)
    case Nil
    have "\<forall>c \<in> set (list_clusters s). \<not> qualifies gpus model region c"
      using arg_cong [OF Nil, of set] by (simp add: filter_empty_conv)
    then show ?thesis using Nil by (simp add: find_best_cluster_def)
  next
    case (Cons x xs)
    then show ?thesis using sorted_by_head [OF Cons] by (auto simp: find_best_cluster_def)
  qed
qed

text \<open>
  C28: placement picks a best cluster: a workload is refused exactly when no stored cluster is
  online, not draining, in the region asked for, with the model asked for and enough free GPUs.
  Otherwise such a cluster that none outscores is picked. If it has no GPUs at all, or the learned
  scheduler picks beyond its actions among the cluster's assumed nodes, which needs six nodes or more, the call
  raises; otherwise the workload is scheduled on one of these nodes and stored under its identifier,
  pending, and the placement is learned. The registry stays as it is, so nothing is reserved: the same
  request finds the same cluster again, however many workloads were sent there before.
\<close>

theorem placement_is_best:
  assumes "ok = (\<lambda>c. fc_health c = ONLINE \<and> fc_role c \<noteq> DRAINING \<and> (region = [] \<or> fc_region c = region)
               \<and> gpus \<le> fc_free_gpus c \<and> (model = [] \<or> model \<in> set (fc_gpu_models c)))"
    and "best = (\<lambda>c. c \<in> set (list_clusters (fq_registry s)) \<and> ok c
               \<and> (\<forall>d \<in> set (list_clusters (fq_registry s)). ok d \<longrightarrow> placement_score priority d \<le> placement_score priority c))"
    and "rows_ok (fq_rl s)"
    and "\<forall>c. find_best_cluster gpus model priority region (fq_registry s) = Some c \<longrightarrow> dr_pick d < node_count c"
  shows "case schedule_across i ji suffix now d gpus model priority mem region name s of
      Inl e \<Rightarrow> \<exists>c. best c \<and> cluster_raises d (fq_rl s) c
        \<and> (if fc_total_gpus c = 0 then \<exists>m. e = ZeroDivisionError m else \<exists>m. e = IndexError m)
    | Inr (s', QueuedNoCluster) \<Rightarrow> s' = s \<and> (\<forall>c \<in> set (list_clusters (fq_registry s)). \<not> ok c)
    | Inr (s', Placed p) \<Rightarrow> \<exists>c w k. best c \<and> \<not> cluster_raises d (fq_rl s) c \<and> k < node_count c
        \<and> pm_cluster p = fc_name c \<and> pm_node p = fc_name c @ ''-node-'' @ nat_str k \<and> pm_status p = ''scheduled''
        \<and> pm_workload_id p = i \<and> get_workload i s' = Some w \<and> fw_assigned_cluster w = fc_name c \<and> fw_assigned_node w = pm_node p
        \<and> fw_required_gpus w = gpus \<and> fw_state w = WL_PENDING
        \<and> length (le_placement_history (fq_rl s')) = Suc (length (le_placement_history (fq_rl s)))
        \<and> fq_registry s' = fq_registry s"
proof -
  have ok: "ok = qualifies gpus model region" by (simp add: fun_eq_iff qualifies_def assms(1))
  show ?thesis
  proof (cases "find_best_cluster gpus model priority region (fq_registry s)")
    case None
    then show ?thesis using best_cluster [where gpus = gpus and model = model and priority = priority and region = region and s = "fq_registry s"] by (simp add: schedule_across_def ok)
  next
    case (Some c)
    then have c: "best c" "gpus \<le> fc_free_gpus c" "dr_pick d < node_count c"
      using best_cluster [where gpus = gpus and model = model and priority = priority and region = region and s = "fq_registry s"] assms(4) by (simp_all add: assms(2) ok qualifies_def)
    note run = federated_run [OF assms(3) c(2,3), where ji = ji and priority = priority and mem = mem and model = model]
    show ?thesis
    proof (cases "rl_schedule d (federated_job ji gpus priority mem) (rl_nodes model mem c) (fq_rl s)")
      case (Inl e)
      then show ?thesis using run c(1) by (auto simp: schedule_across_def Some try_bind_def)
    next
      case (Inr lr)
      then show ?thesis using run c(1)
        by (cases lr) (auto simp: schedule_across_def Some try_bind_def placed_workload_def placement_of_def get_workload_def)
    qed
  qed
qed

subsection \<open>A sample federation\<close>

definition two_clusters :: "fed_op list" where
  "two_clusters =
     [FoRegister ''i1'' 0 ''east'' ''https://east'' ''prod'' ''eu'' [] [], FoRegister ''i2'' 1 ''west'' [] [] [] [] [],
      FoRegister ''i3'' 2 ''east'' [] [] ''us'' [(''tier'', ''gold'')] [], FoHealth 3 ''i1'' ONLINE 16 8 None 50]"

lemma two_clusters_allowed: "run_allowed fed_step fed_fresh two_clusters []"
  by (simp add: two_clusters_def register_cluster_def get_by_name_def dict_values_def dict_update_def or_text_def Let_def)

theorem cluster_names_unique_witness:
  "distinct (map fc_name (list_clusters (fold fed_step two_clusters []))) \<and> length (list_clusters (fold fed_step two_clusters [])) = 2"
proof -
  have "length (list_clusters (fold fed_step two_clusters [])) = 2"
    by (simp add: two_clusters_def register_cluster_def get_by_name_def dict_values_def dict_update_def or_text_def
        list_clusters_def update_health_def Let_def)
  then show ?thesis using cluster_names_unique [OF two_clusters_allowed refl] by simp
qed

definition sample_federation :: fed_scheduler where
  "sample_federation = \<lparr>fq_registry = fold fed_step two_clusters [], fq_rl = new_learner, fq_workloads = []\<rparr>"

theorem placement_is_best_witness:
  "\<exists>s' p. schedule_across ''w1'' ''j1'' ''00'' 4 sample_draws 8 [] 5 8 [] ''train'' sample_federation = Inr (s', Placed p)
     \<and> pm_cluster p = ''east'' \<and> pm_status p = ''scheduled''"
proof -
  have cs: "list_clusters (fq_registry sample_federation) =
    [\<lparr>fc_id = ''i1'', fc_name = ''east'', fc_endpoint = ''https://east'', fc_environment = ''prod'', fc_health = ONLINE,
      fc_role = ACTIVE, fc_total_gpus = 16, fc_free_gpus = 8, fc_gpu_models = [], fc_avg_utilization = 50, fc_region = ''us'',
      fc_labels = [(''tier'', ''gold'')], fc_last_seen = 3, fc_created_at = 0, fc_options = []\<rparr>,
     \<lparr>fc_id = ''i2'', fc_name = ''west'', fc_endpoint = [], fc_environment = [], fc_health = UNKNOWN,
      fc_role = ACTIVE, fc_total_gpus = 0, fc_free_gpus = 0, fc_gpu_models = [], fc_avg_utilization = 0, fc_region = [],
      fc_labels = [], fc_last_seen = 1, fc_created_at = 1, fc_options = []\<rparr>]"
    by (simp add: sample_federation_def two_clusters_def register_cluster_def get_by_name_def dict_values_def dict_update_def
        or_text_def list_clusters_def update_health_def Let_def)
  have rl: "fq_rl sample_federation = new_learner" "rows_ok new_learner" "dr_pick sample_draws = 0" "le_action_size new_learner = 5"
    by (simp_all add: sample_federation_def new_learner_def rows_ok_def sample_draws_def)
  have "0 < node_count c" for c by (simp add: node_count_def)
  then have pick: "\<forall>c. find_best_cluster 8 [] 5 [] (fq_registry sample_federation) = Some c \<longrightarrow> dr_pick sample_draws < node_count c"
    by (simp add: rl(3))
  have "rows_ok (fq_rl sample_federation)" by (simp add: rl)
  from placement_is_best [OF refl refl this pick, where i = "''w1''" and ji = "''j1''" and suffix = "''00''" and now = 4 and mem = 8 and name = "''train''"] show ?thesis
    by (auto simp: cs rl cluster_raises_def node_count_def split: sum.splits prod.splits placement_reply.splits if_splits)
qed

end
