(* ===== verification/Healer.thy ===== *)
theory Healer
  imports Values
begin

text \<open>
  \<open>AutoHealer\<close> of src/src/gpuopt/healing/auto_healer.py: a health score from the telemetry of a
  node, the remediation it suggests and the record of what was executed. Telemetry is JSON, so a
  value that is no number raises; the clock and the simulated duration are arguments.
\<close>

subsection \<open>Health\<close>

datatype heal_action = CORDON | DRAIN | RESTART | SCALE_UP | SCALE_DOWN | REBOOT

fun heal_action_value :: "heal_action \<Rightarrow> string" where
  "heal_action_value CORDON = ''cordon''"
| "heal_action_value DRAIN = ''drain''"
| "heal_action_value RESTART = ''restart''"
| "heal_action_value SCALE_UP = ''scale_up''"
| "heal_action_value SCALE_DOWN = ''scale_down''"
| "heal_action_value REBOOT = ''reboot''"

record heal_result =
  hr_node_id :: string
  hr_action :: heal_action
  hr_status :: string
  hr_message :: "piece list"
  hr_timestamp :: datetime
  hr_duration_seconds :: rat

text \<open>For each metric the branches of its test: the bound to exceed, the issue and its unit, the score.\<close>

definition health_checks :: "(string \<times> (int \<times> string \<times> string \<times> rat) list) list" where
  "health_checks =
     [(''temperature'', [(85, ''Critical temperature: '', [CHR 0xB0, CHR ''C''], 4 / 10), (75, ''High temperature: '', [CHR 0xB0, CHR ''C''], 2 / 10)]),
      (''ecc_errors'', [(20, ''Critical ECC errors: '', [], 4 / 10), (10, ''Elevated ECC errors: '', [], 2 / 10)]),
      (''memory_utilization'', [(95, ''Critical memory pressure: '', ''%'', 3 / 10), (85, ''High memory pressure: '', ''%'', 15 / 100)]),
      (''gpu_utilization'', [(95, ''GPU saturation: '', ''%'', 2 / 10)]),
      (''xid_errors'', [(10, ''Critical XID errors: '', [], 5 / 10), (5, ''XID errors detected: '', [], 25 / 100)])]"

fun grade :: "json \<Rightarrow> (int \<times> string \<times> string \<times> rat) list \<Rightarrow> py_error + piece list list \<times> rat" where
  "grade v [] = Inr ([], 0)"
| "grade v ((bound, text, unit, score) # branches) =
     try_bind (py_less (JInt bound) v) (\<lambda>above.
       if above then Inr ([[Txt text, Val v, Txt unit]], score) else grade v branches)"

fun grade_all ::
  "(string, json) dict \<Rightarrow> (string \<times> (int \<times> string \<times> string \<times> rat) list) list \<Rightarrow> py_error + piece list list \<times> rat" where
  "grade_all telemetry [] = Inr ([], 0)"
| "grade_all telemetry ((metric, branches) # checks) =
     try_bind (grade (dict_get_or telemetry metric (JInt 0)) branches) (\<lambda>(issues, score).
     try_bind (grade_all telemetry checks) (\<lambda>(more, rest). Inr (issues @ more, score + rest)))"

definition health_status :: "rat \<Rightarrow> string" where
  "health_status risk =
     (if 8 / 10 \<le> risk then ''critical'' else if 4 / 10 \<le> risk then ''degraded''
      else if 2 / 10 \<le> risk then ''warning'' else ''healthy'')"

record node_health =
  nh_health_status :: string
  nh_risk_score :: rat
  nh_issues :: "piece list list"
  nh_timestamp :: datetime

definition check_node_health :: "datetime \<Rightarrow> (string, json) dict \<Rightarrow> py_error + node_health" where
  "check_node_health now telemetry =
     try_bind (grade_all telemetry health_checks) (\<lambda>(issues, risk).
       Inr \<lparr>nh_health_status = health_status risk, nh_risk_score = py_round 2 risk, nh_issues = issues, nh_timestamp = now\<rparr>)"

subsection \<open>Remediation\<close>

definition join_issues :: "piece list list \<Rightarrow> piece list" where
  "join_issues issues = foldr (\<lambda>i acc. if acc = [] then i else i @ Txt '', '' # acc) issues []"

definition suggest_remediation :: "datetime \<Rightarrow> (string, json) dict \<Rightarrow> string \<Rightarrow> py_error + heal_result option" where
  "suggest_remediation now telemetry node_id =
     try_bind (check_node_health now telemetry) (\<lambda>health.
       let risk = nh_risk_score health;
           issues = (if nh_issues health \<noteq> [] then join_issues (nh_issues health) else [Txt ''risk_score='', Val (JFloat risk)]);
           proposed = (\<lambda>act text. Inr (Some \<lparr>hr_node_id = node_id, hr_action = act, hr_status = ''proposed'',
                         hr_message = Txt (text @ node_id @ '': '') # issues, hr_timestamp = now, hr_duration_seconds = 0\<rparr>))
       in if risk < 4 / 10 then Inr None
          else if 8 / 10 \<le> risk then proposed CORDON ''Cordoning node ''
          else if 6 / 10 \<le> risk then proposed DRAIN ''Draining node ''
          else proposed RESTART ''Restarting GPU stack on node '')"

record healer =
  he_history :: "heal_result list"
  he_active :: "(string, heal_action) dict"

definition new_healer :: healer where
  "new_healer = \<lparr>he_history = [], he_active = []\<rparr>"

definition execute_remediation ::
  "datetime \<Rightarrow> rat \<Rightarrow> (string, json) dict \<Rightarrow> string \<Rightarrow> healer \<Rightarrow> py_error + healer \<times> heal_result" where
  "execute_remediation now draw telemetry node_id s =
     try_bind (suggest_remediation now telemetry node_id) (\<lambda>suggested.
       case suggested of
         None \<Rightarrow> Inr (s, \<lparr>hr_node_id = node_id, hr_action = SCALE_DOWN, hr_status = ''skipped'',
                         hr_message = [Txt (''No remediation needed for node '' @ node_id)], hr_timestamp = now,
                         hr_duration_seconds = 0\<rparr>)
       | Some r \<Rightarrow>
           (let r' = r\<lparr>hr_status := ''executed'', hr_duration_seconds := py_round 2 draw\<rparr>
            in Inr (s\<lparr>he_history := he_history s @ [r'], he_active := dict_set node_id (hr_action r') (he_active s)\<rparr>, r')))"

definition get_history :: "int \<Rightarrow> healer \<Rightarrow> heal_result list" where
  "get_history limit s = slice_last limit (he_history s)"

definition get_active_remediations :: "healer \<Rightarrow> (string, string) dict" where
  "get_active_remediations s = map (\<lambda>(n, a). (n, heal_action_value a)) (he_active s)"

definition clear_history :: "healer \<Rightarrow> healer" where
  "clear_history s = \<lparr>he_history = [], he_active = []\<rparr>"

subsection \<open>Worse telemetry is never treated more lightly\<close>

definition metric :: "(string, json) dict \<Rightarrow> string \<Rightarrow> rat option" where
  "metric t m = json_num (dict_get_or t m (JInt 0))"

text \<open>Numbers in every metric, and in every metric at most the other's.\<close>

definition milder :: "(string, json) dict \<Rightarrow> (string, json) dict \<Rightarrow> bool" where
  "milder a b \<longleftrightarrow> list_all (\<lambda>c. \<exists>x y. metric a (fst c) = Some x \<and> metric b (fst c) = Some y \<and> x \<le> y) health_checks"

fun falling :: "(int \<times> string \<times> string \<times> rat) list \<Rightarrow> bool" where
  "falling [] = True"
| "falling ((b, _, _, s) # cs) = (0 \<le> s \<and> (\<forall>(b', _, _, s') \<in> set cs. s' \<le> s) \<and> falling cs)"

lemma grade_number:
  assumes "json_num v = Some x"
  shows "\<exists>issues score. grade v cs = Inr (issues, score) \<and> (score = 0 \<or> score \<in> (snd \<circ> snd \<circ> snd) ` set cs)"
  using assms
proof (induction cs)
  case (Cons c cs)
  obtain b msg u k where c: "c = (b, msg, u, k)" by (cases c)
  obtain issues score where IH: "grade v cs = Inr (issues, score)" "score = 0 \<or> score \<in> (snd \<circ> snd \<circ> snd) ` set cs"
    using Cons by blast
  show ?case
  proof (cases "of_int b < x")
    case True
    then have "grade v (c # cs) = Inr ([[Txt msg, Val v, Txt u]], k)"
      using Cons.prems by (simp add: c num_or_type_error_def)
    then show ?thesis by (force simp: c)
  next
    case False
    then have "grade v (c # cs) = Inr (issues, score)"
      using Cons.prems IH(1) by (simp add: c num_or_type_error_def)
    then show ?thesis using IH(2) by auto
  qed
qed simp

lemma grade_mono:
  assumes "json_num v = Some x" and "json_num w = Some y" and "x \<le> y" and "falling cs"
  shows "\<exists>i j s t. grade v cs = Inr (i, s) \<and> grade w cs = Inr (j, t) \<and> 0 \<le> s \<and> s \<le> t"
  using assms(4)
proof (induction cs)
  case Nil
  then show ?case by simp
next
  case (Cons c cs)
  obtain b msg u k where c: "c = (b, msg, u, k)" by (cases c)
  obtain i j s t where IH: "grade v cs = Inr (i, s)" "grade w cs = Inr (j, t)" "0 \<le> s" "s \<le> t"
    using Cons by (auto simp: c)
  obtain i' s' where "grade v cs = Inr (i', s')" "s' = 0 \<or> s' \<in> (snd \<circ> snd \<circ> snd) ` set cs"
    using grade_number [OF assms(1), of cs] by blast
  then have "s \<le> k" using IH(1) Cons.prems by (auto simp: c)
  moreover have "0 \<le> k" using Cons.prems by (simp add: c)
  ultimately show ?case
    using IH assms(1-3) by (auto simp: c num_or_type_error_def)
qed

lemma grade_all_mono:
  assumes "list_all (\<lambda>c. \<exists>x y. metric a (fst c) = Some x \<and> metric b (fst c) = Some y \<and> x \<le> y) checks"
    and "list_all (falling \<circ> snd) checks"
  shows "\<exists>i j s t. grade_all a checks = Inr (i, s) \<and> grade_all b checks = Inr (j, t) \<and> 0 \<le> s \<and> s \<le> t"
  using assms
proof (induction checks)
  case Nil
  then show ?case by simp
next
  case (Cons c checks)
  obtain m cs where c: "c = (m, cs)" by (cases c)
  obtain x y where xy: "json_num (dict_get_or a m (JInt 0)) = Some x" "json_num (dict_get_or b m (JInt 0)) = Some y" "x \<le> y"
    using Cons.prems(1) by (auto simp: c metric_def)
  from grade_mono [OF this, of cs] Cons.prems(2) obtain i j s t where
    "grade (dict_get_or a m (JInt 0)) cs = Inr (i, s)" "grade (dict_get_or b m (JInt 0)) cs = Inr (j, t)" "0 \<le> s" "s \<le> t"
    by (auto simp: c)
  moreover obtain i' j' s' t' where "grade_all a checks = Inr (i', s')" "grade_all b checks = Inr (j', t')" "0 \<le> s'" "s' \<le> t'"
    using Cons by auto
  ultimately show ?case by (auto simp: c intro: add_mono)
qed

fun drasticity :: "heal_action \<Rightarrow> nat" where
  "drasticity CORDON = 3"
| "drasticity DRAIN = 2"
| "drasticity RESTART = 1"
| "drasticity _ = 0"

lemma checks_fall: "list_all (falling \<circ> snd) health_checks"
  by (simp add: health_checks_def)

lemma milder_scores:
  assumes "milder a b"
  obtains i j s t where "grade_all a health_checks = Inr (i, s)" "grade_all b health_checks = Inr (j, t)" "0 \<le> s" "s \<le> t"
  using grade_all_mono [OF assms [unfolded milder_def] checks_fall] by blast

lemma suggestion_of_risk:
  assumes "grade_all t health_checks = Inr (issues, risk)"
  shows "suggest_remediation now t node = Inr None \<and> py_round 2 risk < 4 / 10
    \<or> (\<exists>r. suggest_remediation now t node = Inr (Some r) \<and> 4 / 10 \<le> py_round 2 risk \<and> hr_node_id r = node
        \<and> drasticity (hr_action r) = (if 8 / 10 \<le> py_round 2 risk then 3 else if 6 / 10 \<le> py_round 2 risk then 2 else 1))"
  using assms by (simp add: suggest_remediation_def check_node_health_def Let_def)

text \<open>
  C29: the healer is monotone: with numbers in all metrics, a node whose every metric is at least
  another's has at least its risk score, gets a suggestion whenever the other does, and one at least
  as drastic, in the order restart, drain, cordon; neither check raises.
\<close>

theorem healing_monotone:
  assumes "milder a b"
  shows "\<exists>ha hb ra rb. check_node_health now a = Inr ha \<and> check_node_health now b = Inr hb
    \<and> nh_risk_score ha \<le> nh_risk_score hb
    \<and> suggest_remediation now a node = Inr ra \<and> suggest_remediation now b node = Inr rb
    \<and> (\<forall>r. ra = Some r \<longrightarrow> (\<exists>q. rb = Some q \<and> drasticity (hr_action r) \<le> drasticity (hr_action q)))"
proof -
  obtain i j s t where g: "grade_all a health_checks = Inr (i, s)" "grade_all b health_checks = Inr (j, t)" "0 \<le> s" "s \<le> t"
    using milder_scores [OF assms] .
  have le: "py_round 2 s \<le> py_round 2 t" using g(4) by (rule py_round_mono)
  have "check_node_health now a = Inr \<lparr>nh_health_status = health_status s, nh_risk_score = py_round 2 s, nh_issues = i, nh_timestamp = now\<rparr>"
    "check_node_health now b = Inr \<lparr>nh_health_status = health_status t, nh_risk_score = py_round 2 t, nh_issues = j, nh_timestamp = now\<rparr>"
    using g by (simp_all add: check_node_health_def)
  moreover have "\<exists>ra rb. suggest_remediation now a node = Inr ra \<and> suggest_remediation now b node = Inr rb
    \<and> (\<forall>r. ra = Some r \<longrightarrow> (\<exists>q. rb = Some q \<and> drasticity (hr_action r) \<le> drasticity (hr_action q)))"
    using suggestion_of_risk [OF g(1), of now node] suggestion_of_risk [OF g(2), of now node] le by (auto split: if_splits)
  ultimately show ?thesis using le by auto
qed

theorem healing_monotone_witness:
  "\<exists>rb. suggest_remediation 0 [(''temperature'', JInt 90), (''xid_errors'', JInt 12)] ''n1'' = Inr rb \<and> rb \<noteq> None"
proof -
  have m: "milder [(''temperature'', JInt 88)] [(''temperature'', JInt 90), (''xid_errors'', JInt 12)]"
    by (simp add: milder_def health_checks_def metric_def dict_get_or_def)
  have "grade_all [(''temperature'', JInt 88)] health_checks = Inr ([[Txt ''Critical temperature: '', Val (JInt 88), Txt [CHR 0xB0, CHR ''C'']]], 4 / 10)"
    by (simp add: health_checks_def dict_get_or_def num_or_type_error_def)
  moreover have "py_round 2 (4 / 10) = 4 / 10"
  proof -
    have "py_round 2 (4 / 10) = of_int (round_half_even (of_int 40)) / 100" by (simp add: py_round_def)
    also have "... = 4 / 10" by (simp only: round_half_even_int)
    finally show ?thesis .
  qed
  ultimately have "\<exists>r. suggest_remediation 0 [(''temperature'', JInt 88)] ''n1'' = Inr (Some r)"
    using suggestion_of_risk by force
  then show ?thesis using healing_monotone [OF m, of 0 "''n1''"] by auto
qed

end
