(* ===== verification/SlurmActions.thy ===== *)
theory SlurmActions
  imports Values
begin

text \<open>
  \<open>SlurmActionAdapter\<close> of src/src/gpuopt/slurm_actions.py: job control, reservations and accounting,
  by the Slurm commands where they exist and on a mock state otherwise. What a command does is an
  argument, and so is the mock data of a cluster, which the code reads from a file; the job numbers
  in it are integers. The mock state is shared by all adapters and is passed along explicitly.
\<close>

subsection \<open>Commands\<close>

text \<open>How a process ends: with a code and its output, not found, out of time or another exception.\<close>

datatype cmd_outcome = Exits int string | CmdNotFound | CmdTimeout | CmdError

type_synonym shell = "string list \<Rightarrow> cmd_outcome"

definition run_cmd :: "shell \<Rightarrow> string list \<Rightarrow> string" where
  "run_cmd sh cmd =
     (case sh cmd of
        Exits rc out \<Rightarrow> (if rc \<noteq> 0 then [] else out)
      | _ \<Rightarrow> [])"

definition has_slurm_cli :: "shell \<Rightarrow> bool" where
  "has_slurm_cli sh \<longleftrightarrow> run_cmd sh [''sinfo'', ''--version''] \<noteq> []"

text \<open>\<open>_run_cmd(cmd, input=script)\<close>: the method has no such parameter. \<open>args.append(x, y)\<close>: \<open>append\<close> takes one.\<close>

definition run_cmd_with_input :: "shell \<Rightarrow> string list \<Rightarrow> string \<Rightarrow> py_error + string" where
  "run_cmd_with_input sh cmd script = Inl (TypeError ''_run_cmd() got an unexpected keyword argument'')"

definition py_append :: "'a list \<Rightarrow> 'a list \<Rightarrow> py_error + 'a list" where
  "py_append xs new =
     (case new of [x] \<Rightarrow> Inr (xs @ [x]) | _ \<Rightarrow> Inl (TypeError ''list.append() takes exactly one argument''))"

subsection \<open>Requests and results\<close>

record job_request =
  jr_job_id :: int
  jr_job_name :: string
  jr_partition :: string
  jr_gpu_count :: int
  jr_cpu_count :: int
  jr_memory_mb :: int
  jr_time_limit_minutes :: int
  jr_node_count :: int
  jr_script :: string
  jr_dependency :: string

record job_result =
  jo_success :: bool
  jo_action :: string
  jo_job_id :: int
  jo_message :: string

record reservation_request =
  rq_name :: string
  rq_partition :: string
  rq_node_count :: int
  rq_duration_minutes :: int
  rq_users :: "string list"
  rq_accounts :: "string list"

record reservation =
  rv_name :: string
  rv_partition :: string
  rv_nodes :: "string list"
  rv_duration_minutes :: int
  rv_users :: "string list"
  rv_accounts :: "string list"
  rv_state :: string

record mock_job =
  mj_job_id :: "int option"
  mj_attrs :: "(string, json) dict"

record mock_state =
  ms_running :: "mock_job list"
  ms_pending :: "mock_job list"
  ms_cancelled :: "mock_job list"
  ms_reservations :: "reservation list"

type_synonym mocks = "(string, mock_state) dict"

definition mock_state_for :: "(string \<Rightarrow> mock_state) \<Rightarrow> string \<Rightarrow> mocks \<Rightarrow> mock_state" where
  "mock_state_for load cluster_id s = (case dict_get s cluster_id of Some m \<Rightarrow> m | None \<Rightarrow> load cluster_id)"

subsection \<open>Jobs by command\<close>

definition flag_if :: "bool \<Rightarrow> string \<Rightarrow> string \<Rightarrow> string list" where
  "flag_if c flag v = (if c then [flag, v] else [])"

definition sbatch_args :: "job_request \<Rightarrow> string list" where
  "sbatch_args req =
     [''sbatch'', ''--parsable''] @ flag_if (jr_partition req \<noteq> []) ''-p'' (jr_partition req)
     @ flag_if (jr_gpu_count req \<noteq> 0) ''--gpus'' (int_str (jr_gpu_count req))
     @ flag_if (jr_cpu_count req \<noteq> 0) ''-c'' (int_str (jr_cpu_count req))
     @ flag_if (jr_memory_mb req \<noteq> 0) ''--mem'' (int_str (jr_memory_mb req) @ ''M'')
     @ flag_if (jr_time_limit_minutes req \<noteq> 0) ''-t'' (int_str (jr_time_limit_minutes req))
     @ flag_if (jr_node_count req \<noteq> 0) ''-N'' (int_str (jr_node_count req))
     @ flag_if (jr_job_name req \<noteq> []) ''-J'' (jr_job_name req)
     @ flag_if (jr_dependency req \<noteq> []) ''-d'' (jr_dependency req)"

definition submit_answer :: "string \<Rightarrow> job_result" where
  "submit_answer out =
     (let failed = \<lparr>jo_success = False, jo_action = ''submit'', jo_job_id = 0, jo_message = ''sbatch failed''\<rparr> in
      if out = [] \<or> words out = [] then failed
      else (case parse_int (last (words out)) of
              None \<Rightarrow> failed
            | Some i \<Rightarrow> \<lparr>jo_success = True, jo_action = ''submit'', jo_job_id = i, jo_message = strip out\<rparr>))"

definition submit_job_real :: "shell \<Rightarrow> job_request \<Rightarrow> py_error + job_result" where
  "submit_job_real sh req =
     try_bind
       (if jr_script req \<noteq> [] then run_cmd_with_input sh [''sbatch''] (jr_script req)
        else try_bind (py_append (sbatch_args req) [''--wrap'', (if jr_script req \<noteq> [] then jr_script req else ''/bin/hostname'')])
               (\<lambda>args. Inr (run_cmd sh args)))
       (\<lambda>out. Inr (submit_answer out))"

definition cancel_job_real :: "shell \<Rightarrow> int \<Rightarrow> job_result" where
  "cancel_job_real sh i =
     (let out = run_cmd sh [''scancel'', int_str i] in
      \<lparr>jo_success = True, jo_action = ''cancel'', jo_job_id = i,
       jo_message = (if out = [] then ''Cancelled job '' @ int_str i else strip out)\<rparr>)"

definition control_result :: "string \<Rightarrow> string \<Rightarrow> int \<Rightarrow> string \<Rightarrow> job_result" where
  "control_result act past i out =
     \<lparr>jo_success = (out = []), jo_action = act, jo_job_id = i,
      jo_message = (if out \<noteq> [] then strip out else ''Job '' @ int_str i @ '' '' @ past)\<rparr>"

definition hold_job_real :: "shell \<Rightarrow> int \<Rightarrow> job_result" where
  "hold_job_real sh i = control_result ''hold'' ''held'' i (run_cmd sh [''scontrol'', ''hold'', int_str i])"

definition release_job_real :: "shell \<Rightarrow> int \<Rightarrow> job_result" where
  "release_job_real sh i = control_result ''release'' ''released'' i (run_cmd sh [''scontrol'', ''release'', int_str i])"

definition modify_job_real :: "shell \<Rightarrow> job_request \<Rightarrow> job_result" where
  "modify_job_real sh req =
     control_result ''modify'' ''modified'' (jr_job_id req)
       (run_cmd sh ([''scontrol'', ''update'', ''jobid='' @ int_str (jr_job_id req)]
          @ (if jr_time_limit_minutes req \<noteq> 0 then [''timelimit='' @ int_str (jr_time_limit_minutes req)] else [])
          @ (if jr_partition req \<noteq> [] then [''partition='' @ jr_partition req] else [])))"

subsection \<open>Mock jobs\<close>

definition job_number :: "mock_job \<Rightarrow> int" where
  "job_number j = or_default (mj_job_id j) 0"

definition max_job_id :: "mock_job list \<Rightarrow> int" where
  "max_job_id jobs = (case map job_number jobs of [] \<Rightarrow> 1000 | i # rest \<Rightarrow> foldl max i rest)"

definition submit_job_mock :: "(string \<Rightarrow> mock_state) \<Rightarrow> string \<Rightarrow> job_request \<Rightarrow> mocks \<Rightarrow> mocks \<times> job_result" where
  "submit_job_mock load cluster_id req s =
     (let m = mock_state_for load cluster_id s;
          new_id = max_job_id (ms_running m @ ms_pending m) + 1;
          job = \<lparr>mj_job_id = Some new_id,
                 mj_attrs = [(''job_name'', JStr (if jr_job_name req \<noteq> [] then jr_job_name req else ''mock_job_'' @ int_str new_id)),
                             (''partition'', JStr (if jr_partition req \<noteq> [] then jr_partition req else ''gpu'')),
                             (''state'', JStr ''PENDING'')]\<rparr>
      in (dict_set cluster_id (m\<lparr>ms_pending := ms_pending m @ [job]\<rparr>) s,
          \<lparr>jo_success = True, jo_action = ''submit'', jo_job_id = new_id,
           jo_message = ''Mock job '' @ int_str new_id @ '' submitted (''
             @ (if jr_job_name req \<noteq> [] then jr_job_name req else ''unnamed'') @ '')''\<rparr>))"

text \<open>\<open>xs.remove(j)\<close> of the first element with the number; its state becomes cancelled.\<close>

fun take_job :: "int \<Rightarrow> mock_job list \<Rightarrow> (mock_job \<times> mock_job list) option" where
  "take_job i [] = None"
| "take_job i (j # js) =
     (if mj_job_id j = Some i then Some (j\<lparr>mj_attrs := dict_set ''state'' (JStr ''CANCELLED'') (mj_attrs j)\<rparr>, js)
      else map_option (\<lambda>(k, ks). (k, j # ks)) (take_job i js))"

definition cancel_job_mock :: "(string \<Rightarrow> mock_state) \<Rightarrow> string \<Rightarrow> int \<Rightarrow> mocks \<Rightarrow> mocks \<times> job_result" where
  "cancel_job_mock load cluster_id i s =
     (let m = mock_state_for load cluster_id s;
          cancelled = \<lparr>jo_success = True, jo_action = ''cancel'', jo_job_id = i, jo_message = ''Mock job '' @ int_str i @ '' cancelled''\<rparr>
      in case take_job i (ms_pending m) of
           Some (j, js) \<Rightarrow> (dict_set cluster_id (m\<lparr>ms_pending := js, ms_cancelled := ms_cancelled m @ [j]\<rparr>) s, cancelled)
         | None \<Rightarrow>
             (case take_job i (ms_running m) of
                Some (j, js) \<Rightarrow> (dict_set cluster_id (m\<lparr>ms_running := js, ms_cancelled := ms_cancelled m @ [j]\<rparr>) s, cancelled)
              | None \<Rightarrow> (dict_set cluster_id m s,
                  \<lparr>jo_success = False, jo_action = ''cancel'', jo_job_id = i, jo_message = ''Job '' @ int_str i @ '' not found''\<rparr>)))"

definition mock_ok :: "string \<Rightarrow> string \<Rightarrow> int \<Rightarrow> job_result" where
  "mock_ok act past i =
     \<lparr>jo_success = True, jo_action = act, jo_job_id = i, jo_message = ''Mock job '' @ int_str i @ '' '' @ past\<rparr>"

subsection \<open>Job control\<close>

definition submit_job ::
  "shell \<Rightarrow> (string \<Rightarrow> mock_state) \<Rightarrow> string \<Rightarrow> job_request \<Rightarrow> mocks \<Rightarrow> py_error + mocks \<times> job_result" where
  "submit_job sh load cluster_id req s =
     (if has_slurm_cli sh then try_bind (submit_job_real sh req) (\<lambda>r. Inr (s, r))
      else Inr (submit_job_mock load cluster_id req s))"

definition cancel_job :: "shell \<Rightarrow> (string \<Rightarrow> mock_state) \<Rightarrow> string \<Rightarrow> int \<Rightarrow> mocks \<Rightarrow> mocks \<times> job_result" where
  "cancel_job sh load cluster_id i s =
     (if has_slurm_cli sh then (s, cancel_job_real sh i) else cancel_job_mock load cluster_id i s)"

definition hold_job :: "shell \<Rightarrow> int \<Rightarrow> job_result" where
  "hold_job sh i = (if has_slurm_cli sh then hold_job_real sh i else mock_ok ''hold'' ''held'' i)"

definition release_job :: "shell \<Rightarrow> int \<Rightarrow> job_result" where
  "release_job sh i = (if has_slurm_cli sh then release_job_real sh i else mock_ok ''release'' ''released'' i)"

definition modify_job :: "shell \<Rightarrow> job_request \<Rightarrow> job_result" where
  "modify_job sh req = (if has_slurm_cli sh then modify_job_real sh req else mock_ok ''modify'' ''modified'' (jr_job_id req))"

subsection \<open>Reservations\<close>

definition comma_joined :: "string list \<Rightarrow> string" where
  "comma_joined ss = join_with (CHR '','') ss"

definition create_reservation_real :: "shell \<Rightarrow> reservation_request \<Rightarrow> reservation" where
  "create_reservation_real sh req =
     (let out = run_cmd sh ([''scontrol'', ''create'', ''reservationname='' @ rq_name req, ''starttime=now'',
                             ''duration='' @ int_str (rq_duration_minutes req)]
            @ (if rq_partition req \<noteq> [] then [''partition='' @ rq_partition req] else [])
            @ (if rq_node_count req \<noteq> 0 then [''nodes='' @ int_str (rq_node_count req)] else [])
            @ (if rq_users req \<noteq> [] then [''users='' @ comma_joined (rq_users req)] else [])
            @ (if rq_accounts req \<noteq> [] then [''accounts='' @ comma_joined (rq_accounts req)] else []))
      in if out \<noteq> [] \<and> str_contains ''Reservation created'' out then
           \<lparr>rv_name = rq_name req, rv_partition = rq_partition req, rv_nodes = [], rv_duration_minutes = rq_duration_minutes req,
            rv_users = rq_users req, rv_accounts = rq_accounts req, rv_state = ''active''\<rparr>
         else
           \<lparr>rv_name = rq_name req, rv_partition = [], rv_nodes = [], rv_duration_minutes = 0,
            rv_users = [], rv_accounts = [], rv_state = ''failed''\<rparr>)"

definition comma_field :: "(string, string) dict \<Rightarrow> string \<Rightarrow> string list" where
  "comma_field d k = (case dict_get d k of Some (c # cs) \<Rightarrow> split_on (CHR '','') (c # cs) | _ \<Rightarrow> [])"

definition parse_reservation_line :: "(string, string) dict \<Rightarrow> py_error + reservation" where
  "parse_reservation_line d =
     (case (case dict_get d ''duration'' of None \<Rightarrow> Some 0 | Some v \<Rightarrow> parse_int v) of
        None \<Rightarrow> Inl (ValueError ''invalid literal for int() with base 10'')
      | Some minutes \<Rightarrow>
          Inr \<lparr>rv_name = dict_get_or d ''reservationname'' [], rv_partition = dict_get_or d ''partition'' [],
               rv_nodes = comma_field d ''nodes'', rv_duration_minutes = minutes, rv_users = comma_field d ''users'',
               rv_accounts = comma_field d ''accounts'', rv_state = dict_get_or d ''state'' ''active''\<rparr>)"

definition add_part :: "string \<Rightarrow> (string, string) dict \<Rightarrow> (string, string) dict" where
  "add_part part d =
     (if CHR ''='' \<in> set part then
        (let key = takeWhile (\<lambda>c. c \<noteq> CHR ''='') part
         in dict_set (str_lower key) (drop (Suc (length key)) part) d)
      else d)"

fun read_reservations :: "string list \<Rightarrow> (string, string) dict \<Rightarrow> py_error + reservation list" where
  "read_reservations [] current =
     (if current = [] then Inr [] else try_bind (parse_reservation_line current) (\<lambda>r. Inr [r]))"
| "read_reservations (line # lines) current =
     (if strip line = [] then
        (if current = [] then read_reservations lines []
         else try_bind (parse_reservation_line current) (\<lambda>r.
              try_bind (read_reservations lines []) (\<lambda>rs. Inr (r # rs))))
      else read_reservations lines (fold add_part (words (strip line)) current))"

definition list_reservations_real :: "shell \<Rightarrow> py_error + reservation list" where
  "list_reservations_real sh =
     (let out = run_cmd sh [''scontrol'', ''show'', ''reservation''] in
      if out = [] then Inr [] else read_reservations (split_on (CHR 0x0A) out) [])"

definition delete_reservation_real :: "shell \<Rightarrow> string \<Rightarrow> bool" where
  "delete_reservation_real sh name = (run_cmd sh [''scontrol'', ''delete'', ''reservationname='' @ name] = [])"

definition create_reservation_mock ::
  "(string \<Rightarrow> mock_state) \<Rightarrow> string \<Rightarrow> reservation_request \<Rightarrow> mocks \<Rightarrow> mocks \<times> reservation" where
  "create_reservation_mock load cluster_id req s =
     (let m = mock_state_for load cluster_id s;
          r = \<lparr>rv_name = rq_name req, rv_partition = (if rq_partition req \<noteq> [] then rq_partition req else ''gpu''), rv_nodes = [],
               rv_duration_minutes = rq_duration_minutes req, rv_users = rq_users req, rv_accounts = rq_accounts req,
               rv_state = ''active''\<rparr>
      in (dict_set cluster_id (m\<lparr>ms_reservations := ms_reservations m @ [r]\<rparr>) s, r))"

fun remove_named :: "string \<Rightarrow> reservation list \<Rightarrow> reservation list option" where
  "remove_named name [] = None"
| "remove_named name (r # rs) =
     (if rv_name r = name then Some rs else map_option (\<lambda>qs. r # qs) (remove_named name rs))"

definition delete_reservation_mock :: "(string \<Rightarrow> mock_state) \<Rightarrow> string \<Rightarrow> string \<Rightarrow> mocks \<Rightarrow> mocks \<times> bool" where
  "delete_reservation_mock load cluster_id name s =
     (let m = mock_state_for load cluster_id s in
      case remove_named name (ms_reservations m) of
        None \<Rightarrow> (dict_set cluster_id m s, False)
      | Some rs \<Rightarrow> (dict_set cluster_id (m\<lparr>ms_reservations := rs\<rparr>) s, True))"

definition create_reservation ::
  "shell \<Rightarrow> (string \<Rightarrow> mock_state) \<Rightarrow> string \<Rightarrow> reservation_request \<Rightarrow> mocks \<Rightarrow> mocks \<times> reservation" where
  "create_reservation sh load cluster_id req s =
     (if has_slurm_cli sh then (s, create_reservation_real sh req) else create_reservation_mock load cluster_id req s)"

definition list_reservations ::
  "shell \<Rightarrow> (string \<Rightarrow> mock_state) \<Rightarrow> string \<Rightarrow> mocks \<Rightarrow> py_error + reservation list" where
  "list_reservations sh load cluster_id s =
     (if has_slurm_cli sh then list_reservations_real sh else Inr (ms_reservations (mock_state_for load cluster_id s)))"

definition delete_reservation ::
  "shell \<Rightarrow> (string \<Rightarrow> mock_state) \<Rightarrow> string \<Rightarrow> string \<Rightarrow> mocks \<Rightarrow> mocks \<times> bool" where
  "delete_reservation sh load cluster_id name s =
     (if has_slurm_cli sh then (s, delete_reservation_real sh name) else delete_reservation_mock load cluster_id name s)"

subsection \<open>Accounting\<close>

datatype accounting = NoAccounting int | Accounting int "(string, json) dict list"

definition acct_keys :: "string list" where
  "acct_keys = [''job_id'', ''name'', ''partition'', ''account'', ''user'', ''state'', ''elapsed'', ''total_cpu'', ''max_rss'',
     ''max_vmsize'', ''exit_code'']"

definition acct_entry :: "string \<Rightarrow> (string, json) dict" where
  "acct_entry line =
     (let parts = map strip (split_on (CHR ''|'') line)
      in map (\<lambda>(k, v). (k, JStr v)) (zip acct_keys (parts @ replicate (length acct_keys) [])))"

definition get_job_accounting_real :: "shell \<Rightarrow> int \<Rightarrow> accounting" where
  "get_job_accounting_real sh i =
     (let out = run_cmd sh [''sacct'', ''-j'', int_str i, ''--format'',
              ''JobID,JobName,Partition,Account,User,State,Elapsed,TotalCPU,MaxRSS,MaxVMSize,ExitCode'', ''--noheader'', ''-P'']
      in if out = [] then NoAccounting i
         else Accounting i (map acct_entry (filter (\<lambda>l. l \<noteq> []) (map strip (split_on (CHR 0x0A) (strip out))))))"

text \<open>The mock accounting reads the cluster's data, not the mock state; \<open>show\<close> is \<open>str()\<close> of a JSON value.\<close>

definition mock_entry :: "(json \<Rightarrow> string) \<Rightarrow> int \<Rightarrow> mock_job \<Rightarrow> (string, json) dict" where
  "mock_entry show i j =
     (let a = mj_attrs j in
      [(''job_id'', JStr (int_str i)), (''name'', dict_get_or a ''job_name'' (JStr [])),
       (''partition'', dict_get_or a ''partition'' (JStr [])), (''state'', dict_get_or a ''state'' (JStr [])),
       (''account'', JStr ''mock''), (''user'', dict_get_or a ''user'' (JStr [])),
       (''elapsed'', JStr (show (dict_get_or a ''time_used_minutes'' (JInt 0)) @ '':00'')),
       (''total_cpu'', JStr (show (dict_get_or a ''cpus'' (JInt 0)))), (''max_rss'', JStr []), (''exit_code'', JStr ''0:0'')])"

definition get_job_accounting ::
  "shell \<Rightarrow> (string \<Rightarrow> mock_state) \<Rightarrow> (json \<Rightarrow> string) \<Rightarrow> string \<Rightarrow> int \<Rightarrow> accounting" where
  "get_job_accounting sh load show cluster_id i =
     (if has_slurm_cli sh then get_job_accounting_real sh i
      else (case find (\<lambda>j. mj_job_id j = Some i) (ms_running (load cluster_id) @ ms_pending (load cluster_id)) of
              None \<Rightarrow> Accounting i []
            | Some j \<Rightarrow> Accounting i [mock_entry show i j]))"

subsection \<open>What the commands' failures become\<close>

definition failed :: "cmd_outcome \<Rightarrow> bool" where
  "failed oc \<longleftrightarrow> (case oc of Exits rc _ \<Rightarrow> rc \<noteq> 0 | _ \<Rightarrow> True)"

lemma run_cmd_failed: "failed (sh cmd) \<Longrightarrow> run_cmd sh cmd = []"
  by (auto simp: failed_def run_cmd_def split: cmd_outcome.splits)

text \<open>
  Errors of the Slurm commands do not reach the caller: where the Slurm commands exist,
  submitting a job raises \<open>TypeError\<close> for every request, and cancelling, holding, releasing a job or
  deleting a reservation is reported as a success when the command fails, in whatever way; only a
  failed creation of a reservation is reported, by its state.
\<close>

theorem slurm_failures_hidden:
  assumes "has_slurm_cli sh"
  shows "(\<exists>msg. submit_job sh load c req s = Inl (TypeError msg))
    \<and> (\<exists>r. cancel_job sh load c i s = (s, r) \<and> jo_success r)
    \<and> (failed (sh [''scontrol'', ''hold'', int_str i]) \<longrightarrow> jo_success (hold_job sh i))
    \<and> (failed (sh [''scontrol'', ''release'', int_str i]) \<longrightarrow> jo_success (release_job sh i))
    \<and> (failed (sh [''scontrol'', ''delete'', ''reservationname='' @ name]) \<longrightarrow>
         snd (delete_reservation sh load c name s))
    \<and> ((\<forall>cmd. take 2 cmd = [''scontrol'', ''create''] \<longrightarrow> failed (sh cmd)) \<longrightarrow>
         rv_state (snd (create_reservation sh load c rr s)) = ''failed'')"
proof (intro conjI impI)
  show "\<exists>msg. submit_job sh load c req s = Inl (TypeError msg)"
    using assms by (cases "jr_script req = []")
      (auto simp: submit_job_def submit_job_real_def run_cmd_with_input_def py_append_def)
  show "\<exists>r. cancel_job sh load c i s = (s, r) \<and> jo_success r"
    using assms by (simp add: cancel_job_def cancel_job_real_def Let_def)
  assume create: "\<forall>cmd. take 2 cmd = [''scontrol'', ''create''] \<longrightarrow> failed (sh cmd)"
  have "run_cmd sh ([''scontrol'', ''create'', a, b, d] @ x) = []" for a b d x
    using create by (intro run_cmd_failed) simp
  then show "rv_state (snd (create_reservation sh load c rr s)) = ''failed''"
    using assms by (simp add: create_reservation_def create_reservation_real_def Let_def)
qed (use assms in \<open>simp_all add: hold_job_def hold_job_real_def release_job_def release_job_real_def control_result_def
       delete_reservation_def delete_reservation_real_def run_cmd_failed\<close>)

definition broken_slurm :: shell where
  "broken_slurm cmd = (if cmd = [''sinfo'', ''--version''] then Exits 0 ''slurm 23.02'' else Exits 1 ''error'')"

theorem slurm_failures_hidden_witness: "jo_success (hold_job broken_slurm 7)"
proof -
  have "has_slurm_cli broken_slurm" by (simp add: has_slurm_cli_def run_cmd_def broken_slurm_def)
  moreover have "failed (broken_slurm [''scontrol'', ''hold'', int_str 7])" by (simp add: failed_def broken_slurm_def)
  ultimately show ?thesis using slurm_failures_hidden [of broken_slurm _ _ _ _ 7] by blast
qed

subsection \<open>Mock job numbers\<close>

datatype mock_op = MoSubmit job_request | MoCancel int | MoReserve reservation_request | MoUnreserve string

fun mock_step :: "(string \<Rightarrow> mock_state) \<Rightarrow> string \<Rightarrow> mock_op \<Rightarrow> mocks \<Rightarrow> mocks" where
  "mock_step load c (MoSubmit req) s = fst (submit_job_mock load c req s)"
| "mock_step load c (MoCancel i) s = fst (cancel_job_mock load c i s)"
| "mock_step load c (MoReserve req) s = fst (create_reservation_mock load c req s)"
| "mock_step load c (MoUnreserve name) s = fst (delete_reservation_mock load c name s)"

fun is_submit :: "mock_op \<Rightarrow> bool" where
  "is_submit (MoSubmit _) = True"
| "is_submit _ = False"

definition active_numbers :: "mock_state \<Rightarrow> int list" where
  "active_numbers m = map job_number (ms_running m @ ms_pending m)"

definition job_count :: "mock_state \<Rightarrow> nat" where
  "job_count m = length (ms_running m) + length (ms_pending m) + length (ms_cancelled m)"

lemma max_job_id_ge: "j \<in> set jobs \<Longrightarrow> job_number j \<le> max_job_id jobs"
proof -
  assume "j \<in> set jobs"
  then have "job_number j \<in> set (map job_number jobs)" by simp
  then show ?thesis using foldl_max_ge by (cases "map job_number jobs") (auto simp: max_job_id_def)
qed

lemma take_job_split: "take_job i js = Some (j, ks) \<Longrightarrow> \<exists>l k r. js = l @ k # r \<and> ks = l @ r"
proof (induction js arbitrary: ks)
  case (Cons a js)
  show ?case
  proof (cases "mj_job_id a = Some i")
    case True
    then have "a # js = [] @ a # js \<and> ks = [] @ js" using Cons.prems by simp
    then show ?thesis by blast
  next
    case False
    then obtain qs where "take_job i js = Some (j, qs)" "ks = a # qs" using Cons.prems by auto
    moreover from this obtain l k r where "js = l @ k # r" "qs = l @ r" using Cons.IH by blast
    ultimately have "a # js = (a # l) @ k # r \<and> ks = (a # l) @ r" by simp
    then show ?thesis by blast
  qed
qed simp

lemma distinct_less: "distinct (as @ x # bs @ cs) \<Longrightarrow> distinct (as @ bs @ cs)"
  by auto

lemma mock_step_state:
  assumes "distinct (active_numbers (mock_state_for load c s))"
  shows "distinct (active_numbers (mock_state_for load c (mock_step load c x s)))
    \<and> job_count (mock_state_for load c (mock_step load c x s))
        = job_count (mock_state_for load c s) + (if is_submit x then 1 else 0)"
proof (cases x)
  case (MoSubmit req)
  let ?m = "mock_state_for load c s"
  have "max_job_id (ms_running ?m @ ms_pending ?m) + 1 \<noteq> job_number j" if "j \<in> set (ms_running ?m @ ms_pending ?m)" for j
    using max_job_id_ge [OF that] by simp
  then show ?thesis using assms MoSubmit
    by (auto simp: submit_job_mock_def Let_def active_numbers_def job_count_def mock_state_for_def [of load c "dict_set c _ s"]
        job_number_def [of "\<lparr>mj_job_id = _, mj_attrs = _\<rparr>"])
next
  case (MoCancel i)
  let ?m = "mock_state_for load c s"
  show ?thesis
  proof (cases "take_job i (ms_pending ?m)")
    case None
    show ?thesis
    proof (cases "take_job i (ms_running ?m)")
      case None2: None
      then show ?thesis using assms MoCancel None
        by (simp add: cancel_job_mock_def Let_def mock_state_for_def [of load c "dict_set c _ s"])
    next
      case (Some jk)
      obtain j ks where jk: "jk = (j, ks)" by (cases jk)
      with Some obtain l k r where k: "ms_running ?m = l @ k # r" "ks = l @ r" using take_job_split [of i _ j ks] by metis
      have "distinct (map job_number l @ map job_number r @ map job_number (ms_pending ?m))"
        using assms by (intro distinct_less [of _ "job_number k"]) (simp add: active_numbers_def k)
      then show ?thesis using MoCancel None Some jk k
        by (simp add: cancel_job_mock_def Let_def mock_state_for_def [of load c "dict_set c _ s"] active_numbers_def job_count_def)
    qed
  next
    case (Some jk)
    obtain j ks where jk: "jk = (j, ks)" by (cases jk)
    with Some obtain l k r where k: "ms_pending ?m = l @ k # r" "ks = l @ r" using take_job_split [of i _ j ks] by metis
    have "distinct ((map job_number (ms_running ?m) @ map job_number l) @ map job_number r @ [])"
      using assms by (intro distinct_less [of _ "job_number k"]) (simp add: active_numbers_def k)
    then show ?thesis using MoCancel Some jk k
      by (simp add: cancel_job_mock_def Let_def mock_state_for_def [of load c "dict_set c _ s"] active_numbers_def job_count_def)
  qed
next
  case (MoReserve req)
  then show ?thesis using assms
    by (simp add: create_reservation_mock_def Let_def mock_state_for_def [of load c "dict_set c _ s"] active_numbers_def job_count_def)
next
  case (MoUnreserve name)
  then show ?thesis using assms
    by (cases "remove_named name (ms_reservations (mock_state_for load c s))")
      (simp_all add: delete_reservation_mock_def Let_def mock_state_for_def [of load c "dict_set c _ s"] active_numbers_def job_count_def)
qed

text \<open>
  Mock jobs are neither confused nor lost: when the data of a cluster starts with different job
  numbers, then after any submissions, cancellations and reservation changes the running and pending
  jobs still have different numbers, there are as many jobs, cancelled ones included, as at the start
  and submitted since, and a further submission answers a number above every active one.
\<close>

theorem mock_job_numbers:
  assumes "distinct (active_numbers (load c))" and "m = mock_state_for load c (fold (mock_step load c) ops [])"
  shows "distinct (active_numbers m) \<and> job_count m = job_count (load c) + length (filter is_submit ops)
    \<and> (\<forall>i \<in> set (active_numbers m). i < jo_job_id (snd (submit_job_mock load c req (fold (mock_step load c) ops []))))"
proof -
  have run: "distinct (active_numbers (mock_state_for load c (fold (mock_step load c) ops s)))
      \<and> job_count (mock_state_for load c (fold (mock_step load c) ops s))
          = job_count (mock_state_for load c s) + length (filter is_submit ops)"
    if "distinct (active_numbers (mock_state_for load c s))" for s
    using that
  proof (induction ops arbitrary: s)
    case (Cons x xs)
    from mock_step_state [OF Cons.prems, of x] Cons.IH [of "mock_step load c x s"] show ?case by simp
  qed simp
  have start: "mock_state_for load c [] = load c" by (simp add: mock_state_for_def)
  have "i < jo_job_id (snd (submit_job_mock load c req (fold (mock_step load c) ops [])))" if "i \<in> set (active_numbers m)" for i
  proof -
    have "i \<in> job_number ` set (ms_running m @ ms_pending m)" using that by (simp add: active_numbers_def image_Un)
    then obtain j where "j \<in> set (ms_running m @ ms_pending m)" "i = job_number j" by blast
    then have "i \<le> max_job_id (ms_running m @ ms_pending m)" using max_job_id_ge by blast
    then show ?thesis by (simp add: submit_job_mock_def Let_def assms(2))
  qed
  then show ?thesis using run [of "[]"] assms by (simp add: start)
qed

definition empty_mock :: "string \<Rightarrow> mock_state" where
  "empty_mock c = \<lparr>ms_running = [], ms_pending = [], ms_cancelled = [], ms_reservations = []\<rparr>"

definition plain_request :: job_request where
  "plain_request = \<lparr>jr_job_id = 0, jr_job_name = ''train'', jr_partition = [], jr_gpu_count = 1, jr_cpu_count = 0, jr_memory_mb = 0,
     jr_time_limit_minutes = 0, jr_node_count = 1, jr_script = [], jr_dependency = []\<rparr>"

theorem mock_job_numbers_witness:
  "job_count (mock_state_for empty_mock ''c'' (fold (mock_step empty_mock ''c'') [MoSubmit plain_request, MoCancel 1001] [])) = 1"
proof -
  have "distinct (active_numbers (empty_mock ''c''))" "job_count (empty_mock ''c'') = 0"
    by (simp_all add: active_numbers_def empty_mock_def job_count_def)
  then show ?thesis
    using mock_job_numbers [of empty_mock "''c''" _ "[MoSubmit plain_request, MoCancel 1001]", OF _ refl] by simp
qed

text \<open>The number of a cancelled job is given to the next one when it was the highest.\<close>

lemma mock_number_reused:
  "jo_job_id (snd (submit_job_mock empty_mock ''c'' plain_request
     (fold (mock_step empty_mock ''c'') [MoSubmit plain_request, MoCancel 1001] []))) = 1001"
  by code_simp

end
