(* ===== verification/Optimizer.thy ===== *)
theory Optimizer
  imports Prelude
begin

text \<open>
  The optimizer of src/src/gpuopt/optimizer: \<open>ConstraintEngine\<close> of constraints.py, \<open>ObjectiveScorer\<close>
  of objectives.py and \<open>Optimizer\<close> of optimizer.py, with the types of models.py. Each pair of a workload
  and a node is checked against twelve hard constraints and scored by eleven objectives; the best
  candidate is the first feasible one of highest utility. Identifiers and times of requests and
  results are arguments.
\<close>

subsection \<open>Requests\<close>

datatype hard_constraint =
    GPU_MEMORY | GPU_TOPOLOGY | GPU_COMPATIBILITY | TENANT_QUOTA | TENANT_PRIORITY | INFERENCE_SLO_LATENCY
  | INFERENCE_SLO_ERROR | DATA_LOCALITY | APPROVED_ZONES | CHECKPOINT_POLICY | PREEMPTION_POLICY | ACTION_BLAST_RADIUS

record constraint_result =
  cr_constraint :: hard_constraint
  cr_passed :: bool
  cr_reason :: "piece list"
  cr_detail :: "(string, json) dict"

record objective_weight =
  ow_gpu_utilization :: rat
  ow_throughput :: rat
  ow_queue_time_reduction :: rat
  ow_job_completion_time :: rat
  ow_gpu_hours_per_token :: rat
  ow_power_efficiency :: rat
  ow_carbon_footprint :: rat
  ow_fairness :: rat
  ow_starvation_reduction :: rat
  ow_minimal_movement :: rat
  ow_operational_churn :: rat

definition unit_weights :: objective_weight where
  "unit_weights =
     \<lparr>ow_gpu_utilization = 1, ow_throughput = 1, ow_queue_time_reduction = 1,
      ow_job_completion_time = 1, ow_gpu_hours_per_token = 1, ow_power_efficiency = 1,
      ow_carbon_footprint = 1, ow_fairness = 1, ow_starvation_reduction = 1,
      ow_minimal_movement = 1, ow_operational_churn = 1\<rparr>"

record objective_score =
  os_objective :: string
  os_score :: rat
  os_weight :: rat
  os_weighted_score :: rat
  os_detail :: string

record tenant_profile =
  tp_tenant_id :: string
  tp_weights :: objective_weight
  tp_priority_class :: int
  tp_gpu_quota :: int
  tp_approved_zones :: "string list"
  tp_slo_max_latency_ms :: "rat option"
  tp_slo_max_error_rate_pct :: "rat option"

record workload_spec =
  ws_id :: string
  ws_tenant_id :: string
  ws_job_name :: string
  ws_gpu_count :: int
  ws_gpu_model :: string
  ws_memory_per_gpu_gb :: rat
  ws_required_gpu_topology :: string
  ws_requires_nvlink :: bool
  ws_requires_co_location :: bool
  ws_inference_deployment :: bool
  ws_estimated_runtime_minutes :: int
  ws_checkpoint_interval_minutes :: int
  ws_preemptible :: bool
  ws_data_location :: string
  ws_approved_zones :: "string list"
  ws_priority :: int
  ws_estimated_tokens_per_step :: int
  ws_estimated_samples_per_step :: int

record node_candidate =
  nc_node_id :: string
  nc_cluster_id :: string
  nc_zone :: string
  nc_gpu_model :: string
  nc_total_gpus :: int
  nc_free_gpus :: int
  nc_gpu_memory_per_gpu_gb :: rat
  nc_has_nvlink :: bool
  nc_cpu_cores :: int
  nc_cpu_memory_gb :: rat
  nc_current_gpu_utilization_pct :: rat
  nc_current_power_watts :: rat
  nc_current_temperature_c :: rat
  nc_current_gpu_hours :: rat
  nc_carbon_intensity_g_per_kwh :: rat
  nc_running_jobs :: int
  nc_labels :: "(string, string) dict"

record opt_candidate =
  oc_workload :: workload_spec
  oc_target_node :: "node_candidate option"
  oc_target_nodes :: "node_candidate list"
  oc_constraints :: "constraint_result list"
  oc_objective_scores :: "objective_score list"
  oc_total_utility :: rat
  oc_feasible :: bool
  oc_action :: string

text \<open>The switches \<open>maximize_throughput\<close> to \<open>preserve_reliability\<close> of a request, in order, are a list.\<close>

record opt_request =
  or_id :: uuid
  or_workloads :: "workload_spec list"
  or_candidates :: "node_candidate list"
  or_tenant_profiles :: "(string, tenant_profile) dict"
  or_global_weights :: objective_weight
  or_switches :: "bool list"
  or_timestamp :: datetime

record opt_result =
  ot_id :: uuid
  ot_request_id :: uuid
  ot_timestamp :: datetime
  ot_candidates :: "opt_candidate list"
  ot_feasible_count :: nat
  ot_infeasible_count :: nat
  ot_best_candidate :: "opt_candidate option"
  ot_summary :: "piece list"

subsection \<open>Constraints\<close>

definition cr_ok :: "hard_constraint \<Rightarrow> constraint_result" where
  "cr_ok c = \<lparr>cr_constraint = c, cr_passed = True, cr_reason = [], cr_detail = []\<rparr>"

text \<open>A result with a detail, and a reason unless it passed.\<close>

definition cr_of :: "hard_constraint \<Rightarrow> bool \<Rightarrow> piece list \<Rightarrow> (string, json) dict \<Rightarrow> constraint_result" where
  "cr_of c ok reason detail = \<lparr>cr_constraint = c, cr_passed = ok, cr_reason = (if ok then [] else reason), cr_detail = detail\<rparr>"

definition check_gpu_memory :: "workload_spec \<Rightarrow> node_candidate \<Rightarrow> constraint_result" where
  "check_gpu_memory wl node =
     (let needed = ws_memory_per_gpu_gb wl; available = nc_gpu_memory_per_gpu_gb node in
      if needed \<le> 0 then cr_ok GPU_MEMORY
      else if available \<le> 0 then cr_of GPU_MEMORY False [Txt ''Node has no GPU memory info''] []
      else cr_of GPU_MEMORY (needed \<le> available * (102 / 100))
        [Txt ''Need '', Val (JFloat needed), Txt '' GB, have '', Val (JFloat available), Txt '' GB (95% threshold)'']
        [(''needed_gb'', JFloat needed), (''available_gb'', JFloat available)])"

definition check_gpu_topology :: "workload_spec \<Rightarrow> node_candidate \<Rightarrow> constraint_result" where
  "check_gpu_topology wl node =
     (if \<not> ws_requires_nvlink wl then cr_ok GPU_TOPOLOGY
      else cr_of GPU_TOPOLOGY (nc_has_nvlink node)
        [Txt ''Workload requires NVLink but node does not support it'']
        [(''requires_nvlink'', JBool True), (''node_has_nvlink'', JBool (nc_has_nvlink node))])"

definition check_gpu_compatibility :: "workload_spec \<Rightarrow> node_candidate \<Rightarrow> constraint_result" where
  "check_gpu_compatibility wl node =
     (if ws_gpu_model wl = [] then cr_ok GPU_COMPATIBILITY
      else cr_of GPU_COMPATIBILITY (str_contains (str_lower (ws_gpu_model wl)) (str_lower (nc_gpu_model node)))
        [Txt (''Workload requires '' @ quoted (ws_gpu_model wl) @ '', node has '' @ quoted (nc_gpu_model node))]
        [(''required'', JStr (ws_gpu_model wl)), (''actual'', JStr (nc_gpu_model node))])"

definition check_tenant_quota :: "workload_spec \<Rightarrow> node_candidate \<Rightarrow> tenant_profile option \<Rightarrow> constraint_result" where
  "check_tenant_quota wl node profile =
     (case profile of None \<Rightarrow> cr_ok TENANT_QUOTA
      | Some p \<Rightarrow>
          if tp_gpu_quota p \<le> 0 then cr_ok TENANT_QUOTA
          else (let quota_remaining = tp_gpu_quota p - nc_running_jobs node in
            cr_of TENANT_QUOTA (ws_gpu_count wl \<le> quota_remaining \<or> quota_remaining < 0)
              [Txt ''Tenant quota '', Val (JInt (tp_gpu_quota p)), Txt '' would be exceeded by '',
               Val (JInt (ws_gpu_count wl)), Txt '' GPUs'']
              [(''quota'', JInt (tp_gpu_quota p)), (''requested'', JInt (ws_gpu_count wl)), (''running'', JInt (nc_running_jobs node))]))"

definition check_tenant_priority :: "workload_spec \<Rightarrow> tenant_profile option \<Rightarrow> constraint_result" where
  "check_tenant_priority wl profile =
     (case profile of None \<Rightarrow> cr_ok TENANT_PRIORITY
      | Some p \<Rightarrow>
          if tp_priority_class p \<le> ws_priority wl then cr_ok TENANT_PRIORITY
          else cr_of TENANT_PRIORITY False
            [Txt ''Workload priority '', Val (JInt (ws_priority wl)), Txt '' below tenant floor '', Val (JInt (tp_priority_class p))]
            [(''workload_priority'', JInt (ws_priority wl)), (''tenant_floor'', JInt (tp_priority_class p))])"

definition estimate_inference_latency :: "workload_spec \<Rightarrow> rat" where
  "estimate_inference_latency wl =
     py_round 1 (50 * (if 0 < ws_memory_per_gpu_gb wl then max (ws_memory_per_gpu_gb wl / 80) 1 else 1))"

definition check_inference_slo_latency :: "workload_spec \<Rightarrow> tenant_profile option \<Rightarrow> constraint_result" where
  "check_inference_slo_latency wl profile =
     (if \<not> ws_inference_deployment wl then cr_ok INFERENCE_SLO_LATENCY
      else case profile of None \<Rightarrow> cr_ok INFERENCE_SLO_LATENCY
      | Some p \<Rightarrow>
          (case tp_slo_max_latency_ms p of None \<Rightarrow> cr_ok INFERENCE_SLO_LATENCY
           | Some slo \<Rightarrow>
               (let est = estimate_inference_latency wl in
                cr_of INFERENCE_SLO_LATENCY (est \<le> slo)
                  [Txt ''Estimated latency '', Val (JFloat est), Txt ''ms exceeds SLO '', Val (JFloat slo), Txt ''ms'']
                  [(''estimated_ms'', JFloat est), (''slo_ms'', JFloat slo)])))"

definition check_inference_slo_error :: "workload_spec \<Rightarrow> tenant_profile option \<Rightarrow> constraint_result" where
  "check_inference_slo_error wl profile =
     (if \<not> ws_inference_deployment wl then cr_ok INFERENCE_SLO_ERROR
      else case profile of None \<Rightarrow> cr_ok INFERENCE_SLO_ERROR
      | Some p \<Rightarrow>
          (case tp_slo_max_error_rate_pct p of None \<Rightarrow> cr_ok INFERENCE_SLO_ERROR
           | Some slo \<Rightarrow> cr_of INFERENCE_SLO_ERROR True [] [(''slo_max_error_pct'', JFloat slo)]))"

definition check_data_locality :: "workload_spec \<Rightarrow> node_candidate \<Rightarrow> constraint_result" where
  "check_data_locality wl node =
     (if ws_data_location wl = [] then cr_ok DATA_LOCALITY
      else cr_of DATA_LOCALITY (str_contains (ws_data_location wl) (nc_zone node))
        [Txt (''Data in '' @ quoted (ws_data_location wl) @ '' not local to zone '' @ quoted (nc_zone node))]
        [(''data_location'', JStr (ws_data_location wl)), (''node_zone'', JStr (nc_zone node))])"

definition approved_zones_for :: "workload_spec \<Rightarrow> tenant_profile option \<Rightarrow> string list" where
  "approved_zones_for wl profile =
     (if ws_approved_zones wl \<noteq> [] then ws_approved_zones wl
      else case profile of None \<Rightarrow> [] | Some p \<Rightarrow> tp_approved_zones p)"

definition check_approved_zones :: "workload_spec \<Rightarrow> node_candidate \<Rightarrow> tenant_profile option \<Rightarrow> constraint_result" where
  "check_approved_zones wl node profile =
     (let approved = approved_zones_for wl profile in
      if approved = [] then cr_ok APPROVED_ZONES
      else cr_of APPROVED_ZONES (nc_zone node \<in> set approved)
        [Txt (''Zone '' @ quoted (nc_zone node) @ '' not in approved zones ''), Val (JList (map JStr approved))]
        [(''node_zone'', JStr (nc_zone node)), (''approved_zones'', JList (map JStr approved))])"

definition check_checkpoint_policy :: "workload_spec \<Rightarrow> constraint_result" where
  "check_checkpoint_policy wl =
     (let interval = ws_checkpoint_interval_minutes wl; runtime = ws_estimated_runtime_minutes wl in
      if interval \<le> 0 then cr_ok CHECKPOINT_POLICY
      else if runtime \<le> 0 then cr_ok CHECKPOINT_POLICY
      else if interval * 2 \<le> runtime then cr_ok CHECKPOINT_POLICY
      else cr_of CHECKPOINT_POLICY False
        [Txt ''Checkpoint interval '', Val (JInt interval), Txt ''m exceeds runtime '', Val (JInt runtime), Txt ''m'']
        [(''interval_min'', JInt interval), (''runtime_min'', JInt runtime)])"

definition check_preemption_policy :: "workload_spec \<Rightarrow> constraint_result" where
  "check_preemption_policy wl =
     (if ws_preemptible wl \<and> 0 < ws_priority wl then cr_ok PREEMPTION_POLICY
      else if \<not> ws_preemptible wl then cr_ok PREEMPTION_POLICY
      else cr_of PREEMPTION_POLICY False [Txt ''Preemptible workload has no priority'']
        [(''preemptible'', JBool True), (''priority'', JInt (ws_priority wl))])"

definition check_action_blast_radius :: "workload_spec \<Rightarrow> node_candidate \<Rightarrow> constraint_result" where
  "check_action_blast_radius wl node =
     (let max_gpus = ws_gpu_count wl in
      if max_gpus \<le> 0 then cr_ok ACTION_BLAST_RADIUS
      else if max_gpus \<le> nc_free_gpus node then cr_ok ACTION_BLAST_RADIUS
      else cr_of ACTION_BLAST_RADIUS False
        [Txt ''Request '', Val (JInt max_gpus), Txt '' GPUs but only '', Val (JInt (nc_free_gpus node)), Txt '' free on node'']
        [(''requested'', JInt max_gpus), (''free'', JInt (nc_free_gpus node)), (''node_id'', JStr (nc_node_id node))])"

definition evaluate_constraints :: "workload_spec \<Rightarrow> node_candidate \<Rightarrow> tenant_profile option \<Rightarrow> constraint_result list" where
  "evaluate_constraints wl node profile =
     [check_gpu_memory wl node, check_gpu_topology wl node, check_gpu_compatibility wl node,
      check_tenant_quota wl node profile, check_tenant_priority wl profile,
      check_inference_slo_latency wl profile, check_inference_slo_error wl profile,
      check_data_locality wl node, check_approved_zones wl node profile, check_checkpoint_policy wl,
      check_preemption_policy wl, check_action_blast_radius wl node]"

definition all_feasible :: "constraint_result list \<Rightarrow> bool" where
  "all_feasible results \<longleftrightarrow> list_all cr_passed results"

definition failing :: "constraint_result list \<Rightarrow> constraint_result list" where
  "failing results = filter (\<lambda>r. \<not> cr_passed r) results"

subsection \<open>Objectives\<close>

definition ratio_of :: "int \<Rightarrow> int \<Rightarrow> rat" where
  "ratio_of a b = of_int a / of_int b"

definition score_gpu_utilization :: "workload_spec \<Rightarrow> node_candidate \<Rightarrow> rat" where
  "score_gpu_utilization wl node =
     (let util = nc_current_gpu_utilization_pct node in
      if util \<le> 0 then 3 / 10
      else if util < 30 then 1 / 10 + util / 30 * (3 / 10)
      else if util < 70 then 4 / 10 + (util - 30) / 40 * (4 / 10)
      else if util < 90 then 8 / 10 + (util - 70) / 20 * (15 / 100)
      else 95 / 100)"

definition score_throughput :: "workload_spec \<Rightarrow> node_candidate \<Rightarrow> rat" where
  "score_throughput wl node =
     (if ws_estimated_tokens_per_step wl \<le> 0 \<and> ws_estimated_samples_per_step wl \<le> 0 then 1 / 2
      else (let gpu_ratio = ratio_of (nc_free_gpus node) (max (nc_total_gpus node) 1);
                base = min (gpu_ratio * 2) 1;
                mem_ratio = (if 0 < nc_gpu_memory_per_gpu_gb node then min (nc_gpu_memory_per_gpu_gb node / 80) (3 / 2) else 1)
            in min (base * mem_ratio) 1))"

definition score_queue_time_reduction :: "workload_spec \<Rightarrow> node_candidate \<Rightarrow> rat" where
  "score_queue_time_reduction wl node =
     (let free_ratio = ratio_of (nc_free_gpus node) (max (nc_total_gpus node) 1) in
      if 1 / 2 \<le> free_ratio then 1
      else if 1 / 4 \<le> free_ratio then 7 / 10 + (free_ratio - 1 / 4) / (1 / 4) * (3 / 10)
      else if 1 / 10 \<le> free_ratio then 3 / 10 + (free_ratio - 1 / 10) / (15 / 100) * (4 / 10)
      else free_ratio / (1 / 10) * (3 / 10))"

definition score_job_completion_time :: "workload_spec \<Rightarrow> node_candidate \<Rightarrow> rat" where
  "score_job_completion_time wl node =
     (let needed = ws_gpu_count wl in
      if needed \<le> 0 then 1 / 2
      else (let ratio = ratio_of (nc_free_gpus node) needed in
        if 2 \<le> ratio then 9 / 10
        else if 1 \<le> ratio then 7 / 10 + (ratio - 1) * (2 / 10)
        else if 1 / 2 \<le> ratio then 3 / 10 + (ratio - 1 / 2) / (1 / 2) * (4 / 10)
        else ratio / (1 / 2) * (3 / 10)))"

definition score_gpu_hours_per_token :: "workload_spec \<Rightarrow> node_candidate \<Rightarrow> rat" where
  "score_gpu_hours_per_token wl node =
     (if ws_estimated_tokens_per_step wl \<le> 0 then 1 / 2
      else (let gpu_mem = nc_gpu_memory_per_gpu_gb node in
        if gpu_mem \<le> 0 then 1 / 2
        else if 80 \<le> gpu_mem then 9 / 10
        else if 40 \<le> gpu_mem then 1 / 2 + (gpu_mem - 40) / 40 * (4 / 10)
        else gpu_mem / 40 * (1 / 2)))"

definition score_power_efficiency :: "workload_spec \<Rightarrow> node_candidate \<Rightarrow> rat" where
  "score_power_efficiency wl node =
     (if nc_current_power_watts node \<le> 0 then 1 / 2
      else (let util = nc_current_gpu_utilization_pct node in
        if util \<le> 0 then 3 / 10 else min (util / max (nc_current_power_watts node) 1 * 10) 1))"

definition score_carbon_footprint :: "workload_spec \<Rightarrow> node_candidate \<Rightarrow> rat" where
  "score_carbon_footprint wl node =
     (let carbon = nc_carbon_intensity_g_per_kwh node in
      if carbon \<le> 0 then 1 / 2 else if carbon < 100 then 9 / 10 else if carbon < 300 then 7 / 10
      else if carbon < 500 then 4 / 10 else 2 / 10)"

definition score_fairness :: "workload_spec \<Rightarrow> node_candidate \<Rightarrow> rat" where
  "score_fairness wl node =
     (if nc_running_jobs node \<le> 0 then 8 / 10
      else (let load = ratio_of (nc_running_jobs node) (max (nc_total_gpus node) 1) in
        if load < 3 / 10 then 9 / 10 else if load < 6 / 10 then 7 / 10 else if load < 8 / 10 then 4 / 10 else 2 / 10))"

definition score_starvation_reduction :: "workload_spec \<Rightarrow> node_candidate \<Rightarrow> rat" where
  "score_starvation_reduction wl node =
     (if nc_total_gpus node \<le> 0 then 1 / 2 else 1 - ratio_of (nc_free_gpus node) (nc_total_gpus node))"

definition score_minimal_movement :: "workload_spec \<Rightarrow> node_candidate \<Rightarrow> rat" where
  "score_minimal_movement wl node =
     (if ws_gpu_count wl \<le> 0 then 1 else if ws_gpu_count wl \<le> nc_free_gpus node then 1
      else max (1 / 10) (ratio_of (nc_free_gpus node) (ws_gpu_count wl)))"

definition score_operational_churn :: "workload_spec \<Rightarrow> node_candidate \<Rightarrow> rat" where
  "score_operational_churn wl node =
     (let running = nc_running_jobs node in
      if running \<le> 0 then 1 else if running < 3 then 8 / 10 else if running < 10 then 1 / 2 else 2 / 10)"

type_synonym scorer = "workload_spec \<Rightarrow> node_candidate \<Rightarrow> rat"

definition scorers :: "objective_weight \<Rightarrow> (string \<times> scorer \<times> rat) list" where
  "scorers w =
     [(''gpu_utilization'', score_gpu_utilization, ow_gpu_utilization w),
      (''throughput'', score_throughput, ow_throughput w),
      (''queue_time_reduction'', score_queue_time_reduction, ow_queue_time_reduction w),
      (''job_completion_time'', score_job_completion_time, ow_job_completion_time w),
      (''gpu_hours_per_token'', score_gpu_hours_per_token, ow_gpu_hours_per_token w),
      (''power_efficiency'', score_power_efficiency, ow_power_efficiency w),
      (''carbon_footprint'', score_carbon_footprint, ow_carbon_footprint w),
      (''fairness'', score_fairness, ow_fairness w),
      (''starvation_reduction'', score_starvation_reduction, ow_starvation_reduction w),
      (''minimal_movement'', score_minimal_movement, ow_minimal_movement w),
      (''operational_churn'', score_operational_churn, ow_operational_churn w)]"

definition objective_of :: "workload_spec \<Rightarrow> node_candidate \<Rightarrow> string \<times> scorer \<times> rat \<Rightarrow> objective_score" where
  "objective_of wl node = (\<lambda>(name, scorer, weight).
     let score = max 0 (min 1 (scorer wl node)) in
     \<lparr>os_objective = name, os_score = score, os_weight = weight, os_weighted_score = score * weight, os_detail = []\<rparr>)"

definition score_all :: "objective_weight \<Rightarrow> workload_spec \<Rightarrow> node_candidate \<Rightarrow> objective_weight option \<Rightarrow> objective_score list" where
  "score_all global_weights wl node tenant_weights =
     map (objective_of wl node) (scorers (or_default tenant_weights global_weights))"

definition total_utility :: "objective_score list \<Rightarrow> rat" where
  "total_utility scores =
     (let total_weight = sum_list (map os_weight scores) in
      if scores = [] \<or> total_weight = 0 then 0
      else py_round 2 (sum_list (map os_weighted_score scores) / total_weight * 100))"

subsection \<open>The optimizer\<close>

definition profile_weights :: "tenant_profile \<Rightarrow> objective_weight" where
  "profile_weights p = (let w = tp_weights p in
     \<lparr>ow_gpu_utilization = ow_gpu_utilization w, ow_throughput = ow_throughput w,
      ow_queue_time_reduction = ow_queue_time_reduction w, ow_job_completion_time = ow_job_completion_time w,
      ow_gpu_hours_per_token = ow_gpu_hours_per_token w, ow_power_efficiency = ow_power_efficiency w,
      ow_carbon_footprint = ow_carbon_footprint w, ow_fairness = ow_fairness w,
      ow_starvation_reduction = ow_starvation_reduction w, ow_minimal_movement = ow_minimal_movement w,
      ow_operational_churn = ow_operational_churn w\<rparr>)"

definition suggest_action :: "workload_spec \<Rightarrow> bool \<Rightarrow> string" where
  "suggest_action wl feasible =
     (if \<not> feasible then ''reject'' else if ws_inference_deployment wl then ''deploy''
      else if ws_preemptible wl then ''schedule_preemptible'' else ''schedule'')"

definition candidate_for :: "opt_request \<Rightarrow> workload_spec \<Rightarrow> node_candidate \<Rightarrow> opt_candidate" where
  "candidate_for req wl node =
     (let profile = dict_get (or_tenant_profiles req) (ws_tenant_id wl);
          weights = map_option profile_weights profile;
          results = evaluate_constraints wl node profile;
          feasible = all_feasible results;
          scores = score_all (or_global_weights req) wl node weights
      in \<lparr>oc_workload = wl, oc_target_node = Some node, oc_target_nodes = [], oc_constraints = results,
          oc_objective_scores = scores, oc_total_utility = (if feasible then total_utility scores else 0),
          oc_feasible = feasible, oc_action = suggest_action wl feasible\<rparr>)"

definition build_summary ::
  "opt_request \<Rightarrow> opt_candidate option \<Rightarrow> opt_candidate list \<Rightarrow> opt_candidate list \<Rightarrow> piece list" where
  "build_summary req best feasible infeasible =
     [Txt ''Optimized '', Val (JInt (int (length (or_workloads req)))), Txt '' workload(s) across '',
      Val (JInt (int (length (or_candidates req)))), Txt '' node(s) | feasible='', Val (JInt (int (length feasible))),
      Txt '' infeasible='', Val (JInt (int (length infeasible)))]
     @ (case best of None \<Rightarrow> []
        | Some b \<Rightarrow> [Txt '' | best utility='', Fmt ''.1f'' (JFloat (oc_total_utility b)), Txt '' node='',
            Txt (case oc_target_node b of None \<Rightarrow> ''?'' | Some n \<Rightarrow> nc_node_id n), Txt ('' action='' @ oc_action b)])"

text \<open>The optimizer holds weights of its own, which \<open>set_global_weights\<close> replaces.\<close>

type_synonym optimizer = "(string, rat) dict"

definition default_objective_weights :: optimizer where
  "default_objective_weights =
     [(''gpu_utilization'', 15 / 100), (''throughput'', 15 / 100), (''queue_time_reduction'', 12 / 100),
      (''job_completion_time'', 10 / 100), (''gpu_hours_per_token'', 10 / 100), (''power_efficiency'', 8 / 100),
      (''carbon_footprint'', 5 / 100), (''fairness'', 10 / 100), (''starvation_reduction'', 8 / 100),
      (''minimal_movement'', 4 / 100), (''operational_churn'', 3 / 100)]"

definition set_global_weights :: "objective_weight \<Rightarrow> optimizer \<Rightarrow> optimizer" where
  "set_global_weights w _ =
     [(''gpu_utilization'', ow_gpu_utilization w), (''throughput'', ow_throughput w),
      (''queue_time_reduction'', ow_queue_time_reduction w), (''job_completion_time'', ow_job_completion_time w),
      (''gpu_hours_per_token'', ow_gpu_hours_per_token w), (''power_efficiency'', ow_power_efficiency w),
      (''carbon_footprint'', ow_carbon_footprint w), (''fairness'', ow_fairness w),
      (''starvation_reduction'', ow_starvation_reduction w), (''minimal_movement'', ow_minimal_movement w),
      (''operational_churn'', ow_operational_churn w)]"

definition optimize :: "uuid \<Rightarrow> datetime \<Rightarrow> optimizer \<Rightarrow> opt_request \<Rightarrow> opt_result" where
  "optimize i now opt req =
     (let candidates = concat (map (\<lambda>wl. map (candidate_for req wl) (or_candidates req)) (or_workloads req));
          feasible = sorted_by (\<lambda>c. - oc_total_utility c) (filter oc_feasible candidates);
          infeasible = filter (\<lambda>c. \<not> oc_feasible c) candidates;
          best = (case feasible of [] \<Rightarrow> None | c # _ \<Rightarrow> Some c)
      in \<lparr>ot_id = i, ot_request_id = or_id req, ot_timestamp = now, ot_candidates = candidates,
          ot_feasible_count = length feasible, ot_infeasible_count = length infeasible, ot_best_candidate = best,
          ot_summary = build_summary req best feasible infeasible\<rparr>)"

definition evaluate_workload ::
  "uuid \<Rightarrow> uuid \<Rightarrow> datetime \<Rightarrow> datetime \<Rightarrow> optimizer \<Rightarrow> workload_spec \<Rightarrow> node_candidate list \<Rightarrow> objective_weight option \<Rightarrow> opt_result" where
  "evaluate_workload i ri now rnow opt wl nodes global_weights =
     optimize i now opt
       \<lparr>or_id = ri, or_workloads = [wl], or_candidates = nodes, or_tenant_profiles = [],
        or_global_weights = or_default global_weights unit_weights, or_switches = replicate 9 True, or_timestamp = rnow\<rparr>"

subsection \<open>Feasibility\<close>

text \<open>What a placement must satisfy, apart from how it is reported.\<close>

definition admissible :: "workload_spec \<Rightarrow> node_candidate \<Rightarrow> tenant_profile option \<Rightarrow> bool" where
  "admissible wl node profile \<longleftrightarrow>
     (0 < ws_memory_per_gpu_gb wl \<longrightarrow> 0 < nc_gpu_memory_per_gpu_gb node
        \<and> ws_memory_per_gpu_gb wl \<le> nc_gpu_memory_per_gpu_gb node * (102 / 100))
     \<and> (ws_requires_nvlink wl \<longrightarrow> nc_has_nvlink node)
     \<and> (ws_gpu_model wl = [] \<or> str_contains (str_lower (ws_gpu_model wl)) (str_lower (nc_gpu_model node)))
     \<and> (0 < ws_gpu_count wl \<longrightarrow> ws_gpu_count wl \<le> nc_free_gpus node)
     \<and> (ws_data_location wl = [] \<or> str_contains (ws_data_location wl) (nc_zone node))
     \<and> (approved_zones_for wl profile = [] \<or> nc_zone node \<in> set (approved_zones_for wl profile))
     \<and> (0 < ws_checkpoint_interval_minutes wl \<longrightarrow> 0 < ws_estimated_runtime_minutes wl \<longrightarrow>
          ws_checkpoint_interval_minutes wl * 2 \<le> ws_estimated_runtime_minutes wl)
     \<and> (ws_preemptible wl \<longrightarrow> 0 < ws_priority wl)
     \<and> (\<forall>p. profile = Some p \<longrightarrow>
          tp_priority_class p \<le> ws_priority wl
          \<and> (0 < tp_gpu_quota p \<longrightarrow> ws_gpu_count wl + nc_running_jobs node \<le> tp_gpu_quota p \<or> tp_gpu_quota p < nc_running_jobs node)
          \<and> (\<forall>slo. ws_inference_deployment wl \<longrightarrow> tp_slo_max_latency_ms p = Some slo \<longrightarrow> estimate_inference_latency wl \<le> slo))"

lemma cr_simps [simp]: "cr_passed (cr_ok c)" "cr_passed (cr_of c ok r d) = ok"
  by (simp_all add: cr_ok_def cr_of_def)

lemma node_checks:
  "cr_passed (check_gpu_memory wl node) \<longleftrightarrow> (0 < ws_memory_per_gpu_gb wl \<longrightarrow> 0 < nc_gpu_memory_per_gpu_gb node
     \<and> ws_memory_per_gpu_gb wl \<le> nc_gpu_memory_per_gpu_gb node * (102 / 100))"
  "cr_passed (check_gpu_topology wl node) \<longleftrightarrow> (ws_requires_nvlink wl \<longrightarrow> nc_has_nvlink node)"
  "cr_passed (check_gpu_compatibility wl node) \<longleftrightarrow>
     ws_gpu_model wl = [] \<or> str_contains (str_lower (ws_gpu_model wl)) (str_lower (nc_gpu_model node))"
  "cr_passed (check_data_locality wl node) \<longleftrightarrow> ws_data_location wl = [] \<or> str_contains (ws_data_location wl) (nc_zone node)"
  "cr_passed (check_approved_zones wl node profile) \<longleftrightarrow>
     approved_zones_for wl profile = [] \<or> nc_zone node \<in> set (approved_zones_for wl profile)"
  "cr_passed (check_action_blast_radius wl node) \<longleftrightarrow> (0 < ws_gpu_count wl \<longrightarrow> ws_gpu_count wl \<le> nc_free_gpus node)"
  by (auto simp: check_gpu_memory_def check_gpu_topology_def check_gpu_compatibility_def check_data_locality_def
      check_approved_zones_def check_action_blast_radius_def Let_def)

lemma workload_checks:
  "cr_passed (check_checkpoint_policy wl) \<longleftrightarrow> (0 < ws_checkpoint_interval_minutes wl \<longrightarrow> 0 < ws_estimated_runtime_minutes wl \<longrightarrow>
     ws_checkpoint_interval_minutes wl * 2 \<le> ws_estimated_runtime_minutes wl)"
  "cr_passed (check_preemption_policy wl) \<longleftrightarrow> (ws_preemptible wl \<longrightarrow> 0 < ws_priority wl)"
  "cr_passed (check_inference_slo_error wl profile)"
  by (auto simp: check_checkpoint_policy_def check_preemption_policy_def check_inference_slo_error_def Let_def
      split: option.split)

lemma tenant_checks:
  "cr_passed (check_tenant_priority wl profile) \<longleftrightarrow> (\<forall>p. profile = Some p \<longrightarrow> tp_priority_class p \<le> ws_priority wl)"
  "cr_passed (check_tenant_quota wl node profile) \<longleftrightarrow> (\<forall>p. profile = Some p \<longrightarrow> 0 < tp_gpu_quota p \<longrightarrow>
     ws_gpu_count wl + nc_running_jobs node \<le> tp_gpu_quota p \<or> tp_gpu_quota p < nc_running_jobs node)"
  "cr_passed (check_inference_slo_latency wl profile) \<longleftrightarrow> (\<forall>p slo. profile = Some p \<longrightarrow> ws_inference_deployment wl \<longrightarrow>
     tp_slo_max_latency_ms p = Some slo \<longrightarrow> estimate_inference_latency wl \<le> slo)"
  by (auto simp: check_tenant_priority_def check_tenant_quota_def check_inference_slo_latency_def Let_def
      split: option.split)

lemma feasible_iff_admissible: "all_feasible (evaluate_constraints wl node profile) \<longleftrightarrow> admissible wl node profile"
  unfolding all_feasible_def evaluate_constraints_def admissible_def
  by (cases profile; simp only: node_checks workload_checks tenant_checks list.pred_inject option.inject option.distinct
      simp_thms all_simps; blast)

lemma failing_empty: "failing (evaluate_constraints wl node profile) = [] \<longleftrightarrow> admissible wl node profile"
  unfolding feasible_iff_admissible [symmetric]
  by (simp add: failing_def all_feasible_def filter_empty_conv list_all_iff)

text \<open>A tenant whose quota is already exceeded passes the quota check, whatever it asks for.\<close>

lemma overrun_quota_passes:
  "tp_gpu_quota p < nc_running_jobs node \<Longrightarrow> cr_passed (check_tenant_quota wl node (Some p))"
  by (simp add: tenant_checks)

text \<open>The weights given to \<open>set_global_weights\<close> are never read.\<close>

lemma global_weights_unread: "optimize i now (set_global_weights w opt) req = optimize i now opt req"
  by (simp add: optimize_def)

subsection \<open>The best candidate\<close>

lemma candidate_facts:
  "oc_feasible (candidate_for req wl node) \<longleftrightarrow> admissible wl node (dict_get (or_tenant_profiles req) (ws_tenant_id wl))"
  by (simp add: candidate_for_def Let_def feasible_iff_admissible)

lemma length_pairs: "length (concat (map (\<lambda>x. map (f x) ys) xs)) = length xs * length ys"
  by (induction xs) auto

text \<open>
  C14: the optimizer's answer: with a pair of a workload and a node called possible when the node
  meets every requirement of the workload and of its tenant's profile, there is no best candidate
  exactly when no pair is possible; otherwise it is a possible pair whose utility no possible pair
  exceeds, its action is not to reject, and feasible and infeasible candidates together are all pairs.
\<close>

theorem optimize_best:
  assumes "r = optimize i now opt req"
    and "ok = (\<lambda>wl node. admissible wl node (dict_get (or_tenant_profiles req) (ws_tenant_id wl)))"
    and "pairs = {(wl, node). wl \<in> set (or_workloads req) \<and> node \<in> set (or_candidates req) \<and> ok wl node}"
  shows "(ot_best_candidate r = None \<longleftrightarrow> pairs = {})
    \<and> (\<forall>b. ot_best_candidate r = Some b \<longrightarrow> oc_action b \<noteq> ''reject''
         \<and> (\<exists>wl node. (wl, node) \<in> pairs \<and> oc_workload b = wl \<and> oc_target_node b = Some node)
         \<and> (\<forall>(wl, node) \<in> pairs. oc_total_utility (candidate_for req wl node) \<le> oc_total_utility b))
    \<and> ot_feasible_count r + ot_infeasible_count r = length (or_workloads req) * length (or_candidates req)"
proof -
  let ?all = "concat (map (\<lambda>wl. map (candidate_for req wl) (or_candidates req)) (or_workloads req))"
  let ?s = "sorted_by (\<lambda>c. - oc_total_utility c) (filter oc_feasible ?all)"
  have r: "ot_best_candidate r = (case ?s of [] \<Rightarrow> None | c # _ \<Rightarrow> Some c)"
    "ot_feasible_count r = length (filter oc_feasible ?all)" "ot_infeasible_count r = length (filter (\<lambda>c. \<not> oc_feasible c) ?all)"
    by (simp_all add: assms(1) optimize_def Let_def sorted_by_def)
  have set: "set ?s = (\<lambda>(wl, node). candidate_for req wl node) ` pairs"
    by (auto simp: assms(2,3) candidate_facts image_iff)
  have count: "ot_feasible_count r + ot_infeasible_count r = length (or_workloads req) * length (or_candidates req)"
    using sum_length_filter_compl [of oc_feasible ?all] by (simp only: r(2,3) length_pairs)
  show ?thesis
  proof (cases ?s)
    case Nil
    then have "pairs = {}" using set by simp
    then show ?thesis using Nil r(1) count by simp
  next
    case (Cons b cs)
    have top: "\<forall>c \<in> set ?s. oc_total_utility c \<le> oc_total_utility b" and mem: "b \<in> set ?s"
      using sorted_by_head [OF Cons] by simp_all
    have some: "ot_best_candidate r = Some b" using r(1) Cons by simp
    obtain wl node where b: "(wl, node) \<in> pairs" "b = candidate_for req wl node" using mem [unfolded set] by (metis (no_types, lifting) image_iff case_prod_beta prod.collapse)
    then have "oc_workload b = wl" "oc_target_node b = Some node" "oc_action b \<noteq> ''reject''"
      using candidate_facts [of req wl node] assms(2,3)
      by (auto simp: candidate_for_def Let_def suggest_action_def)
    moreover have "oc_total_utility (candidate_for req wl node) \<le> oc_total_utility b" if "(wl, node) \<in> pairs" for wl node
      using top that unfolding set by blast
    ultimately show ?thesis using some b(1) count by auto
  qed
qed

subsection \<open>Utility\<close>

lemma scores_range: "s \<in> set (score_all g wl node w) \<Longrightarrow> 0 \<le> os_score s \<and> os_score s \<le> 1"
  by (auto simp: score_all_def objective_of_def Let_def)

lemma weighted_sum:
  fixes ws :: "(rat \<times> rat \<times> rat) list"
  assumes "\<forall>(x, y, w) \<in> set ws. 0 \<le> w \<and> 0 \<le> x \<and> x \<le> y \<and> y \<le> 1"
  shows "0 \<le> (\<Sum>(x, y, w) \<leftarrow> ws. x * w) \<and> (\<Sum>(x, y, w) \<leftarrow> ws. x * w) \<le> (\<Sum>(x, y, w) \<leftarrow> ws. y * w)
    \<and> (\<Sum>(x, y, w) \<leftarrow> ws. y * w) \<le> (\<Sum>(x, y, w) \<leftarrow> ws. w)"
  using assms
proof (induction ws)
  case (Cons t ws)
  obtain x y w where t: "t = (x, y, w)" by (cases t)
  have "0 \<le> x * w" "x * w \<le> y * w" "y * w \<le> w"
    using Cons.prems t by (auto intro: mult_right_mono mult_left_le_one_le)
  then show ?case using Cons t by fastforce
qed simp

definition clamped :: "rat \<Rightarrow> rat" where
  "clamped x = max 0 (min 1 x)"

lemma total_utility_sums:
  "total_utility (map (objective_of wl node) ts) =
     (if (\<Sum>(n, f, w) \<leftarrow> ts. w) = 0 then 0
      else py_round 2 ((\<Sum>(n, f, w) \<leftarrow> ts. clamped (f wl node) * w) / (\<Sum>(n, f, w) \<leftarrow> ts. w) * 100))"
proof -
  have "map os_weight (map (objective_of wl node) ts) = map (\<lambda>(n, f, w). w) ts"
    "map os_weighted_score (map (objective_of wl node) ts) = map (\<lambda>(n, f, w). clamped (f wl node) * w) ts"
    by (auto simp: objective_of_def Let_def clamped_def)
  then show ?thesis by (simp only: total_utility_def Let_def map_is_Nil_conv) (cases "ts = []"; simp)
qed

text \<open>
  Utilities are percentages that respect the objectives: with weights that are not negative the
  utility of a workload on a node is between 0 and 100, and a node that scores at least as high as
  another in every objective has at least its utility, whatever the weights.
\<close>

theorem utility_monotone:
  assumes "\<forall>(n, f, x) \<in> set (scorers w). 0 \<le> x"
    and "\<forall>(n, f, x) \<in> set (scorers w). f wl c \<le> f wl d"
  shows "0 \<le> total_utility (score_all g wl c (Some w)) \<and> total_utility (score_all g wl d (Some w)) \<le> 100
    \<and> total_utility (score_all g wl c (Some w)) \<le> total_utility (score_all g wl d (Some w))"
proof -
  let ?ts = "scorers w"
  let ?c = "\<Sum>(n, f, x) \<leftarrow> ?ts. clamped (f wl c) * x" and ?d = "\<Sum>(n, f, x) \<leftarrow> ?ts. clamped (f wl d) * x"
    and ?t = "\<Sum>(n, f, x) \<leftarrow> ?ts. x"
  have maps: "(\<Sum>(x, y, w) \<leftarrow> map (\<lambda>(n, f, x). (clamped (f wl c), clamped (f wl d), x)) ?ts. h x y w)
      = (\<Sum>(n, f, x) \<leftarrow> ?ts. h (clamped (f wl c)) (clamped (f wl d)) x)" for h :: "rat \<Rightarrow> rat \<Rightarrow> rat \<Rightarrow> rat"
    by (simp add: comp_def case_prod_unfold)
  have "\<forall>(x, y, w) \<in> set (map (\<lambda>(n, f, x). (clamped (f wl c), clamped (f wl d), x)) ?ts). 0 \<le> w \<and> 0 \<le> x \<and> x \<le> y \<and> y \<le> 1"
    using assms by (fastforce simp: clamped_def)
  from weighted_sum [OF this] have sums: "0 \<le> ?c" "?c \<le> ?d" "?d \<le> ?t"
    using maps [of "\<lambda>x y w. x * w"] maps [of "\<lambda>x y w. y * w"] maps [of "\<lambda>x y w. w"] by auto
  have u: "total_utility (score_all g wl node (Some w)) =
      (if ?t = 0 then 0 else py_round 2 ((\<Sum>(n, f, x) \<leftarrow> ?ts. clamped (f wl node) * x) / ?t * 100))" for node
    by (simp add: score_all_def total_utility_sums)
  show ?thesis
  proof (cases "?t = 0")
    case False
    then have t: "0 < ?t" using sums by linarith
    have le: "0 \<le> ?c / ?t * 100" "?c / ?t * 100 \<le> ?d / ?t * 100" "?d / ?t * 100 \<le> 100"
      using sums t by (auto simp: divide_right_mono field_simps)
    have "0 \<le> py_round 2 (?c / ?t * 100)" using py_round_mono [OF le(1), of 2] py_round_int [of 2 0] by simp
    moreover have "py_round 2 (?d / ?t * 100) \<le> 100" using py_round_mono [OF le(3), of 2] py_round_int [of 2 100] by simp
    ultimately show ?thesis using False py_round_mono [OF le(2), of 2] by (simp add: u)
  qed (simp add: u)
qed

subsection \<open>A sample request\<close>

definition train_job :: workload_spec where
  "train_job =
     \<lparr>ws_id = ''w1'', ws_tenant_id = ''t1'', ws_job_name = ''train'', ws_gpu_count = 4, ws_gpu_model = ''a100'',
      ws_memory_per_gpu_gb = 40, ws_required_gpu_topology = ''any'', ws_requires_nvlink = False,
      ws_requires_co_location = False, ws_inference_deployment = False, ws_estimated_runtime_minutes = 60,
      ws_checkpoint_interval_minutes = 10, ws_preemptible = True, ws_data_location = ''eu'', ws_approved_zones = [],
      ws_priority = 2, ws_estimated_tokens_per_step = 100, ws_estimated_samples_per_step = 0\<rparr>"

definition gpu_node :: "string \<Rightarrow> int \<Rightarrow> node_candidate" where
  "gpu_node i free =
     \<lparr>nc_node_id = i, nc_cluster_id = ''c1'', nc_zone = ''eu-west'', nc_gpu_model = ''NVIDIA A100'', nc_total_gpus = 8,
      nc_free_gpus = free, nc_gpu_memory_per_gpu_gb = 80, nc_has_nvlink = True, nc_cpu_cores = 64, nc_cpu_memory_gb = 512,
      nc_current_gpu_utilization_pct = 50, nc_current_power_watts = 300, nc_current_temperature_c = 60,
      nc_current_gpu_hours = 0, nc_carbon_intensity_g_per_kwh = 200, nc_running_jobs = 2, nc_labels = []\<rparr>"

definition team_profile :: tenant_profile where
  "team_profile =
     \<lparr>tp_tenant_id = ''t1'', tp_weights = unit_weights, tp_priority_class = 1, tp_gpu_quota = 16,
      tp_approved_zones = [''eu-west''], tp_slo_max_latency_ms = None, tp_slo_max_error_rate_pct = None\<rparr>"

definition train_request :: opt_request where
  "train_request =
     \<lparr>or_id = ''r1'', or_workloads = [train_job], or_candidates = [gpu_node ''n1'' 2, gpu_node ''n2'' 8],
      or_tenant_profiles = [(''t1'', team_profile)], or_global_weights = unit_weights, or_switches = replicate 9 True,
      or_timestamp = 0\<rparr>"

lemma train_request_fields:
  "or_workloads train_request = [train_job]" "or_candidates train_request = [gpu_node ''n1'' 2, gpu_node ''n2'' 8]"
  "dict_get (or_tenant_profiles train_request) (ws_tenant_id train_job) = Some team_profile"
  by (simp_all add: train_request_def train_job_def)

lemma train_admissible: "admissible train_job (gpu_node i free) (Some team_profile) \<longleftrightarrow> 4 \<le> free"
  by (auto simp: admissible_def train_job_def gpu_node_def team_profile_def approved_zones_for_def str_lower_def
      lower_char_def starts_with_def)

theorem optimize_best_witness:
  "\<exists>b. ot_best_candidate (optimize ''o1'' 1 default_objective_weights train_request) = Some b
     \<and> oc_target_node b = Some (gpu_node ''n2'' 8)"
proof -
  let ?ok = "\<lambda>wl node. admissible wl node (dict_get (or_tenant_profiles train_request) (ws_tenant_id wl))"
  let ?pairs = "{(wl, node). wl \<in> set (or_workloads train_request) \<and> node \<in> set (or_candidates train_request) \<and> ?ok wl node}"
  have pairs: "?pairs = {(train_job, gpu_node ''n2'' 8)}"
    by (auto simp: train_request_fields train_admissible)
  note best = optimize_best [OF refl refl refl, where i = "''o1''" and now = 1 and opt = default_objective_weights and req = train_request]
  obtain b where "ot_best_candidate (optimize ''o1'' 1 default_objective_weights train_request) = Some b"
    using best pairs by (cases "ot_best_candidate (optimize ''o1'' 1 default_objective_weights train_request)") auto
  then show ?thesis using best unfolding pairs by auto
qed

text \<open>The same node on cleaner power.\<close>

definition green_node :: node_candidate where
  "green_node = (gpu_node ''n2'' 8)\<lparr>nc_carbon_intensity_g_per_kwh := 50\<rparr>"

theorem utility_monotone_witness:
  "total_utility (score_all unit_weights train_job (gpu_node ''n2'' 8) (Some unit_weights))
     \<le> total_utility (score_all unit_weights train_job green_node (Some unit_weights))"
proof -
  have "\<forall>(n, f, x) \<in> set (scorers unit_weights). 0 \<le> x" by (simp add: scorers_def unit_weights_def)
  moreover have "\<forall>(n, f, x) \<in> set (scorers unit_weights). f train_job (gpu_node ''n2'' 8) \<le> f train_job green_node"
    by (simp add: scorers_def green_node_def gpu_node_def train_job_def ratio_of_def score_gpu_utilization_def
        score_throughput_def score_queue_time_reduction_def score_job_completion_time_def score_gpu_hours_per_token_def
        score_power_efficiency_def score_carbon_footprint_def score_fairness_def score_starvation_reduction_def
        score_minimal_movement_def score_operational_churn_def)
  ultimately show ?thesis using utility_monotone [of unit_weights train_job "gpu_node ''n2'' 8" green_node unit_weights] by simp
qed

end
