(* ===== verification/DomainStores.thy ===== *)
theory DomainStores
  imports Prelude
begin

text \<open>
  The stores of domain events, src/src/gpuopt/domains/stores.py: \<open>RingStore\<close>, a bounded list in
  memory, \<open>PersistentStore\<close>, which also writes every item to the \<open>domain_events\<close> table and can load
  it back, and \<open>DomainStore\<close> with one store per domain. The events are pydantic models: how one is
  dumped and validated, and its attributes, are arguments. An isoformat text stands for its time;
  the attributes \<open>event_type\<close> and \<open>action_type\<close> are texts. The \<open>id\<close> column counts up.
\<close>

subsection \<open>The bounded list\<close>

record 'a ring =
  rg_entries :: "'a list"
  rg_max :: int

text \<open>\<open>xs[a:b]\<close>, where negative positions count from the end.\<close>

definition slice_pos :: "int \<Rightarrow> 'a list \<Rightarrow> nat" where
  "slice_pos i xs = (if i < 0 then nat (int (length xs) + i) else min (nat i) (length xs))"

definition py_slice :: "int \<Rightarrow> int \<Rightarrow> 'a list \<Rightarrow> 'a list" where
  "py_slice a b xs = take (slice_pos b xs - slice_pos a xs) (drop (slice_pos a xs) xs)"

definition ring_push :: "int \<Rightarrow> 'a \<Rightarrow> 'a list \<Rightarrow> 'a list" where
  "ring_push m x xs = (let xs' = xs @ [x] in if m < int (length xs') then tl xs' else xs')"

definition ring_add :: "'a \<Rightarrow> 'a ring \<Rightarrow> 'a ring" where
  "ring_add x s = s\<lparr>rg_entries := ring_push (rg_max s) x (rg_entries s)\<rparr>"

definition ring_list :: "int \<Rightarrow> int \<Rightarrow> 'a ring \<Rightarrow> 'a list" where
  "ring_list limit offset s = py_slice offset (offset + limit) (rg_entries s)"

text \<open>\<open>hasattr(e, 'timestamp')\<close> and the time: \<open>None\<close> when there is no such attribute.\<close>

definition ring_query ::
  "('a \<Rightarrow> datetime option) \<Rightarrow> datetime option \<Rightarrow> datetime option \<Rightarrow> ('a \<Rightarrow> bool) option \<Rightarrow> int \<Rightarrow> 'a ring \<Rightarrow> 'a list" where
  "ring_query timestamp after before filter_fn limit s =
     (let r0 = rg_entries s;
          r1 = (case after of None \<Rightarrow> r0
                | Some a \<Rightarrow> filter (\<lambda>e. case timestamp e of None \<Rightarrow> False | Some t \<Rightarrow> a \<le> t) r0);
          r2 = (case before of None \<Rightarrow> r1
                | Some b \<Rightarrow> filter (\<lambda>e. case timestamp e of None \<Rightarrow> False | Some t \<Rightarrow> t \<le> b) r1);
          r3 = (case filter_fn of None \<Rightarrow> r2 | Some f \<Rightarrow> filter f r2)
      in if limit < int (length r3) then slice_last limit r3 else r3)"

definition ring_count :: "'a ring \<Rightarrow> nat" where
  "ring_count s = length (rg_entries s)"

definition ring_clear :: "'a ring \<Rightarrow> 'a ring" where
  "ring_clear s = s\<lparr>rg_entries := []\<rparr>"

subsection \<open>The table\<close>

text \<open>An attribute of an event: a time, a status, which is stored as its text, or another value.\<close>

datatype attribute = AttrTime datetime | AttrStatus string | AttrValue json

datatype column = ColTime datetime | ColValue json

record 'a event_model =
  em_attr :: "'a \<Rightarrow> string \<Rightarrow> attribute option"
  em_dump :: "'a \<Rightarrow> json"
  em_validate :: "json \<Rightarrow> 'a option"

record event_row =
  er_id :: int
  er_domain :: string
  er_payload :: json
  er_timestamp :: column
  er_cluster_id :: "column option"
  er_node_id :: "column option"
  er_job_id :: "column option"
  er_tenant_id :: "column option"
  er_model_id :: "column option"
  er_event_type :: "column option"

type_synonym events_db = "event_row list"

fun column_of :: "attribute \<Rightarrow> column" where
  "column_of (AttrTime t) = ColTime t"
| "column_of (AttrStatus s) = ColValue (JStr s)"
| "column_of (AttrValue v) = ColValue v"

definition extract_field :: "'a event_model \<Rightarrow> 'a \<Rightarrow> string list \<Rightarrow> column option" where
  "extract_field m x names =
     map_option column_of (find (\<lambda>_. True) (List.map_filter (em_attr m x) names))"

definition timestamp_column :: "datetime \<Rightarrow> 'a event_model \<Rightarrow> 'a \<Rightarrow> column" where
  "timestamp_column now m x = or_default (extract_field m x [''timestamp'', ''collected_at'']) (ColTime now)"

definition next_row_id :: "events_db \<Rightarrow> int" where
  "next_row_id db = foldl max 0 (map er_id db) + 1"

definition event_row_of :: "datetime \<Rightarrow> 'a event_model \<Rightarrow> string \<Rightarrow> int \<Rightarrow> 'a \<Rightarrow> event_row" where
  "event_row_of now m domain i x =
     \<lparr>er_id = i, er_domain = domain, er_payload = em_dump m x, er_timestamp = timestamp_column now m x,
      er_cluster_id = extract_field m x [''cluster_id''], er_node_id = extract_field m x [''node_id'', ''node_name''],
      er_job_id = extract_field m x [''job_id''], er_tenant_id = extract_field m x [''tenant_id''],
      er_model_id = extract_field m x [''model_id''], er_event_type = extract_field m x [''event_type'', ''action_type'']\<rparr>"

subsection \<open>The persistent store\<close>

text \<open>\<open>db_conn\<close> is \<open>None\<close> or the table; whether a statement on it fails is an argument of the operation.\<close>

record 'a pstore =
  ps_ring :: "'a ring"
  ps_domain :: string
  ps_enabled :: bool
  ps_db :: "events_db option"

definition new_pstore :: "string \<Rightarrow> int \<Rightarrow> bool \<Rightarrow> events_db option \<Rightarrow> 'a pstore" where
  "new_pstore domain max_entries enabled db =
     \<lparr>ps_ring = \<lparr>rg_entries = [], rg_max = max_entries\<rparr>, ps_domain = domain, ps_enabled = enabled, ps_db = db\<rparr>"

definition persist :: "bool \<Rightarrow> datetime \<Rightarrow> 'a event_model \<Rightarrow> 'a \<Rightarrow> 'a pstore \<Rightarrow> 'a pstore" where
  "persist fails now m x s =
     (case ps_db s of None \<Rightarrow> s
      | Some db \<Rightarrow> if fails then s
          else s\<lparr>ps_db := Some (db @ [event_row_of now m (ps_domain s) (next_row_id db) x])\<rparr>)"

definition pstore_add :: "bool \<Rightarrow> datetime \<Rightarrow> 'a event_model \<Rightarrow> 'a \<Rightarrow> 'a pstore \<Rightarrow> 'a pstore" where
  "pstore_add fails now m x s =
     (let s' = s\<lparr>ps_ring := ring_add x (ps_ring s)\<rparr>
      in if ps_enabled s' \<and> ps_db s' \<noteq> None then persist fails now m x s' else s')"

definition known_domains :: "string list" where
  "known_domains =
     [''gpu_node'', ''fabric_storage'', ''scheduler_events'', ''scheduler_states'', ''training_steps'', ''training_runs'',
      ''inference_samples'', ''inference_summaries'', ''tenant_quotas'', ''cost_allocations'', ''action_events'', ''action_outcomes'']"

text \<open>\<open>WHERE domain = ? ORDER BY id DESC LIMIT ?\<close>; a negative limit is none.\<close>

definition newest_rows :: "string \<Rightarrow> int \<Rightarrow> events_db \<Rightarrow> event_row list" where
  "newest_rows domain limit db =
     (let rows = rev (sort_key er_id (filter (\<lambda>r. er_domain r = domain) db))
      in if limit < 0 then rows else take (nat limit) rows)"

definition reload :: "bool \<Rightarrow> 'a event_model \<Rightarrow> int \<Rightarrow> 'a pstore \<Rightarrow> 'a pstore" where
  "reload fails m limit s =
     (case ps_db s of None \<Rightarrow> s
      | Some db \<Rightarrow> if fails then s
          else (let loaded = (if ps_domain s \<in> set known_domains
                              then List.map_filter (em_validate m \<circ> er_payload) (newest_rows (ps_domain s) limit db) else []);
                    kept = (if rg_max (ps_ring s) < int (length loaded) then slice_last (rg_max (ps_ring s)) loaded else loaded)
                in s\<lparr>ps_ring := (ps_ring s)\<lparr>rg_entries := kept\<rparr>\<rparr>))"

definition pstore_clear :: "bool \<Rightarrow> 'a pstore \<Rightarrow> 'a pstore" where
  "pstore_clear fails s =
     (let s' = s\<lparr>ps_ring := ring_clear (ps_ring s)\<rparr> in
      case ps_db s' of None \<Rightarrow> s'
      | Some db \<Rightarrow> if ps_enabled s' \<and> \<not> fails
          then s'\<lparr>ps_db := Some (filter (\<lambda>r. er_domain r \<noteq> ps_domain s) db)\<rparr> else s')"

text \<open>The stores of a \<open>DomainStore\<close> and their sizes, in the order of its attributes.\<close>

definition domain_sizes :: "(string, int) dict" where
  "domain_sizes =
     [(''gpu_node'', 20000), (''fabric_storage'', 20000), (''scheduler_events'', 50000), (''scheduler_states'', 20000),
      (''training_steps'', 100000), (''training_runs'', 5000), (''inference_samples'', 100000),
      (''inference_summaries'', 5000), (''tenant_quotas'', 20000), (''cost_allocations'', 50000), (''action_events'', 50000),
      (''action_outcomes'', 50000)]"

subsection \<open>What a store holds\<close>

interpretation ring_log: bounded_log "ring_push (int (Suc n))" "Suc n" for n
proof
  fix e :: 'a and es
  show "\<exists>dropped. dropped @ ring_push (int (Suc n)) e es = es @ [e]"
    by (cases es) (auto simp: ring_push_def Let_def)
  show "length es \<le> Suc n \<Longrightarrow> length (ring_push (int (Suc n)) e es) \<le> Suc n"
    by (auto simp: ring_push_def Let_def)
  show "ring_push (int (Suc n)) e es \<noteq> []"
    by (cases es) (auto simp: ring_push_def Let_def)
qed

lemma ring_run: "0 < n \<Longrightarrow> fold (ring_push (int n)) xs [] = drop (length xs - n) xs"
proof (induction xs rule: rev_induct)
  case (snoc x xs)
  show ?case
  proof (cases "length xs < n")
    case False
    then have "Suc (length xs) - n = Suc (length xs - n)" "length xs - (length xs - n) = n" by auto
    then show ?thesis using snoc False by (auto simp: ring_push_def drop_Suc tl_drop)
  qed (use snoc in \<open>simp add: ring_push_def\<close>)
qed simp

definition rows_ordered :: "events_db \<Rightarrow> bool" where
  "rows_ordered db \<longleftrightarrow> sorted_wrt (<) (map er_id db)"

lemma next_row_id_above: "r \<in> set db \<Longrightarrow> er_id r < next_row_id db"
  using foldl_max_ge [of "er_id r" 0 "map er_id db"] by (simp add: next_row_id_def)

lemma rows_ordered_append: "rows_ordered db \<Longrightarrow> er_id r = next_row_id db \<Longrightarrow> rows_ordered (db @ [r])"
  by (auto simp: rows_ordered_def sorted_wrt_append next_row_id_above)

lemma newest_rows_ordered:
  "rows_ordered db \<Longrightarrow> newest_rows d (int k) db = take k (rev (filter (\<lambda>r. er_domain r = d) db))"
proof -
  assume "rows_ordered db"
  then have "sorted_wrt (\<lambda>a b. er_id a < er_id b) db" by (simp add: rows_ordered_def sorted_wrt_map)
  then have "sorted_wrt (\<lambda>a b. er_id a < er_id b) (filter (\<lambda>r. er_domain r = d) db)" by (rule sorted_wrt_filter)
  then have "sorted (map er_id (filter (\<lambda>r. er_domain r = d) db))"
    unfolding sorted_wrt_map by (rule sorted_wrt_mono_rel [rotated]) simp
  then show ?thesis by (simp add: newest_rows_def Let_def sort_key_id_if_sorted)
qed

text \<open>Items added one after another, each with the time of the clock.\<close>

definition add_all :: "'a event_model \<Rightarrow> (datetime \<times> 'a) list \<Rightarrow> 'a pstore \<Rightarrow> 'a pstore" where
  "add_all m evs s = fold (\<lambda>(now, x). pstore_add False now m x) evs s"

lemma add_all_effect:
  assumes "rows_ordered db" and "s = new_pstore d n True (Some db)"
  shows "\<exists>db'. add_all m evs s = s\<lparr>ps_ring := \<lparr>rg_entries = fold (ring_push n) (map snd evs) [], rg_max = n\<rparr>, ps_db := Some db'\<rparr>
    \<and> rows_ordered db' \<and> filter (\<lambda>r. er_domain r \<noteq> d) db' = filter (\<lambda>r. er_domain r \<noteq> d) db
    \<and> map er_payload (filter (\<lambda>r. er_domain r = d) db')
        = map er_payload (filter (\<lambda>r. er_domain r = d) db) @ map (em_dump m \<circ> snd) evs"
proof (induction evs rule: rev_induct)
  case Nil
  then show ?case using assms by (simp add: add_all_def new_pstore_def)
next
  case (snoc e evs)
  obtain now x where e: "e = (now, x)" by (cases e)
  obtain db' where db': "add_all m evs s = s\<lparr>ps_ring := \<lparr>rg_entries = fold (ring_push n) (map snd evs) [], rg_max = n\<rparr>, ps_db := Some db'\<rparr>"
    "rows_ordered db'" "filter (\<lambda>r. er_domain r \<noteq> d) db' = filter (\<lambda>r. er_domain r \<noteq> d) db"
    "map er_payload (filter (\<lambda>r. er_domain r = d) db')
        = map er_payload (filter (\<lambda>r. er_domain r = d) db) @ map (em_dump m \<circ> snd) evs"
    using snoc.IH by blast
  let ?row = "event_row_of now m d (next_row_id db') x"
  have fields: "ps_enabled s" "ps_domain s = d" by (simp_all add: assms(2) new_pstore_def)
  have row: "er_id ?row = next_row_id db'" "er_domain ?row = d" "er_payload ?row = em_dump m x"
    by (simp_all add: event_row_of_def)
  have "add_all m (evs @ [e]) s = pstore_add False now m x (add_all m evs s)" by (simp add: add_all_def e)
  also have "\<dots> = s\<lparr>ps_ring := \<lparr>rg_entries = fold (ring_push n) (map snd (evs @ [e])) [], rg_max = n\<rparr>, ps_db := Some (db' @ [?row])\<rparr>"
    unfolding db'(1) using fields by (simp add: pstore_add_def persist_def ring_add_def Let_def e)
  finally show ?case using db'(2-4) row rows_ordered_append [OF db'(2) row(1)] by (intro exI [of _ "db' @ [?row]"]) (simp add: e)
qed

text \<open>
  A store of \<open>n\<close> events and the table: after any events were added to a fresh store whose domain
  the table does not have, memory holds the newest \<open>n\<close> in order and the rows of other domains are as
  they were; loading the store back does not restore it: it then holds the oldest \<open>n\<close>, newest
  first, so that what follows evicts the wrong end.
\<close>

theorem reload_reverses:
  assumes "\<And>x. em_validate m (em_dump m x) = Some x"
    and "0 < n" and "d \<in> set known_domains" and "rows_ordered db" and "\<forall>r \<in> set db. er_domain r \<noteq> d"
    and "s = add_all m evs (new_pstore d (int n) True (Some db))" and "items = map snd evs" and "length items \<le> limit"
  shows "rg_entries (ps_ring s) = drop (length items - n) items
    \<and> rg_entries (ps_ring (reload False m (int limit) s)) = rev (take n items)
    \<and> (\<exists>db'. ps_db s = Some db' \<and> filter (\<lambda>r. er_domain r \<noteq> d) db' = db)"
proof -
  obtain db' where s: "s = (new_pstore d (int n) True (Some db))\<lparr>ps_ring := \<lparr>rg_entries = fold (ring_push (int n)) items [], rg_max = int n\<rparr>, ps_db := Some db'\<rparr>"
    and db': "rows_ordered db'" "filter (\<lambda>r. er_domain r \<noteq> d) db' = filter (\<lambda>r. er_domain r \<noteq> d) db"
    "map er_payload (filter (\<lambda>r. er_domain r = d) db')
        = map er_payload (filter (\<lambda>r. er_domain r = d) db) @ map (em_dump m \<circ> snd) evs"
    using add_all_effect [OF assms(4) refl, of m evs d "int n"] assms(6,7) by blast
  have none: "filter (\<lambda>r. er_domain r = d) db = []" "filter (\<lambda>r. er_domain r \<noteq> d) db = db"
    using assms(5) by (simp_all add: filter_empty_conv)
  let ?rows = "filter (\<lambda>r. er_domain r = d) db'"
  have rows: "map er_payload ?rows = map (em_dump m) items" using db'(3) none assms(7) by simp
  have "length ?rows = length items" using arg_cong [OF rows, of length] by simp
  then have "newest_rows d (int limit) db' = rev ?rows"
    using newest_rows_ordered [OF db'(1), of d limit] assms(8) by simp
  then have "map er_payload (newest_rows d (int limit) db') = map (em_dump m) (rev items)"
    using rows by (metis rev_map)
  then have loaded: "List.map_filter (em_validate m \<circ> er_payload) (newest_rows d (int limit) db') = rev items"
  proof -
    have "List.map_filter (em_validate m \<circ> er_payload) rs = List.map_filter (em_validate m) (map er_payload rs)" for rs
      by (simp add: List.map_filter_def filter_map comp_def)
    moreover have "List.map_filter (em_validate m) (map (em_dump m) xs) = xs" for xs
      by (induction xs) (simp_all add: List.map_filter_simps assms(1))
    ultimately show ?thesis using \<open>map er_payload (newest_rows d (int limit) db') = map (em_dump m) (rev items)\<close> by metis
  qed
  have "rg_entries (ps_ring (reload False m (int limit) s)) = (if int n < int (length items) then slice_last (int n) (rev items) else rev items)"
    using loaded assms(3) by (simp add: s reload_def new_pstore_def Let_def)
  also have "\<dots> = rev (take n items)" using assms(2) by (simp add: slice_last_def rev_take)
  finally show ?thesis using db'(2) none ring_run [OF assms(2), of items] by (simp add: s)
qed

subsection \<open>A sample store\<close>

definition int_model :: "int event_model" where
  "int_model = \<lparr>em_attr = (\<lambda>x a. if a = ''timestamp'' then Some (AttrTime x) else None), em_dump = JInt,
                em_validate = (\<lambda>j. case j of JInt x \<Rightarrow> Some x | _ \<Rightarrow> None)\<rparr>"

theorem reload_reverses_witness:
  "rg_entries (ps_ring (reload False int_model 50000 (add_all int_model [(0, 1), (1, 2), (2, 3)] (new_pstore ''gpu_node'' 2 True (Some [])))))
     = [2, 1]"
  using reload_reverses [of int_model 2 "''gpu_node''" "[]" _ "[(0, 1), (1, 2), (2, 3)]" _ 50000, OF _ _ _ _ _ refl refl]
  by (simp add: int_model_def known_domains_def rows_ordered_def)

end
