(* ===== verification/Scheduling.thy ===== *)
theory Scheduling
  imports ClusterState RlScheduler "HOL-Library.Multiset"
begin

text \<open>
  The scheduler service, src/src/gpuopt/scheduler/service.py: suggestions where to place a workload,
  their simulation, and the plan of a cluster. What the service reads from the repository (a
  cluster, its latest state, the efficiency of its latest analysis) is a record of functions. The
  learned scheduler is \<open>RlScheduler\<close>. The forecast of demand, numerical learning, is not modelled.
\<close>

subsection \<open>Requirements and answers\<close>

record requirements =
  wr_gpu_count :: int
  wr_gpu_memory_bytes :: int
  wr_cpu_millicores :: int
  wr_memory_bytes :: int
  wr_gpu_model_preference :: string
  wr_allow_fractional_gpu :: bool

record suggestion =
  pg_cluster_id :: uuid
  pg_cluster_name :: string
  pg_environment :: string
  pg_generated_at :: datetime
  pg_workload :: requirements
  pg_suggested_node :: string
  pg_alternative_nodes :: "string list"
  pg_confidence :: rat
  pg_reasoning :: "piece list"
  pg_projected_impact :: "piece list"
  pg_estimated_fragmentation_after :: rat
  pg_score :: rat

record simulation =
  sm_cluster_id :: uuid
  sm_cluster_name :: string
  sm_environment :: string
  sm_generated_at :: datetime
  sm_placement :: suggestion
  sm_projected_utilization_delta :: rat
  sm_projected_memory_fragmentation :: rat
  sm_projected_pod_density :: rat
  sm_efficiency_gain :: rat
  sm_risk_score :: rat
  sm_summary :: "piece list"

record plan =
  sp_cluster_id :: uuid
  sp_cluster_name :: string
  sp_environment :: string
  sp_generated_at :: datetime
  sp_total_gpus :: int
  sp_free_gpus :: int
  sp_node_count :: int
  sp_avg_gpu_utilization :: rat
  sp_suggested_consolidations :: int
  sp_suggested_placements :: "piece list list"
  sp_recommended_node_counts :: int
  sp_estimated_savings_gpu_hours :: rat
  sp_summary :: "piece list"

record sched_repo =
  sr_cluster :: "uuid \<Rightarrow> cluster option"
  sr_state :: "uuid \<Rightarrow> cluster_state option"
  sr_efficiency :: "uuid \<Rightarrow> rat option"

definition need_cluster :: "sched_repo \<Rightarrow> uuid \<Rightarrow> py_error + cluster" where
  "need_cluster r c = (case sr_cluster r c of None \<Rightarrow> Inl (KeyError (''Cluster not found: '' @ c)) | Some x \<Rightarrow> Inr x)"

definition need_state :: "string \<Rightarrow> sched_repo \<Rightarrow> uuid \<Rightarrow> py_error + cluster_state" where
  "need_state msg r c = (case sr_state r c of None \<Rightarrow> Inl (KeyError msg) | Some x \<Rightarrow> Inr x)"

subsection \<open>Scores of nodes\<close>

definition free_for :: "requirements \<Rightarrow> node_state \<Rightarrow> gpu_state list" where
  "free_for req node =
     filter (\<lambda>g. wr_gpu_memory_bytes req \<le> gpu_free g \<or> wr_gpu_memory_bytes req = 0) (ns_gpu_devices node)"

definition memory_score :: "requirements \<Rightarrow> gpu_state list \<Rightarrow> rat" where
  "memory_score req free =
     (let mean = of_int (sum_list (map gpu_free free)) / of_int (max (int (length free)) 1)
      in if 0 < wr_gpu_memory_bytes req then min (mean / of_int (max (wr_gpu_memory_bytes req) 1)) 1 * 40 else 30)"

definition idle_score :: "gpu_state list \<Rightarrow> rat" where
  "idle_score free = of_nat (length (filter gpu_idle free)) / of_int (max (int (length free)) 1) * 30"

definition pod_score :: "node_state \<Rightarrow> rat" where
  "pod_score node = max 0 (1 - of_int (ns_pod_count node) / of_int (max (ns_pod_capacity node) 1)) * 30"

definition total_score :: "requirements \<Rightarrow> node_state \<Rightarrow> rat" where
  "total_score req node = memory_score req (free_for req node) + idle_score (free_for req node) + pod_score node"

fun join_texts :: "string \<Rightarrow> string list \<Rightarrow> string" where
  "join_texts sep [] = []"
| "join_texts sep [t] = t"
| "join_texts sep (t # ts) = t @ sep @ join_texts sep ts"

definition reasoning_of :: "requirements \<Rightarrow> node_state \<Rightarrow> string" where
  "reasoning_of req node =
     (let parts = (if 20 < memory_score req (free_for req node) then [''sufficient free memory''] else [])
                  @ (if 15 < idle_score (free_for req node) then [''idle GPU capacity''] else [])
                  @ (if 15 < pod_score node then [''low pod density''] else [])
      in if parts \<noteq> [] then join_texts ''; '' parts else ''acceptable fit'')"

record scored_node =
  sn_name :: string
  sn_score :: rat
  sn_reasoning :: string

definition scored :: "requirements \<Rightarrow> node_state \<Rightarrow> scored_node" where
  "scored req node = \<lparr>sn_name = ns_name node, sn_score = total_score req node, sn_reasoning = reasoning_of req node\<rparr>"

definition has_room :: "requirements \<Rightarrow> node_state \<Rightarrow> bool" where
  "has_room req node \<longleftrightarrow> wr_gpu_count req \<le> int (length (free_for req node))"

definition score_nodes :: "cluster_state \<Rightarrow> requirements \<Rightarrow> scored_node list" where
  "score_nodes state req = sorted_by (\<lambda>x. - sn_score x) (map (scored req) (filter (has_room req) (cs_nodes state)))"

definition estimate_fragmentation :: "cluster_state \<Rightarrow> requirements \<Rightarrow> string \<Rightarrow> rat" where
  "estimate_fragmentation state req target =
     (case find (\<lambda>n. ns_name n = target) (cs_nodes state) of
        None \<Rightarrow> 0
      | Some node \<Rightarrow>
          (let free = sum_list (map gpu_free (ns_gpu_devices node));
               total = sum_list (map gs_memory_total_bytes (ns_gpu_devices node))
           in if total = 0 then 0
              else max (of_int (free - wr_gpu_memory_bytes req) / of_int total * 100) 0))"

subsection \<open>Suggestions\<close>

definition suggest_placement :: "datetime \<Rightarrow> sched_repo \<Rightarrow> uuid \<Rightarrow> requirements \<Rightarrow> py_error + suggestion" where
  "suggest_placement now r c req =
     try_bind (need_cluster r c) (\<lambda>cluster.
     try_bind (need_state ''No cluster state available for placement suggestion'' r c) (\<lambda>state.
       (case score_nodes state req of
          [] \<Rightarrow> Inl (KeyError ''No suitable node found for the given requirements'')
        | best # others \<Rightarrow> Inr
            \<lparr>pg_cluster_id = cl_id cluster, pg_cluster_name = cl_name cluster, pg_environment = cl_environment cluster,
             pg_generated_at = now, pg_workload = req, pg_suggested_node = sn_name best,
             pg_alternative_nodes = map sn_name (take 3 others), pg_confidence = sn_score best / 100,
             pg_reasoning = [Txt (sn_reasoning best)],
             pg_projected_impact = [Txt ''Placing '', Val (JInt (wr_gpu_count req)), Txt ('' GPU(s) on '' @ sn_name best)],
             pg_estimated_fragmentation_after = py_round 1 (estimate_fragmentation state req (sn_name best)),
             pg_score = py_round 1 (sn_score best)\<rparr>)))"

text \<open>The nodes given to the learned scheduler, and its answer; without a successful one the scores decide.\<close>

definition rl_node_of :: "node_state \<Rightarrow> rl_node" where
  "rl_node_of n = (let gs = ns_gpu_devices n in
     \<lparr>rn_id = ns_name n, rn_available_gpus = int (length (filter (\<lambda>g. gs_memory_used_bytes g = 0) gs)),
      rn_total_gpus = int (length gs),
      rn_free_memory_gb = sum_list (map (\<lambda>g. of_int (gpu_free g) / 1024 ^ 3) gs) / of_int (max (int (length gs)) 1),
      rn_temperature = 45, rn_gpu_model = (case gs of [] \<Rightarrow> ''unknown'' | g # _ \<Rightarrow> gs_model g), rn_status = ''ready''\<rparr>)"

definition rl_suggest_placement ::
  "uuid \<Rightarrow> datetime \<Rightarrow> draws \<Rightarrow> sched_repo \<Rightarrow> uuid \<Rightarrow> requirements \<Rightarrow> learner \<Rightarrow> py_error + learner \<times> suggestion" where
  "rl_suggest_placement jid now d r c req s =
     try_bind (need_cluster r c) (\<lambda>cluster.
     try_bind (need_state ''No cluster state available for RL placement'' r c) (\<lambda>state.
       let job = \<lparr>rj_id = jid, rj_required_gpus = wr_gpu_count req, rj_priority = 5, rj_estimated_duration = 1,
                  rj_memory_gb = of_int (wr_gpu_memory_bytes req) / 1024 ^ 3, rj_checkpointable = False\<rparr> in
       try_bind (rl_schedule d job (map rl_node_of (cs_nodes state)) s) (\<lambda>(t, res).
         if rp_node res = None \<or> \<not> rp_success res then try_bind (suggest_placement now r c req) (\<lambda>p. Inr (t, p))
         else Inr (t,
            \<lparr>pg_cluster_id = c, pg_cluster_name = cl_name cluster, pg_environment = cl_environment cluster,
             pg_generated_at = now, pg_workload = req, pg_suggested_node = rp_node_id res, pg_alternative_nodes = [],
             pg_confidence = min 1 \<bar>rp_q_value res\<bar>, pg_reasoning = rp_reasoning res,
             pg_projected_impact =
               [Txt ''RL placed '', Val (JInt (wr_gpu_count req)), Txt ('' GPU(s) on '' @ rp_node_id res)],
             pg_estimated_fragmentation_after = 0, pg_score = py_round 1 (rp_reward res * 100)\<rparr>))))"

definition utilization_delta :: "cluster_state option \<Rightarrow> requirements \<Rightarrow> rat" where
  "utilization_delta state req =
     (case state of None \<Rightarrow> 0
      | Some s \<Rightarrow>
          (let gpus = concat (map ns_gpu_devices (cs_nodes s));
               used = int (length (filter (\<lambda>g. 0 < gs_memory_used_bytes g) gpus));
               total = max (int (length gpus)) 1;
               current = of_int used / of_int total * 100;
               projected = min (current + of_int (wr_gpu_count req) / of_int total * 20) 100
           in projected - current))"

definition simulate_placement :: "datetime \<Rightarrow> sched_repo \<Rightarrow> uuid \<Rightarrow> requirements \<Rightarrow> py_error + simulation" where
  "simulate_placement now r c req =
     try_bind (suggest_placement now r c req) (\<lambda>placement.
       let delta = utilization_delta (sr_state r c) req;
           risk = (1 - pg_confidence placement) * 100
       in Inr
         \<lparr>sm_cluster_id = c,
          sm_cluster_name = (case sr_cluster r c of None \<Rightarrow> pg_cluster_name placement | Some x \<Rightarrow> cl_name x),
          sm_environment = (case sr_cluster r c of None \<Rightarrow> pg_environment placement | Some x \<Rightarrow> cl_environment x),
          sm_generated_at = now, sm_placement = placement, sm_projected_utilization_delta = py_round 1 delta,
          sm_projected_memory_fragmentation = py_round 1 (pg_estimated_fragmentation_after placement),
          sm_projected_pod_density = py_round 1 (50 + delta), sm_efficiency_gain = py_round 1 (delta * (3 / 10)),
          sm_risk_score = py_round 1 risk,
          sm_summary = [Txt ''Placing '', Val (JInt (wr_gpu_count req)),
            Txt ('' GPU workload on '' @ pg_suggested_node placement @ '': utilization +''), Fmt ''.1f'' (JFloat delta),
            Txt ''%, risk '', Fmt ''.0f'' (JFloat risk), Txt ''%'']\<rparr>)"

subsection \<open>The plan of a cluster\<close>

definition idle_node_text :: "node_state \<Rightarrow> piece list option" where
  "idle_node_text node =
     (let free = filter gpu_idle (ns_gpu_devices node) in
      if length free = length (ns_gpu_devices node) \<and> 0 < length free
      then Some [Txt (''Consolidate workloads from '' @ ns_name node @ '' (''), Val (JInt (int (length free))), Txt '' idle GPUs)'']
      else None)"

definition get_plan :: "datetime \<Rightarrow> sched_repo \<Rightarrow> uuid \<Rightarrow> py_error + plan" where
  "get_plan now r c =
     try_bind (need_cluster r c) (\<lambda>cluster.
     try_bind (need_state ''No cluster state available for scheduling plan'' r c) (\<lambda>state.
       let total = cs_gpu_count state;
           free = int (length (filter gpu_idle (concat (map ns_gpu_devices (cs_nodes state)))));
           nodes = cs_node_count state;
           avg = or_default (sr_efficiency r c) 0;
           consolidations = (if 0 < total then max (free div 2) 0 else 0);
           rec_nodes = (if 0 < consolidations then max (nodes - consolidations div 4) 1 else nodes);
           savings = (if rec_nodes < nodes then of_int (nodes - rec_nodes) * 24 * (45 / 1000) else 0)
       in Inr
         \<lparr>sp_cluster_id = cl_id cluster, sp_cluster_name = cl_name cluster, sp_environment = cl_environment cluster,
          sp_generated_at = now, sp_total_gpus = total, sp_free_gpus = free, sp_node_count = nodes,
          sp_avg_gpu_utilization = py_round 1 avg, sp_suggested_consolidations = consolidations,
          sp_suggested_placements = List.map_filter idle_node_text (cs_nodes state),
          sp_recommended_node_counts = rec_nodes, sp_estimated_savings_gpu_hours = py_round 1 savings,
          sp_summary = [Val (JInt free), Txt ''/'', Val (JInt total), Txt '' GPUs free across '', Val (JInt nodes),
            Txt '' node(s); avg util '', Fmt ''.0f'' (JFloat avg), Txt ''%; recommend '', Val (JInt rec_nodes), Txt '' node(s)'']\<rparr>))"

subsection \<open>What a suggestion is worth\<close>

lemma share_range: "0 \<le> x \<Longrightarrow> x \<le> 1 \<Longrightarrow> 0 \<le> k \<Longrightarrow> 0 \<le> x * k \<and> x * k \<le> (k :: rat)"
  by (simp add: mult_left_le_one_le)

lemma memory_score_range: "list_all gpu_ok free \<Longrightarrow> 0 \<le> memory_score req free \<and> memory_score req free \<le> 40"
proof -
  assume "list_all gpu_ok free"
  then have "0 \<le> sum_list (map gpu_free free)" by (induction free) (auto simp: gpu_ok_def)
  then have "0 \<le> (of_int (sum_list (map gpu_free free)) :: rat) / of_int (max (int (length free)) 1)
      / of_int (max (wr_gpu_memory_bytes req) 1)"
    by (intro divide_nonneg_nonneg) auto
  then have "0 \<le> min ((of_int (sum_list (map gpu_free free)) :: rat) / of_int (max (int (length free)) 1)
      / of_int (max (wr_gpu_memory_bytes req) 1)) 1" by (simp only: min_def split: if_split) simp
  then show ?thesis unfolding memory_score_def Let_def
    by (cases "0 < wr_gpu_memory_bytes req") (simp_all only: if_True if_False share_range min.cobounded2, simp)
qed

lemma idle_score_range: "0 \<le> idle_score free \<and> idle_score free \<le> 30"
proof -
  have le: "length (filter gpu_idle free) \<le> length free" by simp
  then have "int (length (filter gpu_idle free)) \<le> max (int (length free)) 1" by linarith
  then have "of_int (int (length (filter gpu_idle free))) \<le> (of_int (max (int (length free)) 1) :: rat)"
    by (simp only: of_int_le_iff)
  then have "(of_nat (length (filter gpu_idle free)) :: rat) \<le> of_int (max (int (length free)) 1)"
    by (simp only: of_int_of_nat_eq)
  moreover have "0 < (of_int (max (int (length free)) 1) :: rat)" by simp
  ultimately have "(of_nat (length (filter gpu_idle free)) :: rat) / of_int (max (int (length free)) 1) \<le> 1"
    by (simp add: divide_le_eq)
  moreover have "0 \<le> (of_nat (length (filter gpu_idle free)) :: rat) / of_int (max (int (length free)) 1)" by simp
  ultimately show ?thesis unfolding idle_score_def by (intro share_range) simp_all
qed

lemma pod_score_range: "0 \<le> ns_pod_count node \<Longrightarrow> 0 \<le> pod_score node \<and> pod_score node \<le> 30"
  by (simp add: pod_score_def)

lemma total_score_range: "node_ok node \<Longrightarrow> 0 \<le> total_score req node \<and> total_score req node \<le> 100"
proof -
  assume ok: "node_ok node"
  then have "list_all gpu_ok (free_for req node)" by (auto simp: node_ok_def free_for_def list_all_iff)
  from memory_score_range [OF this, of req] idle_score_range [of "free_for req node"] pod_score_range [of node] ok
  show ?thesis by (simp add: total_score_def node_ok_def)
qed

lemma scored_fields [simp]: "sn_name (scored req n) = ns_name n" "sn_score (scored req n) = total_score req n"
  by (simp_all add: scored_def)

lemma suggested_node_has_room:
  assumes "suggest_placement now r c req = Inr p"
  obtains st n where "sr_state r c = Some st" "n \<in> set (cs_nodes st)" "has_room req n" "ns_name n = pg_suggested_node p"
proof -
  obtain cl st where st: "sr_cluster r c = Some cl" "sr_state r c = Some st"
    using assms by (auto simp: suggest_placement_def need_cluster_def need_state_def try_bind_Inr_iff split: option.splits)
  obtain best others where s: "score_nodes st req = best # others"
    using assms st by (cases "score_nodes st req") (auto simp: suggest_placement_def need_cluster_def need_state_def)
  then have "best \<in> set (score_nodes st req)" by simp
  then obtain n where n: "n \<in> set (cs_nodes st)" "has_room req n" "best = scored req n" by (auto simp: score_nodes_def)
  then have "ns_name n = pg_suggested_node p"
    using assms st s by (auto simp: suggest_placement_def need_cluster_def need_state_def)
  then show thesis using that [OF st(2) n(1,2)] by simp
qed

lemma sorted_by_map: "sorted_by f (map g xs) = map g (sorted_by (\<lambda>x. f (g x)) xs)"
proof -
  have "insort_key f (g x) (map g ys) = map g (insort_key (\<lambda>x. f (g x)) x ys)" for x ys by (induction ys) simp_all
  then show ?thesis unfolding sorted_by_def sort_key_def by (induction xs) simp_all
qed

text \<open>The scored nodes are the nodes with room, the best first.\<close>

lemma score_nodes_of:
  obtains ns where "score_nodes st req = map (scored req) ns" "mset ns = mset (filter (has_room req) (cs_nodes st))"
    "sorted_wrt (\<lambda>x y. total_score req y \<le> total_score req x) ns"
proof -
  let ?ns = "sorted_by (\<lambda>n. - total_score req n) (filter (has_room req) (cs_nodes st))"
  have "sorted (map (\<lambda>n. - total_score req n) ?ns)" by (simp add: sorted_by_def)
  then have "sorted_wrt (\<lambda>x y. total_score req y \<le> total_score req x) ?ns" by (simp add: sorted_wrt_map)
  then show thesis by (rule that [rotated 2]) (simp_all add: score_nodes_def sorted_by_map scored_def, simp add: sorted_by_def)
qed

text \<open>
  C30: suggestions of placements: for a known cluster with a state the answer is an error exactly when
  no node has the number of GPUs asked for with the memory asked for free. Otherwise the nodes that
  have them can be listed by falling score so that the first one is suggested and the next ones, three or as
  many as there are, are the alternatives; so the alternatives are other nodes than the one suggested,
  with other names as long as no two nodes share one. On well-formed nodes the score lies between 0
  and 100 and the confidence between 0 and 1.
\<close>

theorem suggestion_fits:
  assumes "sr_cluster r c = Some cl" and "sr_state r c = Some st"
    and "ok = (\<lambda>n. wr_gpu_count req \<le>
               int (length (filter (\<lambda>g. wr_gpu_memory_bytes req = 0 \<or> wr_gpu_memory_bytes req \<le> gpu_free g) (ns_gpu_devices n))))"
    and "a = suggest_placement now r c req"
  shows "((\<exists>e. a = Inl e) \<longleftrightarrow> (\<forall>n \<in> set (cs_nodes st). \<not> ok n))
    \<and> (\<forall>p. a = Inr p \<longrightarrow>
         (\<exists>n others rest. mset (n # others @ rest) = mset (filter ok (cs_nodes st))
            \<and> sorted_wrt (\<lambda>x y. total_score req y \<le> total_score req x) (n # others @ rest)
            \<and> pg_suggested_node p = ns_name n \<and> pg_alternative_nodes p = map ns_name others
            \<and> length others = min 3 (length (filter ok (cs_nodes st)) - 1)
            \<and> pg_score p = py_round 1 (total_score req n) \<and> pg_confidence p = total_score req n / 100)
         \<and> (distinct (map ns_name (cs_nodes st)) \<longrightarrow> distinct (pg_suggested_node p # pg_alternative_nodes p))
         \<and> (list_all node_ok (cs_nodes st) \<longrightarrow>
              0 \<le> pg_confidence p \<and> pg_confidence p \<le> 1 \<and> 0 \<le> pg_score p \<and> pg_score p \<le> 100))"
proof -
  have ok: "ok = has_room req" by (simp add: assms(3) fun_eq_iff has_room_def free_for_def disj_commute)
  obtain ns where ns: "score_nodes st req = map (scored req) ns" "mset ns = mset (filter ok (cs_nodes st))"
    "sorted_wrt (\<lambda>x y. total_score req y \<le> total_score req x) ns"
    unfolding ok by (rule score_nodes_of)
  have empty: "ns = [] \<longleftrightarrow> (\<forall>n \<in> set (cs_nodes st). \<not> ok n)" using ns(2) by (metis filter_empty_conv mset_zero_iff)
  show ?thesis
  proof (cases ns)
    case Nil
    then have "a = Inl (KeyError ''No suitable node found for the given requirements'')"
      using assms(1,2,4) ns(1) by (simp add: suggest_placement_def need_cluster_def need_state_def)
    then show ?thesis using empty Nil by auto
  next
    case (Cons n ms)
    obtain p where p: "a = Inr p" "pg_suggested_node p = ns_name n" "pg_alternative_nodes p = map ns_name (take 3 ms)"
      "pg_confidence p = total_score req n / 100" "pg_score p = py_round 1 (total_score req n)"
      using assms(1,2,4) ns(1) Cons
      by (simp add: suggest_placement_def need_cluster_def need_state_def take_map comp_def scored_def)
    have len: "length (filter ok (cs_nodes st)) = Suc (length ms)" using mset_eq_length [OF ns(2)] Cons by simp
    have parts: "mset (n # take 3 ms @ drop 3 ms) = mset (filter ok (cs_nodes st))"
      "sorted_wrt (\<lambda>x y. total_score req y \<le> total_score req x) (n # take 3 ms @ drop 3 ms)" using ns(2,3) Cons by simp_all
    have names: "distinct (pg_suggested_node p # pg_alternative_nodes p)" if "distinct (map ns_name (cs_nodes st))"
    proof -
      have "distinct (map ns_name (filter ok (cs_nodes st)))" using that by (rule distinct_map_filter)
      moreover have "mset (map ns_name (filter ok (cs_nodes st))) = mset (map ns_name (n # ms))" using ns(2) Cons by (metis mset_map)
      ultimately have "distinct (map ns_name (n # ms))" by (metis mset_eq_imp_distinct_iff)
      then have "distinct (take 4 (map ns_name (n # ms)))" by (rule distinct_take)
      then show ?thesis using p(2,3) by (simp add: take_map numeral_eq_Suc)
    qed
    have range: "0 \<le> pg_confidence p \<and> pg_confidence p \<le> 1 \<and> 0 \<le> pg_score p \<and> pg_score p \<le> 100" if "list_all node_ok (cs_nodes st)"
    proof -
      have "n \<in> set (cs_nodes st)" using parts(1) by (metis filter_is_subset list.set_intros(1) set_mset_mset subsetD)
      then have "0 \<le> total_score req n \<and> total_score req n \<le> 100" using total_score_range that by (simp add: list_all_iff)
      then show ?thesis using py_round_bounds [of 0 "total_score req n" 100 1] p(4,5) by simp
    qed
    have "\<not> (\<forall>n \<in> set (cs_nodes st). \<not> ok n)" using empty Cons by simp
    moreover have "length (take 3 ms) = min 3 (length (filter ok (cs_nodes st)) - 1)" by (simp add: len)
    ultimately show ?thesis using p parts names range by blast
  qed
qed

text \<open>Neither the preferred model nor the status of a node changes a suggestion.\<close>

lemma scored_preference: "scored (req\<lparr>wr_gpu_model_preference := m\<rparr>) node = scored req node"
  by (simp add: scored_def total_score_def reasoning_of_def free_for_def memory_score_def)

lemma status_ignored: "scored req (node\<lparr>ns_status := t\<rparr>) = scored req node"
  by (simp add: scored_def total_score_def reasoning_of_def free_for_def pod_score_def)

subsection \<open>A sample cluster\<close>

definition gpu_of :: "int \<Rightarrow> int \<Rightarrow> gpu_state" where
  "gpu_of mem used =
     \<lparr>gs_index = 0, gs_uuid = [], gs_model = ''A100'', gs_memory_total_bytes = mem, gs_memory_used_bytes = used,
      gs_status = ''unknown''\<rparr>"

definition node_with :: "string \<Rightarrow> gpu_state list \<Rightarrow> node_state" where
  "node_with name gpus =
     \<lparr>ns_name = name, ns_status = ''Ready'', ns_capacity = [], ns_allocatable = [], ns_labels = [], ns_gpu_devices = gpus,
      ns_pod_count = 10, ns_pod_capacity = 100, ns_created_at = None\<rparr>"

definition small_state :: cluster_state where
  "small_state =
     \<lparr>cs_cluster_id = ''c1'', cs_cluster_name = ''east'', cs_environment = ''prod'', cs_collected_at = 0, cs_generated_at = 0,
      cs_node_count = 2, cs_gpu_count = 3, cs_total_gpu_memory_bytes = 240,
      cs_nodes = [node_with ''n1'' [gpu_of 80 80], node_with ''n2'' [gpu_of 80 0, gpu_of 80 40]],
      cs_telemetry = None\<rparr>"

definition small_repo :: sched_repo where
  "small_repo = \<lparr>sr_cluster = (\<lambda>c. if c = ''c1'' then Some \<lparr>cl_id = ''c1'', cl_name = ''east'', cl_environment = ''prod''\<rparr> else None),
                 sr_state = (\<lambda>c. if c = ''c1'' then Some small_state else None), sr_efficiency = (\<lambda>c. None)\<rparr>"

definition two_gpus :: requirements where
  "two_gpus = \<lparr>wr_gpu_count = 2, wr_gpu_memory_bytes = 30, wr_cpu_millicores = 1000, wr_memory_bytes = 0,
               wr_gpu_model_preference = [], wr_allow_fractional_gpu = False\<rparr>"

theorem suggestion_fits_witness:
  "\<exists>p. suggest_placement 1 small_repo ''c1'' two_gpus = Inr p \<and> pg_suggested_node p = ''n2'' \<and> pg_score p \<le> 100"
proof -
  have "sr_cluster small_repo ''c1'' = Some \<lparr>cl_id = ''c1'', cl_name = ''east'', cl_environment = ''prod''\<rparr>"
    "sr_state small_repo ''c1'' = Some small_state"
    by (simp_all add: small_repo_def)
  note fits = suggestion_fits [OF this refl refl, where req = two_gpus and now = 1]
  obtain p where p: "suggest_placement 1 small_repo ''c1'' two_gpus = Inr p"
    using fits by (cases "suggest_placement 1 small_repo ''c1'' two_gpus") (auto simp: small_state_def node_with_def gpu_of_def two_gpus_def)
  then have "list_all node_ok (cs_nodes small_state) \<longrightarrow> pg_score p \<le> 100" using fits by blast
  moreover have "list_all node_ok (cs_nodes small_state)"
    by (simp add: small_state_def node_with_def gpu_of_def node_ok_def gpu_ok_def)
  moreover have "filter (\<lambda>n. wr_gpu_count two_gpus \<le> int (length (filter (\<lambda>g. wr_gpu_memory_bytes two_gpus = 0
      \<or> wr_gpu_memory_bytes two_gpus \<le> gpu_free g) (ns_gpu_devices n)))) (cs_nodes small_state) = [node_with ''n2'' [gpu_of 80 0, gpu_of 80 40]]"
    by (simp add: small_state_def node_with_def gpu_of_def two_gpus_def)
  then have "pg_suggested_node p = ''n2''" using fits p by (auto simp: node_with_def)
  ultimately show ?thesis using p by blast
qed

end
