(* ===== verification/Twin.thy ===== *)
theory Twin
  imports ClusterState
begin

text \<open>
  The digital twin of a cluster: \<open>DigitalTwinService\<close> of src/src/gpuopt/digital_twin.py and the
  \<open>DriftDetector\<close> of ml/drift_detector.py it compares states with. The features of a state, which
  numpy computes, numpy's mean and standard deviation, the dump and validation of a state, and the
  latest state of a cluster in the repository are arguments. The detector's file is not modelled.
\<close>

subsection \<open>Drifts\<close>

datatype drift_severity = DS_NONE | DS_LOW | DS_MEDIUM | DS_HIGH | DS_CRITICAL

fun drift_severity_value :: "drift_severity \<Rightarrow> string" where
  "drift_severity_value DS_NONE = ''none''"
| "drift_severity_value DS_LOW = ''low''"
| "drift_severity_value DS_MEDIUM = ''medium''"
| "drift_severity_value DS_HIGH = ''high''"
| "drift_severity_value DS_CRITICAL = ''critical''"

record drift_item =
  di_resource :: string
  di_property :: string
  di_twin_value :: "piece list"
  di_actual_value :: "piece list"
  di_severity :: drift_severity
  di_message :: "piece list"

type_synonym feature_row = "(string, rat) dict"

text \<open>What the detector computes with: the features of a state, \<open>np.mean\<close> and \<open>np.std\<close>.\<close>

record stats =
  sx_features :: "cluster_state \<Rightarrow> feature_row"
  sx_mean :: "rat list \<Rightarrow> rat"
  sx_std :: "rat list \<Rightarrow> rat"

record detector =
  dd_baseline :: feature_row
  dd_baseline_set_at :: "datetime option"
  dd_history :: "feature_row list"
  dd_ewma :: feature_row
  dd_control_limits :: "(string, rat \<times> rat \<times> rat) dict"

definition new_detector :: detector where
  "new_detector = \<lparr>dd_baseline = [], dd_baseline_set_at = None, dd_history = [], dd_ewma = [], dd_control_limits = []\<rparr>"

definition set_baseline :: "stats \<Rightarrow> cluster_state \<Rightarrow> detector \<Rightarrow> detector" where
  "set_baseline x st d =
     (let feats = sx_features x st in
      d\<lparr>dd_baseline := feats, dd_ewma := feats, dd_baseline_set_at := Some (cs_collected_at st), dd_control_limits := [],
        dd_history := [feats]\<rparr>)"

definition values_of :: "string \<Rightarrow> feature_row list \<Rightarrow> rat list" where
  "values_of k hs = List.map_filter (\<lambda>h. dict_get h k) hs"

definition limits_of :: "stats \<Rightarrow> rat list \<Rightarrow> (rat \<times> rat \<times> rat) option" where
  "limits_of x vs =
     (if length vs < 5 then None
      else (let mean = sx_mean x vs; std = sx_std x vs in
        if 0 < std then Some (mean, max (mean - 3 * std) 0, mean + 3 * std) else None))"

definition update_control_limits :: "stats \<Rightarrow> detector \<Rightarrow> detector" where
  "update_control_limits x d =
     (if length (dd_history d) < 5 then d
      else d\<lparr>dd_control_limits :=
        fold (\<lambda>k ls. case limits_of x (values_of k (slice_last 50 (dd_history d))) of None \<Rightarrow> ls | Some l \<Rightarrow> dict_set k l ls)
          (remdups (concat (map (map fst) (dd_history d)))) (dd_control_limits d)\<rparr>)"

definition ewma_step :: "string \<times> rat \<Rightarrow> feature_row \<Rightarrow> feature_row" where
  "ewma_step = (\<lambda>(k, v) w. case dict_get w k of
      Some u \<Rightarrow> dict_set k (3 / 10 * v + (1 - 3 / 10) * u) w
    | None \<Rightarrow> dict_set k v w)"

definition detector_update :: "stats \<Rightarrow> cluster_state \<Rightarrow> detector \<Rightarrow> detector" where
  "detector_update x st d =
     (let feats = sx_features x st in
      update_control_limits x
        (d\<lparr>dd_history := append_bounded 500 feats (dd_history d),
           dd_ewma := (if dd_ewma d = [] then feats else fold ewma_step feats (dd_ewma d))\<rparr>))"

definition severity_from_drift :: "rat \<Rightarrow> rat \<Rightarrow> rat \<Rightarrow> drift_severity" where
  "severity_from_drift diff baseline z =
     (if 4 < \<bar>z\<bar> then DS_CRITICAL else if 3 < \<bar>z\<bar> then DS_HIGH else if 2 < \<bar>z\<bar> then DS_MEDIUM else if 1 < \<bar>z\<bar> then DS_LOW
      else (let pct = diff / max baseline 1 * 100 in
        if 50 < pct then DS_HIGH else if 25 < pct then DS_MEDIUM else if 10 < pct then DS_LOW else DS_NONE))"

definition z_score_for_metric :: "stats \<Rightarrow> detector \<Rightarrow> string \<Rightarrow> int \<Rightarrow> int \<Rightarrow> rat" where
  "z_score_for_metric x d metric twin_val actual_val =
     (let t = of_int twin_val; a = of_int actual_val; key = ''gpu_'' @ metric in
      case dict_get (dd_control_limits d) key of
        Some (_, _, ucl) \<Rightarrow>
          (let std = (if t < ucl then (ucl - t) / 3 else max (\<bar>t\<bar> * (1 / 10)) 1) in (a - t) / max std 1)
      | None \<Rightarrow>
          (let vs = filter (\<lambda>v. 0 < v) (values_of key (slice_last 20 (dd_history d))) in
           if 3 \<le> length vs \<and> 0 < sx_std x vs then (a - sx_mean x vs) / sx_std x vs else 0))"

definition gpu_resource :: "string \<Rightarrow> int \<Rightarrow> string" where
  "gpu_resource node i = ''node/'' @ node @ ''/gpu-'' @ int_str i"

definition gpu_metric_drift ::
  "stats \<Rightarrow> detector \<Rightarrow> string \<Rightarrow> int \<Rightarrow> string \<Rightarrow> int \<Rightarrow> int \<Rightarrow> drift_item list" where
  "gpu_metric_drift x d node i metric twin_val actual_val =
     (if twin_val = actual_val then []
      else (let diff = of_int \<bar>twin_val - actual_val\<bar>;
                threshold = 1 / 10 * of_int (max twin_val actual_val);
                z = z_score_for_metric x d metric twin_val actual_val;
                sev = severity_from_drift diff (of_int twin_val) z
            in if threshold < diff \<or> 2 < \<bar>z\<bar>
               then [\<lparr>di_resource = gpu_resource node i, di_property = metric, di_twin_value = [Val (JInt twin_val)],
                      di_actual_value = [Val (JInt actual_val)], di_severity = sev,
                      di_message = [Txt (''GPU '' @ int_str i @ '' '' @ metric @ '' drifted by ''),
                        Fmt ''.0f'' (JFloat (diff / 1024 ^ 2)), Txt '' MiB (z='', Fmt ''.2f'' (JFloat z),
                        Txt ('', severity='' @ drift_severity_value sev @ '')'')]\<rparr>]
               else []))"

definition presence_drift :: "string \<Rightarrow> string \<Rightarrow> string \<Rightarrow> drift_severity \<Rightarrow> string \<Rightarrow> drift_item" where
  "presence_drift resource twin actual sev msg =
     \<lparr>di_resource = resource, di_property = ''status'', di_twin_value = [Txt twin], di_actual_value = [Txt actual],
      di_severity = sev, di_message = [Txt msg]\<rparr>"

definition by_name :: "node_state list \<Rightarrow> (string, node_state) dict" where
  "by_name ns = fold (\<lambda>n. dict_set (ns_name n) n) ns []"

definition by_index :: "gpu_state list \<Rightarrow> (int, gpu_state) dict" where
  "by_index gs = fold (\<lambda>g. dict_set (gs_index g) g) gs []"

definition gpu_drift_at ::
  "stats \<Rightarrow> detector \<Rightarrow> string \<Rightarrow> int \<Rightarrow> gpu_state option \<Rightarrow> gpu_state option \<Rightarrow> drift_item list" where
  "gpu_drift_at x d node i tg ag =
     (case (tg, ag) of
        (None, None) \<Rightarrow> []
      | (None, Some _) \<Rightarrow> [presence_drift (gpu_resource node i) ''absent'' ''present'' DS_MEDIUM
            (''GPU '' @ int_str i @ '' appeared on '' @ node @ '' since twin was synced'')]
      | (Some _, None) \<Rightarrow> [presence_drift (gpu_resource node i) ''present'' ''absent'' DS_HIGH
            (''GPU '' @ int_str i @ '' on '' @ node @ '' is missing from actual cluster'')]
      | (Some t, Some a) \<Rightarrow>
          gpu_metric_drift x d node i ''memory_used_bytes'' (gs_memory_used_bytes t) (gs_memory_used_bytes a)
          @ gpu_metric_drift x d node i ''memory_total_bytes'' (gs_memory_total_bytes t) (gs_memory_total_bytes a))"

definition detect_gpu_drift :: "stats \<Rightarrow> detector \<Rightarrow> string \<Rightarrow> node_state \<Rightarrow> node_state \<Rightarrow> drift_item list" where
  "detect_gpu_drift x d node tn an =
     (let tgs = by_index (ns_gpu_devices tn); ags = by_index (ns_gpu_devices an)
      in concat (map (\<lambda>i. gpu_drift_at x d node i (dict_get tgs i) (dict_get ags i)) (sort (remdups (map fst tgs @ map fst ags)))))"

definition node_changed :: "stats \<Rightarrow> detector \<Rightarrow> string \<Rightarrow> node_state \<Rightarrow> node_state \<Rightarrow> drift_item list" where
  "node_changed x d name tn an =
     (if ns_status tn \<noteq> ns_status an
      then [presence_drift (''node/'' @ name) (ns_status tn) (ns_status an) DS_MEDIUM
              (''Node '' @ name @ '' status changed: twin='' @ ns_status tn @ '' actual='' @ ns_status an)]
      else []) @ detect_gpu_drift x d name tn an"

definition detect_node_drift :: "stats \<Rightarrow> detector \<Rightarrow> cluster_state \<Rightarrow> cluster_state \<Rightarrow> drift_item list" where
  "detect_node_drift x d twin actual =
     (let tns = by_name (cs_nodes twin); ans = by_name (cs_nodes actual)
      in map (\<lambda>n. presence_drift (''node/'' @ n) ''present'' ''absent'' DS_HIGH
               (''Node '' @ n @ '' is in the twin but missing from the actual cluster''))
           (sort (filter (\<lambda>n. \<not> dict_has ans n) (map fst tns)))
         @ map (\<lambda>n. presence_drift (''node/'' @ n) ''absent'' ''present'' DS_MEDIUM
               (''Node '' @ n @ '' exists in the actual cluster but not in the twin''))
           (sort (filter (\<lambda>n. \<not> dict_has tns n) (map fst ans)))
         @ concat (map (\<lambda>n. case (dict_get tns n, dict_get ans n) of (Some tn, Some an) \<Rightarrow> node_changed x d n tn an | _ \<Rightarrow> [])
             (sort (filter (dict_has ans) (map fst tns)))))"

definition anomaly_z :: "stats \<Rightarrow> detector \<Rightarrow> string \<Rightarrow> rat \<Rightarrow> rat \<Rightarrow> rat" where
  "anomaly_z x d k actual base =
     (case dict_get (dd_control_limits d) k of
        Some (_, lcl, ucl) \<Rightarrow> (actual - base) / max ((ucl - lcl) / 6) (1 / 10 ^ 10)
      | None \<Rightarrow>
          if 5 \<le> length (dd_history d)
          then (let hist = values_of k (slice_last 20 (dd_history d)) in
                if 3 \<le> length hist then (actual - sx_mean x hist) / max (sx_std x hist) (1 / 10 ^ 10) else 0)
          else 0)"

definition feature_anomaly :: "stats \<Rightarrow> detector \<Rightarrow> string \<times> rat \<Rightarrow> drift_item option" where
  "feature_anomaly x d = (\<lambda>(k, actual).
     case dict_get (dd_baseline d) k of
       None \<Rightarrow> None
     | Some base \<Rightarrow>
         if base = 0 \<and> actual = 0 then None
         else (let diff = \<bar>actual - base\<bar>; pct = diff / max \<bar>base\<bar> (1 / 10 ^ 10) * 100; z = anomaly_z x d k actual base in
           if 2 < \<bar>z\<bar> \<or> 30 < pct
           then Some \<lparr>di_resource = ''cluster/'' @ k, di_property = k, di_twin_value = [Fmt ''.2f'' (JFloat base)],
                      di_actual_value = [Fmt ''.2f'' (JFloat actual)], di_severity = severity_from_drift diff base z,
                      di_message = [Txt (''Feature '' @ k @ '' drifted ''), Fmt ''.1f'' (JFloat pct), Txt ''% (baseline='',
                        Fmt ''.2f'' (JFloat base), Txt '', actual='', Fmt ''.2f'' (JFloat actual), Txt '', z='',
                        Fmt ''.2f'' (JFloat z), Txt '')'']\<rparr>
           else None))"

definition detect_feature_anomaly :: "stats \<Rightarrow> detector \<Rightarrow> cluster_state \<Rightarrow> drift_item list" where
  "detect_feature_anomaly x d st =
     (if dd_baseline d = [] then [] else List.map_filter (feature_anomaly x d) (sx_features x st))"

definition detector_reset :: "detector \<Rightarrow> detector" where
  "detector_reset d = new_detector"

subsection \<open>The service\<close>

text \<open>
  \<open>model_dump_json\<close> and \<open>model_validate_json\<close> of a state, and the latest state of a cluster.
\<close>

record twin_env =
  te_latest_state :: "uuid \<Rightarrow> cluster_state option"
  te_dump :: "cluster_state \<Rightarrow> json option"
  te_validate :: "json option \<Rightarrow> py_error + cluster_state"

definition known_cluster :: "uuid \<Rightarrow> repo \<Rightarrow> py_error + cluster" where
  "known_cluster c s = (case get_cluster c s of None \<Rightarrow> Inl (KeyError (''Cluster not found: '' @ c)) | Some cl \<Rightarrow> Inr cl)"

definition some_or :: "string \<Rightarrow> 'a option \<Rightarrow> py_error + 'a" where
  "some_or msg v = (case v of None \<Rightarrow> Inl (KeyError msg) | Some w \<Rightarrow> Inr w)"

definition sync_twin :: "twin_env \<Rightarrow> uuid \<Rightarrow> datetime \<Rightarrow> uuid \<Rightarrow> repo \<Rightarrow> py_error + repo \<times> twin_state" where
  "sync_twin e i now c s =
     try_bind (known_cluster c s) (\<lambda>cl.
     try_bind (some_or ''No cluster state available to sync twin'' (te_latest_state e c)) (\<lambda>st.
       let tw = \<lparr>tw_id = i, tw_cluster_id = cl_id cl, tw_cluster_name = cl_name cl, tw_environment = cl_environment cl,
                 tw_synced_at = now, tw_original_collected_at = Some (cs_collected_at st), tw_node_count = cs_node_count st,
                 tw_gpu_count = cs_gpu_count st, tw_state_json = te_dump e st, tw_has_diverged = False, tw_divergence_reason = []\<rparr>
       in Inr (save_twin tw s, tw)))"

definition service_get_twin :: "uuid \<Rightarrow> repo \<Rightarrow> py_error + twin_state option" where
  "service_get_twin c s = try_bind (known_cluster c s) (\<lambda>_. Inr (get_twin c s))"

record comparison =
  tc_cluster_id :: uuid
  tc_cluster_name :: string
  tc_environment :: string
  tc_compared_at :: datetime
  tc_twin_synced_at :: datetime
  tc_actual_collected_at :: datetime
  tc_drift_count :: nat
  tc_critical_drift_count :: nat
  tc_high_drift_count :: nat
  tc_medium_drift_count :: nat
  tc_overall_drift_severity :: drift_severity
  tc_drifts :: "drift_item list"
  tc_summary :: "piece list"

definition all_severities :: "drift_severity list" where
  "all_severities = [DS_NONE, DS_LOW, DS_MEDIUM, DS_HIGH, DS_CRITICAL]"

fun severity_rank :: "drift_severity \<Rightarrow> int" where
  "severity_rank DS_CRITICAL = 5"
| "severity_rank DS_HIGH = 4"
| "severity_rank DS_MEDIUM = 3"
| "severity_rank DS_LOW = 2"
| "severity_rank DS_NONE = 1"

definition severity_count :: "drift_item list \<Rightarrow> drift_severity \<Rightarrow> nat" where
  "severity_count ds s = length (filter (\<lambda>d. di_severity d = s) ds)"

definition overall_severity :: "drift_item list \<Rightarrow> drift_severity" where
  "overall_severity ds =
     (case filter (\<lambda>s. 0 < severity_count ds s) all_severities of [] \<Rightarrow> DS_NONE | s # ss \<Rightarrow> max_by severity_rank s ss)"

definition counted_part :: "drift_item list \<Rightarrow> drift_severity \<Rightarrow> piece list" where
  "counted_part ds s =
     (if severity_count ds s = 0 then []
      else [Txt ''; '', Val (JInt (int (severity_count ds s))), Txt ('' '' @ drift_severity_value s)])"

definition comparison_of :: "datetime \<Rightarrow> cluster \<Rightarrow> twin_state \<Rightarrow> cluster_state \<Rightarrow> drift_item list \<Rightarrow> comparison" where
  "comparison_of now cl tw actual drifts =
     \<lparr>tc_cluster_id = cl_id cl, tc_cluster_name = cl_name cl, tc_environment = cl_environment cl, tc_compared_at = now,
      tc_twin_synced_at = tw_synced_at tw, tc_actual_collected_at = cs_collected_at actual,
      tc_drift_count = length drifts, tc_critical_drift_count = severity_count drifts DS_CRITICAL,
      tc_high_drift_count = severity_count drifts DS_HIGH, tc_medium_drift_count = severity_count drifts DS_MEDIUM,
      tc_overall_drift_severity = overall_severity drifts, tc_drifts = drifts,
      tc_summary = [Val (JInt (int (length drifts))), Txt '' drift(s) detected''] @ counted_part drifts DS_CRITICAL
        @ counted_part drifts DS_HIGH @ counted_part drifts DS_MEDIUM
        @ [Txt (''; overall: '' @ drift_severity_value (overall_severity drifts))]\<rparr>"

definition compare_twin ::
  "stats \<Rightarrow> twin_env \<Rightarrow> datetime \<Rightarrow> uuid \<Rightarrow> repo \<Rightarrow> detector \<Rightarrow> detector \<times> (py_error + comparison)" where
  "compare_twin x e now c s d =
     (case try_bind (known_cluster c s) (\<lambda>cl.
           try_bind (some_or ''No twin has been synced for this cluster'' (get_twin c s)) (\<lambda>tw.
           try_bind (some_or ''No actual cluster state available for comparison'' (te_latest_state e c)) (\<lambda>actual.
             Inr (cl, tw, actual)))) of
        Inl err \<Rightarrow> (d, Inl err)
      | Inr (cl, tw, actual) \<Rightarrow>
          (let d' = detector_update x actual (set_baseline x actual d)
           in (d', try_bind (te_validate e (tw_state_json tw)) (\<lambda>twin_st.
                Inr (comparison_of now cl tw actual
                  (detect_node_drift x d' twin_st actual @ detect_feature_anomaly x d' actual))))))"

definition set_used :: "(gpu_state \<Rightarrow> int) \<Rightarrow> node_state \<Rightarrow> node_state" where
  "set_used f n = n\<lparr>ns_gpu_devices := map (\<lambda>g. g\<lparr>gs_memory_used_bytes := f g\<rparr>) (ns_gpu_devices n)\<rparr>"

definition apply_action_text :: "string \<Rightarrow> node_state \<Rightarrow> node_state" where
  "apply_action_text action n =
     (let n1 = (if str_contains (ns_name n) action \<and> str_contains ''resize'' (str_lower action)
                then set_used (\<lambda>g. int_of (of_int (gs_memory_total_bytes g) * (6 / 10))) n else n)
      in if str_contains ''consolidate'' (str_lower action) \<and> str_contains (ns_name n1) action
         then set_used (\<lambda>_. 0) n1 else n1)"

text \<open>\<open>node_map\<close> holds the last node of each name; its nodes are those of the state.\<close>

fun on_mapped_nodes :: "(node_state \<Rightarrow> node_state) \<Rightarrow> node_state list \<Rightarrow> node_state list" where
  "on_mapped_nodes f [] = []"
| "on_mapped_nodes f (n # ns) = (if ns_name n \<in> ns_name ` set ns then n else f n) # on_mapped_nodes f ns"

definition apply_actions :: "string list \<Rightarrow> cluster_state \<Rightarrow> cluster_state" where
  "apply_actions actions st =
     st\<lparr>cs_nodes := fold (\<lambda>a. on_mapped_nodes (apply_action_text a)) actions (cs_nodes st)\<rparr>"

definition apply_recommendation :: "twin_env \<Rightarrow> uuid \<Rightarrow> uuid \<Rightarrow> repo \<Rightarrow> py_error + repo \<times> twin_state" where
  "apply_recommendation e c rid s =
     try_bind (known_cluster c s) (\<lambda>cl.
     try_bind (some_or ''No twin has been synced; sync before applying recommendations'' (get_twin c s)) (\<lambda>tw.
     try_bind (some_or ''No recommendations available'' (latest_recommendations c s)) (\<lambda>rs.
     try_bind (some_or (''Recommendation not found: '' @ rid) (find (\<lambda>r. rc_id r = rid) (rs_recommendations rs))) (\<lambda>r.
     try_bind (te_validate e (tw_state_json tw)) (\<lambda>st.
       let st' = apply_actions (rc_actions r) st;
           tw' = tw\<lparr>tw_node_count := cs_node_count st', tw_gpu_count := cs_gpu_count st', tw_state_json := te_dump e st',
                    tw_has_diverged := True, tw_divergence_reason := ''Applied recommendation: '' @ rc_title r\<rparr>
       in Inr (save_twin tw' s, tw'))))))"

definition reset_twin :: "twin_env \<Rightarrow> uuid \<Rightarrow> datetime \<Rightarrow> uuid \<Rightarrow> repo \<Rightarrow> py_error + repo \<times> twin_state" where
  "reset_twin = sync_twin"

subsection \<open>What a comparison finds\<close>

text \<open>The detector that compares was given the actual state as its baseline just before.\<close>

lemma rebased_fields:
  "dd_baseline (detector_update x st (set_baseline x st d)) = sx_features x st"
  "dd_control_limits (detector_update x st (set_baseline x st d)) = []"
  "dd_history (detector_update x st (set_baseline x st d)) = [sx_features x st, sx_features x st]"
  by (simp_all add: detector_update_def set_baseline_def update_control_limits_def append_bounded_def slice_last_def Let_def)

lemma rebased_z: "z_score_for_metric x (detector_update x st (set_baseline x st d)) m t a = 0"
proof -
  have "\<not> 3 \<le> length (filter P (values_of k [f, f]))" for P k and f :: feature_row
    using length_filter_le [of P "values_of k [f, f]"]
    by (simp add: values_of_def List.map_filter_simps split: option.splits)
  then show ?thesis by (simp add: z_score_for_metric_def rebased_fields slice_last_def Let_def)
qed

lemma rebased_anomaly:
  assumes "dict_ok (sx_features x st)"
  shows "detect_feature_anomaly x (detector_update x st (set_baseline x st d)) st = []"
proof -
  have "feature_anomaly x (detector_update x st (set_baseline x st d)) kv = None" if kv: "kv \<in> set (sx_features x st)" for kv
  proof -
    have "dict_get (sx_features x st) (fst kv) = Some (snd kv)" using assms kv by (simp add: dict_ok_def)
    then show ?thesis
      by (cases kv) (simp add: feature_anomaly_def rebased_fields anomaly_z_def Let_def)
  qed
  then show ?thesis by (auto simp: detect_feature_anomaly_def map_filter_def filter_empty_conv)
qed

lemma presence_severity [simp]: "di_severity (presence_drift r t a sev m) = sev"
  by (simp add: presence_drift_def)

lemma rebased_gpu_severity:
  assumes "i \<in> set (gpu_drift_at x (detector_update x st (set_baseline x st d)) n k tg ag)"
  shows "di_severity i \<noteq> DS_CRITICAL"
proof -
  have "di_severity i \<noteq> DS_CRITICAL"
    if "i \<in> set (gpu_metric_drift x (detector_update x st (set_baseline x st d)) n k m t a)" for m t a
    using that by (auto simp: gpu_metric_drift_def rebased_z severity_from_drift_def Let_def split: if_splits)
  then show ?thesis using assms by (auto simp: gpu_drift_at_def split: option.splits)
qed

lemma rebased_severity:
  "i \<in> set (detect_node_drift x (detector_update x st (set_baseline x st d)) a b) \<Longrightarrow> di_severity i \<noteq> DS_CRITICAL"
  by (auto simp: detect_node_drift_def node_changed_def detect_gpu_drift_def Let_def dest: rebased_gpu_severity
      split: option.splits if_splits)

lemma same_gpu: "gpu_drift_at x d n k g g = []"
  by (simp add: gpu_drift_at_def gpu_metric_drift_def split: option.split)

lemma same_state: "detect_node_drift x d st st = []"
proof -
  have "node_changed x d n tn tn = []" for n tn
    by (simp add: node_changed_def detect_gpu_drift_def same_gpu Let_def)
  moreover have "filter (\<lambda>n. \<not> dict_has m n) (map fst m) = []" for m :: "(string, node_state) dict"
    by (auto simp: filter_empty_conv dict_has_def map_of_eq_None_iff)
  ultimately show ?thesis by (auto simp: detect_node_drift_def Let_def split: option.split)
qed

lemma compare_twin_InrE:
  assumes "compare_twin x e now c s d = (d', Inr cmp)"
  obtains cl tw st tst where "get_cluster c s = Some cl" and "get_twin c s = Some tw" and "te_latest_state e c = Some st"
    and "te_validate e (tw_state_json tw) = Inr tst" and "d' = detector_update x st (set_baseline x st d)"
    and "cmp = comparison_of now cl tw st (detect_node_drift x d' tst st @ detect_feature_anomaly x d' st)"
  using assms unfolding compare_twin_def known_cluster_def some_or_def
  by (auto simp: Let_def try_bind_Inr_iff split: option.splits)

lemma severity_count_none: "severity_count ds sev = 0 \<longleftrightarrow> (\<forall>i \<in> set ds. di_severity i \<noteq> sev)"
  by (simp add: severity_count_def filter_empty_conv)

text \<open>
  Comparing a twin: however the twin and the cluster differ, and whatever the detector saw before,
  a comparison reports no critical drift and nothing but differences of nodes and GPUs, because the
  state it is compared with has just become the baseline; and comparing a twin that was synced from
  the state the cluster still has reports nothing.
\<close>

theorem twin_comparison:
  assumes "te_validate e (te_dump e st) = Inr st" and "dict_ok (sx_features x st)"
    and "te_latest_state e c = Some st"
  shows "(compare_twin x e now c s d = (d', Inr cmp) \<longrightarrow>
            tc_critical_drift_count cmp = 0 \<and> tc_overall_drift_severity cmp \<noteq> DS_CRITICAL
            \<and> (\<exists>tst. tc_drifts cmp = detect_node_drift x d' tst st))
    \<and> (sync_twin e i now0 c s0 = Inr (s, tw) \<longrightarrow>
         (\<exists>d' cmp. compare_twin x e now c s d = (d', Inr cmp) \<and> tc_drifts cmp = []
            \<and> tc_overall_drift_severity cmp = DS_NONE \<and> tc_twin_synced_at cmp = now0))"
proof (intro conjI impI)
  assume cmp: "compare_twin x e now c s d = (d', Inr cmp)"
  obtain cl tw tst where c: "cmp = comparison_of now cl tw st (detect_node_drift x d' tst st @ detect_feature_anomaly x d' st)"
    and d': "d' = detector_update x st (set_baseline x st d)"
    using compare_twin_InrE [OF cmp] assms(3) by (metis option.inject)
  let ?ds = "detect_node_drift x d' tst st"
  have ds: "tc_drifts cmp = ?ds" using rebased_anomaly [OF assms(2)] by (simp add: c d' comparison_of_def)
  have none: "\<forall>i \<in> set (tc_drifts cmp). di_severity i \<noteq> DS_CRITICAL" unfolding ds d' by (blast dest: rebased_severity)
  then have zero: "severity_count (tc_drifts cmp) DS_CRITICAL = 0" by (simp add: severity_count_none)
  have fields: "tc_critical_drift_count cmp = severity_count (tc_drifts cmp) DS_CRITICAL"
    "tc_overall_drift_severity cmp = overall_severity (tc_drifts cmp)"
    by (simp_all add: c comparison_of_def)
  show "tc_critical_drift_count cmp = 0" using fields zero by simp
  show "tc_overall_drift_severity cmp \<noteq> DS_CRITICAL"
    using zero max_by_mem [of severity_rank] unfolding fields(2) overall_severity_def
    by (auto simp: all_severities_def split: list.split if_splits)
  show "\<exists>tst. tc_drifts cmp = detect_node_drift x d' tst st" using ds by blast
next
  assume "sync_twin e i now0 c s0 = Inr (s, tw)"
  then obtain cl where cl: "get_cluster c s0 = Some cl" and tw: "s = save_twin tw s0" "tw_cluster_id tw = cl_id cl"
    "tw_state_json tw = te_dump e st" "tw_synced_at tw = now0"
    using assms(3) unfolding sync_twin_def known_cluster_def some_or_def by (auto simp: Let_def split: option.splits)
  have id: "cl_id cl = c" using cl find_SomeD by (fastforce simp: get_cluster_def select_one_def)
  have "get_twin c s = Some tw" "get_cluster c s = Some cl"
    using get_twin_save_same [of tw s0] tw(1,2) id cl by (simp_all add: get_cluster_frame)
  then show "\<exists>d' cmp. compare_twin x e now c s d = (d', Inr cmp) \<and> tc_drifts cmp = []
      \<and> tc_overall_drift_severity cmp = DS_NONE \<and> tc_twin_synced_at cmp = now0"
    using assms tw(3,4) rebased_anomaly [OF assms(2)]
    by (simp add: compare_twin_def known_cluster_def some_or_def comparison_of_def same_state Let_def
        overall_severity_def severity_count_def all_severities_def)
qed

subsection \<open>A sample twin\<close>

text \<open>States whose nodes are bare names, with a dump that lists them.\<close>

definition bare_node :: "string \<Rightarrow> node_state" where
  "bare_node name =
     \<lparr>ns_name = name, ns_status = ''Ready'', ns_capacity = [], ns_allocatable = [], ns_labels = [], ns_gpu_devices = [],
      ns_pod_count = 0, ns_pod_capacity = 0, ns_created_at = None\<rparr>"

definition bare_state :: "string list \<Rightarrow> cluster_state" where
  "bare_state names =
     \<lparr>cs_cluster_id = ''c1'', cs_cluster_name = ''east'', cs_environment = ''prod'', cs_collected_at = 5, cs_generated_at = 5,
      cs_node_count = int (length names), cs_gpu_count = 0, cs_total_gpu_memory_bytes = 0, cs_nodes = map bare_node names,
      cs_telemetry = None\<rparr>"

fun name_of_json :: "json \<Rightarrow> string" where
  "name_of_json (JStr s) = s"
| "name_of_json _ = []"

definition bare_env :: "string list \<Rightarrow> twin_env" where
  "bare_env names =
     \<lparr>te_latest_state = (\<lambda>c. if c = ''c1'' then Some (bare_state names) else None),
      te_dump = (\<lambda>st. Some (JList (map (JStr \<circ> ns_name) (cs_nodes st)))),
      te_validate = (\<lambda>j. case j of Some (JList ns) \<Rightarrow> Inr (bare_state (map name_of_json ns)) | _ \<Rightarrow> Inl (ValueError ''state''))\<rparr>"

definition count_nodes :: stats where
  "count_nodes = \<lparr>sx_features = (\<lambda>st. [(''node_count'', of_nat (length (cs_nodes st)))]), sx_mean = (\<lambda>xs. sum_list xs / of_nat (length xs)),
                  sx_std = (\<lambda>_. 0)\<rparr>"

definition east_repo :: repo where
  "east_repo = empty_repo\<lparr>re_clusters := [\<lparr>cl_id = ''c1'', cl_name = ''east'', cl_environment = ''prod''\<rparr>]\<rparr>"

theorem twin_comparison_witness:
  "\<exists>s tw d' cmp. sync_twin (bare_env [''n1'', ''n2'']) ''t1'' 7 ''c1'' east_repo = Inr (s, tw)
     \<and> compare_twin count_nodes (bare_env [''n1'', ''n2'']) 9 ''c1'' s new_detector = (d', Inr cmp) \<and> tc_drifts cmp = []"
proof -
  let ?e = "bare_env [''n1'', ''n2'']" and ?st = "bare_state [''n1'', ''n2'']"
  have env: "te_validate ?e (te_dump ?e ?st) = Inr ?st" "dict_ok (sx_features count_nodes ?st)" "te_latest_state ?e ''c1'' = Some ?st"
    by (simp_all add: bare_env_def bare_state_def bare_node_def count_nodes_def dict_ok_def)
  have "get_cluster ''c1'' east_repo = Some \<lparr>cl_id = ''c1'', cl_name = ''east'', cl_environment = ''prod''\<rparr>"
    by (simp add: get_cluster_def select_one_def east_repo_def)
  then obtain s tw where sync: "sync_twin ?e ''t1'' 7 ''c1'' east_repo = Inr (s, tw)"
    using env(3) by (simp add: sync_twin_def known_cluster_def some_or_def Let_def)
  then show ?thesis using twin_comparison [OF env, where now = 9 and s = s and d = new_detector] by blast
qed

end
