(* ===== verification/Tenants.thy ===== *)
theory Tenants
  imports Repository Values
begin

text \<open>
  Tenants: \<open>TenantManager\<close> of src/src/gpuopt/s23_features.py with the records \<open>Team\<close>, \<open>Project\<close> and
  \<open>ResourceQuota\<close> of schemas.py. Teams, projects, quotas, isolation policies, users and the
  namespaces of projects are dictionaries; the random figures of a quota's usage are arguments.
\<close>

subsection \<open>The manager\<close>

record team =
  tm_id :: uuid
  tm_name :: string
  tm_description :: string
  tm_created_at :: datetime

record project =
  pj_id :: uuid
  pj_name :: string
  pj_description :: string
  pj_team_id :: uuid
  pj_cluster_ids :: "string list"
  pj_created_at :: datetime

record resource_quota =
  rq_project_id :: uuid
  rq_max_gpus :: int
  rq_max_clusters :: int
  rq_max_monthly_cost_usd :: rat
  rq_current_gpu_count :: int
  rq_current_cluster_count :: int
  rq_current_monthly_cost :: rat
  rq_gpu_utilization :: rat
  rq_quota_exceeded :: bool
  rq_violations :: "piece list list"

record tenants =
  tn_teams :: "(uuid, team) dict"
  tn_projects :: "(uuid, project) dict"
  tn_quotas :: "(uuid, resource_quota) dict"
  tn_policies :: "(uuid, (string, json) dict) dict"
  tn_users :: "(uuid, string list) dict"
  tn_namespaces :: "(uuid, string) dict"

definition no_tenants :: tenants where
  "no_tenants = \<lparr>tn_teams = [], tn_projects = [], tn_quotas = [], tn_policies = [], tn_users = [], tn_namespaces = []\<rparr>"

definition create_team :: "uuid \<Rightarrow> team \<Rightarrow> tenants \<Rightarrow> tenants \<times> team" where
  "create_team i t s = (let t' = t\<lparr>tm_id := i\<rparr> in (s\<lparr>tn_teams := dict_set i t' (tn_teams s)\<rparr>, t'))"

definition get_team :: "uuid \<Rightarrow> tenants \<Rightarrow> team option" where
  "get_team i s = dict_get (tn_teams s) i"

definition list_teams :: "tenants \<Rightarrow> team list" where
  "list_teams s = sorted_by tm_name (dict_values (tn_teams s))"

definition delete_team :: "uuid \<Rightarrow> tenants \<Rightarrow> tenants \<times> bool" where
  "delete_team i s =
     (if dict_has (tn_teams s) i
      then (s\<lparr>tn_teams := dict_pop i (tn_teams s), tn_policies := dict_pop i (tn_policies s)\<rparr>, True)
      else (s, False))"

text \<open>\<open>project.name.lower().replace(" ", "-")[:20]\<close> and the namespace made of it.\<close>

definition safe_name :: "string \<Rightarrow> string" where
  "safe_name name = take 20 (map (\<lambda>c. if c = CHR '' '' then CHR ''-'' else c) (str_lower name))"

definition namespace_of :: "uuid \<Rightarrow> string \<Rightarrow> string" where
  "namespace_of tid name = ''gpuopt-'' @ take 8 tid @ ''-'' @ safe_name name"

definition create_project :: "uuid \<Rightarrow> project \<Rightarrow> tenants \<Rightarrow> tenants \<times> project" where
  "create_project i p s =
     (let p' = p\<lparr>pj_id := i\<rparr>; s' = s\<lparr>tn_projects := dict_set i p' (tn_projects s)\<rparr>; tid = pj_team_id p in
      (if dict_has (tn_namespaces s') tid then s'
       else s'\<lparr>tn_namespaces := dict_set i (namespace_of tid (pj_name p)) (tn_namespaces s')\<rparr>, p'))"

definition get_project :: "uuid \<Rightarrow> tenants \<Rightarrow> project option" where
  "get_project i s = dict_get (tn_projects s) i"

definition list_projects :: "uuid option \<Rightarrow> tenants \<Rightarrow> project list" where
  "list_projects team s =
     sorted_by pj_name (case team of None \<Rightarrow> dict_values (tn_projects s)
       | Some t \<Rightarrow> filter (\<lambda>p. pj_team_id p = t) (dict_values (tn_projects s)))"

definition delete_project :: "uuid \<Rightarrow> tenants \<Rightarrow> tenants \<times> bool" where
  "delete_project i s =
     (if dict_has (tn_projects s) i
      then (s\<lparr>tn_projects := dict_pop i (tn_projects s), tn_quotas := dict_pop i (tn_quotas s),
              tn_namespaces := dict_pop i (tn_namespaces s)\<rparr>, True)
      else (s, False))"

subsection \<open>Quotas\<close>

text \<open>The draws: the cost factor, the GPUs per cluster and the utilization.\<close>

record quota_draws =
  qd_cost_factor :: rat
  qd_gpus_per_cluster :: int
  qd_utilization :: rat

definition project_clusters :: "project option \<Rightarrow> repo \<Rightarrow> py_error + cluster list" where
  "project_clusters p r =
     try_bind (try_map parse_uuid (filter (\<lambda>c. c \<noteq> []) (case p of None \<Rightarrow> [] | Some q \<Rightarrow> pj_cluster_ids q)))
       (\<lambda>ids. Inr (List.map_filter (\<lambda>c. get_cluster c r) ids))"

definition gpu_violation :: "resource_quota \<Rightarrow> piece list list" where
  "gpu_violation q =
     (if rq_max_gpus q < rq_current_gpu_count q
      then [[Txt ''GPU count '', Val (JInt (rq_current_gpu_count q)), Txt '' exceeds quota '', Val (JInt (rq_max_gpus q))]]
      else [])"

definition cost_violation :: "resource_quota \<Rightarrow> piece list list" where
  "cost_violation q =
     (if rq_max_monthly_cost_usd q < rq_current_monthly_cost q
      then [[Txt ''Monthly cost $'', Fmt '',.0f'' (JFloat (rq_current_monthly_cost q)), Txt '' exceeds quota $'',
             Fmt '',.0f'' (JFloat (rq_max_monthly_cost_usd q))]]
      else [])"

definition get_resource_quota :: "quota_draws \<Rightarrow> repo \<Rightarrow> uuid \<Rightarrow> tenants \<Rightarrow> py_error + resource_quota" where
  "get_resource_quota x r pid s =
     try_bind (project_clusters (dict_get (tn_projects s) pid) r) (\<lambda>clusters.
       let n = int (length clusters);
           custom = dict_get (tn_quotas s) pid;
           q = \<lparr>rq_project_id = pid, rq_max_gpus = (case custom of None \<Rightarrow> 64 | Some c \<Rightarrow> rq_max_gpus c),
                rq_max_clusters = (case custom of None \<Rightarrow> 10 | Some c \<Rightarrow> rq_max_clusters c),
                rq_max_monthly_cost_usd = (case custom of None \<Rightarrow> 50000 | Some c \<Rightarrow> rq_max_monthly_cost_usd c),
                rq_current_gpu_count = n * qd_gpus_per_cluster x, rq_current_cluster_count = n,
                rq_current_monthly_cost = py_round 2 (of_int n * 1500 * qd_cost_factor x),
                rq_gpu_utilization = py_round 1 (qd_utilization x), rq_quota_exceeded = False, rq_violations = []\<rparr>;
           violations = gpu_violation q @ cost_violation q
       in Inr (q\<lparr>rq_quota_exceeded := violations \<noteq> [], rq_violations := violations\<rparr>))"

definition set_resource_quota :: "uuid \<Rightarrow> resource_quota \<Rightarrow> tenants \<Rightarrow> tenants" where
  "set_resource_quota pid q s = s\<lparr>tn_quotas := dict_set pid q (tn_quotas s)\<rparr>"

definition set_project_quota :: "uuid \<Rightarrow> int \<Rightarrow> int \<Rightarrow> rat \<Rightarrow> tenants \<Rightarrow> tenants" where
  "set_project_quota pid max_gpus max_clusters max_cost s =
     set_resource_quota pid
       \<lparr>rq_project_id = pid, rq_max_gpus = max_gpus, rq_max_clusters = max_clusters, rq_max_monthly_cost_usd = max_cost,
        rq_current_gpu_count = 0, rq_current_cluster_count = 0, rq_current_monthly_cost = 0, rq_gpu_utilization = 0,
        rq_quota_exceeded = False, rq_violations = []\<rparr> s"

subsection \<open>Users and isolation\<close>

definition add_tenant_user :: "uuid \<Rightarrow> string \<Rightarrow> tenants \<Rightarrow> tenants" where
  "add_tenant_user t u s =
     (let us = dict_get_or (tn_users s) t []
      in s\<lparr>tn_users := dict_set t (if u \<in> set us then us else us @ [u]) (tn_users s)\<rparr>)"

definition remove_tenant_user :: "uuid \<Rightarrow> string \<Rightarrow> tenants \<Rightarrow> tenants \<times> bool" where
  "remove_tenant_user t u s =
     (case dict_get (tn_users s) t of
        None \<Rightarrow> (s, False)
      | Some us \<Rightarrow> if u \<in> set us then (s\<lparr>tn_users := dict_set t (remove1 u us) (tn_users s)\<rparr>, True) else (s, False))"

definition get_tenant_users :: "uuid \<Rightarrow> tenants \<Rightarrow> string list" where
  "get_tenant_users t s = dict_get_or (tn_users s) t []"

definition set_isolation_policy :: "uuid \<Rightarrow> (string, json) dict \<Rightarrow> tenants \<Rightarrow> tenants" where
  "set_isolation_policy t p s = s\<lparr>tn_policies := dict_set t p (tn_policies s)\<rparr>"

definition get_isolation_policy :: "uuid \<Rightarrow> tenants \<Rightarrow> (string, json) dict option" where
  "get_isolation_policy t s = dict_get (tn_policies s) t"

definition get_namespace_for_project :: "uuid \<Rightarrow> tenants \<Rightarrow> string" where
  "get_namespace_for_project i s = dict_get_or (tn_namespaces s) i ''default''"

definition isolated :: "uuid \<Rightarrow> tenants \<Rightarrow> bool" where
  "isolated t s \<longleftrightarrow> json_true (dict_get_or (dict_get_or (tn_policies s) t []) ''namespace_isolation'' (JBool True))"

definition check_tenant_access :: "uuid \<Rightarrow> string \<Rightarrow> tenants \<Rightarrow> bool" where
  "check_tenant_access t ns s \<longleftrightarrow>
     \<not> isolated t s
     \<or> list_ex (\<lambda>(i, n). n = ns \<and> (case dict_get (tn_projects s) i of None \<Rightarrow> False | Some p \<Rightarrow> pj_team_id p = t)) (tn_namespaces s)"

subsection \<open>Namespaces of tenants\<close>

datatype tenant_op =
    ToCreateTeam uuid team
  | ToDeleteTeam uuid
  | ToCreateProject uuid project
  | ToDeleteProject uuid
  | ToSetQuota uuid resource_quota
  | ToProjectQuota uuid int int rat
  | ToAddUser uuid string
  | ToRemoveUser uuid string
  | ToSetPolicy uuid "(string, json) dict"

fun tenant_step :: "tenant_op \<Rightarrow> tenants \<Rightarrow> tenants" where
  "tenant_step (ToCreateTeam i t) s = fst (create_team i t s)"
| "tenant_step (ToDeleteTeam i) s = fst (delete_team i s)"
| "tenant_step (ToCreateProject i p) s = fst (create_project i p s)"
| "tenant_step (ToDeleteProject i) s = fst (delete_project i s)"
| "tenant_step (ToSetQuota i q) s = set_resource_quota i q s"
| "tenant_step (ToProjectQuota i g c m) s = set_project_quota i g c m s"
| "tenant_step (ToAddUser t u) s = add_tenant_user t u s"
| "tenant_step (ToRemoveUser t u) s = fst (remove_tenant_user t u s)"
| "tenant_step (ToSetPolicy t p) s = set_isolation_policy t p s"

text \<open>A new project's identifier is fresh.\<close>

fun tenant_fresh :: "tenants \<Rightarrow> tenant_op \<Rightarrow> bool" where
  "tenant_fresh s (ToCreateProject i p) = (dict_get (tn_projects s) i = None)"
| "tenant_fresh s _ = True"

text \<open>Every namespace belongs to a stored project and is made of its team and its name.\<close>

definition tenants_inv :: "tenants \<Rightarrow> bool" where
  "tenants_inv s \<longleftrightarrow> dict_ok (tn_namespaces s) \<and>
     (\<forall>i ns. dict_get (tn_namespaces s) i = Some ns \<longrightarrow>
        (\<exists>p. dict_get (tn_projects s) i = Some p \<and> ns = namespace_of (pj_team_id p) (pj_name p)))"

lemma tenants_inv_frame:
  "tn_namespaces s' = tn_namespaces s \<Longrightarrow> tn_projects s' = tn_projects s \<Longrightarrow> tenants_inv s \<Longrightarrow> tenants_inv s'"
  by (simp add: tenants_inv_def)

interpretation tenants_machine: invariant_machine tenant_step tenant_fresh tenants_inv
proof
  fix s x assume inv: "tenants_inv s" and ok: "tenant_fresh s x"
  show "tenants_inv (tenant_step x s)"
  proof (cases x)
    case (ToCreateProject i p)
    then show ?thesis using inv ok by (fastforce simp: tenants_inv_def create_project_def Let_def)
  next
    case (ToDeleteProject i)
    then show ?thesis using inv by (auto simp: tenants_inv_def delete_project_def)
  qed (auto intro!: tenants_inv_frame [OF _ _ inv] simp: create_team_def delete_team_def set_resource_quota_def
      set_project_quota_def add_tenant_user_def remove_tenant_user_def set_isolation_policy_def Let_def split: option.split)
qed

lemma tenants_reachable: "run_allowed tenant_step tenant_fresh ops no_tenants \<Longrightarrow> tenants_inv (fold tenant_step ops no_tenants)"
  by (erule tenants_machine.run_inv) (simp add: tenants_inv_def no_tenants_def)

lemma namespace_of_prefix:
  assumes "namespace_of t m = namespace_of u n" and "8 \<le> length t" and "8 \<le> length u"
  shows "take 8 t = take 8 u"
proof -
  have "take 8 t @ ''-'' @ safe_name m = take 8 u @ ''-'' @ safe_name n" using assms(1) by (simp add: namespace_of_def)
  moreover have "length (take 8 t) = length (take 8 u)" using assms(2,3) by simp
  ultimately show ?thesis by (metis append_eq_append_conv)
qed

text \<open>
  C31: isolation of tenants: after any run of the manager's operations with fresh project identifiers
  an isolated tenant has access to exactly the namespaces given to its stored projects, each made of
  its own identifier and a project's name, and two isolated tenants whose identifiers differ in
  their first eight characters never have access to the same namespace.
\<close>

theorem tenant_isolation:
  assumes "run_allowed tenant_step tenant_fresh ops no_tenants" and "s = fold tenant_step ops no_tenants"
    and "isolated t s" and "isolated u s" and "8 \<le> length t" and "8 \<le> length u" and "take 8 t \<noteq> take 8 u"
  shows "(check_tenant_access t ns s \<longleftrightarrow>
            (\<exists>i p. get_project i s = Some p \<and> pj_team_id p = t \<and> dict_get (tn_namespaces s) i = Some ns))
    \<and> (check_tenant_access t ns s \<longrightarrow> (\<exists>i p. get_project i s = Some p \<and> ns = namespace_of t (pj_name p)))
    \<and> \<not> (check_tenant_access t ns s \<and> check_tenant_access u ns s)"
proof -
  have inv: "tenants_inv s" using tenants_reachable assms(1,2) by simp
  have access: "check_tenant_access v ns s \<longleftrightarrow>
      (\<exists>i p. get_project i s = Some p \<and> pj_team_id p = v \<and> dict_get (tn_namespaces s) i = Some ns)" if "isolated v s" for v
  proof -
    have "(i, n) \<in> set (tn_namespaces s) \<longleftrightarrow> dict_get (tn_namespaces s) i = Some n" for i n
      using inv by (simp add: tenants_inv_def dict_ok_def)
    moreover have "check_tenant_access v ns s \<longleftrightarrow>
        (\<exists>i p. (i, ns) \<in> set (tn_namespaces s) \<and> get_project i s = Some p \<and> pj_team_id p = v)"
      using that by (force simp: check_tenant_access_def get_project_def list_ex_iff split: option.splits)
    ultimately show ?thesis by auto
  qed
  have own: "\<exists>i p. get_project i s = Some p \<and> ns = namespace_of v (pj_name p)" if "isolated v s" "check_tenant_access v ns s" for v
    using access [OF that(1)] that(2) inv unfolding tenants_inv_def get_project_def by fastforce
  have "\<not> (check_tenant_access t ns s \<and> check_tenant_access u ns s)"
    using own [OF assms(3)] own [OF assms(4)] namespace_of_prefix [OF _ assms(5,6)] assms(7) by metis
  then show ?thesis using access [OF assms(3)] own [OF assms(3)] by blast
qed

text \<open>A team that was deleted keeps its access: its projects and their namespaces stay.\<close>

lemma deleted_team_keeps_access:
  assumes "isolated t s" and "check_tenant_access t ns s"
  shows "check_tenant_access t ns (fst (delete_team t s))"
  using assms by (auto simp: check_tenant_access_def delete_team_def)

definition sample_project :: "uuid \<Rightarrow> string \<Rightarrow> project" where
  "sample_project t n =
     \<lparr>pj_id = [], pj_name = n, pj_description = [], pj_team_id = t, pj_cluster_ids = [], pj_created_at = 0\<rparr>"

definition sample_tenant_ops :: "tenant_op list" where
  "sample_tenant_ops =
     [ToCreateProject ''p1'' (sample_project ''aaaaaaaa-1'' ''My App''), ToCreateProject ''p2'' (sample_project ''bbbbbbbb-1'' ''My App'')]"

theorem tenant_isolation_witness:
  "check_tenant_access ''aaaaaaaa-1'' ''gpuopt-aaaaaaaa-my-app'' (fold tenant_step sample_tenant_ops no_tenants)
   \<and> \<not> check_tenant_access ''bbbbbbbb-1'' ''gpuopt-aaaaaaaa-my-app'' (fold tenant_step sample_tenant_ops no_tenants)"
proof -
  let ?s = "fold tenant_step sample_tenant_ops no_tenants"
  have run: "run_allowed tenant_step tenant_fresh sample_tenant_ops no_tenants"
    by (simp add: sample_tenant_ops_def create_project_def no_tenants_def Let_def)
  have pol: "isolated t ?s" for t
    by (simp add: isolated_def sample_tenant_ops_def create_project_def no_tenants_def dict_get_or_def dict_has_def Let_def)
  have ns: "dict_get (tn_namespaces ?s) ''p1'' = Some ''gpuopt-aaaaaaaa-my-app''"
    "\<exists>p. get_project ''p1'' ?s = Some p \<and> pj_team_id p = ''aaaaaaaa-1''"
    by (simp_all add: sample_tenant_ops_def create_project_def no_tenants_def dict_has_def sample_project_def Let_def
        namespace_of_def safe_name_def str_lower_def lower_char_def get_project_def)
  have "8 \<le> length ''aaaaaaaa-1''" "8 \<le> length ''bbbbbbbb-1''" "take 8 ''aaaaaaaa-1'' \<noteq> take 8 ''bbbbbbbb-1''" by simp_all
  from tenant_isolation [OF run refl pol pol this, of "''gpuopt-aaaaaaaa-my-app''"] ns show ?thesis by blast
qed

end
