(* ===== verification/SlurmConnector.thy ===== *)
theory SlurmConnector
  imports ClusterState Values SlurmActions
begin

text \<open>
  The Slurm connector, src/src/gpuopt/connectors/slurm.py: the readers of the texts that sinfo, squeue
  and sacct print, the GPU topology guessed from the nodes, the checks and telemetry built from them,
  and the monitors of jobs. Commands go through the shell of \<open>SlurmActions\<close>, whose \<open>_run_cmd\<close> treats
  failures the same way. What the pyslurm bindings or the JSON output of sinfo give, when they give
  something, and the mock data are arguments; the texts are read otherwise.
\<close>

subsection \<open>Nodes and jobs\<close>

record slurm_node =
  sn_node_name :: string
  sn_state :: string
  sn_partitions :: "string list"
  sn_cpu_count :: int
  sn_memory_mb :: int
  sn_gpu_count :: int
  sn_gpu_model :: string
  sn_features :: "string list"
  sn_weight :: int

record slurm_job =
  sj_job_id :: int
  sj_job_name :: string
  sj_partition :: string
  sj_user :: string
  sj_state :: string
  sj_node_count :: int
  sj_gpu_count :: int
  sj_cpus :: int
  sj_memory_mb :: int
  sj_time_limit_minutes :: int
  sj_time_used_minutes :: int
  sj_nodes :: string
  sj_submit_time :: "datetime option"
  sj_start_time :: "datetime option"

record slurm_partition =
  sq_name :: string
  sq_state :: string
  sq_nodes :: "string list"
  sq_total_cpus :: int
  sq_total_gpus :: int
  sq_default_time_minutes :: int
  sq_max_time_minutes :: int
  sq_gpu_model :: string

subsection \<open>Reading texts\<close>

text \<open>\<open>s.isdigit()\<close> on ASCII text, the lines of a command's output and the fields of a line.\<close>

definition all_digits :: "string \<Rightarrow> bool" where
  "all_digits s \<longleftrightarrow> s \<noteq> [] \<and> list_all (\<lambda>c. digit_val c \<noteq> None) s"

definition out_lines :: "string \<Rightarrow> string list" where
  "out_lines out = split_on (CHR 0x0A) (strip out)"

definition bar_fields :: "string \<Rightarrow> string list" where
  "bar_fields line = map strip (split_on (CHR ''|'') line)"

definition field :: "nat \<Rightarrow> string list \<Rightarrow> string" where
  "field i parts = (if i < length parts then parts ! i else [])"

definition digits_or_zero :: "string \<Rightarrow> int" where
  "digits_or_zero s = (if all_digits s then or_default (parse_int s) 0 else 0)"

text \<open>\<open>int(s)\<close> with \<open>ValueError\<close> read as a default, and \<open>int(float(s) * k)\<close>, which may raise.\<close>

definition int_or :: "int \<Rightarrow> string \<Rightarrow> int" where
  "int_or d s = or_default (parse_int s) d"

definition int_of_float_text :: "rat \<Rightarrow> string \<Rightarrow> py_error + int" where
  "int_of_float_text k s = try_bind (json_float (JStr s)) (\<lambda>x. float_to_int (float_mult x k))"

definition on_value_error :: "int \<Rightarrow> py_error + int \<Rightarrow> py_error + int" where
  "on_value_error d m = (case m of Inl (ValueError _) \<Rightarrow> Inr d | Inl (IndexError _) \<Rightarrow> Inr d | _ \<Rightarrow> m)"

subsection \<open>sinfo\<close>

definition without :: "string \<Rightarrow> string \<Rightarrow> string" where
  "without cs s = filter (\<lambda>c. c \<notin> set cs) s"

text \<open>The memory is first read by a conditional expression that can raise, then read again.\<close>

definition sinfo_memory :: "string \<Rightarrow> py_error + int" where
  "sinfo_memory p =
     try_bind
       (if all_digits (without ''.'' p) then int_of_float_text 1 p
        else if all_digits (without ''.-+'' p) \<and> p \<noteq> [] then int_of_float_text 1 p
        else Inr 0)
       (\<lambda>_. if strip p = [] then Inr 0 else on_value_error 0 (int_of_float_text 1 p))"

text \<open>The generic resources of a node: \<open>gpu:model:count\<close> or \<open>gpu:count\<close>.\<close>

definition sinfo_gres :: "string \<Rightarrow> int \<times> string" where
  "sinfo_gres s =
     (if \<not> str_contains ''gpu'' (str_lower s) then (0, [])
      else (let parts = split_on (CHR '':'') s in
        if 3 \<le> length parts then (int_or 0 (last parts), parts ! 1)
        else if length parts = 2 then (int_or 0 (parts ! 1), []) else (0, [])))"

definition sinfo_features :: "string \<Rightarrow> string list" where
  "sinfo_features s = filter (\<lambda>f. f \<noteq> []) (map strip (split_on (CHR '','') s))"

definition sinfo_node :: "string \<Rightarrow> py_error + slurm_node option" where
  "sinfo_node line =
     (if strip line = [] \<or> starts_with ''NODELIST'' line \<or> starts_with ''HOSTNAMES'' line then Inr None
      else (let parts = bar_fields line in
        if length parts < 6 then Inr None
        else try_bind (sinfo_memory (parts ! 3)) (\<lambda>mem.
          Inr (Some \<lparr>sn_node_name = parts ! 0, sn_state = (if parts ! 1 \<noteq> [] then parts ! 1 else ''unknown''),
                     sn_partitions = [], sn_cpu_count = digits_or_zero (parts ! 2), sn_memory_mb = mem,
                     sn_gpu_count = fst (sinfo_gres (parts ! 4)), sn_gpu_model = snd (sinfo_gres (parts ! 4)),
                     sn_features = sinfo_features (parts ! 5), sn_weight = 1\<rparr>))))"

definition somes :: "'a option list \<Rightarrow> 'a list" where
  "somes xs = List.map_filter (\<lambda>x. x) xs"

definition parse_sinfo_nodes :: "string \<Rightarrow> py_error + slurm_node list" where
  "parse_sinfo_nodes out = try_bind (try_map sinfo_node (out_lines out)) (\<lambda>ns. Inr (somes ns))"

subsection \<open>squeue\<close>

text \<open>\<open>time_str.split("-", 1)\<close>: the text before the first hyphen and all that follows it.\<close>

definition split_first :: "char \<Rightarrow> string \<Rightarrow> string \<times> string" where
  "split_first c s = (takeWhile (\<lambda>x. x \<noteq> c) s, drop 1 (dropWhile (\<lambda>x. x \<noteq> c) s))"

text \<open>The numbers between colons; none when one of them is not a number.\<close>

fun numbers :: "string list \<Rightarrow> int list option" where
  "numbers [] = Some []"
| "numbers (s # ss) = (case (parse_int s, numbers ss) of (Some i, Some is) \<Rightarrow> Some (i # is) | _ \<Rightarrow> None)"

fun clock_minutes :: "int list \<Rightarrow> int" where
  "clock_minutes [m] = m"
| "clock_minutes [h, m] = h * 60 + m"
| "clock_minutes [h, m, s] = h * 60 + m + s div 60"
| "clock_minutes [d, h, m, s] = d * 1440 + h * 60 + m + s div 60"
| "clock_minutes _ = 0"

definition parse_slurm_time :: "string \<Rightarrow> int" where
  "parse_slurm_time t =
     (if t = [] \<or> t \<in> {''UNLIMITED'', ''NOT_SET'', ''INFINITE''} then 0
      else if CHR ''-'' \<in> set t then
        (let (days_part, rest) = split_first (CHR ''-'') t; parts = split_on (CHR '':'') rest in
         case parse_int days_part of None \<Rightarrow> 0
         | Some d \<Rightarrow>
             (if length parts = 3 then (case numbers parts of None \<Rightarrow> 0 | Some ns \<Rightarrow> d * 1440 + clock_minutes ns)
              else d * 1440))
      else (let parts = split_on (CHR '':'') t in
        if 4 < length parts then 0 else (case numbers parts of None \<Rightarrow> 0 | Some ns \<Rightarrow> clock_minutes ns)))"

text \<open>\<open>mem_str.replace(unit, "").split()[0]\<close>, read as a float and scaled.\<close>

definition scaled_memory :: "char \<Rightarrow> rat \<Rightarrow> string \<Rightarrow> py_error + int" where
  "scaled_memory u k s =
     (case words (filter (\<lambda>c. c \<noteq> u) s) of [] \<Rightarrow> Inl (IndexError ''list index out of range'') | w # _ \<Rightarrow> int_of_float_text k w)"

definition squeue_memory :: "string \<Rightarrow> py_error + int" where
  "squeue_memory m =
     (if m = [] then Inr 0
      else on_value_error 0
        (if CHR ''G'' \<in> set m then scaled_memory (CHR ''G'') 1024 m
         else if CHR ''M'' \<in> set m then scaled_memory (CHR ''M'') 1 m
         else if CHR ''T'' \<in> set m then scaled_memory (CHR ''T'') (1024 * 1024) m
         else if all_digits m then Inr (int_or 0 m) else Inr 0))"

definition squeue_job :: "string \<Rightarrow> py_error + slurm_job option" where
  "squeue_job line =
     (if strip line = [] then Inr None
      else (let parts = bar_fields line in
        if length parts < 8 then Inr None
        else (case parse_int (parts ! 0) of
            None \<Rightarrow> Inr None
          | Some i \<Rightarrow>
              try_bind (squeue_memory (str_upper (parts ! 7))) (\<lambda>mem.
                Inr (Some \<lparr>sj_job_id = i, sj_job_name = parts ! 1, sj_partition = parts ! 2, sj_user = parts ! 3,
                           sj_state = parts ! 4, sj_node_count = digits_or_zero (parts ! 5), sj_gpu_count = 0,
                           sj_cpus = digits_or_zero (parts ! 6), sj_memory_mb = mem,
                           sj_time_limit_minutes = parse_slurm_time (field 8 parts),
                           sj_time_used_minutes = parse_slurm_time (field 9 parts), sj_nodes = field 10 parts,
                           sj_submit_time = None, sj_start_time = None\<rparr>)))))"

definition is_waiting :: "slurm_job \<Rightarrow> bool" where
  "is_waiting j \<longleftrightarrow> str_upper (sj_state j) \<in> {''PENDING'', ''SUSPENDED''}"

definition is_active :: "slurm_job \<Rightarrow> bool" where
  "is_active j \<longleftrightarrow> str_upper (sj_state j) \<in> {''RUNNING'', ''COMPLETING''}"

definition parse_jobs :: "string \<Rightarrow> py_error + slurm_job list \<times> slurm_job list" where
  "parse_jobs out =
     try_bind (try_map squeue_job (out_lines out))
       (\<lambda>js. Inr (filter is_waiting (somes js), filter is_active (somes js)))"

subsection \<open>Sources\<close>

record slurm_mock =
  mk_nodes :: "slurm_node list"
  mk_partitions :: "slurm_partition list"
  mk_pending :: "slurm_job list"
  mk_running :: "slurm_job list"

record slurm_source =
  so_mock :: "slurm_mock option"
  so_pyslurm_nodes :: "slurm_node list option"
  so_json_nodes :: "slurm_node list option"
  so_jobs :: "(slurm_job list \<times> slurm_job list) option"
  so_partitions :: "slurm_partition list option"
  so_acct :: "int \<Rightarrow> (string \<times> int) option"
  so_shell :: shell
  so_host :: "string option"

definition get_nodes :: "slurm_source \<Rightarrow> py_error + slurm_node list" where
  "get_nodes src =
     (case so_mock src of Some m \<Rightarrow> Inr (mk_nodes m)
      | None \<Rightarrow>
          (case (so_pyslurm_nodes src, so_json_nodes src) of
             (Some ns, _) \<Rightarrow> Inr ns
           | (None, Some ns) \<Rightarrow> Inr ns
           | (None, None) \<Rightarrow>
               (let out = run_cmd (so_shell src) [''sinfo'', ''-N'', ''-o'', ''%N|%T|%c|%m|%G|%f'']
                in if out \<noteq> [] then parse_sinfo_nodes out else Inr [])))"

definition get_jobs :: "slurm_source \<Rightarrow> py_error + slurm_job list \<times> slurm_job list" where
  "get_jobs src =
     (case so_mock src of Some m \<Rightarrow> Inr (mk_pending m, mk_running m)
      | None \<Rightarrow>
          (case so_jobs src of Some js \<Rightarrow> Inr js
           | None \<Rightarrow>
               parse_jobs (run_cmd (so_shell src) [''squeue'', ''-o'', ''%i|%j|%P|%u|%T|%D|%C|%m|%l|%M|%N'', ''--noheader''])))"

definition get_partitions :: "slurm_source \<Rightarrow> slurm_partition list" where
  "get_partitions src =
     (case so_mock src of Some m \<Rightarrow> mk_partitions m | None \<Rightarrow> or_default (so_partitions src) [])"

subsection \<open>Topology\<close>

record gpu_link =
  gl_source_gpu :: int
  gl_target_gpu :: int
  gl_link_type :: string
  gl_bandwidth_gb_per_sec :: rat
  gl_nvlink_count :: int

record gpu_topology =
  gy_node_name :: string
  gy_gpu_count :: int
  gy_gpu_model :: string
  gy_nvswitch_present :: bool
  gy_nvlink_per_gpu :: int
  gy_links :: "gpu_link list"
  gy_numa_affinity :: "int list"

record node_topology =
  ny_nodes :: "gpu_topology list"
  ny_cross_node_bandwidth_gb_per_sec :: rat
  ny_has_nvswitch :: bool
  ny_recommended_dp_group_size :: int
  ny_recommended_tp_group_size :: int

text \<open>
  What a node's model sets: links per GPU, their bandwidth, the size of tensor-parallel groups and,
  for some models only, whether there is an NVSwitch.
\<close>

record model_traits =
  mt_nvlinks :: int
  mt_bandwidth :: rat
  mt_tp_group :: int
  mt_nvswitch :: "bool option"

definition traits_of :: "slurm_node \<Rightarrow> model_traits" where
  "traits_of n =
     (let m = str_lower (sn_gpu_model n); has = (\<lambda>t. str_contains t m) in
      if has ''h100'' \<or> has ''h200''
      then \<lparr>mt_nvlinks = 18, mt_bandwidth = 900, mt_tp_group = 8, mt_nvswitch = Some (\<not> has ''nvswitch'')\<rparr>
      else if has ''b100'' \<or> has ''b200''
      then \<lparr>mt_nvlinks = 18, mt_bandwidth = 1800, mt_tp_group = 8, mt_nvswitch = Some True\<rparr>
      else if has ''a100'' \<or> has ''a30''
      then \<lparr>mt_nvlinks = 12, mt_bandwidth = 600, mt_tp_group = (if has ''a100'' then 8 else 4),
            mt_nvswitch = Some (8 \<le> sn_gpu_count n \<and> has ''a100'')\<rparr>
      else if has ''a6000'' \<or> has ''rtx'' then \<lparr>mt_nvlinks = 0, mt_bandwidth = 0, mt_tp_group = 1, mt_nvswitch = None\<rparr>
      else if has ''v100'' then \<lparr>mt_nvlinks = 6, mt_bandwidth = 300, mt_tp_group = 4, mt_nvswitch = None\<rparr>
      else \<lparr>mt_nvlinks = 0, mt_bandwidth = 0, mt_tp_group = 1, mt_nvswitch = None\<rparr>)"

definition pairs_below :: "int \<Rightarrow> (int \<times> int) list" where
  "pairs_below n = concat (map (\<lambda>i. map (\<lambda>j. (i, j)) [i + 1 .. n - 1]) [0 .. n - 1])"

definition nvlinks_below :: "model_traits \<Rightarrow> int \<Rightarrow> gpu_link list" where
  "nvlinks_below t n =
     map (\<lambda>(i, j). \<lparr>gl_source_gpu = i, gl_target_gpu = j, gl_link_type = ''nvlink'', gl_bandwidth_gb_per_sec = mt_bandwidth t,
                     gl_nvlink_count = mt_nvlinks t\<rparr>) (pairs_below n)"

definition linked :: "gpu_link list \<Rightarrow> int \<times> int \<Rightarrow> bool" where
  "linked ls = (\<lambda>(i, j). list_ex (\<lambda>l. gl_source_gpu l = i \<and> gl_target_gpu l = j) ls)"

definition add_switch_link :: "model_traits \<Rightarrow> int \<times> int \<Rightarrow> gpu_link list \<Rightarrow> gpu_link list" where
  "add_switch_link t = (\<lambda>(i, j) ls.
     if linked ls (i, j) then ls
     else ls @ [\<lparr>gl_source_gpu = i, gl_target_gpu = j, gl_link_type = ''nvswitch'',
                 gl_bandwidth_gb_per_sec = mt_bandwidth t * 2, gl_nvlink_count = mt_nvlinks t\<rparr>])"

definition node_links :: "model_traits \<Rightarrow> bool \<Rightarrow> int \<Rightarrow> gpu_link list" where
  "node_links t nvswitch n =
     (if mt_nvlinks t \<le> 0 then []
      else (let direct = nvlinks_below t (min n 8)
            in if nvswitch then fold (add_switch_link t) (pairs_below n) direct else direct))"

text \<open>One turn of the loop; \<open>has_nvswitch\<close> and the group size are variables of the whole loop.\<close>

definition topology_step :: "slurm_node \<Rightarrow> node_topology \<Rightarrow> node_topology" where
  "topology_step n y =
     (if sn_gpu_count n = 0 then y
      else (let t = traits_of n; sw = or_default (mt_nvswitch t) (ny_has_nvswitch y) in
        y\<lparr>ny_nodes := ny_nodes y @
            [\<lparr>gy_node_name = sn_node_name n, gy_gpu_count = sn_gpu_count n, gy_gpu_model = sn_gpu_model n,
              gy_nvswitch_present = sw, gy_nvlink_per_gpu = mt_nvlinks t, gy_links = node_links t sw (sn_gpu_count n),
              gy_numa_affinity = [0 .. sn_gpu_count n - 1]\<rparr>],
          ny_has_nvswitch := sw, ny_recommended_tp_group_size := mt_tp_group t\<rparr>))"

definition detect_topology :: "slurm_node list \<Rightarrow> node_topology" where
  "detect_topology ns =
     fold topology_step ns
       \<lparr>ny_nodes = [], ny_cross_node_bandwidth_gb_per_sec = 50, ny_has_nvswitch = False, ny_recommended_dp_group_size = 8,
        ny_recommended_tp_group_size = 8\<rparr>"

definition get_cluster_topology :: "slurm_source \<Rightarrow> py_error + node_topology" where
  "get_cluster_topology src = try_bind (get_nodes src) (\<lambda>ns. Inr (detect_topology ns))"

subsection \<open>Checks and telemetry\<close>

definition available :: "slurm_node \<Rightarrow> bool" where
  "available n \<longleftrightarrow> (\<exists>p \<in> {''idle'', ''mix'', ''alloc''}. starts_with p (str_lower (sn_state n)))"

definition check_controller :: "slurm_source \<Rightarrow> bool" where
  "check_controller src =
     (so_pyslurm_nodes src \<noteq> None \<or>
      (let host = or_default (so_host src) [] in
       strip (run_cmd (so_shell src)
         (if host = [] \<or> host = ''localhost'' then [''sinfo'', ''--version'']
          else [''ssh'', host, ''sinfo'', ''--version''])) \<noteq> []))"

definition node_checks :: "slurm_node list \<Rightarrow> check_item list" where
  "node_checks ns =
     (if ns = []
      then [check ''slurm_nodes'' CHECK_FAIL [Txt ''No Slurm nodes discovered.''] []
              (Some ''Verify sinfo is working and nodes are configured.'')]
      else (let ready = filter available ns; gpu_nodes = filter (\<lambda>n. 0 < sn_gpu_count n) ns;
                total = sum_list (map sn_gpu_count gpu_nodes) in
        [check ''slurm_nodes'' (if ready \<noteq> [] then CHECK_PASS else CHECK_WARN)
           [Txt ''Slurm reports '', Val (count_val ns), Txt '' node(s), '', Val (count_val ready), Txt '' available.'']
           [(''total'', count_val ns), (''ready'', count_val ready), (''down'', JInt (int (length ns) - int (length ready)))] None,
         check ''slurm_gpus'' (if 0 < total then CHECK_PASS else CHECK_WARN)
           [Txt ''Slurm detected '', Val (JInt total), Txt '' GPU(s) across '', Val (count_val gpu_nodes), Txt '' node(s).'']
           [(''gpu_total'', JInt total), (''gpu_nodes'', count_val gpu_nodes)]
           (if 0 < total then None else Some ''Verify GRES configuration in slurm.conf.'')]))"

definition mock_checks :: "slurm_mock \<Rightarrow> check_item list" where
  "mock_checks m =
     [check ''slurm_controller'' CHECK_PASS [Txt ''Slurm controller is reachable (mock).''] [] None,
      check ''slurm_nodes'' CHECK_PASS [Txt ''Simulated '', Val (count_val (mk_nodes m)), Txt '' node(s) (mock).''] [] None,
      check ''slurm_partitions'' CHECK_PASS [Txt ''Slurm has '', Val (count_val (mk_partitions m)), Txt '' partition(s) (mock).''] [] None,
      check ''slurm_gpus'' CHECK_PASS
        [Txt ''Slurm detected '', Val (JInt (sum_list (map sn_gpu_count (mk_nodes m)))), Txt '' GPU resource(s) (mock).''] [] None,
      check ''slurm_jobs'' CHECK_PASS
        [Val (count_val (mk_running m)), Txt '' running, '', Val (count_val (mk_pending m)), Txt '' pending (mock).''] [] None]"

text \<open>\<open>pyslurm_available\<close> is whether the bindings are installed.\<close>

definition run_checks :: "bool \<Rightarrow> slurm_source \<Rightarrow> py_error + check_item list" where
  "run_checks has_pyslurm src =
     (case so_mock src of Some m \<Rightarrow> Inr (mock_checks m)
      | None \<Rightarrow>
          if \<not> check_controller src
          then Inr [check ''slurm_controller'' CHECK_FAIL [Txt ''Cannot reach Slurm controller.''] []
                      (Some ''Verify slurm_host and that slurmctld is running.'')]
          else try_bind (get_nodes src) (\<lambda>ns. try_bind (get_jobs src) (\<lambda>(pending, running).
            Inr ([check ''slurm_controller'' CHECK_PASS
                    [Txt ''Slurm controller is reachable (pyslurm='', Val (JBool has_pyslurm), Txt '').'']
                    [(''controller'', JStr (or_default (so_host src) ''localhost'')),
                     (''pyslurm_available'', JBool has_pyslurm)] None]
                 @ node_checks ns
                 @ [check ''slurm_jobs'' CHECK_PASS
                      [Val (count_val running), Txt '' running, '', Val (count_val pending), Txt '' pending job(s).'']
                      [(''running'', count_val running), (''pending'', count_val pending)] None]))))"

definition gpu_telemetry_of :: "slurm_node \<Rightarrow> int \<Rightarrow> gpu_telemetry" where
  "gpu_telemetry_of n i =
     \<lparr>gt_index = i, gt_uuid = sn_node_name n @ ''/gpu-'' @ int_str i,
      gt_model = (if sn_gpu_model n \<noteq> [] then sn_gpu_model n else ''unknown''), gt_memory_total_bytes = 0,
      gt_memory_used_bytes = 0, gt_utilization_gpu_percent = 0, gt_utilization_memory_percent = 0,
      gt_temperature_gpu_celsius = 0, gt_power_draw_watts = 0, gt_power_limit_watts = 0, gt_ecc_errors_volatile = 0,
      gt_ecc_errors_aggregate = 0, gt_clock_sm_mhz = 0, gt_clock_mem_mhz = 0\<rparr>"

definition node_telemetry_of :: "slurm_node \<Rightarrow> node_telemetry" where
  "node_telemetry_of n =
     \<lparr>nt_node_name = sn_node_name n, nt_status = (if available n then ''Ready'' else ''NotReady''), nt_cpu_usage_millicores = 0,
      nt_cpu_capacity_millicores = sn_cpu_count n * 1000, nt_memory_usage_bytes = 0,
      nt_memory_capacity_bytes = sn_memory_mb n * 1024 * 1024, nt_pod_count = 0, nt_pod_capacity = 0,
      nt_gpu_devices = map (gpu_telemetry_of n) [0 .. sn_gpu_count n - 1]\<rparr>"

definition collect_telemetry :: "datetime \<Rightarrow> cluster \<Rightarrow> slurm_source \<Rightarrow> py_error + cluster_telemetry" where
  "collect_telemetry now cl src =
     try_bind (get_nodes src) (\<lambda>ns. Inr
       \<lparr>ct_cluster_id = cl_id cl, ct_cluster_name = cl_name cl, ct_collected_at = now, ct_node_count = int (length ns),
        ct_gpu_count = sum_list (map sn_gpu_count ns), ct_nodes = map node_telemetry_of ns, ct_freshness_seconds = 0\<rparr>)"

record slurm_telemetry =
  st_cluster_id :: uuid
  st_cluster_name :: string
  st_collected_at :: datetime
  st_controller_status :: string
  st_node_count :: int
  st_gpu_count :: int
  st_nodes :: "slurm_node list"
  st_partitions :: "slurm_partition list"
  st_pending_jobs :: "slurm_job list"
  st_running_jobs :: "slurm_job list"
  st_total_cpus :: int
  st_allocated_cpus :: int
  st_total_memory_mb :: int
  st_allocated_memory_mb :: int
  st_total_gpus_allocated :: int

definition collect_slurm_telemetry :: "datetime \<Rightarrow> cluster \<Rightarrow> slurm_source \<Rightarrow> py_error + slurm_telemetry" where
  "collect_slurm_telemetry now cl src =
     try_bind (get_nodes src) (\<lambda>ns. try_bind (get_jobs src) (\<lambda>(pending, running). Inr
       \<lparr>st_cluster_id = cl_id cl, st_cluster_name = cl_name cl, st_collected_at = now, st_controller_status = ''up'',
        st_node_count = int (length ns), st_gpu_count = sum_list (map sn_gpu_count ns), st_nodes = ns,
        st_partitions = get_partitions src, st_pending_jobs = pending, st_running_jobs = running,
        st_total_cpus = sum_list (map sn_cpu_count ns), st_allocated_cpus = sum_list (map sj_cpus running),
        st_total_memory_mb = sum_list (map sn_memory_mb ns), st_allocated_memory_mb = sum_list (map sj_memory_mb running),
        st_total_gpus_allocated = sum_list (map sj_gpu_count running)\<rparr>))"

subsection \<open>Monitors of jobs\<close>

record job_snapshot =
  js_timestamp :: datetime
  js_job_id :: int
  js_state :: string
  js_time_used_minutes :: int
  js_gpu_utilization :: rat
  js_memory_utilization :: rat

record monitoring_snapshot =
  ms_cluster_id :: uuid
  ms_collected_at :: datetime
  ms_running_jobs :: "slurm_job list"
  ms_pending_jobs :: "slurm_job list"
  ms_total_gpus :: int
  ms_free_gpus :: int
  ms_avg_cluster_utilization :: rat
  ms_total_waiting_jobs :: int
  ms_total_running_jobs :: int
  ms_total_gpu_hours_used :: rat
  ms_job_history :: "job_snapshot list"

definition collect_monitoring_snapshot :: "datetime \<Rightarrow> cluster \<Rightarrow> slurm_source \<Rightarrow> py_error + monitoring_snapshot" where
  "collect_monitoring_snapshot now cl src =
     try_bind (get_jobs src) (\<lambda>(pending, running). try_bind (get_nodes src) (\<lambda>ns.
       let total = sum_list (map sn_gpu_count ns); allocated = sum_list (map sj_gpu_count running) in Inr
       \<lparr>ms_cluster_id = cl_id cl, ms_collected_at = now, ms_running_jobs = running, ms_pending_jobs = pending,
        ms_total_gpus = total, ms_free_gpus = total - allocated,
        ms_avg_cluster_utilization = py_round 1 (of_int allocated / of_int (max total 1) * 100),
        ms_total_waiting_jobs = int (length pending), ms_total_running_jobs = int (length running),
        ms_total_gpu_hours_used =
          py_round 1 (sum_list (map (\<lambda>j. of_int (sj_gpu_count j) * (of_int (sj_time_used_minutes j) / 60)) running)),
        ms_job_history = map (\<lambda>j. \<lparr>js_timestamp = now, js_job_id = sj_job_id j, js_state = sj_state j,
          js_time_used_minutes = sj_time_used_minutes j, js_gpu_utilization = 0, js_memory_utilization = 0\<rparr>) running\<rparr>))"

record monitor_config =
  mg_job_id :: int
  mg_poll_interval_seconds :: int
  mg_max_history_points :: int
  mg_alert_on_completion :: bool
  mg_alert_on_failure :: bool
  mg_alert_on_stall :: bool
  mg_stall_threshold_minutes :: int

text \<open>A thread that runs or has ended; stopping a monitor stores \<open>None\<close> in its place.\<close>

datatype thread_state = Running | Ended

record monitors =
  mo_configs :: "(int, monitor_config) dict"
  mo_threads :: "(int, thread_state option) dict"
  mo_histories :: "(int, job_snapshot list) dict"

definition no_monitors :: monitors where
  "no_monitors = \<lparr>mo_configs = [], mo_threads = [], mo_histories = []\<rparr>"

definition begin_monitor :: "int \<Rightarrow> monitor_config \<Rightarrow> monitors \<Rightarrow> monitors" where
  "begin_monitor j c s =
     s\<lparr>mo_configs := dict_set j c (mo_configs s), mo_histories := dict_set j [] (mo_histories s),
       mo_threads := dict_set j (Some Running) (mo_threads s)\<rparr>"

definition start_job_monitor :: "int \<Rightarrow> monitor_config \<Rightarrow> monitors \<Rightarrow> py_error + monitors" where
  "start_job_monitor j c s =
     (case dict_get (mo_threads s) j of
        None \<Rightarrow> Inr (begin_monitor j c s)
      | Some None \<Rightarrow> Inl (AttributeError ''NoneType object has no attribute is_alive'')
      | Some (Some Running) \<Rightarrow> Inr s
      | Some (Some Ended) \<Rightarrow> Inr (begin_monitor j c s))"

definition stop_job_monitor :: "int \<Rightarrow> monitors \<Rightarrow> py_error + monitors" where
  "stop_job_monitor j s =
     (if \<not> dict_has (mo_threads s) j then Inr s
      else if \<not> dict_has (mo_configs s) j then Inl (KeyError (int_str j))
      else Inr (s\<lparr>mo_configs := dict_pop j (mo_configs s), mo_threads := dict_set j None (mo_threads s)\<rparr>))"

definition get_job_history :: "int \<Rightarrow> monitors \<Rightarrow> job_snapshot list" where
  "get_job_history j s = dict_get_or (mo_histories s) j []"

text \<open>The first line of sacct's output that is not a job step and has a state.\<close>

definition acct_line :: "string \<Rightarrow> (string \<times> int) option" where
  "acct_line line =
     (let l = strip line; parts = bar_fields l in
      if l = [] \<or> CHR ''.'' \<in> set l \<or> length parts < 7 then None
      else Some (parts ! 6, parse_slurm_time (parts ! 1)))"

definition acct_state :: "slurm_source \<Rightarrow> int \<Rightarrow> string \<times> int" where
  "acct_state src j =
     (case so_acct src j of
        Some (st, elapsed) \<Rightarrow> (st, elapsed div 60)
      | None \<Rightarrow>
          (let out = run_cmd (so_shell src)
             [''sacct'', ''-j'', int_str j, ''--format'', ''JobID,Elapsed,AllocCPUS,ReqMem,TotalCPU,MaxRSS,State,ExitCode'',
              ''--noheader'', ''-P'']
           in case List.map_filter acct_line (out_lines out) of [] \<Rightarrow> (''UNKNOWN'', 0) | x # _ \<Rightarrow> x))"

definition trim_history :: "int \<Rightarrow> job_snapshot \<Rightarrow> job_snapshot list \<Rightarrow> job_snapshot list" where
  "trim_history limit x h = (let h' = h @ [x] in if limit < int (length h') then slice_last limit h' else h')"

definition poll_job :: "slurm_source \<Rightarrow> datetime \<Rightarrow> int \<Rightarrow> monitor_config \<Rightarrow> monitors \<Rightarrow> py_error + monitors" where
  "poll_job src now j c s =
     (let (st, used) = acct_state src j in
      try_bind (get_jobs src) (\<lambda>(pending, running).
        let snap = \<lparr>js_timestamp = now, js_job_id = j, js_state = st, js_time_used_minutes = used,
                    js_gpu_utilization = (if j \<in> sj_job_id ` set (running @ pending) then 50 else 0), js_memory_utilization = 0\<rparr>
        in case dict_get (mo_histories s) j of
             None \<Rightarrow> Inr s
           | Some h \<Rightarrow> Inr (s\<lparr>mo_histories := dict_set j (trim_history (mg_max_history_points c) snap h) (mo_histories s)\<rparr>)))"

text \<open>
  One turn of a monitor's loop: it polls while the monitor is registered, whatever the poll raises;
  a turn whose \<open>sleep\<close> raises ends the thread.
\<close>

definition monitor_turn :: "slurm_source \<Rightarrow> datetime \<Rightarrow> int \<Rightarrow> monitor_config \<Rightarrow> monitors \<Rightarrow> monitors" where
  "monitor_turn src now j c s =
     (if \<not> dict_has (mo_configs s) j then s
      else (let s' = (case poll_job src now j c s of Inl _ \<Rightarrow> s | Inr t \<Rightarrow> t) in
        if mg_poll_interval_seconds c < 0
        then s'\<lparr>mo_threads := (case dict_get (mo_threads s') j of Some (Some _) \<Rightarrow> dict_set j (Some Ended) (mo_threads s')
                               | _ \<Rightarrow> mo_threads s')\<rparr>
        else s'))"

subsection \<open>Durations\<close>

text \<open>How Slurm prints a duration: two digits for minutes and seconds, days and hours when there are any.\<close>

definition two_digits :: "nat \<Rightarrow> string" where
  "two_digits n = (if n < 10 then ''0'' @ nat_str n else nat_str n)"




lemma separators [simp]:
  "digit_val (CHR '':'') = None" "digit_val (CHR ''-'') = None" "digit_val (CHR ''|'') = None" "digit_val (CHR 0x0A) = None"
  "digit_val (CHR '' '') = None" "digit_val (CHR ''M'') = None" "digit_val (CHR ''G'') = None" "digit_val (CHR ''0'') = Some 0"
  by code_simp+


lemma text_value_two [simp]: "text_value (two_digits n) = n"
  using text_value_nat_str [of n] by (simp add: two_digits_def text_value_def digits_nat_def)







subsection \<open>What squeue prints is read back\<close>



















lemma unit_signs [simp]: "digit_val (CHR ''K'') = None" "digit_val (CHR ''T'') = None" "digit_val (CHR ''_'') = None" "digit_val (CHR ''['') = None"
  by code_simp+
























text \<open>The underscore of an array job's identifier is read as a separator of digits.\<close>

lemma array_job_misread: "parse_int ''123_4'' = Some 1234"
  by code_simp

text \<open>GPUs that sinfo prints with their sockets are not counted.\<close>

lemma sockets_misread: "sinfo_gres ''gpu:a100:8(S:0-1)'' = (0, ''a100'')"
  by code_simp

subsection \<open>Links\<close>

lemma set_pairs_below: "set (pairs_below n) = {(i, j). 0 \<le> i \<and> i < j \<and> j < n}"
proof -
  have "(a, b) \<in> set (pairs_below n) \<longleftrightarrow> 0 \<le> a \<and> a < b \<and> b < n" for a b
  proof
    assume "0 \<le> a \<and> a < b \<and> b < n"
    then show "(a, b) \<in> set (pairs_below n)" by (simp add: pairs_below_def) (intro bexI [of _ a], auto)
  qed (auto simp: pairs_below_def)
  then show ?thesis by auto
qed

lemma distinct_pairs_below: "distinct (pairs_below n)"
proof -
  have "distinct (concat (map (\<lambda>i. map (\<lambda>j. (i, j)) [i + 1 .. n - 1]) is))" if "distinct is" for "is"
    using that by (induction "is") (auto simp: distinct_map inj_on_def)
  then show ?thesis by (simp add: pairs_below_def)
qed

abbreviation link_ends :: "gpu_link \<Rightarrow> int \<times> int" where
  "link_ends l \<equiv> (gl_source_gpu l, gl_target_gpu l)"

lemma linked_ends: "linked ls p \<longleftrightarrow> p \<in> link_ends ` set ls"
  by (cases p) (auto simp: linked_def list_ex_iff image_iff)

lemma nvlinks_ends: "map link_ends (nvlinks_below t n) = pairs_below n"
  by (simp add: nvlinks_below_def case_prod_unfold comp_def)

lemma switch_links_ends:
  "distinct (map link_ends ls) \<Longrightarrow>
     distinct (map link_ends (fold (add_switch_link t) ps ls))
     \<and> link_ends ` set (fold (add_switch_link t) ps ls) = link_ends ` set ls \<union> set ps"
proof (induction ps arbitrary: ls)
  case (Cons p ps)
  have "distinct (map link_ends (add_switch_link t p ls)) \<and> link_ends ` set (add_switch_link t p ls) = insert p (link_ends ` set ls)"
    using Cons.prems by (cases p) (auto simp: add_switch_link_def linked_ends image_Un insert_absorb)
  then show ?case using Cons.IH [of "add_switch_link t p ls"] by simp
qed simp

lemma node_links_ends:
  "distinct (map link_ends (node_links t sw n))
   \<and> link_ends ` set (node_links t sw n)
       = (if mt_nvlinks t \<le> 0 then {} else set (pairs_below (if sw then n else min n 8)))"
proof -
  have set: "link_ends ` set (nvlinks_below t m) = set (pairs_below m)" for m
    using arg_cong [OF nvlinks_ends [of t m], of set] by simp
  have "set (pairs_below (min n 8)) \<union> set (pairs_below n) = set (pairs_below n)" by (auto simp: set_pairs_below)
  then show ?thesis
    using switch_links_ends [of "nvlinks_below t (min n 8)" t "pairs_below n"]
    by (simp add: node_links_def Let_def nvlinks_ends distinct_pairs_below set)
qed

definition topology_ok :: "gpu_topology \<Rightarrow> bool" where
  "topology_ok g \<longleftrightarrow> distinct (map link_ends (gy_links g))
     \<and> link_ends ` set (gy_links g) = (if gy_nvlink_per_gpu g \<le> 0 then {}
         else {(i, j). 0 \<le> i \<and> i < j \<and> j < (if gy_nvswitch_present g then gy_gpu_count g else min (gy_gpu_count g) 8)})"

lemma topology_fold:
  assumes "list_all topology_ok (ny_nodes y)"
  shows "list_all topology_ok (ny_nodes (fold topology_step ns y))
    \<and> map gy_node_name (ny_nodes (fold topology_step ns y))
        = map gy_node_name (ny_nodes y) @ map sn_node_name (filter (\<lambda>n. sn_gpu_count n \<noteq> 0) ns)"
  using assms
proof (induction ns arbitrary: y)
  case (Cons n ns)
  have "topology_ok \<lparr>gy_node_name = nm, gy_gpu_count = k, gy_gpu_model = m, gy_nvswitch_present = sw,
      gy_nvlink_per_gpu = mt_nvlinks t, gy_links = node_links t sw k, gy_numa_affinity = a\<rparr>" for nm k m sw t a
    using node_links_ends [of t sw k] by (simp add: topology_ok_def set_pairs_below)
  then have "list_all topology_ok (ny_nodes (topology_step n y))"
    using Cons.prems by (simp add: topology_step_def Let_def)
  moreover have "map gy_node_name (ny_nodes (topology_step n y))
      = map gy_node_name (ny_nodes y) @ (if sn_gpu_count n \<noteq> 0 then [sn_node_name n] else [])"
    by (simp add: topology_step_def Let_def)
  ultimately show ?case using Cons.IH [of "topology_step n y"] by simp
qed simp

text \<open>
  The topology: every node with GPUs has one entry, in order, whose links join each pair of GPUs at
  most once and exactly the pairs below eight GPUs, or all pairs when the entry has an NVSwitch; a
  node whose model has no links has none.
\<close>

theorem topology_links:
  "map gy_node_name (ny_nodes (detect_topology ns)) = map sn_node_name (filter (\<lambda>n. sn_gpu_count n \<noteq> 0) ns)
   \<and> list_all (\<lambda>g.
        distinct (map link_ends (gy_links g))
        \<and> (if gy_nvlink_per_gpu g \<le> 0 then gy_links g = []
           else link_ends ` set (gy_links g)
             = {(i, j). 0 \<le> i \<and> i < j \<and> j < (if gy_nvswitch_present g then gy_gpu_count g else min (gy_gpu_count g) 8)}))
       (ny_nodes (detect_topology ns))"
  using topology_fold [of "\<lparr>ny_nodes = [], ny_cross_node_bandwidth_gb_per_sec = 50, ny_has_nvswitch = False,
    ny_recommended_dp_group_size = 8, ny_recommended_tp_group_size = 8\<rparr>" ns]
  by (auto simp: detect_topology_def list_all_iff topology_ok_def)

text \<open>\<open>has_nvswitch\<close> is not reset: a V100 node behind an H100 node counts as having a switch.\<close>

definition bare_slurm_node :: "string \<Rightarrow> string \<Rightarrow> slurm_node" where
  "bare_slurm_node name model =
     \<lparr>sn_node_name = name, sn_state = ''idle'', sn_partitions = [], sn_cpu_count = 8, sn_memory_mb = 1024, sn_gpu_count = 2,
      sn_gpu_model = model, sn_features = [], sn_weight = 1\<rparr>"

lemma switch_leaks:
  "map gy_nvswitch_present (ny_nodes (detect_topology [bare_slurm_node ''n1'' ''v100'', bare_slurm_node ''n2'' ''h100'',
     bare_slurm_node ''n3'' ''v100''])) = [False, True, True]"
  by code_simp

subsection \<open>Stopped monitors\<close>

interpretation history_log: bounded_log "trim_history (int (Suc n))" "Suc n" for n
proof -
  have "trim_history (int (Suc n)) = append_bounded (Suc n)"
    by (intro ext) (simp only: trim_history_def append_bounded_def of_nat_less_iff)
  then show "bounded_log (trim_history (int (Suc n))) (Suc n)" using append_bounded_log [of "Suc n"] by simp
qed

datatype monitor_op =
    MnStart int monitor_config
  | MnStop int
  | MnTurn slurm_source datetime int monitor_config

fun monitor_step :: "monitor_op \<Rightarrow> monitors \<Rightarrow> monitors" where
  "monitor_step (MnStart j c) s = (case start_job_monitor j c s of Inl _ \<Rightarrow> s | Inr t \<Rightarrow> t)"
| "monitor_step (MnStop j) s = (case stop_job_monitor j s of Inl _ \<Rightarrow> s | Inr t \<Rightarrow> t)"
| "monitor_step (MnTurn src now j c) s = monitor_turn src now j c s"

definition stopped :: "int \<Rightarrow> monitors \<Rightarrow> bool" where
  "stopped j s \<longleftrightarrow> dict_get (mo_threads s) j = Some None \<and> dict_get (mo_configs s) j = None"

lemma poll_frame:
  assumes "poll_job src now k c s = Inr t"
  shows "mo_threads t = mo_threads s" and "mo_configs t = mo_configs s"
    and "j \<noteq> k \<Longrightarrow> dict_get (mo_histories t) j = dict_get (mo_histories s) j"
proof -
  obtain st used where acct: "acct_state src k = (st, used)" by fastforce
  obtain p q where jobs: "get_jobs src = Inr (p, q)"
    using assms acct by (cases "get_jobs src") (auto simp: poll_job_def)
  have "mo_threads t = mo_threads s \<and> mo_configs t = mo_configs s
      \<and> (j \<noteq> k \<longrightarrow> dict_get (mo_histories t) j = dict_get (mo_histories s) j)"
  proof (cases "dict_get (mo_histories s) k")
    case None
    then have "t = s" using assms by (simp add: poll_job_def acct jobs)
    then show ?thesis by simp
  next
    case (Some h)
    then obtain snap where "t = s\<lparr>mo_histories := dict_set k (trim_history (mg_max_history_points c) snap h) (mo_histories s)\<rparr>"
      using assms unfolding poll_job_def acct jobs by (simp add: Let_def) blast
    then show ?thesis by simp
  qed
  then show "mo_threads t = mo_threads s" and "mo_configs t = mo_configs s"
    and "j \<noteq> k \<Longrightarrow> dict_get (mo_histories t) j = dict_get (mo_histories s) j"
    by blast+
qed

text \<open>What a turn of a monitor leaves: the configurations, and all but its own thread and history.\<close>

lemma turn_frame:
  "mo_configs (monitor_turn src now k c s) = mo_configs s"
  "j \<noteq> k \<or> dict_get (mo_configs s) k = None \<Longrightarrow>
     dict_get (mo_threads (monitor_turn src now k c s)) j = dict_get (mo_threads s) j
     \<and> dict_get (mo_histories (monitor_turn src now k c s)) j = dict_get (mo_histories s) j"
proof -
  define t where "t = (case poll_job src now k c s of Inl _ \<Rightarrow> s | Inr t \<Rightarrow> t)"
  have t: "mo_threads t = mo_threads s" "mo_configs t = mo_configs s"
    "j \<noteq> k \<Longrightarrow> dict_get (mo_histories t) j = dict_get (mo_histories s) j"
  proof -
    have "mo_threads t = mo_threads s \<and> mo_configs t = mo_configs s
        \<and> (j \<noteq> k \<longrightarrow> dict_get (mo_histories t) j = dict_get (mo_histories s) j)"
    proof (cases "poll_job src now k c s")
      case (Inr v)
      then have "t = v" by (simp add: t_def)
      then show ?thesis using poll_frame [OF Inr] by simp
    qed (simp add: t_def)
    then show "mo_threads t = mo_threads s" "mo_configs t = mo_configs s"
      "j \<noteq> k \<Longrightarrow> dict_get (mo_histories t) j = dict_get (mo_histories s) j" by blast+
  qed
  have turn: "monitor_turn src now k c s =
      (if \<not> dict_has (mo_configs s) k then s
       else if mg_poll_interval_seconds c < 0
       then t\<lparr>mo_threads := (case dict_get (mo_threads t) k of Some (Some _) \<Rightarrow> dict_set k (Some Ended) (mo_threads t)
                              | _ \<Rightarrow> mo_threads t)\<rparr>
       else t)"
    unfolding monitor_turn_def t_def Let_def ..
  show "mo_configs (monitor_turn src now k c s) = mo_configs s" by (simp add: turn t(2))
  show "j \<noteq> k \<or> dict_get (mo_configs s) k = None \<Longrightarrow>
     dict_get (mo_threads (monitor_turn src now k c s)) j = dict_get (mo_threads s) j
     \<and> dict_get (mo_histories (monitor_turn src now k c s)) j = dict_get (mo_histories s) j"
    using t by (auto simp: turn dict_has_def split: option.split)
qed

definition frozen :: "int \<Rightarrow> job_snapshot list \<Rightarrow> monitors \<Rightarrow> bool" where
  "frozen j h s \<longleftrightarrow> stopped j s \<and> get_job_history j s = h"

interpretation stopped_machine: invariant_machine monitor_step "\<lambda>_ _. True" "frozen j h" for j h
proof
  fix s x assume f: "frozen j h s"
  have st: "dict_get (mo_threads s) j = Some None" "dict_get (mo_configs s) j = None" "get_job_history j s = h"
    using f by (simp_all add: frozen_def stopped_def)
  show "frozen j h (monitor_step x s)"
  proof (cases x)
    case (MnStart k c)
    then show ?thesis using st
      by (cases "k = j") (auto simp: start_job_monitor_def begin_monitor_def frozen_def stopped_def get_job_history_def
          split: option.split thread_state.split)
  next
    case (MnStop k)
    then show ?thesis using st
      by (cases "k = j") (auto simp: stop_job_monitor_def dict_has_def frozen_def stopped_def get_job_history_def)
  next
    case (MnTurn src now k c)
    have "j \<noteq> k \<or> dict_get (mo_configs s) k = None" using st(2) by auto
    from turn_frame(2) [OF this, of src now c] turn_frame(1) [of src now k c s] st MnTurn
    show ?thesis by (simp add: frozen_def stopped_def get_job_history_def dict_get_or_def)
  qed
qed

text \<open>
  A monitor that was stopped is dead: whatever is started, stopped or polled after its stop, its
  history stays as it is, and every attempt to start it again raises \<open>AttributeError\<close>, every attempt
  to stop it again \<open>KeyError\<close>.
\<close>

theorem stopped_monitor_dead:
  assumes "stop_job_monitor j s = Inr t" and "dict_has (mo_threads s) j" and "u = fold monitor_step ops t"
  shows "get_job_history j u = get_job_history j s
    \<and> (\<forall>c. \<exists>m. start_job_monitor j c u = Inl (AttributeError m)) \<and> stop_job_monitor j u = Inl (KeyError (int_str j))"
proof -
  have "frozen j (get_job_history j s) t"
    using assms(1,2) by (auto simp: stop_job_monitor_def frozen_def stopped_def get_job_history_def split: if_splits)
  moreover have "run_allowed monitor_step (\<lambda>_ _. True) xs v" for xs v by (induction xs arbitrary: v) auto
  ultimately have "frozen j (get_job_history j s) u" using stopped_machine.run_inv assms(3) by blast
  then show ?thesis by (simp add: frozen_def stopped_def start_job_monitor_def stop_job_monitor_def dict_has_def)
qed

subsection \<open>Samples\<close>

definition sample_config :: monitor_config where
  "sample_config = \<lparr>mg_job_id = 7, mg_poll_interval_seconds = 30, mg_max_history_points = 1000, mg_alert_on_completion = True,
                    mg_alert_on_failure = True, mg_alert_on_stall = True, mg_stall_threshold_minutes = 10\<rparr>"

theorem stopped_monitor_dead_witness:
  "stop_job_monitor 7 (fold monitor_step [MnStart 7 sample_config, MnStart 8 sample_config] (begin_monitor 7 sample_config no_monitors))
     \<noteq> Inl (KeyError ''7'')
   \<and> (\<exists>m. start_job_monitor 7 sample_config (fold monitor_step [MnStart 7 sample_config]
            (no_monitors\<lparr>mo_threads := [(7, None)], mo_histories := [(7, [])]\<rparr>)) = Inl (AttributeError m))"
proof -
  have stop: "stop_job_monitor 7 (begin_monitor 7 sample_config no_monitors)
      = Inr (no_monitors\<lparr>mo_threads := [(7, None)], mo_histories := [(7, [])]\<rparr>)"
    by (simp add: stop_job_monitor_def begin_monitor_def no_monitors_def dict_has_def)
  have "dict_has (mo_threads (begin_monitor 7 sample_config no_monitors)) 7" by (simp add: begin_monitor_def dict_has_def)
  from stopped_monitor_dead [OF stop this refl]
  have "\<exists>m. start_job_monitor 7 sample_config (fold monitor_step [MnStart 7 sample_config]
            (no_monitors\<lparr>mo_threads := [(7, None)], mo_histories := [(7, [])]\<rparr>)) = Inl (AttributeError m)"
    by blast
  then show ?thesis by (simp add: stop_job_monitor_def start_job_monitor_def begin_monitor_def no_monitors_def dict_has_def)
qed




end
