(* ===== verification/WatchCache.thy ===== *)
theory WatchCache
  imports Prelude
begin

text \<open>
  Watching resources: \<open>ResourceCache\<close> and \<open>WatchManager\<close> of src/src/gpuopt/watch_stream.py and the
  \<open>ConnectionManager\<close> of src/src/gpuopt/streaming.py. A resource's data is a dictionary of JSON values;
  the cache's copy and the one in its history are equal, since nothing changes them in place. Callbacks
  and sockets are identifiers: \<open>notify\<close> gives the callbacks it calls, and which sockets still accept a
  message is an argument of \<open>broadcast\<close>. The clock is the text \<open>now\<close>.
\<close>

subsection \<open>The cache\<close>

type_synonym data = "(string, json) dict"

record watch_event =
  we_event_type :: string
  we_resource_type :: string
  we_resource_id :: json
  we_resource_version :: int
  we_data :: data
  we_timestamp :: string

record cache =
  ca_cache :: "(string, data) dict"
  ca_versions :: "(string, (int \<times> data) list) dict"
  ca_max_versions :: int
  ca_current_version :: int

definition new_cache :: "int \<Rightarrow> cache" where
  "new_cache m = \<lparr>ca_cache = [], ca_versions = [], ca_max_versions = m, ca_current_version = 0\<rparr>"

definition resource_key :: "string \<Rightarrow> string \<Rightarrow> string" where
  "resource_key t i = t @ '':'' @ i"

definition keep_newest :: "int \<Rightarrow> 'a list \<Rightarrow> 'a list" where
  "keep_newest m vs = (if m < int (length vs) then slice_last m vs else vs)"

definition cache_set :: "string \<Rightarrow> string \<Rightarrow> string \<Rightarrow> data \<Rightarrow> cache \<Rightarrow> cache \<times> watch_event" where
  "cache_set now t i d c =
     (let v = ca_current_version c + 1; key = resource_key t i;
          vs = dict_get_or (ca_versions c) key [] @ [(v, d)]
      in (c\<lparr>ca_current_version := v, ca_cache := dict_set key d (ca_cache c),
            ca_versions := dict_set key (keep_newest (ca_max_versions c) vs) (ca_versions c)\<rparr>,
          \<lparr>we_event_type = ''UPDATED'', we_resource_type = t, we_resource_id = JStr i, we_resource_version = v, we_data = d,
           we_timestamp = now\<rparr>))"

definition cache_delete :: "string \<Rightarrow> string \<Rightarrow> string \<Rightarrow> cache \<Rightarrow> cache \<times> watch_event option" where
  "cache_delete now t i c =
     (let key = resource_key t i in
      if \<not> dict_has (ca_cache c) key then (c, None)
      else (let v = ca_current_version c + 1 in
        (c\<lparr>ca_current_version := v, ca_cache := dict_pop key (ca_cache c)\<rparr>,
         Some \<lparr>we_event_type = ''DELETED'', we_resource_type = t, we_resource_id = JStr i, we_resource_version = v,
               we_data = [], we_timestamp = now\<rparr>)))"

definition cache_get :: "string \<Rightarrow> string \<Rightarrow> cache \<Rightarrow> data option" where
  "cache_get t i c = dict_get (ca_cache c) (resource_key t i)"

definition cache_list :: "string \<Rightarrow> cache \<Rightarrow> data list" where
  "cache_list t c = map snd (filter (\<lambda>(k, _). starts_with (t @ '':'') k) (ca_cache c))"

definition type_of_key :: "string \<Rightarrow> string" where
  "type_of_key k = takeWhile (\<lambda>ch. ch \<noteq> CHR '':'') k"

definition list_all_types :: "cache \<Rightarrow> (string, data list) dict" where
  "list_all_types c =
     fold (\<lambda>(k, d) r. dict_set (type_of_key k) (dict_get_or r (type_of_key k) [] @ [d]) r) (ca_cache c) []"

definition get_resource_version :: "string \<Rightarrow> string \<Rightarrow> cache \<Rightarrow> int" where
  "get_resource_version t i c =
     (case dict_get_or (ca_versions c) (resource_key t i) [] of [] \<Rightarrow> 0 | v # vs \<Rightarrow> fst (last (v # vs)))"

definition updated :: "string \<Rightarrow> string \<Rightarrow> string \<Rightarrow> int \<times> data \<Rightarrow> watch_event" where
  "updated now t i = (\<lambda>(v, d).
     \<lparr>we_event_type = ''UPDATED'', we_resource_type = t, we_resource_id = JStr i, we_resource_version = v, we_data = d,
      we_timestamp = now\<rparr>)"

definition changes_of :: "string \<Rightarrow> string \<Rightarrow> int \<Rightarrow> string \<times> (int \<times> data) list \<Rightarrow> watch_event list" where
  "changes_of now t since = (\<lambda>(k, vs).
     if \<not> starts_with (t @ '':'') k then []
     else map (updated now t (drop (length t + 1) k)) (filter (\<lambda>(v, _). since < v) vs))"

definition get_changes_since :: "string \<Rightarrow> string \<Rightarrow> int \<Rightarrow> cache \<Rightarrow> watch_event list" where
  "get_changes_since now t since c =
     sorted_by we_resource_version (concat (map (changes_of now t since) (ca_versions c)))"

definition cache_size :: "cache \<Rightarrow> int" where
  "cache_size c = int (length (ca_cache c))"

definition cache_clear :: "cache \<Rightarrow> cache" where
  "cache_clear c = c\<lparr>ca_cache := [], ca_versions := [], ca_current_version := 0\<rparr>"

subsection \<open>The manager\<close>

definition initial_event :: "string \<Rightarrow> string \<Rightarrow> data \<Rightarrow> watch_event" where
  "initial_event now t d =
     \<lparr>we_event_type = ''INITIAL'', we_resource_type = t, we_resource_id = dict_get_or d ''id'' (JStr []), we_resource_version = 0,
      we_data = d, we_timestamp = now\<rparr>"

definition watch :: "string \<Rightarrow> string \<Rightarrow> int \<Rightarrow> cache \<Rightarrow> watch_event list" where
  "watch now t rv c = (if rv = 0 then map (initial_event now t) (cache_list t c) else get_changes_since now t rv c)"

definition watch_all :: "string \<Rightarrow> int \<Rightarrow> cache \<Rightarrow> watch_event list" where
  "watch_all now rv c =
     (if rv = 0 then concat (map (\<lambda>(t, ds). map (initial_event now t) ds) (list_all_types c))
      else sorted_by we_resource_version (concat (map (\<lambda>(t, _). get_changes_since now t rv c) (list_all_types c))))"

type_synonym 'c clients = "(string, 'c list) dict"

definition subscribe :: "uuid \<Rightarrow> string \<Rightarrow> 'c \<Rightarrow> 'c clients \<Rightarrow> 'c clients \<times> uuid" where
  "subscribe new t cb cl = (dict_set t (dict_get_or cl t [] @ [cb]) cl, new)"

text \<open>The callbacks that are called; one that raises is logged and the next one called.\<close>

definition notify :: "watch_event \<Rightarrow> 'c clients \<Rightarrow> 'c list" where
  "notify e cl = dict_get_or cl (we_resource_type e) [] @ dict_get_or cl ''*'' []"

text \<open>A source that raises before it returns leaves the cache as it is.\<close>

definition resync :: "string \<Rightarrow> py_error + (string \<times> string \<times> data) list \<Rightarrow> cache \<Rightarrow> cache \<times> int" where
  "resync now src c =
     (case src of Inl _ \<Rightarrow> (c, 0)
      | Inr items \<Rightarrow> (fold (\<lambda>(t, i, d) c. fst (cache_set now t i d c)) items c, int (length items)))"

subsection \<open>Connections\<close>

record 'w connections =
  co_connections :: "(string, 'w set) dict"
  co_user_connections :: "(string, 'w set) dict"

definition no_connections :: "'w connections" where
  "no_connections = \<lparr>co_connections = [], co_user_connections = []\<rparr>"

definition socket_add :: "string \<Rightarrow> 'w \<Rightarrow> (string, 'w set) dict \<Rightarrow> (string, 'w set) dict" where
  "socket_add k w m = dict_set k (insert w (dict_get_or m k {})) m"

text \<open>Discard a socket, and the entry when no socket is left in it.\<close>

definition socket_discard :: "string \<Rightarrow> 'w \<Rightarrow> (string, 'w set) dict \<Rightarrow> (string, 'w set) dict" where
  "socket_discard k w m =
     (case dict_get m k of None \<Rightarrow> m
      | Some ws \<Rightarrow> if ws - {w} = {} then dict_pop k m else dict_set k (ws - {w}) m)"

definition connect :: "'w \<Rightarrow> string \<Rightarrow> string \<Rightarrow> 'w connections \<Rightarrow> 'w connections" where
  "connect w ch user s =
     (let s' = s\<lparr>co_connections := socket_add ch w (co_connections s)\<rparr>
      in if user \<noteq> [] then s'\<lparr>co_user_connections := socket_add user w (co_user_connections s')\<rparr> else s')"

definition disconnect :: "'w \<Rightarrow> string \<Rightarrow> string \<Rightarrow> 'w connections \<Rightarrow> 'w connections" where
  "disconnect w ch user s =
     (let s' = s\<lparr>co_connections := socket_discard ch w (co_connections s)\<rparr>
      in if user \<noteq> [] then s'\<lparr>co_user_connections := socket_discard user w (co_user_connections s')\<rparr> else s')"

text \<open>Send to every socket of an entry; those that fail are discarded, the entry stays.\<close>

definition send_all :: "('w \<Rightarrow> bool) \<Rightarrow> string \<Rightarrow> (string, 'w set) dict \<Rightarrow> (string, 'w set) dict \<times> nat" where
  "send_all ok k m =
     (case dict_get m k of None \<Rightarrow> (m, 0)
      | Some ws \<Rightarrow> (dict_set k {w \<in> ws. ok w} m, card {w \<in> ws. ok w}))"

definition broadcast :: "('w \<Rightarrow> bool) \<Rightarrow> string \<Rightarrow> 'w connections \<Rightarrow> 'w connections \<times> nat" where
  "broadcast ok ch s =
     (let (m, n) = send_all ok ch (co_connections s) in (s\<lparr>co_connections := m\<rparr>, n))"

definition send_to_user :: "('w \<Rightarrow> bool) \<Rightarrow> string \<Rightarrow> 'w connections \<Rightarrow> 'w connections \<times> nat" where
  "send_to_user ok user s =
     (let (m, n) = send_all ok user (co_user_connections s) in (s\<lparr>co_user_connections := m\<rparr>, n))"

definition active_connections :: "'w connections \<Rightarrow> nat" where
  "active_connections s = sum_list (map (\<lambda>(_, ws). card ws) (co_connections s))"

subsection \<open>Runs of a cache\<close>

datatype cache_op = CacheSet string string string data | CacheDelete string string string

fun cache_step :: "cache_op \<Rightarrow> cache \<Rightarrow> cache" where
  "cache_step (CacheSet now t i d) c = fst (cache_set now t i d c)"
| "cache_step (CacheDelete now t i) c = fst (cache_delete now t i c)"

text \<open>Histories are in order and hold, last, what the cache holds.\<close>

definition history_ok :: "int \<Rightarrow> (int \<times> data) list \<Rightarrow> bool" where
  "history_ok cur vs \<longleftrightarrow> vs \<noteq> [] \<and> sorted_wrt (<) (map fst vs) \<and> fst (last vs) \<le> cur"

definition cache_ok :: "cache \<Rightarrow> bool" where
  "cache_ok c \<longleftrightarrow> dict_ok (ca_versions c) \<and> 0 \<le> ca_max_versions c
     \<and> (\<forall>k vs. dict_get (ca_versions c) k = Some vs \<longrightarrow> history_ok (ca_current_version c) vs)
     \<and> (\<forall>k d. dict_get (ca_cache c) k = Some d \<longrightarrow> (\<exists>vs. dict_get (ca_versions c) k = Some vs \<and> snd (last vs) = d))"

text \<open>What may have changed since a version: whatever was not set since is as it was, or gone.\<close>

definition unchanged_since :: "cache \<Rightarrow> cache \<Rightarrow> bool" where
  "unchanged_since c c' \<longleftrightarrow> ca_current_version c \<le> ca_current_version c' \<and>
     (\<forall>k vs. dict_get (ca_versions c') k = Some vs \<and> fst (last vs) \<le> ca_current_version c
        \<longrightarrow> dict_get (ca_cache c') k \<in> {None, dict_get (ca_cache c) k})"

lemma keep_newest_suffix: "0 \<le> m \<Longrightarrow> \<exists>dropped. vs @ [x] = dropped @ keep_newest m (vs @ [x]) \<and> keep_newest m (vs @ [x]) \<noteq> []"
proof (cases "m < int (length (vs @ [x])) \<and> 0 < m")
  case True
  then have k: "keep_newest m (vs @ [x]) = drop (length (vs @ [x]) - nat m) (vs @ [x])"
    by (simp add: keep_newest_def slice_last_def)
  have "length (vs @ [x]) - nat m < length (vs @ [x])" using True by auto
  then have "drop (length (vs @ [x]) - nat m) (vs @ [x]) \<noteq> []" by simp
  moreover have "vs @ [x] = take (length (vs @ [x]) - nat m) (vs @ [x]) @ drop (length (vs @ [x]) - nat m) (vs @ [x])"
    by (rule append_take_drop_id [symmetric])
  ultimately show ?thesis unfolding k by blast
next
  case False
  moreover assume "0 \<le> m"
  ultimately have "keep_newest m (vs @ [x]) = vs @ [x]" by (auto simp: keep_newest_def slice_last_def)
  then show ?thesis by simp
qed

lemma keep_newest_last: "0 \<le> m \<Longrightarrow> last (keep_newest m (vs @ [x])) = x"
  by (metis keep_newest_suffix last_appendR last_snoc)

lemma last_is_newest: "sorted_wrt (<) (map fst vs) \<Longrightarrow> x \<in> set vs \<Longrightarrow> fst x \<le> (fst (last vs) :: int)"
  by (induction vs rule: rev_induct) (auto simp: sorted_wrt_append less_imp_le)

lemma history_ok_push:
  assumes "vs = [] \<or> history_ok cur vs" and "0 \<le> m"
  shows "history_ok (cur + 1) (keep_newest m (vs @ [(cur + 1, d)]))"
proof -
  obtain dropped where d: "vs @ [(cur + 1, d)] = dropped @ keep_newest m (vs @ [(cur + 1, d)])"
    and ne: "keep_newest m (vs @ [(cur + 1, d)]) \<noteq> []"
    using keep_newest_suffix [OF assms(2), of vs "(cur + 1, d)"] by (elim exE conjE) (rule that)
  have "fst x \<le> cur" if x: "x \<in> set vs" for x
  proof -
    have "history_ok cur vs" using assms(1) x by auto
    then show ?thesis using last_is_newest [of vs x] x by (simp add: history_ok_def)
  qed
  then have "sorted_wrt (<) (map fst (vs @ [(cur + 1, d)]))"
    using assms(1) by (auto simp: sorted_wrt_append history_ok_def)
  moreover have "map fst (vs @ [(cur + 1, d)]) = map fst dropped @ map fst (keep_newest m (vs @ [(cur + 1, d)]))"
    by (simp only: map_append [symmetric] d [symmetric])
  ultimately have "sorted_wrt (<) (map fst (keep_newest m (vs @ [(cur + 1, d)])))"
    by (simp only: sorted_wrt_append)
  then show ?thesis using ne keep_newest_last [OF assms(2), of vs "(cur + 1, d)"] by (simp add: history_ok_def)
qed

lemma history_ok_later: "history_ok cur vs \<Longrightarrow> cur \<le> cur' \<Longrightarrow> history_ok cur' vs"
  by (simp add: history_ok_def)

lemma set_keeps:
  assumes "cache_ok c"
  shows "cache_ok (fst (cache_set now t i d c))" and "unchanged_since b c \<Longrightarrow> unchanged_since b (fst (cache_set now t i d c))"
proof -
  define key where "key = resource_key t i"
  define vs where "vs = keep_newest (ca_max_versions c) (dict_get_or (ca_versions c) key [] @ [(ca_current_version c + 1, d)])"
  have set: "fst (cache_set now t i d c) = c\<lparr>ca_current_version := ca_current_version c + 1, ca_cache := dict_set key d (ca_cache c),
      ca_versions := dict_set key vs (ca_versions c)\<rparr>"
    by (simp add: cache_set_def key_def vs_def Let_def)
  have "dict_get_or (ca_versions c) key [] = [] \<or> history_ok (ca_current_version c) (dict_get_or (ca_versions c) key [])"
    using assms by (auto simp: cache_ok_def dict_get_or_def split: option.split)
  then have vs: "history_ok (ca_current_version c + 1) vs"
    unfolding vs_def by (rule history_ok_push) (use assms in \<open>simp add: cache_ok_def\<close>)
  have last: "last vs = (ca_current_version c + 1, d)"
    unfolding vs_def by (rule keep_newest_last) (use assms in \<open>simp add: cache_ok_def\<close>)
  show "cache_ok (fst (cache_set now t i d c))"
    using assms vs last history_ok_later [of "ca_current_version c" _ "ca_current_version c + 1"]
    unfolding set cache_ok_def by auto
  show "unchanged_since b (fst (cache_set now t i d c))" if "unchanged_since b c"
    using that last unfolding set unchanged_since_def by auto
qed

lemma delete_keeps:
  "cache_ok c \<Longrightarrow> cache_ok (fst (cache_delete now t i c))"
  "unchanged_since b c \<Longrightarrow> unchanged_since b (fst (cache_delete now t i c))"
proof -
  show "cache_ok c \<Longrightarrow> cache_ok (fst (cache_delete now t i c))"
    using history_ok_later [of "ca_current_version c" _ "ca_current_version c + 1"]
    by (auto simp: cache_delete_def cache_ok_def Let_def)
  show "unchanged_since b c \<Longrightarrow> unchanged_since b (fst (cache_delete now t i c))"
    by (auto simp: cache_delete_def unchanged_since_def Let_def)
qed

interpretation cache_machine: invariant_machine cache_step "\<lambda>_ _. True" "\<lambda>c. cache_ok c \<and> unchanged_since b c" for b
proof
  fix c x assume "cache_ok c \<and> unchanged_since b c"
  then show "cache_ok (cache_step x c) \<and> unchanged_since b (cache_step x c)"
    by (cases x) (simp_all add: set_keeps delete_keeps)
qed

lemma run_any: "run_allowed step (\<lambda>_ _. True) xs s"
  by (induction xs arbitrary: s) auto

lemma cache_run: "cache_ok c \<Longrightarrow> cache_ok (fold cache_step ops c) \<and> unchanged_since c (fold cache_step ops c)"
  using cache_machine.run_inv [OF run_any, of c c ops] by (simp add: unchanged_since_def)

subsection \<open>Catching up\<close>

text \<open>What a watcher makes of the changes it receives: the last data seen for each identifier.\<close>

definition see :: "watch_event \<Rightarrow> (string \<Rightarrow> data option) \<Rightarrow> string \<Rightarrow> data option" where
  "see e view = (case we_resource_id e of JStr i \<Rightarrow> view(i \<mapsto> we_data e) | _ \<Rightarrow> view)"

lemma replay_at:
  "fold see es view i = (let fs = filter (\<lambda>e. we_resource_id e = JStr i) es in if fs = [] then view i else Some (we_data (last fs)))"
proof (induction es rule: rev_induct)
  case (snoc e es)
  then show ?case
    by (cases "we_resource_id e") (auto simp: see_def Let_def)
qed simp

lemma concat_dict:
  assumes "dict_ok d" and "\<And>k' v. k' \<noteq> k \<Longrightarrow> g (k', v) = []"
  shows "concat (map g d) = (case dict_get d k of None \<Rightarrow> [] | Some v \<Rightarrow> g (k, v))"
  using assms(1)
proof (induction d)
  case (Cons kv d)
  have rest: "concat (map g e) = []" if "k \<notin> fst ` set e" for e using that assms(2) by (induction e) force+
  show ?case
  proof (cases "fst kv = k")
    case True
    then show ?thesis using Cons.prems rest [of d] by (cases kv) (auto simp: dict_ok_def)
  next
    case False
    then show ?thesis using Cons assms(2) by (cases kv) (auto simp: dict_ok_def)
  qed
qed simp

lemma key_parts: "starts_with (t @ '':'') k \<and> drop (length t + 1) k = i \<longleftrightarrow> k = resource_key t i"
proof
  assume k: "starts_with (t @ '':'') k \<and> drop (length t + 1) k = i"
  then have "k = take (length t + 1) k @ i" by (metis append_take_drop_id)
  moreover have "take (length t + 1) k = t @ '':''" using k by (simp add: starts_with_def)
  ultimately show "k = resource_key t i" by (simp add: resource_key_def)
qed (simp add: resource_key_def starts_with_def)

text \<open>The changes of one identifier are the newer part of its history, in order.\<close>

lemma changes_for:
  assumes "cache_ok c"
  shows "filter (\<lambda>e. we_resource_id e = JStr i) (get_changes_since now t since c)
    = (case dict_get (ca_versions c) (resource_key t i) of None \<Rightarrow> []
       | Some vs \<Rightarrow> map (updated now t i) (filter (\<lambda>x. since < fst x) vs))"
proof -
  let ?P = "\<lambda>e. we_resource_id e = JStr i"
  have part: "filter ?P (changes_of now t since (k, vs))
      = (if k = resource_key t i then map (updated now t i) (filter (\<lambda>x. since < fst x) vs) else [])" for k vs
  proof -
    have id: "we_resource_id (updated now t j x) = JStr j" for j x by (cases x) (simp add: updated_def)
    have "filter ?P (map (updated now t j) xs) = (if j = i then map (updated now t i) xs else [])" for j xs
      by (induction xs) (auto simp: id)
    then show ?thesis using key_parts [of t k i] by (auto simp: changes_of_def case_prod_unfold)
  qed
  have "filter ?P (concat (map (changes_of now t since) (ca_versions c)))
      = concat (map (\<lambda>kv. filter ?P (changes_of now t since kv)) (ca_versions c))"
    by (simp add: filter_concat comp_def)
  also have "\<dots> = (case dict_get (ca_versions c) (resource_key t i) of None \<Rightarrow> []
       | Some vs \<Rightarrow> map (updated now t i) (filter (\<lambda>x. since < fst x) vs))" (is "_ = ?es")
    using assms by (subst concat_dict [where k = "resource_key t i"]) (auto simp: part cache_ok_def split: option.split)
  finally have es: "filter ?P (concat (map (changes_of now t since) (ca_versions c))) = ?es" .
  have "sorted (map we_resource_version ?es)"
  proof (cases "dict_get (ca_versions c) (resource_key t i)")
    case (Some vs)
    then have "sorted_wrt (<) (map fst vs)" using assms by (auto simp: cache_ok_def history_ok_def)
    then have "sorted (map fst (filter (\<lambda>x. since < fst x) vs))" by (simp add: sorted_filter strict_sorted_imp_sorted)
    moreover have "we_resource_version \<circ> updated now t i = fst" by (auto simp: updated_def)
    ultimately show ?thesis using Some by simp
  qed simp
  then show ?thesis by (simp add: get_changes_since_def sorted_by_def filter_sort es sort_key_id_if_sorted)
qed

text \<open>
  C33: catching up: a watcher that knows every resource of a type at one version and then applies the
  changes since that version, however many sets and deletions lie between, knows the current data of
  every resource that exists; the changes come in order and are newer. A deletion adds no change.
\<close>

theorem watch_catches_up:
  assumes "0 \<le> m" and "c = fold cache_step before (new_cache m)" and "c' = fold cache_step after c"
  shows "(cache_get t i c' = Some d
        \<longrightarrow> fold see (get_changes_since now t (ca_current_version c) c') (\<lambda>j. cache_get t j c) i = Some d)
      \<and> sorted (map we_resource_version (get_changes_since now t since c'))
      \<and> list_all (\<lambda>e. since < we_resource_version e) (get_changes_since now t since c')
      \<and> get_changes_since now t since (fst (cache_delete clock u j c')) = get_changes_since now t since c'"
proof -
  have "cache_ok (new_cache m)" using assms(1) by (simp add: cache_ok_def new_cache_def)
  then have "cache_ok c" using cache_run assms(2) by simp
  then have c': "cache_ok c'" "unchanged_since c c'" using cache_run assms(3) by auto
  have "fold see (get_changes_since now t (ca_current_version c) c') (\<lambda>j. cache_get t j c) i = Some d"
    if d: "cache_get t i c' = Some d"
  proof -
    obtain vs where vs: "dict_get (ca_versions c') (resource_key t i) = Some vs" "snd (last vs) = d" "history_ok (ca_current_version c') vs"
      using d c'(1) unfolding cache_get_def cache_ok_def by metis
    let ?new = "filter (\<lambda>x. ca_current_version c < fst x) vs"
    have seen: "fold see (get_changes_since now t (ca_current_version c) c') (\<lambda>j. cache_get t j c) i
        = (if ?new = [] then cache_get t i c else Some (we_data (last (map (updated now t i) ?new))))"
      by (simp add: replay_at changes_for [OF c'(1)] vs(1))
    show ?thesis
    proof (cases "fst (last vs) \<le> ca_current_version c")
      case True
      have "\<forall>x \<in> set vs. fst x \<le> fst (last vs)"
        using vs(3) last_is_newest by (auto simp: history_ok_def)
      then have "?new = []" using True by (auto simp: filter_empty_conv)
      moreover have "cache_get t i c = Some d"
        using c'(2) vs(1) True d unfolding unchanged_since_def cache_get_def by fastforce
      ultimately show ?thesis using seen by simp
    next
      case False
      then have new: "?new = filter (\<lambda>x. ca_current_version c < fst x) (butlast vs) @ [last vs]"
        using False vs(3) append_butlast_last_id [of vs] filter_append [of "\<lambda>x. ca_current_version c < fst x" "butlast vs" "[last vs]"]
        by (simp add: history_ok_def)
      have "we_data (updated now t i (last vs)) = d" using vs(2) by (simp add: updated_def case_prod_unfold)
      then show ?thesis using seen unfolding new by simp
    qed
  qed
  moreover have "sorted (map we_resource_version (get_changes_since now t since c'))
      \<and> list_all (\<lambda>e. since < we_resource_version e) (get_changes_since now t since c')"
    by (auto simp: get_changes_since_def sorted_by_def list_all_iff changes_of_def updated_def split: if_splits)
  moreover have "get_changes_since now t since (fst (cache_delete clock u j c')) = get_changes_since now t since c'"
    by (simp add: get_changes_since_def cache_delete_def Let_def)
  ultimately show ?thesis by blast
qed

subsection \<open>What watchers miss\<close>

text \<open>Clearing starts the versions again: a watcher that resumes from its old version gets nothing.\<close>

lemma clear_hides_changes:
  "get_changes_since now t 3 (fold cache_step [CacheSet clock ''pod'' ''a'' [], CacheSet clock ''pod'' ''b'' []]
     (cache_clear (fold cache_step [CacheSet clock ''pod'' ''a'' [], CacheSet clock ''pod'' ''a'' [], CacheSet clock ''pod'' ''a'' []] (new_cache 50))))
   = []"
  by (simp add: cache_set_def cache_clear_def new_cache_def resource_key_def get_changes_since_def changes_of_def sorted_by_def
      starts_with_def keep_newest_def dict_get_or_def Let_def)

text \<open>A deleted resource is listed to a watcher that resumes from an older version, as an update.\<close>

lemma deleted_is_reported:
  "map we_event_type (get_changes_since now ''pod'' 1 (fold cache_step
      [CacheSet clock ''pod'' ''a'' [], CacheSet clock ''pod'' ''a'' [], CacheDelete clock ''pod'' ''a''] (new_cache 50))) = [''UPDATED'']"
  by (simp add: cache_set_def cache_delete_def new_cache_def resource_key_def get_changes_since_def changes_of_def updated_def
      sorted_by_def starts_with_def keep_newest_def dict_get_or_def dict_has_def Let_def)

text \<open>A resynchronisation only adds: what the source no longer has stays in the cache.\<close>

lemma resync_keeps:
  "cache_get t i c \<noteq> None \<Longrightarrow> cache_get t i (fst (resync now src c)) \<noteq> None"
proof (cases src)
  case (Inr items)
  have "cache_get t i c \<noteq> None \<Longrightarrow> cache_get t i (fold (\<lambda>(t, i, d) c. fst (cache_set now t i d c)) items c) \<noteq> None"
    by (induction items arbitrary: c) (auto simp: cache_set_def cache_get_def Let_def)
  then show "cache_get t i c \<noteq> None \<Longrightarrow> ?thesis" using Inr by (simp add: resync_def)
qed (simp add: resync_def)

subsection \<open>Connections as relations\<close>

text \<open>The channels and the users as relations between names and sockets, and what each operation does to them.\<close>

definition pairs :: "(string, 'w set) dict \<Rightarrow> (string \<times> 'w) set" where
  "pairs m = {(k, w). w \<in> dict_get_or m k {}}"

definition abs_connections :: "'w connections \<Rightarrow> (string \<times> 'w) set \<times> (string \<times> 'w) set" where
  "abs_connections s = (pairs (co_connections s), pairs (co_user_connections s))"

datatype 'w conn_op =
    Connect 'w string string
  | Disconnect 'w string string
  | Broadcast "'w \<Rightarrow> bool" string
  | SendToUser "'w \<Rightarrow> bool" string

fun conn_step :: "'w conn_op \<Rightarrow> 'w connections \<Rightarrow> 'w connections" where
  "conn_step (Connect w ch u) s = connect w ch u s"
| "conn_step (Disconnect w ch u) s = disconnect w ch u s"
| "conn_step (Broadcast ok ch) s = fst (broadcast ok ch s)"
| "conn_step (SendToUser ok u) s = fst (send_to_user ok u s)"

fun abs_conn_step :: "'w conn_op \<Rightarrow> (string \<times> 'w) set \<times> (string \<times> 'w) set \<Rightarrow> (string \<times> 'w) set \<times> (string \<times> 'w) set" where
  "abs_conn_step (Connect w ch u) (C, U) = (insert (ch, w) C, if u = [] then U else insert (u, w) U)"
| "abs_conn_step (Disconnect w ch u) (C, U) = (C - {(ch, w)}, if u = [] then U else U - {(u, w)})"
| "abs_conn_step (Broadcast ok ch) (C, U) = ({(k, w) \<in> C. k = ch \<longrightarrow> ok w}, U)"
| "abs_conn_step (SendToUser ok u) (C, U) = (C, {(k, w) \<in> U. k = u \<longrightarrow> ok w})"

lemma pairs_add: "pairs (socket_add k w m) = insert (k, w) (pairs m)"
  by (auto simp: pairs_def socket_add_def split: if_splits)

lemma pairs_discard: "pairs (socket_discard k w m) = pairs m - {(k, w)}"
  by (auto simp: pairs_def socket_discard_def dict_get_or_def split: option.splits if_splits)

lemma pairs_send: "pairs (fst (send_all ok k m)) = {(j, w) \<in> pairs m. j = k \<longrightarrow> ok w}"
  by (auto simp: pairs_def send_all_def dict_get_or_def split: option.splits if_splits)

lemma send_count: "snd (send_all ok k m) = card {w. (k, w) \<in> pairs m \<and> ok w}"
  by (auto simp: send_all_def pairs_def dict_get_or_def split: option.split)

lemma conn_step_refines: "abs_connections (conn_step x s) = abs_conn_step x (abs_connections s)"
  by (cases x) (simp_all add: abs_connections_def connect_def disconnect_def broadcast_def send_to_user_def pairs_add pairs_discard
      pairs_send Let_def case_prod_unfold)

text \<open>
  The registry of stream connections is the relation of channels, or users, and sockets: after any
  run a broadcast reaches exactly the sockets that connected to the channel and did not since
  disconnect or fail there, and a message to a user exactly those connected for the user.
\<close>

theorem broadcast_reaches:
  "let s = fold conn_step ops no_connections; (C, U) = fold abs_conn_step ops ({}, {})
   in abs_connections s = (C, U) \<and> snd (broadcast ok ch s) = card {w. (ch, w) \<in> C \<and> ok w}
      \<and> snd (send_to_user ok u s) = card {w. (u, w) \<in> U \<and> ok w}"
proof -
  have "abs_connections (fold conn_step ops s) = fold abs_conn_step ops (abs_connections s)" for s
    by (induction ops arbitrary: s) (simp_all add: conn_step_refines)
  then have "abs_connections (fold conn_step ops no_connections) = fold abs_conn_step ops ({}, {})"
    by (simp add: abs_connections_def no_connections_def pairs_def dict_get_or_def)
  then show ?thesis
    by (auto simp: abs_connections_def broadcast_def send_to_user_def send_count case_prod_unfold Let_def prod_eq_iff)
qed

text \<open>A socket that fails on its channel is still counted among its user's sockets.\<close>

lemma failed_socket_kept:
  "co_user_connections (conn_step (Broadcast (\<lambda>_. False) ''all'') (connect (1::nat) ''all'' ''ada'' no_connections)) = [(''ada'', {1})]"
  by (simp add: connect_def broadcast_def send_all_def socket_add_def no_connections_def dict_get_or_def)

subsection \<open>Samples\<close>

theorem watch_catches_up_witness:
  "cache_get ''pod'' ''a'' (fold cache_step [CacheSet ''t'' ''pod'' ''a'' [(''x'', JInt 2)], CacheDelete ''t'' ''pod'' ''b'']
      (fold cache_step [CacheSet ''t'' ''pod'' ''a'' [(''x'', JInt 1)], CacheSet ''t'' ''pod'' ''b'' []] (new_cache 50)))
     = Some [(''x'', JInt 2)]
   \<and> (\<exists>es view. es \<noteq> [] \<and> fold see es view ''a'' = Some [(''x'', JInt 2)])"
proof -
  let ?c = "fold cache_step [CacheSet ''t'' ''pod'' ''a'' [(''x'', JInt 1)], CacheSet ''t'' ''pod'' ''b'' []] (new_cache 50)"
  let ?c' = "fold cache_step [CacheSet ''t'' ''pod'' ''a'' [(''x'', JInt 2)], CacheDelete ''t'' ''pod'' ''b''] ?c"
  have now: "cache_get ''pod'' ''a'' ?c' = Some [(''x'', JInt 2)]"
    by (simp add: cache_set_def cache_delete_def cache_get_def new_cache_def resource_key_def dict_has_def Let_def)
  have seen: "fold see (get_changes_since ''t'' ''pod'' (ca_current_version ?c) ?c') (\<lambda>j. cache_get ''pod'' j ?c) ''a'' = Some [(''x'', JInt 2)]"
    by (rule watch_catches_up [THEN conjunct1, THEN mp, OF _ refl refl now]) simp
  moreover have "cache_get ''pod'' ''a'' ?c = Some [(''x'', JInt 1)]"
    by (simp add: cache_set_def cache_get_def new_cache_def resource_key_def Let_def)
  ultimately have "get_changes_since ''t'' ''pod'' (ca_current_version ?c) ?c' \<noteq> []" by auto
  with now seen show ?thesis by blast
qed

end
