(* ===== verification/TelemetryQuality.thy ===== *)
theory TelemetryQuality
  imports Values
begin

text \<open>
  Telemetry quality, src/src/gpuopt/telemetry_quality.py: the scores of a snapshot, the fallback to
  cached or default data, and the onboarding of sources phase by phase. The GPU part of a snapshot is a
  dictionary of JSON values, so reading it can raise. \<open>datetime.fromisoformat\<close>, as far as it yields a
  time with a zone, is an argument, and so are the clock's texts and the identifiers of phases.
\<close>

subsection \<open>Snapshots and scores\<close>

record queue_telemetry =
  qt_queue_name :: string
  qt_queue_depth :: int
  qt_pending_jobs :: int
  qt_running_jobs :: int
  qt_avg_wait_time_seconds :: rat
  qt_max_wait_time_seconds :: rat
  qt_p99_wait_time_seconds :: rat
  qt_submission_rate_per_minute :: rat
  qt_completion_rate_per_minute :: rat
  qt_backlog_growth_rate :: rat
  qt_priority_breaks :: int
  qt_starved_jobs :: int

record job_telemetry =
  jt_job_id :: string
  jt_job_name :: string
  jt_state :: string
  jt_priority :: int
  jt_gpu_required :: int
  jt_memory_required_gb :: rat
  jt_wall_time_seconds :: rat
  jt_wait_time_seconds :: rat
  jt_gpu_utilization_avg :: rat
  jt_memory_utilization_avg :: rat
  jt_oom_killed :: bool
  jt_exit_code :: int
  jt_preempted :: bool
  jt_submitted_at :: string
  jt_started_at :: string
  jt_completed_at :: string

record telemetry_snapshot =
  tp_snapshot_id :: string
  tp_cluster_id :: string
  tp_collected_at :: string
  tp_gpu_snapshot :: "(string, json) dict"
  tp_model_services :: "json list"
  tp_fabric :: "json list"
  tp_queues :: "queue_telemetry list"
  tp_jobs :: "job_telemetry list"

record quality_score =
  qy_source :: string
  qy_completeness :: rat
  qy_freshness :: rat
  qy_consistency :: rat
  qy_accuracy :: rat
  qy_overall :: rat
  qy_issues :: "piece list list"
  qy_scored_at :: string

definition gpu_fields :: "string list" where
  "gpu_fields = [''total_gpus'', ''devices'', ''total_memory_mb'', ''used_memory_mb'']"

definition completeness_checks :: "telemetry_snapshot \<Rightarrow> bool list" where
  "completeness_checks t =
     [tp_gpu_snapshot t \<noteq> [], tp_model_services t \<noteq> [], tp_fabric t \<noteq> [], tp_queues t \<noteq> [], tp_jobs t \<noteq> []]
     @ (if tp_gpu_snapshot t \<noteq> [] then map (dict_has (tp_gpu_snapshot t)) gpu_fields else [])"

definition score_completeness :: "telemetry_snapshot \<Rightarrow> rat" where
  "score_completeness t =
     of_nat (length (filter (\<lambda>ok. ok) (completeness_checks t))) / of_nat (max (length (completeness_checks t)) 1)"

definition freshness_of :: "rat \<Rightarrow> rat" where
  "freshness_of age =
     (if age < 15 then 1 else if age < 60 then max (3 / 10) (1 - age / 60 * (7 / 10)) else max 0 (1 - age / 300))"

definition score_freshness :: "(string \<Rightarrow> datetime option) \<Rightarrow> datetime \<Rightarrow> telemetry_snapshot \<Rightarrow> rat" where
  "score_freshness isodate now t =
     (case isodate (tp_collected_at t) of None \<Rightarrow> 0 | Some collected \<Rightarrow> freshness_of (of_int (now - collected) / 1000000))"

text \<open>The issues of a device: more memory used than there is, a percentage or a temperature out of range.\<close>

definition outside :: "json \<Rightarrow> json \<Rightarrow> json \<Rightarrow> py_error + bool" where
  "outside lo hi v = try_bind (py_less v lo) (\<lambda>below. if below then Inr True else py_less hi v)"

definition device_issues :: "json \<Rightarrow> py_error + nat" where
  "device_issues d =
     try_bind (obj_get d ''memory_total_mb'' (JInt 0)) (\<lambda>total.
     try_bind (obj_get d ''memory_used_mb'' (JInt 0)) (\<lambda>used.
     try_bind (py_less total used) (\<lambda>over.
     try_bind (obj_get d ''utilization_percent'' (JInt 0)) (\<lambda>util.
     try_bind (outside (JInt 0) (JInt 100) util) (\<lambda>bad_util.
     try_bind (obj_get d ''temperature_celsius'' (JInt 0)) (\<lambda>temp.
     try_bind (outside (JInt 0) (JInt 110) temp) (\<lambda>bad_temp.
       Inr (length (filter (\<lambda>b. b) [over, bad_util, bad_temp])))))))))"

definition devices_of :: "telemetry_snapshot \<Rightarrow> py_error + json list" where
  "devices_of t =
     (if tp_gpu_snapshot t = [] then Inr [] else json_iter (dict_get_or (tp_gpu_snapshot t) ''devices'' (JList [])))"

definition queue_issues :: "queue_telemetry \<Rightarrow> nat" where
  "queue_issues q =
     length (filter (\<lambda>b. b) [qt_queue_depth q < qt_pending_jobs q,
       qt_submission_rate_per_minute q + 5 < qt_completion_rate_per_minute q])"

definition job_issue :: "job_telemetry \<Rightarrow> bool" where
  "job_issue j \<longleftrightarrow> 0 < jt_memory_required_gb j \<and> 100 < jt_gpu_utilization_avg j"

definition score_consistency :: "telemetry_snapshot \<Rightarrow> py_error + rat" where
  "score_consistency t =
     try_bind (devices_of t) (\<lambda>ds. try_bind (try_map device_issues ds) (\<lambda>bad.
       let issues = sum_list bad + sum_list (map queue_issues (tp_queues t)) + length (filter job_issue (tp_jobs t));
           checks = (if tp_gpu_snapshot t = [] then 0 else 1 + length ds) + 2 * length (tp_queues t) + length (tp_jobs t)
       in Inr (max 0 (1 - of_nat issues / of_nat (max checks 1)))))"

definition device_penalty :: "json \<Rightarrow> py_error + rat" where
  "device_penalty d =
     try_bind (obj_get d ''power_draw_watts'' (JInt 0)) (\<lambda>power. try_bind (py_less (JInt 1000) power) (\<lambda>hot_power.
     try_bind (obj_get d ''temperature_celsius'' (JInt 0)) (\<lambda>temp. try_bind (py_less (JInt 105) temp) (\<lambda>hot.
       Inr ((if hot_power then 5 / 100 else 0) + (if hot then 5 / 100 else 0))))))"

definition score_accuracy :: "telemetry_snapshot \<Rightarrow> py_error + rat" where
  "score_accuracy t =
     try_bind (devices_of t) (\<lambda>ds. try_bind (try_map device_penalty ds) (\<lambda>ps. Inr (max (1 / 10) (1 - sum_list ps))))"

definition collect_issues :: "rat \<Rightarrow> rat \<Rightarrow> rat \<Rightarrow> rat \<Rightarrow> telemetry_snapshot \<Rightarrow> piece list list" where
  "collect_issues compl fresh cons acc t =
     (if compl < 7 / 10 then [[Txt ''Low completeness ('', Fmt ''.0%'' (JFloat compl), Txt '')'']] else [])
     @ (if fresh < 3 / 10 then [[Txt ''Stale data (freshness '', Fmt ''.0%'' (JFloat fresh), Txt '')'']] else [])
     @ (if cons < 7 / 10 then [[Txt ''Inconsistent data ('', Fmt ''.0%'' (JFloat cons), Txt '')'']] else [])
     @ (if acc < 7 / 10 then [[Txt ''Low accuracy ('', Fmt ''.0%'' (JFloat acc), Txt '')'']] else [])
     @ (if tp_gpu_snapshot t = [] then [[Txt ''GPU snapshot missing'']] else [])
     @ (if tp_queues t = [] then [[Txt ''Queue telemetry missing'']] else [])"

definition score_snapshot ::
  "(string \<Rightarrow> datetime option) \<Rightarrow> datetime \<Rightarrow> string \<Rightarrow> telemetry_snapshot \<Rightarrow> py_error + quality_score" where
  "score_snapshot isodate now scored_at t =
     (let compl = score_completeness t; fresh = score_freshness isodate now t in
      try_bind (score_consistency t) (\<lambda>cons. try_bind (score_accuracy t) (\<lambda>acc. Inr
        \<lparr>qy_source = ''telemetry_snapshot'', qy_completeness = py_round 3 compl, qy_freshness = py_round 3 fresh,
         qy_consistency = py_round 3 cons, qy_accuracy = py_round 3 acc,
         qy_overall = py_round 3 (compl * (3 / 10) + fresh * (3 / 10) + cons * (2 / 10) + acc * (2 / 10)),
         qy_issues = collect_issues compl fresh cons acc t, qy_scored_at = scored_at\<rparr>)))"

subsection \<open>Fallback\<close>

type_synonym fields = "(string, json) dict"

record cached =
  cd_data :: fields
  cd_timestamp :: rat

type_synonym fallback_cache = "(string, cached) dict"

record fallback_record =
  fr_source :: string
  fr_primary_available :: bool
  fr_cache_available :: bool
  fr_using_fallback :: bool
  fr_fallback_reason :: "piece list"
  fr_fallback_tier :: string
  fr_data_age_seconds :: rat

definition default_values :: fields where
  "default_values =
     [(''gpu_count'', JInt 0), (''gpu_utilization_percent'', JFloat 0), (''memory_used_gb'', JFloat 0),
      (''temperature_celsius'', JFloat 50), (''queue_depth'', JInt 0), (''requests_per_second'', JFloat 0)]"

text \<open>\<open>min(cache, key=timestamp)\<close>: the first of the oldest entries.\<close>

fun oldest_key :: "string \<Rightarrow> rat \<Rightarrow> fallback_cache \<Rightarrow> string" where
  "oldest_key k ts [] = k"
| "oldest_key k ts ((k', e) # es) = (if cd_timestamp e < ts then oldest_key k' (cd_timestamp e) es else oldest_key k ts es)"

definition evict_oldest :: "fallback_cache \<Rightarrow> fallback_cache" where
  "evict_oldest c = (case c of [] \<Rightarrow> [] | (k, e) # es \<Rightarrow> dict_pop (oldest_key k (cd_timestamp e) es) c)"

definition fb_store :: "rat \<Rightarrow> string \<Rightarrow> fields \<Rightarrow> fallback_cache \<Rightarrow> fallback_cache" where
  "fb_store now src d c =
     (let c' = dict_set src \<lparr>cd_data = d, cd_timestamp = now\<rparr> c in if 100 < length c' then evict_oldest c' else c')"

definition fill :: "string list \<Rightarrow> fields \<Rightarrow> fields" where
  "fill fs d = fold (\<lambda>f d. if dict_has d f then d else dict_set f (dict_get_or default_values f (JInt 0)) d) fs d"

definition fill_known :: "string list \<Rightarrow> fields \<Rightarrow> fields" where
  "fill_known fs d = fold (\<lambda>f d. case dict_get default_values f of None \<Rightarrow> d | Some v \<Rightarrow> dict_set f v d) fs d"

definition dict_update :: "fields \<Rightarrow> fields \<Rightarrow> fields" where
  "dict_update live d = fold (\<lambda>(k, v). dict_set k v) live d"

definition fresh_entry :: "rat \<Rightarrow> rat \<Rightarrow> string \<Rightarrow> fallback_cache \<Rightarrow> cached option" where
  "fresh_entry max_age now src c =
     (case dict_get c src of None \<Rightarrow> None | Some e \<Rightarrow> if now - cd_timestamp e < max_age then Some e else None)"

text \<open>\<open>now\<close> is the clock when the call starts, \<open>now'\<close> when it stores.\<close>

definition fb_resolve ::
  "rat \<Rightarrow> rat \<Rightarrow> rat \<Rightarrow> string \<Rightarrow> fields option \<Rightarrow> string list option \<Rightarrow> fallback_cache \<Rightarrow> (fields \<times> fallback_record) \<times> fallback_cache" where
  "fb_resolve max_age now now' src live required c =
     (let fs = (case required of Some (f # r) \<Rightarrow> f # r | _ \<Rightarrow> map fst default_values);
          rec = \<lparr>fr_source = src, fr_primary_available = False, fr_cache_available = False, fr_using_fallback = False,
                 fr_fallback_reason = [], fr_fallback_tier = [], fr_data_age_seconds = 0\<rparr>
      in case live of
           Some d \<Rightarrow>
             (let rec = rec\<lparr>fr_primary_available := True\<rparr>; missing = filter (\<lambda>f. \<not> dict_has d f) fs in
              if missing = [] then ((d, rec), fb_store now' src d c)
              else (let rec = rec\<lparr>fr_fallback_reason := [Txt ''Missing fields: '', Val (JList (map JStr missing))],
                                  fr_fallback_tier := ''degraded''\<rparr> in
                case fresh_entry max_age now src c of
                  Some e \<Rightarrow>
                    (let m = fill fs (dict_update d (cd_data e)) in
                     ((m, rec\<lparr>fr_cache_available := True, fr_data_age_seconds := now - cd_timestamp e, fr_using_fallback := True\<rparr>),
                      fb_store now' src m c))
                | None \<Rightarrow> (let m = fill_known missing d in ((m, rec), fb_store now' src m c))))
         | None \<Rightarrow>
             (case fresh_entry max_age now src c of
                Some e \<Rightarrow>
                  ((fill fs (cd_data e),
                    rec\<lparr>fr_fallback_reason := [Txt ''Primary data unavailable''], fr_fallback_tier := ''cached'',
                        fr_cache_available := True, fr_data_age_seconds := now - cd_timestamp e, fr_using_fallback := True\<rparr>), c)
              | None \<Rightarrow>
                  ((default_values,
                    rec\<lparr>fr_fallback_reason := [Txt ''No cached data available''], fr_fallback_tier := ''default'',
                        fr_using_fallback := True, fr_data_age_seconds := 999\<rparr>), c)))"

definition cache_health :: "rat \<Rightarrow> fallback_cache \<Rightarrow> (string, json) dict" where
  "cache_health now c =
     [(''cache_size'', JInt (int (length c))), (''sources'', JList (map (JStr \<circ> fst) c)),
      (''oldest_entry_seconds'',
       (case c of [] \<Rightarrow> JInt 0
        | (k, e) # es \<Rightarrow> JFloat (py_round 1 (fold (\<lambda>(_, e) m. min m (now - cd_timestamp e)) es (now - cd_timestamp e)))))]"

subsection \<open>Onboarding\<close>

record onboarding_phase =
  op_phase_id :: uuid
  op_name :: string
  op_description :: string
  op_status :: string
  op_readiness_score :: rat
  op_checks_passed :: int
  op_checks_total :: int
  op_started_at :: string
  op_completed_at :: string

record source_contract =
  sc_source_id :: string
  sc_name :: string
  sc_source_type :: string
  sc_required_fields :: "string list"
  sc_expected_interval_seconds :: rat
  sc_max_age_seconds :: rat
  sc_quality_threshold :: rat
  sc_critical :: bool
  sc_enabled :: bool

record source_status =
  ss_source_id :: string
  ss_name :: string
  ss_source_type :: string
  ss_phase :: string
  ss_tier :: string
  ss_quality :: "quality_score option"
  ss_last_data :: string
  ss_fallback_active :: bool
  ss_contract_valid :: bool
  ss_issues :: "piece list list"

record onboarding =
  ob_sources :: "(string, source_status) dict"
  ob_contracts :: "(string, source_contract) dict"
  ob_phases :: "(string, onboarding_phase list) dict"

definition no_sources :: onboarding where
  "no_sources = \<lparr>ob_sources = [], ob_contracts = [], ob_phases = []\<rparr>"

definition phase_defs :: "(string \<times> string list) list" where
  "phase_defs =
     [(''discovery'', [''endpoint_reachable'', ''auth_configured'']),
      (''contract'', [''schema_validated'', ''required_fields_present'', ''interval_agreed'']),
      (''sandbox'', [''data_received'', ''quality_above_0_5'', ''latency_acceptable'']),
      (''bronze'', [''quality_above_0_7'', ''stale_fallback_configured'', ''alerts_configured'']),
      (''silver'', [''quality_above_0_85'', ''consistent_24h'', ''error_rate_below_0_01'']),
      (''gold'', [''quality_above_0_95'', ''sla_achieved_7d'', ''redundancy_configured''])]"

definition initial_phase :: "(nat \<Rightarrow> uuid) \<Rightarrow> string \<Rightarrow> nat \<Rightarrow> onboarding_phase" where
  "initial_phase ids now i =
     (let (name, checks) = phase_defs ! i in
      \<lparr>op_phase_id = ids i, op_name = name, op_description = ''Phase '' @ nat_str (i + 1) @ '': '' @ title_word name,
       op_status = (if i = 0 then ''in_progress'' else ''pending''), op_readiness_score = 0, op_checks_passed = 0,
       op_checks_total = int (length checks), op_started_at = (if i = 0 then now else []), op_completed_at = []\<rparr>)"

definition register_source ::
  "(nat \<Rightarrow> uuid) \<Rightarrow> string \<Rightarrow> string \<Rightarrow> string \<Rightarrow> string list option \<Rightarrow> bool \<Rightarrow> onboarding \<Rightarrow> onboarding \<times> source_status" where
  "register_source ids now name ty required critical s =
     (let sid = ''src-'' @ nat_str (length (ob_sources s) + 1);
          st = \<lparr>ss_source_id = sid, ss_name = name, ss_source_type = ty, ss_phase = ''discovery'', ss_tier = ''onboarding'',
                ss_quality = None, ss_last_data = [], ss_fallback_active = False, ss_contract_valid = True, ss_issues = []\<rparr>
      in (s\<lparr>ob_contracts := dict_set sid \<lparr>sc_source_id = sid, sc_name = name, sc_source_type = ty,
              sc_required_fields = or_default required [], sc_expected_interval_seconds = 15, sc_max_age_seconds = 300,
              sc_quality_threshold = 7 / 10, sc_critical = critical, sc_enabled = True\<rparr> (ob_contracts s),
            ob_phases := dict_set sid (map (initial_phase ids now) [0..<length phase_defs]) (ob_phases s),
            ob_sources := dict_set sid st (ob_sources s)\<rparr>, st))"

text \<open>The first phase in progress, if there is one.\<close>

fun find_active :: "nat \<Rightarrow> onboarding_phase list \<Rightarrow> nat option" where
  "find_active i [] = None"
| "find_active i (p # ps) = (if op_status p = ''in_progress'' then Some i else find_active (Suc i) ps)"

definition scored_phase :: "int option \<Rightarrow> onboarding_phase \<Rightarrow> onboarding_phase" where
  "scored_phase passed p =
     (let n = min (or_default passed (op_checks_total p)) (op_checks_total p) in
      p\<lparr>op_checks_passed := n, op_readiness_score := py_round 3 (of_int n / of_int (max (op_checks_total p) 1))\<rparr>)"

definition phase_done :: "onboarding_phase \<Rightarrow> bool" where
  "phase_done p \<longleftrightarrow> op_checks_total p \<le> op_checks_passed p"

definition start_next :: "string \<Rightarrow> nat \<Rightarrow> onboarding_phase list \<Rightarrow> onboarding_phase list" where
  "start_next now i ps =
     (if i + 1 < length ps then ps[i + 1 := (ps ! (i + 1))\<lparr>op_status := ''in_progress'', op_started_at := now\<rparr>] else ps)"

definition advance_phase :: "string \<Rightarrow> string \<Rightarrow> int option \<Rightarrow> onboarding \<Rightarrow> onboarding \<times> (string, json) dict" where
  "advance_phase now sid passed s =
     (case (dict_get (ob_phases s) sid, dict_get (ob_sources s) sid) of
        (Some ps, Some st) \<Rightarrow>
          if ps = [] then (s, [(''error'', JStr ''Source not found'')])
          else (case find_active 0 ps of
            None \<Rightarrow> (s, [(''source_id'', JStr sid), (''message'', JStr ''All phases completed''), (''tier'', JStr (ss_tier st))])
          | Some i \<Rightarrow>
              (let p = scored_phase passed (ps ! i) in
               if phase_done p
               then (let name = fst (phase_defs ! i);
                         ps' = start_next now i (ps[i := p\<lparr>op_status := ''completed'', op_completed_at := now\<rparr>]) in
                 (s\<lparr>ob_phases := dict_set sid ps' (ob_phases s),
                    ob_sources := dict_set sid (st\<lparr>ss_phase := name, ss_tier := name\<rparr>) (ob_sources s)\<rparr>,
                  [(''source_id'', JStr sid), (''phase_completed'', JStr (op_name p)),
                   (''next_phase'', if i + 1 < length ps then JStr (op_name (ps' ! (i + 1))) else JNull), (''tier'', JStr name)]))
               else (s\<lparr>ob_phases := dict_set sid (ps[i := p]) (ob_phases s)\<rparr>,
                     [(''source_id'', JStr sid), (''phase'', JStr (op_name p)), (''checks_passed'', JInt (op_checks_passed p)),
                      (''checks_total'', JInt (op_checks_total p)), (''readiness'', JFloat (op_readiness_score p))])))
      | _ \<Rightarrow> (s, [(''error'', JStr ''Source not found'')]))"

definition update_quality :: "string \<Rightarrow> string \<Rightarrow> quality_score \<Rightarrow> onboarding \<Rightarrow> onboarding" where
  "update_quality now sid q s =
     (case dict_get (ob_sources s) sid of
        None \<Rightarrow> s
      | Some st \<Rightarrow>
          (let st' = st\<lparr>ss_quality := Some q,
                 ss_issues := ss_issues st @ (if qy_overall q < 5 / 10
                   then [[Txt ''Quality below threshold: '', Fmt ''.0%'' (JFloat (qy_overall q))]] else [])\<rparr>;
               s' = s\<lparr>ob_sources := dict_set sid st' (ob_sources s)\<rparr>
           in if 95 / 100 \<le> qy_overall q then fst (advance_phase now sid None s') else s'))"

definition source_entry :: "string \<times> source_status \<Rightarrow> (string, json) dict \<times> piece list list" where
  "source_entry = (\<lambda>(sid, st).
     ([(''id'', JStr sid), (''name'', JStr (ss_name st)), (''type'', JStr (ss_source_type st)), (''phase'', JStr (ss_phase st)),
       (''tier'', JStr (ss_tier st))], ss_issues st))"

definition list_sources :: "onboarding \<Rightarrow> ((string, json) dict \<times> piece list list) list" where
  "list_sources s = map source_entry (ob_sources s)"

text \<open>The service: a snapshot is scored and cached; \<open>dump\<close> is pydantic's dump of it.\<close>

definition process_snapshot ::
  "(string \<Rightarrow> datetime option) \<Rightarrow> (telemetry_snapshot \<Rightarrow> fields) \<Rightarrow> datetime \<Rightarrow> rat \<Rightarrow> string \<Rightarrow> telemetry_snapshot \<Rightarrow> fallback_cache
     \<Rightarrow> py_error + (fallback_cache \<times> quality_score \<times> bool \<times> string)" where
  "process_snapshot isodate dump now clock scored_at t c =
     try_bind (score_snapshot isodate now scored_at t) (\<lambda>q. Inr
       (fb_store clock ''telemetry_snapshot'' (dump t) c, q, qy_overall q < 5 / 10,
        if 5 / 10 \<le> qy_overall q then ''accept'' else ''warn''))"

subsection \<open>Scores\<close>

lemma score_completeness_range: "0 \<le> score_completeness t \<and> score_completeness t \<le> 1"
proof -
  have "length (filter (\<lambda>ok. ok) bs) \<le> max (length bs) 1" for bs :: "bool list"
    using length_filter_le [of "\<lambda>ok. ok" bs] by linarith
  then show ?thesis by (simp add: score_completeness_def divide_le_eq)
qed

lemma score_freshness_range: "0 \<le> score_freshness isodate now t \<and> score_freshness isodate now t \<le> 1"
  by (auto simp: score_freshness_def freshness_of_def max_def split: option.split)

lemma score_consistency_range: "score_consistency t = Inr x \<Longrightarrow> 0 \<le> x \<and> x \<le> 1"
  by (auto simp: score_consistency_def try_bind_Inr_iff Let_def)

lemma score_accuracy_range: "score_accuracy t = Inr x \<Longrightarrow> 0 \<le> x \<and> x \<le> 1"
proof -
  assume x: "score_accuracy t = Inr x"
  then obtain ds ps where ps: "try_map device_penalty ds = Inr ps" "x = max (1 / 10) (1 - sum_list ps)"
    by (auto simp: score_accuracy_def try_bind_Inr_iff)
  have "device_penalty d = Inr p \<Longrightarrow> 0 \<le> p" for d p by (auto simp: device_penalty_def try_bind_Inr_iff)
  then have "\<forall>p \<in> set ps. 0 \<le> p" using ps(1) by (fastforce simp: try_map_Inr_iff list_all2_conv_all_nth in_set_conv_nth)
  then have "0 \<le> sum_list ps" by (intro sum_list_nonneg) auto
  then show ?thesis using ps(2) by auto
qed

text \<open>
  The scores of a snapshot that can be scored all lie between 0 and 1, and the overall score stays
  between the smallest and the largest of the four scores it weighs, up to the rounding.
\<close>

theorem quality_score_bounds:
  assumes "score_snapshot isodate now scored_at t = Inr q"
  shows "(\<forall>x \<in> {qy_completeness q, qy_freshness q, qy_consistency q, qy_accuracy q, qy_overall q}. 0 \<le> x \<and> x \<le> 1)
    \<and> min (min (qy_completeness q) (qy_freshness q)) (min (qy_consistency q) (qy_accuracy q)) - 1 / 1000 \<le> qy_overall q
    \<and> qy_overall q \<le> max (max (qy_completeness q) (qy_freshness q)) (max (qy_consistency q) (qy_accuracy q)) + 1 / 1000"
proof -
  obtain cons acc where ca: "score_consistency t = Inr cons" "score_accuracy t = Inr acc"
    and q: "qy_completeness q = py_round 3 (score_completeness t)" "qy_freshness q = py_round 3 (score_freshness isodate now t)"
      "qy_consistency q = py_round 3 cons" "qy_accuracy q = py_round 3 acc"
      "qy_overall q = py_round 3 (score_completeness t * (3 / 10) + score_freshness isodate now t * (3 / 10) + cons * (2 / 10) + acc * (2 / 10))"
    using assms by (auto simp: score_snapshot_def try_bind_Inr_iff Let_def)
  have unit: "0 \<le> py_round 3 x \<and> py_round 3 x \<le> 1" if "0 \<le> x" "x \<le> 1" for x
    using py_round_bounds [of 0 x 1 3] that by simp
  note r = score_completeness_range [of t] score_freshness_range [of isodate now t] score_consistency_range [OF ca(1)]
    score_accuracy_range [OF ca(2)]
  let ?o = "score_completeness t * (3 / 10) + score_freshness isodate now t * (3 / 10) + cons * (2 / 10) + acc * (2 / 10)"
  have o: "0 \<le> ?o" "?o \<le> 1" using r by linarith+
  have near: "py_round 3 x \<le> x + 1 / 2000 \<and> x - 1 / 2000 \<le> py_round 3 x" for x
    using py_round_near [of 3 x] unfolding abs_le_iff by simp
  note near [of "score_completeness t"] near [of "score_freshness isodate now t"] near [of cons] near [of acc] near [of ?o]
  then have "min (min (qy_completeness q) (qy_freshness q)) (min (qy_consistency q) (qy_accuracy q)) - 1 / 1000 \<le> qy_overall q
      \<and> qy_overall q \<le> max (max (qy_completeness q) (qy_freshness q)) (max (qy_consistency q) (qy_accuracy q)) + 1 / 1000"
    unfolding q min_def max_def by (auto split: if_split)
  then show ?thesis using r o unit unfolding q by auto
qed

text \<open>A snapshot gets fresher when it passes a minute.\<close>

lemma freshness_jumps: "freshness_of 59 < 1 / 3 \<and> freshness_of 60 = 4 / 5"
  by (simp add: freshness_of_def)

subsection \<open>Fallback data\<close>

lemma dict_get_update: "dict_ok live \<Longrightarrow> dict_get (dict_update live d) f = (case dict_get live f of None \<Rightarrow> dict_get d f | Some v \<Rightarrow> Some v)"
proof (induction live arbitrary: d)
  case (Cons kv live)
  obtain k v where kv: "kv = (k, v)" by fastforce
  have "dict_get live k = None" using Cons.prems kv by (simp add: dict_ok_def map_of_eq_None_iff)
  moreover have "dict_get (dict_update (kv # live) d) f = dict_get (dict_update live (dict_set k v d)) f"
    by (simp add: dict_update_def kv)
  ultimately show ?case using Cons kv by (cases "dict_get live f") (auto simp: dict_ok_def)
qed (simp add: dict_update_def)

lemma fill_keeps: "dict_get d f = Some v \<Longrightarrow> dict_get (fill fs d) f = Some v"
proof (induction fs arbitrary: d)
  case (Cons g fs)
  have "dict_get (if dict_has d g then d else dict_set g (dict_get_or default_values g (JInt 0)) d) f = Some v"
    using Cons.prems by (auto simp: dict_has_def)
  from Cons.IH [OF this] show ?case by (simp add: fill_def)
qed (simp add: fill_def)

lemma fill_has: "f \<in> set fs \<Longrightarrow> dict_has (fill fs d) f"
proof (induction fs arbitrary: d)
  case (Cons g fs)
  show ?case
  proof (cases "f = g")
    case True
    obtain v where "dict_get (if dict_has d g then d else dict_set g (dict_get_or default_values g (JInt 0)) d) g = Some v"
      by (cases "dict_get d g") (simp_all add: dict_has_def)
    from fill_keeps [OF this, of fs] show ?thesis using True by (simp add: fill_def dict_has_def)
  next
    case False
    then show ?thesis using Cons by (simp add: fill_def)
  qed
qed simp

lemma fill_known_keeps: "\<forall>g \<in> set fs. \<not> dict_has d g \<Longrightarrow> dict_get d f = Some v \<Longrightarrow> dict_get (fill_known fs d) f = Some v"
proof -
  have "f \<notin> set fs \<Longrightarrow> dict_get (fill_known fs d) f = dict_get d f" for d
    unfolding fill_known_def by (induction fs arbitrary: d) (auto split: option.split)
  moreover assume "\<forall>g \<in> set fs. \<not> dict_has d g" "dict_get d f = Some v"
  moreover from this have "f \<notin> set fs" by (auto simp: dict_has_def)
  ultimately show ?thesis by simp
qed

lemma oldest_entry_mem: "oldest_key k ts es \<in> insert k (fst ` set es)"
  by (induction k ts es rule: oldest_key.induct) auto

lemma fb_store_bound: "length c \<le> 100 \<Longrightarrow> length (fb_store now src d c) \<le> 100"
proof -
  assume c: "length c \<le> 100"
  let ?c = "dict_set src \<lparr>cd_data = d, cd_timestamp = now\<rparr> c"
  have long: "length ?c \<le> 101" using c length_dict_set [of src "\<lparr>cd_data = d, cd_timestamp = now\<rparr>" c] by simp
  have evict: "length (evict_oldest e) < length e" if e: "e \<noteq> []" for e
  proof -
    obtain k x es where es: "e = (k, x) # es" using e by (metis list.exhaust prod.exhaust)
    then have "oldest_key k (cd_timestamp x) es \<in> fst ` set e" using oldest_entry_mem [of k "cd_timestamp x" es] by simp
    from length_dict_pop [OF this] show ?thesis by (simp add: evict_oldest_def es)
  qed
  have "?c \<noteq> []" by (cases c) auto
  then have "length (evict_oldest ?c) \<le> 100" using evict [of ?c] long by linarith
  then show ?thesis by (simp add: fb_store_def Let_def)
qed

text \<open>
  Fallback data: live values are never overwritten; when a cached entry is used it is younger than
  the limit, its age is recorded and every required field is present; without live data and without
  such an entry the defaults are returned and the cache is untouched; the cache keeps its bound.
\<close>

theorem fallback_data:
  assumes "fb_resolve max_age now now' src live required c = ((data, r), c')" and "\<And>d. live = Some d \<Longrightarrow> dict_ok d"
  shows "(\<forall>d f v. live = Some d \<and> dict_get d f = Some v \<longrightarrow> dict_get data f = Some v)
    \<and> (fr_cache_available r \<longrightarrow> (\<exists>e. dict_get c src = Some e \<and> now - cd_timestamp e < max_age \<and> fr_data_age_seconds r = now - cd_timestamp e)
          \<and> (\<forall>f \<in> set (or_default required []). dict_has data f))
    \<and> (live = None \<longrightarrow> c' = c \<and> fr_using_fallback r \<and> (\<not> fr_cache_available r \<longrightarrow> data = default_values))
    \<and> (length c \<le> 100 \<longrightarrow> length c' \<le> 100)"
proof -
  define fs where "fs = (case required of Some (f # r) \<Rightarrow> f # r | _ \<Rightarrow> map fst default_values)"
  have req: "set (or_default required []) \<subseteq> set fs" by (auto simp: fs_def split: option.split list.split)
  show ?thesis
  proof (cases live)
    case None
    show ?thesis
    proof (cases "fresh_entry max_age now src c")
      case (Some e)
      then have "dict_get c src = Some e" "now - cd_timestamp e < max_age" by (auto simp: fresh_entry_def split: option.splits if_splits)
      then show ?thesis using assms(1) None Some req fill_has by (auto simp: fb_resolve_def fs_def [symmetric] Let_def)
    qed (use assms(1) None in \<open>auto simp: fb_resolve_def Let_def\<close>)
  next
    case (Some d)
    have d: "dict_ok d" using assms(2) Some by simp
    let ?missing = "filter (\<lambda>f. \<not> dict_has d f) fs"
    show ?thesis
    proof (cases "?missing = []")
      case True
      then show ?thesis using assms(1) Some fb_store_bound by (auto simp: fb_resolve_def fs_def [symmetric] Let_def)
    next
      case missing: False
      show ?thesis
      proof (cases "fresh_entry max_age now src c")
        case None
        then show ?thesis using assms(1) Some missing fb_store_bound fill_known_keeps [of ?missing d]
          by (auto simp: fb_resolve_def fs_def [symmetric] Let_def)
      next
        case (Some e)
        then have e: "dict_get c src = Some e" "now - cd_timestamp e < max_age" by (auto simp: fresh_entry_def split: option.splits if_splits)
        have "dict_get d f = Some v \<Longrightarrow> dict_get (fill fs (dict_update d (cd_data e))) f = Some v" for f v
          by (rule fill_keeps) (simp add: dict_get_update [OF d])
        then show ?thesis using assms(1) \<open>live = Some d\<close> missing Some e fb_store_bound req fill_has
          by (auto simp: fb_resolve_def fs_def [symmetric] Let_def)
      qed
    qed
  qed
qed

subsection \<open>Phases in order\<close>

datatype onboarding_op =
    Register "nat \<Rightarrow> uuid" string string string "string list option" bool
  | Advance string string "int option"
  | Quality string string quality_score

fun onboarding_step :: "onboarding_op \<Rightarrow> onboarding \<Rightarrow> onboarding" where
  "onboarding_step (Register ids now name ty required critical) s = fst (register_source ids now name ty required critical s)"
| "onboarding_step (Advance now sid passed) s = fst (advance_phase now sid passed s)"
| "onboarding_step (Quality now sid q) s = update_quality now sid q s"

text \<open>Phase \<open>i\<close> of a source that has completed \<open>k\<close> phases, and all of them.\<close>

definition phase_at :: "nat \<Rightarrow> nat \<Rightarrow> onboarding_phase \<Rightarrow> bool" where
  "phase_at k i p \<longleftrightarrow> op_name p = fst (phase_defs ! i) \<and> op_checks_total p = int (length (snd (phase_defs ! i)))
     \<and> op_status p = (if i < k then ''completed'' else if i = k then ''in_progress'' else ''pending'')
     \<and> (if i < k then op_checks_passed p = op_checks_total p
        else if i = k then op_checks_passed p < op_checks_total p else op_checks_passed p = 0)"

definition phases_ok :: "nat \<Rightarrow> onboarding_phase list \<Rightarrow> bool" where
  "phases_ok k ps \<longleftrightarrow> length ps = length phase_defs \<and> k \<le> length phase_defs \<and> (\<forall>i < length phase_defs. phase_at k i (ps ! i))"

definition tier_ok :: "nat \<Rightarrow> source_status \<Rightarrow> bool" where
  "tier_ok k st \<longleftrightarrow> ss_phase st = (if k = 0 then ''discovery'' else fst (phase_defs ! (k - 1)))
     \<and> ss_tier st = (if k = 0 then ''onboarding'' else fst (phase_defs ! (k - 1)))"

definition stands :: "nat \<Rightarrow> string \<Rightarrow> onboarding \<Rightarrow> bool" where
  "stands k sid s \<longleftrightarrow> (\<exists>st ps. dict_get (ob_sources s) sid = Some st \<and> dict_get (ob_phases s) sid = Some ps
     \<and> phases_ok k ps \<and> tier_ok k st)"

lemma phase_count: "length phase_defs = 6"
  by (simp add: phase_defs_def)

lemma phase_checks: "i < length phase_defs \<Longrightarrow> 0 < length (snd (phase_defs ! i))"
  by (auto simp: phase_defs_def less_Suc_eq numeral_eq_Suc)

lemma find_active_at:
  "\<forall>i < length ps. op_status (ps ! i) = ''in_progress'' \<longleftrightarrow> i + n = k \<Longrightarrow> n \<le> k
     \<Longrightarrow> find_active n ps = (if k < n + length ps then Some k else None)"
proof (induction ps arbitrary: n)
  case (Cons p ps)
  have head: "op_status p = ''in_progress'' \<longleftrightarrow> n = k" using Cons.prems(1) by (metis add_0 length_greater_0_conv list.discI nth_Cons_0)
  have "\<forall>i < length ps. op_status (ps ! i) = ''in_progress'' \<longleftrightarrow> i + Suc n = k"
    using Cons.prems(1) by (metis Suc_less_eq add_Suc_right add_Suc length_Cons nth_Cons_Suc)
  then show ?case using head Cons.IH [of "Suc n"] Cons.prems(2) by auto
qed simp

lemma active_phase: "phases_ok k ps \<Longrightarrow> find_active 0 ps = (if k < length phase_defs then Some k else None)"
proof -
  assume ps: "phases_ok k ps"
  then have "\<forall>i < length ps. op_status (ps ! i) = ''in_progress'' \<longleftrightarrow> i + 0 = k" by (auto simp: phases_ok_def phase_at_def)
  from find_active_at [OF this] ps show ?thesis by (simp add: phases_ok_def)
qed

lemma completed_phases:
  assumes "phases_ok k ps" "k < length phase_defs" "phase_done (scored_phase passed (ps ! k))"
  shows "phases_ok (k + 1) (start_next now k (ps[k := (scored_phase passed (ps ! k))\<lparr>op_status := ''completed'', op_completed_at := now\<rparr>]))"
proof -
  have len: "length ps = length phase_defs" using assms(1) by (simp add: phases_ok_def)
  have at: "phase_at k i (ps ! i)" if "i < length phase_defs" for i using assms(1) that by (simp add: phases_ok_def)
  let ?p = "(scored_phase passed (ps ! k))\<lparr>op_status := ''completed'', op_completed_at := now\<rparr>"
  have cur: "phase_at (k + 1) k ?p"
    using at [OF assms(2)] assms(3) by (auto simp: phase_at_def scored_phase_def phase_done_def Let_def)
  have "phase_at (k + 1) i (start_next now k (ps[k := ?p]) ! i)" if i: "i < length phase_defs" for i
    using cur at [OF i] i len phase_checks [OF i] assms(2) by (auto simp: start_next_def nth_list_update phase_at_def)
  then show ?thesis using len assms(2) by (simp add: phases_ok_def start_next_def)
qed

lemma scored_phases:
  assumes "phases_ok k ps" "k < length phase_defs" "\<not> phase_done (scored_phase passed (ps ! k))"
  shows "phases_ok k (ps[k := scored_phase passed (ps ! k)])"
proof -
  have at: "phase_at k i (ps ! i)" if "i < length phase_defs" for i using assms(1) that by (simp add: phases_ok_def)
  have "phase_at k k (scored_phase passed (ps ! k))"
    using at [OF assms(2)] assms(3) by (auto simp: phase_at_def scored_phase_def phase_done_def Let_def)
  then have "phase_at k i (ps[k := scored_phase passed (ps ! k)] ! i)" if "i < length phase_defs" for i
    using at [OF that] that assms(1) by (cases "i = k") (simp_all add: phases_ok_def)
  then show ?thesis using assms(1) by (simp add: phases_ok_def)
qed

text \<open>Advancing a source: one phase further exactly when its checks are all passed, and no other source moves.\<close>

lemma advance_stands:
  assumes "stands k sid s"
  shows "\<exists>k' \<in> {k, k + 1}. stands k' sid (fst (advance_phase now u passed s))"
    and "passed = None \<Longrightarrow> k < length phase_defs \<Longrightarrow> stands (k + 1) sid (fst (advance_phase now sid passed s))"
proof -
  obtain st ps where s: "dict_get (ob_sources s) sid = Some st" "dict_get (ob_phases s) sid = Some ps" "phases_ok k ps" "tier_ok k st"
    using assms by (auto simp: stands_def)
  have ne: "ps \<noteq> []" using s(3) by (auto simp: phases_ok_def phase_count)
  note adv = advance_phase_def s(1,2) ne active_phase [OF s(3)]
  have own: "if k < length phase_defs \<and> phase_done (scored_phase passed (ps ! k))
    then stands (k + 1) sid (fst (advance_phase now sid passed s)) else stands k sid (fst (advance_phase now sid passed s))"
  proof (cases "k < length phase_defs")
    case True
    then show ?thesis using s completed_phases [OF s(3) True] scored_phases [OF s(3) True]
      by (auto simp: adv stands_def tier_ok_def Let_def)
  next
    case False
    then show ?thesis using assms by (simp add: adv)
  qed
  show "\<exists>k' \<in> {k, k + 1}. stands k' sid (fst (advance_phase now u passed s))"
  proof (cases "u = sid")
    case True
    then show ?thesis using own by (auto split: if_splits)
  next
    case False
    then have "stands k sid (fst (advance_phase now u passed s))"
      using s by (auto simp: advance_phase_def stands_def Let_def split: option.split)
    then show ?thesis by simp
  qed
  show "stands (k + 1) sid (fst (advance_phase now sid passed s))" if "passed = None" "k < length phase_defs"
    using own that by (simp add: phase_done_def scored_phase_def Let_def)
qed

lemma quality_stands:
  assumes "stands k sid s"
  shows "\<exists>k' \<in> {k, k + 1}. stands k' sid (update_quality now u q s)"
    and "k < length phase_defs \<Longrightarrow> 95 / 100 \<le> qy_overall q \<Longrightarrow> stands (k + 1) sid (update_quality now sid q s)"
proof -
  have noted: "stands k sid (s\<lparr>ob_sources := dict_set u st' (ob_sources s)\<rparr>)"
    if "dict_get (ob_sources s) u = Some st" "ss_phase st' = ss_phase st" "ss_tier st' = ss_tier st" for u st st'
    using assms that by (auto simp: stands_def tier_ok_def)
  have upd: "\<exists>st'. ss_phase st' = ss_phase st \<and> ss_tier st' = ss_tier st \<and>
      update_quality now u q s = (let s' = s\<lparr>ob_sources := dict_set u st' (ob_sources s)\<rparr>
        in if 95 / 100 \<le> qy_overall q then fst (advance_phase now u None s') else s')"
    if "dict_get (ob_sources s) u = Some st" for u st
    unfolding update_quality_def that option.case Let_def by (rule exI, intro conjI, rule_tac [3] refl) simp_all
  show "\<exists>k' \<in> {k, k + 1}. stands k' sid (update_quality now u q s)"
  proof (cases "dict_get (ob_sources s) u")
    case None
    then show ?thesis using assms by (simp add: update_quality_def)
  next
    case (Some st)
    from upd [OF this] obtain st' where st': "ss_phase st' = ss_phase st" "ss_tier st' = ss_tier st"
      "update_quality now u q s = (let s' = s\<lparr>ob_sources := dict_set u st' (ob_sources s)\<rparr>
        in if 95 / 100 \<le> qy_overall q then fst (advance_phase now u None s') else s')"
      by blast
    from noted [OF Some st'(1,2)] advance_stands(1) [OF noted [OF Some st'(1,2)]] show ?thesis
      unfolding st'(3) Let_def by (simp split: if_split)
  qed
  show "stands (k + 1) sid (update_quality now sid q s)" if "k < length phase_defs" "95 / 100 \<le> qy_overall q"
  proof -
    obtain st where st: "dict_get (ob_sources s) sid = Some st" using assms by (auto simp: stands_def)
    from upd [OF this] obtain st' where st': "ss_phase st' = ss_phase st" "ss_tier st' = ss_tier st"
      "update_quality now sid q s = (let s' = s\<lparr>ob_sources := dict_set sid st' (ob_sources s)\<rparr>
        in if 95 / 100 \<le> qy_overall q then fst (advance_phase now sid None s') else s')"
      by blast
    from advance_stands(2) [OF noted [OF st st'(1,2)] refl that(1)] show ?thesis
      unfolding st'(3) Let_def using that(2) by simp
  qed
qed

lemma nat_str_inject: "nat_str m = nat_str n \<Longrightarrow> m = n"
  by (metis nat_str_value)

definition sources_ok :: "onboarding \<Rightarrow> bool" where
  "sources_ok s \<longleftrightarrow> map fst (ob_sources s) = map (\<lambda>i. ''src-'' @ nat_str (i + 1)) [0..<length (ob_sources s)]
     \<and> (\<forall>sid. dict_has (ob_sources s) sid \<longrightarrow> (\<exists>k. stands k sid s))"

lemma new_source_id: "sources_ok s \<Longrightarrow> dict_get (ob_sources s) (''src-'' @ nat_str (length (ob_sources s) + 1)) = None"
proof -
  assume s: "sources_ok s"
  have "''src-'' @ nat_str (length (ob_sources s) + 1) \<notin> set (map fst (ob_sources s))"
    using s nat_str_inject unfolding sources_ok_def by (auto dest!: nat_str_inject)
  then show ?thesis by (simp add: map_of_eq_None_iff)
qed

lemma register_stands:
  assumes "sources_ok s"
  shows "stands k sid s \<Longrightarrow> stands k sid (fst (register_source ids now name ty required critical s))"
    and "stands 0 (''src-'' @ nat_str (length (ob_sources s) + 1)) (fst (register_source ids now name ty required critical s))"
proof -
  show "stands k sid s \<Longrightarrow> stands k sid (fst (register_source ids now name ty required critical s))"
    using new_source_id [OF assms] by (auto simp: stands_def register_source_def Let_def)
  have "phase_at 0 i (initial_phase ids now i)" if "i < length phase_defs" for i
    using phase_checks [OF that] by (auto simp: phase_at_def initial_phase_def case_prod_unfold Let_def)
  then show "stands 0 (''src-'' @ nat_str (length (ob_sources s) + 1)) (fst (register_source ids now name ty required critical s))"
    by (simp add: stands_def register_source_def phases_ok_def tier_ok_def Let_def)
qed

lemma keys_kept:
  "dict_get d k = Some w \<Longrightarrow> map fst (dict_set k v d) = map fst d"
  by (induction d) (auto split: if_splits)

lemma same_sources:
  "map fst (ob_sources (fst (advance_phase now sid passed s))) = map fst (ob_sources s)"
  "map fst (ob_sources (update_quality now sid q s)) = map fst (ob_sources s)"
proof -
  have adv: "map fst (ob_sources (fst (advance_phase now sid passed s))) = map fst (ob_sources s)" for passed s
    using keys_kept by (auto simp: advance_phase_def Let_def split: option.split)
  then show "map fst (ob_sources (fst (advance_phase now sid passed s))) = map fst (ob_sources s)" .
  show "map fst (ob_sources (update_quality now sid q s)) = map fst (ob_sources s)"
    using keys_kept adv by (auto simp: update_quality_def Let_def split: option.split)
qed

lemma step_stands: "sources_ok s \<Longrightarrow> stands k sid s \<Longrightarrow> \<exists>k' \<in> {k, k + 1}. stands k' sid (onboarding_step x s)"
proof (cases x)
  case (Register ids now name ty required critical)
  then show "sources_ok s \<Longrightarrow> stands k sid s \<Longrightarrow> ?thesis" using register_stands(1) by simp
next
  case (Advance now u passed)
  then show "stands k sid s \<Longrightarrow> ?thesis" using advance_stands(1) [of k sid s now u passed] by simp
next
  case (Quality now u q)
  then show "stands k sid s \<Longrightarrow> ?thesis" using quality_stands(1) [of k sid s now u q] by simp
qed

interpretation onboarding_machine: invariant_machine onboarding_step "\<lambda>_ _. True" sources_ok
proof
  fix s x assume s: "sources_ok s"
  have kept: "\<exists>k. stands k sid (onboarding_step x s)" if "dict_has (ob_sources s) sid" for sid
    using s that step_stands unfolding sources_ok_def by blast
  have same: "sources_ok (onboarding_step x s)" if "map fst (ob_sources (onboarding_step x s)) = map fst (ob_sources s)"
  proof -
    have "length (ob_sources (onboarding_step x s)) = length (ob_sources s)" using that by (metis length_map)
    moreover have "dict_has (ob_sources (onboarding_step x s)) sid \<longleftrightarrow> dict_has (ob_sources s) sid" for sid
      using that by (simp add: dict_has_def map_of_eq_None_iff flip: set_map)
    ultimately show ?thesis using s that kept unfolding sources_ok_def by simp
  qed
  show "sources_ok (onboarding_step x s)"
  proof (cases x)
    case (Register ids now name ty required critical)
    have new: "map fst (ob_sources (onboarding_step x s)) = map fst (ob_sources s) @ [''src-'' @ nat_str (length (ob_sources s) + 1)]"
      using dict_set_fresh [OF new_source_id [OF s]] by (simp add: Register register_source_def Let_def)
    then have "length (ob_sources (onboarding_step x s)) = Suc (length (ob_sources s))"
      by (metis length_append_singleton length_map)
    moreover have "dict_has (ob_sources (onboarding_step x s)) sid
        \<longleftrightarrow> dict_has (ob_sources s) sid \<or> sid = ''src-'' @ nat_str (length (ob_sources s) + 1)" for sid
      using arg_cong [OF new, of set] by (auto simp: dict_has_def map_of_eq_None_iff)
    moreover have "stands 0 (''src-'' @ nat_str (length (ob_sources s) + 1)) (onboarding_step x s)"
      using register_stands(2) [OF s] by (simp add: Register)
    ultimately show ?thesis using s new kept unfolding sources_ok_def by auto
  qed (use same same_sources in simp_all)
qed

text \<open>
  C38: onboarding is well formed and goes phase by phase: after any run every source has completed the
  first \<open>k\<close> phases with all their checks, is in phase \<open>k\<close> and has the tier of the last completed
  phase, the later phases being untouched; and one more operation takes it at most one phase further
  and never back.
\<close>

theorem onboarding_in_order:
  assumes "s = fold onboarding_step ops no_sources" and "dict_has (ob_sources s) sid"
  shows "\<exists>k \<le> 6. stands k sid s \<and> (stands k sid (onboarding_step x s) \<or> stands (k + 1) sid (onboarding_step x s))"
proof -
  have "run_allowed onboarding_step (\<lambda>_ _. True) xs v" for xs v by (induction xs arbitrary: v) auto
  moreover have "sources_ok no_sources" by (simp add: sources_ok_def no_sources_def dict_has_def)
  ultimately have s: "sources_ok s" using onboarding_machine.run_inv assms(1) by blast
  then obtain k where k: "stands k sid s" using assms(2) by (auto simp: sources_ok_def)
  then have "k \<le> 6" by (auto simp: stands_def phases_ok_def phase_count)
  then show ?thesis using k step_stands [OF s k, of x] by auto
qed

text \<open>A quality score of 0.95 completes the phase a source is in, whatever checks it has passed.\<close>

lemma quality_skips_checks:
  "stands k sid s \<Longrightarrow> k < 6 \<Longrightarrow> 95 / 100 \<le> qy_overall q \<Longrightarrow> stands (k + 1) sid (update_quality now sid q s)"
  using quality_stands(2) by (simp add: phase_count)

subsection \<open>Samples\<close>

definition sample_snapshot :: telemetry_snapshot where
  "sample_snapshot =
     \<lparr>tp_snapshot_id = ''t1'', tp_cluster_id = ''c1'', tp_collected_at = ''now'',
      tp_gpu_snapshot = [(''total_gpus'', JInt 1), (''devices'', JList [JObj [(''memory_total_mb'', JInt 80), (''memory_used_mb'', JInt 90)]])],
      tp_model_services = [], tp_fabric = [], tp_queues = [], tp_jobs = []\<rparr>"

text \<open>A device that uses more memory than it has: half of the two checks fail.\<close>

lemma sample_consistency: "score_consistency sample_snapshot = Inr (1 / 2)"
  by (simp add: score_consistency_def devices_of_def sample_snapshot_def dict_get_or_def device_issues_def outside_def
      num_or_type_error_def)

lemma sample_accuracy: "score_accuracy sample_snapshot = Inr 1"
  by (simp add: score_accuracy_def devices_of_def sample_snapshot_def dict_get_or_def device_penalty_def num_or_type_error_def)

theorem quality_score_bounds_witness:
  "\<exists>q. score_snapshot (\<lambda>_. Some 0) 0 [] sample_snapshot = Inr q \<and> qy_consistency q = 1 / 2 \<and> 0 \<le> qy_overall q \<and> qy_overall q \<le> 1"
proof -
  obtain q where q: "score_snapshot (\<lambda>_. Some 0) 0 [] sample_snapshot = Inr q" "qy_consistency q = py_round 3 (1 / 2)"
    by (simp add: score_snapshot_def sample_consistency sample_accuracy Let_def)
  moreover have "py_round 3 (1 / 2) = 1 / 2" by code_simp
  ultimately show ?thesis using quality_score_bounds [OF q(1)] by auto
qed

theorem fallback_data_witness:
  "\<exists>data r c'. fb_resolve 300 1000 1001 ''gpu'' (Some [(''gpu_count'', JInt 4)]) (Some [''gpu_count'', ''queue_depth''])
       [(''gpu'', \<lparr>cd_data = [(''gpu_count'', JInt 8), (''queue_depth'', JInt 3)], cd_timestamp = 900\<rparr>)] = ((data, r), c')
     \<and> dict_get data ''gpu_count'' = Some (JInt 4) \<and> dict_has data ''queue_depth''"
proof -
  let ?c = "[(''gpu'', \<lparr>cd_data = [(''gpu_count'', JInt 8), (''queue_depth'', JInt 3)], cd_timestamp = 900\<rparr>)]"
  obtain data r c' where run: "fb_resolve 300 1000 1001 ''gpu'' (Some [(''gpu_count'', JInt 4)]) (Some [''gpu_count'', ''queue_depth'']) ?c
      = ((data, r), c')" "fr_cache_available r"
    by (simp add: fb_resolve_def fresh_entry_def dict_has_def Let_def)
  have "\<And>d. Some [(''gpu_count'', JInt 4)] = Some d \<Longrightarrow> dict_ok d" by (auto simp: dict_ok_def)
  from fallback_data [OF run(1) this] run show ?thesis by auto
qed

lemma has_key: "map fst d = ks \<Longrightarrow> k \<in> set ks \<Longrightarrow> dict_has d k"
  by (auto simp: dict_has_def map_of_eq_None_iff)

theorem onboarding_in_order_witness:
  "\<exists>k \<le> 6. stands k ''src-1'' (fold onboarding_step [Register (\<lambda>_. ''p'') ''t'' ''dcgm'' ''gpu'' None True,
       Advance ''t'' ''src-1'' (Some 1), Advance ''t'' ''src-1'' None] no_sources)"
proof -
  let ?s = "fold onboarding_step [Register (\<lambda>_. ''p'') ''t'' ''dcgm'' ''gpu'' None True,
      Advance ''t'' ''src-1'' (Some 1), Advance ''t'' ''src-1'' None] no_sources"
  have "nat_str (Suc 0) = ''1''" by code_simp
  then have "map fst (ob_sources ?s) = [''src-1'']"
    by (simp add: same_sources) (simp add: register_source_def no_sources_def Let_def)
  then have "dict_has (ob_sources ?s) ''src-1''" by (rule has_key) simp
  from onboarding_in_order [OF refl this, of "Advance ''t'' ''src-1'' None"] show ?thesis by blast
qed

end
