(* ===== verification/Traces.thy ===== *)
theory Traces
  imports ClusterState Twin
begin

text \<open>
  Traces, src/src/gpuopt/trace.py with the states and baselines of src/src/gpuopt/repository.py and the
  trace routes of src/src/gpuopt/api.py: the stored snapshots of a cluster, their replay through the
  check system, and the comparison of two of them. States come back from the database as they were
  stored. The time stamp of a state's identifier, its random part and the clock are arguments.
\<close>

subsection \<open>Stored states and baselines\<close>

record baseline_info =
  bi_cluster_id :: uuid
  bi_trace_id :: string
  bi_set_at :: datetime
  bi_collected_at :: datetime
  bi_node_count :: int
  bi_gpu_count :: int

record trace_db =
  td_repo :: repo
  td_states :: "(string \<times> cluster_state) list"
  td_baselines :: "baseline_info list"

definition state_id :: "string \<Rightarrow> uuid \<Rightarrow> cluster_state \<Rightarrow> string" where
  "state_id ts u st = cs_cluster_id st @ ''_'' @ ts @ ''_'' @ take 8 u"

definition save_state :: "string \<Rightarrow> uuid \<Rightarrow> cluster_state \<Rightarrow> trace_db \<Rightarrow> py_error + trace_db" where
  "save_state ts u st s =
     (if state_id ts u st \<in> fst ` set (td_states s) then Inl (RuntimeError ''UNIQUE constraint failed: cluster_state.id'')
      else Inr (s\<lparr>td_states := td_states s @ [(state_id ts u st, st)]\<rparr>))"

definition states_of :: "uuid \<Rightarrow> trace_db \<Rightarrow> (string \<times> cluster_state) list" where
  "states_of cid s = select_desc (\<lambda>(_, st). cs_cluster_id st = cid) (\<lambda>(_, st). cs_collected_at st) (td_states s)"

definition latest_state :: "uuid \<Rightarrow> trace_db \<Rightarrow> cluster_state option" where
  "latest_state cid s = (case states_of cid s of [] \<Rightarrow> None | (_, st) # _ \<Rightarrow> Some st)"

definition delete_state_for_cluster :: "uuid \<Rightarrow> trace_db \<Rightarrow> trace_db" where
  "delete_state_for_cluster cid s = s\<lparr>td_states := filter (\<lambda>(_, st). cs_cluster_id st \<noteq> cid) (td_states s)\<rparr>"

text \<open>\<open>LIMIT\<close> and \<open>OFFSET\<close>: a negative limit is no limit, a negative offset none.\<close>

definition repo_list_traces :: "uuid \<Rightarrow> int \<Rightarrow> int \<Rightarrow> trace_db \<Rightarrow> (string \<times> cluster_state) list" where
  "repo_list_traces cid lmt off s =
     (let rows = drop (nat off) (states_of cid s) in if lmt < 0 then rows else take (nat lmt) rows)"

definition repo_get_trace :: "uuid \<Rightarrow> string \<Rightarrow> trace_db \<Rightarrow> cluster_state option" where
  "repo_get_trace cid tid s = map_option snd (select_one (\<lambda>(i, st). i = tid \<and> cs_cluster_id st = cid) (td_states s))"

definition repo_trace_count :: "uuid \<Rightarrow> trace_db \<Rightarrow> int" where
  "repo_trace_count cid s = int (length (filter (\<lambda>(_, st). cs_cluster_id st = cid) (td_states s)))"

definition repo_set_baseline :: "datetime \<Rightarrow> uuid \<Rightarrow> cluster_state \<Rightarrow> string \<Rightarrow> trace_db \<Rightarrow> trace_db \<times> baseline_info" where
  "repo_set_baseline now cid st tid s =
     (let b = \<lparr>bi_cluster_id = cid, bi_trace_id = tid, bi_set_at = now, bi_collected_at = cs_collected_at st,
               bi_node_count = cs_node_count st, bi_gpu_count = cs_gpu_count st\<rparr>
      in (s\<lparr>td_baselines := replace_row (\<lambda>a b. bi_cluster_id a = bi_cluster_id b) b (td_baselines s)\<rparr>, b))"

definition repo_get_baseline :: "uuid \<Rightarrow> trace_db \<Rightarrow> baseline_info option" where
  "repo_get_baseline cid s = select_one (\<lambda>b. cid = bi_cluster_id b) (td_baselines s)"

definition delete_baseline :: "uuid \<Rightarrow> trace_db \<Rightarrow> trace_db" where
  "delete_baseline cid s = s\<lparr>td_baselines := filter (\<lambda>b. bi_cluster_id b \<noteq> cid) (td_baselines s)\<rparr>"

subsection \<open>The trace service\<close>

definition some_or_key :: "string \<Rightarrow> 'a option \<Rightarrow> py_error + 'a" where
  "some_or_key m v = (case v of None \<Rightarrow> Inl (KeyError m) | Some x \<Rightarrow> Inr x)"

definition trace_cluster :: "uuid \<Rightarrow> trace_db \<Rightarrow> py_error + cluster" where
  "trace_cluster cid s = some_or_key (''Cluster not found: '' @ cid) (get_cluster cid (td_repo s))"

record trace_item =
  ti_id :: string
  ti_cluster_id :: uuid
  ti_cluster_name :: string
  ti_environment :: string
  ti_collected_at :: datetime
  ti_node_count :: int
  ti_gpu_count :: int
  ti_has_baseline :: bool

definition list_traces :: "uuid \<Rightarrow> int \<Rightarrow> int \<Rightarrow> trace_db \<Rightarrow> py_error + trace_item list" where
  "list_traces cid lmt off s =
     try_bind (trace_cluster cid s) (\<lambda>_.
       let bid = map_option bi_trace_id (repo_get_baseline cid s) in
       Inr (map (\<lambda>(tid, st).
         \<lparr>ti_id = tid, ti_cluster_id = cs_cluster_id st, ti_cluster_name = cs_cluster_name st, ti_environment = cs_environment st,
          ti_collected_at = cs_collected_at st, ti_node_count = cs_node_count st, ti_gpu_count = cs_gpu_count st,
          ti_has_baseline = (Some tid = bid)\<rparr>) (repo_list_traces cid lmt off s)))"

definition get_trace :: "uuid \<Rightarrow> string \<Rightarrow> trace_db \<Rightarrow> py_error + cluster_state" where
  "get_trace cid tid s =
     try_bind (trace_cluster cid s) (\<lambda>_. some_or_key (''Trace not found: '' @ tid) (repo_get_trace cid tid s))"

definition trace_count :: "uuid \<Rightarrow> trace_db \<Rightarrow> py_error + int" where
  "trace_count cid s = try_bind (trace_cluster cid s) (\<lambda>_. Inr (repo_trace_count cid s))"

subsection \<open>Replay\<close>

text \<open>
  A device of a stored state has no temperature, power or utilisation: these are fields of telemetry,
  and reading one raises.
\<close>

definition telemetry_field :: "string \<Rightarrow> gpu_state \<Rightarrow> py_error + rat" where
  "telemetry_field f g = Inl (AttributeError (''GPUDeviceState object has no attribute '' @ f))"

definition devices_in :: "cluster_state \<Rightarrow> gpu_state list" where
  "devices_in st = concat (map ns_gpu_devices (cs_nodes st))"

definition node_checks_of :: "cluster_state \<Rightarrow> check_item list" where
  "node_checks_of st =
     (let n = int (length (cs_nodes st)); healthy = int (length (filter (\<lambda>x. ns_status x = ''Ready'') (cs_nodes st))) in
      [check ''node_inventory'' (if 0 < n then CHECK_PASS else CHECK_FAIL) [Txt ''Trace shows '', Val (JInt n), Txt '' node(s).'']
         [(''node_count'', JInt n), (''nodes'', JList (map (JStr \<circ> ns_name) (cs_nodes st)))] None]
      @ (if healthy < n
         then [check ''node_health'' CHECK_WARN [Val (JInt (n - healthy)), Txt '' node(s) not Ready.'']
                 [(''healthy'', JInt healthy), (''total'', JInt n)] None]
         else []))"

definition gpu_inventory_check :: "cluster_state \<Rightarrow> check_item" where
  "gpu_inventory_check st =
     (let n = cs_gpu_count st; total = cs_total_gpu_memory_bytes st; used = sum_list (map gs_memory_used_bytes (devices_in st));
          pct = (if 0 < total then py_round 1 (of_int used / of_int total * 100) else 0) in
      if 0 < n
      then check ''gpu_inventory'' CHECK_PASS
             [Txt ''Trace shows '', Val (JInt n), Txt '' GPU(s), '', Val (JFloat pct), Txt ''% memory utilized.'']
             [(''gpu_count'', JInt n), (''total_memory_bytes'', JInt total), (''used_memory_bytes'', JInt used),
              (''utilization_percent'', JFloat pct)] None
      else check ''gpu_inventory'' CHECK_WARN [Txt ''No GPUs detected in trace.''] [(''gpu_count'', JInt 0)] None)"

definition gpu_telemetry_check :: "cluster_state \<Rightarrow> py_error + check_item" where
  "gpu_telemetry_check st =
     try_bind (try_map (telemetry_field ''temperature_gpu_celsius'') (devices_in st)) (\<lambda>temps.
     try_bind (try_map (telemetry_field ''power_draw_watts'') (devices_in st)) (\<lambda>powers.
       let hot = filter (\<lambda>t. 0 < t) temps; power = sum_list powers;
           avg = (if hot \<noteq> [] then py_round 1 (sum_list hot / of_nat (length hot)) else 0) in
       Inr (check ''gpu_telemetry'' (if hot \<noteq> [] then CHECK_PASS else CHECK_WARN)
              [Txt ''Avg GPU temp: '', Val (JFloat avg), Txt (CHR 0xB0 # ''C, total power: ''), Val (JFloat power), Txt ''W.'']
              [(''avg_temperature_celsius'', JFloat avg), (''total_power_watts'', JFloat power), (''gpus_with_telemetry'', count_val hot)]
              None)))"

definition workload_check :: "cluster_state \<Rightarrow> check_item" where
  "workload_check st =
     (let pods = sum_list (map ns_pod_count (cs_nodes st)); n = JInt (int (length (cs_nodes st))) in
      check ''workload_summary'' CHECK_PASS [Txt ''Total pods: '', Val (JInt pods), Txt '' across '', Val n, Txt '' node(s).'']
        [(''total_pods'', JInt pods),
         (''total_pod_capacity'', JInt (sum_list (map ns_pod_capacity (filter (\<lambda>x. 0 < ns_pod_capacity x) (cs_nodes st))))),
         (''node_count'', n)] None)"

definition freshness_check :: "cluster_state \<Rightarrow> check_item list" where
  "freshness_check st =
     (case cs_telemetry st of None \<Rightarrow> []
      | Some t \<Rightarrow>
          if 0 < ct_freshness_seconds t
          then [check ''telemetry_freshness'' (if ct_freshness_seconds t < 300 then CHECK_PASS else CHECK_WARN)
                  [Txt ''Telemetry freshness: '', Val (JFloat (ct_freshness_seconds t)), Txt ''s.'']
                  [(''freshness_seconds'', JFloat (ct_freshness_seconds t))] None]
          else [])"

record replay_result =
  rr_trace_id :: string
  rr_cluster_id :: uuid
  rr_cluster_name :: string
  rr_environment :: string
  rr_original_collected_at :: datetime
  rr_node_count :: int
  rr_gpu_count :: int
  rr_checks :: "check_item list"
  rr_overall_status :: check_status
  rr_summary :: "(check_status, int) dict"

definition overall_of :: "check_item list \<Rightarrow> check_status" where
  "overall_of cs =
     (if list_ex (\<lambda>c. ck_status c = CHECK_FAIL) cs then CHECK_FAIL
      else if list_ex (\<lambda>c. ck_status c = CHECK_WARN) cs then CHECK_WARN else CHECK_PASS)"

definition status_counts :: "check_item list \<Rightarrow> (check_status, int) dict" where
  "status_counts cs =
     map (\<lambda>st. (st, int (length (filter (\<lambda>c. ck_status c = st) cs)))) [CHECK_PASS, CHECK_WARN, CHECK_FAIL, CHECK_SKIP]"

definition replay_checks :: "cluster_state \<Rightarrow> py_error + check_item list" where
  "replay_checks st =
     try_bind (if 0 < cs_gpu_count st then try_bind (gpu_telemetry_check st) (\<lambda>c. Inr [c]) else Inr []) (\<lambda>gpu.
       Inr (node_checks_of st @ [gpu_inventory_check st] @ gpu @ [workload_check st] @ freshness_check st))"

definition replay_trace :: "uuid \<Rightarrow> string \<Rightarrow> trace_db \<Rightarrow> py_error + replay_result" where
  "replay_trace cid tid s =
     try_bind (get_trace cid tid s) (\<lambda>st. try_bind (replay_checks st) (\<lambda>cs. Inr
       \<lparr>rr_trace_id = tid, rr_cluster_id = cs_cluster_id st, rr_cluster_name = cs_cluster_name st,
        rr_environment = cs_environment st, rr_original_collected_at = cs_collected_at st, rr_node_count = cs_node_count st,
        rr_gpu_count = cs_gpu_count st, rr_checks = cs, rr_overall_status = overall_of cs, rr_summary = status_counts cs\<rparr>))"

subsection \<open>Baselines and comparisons\<close>

definition set_trace_baseline :: "datetime \<Rightarrow> uuid \<Rightarrow> trace_db \<Rightarrow> py_error + trace_db \<times> baseline_info" where
  "set_trace_baseline now cid s =
     try_bind (trace_cluster cid s) (\<lambda>_.
       case repo_list_traces cid 1 0 s of
         [] \<Rightarrow> Inl (KeyError ''No cluster state has been collected; cannot set baseline'')
       | (tid, st) # _ \<Rightarrow> Inr (repo_set_baseline now cid st tid s))"

definition get_trace_baseline :: "uuid \<Rightarrow> trace_db \<Rightarrow> py_error + baseline_info" where
  "get_trace_baseline cid s =
     try_bind (trace_cluster cid s) (\<lambda>_. some_or_key ''No baseline has been set for this cluster'' (repo_get_baseline cid s))"

record gpu_diff =
  gx_node :: string
  gx_gpu_index :: int
  gx_gpu_uuid :: string
  gx_gpu_model :: string
  gx_baseline_memory_used_bytes :: int
  gx_current_memory_used_bytes :: int
  gx_baseline_utilization_percent :: rat
  gx_current_utilization_percent :: rat
  gx_baseline_temperature_celsius :: rat
  gx_current_temperature_celsius :: rat
  gx_drift_score :: rat

record state_comparison =
  sn_baseline_id :: string
  sn_current_id :: string
  sn_cluster_id :: uuid
  sn_cluster_name :: string
  sn_environment :: string
  sn_baseline_collected_at :: datetime
  sn_current_collected_at :: datetime
  sn_elapsed_hours :: rat
  sn_node_count_baseline :: int
  sn_node_count_current :: int
  sn_nodes_added :: "string list"
  sn_nodes_removed :: "string list"
  sn_gpu_count_baseline :: int
  sn_gpu_count_current :: int
  sn_gpu_diffs :: "gpu_diff list"
  sn_avg_gpu_drift_score :: rat
  sn_max_gpu_drift_score :: rat
  sn_summary :: "piece list"

definition field_or_zero :: "string \<Rightarrow> gpu_state option \<Rightarrow> py_error + rat" where
  "field_or_zero f g = (case g of None \<Rightarrow> Inr 0 | Some d \<Rightarrow> telemetry_field f d)"

definition drift_of :: "int \<Rightarrow> int \<Rightarrow> rat \<Rightarrow> rat \<Rightarrow> rat \<Rightarrow> rat \<Rightarrow> rat" where
  "drift_of b_used c_used b_util c_util b_temp c_temp =
     (let mem = of_int \<bar>c_used - b_used\<bar> / of_int (max b_used 1); util = \<bar>c_util - b_util\<bar> / 100;
          temp = (if 0 < b_temp then \<bar>c_temp - b_temp\<bar> / max b_temp 1 else 0)
      in py_round 4 ((mem + util + temp) / 3))"

definition device_diff :: "string \<Rightarrow> int \<Rightarrow> gpu_state option \<Rightarrow> gpu_state option \<Rightarrow> py_error + gpu_diff" where
  "device_diff node i bg cg =
     (let b_used = (case bg of None \<Rightarrow> 0 | Some g \<Rightarrow> gs_memory_used_bytes g);
          c_used = (case cg of None \<Rightarrow> 0 | Some g \<Rightarrow> gs_memory_used_bytes g) in
      try_bind (field_or_zero ''utilization_gpu_percent'' bg) (\<lambda>b_util.
      try_bind (field_or_zero ''utilization_gpu_percent'' cg) (\<lambda>c_util.
      try_bind (field_or_zero ''temperature_gpu_celsius'' bg) (\<lambda>b_temp.
      try_bind (field_or_zero ''temperature_gpu_celsius'' cg) (\<lambda>c_temp.
        case (case cg of None \<Rightarrow> bg | Some g \<Rightarrow> Some g) of
          None \<Rightarrow> Inl (AttributeError ''NoneType object has no attribute uuid'')
        | Some g \<Rightarrow> Inr
            \<lparr>gx_node = node, gx_gpu_index = i, gx_gpu_uuid = gs_uuid g, gx_gpu_model = gs_model g,
             gx_baseline_memory_used_bytes = b_used, gx_current_memory_used_bytes = c_used,
             gx_baseline_utilization_percent = b_util, gx_current_utilization_percent = c_util,
             gx_baseline_temperature_celsius = b_temp, gx_current_temperature_celsius = c_temp,
             gx_drift_score = drift_of b_used c_used b_util c_util b_temp c_temp\<rparr>)))))"

definition sorted_keys :: "('k::linorder, 'v) dict \<Rightarrow> ('k, 'w) dict \<Rightarrow> 'k list" where
  "sorted_keys a b = sort (remdups (map fst a @ map fst b))"

definition node_diffs :: "string \<Rightarrow> node_state \<Rightarrow> node_state \<Rightarrow> py_error + gpu_diff list" where
  "node_diffs name b c =
     (let bgs = by_index (ns_gpu_devices b); cgs = by_index (ns_gpu_devices c)
      in try_map (\<lambda>i. device_diff name i (dict_get bgs i) (dict_get cgs i)) (sorted_keys bgs cgs))"

definition common_nodes :: "(string, node_state) dict \<Rightarrow> (string, node_state) dict \<Rightarrow> (string \<times> node_state \<times> node_state) list" where
  "common_nodes bs cs =
     List.map_filter (\<lambda>k. case (dict_get bs k, dict_get cs k) of (Some b, Some c) \<Rightarrow> Some (k, b, c) | _ \<Rightarrow> None) (sort (map fst bs))"

definition count_text :: "string list \<Rightarrow> string \<Rightarrow> piece list list" where
  "count_text ns what = (if ns = [] then [] else [[Val (count_val ns), Txt what]])"

definition join_parts :: "piece list list \<Rightarrow> piece list" where
  "join_parts ps = (case ps of [] \<Rightarrow> [] | p # qs \<Rightarrow> p @ concat (map (\<lambda>q. Txt ''; '' # q) qs))"

definition drift_desc :: "rat \<Rightarrow> string" where
  "drift_desc d =
     (if 1 / 2 < d then ''significant drift detected'' else if 1 / 5 < d then ''moderate drift detected'' else ''stable'')"

definition compare_states :: "cluster_state \<Rightarrow> cluster_state \<Rightarrow> string \<Rightarrow> string \<Rightarrow> py_error + state_comparison" where
  "compare_states b c bid cid =
     (let bs = by_name (cs_nodes b); cs = by_name (cs_nodes c);
          added = sort (filter (\<lambda>k. \<not> dict_has bs k) (map fst cs)); removed = sort (filter (\<lambda>k. \<not> dict_has cs k) (map fst bs)) in
      try_bind (try_map (\<lambda>(k, x, y). node_diffs k x y) (common_nodes bs cs)) (\<lambda>dss.
        let diffs = concat dss; scores = map gx_drift_score diffs;
            avg = py_round 4 (sum_list scores / of_nat (max (length diffs) 1));
            mx = py_round 4 (case scores of [] \<Rightarrow> 0 | d # ds \<Rightarrow> foldl max d ds) in Inr
        \<lparr>sn_baseline_id = bid, sn_current_id = cid, sn_cluster_id = cs_cluster_id b, sn_cluster_name = cs_cluster_name b,
         sn_environment = cs_environment b, sn_baseline_collected_at = cs_collected_at b, sn_current_collected_at = cs_collected_at c,
         sn_elapsed_hours = py_round 2 (of_int (cs_collected_at c - cs_collected_at b) / 1000000 / 3600),
         sn_node_count_baseline = cs_node_count b, sn_node_count_current = cs_node_count c, sn_nodes_added = added,
         sn_nodes_removed = removed, sn_gpu_count_baseline = cs_gpu_count b, sn_gpu_count_current = cs_gpu_count c,
         sn_gpu_diffs = diffs, sn_avg_gpu_drift_score = avg, sn_max_gpu_drift_score = mx,
         sn_summary = join_parts (count_text added '' node(s) added'' @ count_text removed '' node(s) removed''
           @ (if diffs = [] then [] else [[Txt ''avg GPU drift: '', Fmt ''.2%'' (JFloat avg)]]) @ [[Txt (drift_desc mx)]])\<rparr>))"

definition compare_with_baseline :: "uuid \<Rightarrow> trace_db \<Rightarrow> py_error + state_comparison" where
  "compare_with_baseline cid s =
     try_bind (trace_cluster cid s) (\<lambda>_.
     try_bind (some_or_key ''No baseline has been set for this cluster'' (repo_get_baseline cid s)) (\<lambda>i.
     try_bind (some_or_key ''Baseline trace data no longer available'' (repo_get_trace cid (bi_trace_id i) s)) (\<lambda>b.
     try_bind (some_or_key ''No current state available for comparison'' (latest_state cid s)) (\<lambda>c.
       compare_states b c (bi_trace_id i) (case repo_list_traces cid 1 0 s of [] \<Rightarrow> [] | (tid, _) # _ \<Rightarrow> tid)))))"

definition compare_traces :: "uuid \<Rightarrow> string \<Rightarrow> string \<Rightarrow> trace_db \<Rightarrow> py_error + state_comparison" where
  "compare_traces cid a b s =
     try_bind (get_trace cid a s) (\<lambda>sa. try_bind (get_trace cid b s) (\<lambda>sb. compare_states sa sb a b))"

subsection \<open>Routes\<close>

definition as_not_found :: "py_error + 'a \<Rightarrow> py_error + 'a" where
  "as_not_found m = (case m of Inl (KeyError k) \<Rightarrow> Inl (HTTPException 404 (error_text (KeyError k))) | _ \<Rightarrow> m)"

definition replay_route :: "uuid \<Rightarrow> string option \<Rightarrow> trace_db \<Rightarrow> py_error + replay_result" where
  "replay_route cid tid s =
     as_not_found (case tid of
       Some t \<Rightarrow> replay_trace cid t s
     | None \<Rightarrow> try_bind (list_traces cid 1 0 s) (\<lambda>ts.
         case ts of [] \<Rightarrow> Inl (HTTPException 404 ''No state data available to replay'') | t # _ \<Rightarrow> replay_trace cid (ti_id t) s))"

text \<open>Without the second identifier the first is compared with the baseline; the second alone is the text of no trace.\<close>

definition compare_route :: "uuid \<Rightarrow> string option \<Rightarrow> string option \<Rightarrow> trace_db \<Rightarrow> py_error + state_comparison" where
  "compare_route cid a b s =
     as_not_found (case (a, b) of
       (None, None) \<Rightarrow> compare_with_baseline cid s
     | (Some x, None) \<Rightarrow> try_bind (get_trace_baseline cid s) (\<lambda>i. compare_traces cid (bi_trace_id i) x s)
     | (Some x, Some y) \<Rightarrow> compare_traces cid x y s
     | (None, Some y) \<Rightarrow> try_bind (trace_cluster cid s) (\<lambda>_. Inl (KeyError ''Trace not found: None'')))"

subsection \<open>What replays and comparisons can say\<close>

lemma fields_missing: "gs \<noteq> [] \<Longrightarrow> \<exists>m. try_map (telemetry_field f) gs = Inl (AttributeError m)"
  by (cases gs) (simp_all add: telemetry_field_def)

lemma status_of_check [simp]: "ck_status (check n st m d r) = st"
  by (simp add: check_def)

lemma telemetry_unread:
  "gpu_telemetry_check st = Inr c \<Longrightarrow> devices_in st = [] \<and> ck_status c = CHECK_WARN"
  "devices_in st \<noteq> [] \<Longrightarrow> \<exists>m. gpu_telemetry_check st = Inl (AttributeError m)"
proof -
  show err: "devices_in st \<noteq> [] \<Longrightarrow> \<exists>m. gpu_telemetry_check st = Inl (AttributeError m)"
    using fields_missing [of "devices_in st" "''temperature_gpu_celsius''"] by (auto simp: gpu_telemetry_check_def)
  show "gpu_telemetry_check st = Inr c \<Longrightarrow> devices_in st = [] \<and> ck_status c = CHECK_WARN"
    using err by (cases "devices_in st = []") (auto simp: gpu_telemetry_check_def Let_def)
qed

lemma replay_fails_iff:
  assumes "replay_checks st = Inr cs"
  shows "list_ex (\<lambda>c. ck_status c = CHECK_FAIL) cs \<longleftrightarrow> cs_nodes st = []"
    and "list_ex (\<lambda>c. ck_status c = CHECK_WARN) cs"
    and "cs_gpu_count st \<le> 0 \<or> devices_in st = []"
proof -
  obtain gpu where gpu: "(if 0 < cs_gpu_count st then try_bind (gpu_telemetry_check st) (\<lambda>c. Inr [c]) else Inr []) = Inr gpu"
    and cs: "cs = node_checks_of st @ [gpu_inventory_check st] @ gpu @ [workload_check st] @ freshness_check st"
    using assms by (auto simp: replay_checks_def try_bind_Inr_iff)
  have tel: "if 0 < cs_gpu_count st then devices_in st = [] \<and> (\<exists>c. gpu = [c] \<and> ck_status c = CHECK_WARN) else gpu = []"
    using gpu telemetry_unread(1) by (auto simp: try_bind_Inr_iff split: if_splits)
  then show "cs_gpu_count st \<le> 0 \<or> devices_in st = []" by (auto split: if_splits)
  have "ck_status (gpu_inventory_check st) = (if 0 < cs_gpu_count st then CHECK_PASS else CHECK_WARN)"
    by (simp add: gpu_inventory_check_def Let_def)
  then show "list_ex (\<lambda>c. ck_status c = CHECK_WARN) cs" using tel by (auto simp: cs split: if_splits)
  have "list_ex (\<lambda>c. ck_status c = CHECK_FAIL) (node_checks_of st) \<longleftrightarrow> cs_nodes st = []"
    by (auto simp: node_checks_of_def Let_def)
  moreover have "\<not> list_ex (\<lambda>c. ck_status c = CHECK_FAIL) ([gpu_inventory_check st] @ gpu @ [workload_check st] @ freshness_check st)"
    using tel by (auto simp: gpu_inventory_check_def workload_check_def freshness_check_def Let_def split: if_splits option.splits)
  ultimately show "list_ex (\<lambda>c. ck_status c = CHECK_FAIL) cs \<longleftrightarrow> cs_nodes st = []" unfolding cs by simp
qed

text \<open>
  The replay of a stored trace never passes: a trace with GPU devices raises \<open>AttributeError\<close>, since a
  stored device has no temperature; any other one fails when it has no node and warns otherwise.
\<close>

theorem replay_never_passes:
  assumes "get_trace cid tid s = Inr st"
  shows "case replay_trace cid tid s of
      Inl e \<Rightarrow> (\<exists>m. e = AttributeError m) \<and> 0 < cs_gpu_count st \<and> devices_in st \<noteq> []
    | Inr r \<Rightarrow> rr_overall_status r = (if cs_nodes st = [] then CHECK_FAIL else CHECK_WARN)
        \<and> (cs_gpu_count st \<le> 0 \<or> devices_in st = [])"
proof (cases "replay_checks st")
  case (Inr cs)
  then show ?thesis using replay_fails_iff [OF Inr] assms by (simp add: replay_trace_def overall_of_def)
next
  case (Inl e)
  then have "0 < cs_gpu_count st \<and> gpu_telemetry_check st = Inl e"
    by (cases "gpu_telemetry_check st") (auto simp: replay_checks_def split: if_splits)
  moreover from this have "devices_in st \<noteq> []" by (auto simp: gpu_telemetry_check_def Let_def)
  ultimately show ?thesis using telemetry_unread(2) [of st] Inl assms by (auto simp: replay_trace_def)
qed

text \<open>The dictionaries of nodes by name and of devices by index.\<close>

lemma fold_keys: "fst ` set (fold (\<lambda>x. dict_set (f x) (g x)) xs d) = f ` set xs \<union> fst ` set d"
  by (induction xs arbitrary: d) (auto simp: dict_keys_set)

lemma fold_dict_ok: "dict_ok d \<Longrightarrow> dict_ok (fold (\<lambda>x. dict_set (f x) (g x)) xs d)"
  by (induction xs arbitrary: d) auto

lemma by_name_keys: "fst ` set (by_name ns) = ns_name ` set ns" "dict_ok (by_name ns)"
  using fold_keys [of ns_name "\<lambda>n. n" ns "[]"] fold_dict_ok [of "[]" ns_name "\<lambda>n. n" ns] by (simp_all add: by_name_def)

lemma by_index_keys: "fst ` set (by_index gs) = gs_index ` set gs"
  using fold_keys [of gs_index "\<lambda>g. g" gs "[]"] by (simp add: by_index_def)

lemma device_diff_fails: "\<exists>m. device_diff n i b c = Inl (AttributeError m)"
  by (cases b; cases c) (auto simp: device_diff_def field_or_zero_def telemetry_field_def)

lemma node_diffs_cases:
  "node_diffs n b c = (if ns_gpu_devices b = [] \<and> ns_gpu_devices c = [] then Inr [] else node_diffs n b c)"
  "ns_gpu_devices b \<noteq> [] \<or> ns_gpu_devices c \<noteq> [] \<Longrightarrow> \<exists>m. node_diffs n b c = Inl (AttributeError m)"
proof -
  show "node_diffs n b c = (if ns_gpu_devices b = [] \<and> ns_gpu_devices c = [] then Inr [] else node_diffs n b c)"
    by (simp add: node_diffs_def sorted_keys_def by_index_def)
  assume "ns_gpu_devices b \<noteq> [] \<or> ns_gpu_devices c \<noteq> []"
  then have "set (sorted_keys (by_index (ns_gpu_devices b)) (by_index (ns_gpu_devices c))) \<noteq> {}"
    by (auto simp: sorted_keys_def by_index_keys)
  then obtain i "is" where "sorted_keys (by_index (ns_gpu_devices b)) (by_index (ns_gpu_devices c)) = i # is"
    by (metis list.exhaust list.set(1))
  then show "\<exists>m. node_diffs n b c = Inl (AttributeError m)"
    using device_diff_fails [of n i "dict_get (by_index (ns_gpu_devices b)) i" "dict_get (by_index (ns_gpu_devices c)) i"]
    by (auto simp: node_diffs_def Let_def)
qed

lemma common_mem:
  "(k, x, y) \<in> set (common_nodes bs cs) \<longleftrightarrow> dict_get bs k = Some x \<and> dict_get cs k = Some y"
  by (force simp: common_nodes_def List.map_filter_def map_of_eq_None_iff split: option.splits dest: map_of_SomeD)

definition has_devices :: "node_state \<Rightarrow> bool" where
  "has_devices n \<longleftrightarrow> ns_gpu_devices n \<noteq> []"

lemma diffs_outcome:
  "case try_map (\<lambda>(k, x, y). node_diffs k x y) ns of
     Inl e \<Rightarrow> (\<exists>m. e = AttributeError m) \<and> (\<exists>(k, x, y) \<in> set ns. has_devices x \<or> has_devices y)
   | Inr dss \<Rightarrow> concat dss = [] \<and> (\<forall>(k, x, y) \<in> set ns. \<not> has_devices x \<and> \<not> has_devices y)"
proof (induction ns)
  case (Cons n ns)
  obtain k x y where n: "n = (k, x, y)" by (metis prod.exhaust)
  show ?case
  proof (cases "has_devices x \<or> has_devices y")
    case True
    then show ?thesis using node_diffs_cases(2) [of x y k] by (auto simp: n has_devices_def)
  next
    case False
    then have "node_diffs k x y = Inr []" using node_diffs_cases(1) [of k x y] by (simp add: has_devices_def)
    then show ?thesis using Cons.IH False by (auto simp: n split: sum.splits)
  qed
qed simp

text \<open>
  C34: the comparison of two stored traces: when a node both traces have carries a GPU device in either,
  it raises \<open>AttributeError\<close>; otherwise it reports exactly the nodes added and removed, in order, no
  device, no drift, and \<open>stable\<close> whatever changed.
\<close>

theorem comparison_outcome:
  assumes "get_trace cid a s = Inr sa" and "get_trace cid b s = Inr sb"
  shows "let shared = {(x, y). \<exists>k. dict_get (by_name (cs_nodes sa)) k = Some x \<and> dict_get (by_name (cs_nodes sb)) k = Some y} in
    case compare_traces cid a b s of
      Inl e \<Rightarrow> (\<exists>m. e = AttributeError m) \<and> (\<exists>(x, y) \<in> shared. has_devices x \<or> has_devices y)
    | Inr r \<Rightarrow> (\<forall>(x, y) \<in> shared. \<not> has_devices x \<and> \<not> has_devices y)
        \<and> set (sn_nodes_added r) = ns_name ` set (cs_nodes sb) - ns_name ` set (cs_nodes sa)
        \<and> set (sn_nodes_removed r) = ns_name ` set (cs_nodes sa) - ns_name ` set (cs_nodes sb)
        \<and> sorted (sn_nodes_added r) \<and> distinct (sn_nodes_added r) \<and> sorted (sn_nodes_removed r) \<and> distinct (sn_nodes_removed r)
        \<and> sn_gpu_diffs r = [] \<and> sn_avg_gpu_drift_score r = 0 \<and> sn_max_gpu_drift_score r = 0
        \<and> last (sn_summary r) = Txt ''stable''"
proof -
  let ?bs = "by_name (cs_nodes sa)" and ?cs = "by_name (cs_nodes sb)"
  have run: "compare_traces cid a b s = compare_states sa sb a b" using assms by (simp add: compare_traces_def)
  have shared: "(\<exists>(k, x, y) \<in> set (common_nodes ?bs ?cs). P x y)
      \<longleftrightarrow> (\<exists>(x, y) \<in> {(x, y). \<exists>k. dict_get ?bs k = Some x \<and> dict_get ?cs k = Some y}. P x y)" for P
    by (auto simp: common_mem Bex_def)
  have keys: "set (sort (filter (\<lambda>k. \<not> dict_has (by_name ms) k) (map fst (by_name ns)))) = ns_name ` set ns - ns_name ` set ms
      \<and> distinct (sort (filter (\<lambda>k. \<not> dict_has (by_name ms) k) (map fst (by_name ns))))" for ms ns
    using by_name_keys [of ns] by_name_keys [of ms] by (auto simp: dict_has_def map_of_eq_None_iff dict_ok_def)
  have zero: "py_round 4 0 = 0" using py_round_int [of 4 0] by simp
  have "last (join_parts (ps @ [[Txt (drift_desc 0)]])) = Txt ''stable''" for ps
    by (cases ps) (simp_all add: join_parts_def drift_desc_def)
  then have stable: "last (join_parts (ps @ qs @ [[Txt (drift_desc 0)]])) = Txt ''stable''" for ps qs by (metis append_assoc)
  show ?thesis
  proof (cases "try_map (\<lambda>(k, x, y). node_diffs k x y) (common_nodes ?bs ?cs)")
    case (Inl e)
    then have "(\<exists>m. e = AttributeError m) \<and> (\<exists>(k, x, y) \<in> set (common_nodes ?bs ?cs). has_devices x \<or> has_devices y)"
      using diffs_outcome [of "common_nodes ?bs ?cs"] by simp
    then show ?thesis unfolding run shared by (simp add: compare_states_def Inl Let_def)
  next
    case (Inr dss)
    then have dss: "concat dss = []"
      and free: "\<not> (\<exists>(k, x, y) \<in> set (common_nodes ?bs ?cs). has_devices x \<or> has_devices y)"
      using diffs_outcome [of "common_nodes ?bs ?cs"] by auto
    obtain r where r: "compare_states sa sb a b = Inr r"
      "sn_nodes_added r = sort (filter (\<lambda>k. \<not> dict_has ?bs k) (map fst ?cs))"
      "sn_nodes_removed r = sort (filter (\<lambda>k. \<not> dict_has ?cs k) (map fst ?bs))"
      "sn_gpu_diffs r = []" "sn_avg_gpu_drift_score r = 0" "sn_max_gpu_drift_score r = 0" "last (sn_summary r) = Txt ''stable''"
      using stable unfolding compare_states_def Let_def Inr try_bind_simps dss by (simp add: zero)
    show ?thesis using free keys r unfolding run shared by (auto simp: Let_def)
  qed
qed

text \<open>A baseline that was set is the one that is read, until it is replaced or deleted; deleting the states leaves it.\<close>

lemma baseline_read:
  assumes "set_trace_baseline now cid s = Inr (s', b)"
  shows "get_trace_baseline cid s' = Inr b \<and> bi_trace_id b \<in> fst ` set (td_states s)
    \<and> repo_get_baseline cid (delete_state_for_cluster cid s') = Some b"
proof -
  obtain tid st ts where ts: "repo_list_traces cid 1 0 s = (tid, st) # ts" and set: "repo_set_baseline now cid st tid s = (s', b)"
    and cl: "\<exists>cl. trace_cluster cid s = Inr cl"
    using assms by (auto simp: set_trace_baseline_def try_bind_Inr_iff split: list.splits)
  have "(tid, st) \<in> set (td_states s)"
    using arg_cong [OF ts, of set] by (auto simp: repo_list_traces_def states_of_def select_desc_def dest!: in_set_takeD in_set_dropD)
  then have "tid \<in> fst ` set (td_states s)" by force
  moreover have "bi_trace_id b = tid" "bi_cluster_id b = cid"
    "td_baselines s' = replace_row (\<lambda>a b. bi_cluster_id a = bi_cluster_id b) b (td_baselines s)" "td_repo s' = td_repo s"
    using set by (auto simp: repo_set_baseline_def Let_def)
  ultimately show ?thesis using cl
    by (auto simp: get_trace_baseline_def repo_get_baseline_def select_one_def select_replace some_or_key_def trace_cluster_def
        delete_state_for_cluster_def)
qed

subsection \<open>Samples\<close>

definition sample_device :: gpu_state where
  "sample_device =
     \<lparr>gs_index = 0, gs_uuid = ''g0'', gs_model = ''A100'', gs_memory_total_bytes = 80, gs_memory_used_bytes = 40, gs_status = ''ok''\<rparr>"

definition gpu_trace :: cluster_state where
  "gpu_trace = (bare_state [''n1''])\<lparr>cs_gpu_count := 1, cs_nodes := [(bare_node ''n1'')\<lparr>ns_gpu_devices := [sample_device]\<rparr>]\<rparr>"

definition sample_db :: trace_db where
  "sample_db = \<lparr>td_repo = east_repo, td_states = [(''t1'', bare_state [''n1'', ''n2'']), (''t2'', bare_state [''n2'', ''n3'']), (''t3'', gpu_trace)],
                td_baselines = []\<rparr>"

lemma sample_traces:
  "get_trace ''c1'' ''t1'' sample_db = Inr (bare_state [''n1'', ''n2''])" "get_trace ''c1'' ''t2'' sample_db = Inr (bare_state [''n2'', ''n3''])"
  "get_trace ''c1'' ''t3'' sample_db = Inr gpu_trace"
  by (simp_all add: get_trace_def trace_cluster_def some_or_key_def get_cluster_def repo_get_trace_def select_one_def sample_db_def
      east_repo_def bare_state_def gpu_trace_def)

theorem replay_never_passes_witness:
  "(\<exists>m. replay_trace ''c1'' ''t3'' sample_db = Inl (AttributeError m))
   \<and> (\<exists>r. replay_trace ''c1'' ''t1'' sample_db = Inr r \<and> rr_overall_status r = CHECK_WARN)"
proof -
  have dev: "devices_in gpu_trace \<noteq> []" "cs_gpu_count gpu_trace = 1" "cs_nodes (bare_state [''n1'', ''n2'']) \<noteq> []"
    "cs_gpu_count (bare_state [''n1'', ''n2'']) = 0"
    by (simp_all add: devices_in_def gpu_trace_def bare_state_def)
  show ?thesis
    using replay_never_passes [OF sample_traces(3)] replay_never_passes [OF sample_traces(1)] dev
    by (auto split: sum.splits)
qed

theorem comparison_outcome_witness:
  "\<exists>r. compare_traces ''c1'' ''t1'' ''t2'' sample_db = Inr r \<and> set (sn_nodes_added r) = {''n3''} \<and> set (sn_nodes_removed r) = {''n1''}"
proof -
  have names: "ns_name ` set (cs_nodes (bare_state [''n1'', ''n2''])) = {''n1'', ''n2''}"
    "ns_name ` set (cs_nodes (bare_state [''n2'', ''n3''])) = {''n2'', ''n3''}"
    by (auto simp: bare_state_def bare_node_def)
  have "by_name (cs_nodes (bare_state [''n1'', ''n2''])) = [(''n1'', bare_node ''n1''), (''n2'', bare_node ''n2'')]"
    by (simp add: by_name_def bare_state_def bare_node_def)
  then have "\<forall>k x. dict_get (by_name (cs_nodes (bare_state [''n1'', ''n2'']))) k = Some x \<longrightarrow> \<not> has_devices x"
    by (auto simp: has_devices_def bare_node_def)
  moreover have "by_name (cs_nodes (bare_state [''n2'', ''n3''])) = [(''n2'', bare_node ''n2''), (''n3'', bare_node ''n3'')]"
    by (simp add: by_name_def bare_state_def bare_node_def)
  then have "\<forall>k x. dict_get (by_name (cs_nodes (bare_state [''n2'', ''n3'']))) k = Some x \<longrightarrow> \<not> has_devices x"
    by (auto simp: has_devices_def bare_node_def)
  ultimately show ?thesis
    using comparison_outcome [OF sample_traces(1,2)] unfolding names by (auto simp: Let_def split: sum.splits)
qed

end
