(* ===== verification/FailurePredictor.thy ===== *)
theory FailurePredictor
  imports Values
begin

text \<open>
  \<open>FailurePredictor\<close> of src/src/gpuopt/predictor/failure_predictor.py: the features of a node's
  telemetry, training, prediction and the summary of a cluster. The forest, the outlier detector and
  the scaler of scikit-learn are arguments; a telemetry value that is no number raises. The model's
  file is not modelled.
\<close>

subsection \<open>Features\<close>

definition as_number :: "json \<Rightarrow> py_error + rat" where
  "as_number v = (case json_num v of None \<Rightarrow> Inl (TypeError ''unsupported operand type'') | Some x \<Rightarrow> Inr x)"

definition telemetry_defaults :: "(string \<times> json) list" where
  "telemetry_defaults =
     [(''gpu_utilization'', JInt 0), (''memory_utilization'', JInt 0), (''temperature'', JInt 0), (''power_usage'', JInt 0),
      (''clock_speed'', JInt 0), (''ecc_errors'', JInt 0), (''retired_pages'', JInt 0), (''xid_errors'', JInt 0),
      (''utilization_variance'', JInt 0), (''temperature_variance'', JInt 0), (''available_gpus'', JInt 0),
      (''total_gpus'', JInt 1), (''queue_length'', JInt 0), (''job_failures'', JInt 0), (''job_retries'', JInt 0),
      (''average_job_duration'', JInt 0)]"

definition derived_features :: "(string, rat) dict \<Rightarrow> (string, rat) dict" where
  "derived_features f = (let g = (\<lambda>k. dict_get_or f k 0) in
     [(''gpu_utilization_ratio'', g ''gpu_utilization'' / 100), (''memory_pressure'', g ''memory_utilization'' / 100),
      (''temperature_ratio'', g ''temperature'' / 85), (''error_rate'', (g ''ecc_errors'' + g ''xid_errors'') / 1000)])"

definition extract_features :: "(string, json) dict \<Rightarrow> py_error + (string, rat) dict" where
  "extract_features telemetry =
     try_bind (try_map (\<lambda>(k, d). try_bind (as_number (dict_get_or telemetry k d)) (\<lambda>x. Inr (k, x))) telemetry_defaults)
       (\<lambda>f. Inr (f @ derived_features f))"

subsection \<open>The predictor\<close>

text \<open>What the fitted scaler, forest and outlier detector answer on a row of features.\<close>

record forest =
  fo_predict :: "rat list \<Rightarrow> int"
  fo_proba :: "rat list \<Rightarrow> rat list"
  fo_decision :: "rat list \<Rightarrow> rat"
  fo_outlier :: "rat list \<Rightarrow> int"
  fo_importances :: "rat list"

record failure_predictor =
  fp_forest :: "forest option"
  fp_feature_names :: "string list"

definition is_trained :: "failure_predictor \<Rightarrow> bool" where
  "is_trained p \<longleftrightarrow> fp_forest p \<noteq> None"

definition new_predictor :: failure_predictor where
  "new_predictor = \<lparr>fp_forest = None, fp_feature_names = []\<rparr>"

record train_report =
  tp_status :: string
  tp_message :: "piece list"
  tp_samples :: nat
  tp_feature_importance :: "(string, rat) dict"

text \<open>\<open>fit\<close> gives the number of rows kept for training and what was fitted, or the error of a bad split.\<close>

definition train_predictor ::
  "(rat list list \<Rightarrow> int list \<Rightarrow> py_error + nat \<times> forest) \<Rightarrow> (string, json) dict list \<Rightarrow> int list \<Rightarrow> failure_predictor
    \<Rightarrow> py_error + failure_predictor \<times> train_report" where
  "train_predictor fit history labels p =
     (if length history < 100
      then Inr (p, \<lparr>tp_status = ''insufficient_data'',
        tp_message = [Txt ''Need at least 100 samples for training (got '', Val (JInt (int (length history))), Txt '')''],
        tp_samples = 0, tp_feature_importance = []\<rparr>)
      else try_bind (try_map extract_features history) (\<lambda>rows.
        try_bind (fit (map dict_values rows) labels) (\<lambda>(n, forest).
          let names = map fst (last rows) in
          Inr (\<lparr>fp_forest = Some forest, fp_feature_names = names\<rparr>,
               \<lparr>tp_status = ''training_complete'', tp_message = [], tp_samples = n,
                tp_feature_importance = zip names (fo_importances forest)\<rparr>))))"

record prediction =
  pr_failure_predicted :: bool
  pr_probability :: rat
  pr_confidence :: "rat option"
  pr_risk_factors :: "piece list list"
  pr_is_anomaly :: "bool option"
  pr_anomaly_score :: "rat option"
  pr_recommendation :: string
  pr_timestamp :: datetime

text \<open>The thresholds of the risk factors: a metric, its bound, the text before and after the value.\<close>

definition risk_bounds :: "(string \<times> rat \<times> string \<times> bool \<times> string) list" where
  "risk_bounds =
     [(''temperature'', 80, ''High temperature: '', False, [CHR 0xB0, CHR ''C'']), (''ecc_errors'', 10, ''High ECC errors: '', False, []),
      (''xid_errors'', 5, ''XID errors detected: '', False, []), (''memory_utilization'', 90, ''High memory pressure: '', False, ''%''),
      (''utilization_variance'', 3 / 10, ''Erratic utilization: variance='', True, [])]"

definition risk_factor_of :: "(string, json) dict \<Rightarrow> string \<times> rat \<times> string \<times> bool \<times> string \<Rightarrow> piece list list" where
  "risk_factor_of telemetry = (\<lambda>(k, bound, text, two_digits, unit).
     let v = dict_get_or telemetry k (JInt 0) in
     case json_num v of
       Some x \<Rightarrow> if bound < x then [[Txt text, if two_digits then Fmt ''.2f'' v else Val v] @ (if unit = [] then [] else [Txt unit])] else []
     | None \<Rightarrow> [])"

definition recommendation_for :: "rat \<Rightarrow> string" where
  "recommendation_for p =
     (if 7 / 10 < p then ''Immediate action recommended: check node health, consider migrating workloads''
      else if 4 / 10 < p then ''Monitor closely: prepare for potential failure''
      else ''System appears healthy, continue monitoring'')"

definition second_or_half :: "rat list \<Rightarrow> rat" where
  "second_or_half ps = (if 1 < length ps then ps ! 1 else 1 / 2)"

definition predict_failure :: "datetime \<Rightarrow> (string, json) dict \<Rightarrow> failure_predictor \<Rightarrow> py_error + prediction" where
  "predict_failure now telemetry p =
     (case fp_forest p of
        None \<Rightarrow> Inr
          \<lparr>pr_failure_predicted = False, pr_probability = 1 / 2, pr_confidence = None,
           pr_risk_factors = [[Txt ''Model not trained yet'']], pr_is_anomaly = None, pr_anomaly_score = None,
           pr_recommendation = ''Train model with historical data first'', pr_timestamp = now\<rparr>
      | Some m \<Rightarrow> try_bind (extract_features telemetry) (\<lambda>f.
          let row = dict_values f;
              anomaly = (fo_outlier m row = -1);
              confidence = second_or_half (fo_proba m row);
              probability = (if anomaly then min 1 (confidence * (13 / 10)) else confidence)
          in Inr
          \<lparr>pr_failure_predicted = (fo_predict m row = 1 \<or> anomaly), pr_probability = probability, pr_confidence = Some confidence,
           pr_risk_factors = concat (map (risk_factor_of telemetry) risk_bounds)
             @ (if anomaly then [[Txt ''Anomalous behavior detected'']] else []),
           pr_is_anomaly = Some anomaly, pr_anomaly_score = Some (fo_decision m row),
           pr_recommendation = recommendation_for probability, pr_timestamp = now\<rparr>))"

subsection \<open>A cluster at a glance\<close>

record node_risk =
  nk_failure_probability :: rat
  nk_risk_factors :: "piece list list"
  nk_recommendation :: string
  nk_is_anomaly :: bool

record cluster_risk =
  ck_cluster_id :: string
  ck_nodes :: "(string, node_risk) dict"
  ck_total_nodes :: nat
  ck_high_risk_node_ids :: "string list"
  ck_medium_risk_node_ids :: "string list"
  ck_timestamp :: datetime

definition node_risk_of :: "prediction \<Rightarrow> node_risk" where
  "node_risk_of r =
     \<lparr>nk_failure_probability = pr_probability r, nk_risk_factors = pr_risk_factors r, nk_recommendation = pr_recommendation r,
      nk_is_anomaly = or_default (pr_is_anomaly r) False\<rparr>"

text \<open>\<open>drawn\<close> is the random telemetry of each node.\<close>

definition analyze_cluster :: "datetime \<Rightarrow> string \<Rightarrow> (string, json) dict list \<Rightarrow> failure_predictor \<Rightarrow> py_error + cluster_risk" where
  "analyze_cluster now cid drawn p =
     try_bind (try_map (\<lambda>t. predict_failure now t p) drawn) (\<lambda>rs.
       let nodes = map (\<lambda>(i, r). (''node-'' @ nat_str i, node_risk_of r)) (enumerate 0 rs);
           ids = (\<lambda>P. map fst (filter (\<lambda>(_, r). P (nk_failure_probability r)) nodes)) in
       Inr \<lparr>ck_cluster_id = cid, ck_nodes = nodes, ck_total_nodes = length nodes,
            ck_high_risk_node_ids = ids (\<lambda>x. 7 / 10 < x),
            ck_medium_risk_node_ids = ids (\<lambda>x. 4 / 10 < x \<and> x \<le> 7 / 10), ck_timestamp = now\<rparr>)"

subsection \<open>What predictions say\<close>

lemma try_map_keys: "try_map (\<lambda>(k, d). try_bind (h k d) (\<lambda>x. Inr (k, x))) kds = Inr g \<Longrightarrow> map fst g = map fst kds"
  by (induction kds arbitrary: g) (auto simp: try_bind_Inr_iff)

lemma extract_features_names:
  "extract_features t = Inr f \<Longrightarrow> map fst f = map fst telemetry_defaults
     @ [''gpu_utilization_ratio'', ''memory_pressure'', ''temperature_ratio'', ''error_rate'']"
  by (auto simp: extract_features_def try_bind_Inr_iff derived_features_def Let_def dest!: try_map_keys)

lemma untrained_prediction:
  "fp_forest p = None \<Longrightarrow> \<exists>r. predict_failure now t p = Inr r \<and> pr_probability r = 1 / 2 \<and> \<not> pr_failure_predicted r"
  by (simp add: predict_failure_def)

text \<open>An untrained predictor never raises the alarm about a node.\<close>

lemma untrained_cluster:
  assumes "fp_forest p = None"
  shows "\<exists>r. analyze_cluster now cid drawn p = Inr r \<and> ck_high_risk_node_ids r = []"
proof -
  obtain q where q: "predict_failure now t p = Inr q" "pr_probability q = 1 / 2" for t
    using assms by (simp add: predict_failure_def)
  have "try_map (\<lambda>t. predict_failure now t p) drawn = Inr (map (\<lambda>_. q) drawn)"
    by (induction drawn) (simp_all add: q)
  then show ?thesis by (auto simp: analyze_cluster_def Let_def filter_empty_conv node_risk_of_def q(2) in_set_enumerate_eq)
qed

lemma probability_range:
  assumes "\<And>m row. fp_forest p = Some m \<Longrightarrow> list_all (\<lambda>x. 0 \<le> x \<and> x \<le> 1) (fo_proba m row)" and "predict_failure now t p = Inr r"
  shows "0 \<le> pr_probability r \<and> pr_probability r \<le> 1"
proof (cases "fp_forest p")
  case None
  then show ?thesis using assms(2) by (auto simp: predict_failure_def)
next
  case (Some m)
  have half: "0 \<le> second_or_half (fo_proba m row) \<and> second_or_half (fo_proba m row) \<le> 1" for row
    using assms(1) [OF Some, of row] by (simp add: second_or_half_def list_all_length)
  then show ?thesis using assms(2) Some by (auto simp: predict_failure_def try_bind_Inr_iff Let_def)
qed

end
