(* ===== verification/JobSubmission.thy ===== *)
theory JobSubmission
  imports Scheduling Twin FailurePredictor
begin

text \<open>
  The second version of the API, src/src/gpuopt/versioning.py: the submission of a job, which asks the
  repository, the failure predictor, the twin service, the scheduler service and the learned
  scheduler in turn, the status of clusters, and the headers that announce the end of the first
  version. The state is what these components keep; the clock, the identifiers and the random
  numbers are arguments.
\<close>

subsection \<open>Requests and answers\<close>

record job_request =
  jq_cluster_id :: uuid
  jq_job_name :: string
  jq_required_gpus :: int
  jq_required_cpu_cores :: "int option"
  jq_required_memory_gb :: rat
  jq_estimated_runtime_hours :: rat
  jq_priority :: int
  jq_model_name :: "string option"
  jq_checkpointable :: bool

text \<open>The bounds that validation puts on a request.\<close>

definition valid_request :: "job_request \<Rightarrow> bool" where
  "valid_request q \<longleftrightarrow> 1 \<le> length (jq_job_name q) \<and> length (jq_job_name q) \<le> 200 \<and> 1 \<le> jq_required_gpus q \<and> jq_required_gpus q \<le> 256
     \<and> (case jq_required_cpu_cores q of None \<Rightarrow> True | Some n \<Rightarrow> 1 \<le> n) \<and> 1 / 10 \<le> jq_required_memory_gb q
     \<and> 1 / 10 \<le> jq_estimated_runtime_hours q \<and> 1 \<le> jq_priority q \<and> jq_priority q \<le> 10"

record risk_summary =
  rk_failure_predicted :: bool
  rk_probability :: rat
  rk_risk_factors :: "piece list list"

text \<open>The entries \<open>simulation_results\<close> may have.\<close>

record sim_results =
  sx_free_gpus :: "int option"
  sx_total_gpus :: "int option"
  sx_error :: "string option"
  sx_high_risk_nodes :: "string list option"
  sx_predictions :: "(string, risk_summary) dict option"
  sx_placement :: "suggestion option"
  sx_rl_result :: "rl_placement option"

definition no_results :: sim_results where
  "no_results = \<lparr>sx_free_gpus = None, sx_total_gpus = None, sx_error = None, sx_high_risk_nodes = None, sx_predictions = None,
     sx_placement = None, sx_rl_result = None\<rparr>"

record job_response =
  js_status :: string
  js_job_id :: "piece list option"
  js_message :: "piece list"
  js_simulation_results :: "sim_results option"
  js_placement :: "suggestion option"

definition answer :: "string \<Rightarrow> piece list \<Rightarrow> sim_results \<Rightarrow> job_response" where
  "answer st msg res =
     \<lparr>js_status = st, js_job_id = None, js_message = msg, js_simulation_results = Some res, js_placement = None\<rparr>"

subsection \<open>What the submission computes\<close>

definition node_free :: "node_state \<Rightarrow> int" where
  "node_free n = int (length (filter (\<lambda>g. gs_memory_used_bytes g = 0) (ns_gpu_devices n)))"

definition free_gpus :: "cluster_state \<Rightarrow> int" where
  "free_gpus st = sum_list (map node_free (cs_nodes st))"

definition mean_or_zero :: "('a \<Rightarrow> rat) \<Rightarrow> 'a list \<Rightarrow> rat" where
  "mean_or_zero f xs = (if xs = [] then 0 else sum_list (map f xs) / of_nat (length xs))"

definition payload_of :: "job_request \<Rightarrow> node_telemetry \<Rightarrow> (string, json) dict" where
  "payload_of q nt = (let devs = nt_gpu_devices nt in
     [(''gpu_utilization'', JFloat (mean_or_zero gt_utilization_gpu_percent devs)),
      (''memory_utilization'', JFloat (mean_or_zero gt_utilization_memory_percent devs)),
      (''temperature'', JFloat (mean_or_zero gt_temperature_gpu_celsius devs)),
      (''power_usage'', JFloat (mean_or_zero gt_power_draw_watts devs)),
      (''clock_speed'', JInt (case devs of [] \<Rightarrow> 0 | d # _ \<Rightarrow> gt_clock_sm_mhz d)),
      (''ecc_errors'', JInt (sum_list (map (\<lambda>d. gt_ecc_errors_volatile d + gt_ecc_errors_aggregate d) devs))),
      (''retired_pages'', JInt 0), (''xid_errors'', JInt 0), (''utilization_variance'', JFloat (1 / 10)),
      (''temperature_variance'', JFloat (1 / 10)),
      (''available_gpus'', JInt (int (length (filter (\<lambda>d. gt_memory_used_bytes d = 0) devs)))),
      (''total_gpus'', JInt (int (length devs))), (''queue_length'', JInt 0), (''job_failures'', JInt 0), (''job_retries'', JInt 0),
      (''average_job_duration'', JFloat (jq_estimated_runtime_hours q * 3600))])"

fun predict_nodes ::
  "datetime \<Rightarrow> failure_predictor \<Rightarrow> job_request \<Rightarrow> node_telemetry list \<Rightarrow> (string, prediction) dict \<Rightarrow> py_error + (string, prediction) dict" where
  "predict_nodes now p q [] ps = Inr ps"
| "predict_nodes now p q (nt # nts) ps =
     try_bind (predict_failure now (payload_of q nt) p) (\<lambda>r. predict_nodes now p q nts (dict_set (nt_node_name nt) r ps))"

definition node_predictions :: "datetime \<Rightarrow> failure_predictor \<Rightarrow> job_request \<Rightarrow> cluster_state \<Rightarrow> py_error + (string, prediction) dict" where
  "node_predictions now p q st =
     (case cs_telemetry st of None \<Rightarrow> Inr [] | Some t \<Rightarrow> predict_nodes now p q (ct_nodes t) [])"

definition summary_of :: "prediction \<Rightarrow> risk_summary" where
  "summary_of r = \<lparr>rk_failure_predicted = pr_failure_predicted r, rk_probability = pr_probability r, rk_risk_factors = pr_risk_factors r\<rparr>"

definition high_risk_nodes :: "(string, prediction) dict \<Rightarrow> string list" where
  "high_risk_nodes ps = map fst (filter (\<lambda>(_, r). 7 / 10 < pr_probability r) ps)"

definition gib_bytes :: "rat \<Rightarrow> int" where
  "gib_bytes x = int_of (x * 1024 ^ 3)"

definition workload_of :: "job_request \<Rightarrow> int \<Rightarrow> requirements" where
  "workload_of q cores =
     \<lparr>wr_gpu_count = jq_required_gpus q, wr_gpu_memory_bytes = gib_bytes (jq_required_memory_gb q), wr_cpu_millicores = cores * 1000,
      wr_memory_bytes = gib_bytes (jq_required_memory_gb q), wr_gpu_model_preference = [], wr_allow_fractional_gpu = False\<rparr>"

definition job_of :: "string \<Rightarrow> job_request \<Rightarrow> rl_job" where
  "job_of jid q =
     \<lparr>rj_id = jid, rj_required_gpus = jq_required_gpus q, rj_priority = jq_priority q,
      rj_estimated_duration = jq_estimated_runtime_hours q, rj_memory_gb = jq_required_memory_gb q,
      rj_checkpointable = jq_checkpointable q\<rparr>"

definition candidate_figures :: "cluster_state \<Rightarrow> string \<Rightarrow> int \<times> int" where
  "candidate_figures st name =
     (case find (\<lambda>n. ns_name n = name) (cs_nodes st) of
        Some n \<Rightarrow> (node_free n, int (length (ns_gpu_devices n)))
      | None \<Rightarrow> (0, 1))"

subsection \<open>Submitting a job\<close>

record backends =
  bk_repo :: repo
  bk_twin :: twin_env
  bk_efficiency :: "uuid \<Rightarrow> rat option"
  bk_predictor :: failure_predictor
  bk_learner :: learner

definition sched_repo_of :: "backends \<Rightarrow> sched_repo" where
  "sched_repo_of b =
     \<lparr>sr_cluster = (\<lambda>c. get_cluster c (bk_repo b)), sr_state = te_latest_state (bk_twin b), sr_efficiency = bk_efficiency b\<rparr>"

text \<open>What the clock, \<open>uuid4\<close> and the random numbers give to one submission.\<close>

record call_inputs =
  ci_now :: datetime
  ci_twin_id :: uuid
  ci_draws :: draws
  ci_job_time :: int

text \<open>The last part: the learned scheduler places the job, and the answer names the suggested node.\<close>

definition place_job ::
  "call_inputs \<Rightarrow> job_request \<Rightarrow> cluster_state \<Rightarrow> (string, prediction) dict \<Rightarrow> suggestion \<Rightarrow> backends \<Rightarrow> backends \<times> (py_error + job_response)" where
  "place_job x q st ps p b =
     (let jid = jq_job_name q @ ''-'' @ int_str (ci_job_time x);
          summaries = map (\<lambda>(n, r). (n, summary_of r)) ps;
          node = pg_suggested_node p; (free, all) = candidate_figures st node in
      case rl_schedule (ci_draws x) (job_of jid q) (map rl_node_of (cs_nodes st)) (bk_learner b) of
        Inl e \<Rightarrow> (b, Inl e)
      | Inr (l, r) \<Rightarrow>
          (b\<lparr>bk_learner := l\<rparr>, Inr
            (if \<not> rp_success r
             then answer ''simulation_failed'' (Txt ''RL scheduler could not schedule job: '' # rp_reasoning r)
               (no_results\<lparr>sx_predictions := Some summaries, sx_placement := Some p, sx_rl_result := Some r\<rparr>)
             else \<lparr>js_status = ''submitted'', js_job_id = Some [Txt jid],
               js_message = [Txt (''Job submitted successfully to '' @ node @ '' (free: ''), Val (JInt free), Txt ''/'', Val (JInt all),
                 Txt '' GPUs, confidence: '', Fmt ''.0%'' (JFloat (pg_confidence p)), Txt '')''],
               js_simulation_results = Some (no_results\<lparr>sx_predictions := Some summaries, sx_placement := Some p, sx_rl_result := Some r,
                 sx_free_gpus := Some (free_gpus st), sx_total_gpus := Some (cs_gpu_count st)\<rparr>),
               js_placement = Some p\<rparr>)))"

definition submit_job :: "call_inputs \<Rightarrow> job_request \<Rightarrow> backends \<Rightarrow> backends \<times> (py_error + job_response)" where
  "submit_job x q b =
     (let cid = jq_cluster_id q in
      case get_cluster cid (bk_repo b) of
        None \<Rightarrow> (b, Inl (HTTPException 404 (''Cluster not found: '' @ cid)))
      | Some _ \<Rightarrow>
      case te_latest_state (bk_twin b) cid of
        None \<Rightarrow> (b, Inl (HTTPException 400 ''No cluster state available. Collect state first.''))
      | Some st \<Rightarrow>
      if free_gpus st < jq_required_gpus q
      then (b, Inr (answer ''rejected''
        [Txt ''Insufficient GPUs: requested '', Val (JInt (jq_required_gpus q)), Txt '', available '', Val (JInt (free_gpus st))]
        (no_results\<lparr>sx_free_gpus := Some (free_gpus st), sx_total_gpus := Some (cs_gpu_count st)\<rparr>)))
      else
      case node_predictions (ci_now x) (bk_predictor b) q st of
        Inl e \<Rightarrow> (b, Inl e)
      | Inr ps \<Rightarrow>
      case sync_twin (bk_twin b) (ci_twin_id x) (ci_now x) cid (bk_repo b) of
        Inl (KeyError _) \<Rightarrow> (b, Inl (HTTPException 400 ''Failed to sync digital twin''))
      | Inl e \<Rightarrow> (b, Inl e)
      | Inr (repo', _) \<Rightarrow>
      let b1 = b\<lparr>bk_repo := repo'\<rparr> in
      case jq_required_cpu_cores q of
        None \<Rightarrow> (b1, Inl (TypeError ''unsupported operand type(s) for *: NoneType and int''))
      | Some cores \<Rightarrow>
      case suggest_placement (ci_now x) (sched_repo_of b1) cid (workload_of q cores) of
        Inl (KeyError k) \<Rightarrow> (b1, Inr (answer ''simulation_failed'' [Txt (''Placement simulation failed: '' @ error_text (KeyError k))]
          (no_results\<lparr>sx_error := Some (error_text (KeyError k))\<rparr>)))
      | Inl e \<Rightarrow> (b1, Inl e)
      | Inr p \<Rightarrow>
      let risky = high_risk_nodes ps in
      if risky \<noteq> []
      then (b1, Inr (answer ''rejected'' [Txt ''High failure risk on nodes: '', Val (JList (map JStr risky))]
        (no_results\<lparr>sx_high_risk_nodes := Some risky, sx_predictions := Some (map (\<lambda>(n, r). (n, summary_of r)) ps),
           sx_placement := Some p\<rparr>)))
      else place_job x q st ps p b1)"

subsection \<open>Status of clusters and the deprecation of the first version\<close>

definition cluster_status :: "datetime \<Rightarrow> cluster_state option \<Rightarrow> string" where
  "cluster_status now state =
     (case state of
        None \<Rightarrow> ''unknown''
      | Some st \<Rightarrow> if now - cs_collected_at st < 300 * 1000000 then ''healthy'' else ''warning'')"

definition deprecation_headers :: "string \<Rightarrow> (string, string) dict \<Rightarrow> (string, string) dict" where
  "deprecation_headers path headers =
     (if starts_with ''/api/v1'' path
      then dict_set ''X-API-Deprecation'' ''v1 will be removed after 2027-01-01; migrate to /api/v2''
        (dict_set ''X-API-Version'' ''2'' headers)
      else headers)"

subsection \<open>What a submission does\<close>

lemma payload_numeric:
  "\<exists>f. extract_features (payload_of q nt) = Inr f"
  by (simp add: extract_features_def telemetry_defaults_def payload_of_def Let_def dict_get_or_def as_number_def)

lemma predict_payload: "\<exists>r. predict_failure now (payload_of q nt) p = Inr r"
  using payload_numeric [of q nt] by (auto simp: predict_failure_def Let_def split: option.split)

lemma node_predictions_defined: "\<exists>ps. node_predictions now p q st = Inr ps"
proof -
  have "\<exists>ps'. predict_nodes now p q nts ps = Inr ps'" for nts ps
  proof (induction nts arbitrary: ps)
    case (Cons nt nts)
    then show ?case using predict_payload [of now q nt p] by auto
  qed simp
  then show ?thesis by (simp add: node_predictions_def split: option.split)
qed

lemma sync_known:
  assumes "get_cluster c s = Some cl" and "te_latest_state e c = Some st"
  obtains s' tw where "sync_twin e i now c s = Inr (s', tw)" "s' = save_twin tw s" "tw_cluster_id tw = cl_id cl"
  using assms by (auto simp: sync_twin_def known_cluster_def some_or_def Let_def)

lemma place_job_cases:
  assumes "place_job x q st ps p b = (b', Inr a)"
  obtains l r where "rl_schedule (ci_draws x) (job_of (jq_job_name q @ ''-'' @ int_str (ci_job_time x)) q) (map rl_node_of (cs_nodes st))
      (bk_learner b) = Inr (l, r)" "b' = b\<lparr>bk_learner := l\<rparr>"
    "js_status a = (if rp_success r then ''submitted'' else ''simulation_failed'')" "rp_success r \<Longrightarrow> js_placement a = Some p"
  using assms by (auto simp: place_job_def answer_def Let_def split: sum.splits prod.splits if_splits)

text \<open>A submission that is answered: rejected for want of GPUs, failed or rejected after the twin was synced, or placed.\<close>

lemma submit_answered:
  assumes "submit_job x q b = (b', Inr a)"
  obtains (scarce) st where "te_latest_state (bk_twin b) (jq_cluster_id q) = Some st" "free_gpus st < jq_required_gpus q"
      "b' = b" "js_status a = ''rejected''"
    | (unplaced) st repo' tw where "te_latest_state (bk_twin b) (jq_cluster_id q) = Some st" "jq_required_gpus q \<le> free_gpus st"
      "sync_twin (bk_twin b) (ci_twin_id x) (ci_now x) (jq_cluster_id q) (bk_repo b) = Inr (repo', tw)"
      "b' = b\<lparr>bk_repo := repo'\<rparr>" "js_status a = ''simulation_failed''"
    | (risky) st repo' tw res where "te_latest_state (bk_twin b) (jq_cluster_id q) = Some st" "jq_required_gpus q \<le> free_gpus st"
      "sync_twin (bk_twin b) (ci_twin_id x) (ci_now x) (jq_cluster_id q) (bk_repo b) = Inr (repo', tw)"
      "b' = b\<lparr>bk_repo := repo'\<rparr>" "js_status a = ''rejected''" "js_simulation_results a = Some res" "sx_high_risk_nodes res \<noteq> None"
    | (placed) cl st repo' tw ps cores p where "get_cluster (jq_cluster_id q) (bk_repo b) = Some cl"
      "te_latest_state (bk_twin b) (jq_cluster_id q) = Some st"
      "jq_required_gpus q \<le> free_gpus st" "node_predictions (ci_now x) (bk_predictor b) q st = Inr ps" "high_risk_nodes ps = []"
      "sync_twin (bk_twin b) (ci_twin_id x) (ci_now x) (jq_cluster_id q) (bk_repo b) = Inr (repo', tw)"
      "suggest_placement (ci_now x) (sched_repo_of (b\<lparr>bk_repo := repo'\<rparr>)) (jq_cluster_id q) (workload_of q cores) = Inr p"
      "place_job x q st ps p (b\<lparr>bk_repo := repo'\<rparr>) = (b', Inr a)"
proof -
  let ?c = "jq_cluster_id q"
  obtain cl where cl: "get_cluster ?c (bk_repo b) = Some cl"
    using assms by (cases "get_cluster ?c (bk_repo b)") (simp_all add: submit_job_def)
  obtain st where st: "te_latest_state (bk_twin b) ?c = Some st"
    using assms cl by (cases "te_latest_state (bk_twin b) ?c") (simp_all add: submit_job_def)
  obtain ps where ps: "node_predictions (ci_now x) (bk_predictor b) q st = Inr ps"
    using node_predictions_defined [of "ci_now x" "bk_predictor b" q st] by (elim exE) (rule that)
  obtain repo' tw where sync: "sync_twin (bk_twin b) (ci_twin_id x) (ci_now x) ?c (bk_repo b) = Inr (repo', tw)"
    using sync_known [OF cl st] by metis
  show thesis
  proof (cases "free_gpus st < jq_required_gpus q")
    case True
    then show thesis using assms scarce [OF st] by (auto simp: submit_job_def cl st answer_def)
  next
    case room: False
    then obtain cores where cores: "jq_required_cpu_cores q = Some cores"
      using assms by (cases "jq_required_cpu_cores q") (simp_all add: submit_job_def cl st ps sync)
    let ?b = "b\<lparr>bk_repo := repo'\<rparr>"
    let ?s = "suggest_placement (ci_now x) (sched_repo_of ?b) ?c (workload_of q cores)"
    note run = assms [unfolded submit_job_def Let_def, simplified cl st ps sync cores room if_False option.case sum.case prod.case]
    have room': "jq_required_gpus q \<le> free_gpus st" using room by simp
    show thesis
    proof (cases ?s)
      case (Inl e)
      then show thesis using run unplaced [OF st room' sync] by (cases e) (auto simp: answer_def)
    next
      case (Inr p)
      show thesis
      proof (cases "high_risk_nodes ps = []")
        case True
        then show thesis using run Inr placed [OF cl st room' ps True sync Inr] by simp
      next
        case False
        then show thesis using run Inr risky [OF st room' sync] by (auto simp: answer_def)
      qed
    qed
  qed
qed

definition submit_run :: "(call_inputs \<times> job_request) list \<Rightarrow> backends \<Rightarrow> backends" where
  "submit_run calls b = fold (\<lambda>(x, q) b. fst (submit_job x q b)) calls b"

lemma submit_keeps: "bk_twin (fst (submit_job x q b)) = bk_twin b \<and> bk_predictor (fst (submit_job x q b)) = bk_predictor b"
  by (auto simp: submit_job_def place_job_def Let_def split: option.split sum.split py_error.split prod.split)

lemma run_keeps: "bk_twin (submit_run calls b) = bk_twin b \<and> bk_predictor (submit_run calls b) = bk_predictor b"
  unfolding submit_run_def by (induction calls arbitrary: b) (auto simp: submit_keeps split: prod.splits)

text \<open>
  C11: what an answered submission means: the status is rejected, simulation failed or submitted; a
  submitted job found the free GPUs it asks for, no node predicted to fail with more than 70 percent,
  a suggested node with as many devices with the memory asked for free, which is the one the answer
  names, and one placement recorded by the learned scheduler; a job that is rejected leaves the
  learned scheduler as it was.
\<close>

theorem submission_outcome:
  assumes "submit_job x q b = (b', Inr a)"
  shows "js_status a \<in> {''rejected'', ''simulation_failed'', ''submitted''}
    \<and> (js_status a = ''rejected'' \<longrightarrow> bk_learner b' = bk_learner b)
    \<and> (js_status a = ''submitted'' \<longrightarrow>
        (\<exists>st ps p n e. te_latest_state (bk_twin b) (jq_cluster_id q) = Some st \<and> jq_required_gpus q \<le> free_gpus st
           \<and> node_predictions (ci_now x) (bk_predictor b) q st = Inr ps \<and> (\<forall>(_, r) \<in> set ps. pr_probability r \<le> 7 / 10)
           \<and> js_placement a = Some p \<and> n \<in> set (cs_nodes st) \<and> ns_name n = pg_suggested_node p
           \<and> jq_required_gpus q \<le> int (length (filter (\<lambda>g. gib_bytes (jq_required_memory_gb q) = 0
                \<or> gib_bytes (jq_required_memory_gb q) \<le> gpu_free g) (ns_gpu_devices n)))
           \<and> le_placement_history (bk_learner b') = le_placement_history (bk_learner b) @ [e]))"
  using assms
proof (cases rule: submit_answered)
  case (placed cl st repo' tw ps cores p)
  let ?b = "b\<lparr>bk_repo := repo'\<rparr>"
  obtain l r where l: "rl_schedule (ci_draws x) (job_of (jq_job_name q @ ''-'' @ int_str (ci_job_time x)) q) (map rl_node_of (cs_nodes st))
      (bk_learner ?b) = Inr (l, r)" "b' = ?b\<lparr>bk_learner := l\<rparr>"
    "js_status a = (if rp_success r then ''submitted'' else ''simulation_failed'')" "rp_success r \<Longrightarrow> js_placement a = Some p"
    using place_job_cases [OF placed(8)] by metis
  show ?thesis
  proof (cases "rp_success r")
    case True
    obtain n where n: "n \<in> set (cs_nodes st)" "has_room (workload_of q cores) n" "ns_name n = pg_suggested_node p"
      using suggested_node_has_room [OF placed(7)] placed(2) by (auto simp: sched_repo_of_def)
    obtain e where e: "le_placement_history l = le_placement_history (bk_learner b) @ [e]"
      using recorded_placement [OF l(1) True] by simp metis
    have risk: "\<forall>(_, r) \<in> set ps. pr_probability r \<le> 7 / 10"
      using placed(5) by (fastforce simp: high_risk_nodes_def filter_empty_conv)
    show ?thesis
      using placed(2,3,4) risk l(2,3) l(4) [OF True] True n e
      by (auto simp: has_room_def free_for_def workload_of_def disj_commute)
  next
    case False
    then show ?thesis using l(3) by simp
  qed
qed (simp_all)

text \<open>
  Capacity is never reserved: whatever jobs were submitted before, a job that asks for no more GPUs
  than the latest state shows free is not rejected for want of GPUs; a rejection names nodes at risk.
\<close>

theorem capacity_not_reserved:
  assumes "te_latest_state (bk_twin b) (jq_cluster_id q) = Some st" and "jq_required_gpus q \<le> free_gpus st"
    and "submit_job x q (submit_run calls b) = (b', Inr a)"
  shows "js_status a \<in> {''submitted'', ''simulation_failed''}
    \<or> js_status a = ''rejected'' \<and> (\<exists>res. js_simulation_results a = Some res \<and> sx_high_risk_nodes res \<noteq> None)"
  using assms(3)
proof (cases rule: submit_answered)
  case (scarce st')
  then show ?thesis using assms(1,2) run_keeps [of calls b] by simp
next
  case (placed cl st' repo' tw ps cores p)
  then show ?thesis by (elim place_job_cases) (simp split: if_splits)
qed simp_all

definition sample_state :: cluster_state where
  "sample_state = \<lparr>cs_cluster_id = ''c'', cs_cluster_name = ''east'', cs_environment = ''prod'', cs_collected_at = 0, cs_generated_at = 0,
     cs_node_count = 2, cs_gpu_count = 2, cs_total_gpu_memory_bytes = 0,
     cs_nodes = [node_with ''a'' [gpu_of (64 * 1024 ^ 3) 0], node_with ''b'' [gpu_of (64 * 1024 ^ 3) 0]], cs_telemetry = None\<rparr>"

definition sample_backends :: backends where
  "sample_backends = \<lparr>bk_repo = empty_repo\<lparr>re_clusters := [\<lparr>cl_id = ''c'', cl_name = ''east'', cl_environment = ''prod''\<rparr>]\<rparr>,
     bk_twin = \<lparr>te_latest_state = (\<lambda>_. Some sample_state), te_dump = (\<lambda>_. None), te_validate = (\<lambda>_. Inl (ValueError []))\<rparr>,
     bk_efficiency = (\<lambda>_. None), bk_predictor = new_predictor, bk_learner = new_learner\<rparr>"

definition sample_request :: job_request where
  "sample_request = \<lparr>jq_cluster_id = ''c'', jq_job_name = ''train'', jq_required_gpus = 1, jq_required_cpu_cores = Some 1,
     jq_required_memory_gb = 8, jq_estimated_runtime_hours = 1, jq_priority = 5, jq_model_name = None, jq_checkpointable = False\<rparr>"

definition sample_inputs :: "nat \<Rightarrow> call_inputs" where
  "sample_inputs pick = \<lparr>ci_now = 1, ci_twin_id = ''t'', ci_draws = \<lparr>dr_explore = 1 / 2, dr_pick = pick, dr_success = 1 / 2\<rparr>, ci_job_time = 7\<rparr>"

lemma submission_outcome_witness:
  "\<exists>b' a. submit_job (sample_inputs 1) sample_request sample_backends = (b', Inr a) \<and> js_status a = ''submitted''
    \<and> (\<exists>e. le_placement_history (bk_learner b') = le_placement_history (bk_learner sample_backends) @ [e])"
proof -
  let ?out = "submit_job (sample_inputs 1) sample_request sample_backends"
  have status: "case snd ?out of Inl _ \<Rightarrow> False | Inr a \<Rightarrow> js_status a = ''submitted''" by code_simp
  then obtain a where a: "snd ?out = Inr a" "js_status a = ''submitted''" by (auto split: sum.splits)
  then have out: "?out = (fst ?out, Inr a)" by (simp add: prod_eq_iff)
  show ?thesis using submission_outcome [OF out] out a(2) by blast
qed

text \<open>Two jobs of one GPU each are accepted on a cluster of one.\<close>

definition single_state :: cluster_state where
  "single_state = sample_state\<lparr>cs_gpu_count := 1, cs_node_count := 1, cs_nodes := [node_with ''a'' [gpu_of (64 * 1024 ^ 3) 0]]\<rparr>"

definition single_backends :: backends where
  "single_backends = sample_backends\<lparr>bk_twin := bk_twin sample_backends\<lparr>te_latest_state := (\<lambda>_. Some single_state)\<rparr>\<rparr>"

lemma capacity_not_reserved_witness:
  "\<exists>b' a. submit_job (sample_inputs 0) sample_request (submit_run [(sample_inputs 0, sample_request)] single_backends) = (b', Inr a)
    \<and> free_gpus single_state = 1 \<and> js_status a \<in> {''submitted'', ''simulation_failed''}"
proof -
  let ?run = "submit_run [(sample_inputs 0, sample_request)] single_backends"
  let ?out = "submit_job (sample_inputs 0) sample_request ?run"
  have "case snd ?out of Inl _ \<Rightarrow> False | Inr a \<Rightarrow> (case js_simulation_results a of Some r \<Rightarrow> sx_high_risk_nodes r = None | None \<Rightarrow> False)"
    by code_simp
  then obtain a where a: "snd ?out = Inr a" "\<forall>res. js_simulation_results a = Some res \<longrightarrow> sx_high_risk_nodes res = None"
    by (auto split: sum.splits option.splits)
  then have out: "?out = (fst ?out, Inr a)" by (simp add: prod_eq_iff)
  have single: "te_latest_state (bk_twin single_backends) (jq_cluster_id sample_request) = Some single_state"
    "free_gpus single_state = 1" "jq_required_gpus sample_request \<le> free_gpus single_state"
    by (simp_all add: single_backends_def sample_request_def single_state_def free_gpus_def node_free_def node_with_def gpu_of_def)
  have "js_status a \<in> {''submitted'', ''simulation_failed''}"
    using capacity_not_reserved [OF single(1,3) out] a(2) by (elim disjE) auto
  then show ?thesis using out single(2) by (intro exI conjI)
qed

text \<open>The answer can name another node than the one the learned scheduler recorded.\<close>

lemma named_node_not_learned:
  "case snd (submit_job (sample_inputs 1) sample_request sample_backends) of Inl _ \<Rightarrow> False
   | Inr a \<Rightarrow> map_option pg_suggested_node (js_placement a) = Some ''a''
       \<and> (case js_simulation_results a of None \<Rightarrow> False | Some r \<Rightarrow> map_option rp_node_id (sx_rl_result r) = Some ''b'')"
  by code_simp

text \<open>Without a number of processor cores the submission raises after the twin was written.\<close>

lemma null_cores_raise:
  assumes "get_cluster (jq_cluster_id q) (bk_repo b) = Some cl" and "te_latest_state (bk_twin b) (jq_cluster_id q) = Some st"
    and "jq_required_gpus q \<le> free_gpus st" and "jq_required_cpu_cores q = None"
  shows "\<exists>m. snd (submit_job x q b) = Inl (TypeError m)"
    and "get_twin (cl_id cl) (bk_repo (fst (submit_job x q b))) \<noteq> None"
proof -
  obtain ps where ps: "node_predictions (ci_now x) (bk_predictor b) q st = Inr ps"
    using node_predictions_defined by blast
  obtain s' tw where sync: "sync_twin (bk_twin b) (ci_twin_id x) (ci_now x) (jq_cluster_id q) (bk_repo b) = Inr (s', tw)"
    "s' = save_twin tw (bk_repo b)" "tw_cluster_id tw = cl_id cl"
    by (rule sync_known [OF assms(1,2)])
  have run: "submit_job x q b = (b\<lparr>bk_repo := s'\<rparr>, Inl (TypeError ''unsupported operand type(s) for *: NoneType and int''))"
    using assms(3) by (simp add: submit_job_def assms(1,2,4) ps sync(1))
  then show "\<exists>m. snd (submit_job x q b) = Inl (TypeError m)" by simp
  show "get_twin (cl_id cl) (bk_repo (fst (submit_job x q b))) \<noteq> None" using get_twin_save_same [of tw "bk_repo b"] by (simp add: run sync(2) sync(3))
qed

end
