(* ===== verification/ExperimentStore.thy ===== *)
theory ExperimentStore
  imports Values
begin

text \<open>
  The registry of trained models and experiments, \<open>ModelRegistry\<close> of src/src/gpuopt/ml/model_registry.py.
  The index is what its file holds; saving it and copying artifacts are not modelled. The entries of
  the index are shared dictionaries: what a promotion returns as the previous production version is
  the entry as it is after the promotion, which the model reads from its position.
\<close>

subsection \<open>The index\<close>

record artifact =
  af_artifact_type :: string
  af_source :: string
  af_destination :: string
  af_stored_at :: datetime

record model_entry =
  me_model_id :: uuid
  me_name :: string
  me_version :: string
  me_framework :: string
  me_description :: string
  me_metrics :: "(string, json) dict"
  me_params :: "(string, json) dict"
  me_model_path :: "string option"
  me_created_at :: datetime
  me_status :: string
  me_promoted_at :: "datetime option"
  me_artifacts :: "artifact list"

record model_versions =
  mx_versions :: "model_entry list"
  mx_latest :: string

record experiment_run =
  er_experiment_id :: uuid
  er_name :: string
  er_params :: "(string, json) dict"
  er_metrics :: "(string, json) dict"
  er_tags :: "string list"
  er_timestamp :: datetime

record model_index =
  mi_models :: "(string, model_versions) dict"
  mi_experiments :: "experiment_run list"

definition empty_index :: model_index where
  "empty_index = \<lparr>mi_models = [], mi_experiments = []\<rparr>"

definition get_model_history :: "string \<Rightarrow> model_index \<Rightarrow> model_entry list" where
  "get_model_history name s = (case dict_get (mi_models s) name of None \<Rightarrow> [] | Some m \<Rightarrow> mx_versions m)"

definition find_version :: "string \<Rightarrow> string \<Rightarrow> model_index \<Rightarrow> model_entry option" where
  "find_version name version s = find (\<lambda>v. me_version v = version) (get_model_history name s)"

definition is_production :: "model_entry \<Rightarrow> bool" where
  "is_production v \<longleftrightarrow> me_status v = ''production''"

definition get_production_version :: "string \<Rightarrow> model_index \<Rightarrow> model_entry option" where
  "get_production_version name s = find is_production (get_model_history name s)"

subsection \<open>Operations\<close>

record registration =
  rg_name :: string
  rg_version :: string
  rg_framework :: string
  rg_metrics :: "(string, json) dict"
  rg_params :: "(string, json) dict"
  rg_model_path :: "string option"
  rg_description :: string

definition entry_of :: "registration \<Rightarrow> uuid \<Rightarrow> datetime \<Rightarrow> model_entry" where
  "entry_of r i now =
     \<lparr>me_model_id = i, me_name = rg_name r, me_version = rg_version r, me_framework = rg_framework r,
      me_description = rg_description r, me_metrics = rg_metrics r, me_params = rg_params r, me_model_path = rg_model_path r,
      me_created_at = now, me_status = ''registered'', me_promoted_at = None, me_artifacts = []\<rparr>"

definition register_model :: "registration \<Rightarrow> uuid \<Rightarrow> datetime \<Rightarrow> model_index \<Rightarrow> model_index \<times> model_entry" where
  "register_model r i now s =
     (let e = entry_of r i now in
      (s\<lparr>mi_models := dict_set (rg_name r) \<lparr>mx_versions = get_model_history (rg_name r) s @ [e], mx_latest = rg_version r\<rparr> (mi_models s)\<rparr>, e))"

fun update_first :: "('a \<Rightarrow> bool) \<Rightarrow> ('a \<Rightarrow> 'a) \<Rightarrow> 'a list \<Rightarrow> 'a list" where
  "update_first P f [] = []"
| "update_first P f (x # xs) = (if P x then f x # xs else x # update_first P f xs)"

definition set_versions :: "string \<Rightarrow> model_entry list \<Rightarrow> model_index \<Rightarrow> model_index" where
  "set_versions name vs s =
     (case dict_get (mi_models s) name of
        None \<Rightarrow> s
      | Some m \<Rightarrow> s\<lparr>mi_models := dict_set name (m\<lparr>mx_versions := vs\<rparr>) (mi_models s)\<rparr>)"

definition promote_to_staging :: "string \<Rightarrow> string \<Rightarrow> model_index \<Rightarrow> model_index \<times> model_entry option" where
  "promote_to_staging name version s =
     (if find_version name version s = None then (s, None)
      else (let t = set_versions name
              (update_first (\<lambda>v. me_version v = version) (\<lambda>v. v\<lparr>me_status := ''staging''\<rparr>) (get_model_history name s)) s
            in (t, find_version name version t)))"

definition archive :: "model_entry \<Rightarrow> model_entry" where
  "archive v = (if is_production v then v\<lparr>me_status := ''archived''\<rparr> else v)"

record promotion =
  pm_previous_production :: "model_entry option"
  pm_new_production :: model_entry
  pm_message :: string

text \<open>The position of the first entry in production, from which the answer reads it afterwards.\<close>

fun position :: "('a \<Rightarrow> bool) \<Rightarrow> 'a list \<Rightarrow> nat option" where
  "position P [] = None"
| "position P (x # xs) = (if P x then Some 0 else map_option Suc (position P xs))"

definition promote_to_production :: "string \<Rightarrow> string \<Rightarrow> datetime \<Rightarrow> model_index \<Rightarrow> model_index \<times> promotion option" where
  "promote_to_production name version now s =
     (let old = position is_production (get_model_history name s);
          vs = update_first (\<lambda>v. me_version v = version) (\<lambda>v. v\<lparr>me_status := ''production'', me_promoted_at := Some now\<rparr>)
            (map archive (get_model_history name s));
          t = set_versions name vs s in
      case find_version name version s of
        None \<Rightarrow> (s, None)
      | Some _ \<Rightarrow> (t, map_option (\<lambda>m.
          \<lparr>pm_previous_production = map_option (\<lambda>i. vs ! i) old, pm_new_production = m,
           pm_message = ''Model '' @ name @ '' v'' @ version @ '' promoted to production''\<rparr>) (find_version name version t)))"

definition get_model :: "string \<Rightarrow> string option \<Rightarrow> model_index \<Rightarrow> model_entry option" where
  "get_model name version s =
     (case version of
        Some (c # cs) \<Rightarrow> find_version name (c # cs) s
      | _ \<Rightarrow> (case dict_get (mi_models s) name of
            None \<Rightarrow> None
          | Some m \<Rightarrow> if mx_latest m \<noteq> [] then find_version name (mx_latest m) s else None))"

record model_line =
  ml_versions :: nat
  ml_latest :: string
  ml_production :: "model_entry option"

definition list_model_lines :: "model_index \<Rightarrow> (string, model_line) dict" where
  "list_model_lines s =
     map (\<lambda>(n, m). (n, \<lparr>ml_versions = length (mx_versions m), ml_latest = mx_latest m, ml_production = get_production_version n s\<rparr>))
       (mi_models s)"

definition log_experiment :: "experiment_run \<Rightarrow> model_index \<Rightarrow> model_index" where
  "log_experiment e s = s\<lparr>mi_experiments := mi_experiments s @ [e]\<rparr>"

definition list_experiments :: "string option \<Rightarrow> int \<Rightarrow> model_index \<Rightarrow> experiment_run list" where
  "list_experiments name limit s =
     slice_first limit (sorted_by_desc er_timestamp
       (case name of Some (c # cs) \<Rightarrow> filter (\<lambda>e. er_name e = c # cs) (mi_experiments s) | _ \<Rightarrow> mi_experiments s))"

definition compare_experiments :: "uuid list \<Rightarrow> model_index \<Rightarrow> experiment_run list" where
  "compare_experiments ids s =
     (let m = fold (\<lambda>e. dict_set (er_experiment_id e) e) (mi_experiments s) [] in List.map_filter (dict_get m) ids)"

definition store_artifact :: "string \<Rightarrow> string \<Rightarrow> artifact \<Rightarrow> model_index \<Rightarrow> model_index" where
  "store_artifact name version a s =
     (if find_version name version s = None then s
      else set_versions name (update_first (\<lambda>v. me_version v = version) (\<lambda>v. v\<lparr>me_artifacts := me_artifacts v @ [a]\<rparr>)
             (get_model_history name s)) s)"

record metric_row =
  mw_version :: string
  mw_metrics :: "(string, json) dict"
  mw_created_at :: datetime
  mw_status :: string

text \<open>With a key, the rows of the versions that have the metric (a value that is not null) hold it alone.\<close>

definition metrics_row :: "string option \<Rightarrow> model_entry \<Rightarrow> metric_row option" where
  "metrics_row key v =
     (let row = (\<lambda>ms. \<lparr>mw_version = me_version v, mw_metrics = ms, mw_created_at = me_created_at v, mw_status = me_status v\<rparr>) in
      case key of
        Some (c # cs) \<Rightarrow> (case dict_get (me_metrics v) (c # cs) of
            None \<Rightarrow> None | Some JNull \<Rightarrow> None | Some x \<Rightarrow> Some (row [(c # cs, x)]))
      | _ \<Rightarrow> Some (row (me_metrics v)))"

definition get_metrics_history :: "string \<Rightarrow> string option \<Rightarrow> model_index \<Rightarrow> metric_row list" where
  "get_metrics_history name key s = sorted_by mw_created_at (List.map_filter (metrics_row key) (get_model_history name s))"

definition index_health :: "model_index \<Rightarrow> nat \<times> nat" where
  "index_health s = (sum_list (map (length \<circ> mx_versions \<circ> snd) (mi_models s)), length (mi_experiments s))"

subsection \<open>Reading after writing\<close>

lemma history_register:
  "get_model_history n (fst (register_model r i now s)) =
     (if n = rg_name r then get_model_history n s @ [entry_of r i now] else get_model_history n s)"
  by (simp add: register_model_def get_model_history_def Let_def)

lemma history_set:
  "get_model_history n (set_versions name vs s) =
     (if n = name \<and> dict_get (mi_models s) name \<noteq> None then vs else get_model_history n s)"
  by (auto simp: set_versions_def get_model_history_def split: option.split)

lemma find_known: "find_version name version s = Some e \<Longrightarrow> dict_get (mi_models s) name \<noteq> None"
  by (auto simp: find_version_def get_model_history_def split: option.splits)

lemma find_update_first:
  assumes "\<And>x. key (f x) = key x"
  shows "find (\<lambda>x. key x = u) (update_first (\<lambda>x. key x = v) f xs) =
    (if u = v then map_option f (find (\<lambda>x. key x = v) xs) else find (\<lambda>x. key x = u) xs)"
  by (induction xs) (auto simp: assms)

lemma find_map_key: "(\<And>x. key (f x) = key x) \<Longrightarrow> find (\<lambda>x. key x = u) (map f xs) = map_option f (find (\<lambda>x. key x = u) xs)"
  by (induction xs) auto

lemma archive_fields [simp]: "me_version (archive v) = me_version v" "me_model_id (archive v) = me_model_id v"
  "me_status (archive v) = (if is_production v then ''archived'' else me_status v)"
  by (simp_all add: archive_def)

lemma update_first_length [simp]: "length (update_first P f xs) = length xs"
  by (induction xs) auto

subsection \<open>Refinement: a registry by name and version\<close>

text \<open>
  What a client can see of the versions: for a name and a version the identifier and the status of
  the entry that look-ups find. The operations that change it, on this view.
\<close>

type_synonym version_view = "string \<Rightarrow> string \<Rightarrow> (uuid \<times> string) option"

datatype store_op = Register registration uuid datetime | Stage string string | Promote string string datetime

definition view :: "model_index \<Rightarrow> version_view" where
  "view s = (\<lambda>n v. map_option (\<lambda>e. (me_model_id e, me_status e)) (find_version n v s))"

fun store_step :: "store_op \<Rightarrow> model_index \<Rightarrow> model_index" where
  "store_step (Register r i now) s = fst (register_model r i now s)"
| "store_step (Stage n v) s = fst (promote_to_staging n v s)"
| "store_step (Promote n v now) s = fst (promote_to_production n v now s)"

fun view_step :: "store_op \<Rightarrow> version_view \<Rightarrow> version_view" where
  "view_step (Register r i now) w =
     (if w (rg_name r) (rg_version r) = None
      then w(rg_name r := (w (rg_name r))(rg_version r \<mapsto> (i, ''registered''))) else w)"
| "view_step (Stage n v) w = w(n := (w n)(v := map_option (\<lambda>(i, _). (i, ''staging'')) (w n v)))"
| "view_step (Promote n v now) w =
     (if w n v = None then w
      else w(n := (\<lambda>u. map_option (\<lambda>(i, st). (i, if u = v then ''production'' else if st = ''production'' then ''archived'' else st)) (w n u))))"

lemma find_snoc: "find P (xs @ [x]) = (case find P xs of None \<Rightarrow> if P x then Some x else None | Some y \<Rightarrow> Some y)"
  by (induction xs) auto

lemma step_refines: "view (store_step op s) = view_step op (view s)"
proof (cases op)
  case (Register r i now)
  then show ?thesis
    by (auto simp: view_def fun_eq_iff find_version_def history_register find_snoc entry_of_def split: option.splits)
next
  case (Stage n v)
  then show ?thesis
    by (auto simp: view_def fun_eq_iff promote_to_staging_def find_version_def history_set find_update_first [where key = me_version]
        option.map_comp comp_def find_known [unfolded find_version_def] Let_def split: option.splits)
next
  case (Promote n v now)
  show ?thesis
  proof (cases "find_version n v s")
    case None
    then show ?thesis by (simp add: Promote promote_to_production_def view_def Let_def)
  next
    case (Some e)
    then show ?thesis using find_known [OF Some]
      by (auto simp: Promote promote_to_production_def view_def fun_eq_iff find_version_def history_set
          find_update_first [where key = me_version] find_map_key [where key = me_version] is_production_def
          option.map_comp comp_def Let_def split: option.splits)
  qed
qed

text \<open>
  C15: the registry refines a map: for any sequence of registrations and promotions, what look-ups by
  name and version see is the map with a registration adding an absent version only, a move to
  staging changing one status, and a promotion archiving what was in production.
\<close>

theorem registry_refines_map: "view (fold store_step ops s) = fold view_step ops (view s)"
  by (induction ops arbitrary: s) (simp_all add: step_refines)

subsection \<open>At most one version in production\<close>

definition one_production :: "model_index \<Rightarrow> bool" where
  "one_production s \<longleftrightarrow> (\<forall>n. length (filter is_production (get_model_history n s)) \<le> 1)"

lemma none_archived: "filter is_production (map archive vs) = []"
  by (auto simp: filter_empty_conv archive_def is_production_def)

lemma filter_update_first: "length (filter P (update_first Q f xs)) \<le> length (filter P xs) + 1"
  by (induction xs) auto

lemma filter_update_down: "(\<And>x. \<not> P (f x)) \<Longrightarrow> length (filter P (update_first Q f xs)) \<le> length (filter P xs)"
  by (induction xs) auto

interpretation registry: invariant_machine store_step "\<lambda>_ _. True" one_production
proof
  fix s op assume s: "one_production s"
  show "one_production (store_step op s)"
  proof (cases op)
    case (Register r i now)
    then show ?thesis using s by (simp add: one_production_def history_register entry_of_def is_production_def)
  next
    case (Stage n v)
    have "length (filter is_production (update_first (\<lambda>x. me_version x = v) (\<lambda>x. x\<lparr>me_status := ''staging''\<rparr>) xs))
        \<le> length (filter is_production xs)" for xs
      by (rule filter_update_down) (simp add: is_production_def)
    then show ?thesis using s le_trans
      by (fastforce simp: Stage one_production_def promote_to_staging_def history_set Let_def)
  next
    case (Promote n v now)
    have "length (filter is_production (update_first Q f (map archive xs))) \<le> 1" for Q f xs
      using filter_update_first [of is_production Q f "map archive xs"] by (simp only: none_archived) simp
    then show ?thesis using s
      by (auto simp: Promote one_production_def promote_to_production_def history_set Let_def split: option.splits)
  qed
qed

definition store_run :: "store_op list \<Rightarrow> model_index" where
  "store_run ops = fold store_step ops empty_index"

text \<open>
  However models are registered and promoted, at most one version of a model is in production;
  after a promotion of a known version it is the entry that look-ups of that version find.
\<close>

theorem single_production:
  "length (filter is_production (get_model_history n (store_run ops))) \<le> 1
    \<and> (find_version n v (store_run ops) = None \<or>
       (\<exists>e. find_version n v (store_run (ops @ [Promote n v now])) = Some e \<and> is_production e
          \<and> filter is_production (get_model_history n (store_run (ops @ [Promote n v now]))) = [e]))"
proof -
  have inv: "one_production (store_run xs)" for xs
    unfolding store_run_def by (rule registry.run_inv) (simp_all add: one_production_def empty_index_def get_model_history_def run_allowed_True)
  have "\<exists>e. find_version n v (store_run (ops @ [Promote n v now])) = Some e \<and> is_production e
      \<and> filter is_production (get_model_history n (store_run (ops @ [Promote n v now]))) = [e]" if known: "find_version n v (store_run ops) = Some x" for x
  proof -
    have "view (store_run (ops @ [Promote n v now])) n v = Some (me_model_id x, ''production'')"
      using known by (simp add: store_run_def step_refines del: store_step.simps) (simp add: view_def)
    then obtain e where e: "find_version n v (store_run (ops @ [Promote n v now])) = Some e" "is_production e"
      by (auto simp: view_def is_production_def)
    then have mem: "e \<in> set (filter is_production (get_model_history n (store_run (ops @ [Promote n v now]))))"
      by (auto simp: find_version_def dest: find_SomeD)
    have "length (filter is_production (get_model_history n (store_run (ops @ [Promote n v now])))) \<le> 1"
      using inv [of "ops @ [Promote n v now]"] by (simp add: one_production_def)
    then have "filter is_production (get_model_history n (store_run (ops @ [Promote n v now]))) = [e]"
      using mem by (cases "filter is_production (get_model_history n (store_run (ops @ [Promote n v now])))") auto
    then show ?thesis using e by blast
  qed
  then show ?thesis using inv [of ops] by (cases "find_version n v (store_run ops)") (auto simp: one_production_def)
qed

text \<open>A version registered a second time is never found: look-ups, also of the latest, give the first entry.\<close>

lemma reregistered_hidden:
  assumes "find_version (rg_name r) (rg_version r) s = Some e"
  shows "find_version (rg_name r) (rg_version r) (fst (register_model r i now s)) = Some e"
    and "get_model (rg_name r) None (fst (register_model r i now s)) = (if rg_version r = [] then None else Some e)"
  using assms by (auto simp: find_version_def history_register find_snoc get_model_def)
    (auto simp: register_model_def find_version_def Let_def get_model_history_def find_snoc split: option.splits)

text \<open>What a promotion returns as the previous production version is never in production unless it is the new one.\<close>

lemma position_some: "position P xs = Some i \<Longrightarrow> i < length xs \<and> P (xs ! i)"
  by (induction xs arbitrary: i) (auto split: if_splits)

lemma update_first_nth: "i < length xs \<Longrightarrow> update_first P f xs ! i = xs ! i \<or> update_first P f xs ! i = f (xs ! i)"
  by (induction xs arbitrary: i) (auto simp: nth_Cons split: nat.split)

lemma previous_shown_archived:
  assumes "promote_to_production name version now s = (t, Some r)" and "pm_previous_production r = Some old"
  shows "me_status old = ''archived'' \<or> (me_status old = ''production'' \<and> me_promoted_at old = Some now)"
proof -
  obtain i where i: "position is_production (get_model_history name s) = Some i"
    and old: "old = update_first (\<lambda>v. me_version v = version) (\<lambda>v. v\<lparr>me_status := ''production'', me_promoted_at := Some now\<rparr>)
      (map archive (get_model_history name s)) ! i"
    using assms by (auto simp: promote_to_production_def Let_def split: option.splits)
  have "i < length (map archive (get_model_history name s))" "is_production (get_model_history name s ! i)"
    using position_some [OF i] by simp_all
  then show ?thesis using update_first_nth [of i "map archive (get_model_history name s)" "\<lambda>v. me_version v = version"
      "\<lambda>v. v\<lparr>me_status := ''production'', me_promoted_at := Some now\<rparr>"]
    by (auto simp: old archive_def)
qed

end
