(* ===== verification/Workflow.thy ===== *)
theory Workflow
  imports Values
begin

text \<open>
  The deployment workflow, src/src/gpuopt/deployment_workflow.py with the models of
  deployment_workflow_schemas.py: seven steps from the identity of a model to its optimisation, each
  with its figures, and the store of workflows. Random figures are arguments of the steps that draw
  them; the file the workflows are saved to is not modelled. Every step also leaves its input in the
  workflow; the model keeps the inputs that no output repeats.
\<close>

subsection \<open>Inputs and outputs of the steps\<close>

datatype workflow_status = NOT_STARTED | IN_PROGRESS | COMPLETED | FAILED

record step1_input =
  i1_model_name :: string
  i1_parameter_count_b :: rat
  i1_architecture :: string
  i1_framework :: string
  i1_precision :: string

record step1_output =
  o1_model_name :: string
  o1_parameter_count_b :: rat
  o1_architecture :: string
  o1_framework :: string
  o1_precision :: string
  o1_estimated_weight_gb :: rat
  o1_model_card_summary :: "piece list"

record step2_input =
  i2_gpu_model :: string
  i2_memory_per_gpu_gib :: rat
  i2_gpus_per_node :: int
  i2_interconnect :: string
  i2_interconnect_bandwidth :: rat
  i2_num_nodes_available :: int

record step2_output =
  o2_gpu_model :: string
  o2_memory_per_gpu_gib :: rat
  o2_gpus_per_node :: int
  o2_total_gpus_available :: int
  o2_interconnect :: string
  o2_interconnect_bandwidth :: rat
  o2_max_tensor_parallelism :: int
  o2_hardware_summary :: "piece list"

record step3_input =
  i3_max_context_length :: int
  i3_expected_concurrent_sequences :: int
  i3_target_latency_p50_ms :: rat
  i3_target_latency_p99_ms :: rat
  i3_target_throughput :: rat
  i3_batch_size :: int

record step3_output =
  o3_max_context_length :: int
  o3_expected_concurrent_sequences :: int
  o3_target_latency_p50_ms :: rat
  o3_target_latency_p99_ms :: rat
  o3_target_throughput :: rat
  o3_estimated_kv_cache_gb :: rat
  o3_estimated_total_memory_gb :: rat
  o3_fits_on_single_gpu :: bool
  o3_slo_summary :: "piece list"

record step4_input =
  i4_tensor_parallelism :: int
  i4_pipeline_parallelism :: int
  i4_num_replicas :: int
  i4_namespace :: string
  i4_enable_hpa :: bool
  i4_node_selector :: "(string, string) dict"

record step4_output =
  o4_tensor_parallelism :: int
  o4_pipeline_parallelism :: int
  o4_num_replicas :: int
  o4_gpus_per_replica :: int
  o4_total_gpus_required :: int
  o4_manifest_yaml :: string
  o4_deployment_instructions :: string
  o4_deploy_command :: string

record benchmark_result =
  br_latency_p50_ms :: rat
  br_latency_p95_ms :: rat
  br_latency_p99_ms :: rat
  br_throughput_tokens_per_sec :: rat
  br_throughput_requests_per_sec :: rat
  br_total_tokens_generated :: int
  br_error_count :: int
  br_duration_seconds :: rat
  br_gpu_util_pct :: rat
  br_memory_util_pct :: rat
  br_power_draw_watts :: rat
  br_gpu_temp_celsius :: rat

record step5_input =
  i5_endpoint_url :: string
  i5_num_requests :: int
  i5_concurrency :: int
  i5_max_tokens :: int
  i5_dcgm_metrics_available :: bool

record step5_output =
  o5_endpoint_url :: string
  o5_benchmark :: benchmark_result
  o5_slo_achieved :: bool
  o5_slo_violations :: "piece list list"
  o5_benchmark_summary :: "piece list"

record step6_input =
  i6_measured_throughput :: rat
  i6_target_throughput :: rat
  i6_max_tokens_per_replica :: rat
  i6_availability_target :: rat

record step6_output =
  o6_measured_throughput :: rat
  o6_required_replicas :: int
  o6_total_gpus_required :: int
  o6_replicas_with_buffer :: int
  o6_expected_total_throughput :: rat
  o6_availability_target :: rat
  o6_replica_summary :: "piece list"

record opt_experiment =
  oe_experiment_id :: string
  oe_name :: string
  oe_description :: string
  oe_configuration :: "(string, json) dict"
  oe_measured_throughput :: rat
  oe_measured_latency_p50_ms :: rat
  oe_cost_per_million_tokens :: rat
  oe_gpu_hours :: rat
  oe_quality_score :: rat

record step7_input =
  i7_experiments :: "opt_experiment list"
  i7_record_cost :: bool

record step7_output =
  o7_experiments_run :: nat
  o7_experiments :: "opt_experiment list"
  o7_best_experiment :: "opt_experiment option"
  o7_cost_baseline :: rat
  o7_cost_optimized :: rat
  o7_savings_pct :: rat
  o7_optimization_summary :: "piece list"

record workflow =
  wf_workflow_id :: string
  wf_status :: workflow_status
  wf_current_step :: int
  wf_started_at :: datetime
  wf_completed_at :: "datetime option"
  wf_step1 :: "(step1_input \<times> step1_output) option"
  wf_step2 :: "(step2_input \<times> step2_output) option"
  wf_step3 :: "(step3_input \<times> step3_output) option"
  wf_step4 :: "(step4_input \<times> step4_output) option"
  wf_step5 :: "(step5_input \<times> step5_output) option"
  wf_step6 :: "(step6_input \<times> step6_output) option"
  wf_step7_input :: "step7_input option"
  wf_step7_output :: "step7_output option"

type_synonym workflows = "(string, workflow) dict"

definition new_workflow :: "string \<Rightarrow> datetime \<Rightarrow> workflow" where
  "new_workflow wid now =
     \<lparr>wf_workflow_id = wid, wf_status = NOT_STARTED, wf_current_step = 0, wf_started_at = now, wf_completed_at = None,
      wf_step1 = None, wf_step2 = None, wf_step3 = None, wf_step4 = None, wf_step5 = None, wf_step6 = None,
      wf_step7_input = None, wf_step7_output = None\<rparr>"

definition get_or_new :: "string \<Rightarrow> datetime \<Rightarrow> workflows \<Rightarrow> workflow" where
  "get_or_new wid now s = (case dict_get s wid of Some w \<Rightarrow> w | None \<Rightarrow> new_workflow wid now)"

subsection \<open>Known models\<close>

record known_model =
  km_num_params :: rat
  km_num_layers :: int
  km_hidden_size :: int
  km_num_heads :: int
  km_num_kv_heads :: int

definition known_models :: "(string, known_model) dict" where
  "known_models =
     [(''llama-8b'', \<lparr>km_num_params = 8, km_num_layers = 32, km_hidden_size = 4096, km_num_heads = 32, km_num_kv_heads = 8\<rparr>),
      (''llama-70b'', \<lparr>km_num_params = 70, km_num_layers = 80, km_hidden_size = 8192, km_num_heads = 64, km_num_kv_heads = 8\<rparr>),
      (''llama-405b'', \<lparr>km_num_params = 405, km_num_layers = 126, km_hidden_size = 16384, km_num_heads = 128, km_num_kv_heads = 8\<rparr>),
      (''mistral-7b'', \<lparr>km_num_params = 7, km_num_layers = 32, km_hidden_size = 4096, km_num_heads = 32, km_num_kv_heads = 8\<rparr>),
      (''falcon-7b'', \<lparr>km_num_params = 7, km_num_layers = 32, km_hidden_size = 4544, km_num_heads = 71, km_num_kv_heads = 71\<rparr>)]"

definition dtype_bytes :: "(string, rat) dict" where
  "dtype_bytes = [(''fp32'', 4), (''fp16'', 2), (''bf16'', 2), (''fp8'', 1), (''int8'', 1), (''int4'', 1 / 2)]"

definition known :: "string \<Rightarrow> known_model option" where
  "known name = dict_get known_models (map (\<lambda>c. if c = CHR ''/'' \<or> c = CHR ''.'' then CHR ''-'' else c) (str_lower name))"

definition weight_of :: "rat \<Rightarrow> string \<Rightarrow> rat" where
  "weight_of params precision = params * 10 ^ 9 * dict_get_or dtype_bytes precision 2 / 1024 ^ 3"

subsection \<open>The steps\<close>

definition step1_answer :: "step1_input \<Rightarrow> step1_output" where
  "step1_answer x =
     (let name = (if i1_model_name x \<noteq> [] then i1_model_name x else ''custom-model'');
          params = (case known name of Some k \<Rightarrow> km_num_params k
            | None \<Rightarrow> if i1_parameter_count_b x = 0 then 8 else i1_parameter_count_b x) in
      \<lparr>o1_model_name = name, o1_parameter_count_b = params, o1_architecture = i1_architecture x, o1_framework = i1_framework x,
       o1_precision = i1_precision x, o1_estimated_weight_gb = py_round 2 (weight_of params (i1_precision x)),
       o1_model_card_summary = [Txt (name @ '' (''), Fmt ''.1f'' (JFloat params),
         Txt (''B parameters, '' @ i1_precision x @ '', '' @ i1_architecture x @ '')'')]\<rparr>)"

text \<open>Without an identifier, \<open>fresh\<close> is the one drawn.\<close>

definition step1 :: "string \<Rightarrow> datetime \<Rightarrow> step1_input \<Rightarrow> string option \<Rightarrow> workflows \<Rightarrow> workflows \<times> step1_output" where
  "step1 fresh now x wid s =
     (let i = (case wid of Some (c # cs) \<Rightarrow> c # cs | _ \<Rightarrow> fresh); w = get_or_new i now s; out = step1_answer x in
      (dict_set i (w\<lparr>wf_current_step := 1, wf_step1 := Some (x, out), wf_status := IN_PROGRESS\<rparr>) s, out))"

definition step2_answer :: "step2_input \<Rightarrow> step2_output" where
  "step2_answer x =
     (let all = i2_gpus_per_node x * i2_num_nodes_available x in
      \<lparr>o2_gpu_model = i2_gpu_model x, o2_memory_per_gpu_gib = i2_memory_per_gpu_gib x, o2_gpus_per_node = i2_gpus_per_node x,
       o2_total_gpus_available = all, o2_interconnect = i2_interconnect x,
       o2_interconnect_bandwidth = i2_interconnect_bandwidth x, o2_max_tensor_parallelism = i2_gpus_per_node x,
       o2_hardware_summary = [Val (JInt all), Txt (''x '' @ i2_gpu_model x @ '' (''), Fmt ''.0f'' (JFloat (i2_memory_per_gpu_gib x)),
         Txt ''GiB each) across '', Val (JInt (i2_num_nodes_available x)), Txt ('' node(s), '' @ i2_interconnect x)]\<rparr>)"

definition step2 :: "datetime \<Rightarrow> step2_input \<Rightarrow> string \<Rightarrow> workflows \<Rightarrow> workflows \<times> step2_output" where
  "step2 now x wid s =
     (dict_set wid ((get_or_new wid now s)\<lparr>wf_current_step := 2, wf_step2 := Some (x, step2_answer x)\<rparr>) s, step2_answer x)"

definition kv_cache_gb :: "step1_output option \<Rightarrow> step3_input \<Rightarrow> rat" where
  "kv_cache_gb s1 x =
     (let precision = (case s1 of None \<Rightarrow> ''fp16'' | Some o1 \<Rightarrow> o1_precision o1);
          (layers, kv_heads, hidden) = (case s1 of None \<Rightarrow> (32, 8, 4096)
            | Some o1 \<Rightarrow> (case known (o1_model_name o1) of None \<Rightarrow> (32, 8, 4096)
                | Some k \<Rightarrow> (km_num_layers k, km_num_kv_heads k, km_hidden_size k)));
          head_dim = hidden div 32;
          kv_bytes = of_int (2 * layers * kv_heads * head_dim) * dict_get_or dtype_bytes precision 2 in
      kv_bytes * of_int (i3_max_context_length x) * of_int (i3_expected_concurrent_sequences x) / 1024 ^ 3)"

definition total_memory_gb :: "step1_output option \<Rightarrow> step3_input \<Rightarrow> rat" where
  "total_memory_gb s1 x =
     (let precision = (case s1 of None \<Rightarrow> ''fp16'' | Some o1 \<Rightarrow> o1_precision o1);
          params = (case s1 of None \<Rightarrow> 8 | Some o1 \<Rightarrow> o1_parameter_count_b o1);
          weight = weight_of params precision in
      (weight + kv_cache_gb s1 x + weight * (5 / 100) * of_int (i3_batch_size x)) * (115 / 100))"

definition bool_text :: "bool \<Rightarrow> string" where
  "bool_text b = (if b then ''True'' else ''False'')"

definition step3_answer :: "step1_output option \<Rightarrow> step2_output option \<Rightarrow> step3_input \<Rightarrow> step3_output" where
  "step3_answer s1 s2 x =
     (let mem = (case s2 of None \<Rightarrow> 80 | Some o2 \<Rightarrow> o2_memory_per_gpu_gib o2);
          kv = kv_cache_gb s1 x; all = total_memory_gb s1 x; fits = (all \<le> mem) in
      \<lparr>o3_max_context_length = i3_max_context_length x, o3_expected_concurrent_sequences = i3_expected_concurrent_sequences x,
       o3_target_latency_p50_ms = i3_target_latency_p50_ms x, o3_target_latency_p99_ms = i3_target_latency_p99_ms x,
       o3_target_throughput = i3_target_throughput x, o3_estimated_kv_cache_gb = py_round 2 kv,
       o3_estimated_total_memory_gb = py_round 2 all, o3_fits_on_single_gpu = fits,
       o3_slo_summary = [Txt ''KV cache: '', Fmt ''.1f'' (JFloat kv), Txt ''GiB, Total: '', Fmt ''.1f'' (JFloat all),
         Txt (''GiB, Fits single GPU: '' @ bool_text fits @ '', Constraints: ''
           @ (if mem * (3 / 10) < kv then ''KV cache may exceed 30% of GPU memory'' else ''OK''))]\<rparr>)"

definition step3 :: "datetime \<Rightarrow> step3_input \<Rightarrow> string \<Rightarrow> workflows \<Rightarrow> workflows \<times> step3_output" where
  "step3 now x wid s =
     (let w = get_or_new wid now s; out = step3_answer (map_option snd (wf_step1 w)) (map_option snd (wf_step2 w)) x in
      (dict_set wid (w\<lparr>wf_current_step := 3, wf_step3 := Some (x, out)\<rparr>) s, out))"

subsection \<open>Deployment\<close>

definition base_manifest :: "string \<Rightarrow> step4_input \<Rightarrow> string list" where
  "base_manifest m x = (let gpus = i4_tensor_parallelism x * i4_pipeline_parallelism x in
     [''apiVersion: apps/v1'', ''kind: Deployment'', ''metadata:'', ''  name: '' @ m @ ''-inference'',
      ''  namespace: '' @ i4_namespace x, ''spec:'', ''  replicas: '' @ int_str (i4_num_replicas x), ''  selector:'',
      ''    matchLabels:'', ''      app: '' @ m, ''  template:'', ''    metadata:'', ''      labels:'', ''        app: '' @ m,
      ''    spec:'', ''      containers:'', ''      - name: inference-engine'', ''        image: vllm/vllm-openai:latest'',
      ''        args: [\"--model\", \"'' @ m @ ''\",'',
      ''                \"--tensor-parallel-size\", \"'' @ int_str (i4_tensor_parallelism x) @ ''\",'',
      ''                \"--pipeline-parallel-size\", \"'' @ int_str (i4_pipeline_parallelism x) @ ''\"]'', ''        resources:'',
      ''          limits:'', ''            nvidia.com/gpu: '' @ int_str gpus, ''---'', ''apiVersion: v1'', ''kind: Service'',
      ''metadata:'', ''  name: '' @ m @ ''-inference'', ''  namespace: '' @ i4_namespace x, ''spec:'', ''  type: ClusterIP'',
      ''  ports:'', ''  - port: 8000'', ''    targetPort: 8000'', ''  selector:'', ''    app: '' @ m])"

definition hpa_manifest :: "string \<Rightarrow> step4_input \<Rightarrow> string list" where
  "hpa_manifest m x =
     [''---'', ''apiVersion: autoscaling/v2'', ''kind: HorizontalPodAutoscaler'', ''metadata:'',
      ''  name: '' @ m @ ''-inference'', ''  namespace: '' @ i4_namespace x, ''spec:'', ''  scaleTargetRef:'',
      ''    apiVersion: apps/v1'', ''    kind: Deployment'', ''    name: '' @ m @ ''-inference'',
      ''  minReplicas: '' @ int_str (i4_num_replicas x), ''  maxReplicas: 10'', ''  metrics:'', ''  - type: Resource'',
      ''    resource:'', ''      name: cpu'', ''      target:'', ''        type: Utilization'',
      ''        averageUtilization: 80'']"

definition manifest_of :: "string \<Rightarrow> step4_input \<Rightarrow> string" where
  "manifest_of m x = join_with (CHR 0x0A) (base_manifest m x @ (if i4_enable_hpa x then hpa_manifest m x else []))"

definition step4_answer :: "step1_output option \<Rightarrow> step4_input \<Rightarrow> step4_output" where
  "step4_answer s1 x =
     (let m = (case s1 of None \<Rightarrow> ''model'' | Some o1 \<Rightarrow> o1_model_name o1);
          gpus = i4_tensor_parallelism x * i4_pipeline_parallelism x; nl = [CHR 0x0A]; q = [CHR 0x27] in
      \<lparr>o4_tensor_parallelism = i4_tensor_parallelism x, o4_pipeline_parallelism = i4_pipeline_parallelism x,
       o4_num_replicas = i4_num_replicas x, o4_gpus_per_replica = gpus, o4_total_gpus_required = gpus * i4_num_replicas x,
       o4_manifest_yaml = manifest_of m x,
       o4_deployment_instructions = ''Apply manifest to cluster: kubectl apply -f '' @ m @ ''-deployment.yaml'' @ nl
         @ ''Monitor rollout: kubectl rollout status deployment/'' @ m @ ''-inference -n '' @ i4_namespace x,
       o4_deploy_command = ''kubectl apply -f - <<'' @ q @ ''EOF'' @ q @ nl @ manifest_of m x @ nl @ ''EOF''\<rparr>)"

definition step4 :: "datetime \<Rightarrow> step4_input \<Rightarrow> string \<Rightarrow> workflows \<Rightarrow> workflows \<times> step4_output" where
  "step4 now x wid s =
     (let w = get_or_new wid now s; out = step4_answer (map_option snd (wf_step1 w)) x in
      (dict_set wid (w\<lparr>wf_current_step := 4, wf_step4 := Some (x, out)\<rparr>) s, out))"

subsection \<open>Benchmark\<close>

text \<open>The figures drawn: latencies, the factor of the throughput, and the four of the devices.\<close>

record bench_draws =
  bd_latencies :: "rat list"
  bd_throughput :: rat
  bd_gpu_util :: rat
  bd_memory_util :: rat
  bd_power :: rat
  bd_temperature :: rat

definition percentile :: "rat list \<Rightarrow> rat \<Rightarrow> rat" where
  "percentile ls p = (let n = int (length ls) in ls ! nat (max 0 (min (n - 1) (int_of (of_int n * p / 100)))))"

definition benchmark_of :: "bench_draws \<Rightarrow> rat \<Rightarrow> step5_input \<Rightarrow> benchmark_result" where
  "benchmark_of d tput x =
     (let ls = sort (bd_latencies d); n = of_nat (length ls); p = percentile ls; measured = tput * bd_throughput d;
          requests = of_int (i5_num_requests x); dcgm = (\<lambda>v. py_round 1 (if i5_dcgm_metrics_available x then v else 0)) in
      \<lparr>br_latency_p50_ms = py_round 2 (p 50), br_latency_p95_ms = py_round 2 (p 95), br_latency_p99_ms = py_round 2 (p 99),
       br_throughput_tokens_per_sec = py_round 1 measured,
       br_throughput_requests_per_sec = (if 0 < length ls then py_round 1 (requests / (p 50 / 1000 * n)) else 0),
       br_total_tokens_generated = int_of (measured * requests / max (p 50 / 1000) (1 / 1000)), br_error_count = 0,
       br_duration_seconds = py_round 2 (n * p 50 / 1000), br_gpu_util_pct = dcgm (bd_gpu_util d),
       br_memory_util_pct = dcgm (bd_memory_util d), br_power_draw_watts = dcgm (bd_power d),
       br_gpu_temp_celsius = dcgm (bd_temperature d)\<rparr>)"

definition slo_violations :: "rat \<Rightarrow> rat \<Rightarrow> rat \<Rightarrow> benchmark_result \<Rightarrow> piece list list" where
  "slo_violations p50 p99 tput b =
     (if p50 < br_latency_p50_ms b
      then [[Txt ''p50 latency '', Fmt ''.0f'' (JFloat (br_latency_p50_ms b)), Txt ''ms exceeds target '', Fmt ''.0f'' (JFloat p50), Txt ''ms'']] else [])
     @ (if p99 < br_latency_p99_ms b
        then [[Txt ''p99 latency '', Fmt ''.0f'' (JFloat (br_latency_p99_ms b)), Txt ''ms exceeds target '', Fmt ''.0f'' (JFloat p99), Txt ''ms'']] else [])
     @ (if br_throughput_tokens_per_sec b < tput * (1 / 2)
        then [[Txt ''Throughput '', Fmt ''.0f'' (JFloat (br_throughput_tokens_per_sec b)), Txt '' tok/s below 50% of target'']] else [])"

definition step5_answer :: "bench_draws \<Rightarrow> step3_output option \<Rightarrow> step5_input \<Rightarrow> step5_output" where
  "step5_answer d s3 x =
     (let (p50, p99, tput) = (case s3 of None \<Rightarrow> (200, 500, 1000)
            | Some o3 \<Rightarrow> (o3_target_latency_p50_ms o3, o3_target_latency_p99_ms o3, o3_target_throughput o3));
          b = benchmark_of d tput x; vs = slo_violations p50 p99 tput b in
      \<lparr>o5_endpoint_url = i5_endpoint_url x, o5_benchmark = b, o5_slo_achieved = (vs = []), o5_slo_violations = vs,
       o5_benchmark_summary = [Txt ''p50: '', Fmt ''.0f'' (JFloat (br_latency_p50_ms b)), Txt ''ms, p99: '',
         Fmt ''.0f'' (JFloat (br_latency_p99_ms b)), Txt ''ms, throughput: '', Fmt ''.0f'' (JFloat (br_throughput_tokens_per_sec b)),
         Txt '' tok/s, SLO: ''] @ (if vs = [] then [Txt ''achieved''] else [Val (JInt (int (length vs))), Txt '' violation(s)''])\<rparr>)"

definition step5 :: "bench_draws \<Rightarrow> datetime \<Rightarrow> step5_input \<Rightarrow> string \<Rightarrow> workflows \<Rightarrow> workflows \<times> step5_output" where
  "step5 d now x wid s =
     (let w = get_or_new wid now s; out = step5_answer d (map_option snd (wf_step3 w)) x in
      (dict_set wid (w\<lparr>wf_current_step := 5, wf_step5 := Some (x, out)\<rparr>) s, out))"

subsection \<open>Replicas\<close>

definition step6_answer :: "step4_output option \<Rightarrow> step6_input \<Rightarrow> step6_output" where
  "step6_answer s4 x =
     (let measured = i6_measured_throughput x; target = i6_target_throughput x;
          per = (if i6_max_tokens_per_replica x \<noteq> 0 then i6_max_tokens_per_replica x else measured);
          raw = \<lceil>target / max per (1 / 100)\<rceil>; buffer = max 1 \<lceil>of_int raw * (2 / 10 :: rat)\<rceil>; with_buffer = raw + buffer;
          gpus = (case s4 of None \<Rightarrow> 1 | Some o4 \<Rightarrow> o4_gpus_per_replica o4); all = with_buffer * gpus in
      \<lparr>o6_measured_throughput = py_round 1 measured, o6_required_replicas = raw, o6_total_gpus_required = all,
       o6_replicas_with_buffer = with_buffer, o6_expected_total_throughput = py_round 1 (per * of_int with_buffer),
       o6_availability_target = i6_availability_target x,
       o6_replica_summary = [Txt ''Measured: '', Fmt ''.0f'' (JFloat measured), Txt '' tok/s per replica, Target: '',
         Fmt ''.0f'' (JFloat target), Txt '' tok/s, Replicas: '', Val (JInt raw), Txt '' (+'', Val (JInt buffer), Txt '' buffer = '',
         Val (JInt with_buffer), Txt ''), GPUs required: '', Val (JInt all)]\<rparr>)"

definition step6 :: "datetime \<Rightarrow> step6_input \<Rightarrow> string \<Rightarrow> workflows \<Rightarrow> workflows \<times> step6_output" where
  "step6 now x wid s =
     (let w = get_or_new wid now s; out = step6_answer (map_option snd (wf_step4 w)) x in
      (dict_set wid (w\<lparr>wf_current_step := 6, wf_step6 := Some (x, out)\<rparr>) s, out))"

subsection \<open>Experiments\<close>

definition cost_of :: "int \<Rightarrow> rat \<Rightarrow> rat" where
  "cost_of gpus tput = py_round 4 (of_int gpus * (3 / 2) * 730 / (tput * 3600 * 730 / 10 ^ 6))"

definition config_of :: "string \<Rightarrow> string \<Rightarrow> int \<Rightarrow> (string, json) dict" where
  "config_of precision framework tp = [(''precision'', JStr precision), (''framework'', JStr framework), (''tp'', JInt tp)]"

text \<open>The latencies of the three experiments are drawn.\<close>

definition default_experiments :: "int \<Rightarrow> rat \<Rightarrow> rat \<times> rat \<times> rat \<Rightarrow> opt_experiment list" where
  "default_experiments g tput = (\<lambda>(l1, l2, l3).
     [\<lparr>oe_experiment_id = ''exp-fp16-vllm'', oe_name = ''FP16 vLLM baseline'',
       oe_description = ''Baseline configuration with FP16 precision and vLLM'', oe_configuration = config_of ''fp16'' ''vllm'' g,
       oe_measured_throughput = py_round 1 tput, oe_measured_latency_p50_ms = py_round 1 l1,
       oe_cost_per_million_tokens = cost_of g tput, oe_gpu_hours = of_int g, oe_quality_score = 1\<rparr>,
      \<lparr>oe_experiment_id = ''exp-int8-vllm'', oe_name = ''INT8 vLLM quantization'',
       oe_description = ''INT8 quantization with vLLM for memory reduction'', oe_configuration = config_of ''int8'' ''vllm'' (max 1 (g div 2)),
       oe_measured_throughput = py_round 1 (tput * (5 / 2)), oe_measured_latency_p50_ms = py_round 1 l2,
       oe_cost_per_million_tokens = cost_of (g div 2) (tput * (5 / 2)), oe_gpu_hours = of_int (max 1 (g div 2)), oe_quality_score = 98 / 100\<rparr>,
      \<lparr>oe_experiment_id = ''exp-fp8-trtllm'', oe_name = ''FP8 TensorRT-LLM'',
       oe_description = ''FP8 precision with TensorRT-LLM for maximum throughput'', oe_configuration = config_of ''fp8'' ''tensorrt-llm'' g,
       oe_measured_throughput = py_round 1 (tput * (7 / 2)), oe_measured_latency_p50_ms = py_round 1 l3,
       oe_cost_per_million_tokens = cost_of g (tput * (7 / 2)), oe_gpu_hours = of_int g * 2, oe_quality_score = 97 / 100\<rparr>])"

definition cheapest :: "opt_experiment list \<Rightarrow> opt_experiment option" where
  "cheapest es = (case es of [] \<Rightarrow> None | e # r \<Rightarrow> Some (max_by (\<lambda>x. - oe_cost_per_million_tokens x) e r))"

definition savings_of :: "rat \<Rightarrow> rat \<Rightarrow> rat" where
  "savings_of baseline best = (if 0 < baseline then (baseline - best) / max baseline (1 / 1000) * 100 else 0)"

definition step7_summary :: "opt_experiment list \<Rightarrow> step7_output" where
  "step7_summary es =
     (let best = cheapest es; baseline = (case es of [] \<Rightarrow> 0 | e # _ \<Rightarrow> oe_cost_per_million_tokens e);
          best_cost = (case best of None \<Rightarrow> baseline | Some b \<Rightarrow> oe_cost_per_million_tokens b);
          savings = savings_of baseline best_cost in
      \<lparr>o7_experiments_run = length es, o7_experiments = es, o7_best_experiment = best, o7_cost_baseline = py_round 4 baseline,
       o7_cost_optimized = py_round 4 best_cost, o7_savings_pct = py_round 1 savings,
       o7_optimization_summary = [Txt ''Ran '', Val (JInt (int (length es))),
         Txt ('' experiment(s). Best: '' @ (case best of None \<Rightarrow> ''N/A'' | Some b \<Rightarrow> oe_name b) @ '' at $''), Fmt ''.4f'' (JFloat best_cost),
         Txt ''/1M tokens (savings: '', Fmt ''.1f'' (JFloat savings), Txt ''% vs baseline $'', Fmt ''.4f'' (JFloat baseline), Txt '')'']\<rparr>)"

text \<open>The default experiments are computed in any case; a throughput of zero makes their cost divide by zero.\<close>

definition step7_answer ::
  "rat \<times> rat \<times> rat \<Rightarrow> step4_output option \<Rightarrow> step5_output option \<Rightarrow> step7_input \<Rightarrow> py_error + step7_output" where
  "step7_answer d s4 s5 x =
     (let tput = (case s5 of None \<Rightarrow> 1000 | Some o5 \<Rightarrow> br_throughput_tokens_per_sec (o5_benchmark o5));
          g = (case s4 of None \<Rightarrow> 1 | Some o4 \<Rightarrow> o4_gpus_per_replica o4) in
      if tput = 0 then Inl (ZeroDivisionError ''float division by zero'')
      else Inr (step7_summary (if i7_experiments x \<noteq> [] then i7_experiments x else default_experiments g tput d)))"

definition step7 ::
  "rat \<times> rat \<times> rat \<Rightarrow> datetime \<Rightarrow> step7_input \<Rightarrow> string \<Rightarrow> workflows \<Rightarrow> workflows \<times> (py_error + step7_output)" where
  "step7 d now x wid s =
     (let w = (get_or_new wid now s)\<lparr>wf_step7_input := Some x, wf_current_step := 7\<rparr> in
      case step7_answer d (map_option snd (wf_step4 w)) (map_option snd (wf_step5 w)) x of
        Inl e \<Rightarrow> (dict_set wid w s, Inl e)
      | Inr out \<Rightarrow> (dict_set wid (w\<lparr>wf_step7_output := Some out, wf_status := COMPLETED, wf_completed_at := Some now\<rparr>) s, Inr out))"

subsection \<open>Management\<close>

definition get_workflow :: "string \<Rightarrow> workflows \<Rightarrow> workflow option" where
  "get_workflow wid s = dict_get s wid"

definition list_workflows :: "workflows \<Rightarrow> workflow list" where
  "list_workflows s = dict_values s"

definition delete_workflow :: "string \<Rightarrow> workflows \<Rightarrow> workflows \<times> bool" where
  "delete_workflow wid s = (if dict_has s wid then (dict_pop wid s, True) else (s, False))"

record next_step =
  np_step :: "int option"
  np_title :: string
  np_prompt :: string

definition step_prompts :: "(int, next_step) dict" where
  "step_prompts = map (\<lambda>(k, t, p). (k, \<lparr>np_step = (if k = 7 then None else Some (k + 1)), np_title = t, np_prompt = p\<rparr>))
     [(0, ''Model Identity'', ''Provide the target model ID/path and parameter count.''),
      (1, ''Hardware Specification'', ''Provide GPU model, memory per GPU, GPUs per node, and interconnect details.''),
      (2, ''SLO Requirements'', ''Provide maximum context, expected concurrent sequences, and latency/throughput SLO.''),
      (3, ''Deployment'', ''Deploy the model with the generated manifest or existing serving stack.''),
      (4, ''Benchmark'', ''Run the benchmark against the real endpoint and collect DCGM metrics.''),
      (5, ''Production Scaling'', ''Use measured throughput in the planner to calculate production replica count.''),
      (6, ''Optimization'', ''Run the ordered optimization experiments and record cost per million output tokens.''),
      (7, ''Complete'', ''All steps completed.'')]"

text \<open>Asking for the next step of an unknown workflow creates it.\<close>

definition get_next_step :: "string \<Rightarrow> datetime \<Rightarrow> workflows \<Rightarrow> workflows \<times> next_step" where
  "get_next_step wid now s =
     (let w = get_or_new wid now s; k = wf_current_step w in
      (dict_set wid w s, dict_get_or step_prompts k \<lparr>np_step = Some (k + 1), np_title = ''Unknown'', np_prompt = ''Continue to next step.''\<rparr>))"

definition workflow_health :: "workflows \<Rightarrow> nat" where
  "workflow_health s = length s"

subsection \<open>Workflows stay well-formed, in any order of steps\<close>

datatype workflow_op =
    Op1 string datetime step1_input "string option"
  | Op2 datetime step2_input string
  | Op3 datetime step3_input string
  | Op4 datetime step4_input string
  | Op5 bench_draws datetime step5_input string
  | Op6 datetime step6_input string
  | Op7 "rat \<times> rat \<times> rat" datetime step7_input string
  | OpNext string datetime
  | OpDelete string

fun workflow_step :: "workflow_op \<Rightarrow> workflows \<Rightarrow> workflows" where
  "workflow_step (Op1 fresh now x wid) s = fst (step1 fresh now x wid s)"
| "workflow_step (Op2 now x wid) s = fst (step2 now x wid s)"
| "workflow_step (Op3 now x wid) s = fst (step3 now x wid s)"
| "workflow_step (Op4 now x wid) s = fst (step4 now x wid s)"
| "workflow_step (Op5 d now x wid) s = fst (step5 d now x wid s)"
| "workflow_step (Op6 now x wid) s = fst (step6 now x wid s)"
| "workflow_step (Op7 d now x wid) s = fst (step7 d now x wid s)"
| "workflow_step (OpNext wid now) s = fst (get_next_step wid now s)"
| "workflow_step (OpDelete wid) s = fst (delete_workflow wid s)"

text \<open>The step a workflow stands at has left its result.\<close>

fun step_done :: "int \<Rightarrow> workflow \<Rightarrow> bool" where
  "step_done k w =
     (if k = 0 then True else if k = 1 then wf_step1 w \<noteq> None else if k = 2 then wf_step2 w \<noteq> None
      else if k = 3 then wf_step3 w \<noteq> None else if k = 4 then wf_step4 w \<noteq> None else if k = 5 then wf_step5 w \<noteq> None
      else if k = 6 then wf_step6 w \<noteq> None else k = 7 \<and> wf_step7_input w \<noteq> None)"

definition workflow_ok :: "string \<Rightarrow> workflow \<Rightarrow> bool" where
  "workflow_ok wid w \<longleftrightarrow> wf_workflow_id w = wid \<and> 0 \<le> wf_current_step w \<and> wf_current_step w \<le> 7 \<and> step_done (wf_current_step w) w
     \<and> wf_status w \<noteq> FAILED \<and> (wf_status w = COMPLETED \<longrightarrow> wf_step7_output w \<noteq> None \<and> wf_completed_at w \<noteq> None)"

definition workflows_ok :: "workflows \<Rightarrow> bool" where
  "workflows_ok s \<longleftrightarrow> (\<forall>wid w. dict_get s wid = Some w \<longrightarrow> workflow_ok wid w)"

lemma get_or_new_ok: "workflows_ok s \<Longrightarrow> workflow_ok wid (get_or_new wid now s)"
proof -
  assume s: "workflows_ok s"
  have "workflow_ok wid (new_workflow wid now)" by (simp add: workflow_ok_def new_workflow_def)
  then show ?thesis using s by (simp add: get_or_new_def workflows_ok_def split: option.split)
qed

lemma workflows_set: "workflows_ok s \<Longrightarrow> workflow_ok wid w \<Longrightarrow> workflows_ok (dict_set wid w s)"
  by (simp add: workflows_ok_def)

interpretation workflow: invariant_machine workflow_step "\<lambda>_ _. True" workflows_ok
proof
  fix s op assume s: "workflows_ok s"
  have fields: "wf_workflow_id (get_or_new wid now s) = wid" "wf_status (get_or_new wid now s) \<noteq> FAILED"
    "wf_status (get_or_new wid now s) = COMPLETED \<Longrightarrow> wf_step7_output (get_or_new wid now s) \<noteq> None"
    "wf_status (get_or_new wid now s) = COMPLETED \<Longrightarrow> wf_completed_at (get_or_new wid now s) \<noteq> None" for wid now
    using get_or_new_ok [OF s, of wid now] by (auto simp: workflow_ok_def)
  show "workflows_ok (workflow_step op s)"
  proof (cases op)
    case (OpDelete wid)
    then show ?thesis using s by (simp add: delete_workflow_def workflows_ok_def)
  next
    case (Op7 d now x wid)
    then show ?thesis using fields by (auto simp: step7_def Let_def workflow_ok_def intro!: workflows_set [OF s] split: sum.split)
  qed (use fields get_or_new_ok [OF s] in \<open>auto simp: step1_def step2_def step3_def step4_def step5_def step6_def get_next_step_def
      Let_def workflow_ok_def intro!: workflows_set [OF s] simp del: not_None_eq\<close>)
qed

text \<open>
  Workflows stay well-formed under any sequence of steps, in any order: each is stored under its
  identifier, stands at a step between 0 and 7 whose result it holds, has not failed, and one that is
  completed holds the result of the optimisation and the time.
\<close>

theorem workflows_well_formed:
  "case dict_get (fold workflow_step ops []) wid of None \<Rightarrow> True | Some w \<Rightarrow> workflow_ok wid w"
proof -
  have "workflows_ok (fold workflow_step ops [])" by (rule workflow.run_inv) (simp_all add: workflows_ok_def)
  then show ?thesis by (simp add: workflows_ok_def split: option.split)
qed

text \<open>The order of the steps is not enforced: the last step alone completes a workflow nobody began.\<close>

lemma last_step_completes:
  assumes "dict_get s wid = None" and "w = fst (step7 d now x wid s)"
  shows "\<exists>v. dict_get w wid = Some v \<and> wf_status v = COMPLETED \<and> wf_step1 v = None \<and> wf_step6 v = None"
  using assms by (simp add: step7_def step7_answer_def get_or_new_def new_workflow_def Let_def)

text \<open>A completed workflow that takes an earlier step again stays completed and asks for the steps after it.\<close>

lemma completed_steps_back:
  assumes "dict_get s wid = Some w" and "wf_status w = COMPLETED"
  shows "\<exists>v. dict_get (fst (step2 now x wid s)) wid = Some v \<and> wf_status v = COMPLETED
    \<and> np_step (snd (get_next_step wid now (fst (step2 now x wid s)))) = Some 3"
  using assms by (simp add: step2_def get_next_step_def get_or_new_def dict_get_or_def step_prompts_def Let_def)

subsection \<open>The figures\<close>

text \<open>
  The replicas planned carry the load: without the buffer they are the fewest that reach the target
  throughput, with it at least one more and a fifth more, and the GPUs are counted for all of them.
\<close>

theorem replicas_cover_target:
  "let o6 = step6_answer s4 x;
       per = max (if i6_max_tokens_per_replica x \<noteq> 0 then i6_max_tokens_per_replica x else i6_measured_throughput x) (1 / 100) in
     i6_target_throughput x \<le> of_int (o6_required_replicas o6) * per
     \<and> of_int (o6_required_replicas o6 - 1) * per < i6_target_throughput x
     \<and> o6_required_replicas o6 + 1 \<le> o6_replicas_with_buffer o6
     \<and> of_int (o6_required_replicas o6) * (6 / 5 :: rat) \<le> of_int (o6_replicas_with_buffer o6)
     \<and> o6_total_gpus_required o6 = o6_replicas_with_buffer o6 * (case s4 of None \<Rightarrow> 1 | Some o4 \<Rightarrow> o4_gpus_per_replica o4)"
proof -
  define per where "per = max (if i6_max_tokens_per_replica x \<noteq> 0 then i6_max_tokens_per_replica x else i6_measured_throughput x) (1 / 100)"
  define target where "target = i6_target_throughput x"
  have per: "0 < per" by (simp add: per_def less_max_iff_disj)
  have up: "target / per \<le> of_int \<lceil>target / per\<rceil>" and down: "of_int \<lceil>target / per\<rceil> - 1 < target / per" by linarith+
  have "target \<le> of_int \<lceil>target / per\<rceil> * per" using up per by (simp only: divide_le_eq if_True)
  moreover have "of_int (\<lceil>target / per\<rceil> - 1) * per < target" using down per by (simp add: less_divide_eq)
  moreover have "of_int \<lceil>target / per\<rceil> * (6 / 5) \<le> (of_int (\<lceil>target / per\<rceil> + max 1 \<lceil>of_int \<lceil>target / per\<rceil> * (2 / 10 :: rat)\<rceil>) :: rat)"
  proof -
    have "of_int \<lceil>target / per\<rceil> * (2 / 10) \<le> (of_int \<lceil>of_int \<lceil>target / per\<rceil> * (2 / 10 :: rat)\<rceil> :: rat)" by (rule le_of_int_ceiling)
    also have "\<dots> \<le> of_int (max 1 \<lceil>of_int \<lceil>target / per\<rceil> * (2 / 10 :: rat)\<rceil>)" by simp
    finally show ?thesis by (simp add: algebra_simps)
  qed
  ultimately show ?thesis
    unfolding Let_def step6_answer_def step6_output.simps per_def [symmetric] target_def [symmetric] by simp
qed

text \<open>The best experiment is the cheapest, and what it saves against the first lies between nothing and everything.\<close>

lemma best_experiment:
  assumes "es \<noteq> []" and "\<forall>e \<in> set es. 0 \<le> oe_cost_per_million_tokens e"
  shows "\<exists>b \<in> set es. o7_best_experiment (step7_summary es) = Some b
      \<and> (\<forall>e \<in> set es. oe_cost_per_million_tokens b \<le> oe_cost_per_million_tokens e)
      \<and> 0 \<le> o7_savings_pct (step7_summary es) \<and> o7_savings_pct (step7_summary es) \<le> 100"
proof -
  obtain e r where es: "es = e # r" using assms(1) by (cases es) auto
  define b where "b = max_by (\<lambda>x. - oe_cost_per_million_tokens x) e r"
  have b: "b \<in> set es" "\<And>x. x \<in> set es \<Longrightarrow> oe_cost_per_million_tokens b \<le> oe_cost_per_million_tokens x"
    using max_by_mem [of "\<lambda>x. - oe_cost_per_million_tokens x" e r] max_by_ge [of _ e r "\<lambda>x. - oe_cost_per_million_tokens x"]
    by (auto simp: b_def es)
  let ?c = "oe_cost_per_million_tokens e" and ?d = "oe_cost_per_million_tokens b"
  have range: "?d \<le> ?c" "0 \<le> ?d" using b assms(2) by (auto simp: es)
  have "(?c - ?d) / max ?c (1 / 1000) \<le> 1" using range by (simp add: divide_le_eq less_max_iff_disj le_max_iff_disj)
  moreover have "0 \<le> (?c - ?d) / max ?c (1 / 1000)" using range by (simp add: le_max_iff_disj)
  moreover have percent: "0 \<le> y * 100 \<and> y * 100 \<le> 100" if "0 \<le> y" "y \<le> 1" for y :: rat using that by simp
  ultimately have "0 \<le> savings_of ?c ?d \<and> savings_of ?c ?d \<le> 100"
    by (cases "0 < ?c") (simp_all only: savings_of_def if_True if_False percent, simp)
  then have "0 \<le> py_round 1 (savings_of ?c ?d) \<and> py_round 1 (savings_of ?c ?d) \<le> 100"
    using py_round_bounds [of 0 "savings_of ?c ?d" 100 1] by simp
  then show ?thesis using b by (auto simp: step7_summary_def cheapest_def es b_def [symmetric] Let_def)
qed

text \<open>With one GPU per replica the INT8 experiment costs nothing: the halved count is rounded down to zero.\<close>

lemma int8_costs_nothing: "oe_cost_per_million_tokens (default_experiments 1 tput d ! 1) = 0"
  by (cases d) (simp add: default_experiments_def cost_of_def py_round_def round_half_even_def)

text \<open>The size of an attention head is taken for 32 heads, whatever the model has.\<close>

lemma head_size_of_70b:
  "map_option (\<lambda>k. (km_hidden_size k div 32, km_hidden_size k div km_num_heads k)) (known ''Llama-70B'') = Some (256, 128)"
  by code_simp

end
