(* ===== verification/PolicyEvolution.thy ===== *)
theory PolicyEvolution
  imports Values
begin

text \<open>
  The evolution of policies, \<open>PolicyEvolutionEngine\<close> of src/src/gpuopt/policy/evolution.py, on an
  explicit store: genes and chromosomes are objects that several chromosomes, the population and the
  best chromosome share, crossover copies references to genes only, and mutation changes a gene in
  place, for everyone who refers to it. Addresses are positions in the lists of genes and chromosomes.
  Random numbers are arguments: \<open>draws i\<close> are those of the i-th pair bred. The texts of conditions, whose
  numbers are drawn, are drawn as a whole. The file of the engine is not modelled.
\<close>

subsection \<open>Genes, chromosomes and the engine\<close>

record gene =
  ge_name :: string
  ge_action_type :: string
  ge_condition :: string
  ge_threshold :: rat
  ge_weight :: rat
  ge_active :: bool

record chromosome =
  ch_genes :: "nat list"
  ch_fitness :: rat
  ch_generation :: nat

record engine =
  en_population_size :: nat
  en_mutation_rate :: rat
  en_crossover_rate :: rat
  en_genes :: "gene list"
  en_chromosomes :: "chromosome list"
  en_population :: "nat list"
  en_best :: "nat option"
  en_history :: "rat option list"

text \<open>An entry of the history is the best fitness so far, \<open>None\<close> the minus infinity it starts from.\<close>

definition new_engine :: "nat \<Rightarrow> rat \<Rightarrow> rat \<Rightarrow> engine" where
  "new_engine population_size mutation_rate crossover_rate =
     \<lparr>en_population_size = population_size, en_mutation_rate = mutation_rate, en_crossover_rate = crossover_rate, en_genes = [], en_chromosomes = [],
      en_population = [], en_best = None, en_history = []\<rparr>"

definition genes_of :: "engine \<Rightarrow> nat \<Rightarrow> gene list" where
  "genes_of s c = map ((!) (en_genes s)) (ch_genes (en_chromosomes s ! c))"

definition rule_text :: "gene \<Rightarrow> piece list" where
  "rule_text g = (let nl = [CHR 0x0A]; q = [CHR 0x22] in
     [Txt (nl @ ''allow {'' @ nl @ ''    input.action_type == '' @ q @ ge_action_type g @ q @ nl @ ''    '' @ ge_condition g @ nl @ ''    ''),
      Val (JFloat (ge_threshold g)), Txt (nl @ ''    input.risk_score <= ''), Fmt ''.2f'' (JFloat (ge_weight g)), Txt (nl @ ''}'')])"

definition to_rego :: "engine \<Rightarrow> nat \<Rightarrow> piece list" where
  "to_rego s c = (let nl = [CHR 0x0A] in
     Txt (nl @ ''package gpuopt.actions'' @ nl @ nl @ ''default allow = false'' @ nl)
     # foldr (\<lambda>r acc. if acc = [] then r else r @ Txt nl # acc) (map rule_text (filter ge_active (genes_of s c))) [])"

subsection \<open>The first population\<close>

definition action_types :: "string list" where
  "action_types = [''scale_up'', ''scale_down'', ''cordon'', ''drain'', ''restart'']"

record gene_draw =
  gd_condition :: string
  gd_threshold :: rat
  gd_weight :: rat
  gd_active :: bool

definition random_gene :: "nat \<Rightarrow> string \<Rightarrow> gene_draw \<Rightarrow> gene" where
  "random_gene i act d =
     \<lparr>ge_name = ''rule_'' @ act @ ''_'' @ nat_str i, ge_action_type = act, ge_condition = gd_condition d,
      ge_threshold = gd_threshold d, ge_weight = gd_weight d, ge_active = gd_active d\<rparr>"

definition create_random_chromosome :: "(nat \<Rightarrow> gene_draw) \<Rightarrow> engine \<Rightarrow> engine \<times> nat" where
  "create_random_chromosome d s =
     (let gs = map (\<lambda>i. random_gene i (action_types ! i) (d i)) [0..<5]; base = length (en_genes s);
          c = \<lparr>ch_genes = [base..<base + 5], ch_fitness = 0, ch_generation = 0\<rparr> in
      (s\<lparr>en_genes := en_genes s @ gs, en_chromosomes := en_chromosomes s @ [c]\<rparr>, length (en_chromosomes s)))"

fun add_chromosomes :: "(nat \<Rightarrow> nat \<Rightarrow> gene_draw) \<Rightarrow> nat \<Rightarrow> engine \<Rightarrow> engine" where
  "add_chromosomes d 0 s = s"
| "add_chromosomes d (Suc k) s =
     (let (t, c) = create_random_chromosome (d k) s in add_chromosomes d k (t\<lparr>en_population := en_population t @ [c]\<rparr>))"

definition initialize_population :: "(nat \<Rightarrow> nat \<Rightarrow> gene_draw) \<Rightarrow> engine \<Rightarrow> engine" where
  "initialize_population d s = add_chromosomes d (en_population_size s) (s\<lparr>en_population := []\<rparr>)"

subsection \<open>Fitness\<close>

type_synonym metrics = "(string, rat) dict"

definition fitness_value :: "metrics \<Rightarrow> gene list \<Rightarrow> rat" where
  "fitness_value m gs =
     (let efficiency = dict_get_or m ''gpu_utilization'' (1 / 2) * (6 / 10);
          success_score = (1 - dict_get_or m ''failure_rate'' (1 / 10)) * (3 / 10);
          temp_score = max 0 (1 - dict_get_or m ''temperature'' 50 / 100) * (1 / 10);
          complexity_bonus = min 1 (of_nat (length gs) / 10) * (5 / 100);
          active_ratio = of_nat (length (filter ge_active gs)) / of_nat (max (length gs) 1);
          fitness = efficiency + success_score + temp_score + complexity_bonus + active_ratio * (5 / 100) in
      if active_ratio < 2 / 10 then fitness * (1 / 2) else fitness)"

definition evaluate_fitness :: "nat \<Rightarrow> metrics \<Rightarrow> engine \<Rightarrow> engine \<times> rat" where
  "evaluate_fitness c m s =
     (let f = fitness_value m (genes_of s c) in
      (s\<lparr>en_chromosomes := (en_chromosomes s)[c := (en_chromosomes s ! c)\<lparr>ch_fitness := f\<rparr>]\<rparr>, f))"

text \<open>The mean of the last hundred measurements, for the names the first measurement has.\<close>

definition average_metrics :: "metrics list \<Rightarrow> metrics" where
  "average_metrics history =
     (case history of
        [] \<Rightarrow> [(''gpu_utilization'', 6 / 10), (''failure_rate'', 1 / 10), (''temperature'', 50)]
      | m # _ \<Rightarrow> (let recent = slice_last 100 history in
          map (\<lambda>(k, _). (k, sum_list (map (\<lambda>x. dict_get_or x k 0) recent) / of_nat (length recent))) m))"

fun evaluate_all :: "metrics \<Rightarrow> nat list \<Rightarrow> (rat \<times> nat) option \<Rightarrow> engine \<Rightarrow> engine \<times> (rat \<times> nat) option" where
  "evaluate_all m [] best s = (s, best)"
| "evaluate_all m (c # cs) best s =
     (let (t, f) = evaluate_fitness c m s in
      evaluate_all m cs (case best of None \<Rightarrow> Some (f, c) | Some (b, d) \<Rightarrow> if b < f then Some (f, c) else best) t)"

subsection \<open>Breeding\<close>

datatype mutation = Threshold rat | Weight rat | Condition "string \<Rightarrow> string" | Toggle

record pair_draw =
  pd_parent1 :: nat
  pd_parent2 :: nat
  pd_crossover :: rat
  pd_point :: nat
  pd_mutation1 :: "nat \<Rightarrow> rat \<times> mutation"
  pd_mutation2 :: "nat \<Rightarrow> rat \<times> mutation"

definition crossover :: "rat \<Rightarrow> nat \<Rightarrow> nat \<Rightarrow> nat \<Rightarrow> engine \<Rightarrow> engine \<times> nat \<times> nat" where
  "crossover r point p1 p2 s =
     (if en_crossover_rate s < r then (s, p1, p2)
      else (let a = en_chromosomes s ! p1; b = en_chromosomes s ! p2; n = length (en_chromosomes s);
                c1 = \<lparr>ch_genes = take point (ch_genes a) @ drop point (ch_genes b), ch_fitness = 0, ch_generation = ch_generation a + 1\<rparr>;
                c2 = \<lparr>ch_genes = take point (ch_genes b) @ drop point (ch_genes a), ch_fitness = 0, ch_generation = ch_generation b + 1\<rparr> in
            (s\<lparr>en_chromosomes := en_chromosomes s @ [c1, c2]\<rparr>, n, n + 1)))"

fun mutate_gene :: "mutation \<Rightarrow> gene \<Rightarrow> gene" where
  "mutate_gene (Threshold x) g = g\<lparr>ge_threshold := x\<rparr>"
| "mutate_gene (Weight x) g = g\<lparr>ge_weight := x\<rparr>"
| "mutate_gene (Condition f) g = g\<lparr>ge_condition := f (ge_condition g)\<rparr>"
| "mutate_gene Toggle g = g\<lparr>ge_active := \<not> ge_active g\<rparr>"

definition mutate :: "(nat \<Rightarrow> rat \<times> mutation) \<Rightarrow> nat \<Rightarrow> engine \<Rightarrow> engine" where
  "mutate d c s =
     s\<lparr>en_genes := fold (\<lambda>(i, g) gs. if fst (d i) < en_mutation_rate s then gs[g := mutate_gene (snd (d i)) (gs ! g)] else gs)
        (enumerate 0 (ch_genes (en_chromosomes s ! c))) (en_genes s)\<rparr>"

text \<open>Two parents are drawn by their fitness; the draw is the position in the population.\<close>

definition breed_pair :: "pair_draw \<Rightarrow> engine \<Rightarrow> engine \<times> nat \<times> nat" where
  "breed_pair d s =
     (let (t, c1, c2) = crossover (pd_crossover d) (pd_point d) (en_population s ! pd_parent1 d) (en_population s ! pd_parent2 d) s
      in (mutate (pd_mutation2 d) c2 (mutate (pd_mutation1 d) c1 t), c1, c2))"

lemma crossover_size: "crossover r p p1 p2 s = (t, c) \<Longrightarrow> en_population_size t = en_population_size s"
  by (auto simp: crossover_def Let_def split: if_splits)

lemma mutate_size [simp]: "en_population_size (mutate d c s) = en_population_size s"
  by (simp add: mutate_def)

lemma breed_pair_size: "breed_pair d s = (t, c) \<Longrightarrow> en_population_size t = en_population_size s"
  by (auto simp: breed_pair_def split: prod.splits dest: crossover_size)

function breed :: "(nat \<Rightarrow> pair_draw) \<Rightarrow> nat \<Rightarrow> nat list \<Rightarrow> engine \<Rightarrow> nat list \<times> engine" where
  "breed draws i new s =
     (if length new < en_population_size s
      then (let (t, c1, c2) = breed_pair (draws i) s in breed draws (i + 1) (new @ [c1, c2]) t)
      else (new, s))"
  by pat_completeness auto
termination by (relation "measure (\<lambda>(d, i, new, s). en_population_size s - length new)")
    (auto dest: breed_pair_size [OF sym])

declare breed.simps [simp del]

definition next_generation :: "(nat \<Rightarrow> pair_draw) \<Rightarrow> engine \<Rightarrow> engine" where
  "next_generation draws s =
     (let elite = take 2 (sorted_by_desc (\<lambda>c. ch_fitness (en_chromosomes s ! c)) (en_population s));
          (new, t) = breed draws 0 elite s in
      t\<lparr>en_population := take (en_population_size s) new\<rparr>)"

fun generations :: "metrics list \<Rightarrow> (nat \<Rightarrow> pair_draw) list \<Rightarrow> (rat \<times> nat) option \<Rightarrow> engine \<Rightarrow> engine \<times> (rat \<times> nat) option" where
  "generations history [] best s = (s, best)"
| "generations history (d # ds) best s =
     (let (t, best') = evaluate_all (average_metrics history) (en_population s) best s;
          u = next_generation d t in
      generations history ds best' (u\<lparr>en_history := en_history u @ [map_option fst best']\<rparr>))"

definition evolve :: "(nat \<Rightarrow> nat \<Rightarrow> gene_draw) \<Rightarrow> metrics list \<Rightarrow> (nat \<Rightarrow> pair_draw) list \<Rightarrow> engine \<Rightarrow> engine" where
  "evolve init history ds s =
     (let s0 = (if en_population s = [] then initialize_population init s else s); (t, best) = generations history ds None s0 in
      (case best of None \<Rightarrow> t | Some (_, c) \<Rightarrow> t\<lparr>en_best := Some c\<rparr>))"

definition get_best_policy :: "engine \<Rightarrow> piece list" where
  "get_best_policy s = (case en_best s of None \<Rightarrow> [] | Some c \<Rightarrow> to_rego s c)"

text \<open>An engine of population size 0 evolves nothing: each generation appends minus infinity.\<close>

lemma generations_empty:
  "en_population s = [] \<Longrightarrow> en_population_size s = 0 \<Longrightarrow> generations history ds None s = (t, b)
    \<Longrightarrow> b = None \<and> en_history t = en_history s @ replicate (length ds) None"
proof (induction ds arbitrary: s)
  case (Cons d ds)
  have "next_generation d s = s"
    using Cons.prems(1,2) by (simp add: next_generation_def sorted_by_desc_def breed.simps)
  then show ?case using Cons.IH [of "s\<lparr>en_history := en_history s @ [None]\<rparr>"] Cons.prems by (simp add: Let_def)
qed simp

subsection \<open>What fitness measures\<close>

text \<open>
  The fitness of a policy does not depend on what it says: two policies with the same number of
  genes, as many of them active, have the same fitness on every measurement, whatever their conditions,
  thresholds and weights.
\<close>

theorem fitness_blind:
  assumes "length gs = length hs" and "length (filter ge_active gs) = length (filter ge_active hs)"
  shows "fitness_value m gs = fitness_value m hs"
  using assms by (simp add: fitness_value_def Let_def)

subsection \<open>The store stays well-formed\<close>

definition chromosome_ok :: "engine \<Rightarrow> chromosome \<Rightarrow> bool" where
  "chromosome_ok s ch \<longleftrightarrow> length (ch_genes ch) = 5 \<and> list_all (\<lambda>g. g < length (en_genes s)) (ch_genes ch)"

definition valid :: "engine \<Rightarrow> nat \<Rightarrow> bool" where
  "valid s c \<longleftrightarrow> c < length (en_chromosomes s)"

definition store_ok :: "engine \<Rightarrow> bool" where
  "store_ok s \<longleftrightarrow> list_all (chromosome_ok s) (en_chromosomes s) \<and> list_all (valid s) (en_population s)"

text \<open>An operation that only adds to the store, or changes objects in place.\<close>

definition extends :: "engine \<Rightarrow> engine \<Rightarrow> bool" where
  "extends s t \<longleftrightarrow> en_population_size t = en_population_size s \<and> en_population t = en_population s \<and> en_best t = en_best s
     \<and> en_history t = en_history s \<and> length (en_chromosomes s) \<le> length (en_chromosomes t)
     \<and> length (en_genes t) = length (en_genes s)"

lemma extends_trans: "extends s t \<Longrightarrow> extends t u \<Longrightarrow> extends s u"
  by (simp add: extends_def)

lemma valid_extends: "extends s t \<Longrightarrow> valid s c \<Longrightarrow> valid t c"
  by (simp add: extends_def valid_def)

lemma fold_length: "(\<And>x ys. length (f x ys) = length ys) \<Longrightarrow> length (fold f xs ys) = length ys"
  by (induction xs arbitrary: ys) auto

lemma mutate_ok: "store_ok s \<Longrightarrow> store_ok (mutate d c s) \<and> extends s (mutate d c s)"
proof -
  assume s: "store_ok s"
  have len: "length (en_genes (mutate d c s)) = length (en_genes s)"
    unfolding mutate_def by (simp, rule fold_length) (simp split: prod.splits)
  moreover have "en_chromosomes (mutate d c s) = en_chromosomes s" "en_population (mutate d c s) = en_population s"
    by (simp_all add: mutate_def)
  ultimately show ?thesis using s
    by (auto simp: store_ok_def chromosome_ok_def [abs_def] valid_def [abs_def] extends_def) (simp_all add: mutate_def)
qed

lemma splice_ok:
  "chromosome_ok s a \<Longrightarrow> chromosome_ok s b \<Longrightarrow> ch_genes ch = take k (ch_genes a) @ drop k (ch_genes b) \<Longrightarrow> chromosome_ok s ch"
  by (auto simp: chromosome_ok_def list_all_length nth_append)

lemma crossover_ok:
  assumes "store_ok s" and "valid s p1" and "valid s p2" and "crossover r k p1 p2 s = (t, c1, c2)"
  shows "store_ok t \<and> extends s t \<and> valid t c1 \<and> valid t c2"
proof -
  have "chromosome_ok s (en_chromosomes s ! p1)" "chromosome_ok s (en_chromosomes s ! p2)"
    using assms(1-3) by (auto simp: store_ok_def valid_def list_all_length)
  note ok = splice_ok [OF this] splice_ok [OF this(2,1)]
  have same: "chromosome_ok u = chromosome_ok s" if "en_genes u = en_genes s" for u
    using that by (simp add: fun_eq_iff chromosome_ok_def)
  show ?thesis
  proof (cases "en_crossover_rate s < r")
    case True
    then show ?thesis using assms by (auto simp: crossover_def extends_def)
  next
    case False
    let ?a = "en_chromosomes s ! p1" and ?b = "en_chromosomes s ! p2"
    obtain x y where t: "t = s\<lparr>en_chromosomes := en_chromosomes s @ [x, y]\<rparr>" "c1 = length (en_chromosomes s)" "c2 = c1 + 1"
      and x: "ch_genes x = take k (ch_genes ?a) @ drop k (ch_genes ?b)" and y: "ch_genes y = take k (ch_genes ?b) @ drop k (ch_genes ?a)"
      using assms(4) False by (simp add: crossover_def Let_def) (metis chromosome.select_convs(1))
    have "chromosome_ok s x" "chromosome_ok s y" by (rule ok(1) [OF x], rule ok(2) [OF y])
    moreover have "list_all (valid t) (en_population s)"
      using assms(1) by (auto simp: t(1) store_ok_def valid_def list_all_iff)
    ultimately show ?thesis using assms(1) same [of t] by (simp add: t store_ok_def extends_def valid_def)
  qed
qed

lemma breed_pair_ok:
  assumes "store_ok s" and "pd_parent1 d < length (en_population s)" and "pd_parent2 d < length (en_population s)"
    and "breed_pair d s = (t, c1, c2)"
  shows "store_ok t \<and> extends s t \<and> valid t c1 \<and> valid t c2"
proof -
  have parents: "valid s (en_population s ! pd_parent1 d)" "valid s (en_population s ! pd_parent2 d)"
    using assms(1-3) by (auto simp: store_ok_def list_all_length)
  obtain u where u: "crossover (pd_crossover d) (pd_point d) (en_population s ! pd_parent1 d) (en_population s ! pd_parent2 d) s = (u, c1, c2)"
    and t: "t = mutate (pd_mutation2 d) c2 (mutate (pd_mutation1 d) c1 u)"
    using assms(4) by (auto simp: breed_pair_def split: prod.splits)
  have 1: "store_ok u" "extends s u" "valid u c1" "valid u c2" using crossover_ok [OF assms(1) parents u] by simp_all
  have 2: "store_ok (mutate (pd_mutation1 d) c1 u)" "extends u (mutate (pd_mutation1 d) c1 u)" using mutate_ok [OF 1(1)] by simp_all
  have 3: "store_ok t" "extends (mutate (pd_mutation1 d) c1 u) t" using mutate_ok [OF 2(1)] by (simp_all add: t)
  show ?thesis using 1 2 3 extends_trans valid_extends by metis
qed

lemma breed_ok:
  assumes "store_ok s" and "\<And>i. pd_parent1 (draws i) < length (en_population s) \<and> pd_parent2 (draws i) < length (en_population s)"
    and "list_all (valid s) new" and "breed draws i new s = (new', t)"
  shows "store_ok t \<and> extends s t \<and> list_all (valid t) new' \<and> en_population_size s \<le> length new'"
  using assms
proof (induction draws i new s arbitrary: new' t rule: breed.induct)
  case (1 draws i new s)
  show ?case
  proof (cases "length new < en_population_size s")
    case True
    obtain u c1 c2 where u: "breed_pair (draws i) s = (u, c1, c2)" by (metis prod.exhaust)
    have step: "store_ok u" "extends s u" "valid u c1" "valid u c2" using breed_pair_ok [OF "1.prems"(1) _ _ u] "1.prems"(2) by auto
    have rest: "breed draws (i + 1) (new @ [c1, c2]) u = (new', t)" using "1.prems"(4) True by (subst (asm) breed.simps) (simp add: u)
    have "list_all (valid u) (new @ [c1, c2])" using "1.prems"(3) step by (auto simp: list_all_iff intro: valid_extends)
    moreover have "en_population u = en_population s" using step(2) by (simp add: extends_def)
    ultimately have "store_ok t \<and> extends u t \<and> list_all (valid t) new' \<and> en_population_size u \<le> length new'"
      using "1.IH" [OF True u [symmetric] refl refl step(1) _ _ rest] "1.prems"(2) by simp
    then show ?thesis using step(2) extends_trans by (auto simp: extends_def)
  next
    case False
    then have "new' = new" "t = s" using "1.prems"(4) by (simp_all add: breed.simps)
    then show ?thesis using False "1.prems"(1,3) by (simp add: extends_def)
  qed
qed

lemma evaluate_fitness_ok:
  assumes "store_ok s" and "valid s c" and "evaluate_fitness c m s = (t, f)"
  shows "store_ok t \<and> extends s t"
proof -
  have t: "t = s\<lparr>en_chromosomes := (en_chromosomes s)[c := (en_chromosomes s ! c)\<lparr>ch_fitness := f\<rparr>]\<rparr>"
    using assms(3) by (auto simp: evaluate_fitness_def Let_def)
  have "chromosome_ok s (en_chromosomes s ! c)" using assms(1,2) by (simp add: store_ok_def valid_def list_all_length)
  then show ?thesis using assms(1,2)
    by (auto simp: t store_ok_def extends_def valid_def chromosome_ok_def list_all_length nth_list_update)
qed

definition best_ok :: "engine \<Rightarrow> (rat \<times> nat) option \<Rightarrow> bool" where
  "best_ok s b \<longleftrightarrow> (case b of None \<Rightarrow> True | Some (_, c) \<Rightarrow> valid s c)"

definition not_worse :: "(rat \<times> nat) option \<Rightarrow> (rat \<times> nat) option \<Rightarrow> bool" where
  "not_worse b b' \<longleftrightarrow> (case b of None \<Rightarrow> True | Some (x, _) \<Rightarrow> (case b' of None \<Rightarrow> False | Some (y, _) \<Rightarrow> x \<le> y))"

lemma not_worse_refl [simp]: "not_worse b b"
  by (simp add: not_worse_def split: option.split prod.split)

lemma not_worse_trans: "not_worse a b \<Longrightarrow> not_worse b c \<Longrightarrow> not_worse a c"
  by (auto simp: not_worse_def split: option.splits prod.splits)

lemma best_ok_extends: "extends s t \<Longrightarrow> best_ok s b \<Longrightarrow> best_ok t b"
  by (auto simp: best_ok_def split: option.splits intro: valid_extends)

lemma evaluate_all_ok:
  assumes "store_ok s" and "list_all (valid s) cs" and "best_ok s b" and "evaluate_all m cs b s = (t, b')"
  shows "store_ok t \<and> extends s t \<and> best_ok t b' \<and> not_worse b b' \<and> (cs \<noteq> [] \<longrightarrow> b' \<noteq> None)"
  using assms
proof (induction m cs b s rule: evaluate_all.induct)
  case (1 m b s)
  then show ?case by (auto simp: extends_def)
next
  case (2 m c cs b s)
  obtain u f where u: "evaluate_fitness c m s = (u, f)" by (metis prod.exhaust)
  define b1 where "b1 = (case b of None \<Rightarrow> Some (f, c) | Some (x, d) \<Rightarrow> if x < f then Some (f, c) else b)"
  have step: "store_ok u" "extends s u" using evaluate_fitness_ok [OF "2.prems"(1) _ u] "2.prems"(2) by simp_all
  have b1: "best_ok u b1" "not_worse b b1" "b1 \<noteq> None"
    using "2.prems"(2,3) best_ok_extends [OF step(2) "2.prems"(3)] valid_extends [OF step(2)]
    by (auto simp: b1_def best_ok_def not_worse_def split: option.splits)
  have valid: "list_all (valid u) cs" using "2.prems"(2) valid_extends [OF step(2)] by (simp add: list_all_iff)
  have rest: "evaluate_all m cs b1 u = (t, b')" using "2.prems"(4) by (simp add: u b1_def)
  have "store_ok t \<and> extends u t \<and> best_ok t b' \<and> not_worse b1 b' \<and> (cs \<noteq> [] \<longrightarrow> b' \<noteq> None)"
    using "2.IH" [OF u [symmetric] refl step(1) valid] b1(1) rest by (simp add: b1_def)
  then show ?case using step(2) b1(2,3) extends_trans not_worse_trans by (auto simp: not_worse_def split: option.splits)
qed

definition engine_ok :: "nat \<Rightarrow> engine \<Rightarrow> bool" where
  "engine_ok n s \<longleftrightarrow> store_ok s \<and> en_population_size s = n \<and> length (en_population s) = n
     \<and> (case en_best s of None \<Rightarrow> True | Some c \<Rightarrow> valid s c)"

definition fair_draws :: "nat \<Rightarrow> (nat \<Rightarrow> pair_draw) \<Rightarrow> bool" where
  "fair_draws n d \<longleftrightarrow> (\<forall>i. pd_parent1 (d i) < n \<and> pd_parent2 (d i) < n)"

lemma next_generation_ok:
  assumes "engine_ok n s" and "fair_draws n d"
  shows "engine_ok n (next_generation d s) \<and> en_history (next_generation d s) = en_history s
    \<and> length (en_chromosomes s) \<le> length (en_chromosomes (next_generation d s))"
proof -
  define elite where "elite = take 2 (sorted_by_desc (\<lambda>c. ch_fitness (en_chromosomes s ! c)) (en_population s))"
  have s: "store_ok s" "en_population_size s = n" "length (en_population s) = n" using assms(1) by (simp_all add: engine_ok_def)
  have elite: "list_all (valid s) elite"
    using s(1) by (auto simp: elite_def store_ok_def list_all_iff dest!: in_set_takeD)
  obtain new t where new: "breed d 0 elite s = (new, t)" by (metis prod.exhaust)
  have t: "store_ok t" "extends s t" "list_all (valid t) new" "n \<le> length new"
    using breed_ok [OF s(1) _ elite new] assms(2) s(2,3) by (simp_all add: fair_draws_def)
  have u: "next_generation d s = t\<lparr>en_population := take n new\<rparr>"
    by (simp add: next_generation_def elite_def [symmetric] new s(2))
  have same: "chromosome_ok (t\<lparr>en_population := p\<rparr>) = chromosome_ok t" "valid (t\<lparr>en_population := p\<rparr>) = valid t" for p
    by (simp_all add: fun_eq_iff chromosome_ok_def valid_def)
  have "list_all (valid t) (take n new)" using t(3) by (auto simp: list_all_iff dest: in_set_takeD)
  moreover have "case en_best t of None \<Rightarrow> True | Some c \<Rightarrow> valid t c"
    using assms(1) t(2) valid_extends by (auto simp: engine_ok_def extends_def valid_def split: option.splits)
  ultimately show ?thesis using t s by (simp add: u engine_ok_def store_ok_def same extends_def split: option.splits)
qed

lemma generations_ok:
  assumes "engine_ok n s" and "0 < n" and "list_all (fair_draws n) ds" and "best_ok s b" and "generations history ds b s = (t, b')"
  shows "engine_ok n t \<and> best_ok t b' \<and> (ds \<noteq> [] \<longrightarrow> b' \<noteq> None)
    \<and> (\<exists>fs. en_history t = en_history s @ map Some fs \<and> length fs = length ds \<and> sorted fs
         \<and> list_all (\<lambda>f. case b of None \<Rightarrow> True | Some (x, _) \<Rightarrow> x \<le> f) fs)"
  using assms
proof (induction history ds b s rule: generations.induct)
  case (1 history b s)
  then show ?case by auto
next
  case (2 history d ds b s)
  obtain u b1 where u: "evaluate_all (average_metrics history) (en_population s) b s = (u, b1)" by (metis prod.exhaust)
  have s: "store_ok s" "list_all (valid s) (en_population s)" "en_population s \<noteq> []"
    using "2.prems"(1,2) by (auto simp: engine_ok_def store_ok_def)
  have eval: "store_ok u" "extends s u" "best_ok u b1" "not_worse b b1" "b1 \<noteq> None"
    using evaluate_all_ok [OF s(1,2) "2.prems"(4) u] s(3) by simp_all
  then obtain f c where b1: "b1 = Some (f, c)" by (cases b1) auto
  have "engine_ok n u" using "2.prems"(1) eval(1,2) valid_extends [OF eval(2)]
    by (auto simp: engine_ok_def extends_def split: option.splits)
  define v where "v = (next_generation d u)\<lparr>en_history := en_history (next_generation d u) @ [Some f]\<rparr>"
  have gen: "engine_ok n (next_generation d u)" "en_history (next_generation d u) = en_history s"
    "length (en_chromosomes u) \<le> length (en_chromosomes v)"
    using next_generation_ok [OF \<open>engine_ok n u\<close>, of d] "2.prems"(3) eval(2) by (simp_all add: v_def extends_def)
  have v: "engine_ok n v"
    using gen(1) by (auto simp: v_def engine_ok_def store_ok_def chromosome_ok_def [abs_def] valid_def [abs_def] split: option.splits)
  have "best_ok v b1" using eval(3) gen(3) by (simp add: best_ok_def b1 valid_def)
  moreover have rest: "generations history ds b1 v = (t, b')" using "2.prems"(5) by (simp add: u b1 v_def Let_def)
  ultimately have ih: "engine_ok n t \<and> best_ok t b' \<and> (ds \<noteq> [] \<longrightarrow> b' \<noteq> None)
      \<and> (\<exists>fs. en_history t = en_history v @ map Some fs \<and> length fs = length ds \<and> sorted fs \<and> list_all (\<lambda>x. f \<le> x) fs)"
    using "2.IH" [OF u [symmetric] refl refl] v "2.prems"(2,3) by (simp add: b1 v_def Let_def)
  then obtain fs where fs: "en_history t = en_history v @ map Some fs" "length fs = length ds" "sorted fs" "list_all (\<lambda>x. f \<le> x) fs" by auto
  have "b' \<noteq> None" using ih rest b1 by (cases ds) auto
  moreover have "en_history t = en_history s @ map Some (f # fs)" using fs(1) gen(2) by (simp add: v_def)
  moreover have "list_all (\<lambda>x. case b of None \<Rightarrow> True | Some (y, _) \<Rightarrow> y \<le> x) (f # fs)"
    using eval(4) fs(4) by (auto simp: b1 not_worse_def list_all_iff split: option.splits)
  moreover have "sorted (f # fs)" using fs(3,4) by (simp add: list_all_iff)
  ultimately show ?case using ih fs(2) by (metis length_Cons)
qed

lemma add_chromosomes_ok:
  assumes "store_ok s" and "add_chromosomes d k s = t"
  shows "store_ok t \<and> en_population_size t = en_population_size s \<and> length (en_population t) = length (en_population s) + k
    \<and> en_best t = en_best s \<and> en_history t = en_history s \<and> length (en_chromosomes s) \<le> length (en_chromosomes t)"
  using assms
proof (induction d k s arbitrary: t rule: add_chromosomes.induct)
  case (2 d k s)
  obtain u c where u: "create_random_chromosome (d k) s = (u, c)" by (metis prod.exhaust)
  let ?v = "u\<lparr>en_population := en_population u @ [c]\<rparr>"
  have v: "store_ok ?v" "en_population_size ?v = en_population_size s" "length (en_population ?v) = length (en_population s) + 1"
    "en_best ?v = en_best s" "en_history ?v = en_history s" "length (en_chromosomes s) \<le> length (en_chromosomes ?v)"
    using u "2.prems"(1) by (auto simp: create_random_chromosome_def Let_def store_ok_def chromosome_ok_def valid_def list_all_iff)
      fastforce+
  have "store_ok t \<and> en_population_size t = en_population_size ?v \<and> length (en_population t) = length (en_population ?v) + k
    \<and> en_best t = en_best ?v \<and> en_history t = en_history ?v \<and> length (en_chromosomes ?v) \<le> length (en_chromosomes t)"
    using "2.IH" [OF u [symmetric] refl v(1)] "2.prems"(2) by (simp add: u)
  then show ?case using v by simp
qed simp

lemma evolve_ok:
  assumes "engine_ok n s \<or> s = new_engine n mr cr" and "0 < n" and "list_all (fair_draws n) ds"
  shows "engine_ok n (evolve init history ds s)
    \<and> (\<exists>fs. en_history (evolve init history ds s) = en_history s @ map Some fs \<and> length fs = length ds \<and> sorted fs)"
proof -
  define s0 where "s0 = (if en_population s = [] then initialize_population init s else s)"
  have s0: "engine_ok n s0" "en_history s0 = en_history s"
  proof -
    have "engine_ok n (initialize_population init (new_engine n mr cr))" "en_history (initialize_population init (new_engine n mr cr)) = []"
      using add_chromosomes_ok [of "new_engine n mr cr" init n]
      by (simp_all add: initialize_population_def new_engine_def engine_ok_def store_ok_def)
    then show "engine_ok n s0" "en_history s0 = en_history s"
      using assms(1,2) by (auto simp: s0_def engine_ok_def new_engine_def split: option.splits)
  qed
  obtain t b where t: "generations history ds None s0 = (t, b)" by (metis prod.exhaust)
  have gen: "engine_ok n t" "best_ok t b" "\<exists>fs. en_history t = en_history s0 @ map Some fs \<and> length fs = length ds \<and> sorted fs"
    using generations_ok [OF s0(1) assms(2,3) _ t] by (auto simp: best_ok_def)
  have e: "evolve init history ds s = (case b of None \<Rightarrow> t | Some (_, c) \<Rightarrow> t\<lparr>en_best := Some c\<rparr>)"
    by (simp add: evolve_def s0_def [symmetric] t)
  have "engine_ok n (t\<lparr>en_best := Some c\<rparr>)" if "valid t c" for c
    using gen(1) that by (auto simp: engine_ok_def store_ok_def chromosome_ok_def [abs_def] valid_def [abs_def])
  then show ?thesis using gen s0(2) by (auto simp: e best_ok_def split: option.splits)
qed

definition evolve_call :: "(nat \<Rightarrow> nat \<Rightarrow> gene_draw) \<times> metrics list \<times> (nat \<Rightarrow> pair_draw) list \<Rightarrow> engine \<Rightarrow> engine" where
  "evolve_call = (\<lambda>(init, history, ds). evolve init history ds)"

lemma evolve_calls_ok:
  "0 < n \<Longrightarrow> list_all (\<lambda>(_, _, ds). list_all (fair_draws n) ds) calls \<Longrightarrow> engine_ok n s \<or> s = new_engine n mr cr
    \<Longrightarrow> engine_ok n (fold evolve_call calls s) \<or> fold evolve_call calls s = new_engine n mr cr"
proof (induction calls arbitrary: s)
  case (Cons c calls)
  then have "engine_ok n (evolve_call c s)" using evolve_ok [of n s] by (auto simp: evolve_call_def split: prod.splits)
  then show ?case using Cons by simp
qed simp

text \<open>
  C39: evolution keeps its store well-formed: after any calls, each drawing parents from the population,
  the population has its size, each of its chromosomes five genes of the store, and the call appends one
  fitness for each generation to the history, none lower than the one before.
\<close>

theorem evolution_sound:
  assumes "0 < n" and "list_all (\<lambda>(_, _, ds). list_all (fair_draws n) ds) calls" and "list_all (fair_draws n) ds"
    and "s = fold evolve_call calls (new_engine n mr cr)" and "t = evolve init history ds s"
  shows "length (en_population t) = n
    \<and> (\<forall>c \<in> set (en_population t). c < length (en_chromosomes t) \<and> length (ch_genes (en_chromosomes t ! c)) = 5
         \<and> (\<forall>g \<in> set (ch_genes (en_chromosomes t ! c)). g < length (en_genes t)))
    \<and> (\<exists>fs. en_history t = en_history s @ map Some fs \<and> length fs = length ds \<and> sorted fs)"
proof -
  have "engine_ok n s \<or> s = new_engine n mr cr" unfolding assms(4) by (rule evolve_calls_ok [OF assms(1,2)]) simp
  note ok = evolve_ok [OF this assms(1,3), of init history, folded assms(5)]
  then show ?thesis by (auto simp: engine_ok_def store_ok_def valid_def chromosome_ok_def list_all_iff list_all_length)
qed

subsection \<open>The best policy is not kept\<close>

definition plain_draw :: "nat \<Rightarrow> nat \<Rightarrow> gene_draw" where
  "plain_draw = (\<lambda>_ _. \<lparr>gd_condition = ''temperature <= 70'', gd_threshold = 1 / 2, gd_weight = 1, gd_active = True\<rparr>)"

text \<open>Without a crossover both children are the first of the population; the first mutation switches its genes off.\<close>

definition switch_off :: "nat \<Rightarrow> pair_draw" where
  "switch_off = (\<lambda>_. \<lparr>pd_parent1 = 0, pd_parent2 = 1, pd_crossover = 1, pd_point = 1, pd_mutation1 = (\<lambda>_. (0, Toggle)),
     pd_mutation2 = (\<lambda>_. (1, Toggle))\<rparr>)"

lemma best_not_kept:
  "let t = evolve plain_draw [] [switch_off] (new_engine 3 (15 / 100) (7 / 10)) in
     (case en_best t of None \<Rightarrow> False
      | Some c \<Rightarrow> (case last (en_history t) of None \<Rightarrow> False
          | Some f \<Rightarrow> ch_fitness (en_chromosomes t ! c) = f \<and> fitness_value (average_metrics []) (genes_of t c) < f
              \<and> filter ge_active (genes_of t c) = []))"
  by code_simp

lemma fair_switch_off: "fair_draws 3 switch_off"
  by (simp add: fair_draws_def switch_off_def)

lemma evolution_sound_witness:
  "length (en_population (evolve plain_draw [] [switch_off] (new_engine 3 (15 / 100) (7 / 10)))) = 3"
  using evolution_sound [of 3 "[]" "[switch_off]" "new_engine 3 (15 / 100) (7 / 10)" "15 / 100" "7 / 10" _ plain_draw "[]"] by (simp add: fair_switch_off)

lemma fitness_blind_witness:
  "fitness_value [] [random_gene 0 ''drain'' \<lparr>gd_condition = ''temperature <= 60'', gd_threshold = 1 / 3, gd_weight = 1 / 2, gd_active = True\<rparr>]
   = fitness_value [] [random_gene 0 ''restart'' \<lparr>gd_condition = ''temperature <= 85'', gd_threshold = 9 / 10, gd_weight = 1, gd_active = True\<rparr>]"
  by (rule fitness_blind) (simp_all add: random_gene_def)

end
