(* ===== verification/RiskGates.thy ===== *)
theory RiskGates
  imports Workflow
begin

text \<open>
  The risk gates, src/src/gpuopt/risk_gates.py with the models of risk_gates_schemas.py: eight gates that
  judge measurements, and the dashboard that decides whether a deployment is allowed. Figures that a
  gate draws when a measurement is missing are its first arguments.
\<close>

subsection \<open>Results\<close>

datatype gate_result = GATE_PASS | GATE_WARN | GATE_FAIL

datatype gate_action = GATE_ACCEPT | GATE_MITIGATE | GATE_REJECT

text \<open>What every gate reports, beside the figures of its own.\<close>

record verdict =
  vd_risk :: string
  vd_control :: string
  vd_result :: gate_result
  vd_action :: gate_action
  vd_details :: "piece list list"

definition verdict_of :: "string \<Rightarrow> string \<Rightarrow> gate_result \<times> gate_action \<Rightarrow> piece list list \<Rightarrow> verdict" where
  "verdict_of risk control = (\<lambda>(r, a) ds. \<lparr>vd_risk = risk, vd_control = control, vd_result = r, vd_action = a, vd_details = ds\<rparr>)"

definition yes_no :: "string \<Rightarrow> bool \<Rightarrow> piece list" where
  "yes_no label b = [Txt (label @ bool_text b)]"

subsection \<open>Memory\<close>

record memory_input =
  mg_model_name :: string
  mg_dtype :: string
  mg_max_seq_len :: int
  mg_batch_size :: int
  mg_gpu_memory_gib :: rat
  mg_measured_peak :: rat
  mg_measured_oom :: bool

definition default_memory :: memory_input where
  "default_memory = \<lparr>mg_model_name = ''llama-8b'', mg_dtype = ''fp16'', mg_max_seq_len = 8192, mg_batch_size = 4, mg_gpu_memory_gib = 80,
     mg_measured_peak = 0, mg_measured_oom = False\<rparr>"

definition gate_model :: "string \<Rightarrow> rat \<times> int \<times> int \<times> int" where
  "gate_model name = dict_get_or
     [(''llama-8b'', (8 * 10 ^ 9, 32, 8, 4096)), (''llama-70b'', (70 * 10 ^ 9, 80, 8, 8192)), (''llama-405b'', (405 * 10 ^ 9, 126, 8, 16384))]
     name (8 * 10 ^ 9, 32, 8, 4096)"

record memory_estimate =
  em_weight_gb :: rat
  em_kv_cache_gb :: rat
  em_activation_gb :: rat
  em_total_gb :: rat

definition estimate_memory :: "memory_input \<Rightarrow> memory_estimate" where
  "estimate_memory x =
     (let (params, layers, kv_heads, hidden) = gate_model (mg_model_name x); b = dict_get_or dtype_bytes (mg_dtype x) 2;
          weight = params * b / 1024 ^ 3; head_dim = hidden div 32;
          kv = of_int (2 * layers * kv_heads * head_dim) * b * of_int (mg_max_seq_len x) * of_int (mg_batch_size x) / 1024 ^ 3;
          activation = weight * (5 / 100) * of_int (mg_batch_size x) in
      \<lparr>em_weight_gb = weight, em_kv_cache_gb = kv, em_activation_gb = activation, em_total_gb = (weight + kv + activation) * (115 / 100)\<rparr>)"

record memory_result =
  gm_verdict :: verdict
  gm_estimated :: rat
  gm_measured :: rat
  gm_headroom_pct :: rat
  gm_headroom_sufficient :: bool
  gm_oom_occurred :: bool

definition memory_gate :: "rat \<Rightarrow> memory_input \<Rightarrow> memory_result" where
  "memory_gate draw x =
     (let est = em_total_gb (estimate_memory x); gpu = mg_gpu_memory_gib x;
          measured = (if mg_measured_peak x \<noteq> 0 then mg_measured_peak x else est * draw);
          headroom = (gpu - max measured est) / max gpu 1 * 100; ok = (10 \<le> headroom);
          base = [[Txt ''Estimated total: '', Fmt ''.1f'' (JFloat est), Txt '' GiB''], [Txt ''Measured peak: '', Fmt ''.1f'' (JFloat measured), Txt '' GiB''],
            [Txt ''GPU memory: '', Fmt ''.0f'' (JFloat gpu), Txt '' GiB''], [Txt ''Headroom: '', Fmt ''.1f'' (JFloat headroom), Txt ''% (threshold: 10%)'']];
          (out, note) = (if mg_measured_oom x then ((GATE_FAIL, GATE_REJECT), ''OOM occurred during benchmark'')
            else if \<not> ok then ((GATE_FAIL, GATE_MITIGATE), ''Headroom below 10% threshold'')
            else ((GATE_PASS, GATE_ACCEPT), ''Memory estimate validated with sufficient headroom'')) in
      \<lparr>gm_verdict = verdict_of ''Memory estimate differs from runtime''
         ''Benchmark longest context; retain 10-15% memory headroom; zero OOM'' out (base @ [[Txt note]]),
       gm_estimated = py_round 2 est, gm_measured = py_round 2 measured, gm_headroom_pct = py_round 1 headroom,
       gm_headroom_sufficient = ok, gm_oom_occurred = mg_measured_oom x\<rparr>)"

subsection \<open>Mock data\<close>

record mock_input =
  mk_data_source :: string
  mk_is_mock_data :: bool
  mk_has_dcgm_metrics :: bool
  mk_has_real_endpoint :: bool

definition default_mock :: mock_input where
  "default_mock = \<lparr>mk_data_source = [], mk_is_mock_data = True, mk_has_dcgm_metrics = False, mk_has_real_endpoint = False\<rparr>"

record mock_result =
  gk_verdict :: verdict
  gk_data_source :: string
  gk_labels_present :: bool

definition mock_gate :: "mock_input \<Rightarrow> mock_result" where
  "mock_gate x =
     (let labels = (starts_with ''mock'' (mk_data_source x) \<or> str_contains ''(mock)'' (str_lower (mk_data_source x)) \<or> mk_is_mock_data x);
          (out, note, present) =
            (if \<not> mk_is_mock_data x then ((GATE_PASS, GATE_ACCEPT), ''Data source is production'', True)
             else if mk_has_real_endpoint x \<and> mk_has_dcgm_metrics x
             then ((GATE_PASS, GATE_ACCEPT), ''Mock data labeled and validated against real endpoint + DCGM'', labels)
             else if mk_has_real_endpoint x
             then ((GATE_WARN, GATE_MITIGATE), ''Mock data labeled but DCGM metrics missing for production sizing'', labels)
             else ((GATE_FAIL, GATE_REJECT), ''Production sizing requires real endpoint benchmark and DCGM metrics'', labels)) in
      \<lparr>gk_verdict = verdict_of ''Mock results mistaken for real performance''
         ''Label all synthetic data; production sizing requires real endpoint and DCGM''
         (if present then out else (GATE_FAIL, GATE_REJECT)) ([[Txt note]] @ (if present then [] else [[Txt ''Synthetic data not labeled as mock'']])),
       gk_data_source = (if mk_data_source x \<noteq> [] then mk_data_source x else if mk_is_mock_data x then ''mock'' else ''production''),
       gk_labels_present = present\<rparr>)"

subsection \<open>Communication of tensor parallelism\<close>

record tp_input =
  tg_tp_size :: int
  tg_cross_node_tp :: bool
  tg_interconnect_bandwidth :: rat
  tg_all_reduce_time_us :: rat
  tg_compute_time_us :: rat

definition default_tp :: tp_input where
  "default_tp = \<lparr>tg_tp_size = 4, tg_cross_node_tp = False, tg_interconnect_bandwidth = 600, tg_all_reduce_time_us = 0, tg_compute_time_us = 0\<rparr>"

record tp_result =
  gt_verdict :: verdict
  gt_communication_ratio :: rat
  gt_is_communication_bound :: bool
  gt_recommended_tp_size :: int
  gt_avoid_cross_node :: bool

definition tp_gate :: "rat \<times> rat \<Rightarrow> tp_input \<Rightarrow> tp_result" where
  "tp_gate = (\<lambda>(d1, d2) x.
     (let reduce = (if tg_all_reduce_time_us x \<noteq> 0 then tg_all_reduce_time_us x else of_int (tg_tp_size x) * d1);
          compute = (if tg_compute_time_us x \<noteq> 0 then tg_compute_time_us x else d2);
          ratio = reduce / max (reduce + compute) 1; bound = (3 / 10 < ratio); half = max 1 (tg_tp_size x div 2);
          base = [[Txt ''TP size: '', Val (JInt (tg_tp_size x)), Txt ('', cross-node: '' @ bool_text (tg_cross_node_tp x))],
            [Txt ''All-reduce: '', Fmt ''.0f'' (JFloat reduce), Txt ''us, Compute: '', Fmt ''.0f'' (JFloat compute), Txt ''us''],
            [Txt ''Communication ratio: '', Fmt ''.2f'' (JFloat ratio)],
            [Txt ''Interconnect: '', Fmt ''.0f'' (JFloat (tg_interconnect_bandwidth x)), Txt '' GB/s'']];
          (out, size, notes) =
            (if bound \<and> tg_cross_node_tp x
             then ((GATE_FAIL, GATE_REJECT), 1, [[Txt ''Communication overhead exceeds 30%''],
                    [Txt ''Cross-node TP is communication-bound; prefer single-node or reduce TP size'']])
             else if bound
             then ((GATE_WARN, GATE_MITIGATE), half, [[Txt ''Communication overhead exceeds 30%''],
                    [Txt ''Communication-bound at TP='', Val (JInt (tg_tp_size x)), Txt ''; reduce to '', Val (JInt half)]])
             else ((GATE_PASS, GATE_ACCEPT), tg_tp_size x, [[Txt ''Communication overhead within acceptable range'']])) in
      \<lparr>gt_verdict = verdict_of ''Tensor parallelism becomes communication-bound''
         ''Benchmark interconnect; compare TP sizes; avoid unnecessary cross-node TP'' out (base @ notes),
       gt_communication_ratio = py_round 4 ratio, gt_is_communication_bound = bound, gt_recommended_tp_size = size,
       gt_avoid_cross_node = (tg_cross_node_tp x \<and> bound)\<rparr>))"

subsection \<open>Oscillation of autoscaling\<close>

record scale_input =
  sg_cooldown_seconds :: int
  sg_hysteresis_pct :: rat
  sg_min_dwell_seconds :: int
  sg_scale_up_threshold :: rat
  sg_scale_down_threshold :: rat
  sg_observed_oscillations :: int

definition default_scale :: scale_input where
  "default_scale = \<lparr>sg_cooldown_seconds = 300, sg_hysteresis_pct = 10, sg_min_dwell_seconds = 600, sg_scale_up_threshold = 70,
     sg_scale_down_threshold = 30, sg_observed_oscillations = 0\<rparr>"

record scale_result =
  gs_verdict :: verdict
  gs_oscillation_risk :: string
  gs_has_rollback :: bool

definition scale_gate :: "scale_input \<Rightarrow> scale_result" where
  "scale_gate x =
     (let n = sg_observed_oscillations x; risk = (if 5 < n then ''high'' else if 2 < n then ''medium'' else ''low'');
          gap = sg_scale_up_threshold x - sg_scale_down_threshold x;
          base = [[Txt ''Cooldown: '', Val (JInt (sg_cooldown_seconds x)), Txt ''s (recommended >= 300)''],
            [Txt ''Hysteresis: '', Val (JFloat (sg_hysteresis_pct x)), Txt ''% (recommended >= 10%)''],
            [Txt ''Min dwell: '', Val (JInt (sg_min_dwell_seconds x)), Txt ''s (recommended >= 600)''],
            [Txt ''Threshold gap: '', Fmt ''.0f'' (JFloat gap), Txt ''pp (recommended >= 30pp)''],
            [Txt ''Observed oscillations: '', Val (JInt n)]];
          (out, note) = (if 5 < n then ((GATE_FAIL, GATE_MITIGATE), ''High oscillation risk; increase cooldown and hysteresis'')
            else if 2 < n then ((GATE_WARN, GATE_MITIGATE), ''Moderate oscillation risk; monitor and adjust thresholds'')
            else ((GATE_PASS, GATE_ACCEPT), ''Autoscaling configuration is stable'')) in
      \<lparr>gs_verdict = verdict_of ''Autoscaling causes oscillation'' ''Use cooldown, hysteresis, minimum dwell time, and rollback''
         (if gap < 30 \<and> fst out = GATE_PASS then (GATE_WARN, GATE_MITIGATE) else out)
         (base @ [[Txt note]] @ (if gap < 30 then [[Txt ''Scale threshold gap ('', Fmt ''.0f'' (JFloat gap), Txt ''pp) may cause thrashing'']] else [])),
       gs_oscillation_risk = risk, gs_has_rollback = True\<rparr>)"

subsection \<open>Quality\<close>

record quality_input =
  qg_optimization_type :: string
  qg_original_perplexity :: rat
  qg_optimized_perplexity :: rat
  qg_original_accuracy :: rat
  qg_optimized_accuracy :: rat
  qg_max_perplexity_degradation :: rat
  qg_max_accuracy_degradation_pct :: rat

definition default_quality :: quality_input where
  "default_quality = \<lparr>qg_optimization_type = ''quantization'', qg_original_perplexity = 10, qg_optimized_perplexity = 0,
     qg_original_accuracy = 0, qg_optimized_accuracy = 0, qg_max_perplexity_degradation = 1 / 2, qg_max_accuracy_degradation_pct = 1\<rparr>"

record quality_result =
  gq_verdict :: verdict
  gq_perplexity_delta :: rat
  gq_accuracy_delta_pct :: rat
  gq_perplexity_acceptable :: bool
  gq_accuracy_acceptable :: bool
  gq_all_tests_passed :: bool

text \<open>The draws are the change of perplexity and the loss of accuracy, or its change when none was measured.\<close>

definition quality_gate :: "rat \<times> rat \<Rightarrow> quality_input \<Rightarrow> quality_result" where
  "quality_gate = (\<lambda>(d1, d2) x.
     (let pp = (if qg_optimized_perplexity x \<noteq> 0 then qg_optimized_perplexity x else qg_original_perplexity x + d1) - qg_original_perplexity x;
          acc = (if 0 < qg_original_accuracy x
                 then (if qg_optimized_accuracy x \<noteq> 0 then qg_optimized_accuracy x else qg_original_accuracy x - d2) - qg_original_accuracy x
                 else d2);
          pp_ok = (pp \<le> qg_max_perplexity_degradation x); acc_ok = (\<bar>acc\<bar> \<le> qg_max_accuracy_degradation_pct x);
          base = [[Txt (''Optimization: '' @ qg_optimization_type x)],
            [Txt ''Perplexity delta: '', Fmt ''+.4f'' (JFloat pp), Txt '' (limit: '', Val (JFloat (qg_max_perplexity_degradation x)), Txt '')''],
            [Txt ''Accuracy delta: '', Fmt ''+.2f'' (JFloat acc), Txt ''pp (limit: '', Val (JFloat (qg_max_accuracy_degradation_pct x)), Txt ''pp)'']];
          (out, note) = (if pp_ok \<and> acc_ok then ((GATE_PASS, GATE_ACCEPT), ''All quality regression tests passed'')
            else ((GATE_FAIL, GATE_REJECT), ''Quality regression: ''
              @ (if \<not> pp_ok \<and> \<not> acc_ok then ''perplexity degradation exceeds threshold; accuracy degradation exceeds threshold''
                 else if \<not> pp_ok then ''perplexity degradation exceeds threshold'' else ''accuracy degradation exceeds threshold''))) in
      \<lparr>gq_verdict = verdict_of ''Optimization damages quality''
         ''Run model-quality regression tests for quantization or adaptive compute'' out (base @ [[Txt note]]),
       gq_perplexity_delta = py_round 4 pp, gq_accuracy_delta_pct = py_round 2 acc, gq_perplexity_acceptable = pp_ok,
       gq_accuracy_acceptable = acc_ok, gq_all_tests_passed = (pp_ok \<and> acc_ok)\<rparr>))"

subsection \<open>Changes of the cluster and secrets\<close>

record mutation_input =
  kg_mutation_type :: string
  kg_is_read_only :: bool
  kg_requires_approval :: bool
  kg_has_gitops :: bool

definition default_mutation :: mutation_input where
  "default_mutation = \<lparr>kg_mutation_type = [], kg_is_read_only = True, kg_requires_approval = True, kg_has_gitops = True\<rparr>"

definition mutation_safe :: "mutation_input \<Rightarrow> bool" where
  "mutation_safe x \<longleftrightarrow> kg_is_read_only x \<and> kg_requires_approval x \<and> kg_has_gitops x"

definition mutation_gate :: "mutation_input \<Rightarrow> verdict" where
  "mutation_gate x =
     (let base = [yes_no ''Read-only mode: '' (kg_is_read_only x), yes_no ''Requires approval: '' (kg_requires_approval x),
            yes_no ''GitOps workflow: '' (kg_has_gitops x)];
          (out, note) = (if mutation_safe x then ((GATE_PASS, GATE_ACCEPT), ''All K8s mutation safety controls in place'')
            else if kg_is_read_only x then ((GATE_WARN, GATE_MITIGATE), ''Read-only mode active but approval/GitOps workflow incomplete'')
            else ((GATE_FAIL, GATE_REJECT), ''K8s mutation safety controls insufficient; enable read-only mode or GitOps'')) in
      verdict_of ''Unsafe Kubernetes mutation'' ''Read-only GPUOpt backend; reviewed GitOps applies changes'' out (base @ [[Txt note]]))"

record secret_input =
  sc_uses_secret_references :: bool
  sc_tokens_in_logs :: bool
  sc_tokens_in_records :: bool
  sc_keys_in_benchmark :: bool

definition default_secrets :: secret_input where
  "default_secrets = \<lparr>sc_uses_secret_references = True, sc_tokens_in_logs = False, sc_tokens_in_records = False, sc_keys_in_benchmark = False\<rparr>"

definition secrets_safe :: "secret_input \<Rightarrow> bool" where
  "secrets_safe x \<longleftrightarrow> sc_uses_secret_references x \<and> \<not> sc_tokens_in_logs x \<and> \<not> sc_tokens_in_records x \<and> \<not> sc_keys_in_benchmark x"

definition secrets_gate :: "secret_input \<Rightarrow> verdict" where
  "secrets_gate x =
     (let base = [yes_no ''Secret references: '' (sc_uses_secret_references x), yes_no ''Bearer tokens in logs: '' (sc_tokens_in_logs x),
            yes_no ''Bearer tokens in records: '' (sc_tokens_in_records x), yes_no ''API keys in benchmark: '' (sc_keys_in_benchmark x)];
          (out, note) = (if secrets_safe x then ((GATE_PASS, GATE_ACCEPT), ''No secrets exposure detected'')
            else if \<not> sc_uses_secret_references x
            then ((GATE_FAIL, GATE_REJECT), ''Must use secret references instead of inline credentials'')
            else ((GATE_FAIL, GATE_REJECT), ''Secrets found in logs or benchmark records; purge immediately'')) in
      verdict_of ''Secrets exposed in API or logs'' ''Use secret references; never persist bearer tokens in benchmark records'' out
        (base @ [[Txt note]]))"

subsection \<open>Balance of experts\<close>

record moe_input =
  eg_num_experts :: int
  eg_per_gpu_loads :: "rat list"
  eg_top_k :: int
  eg_capacity_factor :: rat

definition default_moe :: moe_input where
  "default_moe = \<lparr>eg_num_experts = 8, eg_per_gpu_loads = [], eg_top_k = 2, eg_capacity_factor = 5 / 4\<rparr>"

record moe_result =
  ge_verdict :: verdict
  ge_load_imbalance_ratio :: rat
  ge_is_balanced :: bool
  ge_recommended_capacity_factor :: rat
  ge_expert_placement_ok :: bool

definition expert_decision :: "rat \<Rightarrow> rat \<Rightarrow> (gate_result \<times> gate_action) \<times> piece list list" where
  "expert_decision imbalance cap =
     (let raise_to = [Txt ''Expert imbalance detected; increase capacity factor to '', Fmt ''.2f'' (JFloat cap)] in
      if imbalance < 2 then ((GATE_PASS, GATE_ACCEPT), [[Txt ''Expert loads are balanced'']])
      else if 3 < imbalance
      then ((GATE_FAIL, GATE_REJECT), [raise_to, [Txt ''Severe imbalance; redistribute expert placement'']])
      else ((GATE_WARN, GATE_MITIGATE), [raise_to, [Txt ''Moderate imbalance; adjust capacity factor or rebalance'']]))"

text \<open>\<open>drawn\<close> are the loads of the experts when none were measured; without any load, the text of the largest raises.\<close>

definition moe_gate :: "rat list \<Rightarrow> moe_input \<Rightarrow> py_error + moe_result" where
  "moe_gate drawn x =
     (case (if eg_per_gpu_loads x \<noteq> [] then eg_per_gpu_loads x else take (nat (eg_num_experts x)) drawn) of
        [] \<Rightarrow> Inl (ValueError ''max() iterable argument is empty'')
      | l # ls \<Rightarrow>
          (let hi = foldl max l ls; lo = foldl min l ls; imbalance = hi / max lo (1 / 100); balanced = (imbalance < 2);
               cap = (if balanced then eg_capacity_factor x else min (eg_capacity_factor x * (imbalance / (3 / 2))) 4);
               base = [[Txt ''Experts: '', Val (JInt (eg_num_experts x)), Txt '', top-'', Val (JInt (eg_top_k x))],
                 [Txt ''Max load: '', Fmt ''.1f'' (JFloat hi), Txt ''%, Min load: '', Fmt ''.1f'' (JFloat lo), Txt ''%''],
                 [Txt ''Imbalance ratio: '', Fmt ''.2f'' (JFloat imbalance), Txt ''x (threshold: 2.0x)''],
                 [Txt ''Current capacity factor: '', Val (JFloat (eg_capacity_factor x))]] in
           Inr \<lparr>ge_verdict = verdict_of ''MoE expert imbalance''
                  ''Measure per-GPU load; test expert placement and activated-expert balancing''
                  (fst (expert_decision imbalance cap)) (base @ snd (expert_decision imbalance cap)),
                ge_load_imbalance_ratio = py_round 4 imbalance, ge_is_balanced = balanced, ge_recommended_capacity_factor = py_round 2 cap,
                ge_expert_placement_ok = (balanced \<or> imbalance < 3)\<rparr>))"

subsection \<open>The dashboard\<close>

record gate_draws =
  dw_memory :: rat
  dw_tp :: "rat \<times> rat"
  dw_quality :: "rat \<times> rat"
  dw_moe :: "rat list"

record gates_dashboard =
  gd_gates :: "(string, verdict) dict"
  gd_all_passed :: bool
  gd_can_deploy :: bool
  gd_summary :: "piece list"

definition evaluate_gates :: "gate_draws \<Rightarrow> py_error + (string, verdict) dict" where
  "evaluate_gates d =
     try_bind (moe_gate (dw_moe d) default_moe) (\<lambda>mo. Inr
       [(''memory'', gm_verdict (memory_gate (dw_memory d) default_memory)), (''mock_data'', gk_verdict (mock_gate default_mock)),
        (''tp_comm'', gt_verdict (tp_gate (dw_tp d) default_tp)), (''autoscale'', gs_verdict (scale_gate default_scale)),
        (''quality'', gq_verdict (quality_gate (dw_quality d) default_quality)), (''k8s_mutation'', mutation_gate default_mutation),
        (''secrets'', secrets_gate default_secrets), (''moe'', ge_verdict mo)])"

definition dashboard_of :: "(string, verdict) dict \<Rightarrow> gates_dashboard" where
  "dashboard_of gates =
     (let vs = dict_values gates; deploy = list_all (\<lambda>v. vd_action v \<noteq> GATE_REJECT) vs in
      \<lparr>gd_gates = gates, gd_all_passed = list_all (\<lambda>v. vd_result v = GATE_PASS) vs, gd_can_deploy = deploy,
       gd_summary = [Txt ''Risk gates: '', Val (JInt (int (length (filter (\<lambda>v. vd_result v = GATE_PASS) vs)))), Txt ''/8 passed, '',
         Val (JInt (int (length (filter (\<lambda>v. vd_action v = GATE_REJECT) vs)))),
         Txt (''/8 rejected, deploy='' @ (if deploy then ''allowed'' else ''blocked''))]\<rparr>)"

definition evaluate_all_gates :: "gate_draws \<Rightarrow> py_error + gates_dashboard" where
  "evaluate_all_gates d = try_bind (evaluate_gates d) (\<lambda>gates. Inr (dashboard_of gates))"

subsection \<open>What the gates decide\<close>

fun decision_ok :: "gate_result \<times> gate_action \<Rightarrow> bool" where
  "decision_ok (r, a) = (case a of GATE_ACCEPT \<Rightarrow> r = GATE_PASS | GATE_MITIGATE \<Rightarrow> r \<noteq> GATE_PASS | GATE_REJECT \<Rightarrow> r = GATE_FAIL)"

definition verdict_ok :: "verdict \<Rightarrow> bool" where
  "verdict_ok v \<longleftrightarrow> decision_ok (vd_result v, vd_action v)"

lemma verdict_of_sel [simp]:
  "vd_result (verdict_of r c p ds) = fst p" "vd_action (verdict_of r c p ds) = snd p"
  by (simp_all add: verdict_of_def split: prod.split)

lemma memory_decision:
  "(vd_result (gm_verdict (memory_gate d x)), vd_action (gm_verdict (memory_gate d x))) =
     (if mg_measured_oom x then (GATE_FAIL, GATE_REJECT) else if gm_headroom_sufficient (memory_gate d x) then (GATE_PASS, GATE_ACCEPT)
      else (GATE_FAIL, GATE_MITIGATE))"
  by (simp add: memory_gate_def Let_def)

lemma mock_decision:
  "(vd_result (gk_verdict (mock_gate x)), vd_action (gk_verdict (mock_gate x))) =
     (if \<not> mk_is_mock_data x \<or> (mk_has_real_endpoint x \<and> mk_has_dcgm_metrics x) then (GATE_PASS, GATE_ACCEPT)
      else if mk_has_real_endpoint x then (GATE_WARN, GATE_MITIGATE) else (GATE_FAIL, GATE_REJECT))"
  by (simp add: mock_gate_def Let_def)

lemma tp_decision:
  "(vd_result (gt_verdict (tp_gate d x)), vd_action (gt_verdict (tp_gate d x))) =
     (if \<not> gt_is_communication_bound (tp_gate d x) then (GATE_PASS, GATE_ACCEPT)
      else if tg_cross_node_tp x then (GATE_FAIL, GATE_REJECT) else (GATE_WARN, GATE_MITIGATE))"
  by (cases d) (simp add: tp_gate_def Let_def)

lemma scale_decision:
  "(vd_result (gs_verdict (scale_gate x)), vd_action (gs_verdict (scale_gate x))) =
     (if 5 < sg_observed_oscillations x then (GATE_FAIL, GATE_MITIGATE)
      else if 2 < sg_observed_oscillations x \<or> sg_scale_up_threshold x - sg_scale_down_threshold x < 30 then (GATE_WARN, GATE_MITIGATE)
      else (GATE_PASS, GATE_ACCEPT))"
  by (simp add: scale_gate_def Let_def)

lemma quality_decision:
  "(vd_result (gq_verdict (quality_gate d x)), vd_action (gq_verdict (quality_gate d x))) =
     (if gq_all_tests_passed (quality_gate d x) then (GATE_PASS, GATE_ACCEPT) else (GATE_FAIL, GATE_REJECT))"
  by (cases d) (simp add: quality_gate_def Let_def)

lemma mutation_decision:
  "(vd_result (mutation_gate x), vd_action (mutation_gate x)) =
     (if mutation_safe x then (GATE_PASS, GATE_ACCEPT) else if kg_is_read_only x then (GATE_WARN, GATE_MITIGATE) else (GATE_FAIL, GATE_REJECT))"
  by (simp add: mutation_gate_def Let_def)

lemma secrets_decision:
  "(vd_result (secrets_gate x), vd_action (secrets_gate x)) = (if secrets_safe x then (GATE_PASS, GATE_ACCEPT) else (GATE_FAIL, GATE_REJECT))"
  by (simp add: secrets_gate_def Let_def)

lemma expert_decision_ok: "decision_ok (fst (expert_decision imbalance cap))"
  by (simp add: expert_decision_def Let_def)

lemma moe_decision: "moe_gate drawn x = Inr r \<Longrightarrow> verdict_ok (ge_verdict r)"
  using expert_decision_ok by (auto simp: moe_gate_def verdict_ok_def Let_def simp del: decision_ok.simps split: list.splits)

lemmas decisions = memory_decision mock_decision tp_decision scale_decision quality_decision mutation_decision secrets_decision

text \<open>
  Every gate's decision is one of four: passed and accepted, warned and mitigated, failed and
  mitigated, failed and rejected; nothing that failed is accepted, nothing that passed is held back.
\<close>

theorem gates_decide:
  "list_all verdict_ok [gm_verdict (memory_gate d1 x1), gk_verdict (mock_gate x2), gt_verdict (tp_gate d3 x3), gs_verdict (scale_gate x4),
     gq_verdict (quality_gate d5 x5), mutation_gate x6, secrets_gate x7]
   \<and> (case moe_gate d8 x8 of Inl _ \<Rightarrow> eg_per_gpu_loads x8 = [] | Inr r \<Rightarrow> verdict_ok (ge_verdict r))"
proof -
  have "verdict_ok (gm_verdict (memory_gate d1 x1))" "verdict_ok (gk_verdict (mock_gate x2))" "verdict_ok (gt_verdict (tp_gate d3 x3))"
    "verdict_ok (gs_verdict (scale_gate x4))" "verdict_ok (gq_verdict (quality_gate d5 x5))" "verdict_ok (mutation_gate x6)"
    "verdict_ok (secrets_gate x7)"
    by (simp_all add: verdict_ok_def decisions)
  moreover have "eg_per_gpu_loads x8 = []" if "moe_gate d8 x8 = Inl e" for e
    using that by (auto simp: moe_gate_def Let_def split: list.splits if_splits)
  ultimately show ?thesis using moe_decision [of d8 x8] by (simp split: sum.split)
qed

text \<open>The memory gate accepts when neither the estimate nor the measured peak takes more than nine tenths of the memory.\<close>

lemma memory_accepts:
  assumes "1 \<le> mg_gpu_memory_gib x" and "mg_measured_peak x \<noteq> 0"
  shows "vd_action (gm_verdict (memory_gate d x)) = GATE_ACCEPT \<longleftrightarrow> \<not> mg_measured_oom x
    \<and> em_total_gb (estimate_memory x) \<le> mg_gpu_memory_gib x * (9 / 10) \<and> mg_measured_peak x \<le> mg_gpu_memory_gib x * (9 / 10)"
proof -
  let ?g = "mg_gpu_memory_gib x" and ?m = "max (mg_measured_peak x) (em_total_gb (estimate_memory x))"
  have "10 \<le> (?g - ?m) / max ?g 1 * 100 \<longleftrightarrow> 10 * ?g \<le> (?g - ?m) * 100"
    using assms(1) by (simp add: max_absorb1 le_divide_eq mult.commute)
  then have "gm_headroom_sufficient (memory_gate d x) \<longleftrightarrow> ?m \<le> ?g * (9 / 10)"
    using assms(2) by (simp add: memory_gate_def Let_def)
  then show ?thesis using memory_decision [of d x] by (auto split: if_splits)
qed

text \<open>
  The dashboard never allows a deployment: it evaluates the gates on their default inputs, on which
  the gate for mock data rejects, so whatever is drawn no answer allows the deployment or reports that
  all gates passed.
\<close>

theorem dashboard_never_allows:
  "case evaluate_all_gates d of Inl _ \<Rightarrow> dw_moe d = [] | Inr b \<Rightarrow> \<not> gd_can_deploy b \<and> \<not> gd_all_passed b"
proof (cases "moe_gate (dw_moe d) default_moe")
  case (Inl e)
  then show ?thesis by (auto simp: evaluate_all_gates_def evaluate_gates_def moe_gate_def default_moe_def Let_def split: list.splits if_splits)
next
  case (Inr mo)
  have "vd_action (gk_verdict (mock_gate default_mock)) = GATE_REJECT" "vd_result (gk_verdict (mock_gate default_mock)) = GATE_FAIL"
    using mock_decision [of default_mock] by (simp_all add: default_mock_def)
  then show ?thesis by (simp add: evaluate_all_gates_def evaluate_gates_def Inr dashboard_of_def dict_values_def Let_def)
qed

text \<open>The gate for mock data always finds its labels: being mock data counts as a label.\<close>

lemma labels_always_present: "gk_labels_present (mock_gate x)"
  by (auto simp: mock_gate_def Let_def)

text \<open>A gain of accuracy beyond the bound for its loss is rejected.\<close>

lemma gain_rejected:
  assumes "0 < qg_original_accuracy x" and "0 \<le> qg_max_accuracy_degradation_pct x"
    and "qg_original_accuracy x + qg_max_accuracy_degradation_pct x < qg_optimized_accuracy x"
  shows "vd_action (gq_verdict (quality_gate d x)) = GATE_REJECT"
proof -
  have "\<not> gq_all_tests_passed (quality_gate d x)"
    using assms by (cases d) (auto simp: quality_gate_def Let_def)
  then show ?thesis using quality_decision [of d x] by simp
qed

text \<open>Without measured loads, experts and random loads, the expert gate raises instead of passing.\<close>

lemma no_experts_raise: "eg_per_gpu_loads x = [] \<Longrightarrow> eg_num_experts x \<le> 0 \<Longrightarrow> \<exists>m. moe_gate drawn x = Inl (ValueError m)"
  by (simp add: moe_gate_def)

end
