(* ===== verification/Intelligence.thy ===== *)
theory Intelligence
  imports Scheduling
begin

text \<open>
  The analyses over merged telemetry, src/src/gpuopt/intelligence: the merge of a state with its
  telemetry (_telemetry_utils.py), the reclaimer of idle GPUs (idle_gpu_reclaimer.py) and the
  predictive orchestrator (predictive_orchestrator.py); and the correlation of GPUs with nodes and
  pods, observability/correlator.py. They read a cluster and its latest state from the repository and
  write nothing.
\<close>

subsection \<open>Merged telemetry\<close>

record merged_gpu =
  mu_index :: int
  mu_uuid :: string
  mu_model :: string
  mu_memory_total_bytes :: int
  mu_memory_used_bytes :: int
  mu_status :: string
  mu_gpu_util_pct :: rat
  mu_mem_util_pct :: rat
  mu_temperature :: rat
  mu_power_watts :: rat
  mu_power_limit_watts :: rat
  mu_ecc_errors_total :: int
  mu_ecc_errors_aggregate :: int
  mu_clock_sm_mhz :: int
  mu_clock_mem_mhz :: int

definition plain_gpu :: "gpu_state \<Rightarrow> merged_gpu" where
  "plain_gpu g =
     \<lparr>mu_index = gs_index g, mu_uuid = gs_uuid g, mu_model = gs_model g, mu_memory_total_bytes = gs_memory_total_bytes g,
      mu_memory_used_bytes = gs_memory_used_bytes g, mu_status = gs_status g, mu_gpu_util_pct = 0, mu_mem_util_pct = 0,
      mu_temperature = 0, mu_power_watts = 0, mu_power_limit_watts = 0, mu_ecc_errors_total = 0, mu_ecc_errors_aggregate = 0,
      mu_clock_sm_mhz = 0, mu_clock_mem_mhz = 0\<rparr>"

definition with_telemetry :: "gpu_telemetry \<Rightarrow> merged_gpu \<Rightarrow> merged_gpu" where
  "with_telemetry t m =
     m\<lparr>mu_gpu_util_pct := gt_utilization_gpu_percent t, mu_mem_util_pct := gt_utilization_memory_percent t,
       mu_temperature := gt_temperature_gpu_celsius t, mu_power_watts := gt_power_draw_watts t,
       mu_power_limit_watts := gt_power_limit_watts t, mu_ecc_errors_total := gt_ecc_errors_volatile t,
       mu_ecc_errors_aggregate := gt_ecc_errors_aggregate t, mu_clock_sm_mhz := gt_clock_sm_mhz t,
       mu_clock_mem_mhz := gt_clock_mem_mhz t\<rparr>"

type_synonym gpu_map = "(string \<times> int, merged_gpu) dict"

definition basic_map :: "node_state list \<Rightarrow> gpu_map" where
  "basic_map ns = fold (\<lambda>n. fold (\<lambda>g. dict_set (ns_name n, gs_index g) (plain_gpu g)) (ns_gpu_devices n)) ns []"

definition overlay :: "string \<Rightarrow> gpu_telemetry \<Rightarrow> gpu_map \<Rightarrow> gpu_map" where
  "overlay node t m =
     (case dict_get m (node, gt_index t) of None \<Rightarrow> m | Some g \<Rightarrow> dict_set (node, gt_index t) (with_telemetry t g) m)"

definition telemetry_map :: "cluster_state \<Rightarrow> gpu_map" where
  "telemetry_map st =
     (case cs_telemetry st of
        None \<Rightarrow> basic_map (cs_nodes st)
      | Some t \<Rightarrow> fold (\<lambda>tn. fold (overlay (nt_node_name tn)) (nt_gpu_devices tn)) (ct_nodes t) (basic_map (cs_nodes st)))"

text \<open>Every device of the state with its merged figures; a missing entry would read as an empty one.\<close>

definition merged_devices :: "cluster_state \<Rightarrow> (node_state \<times> gpu_state \<times> merged_gpu) list" where
  "merged_devices st =
     (let m = telemetry_map st in
      concat (map (\<lambda>n. map (\<lambda>g. (n, g, dict_get_or m (ns_name n, gs_index g) ((plain_gpu g)\<lparr>mu_memory_used_bytes := 0, mu_memory_total_bytes := 1\<rparr>)))
        (ns_gpu_devices n)) (cs_nodes st)))"

definition used_pct :: "merged_gpu \<Rightarrow> rat" where
  "used_pct m = of_int (mu_memory_used_bytes m) / of_int (max (mu_memory_total_bytes m) 1) * 100"

subsection \<open>Idle GPUs\<close>

record idle_record =
  ir_cluster_id :: uuid
  ir_cluster_name :: string
  ir_node_name :: string
  ir_gpu_index :: int
  ir_gpu_model :: string
  ir_idle_minutes :: int
  ir_utilization_pct :: rat
  ir_memory_used_pct :: rat
  ir_hourly_waste :: rat
  ir_monthly_waste :: rat
  ir_reclaim_action :: string
  ir_reclaimable :: bool

definition hourly_rates :: "(string, rat) dict" where
  "hourly_rates = [(''production'', 9 / 2), (''staging'', 5 / 2), (''development'', 3 / 2), (''testing'', 1)]"

definition is_idle :: "merged_gpu \<Rightarrow> bool" where
  "is_idle m \<longleftrightarrow> mu_gpu_util_pct m < 10 \<and> used_pct m < 10"

definition reclaim_action :: "merged_gpu \<Rightarrow> string" where
  "reclaim_action m =
     (if \<not> is_idle m then ''none''
      else if mu_gpu_util_pct m < 2 \<and> used_pct m < 2 then ''power_off_gpu''
      else if mu_gpu_util_pct m < 5 then ''suspend_workloads'' else ''reduce_allocation'')"

definition idle_record_of :: "uuid \<Rightarrow> cluster \<Rightarrow> node_state \<times> gpu_state \<times> merged_gpu \<Rightarrow> idle_record" where
  "idle_record_of cid cl = (\<lambda>(n, g, m).
     let hourly = (if is_idle m then dict_get_or hourly_rates (cl_environment cl) (5 / 2) * (85 / 100) else 0) in
     \<lparr>ir_cluster_id = cid, ir_cluster_name = cl_name cl, ir_node_name = ns_name n, ir_gpu_index = gs_index g,
      ir_gpu_model = (if gs_model g \<noteq> [] then gs_model g else ''unknown''), ir_idle_minutes = 0,
      ir_utilization_pct = py_round 1 (mu_gpu_util_pct m), ir_memory_used_pct = py_round 1 (used_pct m),
      ir_hourly_waste = py_round 2 hourly, ir_monthly_waste = py_round 2 (hourly * 730), ir_reclaim_action = reclaim_action m,
      ir_reclaimable = is_idle m\<rparr>)"

definition scan_cluster :: "sched_repo \<Rightarrow> uuid \<Rightarrow> py_error + idle_record list" where
  "scan_cluster r cid =
     try_bind (need_cluster r cid) (\<lambda>cl.
     try_bind (need_state (''No state data for cluster '' @ cid) r cid) (\<lambda>st.
       Inr (map (idle_record_of cid cl) (merged_devices st))))"

record cluster_idle =
  ci_cluster_id :: uuid
  ci_total_gpus :: nat
  ci_idle_gpus :: nat
  ci_idle_pct :: rat
  ci_monthly_waste :: rat

record reclamation_action =
  ra_cluster_id :: uuid
  ra_cluster_name :: string
  ra_node_name :: string
  ra_gpu_index :: int
  ra_action_type :: string
  ra_estimated_savings_monthly :: rat
  ra_automated :: bool
  ra_params :: "(string, json) dict"

record reclamation_result =
  rr_total_idle_gpus :: nat
  rr_total_gpus :: nat
  rr_idle_pct :: rat
  rr_total_monthly_waste :: rat
  rr_reclaimable_monthly_savings :: rat
  rr_gpu_records :: "idle_record list"
  rr_recommended_actions :: "reclamation_action list"
  rr_cluster_summaries :: "cluster_idle list"
  rr_summary :: "piece list"

definition share_pct :: "nat \<Rightarrow> nat \<Rightarrow> rat" where
  "share_pct a b = of_nat a / of_nat (max b 1) * 100"

definition cluster_idle_of :: "uuid \<Rightarrow> idle_record list \<Rightarrow> cluster_idle" where
  "cluster_idle_of cid rs = (let idle = filter ir_reclaimable rs in
     \<lparr>ci_cluster_id = cid, ci_total_gpus = length rs, ci_idle_gpus = length idle,
      ci_idle_pct = py_round 1 (share_pct (length idle) (length rs)),
      ci_monthly_waste = py_round 2 (sum_list (map ir_monthly_waste idle))\<rparr>)"

definition action_for :: "idle_record \<Rightarrow> reclamation_action" where
  "action_for r =
     \<lparr>ra_cluster_id = ir_cluster_id r, ra_cluster_name = ir_cluster_name r, ra_node_name = ir_node_name r, ra_gpu_index = ir_gpu_index r,
      ra_action_type = ir_reclaim_action r, ra_estimated_savings_monthly = py_round 2 (ir_monthly_waste r),
      ra_automated = (ir_reclaim_action r = ''power_off_gpu'' \<or> ir_reclaim_action r = ''suspend_workloads''),
      ra_params = [(''current_util'', JFloat (ir_utilization_pct r)), (''current_mem_used'', JFloat (ir_memory_used_pct r)),
        (''gpu_model'', JStr (ir_gpu_model r))]\<rparr>"

text \<open>Clusters that raise \<open>KeyError\<close> are skipped; \<open>scan_cluster\<close> raises nothing else.\<close>

definition scans :: "sched_repo \<Rightarrow> uuid list \<Rightarrow> (uuid \<times> idle_record list) list" where
  "scans r ids = List.map_filter (\<lambda>c. case scan_cluster r c of Inl _ \<Rightarrow> None | Inr rs \<Rightarrow> Some (c, rs)) ids"

definition scan_all :: "sched_repo \<Rightarrow> uuid list \<Rightarrow> reclamation_result" where
  "scan_all r ids =
     (let per = scans r ids; all = concat (map snd per); idle = filter ir_reclaimable all;
          waste = sum_list (map ir_monthly_waste idle); actions = map action_for (take 20 idle);
          rate = min (share_pct (length actions) (length all)) 80; savings = waste * (rate / 100);
          pct = share_pct (length idle) (length all) in
      \<lparr>rr_total_idle_gpus = length idle, rr_total_gpus = length all, rr_idle_pct = py_round 1 pct,
       rr_total_monthly_waste = py_round 2 waste, rr_reclaimable_monthly_savings = py_round 2 savings, rr_gpu_records = idle,
       rr_recommended_actions = actions, rr_cluster_summaries = map (\<lambda>(c, rs). cluster_idle_of c rs) per,
       rr_summary = [Val (JInt (int (length idle))), Txt ''/'', Val (JInt (int (length all))), Txt '' GPUs idle ('', Fmt ''.0f'' (JFloat pct),
         Txt ''%). $'', Fmt '',.0f'' (JFloat waste), Txt ''/mo waste. Reclaimable: ~$'', Fmt '',.0f'' (JFloat savings), Txt ''/mo ('',
         Val (JInt (int (length actions))), Txt '' recommended actions).'']\<rparr>)"

subsection \<open>Reclaiming\<close>

record reclaim_step =
  rx_node :: string
  rx_gpu_index :: int
  rx_gpu_model :: string
  rx_action :: string
  rx_action_taken :: bool
  rx_message :: string
  rx_daily_savings :: rat

record reclaim_report =
  rp_status :: string
  rp_cluster_id :: uuid
  rp_gpus_reclaimed :: nat
  rp_daily_savings :: rat
  rp_monthly_savings :: rat
  rp_actions :: "reclaim_step list"
  rp_summary :: "piece list"

text \<open>For an action its text and the hours a day that count as saved.\<close>

definition action_effects :: "(string, string \<times> rat) dict" where
  "action_effects = [(''power_off_gpu'', ('': power-off signal sent'', 24)), (''suspend_workloads'', ('': workloads suspended'', 12)),
     (''reduce_allocation'', ('': allocation reduced'', 6))]"

definition reclaim_step_of :: "bool \<Rightarrow> idle_record \<Rightarrow> reclaim_step" where
  "reclaim_step_of dry r =
     (let effect = dict_get action_effects (ir_reclaim_action r);
          msg = (case effect of None \<Rightarrow> [] | Some (t, _) \<Rightarrow> ''GPU '' @ int_str (ir_gpu_index r) @ '' on '' @ ir_node_name r @ t) in
      \<lparr>rx_node = ir_node_name r, rx_gpu_index = ir_gpu_index r, rx_gpu_model = ir_gpu_model r, rx_action = ir_reclaim_action r,
       rx_action_taken = (effect \<noteq> None), rx_message = (if dry then ''[DRY-RUN] '' else ''[EXECUTED] '') @ msg,
       rx_daily_savings = py_round 2 (ir_hourly_waste r * 24)\<rparr>)"

definition saved_by :: "idle_record \<Rightarrow> rat" where
  "saved_by r = (case dict_get action_effects (ir_reclaim_action r) of None \<Rightarrow> 0 | Some (_, hours) \<Rightarrow> ir_hourly_waste r * hours)"

definition execute_reclamation :: "sched_repo \<Rightarrow> uuid \<Rightarrow> nat list option \<Rightarrow> bool \<Rightarrow> py_error + reclaim_report" where
  "execute_reclamation r cid ids dry =
     try_bind (scan_cluster r cid) (\<lambda>rs.
       let idle = filter ir_reclaimable rs;
           chosen = (case ids of None \<Rightarrow> idle | Some is \<Rightarrow> map snd (filter (\<lambda>(i, _). i \<in> set is) (enumerate 0 idle)));
           savings = sum_list (map saved_by chosen) in
       Inr \<lparr>rp_status = (if dry then ''dry_run'' else ''completed''), rp_cluster_id = cid, rp_gpus_reclaimed = length chosen,
            rp_daily_savings = py_round 2 savings, rp_monthly_savings = py_round 2 (savings * 30),
            rp_actions = map (reclaim_step_of dry) chosen,
            rp_summary = [Txt ((if dry then ''Dry-run'' else ''Executed'') @ '' reclamation: ''), Val (JInt (int (length chosen))),
              Txt '' GPU(s), $'', Fmt ''.2f'' (JFloat savings), Txt ''/day savings'']\<rparr>)"

subsection \<open>The predictive orchestrator\<close>

datatype orch_action_type =
    MIGRATE_WORKLOAD | POWER_CAP_GPU | SCALE_DOWN_NODE | PREEMPT_JOB | CONSOLIDATE_GPUS | SCHEDULE_MAINTENANCE
  | ALERT_OPERATOR | ADJUST_QUOTA | ENABLE_BACKFILL | NOTHING

datatype orch_risk = OR_NONE | OR_LOW | OR_MEDIUM | OR_HIGH | OR_CRITICAL

record orch_action =
  oa_action_type :: orch_action_type
  oa_target_cluster_id :: uuid
  oa_target_node :: string
  oa_target_gpu_indices :: "int list"
  oa_priority :: int
  oa_reason :: "piece list"
  oa_expected_impact :: "piece list"
  oa_risk_level :: orch_risk
  oa_automated :: bool
  oa_params :: "(string, json) dict"

record predicted_gpu =
  pf_node :: string
  pf_gpu_index :: int
  pf_risk_score :: rat
  pf_risk_factors :: "piece list list"
  pf_recommended_action :: "piece list"

record orch_plan =
  op_cluster_id :: uuid
  op_cluster_name :: string
  op_overall_health :: string
  op_risk_level :: orch_risk
  op_actions :: "orch_action list"
  op_predicted_failures :: "predicted_gpu list"
  op_idle_gpu_count :: nat
  op_total_gpu_count :: int
  op_estimated_waste_monthly :: rat
  op_summary :: "piece list"

text \<open>The terms of the risk of a device, each with the factor it names.\<close>

definition temperature_risk :: "merged_gpu \<Rightarrow> rat \<times> piece list list" where
  "temperature_risk m = (let t = mu_temperature m; deg = Txt [CHR 0xB0, CHR ''C''] in
     if 85 < t then (35 / 100, [[Txt ''Critical temp: '', Val (JFloat t), deg]])
     else if 75 < t then (15 / 100, [[Txt ''High temp: '', Val (JFloat t), deg]]) else (0, []))"

definition ecc_risk :: "merged_gpu \<Rightarrow> rat \<times> piece list list" where
  "ecc_risk m = (let e = mu_ecc_errors_total m in
     if 15 < e then (25 / 100, [[Txt ''ECC errors: '', Val (JInt e)]]) else if 5 < e then (1 / 10, []) else (0, []))"

definition power_risk :: "merged_gpu \<Rightarrow> rat \<times> piece list list" where
  "power_risk m = (let p = mu_power_watts m; l = mu_power_limit_watts m in
     if l \<le> 0 then (0, [])
     else if 95 / 100 < p / l then (2 / 10, [[Txt ''Power spike: '', Val (JFloat p), Txt ''/'', Val (JFloat l), Txt ''W'']])
     else if 85 / 100 < p / l then (8 / 100, []) else (0, []))"

definition memory_risk :: "merged_gpu \<Rightarrow> rat \<times> piece list list" where
  "memory_risk m =
     (if 95 < used_pct m then (15 / 100, [[Txt ''Memory pressure: '', Fmt ''.0f'' (JFloat (used_pct m)), Txt ''%'']]) else (0, []))"

definition risk_terms :: "merged_gpu \<Rightarrow> (rat \<times> piece list list) list" where
  "risk_terms m = [temperature_risk m, ecc_risk m, power_risk m, memory_risk m]"

definition device_risk :: "merged_gpu \<Rightarrow> rat" where
  "device_risk m = sum_list (map fst (risk_terms m))"

definition risk_factors :: "merged_gpu \<Rightarrow> piece list list" where
  "risk_factors m = concat (map snd (risk_terms m))"

definition recommend_action :: "rat \<Rightarrow> string \<Rightarrow> int \<Rightarrow> piece list" where
  "recommend_action risk node i =
     (let where = node @ '' GPU '' @ int_str i in
      if 7 / 10 < risk then [Txt (''Immediate: migrate workloads from '' @ where)]
      else if 4 / 10 < risk then [Txt (''Prepare: reduce load on '' @ where @ '', schedule inspection'')]
      else [Txt (''Monitor: track '' @ where @ '' for changes'')])"

definition predicted_failure :: "node_state \<times> gpu_state \<times> merged_gpu \<Rightarrow> predicted_gpu option" where
  "predicted_failure = (\<lambda>(n, g, m).
     if 1 / 2 < device_risk m
     then Some \<lparr>pf_node = ns_name n, pf_gpu_index = gs_index g, pf_risk_score = py_round 3 (device_risk m), pf_risk_factors = risk_factors m,
       pf_recommended_action = recommend_action (device_risk m) (ns_name n) (gs_index g)\<rparr>
     else None)"

definition unused :: "merged_gpu \<Rightarrow> bool" where
  "unused m \<longleftrightarrow> mu_gpu_util_pct m < 5 \<and> used_pct m < 5"

definition consolidation :: "uuid \<Rightarrow> nat \<Rightarrow> int \<Rightarrow> orch_action list" where
  "consolidation cid idle all =
     (if 0 < idle \<and> 15 / 100 < of_nat idle / (of_int (max all 1) :: rat)
      then [\<lparr>oa_action_type = CONSOLIDATE_GPUS, oa_target_cluster_id = cid, oa_target_node = [], oa_target_gpu_indices = [], oa_priority = 3,
        oa_reason = [Val (JInt (int idle)), Txt ''/'', Val (JInt all), Txt '' GPUs idle (>15% slack)''],
        oa_expected_impact = [Txt ''Save ~$'', Fmt ''.0f'' (JFloat (of_nat idle * (85 / 100) * 730)), Txt ''/mo by consolidating''],
        oa_risk_level = OR_LOW, oa_automated = True,
        oa_params = [(''idle_gpus'', JInt (int idle)), (''consolidation_target'', JStr ''consolidate_to_fewer_nodes'')]\<rparr>]
      else [])"

definition migration :: "uuid \<Rightarrow> predicted_gpu \<Rightarrow> orch_action" where
  "migration cid f =
     \<lparr>oa_action_type = MIGRATE_WORKLOAD, oa_target_cluster_id = cid, oa_target_node = pf_node f, oa_target_gpu_indices = [pf_gpu_index f],
      oa_priority = (if 7 / 10 < pf_risk_score f then 5 else 4),
      oa_reason = Txt (''Pre-emptive migration from '' @ pf_node f @ '' GPU '' @ int_str (pf_gpu_index f) @ '': '')
        # foldr (\<lambda>r acc. if acc = [] then r else r @ Txt ''; '' # acc) (pf_risk_factors f) [],
      oa_expected_impact = [Txt ''Mitigate '', Fmt ''.0%'' (JFloat (pf_risk_score f)), Txt '' failure probability''],
      oa_risk_level = (if 7 / 10 < pf_risk_score f then OR_HIGH else OR_MEDIUM), oa_automated = (pf_risk_score f < 7 / 10),
      oa_params = [(''failure_risk'', JFloat (pf_risk_score f))]\<rparr>"

definition hot_power :: "merged_gpu \<Rightarrow> bool" where
  "hot_power m \<longleftrightarrow> 0 < mu_power_watts m \<and> 0 < mu_power_limit_watts m \<and> 9 / 10 < mu_power_watts m / mu_power_limit_watts m"

text \<open>The cap for the first such device of each node.\<close>

definition power_cap :: "uuid \<Rightarrow> node_state \<Rightarrow> gpu_map \<Rightarrow> orch_action list" where
  "power_cap cid n m =
     (case find (\<lambda>g. case dict_get m (ns_name n, gs_index g) of None \<Rightarrow> False | Some x \<Rightarrow> hot_power x) (ns_gpu_devices n) of
        None \<Rightarrow> []
      | Some g \<Rightarrow> (case dict_get m (ns_name n, gs_index g) of
          None \<Rightarrow> []
        | Some x \<Rightarrow> [\<lparr>oa_action_type = POWER_CAP_GPU, oa_target_cluster_id = cid, oa_target_node = ns_name n,
            oa_target_gpu_indices = [gs_index g], oa_priority = 2,
            oa_reason = [Txt (''GPU '' @ int_str (gs_index g) @ '' at ''), Fmt ''.0%'' (JFloat (mu_power_watts x / mu_power_limit_watts x)),
              Txt '' power limit ('', Val (JFloat (mu_power_watts x)), Txt ''W/'', Val (JFloat (mu_power_limit_watts x)), Txt ''W)''],
            oa_expected_impact = [Txt ''Reduce power by ~15%, maintain 95% performance''], oa_risk_level = OR_LOW, oa_automated = True,
            oa_params = [(''current_power'', JFloat (mu_power_watts x)), (''target_cap'', JInt (int_of (mu_power_limit_watts x * (85 / 100))))]\<rparr>]))"

definition maintenance :: "uuid \<Rightarrow> nat \<Rightarrow> int \<Rightarrow> orch_action list" where
  "maintenance cid failures all =
     (if 0 < failures \<and> of_int (max all 1) * (3 / 10) < (of_nat failures :: rat)
      then [\<lparr>oa_action_type = SCHEDULE_MAINTENANCE, oa_target_cluster_id = cid, oa_target_node = [], oa_target_gpu_indices = [], oa_priority = 5,
        oa_reason = [Val (JInt (int failures)), Txt ''/'', Val (JInt all), Txt '' GPUs at risk''],
        oa_expected_impact = [Txt ''Prevent cascading failures''], oa_risk_level = OR_CRITICAL, oa_automated = False,
        oa_params = [(''affected_gpus'', JInt (int failures)), (''maintenance_window_hours'', JInt 4)]\<rparr>]
      else [])"

definition nothing_needed :: "uuid \<Rightarrow> orch_action" where
  "nothing_needed cid =
     \<lparr>oa_action_type = NOTHING, oa_target_cluster_id = cid, oa_target_node = [], oa_target_gpu_indices = [], oa_priority = 0,
      oa_reason = [Txt ''Cluster healthy, no action needed''], oa_expected_impact = [Txt ''None''], oa_risk_level = OR_NONE,
      oa_automated = True, oa_params = []\<rparr>"

definition overall_risk :: "orch_action list \<Rightarrow> orch_risk" where
  "overall_risk as = (let ls = map oa_risk_level as in
     if OR_CRITICAL \<in> set ls then OR_CRITICAL else if OR_HIGH \<in> set ls then OR_HIGH else if OR_MEDIUM \<in> set ls then OR_MEDIUM
     else if OR_LOW \<in> set ls then OR_LOW else OR_NONE)"

fun orch_risk_value :: "orch_risk \<Rightarrow> string" where
  "orch_risk_value OR_NONE = ''none''"
| "orch_risk_value OR_LOW = ''low''"
| "orch_risk_value OR_MEDIUM = ''medium''"
| "orch_risk_value OR_HIGH = ''high''"
| "orch_risk_value OR_CRITICAL = ''critical''"

definition health_of :: "orch_risk \<Rightarrow> string" where
  "health_of r = (if r = OR_CRITICAL \<or> r = OR_HIGH then ''critical'' else if r = OR_MEDIUM then ''degraded'' else ''healthy'')"

definition plan_actions :: "uuid \<Rightarrow> cluster_state \<Rightarrow> predicted_gpu list \<Rightarrow> nat \<Rightarrow> orch_action list" where
  "plan_actions cid st failures idle =
     (let found = consolidation cid idle (cs_gpu_count st) @ map (migration cid) (take 3 failures)
            @ concat (map (\<lambda>n. power_cap cid n (telemetry_map st)) (cs_nodes st)) @ maintenance cid (length failures) (cs_gpu_count st)
      in if found = [] then [nothing_needed cid] else found)"

definition analyze_and_plan :: "sched_repo \<Rightarrow> uuid \<Rightarrow> py_error + orch_plan" where
  "analyze_and_plan r cid =
     try_bind (need_cluster r cid) (\<lambda>cl.
     try_bind (need_state (''No state data for cluster '' @ cid) r cid) (\<lambda>st.
       let devices = merged_devices st; failures = List.map_filter predicted_failure devices;
           idle = length (filter (\<lambda>(_, _, m). unused m) devices); as = plan_actions cid st failures idle; risk = overall_risk as;
           waste = of_nat idle * (85 / 100) * 730 in
       Inr \<lparr>op_cluster_id = cid, op_cluster_name = cl_name cl, op_overall_health = health_of risk, op_risk_level = risk,
            op_actions = sorted_by (\<lambda>a. - oa_priority a) as, op_predicted_failures = failures, op_idle_gpu_count = idle,
            op_total_gpu_count = cs_gpu_count st, op_estimated_waste_monthly = py_round 2 waste,
            op_summary = [Txt (''Health: '' @ health_of risk @ '', Risk: '' @ orch_risk_value risk @ ''. ''),
              Val (JInt (int (length failures))), Txt '' GPU(s) at risk, '', Val (JInt (int idle)), Txt '' idle. $'',
              Fmt ''.0f'' (JFloat waste), Txt ''/mo estimated waste. '', Val (JInt (int (length as))), Txt '' action(s) recommended.'']\<rparr>))"

definition run_orchestration_cycle :: "sched_repo \<Rightarrow> uuid list \<Rightarrow> orch_plan list" where
  "run_orchestration_cycle r ids = List.map_filter (\<lambda>c. case analyze_and_plan r c of Inl _ \<Rightarrow> None | Inr p \<Rightarrow> Some p) ids"

subsection \<open>GPUs and pods\<close>

record gpu_owner =
  go_node_name :: string
  go_gpu_index :: int
  go_gpu_model :: string
  go_pod_name :: string
  go_pod_namespace :: string
  go_telemetry :: "(rat \<times> int \<times> rat) option"

definition owner_of :: "node_state \<Rightarrow> gpu_state \<Rightarrow> gpu_owner" where
  "owner_of n g =
     \<lparr>go_node_name = ns_name n, go_gpu_index = gs_index g, go_gpu_model = (if gs_model g \<noteq> [] then gs_model g else ''unknown''),
      go_pod_name = [], go_pod_namespace = [], go_telemetry = None\<rparr>"

definition add_reading :: "gpu_telemetry \<Rightarrow> (string, gpu_owner) dict \<Rightarrow> (string, gpu_owner) dict" where
  "add_reading t m =
     (case dict_get m (gt_uuid t) of
        None \<Rightarrow> m
      | Some o1 \<Rightarrow> dict_set (gt_uuid t)
          (o1\<lparr>go_telemetry := Some (gt_utilization_gpu_percent t, gt_memory_used_bytes t, gt_temperature_gpu_celsius t)\<rparr>) m)"

definition correlate_gpu_to_pod :: "cluster_state option \<Rightarrow> (string, gpu_owner) dict" where
  "correlate_gpu_to_pod state =
     (case state of
        None \<Rightarrow> []
      | Some st \<Rightarrow>
          (let m = fold (\<lambda>n. fold (\<lambda>g m. if gs_uuid g \<noteq> [] then dict_set (gs_uuid g) (owner_of n g) m else m) (ns_gpu_devices n)) (cs_nodes st) [] in
           case cs_telemetry st of None \<Rightarrow> m | Some t \<Rightarrow> fold (\<lambda>tn. fold add_reading (nt_gpu_devices tn)) (ct_nodes t) m))"

definition metric_at_least :: "(string, rat) dict \<Rightarrow> string \<Rightarrow> bool" where
  "metric_at_least s k \<longleftrightarrow> 0 \<le> dict_get_or s k (- 1)"

definition build_quality_flags :: "(string, rat) dict \<Rightarrow> (string, bool) dict" where
  "build_quality_flags s =
     [(''utilization_complete'', metric_at_least s ''sm_active_pct'' \<and> metric_at_least s ''dram_active_pct''),
      (''memory_complete'', 0 < dict_get_or s ''framebuffer_total_bytes'' 0),
      (''thermal_complete'', metric_at_least s ''gpu_temperature_celsius''), (''power_complete'', metric_at_least s ''power_draw_watts''),
      (''interconnect_complete'', metric_at_least s ''pcie_tx_bytes_per_sec''), (''health_complete'', metric_at_least s ''ecc_errors_volatile'')]"

subsection \<open>Devices without telemetry\<close>

definition measured :: "cluster_state \<Rightarrow> string \<times> int \<Rightarrow> bool" where
  "measured st k = (case cs_telemetry st of None \<Rightarrow> False
     | Some t \<Rightarrow> list_ex (\<lambda>tn. nt_node_name tn = fst k \<and> list_ex (\<lambda>g. gt_index g = snd k) (nt_gpu_devices tn)) (ct_nodes t))"

lemma overlay_other: "(node, gt_index t) \<noteq> k \<Longrightarrow> dict_get (overlay node t m) k = dict_get m k"
  by (auto simp: overlay_def split: option.split)

lemma overlays_other: "\<not> list_ex (\<lambda>g. (node, gt_index g) = k) gs \<Longrightarrow> dict_get (fold (overlay node) gs m) k = dict_get m k"
  by (induction gs arbitrary: m) (auto simp: overlay_other)

lemma telemetry_other: "\<not> measured st k \<Longrightarrow> dict_get (telemetry_map st) k = dict_get (basic_map (cs_nodes st)) k"
proof -
  assume k: "\<not> measured st k"
  have "dict_get (fold (\<lambda>tn. fold (overlay (nt_node_name tn)) (nt_gpu_devices tn)) tns m) k = dict_get m k"
    if "\<not> list_ex (\<lambda>tn. nt_node_name tn = fst k \<and> list_ex (\<lambda>g. gt_index g = snd k) (nt_gpu_devices tn)) tns" for tns m
    using that
  proof (induction tns arbitrary: m)
    case (Cons tn tns)
    then have "\<not> list_ex (\<lambda>g. (nt_node_name tn, gt_index g) = k) (nt_gpu_devices tn)" by (auto simp: list_ex_iff)
    then show ?case using Cons by (simp add: overlays_other)
  qed simp
  then show ?thesis using k by (simp add: telemetry_map_def measured_def split: option.splits)
qed

definition plain_entries :: "gpu_map \<Rightarrow> bool" where
  "plain_entries m \<longleftrightarrow> (\<forall>k x. dict_get m k = Some x \<longrightarrow> mu_gpu_util_pct x = 0)"

lemma basic_entries: "plain_entries (basic_map ns)"
proof -
  have one: "plain_entries (dict_set k (plain_gpu g) m)" if "plain_entries m" for k g m
    using that by (simp add: plain_entries_def plain_gpu_def)
  show ?thesis unfolding basic_map_def
    by (intro fold_keeps [where P = plain_entries] one) (simp_all add: plain_entries_def)
qed

lemma unmeasured_idle:
  assumes "(n, g, m) \<in> set (merged_devices st)" and "\<not> measured st (ns_name n, gs_index g)"
  shows "mu_gpu_util_pct m = 0"
  using assms basic_entries [of "cs_nodes st"] telemetry_other [OF assms(2)]
  by (auto simp: merged_devices_def Let_def dict_get_or_def plain_entries_def plain_gpu_def split: option.splits)

text \<open>
  A device nobody measured counts as idle: in a scan of a cluster, each device without telemetry
  that uses less than two percent of its memory is reported as reclaimable and to be powered off, for
  all that is known of its load.
\<close>

theorem unmeasured_powered_off:
  assumes "scan_cluster r cid = Inr rs" and "sr_state r cid = Some st" and "(n, g, m) \<in> set (merged_devices st)"
    and "\<not> measured st (ns_name n, gs_index g)" and "used_pct m < 2"
  shows "\<exists>x \<in> set rs. ir_node_name x = ns_name n \<and> ir_gpu_index x = gs_index g \<and> ir_reclaimable x
    \<and> ir_reclaim_action x = ''power_off_gpu'' \<and> ra_automated (action_for x)"
proof -
  obtain cl where rs: "rs = map (idle_record_of cid cl) (merged_devices st)"
    using assms(1,2) by (auto simp: scan_cluster_def need_state_def try_bind_Inr_iff)
  have "is_idle m" "reclaim_action m = ''power_off_gpu''"
    using unmeasured_idle [OF assms(3,4)] assms(5) by (simp_all add: is_idle_def reclaim_action_def)
  moreover have "idle_record_of cid cl (n, g, m) \<in> set rs"
    using assms(3) unfolding rs set_map by (rule imageI)
  ultimately show ?thesis
    by (intro bexI [of _ "idle_record_of cid cl (n, g, m)"]) (simp_all add: idle_record_of_def action_for_def Let_def)
qed

text \<open>Executing a reclamation reports what the dry run does, with another label; nothing else happens.\<close>

lemma executed_like_dry_run:
  "(case (execute_reclamation r cid ids True, execute_reclamation r cid ids False) of
      (Inr a, Inr b) \<Rightarrow> rp_gpus_reclaimed a = rp_gpus_reclaimed b \<and> rp_daily_savings a = rp_daily_savings b
        \<and> map (\<lambda>x. x\<lparr>rx_message := []\<rparr>) (rp_actions a) = map (\<lambda>x. x\<lparr>rx_message := []\<rparr>) (rp_actions b) \<and> rp_status b = ''completed''
    | (Inl e, Inl f) \<Rightarrow> e = f
    | _ \<Rightarrow> False)"
  by (cases "scan_cluster r cid") (auto simp: execute_reclamation_def Let_def reclaim_step_of_def)

text \<open>Every idle device has an action, and only idle devices have one.\<close>

lemma idle_has_action: "ir_reclaimable (idle_record_of cid cl d) \<longleftrightarrow> dict_get action_effects (ir_reclaim_action (idle_record_of cid cl d)) \<noteq> None"
  by (cases d) (auto simp: idle_record_of_def reclaim_action_def action_effects_def Let_def)

text \<open>No pod is ever attached to a device.\<close>

definition no_pods :: "(string, gpu_owner) dict \<Rightarrow> bool" where
  "no_pods m \<longleftrightarrow> (\<forall>k x. dict_get m k = Some x \<longrightarrow> go_pod_name x = [] \<and> go_pod_namespace x = [])"

lemma correlation_names_no_pod: "no_pods (correlate_gpu_to_pod state)"
proof -
  have read: "no_pods (add_reading t m)" if "no_pods m" for t m
    using that by (auto simp: add_reading_def no_pods_def split: option.split)
  have own: "no_pods (if gs_uuid g \<noteq> [] then dict_set (gs_uuid g) (owner_of n g) m else m)" if "no_pods m" for n g m
    using that by (simp add: no_pods_def owner_of_def)
  show ?thesis
    unfolding correlate_gpu_to_pod_def Let_def
    by (auto split: option.split intro!: fold_keeps [where P = no_pods] read own) (simp_all add: no_pods_def)
qed

subsection \<open>Plans\<close>

instantiation orch_risk :: linorder
begin

fun risk_rank :: "orch_risk \<Rightarrow> nat" where
  "risk_rank OR_NONE = 0"
| "risk_rank OR_LOW = 1"
| "risk_rank OR_MEDIUM = 2"
| "risk_rank OR_HIGH = 3"
| "risk_rank OR_CRITICAL = 4"

definition less_eq_orch_risk :: "orch_risk \<Rightarrow> orch_risk \<Rightarrow> bool" where
  "less_eq_orch_risk a b \<longleftrightarrow> risk_rank a \<le> risk_rank b"

definition less_orch_risk :: "orch_risk \<Rightarrow> orch_risk \<Rightarrow> bool" where
  "less_orch_risk a b \<longleftrightarrow> risk_rank a < risk_rank b"

instance
proof
  fix a b :: orch_risk
  show "a \<le> b \<Longrightarrow> b \<le> a \<Longrightarrow> a = b" by (cases a; cases b) (simp_all add: less_eq_orch_risk_def)
qed (auto simp: less_eq_orch_risk_def less_orch_risk_def)

end

lemma risk_le: "a \<le> b \<longleftrightarrow> risk_rank a \<le> risk_rank b"
  by (simp add: less_eq_orch_risk_def)

lemma overall_risk_max: "as \<noteq> [] \<Longrightarrow> overall_risk as \<in> oa_risk_level ` set as \<and> (\<forall>a \<in> set as. oa_risk_level a \<le> overall_risk as)"
proof -
  assume "as \<noteq> []"
  then obtain a where a: "a \<in> set as" by (cases as) auto
  have top: "oa_risk_level x \<le> overall_risk as" if "x \<in> set as" for x
    using that by (cases "oa_risk_level x") (force simp: overall_risk_def Let_def risk_le)+
  moreover have "overall_risk as \<in> oa_risk_level ` set as"
    using a top [OF a] by (cases "oa_risk_level a") (force simp: overall_risk_def Let_def risk_le)+
  ultimately show ?thesis by blast
qed

lemma term_range:
  "0 \<le> fst (temperature_risk m) \<and> fst (temperature_risk m) \<le> 35 / 100"
  "0 \<le> fst (ecc_risk m) \<and> fst (ecc_risk m) \<le> 25 / 100"
  "0 \<le> fst (power_risk m) \<and> fst (power_risk m) \<le> 2 / 10"
  "0 \<le> fst (memory_risk m) \<and> fst (memory_risk m) \<le> 15 / 100"
  by (simp_all add: temperature_risk_def ecc_risk_def power_risk_def memory_risk_def Let_def)

lemma in_map_filter: "x \<in> set (List.map_filter f xs) \<longleftrightarrow> (\<exists>y \<in> set xs. f y = Some x)"
  by (induction xs) (auto simp: map_filter_def)

lemma device_risk_range: "0 \<le> device_risk m \<and> device_risk m \<le> 95 / 100"
  using term_range [of m] by (simp add: device_risk_def risk_terms_def)

lemma migration_fields [simp]:
  "oa_action_type (migration cid f) = MIGRATE_WORKLOAD" "oa_target_node (migration cid f) = pf_node f"
  "oa_target_gpu_indices (migration cid f) = [pf_gpu_index f]" "oa_automated (migration cid f) \<longleftrightarrow> pf_risk_score f < 7 / 10"
  by (simp_all add: migration_def)

lemma plan_actions_cases:
  assumes "a \<in> set (plan_actions cid st failures idle)"
  shows "oa_action_type a \<in> {CONSOLIDATE_GPUS, POWER_CAP_GPU, NOTHING} \<and> oa_risk_level a \<le> OR_LOW
    \<or> (\<exists>f \<in> set failures. a = migration cid f) \<or> (oa_action_type a = SCHEDULE_MAINTENANCE \<and> \<not> oa_automated a)"
proof -
  have cap: "oa_action_type x = POWER_CAP_GPU \<and> oa_risk_level x = OR_LOW" if "x \<in> set (power_cap cid n m)" for x n m
    using that by (auto simp: power_cap_def split: option.splits)
  show ?thesis using assms
    by (auto simp: plan_actions_def Let_def consolidation_def maintenance_def nothing_needed_def risk_le cap
        dest!: in_set_takeD split: if_splits dest: cap)
qed

text \<open>
  C40: the plan of a cluster is sound: the failures it predicts are the devices with a risk above one half,
  with scores of at most 0.95; it has actions, ordered by priority; its risk is the highest of its
  actions; it migrates only from devices it predicts to fail, by itself only below a risk of 0.7, and
  leaves maintenance to an operator; a cluster without predicted failures is healthy.
\<close>

theorem plan_sound:
  assumes "analyze_and_plan r cid = Inr p" and "sr_state r cid = Some st"
  shows "op_predicted_failures p = List.map_filter predicted_failure (merged_devices st)
    \<and> (\<forall>f \<in> set (op_predicted_failures p). 1 / 2 \<le> pf_risk_score f \<and> pf_risk_score f \<le> 95 / 100)
    \<and> op_actions p \<noteq> [] \<and> sorted (map (\<lambda>a. - oa_priority a) (op_actions p))
    \<and> op_risk_level p \<in> oa_risk_level ` set (op_actions p) \<and> (\<forall>a \<in> set (op_actions p). oa_risk_level a \<le> op_risk_level p)
    \<and> (\<forall>a \<in> set (op_actions p). oa_action_type a = MIGRATE_WORKLOAD \<longrightarrow>
         (\<exists>f \<in> set (op_predicted_failures p). oa_target_node a = pf_node f \<and> oa_target_gpu_indices a = [pf_gpu_index f]
            \<and> (oa_automated a \<longleftrightarrow> pf_risk_score f < 7 / 10)))
    \<and> (\<forall>a \<in> set (op_actions p). oa_action_type a = SCHEDULE_MAINTENANCE \<longrightarrow> \<not> oa_automated a)
    \<and> (op_predicted_failures p = [] \<longrightarrow> op_overall_health p = ''healthy'')"
proof -
  define fs where "fs = List.map_filter predicted_failure (merged_devices st)"
  define as where "as = plan_actions cid st fs (length (filter (\<lambda>(_, _, m). unused m) (merged_devices st)))"
  have p: "op_predicted_failures p = fs" "op_actions p = sorted_by (\<lambda>a. - oa_priority a) as" "op_risk_level p = overall_risk as"
    "op_overall_health p = health_of (overall_risk as)"
    using assms by (auto simp: analyze_and_plan_def need_state_def try_bind_Inr_iff Let_def fs_def as_def)
  have ne: "as \<noteq> []" by (simp add: as_def plan_actions_def Let_def)
  have score: "1 / 2 \<le> pf_risk_score f \<and> pf_risk_score f \<le> 95 / 100" if "f \<in> set fs" for f
  proof -
    obtain m where m: "1 / 2 < device_risk m" "pf_risk_score f = py_round 3 (device_risk m)"
      using \<open>f \<in> set fs\<close> by (auto simp: fs_def in_map_filter predicted_failure_def split: if_splits)
    have ends: "py_round 3 (1 / 2) = 1 / 2" "py_round 3 (95 / 100) = 95 / 100"
      by (simp_all add: py_round_def round_half_even_def)
    have "py_round 3 (1 / 2) \<le> py_round 3 (device_risk m)" "py_round 3 (device_risk m) \<le> py_round 3 (95 / 100)"
      using m(1) device_risk_range [of m] by (auto intro!: py_round_mono)
    then show ?thesis by (simp only: m(2) ends)
  qed
  have kinds: "(oa_action_type a = MIGRATE_WORKLOAD \<longrightarrow> (\<exists>f \<in> set fs. oa_target_node a = pf_node f
        \<and> oa_target_gpu_indices a = [pf_gpu_index f] \<and> (oa_automated a \<longleftrightarrow> pf_risk_score f < 7 / 10)))
      \<and> (oa_action_type a = SCHEDULE_MAINTENANCE \<longrightarrow> \<not> oa_automated a)" if "a \<in> set as" for a
    using plan_actions_cases [OF that [unfolded as_def]] by auto
  have healthy: "health_of (overall_risk as) = ''healthy''" if "fs = []"
  proof -
    have "oa_risk_level a \<le> OR_LOW" if "a \<in> set as" for a
      using plan_actions_cases [OF that [unfolded as_def]] \<open>fs = []\<close> that
      by (auto simp: as_def plan_actions_def maintenance_def consolidation_def nothing_needed_def power_cap_def Let_def risk_le
          split: if_splits option.splits)
    then have "overall_risk as \<le> OR_LOW" using overall_risk_max [OF ne] by auto
    then show ?thesis by (cases "overall_risk as") (simp_all add: health_of_def risk_le)
  qed
  have sorted: "sorted (map (\<lambda>a. - oa_priority a) (sorted_by (\<lambda>a. - oa_priority a) as))"
    unfolding sorted_by_def by (rule sorted_sort_key)
  show ?thesis
    using ne score kinds healthy overall_risk_max [OF ne] sorted
    by (simp add: p fs_def [symmetric]) (metis set_empty2 set_sorted_by)
qed

subsection \<open>Witnesses\<close>

definition hot_reading :: gpu_telemetry where
  "hot_reading =
     \<lparr>gt_index = 0, gt_uuid = [], gt_model = ''A100'', gt_memory_total_bytes = 80, gt_memory_used_bytes = 79,
      gt_utilization_gpu_percent = 90, gt_utilization_memory_percent = 90, gt_temperature_gpu_celsius = 90,
      gt_power_draw_watts = 390, gt_power_limit_watts = 400, gt_ecc_errors_volatile = 0, gt_ecc_errors_aggregate = 0,
      gt_clock_sm_mhz = 0, gt_clock_mem_mhz = 0\<rparr>"

definition hot_node :: node_telemetry where
  "hot_node =
     \<lparr>nt_node_name = ''n1'', nt_status = ''Ready'', nt_cpu_usage_millicores = 0, nt_cpu_capacity_millicores = 0,
      nt_memory_usage_bytes = 0, nt_memory_capacity_bytes = 0, nt_pod_count = 0, nt_pod_capacity = 0, nt_gpu_devices = [hot_reading]\<rparr>"

definition hot_state :: cluster_state where
  "hot_state = small_state\<lparr>cs_telemetry :=
     Some \<lparr>ct_cluster_id = ''c1'', ct_cluster_name = ''east'', ct_collected_at = 0, ct_node_count = 1, ct_gpu_count = 1, ct_nodes = [hot_node],
           ct_freshness_seconds = 0\<rparr>,
     cs_nodes := [node_with ''n1'' [gpu_of 80 79], node_with ''n2'' [gpu_of 80 0]]\<rparr>"

definition hot_repo :: sched_repo where
  "hot_repo = small_repo\<lparr>sr_state := (\<lambda>c. if c = ''c1'' then Some hot_state else None)\<rparr>"

lemmas hot_defs = hot_repo_def small_repo_def

theorem unmeasured_powered_off_witness:
  "\<exists>rs. scan_cluster hot_repo ''c1'' = Inr rs \<and> (\<exists>x \<in> set rs. ir_node_name x = ''n2'' \<and> ir_reclaim_action x = ''power_off_gpu'')"
proof -
  have st: "sr_state hot_repo ''c1'' = Some hot_state" by (simp add: hot_defs)
  obtain rs where rs: "scan_cluster hot_repo ''c1'' = Inr rs"
    by (simp add: scan_cluster_def need_cluster_def need_state_def hot_defs)
  have "(node_with ''n2'' [gpu_of 80 0], gpu_of 80 0, plain_gpu (gpu_of 80 0)) \<in> set (merged_devices hot_state)"
    by code_simp
  moreover have "\<not> measured hot_state (''n2'', 0)" "used_pct (plain_gpu (gpu_of 80 0)) < 2" by code_simp+
  moreover have "ns_name (node_with ''n2'' [gpu_of 80 0]) = ''n2''" "gs_index (gpu_of 80 0) = 0" by (simp_all add: node_with_def gpu_of_def)
  ultimately show ?thesis using unmeasured_powered_off [OF rs st] rs by metis
qed

theorem plan_sound_witness:
  "\<exists>p. analyze_and_plan hot_repo ''c1'' = Inr p \<and> (\<exists>f \<in> set (op_predicted_failures p). 1 / 2 \<le> pf_risk_score f) \<and> op_actions p \<noteq> []"
proof -
  have st: "sr_state hot_repo ''c1'' = Some hot_state" by (simp add: hot_defs)
  obtain p where p: "analyze_and_plan hot_repo ''c1'' = Inr p"
    by (simp add: analyze_and_plan_def need_cluster_def need_state_def hot_defs Let_def)
  have "List.map_filter predicted_failure (merged_devices hot_state) \<noteq> []" by code_simp
  then show ?thesis using plan_sound [OF p st] p by (metis list.set_intros(1) neq_Nil_conv)
qed

end
