(* ===== verification/Guardrails.thy ===== *)
theory Guardrails
  imports Remediation Policy
begin

text \<open>
  How the remediation engine and the guardrails of the repository fit together: the policies and
  approvals that the policy engine and the approval workflow keep are rows of the same repository
  that a remediation actuates through.
\<close>

text \<open>
  A result of a step on the engine and the repository, with the repository's guardrails replaced.
\<close>

definition guarded_result ::
  "policy_rule list \<Rightarrow> approval_row list \<Rightarrow> (engine \<times> repo) \<times> 'r \<Rightarrow> (engine \<times> repo) \<times> 'r" where
  "guarded_result ps as = (\<lambda>((g, s), r). ((g, with_guardrails ps as s), r))"

lemma guardrails_actuate_json:
  "actuate_json b e c rid dry (with_guardrails ps as s)
     = (case actuate_json b e c rid dry s of
          Inl err \<Rightarrow> Inl err | Inr (s', rec) \<Rightarrow> Inr (with_guardrails ps as s', rec))"
  by (auto simp: actuate_json_def guardrails_actuate Let_def try_bind_def split: sum.split prod.split)

lemma guardrails_execute_action:
  "execute_action x a c (with_guardrails ps as s)
     = (let (s', oc) = execute_action x a c s in (with_guardrails ps as s', oc))"
  by (simp add: execute_action_def actuate_recommendation_def guardrails_actuate_json
      Let_def split: sum.split list.split prod.split option.split)

lemma guardrails_run_actions:
  "run_actions xs n c acts (with_guardrails ps as s)
     = (let (s', acts') = run_actions xs n c acts s in (with_guardrails ps as s', acts'))"
proof (induction acts arbitrary: n s)
  case (Cons a acts)
  then show ?case
    by (simp add: run_action_def guardrails_execute_action Let_def case_prod_unfold)
qed simp

text \<open>
  C22: automatic remediation passes by the guardrails: whatever policies and approvals the repository
  holds, an alert and a violated policy trigger the same rule, with the same run, the same actions
  and results and the same changes to twins and actuations, as they would with any other ones.
\<close>

theorem remediation_ignores_guardrails:
  "evaluate_alert e al (g, with_guardrails ps as s) = guarded_result ps as (evaluate_alert e al (g, s))
   \<and> rem_evaluate_policy e p c (g, with_guardrails ps as s) = guarded_result ps as (rem_evaluate_policy e p c (g, s))"
  by (simp add: evaluate_alert_def rem_evaluate_policy_def execute_rule_def guardrails_run_actions guarded_result_def Let_def
      in_cooldown_def case_prod_unfold split: option.split)

subsection \<open>A blocked actuation that goes ahead\<close>

text \<open>
  A cluster in production with a recommendation, a policy that allows only development, and a rule that
  actuates live.
\<close>

definition blocked_id :: uuid where
  "blocked_id = ''00000000-0000-0000-0000-000000000001''"

definition blocked_repo :: repo where
  "blocked_repo = empty_repo\<lparr>re_clusters := [\<lparr>cl_id = blocked_id, cl_name = ''east'', cl_environment = ''prod''\<rparr>],
     re_recommendations := [\<lparr>rs_id = ''s1'', rs_cluster_id = blocked_id, rs_generated_at = 5,
        rs_recommendations = [sample_rec ''Consolidate pods'']\<rparr>]\<rparr>"

definition only_dev :: "policy_rule list" where
  "only_dev = [sample_policy ''p'' (EnvironmentRule [''dev''] [])]"

definition live_engine :: engine where
  "live_engine = \<lparr>rg_rules = [(''n1'', sample_rule\<lparr>rr_actions := [template ''x'' ACTUATE_RECOMMENDATION [] [(''dry_run'', JBool False)]]\<rparr>)],
     rg_runs = [], rg_last_run = []\<rparr>"

definition blocked_alert :: alert where
  "blocked_alert = sample_alert\<lparr>al_cluster_id := blocked_id\<rparr>"

lemma blocked_verdict:
  "\<exists>f. check_pre_flight blocked_id ''r1'' ''prod'' (\<lambda>_. 0) 0 (with_guardrails only_dev [] blocked_repo) = Inr f \<and> \<not> pf_overall_passed f"
  by (simp add: with_guardrails_def only_dev_def sample_policies_defs Let_def)

lemma live_run:
  "case evaluate_alert (sample_eval ''q1'' 10) blocked_alert (live_engine, blocked_repo) of
     ((g, s), Some run) \<Rightarrow> rn_status run = RS_COMPLETED \<and> length (re_twins s) = 1 \<and> length (re_actuations s) = 1
   | _ \<Rightarrow> False"
  by code_simp

theorem remediation_ignores_guardrails_witness:
  "\<exists>g s run f. evaluate_alert (sample_eval ''q1'' 10) blocked_alert (live_engine, with_guardrails only_dev [] blocked_repo)
       = ((g, with_guardrails only_dev [] s), Some run)
     \<and> rn_status run = RS_COMPLETED \<and> length (re_twins s) = 1
     \<and> check_pre_flight blocked_id ''r1'' ''prod'' (\<lambda>_. 0) 0 (with_guardrails only_dev [] blocked_repo) = Inr f \<and> \<not> pf_overall_passed f"
proof -
  obtain g s run where "evaluate_alert (sample_eval ''q1'' 10) blocked_alert (live_engine, blocked_repo) = ((g, s), Some run)"
    "rn_status run = RS_COMPLETED" "length (re_twins s) = 1"
    using live_run by (auto split: prod.splits option.splits)
  then show ?thesis using blocked_verdict
    by (auto simp: remediation_ignores_guardrails [THEN conjunct1] guarded_result_def)
qed

end
