(* ===== verification/Analysis.thy ===== *)
theory Analysis
  imports Traces
begin

text \<open>
  The workload analysis, src/src/gpuopt/analysis.py, with the table of analyses of
  src/src/gpuopt/repository.py and the analysis routes of src/src/gpuopt/api.py: what the stored traces
  of a cluster say about its GPUs and nodes. The identifier of a result and the time of its
  generation are arguments.
\<close>

subsection \<open>Results\<close>

record gpu_trend =
  ut_gpu_uuid :: string
  ut_node :: string
  ut_gpu_index :: int
  ut_model :: string
  ut_memory_total_bytes :: int
  ut_avg_utilization_percent :: rat
  ut_peak_utilization_percent :: rat
  ut_min_utilization_percent :: rat
  ut_avg_memory_used_bytes :: rat
  ut_peak_memory_used_bytes :: int
  ut_avg_temperature_celsius :: rat
  ut_peak_temperature_celsius :: rat
  ut_idle_percent :: rat
  ut_memory_pressure_percent :: rat
  ut_sample_count :: int

record node_efficiency =
  nf_node_name :: string
  nf_status :: string
  nf_gpu_count :: int
  nf_avg_gpu_utilization_percent :: rat
  nf_gpu_idle_percent :: rat
  nf_avg_memory_utilization_percent :: rat
  nf_pod_count_avg :: rat
  nf_pod_capacity :: int
  nf_efficiency_score :: rat
  nf_recommendations :: "piece list list"

record workload_analysis =
  wa_id :: uuid
  wa_cluster_id :: uuid
  wa_cluster_name :: string
  wa_environment :: string
  wa_generated_at :: datetime
  wa_timeframe_hours :: rat
  wa_trace_count :: int
  wa_node_count :: int
  wa_gpu_count :: int
  wa_total_gpu_hours :: rat
  wa_gpu_trends :: "gpu_trend list"
  wa_node_efficiencies :: "node_efficiency list"
  wa_overall_efficiency_score :: rat
  wa_total_idle_gpu_hours :: rat
  wa_estimated_power_waste_kwh :: rat
  wa_summary :: "piece list"

subsection \<open>Samples\<close>

text \<open>The traces hold no utilisation and no temperature; the samples carry mean0_const for them.\<close>

record gpu_sample =
  us_node :: string
  us_index :: int
  us_uuid :: string
  us_model :: string
  us_memory_total :: int
  us_memory_used :: int
  us_utilization :: rat
  us_temperature :: rat
  us_status :: string

definition sample_of :: "node_state \<Rightarrow> gpu_state \<Rightarrow> gpu_sample" where
  "sample_of n g =
     \<lparr>us_node = ns_name n, us_index = gs_index g, us_uuid = gs_uuid g, us_model = gs_model g, us_memory_total = gs_memory_total_bytes g,
      us_memory_used = gs_memory_used_bytes g, us_utilization = 0, us_temperature = 0, us_status = gs_status g\<rparr>"

definition sample_key :: "node_state \<Rightarrow> gpu_state \<Rightarrow> string" where
  "sample_key n g = (if gs_uuid g \<noteq> [] then gs_uuid g else ns_name n @ ''/gpu-'' @ int_str (gs_index g))"

text \<open>\<open>if k not in d: d[k] = []\<close>, then \<open>d[k].append(v)\<close>.\<close>

definition dict_append :: "'k \<Rightarrow> 'v \<Rightarrow> ('k, 'v list) dict \<Rightarrow> ('k, 'v list) dict" where
  "dict_append k v d = dict_set k (dict_get_or d k [] @ [v]) d"

definition gpu_samples :: "cluster_state list \<Rightarrow> (string, gpu_sample list) dict" where
  "gpu_samples states =
     fold (\<lambda>st. fold (\<lambda>n. fold (\<lambda>g. dict_append (sample_key n g) (sample_of n g)) (ns_gpu_devices n)) (cs_nodes st)) states []"

definition node_samples :: "cluster_state list \<Rightarrow> (string, node_state list) dict" where
  "node_samples states = fold (\<lambda>st. fold (\<lambda>n. dict_append (ns_name n) n) (cs_nodes st)) states []"

subsection \<open>Trends\<close>

text \<open>The mean, the largest and the smallest of a list that is not empty, and zero of an empty one.\<close>

definition mean0 :: "rat list \<Rightarrow> rat" where
  "mean0 xs = (if xs \<noteq> [] then sum_list xs / of_nat (length xs) else 0)"

definition list_max0 :: "('a::{linorder,zero}) list \<Rightarrow> 'a" where
  "list_max0 xs = (case xs of [] \<Rightarrow> 0 | y # ys \<Rightarrow> foldl max y ys)"

definition list_min0 :: "('a::{linorder,zero}) list \<Rightarrow> 'a" where
  "list_min0 xs = (case xs of [] \<Rightarrow> 0 | y # ys \<Rightarrow> foldl min y ys)"

definition count_share :: "('a \<Rightarrow> bool) \<Rightarrow> 'a list \<Rightarrow> rat" where
  "count_share P xs = (if xs \<noteq> [] then py_round 1 (of_nat (length (filter P xs)) / of_nat (length xs) * 100) else 0)"

definition under_pressure :: "gpu_sample \<Rightarrow> bool" where
  "under_pressure s \<longleftrightarrow>
     0 < us_memory_total s \<and> 80 < (of_int (us_memory_used s) / of_int (us_memory_total s) :: rat) * 100"

definition trend_of :: "string \<times> gpu_sample list \<Rightarrow> gpu_trend" where
  "trend_of = (\<lambda>(key, ss).
     let utils = map us_utilization ss; mems = map us_memory_used ss; temps = map us_temperature ss; first = hd ss in
     \<lparr>ut_gpu_uuid = key, ut_node = us_node first, ut_gpu_index = us_index first, ut_model = us_model first,
      ut_memory_total_bytes = us_memory_total first, ut_avg_utilization_percent = py_round 1 (mean0 utils),
      ut_peak_utilization_percent = py_round 1 (list_max0 utils), ut_min_utilization_percent = py_round 1 (list_min0 utils),
      ut_avg_memory_used_bytes = of_int (round_half_even (mean0 (map of_int mems))), ut_peak_memory_used_bytes = list_max0 mems,
      ut_avg_temperature_celsius = py_round 1 (mean0 temps), ut_peak_temperature_celsius = py_round 1 (list_max0 temps),
      ut_idle_percent = count_share (\<lambda>u. u < 10) utils, ut_memory_pressure_percent = count_share under_pressure ss,
      ut_sample_count = int (length ss)\<rparr>)"

subsection \<open>Nodes\<close>

definition efficiency_score :: "rat \<Rightarrow> rat \<Rightarrow> rat \<Rightarrow> rat" where
  "efficiency_score avg_util avg_mem idle =
     (let score = min (avg_util / 80) 1 * 50 + min (avg_mem / 80) 1 * 25 - max 0 ((idle - 20) / 80) * 25 in
      py_round 1 (max 0 (min 100 score)))"

definition memory_shares :: "node_state list \<Rightarrow> rat list" where
  "memory_shares ns =
     map (\<lambda>g. of_int (gs_memory_used_bytes g) / of_int (gs_memory_total_bytes g) * 100)
       (filter (\<lambda>g. 0 < gs_memory_total_bytes g) (concat (map ns_gpu_devices ns)))"

definition node_advice :: "rat \<Rightarrow> rat \<Rightarrow> rat \<Rightarrow> rat \<Rightarrow> piece list list" where
  "node_advice idle util mem score =
     (if 50 < idle then [[Txt ''GPU idle '', Val (JFloat idle), Txt ''% of the time -- consider workload consolidation or right-sizing'']] else [])
   @ (if util < 30 then [[Txt ''Low average GPU utilization ('', Val (JFloat util), Txt ''%) -- evaluate bin-packing opportunities'']] else [])
   @ (if 85 < mem then [[Txt ''High memory pressure ('', Val (JFloat mem), Txt ''%) -- risk of OOM, consider GPU with more memory'']] else [])
   @ (if score < 40 then [[Txt ''Overall efficiency low -- review GPU allocation and scheduling policies'']] else [])"

definition trends_on :: "string \<Rightarrow> gpu_trend list \<Rightarrow> gpu_trend list" where
  "trends_on node ts = filter (\<lambda>t. ut_node t = node) ts"

definition efficiency_of :: "gpu_trend list \<Rightarrow> string \<times> node_state list \<Rightarrow> node_efficiency" where
  "efficiency_of trends = (\<lambda>(name, ns).
     let own = trends_on name trends;
         util = py_round 1 (mean0 (map ut_avg_utilization_percent own));
         mem = py_round 1 (mean0 (memory_shares ns));
         idle = py_round 1 (sum_list (map ut_idle_percent own) / of_nat (max (length own) 1));
         score = efficiency_score util mem idle in
     \<lparr>nf_node_name = name, nf_status = (if ns \<noteq> [] then ns_status (last ns) else ''Unknown''), nf_gpu_count = int (length own),
      nf_avg_gpu_utilization_percent = util, nf_gpu_idle_percent = idle, nf_avg_memory_utilization_percent = mem,
      nf_pod_count_avg = py_round 1 (mean0 (map (of_int \<circ> ns_pod_count) ns)), nf_pod_capacity = (if ns \<noteq> [] then ns_pod_capacity (hd ns) else 0),
      nf_efficiency_score = score, nf_recommendations = node_advice idle util mem score\<rparr>)"

subsection \<open>The analysis of a cluster\<close>

definition hours_between :: "cluster_state list \<Rightarrow> rat" where
  "hours_between states =
     (if 1 < length states
      then of_int (cs_collected_at (hd states) - cs_collected_at (last states)) / 1000000 / 3600 else 0)"

definition gpu_hours :: "rat \<Rightarrow> nat \<Rightarrow> gpu_trend list \<Rightarrow> rat" where
  "gpu_hours hours n ts = py_round 2 (sum_list (map (\<lambda>t. of_int (ut_sample_count t) * (hours / of_nat (max n 1))) ts))"

definition idle_hours :: "rat \<Rightarrow> nat \<Rightarrow> gpu_trend list \<Rightarrow> rat" where
  "idle_hours hours n ts =
     py_round 2 (sum_list (map (\<lambda>t. ut_idle_percent t / 100 * (of_int (ut_sample_count t) * hours / of_nat (max n 1))) ts))"

definition wasted_kwh :: "rat \<Rightarrow> rat \<Rightarrow> rat" where
  "wasted_kwh hrs idle =
     (let idle_power = idle * 45 / 1000; load_power = (hrs - idle) * 250 / 1000; if_full_load = hrs * 250 / 1000 in
      py_round 2 (if_full_load - load_power - idle_power))"

definition analysis_of :: "uuid \<Rightarrow> datetime \<Rightarrow> cluster \<Rightarrow> cluster_state list \<Rightarrow> workload_analysis" where
  "analysis_of aid now cl states =
     (let n = length states; hours = hours_between states; trends = map trend_of (gpu_samples states);
          effs = map (efficiency_of trends) (node_samples states); hrs = gpu_hours hours n trends; idle = idle_hours hours n trends;
          score = py_round 1 (mean0 (map nf_efficiency_score effs)); waste = wasted_kwh hrs idle in
      \<lparr>wa_id = aid, wa_cluster_id = cl_id cl, wa_cluster_name = cl_name cl, wa_environment = cl_environment cl, wa_generated_at = now,
       wa_timeframe_hours = py_round 2 hours, wa_trace_count = int n, wa_node_count = int (length effs), wa_gpu_count = int (length trends),
       wa_total_gpu_hours = hrs, wa_gpu_trends = trends, wa_node_efficiencies = effs, wa_overall_efficiency_score = score,
       wa_total_idle_gpu_hours = idle, wa_estimated_power_waste_kwh = waste,
       wa_summary = [Txt ''Analyzed '', Val (JInt (int n)), Txt '' trace(s) over '', Fmt ''.1f'' (JFloat hours), Txt ''h; '',
           Val (JInt (int (length trends))), Txt '' GPU(s), overall efficiency '', Val (JFloat score), Txt ''/100'']
         @ (if 0 < idle then [Txt ''; '', Fmt ''.1f'' (JFloat idle), Txt '' GPU-hours idle (est. '', Val (JFloat waste), Txt '' kWh waste)''] else [])\<rparr>)"

record analysis_db = trace_db +
  ad_analyses :: "workload_analysis list"

text \<open>\<open>INSERT OR REPLACE\<close>, by the identifier.\<close>

definition save_analysis :: "workload_analysis \<Rightarrow> 'a analysis_db_scheme \<Rightarrow> 'a analysis_db_scheme" where
  "save_analysis a s = s\<lparr>ad_analyses := replace_row (\<lambda>x y. wa_id x = wa_id y) a (ad_analyses s)\<rparr>"

definition analyses_of :: "uuid \<Rightarrow> 'a analysis_db_scheme \<Rightarrow> workload_analysis list" where
  "analyses_of cid s = select_desc (\<lambda>a. wa_cluster_id a = cid) wa_generated_at (ad_analyses s)"

definition latest_analysis :: "uuid \<Rightarrow> 'a analysis_db_scheme \<Rightarrow> workload_analysis option" where
  "latest_analysis cid s = (case analyses_of cid s of [] \<Rightarrow> None | a # _ \<Rightarrow> Some a)"

definition repo_list_analyses :: "uuid \<Rightarrow> int \<Rightarrow> 'a analysis_db_scheme \<Rightarrow> workload_analysis list" where
  "repo_list_analyses cid lmt s = (if lmt < 0 then analyses_of cid s else take (nat lmt) (analyses_of cid s))"

abbreviation traces_in :: "'a analysis_db_scheme \<Rightarrow> trace_db" where
  "traces_in s \<equiv> trace_db.truncate s"

definition analyze_cluster ::
  "uuid \<Rightarrow> datetime \<Rightarrow> uuid \<Rightarrow> int \<Rightarrow> 'a analysis_db_scheme \<Rightarrow> py_error + ('a analysis_db_scheme \<times> workload_analysis)" where
  "analyze_cluster aid now cid max_traces s =
     try_bind (trace_cluster cid (traces_in s)) (\<lambda>cl.
       let states = map snd (repo_list_traces cid max_traces 0 (traces_in s)) in
       if states = [] then Inl (KeyError ''No trace data available for analysis'')
       else let a = analysis_of aid now cl states in Inr (save_analysis a s, a))"

definition get_latest_analysis :: "uuid \<Rightarrow> 'a analysis_db_scheme \<Rightarrow> py_error + workload_analysis option" where
  "get_latest_analysis cid s = try_bind (trace_cluster cid (traces_in s)) (\<lambda>_. Inr (latest_analysis cid s))"

definition list_analyses :: "uuid \<Rightarrow> int \<Rightarrow> 'a analysis_db_scheme \<Rightarrow> py_error + workload_analysis list" where
  "list_analyses cid lmt s = try_bind (trace_cluster cid (traces_in s)) (\<lambda>_. Inr (repo_list_analyses cid lmt s))"

subsection \<open>Routes\<close>

definition route_analyze_cluster ::
  "uuid \<Rightarrow> datetime \<Rightarrow> uuid \<Rightarrow> int \<Rightarrow> 'a analysis_db_scheme \<Rightarrow> py_error + ('a analysis_db_scheme \<times> workload_analysis)" where
  "route_analyze_cluster aid now cid max_traces s = as_not_found (analyze_cluster aid now cid max_traces s)"

definition route_latest_analysis :: "uuid \<Rightarrow> 'a analysis_db_scheme \<Rightarrow> py_error + workload_analysis" where
  "route_latest_analysis cid s =
     try_bind (as_not_found (get_latest_analysis cid s)) (\<lambda>r.
       case r of None \<Rightarrow> Inl (HTTPException 404 ''No analysis data available'') | Some a \<Rightarrow> Inr a)"

definition route_list_analyses :: "uuid \<Rightarrow> int \<Rightarrow> 'a analysis_db_scheme \<Rightarrow> py_error + workload_analysis list" where
  "route_list_analyses cid lmt s = as_not_found (list_analyses cid lmt s)"

subsection \<open>What the traces cannot show\<close>

definition quiet_samples :: "(string, gpu_sample list) dict \<Rightarrow> bool" where
  "quiet_samples d \<longleftrightarrow> (\<forall>(k, ss) \<in> set d. ss \<noteq> [] \<and> (\<forall>x \<in> set ss. us_utilization x = 0))"

lemma dict_append_mem: "(k', w) \<in> set (dict_append k v d) \<Longrightarrow> (k', w) \<in> set d \<or> w = dict_get_or d k [] @ [v]"
  by (auto simp: dict_append_def dest: dict_set_mem)

lemma dict_get_or_mem: "dict_get_or d k v = v \<or> (k, dict_get_or d k v) \<in> set d"
  by (auto simp: dict_get_or_def map_of_SomeD split: option.split)

lemma quiet_append: "quiet_samples d \<Longrightarrow> us_utilization x = 0 \<Longrightarrow> quiet_samples (dict_append k x d)"
  using dict_get_or_mem [of d k "[]"] unfolding quiet_samples_def by (fastforce dest: dict_append_mem)

lemma gpu_samples_quiet: "quiet_samples (gpu_samples states)"
  unfolding gpu_samples_def
  by (intro fold_keeps [where P = quiet_samples] quiet_append) (simp_all add: sample_of_def quiet_samples_def)

lemma mean0_const: "xs \<noteq> [] \<Longrightarrow> list_all (\<lambda>x. x = c) xs \<Longrightarrow> mean0 xs = c"
proof -
  assume xs: "xs \<noteq> []" "list_all (\<lambda>x. x = c) xs"
  from xs(2) have "sum_list xs = of_nat (length xs) * c" by (induction xs) (auto simp: algebra_simps)
  then show ?thesis using xs by (simp add: mean0_def)
qed

lemma idle_trend:
  assumes "quiet_samples d" and "(k, ss) \<in> set d"
  shows "ut_avg_utilization_percent (trend_of (k, ss)) = 0" and "ut_idle_percent (trend_of (k, ss)) = 100"
proof -
  have ss: "ss \<noteq> []" "\<forall>x \<in> set ss. us_utilization x = 0" using assms by (auto simp: quiet_samples_def)
  then have "mean0 (map us_utilization ss) = 0" by (intro mean0_const) (auto simp: list_all_iff)
  then show "ut_avg_utilization_percent (trend_of (k, ss)) = 0"
    by (simp add: trend_of_def Let_def py_round_int [of _ 0, simplified])
  have "filter (\<lambda>u. u < 10) (map us_utilization ss) = map us_utilization ss"
    using ss by (intro filter_True) auto
  then show "ut_idle_percent (trend_of (k, ss)) = 100"
    using ss py_round_int [of 1 100] by (simp add: trend_of_def Let_def count_share_def)
qed

lemma idle_scores_nothing: "efficiency_score 0 mem 100 = 0"
proof -
  have "min (mem / 80) 1 * 25 \<le> 1 * 25" by (intro mult_right_mono) auto
  then have "max 0 (min 100 (min (0 / 80) 1 * 50 + min (mem / 80) 1 * 25 - max 0 ((100 - 20) / 80) * 25)) = (0::rat)" by simp
  then show ?thesis by (simp add: efficiency_score_def Let_def py_round_int [of _ 0, simplified])
qed

lemma busy_node_idle:
  assumes "\<forall>t \<in> set ts. ut_avg_utilization_percent t = 0 \<and> ut_idle_percent t = 100" and "0 < nf_gpu_count (efficiency_of ts x)"
  shows "nf_avg_gpu_utilization_percent (efficiency_of ts x) = 0 \<and> nf_gpu_idle_percent (efficiency_of ts x) = 100
    \<and> nf_efficiency_score (efficiency_of ts x) = 0"
proof -
  obtain name ns where x: "x = (name, ns)" by (cases x)
  let ?own = "trends_on name ts"
  have own: "?own \<noteq> []" "\<forall>t \<in> set ?own. ut_avg_utilization_percent t = 0 \<and> ut_idle_percent t = 100"
    using assms by (auto simp: x efficiency_of_def Let_def trends_on_def)
  have "mean0 (map ut_avg_utilization_percent ?own) = 0" "mean0 (map ut_idle_percent ?own) = 100"
    using own by (auto intro!: mean0_const simp: list_all_iff)
  moreover have "max (length ?own) 1 = length ?own" using own(1) by (cases ?own) auto
  ultimately have idle: "sum_list (map ut_idle_percent ?own) / of_nat (max (length ?own) 1) = 100" "mean0 (map ut_avg_utilization_percent ?own) = 0"
    using own(1) by (simp_all add: mean0_def)
  then show ?thesis
    using py_round_int [of 1 100] py_round_int [of 1 0]
    by (simp add: x efficiency_of_def Let_def idle_scores_nothing)
qed

lemma idle_all_hours: "\<forall>t \<in> set ts. ut_idle_percent t = 100 \<Longrightarrow> idle_hours h n ts = gpu_hours h n ts"
  by (auto simp: idle_hours_def gpu_hours_def intro!: arg_cong [where f = sum_list] arg_cong [where f = "py_round 2"])

text \<open>
  The analysis of a cluster finds every GPU idle all the time and without load, gives every node
  with GPUs the efficiency 0 and counts all its GPU hours as idle, whatever the traces contain: they
  hold no utilisation, and the analysis takes zero for it.
\<close>

lemma analysis_always_idle:
  assumes "analyze_cluster aid now cid n s = Inr (s', a)"
  shows "(\<forall>t \<in> set (wa_gpu_trends a). ut_avg_utilization_percent t = 0 \<and> ut_idle_percent t = 100)
    \<and> (\<forall>e \<in> set (wa_node_efficiencies a). 0 < nf_gpu_count e \<longrightarrow>
         nf_avg_gpu_utilization_percent e = 0 \<and> nf_gpu_idle_percent e = 100 \<and> nf_efficiency_score e = 0)
    \<and> wa_total_idle_gpu_hours a = wa_total_gpu_hours a \<and> a \<in> set (ad_analyses s')"
proof -
  obtain cl states where a: "a = analysis_of aid now cl states" "s' = save_analysis a s"
    using assms by (auto simp: analyze_cluster_def try_bind_Inr_iff Let_def split: if_splits)
  have idle: "\<forall>t \<in> set (map trend_of (gpu_samples states)). ut_avg_utilization_percent t = 0 \<and> ut_idle_percent t = 100"
    using idle_trend [OF gpu_samples_quiet] by auto
  have "a \<in> set (ad_analyses s')" by (simp add: a(2) save_analysis_def replace_row_def)
  then show ?thesis
    using idle busy_node_idle [OF idle] idle_all_hours [of "map trend_of (gpu_samples states)"]
    by (simp add: a(1) analysis_of_def Let_def)
qed

end
