(* ===== verification/Advice.thy ===== *)
theory Advice
  imports Analysis "HOL-Library.Product_Lexorder"
begin

text \<open>
  Recommendations, src/src/gpuopt/recommendations.py with the types of schemas.py: the finders of each
  kind of recommendation, over the latest state and the latest analysis of a cluster, before they are
  numbered, scored and ranked (\<open>Recommend\<close>). The clock is an argument.
\<close>

subsection \<open>Recommendations\<close>

datatype rec_severity = ADV_CRITICAL | ADV_HIGH | ADV_MEDIUM | ADV_LOW | ADV_INFO

datatype rec_status = REC_PENDING | REC_APPROVED | REC_DISMISSED | REC_IMPLEMENTED

fun rec_status_value :: "rec_status \<Rightarrow> string" where
  "rec_status_value REC_PENDING = ''pending''"
| "rec_status_value REC_APPROVED = ''approved''"
| "rec_status_value REC_DISMISSED = ''dismissed''"
| "rec_status_value REC_IMPLEMENTED = ''implemented''"

definition read_rec_status :: "string \<Rightarrow> py_error + rec_status" where
  "read_rec_status t =
     (case find (\<lambda>s. rec_status_value s = t) [REC_PENDING, REC_APPROVED, REC_DISMISSED, REC_IMPLEMENTED] of
        None \<Rightarrow> Inl (ValueError (quoted t @ '' is not a valid RecommendationStatus'')) | Some s \<Rightarrow> Inr s)"

record advice =
  av_id :: uuid
  av_type :: recommendation_type
  av_severity :: rec_severity
  av_title :: "piece list"
  av_description :: "piece list"
  av_reasoning :: "piece list"
  av_expected_impact :: "piece list"
  av_confidence :: rat
  av_risk_level :: string
  av_affected_resources :: "string list"
  av_actions :: "string list"
  av_estimated_savings :: "(string, rat) dict"
  av_created_at :: datetime
  av_score :: rat
  av_status :: rec_status

record advice_set =
  as_id :: uuid
  as_cluster_id :: uuid
  as_cluster_name :: string
  as_environment :: string
  as_generated_at :: datetime
  as_based_on_state_at :: "datetime option"
  as_based_on_analysis_at :: "datetime option"
  as_recommendation_count :: int
  as_critical_count :: int
  as_high_count :: int
  as_medium_count :: int
  as_recommendations :: "advice list"
  as_summary :: "piece list"
  as_avg_score :: rat
  as_total_estimated_savings_gpu_hours :: rat
  as_top_recommendation :: "piece list"

subsection \<open>Recommendations from the state\<close>

definition gib :: "int \<Rightarrow> rat" where
  "gib b = of_int b / 1024 ^ 3"

definition whole :: "rat \<Rightarrow> piece" where
  "whole x = Fmt ''.0f'' (JFloat x)"

definition gpu_hot :: "gpu_state \<Rightarrow> bool" where
  "gpu_hot g \<longleftrightarrow> of_int (gs_memory_total_bytes g) * (85 / 100) < (of_int (gs_memory_used_bytes g) :: rat)"

definition imbalance_rec :: "datetime \<Rightarrow> node_state \<Rightarrow> gpu_state \<Rightarrow> gpu_state \<Rightarrow> advice" where
  "imbalance_rec now n hot free =
     (let ratio = py_round 1 (of_int (gs_memory_used_bytes hot) / of_int (max (gs_memory_total_bytes free) 1) * 100);
          h = int_str (gs_index hot); f = int_str (gs_index free) in
      \<lparr>av_id = [], av_type = PLACEMENT, av_severity = ADV_MEDIUM, av_title = [Txt ''GPU memory imbalance across devices''],
       av_description = [Txt (''GPU '' @ h @ '' on '' @ ns_name n @ '' is at ''), Val (JFloat ratio),
         Txt (''% memory usage while GPU '' @ f @ '' on same node is nearly idle.'')],
       av_reasoning = [Txt (''GPU '' @ h @ '' ('' @ gs_uuid hot @ ''): ''), whole (gib (gs_memory_used_bytes hot)), Txt ''GiB used / '',
         whole (gib (gs_memory_total_bytes hot)), Txt (''GiB total. GPU '' @ f @ '' ('' @ gs_uuid free @ ''): ''),
         whole (gib (gs_memory_used_bytes free)), Txt ''GiB used.''],
       av_expected_impact = [Txt ''Better memory-balanced GPU utilization across available devices.''], av_confidence = 65 / 100,
       av_risk_level = ''low'', av_affected_resources = [gs_uuid hot, gs_uuid free],
       av_actions = [''Review pod placement for GPU '' @ h, ''Consider rebalancing workloads between GPU '' @ h @ '' and GPU '' @ f],
       av_estimated_savings = [(''memory_balance_improvement'', py_round 1 (ratio - 10))], av_created_at = now, av_score = 0,
       av_status = REC_PENDING\<rparr>)"

definition idle_node_rec :: "datetime \<Rightarrow> node_state \<Rightarrow> gpu_state list \<Rightarrow> advice" where
  "idle_node_rec now n free =
     \<lparr>av_id = [], av_type = PLACEMENT, av_severity = ADV_LOW, av_title = [Txt (''All GPUs idle on '' @ ns_name n)],
      av_description = [Txt ''All '', Val (count_val (ns_gpu_devices n)), Txt ('' GPU(s) on '' @ ns_name n @ '' are below 10% memory utilization.'')],
      av_reasoning = [Txt (''Entire node'' @ [CHR 0x27] @ ''s GPU capacity is unused. Workloads could be placed here without contention.'')],
      av_expected_impact = [Txt ''Utilize available GPU capacity.''], av_confidence = 9 / 10, av_risk_level = ''low'',
      av_affected_resources = map gs_uuid free, av_actions = [''Schedule pending GPU workloads to '' @ ns_name n],
      av_estimated_savings = [(''unused_gpu_count'', of_nat (length free))], av_created_at = now, av_score = 0, av_status = REC_PENDING\<rparr>"

definition placement_recs_of :: "datetime \<Rightarrow> node_state \<Rightarrow> advice list" where
  "placement_recs_of now n =
     (let free = filter gpu_idle (ns_gpu_devices n); hot = filter gpu_hot (ns_gpu_devices n) in
      (case free of [] \<Rightarrow> [] | f # _ \<Rightarrow> map (\<lambda>h. imbalance_rec now n h f) hot)
      @ (if free \<noteq> [] \<and> length free = length (ns_gpu_devices n) then [idle_node_rec now n free] else []))"

definition gpu_placement_recs :: "datetime \<Rightarrow> cluster_state \<Rightarrow> advice list" where
  "gpu_placement_recs now st = concat (map (placement_recs_of now) (cs_nodes st))"

definition memory_pct :: "gpu_state \<Rightarrow> rat" where
  "memory_pct g = of_int (gs_memory_used_bytes g) / of_int (gs_memory_total_bytes g) * 100"

definition oom_rec :: "datetime \<Rightarrow> node_state \<Rightarrow> gpu_state \<Rightarrow> advice" where
  "oom_rec now n g =
     \<lparr>av_id = [], av_type = RISK_MITIGATION, av_severity = ADV_CRITICAL,
      av_title = [Txt (''OOM risk on '' @ ns_name n @ '' GPU '' @ int_str (gs_index g))],
      av_description = [Txt ''GPU memory usage at '', whole (memory_pct g), Txt ''% ('', whole (gib (gs_memory_used_bytes g)), Txt ''/'',
        whole (gib (gs_memory_total_bytes g)), Txt '' GiB).''],
      av_reasoning = [Txt ''Memory pressure exceeds 90% threshold. Workload may OOM if demand increases.''],
      av_expected_impact = [Txt ''Prevent GPU OOM failures and workload disruption.''], av_confidence = 85 / 100, av_risk_level = ''high'',
      av_affected_resources = [gs_uuid g],
      av_actions = [''Migrate or resize workload consuming this GPU'', ''Consider a GPU with larger memory capacity''],
      av_estimated_savings = [(''oom_risk_reduction'', 1)], av_created_at = now, av_score = 0, av_status = REC_PENDING\<rparr>"

definition pressure_rec :: "datetime \<Rightarrow> node_state \<Rightarrow> gpu_state \<Rightarrow> advice" where
  "pressure_rec now n g =
     \<lparr>av_id = [], av_type = RISK_MITIGATION, av_severity = ADV_HIGH,
      av_title = [Txt (''Elevated memory pressure on '' @ ns_name n @ '' GPU '' @ int_str (gs_index g))],
      av_description = [Txt ''GPU memory at '', whole (memory_pct g), Txt ''% -- approaching critical threshold.''],
      av_reasoning = [Txt ''Sustained high memory usage increases OOM risk during workload spikes.''],
      av_expected_impact = [Txt ''Reduce memory-related failure risk.''], av_confidence = 7 / 10, av_risk_level = ''medium'',
      av_affected_resources = [gs_uuid g], av_actions = [''Monitor memory growth trend'', ''Evaluate if workload can use memory more efficiently''],
      av_estimated_savings = [(''risk_reduction'', 1)], av_created_at = now, av_score = 0, av_status = REC_PENDING\<rparr>"

definition risk_recs_of :: "datetime \<Rightarrow> node_state \<Rightarrow> gpu_state \<Rightarrow> advice list" where
  "risk_recs_of now n g =
     (if gs_memory_total_bytes g \<le> 0 then []
      else if 90 < memory_pct g then [oom_rec now n g]
      else if 75 < memory_pct g then [pressure_rec now n g] else [])"

definition risk_mitigation_recs :: "datetime \<Rightarrow> cluster_state \<Rightarrow> advice list" where
  "risk_mitigation_recs now st = concat (map (\<lambda>n. concat (map (risk_recs_of now n) (ns_gpu_devices n))) (cs_nodes st))"

subsection \<open>Recommendations from the analysis\<close>

definition gpus_of :: "node_efficiency \<Rightarrow> string list" where
  "gpus_of e = map (\<lambda>i. nf_node_name e @ ''/gpu-'' @ nat_str i) [0..<nat (nf_gpu_count e)]"

definition idle_gpus_rec :: "datetime \<Rightarrow> workload_analysis \<Rightarrow> node_efficiency \<Rightarrow> advice" where
  "idle_gpus_rec now a e =
     \<lparr>av_id = [], av_type = EFFICIENCY, av_severity = ADV_HIGH,
      av_title = [Txt (''GPUs on '' @ nf_node_name e @ '' idle ''), whole (nf_gpu_idle_percent e), Txt ''% of the time''],
      av_description = [Val (JInt (nf_gpu_count e)), Txt ('' GPU(s) on '' @ nf_node_name e @ '' are idle over ''), whole (nf_gpu_idle_percent e),
        Txt ''% of observed period.''],
      av_reasoning = [Txt ''Efficiency score: '', Val (JFloat (nf_efficiency_score e)),
        Txt ''/100. Idle GPUs waste power without contributing to throughput.''],
      av_expected_impact = [Txt ''Reduce power consumption and free GPU capacity for other workloads.''], av_confidence = 8 / 10,
      av_risk_level = ''low'', av_affected_resources = gpus_of e,
      av_actions = [''Consolidate workloads to fewer nodes'', ''Power-off idle GPUs or node'', ''Reschedule batch workloads to fill gaps''],
      av_estimated_savings = [(''potential_idle_reduction_hours'', py_round 1 (wa_total_idle_gpu_hours a))], av_created_at = now, av_score = 0,
      av_status = REC_PENDING\<rparr>"

definition low_use_rec :: "datetime \<Rightarrow> node_efficiency \<Rightarrow> advice" where
  "low_use_rec now e =
     \<lparr>av_id = [], av_type = EFFICIENCY, av_severity = ADV_MEDIUM, av_title = [Txt (''Very low GPU utilization on '' @ nf_node_name e)],
      av_description = [Txt ''Average GPU utilization is only '', whole (nf_avg_gpu_utilization_percent e), Txt ''% across '',
        Val (JInt (nf_gpu_count e)), Txt '' GPU(s).''],
      av_reasoning = [Txt ''GPUs are significantly underutilized. This may indicate oversized GPU allocations.''],
      av_expected_impact = [Txt ''Improve resource utilization and reduce cost.''], av_confidence = 75 / 100, av_risk_level = ''low'',
      av_affected_resources = gpus_of e,
      av_actions = [''Investigate if workloads need the current GPU count'', ''Consider GPU sharing or MIG partitioning''],
      av_estimated_savings = [(''utilization_gain'', py_round 1 (80 - nf_avg_gpu_utilization_percent e))], av_created_at = now, av_score = 0,
      av_status = REC_PENDING\<rparr>"

definition efficiency_recs_of :: "datetime \<Rightarrow> workload_analysis \<Rightarrow> node_efficiency \<Rightarrow> advice list" where
  "efficiency_recs_of now a e =
     (if 60 < nf_gpu_idle_percent e \<and> 0 < nf_gpu_count e then [idle_gpus_rec now a e] else [])
     @ (if nf_avg_gpu_utilization_percent e < 20 \<and> 0 < nf_gpu_count e then [low_use_rec now e] else [])"

definition efficiency_recs :: "datetime \<Rightarrow> workload_analysis \<Rightarrow> advice list" where
  "efficiency_recs now a = concat (map (efficiency_recs_of now a) (wa_node_efficiencies a))"

definition scaling_recs :: "datetime \<Rightarrow> workload_analysis \<Rightarrow> advice list" where
  "scaling_recs now a =
     (if wa_overall_efficiency_score a < 30 \<and> 4 \<le> wa_gpu_count a
      then [\<lparr>av_id = [], av_type = SCALING, av_severity = ADV_MEDIUM,
        av_title = [Txt ''Cluster-wide efficiency below 30% across '', Val (JInt (wa_gpu_count a)), Txt '' GPUs''],
        av_description = [Txt ''Overall efficiency score: '', Val (JFloat (wa_overall_efficiency_score a)), Txt ''/100. Estimated power waste: '',
          Val (JFloat (wa_estimated_power_waste_kwh a)), Txt '' kWh.''],
        av_reasoning = [Txt ''Persistent low efficiency across the cluster suggests over-provisioning relative to workload demand.''],
        av_expected_impact = [Txt ''Reduce operational cost and power consumption.''], av_confidence = 7 / 10, av_risk_level = ''medium'',
        av_affected_resources = map nf_node_name (filter (\<lambda>e. nf_efficiency_score e < 40) (wa_node_efficiencies a)),
        av_actions = [''Evaluate reducing GPU node count'', ''Consolidate workloads before adding new capacity'', ''Review GPU allocation policies''],
        av_estimated_savings = [(''estimated_kwh_savings'', wa_estimated_power_waste_kwh a)], av_created_at = now, av_score = 0,
        av_status = REC_PENDING\<rparr>]
      else [])"

definition right_sizing_rec :: "datetime \<Rightarrow> gpu_trend \<Rightarrow> advice" where
  "right_sizing_rec now t =
     (let share = ut_avg_memory_used_bytes t / of_int (ut_memory_total_bytes t) in
      \<lparr>av_id = [], av_type = RIGHT_SIZING, av_severity = ADV_LOW,
       av_title = [Txt (''GPU '' @ take 16 (ut_gpu_uuid t) @ ''... may be over-provisioned'')],
       av_description = [Txt ''Average memory utilization: '', whole (share * 100), Txt ''% of '', whole (gib (ut_memory_total_bytes t)), Txt ''GiB.''],
       av_reasoning = [Txt (''GPU '' @ ut_model t @ '' has ''), whole (gib (ut_memory_total_bytes t)), Txt ''GiB but workloads only use ~'',
         whole (ut_avg_memory_used_bytes t / 1024 ^ 3), Txt ''GiB on average.''],
       av_expected_impact = [Txt ''Lower cost by matching GPU memory to workload requirements.''], av_confidence = 6 / 10, av_risk_level = ''low'',
       av_affected_resources = [ut_gpu_uuid t],
       av_actions = [''Evaluate if a smaller GPU (e.g., '' @ int_str (ut_memory_total_bytes t div 2 div 1024 ^ 3) @ ''GiB) would suffice'',
         ''Consider MIG partitioning to share this GPU''],
       av_estimated_savings = [(''potential_memory_reduction_gib'', py_round 1 (gib (ut_memory_total_bytes t) * (1 - share)))],
       av_created_at = now, av_score = 0, av_status = REC_PENDING\<rparr>)"

definition oversized :: "gpu_trend \<Rightarrow> bool" where
  "oversized t \<longleftrightarrow> 0 < ut_memory_total_bytes t \<and> 0 < ut_avg_memory_used_bytes t
     \<and> ut_avg_memory_used_bytes t / of_int (ut_memory_total_bytes t) < 3 / 10 \<and> 1 < ut_sample_count t"

definition right_sizing_recs :: "datetime \<Rightarrow> cluster_state option \<Rightarrow> workload_analysis option \<Rightarrow> advice list" where
  "right_sizing_recs now st a =
     (case (st, a) of
        (Some _, Some w) \<Rightarrow> map (right_sizing_rec now) (filter oversized (wa_gpu_trends w))
      | _ \<Rightarrow> [])"

end
