(* ===== verification/RecModel.thy ===== *)
theory RecModel
  imports Advice
begin

text \<open>
  The model that scores recommendations, src/src/gpuopt/ml/recommendation_model.py, and the features it
  reads, src/src/gpuopt/ml/features.py. The functions of numpy it calls are a record of functions on
  rows of numbers; what the results rely on, that an element-wise operation on rows of different
  lengths raises and that the mean of rows has their length, is the predicate \<open>broadcasts\<close>. Files
  are not modelled: a model starts fresh and nothing is read back.
\<close>

subsection \<open>Arrays\<close>

record numpy =
  np_mean :: "rat list \<Rightarrow> rat"
  np_std :: "rat list \<Rightarrow> rat"
  np_max :: "rat list \<Rightarrow> rat"
  np_min :: "rat list \<Rightarrow> rat"
  np_mean_rows :: "rat list list \<Rightarrow> rat list"
  np_std_rows :: "rat list list \<Rightarrow> rat list"
  np_sub :: "rat list \<Rightarrow> rat list \<Rightarrow> py_error + rat list"
  np_div :: "rat list \<Rightarrow> rat list \<Rightarrow> py_error + rat list"
  np_add :: "rat list \<Rightarrow> rat list \<Rightarrow> py_error + rat list"
  np_dot :: "rat list \<Rightarrow> rat list \<Rightarrow> py_error + rat"

definition broadcasts :: "numpy \<Rightarrow> bool" where
  "broadcasts np \<longleftrightarrow>
     (\<forall>xs ys. length xs \<noteq> length ys \<and> length xs \<noteq> 1 \<and> length ys \<noteq> 1 \<longrightarrow> (\<exists>e. np_sub np xs ys = Inl e))
   \<and> (\<forall>rows n. rows \<noteq> [] \<and> list_all (\<lambda>r. length r = n) rows \<longrightarrow> length (np_mean_rows np rows) = n)"

definition zero_row :: "nat \<Rightarrow> rat list" where
  "zero_row n = replicate n 0"

subsection \<open>Features\<close>

definition mean_if :: "('a list \<Rightarrow> bool) \<Rightarrow> ('a list \<Rightarrow> rat) \<Rightarrow> 'a list \<Rightarrow> rat" where
  "mean_if P f xs = (if P xs then f xs else 0)"

definition extract_state_features :: "numpy \<Rightarrow> cluster_state \<Rightarrow> (string, rat) dict" where
  "extract_state_features np st =
     (let ns = cs_nodes st; gs = concat (map ns_gpu_devices ns);
          share = (\<lambda>g. of_int (gs_memory_used_bytes g) / of_int (max (gs_memory_total_bytes g) 1) :: rat);
          utils = map (\<lambda>g. share g * 100) (filter (\<lambda>g. 0 < gs_memory_total_bytes g) gs); some_utils = (\<lambda>xs. xs \<noteq> []) in
      [(''node_count'', of_nat (length ns)), (''gpu_count'', of_nat (length gs)),
       (''total_memory_gb'', gib (sum_list (map gs_memory_total_bytes gs))), (''used_memory_gb'', gib (sum_list (map gs_memory_used_bytes gs))),
       (''memory_utilization_pct'', mean_if some_utils (np_mean np) utils),
       (''memory_utilization_std'', mean_if (\<lambda>xs. 1 < length xs) (np_std np) utils),
       (''memory_utilization_max'', mean_if some_utils (np_max np) utils), (''memory_utilization_min'', mean_if some_utils (np_min np) utils),
       (''gpu_idle_count'', of_nat (length (filter gpu_idle gs))), (''gpu_hot_count'', of_nat (length (filter gpu_hot gs))),
       (''node_ready_ratio'', of_nat (length (filter (\<lambda>n. ns_status n = ''Ready'') ns)) / of_nat (max (length ns) 1)),
       (''pod_density'', of_int (sum_list (map ns_pod_count ns)) / of_int (max (sum_list (map ns_pod_capacity ns)) 1)),
       (''memory_fragmentation'', mean_if (\<lambda>xs. 1 < length xs) (np_std np) (map share gs))])"

definition extract_analysis_features :: "numpy \<Rightarrow> workload_analysis \<Rightarrow> (string, rat) dict" where
  "extract_analysis_features np a =
     (let idle = map ut_idle_percent (wa_gpu_trends a); pressure = map ut_memory_pressure_percent (wa_gpu_trends a);
          scores = map nf_efficiency_score (wa_node_efficiencies a) in
      [(''overall_efficiency_score'', wa_overall_efficiency_score a), (''total_idle_gpu_hours'', wa_total_idle_gpu_hours a),
       (''estimated_power_waste_kwh'', wa_estimated_power_waste_kwh a), (''trace_count'', of_int (wa_trace_count a)),
       (''timeframe_hours'', wa_timeframe_hours a), (''total_gpu_hours'', wa_total_gpu_hours a)]
      @ (if wa_gpu_trends a \<noteq> [] then
           [(''avg_gpu_idle_pct'', np_mean np idle), (''max_gpu_idle_pct'', np_max np idle),
            (''avg_memory_pressure_pct'', np_mean np pressure), (''max_memory_pressure_pct'', np_max np pressure)] else [])
      @ (if wa_node_efficiencies a \<noteq> [] then
           [(''min_node_efficiency'', np_min np scores), (''max_node_efficiency'', np_max np scores),
            (''std_node_efficiency'', mean_if (\<lambda>xs. 1 < length xs) (np_std np) scores)] else []))"

fun severity_code :: "rec_severity \<Rightarrow> rat" where
  "severity_code ADV_CRITICAL = 4" | "severity_code ADV_HIGH = 3" | "severity_code ADV_MEDIUM = 2"
| "severity_code ADV_LOW = 1" | "severity_code ADV_INFO = 0"

fun type_code :: "recommendation_type \<Rightarrow> rat" where
  "type_code PLACEMENT = 0" | "type_code RIGHT_SIZING = 1" | "type_code SCALING = 2" | "type_code RISK_MITIGATION = 3"
| "type_code EFFICIENCY = 4"

definition extract_rec_features :: "advice \<Rightarrow> (string, rat) dict" where
  "extract_rec_features r =
     [(''severity_encoded'', severity_code (av_severity r)), (''type_encoded'', type_code (av_type r)), (''confidence'', av_confidence r),
      (''risk_level_encoded'', dict_get_or [(''high'', 2), (''medium'', 1), (''low'', 0)] (av_risk_level r) 0),
      (''total_estimated_savings'', sum_list (map abs (dict_values (av_estimated_savings r)))),
      (''action_count'', of_nat (length (av_actions r))), (''affected_resource_count'', of_nat (length (av_affected_resources r))),
      (''current_score'', av_score r)]"

definition feature_keys :: "string list" where
  "feature_keys = [''severity_encoded'', ''type_encoded'', ''confidence'', ''risk_level_encoded'', ''total_estimated_savings'',
     ''action_count'', ''affected_resource_count'', ''current_score'']"

definition state_feature_keys :: "string list" where
  "state_feature_keys = [''node_count'', ''gpu_count'', ''memory_utilization_pct'', ''memory_utilization_std'', ''gpu_idle_count'',
     ''gpu_hot_count'', ''node_ready_ratio'', ''memory_fragmentation'']"

definition analysis_feature_keys :: "string list" where
  "analysis_feature_keys = [''overall_efficiency_score'', ''total_idle_gpu_hours'', ''estimated_power_waste_kwh'', ''avg_gpu_idle_pct'',
     ''avg_memory_pressure_pct'']"

definition features_at :: "string list \<Rightarrow> (string, rat) dict \<Rightarrow> rat list" where
  "features_at ks fs = map (\<lambda>k. dict_get_or fs k 0) ks"

definition build_feature_vector :: "numpy \<Rightarrow> advice \<Rightarrow> cluster_state option \<Rightarrow> workload_analysis option \<Rightarrow> rat list" where
  "build_feature_vector np r st a =
     features_at feature_keys (extract_rec_features r)
     @ (case st of Some s \<Rightarrow> features_at state_feature_keys (extract_state_features np s) | None \<Rightarrow> zero_row (length state_feature_keys))
     @ (case a of Some w \<Rightarrow> features_at analysis_feature_keys (extract_analysis_features np w)
          | None \<Rightarrow> zero_row (length analysis_feature_keys))"

subsection \<open>Regressor and scaler\<close>

record regressor =
  rw_weights :: "rat list option"
  rw_bias :: rat
  rw_lr :: rat
  rw_fitted :: bool

record scaler =
  sw_mean :: "rat list"
  sw_scale :: "rat list"
  sw_fitted :: bool

definition new_regressor :: regressor where
  "new_regressor = \<lparr>rw_weights = None, rw_bias = 0, rw_lr = 1 / 100, rw_fitted = False\<rparr>"

definition new_scaler :: scaler where
  "new_scaler = \<lparr>sw_mean = [], sw_scale = [], sw_fitted = False\<rparr>"

text \<open>The weights are created before anything can fail; a failing operation leaves the rest as it is.\<close>

definition partial_fit :: "numpy \<Rightarrow> rat list \<Rightarrow> rat \<Rightarrow> regressor \<Rightarrow> regressor \<times> py_error option" where
  "partial_fit np x y r =
     (let w = or_default (rw_weights r) (zero_row (length x)); r1 = r\<lparr>rw_weights := Some w\<rparr> in
      case np_dot np x w of
        Inl e \<Rightarrow> (r1, Some e)
      | Inr p \<Rightarrow> (let err = y - (p + rw_bias r1) in
          case np_add np w (map (\<lambda>v. rw_lr r1 * err * v) x) of
            Inl e \<Rightarrow> (r1, Some e)
          | Inr w' \<Rightarrow> (r1\<lparr>rw_weights := Some w', rw_bias := rw_bias r1 + rw_lr r1 * err, rw_fitted := True\<rparr>, None)))"

definition regressor_predict :: "numpy \<Rightarrow> rat list \<Rightarrow> regressor \<Rightarrow> py_error + rat" where
  "regressor_predict np x r =
     (case rw_weights r of None \<Rightarrow> Inr 50 | Some w \<Rightarrow> try_bind (np_dot np x w) (\<lambda>p. Inr (p + rw_bias r)))"

definition scaler_fit :: "numpy \<Rightarrow> rat list list \<Rightarrow> scaler \<Rightarrow> scaler" where
  "scaler_fit np rows s =
     s\<lparr>sw_mean := np_mean_rows np rows, sw_scale := map (\<lambda>v. if v = 0 then 1 else v) (np_std_rows np rows), sw_fitted := True\<rparr>"

definition transform :: "numpy \<Rightarrow> rat list \<Rightarrow> scaler \<Rightarrow> py_error + rat list" where
  "transform np x s = (if \<not> sw_fitted s then Inr x else try_bind (np_sub np x (sw_mean s)) (\<lambda>d. np_div np d (sw_scale s)))"

subsection \<open>The model\<close>

record rec_model =
  rm_regressor :: "regressor option"
  rm_scaler :: "scaler option"
  rm_feature_importance :: "(string, rat) dict"
  rm_training_count :: int

definition init_fresh :: "numpy \<Rightarrow> py_error + rec_model" where
  "init_fresh np =
     (let sc = scaler_fit np (replicate 2 (zero_row (length feature_keys))) new_scaler in
      try_bind (transform np (zero_row (length feature_keys)) sc) (\<lambda>x.
        case partial_fit np x 50 new_regressor of
          (_, Some e) \<Rightarrow> Inl e
        | (r, None) \<Rightarrow> Inr \<lparr>rm_regressor = Some r, rm_scaler = Some sc, rm_feature_importance = [], rm_training_count = 0\<rparr>))"

definition numpy_score :: "advice \<Rightarrow> rat" where
  "numpy_score r =
     (let base = (case av_severity r of ADV_CRITICAL \<Rightarrow> 90 | ADV_HIGH \<Rightarrow> 70 | ADV_MEDIUM \<Rightarrow> 50 | ADV_LOW \<Rightarrow> 30 | ADV_INFO \<Rightarrow> 10);
          risk = dict_get_or [(''high'', 15), (''medium'', 8), (''low'', 0)] (av_risk_level r) 0;
          savings = min (sum_list (map abs (dict_values (av_estimated_savings r))) / 10) 15 in
      py_round 1 (min (base + av_confidence r * 30 + risk + savings) 100))"

definition score_recommendation ::
  "numpy \<Rightarrow> advice \<Rightarrow> cluster_state option \<Rightarrow> workload_analysis option \<Rightarrow> rec_model \<Rightarrow> rat" where
  "score_recommendation np r st a m =
     (case (rm_regressor m, rm_scaler m) of
        (Some rw, Some sc) \<Rightarrow>
          (case try_bind (transform np (build_feature_vector np r st a) sc) (\<lambda>x. regressor_predict np x rw) of
             Inl _ \<Rightarrow> av_score r
           | Inr p \<Rightarrow> (let predicted = max 0 (min 100 p) in
               if rm_training_count m < 5
               then (let blend = of_int (rm_training_count m) / 5 in py_round 1 (predicted * blend + av_score r * (1 - blend)))
               else py_round 1 predicted))
      | _ \<Rightarrow> numpy_score r)"

definition by_score :: "advice list \<Rightarrow> advice list" where
  "by_score rs = sorted_by (\<lambda>r. (- av_score r, - av_confidence r)) rs"

definition score_recommendation_set ::
  "numpy \<Rightarrow> advice list \<Rightarrow> cluster_state option \<Rightarrow> workload_analysis option \<Rightarrow> rec_model \<Rightarrow> advice list" where
  "score_recommendation_set np rs st a m = by_score (map (\<lambda>r. r\<lparr>av_score := score_recommendation np r st a m\<rparr>) rs)"

text \<open>The importance of each weight in percent of the sum; \<open>or 1.0\<close> for a sum of zero.\<close>

definition update_feature_importance :: "rec_model \<Rightarrow> rec_model" where
  "update_feature_importance m =
     (case rm_regressor m of
        None \<Rightarrow> m
      | Some rw \<Rightarrow> (let coefs = or_default (rw_weights rw) []; s = sum_list (map abs coefs); whole_sum = (if s = 0 then 1 else s);
            keys = feature_keys @ state_feature_keys @ analysis_feature_keys in
          m\<lparr>rm_feature_importance :=
            fold (\<lambda>(k, c). dict_set k (py_round 2 (abs c / whole_sum * 100))) (zip keys coefs) (rm_feature_importance m)\<rparr>))"

definition train_from_feedback ::
  "numpy \<Rightarrow> advice \<Rightarrow> rat \<Rightarrow> cluster_state option \<Rightarrow> workload_analysis option \<Rightarrow> rec_model \<Rightarrow> rec_model" where
  "train_from_feedback np r outcome st a m =
     (let m1 = m\<lparr>rm_training_count := rm_training_count m + 1\<rparr> in
      case (rm_regressor m1, rm_scaler m1) of
        (Some rw, Some sc) \<Rightarrow>
          (case transform np (build_feature_vector np r st a) sc of
             Inl _ \<Rightarrow> m1
           | Inr x \<Rightarrow>
               (case partial_fit np x outcome rw of
                  (rw', Some _) \<Rightarrow> m1\<lparr>rm_regressor := Some rw'\<rparr>
                | (rw', None) \<Rightarrow> update_feature_importance (m1\<lparr>rm_regressor := Some rw'\<rparr>)))
      | _ \<Rightarrow> m1)"

definition outcome_map :: "(string, rat) dict" where
  "outcome_map = [(''implemented'', 95), (''approved'', 75), (''pending'', 50), (''dismissed'', 15)]"

definition train_from_status ::
  "numpy \<Rightarrow> advice \<Rightarrow> string \<Rightarrow> string \<Rightarrow> cluster_state option \<Rightarrow> workload_analysis option \<Rightarrow> rec_model \<Rightarrow> rec_model" where
  "train_from_status np r old new st a m =
     (case dict_get outcome_map new of
        Some y \<Rightarrow> if old \<noteq> new then train_from_feedback np r y st a m else m
      | None \<Rightarrow> m)"

text \<open>
  A batch of several samples calls \<open>fit_transform\<close>, which the scaler does not have; the error is
  caught before anything is assigned. A batch of one sample is a feedback.
\<close>

definition train_batch :: "numpy \<Rightarrow> (advice \<times> rat) list \<Rightarrow> rec_model \<Rightarrow> rec_model" where
  "train_batch np samples m =
     (if samples = [] \<or> rm_regressor m = None \<or> rm_scaler m = None
      then m\<lparr>rm_training_count := rm_training_count m + int (length samples)\<rparr>
      else case samples of
             [(r, y)] \<Rightarrow> train_from_feedback np r y None None m
           | _ \<Rightarrow> m)"

definition reset_model :: "numpy \<Rightarrow> rec_model \<Rightarrow> py_error + rec_model" where
  "reset_model np m = init_fresh np"

subsection \<open>The model never learns\<close>

datatype train_op =
    Feedback advice rat "cluster_state option" "workload_analysis option"
  | StatusChange advice string string "cluster_state option" "workload_analysis option"
  | Batch "(advice \<times> rat) list"
  | ResetModel

fun train_step :: "numpy \<Rightarrow> train_op \<Rightarrow> rec_model \<Rightarrow> py_error + rec_model" where
  "train_step np (Feedback r y st a) m = Inr (train_from_feedback np r y st a m)"
| "train_step np (StatusChange r old new st a) m = Inr (train_from_status np r old new st a m)"
| "train_step np (Batch xs) m = Inr (train_batch np xs m)"
| "train_step np ResetModel m = reset_model np m"

fun train_run :: "numpy \<Rightarrow> train_op list \<Rightarrow> rec_model \<Rightarrow> py_error + rec_model" where
  "train_run np [] m = Inr m"
| "train_run np (x # xs) m = try_bind (train_step np x m) (train_run np xs)"

text \<open>A model whose scaler was fitted to the eight features of a recommendation alone.\<close>

definition stuck :: "numpy \<Rightarrow> rec_model \<Rightarrow> rec_model \<Rightarrow> bool" where
  "stuck np m0 m \<longleftrightarrow> rm_regressor m = rm_regressor m0 \<and> rm_scaler m = rm_scaler m0 \<and> rm_feature_importance m = []"

lemma vector_length: "length (build_feature_vector np r st a) = 21"
  by (simp add: build_feature_vector_def features_at_def feature_keys_def state_feature_keys_def analysis_feature_keys_def zero_row_def
      split: option.split)

lemma fresh_model:
  assumes "broadcasts np" and "init_fresh np = Inr m0"
  obtains rw sc where "rm_regressor m0 = Some rw" "rm_scaler m0 = Some sc" "sw_fitted sc" "length (sw_mean sc) = 8"
    "rm_feature_importance m0 = []" "rm_training_count m0 = 0"
proof -
  let ?rows = "replicate 2 (zero_row (length feature_keys))"
  have "?rows \<noteq> [] \<and> list_all (\<lambda>r. length r = 8) ?rows" by (simp add: feature_keys_def zero_row_def list_all_iff)
  then have len: "length (np_mean_rows np ?rows) = 8" using assms(1) unfolding broadcasts_def by blast
  let ?sc = "scaler_fit np ?rows new_scaler"
  obtain x where x: "transform np (zero_row (length feature_keys)) ?sc = Inr x"
    using assms(2) by (auto simp: init_fresh_def Let_def try_bind_Inr_iff)
  obtain r err where fit: "partial_fit np x 50 new_regressor = (r, err)" by (cases "partial_fit np x 50 new_regressor")
  then have "m0 = \<lparr>rm_regressor = Some r, rm_scaler = Some ?sc, rm_feature_importance = [], rm_training_count = 0\<rparr>"
    using assms(2) x by (cases err) (auto simp: init_fresh_def Let_def)
  moreover have "sw_fitted ?sc" "length (sw_mean ?sc) = 8"
    using len by (simp_all add: scaler_fit_def)
  ultimately show ?thesis by (intro that [of r ?sc]) simp_all
qed

lemma transform_fails:
  assumes "broadcasts np" and "sw_fitted sc" and "length (sw_mean sc) = 8"
  shows "\<exists>e. transform np (build_feature_vector np r st a) sc = Inl e"
proof -
  obtain e where "np_sub np (build_feature_vector np r st a) (sw_mean sc) = Inl e"
    using assms(1,3) vector_length [of np r st a] by (force simp: broadcasts_def)
  then show ?thesis using assms(2) by (simp add: transform_def)
qed

lemma stuck_step:
  assumes "broadcasts np" and m0: "init_fresh np = Inr m0" and "stuck np m0 m"
  shows "\<exists>m'. train_step np x m = Inr m' \<and> stuck np m0 m'"
proof -
  obtain rw sc where sc: "rm_regressor m0 = Some rw" "rm_scaler m0 = Some sc" "sw_fitted sc" "length (sw_mean sc) = 8" "rm_feature_importance m0 = []"
    using fresh_model [OF assms(1,2)] by metis
  have feedback: "stuck np m0 (train_from_feedback np r y st a m)" for r y st a
    using transform_fails [OF assms(1) sc(3,4), of r st a] assms(3) sc
    by (auto simp: train_from_feedback_def stuck_def Let_def)
  show ?thesis
    using feedback assms(3) m0 sc
    by (cases x) (auto simp: train_from_status_def train_batch_def reset_model_def stuck_def split: option.split list.split)
qed

lemma stuck_run:
  assumes "broadcasts np" and "init_fresh np = Inr m0" and "stuck np m0 m"
  shows "\<exists>m'. train_run np xs m = Inr m' \<and> stuck np m0 m'"
  using assms(3)
proof (induction xs arbitrary: m)
  case (Cons x xs)
  then obtain m1 where "train_step np x m = Inr m1" "stuck np m0 m1" using stuck_step [OF assms(1,2)] by blast
  then show ?case using Cons.IH by simp
qed simp

lemma stuck_scores:
  assumes "broadcasts np" and "init_fresh np = Inr m0" and "stuck np m0 m"
  shows "score_recommendation np r st a m = av_score r"
proof -
  obtain rw sc where sc: "rm_regressor m0 = Some rw" "rm_scaler m0 = Some sc" "sw_fitted sc" "length (sw_mean sc) = 8"
    using fresh_model [OF assms(1,2)] by metis
  then show ?thesis
    using transform_fails [OF assms(1) sc(3,4), of r st a] assms(3) by (auto simp: score_recommendation_def stuck_def)
qed

text \<open>
  C13: the model never learns: after any sequence of feedbacks, status changes, batches and resets the
  regressor and the scaler are those of a fresh model, no feature has an importance, and the score
  of a recommendation is the score it came with. The scaler is fitted to eight features and every
  sample has twenty-one.
\<close>

theorem model_never_learns:
  assumes "broadcasts np" and "init_fresh np = Inr m0"
  shows "\<exists>m. train_run np xs m0 = Inr m \<and> rm_regressor m = rm_regressor m0 \<and> rm_scaler m = rm_scaler m0
    \<and> rm_feature_importance m = [] \<and> (\<forall>r st a. score_recommendation np r st a m = av_score r)"
proof -
  have "stuck np m0 m0" using fresh_model [OF assms] by (auto simp: stuck_def)
  then obtain m where "train_run np xs m0 = Inr m" "stuck np m0 m" using stuck_run [OF assms] by blast
  then show ?thesis using stuck_scores [OF assms] by (auto simp: stuck_def)
qed

subsection \<open>A sample\<close>

text \<open>A library in which unequal lengths are errors and every statistic is zero.\<close>

definition plain_numpy :: numpy where
  "plain_numpy =
     \<lparr>np_mean = (\<lambda>_. 0), np_std = (\<lambda>_. 0), np_max = (\<lambda>_. 0), np_min = (\<lambda>_. 0),
      np_mean_rows = (\<lambda>rows. map (\<lambda>_. 0) (hd rows)), np_std_rows = (\<lambda>rows. map (\<lambda>_. 0) (hd rows)),
      np_sub = (\<lambda>xs ys. if length xs = length ys then Inr (map2 (-) xs ys) else Inl (ValueError ''operands could not be broadcast'')),
      np_div = (\<lambda>xs ys. if length xs = length ys then Inr (map2 (/) xs ys) else Inl (ValueError ''operands could not be broadcast'')),
      np_add = (\<lambda>xs ys. if length xs = length ys then Inr (map2 (+) xs ys) else Inl (ValueError ''operands could not be broadcast'')),
      np_dot = (\<lambda>xs ys. if length xs = length ys then Inr (sum_list (map2 (*) xs ys)) else Inl (ValueError ''shapes not aligned''))\<rparr>"

lemma plain_broadcasts: "broadcasts plain_numpy"
  by (auto simp: broadcasts_def plain_numpy_def list_all_iff)

definition fresh_plain :: rec_model where
  "fresh_plain = (case init_fresh plain_numpy of Inr m \<Rightarrow> m | Inl _ \<Rightarrow>
     \<lparr>rm_regressor = None, rm_scaler = None, rm_feature_importance = [], rm_training_count = 0\<rparr>)"

lemma fresh_plain_facts: "init_fresh plain_numpy = Inr fresh_plain" "rm_training_count fresh_plain = 0"
  by code_simp+

definition sample_advice :: advice where
  "sample_advice =
     \<lparr>av_id = ''r1'', av_type = SCALING, av_severity = ADV_HIGH, av_title = [], av_description = [], av_reasoning = [], av_expected_impact = [],
      av_confidence = 8 / 10, av_risk_level = ''low'', av_affected_resources = [], av_actions = [], av_estimated_savings = [],
      av_created_at = 0, av_score = 70, av_status = REC_PENDING\<rparr>"

theorem model_never_learns_witness:
  "\<exists>m. train_run plain_numpy [Feedback sample_advice 95 None None, Batch [(sample_advice, 95), (sample_advice, 15)]] fresh_plain = Inr m
     \<and> rm_regressor m = rm_regressor fresh_plain \<and> score_recommendation plain_numpy sample_advice None None m = 70"
proof -
  have "av_score sample_advice = 70" by (simp add: sample_advice_def)
  then show ?thesis
    using model_never_learns [OF plain_broadcasts fresh_plain_facts(1),
        of "[Feedback sample_advice 95 None None, Batch [(sample_advice, 95), (sample_advice, 15)]]"] by metis
qed

end
