(* ===== verification/Recommend.thy ===== *)
theory Recommend
  imports RecModel "HOL-Library.Multiset"
begin

text \<open>
  The recommendation engine, src/src/gpuopt/recommendations.py, with its table in
  src/src/gpuopt/repository.py and its routes in src/src/gpuopt/api.py: generation, scoring and ranking
  of the recommendations of a cluster, their life cycle, and the projection of their effect. The
  identifiers of the recommendations of a set are given by a function of their position.
\<close>

subsection \<open>The table of sets\<close>

record advice_db = analysis_db +
  ad_sets :: "advice_set list"

definition save_advice :: "advice_set \<Rightarrow> advice_db \<Rightarrow> advice_db" where
  "save_advice r s = s\<lparr>ad_sets := ad_sets s @ [r]\<rparr>"

definition sets_of :: "uuid \<Rightarrow> advice_db \<Rightarrow> advice_set list" where
  "sets_of cid s = select_desc (\<lambda>r. as_cluster_id r = cid) as_generated_at (ad_sets s)"

definition latest_advice :: "uuid \<Rightarrow> advice_db \<Rightarrow> advice_set option" where
  "latest_advice cid s = (case sets_of cid s of [] \<Rightarrow> None | r # _ \<Rightarrow> Some r)"

definition repo_list_advice :: "uuid \<Rightarrow> int \<Rightarrow> advice_db \<Rightarrow> advice_set list" where
  "repo_list_advice cid lmt s = (if lmt < 0 then sets_of cid s else take (nat lmt) (sets_of cid s))"

text \<open>The first recommendation with the identifier gets the status; the set is written back under its identifier.\<close>

fun mark_first :: "uuid \<Rightarrow> rec_status \<Rightarrow> advice list \<Rightarrow> advice list" where
  "mark_first i st [] = []"
| "mark_first i st (r # rs) = (if av_id r = i then r\<lparr>av_status := st\<rparr> # rs else r # mark_first i st rs)"

definition update_rec_status :: "uuid \<Rightarrow> uuid \<Rightarrow> string \<Rightarrow> advice_db \<Rightarrow> py_error + (advice_db \<times> advice option)" where
  "update_rec_status cid i status s =
     (case latest_advice cid s of
        None \<Rightarrow> Inr (s, None)
      | Some set0 \<Rightarrow>
          (case find (\<lambda>r. av_id r = i) (as_recommendations set0) of
             None \<Rightarrow> Inr (s, None)
           | Some r \<Rightarrow> try_bind (read_rec_status status) (\<lambda>st.
               let set1 = set0\<lparr>as_recommendations := mark_first i st (as_recommendations set0)\<rparr> in
               Inr (s\<lparr>ad_sets := map (\<lambda>x. if as_id x = as_id set0 then set1 else x) (ad_sets s)\<rparr>, Some (r\<lparr>av_status := st\<rparr>)))))"

subsection \<open>Generation\<close>

definition severity_base :: "rec_severity \<Rightarrow> rat" where
  "severity_base s = (case s of ADV_CRITICAL \<Rightarrow> 90 | ADV_HIGH \<Rightarrow> 70 | ADV_MEDIUM \<Rightarrow> 50 | ADV_LOW \<Rightarrow> 30 | ADV_INFO \<Rightarrow> 10)"

definition heuristic_score :: "advice \<Rightarrow> rat" where
  "heuristic_score r =
     (let confidence = av_confidence r * 100 * (3 / 10);
          risk = (if av_risk_level r = ''high'' then 10 else if av_risk_level r = ''medium'' then 5 else 0);
          savings = sum_list (map (\<lambda>v. min (abs v) 20) (dict_values (av_estimated_savings r))) in
      py_round 1 (min (severity_base (av_severity r) + confidence + risk + savings) 100))"

definition score_rec :: "advice \<Rightarrow> advice" where
  "score_rec r = r\<lparr>av_score := heuristic_score r\<rparr>"

definition found_recs :: "datetime \<Rightarrow> cluster_state option \<Rightarrow> workload_analysis option \<Rightarrow> advice list" where
  "found_recs now st a =
     (case st of None \<Rightarrow> [] | Some s \<Rightarrow> gpu_placement_recs now s @ risk_mitigation_recs now s)
     @ (case a of None \<Rightarrow> [] | Some w \<Rightarrow> efficiency_recs now w @ scaling_recs now w)
     @ right_sizing_recs now st a"

definition numbered :: "(nat \<Rightarrow> uuid) \<Rightarrow> advice list \<Rightarrow> advice list" where
  "numbered ids rs = map (\<lambda>(i, r). r\<lparr>av_id := ids i\<rparr>) (enumerate 0 rs)"

definition ranked :: "numpy \<Rightarrow> rec_model \<Rightarrow> cluster_state option \<Rightarrow> workload_analysis option \<Rightarrow> advice list \<Rightarrow> advice list" where
  "ranked np m st a rs =
     (if 0 < rm_training_count m then score_recommendation_set np rs st a m else by_score (map score_rec rs))"

definition count_severity :: "rec_severity \<Rightarrow> advice list \<Rightarrow> int" where
  "count_severity sev rs = int (length (filter (\<lambda>r. av_severity r = sev) rs))"

definition counted :: "rec_severity \<Rightarrow> string \<Rightarrow> advice list \<Rightarrow> piece list" where
  "counted sev name rs = (if count_severity sev rs \<noteq> 0 then [Val (JInt (count_severity sev rs)), Txt ('' '' @ name @ ''; '')] else [])"

definition set_of :: "uuid \<Rightarrow> datetime \<Rightarrow> cluster \<Rightarrow> cluster_state option \<Rightarrow> workload_analysis option \<Rightarrow> advice list \<Rightarrow> advice_set" where
  "set_of sid now cl st a rs =
     (let avg = sum_list (map av_score rs) / of_nat (max (length rs) 1);
          hours = sum_list (map (\<lambda>r. dict_get_or (av_estimated_savings r) ''potential_idle_reduction_hours'' 0) rs) in
      \<lparr>as_id = sid, as_cluster_id = cl_id cl, as_cluster_name = cl_name cl, as_environment = cl_environment cl, as_generated_at = now,
       as_based_on_state_at = map_option cs_collected_at st, as_based_on_analysis_at = map_option wa_generated_at a,
       as_recommendation_count = int (length rs), as_critical_count = count_severity ADV_CRITICAL rs,
       as_high_count = count_severity ADV_HIGH rs, as_medium_count = count_severity ADV_MEDIUM rs, as_recommendations = rs,
       as_summary = [Val (count_val rs), Txt '' recommendation(s); ''] @ counted ADV_CRITICAL ''critical'' rs @ counted ADV_HIGH ''high'' rs
         @ counted ADV_MEDIUM ''medium'' rs @ [Txt ''avg score '', whole avg, Txt ''/100''],
       as_avg_score = py_round 1 avg, as_total_estimated_savings_gpu_hours = py_round 1 hours,
       as_top_recommendation = (case rs of [] \<Rightarrow> [] | r # rs' \<Rightarrow> av_title (max_by av_score r rs'))\<rparr>)"

definition advice_cluster :: "uuid \<Rightarrow> advice_db \<Rightarrow> py_error + cluster" where
  "advice_cluster cid s = trace_cluster cid (traces_in s)"

definition advice_state :: "uuid \<Rightarrow> advice_db \<Rightarrow> cluster_state option" where
  "advice_state cid s = latest_state cid (traces_in s)"

definition generate ::
  "numpy \<Rightarrow> uuid \<Rightarrow> datetime \<Rightarrow> (nat \<Rightarrow> uuid) \<Rightarrow> uuid \<Rightarrow> rec_model \<Rightarrow> advice_db \<Rightarrow> py_error + (advice_db \<times> advice_set)" where
  "generate np sid now ids cid m s =
     try_bind (advice_cluster cid s) (\<lambda>cl.
       let st = advice_state cid s; a = latest_analysis cid s in
       if st = None \<and> a = None then Inl (KeyError ''No state or analysis data available to generate recommendations'')
       else let result = set_of sid now cl st a (ranked np m st a (numbered ids (found_recs now st a))) in
         Inr (save_advice result s, result))"

subsection \<open>The life cycle\<close>

definition update_status ::
  "numpy \<Rightarrow> uuid \<Rightarrow> uuid \<Rightarrow> string \<Rightarrow> rec_model \<times> advice_db \<Rightarrow> py_error + ((rec_model \<times> advice_db) \<times> advice)" where
  "update_status np cid i status = (\<lambda>(m, s).
     try_bind (advice_cluster cid s) (\<lambda>_.
       let found = (case latest_advice cid s of None \<Rightarrow> None | Some x \<Rightarrow> find (\<lambda>r. av_id r = i) (as_recommendations x));
           old = (case found of None \<Rightarrow> ''pending'' | Some r \<Rightarrow> rec_status_value (av_status r)) in
       try_bind (update_rec_status cid i status s) (\<lambda>(s', updated).
         case updated of
           None \<Rightarrow> Inl (KeyError (''Recommendation not found: '' @ i))
         | Some u \<Rightarrow>
             (case found of
                Some r \<Rightarrow> if old \<noteq> status
                  then Inr ((train_from_status np r old status (advice_state cid s') (latest_analysis cid s') m, s'), u)
                  else Inr ((m, s'), u)
              | None \<Rightarrow> Inr ((m, s'), u)))))"

definition get_latest :: "uuid \<Rightarrow> advice_db \<Rightarrow> py_error + advice_set option" where
  "get_latest cid s = try_bind (advice_cluster cid s) (\<lambda>_. Inr (latest_advice cid s))"

definition list_recommendations :: "uuid \<Rightarrow> int \<Rightarrow> advice_db \<Rightarrow> py_error + advice_set list" where
  "list_recommendations cid lmt s = try_bind (advice_cluster cid s) (\<lambda>_. Inr (repo_list_advice cid lmt s))"

subsection \<open>What if\<close>

record projection =
  wi_cluster_id :: uuid
  wi_cluster_name :: string
  wi_environment :: string
  wi_recommendation_set_id :: uuid
  wi_projected_gpu_utilization_percent :: rat
  wi_projected_efficiency_score :: rat
  wi_projected_idle_gpu_hours_reduction :: rat
  wi_projected_power_savings_kwh :: rat
  wi_estimated_cost_savings_usd :: rat
  wi_fragmentation_improvement_percent :: rat
  wi_reservations_freed :: int
  wi_risk_reduction_score :: rat
  wi_summary :: "piece list"

definition projected_use :: "numpy \<Rightarrow> rec_model \<Rightarrow> advice list \<Rightarrow> cluster_state option \<Rightarrow> rat" where
  "projected_use np m rs st =
     (case st of
        None \<Rightarrow> (case score_recommendation_set np rs None None m of [] \<Rightarrow> 0 | r # _ \<Rightarrow> av_score r)
      | Some s \<Rightarrow>
          (let gs = concat (map ns_gpu_devices (cs_nodes s)); used = length (filter (\<lambda>g. 0 < gs_memory_used_bytes g) gs);
               now_used = of_nat used / of_nat (max (length gs) 1) * 100;
               open_recs = filter (\<lambda>r. av_status r = REC_PENDING \<or> av_status r = REC_APPROVED) rs in
           min (now_used + of_nat (min (length open_recs * 5) 40)) 100))"

definition what_if :: "numpy \<Rightarrow> uuid \<Rightarrow> rec_model \<Rightarrow> advice_db \<Rightarrow> py_error + projection" where
  "what_if np cid m s =
     try_bind (advice_cluster cid s) (\<lambda>cl.
       case latest_advice cid s of
         None \<Rightarrow> Inl (KeyError ''No recommendations available for what-if analysis'')
       | Some x \<Rightarrow>
           (let rs = as_recommendations x; use = projected_use np m rs (advice_state cid s); a = latest_analysis cid s;
                efficiency = (case a of None \<Rightarrow> 50 | Some w \<Rightarrow> min (wa_overall_efficiency_score w + 15) 100);
                idle = (case a of None \<Rightarrow> 0 | Some w \<Rightarrow> wa_total_idle_gpu_hours w * (4 / 10));
                power = (case a of None \<Rightarrow> 0 | Some w \<Rightarrow> wa_estimated_power_waste_kwh w * (35 / 100)) in
            Inr \<lparr>wi_cluster_id = cl_id cl, wi_cluster_name = cl_name cl, wi_environment = cl_environment cl, wi_recommendation_set_id = as_id x,
                 wi_projected_gpu_utilization_percent = py_round 1 use, wi_projected_efficiency_score = py_round 1 efficiency,
                 wi_projected_idle_gpu_hours_reduction = py_round 1 idle, wi_projected_power_savings_kwh = py_round 1 power,
                 wi_estimated_cost_savings_usd = py_round 2 (power * (12 / 100)),
                 wi_fragmentation_improvement_percent = py_round 1 (of_nat (min (length rs * 3) 25)),
                 wi_reservations_freed = int (length (filter (\<lambda>r. av_type r = PLACEMENT \<or> av_type r = RIGHT_SIZING) rs)),
                 wi_risk_reduction_score = py_round 1 (of_nat (min (length (filter (\<lambda>r. av_status r \<noteq> REC_DISMISSED) rs) * 8) 80)),
                 wi_summary = [Txt ''Projected utilization: '', whole use, Txt ''%; efficiency: '', whole efficiency, Txt ''/100; savings: '',
                   Fmt ''.1f'' (JFloat power), Txt '' kWh'']\<rparr>))"

subsection \<open>Routes\<close>

definition route_generate ::
  "numpy \<Rightarrow> uuid \<Rightarrow> datetime \<Rightarrow> (nat \<Rightarrow> uuid) \<Rightarrow> uuid \<Rightarrow> rec_model \<Rightarrow> advice_db \<Rightarrow> py_error + (advice_db \<times> advice_set)" where
  "route_generate np sid now ids cid m s = as_not_found (generate np sid now ids cid m s)"

definition route_latest :: "uuid \<Rightarrow> advice_db \<Rightarrow> py_error + advice_set" where
  "route_latest cid s =
     try_bind (as_not_found (get_latest cid s)) (\<lambda>r.
       case r of None \<Rightarrow> Inl (HTTPException 404 ''No recommendations available'') | Some x \<Rightarrow> Inr x)"

definition route_list :: "uuid \<Rightarrow> int \<Rightarrow> advice_db \<Rightarrow> py_error + advice_set list" where
  "route_list cid lmt s = as_not_found (list_recommendations cid lmt s)"

definition route_status ::
  "numpy \<Rightarrow> uuid \<Rightarrow> uuid \<Rightarrow> rec_status \<Rightarrow> rec_model \<times> advice_db \<Rightarrow> py_error + ((rec_model \<times> advice_db) \<times> advice)" where
  "route_status np cid i st ms = as_not_found (update_status np cid i (rec_status_value st) ms)"

definition route_what_if :: "numpy \<Rightarrow> uuid \<Rightarrow> rec_model \<Rightarrow> advice_db \<Rightarrow> py_error + projection" where
  "route_what_if np cid m s = as_not_found (what_if np cid m s)"

text \<open>Training from the stored sets: every recommendation counts with the outcome of its status.\<close>

definition train_stored :: "numpy \<Rightarrow> uuid list \<Rightarrow> rec_model \<times> advice_db \<Rightarrow> rec_model \<times> nat" where
  "train_stored np ids = (\<lambda>(m, s).
     fold (\<lambda>cid (m, n).
       case latest_advice cid s of
         None \<Rightarrow> (m, n)
       | Some x \<Rightarrow> fold (\<lambda>r (m, n).
           case dict_get outcome_map (rec_status_value (av_status r)) of
             None \<Rightarrow> (m, n)
           | Some y \<Rightarrow> (train_from_feedback np r y (advice_state cid s) (latest_analysis cid s) m, Suc n))
           (as_recommendations x) (m, n)) ids (m, 0))"

subsection \<open>What is found\<close>

lemmas advice_defs = imbalance_rec_def idle_node_rec_def oom_rec_def pressure_rec_def idle_gpus_rec_def low_use_rec_def
  right_sizing_rec_def Let_def

lemma placement_fields: "x \<in> set (placement_recs_of now n) \<Longrightarrow> av_score x = 0 \<and> av_severity x \<noteq> ADV_CRITICAL"
  by (auto simp: placement_recs_of_def advice_defs split: list.splits if_splits)

lemma risk_fields: "x \<in> set (risk_recs_of now n g) \<Longrightarrow> av_score x = 0"
  by (auto simp: risk_recs_of_def advice_defs split: if_splits)

lemma analysis_fields:
  "x \<in> set (efficiency_recs now a) \<Longrightarrow> av_score x = 0" "x \<in> set (scaling_recs now a) \<Longrightarrow> av_score x = 0"
  "x \<in> set (right_sizing_recs now st w) \<Longrightarrow> av_score x = 0"
  by (auto simp: efficiency_recs_def efficiency_recs_of_def scaling_recs_def right_sizing_recs_def advice_defs split: if_splits option.splits)

lemma found_confidence: "x \<in> set (found_recs now st a) \<Longrightarrow> 0 \<le> av_confidence x"
  by (auto simp: found_recs_def gpu_placement_recs_def risk_mitigation_recs_def placement_recs_of_def risk_recs_of_def
      efficiency_recs_def efficiency_recs_of_def scaling_recs_def right_sizing_recs_def advice_defs split: list.splits if_splits option.splits)

lemma found_unscored: "x \<in> set (found_recs now st a) \<Longrightarrow> av_score x = 0"
  by (auto simp: found_recs_def gpu_placement_recs_def risk_mitigation_recs_def
      dest: placement_fields risk_fields analysis_fields split: option.splits)

lemma numbered_mem: "x \<in> set (numbered ids rs) \<Longrightarrow> \<exists>r \<in> set rs. \<exists>i. x = r\<lparr>av_id := i\<rparr>"
  by (force simp: numbered_def in_set_enumerate_eq)

lemma numbered_has: "r \<in> set rs \<Longrightarrow> \<exists>i. r\<lparr>av_id := i\<rparr> \<in> set (numbered ids rs)"
proof -
  assume "r \<in> set rs"
  then obtain k where k: "k < length rs" "r = rs ! k" by (metis in_set_conv_nth)
  then have "(k, r) \<in> set (enumerate 0 rs)" by (auto simp: in_set_enumerate_eq)
  then have "(\<lambda>(i, r). r\<lparr>av_id := ids i\<rparr>) (k, r) \<in> set (numbered ids rs)" unfolding numbered_def set_map by (rule imageI)
  then show ?thesis by auto
qed

lemma numbered_unscored: "x \<in> set (numbered ids (found_recs now st a)) \<Longrightarrow> av_score x = 0"
  using numbered_mem [of x ids] found_unscored [of _ now st a] by fastforce

lemma set_by_score [simp]: "set (by_score rs) = set rs"
  by (simp add: by_score_def)

definition ranks_before :: "advice \<Rightarrow> advice \<Rightarrow> bool" where
  "ranks_before x y \<longleftrightarrow> av_score y < av_score x \<or> av_score x = av_score y \<and> av_confidence y \<le> av_confidence x"

lemma by_score_ranked: "sorted_wrt ranks_before (by_score rs)"
proof -
  have "sorted (map (\<lambda>r. (- av_score r, - av_confidence r)) (by_score rs))" by (simp add: by_score_def sorted_by_def)
  then have "sorted_wrt (\<lambda>x y. (- av_score x, - av_confidence x) \<le> (- av_score y, - av_confidence y)) (by_score rs)"
    by (simp add: sorted_wrt_map)
  then show ?thesis by (rule sorted_wrt_mono_rel [rotated]) (auto simp: ranks_before_def less_eq_prod_def)
qed

lemma ranked_keeps: "x \<in> set rs \<Longrightarrow> \<exists>v. x\<lparr>av_score := v\<rparr> \<in> set (ranked np m st a rs)"
  by (auto simp: ranked_def score_recommendation_set_def score_rec_def)

lemma heuristic_le: "heuristic_score r \<le> 100"
  using py_round_mono [of "min _ 100" 100 1] py_round_int [of 1 100] by (simp add: heuristic_score_def Let_def)

lemma oom_score: "heuristic_score ((oom_rec now n g)\<lparr>av_id := i\<rparr>) = 100"
  using py_round_int [of 1 100] by (simp add: heuristic_score_def severity_base_def oom_rec_def dict_values_def)

definition short_of_memory :: "gpu_state \<Rightarrow> bool" where
  "short_of_memory g \<longleftrightarrow> 0 < gs_memory_total_bytes g \<and> 90 < memory_pct g"

lemma oom_found:
  assumes "n \<in> set (cs_nodes st)" and "g \<in> set (ns_gpu_devices n)" and "short_of_memory g"
  shows "oom_rec now n g \<in> set (found_recs now (Some st) a)"
  using assms by (force simp: found_recs_def risk_mitigation_recs_def risk_recs_of_def short_of_memory_def)

lemma generate_InrE:
  assumes "generate np sid now ids cid m s = Inr (s', r)"
  obtains cl where "advice_cluster cid s = Inr cl" "s' = save_advice r s"
    "r = set_of sid now cl (advice_state cid s) (latest_analysis cid s)
       (ranked np m (advice_state cid s) (latest_analysis cid s)
         (numbered ids (found_recs now (advice_state cid s) (latest_analysis cid s))))"
  using assms by (auto simp: generate_def try_bind_Inr_iff Let_def split: if_splits)

lemma set_of_recs [simp]: "as_recommendations (set_of sid now cl st a rs) = rs"
  by (simp add: set_of_def Let_def)

lemma mset_by_score [simp]: "mset (by_score rs) = mset rs"
  by (simp add: by_score_def sorted_by_def)

lemma numbered_content: "map (\<lambda>x. x\<lparr>av_id := []\<rparr>) (numbered ids rs) = map (\<lambda>x. x\<lparr>av_id := []\<rparr>) rs"
proof -
  have "map (\<lambda>x. x\<lparr>av_id := []\<rparr>) (map (\<lambda>(i, r). r\<lparr>av_id := ids i\<rparr>) (enumerate n rs)) = map (\<lambda>x. x\<lparr>av_id := []\<rparr>) rs" for n
    by (induction rs arbitrary: n) simp_all
  then show ?thesis by (simp add: numbered_def)
qed

lemma ranked_content:
  "mset (map (\<lambda>x. x\<lparr>av_id := [], av_score := 0\<rparr>) (ranked np m st a (numbered ids rs)))
     = mset (map (\<lambda>x. x\<lparr>av_id := [], av_score := 0\<rparr>) rs)"
proof -
  have "map (\<lambda>x. x\<lparr>av_id := [], av_score := 0\<rparr>) (numbered ids rs) = map (\<lambda>x. x\<lparr>av_id := [], av_score := 0\<rparr>) rs"
    using arg_cong [OF numbered_content [of ids rs], of "map (\<lambda>x. x\<lparr>av_score := 0\<rparr>)"] by (simp add: comp_def)
  moreover have "mset (map f (by_score (map h ys))) = mset (map f ys)" if "\<And>x. f (h x) = f x" for f :: "advice \<Rightarrow> advice" and h ys
    using that by (simp add: multiset.map_comp comp_def)
  ultimately show ?thesis by (simp add: ranked_def score_recommendation_set_def score_rec_def del: mset_map)
qed

lemma ranked_sorted: "sorted_wrt ranks_before (ranked np m st a rs)"
  by (simp add: ranked_def score_recommendation_set_def by_score_ranked)

lemma severity_base_ge: "10 \<le> severity_base s"
  by (cases s) (simp_all add: severity_base_def)

lemma heuristic_ge: "0 \<le> av_confidence r \<Longrightarrow> 10 \<le> heuristic_score r"
proof -
  assume c: "0 \<le> av_confidence r"
  have sums: "0 \<le> sum_list (map (\<lambda>v. min (abs v) 20) vs)" for vs :: "rat list" by (induction vs) auto
  have "10 \<le> severity_base (av_severity r) + av_confidence r * 100 * (3 / 10)
      + (if av_risk_level r = ''high'' then 10 else if av_risk_level r = ''medium'' then 5 else 0)
      + sum_list (map (\<lambda>v. min (abs v) 20) (dict_values (av_estimated_savings r)))"
    using severity_base_ge [of "av_severity r"] c sums [of "dict_values (av_estimated_savings r)"] by (simp split: if_splits)
  then show ?thesis using py_round_mono [of 10 _ 1] py_round_int [of 1 10] by (simp add: heuristic_score_def Let_def)
qed

lemma first_is_top: "sorted_wrt ranks_before (x # xs) \<Longrightarrow> max_by av_score x xs = x"
proof -
  assume "sorted_wrt ranks_before (x # xs)"
  then have "\<forall>y \<in> set xs. av_score y \<le> av_score x" by (auto simp: ranks_before_def)
  then show ?thesis by (induction xs) auto
qed

lemma fresh_scores:
  assumes "rm_training_count m \<le> 0"
  shows "list_all (\<lambda>x. av_score x = heuristic_score x \<and> 10 \<le> av_score x \<and> av_score x \<le> 100)
      (ranked np m st0 a0 (numbered ids (found_recs now st a)))
    \<and> (\<forall>st' n g. st = Some st' \<and> n \<in> set (cs_nodes st') \<and> g \<in> set (ns_gpu_devices n) \<and> short_of_memory g \<longrightarrow>
       (\<exists>x \<in> set (ranked np m st0 a0 (numbered ids (found_recs now st a))).
          av_severity x = ADV_CRITICAL \<and> av_affected_resources x = [gs_uuid g] \<and> av_score x = 100))"
proof -
  let ?rs = "numbered ids (found_recs now st a)"
  have recs: "set (ranked np m st0 a0 ?rs) = score_rec ` set ?rs" using assms by (simp add: ranked_def)
  have same: "heuristic_score (score_rec x) = heuristic_score x" for x by (simp add: heuristic_score_def score_rec_def)
  have "0 \<le> av_confidence x" if "x \<in> set ?rs" for x
    using numbered_mem [OF that] found_confidence [of _ now st a] by fastforce
  then have scores: "list_all (\<lambda>x. av_score x = heuristic_score x \<and> 10 \<le> av_score x \<and> av_score x \<le> 100) (ranked np m st0 a0 ?rs)"
    unfolding list_all_iff recs using heuristic_ge heuristic_le same by (simp add: score_rec_def [of "_ :: advice"])
  have "\<exists>x \<in> set (ranked np m st0 a0 ?rs). av_severity x = ADV_CRITICAL \<and> av_affected_resources x = [gs_uuid g] \<and> av_score x = 100"
    if g: "st = Some st'" "n \<in> set (cs_nodes st')" "g \<in> set (ns_gpu_devices n)" "short_of_memory g" for st' n g
  proof -
    have "oom_rec now n g \<in> set (found_recs now st a)" using oom_found [OF g(2-4)] by (simp add: g(1))
    then obtain i where "(oom_rec now n g)\<lparr>av_id := i\<rparr> \<in> set ?rs" using numbered_has by blast
    then have "score_rec ((oom_rec now n g)\<lparr>av_id := i\<rparr>) \<in> set (ranked np m st0 a0 ?rs)" by (simp add: recs)
    then show ?thesis by (rule bexI [rotated]) (simp add: score_rec_def oom_score, simp add: oom_rec_def)
  qed
  then show ?thesis using scores by blast
qed

text \<open>
  C12: the set of recommendations: it holds exactly what the generators found for the latest state and
  analysis, each once, ordered by score and then by confidence; its counts and average are those of
  the list, the top recommendation is the first one's, and the set is stored. As long as the
  model has counted no feedback, the scores are the heuristic's, from ten to one hundred, and every GPU
  of the latest state that uses more than ninety percent of its memory has a critical recommendation
  with the score 100.
\<close>

theorem generated_set:
  assumes "generate np sid now ids cid m s = Inr (s', r)"
  shows "ad_sets s' = ad_sets s @ [r]
    \<and> sorted_wrt ranks_before (as_recommendations r)
    \<and> mset (map (\<lambda>x. x\<lparr>av_id := [], av_score := 0\<rparr>) (as_recommendations r))
        = mset (map (\<lambda>x. x\<lparr>av_id := [], av_score := 0\<rparr>) (found_recs now (latest_state cid (traces_in s)) (latest_analysis cid s)))
    \<and> as_recommendation_count r = int (length (as_recommendations r))
    \<and> as_critical_count r = int (length (filter (\<lambda>x. av_severity x = ADV_CRITICAL) (as_recommendations r)))
    \<and> as_high_count r = int (length (filter (\<lambda>x. av_severity x = ADV_HIGH) (as_recommendations r)))
    \<and> as_medium_count r = int (length (filter (\<lambda>x. av_severity x = ADV_MEDIUM) (as_recommendations r)))
    \<and> \<bar>as_avg_score r - sum_list (map av_score (as_recommendations r)) / of_nat (max (length (as_recommendations r)) 1)\<bar> \<le> 1 / 20
    \<and> as_top_recommendation r = (case as_recommendations r of [] \<Rightarrow> [] | x # _ \<Rightarrow> av_title x)
    \<and> (rm_training_count m \<le> 0 \<longrightarrow>
         list_all (\<lambda>x. av_score x = heuristic_score x \<and> 10 \<le> av_score x \<and> av_score x \<le> 100) (as_recommendations r)
         \<and> (\<forall>st n g. latest_state cid (traces_in s) = Some st \<and> n \<in> set (cs_nodes st) \<and> g \<in> set (ns_gpu_devices n) \<and> short_of_memory g \<longrightarrow>
              (\<exists>x \<in> set (as_recommendations r). av_severity x = ADV_CRITICAL \<and> av_affected_resources x = [gs_uuid g] \<and> av_score x = 100)))"
proof -
  let ?st = "advice_state cid s" and ?a = "latest_analysis cid s"
  let ?rs = "numbered ids (found_recs now ?st ?a)"
  obtain cl where r: "s' = save_advice r s" "r = set_of sid now cl ?st ?a (ranked np m ?st ?a ?rs)"
    using assms by (auto elim!: generate_InrE)
  have recs: "as_recommendations r = ranked np m ?st ?a ?rs" by (simp add: r(2))
  have top: "as_top_recommendation r = (case as_recommendations r of [] \<Rightarrow> [] | x # _ \<Rightarrow> av_title x)"
    using ranked_sorted [of np m ?st ?a ?rs] first_is_top by (auto simp: r(2) set_of_def Let_def split: list.split)
  have counts: "as_recommendation_count r = int (length (as_recommendations r))
    \<and> as_critical_count r = int (length (filter (\<lambda>x. av_severity x = ADV_CRITICAL) (as_recommendations r)))
    \<and> as_high_count r = int (length (filter (\<lambda>x. av_severity x = ADV_HIGH) (as_recommendations r)))
    \<and> as_medium_count r = int (length (filter (\<lambda>x. av_severity x = ADV_MEDIUM) (as_recommendations r)))
    \<and> \<bar>as_avg_score r - sum_list (map av_score (as_recommendations r)) / of_nat (max (length (as_recommendations r)) 1)\<bar> \<le> 1 / 20"
    using py_round_near [of 1 "sum_list (map av_score (ranked np m ?st ?a ?rs)) / of_nat (max (length (ranked np m ?st ?a ?rs)) 1)"]
    by (simp add: r(2) set_of_def Let_def count_severity_def)
  have fresh: "list_all (\<lambda>x. av_score x = heuristic_score x \<and> 10 \<le> av_score x \<and> av_score x \<le> 100) (as_recommendations r)
      \<and> (\<forall>st n g. latest_state cid (traces_in s) = Some st \<and> n \<in> set (cs_nodes st) \<and> g \<in> set (ns_gpu_devices n) \<and> short_of_memory g \<longrightarrow>
         (\<exists>x \<in> set (as_recommendations r). av_severity x = ADV_CRITICAL \<and> av_affected_resources x = [gs_uuid g] \<and> av_score x = 100))"
    if "rm_training_count m \<le> 0"
    using fresh_scores [OF that] unfolding recs advice_state_def by blast
  have "ad_sets s' = ad_sets s @ [r]" by (simp add: r(1) save_advice_def)
  moreover have "sorted_wrt ranks_before (as_recommendations r)" unfolding recs by (rule ranked_sorted)
  moreover have "mset (map (\<lambda>x. x\<lparr>av_id := [], av_score := 0\<rparr>) (as_recommendations r))
      = mset (map (\<lambda>x. x\<lparr>av_id := [], av_score := 0\<rparr>) (found_recs now (latest_state cid (traces_in s)) (latest_analysis cid s)))"
    unfolding recs advice_state_def by (rule ranked_content)
  ultimately show ?thesis using counts top fresh by blast
qed

lemma zero_average: "\<forall>x \<in> set rs. av_score x = 0 \<Longrightarrow> as_avg_score (set_of sid now cl st a rs) = 0"
proof -
  assume "\<forall>x \<in> set rs. av_score x = 0"
  then have "sum_list (map av_score rs) = 0" by (induction rs) auto
  then show ?thesis using py_round_int [of 1 0] by (simp add: set_of_def Let_def)
qed

text \<open>
  One feedback takes every score away: once the model counts a sample, every set of recommendations
  generated for any cluster has only scores of zero and is ordered by confidence alone, so that a
  GPU about to run out of memory (0.85) stands below an idle node (0.9).
\<close>

theorem feedback_zeroes_scores:
  assumes "broadcasts np" and "init_fresh np = Inr m0" and "train_run np xs m0 = Inr m" and "0 < rm_training_count m"
    and "generate np sid now ids cid m s = Inr (s', r)"
  shows "list_all (\<lambda>x. av_score x = 0) (as_recommendations r) \<and> as_avg_score r = 0
    \<and> sorted_wrt (\<lambda>x y. av_confidence y \<le> av_confidence x) (as_recommendations r)"
proof -
  let ?st = "advice_state cid s" and ?a = "latest_analysis cid s"
  let ?rs = "numbered ids (found_recs now ?st ?a)"
  have stuck: "stuck np m0 m"
    using stuck_run [OF assms(1,2), of m0 xs] fresh_model [OF assms(1,2)] assms(3) by (auto simp: stuck_def)
  obtain cl where r: "r = set_of sid now cl ?st ?a (score_recommendation_set np ?rs ?st ?a m)"
    using assms(4,5) by (auto elim!: generate_InrE simp: ranked_def)
  have zero: "\<forall>x \<in> set (score_recommendation_set np ?rs ?st ?a m). av_score x = 0"
    by (auto simp: score_recommendation_set_def stuck_scores [OF assms(1,2) stuck] numbered_unscored)
  have "sorted_wrt ranks_before (score_recommendation_set np ?rs ?st ?a m)"
    unfolding score_recommendation_set_def by (rule by_score_ranked)
  then have "sorted_wrt (\<lambda>x y. av_confidence y \<le> av_confidence x) (score_recommendation_set np ?rs ?st ?a m)"
    using zero by (elim sorted_wrt_mono_rel [rotated]) (simp add: ranks_before_def)
  then show ?thesis using zero zero_average [OF zero] by (simp add: r list_all_iff)
qed

text \<open>
  The analysis and the recommendations together: after an analysis, whatever the GPUs of the cluster did,
  the next recommendations tell to power off every node that has GPUs, and call its utilisation very low.
\<close>

theorem power_off_recommended:
  assumes "analyze_cluster aid now cid n s = Inr (s1, a)" and "latest_analysis cid s1 = Some a"
    and "generate np sid now' ids cid m s1 = Inr (s2, r)" and "e \<in> set (wa_node_efficiencies a)" and "0 < nf_gpu_count e"
  shows "(\<exists>x \<in> set (as_recommendations r). av_severity x = ADV_HIGH \<and> av_affected_resources x = gpus_of e
      \<and> ''Power-off idle GPUs or node'' \<in> set (av_actions x))
    \<and> (\<exists>x \<in> set (as_recommendations r). av_title x = [Txt (''Very low GPU utilization on '' @ nf_node_name e)])"
proof -
  let ?st = "advice_state cid s1"
  have e: "nf_avg_gpu_utilization_percent e = 0" "nf_gpu_idle_percent e = 100"
    using analysis_always_idle [OF assms(1)] assms(4,5) by auto
  have "idle_gpus_rec now' a e \<in> set (found_recs now' ?st (Some a))" "low_use_rec now' e \<in> set (found_recs now' ?st (Some a))"
    using assms(4,5) e by (force simp: found_recs_def efficiency_recs_def efficiency_recs_of_def)+
  then obtain i j where ij: "(idle_gpus_rec now' a e)\<lparr>av_id := i\<rparr> \<in> set (numbered ids (found_recs now' ?st (Some a)))"
    "(low_use_rec now' e)\<lparr>av_id := j\<rparr> \<in> set (numbered ids (found_recs now' ?st (Some a)))"
    using numbered_has by metis
  obtain cl where r: "r = set_of sid now' cl ?st (Some a) (ranked np m ?st (Some a) (numbered ids (found_recs now' ?st (Some a))))"
    using assms(3) by (auto elim!: generate_InrE simp: assms(2))
  obtain v w where "(idle_gpus_rec now' a e)\<lparr>av_id := i, av_score := v\<rparr> \<in> set (as_recommendations r)"
    "(low_use_rec now' e)\<lparr>av_id := j, av_score := w\<rparr> \<in> set (as_recommendations r)"
    using ranked_keeps [OF ij(1), of np m ?st "Some a"] ranked_keeps [OF ij(2), of np m ?st "Some a"] by (auto simp: r)
  moreover have "av_severity ((idle_gpus_rec now' a e)\<lparr>av_id := i, av_score := v\<rparr>) = ADV_HIGH
      \<and> av_affected_resources ((idle_gpus_rec now' a e)\<lparr>av_id := i, av_score := v\<rparr>) = gpus_of e
      \<and> ''Power-off idle GPUs or node'' \<in> set (av_actions ((idle_gpus_rec now' a e)\<lparr>av_id := i, av_score := v\<rparr>))"
    "av_title ((low_use_rec now' e)\<lparr>av_id := j, av_score := w\<rparr>) = [Txt (''Very low GPU utilization on '' @ nf_node_name e)]"
    by (simp_all add: idle_gpus_rec_def low_use_rec_def)
  ultimately show ?thesis by blast
qed

subsection \<open>Witnesses\<close>

definition full_gpu :: gpu_state where
  "full_gpu =
     \<lparr>gs_index = 0, gs_uuid = ''g1'', gs_model = ''A100'', gs_memory_total_bytes = 80, gs_memory_used_bytes = 79, gs_status = ''active''\<rparr>"

definition full_node :: node_state where
  "full_node = (bare_node ''n1'')\<lparr>ns_gpu_devices := [full_gpu]\<rparr>"

definition full_state :: cluster_state where
  "full_state = (bare_state [''n1''])\<lparr>cs_gpu_count := 1, cs_nodes := [full_node]\<rparr>"

definition full_db :: advice_db where
  "full_db = \<lparr>td_repo = east_repo, td_states = [(''t1'', full_state)], td_baselines = [], ad_analyses = [], ad_sets = []\<rparr>"

definition row_id :: "nat \<Rightarrow> uuid" where
  "row_id i = nat_str i"

lemma full_db_read: "latest_state ''c1'' (traces_in full_db) = Some full_state"
  by code_simp

definition full_result :: "(advice_db \<times> advice_set) option" where
  "full_result = (case generate plain_numpy ''s1'' 9 row_id ''c1'' fresh_plain full_db of Inr x \<Rightarrow> Some x | Inl _ \<Rightarrow> None)"

definition east_cluster :: cluster where
  "east_cluster = \<lparr>cl_id = ''c1'', cl_name = ''east'', cl_environment = ''prod''\<rparr>"

lemma full_cluster: "trace_cluster ''c1'' (traces_in (full_db\<lparr>ad_analyses := as\<rparr>)) = Inr east_cluster"
  by (simp add: trace_cluster_def some_or_key_def full_db_def trace_db.defs get_cluster_def east_repo_def select_one_def east_cluster_def)

lemma full_db_cluster: "trace_cluster ''c1'' (traces_in full_db) = Inr east_cluster"
proof -
  have "full_db\<lparr>ad_analyses := []\<rparr> = full_db" by (simp add: full_db_def)
  then show ?thesis using full_cluster [of "[]"] by simp
qed

lemma full_db_generates: "\<exists>s' r. generate plain_numpy sid now ids ''c1'' m full_db = Inr (s', r)"
  by (simp add: generate_def advice_cluster_def advice_state_def full_db_read full_db_cluster Let_def)

theorem generated_set_witness:
  "\<exists>s' r. generate plain_numpy ''s1'' 9 row_id ''c1'' fresh_plain full_db = Inr (s', r)
     \<and> (\<exists>x \<in> set (as_recommendations r). av_severity x = ADV_CRITICAL \<and> av_affected_resources x = [''g1''] \<and> av_score x = 100)"
proof -
  obtain s' r where g: "generate plain_numpy ''s1'' 9 row_id ''c1'' fresh_plain full_db = Inr (s', r)"
    using full_db_generates by blast
  have "full_node \<in> set (cs_nodes full_state)" "full_gpu \<in> set (ns_gpu_devices full_node)" "short_of_memory full_gpu" "gs_uuid full_gpu = ''g1''"
    by (simp_all add: full_state_def full_node_def full_gpu_def short_of_memory_def memory_pct_def)
  moreover have "rm_training_count fresh_plain \<le> 0" by (simp add: fresh_plain_facts(2))
  ultimately show ?thesis using generated_set [OF g] full_db_read g by metis
qed

theorem feedback_zeroes_scores_witness:
  "\<exists>m s' r. train_run plain_numpy [Feedback (idle_node_rec 0 full_node []) 95 None None] fresh_plain = Inr m
     \<and> generate plain_numpy ''s2'' 9 row_id ''c1'' m full_db = Inr (s', r) \<and> as_avg_score r = 0 \<and> list_all (\<lambda>x. av_score x = 0) (as_recommendations r)"
proof -
  let ?m = "train_from_feedback plain_numpy (idle_node_rec 0 full_node []) 95 None None fresh_plain"
  have run: "train_run plain_numpy [Feedback (idle_node_rec 0 full_node []) 95 None None] fresh_plain = Inr ?m" by simp
  obtain s' r where g: "generate plain_numpy ''s2'' 9 row_id ''c1'' ?m full_db = Inr (s', r)" using full_db_generates by blast
  have "0 < rm_training_count ?m" by code_simp
  then show ?thesis using feedback_zeroes_scores [OF plain_broadcasts fresh_plain_facts(1) run _ g] run g by blast
qed

theorem power_off_recommended_witness:
  "\<exists>s1 a s2 r. analyze_cluster ''a1'' 5 ''c1'' 10 full_db = Inr (s1, a) \<and> generate plain_numpy ''s1'' 9 row_id ''c1'' fresh_plain s1 = Inr (s2, r)
     \<and> (\<exists>x \<in> set (as_recommendations r). ''Power-off idle GPUs or node'' \<in> set (av_actions x))"
proof -
  define a where "a = analysis_of ''a1'' 5 east_cluster [full_state]"
  define s1 where "s1 = full_db\<lparr>ad_analyses := [a]\<rparr>"
  have "map snd (repo_list_traces ''c1'' 10 0 (traces_in full_db)) = [full_state]" by code_simp
  then have an: "analyze_cluster ''a1'' 5 ''c1'' 10 full_db = Inr (s1, a)"
    by (simp add: analyze_cluster_def Let_def full_db_cluster a_def [symmetric])
      (simp add: s1_def save_analysis_def replace_row_def full_db_def)
  have late: "latest_analysis ''c1'' s1 = Some a"
    by (simp add: latest_analysis_def analyses_of_def s1_def select_desc_def a_def analysis_of_def Let_def east_cluster_def sorted_by_desc_def)
  have "gpu_samples [full_state] = [(''g1'', [sample_of full_node full_gpu])]" "node_samples [full_state] = [(''n1'', [full_node])]"
    by (simp_all add: gpu_samples_def node_samples_def full_state_def full_node_def full_gpu_def sample_key_def dict_append_def
        dict_get_or_def bare_state_def bare_node_def)
  moreover have "ut_node (trend_of (''g1'', [sample_of full_node full_gpu])) = ''n1''"
    by (simp add: trend_of_def Let_def sample_of_def full_node_def bare_node_def)
  ultimately have "\<exists>e \<in> set (map (efficiency_of (map trend_of (gpu_samples [full_state]))) (node_samples [full_state])). 0 < nf_gpu_count e"
    by (simp add: efficiency_of_def trends_on_def Let_def)
  then obtain e where e: "e \<in> set (wa_node_efficiencies a)" "0 < nf_gpu_count e" by (auto simp: a_def analysis_of_def Let_def)
  obtain s2 r where g: "generate plain_numpy ''s1'' 9 row_id ''c1'' fresh_plain s1 = Inr (s2, r)"
    using full_cluster [of "[a]"] by (simp add: generate_def advice_cluster_def late s1_def [symmetric] Let_def)
  then obtain x where "x \<in> set (as_recommendations r)" "''Power-off idle GPUs or node'' \<in> set (av_actions x)"
    using power_off_recommended [OF an late g e] by auto
  then show ?thesis using an g by metis
qed

end
