(* ===== verification/Costs.thy ===== *)
theory Costs
  imports Recommend
begin

text \<open>
  The cost analysis, src/src/gpuopt/cost_analysis.py: the report of a cluster's costs, the savings that its
  recommendations promise, and the summary of both, with the routes of src/src/gpuopt/api.py. The report
  has no state; it reads the latest state and the latest recommendations.
\<close>

subsection \<open>Reports\<close>

record gpu_cost =
  gc_gpu_index :: int
  gc_gpu_model :: string
  gc_memory_utilization_percent :: rat
  gc_estimated_hourly_cost :: rat
  gc_estimated_monthly_cost :: rat
  gc_estimated_waste_hourly :: rat
  gc_utilization_category :: string

text \<open>The models of a node are a list made from a set, whose order is not fixed; they are the set.\<close>

record node_cost =
  nc_node_name :: string
  nc_gpu_count :: int
  nc_gpu_models :: "string set"
  nc_total_hourly_cost :: rat
  nc_total_monthly_cost :: rat
  nc_waste_hourly_cost :: rat
  nc_gpus :: "gpu_cost list"

record cost_report =
  cp_cluster_id :: uuid
  cp_cluster_name :: string
  cp_environment :: string
  cp_gpu_hourly_rate :: rat
  cp_total_gpus :: int
  cp_active_gpus :: int
  cp_idle_gpus :: int
  cp_total_hourly_cost :: rat
  cp_total_daily_cost :: rat
  cp_total_monthly_cost :: rat
  cp_waste_hourly_cost :: rat
  cp_waste_daily_cost :: rat
  cp_waste_monthly_cost :: rat
  cp_efficiency_percent :: rat
  cp_nodes :: "node_cost list"
  cp_summary :: "piece list"

definition hourly_rate :: rat where
  "hourly_rate = 85 / 100"

definition device_use :: "gpu_state \<Rightarrow> rat" where
  "device_use g = (if 0 < gs_memory_total_bytes g then of_int (gs_memory_used_bytes g) / of_int (gs_memory_total_bytes g) * 100 else 0)"

definition device_waste :: "gpu_state \<Rightarrow> rat" where
  "device_waste g = (if device_use g < 100 then hourly_rate * (1 - device_use g / 100) else 0)"

definition model_name :: "nat \<times> gpu_state \<Rightarrow> string" where
  "model_name = (\<lambda>(i, g). if gs_model g \<noteq> [] then gs_model g else ''GPU-'' @ nat_str i)"

definition gpu_cost_of :: "nat \<times> gpu_state \<Rightarrow> gpu_cost" where
  "gpu_cost_of = (\<lambda>(i, g).
     \<lparr>gc_gpu_index = int i, gc_gpu_model = model_name (i, g), gc_memory_utilization_percent = py_round 1 (device_use g),
      gc_estimated_hourly_cost = py_round 2 hourly_rate, gc_estimated_monthly_cost = py_round 2 (hourly_rate * 730),
      gc_estimated_waste_hourly = py_round 2 (device_waste g),
      gc_utilization_category = (if 10 < device_use g then ''active'' else ''idle'')\<rparr>)"

definition hourly_of :: "gpu_state list \<Rightarrow> rat" where
  "hourly_of gs = sum_list (map (\<lambda>_. hourly_rate) gs)"

definition waste_of :: "gpu_state list \<Rightarrow> rat" where
  "waste_of gs = sum_list (map device_waste gs)"

definition node_cost_of :: "node_state \<Rightarrow> node_cost" where
  "node_cost_of n =
     (let gs = ns_gpu_devices n in
      \<lparr>nc_node_name = ns_name n, nc_gpu_count = int (length gs), nc_gpu_models = set (map model_name (enumerate 0 gs)),
       nc_total_hourly_cost = py_round 2 (hourly_of gs), nc_total_monthly_cost = py_round 2 (hourly_of gs * 730),
       nc_waste_hourly_cost = py_round 2 (waste_of gs), nc_gpus = map gpu_cost_of (enumerate 0 gs)\<rparr>)"

definition cost_report_of :: "cluster \<Rightarrow> cluster_state \<Rightarrow> cost_report" where
  "cost_report_of cl st =
     (let gs = concat (map ns_gpu_devices (cs_nodes st)); n = length gs; active = length (filter (\<lambda>g. 10 < device_use g) gs);
          idle = length (filter (\<lambda>g. \<not> 10 < device_use g) gs); hourly = hourly_of gs; waste = waste_of gs;
          efficiency = py_round 1 (sum_list (map device_use gs) / of_nat (max n 1)) in
      \<lparr>cp_cluster_id = cl_id cl, cp_cluster_name = cl_name cl, cp_environment = cl_environment cl, cp_gpu_hourly_rate = hourly_rate,
       cp_total_gpus = int n, cp_active_gpus = int active, cp_idle_gpus = int idle, cp_total_hourly_cost = py_round 2 hourly,
       cp_total_daily_cost = py_round 2 (hourly * 24), cp_total_monthly_cost = py_round 2 (hourly * 730),
       cp_waste_hourly_cost = py_round 2 waste, cp_waste_daily_cost = py_round 2 (waste * 24),
       cp_waste_monthly_cost = py_round 2 (waste * 730), cp_efficiency_percent = efficiency, cp_nodes = map node_cost_of (cs_nodes st),
       cp_summary = [Val (JInt (int n)), Txt '' GPU(s): '', Val (JInt (int active)), Txt '' active, '', Val (JInt (int idle)), Txt '' idle. $'',
         whole (hourly * 730), Txt ''/mo ($'', Fmt ''.1f'' (JFloat waste), Txt ''/hr waste, '', whole efficiency, Txt ''% eff.)'']\<rparr>)"

definition generate_cost_report :: "uuid \<Rightarrow> advice_db \<Rightarrow> py_error + cost_report" where
  "generate_cost_report cid s =
     try_bind (advice_cluster cid s) (\<lambda>cl.
       case advice_state cid s of
         None \<Rightarrow> Inl (KeyError ''No cluster state available for cost analysis'')
       | Some st \<Rightarrow> Inr (cost_report_of cl st))"

subsection \<open>Savings\<close>

record savings_projection =
  sj_cluster_id :: uuid
  sj_cluster_name :: string
  sj_environment :: string
  sj_current_monthly_cost :: rat
  sj_projected_monthly_cost :: rat
  sj_monthly_savings :: rat
  sj_annual_savings :: rat
  sj_savings_percent :: rat
  sj_recommendation_count :: int
  sj_top_savings_recs :: "piece list list"
  sj_summary :: "piece list"

text \<open>The largest score, as a share of one hundred.\<close>

definition best_share :: "advice list \<Rightarrow> rat" where
  "best_share rs = foldl max 0 (map (\<lambda>r. av_score r / 100) (filter (\<lambda>r. 0 < av_score r) rs))"

definition top_savings :: "advice list \<Rightarrow> piece list list" where
  "top_savings rs =
     map (\<lambda>r. av_title r @ [Txt '' ('', whole (av_score r / 100), Txt ''%)'']) (take 3 (filter (\<lambda>r. 0 < av_score r) rs))"

definition project_savings :: "uuid \<Rightarrow> advice_db \<Rightarrow> py_error + savings_projection" where
  "project_savings cid s =
     try_bind (advice_cluster cid s) (\<lambda>cl.
     try_bind (generate_cost_report cid s) (\<lambda>rep.
       let rs = (case latest_advice cid s of None \<Rightarrow> [] | Some x \<Rightarrow> as_recommendations x); pct = min (best_share rs * 100) 40;
           cost = cp_total_monthly_cost rep; projected = cost * (1 - pct / 100); saved = cost - projected in
       Inr \<lparr>sj_cluster_id = cl_id cl, sj_cluster_name = cl_name cl, sj_environment = cl_environment cl, sj_current_monthly_cost = cost,
            sj_projected_monthly_cost = py_round 2 projected, sj_monthly_savings = py_round 2 saved, sj_annual_savings = py_round 2 (saved * 12),
            sj_savings_percent = py_round 1 pct, sj_recommendation_count = int (length rs), sj_top_savings_recs = top_savings rs,
            sj_summary = [Txt ''Current $'', whole cost, Txt ''/mo -> projected $'', whole projected, Txt ''/mo (save $'', whole saved,
              Txt ''/mo, '', whole pct, Txt ''% reduction)'']\<rparr>))"

subsection \<open>Summaries\<close>

record cost_summary =
  cm_cluster_id :: uuid
  cm_cluster_name :: string
  cm_environment :: string
  cm_total_gpus :: int
  cm_utilization_rate :: rat
  cm_monthly_cost :: rat
  cm_monthly_waste :: rat
  cm_potential_monthly_savings :: rat
  cm_payback_period_days :: rat
  cm_cost_health :: string
  cm_summary :: "piece list"

definition cost_health :: "rat \<Rightarrow> string" where
  "cost_health ratio =
     (if ratio < 1 / 10 then ''good'' else if ratio < 25 / 100 then ''fair'' else if ratio < 4 / 10 then ''poor'' else ''critical'')"

definition get_cost_summary :: "uuid \<Rightarrow> advice_db \<Rightarrow> py_error + cost_summary" where
  "get_cost_summary cid s =
     try_bind (advice_cluster cid s) (\<lambda>cl.
     try_bind (generate_cost_report cid s) (\<lambda>rep.
     try_bind (project_savings cid s) (\<lambda>pj.
       let health = cost_health (cp_waste_monthly_cost rep / max (cp_total_monthly_cost rep) 1);
           payback = (if 0 < sj_monthly_savings pj then cp_total_monthly_cost rep / sj_monthly_savings pj * 30 else 0) in
       Inr \<lparr>cm_cluster_id = cl_id cl, cm_cluster_name = cl_name cl, cm_environment = cl_environment cl, cm_total_gpus = cp_total_gpus rep,
            cm_utilization_rate = cp_efficiency_percent rep, cm_monthly_cost = cp_total_monthly_cost rep,
            cm_monthly_waste = cp_waste_monthly_cost rep, cm_potential_monthly_savings = sj_monthly_savings pj,
            cm_payback_period_days = py_round 1 payback, cm_cost_health = health,
            cm_summary = [Txt (''Cost health: '' @ health @ ''. $''), whole (cp_total_monthly_cost rep), Txt ''/mo ($'',
              whole (cp_waste_monthly_cost rep), Txt ''/mo waste). Potential savings: $'', whole (sj_monthly_savings pj), Txt ''/mo'']\<rparr>)))"

definition route_cost_report :: "uuid \<Rightarrow> advice_db \<Rightarrow> py_error + cost_report" where
  "route_cost_report cid s = as_not_found (generate_cost_report cid s)"

definition route_savings :: "uuid \<Rightarrow> advice_db \<Rightarrow> py_error + savings_projection" where
  "route_savings cid s = as_not_found (project_savings cid s)"

definition route_cost_summary :: "uuid \<Rightarrow> advice_db \<Rightarrow> py_error + cost_summary" where
  "route_cost_summary cid s = as_not_found (get_cost_summary cid s)"

subsection \<open>Bounds\<close>

lemma device_waste_range: "0 \<le> gs_memory_used_bytes g \<Longrightarrow> 0 \<le> device_waste g \<and> device_waste g \<le> hourly_rate"
proof -
  assume "0 \<le> gs_memory_used_bytes g"
  then have "0 \<le> device_use g" by (simp add: device_use_def)
  then show ?thesis by (simp add: device_waste_def hourly_rate_def)
qed

lemma waste_range: "list_all (\<lambda>g. 0 \<le> gs_memory_used_bytes g) gs \<Longrightarrow> 0 \<le> waste_of gs \<and> waste_of gs \<le> hourly_of gs"
proof (induction gs)
  case (Cons g gs)
  then show ?case using device_waste_range [of g] by (simp add: waste_of_def hourly_of_def)
qed (simp add: waste_of_def hourly_of_def)

lemma best_share_ge: "0 \<le> best_share rs" "r \<in> set rs \<Longrightarrow> 0 < av_score r \<Longrightarrow> av_score r / 100 \<le> best_share rs"
  unfolding best_share_def by (rule foldl_max_ge; simp)+

lemma zero_le_round: "0 \<le> x \<Longrightarrow> 0 \<le> py_round n x"
  using py_round_mono [of 0 x n] py_round_int [of n 0] by simp

text \<open>
  C35: the report of a cluster counts every GPU as active or idle, its waste is never negative and never more
  than its cost, hour by hour and month by month, and the savings projected from its recommendations are
  between nothing and forty percent of that cost.
\<close>

theorem cost_bounds:
  assumes "advice_state cid s = Some st" and "list_all (\<lambda>n. list_all (\<lambda>g. 0 \<le> gs_memory_used_bytes g) (ns_gpu_devices n)) (cs_nodes st)"
    and "generate_cost_report cid s = Inr rep" and "project_savings cid s = Inr pj"
  shows "cp_active_gpus rep + cp_idle_gpus rep = cp_total_gpus rep
    \<and> 0 \<le> cp_waste_hourly_cost rep \<and> cp_waste_hourly_cost rep \<le> cp_total_hourly_cost rep
    \<and> 0 \<le> cp_waste_monthly_cost rep \<and> cp_waste_monthly_cost rep \<le> cp_total_monthly_cost rep
    \<and> 0 \<le> sj_savings_percent pj \<and> sj_savings_percent pj \<le> 40
    \<and> 0 \<le> sj_monthly_savings pj \<and> sj_monthly_savings pj \<le> cp_total_monthly_cost rep * (4 / 10) + 1 / 200"
proof -
  define gs where "gs = concat (map ns_gpu_devices (cs_nodes st))"
  obtain cl where rep: "rep = cost_report_of cl st" using assms(1,3) by (auto simp: generate_cost_report_def try_bind_Inr_iff)
  have "list_all (\<lambda>g. 0 \<le> gs_memory_used_bytes g) gs" using assms(2) by (auto simp: gs_def list_all_iff)
  then have w: "0 \<le> waste_of gs" "waste_of gs \<le> hourly_of gs" using waste_range by auto
  have count: "cp_active_gpus rep + cp_idle_gpus rep = cp_total_gpus rep"
    using sum_length_filter_compl [of "\<lambda>g. 10 < device_use g" gs] by (simp add: rep cost_report_of_def Let_def gs_def)
  have waste: "0 \<le> cp_waste_hourly_cost rep" "cp_waste_hourly_cost rep \<le> cp_total_hourly_cost rep"
    "0 \<le> cp_waste_monthly_cost rep" "cp_waste_monthly_cost rep \<le> cp_total_monthly_cost rep"
    using w by (simp_all add: rep cost_report_of_def Let_def gs_def [symmetric] zero_le_round py_round_mono)
  obtain rs pct where pct: "pct = min (best_share rs * 100) 40" "sj_savings_percent pj = py_round 1 pct"
    "sj_monthly_savings pj = py_round 2 (cp_total_monthly_cost rep - cp_total_monthly_cost rep * (1 - pct / 100))"
    using assms(3,4) by (auto simp: project_savings_def try_bind_Inr_iff Let_def)
  have range: "0 \<le> pct" "pct \<le> 40" using best_share_ge(1) [of rs] by (simp_all add: pct(1))
  have cost: "0 \<le> cp_total_monthly_cost rep" using waste by linarith
  define saved where "saved = cp_total_monthly_cost rep - cp_total_monthly_cost rep * (1 - pct / 100)"
  have saved: "saved = cp_total_monthly_cost rep * (pct / 100)" by (simp add: saved_def algebra_simps)
  have "saved \<le> cp_total_monthly_cost rep * (4 / 10)" unfolding saved using cost range by (intro mult_left_mono) auto
  moreover have "0 \<le> saved" using cost range by (simp add: saved)
  moreover have "py_round 2 saved - saved \<le> 1 / 200" using abs_le_D1 [OF py_round_near [of 2 saved]] by (simp add: power2_eq_square)
  ultimately have "0 \<le> py_round 2 saved" "py_round 2 saved \<le> cp_total_monthly_cost rep * (4 / 10) + 1 / 200"
    by (simp add: zero_le_round, linarith)
  then have "0 \<le> sj_monthly_savings pj" "sj_monthly_savings pj \<le> cp_total_monthly_cost rep * (4 / 10) + 1 / 200"
    by (simp_all only: pct(3) saved_def [symmetric])
  moreover have "0 \<le> sj_savings_percent pj \<and> sj_savings_percent pj \<le> 40"
    using range py_round_bounds [of 0 pct 40 1] by (simp add: pct(2))
  ultimately show ?thesis using count waste by simp
qed

text \<open>
  The score that ranks recommendations is sold as a saving: once the recommendations of a cluster have
  been generated by a model without training, a single GPU short of memory makes the cost analysis promise a
  saving of forty percent, though the recommendation is to find a larger GPU.
\<close>

theorem risk_sold_as_savings:
  assumes "generate np sid now ids cid m s = Inr (s', r)" and "rm_training_count m = 0" and "latest_advice cid s' = Some r"
    and "latest_state cid (traces_in s) = Some st" and "n \<in> set (cs_nodes st)" and "g \<in> set (ns_gpu_devices n)" and "short_of_memory g"
    and "project_savings cid s' = Inr pj"
  shows "sj_savings_percent pj = 40"
proof -
  have "oom_rec now n g \<in> set (found_recs now (advice_state cid s) (latest_analysis cid s))"
    using oom_found [OF assms(5-7)] by (simp add: advice_state_def assms(4))
  then obtain i where i: "(oom_rec now n g)\<lparr>av_id := i\<rparr> \<in> set (numbered ids (found_recs now (advice_state cid s) (latest_analysis cid s)))"
    using numbered_has by blast
  have "score_rec ((oom_rec now n g)\<lparr>av_id := i\<rparr>) \<in> set (as_recommendations r)"
    using assms(1,2) i by (auto elim!: generate_InrE simp: ranked_def)
  moreover have "av_score (score_rec ((oom_rec now n g)\<lparr>av_id := i\<rparr>)) = 100" by (simp add: score_rec_def oom_score)
  ultimately have "1 \<le> best_share (as_recommendations r)" using best_share_ge(2) by force
  then have "min (best_share (as_recommendations r) * 100) 40 = 40" by simp
  then show ?thesis
    using assms(3,8) py_round_int [of 1 40] by (auto simp: project_savings_def try_bind_Inr_iff Let_def)
qed

subsection \<open>Witnesses\<close>

lemma full_costs:
  "generate_cost_report ''c1'' full_db = Inr (cost_report_of east_cluster full_state)" "\<exists>pj. project_savings ''c1'' full_db = Inr pj"
  by (simp_all add: generate_cost_report_def project_savings_def advice_cluster_def advice_state_def full_db_cluster full_db_read Let_def)

theorem cost_bounds_witness:
  "\<exists>rep pj. generate_cost_report ''c1'' full_db = Inr rep \<and> project_savings ''c1'' full_db = Inr pj
     \<and> cp_active_gpus rep + cp_idle_gpus rep = cp_total_gpus rep \<and> sj_savings_percent pj \<le> 40"
proof -
  obtain pj where pj: "project_savings ''c1'' full_db = Inr pj" using full_costs(2) by blast
  have "advice_state ''c1'' full_db = Some full_state" by (simp add: advice_state_def full_db_read)
  moreover have "list_all (\<lambda>n. list_all (\<lambda>g. 0 \<le> gs_memory_used_bytes g) (ns_gpu_devices n)) (cs_nodes full_state)"
    by (simp add: full_state_def full_node_def full_gpu_def)
  ultimately show ?thesis using cost_bounds [OF _ _ full_costs(1) pj] full_costs(1) pj by blast
qed

lemma saved_advice_read:
  "as_cluster_id r = ''c1'' \<Longrightarrow> latest_advice ''c1'' (save_advice r full_db) = Some r"
  "traces_in (save_advice r full_db) = traces_in full_db"
  by (simp_all add: latest_advice_def sets_of_def save_advice_def full_db_def select_desc_def sorted_by_desc_def trace_db.defs)

theorem risk_sold_as_savings_witness:
  "\<exists>s' r pj. generate plain_numpy ''s1'' 9 row_id ''c1'' fresh_plain full_db = Inr (s', r) \<and> project_savings ''c1'' s' = Inr pj
     \<and> sj_savings_percent pj = 40"
proof -
  obtain s' r where g: "generate plain_numpy ''s1'' 9 row_id ''c1'' fresh_plain full_db = Inr (s', r)" using full_db_generates by blast
  then obtain cl where r: "s' = save_advice r full_db" "advice_cluster ''c1'' full_db = Inr cl" "as_cluster_id r = cl_id cl"
    by (auto elim!: generate_InrE simp: set_of_def Let_def)
  have "as_cluster_id r = ''c1''" using r(2,3) by (auto simp: advice_cluster_def full_db_cluster east_cluster_def)
  then have late: "latest_advice ''c1'' s' = Some r" by (simp add: r(1) saved_advice_read)
  obtain pj where pj: "project_savings ''c1'' s' = Inr pj"
    by (simp add: project_savings_def generate_cost_report_def advice_cluster_def advice_state_def r(1) saved_advice_read full_db_cluster
        full_db_read Let_def)
  have "full_node \<in> set (cs_nodes full_state)" "full_gpu \<in> set (ns_gpu_devices full_node)" "short_of_memory full_gpu"
    by (simp_all add: full_state_def full_node_def full_gpu_def short_of_memory_def memory_pct_def)
  then show ?thesis using risk_sold_as_savings [OF g fresh_plain_facts(2) late full_db_read _ _ _ pj] g pj by blast
qed

end
