(* ===== verification/FinOps.thy ===== *)
theory FinOps
  imports Costs Values
begin

text \<open>
  Cost optimisation across providers, src/src/gpuopt/finops.py, with its routes in src/src/gpuopt/api.py:
  the table of prices, the comparison of providers, spot and reserved savings, budgets, sums over
  clusters, forecasts, what-if scenarios, allocations and recommendations. The clusters of the
  repository and the reports of the cost analysis are read through \<open>Costs\<close>; a growth rate is a
  rational number. A long dash in a text is written with two short ones.
\<close>

subsection \<open>Prices\<close>

datatype cloud_provider = CP_AWS | CP_GCP | CP_AZURE | CP_EQUINIX | CP_CUSTOM

fun cloud_provider_value :: "cloud_provider \<Rightarrow> string" where
  "cloud_provider_value CP_AWS = ''aws''"
| "cloud_provider_value CP_GCP = ''gcp''"
| "cloud_provider_value CP_AZURE = ''azure''"
| "cloud_provider_value CP_EQUINIX = ''equinix''"
| "cloud_provider_value CP_CUSTOM = ''custom''"

datatype pricing_tier = TIER_ONDEMAND | TIER_SPOT | TIER_RESERVED_1YR | TIER_RESERVED_3YR

fun pricing_tier_value :: "pricing_tier \<Rightarrow> string" where
  "pricing_tier_value TIER_ONDEMAND = ''ondemand''"
| "pricing_tier_value TIER_SPOT = ''spot''"
| "pricing_tier_value TIER_RESERVED_1YR = ''reserved_1yr''"
| "pricing_tier_value TIER_RESERVED_3YR = ''reserved_3yr''"

record gpu_price =
  gp_gpu_model :: string
  gp_provider :: cloud_provider
  gp_region :: string
  gp_tier :: pricing_tier
  gp_hourly_cost :: rat
  gp_monthly_cost :: rat
  gp_spot_savings_percent :: rat
  gp_reserved_1yr_savings_percent :: rat
  gp_reserved_3yr_savings_percent :: rat
  gp_gpu_count_per_instance :: int
  gp_instance_type :: string
  gp_vcpu_count :: int
  gp_system_memory_gb :: int

definition pricing_row ::
  "string \<Rightarrow> cloud_provider \<Rightarrow> string \<Rightarrow> pricing_tier \<Rightarrow> rat \<Rightarrow> rat \<Rightarrow> rat \<Rightarrow> rat \<Rightarrow> rat \<Rightarrow> int \<Rightarrow> string \<Rightarrow> int \<Rightarrow> int \<Rightarrow> gpu_price" where
  "pricing_row m p r t h mo s r1 r3 n i v g =
     \<lparr>gp_gpu_model = m, gp_provider = p, gp_region = r, gp_tier = t, gp_hourly_cost = h, gp_monthly_cost = mo, gp_spot_savings_percent = s,
      gp_reserved_1yr_savings_percent = r1, gp_reserved_3yr_savings_percent = r3, gp_gpu_count_per_instance = n, gp_instance_type = i,
      gp_vcpu_count = v, gp_system_memory_gb = g\<rparr>"

definition gpu_pricing :: "gpu_price list" where
  "gpu_pricing = [
     pricing_row ''h100'' CP_AWS ''us-east-1'' TIER_ONDEMAND (482 / 100) (35186 / 10) 65 30 55 8 ''p5.48xlarge'' 192 2048,
     pricing_row ''h100'' CP_AWS ''us-east-1'' TIER_SPOT (169 / 100) (12337 / 10) 65 0 0 8 ''p5.48xlarge'' 0 0,
     pricing_row ''a100'' CP_AWS ''us-east-1'' TIER_ONDEMAND (391 / 100) (28543 / 10) 60 28 52 8 ''p4d.24xlarge'' 96 1152,
     pricing_row ''a100'' CP_AWS ''us-east-1'' TIER_SPOT (156 / 100) (11388 / 10) 60 0 0 8 ''p4d.24xlarge'' 0 0,
     pricing_row ''v100'' CP_AWS ''us-east-1'' TIER_ONDEMAND (306 / 100) (22338 / 10) 60 28 50 8 ''p3.16xlarge'' 64 488,
     pricing_row ''v100'' CP_AWS ''us-east-1'' TIER_SPOT (122 / 100) (8906 / 10) 60 0 0 8 ''p3.16xlarge'' 0 0,
     pricing_row ''t4'' CP_AWS ''us-east-1'' TIER_ONDEMAND (94 / 100) (6862 / 10) 65 30 55 1 ''g4dn.xlarge'' 4 16,
     pricing_row ''h100'' CP_GCP ''us-central1'' TIER_ONDEMAND (45 / 10) 3285 60 25 50 8 ''a3-highgpu-8g'' 208 1872,
     pricing_row ''h100'' CP_GCP ''us-central1'' TIER_SPOT (18 / 10) 1314 60 0 0 8 ''a3-highgpu-8g'' 0 0,
     pricing_row ''a100'' CP_GCP ''us-central1'' TIER_ONDEMAND (367 / 100) (26791 / 10) 60 25 50 8 ''a2-highgpu-8g'' 96 1360,
     pricing_row ''a100'' CP_GCP ''us-central1'' TIER_SPOT (147 / 100) (10731 / 10) 60 0 0 8 ''a2-highgpu-8g'' 0 0,
     pricing_row ''v100'' CP_GCP ''us-central1'' TIER_ONDEMAND (248 / 100) (18104 / 10) 55 22 45 8 ''n1-standard-96-8-v100'' 96 360,
     pricing_row ''v100'' CP_GCP ''us-central1'' TIER_SPOT (112 / 100) (8176 / 10) 55 0 0 8 ''n1-standard-96-8-v100'' 0 0,
     pricing_row ''t4'' CP_GCP ''us-central1'' TIER_ONDEMAND (88 / 100) (6424 / 10) 60 25 50 1 ''n1-standard-4-1-t4'' 4 26,
     pricing_row ''h100'' CP_AZURE ''eastus'' TIER_ONDEMAND (46 / 10) 3358 60 27 52 8 ''ND H100 v5'' 192 2048,
     pricing_row ''h100'' CP_AZURE ''eastus'' TIER_SPOT (184 / 100) (13432 / 10) 60 0 0 8 ''ND H100 v5'' 0 0,
     pricing_row ''a100'' CP_AZURE ''eastus'' TIER_ONDEMAND (373 / 100) (27229 / 10) 55 25 48 8 ''ND A100 v4'' 96 900,
     pricing_row ''a100'' CP_AZURE ''eastus'' TIER_SPOT (168 / 100) (12264 / 10) 55 0 0 8 ''ND A100 v4'' 0 0,
     pricing_row ''h100'' CP_EQUINIX ''us-east'' TIER_ONDEMAND (25 / 10) 1825 0 0 0 8 ''h100-sxm-8gpu'' 128 2048,
     pricing_row ''a100'' CP_EQUINIX ''us-east'' TIER_ONDEMAND (21 / 10) 1533 0 0 0 8 ''a100-sxm-8gpu'' 96 1024]"

definition get_pricing :: "string \<Rightarrow> cloud_provider option \<Rightarrow> string \<Rightarrow> pricing_tier option \<Rightarrow> gpu_price list" where
  "get_pricing model prov region tier =
     filter (\<lambda>r. (model \<noteq> [] \<longrightarrow> gp_gpu_model r = str_lower model) \<and> (case prov of None \<Rightarrow> True | Some p \<Rightarrow> gp_provider r = p)
       \<and> (region \<noteq> [] \<longrightarrow> str_contains region (gp_region r)) \<and> (case tier of None \<Rightarrow> True | Some t \<Rightarrow> gp_tier r = t)) gpu_pricing"

subsection \<open>Comparison of providers\<close>

record price_comparison =
  pc_gpu_model :: string
  pc_gpu_count :: int
  pc_providers :: "gpu_price list"
  pc_cheapest_ondemand :: "gpu_price option"
  pc_cheapest_overall :: "gpu_price option"
  pc_max_potential_savings_percent :: rat
  pc_recommendation :: "piece list"

definition instances_for :: "int \<Rightarrow> gpu_price \<Rightarrow> int" where
  "instances_for gpu_count r = max \<lceil>(of_int gpu_count :: rat) / of_int (gp_gpu_count_per_instance r)\<rceil> 1"

definition adjusted :: "int \<Rightarrow> gpu_price \<Rightarrow> gpu_price" where
  "adjusted gpu_count r =
     r\<lparr>gp_hourly_cost := py_round 4 (gp_hourly_cost r * of_int (instances_for gpu_count r)),
       gp_monthly_cost := py_round 2 (gp_monthly_cost r * of_int (instances_for gpu_count r))\<rparr>"

text \<open>The first of the cheapest.\<close>

definition cheapest_row :: "gpu_price list \<Rightarrow> gpu_price option" where
  "cheapest_row rs = (case rs of [] \<Rightarrow> None | r # rs' \<Rightarrow> Some (max_by (\<lambda>x. - gp_monthly_cost x) r rs'))"

definition potential_savings :: "gpu_price option \<Rightarrow> gpu_price option \<Rightarrow> rat" where
  "potential_savings overall ondemand =
     (case (ondemand, overall) of
        (Some d, Some v) \<Rightarrow> if 0 < gp_monthly_cost d then py_round 1 ((1 - gp_monthly_cost v / gp_monthly_cost d) * 100) else 0
      | _ \<Rightarrow> 0)"

definition compare_text :: "rat \<Rightarrow> gpu_price option \<Rightarrow> gpu_price option \<Rightarrow> piece list" where
  "compare_text pct overall ondemand =
     (let on_demand = (case ondemand of None \<Rightarrow> []
          | Some d \<Rightarrow> [Txt (''Cheapest on-demand: '' @ cloud_provider_value (gp_provider d) @ '' '' @ gp_region d @ '' at $''),
              whole (gp_monthly_cost d), Txt ''/mo'']) in
      case overall of
        None \<Rightarrow> on_demand
      | Some v \<Rightarrow> if gp_tier v \<noteq> TIER_ONDEMAND
          then [Txt ''Save up to '', whole pct, Txt (''% by using '' @ cloud_provider_value (gp_provider v) @ '' ''
            @ pricing_tier_value (gp_tier v) @ '' in '' @ gp_region v)]
          else on_demand)"

definition compare_providers :: "string \<Rightarrow> int \<Rightarrow> price_comparison" where
  "compare_providers model gpu_count =
     (let rows = map (adjusted gpu_count) (filter (\<lambda>r. gp_gpu_model r = str_lower model) gpu_pricing);
          ondemand = cheapest_row (filter (\<lambda>r. gp_tier r = TIER_ONDEMAND) rows); overall = cheapest_row rows; pct = potential_savings overall ondemand in
      \<lparr>pc_gpu_model = model, pc_gpu_count = gpu_count, pc_providers = rows, pc_cheapest_ondemand = ondemand, pc_cheapest_overall = overall,
       pc_max_potential_savings_percent = pct, pc_recommendation = compare_text pct overall ondemand\<rparr>)"

subsection \<open>The GPUs of a cluster\<close>

text \<open>The model of the last device that names one.\<close>

definition fleet :: "cluster_state option \<Rightarrow> gpu_state list" where
  "fleet st = (case st of None \<Rightarrow> [] | Some s \<Rightarrow> concat (map ns_gpu_devices (cs_nodes s)))"

definition fleet_model :: "cluster_state option \<Rightarrow> string" where
  "fleet_model st = fold (\<lambda>g m. if gs_model g \<noteq> [] then str_remove ''nvidia '' (str_lower (gs_model g)) else m) (fleet st) ''a100''"

definition cluster_title :: "uuid \<Rightarrow> advice_db \<Rightarrow> string" where
  "cluster_title cid s = (case advice_cluster cid s of Inr cl \<Rightarrow> cl_name cl | Inl _ \<Rightarrow> ''unknown'')"

definition aws_row :: "string \<Rightarrow> pricing_tier \<Rightarrow> gpu_price option" where
  "aws_row model tier = find (\<lambda>r. str_contains (gp_gpu_model r) model \<and> gp_provider r = CP_AWS \<and> gp_tier r = tier) gpu_pricing"

definition per_gpu :: "rat \<Rightarrow> gpu_price option \<Rightarrow> rat" where
  "per_gpu d r = (case r of None \<Rightarrow> d | Some x \<Rightarrow> gp_hourly_cost x / of_int (max (gp_gpu_count_per_instance x) 1))"

subsection \<open>Spot and reserved instances\<close>

record spot_savings =
  ss_cluster_id :: uuid
  ss_cluster_name :: string
  ss_total_gpus :: int
  ss_ondemand_monthly_cost :: rat
  ss_spot_monthly_cost :: rat
  ss_monthly_savings :: rat
  ss_annual_savings :: rat
  ss_savings_percent :: rat
  ss_spot_viable_gpus :: int
  ss_interruption_risk :: string
  ss_recommendations :: "piece list list"

definition spot_advice :: "rat \<Rightarrow> rat \<Rightarrow> nat \<Rightarrow> piece list list" where
  "spot_advice pct annual n =
     [if 50 < pct then [Txt ''Spot instances can save '', whole pct, Txt ''% ($'', whole annual, Txt ''/yr) -- use spot for non-critical workloads'']
      else if 30 < pct then [Txt ''Spot pricing offers '', whole pct, Txt ''% savings -- consider spot for training jobs with checkpointing'']
      else [Txt ''Spot savings are modest; evaluate interruption tolerance before switching'']]
   @ (if 16 < n then [[Txt ''With more than 16 GPUs, use a mix of spot (for fault-tolerant jobs) and on-demand (for critical services)'']] else [])
   @ [[Txt ''Enable automatic checkpointing to handle spot instance interruptions'']]"

definition analyze_spot_savings :: "uuid \<Rightarrow> advice_db \<Rightarrow> spot_savings" where
  "analyze_spot_savings cid s =
     (let st = advice_state cid s; n = length (fleet st); model = fleet_model st; per_od = per_gpu (85 / 100) (aws_row model TIER_ONDEMAND);
          per_spot = per_gpu (per_od * (4 / 10)) (aws_row model TIER_SPOT); od = per_od * of_nat n * 730; spot = per_spot * of_nat n * 730;
          saved = od - spot; pct = (if 0 < od then py_round 1 ((1 - spot / od) * 100) else 0) in
      \<lparr>ss_cluster_id = cid, ss_cluster_name = cluster_title cid s, ss_total_gpus = int n, ss_ondemand_monthly_cost = py_round 2 od,
       ss_spot_monthly_cost = py_round 2 spot, ss_monthly_savings = py_round 2 saved, ss_annual_savings = py_round 2 (saved * 12),
       ss_savings_percent = pct, ss_spot_viable_gpus = int n, ss_interruption_risk = ''low'',
       ss_recommendations = spot_advice pct (saved * 12) n\<rparr>)"

record reserved_savings =
  rv_cluster_id :: uuid
  rv_cluster_name :: string
  rv_current_monthly_cost :: rat
  rv_reserved_1yr_monthly_cost :: rat
  rv_reserved_3yr_monthly_cost :: rat
  rv_monthly_savings_1yr :: rat
  rv_monthly_savings_3yr :: rat
  rv_annual_savings_1yr :: rat
  rv_annual_savings_3yr :: rat
  rv_recommended_term :: string
  rv_break_even_months :: rat
  rv_recommendations :: "piece list list"

definition recommend_reserved_instances :: "uuid \<Rightarrow> advice_db \<Rightarrow> reserved_savings" where
  "recommend_reserved_instances cid s =
     (let st = advice_state cid s; n = length (fleet st); row = aws_row (fleet_model st) TIER_ONDEMAND;
          cost = per_gpu (85 / 100) row * of_nat n * 730;
          rate1 = (case row of None \<Rightarrow> 28 / 100 | Some r \<Rightarrow> gp_reserved_1yr_savings_percent r / 100);
          rate3 = (case row of None \<Rightarrow> 52 / 100 | Some r \<Rightarrow> gp_reserved_3yr_savings_percent r / 100);
          res1 = cost * (1 - rate1); res3 = cost * (1 - rate3); saved1 = cost - res1; saved3 = cost - res3;
          term3 = (saved1 * 12 * (3 / 2) < saved3 * 12) in
      \<lparr>rv_cluster_id = cid, rv_cluster_name = cluster_title cid s, rv_current_monthly_cost = py_round 2 cost,
       rv_reserved_1yr_monthly_cost = py_round 2 res1, rv_reserved_3yr_monthly_cost = py_round 2 res3, rv_monthly_savings_1yr = py_round 2 saved1,
       rv_monthly_savings_3yr = py_round 2 saved3, rv_annual_savings_1yr = py_round 2 (saved1 * 12), rv_annual_savings_3yr = py_round 2 (saved3 * 12),
       rv_recommended_term = (if term3 then ''3yr'' else ''1yr''), rv_break_even_months = py_round 1 (cost * 2 / max saved1 1),
       rv_recommendations =
         [[Txt ''Reserved instances could save $'', whole (saved1 * 12), Txt ''/yr (1yr) or $'', whole (saved3 * 12), Txt ''/yr (3yr)''],
          [Txt (if term3 then ''3-year term offers maximum savings for stable, long-running workloads''
            else ''1-year term balances savings with flexibility for evolving workloads'')]]
         @ (if 16 \<le> n then [[Txt ''With 16+ GPUs, reserve a baseline and use on-demand/spot for spikes'']] else [])
         @ [[Txt ''Reserved instances are recommended for production inference endpoints and training clusters'']]\<rparr>)"

subsection \<open>Budgets\<close>

record budget_alert =
  ba_cluster_id :: uuid
  ba_cluster_name :: string
  ba_monthly_budget :: rat
  ba_current_monthly_spend :: rat
  ba_budget_utilization_percent :: rat
  ba_projected_month_end_spend :: rat
  ba_status :: string
  ba_alerts :: "piece list list"

text \<open>Any exception of the cost analysis is logged; the spend is then zero.\<close>

definition monthly_spend :: "uuid \<Rightarrow> advice_db \<Rightarrow> rat" where
  "monthly_spend cid s = (case generate_cost_report cid s of Inl _ \<Rightarrow> 0 | Inr r \<Rightarrow> cp_total_monthly_cost r)"

definition budget_status :: "rat \<Rightarrow> string" where
  "budget_status pct =
     (if 100 \<le> pct then ''over_budget'' else if 85 \<le> pct then ''at_risk'' else if 70 \<le> pct then ''watch'' else ''on_track'')"

definition get_budget_alert :: "uuid \<Rightarrow> rat \<Rightarrow> advice_db \<Rightarrow> budget_alert" where
  "get_budget_alert cid budget0 s =
     (let spend = monthly_spend cid s; budget = (if budget0 \<le> 0 then spend * (12 / 10) else budget0);
          pct = py_round 1 (spend / max budget 1 * 100); projected = spend * (105 / 100); status = budget_status pct in
      \<lparr>ba_cluster_id = cid, ba_cluster_name = cluster_title cid s, ba_monthly_budget = budget, ba_current_monthly_spend = py_round 2 spend,
       ba_budget_utilization_percent = pct, ba_projected_month_end_spend = py_round 2 projected, ba_status = status,
       ba_alerts =
         (if status = ''over_budget'' then [[Txt ''Monthly spend $'', whole spend, Txt '' exceeds budget $'', whole budget, Txt '' by $'',
            whole (spend - budget)]]
          else if status = ''at_risk'' then [[Txt ''Spend at '', whole pct, Txt ''% of budget -- projected to exceed by month end'']] else [])
         @ (if budget < projected then [[Txt ''Projected month-end spend $'', whole projected, Txt '' exceeds budget'']] else [])\<rparr>)"

subsection \<open>Sums over clusters\<close>

definition list_clusters_by_name :: "advice_db \<Rightarrow> cluster list" where
  "list_clusters_by_name s = sorted_by (\<lambda>c. (cl_environment c, cl_name c)) (re_clusters (td_repo s))"

record cluster_costs =
  ccs_cluster_id :: uuid
  ccs_name :: string
  ccs_environment :: string
  ccs_total_gpus :: int
  ccs_monthly_cost :: rat
  ccs_monthly_waste :: rat
  ccs_efficiency :: rat

record cost_totals =
  mc_cluster_count :: int
  mc_total_gpus :: int
  mc_total_monthly_cost :: rat
  mc_total_monthly_waste :: rat
  mc_average_utilization :: rat
  mc_total_potential_monthly_savings :: rat
  mc_total_annual_savings :: rat
  mc_clusters :: "cluster_costs list"
  mc_top_recommendations :: "piece list list"

definition no_totals :: "cluster list \<Rightarrow> cost_totals" where
  "no_totals cls =
     \<lparr>mc_cluster_count = int (length cls), mc_total_gpus = 0, mc_total_monthly_cost = 0, mc_total_monthly_waste = 0, mc_average_utilization = 0,
      mc_total_potential_monthly_savings = 0, mc_total_annual_savings = 0, mc_clusters = [], mc_top_recommendations = []\<rparr>"

definition add_cluster :: "advice_db \<Rightarrow> cluster \<Rightarrow> cost_totals \<Rightarrow> cost_totals" where
  "add_cluster s cl t =
     (case (generate_cost_report (cl_id cl) s, get_cost_summary (cl_id cl) s) of
        (Inr r, Inr m) \<Rightarrow>
          t\<lparr>mc_total_gpus := mc_total_gpus t + cp_total_gpus r, mc_total_monthly_cost := mc_total_monthly_cost t + cp_total_monthly_cost r,
            mc_total_monthly_waste := mc_total_monthly_waste t + cp_waste_monthly_cost r,
            mc_total_potential_monthly_savings := mc_total_potential_monthly_savings t + cm_potential_monthly_savings m,
            mc_total_annual_savings := mc_total_annual_savings t + cm_potential_monthly_savings m * 12,
            mc_clusters := mc_clusters t @ [\<lparr>ccs_cluster_id = cl_id cl, ccs_name = cl_name cl, ccs_environment = cl_environment cl,
              ccs_total_gpus = cp_total_gpus r, ccs_monthly_cost = py_round 2 (cp_total_monthly_cost r),
              ccs_monthly_waste = py_round 2 (cp_waste_monthly_cost r), ccs_efficiency = py_round 1 (cp_efficiency_percent r)\<rparr>]\<rparr>
      | _ \<Rightarrow> t)"

definition aggregate_costs :: "advice_db \<Rightarrow> cost_totals" where
  "aggregate_costs s =
     (let cls = list_clusters_by_name s; t = fold (add_cluster s) cls (no_totals cls);
          avg = (if 0 < mc_total_gpus t
            then py_round 1 (sum_list (map ccs_efficiency (mc_clusters t)) / of_nat (max (length (mc_clusters t)) 1)) else mc_average_utilization t) in
      t\<lparr>mc_average_utilization := avg, mc_top_recommendations :=
        (if 5000 < mc_total_annual_savings t
         then [[Txt ''Annual savings potential of $'', whole (mc_total_annual_savings t), Txt '' -- prioritize right-sizing'']] else [])
        @ (if 2 / 10 < mc_total_monthly_waste t / max (mc_total_monthly_cost t) 1
           then [[Txt ''Waste exceeds 20% of total spend -- review idle GPU allocation'']] else [])
        @ (if 1 < mc_cluster_count t then [[Txt ''Multi-cluster aggregation enabled -- consider centralized GPU pool'']] else [])\<rparr>)"

subsection \<open>Forecasts\<close>

record forecast_point =
  fp_month :: string
  fp_projected_cost :: rat
  fp_optimistic_cost :: rat
  fp_pessimistic_cost :: rat
  fp_confidence_upper :: rat
  fp_confidence_lower :: rat

record cost_forecast =
  fc_cluster_id :: uuid
  fc_cluster_name :: string
  fc_current_monthly_cost :: rat
  fc_forecast :: "forecast_point list"
  fc_projected_annual_cost :: rat
  fc_growth_rate :: rat
  fc_summary :: "piece list"

definition forecast_month :: "rat \<Rightarrow> rat \<Rightarrow> nat \<Rightarrow> forecast_point" where
  "forecast_month cost growth i =
     (let projected = cost * (1 + growth) ^ (i + 1); optimistic = projected * (9 / 10); pessimistic = projected * (115 / 100) in
      \<lparr>fp_month = ''Month '' @ nat_str (i + 1), fp_projected_cost = py_round 2 projected, fp_optimistic_cost = py_round 2 optimistic,
       fp_pessimistic_cost = py_round 2 pessimistic, fp_confidence_upper = py_round 2 (pessimistic * (11 / 10)),
       fp_confidence_lower = py_round 2 (optimistic * (9 / 10))\<rparr>)"

definition forecast_cost :: "uuid \<Rightarrow> int \<Rightarrow> rat \<Rightarrow> advice_db \<Rightarrow> cost_forecast" where
  "forecast_cost cid months growth s =
     (let cost = monthly_spend cid s; points = map (forecast_month cost growth) [0..<nat months]; annual = sum_list (map fp_projected_cost points) in
      \<lparr>fc_cluster_id = cid, fc_cluster_name = cluster_title cid s, fc_current_monthly_cost = py_round 2 cost, fc_forecast = points,
       fc_projected_annual_cost = py_round 2 annual, fc_growth_rate = growth,
       fc_summary = [Txt ''Current $'', whole cost, Txt ''/mo -> $'', whole annual, Txt ''/yr projected at '', whole (growth * 100),
         Txt ''% monthly growth'']\<rparr>)"

subsection \<open>Scenarios\<close>

record scenario =
  sz_scenario_name :: string
  sz_description :: string
  sz_gpu_count_change :: int
  sz_utilization_change :: rat
  sz_provider_change :: "cloud_provider option"
  sz_tier_change :: "pricing_tier option"
  sz_current_monthly_cost :: rat
  sz_scenario_monthly_cost :: rat
  sz_monthly_difference :: rat
  sz_annual_difference :: rat
  sz_recommendations :: "piece list list"

definition provider_discount :: "cloud_provider option \<Rightarrow> pricing_tier option \<Rightarrow> rat" where
  "provider_discount prov tier =
     (if prov = Some CP_EQUINIX then 35 / 100
      else if tier = Some TIER_SPOT then 55 / 100
      else if tier = Some TIER_RESERVED_1YR then 3 / 10
      else if tier = Some TIER_RESERVED_3YR then 5 / 10 else 0)"

definition scenario_cost :: "rat \<Rightarrow> int \<Rightarrow> rat \<Rightarrow> rat \<Rightarrow> rat" where
  "scenario_cost cost change util discount =
     (let per = cost / of_int (max (if change \<noteq> 0 then change else 8) 1);
          c1 = (if change \<noteq> 0 then cost + of_int change * per else cost);
          c2 = (if 0 < util then c1 - c1 * (util / 100) * (3 / 10) else c1) in
      if 0 < discount then c2 * (1 - discount) else c2)"

definition what_if_cost ::
  "string \<Rightarrow> string \<Rightarrow> rat \<Rightarrow> int \<Rightarrow> rat \<Rightarrow> cloud_provider option \<Rightarrow> pricing_tier option \<Rightarrow> scenario" where
  "what_if_cost name desc cost change util prov tier =
     (let discount = provider_discount prov tier; new = scenario_cost cost change util discount; diff = new - cost; annual = diff * 12 in
      \<lparr>sz_scenario_name = name, sz_description = desc, sz_gpu_count_change = change, sz_utilization_change = util, sz_provider_change = prov,
       sz_tier_change = tier, sz_current_monthly_cost = py_round 2 cost, sz_scenario_monthly_cost = py_round 2 new,
       sz_monthly_difference = py_round 2 diff, sz_annual_difference = py_round 2 annual,
       sz_recommendations =
         [if diff < 0 then [Txt ''Scenario saves $'', whole \<bar>diff\<bar>, Txt ''/mo ($'', whole \<bar>annual\<bar>, Txt ''/yr)'']
          else [Txt ''Scenario costs $'', whole diff, Txt ''/mo more ($'', whole annual, Txt ''/yr)'']]
         @ (case prov of None \<Rightarrow> [] | Some p \<Rightarrow> [[Txt (''Provider change to '' @ cloud_provider_value p @ '' estimated at ''),
             whole (discount * 100), Txt ''% discount'']])\<rparr>)"

subsection \<open>Allocation\<close>

record cost_tag =
  tg_key :: string
  tg_value :: string
  tg_monthly_cost :: rat
  tg_gpu_count :: int
  tg_percentage :: rat

definition gpus_by_environment :: "cluster_state option \<Rightarrow> (string, int) dict" where
  "gpus_by_environment st =
     (case st of
        None \<Rightarrow> []
      | Some c \<Rightarrow> fold (\<lambda>n d. let env = dict_get_or (ns_labels n) ''environment'' ''default'' in
          dict_set env (dict_get_or d env 0 + int (length (ns_gpu_devices n))) d) (cs_nodes c) [])"

definition get_cost_allocation :: "uuid \<Rightarrow> advice_db \<Rightarrow> cost_tag list" where
  "get_cost_allocation cid s =
     (let tags = gpus_by_environment (advice_state cid s); cost = monthly_spend cid s; n = sum_list (dict_values tags) in
      sorted_by_desc tg_monthly_cost (map (\<lambda>(env, k).
        let pct = py_round 1 (of_int k / of_int (max n 1) * 100) in
        \<lparr>tg_key = ''environment'', tg_value = env, tg_monthly_cost = py_round 2 (cost * pct / 100), tg_gpu_count = k, tg_percentage = pct\<rparr>) tags))"

subsection \<open>Recommendations\<close>

definition spot_rec :: "datetime \<Rightarrow> uuid \<Rightarrow> spot_savings \<Rightarrow> advice" where
  "spot_rec now cid x =
     \<lparr>av_id = [], av_type = EFFICIENCY, av_severity = ADV_MEDIUM, av_title = [Txt ''Enable spot/preemptible GPU instances''],
      av_description = [Txt ''Using spot instances could save $'', whole (ss_annual_savings x), Txt ''/yr ('', whole (ss_savings_percent x),
        Txt ''% reduction) across '', Val (JInt (ss_spot_viable_gpus x)), Txt '' GPUs.''],
      av_reasoning = [Txt ''Spot instances offer significant cost savings for fault-tolerant workloads. Training jobs with checkpointing and batch inference are ideal candidates.''],
      av_expected_impact = [Txt ''Up to $'', whole (ss_annual_savings x), Txt '' annual savings.''], av_confidence = 75 / 100, av_risk_level = ''medium'',
      av_affected_resources = [''cluster/'' @ cid],
      av_actions = [''Identify workloads that can tolerate interruption'', ''Add checkpointing to training jobs'',
        ''Configure spot instance fallback to on-demand''],
      av_estimated_savings = [(''annual_spot_savings'', ss_annual_savings x)], av_created_at = now, av_score = 0, av_status = REC_PENDING\<rparr>"

definition reserved_rec :: "datetime \<Rightarrow> uuid \<Rightarrow> reserved_savings \<Rightarrow> advice" where
  "reserved_rec now cid x =
     \<lparr>av_id = [], av_type = RIGHT_SIZING, av_severity = ADV_LOW, av_title = [Txt ''Purchase reserved/committed use instances''],
      av_description = [Txt ''Reserved instances could save $'', whole (rv_annual_savings_1yr x), Txt ''/yr (1yr) or $'',
        whole (rv_annual_savings_3yr x), Txt ''/yr (3yr).''],
      av_reasoning = [Txt ''For stable, predictable GPU workloads, reserved instances provide significant discounts over on-demand pricing.''],
      av_expected_impact = [Txt ''$'', whole (rv_annual_savings_1yr x), Txt '' annual savings with 1-year commitment.''], av_confidence = 8 / 10,
      av_risk_level = ''low'', av_affected_resources = [''cluster/'' @ cid],
      av_actions = [''Commit to '' @ rv_recommended_term x @ '' reserved instances'', ''Reserve baseline capacity, use on-demand for spikes'',
        ''Review utilization monthly to optimize coverage''],
      av_estimated_savings = [(''annual_reserved_savings'', rv_annual_savings_1yr x)], av_created_at = now, av_score = 0, av_status = REC_PENDING\<rparr>"

definition waste_rec :: "datetime \<Rightarrow> uuid \<Rightarrow> cost_report \<Rightarrow> advice" where
  "waste_rec now cid r =
     \<lparr>av_id = [], av_type = EFFICIENCY, av_severity = ADV_HIGH, av_title = [Txt ''Reduce GPU waste from idle resources''],
      av_description = [Txt ''$'', whole (cp_waste_monthly_cost r), Txt ''/mo ($'', whole (cp_waste_monthly_cost r * 12),
        Txt ''/yr) wasted on idle or underutilized GPUs.''],
      av_reasoning = [Txt ''Cluster has '', Val (JInt (cp_idle_gpus r)), Txt '' idle GPUs out of '', Val (JInt (cp_total_gpus r)),
        Txt '' total. Rightsizing or consolidating workloads can reduce waste.''],
      av_expected_impact = [Txt ''Up to $'', whole (cp_waste_monthly_cost r * 12), Txt '' annual savings from eliminating waste.''],
      av_confidence = 85 / 100, av_risk_level = ''low'', av_affected_resources = [''cluster/'' @ cid],
      av_actions = [''Identify and terminate idle GPU instances'', ''Consolidate underutilized workloads'',
        ''Implement auto-scaling for variable demand''],
      av_estimated_savings = [(''annual_waste_reduction'', py_round 2 (cp_waste_monthly_cost r * 12))], av_created_at = now, av_score = 0,
      av_status = REC_PENDING\<rparr>"

definition generate_finops_recommendations :: "datetime \<Rightarrow> (nat \<Rightarrow> uuid) \<Rightarrow> uuid \<Rightarrow> advice_db \<Rightarrow> advice list" where
  "generate_finops_recommendations now ids cid s =
     (case advice_cluster cid s of
        Inl _ \<Rightarrow> []
      | Inr _ \<Rightarrow>
          (let spot = analyze_spot_savings cid s; res = recommend_reserved_instances cid s in
           numbered ids
             ((if 1000 < ss_annual_savings spot then [spot_rec now cid spot] else [])
              @ (if 2000 < rv_annual_savings_1yr res then [reserved_rec now cid res] else [])
              @ (case generate_cost_report cid s of
                   Inl _ \<Rightarrow> []
                 | Inr r \<Rightarrow> if cp_total_monthly_cost r * (15 / 100) < cp_waste_monthly_cost r then [waste_rec now cid r] else []))))"

subsection \<open>Routes\<close>

text \<open>\<open>CloudProvider(t) if t else None\<close>: a text that names no member raises \<open>ValueError\<close>.\<close>

definition read_provider :: "string \<Rightarrow> py_error + cloud_provider option" where
  "read_provider t =
     (if t = [] then Inr None
      else case find (\<lambda>p. cloud_provider_value p = t) [CP_AWS, CP_GCP, CP_AZURE, CP_EQUINIX, CP_CUSTOM] of
             None \<Rightarrow> Inl (ValueError (quoted t @ '' is not a valid CloudProvider'')) | p \<Rightarrow> Inr p)"

definition read_tier :: "string \<Rightarrow> py_error + pricing_tier option" where
  "read_tier t =
     (if t = [] then Inr None
      else case find (\<lambda>p. pricing_tier_value p = t) [TIER_ONDEMAND, TIER_SPOT, TIER_RESERVED_1YR, TIER_RESERVED_3YR] of
             None \<Rightarrow> Inl (ValueError (quoted t @ '' is not a valid GpuPricingTier'')) | p \<Rightarrow> Inr p)"

definition route_pricing :: "string \<Rightarrow> string \<Rightarrow> string \<Rightarrow> string \<Rightarrow> py_error + gpu_price list" where
  "route_pricing model prov region tier =
     try_bind (read_provider prov) (\<lambda>p. try_bind (read_tier tier) (\<lambda>t. Inr (get_pricing model p region t)))"

definition route_what_if_cost :: "string \<Rightarrow> string \<Rightarrow> rat \<Rightarrow> int \<Rightarrow> rat \<Rightarrow> string \<Rightarrow> string \<Rightarrow> py_error + scenario" where
  "route_what_if_cost name desc cost change util prov tier =
     try_bind (read_provider prov) (\<lambda>p. try_bind (read_tier tier) (\<lambda>t. Inr (what_if_cost name desc cost change util p t)))"

subsection \<open>What the scenarios say\<close>

lemma growing_doubles: "0 < k \<Longrightarrow> scenario_cost cost k 0 0 = 2 * cost"
  by (simp add: scenario_cost_def Let_def)

lemma shrinking_negative: "0 < k \<Longrightarrow> scenario_cost cost (- k) 0 0 = (1 - of_int k) * cost"
  by (simp add: scenario_cost_def Let_def algebra_simps)

text \<open>
  The scenario of a changed number of GPUs does not depend on how many the cluster has: any growth, by one
  GPU or by a thousand, doubles the monthly cost; giving up one GPU makes the cluster free, and giving up two
  or more makes its cost negative.
\<close>

theorem scenario_ignores_size:
  assumes "0 < k" and "0 < cost"
  shows "sz_scenario_monthly_cost (what_if_cost name desc cost k 0 None None) = py_round 2 (2 * cost)
    \<and> sz_scenario_monthly_cost (what_if_cost name desc cost (- 1) 0 None None) = 0
    \<and> sz_scenario_monthly_cost (what_if_cost name desc cost (- (k + 1)) 0 None None) = py_round 2 (- (of_int k * cost))"
  using assms growing_doubles [of k cost] shrinking_negative [of 1 cost] shrinking_negative [of "k + 1" cost] py_round_int [of 2 0]
  by (simp add: what_if_cost_def Let_def provider_discount_def)

theorem scenario_ignores_size_witness:
  "sz_scenario_monthly_cost (what_if_cost ''grow'' [] 1000 1 0 None None) = py_round 2 (2 * 1000)
     \<and> sz_scenario_monthly_cost (what_if_cost ''shrink'' [] 1000 (- 1) 0 None None) = 0"
  using scenario_ignores_size [of 1 1000] by simp

subsection \<open>Comparison\<close>

lemma cheapest_facts: "cheapest_row rs = Some v \<Longrightarrow> v \<in> set rs \<and> (\<forall>x \<in> set rs. gp_monthly_cost v \<le> gp_monthly_cost x)"
  using max_by_mem [of "\<lambda>x. - gp_monthly_cost x" "hd rs" "tl rs"] max_by_ge [of _ "hd rs" "tl rs" "\<lambda>x. - gp_monthly_cost x"]
  by (cases rs) (auto simp: cheapest_row_def)

lemma cheapest_None: "cheapest_row rs = None \<longleftrightarrow> rs = []"
  by (simp add: cheapest_row_def split: list.split)

lemma prices_positive: "r \<in> set gpu_pricing \<Longrightarrow> 0 < gp_monthly_cost r \<and> 0 < gp_gpu_count_per_instance r"
  by (auto simp: gpu_pricing_def pricing_row_def)

lemma adjusted_cost: "r \<in> set gpu_pricing \<Longrightarrow> 0 \<le> gp_monthly_cost (adjusted gpu_count r)"
  using prices_positive [of r] by (auto simp: adjusted_def instances_for_def intro!: zero_le_round)

lemma savings_range:
  assumes "0 \<le> gp_monthly_cost v" and "gp_monthly_cost v \<le> gp_monthly_cost d"
  shows "0 \<le> potential_savings (Some v) (Some d) \<and> potential_savings (Some v) (Some d) \<le> 100"
proof (cases "0 < gp_monthly_cost d")
  case True
  define q where "q = gp_monthly_cost v / gp_monthly_cost d"
  have "0 \<le> q" "q \<le> 1" using assms True by (simp_all add: q_def)
  then have "0 \<le> (1 - q) * 100" "(1 - q) * 100 \<le> 100" by simp_all
  then show ?thesis using True py_round_bounds [of 0 "(1 - q) * 100" 100 1] by (simp add: potential_savings_def q_def [symmetric])
qed (simp add: potential_savings_def)

text \<open>
  The comparison of providers lists the rows of the model, each for as many instances as hold the GPUs,
  and names a row of the list that costs no more than any other, and an on-demand row that costs no more
  than any other on-demand row; the savings it promises are between nothing and one hundred percent.
\<close>

theorem comparison_cheapest:
  "(let c = compare_providers model gpu_count in
     pc_providers c = map (adjusted gpu_count) (filter (\<lambda>r. gp_gpu_model r = str_lower model) gpu_pricing)
     \<and> (pc_cheapest_overall c = None \<longleftrightarrow> pc_providers c = [])
     \<and> (case pc_cheapest_overall c of None \<Rightarrow> True
          | Some v \<Rightarrow> v \<in> set (pc_providers c) \<and> list_all (\<lambda>x. gp_monthly_cost v \<le> gp_monthly_cost x) (pc_providers c))
     \<and> (case pc_cheapest_ondemand c of None \<Rightarrow> True
          | Some d \<Rightarrow> d \<in> set (pc_providers c) \<and> gp_tier d = TIER_ONDEMAND
              \<and> list_all (\<lambda>x. gp_monthly_cost d \<le> gp_monthly_cost x) (filter (\<lambda>x. gp_tier x = TIER_ONDEMAND) (pc_providers c)))
     \<and> 0 \<le> pc_max_potential_savings_percent c \<and> pc_max_potential_savings_percent c \<le> 100)"
proof -
  define rows where "rows = map (adjusted gpu_count) (filter (\<lambda>r. gp_gpu_model r = str_lower model) gpu_pricing)"
  have pos: "\<forall>x \<in> set rows. 0 \<le> gp_monthly_cost x" by (auto simp: rows_def adjusted_cost)
  let ?d = "cheapest_row (filter (\<lambda>r. gp_tier r = TIER_ONDEMAND) rows)" and ?v = "cheapest_row rows"
  have range: "0 \<le> potential_savings ?v ?d \<and> potential_savings ?v ?d \<le> 100"
  proof (cases "?d = None \<or> ?v = None")
    case False
    then obtain d v where dv: "?d = Some d" "?v = Some v" by auto
    then show ?thesis using cheapest_facts [OF dv(1)] cheapest_facts [OF dv(2)] pos savings_range [of v d] by auto
  qed (auto simp: potential_savings_def split: option.splits)
  have best: "case ?v of None \<Rightarrow> True | Some v \<Rightarrow> v \<in> set rows \<and> list_all (\<lambda>x. gp_monthly_cost v \<le> gp_monthly_cost x) rows"
    "case ?d of None \<Rightarrow> True | Some d \<Rightarrow> d \<in> set rows \<and> gp_tier d = TIER_ONDEMAND
      \<and> list_all (\<lambda>x. gp_monthly_cost d \<le> gp_monthly_cost x) (filter (\<lambda>x. gp_tier x = TIER_ONDEMAND) rows)"
    by (auto split: option.split dest!: cheapest_facts simp: list_all_iff)
  let ?c = "compare_providers model gpu_count"
  have c: "pc_providers ?c = rows" "pc_cheapest_overall ?c = ?v" "pc_cheapest_ondemand ?c = ?d"
    "pc_max_potential_savings_percent ?c = potential_savings ?v ?d"
    by (simp_all add: compare_providers_def Let_def rows_def)
  show ?thesis unfolding Let_def c using range best cheapest_None [of rows] by (intro conjI) (simp_all only: rows_def)
qed

subsection \<open>Budgets and forecasts\<close>

text \<open>Without a budget the budget follows the spend: the status is always the same and nothing is ever alerted.\<close>

lemma no_budget_no_alert:
  assumes "1 \<le> monthly_spend cid s"
  shows "ba_status (get_budget_alert cid 0 s) = ''watch'' \<and> ba_alerts (get_budget_alert cid 0 s) = []"
proof -
  let ?x = "monthly_spend cid s"
  have "max (?x * (12 / 10)) 1 = ?x * (12 / 10)" using assms by (simp add: max_def)
  then have "?x / max (?x * (12 / 10)) 1 * 100 = 250 / 3" using assms by simp
  moreover have "py_round 1 (250 / 3) = 833 / 10" by code_simp
  ultimately have "budget_status (py_round 1 (?x / max (?x * (12 / 10)) 1 * 100)) = ''watch''" by (simp only: budget_status_def) simp
  then show ?thesis using assms by (simp add: get_budget_alert_def Let_def)
qed

lemma forecast_bracketed:
  assumes "0 \<le> cost" and "- 1 \<le> growth"
  shows "fp_confidence_lower (forecast_month cost growth i) \<le> fp_optimistic_cost (forecast_month cost growth i)
    \<and> fp_optimistic_cost (forecast_month cost growth i) \<le> fp_projected_cost (forecast_month cost growth i)
    \<and> fp_projected_cost (forecast_month cost growth i) \<le> fp_pessimistic_cost (forecast_month cost growth i)
    \<and> fp_pessimistic_cost (forecast_month cost growth i) \<le> fp_confidence_upper (forecast_month cost growth i)"
proof -
  have "0 \<le> cost * (1 + growth) ^ (i + 1)" using assms by (intro mult_nonneg_nonneg zero_le_power) auto
  then show ?thesis unfolding forecast_month_def Let_def by (auto intro!: py_round_mono)
qed

end
