(* ===== verification/Queues.thy ===== *)
theory Queues
  imports Flavors Fairness RlScheduler Values
begin

text \<open>
  The batch queues: \<open>KueueAdapter\<close> of src/src/gpuopt/scheduler/kueue_adapter.py, \<open>VolcanoAdapter\<close> of
  volcano_adapter.py and the routes of scheduler/router.py, on the flavors of \<open>Flavors\<close>, the shares of
  \<open>Fairness\<close> and the learner of \<open>RlScheduler\<close>. The Kubernetes API is outside the repository: what it
  answers is an argument, an object it lists is the record of the fields that the adapters read, and
  a field that is absent is \<open>None\<close>. Fresh identifiers, the text of the clock and the random numbers
  are arguments. As in \<open>RlScheduler\<close>, the learner's file is not modelled and a call that raises
  is not shown to keep what it had learned before.
\<close>

subsection \<open>The Kubernetes API\<close>

record flavor_spec =
  fs_name :: "string option"
  fs_resources :: "(string option \<times> string option) list"
  fs_node_labels :: "(string, string) dict"

record cluster_queue =
  cq_api_version :: "string option"
  cq_name :: "string option"
  cq_namespace :: "string option"
  cq_cohort :: "string option"
  cq_resource_groups :: "json option"
  cq_fair_sharing :: "json option"
  cq_flavors :: "flavor_spec list"
  cq_admitted :: "int option"
  cq_pending :: "int option"
  cq_reserving :: "int option"

text \<open>The limits are the GPU limits of the containers, pod set by pod set.\<close>

record kueue_workload =
  kw_name :: "string option"
  kw_namespace :: "string option"
  kw_annotations :: "(string, string) dict"
  kw_queue_name :: "string option"
  kw_priority :: "int option"
  kw_limits :: "json option list list"
  kw_conditions :: "(string, json) dict list"
  kw_admission_check_state :: "json option"

record workload_body =
  wb_name :: string
  wb_namespace :: string
  wb_labels :: "(string, string) dict"
  wb_annotations :: "(string, string) dict"
  wb_queue_name :: string
  wb_priority :: int
  wb_priority_class_name :: string
  wb_gpus :: int
  wb_memory_mi :: int
  wb_node_selector :: "(string, string) dict option"

record volcano_queue =
  vq_name :: "string option"
  vq_weight :: "int option"
  vq_capabilities :: "json option"
  vq_state :: "string option"
  vq_running :: "int option"
  vq_pending :: "int option"

record pod_group =
  pg_name :: "string option"
  pg_namespace :: "string option"
  pg_queue :: "string option"
  pg_min_member :: "int option"
  pg_phase :: "string option"
  pg_running :: "int option"
  pg_failed :: "int option"

record pod_group_body =
  gb_name :: string
  gb_namespace :: string
  gb_labels :: "(string, string) dict"
  gb_annotations :: "(string, string) dict"
  gb_queue :: string
  gb_priority :: int
  gb_gpus :: int
  gb_memory_mi :: int

text \<open>
  What the API answers: the names of the custom resource definitions, the objects of a version, and whether
  it accepts a new object, and whether the client's configuration can be loaded at all.
\<close>

record kube =
  kb_loads :: bool
  kb_crds :: "py_error + string option list"
  kb_queues :: "string \<Rightarrow> py_error + cluster_queue list"
  kb_workloads :: "string \<Rightarrow> string option \<Rightarrow> py_error + kueue_workload list"
  kb_create_workload :: "workload_body \<Rightarrow> py_error option"
  kb_volcano_queues :: "py_error + volcano_queue list"
  kb_pod_groups :: "string option \<Rightarrow> py_error + pod_group list"
  kb_create_pod_group :: "pod_group_body \<Rightarrow> py_error option"

text \<open>
  The state the adapters share: whether the client was initialised, the flavors, the learner, and the
  objects whose creation was asked for, in order.
\<close>

record queue_state =
  qs_initialized :: bool
  qs_flavors :: flavors
  qs_learner :: learner
  qs_workloads_sent :: "workload_body list"
  qs_pod_groups_sent :: "pod_group_body list"

text \<open>Before it is initialised the client has no custom-object API, and every call of it raises.\<close>

definition custom_api :: "queue_state \<Rightarrow> py_error + 'a \<Rightarrow> py_error + 'a" where
  "custom_api s m =
     (if qs_initialized s then m
      else Inl (AttributeError (quoted ''NoneType'' @ '' object has no attribute '' @ quoted ''list_cluster_custom_object'')))"

definition ensure_client :: "kube \<Rightarrow> queue_state \<Rightarrow> bool \<times> queue_state" where
  "ensure_client k s = (let ok = qs_initialized s \<or> kb_loads k in (ok, s\<lparr>qs_initialized := ok\<rparr>))"

subsection \<open>Detection\<close>

record adapter =
  ad_detected :: bool
  ad_version :: string

record detection =
  dt_detected :: bool
  dt_version :: "string option"
  dt_error :: "string option"

definition new_kueue :: adapter where
  "new_kueue = \<lparr>ad_detected = False, ad_version = []\<rparr>"

definition new_volcano :: adapter where
  "new_volcano = \<lparr>ad_detected = False, ad_version = ''v1beta1''\<rparr>"

definition kueue_version :: "kube \<Rightarrow> queue_state \<Rightarrow> string" where
  "kueue_version k s =
     (case custom_api s (kb_queues k ''v1beta1'') of Inr (q # _) \<Rightarrow> or_default (cq_api_version q) ''v1beta1'' | _ \<Rightarrow> ''v1beta1'')"

definition detect_crd :: "string \<Rightarrow> string \<Rightarrow> kube \<Rightarrow> queue_state \<Rightarrow> adapter \<Rightarrow> adapter \<times> detection" where
  "detect_crd crd version k s a =
     (case custom_api s (kb_crds k) of
        Inl e \<Rightarrow> (a\<lparr>ad_detected := False\<rparr>, \<lparr>dt_detected = False, dt_version = None, dt_error = Some (error_text e)\<rparr>)
      | Inr names \<Rightarrow>
          if list_ex (\<lambda>n. str_contains crd (or_default n [])) names
          then (\<lparr>ad_detected = True, ad_version = version\<rparr>, \<lparr>dt_detected = True, dt_version = Some version, dt_error = None\<rparr>)
          else (a\<lparr>ad_detected := False\<rparr>, \<lparr>dt_detected = False, dt_version = Some [], dt_error = None\<rparr>))"

definition kueue_detect :: "kube \<Rightarrow> queue_state \<Rightarrow> adapter \<Rightarrow> adapter \<times> detection" where
  "kueue_detect k s = detect_crd ''clusterqueues.kueue.x-k8s.io'' (kueue_version k s) k s"

definition volcano_detect :: "kube \<Rightarrow> queue_state \<Rightarrow> adapter \<Rightarrow> adapter \<times> detection" where
  "volcano_detect k s a = detect_crd ''queues.scheduling.volcano.sh'' (ad_version a) k s a"

subsection \<open>Flavors from the queues\<close>

record found_flavor =
  ff_name :: string
  ff_resources :: "(string, string) dict"
  ff_node_labels :: "(string, string) dict"
  ff_tier :: string

definition infer_tier :: "string \<Rightarrow> flavor_tier" where
  "infer_tier name =
     (let has = (\<lambda>w. str_contains w (str_lower name)) in
      if has ''spot'' \<or> has ''preempt'' then SPOT
      else if has ''reserved'' \<or> has ''reservation'' then RESERVED
      else if has ''premium'' \<or> has ''high'' \<or> has ''a100'' \<or> has ''h100'' then PREMIUM
      else STANDARD)"

definition spec_name :: "flavor_spec \<Rightarrow> string" where
  "spec_name f = or_default (fs_name f) []"

definition spec_resources :: "flavor_spec \<Rightarrow> (string, string) dict" where
  "spec_resources f = fold (\<lambda>(n, q). dict_set (or_default n []) (or_default q [])) (fs_resources f) []"

definition discover_flavor :: "flavor_spec \<Rightarrow> queue_state \<times> found_flavor list \<Rightarrow> queue_state \<times> found_flavor list" where
  "discover_flavor f = (\<lambda>(s, found).
     let name = spec_name f; res = spec_resources f; tier = infer_tier name in
     (s\<lparr>qs_flavors := fst (create_flavor name (fs_node_labels f) [] res tier 0 0 (qs_flavors s))\<rparr>,
      found @ [\<lparr>ff_name = name, ff_resources = res, ff_node_labels = fs_node_labels f, ff_tier = flavor_tier_value tier\<rparr>]))"

definition discover_flavors_from_queues :: "kube \<Rightarrow> adapter \<Rightarrow> queue_state \<Rightarrow> queue_state \<times> found_flavor list" where
  "discover_flavors_from_queues k a s =
     (if \<not> ad_detected a then (s, [])
      else case custom_api s (kb_queues k (ad_version a)) of
             Inl _ \<Rightarrow> (s, [])
           | Inr qs \<Rightarrow> fold discover_flavor (concat (map cq_flavors qs)) (s, []))"

record flavor_view =
  fv_name :: string
  fv_tier :: string
  fv_priority :: int
  fv_node_labels :: "(string, string) dict"
  fv_resources :: "(string, string) dict"
  fv_active :: bool

definition view_flavor :: "flavor \<Rightarrow> flavor_view" where
  "view_flavor f =
     \<lparr>fv_name = fl_name f, fv_tier = flavor_tier_value (fl_tier f), fv_priority = fl_priority f, fv_node_labels = fl_node_labels f,
      fv_resources = fl_resources f, fv_active = fl_active f\<rparr>"

definition adapter_flavors :: "queue_state \<Rightarrow> flavor_view list" where
  "adapter_flavors s = map view_flavor (list_flavors None (qs_flavors s))"

text \<open>What a fairness call returns; the answers print the fields of the allocations.\<close>

definition fairness_result :: "(string, tenant_info) dict \<Rightarrow> int \<Rightarrow> drf_result \<times> rebalance list" where
  "fairness_result tenants total_gpus = (let r = drf_compute tenants total_gpus in (r, suggest_rebalance r))"

subsection \<open>Queues\<close>

record flavor_detail =
  fd_name :: string
  fd_tier :: string
  fd_resources :: "(string, string) dict"

record queue_view =
  qv_name :: string
  qv_namespace :: string
  qv_cohort :: string
  qv_resource_groups :: json
  qv_fair_sharing :: json
  qv_flavors :: "string option list"
  qv_flavor_details :: "flavor_detail list"
  qv_admitted :: int
  qv_pending :: int
  qv_reserving :: int

definition mock_queues :: "queue_view list" where
  "mock_queues =
     [\<lparr>qv_name = ''gpu-queue'', qv_namespace = ''default'', qv_cohort = ''gpu-cohort'', qv_resource_groups = JList [], qv_fair_sharing = JObj [],
       qv_flavors = [Some ''default-flavor'', Some ''spot-flavor''],
       qv_flavor_details =
         [\<lparr>fd_name = ''default-flavor'', fd_tier = ''standard'', fd_resources = [(''nvidia.com/gpu'', ''8'')]\<rparr>,
          \<lparr>fd_name = ''spot-flavor'', fd_tier = ''spot'', fd_resources = [(''nvidia.com/gpu'', ''4'')]\<rparr>],
       qv_admitted = 5, qv_pending = 3, qv_reserving = 1\<rparr>,
      \<lparr>qv_name = ''inference-queue'', qv_namespace = ''default'', qv_cohort = ''gpu-cohort'', qv_resource_groups = JList [],
       qv_fair_sharing = JObj [], qv_flavors = [Some ''premium-flavor''],
       qv_flavor_details = [\<lparr>fd_name = ''premium-flavor'', fd_tier = ''premium'', fd_resources = [(''nvidia.com/gpu'', ''4'')]\<rparr>],
       qv_admitted = 2, qv_pending = 1, qv_reserving = 0\<rparr>]"

definition named_flavor :: "flavors \<Rightarrow> string option \<Rightarrow> flavor option" where
  "named_flavor fm n = (case n of None \<Rightarrow> None | Some name \<Rightarrow> get_flavor name fm)"

definition view_queue :: "flavors \<Rightarrow> cluster_queue \<Rightarrow> queue_view" where
  "view_queue fm q =
     \<lparr>qv_name = or_default (cq_name q) [], qv_namespace = or_default (cq_namespace q) [], qv_cohort = or_default (cq_cohort q) [],
      qv_resource_groups = or_default (cq_resource_groups q) (JList []), qv_fair_sharing = or_default (cq_fair_sharing q) (JObj []),
      qv_flavors = map fs_name (cq_flavors q),
      qv_flavor_details =
        map (\<lambda>f. \<lparr>fd_name = fl_name f, fd_tier = flavor_tier_value (fl_tier f), fd_resources = fl_resources f\<rparr>)
          (List.map_filter (named_flavor fm \<circ> fs_name) (cq_flavors q)),
      qv_admitted = or_default (cq_admitted q) 0, qv_pending = or_default (cq_pending q) 0, qv_reserving = or_default (cq_reserving q) 0\<rparr>"

definition list_cluster_queues :: "kube \<Rightarrow> adapter \<Rightarrow> queue_state \<Rightarrow> queue_view list" where
  "list_cluster_queues k a s =
     (if \<not> ad_detected a then mock_queues
      else case custom_api s (kb_queues k (ad_version a)) of
             Inl _ \<Rightarrow> mock_queues | Inr qs \<Rightarrow> map (view_queue (qs_flavors s)) qs)"

subsection \<open>Submission of a workload\<close>

text \<open>\<open>f'{x:.4f}'\<close>.\<close>

definition fixed4 :: "rat \<Rightarrow> string" where
  "fixed4 x =
     (let n = nat \<bar>round_half_even (x * 10000)\<bar>; ds = nat_str (n mod 10000) in
      (if x < 0 then ''-'' else []) @ nat_str (n div 10000) @ ''.'' @ replicate (4 - length ds) (CHR ''0'') @ ds)"

definition choose_flavor :: "string \<Rightarrow> int \<Rightarrow> flavors \<Rightarrow> flavor option" where
  "choose_flavor name gpus fm =
     (let f = (if name \<noteq> [] then get_flavor name fm else None) in
      if f = None \<and> list_flavors None fm \<noteq> [] then select_flavor gpus None [] fm else f)"

text \<open>
  A learner that knows nothing is trained first, on fifty episodes of twenty random jobs, which are an
  argument. Then it places the job, when there are nodes: the label is the node's identifier.
\<close>

definition trained :: "(draws \<times> rl_job \<times> rl_node list) list list \<Rightarrow> rl_node list \<Rightarrow> learner \<Rightarrow> py_error + learner" where
  "trained episodes nodes l = (if nodes \<noteq> [] \<and> le_q_table l = [] then train_from_history episodes l else Inr l)"

definition place_on :: "draws \<Rightarrow> rl_job \<Rightarrow> rl_node list \<Rightarrow> learner \<Rightarrow> py_error + learner \<times> string \<times> rat" where
  "place_on d j nodes l =
     (if nodes = [] then Inr (l, [], 0)
      else try_bind (rl_schedule d j nodes l) (\<lambda>(l', r).
        Inr (l', (case rp_node r of None \<Rightarrow> [] | Some _ \<Rightarrow> rp_node_id r), rp_q_value r)))"

definition object_name :: "string \<Rightarrow> string \<Rightarrow> string" where
  "object_name fresh jid = ''gpuopt-'' @ take 8 (if jid \<noteq> [] then jid else fresh)"

definition when_set :: "string \<Rightarrow> string \<Rightarrow> (string, string) dict" where
  "when_set key v = (if v \<noteq> [] then [(key, v)] else [])"

definition workload_for ::
  "string \<Rightarrow> string \<Rightarrow> rl_job \<Rightarrow> string \<Rightarrow> string \<Rightarrow> string \<Rightarrow> string \<Rightarrow> rat \<Rightarrow> flavor option \<Rightarrow> workload_body" where
  "workload_for fresh now j queue ns priority_class node q flavor =
     \<lparr>wb_name = object_name fresh (rj_id j), wb_namespace = ns,
      wb_labels = [(''app.kubernetes.io/managed-by'', ''gpuopt''), (''gpuopt.ai/job-id'', rj_id j), (''gpuopt.ai/rl-q-value'', fixed4 q)]
        @ when_set ''kueue.x-k8s.io/priority-class'' priority_class @ when_set ''gpuopt.ai/placement-node'' node
        @ (case flavor of None \<Rightarrow> [] | Some f \<Rightarrow> [(''kueue.x-k8s.io/flavor'', fl_name f)]),
      wb_annotations = [(''gpuopt.ai/created-at'', now), (''gpuopt.ai/required-gpus'', int_str (rj_required_gpus j)),
          (''gpuopt.ai/priority'', int_str (rj_priority j)), (''gpuopt.ai/rl-reward'', fixed4 q)]
        @ (case flavor of None \<Rightarrow> [] | Some f \<Rightarrow>
            [(''gpuopt.ai/flavor'', fl_name f), (''gpuopt.ai/flavor-tier'', flavor_tier_value (fl_tier f))]),
      wb_queue_name = queue, wb_priority = rj_priority j, wb_priority_class_name = priority_class, wb_gpus = rj_required_gpus j,
      wb_memory_mi = int_of (rj_memory_gb j * 1024), wb_node_selector = map_option fl_node_labels flavor\<rparr>"

record accepted =
  sb_workload_name :: string
  sb_namespace :: string
  sb_cluster_queue :: string
  sb_flavor :: string
  sb_flavor_tier :: string
  sb_rl_placement :: string
  sb_rl_q_value :: rat

datatype submission = Submitted accepted | Failed string string | DryRun workload_body string

text \<open>The creation of the object, when a client is there.\<close>

definition send_workload ::
  "kube \<Rightarrow> string \<Rightarrow> rat \<Rightarrow> flavor option \<Rightarrow> workload_body \<Rightarrow> queue_state \<Rightarrow> queue_state \<times> submission" where
  "send_workload k node q flavor body s =
     (let (ok, t) = ensure_client k s in
      if ok then
        (t\<lparr>qs_workloads_sent := qs_workloads_sent t @ [body]\<rparr>,
         case kb_create_workload k body of
           Some e \<Rightarrow> Failed (error_text e) (wb_name body)
         | None \<Rightarrow> Submitted
             \<lparr>sb_workload_name = wb_name body, sb_namespace = wb_namespace body, sb_cluster_queue = wb_queue_name body,
              sb_flavor = (case flavor of None \<Rightarrow> ''default'' | Some f \<Rightarrow> fl_name f),
              sb_flavor_tier = (case flavor of None \<Rightarrow> [] | Some f \<Rightarrow> flavor_tier_value (fl_tier f)),
              sb_rl_placement = (if node \<noteq> [] then node else ''pending''), sb_rl_q_value = q\<rparr>)
      else (t, DryRun body (wb_name body)))"

definition submit_workload ::
  "kube \<Rightarrow> (draws \<times> rl_job \<times> rl_node list) list list \<Rightarrow> draws \<Rightarrow> string \<Rightarrow> string \<Rightarrow> rl_job \<Rightarrow> string \<Rightarrow> string \<Rightarrow> string
    \<Rightarrow> rl_node list \<Rightarrow> string \<Rightarrow> queue_state \<Rightarrow> py_error + queue_state \<times> submission" where
  "submit_workload k episodes d fresh now j queue ns priority_class nodes flavor_name s =
     try_bind (trained episodes nodes (qs_learner s)) (\<lambda>l.
     try_bind (place_on d j nodes l) (\<lambda>(l', node, q).
       let flavor = choose_flavor flavor_name (rj_required_gpus j) (qs_flavors s) in
       Inr (send_workload k node q flavor (workload_for fresh now j queue ns priority_class node q flavor) (s\<lparr>qs_learner := l'\<rparr>))))"

subsection \<open>Listing of workloads\<close>

record workload_view =
  wv_name :: string
  wv_namespace :: string
  wv_queue :: string
  wv_priority :: int
  wv_gpus :: int
  wv_phase :: string
  wv_conditions :: "(string, json) dict list option"
  wv_flavor :: string
  wv_flavor_tier :: string

text \<open>The first limit that is set, as a number.\<close>

fun first_gpus :: "json option list \<Rightarrow> py_error + int" where
  "first_gpus [] = Inr 0"
| "first_gpus (g # gs) = (let v = or_default g (JInt 0) in if json_true v then json_int v else first_gpus gs)"

definition extract_gpus :: "kueue_workload \<Rightarrow> py_error + int" where
  "extract_gpus w = first_gpus (concat (kw_limits w))"

definition holds :: "string \<Rightarrow> (string, json) dict \<Rightarrow> bool" where
  "holds kind c \<longleftrightarrow> dict_get c ''type'' = Some (JStr kind) \<and> dict_get c ''status'' = Some (JStr ''True'')"

fun phase_of_conditions :: "string \<Rightarrow> (string, json) dict list \<Rightarrow> string" where
  "phase_of_conditions other [] = other"
| "phase_of_conditions other (c # cs) =
     (if holds ''Admitted'' c then ''admitted'' else if holds ''QuotaReserved'' c then ''reserved'' else phase_of_conditions other cs)"

definition determine_phase :: "kueue_workload \<Rightarrow> string" where
  "determine_phase w =
     phase_of_conditions (if json_true (or_default (kw_admission_check_state w) JNull) then ''pending'' else ''queued'') (kw_conditions w)"

definition view_workload :: "kueue_workload \<Rightarrow> py_error + workload_view" where
  "view_workload w =
     try_bind (extract_gpus w) (\<lambda>g. Inr
       \<lparr>wv_name = or_default (kw_name w) [], wv_namespace = or_default (kw_namespace w) [], wv_queue = or_default (kw_queue_name w) [],
        wv_priority = or_default (kw_priority w) 0, wv_gpus = g, wv_phase = determine_phase w, wv_conditions = Some (kw_conditions w),
        wv_flavor = dict_get_or (kw_annotations w) ''gpuopt.ai/flavor'' [],
        wv_flavor_tier = dict_get_or (kw_annotations w) ''gpuopt.ai/flavor-tier'' []\<rparr>)"

definition mock_workloads :: "workload_view list" where
  "mock_workloads =
     [\<lparr>wv_name = ''mock-workload-1'', wv_namespace = ''default'', wv_queue = ''gpu-queue'', wv_priority = 5, wv_gpus = 4,
       wv_phase = ''admitted'', wv_conditions = None, wv_flavor = ''default-flavor'', wv_flavor_tier = ''standard''\<rparr>,
      \<lparr>wv_name = ''mock-workload-2'', wv_namespace = ''default'', wv_queue = ''gpu-queue'', wv_priority = 3, wv_gpus = 2,
       wv_phase = ''queued'', wv_conditions = None, wv_flavor = ''spot-flavor'', wv_flavor_tier = ''spot''\<rparr>]"

definition in_namespace :: "string \<Rightarrow> string option" where
  "in_namespace ns = (if ns \<noteq> [] then Some ns else None)"

definition list_workloads :: "kube \<Rightarrow> adapter \<Rightarrow> string \<Rightarrow> queue_state \<Rightarrow> workload_view list" where
  "list_workloads k a ns s =
     (if \<not> ad_detected a then mock_workloads
      else case try_bind (custom_api s (kb_workloads k (ad_version a) (in_namespace ns))) (try_map view_workload) of
             Inl _ \<Rightarrow> mock_workloads | Inr vs \<Rightarrow> vs)"

subsection \<open>Volcano\<close>

record volcano_view =
  vv_name :: string
  vv_weight :: int
  vv_capabilities :: json
  vv_state :: string
  vv_running :: int
  vv_pending :: int

definition volcano_list_queues :: "kube \<Rightarrow> adapter \<Rightarrow> queue_state \<Rightarrow> volcano_view list" where
  "volcano_list_queues k a s =
     (if \<not> ad_detected a then []
      else case custom_api s (kb_volcano_queues k) of
             Inl _ \<Rightarrow> []
           | Inr qs \<Rightarrow> map (\<lambda>q. \<lparr>vv_name = or_default (vq_name q) [], vv_weight = or_default (vq_weight q) 1,
               vv_capabilities = or_default (vq_capabilities q) (JObj []), vv_state = or_default (vq_state q) [],
               vv_running = or_default (vq_running q) 0, vv_pending = or_default (vq_pending q) 0\<rparr>) qs)"

definition pod_group_for :: "string \<Rightarrow> string \<Rightarrow> rl_job \<Rightarrow> string \<Rightarrow> string \<Rightarrow> int \<Rightarrow> string \<Rightarrow> pod_group_body" where
  "pod_group_for fresh now j queue ns priority node =
     \<lparr>gb_name = object_name fresh (rj_id j), gb_namespace = ns,
      gb_labels = [(''app.kubernetes.io/managed-by'', ''gpuopt''), (''gpuopt.ai/job-id'', rj_id j)] @ when_set ''gpuopt.ai/placement-node'' node,
      gb_annotations = [(''gpuopt.ai/created-at'', now), (''gpuopt.ai/required-gpus'', int_str (rj_required_gpus j)),
        (''gpuopt.ai/priority'', int_str (rj_priority j))],
      gb_queue = queue, gb_priority = priority, gb_gpus = rj_required_gpus j, gb_memory_mi = int_of (rj_memory_gb j * 1024)\<rparr>"

record group_accepted =
  ga_podgroup_name :: string
  ga_group_namespace :: string
  ga_queue :: string
  ga_rl_placement :: string

datatype group_submission = GroupSubmitted group_accepted | GroupFailed string string | GroupDryRun pod_group_body string

definition submit_podgroup ::
  "kube \<Rightarrow> (draws \<times> rl_job \<times> rl_node list) list list \<Rightarrow> draws \<Rightarrow> string \<Rightarrow> string \<Rightarrow> rl_job \<Rightarrow> string \<Rightarrow> string \<Rightarrow> int
    \<Rightarrow> rl_node list \<Rightarrow> queue_state \<Rightarrow> py_error + queue_state \<times> group_submission" where
  "submit_podgroup k episodes d fresh now j queue ns priority nodes s =
     try_bind (trained episodes nodes (qs_learner s)) (\<lambda>l.
     try_bind (place_on d j nodes l) (\<lambda>(l', node, q).
       let body = pod_group_for fresh now j queue ns priority node; (ok, t) = ensure_client k (s\<lparr>qs_learner := l'\<rparr>) in
       Inr (if ok then
              (t\<lparr>qs_pod_groups_sent := qs_pod_groups_sent t @ [body]\<rparr>,
               case kb_create_pod_group k body of
                 Some e \<Rightarrow> GroupFailed (error_text e) (gb_name body)
               | None \<Rightarrow> GroupSubmitted \<lparr>ga_podgroup_name = gb_name body, ga_group_namespace = ns, ga_queue = queue,
                   ga_rl_placement = (if node \<noteq> [] then node else ''pending'')\<rparr>)
            else (t, GroupDryRun body (gb_name body)))))"

record group_view =
  gv_name :: string
  gv_namespace :: string
  gv_queue :: string
  gv_min_member :: int
  gv_phase :: string
  gv_running :: int
  gv_failed :: int

definition list_podgroups :: "kube \<Rightarrow> adapter \<Rightarrow> string \<Rightarrow> queue_state \<Rightarrow> group_view list" where
  "list_podgroups k a ns s =
     (if \<not> ad_detected a then []
      else case custom_api s (kb_pod_groups k (in_namespace ns)) of
             Inl _ \<Rightarrow> []
           | Inr gs \<Rightarrow> map (\<lambda>g. \<lparr>gv_name = or_default (pg_name g) [], gv_namespace = or_default (pg_namespace g) [],
               gv_queue = or_default (pg_queue g) [], gv_min_member = or_default (pg_min_member g) 0, gv_phase = or_default (pg_phase g) [],
               gv_running = or_default (pg_running g) 0, gv_failed = or_default (pg_failed g) 0\<rparr>) gs)"

subsection \<open>Routes\<close>

text \<open>The body of a request; an absent entry is \<open>None\<close>, absent nodes are no nodes.\<close>

record queue_request =
  qr_id :: "string option"
  qr_required_gpus :: "int option"
  qr_priority :: "int option"
  qr_estimated_duration :: "rat option"
  qr_memory_gb :: "rat option"
  qr_checkpointable :: "bool option"
  qr_nodes :: "rl_node list"
  qr_queue :: "string option"
  qr_namespace :: "string option"
  qr_priority_class :: "string option"

definition request_job :: "queue_request \<Rightarrow> rl_job" where
  "request_job r =
     \<lparr>rj_id = or_default (qr_id r) [], rj_required_gpus = or_default (qr_required_gpus r) 1, rj_priority = or_default (qr_priority r) 5,
      rj_estimated_duration = or_default (qr_estimated_duration r) 1, rj_memory_gb = or_default (qr_memory_gb r) 8,
      rj_checkpointable = or_default (qr_checkpointable r) False\<rparr>"

datatype rl_answer = NoNodes | Scheduled string "piece list" rat rat | Queued "piece list"

definition route_schedule_job :: "draws \<Rightarrow> queue_request \<Rightarrow> queue_state \<Rightarrow> py_error + queue_state \<times> rl_answer" where
  "route_schedule_job d r s =
     (if qr_nodes r = [] then Inr (s, NoNodes)
      else try_bind (rl_schedule d (request_job r) (qr_nodes r) (qs_learner s)) (\<lambda>(l, p). Inr (s\<lparr>qs_learner := l\<rparr>,
        case rp_node p of
          Some _ \<Rightarrow> Scheduled (rp_node_id p) (rp_reasoning p) (rp_reward p) (rp_q_value p)
        | None \<Rightarrow> Queued (rp_reasoning p))))"

text \<open>The episodes drawn are an argument, as many as are asked for.\<close>

definition route_train ::
  "int \<Rightarrow> (draws \<times> rl_job \<times> rl_node list) list list \<Rightarrow> queue_state \<Rightarrow> py_error + queue_state \<times> (string, json) dict" where
  "route_train episodes drawn s =
     (if episodes \<le> 0 then Inl (HTTPException 400 ''episodes must be positive'')
      else try_bind (train_from_history drawn (qs_learner s)) (\<lambda>l.
        let m = rl_metrics l in
        Inr (s\<lparr>qs_learner := l\<rparr>, [(''status'', JStr ''training_complete''), (''episodes'', JInt episodes),
          (''average_reward'', dict_get_or m ''average_reward'' JNull), (''q_table_size'', dict_get_or m ''q_table_size'' JNull)])))"

definition route_detect_kueue :: "kube \<Rightarrow> queue_state \<Rightarrow> detection" where
  "route_detect_kueue k s = snd (kueue_detect k s new_kueue)"

definition route_kueue_queues :: "kube \<Rightarrow> queue_state \<Rightarrow> queue_view list" where
  "route_kueue_queues k s = list_cluster_queues k new_kueue s"

definition read_flavor_tier :: "string \<Rightarrow> py_error + flavor_tier" where
  "read_flavor_tier t =
     (case find (\<lambda>v. flavor_tier_value v = t) [PREMIUM, STANDARD, SPOT, RESERVED] of
        None \<Rightarrow> Inl (ValueError (quoted t @ '' is not a valid ResourceFlavorTier'')) | Some v \<Rightarrow> Inr v)"

definition route_list_flavors :: "string \<Rightarrow> queue_state \<Rightarrow> py_error + flavor list" where
  "route_list_flavors tier s =
     (if tier = [] then Inr (list_flavors None (qs_flavors s))
      else try_bind (read_flavor_tier tier) (\<lambda>t. Inr (list_flavors (Some t) (qs_flavors s))))"

record flavor_request =
  fq_name :: "string option"
  fq_node_labels :: "(string, string) dict option"
  fq_node_taints :: "(string, string) dict list option"
  fq_resources :: "(string, string) dict option"
  fq_tier :: "string option"
  fq_priority :: "int option"
  fq_max_workloads :: "int option"

definition route_create_flavor :: "flavor_request \<Rightarrow> queue_state \<Rightarrow> py_error + queue_state \<times> flavor" where
  "route_create_flavor r s =
     try_bind (read_flavor_tier (or_default (fq_tier r) ''standard'')) (\<lambda>t.
       let (fm, f) = create_flavor (or_default (fq_name r) []) (or_default (fq_node_labels r) []) (or_default (fq_node_taints r) [])
         (or_default (fq_resources r) [(''nvidia.com/gpu'', ''1'')]) t (or_default (fq_priority r) 0) (or_default (fq_max_workloads r) 0)
         (qs_flavors s) in
       Inr (s\<lparr>qs_flavors := fm\<rparr>, f))"

definition route_delete_flavor :: "string \<Rightarrow> queue_state \<Rightarrow> py_error + queue_state" where
  "route_delete_flavor name s =
     (let (fm, found) = delete_flavor name (qs_flavors s) in
      if found then Inr (s\<lparr>qs_flavors := fm\<rparr>) else Inl (HTTPException 404 (''Flavor not found: '' @ name)))"

definition route_discover_flavors :: "kube \<Rightarrow> queue_state \<Rightarrow> queue_state \<times> found_flavor list" where
  "route_discover_flavors k s = discover_flavors_from_queues k new_kueue s"

definition route_proportional :: "(string, tenant_info) dict \<Rightarrow> int \<Rightarrow> (string, int) dict \<times> int \<times> int" where
  "route_proportional tenants total_gpus = (let a = schedule tenants total_gpus in (a, total_gpus, sum_list (dict_values a)))"

definition route_submit_workload ::
  "kube \<Rightarrow> (draws \<times> rl_job \<times> rl_node list) list list \<Rightarrow> draws \<Rightarrow> string \<Rightarrow> string \<Rightarrow> queue_request \<Rightarrow> queue_state
    \<Rightarrow> py_error + queue_state \<times> submission" where
  "route_submit_workload k episodes d fresh now r s =
     submit_workload k episodes d fresh now (request_job r) (or_default (qr_queue r) ''gpu-queue'') (or_default (qr_namespace r) ''default'')
       (or_default (qr_priority_class r) []) (qr_nodes r) [] s"

definition route_list_workloads :: "kube \<Rightarrow> string \<Rightarrow> queue_state \<Rightarrow> workload_view list" where
  "route_list_workloads k ns s = list_workloads k new_kueue ns s"

definition route_detect_volcano :: "kube \<Rightarrow> queue_state \<Rightarrow> detection" where
  "route_detect_volcano k s = snd (volcano_detect k s new_volcano)"

definition route_volcano_queues :: "kube \<Rightarrow> queue_state \<Rightarrow> volcano_view list" where
  "route_volcano_queues k s = volcano_list_queues k new_volcano s"

definition route_submit_podgroup ::
  "kube \<Rightarrow> (draws \<times> rl_job \<times> rl_node list) list list \<Rightarrow> draws \<Rightarrow> string \<Rightarrow> string \<Rightarrow> queue_request \<Rightarrow> queue_state
    \<Rightarrow> py_error + queue_state \<times> group_submission" where
  "route_submit_podgroup k episodes d fresh now r s =
     submit_podgroup k episodes d fresh now (request_job r) (or_default (qr_queue r) ''gpu-queue'') (or_default (qr_namespace r) ''default'')
       (or_default (qr_priority r) 5) (qr_nodes r) s"

definition route_list_podgroups :: "kube \<Rightarrow> string \<Rightarrow> queue_state \<Rightarrow> group_view list" where
  "route_list_podgroups k ns s = list_podgroups k new_volcano ns s"

subsection \<open>What a submission sends\<close>

lemma choose_member:
  assumes "choose_action explore pick k es s = Inr (Some a)" and "es \<noteq> [] \<Longrightarrow> pick < length es"
  shows "a \<in> set es"
proof (cases es)
  case Nil
  then show ?thesis using assms(1) by (simp add: choose_action_def)
next
  case (Cons e r)
  have "es ! pick \<in> set es" using assms(2) Cons by (intro nth_mem) simp
  moreover have "max_by f e r \<in> set es" for f :: "nat \<Rightarrow> rat" using max_by_mem [of f e r] by (simp add: Cons)
  ultimately show ?thesis
    using assms(1) by (auto simp: choose_action_def Cons try_bind_Inr_iff simp del: try_map.simps split: if_splits)
qed

lemma scheduled_fits:
  assumes "rl_schedule d j ns s = Inr (t, r)" and "rp_node r = Some n" and "eligible_actions j ns \<noteq> [] \<Longrightarrow> dr_pick d < length (eligible_actions j ns)"
  shows "n \<in> set ns \<and> eligible_node j n \<and> rp_node_id r = rn_id n"
proof -
  obtain k a where a: "choose_action (dr_explore d) (dr_pick d) k (eligible_actions j ns) s = Inr (Some a)" "a < length ns"
    "n = ns ! a" "rp_node_id r = rn_id n"
    using assms(1,2)
    by (auto simp: rl_schedule_def queued_placement_def try_bind_Inr_iff Let_def not_le split: if_splits option.splits)
  then have "a \<in> set (eligible_actions j ns)" using choose_member assms(3) by blast
  then show ?thesis using a by (auto simp: eligible_actions_def)
qed

lemma placed_fits:
  assumes "place_on d j nodes l = Inr (l', node, q)" and "node \<noteq> []"
    and "eligible_actions j nodes \<noteq> [] \<Longrightarrow> dr_pick d < length (eligible_actions j nodes)"
  shows "\<exists>n \<in> set nodes. rn_id n = node \<and> eligible_node j n"
proof -
  obtain r n where "rl_schedule d j nodes l = Inr (l', r)" "rp_node r = Some n" "node = rp_node_id r"
    using assms(1,2) by (auto simp: place_on_def try_bind_Inr_iff split: if_splits option.splits)
  then show ?thesis using scheduled_fits [OF _ _ assms(3)] by metis
qed

lemma chosen_known: "choose_flavor name gpus fm = Some f \<Longrightarrow> f \<in> set (dict_values (fm_flavors fm))"
proof -
  have sel: "f \<in> set (dict_values (fm_flavors fm))" if "select_flavor gpus None [] fm = Some f" for f
    using that
    by (auto simp: select_flavor_def flavor_candidates_def sorted_by_def Let_def dest!: find_SomeD split: option.splits list.splits)
       (metis (no_types, lifting) filter_is_subset list.set_intros(1) set_sort subsetD)
  assume "choose_flavor name gpus fm = Some f"
  then show ?thesis
    by (auto simp: choose_flavor_def get_flavor_def dict_values_def Let_def dest!: sel dest: map_of_SomeD split: if_splits)
       (force dest: map_of_SomeD)
qed

lemma submit_computes:
  "trained episodes nodes (qs_learner s) = Inr l \<Longrightarrow> place_on d j nodes l = Inr (l', node, q) \<Longrightarrow>
   fl = choose_flavor fname (rj_required_gpus j) (qs_flavors s) \<Longrightarrow>
   submit_workload k episodes d fresh now j queue ns pc nodes fname s
     = Inr (send_workload k node q fl (workload_for fresh now j queue ns pc node q fl) (s\<lparr>qs_learner := l'\<rparr>))"
  by (simp add: submit_workload_def try_bind_def Let_def)

lemma submit_run:
  assumes "submit_workload k episodes d fresh now j queue ns pc nodes fname s = Inr (t, r)"
  obtains l l' node q fl where "place_on d j nodes l = Inr (l', node, q)" "fl = choose_flavor fname (rj_required_gpus j) (qs_flavors s)"
    "send_workload k node q fl (workload_for fresh now j queue ns pc node q fl) (s\<lparr>qs_learner := l'\<rparr>) = (t, r)"
proof -
  obtain l where l: "trained episodes nodes (qs_learner s) = Inr l"
    using assms by (cases "trained episodes nodes (qs_learner s)") (auto simp: submit_workload_def try_bind_def)
  obtain l' node q where p: "place_on d j nodes l = Inr (l', node, q)"
    using assms by (cases "place_on d j nodes l") (auto simp: submit_workload_def try_bind_def l)
  show thesis by (rule that [OF p refl]) (use assms submit_computes [OF l p refl] in simp)
qed

lemma sent_outcome:
  assumes "send_workload k node q fl body s = (t, r)"
  shows "if qs_initialized s \<or> kb_loads k
    then qs_initialized t \<and> qs_workloads_sent t = qs_workloads_sent s @ [body]
      \<and> (case r of Submitted a \<Rightarrow> kb_create_workload k body = None \<and> sb_workload_name a = wb_name body
              \<and> sb_flavor a = (case fl of None \<Rightarrow> ''default'' | Some f \<Rightarrow> fl_name f)
              \<and> sb_flavor_tier a = (case fl of None \<Rightarrow> [] | Some f \<Rightarrow> flavor_tier_value (fl_tier f))
           | Failed e name \<Rightarrow> map_option error_text (kb_create_workload k body) = Some e \<and> name = wb_name body | DryRun _ _ \<Rightarrow> False)
    else qs_workloads_sent t = qs_workloads_sent s \<and> r = DryRun body (wb_name body)"
  using assms by (cases "kb_create_workload k body") (auto simp: send_workload_def ensure_client_def Let_def split: if_splits)

text \<open>
  C36: a submission sends one object, for the GPUs, queue, name space and priority asked for, or, when no client
  can be loaded, returns it unsent; it reports what the API answered. The node it names is one of the
  nodes given, with enough free GPUs and free memory for the job, and the node selector is that of a known flavor.
\<close>

theorem workload_submission:
  assumes "submit_workload k episodes d fresh now j queue ns pc nodes fname s = Inr (t, r)"
    and "eligible_actions j nodes \<noteq> [] \<Longrightarrow> dr_pick d < length (eligible_actions j nodes)"
  shows "\<exists>body. wb_gpus body = rj_required_gpus j \<and> wb_queue_name body = queue \<and> wb_namespace body = ns \<and> wb_priority body = rj_priority j
    \<and> (case dict_get (wb_labels body) ''gpuopt.ai/placement-node'' of None \<Rightarrow> True
         | Some node \<Rightarrow> \<exists>n \<in> set nodes. rn_id n = node \<and> eligible_node j n)
    \<and> (case wb_node_selector body of None \<Rightarrow> True
         | Some sel \<Rightarrow> \<exists>f \<in> set (dict_values (fm_flavors (qs_flavors s))). sel = fl_node_labels f)
    \<and> (if qs_initialized s \<or> kb_loads k
       then qs_workloads_sent t = qs_workloads_sent s @ [body]
         \<and> (case r of Submitted a \<Rightarrow> kb_create_workload k body = None \<and> sb_workload_name a = wb_name body
              | Failed e name \<Rightarrow> map_option error_text (kb_create_workload k body) = Some e \<and> name = wb_name body | DryRun _ _ \<Rightarrow> False)
       else qs_workloads_sent t = qs_workloads_sent s \<and> r = DryRun body (wb_name body))"
proof -
  obtain l l' node q fl where run: "place_on d j nodes l = Inr (l', node, q)"
    and fl_def: "fl = choose_flavor fname (rj_required_gpus j) (qs_flavors s)"
    and sent: "send_workload k node q fl (workload_for fresh now j queue ns pc node q fl) (s\<lparr>qs_learner := l'\<rparr>) = (t, r)"
    by (rule submit_run [OF assms(1)])
  define body where "body = workload_for fresh now j queue ns pc node q fl"
  have "wb_gpus body = rj_required_gpus j \<and> wb_queue_name body = queue \<and> wb_namespace body = ns \<and> wb_priority body = rj_priority j"
    by (simp add: body_def workload_for_def)
  moreover have "case dict_get (wb_labels body) ''gpuopt.ai/placement-node'' of None \<Rightarrow> True
      | Some v \<Rightarrow> \<exists>n \<in> set nodes. rn_id n = v \<and> eligible_node j n"
    using placed_fits [OF run _ assms(2)]
    by (cases "node = []") (auto simp: body_def workload_for_def when_set_def split: option.split)
  moreover have "case wb_node_selector body of None \<Rightarrow> True
      | Some sel \<Rightarrow> \<exists>f \<in> set (dict_values (fm_flavors (qs_flavors s))). sel = fl_node_labels f"
    using chosen_known [of fname "rj_required_gpus j" "qs_flavors s"]
    by (auto simp: body_def workload_for_def fl_def split: option.split)
  moreover have "if qs_initialized s \<or> kb_loads k
       then qs_workloads_sent t = qs_workloads_sent s @ [body]
         \<and> (case r of Submitted a \<Rightarrow> kb_create_workload k body = None \<and> sb_workload_name a = wb_name body
              | Failed e name \<Rightarrow> map_option error_text (kb_create_workload k body) = Some e \<and> name = wb_name body | DryRun _ _ \<Rightarrow> False)
       else qs_workloads_sent t = qs_workloads_sent s \<and> r = DryRun body (wb_name body)"
    using sent_outcome [OF sent [folded body_def]] by (cases r) (auto split: if_splits)
  ultimately show ?thesis by blast
qed

subsection \<open>What is submitted is listed\<close>

text \<open>
  An object as the API lists it after accepting it: what was sent, with the quantity of GPUs printed, and
  whatever conditions and checks the cluster has added since.
\<close>

definition stands_for :: "workload_body \<Rightarrow> kueue_workload \<Rightarrow> bool" where
  "stands_for b w \<longleftrightarrow>
     kw_name w = Some (wb_name b) \<and> kw_namespace w = Some (wb_namespace b) \<and> kw_annotations w = wb_annotations b
     \<and> kw_queue_name w = Some (wb_queue_name b) \<and> kw_priority w = Some (wb_priority b)
     \<and> kw_limits w = [[Some (JStr (int_str (wb_gpus b)))]]"

definition stored :: "workload_body \<Rightarrow> kueue_workload" where
  "stored b =
     \<lparr>kw_name = Some (wb_name b), kw_namespace = Some (wb_namespace b), kw_annotations = wb_annotations b,
      kw_queue_name = Some (wb_queue_name b), kw_priority = Some (wb_priority b), kw_limits = [[Some (JStr (int_str (wb_gpus b)))]],
      kw_conditions = [], kw_admission_check_state = None\<rparr>"

lemma stored_stands: "stands_for b (stored b)" "determine_phase (stored b) = ''queued''"
  by (simp_all add: stands_for_def stored_def determine_phase_def)

lemma standing_gpus: "stands_for b w \<Longrightarrow> 0 \<le> wb_gpus b \<Longrightarrow> extract_gpus w = Inr (wb_gpus b)"
  by (simp add: extract_gpus_def stands_for_def int_str_def parse_int_nat_str)

lemma workload_simps:
  fixes fresh now j queue ns pc node q fl
  defines "b \<equiv> workload_for fresh now j queue ns pc node q fl"
  shows "wb_name b = object_name fresh (rj_id j)" "wb_namespace b = ns" "wb_queue_name b = queue" "wb_priority b = rj_priority j"
    "wb_gpus b = rj_required_gpus j"
    "dict_get_or (wb_annotations b) ''gpuopt.ai/flavor'' [] = (case fl of None \<Rightarrow> [] | Some f \<Rightarrow> fl_name f)"
    "dict_get_or (wb_annotations b) ''gpuopt.ai/flavor-tier'' [] = (case fl of None \<Rightarrow> [] | Some f \<Rightarrow> flavor_tier_value (fl_tier f))"
  by (simp_all add: b_def workload_for_def dict_get_or_def split: option.split)

lemma submitted_body:
  assumes "submit_workload k episodes d fresh now j queue ns pc nodes fname s = Inr (t, Submitted a)"
  obtains node q fl where "qs_initialized t" "last (qs_workloads_sent t) = workload_for fresh now j queue ns pc node q fl"
    "sb_workload_name a = object_name fresh (rj_id j)" "sb_flavor a = (case fl of None \<Rightarrow> ''default'' | Some f \<Rightarrow> fl_name f)"
    "sb_flavor_tier a = (case fl of None \<Rightarrow> [] | Some f \<Rightarrow> flavor_tier_value (fl_tier f))"
proof -
  obtain l l' node q fl where "send_workload k node q fl (workload_for fresh now j queue ns pc node q fl) (s\<lparr>qs_learner := l'\<rparr>) = (t, Submitted a)"
    by (rule submit_run [OF assms])
  from sent_outcome [OF this] show thesis using that [of node q fl] by (auto simp: workload_simps split: if_splits)
qed

lemma listed_views:
  "list_all (\<lambda>w. \<not> isl (view_workload w)) ws \<longleftrightarrow> (\<exists>vs. try_map view_workload ws = Inr vs)"
  "try_map view_workload ws = Inr vs \<Longrightarrow> w \<in> set ws \<Longrightarrow> view_workload w = Inr v \<Longrightarrow> v \<in> set vs"
proof -
  show "list_all (\<lambda>w. \<not> isl (view_workload w)) ws \<longleftrightarrow> (\<exists>vs. try_map view_workload ws = Inr vs)"
    by (induction ws) (auto simp: try_bind_def isl_def split: sum.splits)
  show "try_map view_workload ws = Inr vs \<Longrightarrow> w \<in> set ws \<Longrightarrow> view_workload w = Inr v \<Longrightarrow> v \<in> set vs"
    by (induction ws arbitrary: vs) (auto simp: try_bind_Inr_iff)
qed

lemma tier_value_set [simp]: "flavor_tier_value t \<noteq> []"
  by (cases t) simp_all

text \<open>
  C37: a workload that was submitted and that the API lists later on, as it was sent and with whatever the cluster added: an
  adapter that has detected Kueue shows it with the name, name space, queue, priority, number of GPUs and
  flavor it was submitted with, in the phase of its conditions, provided every listed object has a
  readable number of GPUs. One unreadable object, or an adapter that has detected nothing, hides it behind
  the made-up workloads.
\<close>

theorem submitted_listed:
  assumes "submit_workload k episodes d fresh now j queue ns pc nodes fname s = Inr (t, Submitted a)" and "0 \<le> rj_required_gpus j"
    and "kb_workloads later (ad_version ad) (in_namespace ns) = Inr ws"
    and "stands_for (last (qs_workloads_sent t)) w" and "w \<in> set ws"
  shows "if ad_detected ad \<and> list_all (\<lambda>x. \<not> isl (view_workload x)) ws
    then \<exists>v \<in> set (list_workloads later ad ns t). wv_name v = sb_workload_name a \<and> wv_namespace v = ns \<and> wv_queue v = queue
      \<and> wv_priority v = rj_priority j \<and> wv_gpus v = rj_required_gpus j \<and> wv_phase v = determine_phase w
      \<and> wv_flavor_tier v = sb_flavor_tier a \<and> wv_flavor v = (if sb_flavor_tier a = [] then [] else sb_flavor a)
    else list_workloads later ad ns t = mock_workloads"
proof -
  obtain node q fl where b: "qs_initialized t" "last (qs_workloads_sent t) = workload_for fresh now j queue ns pc node q fl"
    "sb_workload_name a = object_name fresh (rj_id j)" "sb_flavor a = (case fl of None \<Rightarrow> ''default'' | Some f \<Rightarrow> fl_name f)"
    "sb_flavor_tier a = (case fl of None \<Rightarrow> [] | Some f \<Rightarrow> flavor_tier_value (fl_tier f))"
    using submitted_body [OF assms(1)] by blast
  let ?b = "workload_for fresh now j queue ns pc node q fl"
  have w: "stands_for ?b w" using assms(4) by (simp add: b(2))
  have gpus: "extract_gpus w = Inr (rj_required_gpus j)"
    using standing_gpus [OF w] assms(2) by (simp add: workload_simps)
  obtain v where v: "view_workload w = Inr v" by (simp add: view_workload_def gpus try_bind_def)
  then have v_is: "wv_name v = sb_workload_name a \<and> wv_namespace v = ns \<and> wv_queue v = queue
      \<and> wv_priority v = rj_priority j \<and> wv_gpus v = rj_required_gpus j \<and> wv_phase v = determine_phase w
      \<and> wv_flavor_tier v = sb_flavor_tier a \<and> wv_flavor v = (if sb_flavor_tier a = [] then [] else sb_flavor a)"
    using w by (auto simp: view_workload_def gpus try_bind_def stands_for_def workload_simps b(3-5) split: option.split)
  show ?thesis
  proof (cases "ad_detected ad \<and> list_all (\<lambda>x. \<not> isl (view_workload x)) ws")
    case True
    then obtain vs where vs: "try_map view_workload ws = Inr vs" using listed_views(1) by blast
    then have "v \<in> set (list_workloads later ad ns t)"
      using True listed_views(2) [OF vs assms(5) v] assms(3) b(1) by (simp add: list_workloads_def custom_api_def try_bind_def)
    then show ?thesis unfolding if_P [OF True] using v_is by blast
  next
    case False
    then have "\<not> ad_detected ad \<or> (\<exists>e. try_map view_workload ws = Inl e)" using listed_views(1) by (metis sum.exhaust)
    then show ?thesis unfolding if_not_P [OF False] using assms(3) b(1) by (auto simp: list_workloads_def custom_api_def try_bind_def)
  qed
qed

subsection \<open>What discovery registers\<close>

definition flavor_of_spec :: "flavor_spec \<Rightarrow> flavor" where
  "flavor_of_spec f =
     \<lparr>fl_name = spec_name f, fl_node_labels = fs_node_labels f, fl_node_taints = [],
      fl_resources = (if spec_resources f = [] then [(''nvidia.com/gpu'', ''1'')] else spec_resources f), fl_tier = infer_tier (spec_name f),
      fl_priority = 0, fl_max_workloads = 0, fl_active = True, fl_labels = []\<rparr>"

lemma discover_step:
  "discover_flavor f (s, found) =
     (s\<lparr>qs_flavors := (qs_flavors s)\<lparr>fm_flavors := dict_set (spec_name f) (flavor_of_spec f) (fm_flavors (qs_flavors s))\<rparr>\<rparr>,
      found @ [\<lparr>ff_name = spec_name f, ff_resources = spec_resources f, ff_node_labels = fs_node_labels f,
        ff_tier = flavor_tier_value (infer_tier (spec_name f))\<rparr>])"
  by (simp add: discover_flavor_def create_flavor_def flavor_of_spec_def Let_def)

text \<open>The last flavor of a name.\<close>

definition last_spec :: "string \<Rightarrow> flavor_spec list \<Rightarrow> flavor_spec option" where
  "last_spec name fs = find (\<lambda>f. spec_name f = name) (rev fs)"

lemma last_spec_Cons:
  "last_spec name (f # fs) = (case last_spec name fs of None \<Rightarrow> if spec_name f = name then Some f else None | Some g \<Rightarrow> Some g)"
proof -
  have "find P (xs @ [x]) = (case find P xs of None \<Rightarrow> if P x then Some x else None | Some y \<Rightarrow> Some y)" for P xs and x :: flavor_spec
    by (induction xs) auto
  then show ?thesis by (simp add: last_spec_def)
qed

lemma discover_fold:
  "case fold discover_flavor fs (s, found) of (t, found') \<Rightarrow>
     map ff_name found' = map ff_name found @ map spec_name fs
     \<and> (\<forall>name. get_flavor name (qs_flavors t) = (case last_spec name fs of
          None \<Rightarrow> get_flavor name (qs_flavors s) | Some f \<Rightarrow> Some (flavor_of_spec f)))"
proof (induction fs arbitrary: s found)
  case Nil
  show ?case by (simp add: last_spec_def)
next
  case (Cons f fs)
  define s' where "s' = s\<lparr>qs_flavors := (qs_flavors s)\<lparr>fm_flavors := dict_set (spec_name f) (flavor_of_spec f) (fm_flavors (qs_flavors s))\<rparr>\<rparr>"
  have "get_flavor name (qs_flavors s') = (if spec_name f = name then Some (flavor_of_spec f) else get_flavor name (qs_flavors s))" for name
    by (simp add: s'_def get_flavor_def update_conv)
  then show ?case
    using Cons.IH [where s = s' and found = "found @ [\<lparr>ff_name = spec_name f, ff_resources = spec_resources f, ff_node_labels = fs_node_labels f,
        ff_tier = flavor_tier_value (infer_tier (spec_name f))\<rparr>]"]
    by (auto simp: discover_step s'_def [symmetric] last_spec_Cons split: option.split prod.splits)
qed

text \<open>
  Discovery reports every flavor of the queues in order and leaves each known under its name with the tier its
  name suggests, active and without priority; of two flavors with a name the later counts, and all
  other flavors stay as they were.
\<close>

theorem discovery_registers:
  assumes "ad_detected a" and "qs_initialized s" and "kb_queues k (ad_version a) = Inr qs"
    and "discover_flavors_from_queues k a s = (t, found)"
  shows "map ff_name found = map spec_name (concat (map cq_flavors qs))
    \<and> (\<forall>name. get_flavor name (qs_flavors t) = (case last_spec name (concat (map cq_flavors qs)) of
         None \<Rightarrow> get_flavor name (qs_flavors s) | Some f \<Rightarrow> Some (flavor_of_spec f)))"
  using discover_fold [where fs = "concat (map cq_flavors qs)" and s = s and found = "[]"] assms
  by (auto simp: discover_flavors_from_queues_def custom_api_def)

subsection \<open>What the routes show\<close>

text \<open>
  A route makes a new adapter, which has detected nothing: whatever the cluster holds, the queues and workloads
  shown are made up, nothing is discovered, and Volcano has no queues and no groups. Detection itself
  fails as long as no submission has loaded the client.
\<close>

lemma routes_blind:
  "route_kueue_queues k s = mock_queues" "route_list_workloads k ns s = mock_workloads" "route_discover_flavors k s = (s, [])"
  "route_volcano_queues k s = []" "route_list_podgroups k ns s = []"
  by (simp_all add: route_kueue_queues_def list_cluster_queues_def route_list_workloads_def list_workloads_def route_discover_flavors_def
      discover_flavors_from_queues_def route_volcano_queues_def volcano_list_queues_def route_list_podgroups_def list_podgroups_def
      new_kueue_def new_volcano_def)

lemma detection_needs_submission: "\<not> qs_initialized s \<Longrightarrow> dt_error (route_detect_kueue k s) \<noteq> None \<and> dt_error (route_detect_volcano k s) \<noteq> None"
  by (simp add: route_detect_kueue_def kueue_detect_def route_detect_volcano_def volcano_detect_def detect_crd_def custom_api_def)

subsection \<open>Witnesses\<close>

definition h100_spec :: flavor_spec where
  "h100_spec = \<lparr>fs_name = Some ''H100-pool'', fs_resources = [(Some ''nvidia.com/gpu'', Some ''8'')], fs_node_labels = [(''zone'', ''a'')]\<rparr>"

definition one_queue :: cluster_queue where
  "one_queue =
     \<lparr>cq_api_version = None, cq_name = Some ''q'', cq_namespace = None, cq_cohort = None, cq_resource_groups = None, cq_fair_sharing = None,
      cq_flavors = [h100_spec], cq_admitted = None, cq_pending = None, cq_reserving = None\<rparr>"

definition empty_queues :: queue_state where
  "empty_queues =
     \<lparr>qs_initialized = False, qs_flavors = no_flavors, qs_learner = new_learner, qs_workloads_sent = [], qs_pod_groups_sent = []\<rparr>"

definition plain_workload :: workload_body where
  "plain_workload = workload_for ''f'' ''now'' sample_job ''gpu-queue'' ''default'' [] [] 0 None"

definition open_kube :: kube where
  "open_kube =
     \<lparr>kb_loads = True, kb_crds = Inr [Some ''clusterqueues.kueue.x-k8s.io''], kb_queues = \<lambda>_. Inr [one_queue],
      kb_workloads = \<lambda>_ _. Inr [stored plain_workload], kb_create_workload = \<lambda>_. None, kb_volcano_queues = Inr [],
      kb_pod_groups = \<lambda>_. Inr [], kb_create_pod_group = \<lambda>_. None\<rparr>"

definition found_kueue :: adapter where
  "found_kueue = \<lparr>ad_detected = True, ad_version = ''v1beta1''\<rparr>"

theorem workload_submission_witness:
  "\<exists>t r body. submit_workload open_kube [] sample_draws ''f'' ''now'' sample_job ''gpu-queue'' ''default'' [] [sample_node] [] empty_queues = Inr (t, r)
     \<and> qs_workloads_sent t = [body] \<and> wb_gpus body = 2"
proof -
  obtain l p where p: "rl_schedule sample_draws sample_job [sample_node] new_learner = Inr (l, p)"
    using rl_schedule_outcome_witness by (auto split: sum.splits)
  have "trained [] [sample_node] (qs_learner empty_queues) = Inr new_learner" by (simp add: trained_def empty_queues_def)
  moreover have "\<exists>node q. place_on sample_draws sample_job [sample_node] new_learner = Inr (l, node, q)"
    by (simp add: place_on_def p try_bind_def)
  ultimately obtain t r where run: "submit_workload open_kube [] sample_draws ''f'' ''now'' sample_job ''gpu-queue'' ''default'' []
      [sample_node] [] empty_queues = Inr (t, r)"
    using submit_computes by (metis surj_pair)
  have pick: "dr_pick sample_draws < length (eligible_actions sample_job [sample_node])" by (simp add: sample_draws_def)
  obtain body where "wb_gpus body = rj_required_gpus sample_job" "qs_workloads_sent t = qs_workloads_sent empty_queues @ [body]"
    using workload_submission [OF run pick] by (auto simp: open_kube_def)
  then show ?thesis using run by (auto simp: empty_queues_def sample_job_def)
qed

theorem submitted_listed_witness:
  "\<exists>t a. submit_workload open_kube [] sample_draws ''f'' ''now'' sample_job ''gpu-queue'' ''default'' [] [] [] empty_queues = Inr (t, Submitted a)
     \<and> (\<exists>v \<in> set (list_workloads open_kube found_kueue ''default'' t). wv_name v = ''gpuopt-j'' \<and> wv_gpus v = 2 \<and> wv_flavor v = [])"
proof -
  have none: "choose_flavor [] g (qs_flavors empty_queues) = None" for g
    by (simp add: choose_flavor_def list_flavors_def empty_queues_def no_flavors_def dict_values_def)
  have run: "submit_workload open_kube [] sample_draws ''f'' ''now'' sample_job ''gpu-queue'' ''default'' [] [] [] empty_queues
      = Inr (send_workload open_kube [] 0 None plain_workload (empty_queues\<lparr>qs_learner := qs_learner empty_queues\<rparr>))"
    by (simp only: submit_workload_def trained_def place_on_def try_bind_def none plain_workload_def Let_def simp_thms if_False if_True
        sum.case prod.case refl)
  obtain t r where t: "send_workload open_kube [] 0 None plain_workload (empty_queues\<lparr>qs_learner := qs_learner empty_queues\<rparr>) = (t, r)"
    by (metis surj_pair)
  have open_facts: "kb_loads open_kube" "kb_create_workload open_kube plain_workload = None" by (simp_all add: open_kube_def)
  have name: "wb_name plain_workload = ''gpuopt-j''" by (simp add: plain_workload_def workload_simps object_name_def sample_job_def)
  obtain a where a: "r = Submitted a" "sb_workload_name a = ''gpuopt-j''" "sb_flavor_tier a = []" "last (qs_workloads_sent t) = plain_workload"
    using sent_outcome [OF t] by (cases r) (simp_all add: open_facts name)
  have gpus: "extract_gpus (stored plain_workload) = Inr 2"
    using standing_gpus [OF stored_stands(1), of plain_workload] by (simp add: plain_workload_def workload_simps sample_job_def)
  have "0 \<le> rj_required_gpus sample_job"
    "kb_workloads open_kube (ad_version found_kueue) (in_namespace ''default'') = Inr [stored plain_workload]"
    "stands_for (last (qs_workloads_sent t)) (stored plain_workload)" "stored plain_workload \<in> set [stored plain_workload]"
    by (simp_all add: sample_job_def found_kueue_def open_kube_def a(4) stored_stands)
  note listed = submitted_listed [OF run [unfolded t a(1)] this]
  have "ad_detected found_kueue \<and> list_all (\<lambda>w. \<not> isl (view_workload w)) [stored plain_workload]"
    by (simp add: found_kueue_def view_workload_def gpus try_bind_def)
  from listed [unfolded if_P [OF this]] obtain v where
    "v \<in> set (list_workloads open_kube found_kueue ''default'' t)" "wv_name v = ''gpuopt-j''" "wv_gpus v = 2" "wv_flavor v = []"
    by (auto simp: a sample_job_def)
  then show ?thesis using run [unfolded t a(1)] by blast
qed

theorem discovery_registers_witness:
  "map_option fl_tier (get_flavor ''H100-pool'' (qs_flavors (fst (discover_flavors_from_queues open_kube found_kueue
     (empty_queues\<lparr>qs_initialized := True\<rparr>))))) = Some PREMIUM"
proof -
  obtain t found where run: "discover_flavors_from_queues open_kube found_kueue (empty_queues\<lparr>qs_initialized := True\<rparr>) = (t, found)"
    by (metis surj_pair)
  have "get_flavor ''H100-pool'' (qs_flavors t) = Some (flavor_of_spec h100_spec)"
    using discovery_registers [OF _ _ _ run, of "[one_queue]"]
    by (simp add: found_kueue_def open_kube_def one_queue_def last_spec_def h100_spec_def spec_name_def)
  moreover have "infer_tier ''H100-pool'' = PREMIUM" by code_simp
  ultimately show ?thesis by (simp add: run flavor_of_spec_def h100_spec_def spec_name_def)
qed

end
