(* ===== verification/SimCluster.thy ===== *)
theory SimCluster
  imports Prelude
begin

text \<open>
  The simulated cluster, src/src/gpuopt/ml/node_simulation.py: nodes with GPUs, cooling and a power
  distribution unit, and the engine that advances them step by step. The draws of the random generator
  are arguments, by node and GPU, and so are the values of the exponential function and of the sine of
  a full turn, which are no rational numbers. A division by zero raises.
\<close>

subsection \<open>Hardware\<close>

datatype cooling_type = COOL_AIR | COOL_DIRECT_LIQUID | COOL_IMMERSION

datatype topology_type = TOPO_SINGLE_NODE | TOPO_DGX_H100 | TOPO_DGX_A100 | TOPO_CUSTOM

fun topology_type_value :: "topology_type \<Rightarrow> string" where
  "topology_type_value TOPO_SINGLE_NODE = ''single_node''"
| "topology_type_value TOPO_DGX_H100 = ''dgx_h100''"
| "topology_type_value TOPO_DGX_A100 = ''dgx_a100''"
| "topology_type_value TOPO_CUSTOM = ''custom''"

record gpu_spec =
  sp_model :: string
  sp_memory_gib :: rat
  sp_tdp_watts :: rat
  sp_base_clock_mhz :: rat
  sp_boost_clock_mhz :: rat
  sp_mem_clock_mhz :: rat
  sp_nvlink_bandwidth_gbps :: rat
  sp_pcie_bandwidth_gbps :: rat
  sp_tensor_tflops_fp16 :: rat
  sp_tensor_tflops_fp8 :: rat

definition h100 :: gpu_spec where
  "h100 =
     \<lparr>sp_model = ''NVIDIA H100-SXM-80GB'', sp_memory_gib = 80, sp_tdp_watts = 400, sp_base_clock_mhz = 1830, sp_boost_clock_mhz = 1980,
      sp_mem_clock_mhz = 1593, sp_nvlink_bandwidth_gbps = 900, sp_pcie_bandwidth_gbps = 128, sp_tensor_tflops_fp16 = 1979,
      sp_tensor_tflops_fp8 = 3958\<rparr>"

text \<open>The other entries change some fields of the default, which is the H100.\<close>

definition rtx_4090 :: gpu_spec where
  "rtx_4090 =
     h100\<lparr>sp_model := ''NVIDIA RTX 4090'', sp_tdp_watts := 350, sp_memory_gib := 24, sp_base_clock_mhz := 2235,
       sp_boost_clock_mhz := 2520, sp_mem_clock_mhz := 1313, sp_nvlink_bandwidth_gbps := 0, sp_pcie_bandwidth_gbps := 128,
       sp_tensor_tflops_fp16 := 330\<rparr>"

definition gpu_specs :: "(string, gpu_spec) dict" where
  "gpu_specs =
     [(''NVIDIA H100-SXM-80GB'', h100),
      (''NVIDIA A100-SXM-80GB'', h100\<lparr>sp_model := ''NVIDIA A100-SXM-80GB'', sp_tdp_watts := 400, sp_memory_gib := 80, sp_base_clock_mhz := 1410,
         sp_boost_clock_mhz := 1410, sp_mem_clock_mhz := 1215, sp_nvlink_bandwidth_gbps := 600, sp_pcie_bandwidth_gbps := 64,
         sp_tensor_tflops_fp16 := 624, sp_tensor_tflops_fp8 := 1248\<rparr>),
      (''NVIDIA A100-SXM-40GB'', h100\<lparr>sp_model := ''NVIDIA A100-SXM-40GB'', sp_tdp_watts := 250, sp_memory_gib := 40, sp_base_clock_mhz := 1410,
         sp_boost_clock_mhz := 1410, sp_mem_clock_mhz := 1215, sp_nvlink_bandwidth_gbps := 600, sp_pcie_bandwidth_gbps := 64,
         sp_tensor_tflops_fp16 := 624\<rparr>),
      (''NVIDIA RTX 4090'', rtx_4090),
      (''NVIDIA RTX 6000 Ada'', h100\<lparr>sp_model := ''NVIDIA RTX 6000 Ada'', sp_tdp_watts := 300, sp_memory_gib := 48, sp_base_clock_mhz := 915,
         sp_boost_clock_mhz := 2535, sp_mem_clock_mhz := 1250, sp_nvlink_bandwidth_gbps := 0, sp_pcie_bandwidth_gbps := 128,
         sp_tensor_tflops_fp16 := 364\<rparr>),
      (''AMD MI300X'', h100\<lparr>sp_model := ''AMD MI300X'', sp_tdp_watts := 750, sp_memory_gib := 192, sp_base_clock_mhz := 1700,
         sp_boost_clock_mhz := 2100, sp_mem_clock_mhz := 1200, sp_nvlink_bandwidth_gbps := 896, sp_pcie_bandwidth_gbps := 128,
         sp_tensor_tflops_fp16 := 1307\<rparr>)]"

record coolant_loop =
  cz_flow_rate_lpm :: rat
  cz_inlet_temp_c :: rat
  cz_outlet_temp_c :: rat
  cz_pump_power_watts :: rat
  cz_heat_exchanger_capacity_kw :: rat

record cooling =
  co_type :: cooling_type
  co_ambient_temp_c :: rat
  co_airflow_cfm :: rat
  co_liquid_loop :: "coolant_loop option"
  co_chiller_power_kw :: rat
  co_pue :: rat

definition cooled_by :: "cooling_type \<Rightarrow> rat \<Rightarrow> cooling" where
  "cooled_by kind pue =
     \<lparr>co_type = kind, co_ambient_temp_c = 22, co_airflow_cfm = 500, co_liquid_loop = None, co_chiller_power_kw = 0, co_pue = pue\<rparr>"

definition effective_ambient :: "cooling \<Rightarrow> rat" where
  "effective_ambient c =
     co_ambient_temp_c c + (case co_type c of COOL_IMMERSION \<Rightarrow> 5 | COOL_DIRECT_LIQUID \<Rightarrow> 8 | COOL_AIR \<Rightarrow> 10)"

subsection \<open>Power distribution\<close>

record pdu =
  pu_max_power_kw :: rat
  pu_efficiency :: rat
  pu_circuits :: int
  pu_circuit_capacity_kw :: rat
  pu_circuit_load_kw :: "rat list"

definition new_pdu :: "rat \<Rightarrow> int \<Rightarrow> pdu" where
  "new_pdu kw circuits =
     \<lparr>pu_max_power_kw = kw, pu_efficiency = 96 / 100, pu_circuits = circuits, pu_circuit_capacity_kw = 10, pu_circuit_load_kw = [0, 0, 0]\<rparr>"

definition total_load_kw :: "pdu \<Rightarrow> rat" where
  "total_load_kw p = sum_list (pu_circuit_load_kw p)"

definition headroom_kw :: "pdu \<Rightarrow> rat" where
  "headroom_kw p = pu_max_power_kw p - total_load_kw p"

text \<open>The circuits are tried from the first; one that the loads do not list raises.\<close>

fun some_circuit :: "pdu \<Rightarrow> rat \<Rightarrow> nat list \<Rightarrow> py_error + bool" where
  "some_circuit p kw [] = Inr False"
| "some_circuit p kw (i # is) =
     (if length (pu_circuit_load_kw p) \<le> i then Inl (IndexError ''list index out of range'')
      else if pu_circuit_load_kw p ! i + kw / of_int (pu_circuits p) \<le> pu_circuit_capacity_kw p then Inr True
      else some_circuit p kw is)"

definition can_serve :: "rat \<Rightarrow> pdu \<Rightarrow> py_error + bool" where
  "can_serve kw p =
     (if pu_max_power_kw p < kw + total_load_kw p then Inr False else some_circuit p kw [0..<nat (pu_circuits p)])"

definition assign_load :: "rat \<Rightarrow> pdu \<Rightarrow> py_error + pdu \<times> nat" where
  "assign_load kw p =
     (let n = nat (pu_circuits p); loads = pu_circuit_load_kw p in
      if n = 0 then Inl (ValueError ''min() arg is an empty sequence'')
      else if length loads < n then Inl (IndexError ''list index out of range'')
      else let i = max_by (\<lambda>i. - (loads ! i)) 0 [1..<n] in
        Inr (p\<lparr>pu_circuit_load_kw := loads[i := loads ! i + kw / of_int (pu_circuits p)]\<rparr>, i))"

subsection \<open>GPUs and nodes\<close>

record degradation =
  dg_total_hours_operational :: rat
  dg_total_power_cycles :: int
  dg_thermal_cycles_above_80c :: int
  dg_peak_temp_recorded :: rat
  dg_accumulated_thermal_stress :: rat
  dg_pcie_replay_count :: int
  dg_memory_remapped_rows :: int
  dg_voltage_droop_events :: int

definition new_degradation :: degradation where
  "new_degradation =
     \<lparr>dg_total_hours_operational = 0, dg_total_power_cycles = 0, dg_thermal_cycles_above_80c = 0, dg_peak_temp_recorded = 35,
      dg_accumulated_thermal_stress = 0, dg_pcie_replay_count = 0, dg_memory_remapped_rows = 0, dg_voltage_droop_events = 0\<rparr>"

definition wear_factor :: "degradation \<Rightarrow> rat" where
  "wear_factor d =
     min 1 (2 / 100 * (dg_total_hours_operational d / 50000) + 1 / 100 * (of_int (dg_thermal_cycles_above_80c d) / 1000)
       + dg_accumulated_thermal_stress d / 1000 + 5 / 1000 * (of_int (dg_total_power_cycles d) / 5000))"

definition mtbf_multiplier :: "degradation \<Rightarrow> rat" where
  "mtbf_multiplier d = 1 - wear_factor d"

record sim_gpu =
  xg_index :: int
  xg_node_id :: string
  xg_spec :: gpu_spec
  xg_memory_used_gib :: rat
  xg_engine_util_pct :: rat
  xg_tensor_activity_pct :: rat
  xg_dram_activity_pct :: rat
  xg_power_draw_watts :: rat
  xg_power_cap_watts :: rat
  xg_gpu_temp_c :: rat
  xg_memory_temp_c :: rat
  xg_fan_speed_pct :: rat
  xg_clock_mhz :: rat
  xg_mem_clock_mhz :: rat
  xg_voltage_mv :: rat
  xg_xid_errors :: int
  xg_ecc_corrected :: int
  xg_ecc_uncorrected :: int
  xg_retired_pages :: int
  xg_nvlink_tx_gbps :: rat
  xg_nvlink_rx_gbps :: rat
  xg_pcie_tx_gbps :: rat
  xg_pcie_rx_gbps :: rat
  xg_is_faulted :: bool
  xg_fault_reason :: string
  xg_degradation :: degradation

definition new_gpu :: "int \<Rightarrow> string \<Rightarrow> gpu_spec \<Rightarrow> rat \<Rightarrow> sim_gpu" where
  "new_gpu i nid spec cap =
     \<lparr>xg_index = i, xg_node_id = nid, xg_spec = spec, xg_memory_used_gib = 0, xg_engine_util_pct = 0, xg_tensor_activity_pct = 0,
      xg_dram_activity_pct = 0, xg_power_draw_watts = 30, xg_power_cap_watts = cap, xg_gpu_temp_c = 35, xg_memory_temp_c = 30,
      xg_fan_speed_pct = 30, xg_clock_mhz = 1000, xg_mem_clock_mhz = 1500, xg_voltage_mv = 700, xg_xid_errors = 0, xg_ecc_corrected = 0,
      xg_ecc_uncorrected = 0, xg_retired_pages = 0, xg_nvlink_tx_gbps = 0, xg_nvlink_rx_gbps = 0, xg_pcie_tx_gbps = 0, xg_pcie_rx_gbps = 0,
      xg_is_faulted = False, xg_fault_reason = [], xg_degradation = new_degradation\<rparr>"

definition memory_share :: "sim_gpu \<Rightarrow> rat" where
  "memory_share g = (if 0 < sp_memory_gib (xg_spec g) then xg_memory_used_gib g / sp_memory_gib (xg_spec g) * 100 else 0)"

text \<open>A node that never fails has no failure time.\<close>

record sim_node =
  xn_node_id :: string
  xn_gpus :: "sim_gpu list"
  xn_cpu_cores :: int
  xn_cpu_util_pct :: rat
  xn_cpu_vendor :: string
  xn_system_memory_gib :: rat
  xn_system_memory_used_gib :: rat
  xn_memory_type :: string
  xn_memory_bandwidth_gbps :: rat
  xn_ecc_capable :: bool
  xn_cooling :: cooling
  xn_nic_bandwidth_gbps :: rat
  xn_nic_util_pct :: rat
  xn_is_on :: bool
  xn_failure_time_hours :: "rat option"

definition new_node :: "string \<Rightarrow> sim_gpu list \<Rightarrow> cooling \<Rightarrow> sim_node" where
  "new_node nid gpus cool =
     \<lparr>xn_node_id = nid, xn_gpus = gpus, xn_cpu_cores = 64, xn_cpu_util_pct = 0, xn_cpu_vendor = [], xn_system_memory_gib = 512,
      xn_system_memory_used_gib = 0, xn_memory_type = [], xn_memory_bandwidth_gbps = 0, xn_ecc_capable = False, xn_cooling = cool,
      xn_nic_bandwidth_gbps = 400, xn_nic_util_pct = 0, xn_is_on = True, xn_failure_time_hours = None\<rparr>"

definition py_div :: "rat \<Rightarrow> rat \<Rightarrow> py_error + rat" where
  "py_div x y = (if y = 0 then Inl (ZeroDivisionError ''float division by zero'') else Inr (x / y))"

definition node_gpu_power :: "sim_node \<Rightarrow> rat" where
  "node_gpu_power n = sum_list (map xg_power_draw_watts (xn_gpus n))"

definition node_power :: "sim_node \<Rightarrow> py_error + rat" where
  "node_power n =
     try_bind (py_div (xn_system_memory_used_gib n) (xn_system_memory_gib n)) (\<lambda>m. Inr
       (node_gpu_power n + (150 * (xn_cpu_util_pct n / 100) + 50) + 10 * m + 25 * (xn_nic_util_pct n / 100)
        + node_gpu_power n * (co_pue (xn_cooling n) - 1)))"

subsection \<open>Topologies\<close>

record topology =
  xt_topology_type :: topology_type
  xt_nodes :: "sim_node list"
  xt_pdu :: pdu
  xt_interconnect_type :: string
  xt_total_nic_bandwidth_gbps :: rat

definition new_topology :: topology where
  "new_topology =
     \<lparr>xt_topology_type = TOPO_CUSTOM, xt_nodes = [], xt_pdu = new_pdu 30 3, xt_interconnect_type = ''nvlink'',
      xt_total_nic_bandwidth_gbps = 0\<rparr>"

definition topology_gpus :: "topology \<Rightarrow> sim_gpu list" where
  "topology_gpus t = concat (map xn_gpus (xt_nodes t))"

definition cluster_power :: "topology \<Rightarrow> py_error + rat" where
  "cluster_power t = try_bind (try_map node_power (xt_nodes t)) (\<lambda>ps. Inr (sum_list ps))"

definition two_digit :: "nat \<Rightarrow> string" where
  "two_digit n = (if n < 10 then ''0'' else []) @ nat_str n"

definition dgx_node :: "nat \<Rightarrow> sim_node" where
  "dgx_node i =
     (let nid = ''dgx-h100-'' @ two_digit i in
      new_node nid (map (\<lambda>g. new_gpu (int g) nid h100 400) [0..<8]) (cooled_by COOL_DIRECT_LIQUID (115 / 100)))"

definition add_dgx :: "nat \<Rightarrow> topology \<Rightarrow> py_error + topology" where
  "add_dgx i t =
     try_bind (node_power (dgx_node i)) (\<lambda>w.
     try_bind (assign_load (w / 1000) (xt_pdu t)) (\<lambda>(p, _). Inr
       (t\<lparr>xt_nodes := xt_nodes t @ [dgx_node i], xt_pdu := p, xt_total_nic_bandwidth_gbps := xt_total_nic_bandwidth_gbps t + 400\<rparr>)))"

fun add_all :: "nat list \<Rightarrow> topology \<Rightarrow> py_error + topology" where
  "add_all [] t = Inr t"
| "add_all (i # is) t = try_bind (add_dgx i t) (add_all is)"

definition build_dgx_h100 :: "int \<Rightarrow> topology \<Rightarrow> py_error + topology" where
  "build_dgx_h100 n t =
     add_all [0..<nat n] (t\<lparr>xt_topology_type := TOPO_DGX_H100, xt_interconnect_type := ''nvlink'', xt_pdu := new_pdu (of_int n * 12) (max 3 n)\<rparr>)"

definition build_rtx_cluster :: "int \<Rightarrow> topology \<Rightarrow> topology" where
  "build_rtx_cluster n t =
     t\<lparr>xt_topology_type := TOPO_CUSTOM, xt_interconnect_type := ''pcie'',
       xt_nodes := [(new_node ''rtx-node-00''
         (map (\<lambda>i. new_gpu (int i) ''rtx-node-00'' rtx_4090 350) [0..<nat n]) (cooled_by COOL_AIR (13 / 10)))
         \<lparr>xn_cpu_cores := 16, xn_system_memory_gib := 128\<rparr>],
       xt_pdu := new_pdu 5 3, xt_total_nic_bandwidth_gbps := 100\<rparr>"

subsection \<open>The engine\<close>

record sim_event =
  se_step :: int
  se_time_hours :: rat
  se_event_type :: string
  se_node_id :: string
  se_gpu_index :: int
  se_message :: string
  se_xid_errors :: "int option"

record sim =
  si_topology :: "topology option"
  si_time_hours :: rat
  si_time_step_seconds :: rat
  si_step_count :: int
  si_event_log :: "sim_event list"

definition new_sim :: sim where
  "new_sim = \<lparr>si_topology = None, si_time_hours = 0, si_time_step_seconds = 5, si_step_count = 0, si_event_log = []\<rparr>"

definition init_topology :: "topology \<Rightarrow> sim \<Rightarrow> sim" where
  "init_topology t s = s\<lparr>si_topology := Some t, si_event_log := []\<rparr>"

text \<open>\<open>math.exp(x)\<close>, and \<open>math.sin(x * math.pi * 2)\<close>.\<close>

record maths =
  mt_exp :: "rat \<Rightarrow> rat"
  mt_sin_turn :: "rat \<Rightarrow> rat"

text \<open>What the random generator gives for one GPU in one step, in the order of the calls.\<close>

record gpu_draws =
  gd_util :: rat
  gd_tensor :: rat
  gd_dram :: rat
  gd_memory :: rat
  gd_memory_temp :: rat
  gd_fan :: rat
  gd_pcie_tx :: rat
  gd_pcie_rx :: rat
  gd_nvlink_tx :: rat
  gd_nvlink_rx :: rat
  gd_xid :: rat
  gd_xid_count :: nat
  gd_ecc :: rat
  gd_ecc_count :: nat
  gd_ecc_uncorrected :: rat
  gd_retire :: rat
  gd_pcie_replay :: rat

record profile =
  pf_gpu_util_target :: rat
  pf_memory_target_pct :: rat
  pf_tensor_intensity :: rat
  pf_mem_intensity :: rat

definition default_profile :: profile where
  "default_profile = \<lparr>pf_gpu_util_target = 60, pf_memory_target_pct = 50, pf_tensor_intensity = 6 / 10, pf_mem_intensity = 5 / 10\<rparr>"

text \<open>\<open>max(lo, min(hi, x))\<close>.\<close>

definition clamp :: "rat \<Rightarrow> rat \<Rightarrow> rat \<Rightarrow> rat" where
  "clamp lo hi x = max lo (min hi x)"

definition gpu_temperature :: "maths \<Rightarrow> rat \<Rightarrow> sim_node \<Rightarrow> sim_gpu \<Rightarrow> rat" where
  "gpu_temperature m dt n g =
     (let c = xn_cooling n;
          (resistance, effectiveness) = (case co_type c of COOL_DIRECT_LIQUID \<Rightarrow> (8 / 100, 95 / 100) | COOL_IMMERSION \<Rightarrow> (5 / 100, 1)
            | COOL_AIR \<Rightarrow> (15 / 100, 7 / 10));
          airflow = xg_fan_speed_pct g / 100 * effectiveness;
          steady = effective_ambient c + xg_power_draw_watts g * resistance * (1 - airflow * (4 / 10));
          tau = 500 * (1 + 5 / 10 * co_pue c) * resistance in
      xg_gpu_temp_c g + (steady - xg_gpu_temp_c g) * (1 - mt_exp m (- dt / max tau 1)))"

text \<open>Power, voltage and clock ratio.\<close>

definition compute_power :: "sim_gpu \<Rightarrow> rat \<Rightarrow> rat \<Rightarrow> rat \<Rightarrow> py_error + rat \<times> rat \<times> rat" where
  "compute_power g util tensor mem =
     (let tdp = sp_tdp_watts (xg_spec g); u = clamp 0 1 (util / 100); t = clamp 0 1 (tensor / 100); r = clamp 0 1 (mem / 100);
          raw = tdp * (6 / 10) * u + tdp * (25 / 100) * t + tdp * (1 / 10) * r + tdp * (5 / 100);
          penalty = 1 + max 0 (xg_gpu_temp_c g - 75) * (5 / 1000) in
      try_bind (py_div (xg_clock_mhz g) (sp_boost_clock_mhz (xg_spec g))) (\<lambda>ratio. Inr
        (min (raw * penalty) (xg_power_cap_watts g), min (700 + 200 * u * ratio + 50 * (xg_gpu_temp_c g / 85)) 1200, ratio)))"

definition compute_clock_speed :: "sim_gpu \<Rightarrow> rat \<Rightarrow> rat \<Rightarrow> rat" where
  "compute_clock_speed g power_ratio util_ratio =
     (let throttle = min 1 (max 0 ((xg_gpu_temp_c g - 85) / 15) + max 0 ((power_ratio - 95 / 100) * 5));
          base = (if 1 / 10 < util_ratio then sp_boost_clock_mhz (xg_spec g) else sp_base_clock_mhz (xg_spec g)) in
      base * (5 / 10 + 5 / 10 * util_ratio) * (1 - 3 / 10 * throttle))"

definition log_event :: "string \<Rightarrow> string \<Rightarrow> int \<Rightarrow> string \<Rightarrow> int option \<Rightarrow> sim \<Rightarrow> sim" where
  "log_event kind nid i msg xid s =
     s\<lparr>si_event_log := si_event_log s @ [\<lparr>se_step = si_step_count s, se_time_hours = py_round 4 (si_time_hours s), se_event_type = kind,
       se_node_id = nid, se_gpu_index = i, se_message = msg, se_xid_errors = xid\<rparr>]\<rparr>"

definition xid_step :: "gpu_draws \<Rightarrow> rat \<Rightarrow> sim_gpu \<times> sim \<Rightarrow> sim_gpu \<times> sim" where
  "xid_step d rate = (\<lambda>(g, s).
     if gd_xid d < rate then
       let n = xg_xid_errors g + int (gd_xid_count d) + 1; g1 = g\<lparr>xg_xid_errors := n\<rparr> in
       if 5 < n then
         (g1\<lparr>xg_is_faulted := True, xg_fault_reason := ''XID error threshold exceeded''\<rparr>,
          log_event ''gpu_fault'' (xg_node_id g) (xg_index g) ''GPU faulted: XID error threshold exceeded'' (Some n) s)
       else (g1, s)
     else (g, s))"

definition ecc_step :: "gpu_draws \<Rightarrow> rat \<Rightarrow> rat \<Rightarrow> sim_gpu \<Rightarrow> sim_gpu" where
  "ecc_step d rate wear g =
     (if gd_ecc d < rate then
        let g1 = g\<lparr>xg_ecc_corrected := xg_ecc_corrected g + int (gd_ecc_count d)\<rparr> in
        if gd_ecc_uncorrected d < 5 / 100 * (1 + wear) then g1\<lparr>xg_ecc_uncorrected := xg_ecc_uncorrected g1 + 1\<rparr> else g1
      else g)"

definition retire_step :: "gpu_draws \<Rightarrow> rat \<Rightarrow> sim_gpu \<Rightarrow> sim_gpu" where
  "retire_step d rate g =
     (if gd_retire d < rate
      then g\<lparr>xg_retired_pages := xg_retired_pages g + 1,
        xg_degradation := (xg_degradation g)\<lparr>dg_memory_remapped_rows := dg_memory_remapped_rows (xg_degradation g) + 1\<rparr>\<rparr>
      else g)"

definition replay_step :: "gpu_draws \<Rightarrow> rat \<Rightarrow> sim_gpu \<Rightarrow> sim_gpu" where
  "replay_step d rate g =
     (if gd_pcie_replay d < rate
      then g\<lparr>xg_degradation := (xg_degradation g)\<lparr>dg_pcie_replay_count := dg_pcie_replay_count (xg_degradation g) + 1\<rparr>\<rparr> else g)"

definition inject_errors :: "gpu_draws \<Rightarrow> rat \<Rightarrow> rat \<Rightarrow> sim_gpu \<Rightarrow> sim \<Rightarrow> sim_gpu \<times> sim" where
  "inject_errors d stress intensity g s =
     (let wear = wear_factor (xg_degradation g); effective = stress * (1 + wear * 2);
          (g1, s1) = xid_step d (5 / 10000 * effective * intensity) (g, s) in
      (replay_step d (15 / 10000 * effective)
        (retire_step d (2 / 10000 * effective * (1 + wear * 3)) (ecc_step d (1 / 1000 * effective * intensity) wear g1)), s1))"

definition update_degradation :: "rat \<Rightarrow> sim_gpu \<Rightarrow> sim_gpu" where
  "update_degradation dt g =
     (let d = xg_degradation g; t = xg_gpu_temp_c g in
      g\<lparr>xg_degradation := d\<lparr>dg_total_hours_operational := dg_total_hours_operational d + dt,
        dg_accumulated_thermal_stress := dg_accumulated_thermal_stress d + t / 85 * (xg_engine_util_pct g / 100) * dt,
        dg_thermal_cycles_above_80c := dg_thermal_cycles_above_80c d + (if 80 < t then 1 else 0),
        dg_peak_temp_recorded := (if dg_peak_temp_recorded d < t then t else dg_peak_temp_recorded d)\<rparr>\<rparr>)"

definition idle_fault :: "sim_gpu \<Rightarrow> sim_gpu" where
  "idle_fault g = g\<lparr>xg_power_draw_watts := sp_tdp_watts (xg_spec g) * (1 / 10), xg_engine_util_pct := 0, xg_clock_mhz := 200\<rparr>"

text \<open>The load that a profile puts on a GPU.\<close>

definition load_gpu :: "maths \<Rightarrow> profile \<Rightarrow> gpu_draws \<Rightarrow> int \<Rightarrow> sim_gpu \<Rightarrow> sim_gpu" where
  "load_gpu m p d count g =
     (let osc = mt_sin_turn m (of_int count / 100) * (5 / 10) + 5 / 10;
          util = clamp 0 100 (pf_gpu_util_target p * (7 / 10 + 6 / 10 * osc) + gd_util d); total = sp_memory_gib (xg_spec g) in
      g\<lparr>xg_engine_util_pct := util,
        xg_tensor_activity_pct := clamp 0 100 (util * pf_tensor_intensity p + gd_tensor d),
        xg_dram_activity_pct := clamp 0 100 (util * pf_mem_intensity p + gd_dram d),
        xg_memory_used_gib := clamp 0 total (total * (pf_memory_target_pct p / 100) * (8 / 10 + 4 / 10 * osc) + gd_memory d)\<rparr>)"

definition link_gpu :: "gpu_draws \<Rightarrow> sim_gpu \<Rightarrow> sim_gpu" where
  "link_gpu d g =
     (let bw = xg_engine_util_pct g / 100 * xg_tensor_activity_pct g / 100; pcie = sp_pcie_bandwidth_gbps (xg_spec g);
          nv = sp_nvlink_bandwidth_gbps (xg_spec g) in
      g\<lparr>xg_pcie_tx_gbps := pcie * (4 / 10) * bw + gd_pcie_tx d, xg_pcie_rx_gbps := pcie * (6 / 10) * bw + gd_pcie_rx d,
        xg_nvlink_tx_gbps := nv * (5 / 10) * bw + gd_nvlink_tx d, xg_nvlink_rx_gbps := nv * (5 / 10) * bw + gd_nvlink_rx d\<rparr>)"

text \<open>Power and voltage, then the temperatures, the fan, and the clocks.\<close>

definition drive_gpu :: "maths \<Rightarrow> rat \<Rightarrow> sim_node \<Rightarrow> gpu_draws \<Rightarrow> sim_gpu \<Rightarrow> py_error + sim_gpu" where
  "drive_gpu m dt n d g =
     try_bind (compute_power g (xg_engine_util_pct g) (xg_tensor_activity_pct g) (xg_dram_activity_pct g)) (\<lambda>(w, v, ratio).
       let g1 = g\<lparr>xg_power_draw_watts := w, xg_voltage_mv := v\<rparr>; temp = gpu_temperature m dt n g1;
           g2 = g1\<lparr>xg_gpu_temp_c := temp, xg_memory_temp_c := temp + gd_memory_temp d,
             xg_fan_speed_pct := clamp 10 100 (20 + 70 * max 0 ((temp - 35) / 55) + gd_fan d)\<rparr>;
           u = xg_engine_util_pct g / 100 in
       Inr (g2\<lparr>xg_clock_mhz := compute_clock_speed g2 ratio u, xg_mem_clock_mhz := sp_mem_clock_mhz (xg_spec g) * (7 / 10 + 3 / 10 * u)\<rparr>))"

definition step_gpu :: "maths \<Rightarrow> profile \<Rightarrow> sim_node \<Rightarrow> gpu_draws \<Rightarrow> sim_gpu \<Rightarrow> sim \<Rightarrow> py_error + sim_gpu \<times> sim" where
  "step_gpu m p n d g s =
     (if xg_is_faulted g then Inr (idle_fault g, s)
      else try_bind (drive_gpu m (si_time_step_seconds s) n d (load_gpu m p d (si_step_count s) g)) (\<lambda>g1.
        let g2 = link_gpu d g1; stress = xg_gpu_temp_c g2 / 85 + xg_engine_util_pct g2 / 100;
            (g3, s1) = inject_errors d stress (pf_tensor_intensity p) g2 s in
        Inr (update_degradation (si_time_step_seconds s / 3600) g3, s1)))"

fun step_gpus :: "maths \<Rightarrow> profile \<Rightarrow> sim_node \<Rightarrow> (nat \<Rightarrow> gpu_draws) \<Rightarrow> nat \<Rightarrow> sim_gpu list \<Rightarrow> sim \<Rightarrow> py_error + sim_gpu list \<times> sim" where
  "step_gpus m p n d i [] s = Inr ([], s)"
| "step_gpus m p n d i (g # gs) s =
     try_bind (step_gpu m p n (d i) g s) (\<lambda>(g', s').
     try_bind (step_gpus m p n d (Suc i) gs s') (\<lambda>(gs', t). Inr (g' # gs', t)))"

definition step_node :: "maths \<Rightarrow> profile \<Rightarrow> (nat \<Rightarrow> gpu_draws) \<Rightarrow> sim_node \<Rightarrow> sim \<Rightarrow> py_error + sim_node \<times> sim" where
  "step_node m p d n s =
     (if \<not> xn_is_on n then Inr (n, s)
      else try_bind (step_gpus m p n d 0 (xn_gpus n) s) (\<lambda>(gs, t).
        let avg = sum_list (map xg_engine_util_pct gs) / of_nat (max (length gs) 1) in
        Inr (n\<lparr>xn_gpus := gs, xn_cpu_util_pct := 30 + 40 * avg / 100,
          xn_system_memory_used_gib := xn_system_memory_gib n * (3 / 10 + 4 / 10 * avg / 100)\<rparr>, t)))"

fun step_nodes :: "maths \<Rightarrow> profile \<Rightarrow> (nat \<Rightarrow> nat \<Rightarrow> gpu_draws) \<Rightarrow> nat \<Rightarrow> sim_node list \<Rightarrow> sim \<Rightarrow> py_error + sim_node list \<times> sim" where
  "step_nodes m p d i [] s = Inr ([], s)"
| "step_nodes m p d i (n # ns) s =
     try_bind (step_node m p (d i) n s) (\<lambda>(n', s').
     try_bind (step_nodes m p d (Suc i) ns s') (\<lambda>(ns', t). Inr (n' # ns', t)))"

definition step_simulation :: "maths \<Rightarrow> profile option \<Rightarrow> (nat \<Rightarrow> nat \<Rightarrow> gpu_draws) \<Rightarrow> sim \<Rightarrow> py_error + sim" where
  "step_simulation m prof d s =
     (case si_topology s of
        None \<Rightarrow> Inl (RuntimeError ''Topology not initialized. Call init_topology first.'')
      | Some t \<Rightarrow>
          try_bind (step_nodes m (or_default prof default_profile) d 0 (xt_nodes t) s) (\<lambda>(ns, s'). Inr
            (s'\<lparr>si_topology := Some (t\<lparr>xt_nodes := ns\<rparr>), si_step_count := si_step_count s' + 1,
               si_time_hours := si_time_hours s' + si_time_step_seconds s' / 3600\<rparr>)))"

subsection \<open>Snapshots and runs\<close>

record gpu_snapshot =
  gn_index :: int
  gn_model :: string
  gn_engine_util_pct :: rat
  gn_memory_pct :: rat
  gn_gpu_temp_c :: rat
  gn_memory_temp_c :: rat
  gn_power_draw_watts :: rat
  gn_power_cap_watts :: rat
  gn_clock_mhz :: rat
  gn_fan_speed_pct :: rat
  gn_xid_errors :: int
  gn_ecc_corrected :: int
  gn_ecc_uncorrected :: int
  gn_retired_pages :: int
  gn_is_faulted :: bool
  gn_fault_reason :: string
  gn_wear_factor :: rat
  gn_mtbf_multiplier :: rat

definition snap_gpu :: "sim_gpu \<Rightarrow> gpu_snapshot" where
  "snap_gpu g =
     \<lparr>gn_index = xg_index g, gn_model = sp_model (xg_spec g), gn_engine_util_pct = py_round 1 (xg_engine_util_pct g),
      gn_memory_pct = py_round 1 (memory_share g), gn_gpu_temp_c = py_round 1 (xg_gpu_temp_c g),
      gn_memory_temp_c = py_round 1 (xg_memory_temp_c g), gn_power_draw_watts = py_round 1 (xg_power_draw_watts g),
      gn_power_cap_watts = py_round 1 (xg_power_cap_watts g), gn_clock_mhz = py_round 0 (xg_clock_mhz g),
      gn_fan_speed_pct = py_round 1 (xg_fan_speed_pct g), gn_xid_errors = xg_xid_errors g, gn_ecc_corrected = xg_ecc_corrected g,
      gn_ecc_uncorrected = xg_ecc_uncorrected g, gn_retired_pages = xg_retired_pages g, gn_is_faulted = xg_is_faulted g,
      gn_fault_reason = xg_fault_reason g, gn_wear_factor = py_round 4 (wear_factor (xg_degradation g)),
      gn_mtbf_multiplier = py_round 4 (mtbf_multiplier (xg_degradation g))\<rparr>"

record node_snapshot =
  nz_node_id :: string
  nz_is_on :: bool
  nz_total_power_watts :: rat
  nz_gpu_count :: int
  nz_gpus :: "gpu_snapshot list"

definition snap_node :: "sim_node \<Rightarrow> py_error + node_snapshot" where
  "snap_node n =
     try_bind (node_power n) (\<lambda>w. Inr
       \<lparr>nz_node_id = xn_node_id n, nz_is_on = xn_is_on n, nz_total_power_watts = py_round 1 w, nz_gpu_count = int (length (xn_gpus n)),
        nz_gpus = map snap_gpu (xn_gpus n)\<rparr>)"

record snapshot =
  sh_step :: int
  sh_time_hours :: rat
  sh_nodes :: "node_snapshot list"
  sh_total_power_watts :: rat
  sh_total_gpus :: int
  sh_faulted_gpus :: int
  sh_total_xid_errors :: int
  sh_total_ecc_errors :: int
  sh_pdu_load_kw :: rat
  sh_pdu_headroom_kw :: rat

definition faulted_gpus :: "topology \<Rightarrow> sim_gpu list" where
  "faulted_gpus t = filter xg_is_faulted (topology_gpus t)"

text \<open>Without a topology the snapshot is empty.\<close>

definition capture_snapshot :: "sim \<Rightarrow> py_error + snapshot option" where
  "capture_snapshot s =
     (case si_topology s of
        None \<Rightarrow> Inr None
      | Some t \<Rightarrow>
          try_bind (try_map snap_node (xt_nodes t)) (\<lambda>ns.
          try_bind (cluster_power t) (\<lambda>w. Inr (Some
            \<lparr>sh_step = si_step_count s, sh_time_hours = py_round 4 (si_time_hours s), sh_nodes = ns, sh_total_power_watts = py_round 1 w,
             sh_total_gpus = int (length (topology_gpus t)), sh_faulted_gpus = int (length (faulted_gpus t)),
             sh_total_xid_errors = sum_list (map xg_xid_errors (topology_gpus t)),
             sh_total_ecc_errors = sum_list (map (\<lambda>g. xg_ecc_corrected g + xg_ecc_uncorrected g) (topology_gpus t)),
             sh_pdu_load_kw = py_round 2 (total_load_kw (xt_pdu t)), sh_pdu_headroom_kw = py_round 2 (headroom_kw (xt_pdu t))\<rparr>))))"

fun simulate_steps ::
  "maths \<Rightarrow> profile option \<Rightarrow> (nat \<Rightarrow> nat \<Rightarrow> nat \<Rightarrow> gpu_draws) \<Rightarrow> nat list \<Rightarrow> sim \<Rightarrow> py_error + sim \<times> snapshot option list" where
  "simulate_steps m prof d [] s = Inr (s, [])"
| "simulate_steps m prof d (k # ks) s =
     try_bind (step_simulation m prof (d k) s) (\<lambda>s1.
     try_bind (capture_snapshot s1) (\<lambda>h.
     try_bind (simulate_steps m prof d ks s1) (\<lambda>(t, hs). Inr (t, h # hs))))"

record simulation =
  sm_simulation_id :: string
  sm_topology_type :: string
  sm_num_nodes :: int
  sm_total_gpus :: int
  sm_steps :: int
  sm_step_seconds :: rat
  sm_total_simulated_hours :: rat
  sm_history :: "snapshot option list"
  sm_final_snapshot :: "snapshot option"
  sm_events :: "sim_event list"
  sm_gpu_models :: "string set"

definition simulate ::
  "string \<Rightarrow> maths \<Rightarrow> (nat \<Rightarrow> nat \<Rightarrow> nat \<Rightarrow> gpu_draws) \<Rightarrow> topology \<Rightarrow> int \<Rightarrow> profile option \<Rightarrow> sim \<Rightarrow> py_error + sim \<times> simulation" where
  "simulate rid m d t steps prof s =
     try_bind (simulate_steps m prof d [0..<nat steps] (init_topology t s)) (\<lambda>(s', hs).
       let t' = or_default (si_topology s') t in
       Inr (s', \<lparr>sm_simulation_id = rid, sm_topology_type = topology_type_value (xt_topology_type t'), sm_num_nodes = int (length (xt_nodes t')),
         sm_total_gpus = int (length (topology_gpus t')), sm_steps = steps, sm_step_seconds = si_time_step_seconds s',
         sm_total_simulated_hours = py_round 4 (si_time_hours s'), sm_history = hs,
         sm_final_snapshot = (if hs = [] then None else last hs), sm_events = si_event_log s',
         sm_gpu_models = set (map (sp_model \<circ> xg_spec) (topology_gpus t'))\<rparr>))"

subsection \<open>Failure scenarios\<close>

text \<open>The target is the first GPU of the first node.\<close>

definition update_target :: "(sim_gpu \<Rightarrow> sim_gpu) \<Rightarrow> topology \<Rightarrow> topology" where
  "update_target f t =
     (case xt_nodes t of
        [] \<Rightarrow> t
      | n # ns \<Rightarrow> (case xn_gpus n of [] \<Rightarrow> t | g # gs \<Rightarrow> t\<lparr>xt_nodes := n\<lparr>xn_gpus := f g # gs\<rparr> # ns\<rparr>))"

definition get_gpu :: "topology \<Rightarrow> nat \<Rightarrow> nat \<Rightarrow> py_error + sim_gpu" where
  "get_gpu t i j =
     (if length (xt_nodes t) \<le> i \<or> length (xn_gpus (xt_nodes t ! i)) \<le> j then Inl (IndexError ''list index out of range'')
      else Inr (xn_gpus (xt_nodes t ! i) ! j))"

record scenario_draws =
  cd_roll :: rat
  cd_xid :: nat
  cd_ecc :: nat

definition map_topology :: "(topology \<Rightarrow> topology) \<Rightarrow> sim \<Rightarrow> sim" where
  "map_topology f s = s\<lparr>si_topology := map_option f (si_topology s)\<rparr>"

definition runaway :: "maths \<Rightarrow> rat \<Rightarrow> topology \<Rightarrow> topology" where
  "runaway m dt t =
     update_target (\<lambda>g. let h = g\<lparr>xg_power_draw_watts := xg_power_draw_watts g * (1015 / 1000)\<rparr> in
       h\<lparr>xg_gpu_temp_c := gpu_temperature m dt (hd (xt_nodes t)) h\<rparr>) t"

definition leak :: "sim_gpu \<Rightarrow> sim_gpu" where
  "leak g =
     (let total = sp_memory_gib (xg_spec g) in
      g\<lparr>xg_memory_used_gib := min (total * (105 / 100)) (xg_memory_used_gib g + total * (6 / 1000))\<rparr>)"

definition storm :: "scenario_draws \<Rightarrow> sim_gpu \<Rightarrow> sim_gpu" where
  "storm c g = g\<lparr>xg_xid_errors := xg_xid_errors g + int (cd_xid c), xg_ecc_corrected := xg_ecc_corrected g + int (cd_ecc c)\<rparr>"

definition surge :: "sim_gpu \<Rightarrow> sim_gpu" where
  "surge g = g\<lparr>xg_power_draw_watts := xg_power_cap_watts g * (14 / 10), xg_gpu_temp_c := min 110 (xg_gpu_temp_c g + 25)\<rparr>"

definition disturb :: "maths \<Rightarrow> scenario_draws \<Rightarrow> nat \<Rightarrow> sim_gpu \<Rightarrow> string \<times> sim \<Rightarrow> string \<times> sim" where
  "disturb m c k target = (\<lambda>(kind, s).
     if kind = ''thermal_runaway'' \<and> 50 < k then (kind, map_topology (runaway m (si_time_step_seconds s * 2)) s)
     else if kind = ''memory_leak'' \<and> 30 < k then (kind, map_topology (update_target leak) s)
     else if kind = ''xid_storm'' \<and> 20 < k then
       (kind, if cd_roll c < 2 / 100 * (1 + of_nat k / 100) then map_topology (update_target (storm c)) s else s)
     else if kind = ''power_surge'' then (kind, if k = 80 then map_topology (update_target surge) s else s)
     else if kind = ''fan_failure'' \<and> 40 < k then
       (if 80 < xg_fan_speed_pct target \<and> cd_roll c < 1 / 100 then
          (''thermal_runaway'', log_event ''fan_failure'' (xg_node_id target) (xg_index target) ''Fan speed dropped to 15%'' None
             (map_topology (update_target (\<lambda>g. g\<lparr>xg_fan_speed_pct := 15\<rparr>)) s))
        else (kind, s))
     else (kind, s))"

definition root_cause :: "topology \<Rightarrow> string option" where
  "root_cause t =
     (if list_ex (\<lambda>g. 90 < xg_gpu_temp_c g) (topology_gpus t) then Some ''Thermal runaway''
      else if list_ex (\<lambda>g. 99 < memory_share g) (topology_gpus t) then Some ''Memory exhaustion''
      else if 25 < sum_list (map xg_xid_errors (topology_gpus t)) then Some ''XID error storm'' else None)"

definition fail_target :: "sim_gpu \<Rightarrow> string \<Rightarrow> nat \<Rightarrow> sim \<Rightarrow> sim" where
  "fail_target target cause k s =
     log_event ''cluster_failure'' (xg_node_id target) (xg_index target) (''Failure: '' @ cause @ '' at step '' @ nat_str k) None
       (map_topology (update_target (\<lambda>g. g\<lparr>xg_is_faulted := True, xg_fault_reason := cause\<rparr>)) s)"

definition heavy_profile :: profile where
  "heavy_profile = \<lparr>pf_gpu_util_target = 92, pf_memory_target_pct = 90, pf_tensor_intensity = 95 / 100, pf_mem_intensity = 8 / 10\<rparr>"

fun run_scenario ::
  "maths \<Rightarrow> (nat \<Rightarrow> nat \<Rightarrow> nat \<Rightarrow> gpu_draws) \<Rightarrow> (nat \<Rightarrow> scenario_draws) \<Rightarrow> nat list \<Rightarrow> string \<Rightarrow> sim
    \<Rightarrow> py_error + string \<times> sim \<times> (nat \<times> string) option" where
  "run_scenario m d c [] kind s = Inr (kind, s, None)"
| "run_scenario m d c (k # ks) kind s =
     try_bind (step_simulation m (Some heavy_profile) (d k) s) (\<lambda>s1.
     try_bind (get_gpu (or_default (si_topology s1) new_topology) 0 0) (\<lambda>target.
       let (kind', s2) = disturb m (c k) k target (kind, s1) in
       case root_cause (or_default (si_topology s2) new_topology) of
         Some cause \<Rightarrow> Inr (kind', fail_target target cause k s2, Some (k, cause))
       | None \<Rightarrow> run_scenario m d c ks kind' s2))"

record scenario_result =
  sr_scenario :: string
  sr_num_nodes :: int
  sr_total_gpus :: int
  sr_failure_step :: "nat option"
  sr_time_to_failure_minutes :: "rat option"
  sr_root_cause :: string
  sr_timeline :: "sim_event list"
  sr_final_snapshot :: "snapshot option"
  sr_gpu_model :: string

definition simulate_failure_scenario ::
  "maths \<Rightarrow> (nat \<Rightarrow> nat \<Rightarrow> nat \<Rightarrow> gpu_draws) \<Rightarrow> (nat \<Rightarrow> scenario_draws) \<Rightarrow> string \<Rightarrow> topology option \<Rightarrow> sim
    \<Rightarrow> py_error + sim \<times> scenario_result" where
  "simulate_failure_scenario m d c kind given s =
     try_bind (case given of None \<Rightarrow> build_dgx_h100 1 new_topology | Some t \<Rightarrow> Inr t) (\<lambda>t.
     try_bind (get_gpu t 0 0) (\<lambda>_.
     try_bind (run_scenario m d c [0..<300] kind (init_topology t s)) (\<lambda>(kind', s', failure).
     try_bind (capture_snapshot s') (\<lambda>snap.
     try_bind (get_gpu (or_default (si_topology s') t) 0 0) (\<lambda>target. Inr (s',
       \<lparr>sr_scenario = kind', sr_num_nodes = int (length (xt_nodes t)), sr_total_gpus = int (length (topology_gpus t)),
        sr_failure_step = map_option fst failure,
        sr_time_to_failure_minutes = map_option (\<lambda>(k, _). py_round 1 (of_nat k * si_time_step_seconds s' / 60)) failure,
        sr_root_cause = (case failure of None \<Rightarrow> [] | Some (_, cause) \<Rightarrow> cause), sr_timeline = si_event_log s', sr_final_snapshot = snap,
        sr_gpu_model = sp_model (xg_spec target)\<rparr>))))))"

subsection \<open>What a step does\<close>

definition running_sound :: "sim_gpu \<Rightarrow> bool" where
  "running_sound g \<longleftrightarrow> 0 \<le> xg_engine_util_pct g \<and> xg_engine_util_pct g \<le> 100 \<and> 0 \<le> xg_tensor_activity_pct g \<and> xg_tensor_activity_pct g \<le> 100
     \<and> 0 \<le> xg_dram_activity_pct g \<and> xg_dram_activity_pct g \<le> 100
     \<and> 0 \<le> xg_memory_used_gib g \<and> xg_memory_used_gib g \<le> max 0 (sp_memory_gib (xg_spec g))
     \<and> xg_power_draw_watts g \<le> xg_power_cap_watts g \<and> 10 \<le> xg_fan_speed_pct g \<and> xg_fan_speed_pct g \<le> 100"

definition same_gpu :: "sim_gpu \<Rightarrow> sim_gpu \<Rightarrow> bool" where
  "same_gpu g h \<longleftrightarrow> xg_index h = xg_index g \<and> xg_node_id h = xg_node_id g \<and> xg_spec h = xg_spec g \<and> xg_power_cap_watts h = xg_power_cap_watts g"

definition stepped :: "sim_gpu \<Rightarrow> sim_gpu \<Rightarrow> bool" where
  "stepped g h \<longleftrightarrow> same_gpu g h
     \<and> (if xg_is_faulted g then h = idle_fault g
        else running_sound h \<and> xg_xid_errors g \<le> xg_xid_errors h \<and> (xg_is_faulted h \<longrightarrow> 5 < xg_xid_errors h))"

lemma clamp_bounds: "lo \<le> hi \<Longrightarrow> lo \<le> clamp lo hi x \<and> clamp lo hi x \<le> hi" "0 \<le> clamp 0 hi x" "clamp 0 hi x \<le> max 0 hi"
  by (auto simp: clamp_def)

lemma drive_outcome:
  assumes "drive_gpu m dt n d g = Inr h"
  shows "same_gpu g h \<and> xg_engine_util_pct h = xg_engine_util_pct g \<and> xg_tensor_activity_pct h = xg_tensor_activity_pct g
    \<and> xg_dram_activity_pct h = xg_dram_activity_pct g \<and> xg_memory_used_gib h = xg_memory_used_gib g \<and> xg_power_draw_watts h \<le> xg_power_cap_watts g
    \<and> 10 \<le> xg_fan_speed_pct h \<and> xg_fan_speed_pct h \<le> 100 \<and> xg_xid_errors h = xg_xid_errors g \<and> xg_is_faulted h = xg_is_faulted g"
  using assms clamp_bounds(1) [of 10 100]
  by (auto simp: drive_gpu_def try_bind_Inr_iff compute_power_def Let_def same_gpu_def)

lemma load_outcome:
  "same_gpu g (load_gpu m p d k g) \<and> xg_xid_errors (load_gpu m p d k g) = xg_xid_errors g
   \<and> xg_is_faulted (load_gpu m p d k g) = xg_is_faulted g
   \<and> 0 \<le> xg_engine_util_pct (load_gpu m p d k g) \<and> xg_engine_util_pct (load_gpu m p d k g) \<le> 100
   \<and> 0 \<le> xg_tensor_activity_pct (load_gpu m p d k g) \<and> xg_tensor_activity_pct (load_gpu m p d k g) \<le> 100
   \<and> 0 \<le> xg_dram_activity_pct (load_gpu m p d k g) \<and> xg_dram_activity_pct (load_gpu m p d k g) \<le> 100
   \<and> 0 \<le> xg_memory_used_gib (load_gpu m p d k g) \<and> xg_memory_used_gib (load_gpu m p d k g) \<le> max 0 (sp_memory_gib (xg_spec g))"
  using clamp_bounds(1) [of 0 100] by (simp add: load_gpu_def Let_def same_gpu_def clamp_bounds(2,3))

text \<open>The parts of a GPU that the errors and the wear leave alone.\<close>

definition load_part :: "sim_gpu \<Rightarrow> rat list" where
  "load_part g = [xg_engine_util_pct g, xg_tensor_activity_pct g, xg_dram_activity_pct g, xg_memory_used_gib g, xg_power_draw_watts g,
     xg_fan_speed_pct g]"

lemma errors_outcome:
  assumes "inject_errors d stress i g s = (h, t)" and "\<not> xg_is_faulted g"
  shows "same_gpu g h \<and> load_part h = load_part g \<and> xg_xid_errors g \<le> xg_xid_errors h \<and> (xg_is_faulted h \<longrightarrow> 5 < xg_xid_errors h)"
  using assms
  by (auto simp: inject_errors_def xid_step_def ecc_step_def retire_step_def replay_step_def Let_def same_gpu_def load_part_def
      split: if_splits prod.splits)

lemma wear_outcome:
  "same_gpu g (update_degradation dt g) \<and> load_part (update_degradation dt g) = load_part g
   \<and> xg_xid_errors (update_degradation dt g) = xg_xid_errors g \<and> xg_is_faulted (update_degradation dt g) = xg_is_faulted g"
  by (simp add: update_degradation_def Let_def same_gpu_def load_part_def)

lemma link_outcome:
  "same_gpu g (link_gpu d g) \<and> load_part (link_gpu d g) = load_part g \<and> xg_xid_errors (link_gpu d g) = xg_xid_errors g
   \<and> xg_is_faulted (link_gpu d g) = xg_is_faulted g"
  by (simp add: link_gpu_def Let_def same_gpu_def load_part_def)

lemma same_gpu_trans: "same_gpu g h \<Longrightarrow> same_gpu h k \<Longrightarrow> same_gpu g k"
  by (simp add: same_gpu_def)

lemma step_gpu_outcome:
  assumes "step_gpu m p n d g s = Inr (h, t)"
  shows "stepped g h"
proof (cases "xg_is_faulted g")
  case True
  then show ?thesis using assms by (auto simp: step_gpu_def stepped_def same_gpu_def idle_fault_def)
next
  case False
  let ?l = "load_gpu m p d (si_step_count s) g"
  obtain g1 where g1: "drive_gpu m (si_time_step_seconds s) n d ?l = Inr g1"
    using assms False by (auto simp: step_gpu_def try_bind_Inr_iff)
  obtain g3 u where g3: "inject_errors d (xg_gpu_temp_c (link_gpu d g1) / 85 + xg_engine_util_pct (link_gpu d g1) / 100)
      (pf_tensor_intensity p) (link_gpu d g1) s = (g3, u)" by (metis surj_pair)
  then have h: "h = update_degradation (si_time_step_seconds s / 3600) g3"
    using assms False g1 by (simp add: step_gpu_def try_bind_def Let_def)
  note load = load_outcome [of g m p d "si_step_count s"]
  note drive = drive_outcome [OF g1]
  note link = link_outcome [of g1 d]
  have "\<not> xg_is_faulted (link_gpu d g1)" using load drive link False by simp
  note err = errors_outcome [OF g3 this]
  note wear = wear_outcome [of g3 "si_time_step_seconds s / 3600", folded h]
  have same: "same_gpu g h" using load drive link err wear same_gpu_trans by meson
  have "load_part h = load_part g1" using link err wear by simp
  moreover have "xg_power_cap_watts h = xg_power_cap_watts ?l" "xg_spec h = xg_spec g"
    using same load by (simp_all add: same_gpu_def)
  ultimately have "running_sound h" using load drive by (simp add: running_sound_def load_part_def)
  moreover have "xg_xid_errors g \<le> xg_xid_errors h" "xg_is_faulted h \<longrightarrow> 5 < xg_xid_errors h" using load drive link err wear by simp_all
  ultimately show ?thesis using same False by (simp add: stepped_def)
qed

lemma step_gpus_outcome: "step_gpus m p n d i gs s = Inr (hs, t) \<Longrightarrow> list_all2 stepped gs hs"
  by (induction gs arbitrary: i s hs) (auto simp: try_bind_Inr_iff split: prod.splits dest!: step_gpu_outcome)

text \<open>A node that is off stays as it is.\<close>

definition node_stepped :: "sim_node \<Rightarrow> sim_node \<Rightarrow> bool" where
  "node_stepped n k \<longleftrightarrow> xn_node_id k = xn_node_id n \<and> xn_is_on k = xn_is_on n
     \<and> (if xn_is_on n then list_all2 stepped (xn_gpus n) (xn_gpus k) else k = n)"

lemma step_nodes_outcome: "step_nodes m p d i ns s = Inr (ks, t) \<Longrightarrow> list_all2 node_stepped ns ks"
  by (induction ns arbitrary: i s ks)
     (auto simp: try_bind_Inr_iff step_node_def node_stepped_def Let_def split: prod.splits if_splits dest: step_gpus_outcome)

lemma step_nodes_count: "step_nodes m p d i ns s = Inr (ks, t) \<Longrightarrow> si_step_count t = si_step_count s"
proof -
  have gpu: "si_step_count b = si_step_count a" if "step_gpu m p n d g a = Inr (h, b)" for m p n d g a h b
    using that
    by (auto simp: step_gpu_def try_bind_Inr_iff Let_def inject_errors_def xid_step_def log_event_def split: if_splits prod.splits)
  have gpus: "si_step_count b = si_step_count a" if "step_gpus m p n d i gs a = Inr (hs, b)" for m p n d i gs a hs b
    using that by (induction gs arbitrary: i a hs) (auto simp: try_bind_Inr_iff split: prod.splits dest!: gpu)
  show "step_nodes m p d i ns s = Inr (ks, t) \<Longrightarrow> si_step_count t = si_step_count s"
    by (induction ns arbitrary: i s ks)
       (auto simp: try_bind_Inr_iff step_node_def Let_def split: prod.splits if_splits dest!: gpus)
qed

text \<open>
  A step of the simulation keeps every GPU's identity and power cap. A node that is off does not change and a
  faulted GPU stays faulted and idles; every other GPU ends the step with its utilisations between
  zero and one hundred percent, no more memory used than it has, a draw within its cap and a fan
  between ten and one hundred percent, its error count does not fall, and it is faulted only with more than five errors.
\<close>

theorem simulation_step_sound:
  assumes "step_simulation m prof d s = Inr s'" and "si_topology s = Some t"
  shows "\<exists>t'. si_topology s' = Some t' \<and> list_all2 node_stepped (xt_nodes t) (xt_nodes t') \<and> xt_pdu t' = xt_pdu t
    \<and> si_step_count s' = si_step_count s + 1"
  using assms by (auto simp: step_simulation_def try_bind_Inr_iff split: prod.splits dest: step_nodes_outcome step_nodes_count)

subsection \<open>What can be simulated and built\<close>

text \<open>A step raises only when a running GPU has a boost clock of zero.\<close>

definition clocked :: "topology \<Rightarrow> bool" where
  "clocked t \<longleftrightarrow> list_all (\<lambda>g. sp_boost_clock_mhz (xg_spec g) \<noteq> 0) (topology_gpus t)"

lemma step_gpu_total: "sp_boost_clock_mhz (xg_spec g) \<noteq> 0 \<Longrightarrow> \<exists>r. step_gpu m p n d g s = Inr r"
proof -
  assume "sp_boost_clock_mhz (xg_spec g) \<noteq> 0"
  then have "sp_boost_clock_mhz (xg_spec (load_gpu m p d (si_step_count s) g)) \<noteq> 0" using load_outcome [of g m p d] by (simp add: same_gpu_def)
  then have "\<exists>h. drive_gpu m (si_time_step_seconds s) n d (load_gpu m p d (si_step_count s) g) = Inr h"
    by (simp add: drive_gpu_def compute_power_def py_div_def try_bind_def Let_def)
  then show ?thesis by (auto simp: step_gpu_def try_bind_def Let_def split: prod.split)
qed

lemma step_gpus_total: "list_all (\<lambda>g. sp_boost_clock_mhz (xg_spec g) \<noteq> 0) gs \<Longrightarrow> \<exists>r. step_gpus m p n d i gs s = Inr r"
proof (induction gs arbitrary: i s)
  case (Cons g gs)
  obtain h t where "step_gpu m p n (d i) g s = Inr (h, t)" using step_gpu_total Cons.prems by (metis list.pred_inject(2) surj_pair)
  moreover obtain hs u where "step_gpus m p n d (Suc i) gs t = Inr (hs, u)" using Cons by (metis list.pred_inject(2) surj_pair)
  ultimately show ?case by (simp add: try_bind_def)
qed simp

lemma step_nodes_total: "list_all (\<lambda>n. list_all (\<lambda>g. sp_boost_clock_mhz (xg_spec g) \<noteq> 0) (xn_gpus n)) ns \<Longrightarrow> \<exists>r. step_nodes m p d i ns s = Inr r"
proof (induction ns arbitrary: i s)
  case (Cons n ns)
  obtain hs u where "step_gpus m p n (d i) 0 (xn_gpus n) s = Inr (hs, u)" using step_gpus_total Cons.prems by (metis list.pred_inject(2) surj_pair)
  then obtain k t where "step_node m p (d i) n s = Inr (k, t)" by (cases "xn_is_on n") (auto simp: step_node_def try_bind_def Let_def)
  moreover obtain ks v where "step_nodes m p d (Suc i) ns t = Inr (ks, v)" using Cons by (metis list.pred_inject(2) surj_pair)
  ultimately show ?case by (simp add: try_bind_def)
qed simp

lemma step_total: "si_topology s = Some t \<Longrightarrow> clocked t \<Longrightarrow> \<exists>s'. step_simulation m prof d s = Inr s'"
proof -
  assume t: "si_topology s = Some t" and "clocked t"
  then have "list_all (\<lambda>n. list_all (\<lambda>g. sp_boost_clock_mhz (xg_spec g) \<noteq> 0) (xn_gpus n)) (xt_nodes t)"
    by (simp add: clocked_def topology_gpus_def list_all_iff)
  then obtain ks u where "step_nodes m (or_default prof default_profile) d 0 (xt_nodes t) s = Inr (ks, u)"
    using step_nodes_total by (metis surj_pair)
  then show ?thesis by (simp add: step_simulation_def t try_bind_def)
qed

lemma dgx_node_facts: "length (xn_gpus (dgx_node i)) = 8" "\<exists>w. node_power (dgx_node i) = Inr w"
  by (simp_all add: dgx_node_def new_node_def node_power_def py_div_def try_bind_def Let_def)

lemma add_dgx_cases:
  assumes "length (pu_circuit_load_kw (xt_pdu t)) = 3"
  shows "pu_circuits (xt_pdu t) = 3 \<Longrightarrow> \<exists>t'. add_dgx i t = Inr t' \<and> xt_nodes t' = xt_nodes t @ [dgx_node i]
      \<and> pu_circuits (xt_pdu t') = 3 \<and> length (pu_circuit_load_kw (xt_pdu t')) = 3 \<and> pu_max_power_kw (xt_pdu t') = pu_max_power_kw (xt_pdu t)"
    and "3 < pu_circuits (xt_pdu t) \<Longrightarrow> add_dgx i t = Inl (IndexError ''list index out of range'')"
  using assms dgx_node_facts(2) [of i] by (auto simp: add_dgx_def assign_load_def try_bind_def Let_def)

lemma add_all_three:
  assumes "length (pu_circuit_load_kw (xt_pdu t)) = 3" and "pu_circuits (xt_pdu t) = 3"
  shows "\<exists>t'. add_all is t = Inr t' \<and> xt_nodes t' = xt_nodes t @ map dgx_node is"
  using assms
proof (induction "is" arbitrary: t)
  case (Cons i js)
  obtain t1 where "add_dgx i t = Inr t1" "xt_nodes t1 = xt_nodes t @ [dgx_node i]" "pu_circuits (xt_pdu t1) = 3"
    "length (pu_circuit_load_kw (xt_pdu t1)) = 3"
    using add_dgx_cases(1) [OF Cons.prems] by blast
  then show ?case using Cons.IH [of t1] by (simp add: try_bind_def)
qed simp

text \<open>
  A cluster of DGX nodes is built exactly for up to three nodes, of eight GPUs each; for more, the power
  distribution unit has a circuit per node but loads for three, and building raises \<open>IndexError\<close>.
\<close>

theorem dgx_at_most_three:
  "(case build_dgx_h100 n t of
      Inl e \<Rightarrow> 3 < n \<and> e = IndexError ''list index out of range''
    | Inr t' \<Rightarrow> n \<le> 3 \<and> xt_nodes t' = xt_nodes t @ map dgx_node [0..<nat n]
        \<and> length (topology_gpus t') = length (topology_gpus t) + 8 * nat n)"
proof -
  let ?t = "t\<lparr>xt_topology_type := TOPO_DGX_H100, xt_interconnect_type := ''nvlink'', xt_pdu := new_pdu (of_int n * 12) (max 3 n)\<rparr>"
  have loads: "length (pu_circuit_load_kw (xt_pdu ?t)) = 3" by (simp add: new_pdu_def)
  show ?thesis
  proof (cases "3 < n")
    case True
    then have "[0..<nat n] = 0 # [1..<nat n]" by (simp add: upt_rec)
    moreover have "add_dgx 0 ?t = Inl (IndexError ''list index out of range'')"
      by (rule add_dgx_cases(2) [OF loads]) (use True in \<open>simp add: new_pdu_def\<close>)
    ultimately show ?thesis using True by (simp add: build_dgx_h100_def try_bind_def)
  next
    case False
    have "pu_circuits (xt_pdu ?t) = 3" using False by (simp add: new_pdu_def)
    then obtain t' where t': "add_all [0..<nat n] ?t = Inr t'" "xt_nodes t' = xt_nodes t @ map dgx_node [0..<nat n]"
      using add_all_three [OF loads] by auto
    have "length (concat (map xn_gpus (map dgx_node is))) = 8 * length is" for "is"
      by (induction "is") (simp_all add: dgx_node_facts(1))
    then show ?thesis using False t' by (simp add: build_dgx_h100_def topology_gpus_def)
  qed
qed

subsection \<open>Witnesses\<close>

definition flat_maths :: maths where
  "flat_maths = \<lparr>mt_exp = \<lambda>_. 1, mt_sin_turn = \<lambda>_. 0\<rparr>"

definition calm_draws :: gpu_draws where
  "calm_draws =
     \<lparr>gd_util = 0, gd_tensor = 0, gd_dram = 0, gd_memory = 0, gd_memory_temp = 0, gd_fan = 0, gd_pcie_tx = 0, gd_pcie_rx = 0,
      gd_nvlink_tx = 0, gd_nvlink_rx = 0, gd_xid = 1, gd_xid_count = 0, gd_ecc = 1, gd_ecc_count = 0, gd_ecc_uncorrected = 1,
      gd_retire = 1, gd_pcie_replay = 1\<rparr>"

definition rtx_sim :: sim where
  "rtx_sim = init_topology (build_rtx_cluster 2 new_topology) new_sim"

theorem simulation_step_sound_witness:
  "\<exists>s' t'. step_simulation flat_maths None (\<lambda>_ _. calm_draws) rtx_sim = Inr s' \<and> si_topology s' = Some t'
     \<and> list_all2 node_stepped (xt_nodes (build_rtx_cluster 2 new_topology)) (xt_nodes t')"
proof -
  have t: "si_topology rtx_sim = Some (build_rtx_cluster 2 new_topology)" by (simp add: rtx_sim_def init_topology_def)
  have "clocked (build_rtx_cluster 2 new_topology)"
    by (simp add: clocked_def topology_gpus_def build_rtx_cluster_def new_node_def new_gpu_def rtx_4090_def upt_rec)
  then obtain s' where "step_simulation flat_maths None (\<lambda>_ _. calm_draws) rtx_sim = Inr s'" using step_total [OF t] by blast
  then show ?thesis using simulation_step_sound [OF _ t] by blast
qed

end
