(* ===== verification/ClusterManager.thy ===== *)
theory ClusterManager
  imports SimCluster "HOL-Library.Multiset"
begin

text \<open>
  The management of a cluster, src/src/gpuopt/ml/cluster_algorithm.py: which GPUs a job gets, which power caps
  are lowered, which GPUs are to be drained or throttled, and how load is balanced. The failure predictor
  is an argument: it gives a probability for the telemetry of a GPU or nothing, when it is missing or
  fails, and then the heuristic counts. The standard deviation of numpy is an argument too. What a
  call that raises had logged before is not kept.
\<close>

subsection \<open>Metrics and jobs\<close>

datatype scheduling_policy =
  POL_ROUND_ROBIN | POL_LEAST_LOADED | POL_RISK_AWARE | POL_THERMAL_AWARE | POL_POWER_EFFICIENT | POL_HYBRID | POL_MEMORY_BANDWIDTH | POL_ECC_REQUIRED

fun scheduling_policy_value :: "scheduling_policy \<Rightarrow> string" where
  "scheduling_policy_value POL_ROUND_ROBIN = ''round_robin''"
| "scheduling_policy_value POL_LEAST_LOADED = ''least_loaded''"
| "scheduling_policy_value POL_RISK_AWARE = ''risk_aware''"
| "scheduling_policy_value POL_THERMAL_AWARE = ''thermal_aware''"
| "scheduling_policy_value POL_POWER_EFFICIENT = ''power_efficient''"
| "scheduling_policy_value POL_HYBRID = ''hybrid''"
| "scheduling_policy_value POL_MEMORY_BANDWIDTH = ''memory_bandwidth''"
| "scheduling_policy_value POL_ECC_REQUIRED = ''ecc_required''"

definition all_policies :: "scheduling_policy list" where
  "all_policies = [POL_ROUND_ROBIN, POL_LEAST_LOADED, POL_RISK_AWARE, POL_THERMAL_AWARE, POL_POWER_EFFICIENT, POL_HYBRID, POL_MEMORY_BANDWIDTH,
     POL_ECC_REQUIRED]"

datatype cap_mode = CAP_OFF | CAP_TEMPERATURE_GUIDED | CAP_RISK_GUIDED | CAP_PREDICTIVE

fun cap_mode_value :: "cap_mode \<Rightarrow> string" where
  "cap_mode_value CAP_OFF = ''off''"
| "cap_mode_value CAP_TEMPERATURE_GUIDED = ''temperature_guided''"
| "cap_mode_value CAP_RISK_GUIDED = ''risk_guided''"
| "cap_mode_value CAP_PREDICTIVE = ''predictive''"

definition all_cap_modes :: "cap_mode list" where
  "all_cap_modes = [CAP_OFF, CAP_TEMPERATURE_GUIDED, CAP_RISK_GUIDED, CAP_PREDICTIVE]"

type_synonym gpu_key = "string \<times> int"

record gpu_metrics =
  mx_index :: int
  mx_node_id :: string
  mx_engine_util_pct :: rat
  mx_memory_pct :: rat
  mx_gpu_temp_c :: rat
  mx_power_watts :: rat
  mx_power_cap_watts :: rat
  mx_xid_errors :: int
  mx_ecc_errors :: int
  mx_fan_speed_pct :: rat
  mx_clock_mhz :: rat
  mx_wear_factor :: rat
  mx_memory_bandwidth_gbps :: rat
  mx_ecc_capable :: bool
  mx_node_cpu_cores :: int
  mx_node_cpu_vendor :: string
  mx_node_memory_type :: string

definition metric_key :: "gpu_metrics \<Rightarrow> gpu_key" where
  "metric_key m = (mx_node_id m, mx_index m)"

definition to_telemetry :: "gpu_metrics \<Rightarrow> (string, json) dict" where
  "to_telemetry m =
     [(''gpu_utilization'', JFloat (mx_engine_util_pct m)), (''memory_utilization'', JFloat (mx_memory_pct m)),
      (''temperature'', JFloat (mx_gpu_temp_c m)), (''power_usage'', JFloat (mx_power_watts m)), (''clock_speed'', JFloat (mx_clock_mhz m)),
      (''ecc_errors'', JInt (mx_ecc_errors m)), (''xid_errors'', JInt (mx_xid_errors m)), (''available_gpus'', JInt 0), (''total_gpus'', JInt 1),
      (''queue_length'', JInt 0), (''job_failures'', JInt 0), (''job_retries'', JInt 0), (''average_job_duration'', JFloat 0),
      (''utilization_variance'', JFloat 0), (''temperature_variance'', JFloat 0), (''retired_pages'', JInt 0)]"

record job_spec =
  jb_job_id :: string
  jb_name :: string
  jb_required_gpus :: int
  jb_required_memory_gib :: rat
  jb_estimated_runtime_hours :: rat
  jb_priority :: int
  jb_workload_type :: string
  jb_tensor_intensity :: rat
  jb_mem_intensity :: rat
  jb_require_ecc :: bool
  jb_min_memory_bandwidth_gbps :: rat
  jb_preferred_memory_type :: string
  jb_min_cpu_cores :: int
  jb_cpu_vendor_preference :: string

record schedule_decision =
  sd_job_id :: string
  sd_assigned_gpus :: "gpu_key list"
  sd_policy :: scheduling_policy
  sd_predicted_failure_risk :: rat
  sd_estimated_power_watts :: rat
  sd_thermal_headroom_c :: rat
  sd_score :: rat
  sd_rationale :: "piece list"

record cap_action =
  ca_gpu_key :: gpu_key
  ca_current_power_watts :: rat
  ca_new_cap_watts :: rat
  ca_reason :: "piece list"
  ca_temp_before :: rat
  ca_temp_after_estimate :: rat

record drain =
  dn_gpu_key :: gpu_key
  dn_risk_score :: rat
  dn_reason :: "piece list"
  dn_suggested_action :: string
  dn_urgency :: string

record decision_entry =
  de_timestamp :: datetime
  de_job_id :: string
  de_policy :: string
  de_assigned_gpus :: "gpu_key list"
  de_avg_risk :: rat
  de_score :: rat

record cap_entry =
  ce_timestamp :: datetime
  ce_gpu_key :: gpu_key
  ce_from :: rat
  ce_to :: rat
  ce_reason :: "piece list"

record drain_entry =
  dl_timestamp :: datetime
  dl_gpu_key :: gpu_key
  dl_risk :: rat
  dl_urgency :: string
  dl_action :: string

record manager =
  mg_scheduling_policy :: scheduling_policy
  mg_power_cap_mode :: cap_mode
  mg_risk_threshold :: rat
  mg_thermal_threshold_c :: rat
  mg_power_headroom_ratio :: rat
  mg_degradation_warn_threshold :: rat
  mg_degradation_drain_threshold :: rat
  mg_decision_log :: "decision_entry list"
  mg_cap_log :: "cap_entry list"
  mg_drain_log :: "drain_entry list"

definition new_manager :: manager where
  "new_manager =
     \<lparr>mg_scheduling_policy = POL_HYBRID, mg_power_cap_mode = CAP_PREDICTIVE, mg_risk_threshold = 5 / 10, mg_thermal_threshold_c = 82,
      mg_power_headroom_ratio = 15 / 100, mg_degradation_warn_threshold = 15 / 100, mg_degradation_drain_threshold = 30 / 100, mg_decision_log = [], mg_cap_log = [],
      mg_drain_log = []\<rparr>"

type_synonym predictor = "(string, json) dict \<Rightarrow> rat option"

definition metric_of :: "sim_node \<Rightarrow> sim_gpu \<Rightarrow> gpu_metrics" where
  "metric_of n g =
     \<lparr>mx_index = xg_index g, mx_node_id = xn_node_id n, mx_engine_util_pct = xg_engine_util_pct g, mx_memory_pct = memory_share g,
      mx_gpu_temp_c = xg_gpu_temp_c g, mx_power_watts = xg_power_draw_watts g, mx_power_cap_watts = xg_power_cap_watts g,
      mx_xid_errors = xg_xid_errors g, mx_ecc_errors = xg_ecc_corrected g + xg_ecc_uncorrected g, mx_fan_speed_pct = xg_fan_speed_pct g,
      mx_clock_mhz = xg_clock_mhz g, mx_wear_factor = wear_factor (xg_degradation g), mx_memory_bandwidth_gbps = xn_memory_bandwidth_gbps n,
      mx_ecc_capable = xn_ecc_capable n, mx_node_cpu_cores = xn_cpu_cores n, mx_node_cpu_vendor = xn_cpu_vendor n,
      mx_node_memory_type = xn_memory_type n\<rparr>"

definition node_metrics :: "sim_node \<Rightarrow> gpu_metrics list" where
  "node_metrics n = (if xn_is_on n then map (metric_of n) (filter (\<lambda>g. \<not> xg_is_faulted g) (xn_gpus n)) else [])"

definition get_gpu_metrics :: "topology \<Rightarrow> gpu_metrics list" where
  "get_gpu_metrics t = concat (map node_metrics (xt_nodes t))"

subsection \<open>Risk\<close>

definition heuristic_risk :: "gpu_metrics \<Rightarrow> py_error + rat" where
  "heuristic_risk m =
     try_bind (py_div (mx_power_watts m) (mx_power_cap_watts m)) (\<lambda>load. Inr (min 1
       (max 0 (mx_gpu_temp_c m - 70) / 30 * (25 / 100) + mx_engine_util_pct m / 100 * (15 / 100) + mx_memory_pct m / 100 * (15 / 100)
        + min 1 (of_int (mx_xid_errors m) / 10) * (15 / 100) + min 1 (of_int (mx_ecc_errors m) / 20) * (10 / 100)
        + mx_wear_factor m * (10 / 100) + max 0 (load - 8 / 10) * (10 / 100))))"

definition predict_failure_risk :: "predictor \<Rightarrow> gpu_metrics \<Rightarrow> py_error + rat" where
  "predict_failure_risk p m = (case p (to_telemetry m) of Some r \<Rightarrow> Inr r | None \<Rightarrow> heuristic_risk m)"

subsection \<open>Scheduling\<close>

text \<open>Why a node cannot take a job; \<open>None\<close> when it can.\<close>

definition incapable :: "gpu_metrics \<Rightarrow> job_spec \<Rightarrow> piece list option" where
  "incapable m j =
     (let node = ''node '' @ mx_node_id m in
      if jb_require_ecc j \<and> \<not> mx_ecc_capable m then Some [Txt (node @ '' lacks ECC memory'')]
      else if 0 < jb_min_memory_bandwidth_gbps j \<and> mx_memory_bandwidth_gbps m < jb_min_memory_bandwidth_gbps j
      then Some [Txt (node @ '' bandwidth ''), Fmt ''.0f'' (JFloat (mx_memory_bandwidth_gbps m)), Txt '' < '',
        Fmt ''.0f'' (JFloat (jb_min_memory_bandwidth_gbps j)), Txt '' GB/s'']
      else if jb_preferred_memory_type j \<noteq> [] \<and> mx_node_memory_type m \<noteq> []
        \<and> str_lower (jb_preferred_memory_type j) \<noteq> str_lower (mx_node_memory_type m)
      then Some [Txt (node @ '' memory type '' @ mx_node_memory_type m @ '' != '' @ jb_preferred_memory_type j)]
      else if 0 < jb_min_cpu_cores j \<and> mx_node_cpu_cores m < jb_min_cpu_cores j
      then Some [Txt (node @ '' has '' @ int_str (mx_node_cpu_cores m) @ '' cores < '' @ int_str (jb_min_cpu_cores j))]
      else if jb_cpu_vendor_preference j \<noteq> [] \<and> mx_node_cpu_vendor m \<noteq> []
        \<and> str_lower (jb_cpu_vendor_preference j) \<noteq> str_lower (mx_node_cpu_vendor m)
      then Some [Txt (node @ '' cpu vendor '' @ mx_node_cpu_vendor m @ '' != '' @ jb_cpu_vendor_preference j)]
      else None)"

definition score_weights :: "(string, rat) dict" where
  "score_weights =
     [(''safety'', 30 / 100), (''thermal'', 20 / 100), (''load'', 15 / 100), (''memory'', 15 / 100), (''availability'', 10 / 100),
      (''power'', 10 / 100), (''bandwidth'', 10 / 100), (''ecc'', 10 / 100)]"

record gpu_score =
  gz_risk :: rat
  gz_raw_score :: rat
  gz_scores :: "(string, rat) dict"
  gz_temp_ratio :: rat
  gz_mem_free_pct :: rat

definition score_parts :: "scheduling_policy \<Rightarrow> rat \<Rightarrow> rat \<Rightarrow> gpu_metrics \<Rightarrow> (string, rat) dict" where
  "score_parts pol risk ratio m =
     (let has = (\<lambda>ps. pol \<in> set ps \<or> pol = POL_HYBRID); bw = mx_memory_bandwidth_gbps m in
      (if has [POL_ROUND_ROBIN, POL_LEAST_LOADED] then [(''load'', 1 - mx_engine_util_pct m / 100)] else [])
      @ (if has [POL_RISK_AWARE] then [(''safety'', 1 - risk)] else [])
      @ (if has [POL_THERMAL_AWARE] then [(''thermal'', max 0 (1 - ratio))] else [])
      @ (if has [POL_POWER_EFFICIENT] then [(''power'', min 1 (mx_engine_util_pct m / max (mx_power_watts m) 1 * (5 / 10)))] else [])
      @ (if has [POL_MEMORY_BANDWIDTH] then [(''bandwidth'', min 1 (bw / max bw 1))] else [])
      @ (if has [POL_ECC_REQUIRED] then [(''ecc'', if mx_ecc_capable m then 1 else 0)] else [])
      @ [(''memory'', 1 - mx_memory_pct m / 100), (''availability'', 1 - mx_engine_util_pct m / 100)])"

definition compute_gpu_score :: "predictor \<Rightarrow> scheduling_policy \<Rightarrow> manager \<Rightarrow> gpu_metrics \<Rightarrow> py_error + gpu_score" where
  "compute_gpu_score p pol s m =
     try_bind (predict_failure_risk p m) (\<lambda>risk.
     try_bind (py_div (mx_gpu_temp_c m) (mg_thermal_threshold_c s)) (\<lambda>ratio.
       let parts = score_parts pol risk ratio m;
           weighted = sum_list (map (\<lambda>(k, w). case dict_get parts k of None \<Rightarrow> 0 | Some v \<Rightarrow> v * w) score_weights) in
       Inr \<lparr>gz_risk = py_round 4 risk, gz_raw_score = py_round 4 (weighted * (1 - mx_wear_factor m * (5 / 10))),
            gz_scores = map (\<lambda>(k, v). (k, py_round 4 v)) parts, gz_temp_ratio = py_round 3 ratio,
            gz_mem_free_pct = py_round 1 ((1 - mx_memory_pct m / 100) * 100)\<rparr>))"

definition refused :: "string \<Rightarrow> scheduling_policy \<Rightarrow> piece list \<Rightarrow> schedule_decision" where
  "refused jid pol why =
     \<lparr>sd_job_id = jid, sd_assigned_gpus = [], sd_policy = pol, sd_predicted_failure_risk = 0, sd_estimated_power_watts = 0,
      sd_thermal_headroom_c = 0, sd_score = 0, sd_rationale = why\<rparr>"

fun separated :: "string \<Rightarrow> piece list list \<Rightarrow> piece list" where
  "separated sep [] = []"
| "separated sep [x] = x"
| "separated sep (x # y # ys) = x @ [Txt sep] @ separated sep (y # ys)"

text \<open>The memory a job needs is compared with the power cap.\<close>

definition room_for :: "job_spec \<Rightarrow> gpu_metrics \<Rightarrow> bool" where
  "room_for j m \<longleftrightarrow> mx_memory_pct m \<le> 100 - jb_required_memory_gib j / max 1 (mx_power_cap_watts m) * 100"

definition scored :: "predictor \<Rightarrow> manager \<Rightarrow> gpu_metrics list \<Rightarrow> py_error + (gpu_metrics \<times> gpu_score) list" where
  "scored p s ms = try_map (\<lambda>m. try_bind (compute_gpu_score p (mg_scheduling_policy s) s m) (\<lambda>z. Inr (m, z))) ms"

definition pool_for :: "job_spec \<Rightarrow> gpu_metrics list \<Rightarrow> gpu_metrics list" where
  "pool_for j ms = (let fits = filter (room_for j) ms in if fits = [] then ms else fits)"

definition pick_best :: "int \<Rightarrow> (gpu_metrics \<times> gpu_score) list \<Rightarrow> (gpu_metrics \<times> gpu_score) list" where
  "pick_best n ms = slice_first n (sorted_by_desc (\<lambda>x. gz_raw_score (snd x)) ms)"

definition risk_level :: "manager \<Rightarrow> rat \<Rightarrow> string" where
  "risk_level s r =
     (if mg_risk_threshold s < r then ''high'' else if mg_risk_threshold s * (6 / 10) < r then ''medium'' else ''low'')"

definition decide :: "datetime \<Rightarrow> job_spec \<Rightarrow> (gpu_metrics \<times> gpu_score) list \<Rightarrow> manager \<Rightarrow> manager \<times> schedule_decision" where
  "decide now j selected s =
     (let risk = sum_list (map (\<lambda>x. gz_risk (snd x)) selected) / of_nat (max (length selected) 1);
          watts = sum_list (map (\<lambda>x. mx_power_watts (fst x)) selected); temp = sum_list (map (\<lambda>x. mx_gpu_temp_c (fst x)) selected);
          keys = map (\<lambda>x. metric_key (fst x)) selected; best = (case selected of [] \<Rightarrow> 0 | x # _ \<Rightarrow> gz_raw_score (snd x));
          pol = mg_scheduling_policy s in
      (s\<lparr>mg_decision_log := mg_decision_log s @ [\<lparr>de_timestamp = now, de_job_id = jb_job_id j, de_policy = scheduling_policy_value pol,
         de_assigned_gpus = keys, de_avg_risk = risk, de_score = best\<rparr>]\<rparr>,
       \<lparr>sd_job_id = jb_job_id j, sd_assigned_gpus = keys, sd_policy = pol, sd_predicted_failure_risk = risk, sd_estimated_power_watts = watts,
        sd_thermal_headroom_c = mg_thermal_threshold_c s - temp, sd_score = best,
        sd_rationale = [Txt ''Scheduled '', Val (JInt (int (length selected))), Txt ('' GPUs via '' @ scheduling_policy_value pol @ '' | Avg risk: ''),
          Fmt ''.2f'' (JFloat risk), Txt ('' ('' @ risk_level s risk @ '') | Top GPU score: ''), Fmt ''.3f'' (JFloat best), Txt '' | Est. power: '',
          Fmt ''.0f'' (JFloat watts), Txt ''W | Avg temp: '', Fmt ''.0f'' (JFloat temp), Txt ''C'']\<rparr>))"

definition schedule_job ::
  "predictor \<Rightarrow> datetime \<Rightarrow> job_spec \<Rightarrow> topology \<Rightarrow> scheduling_policy option \<Rightarrow> manager \<Rightarrow> py_error + manager \<times> schedule_decision" where
  "schedule_job p now j t pol s0 =
     (let s = (case pol of None \<Rightarrow> s0 | Some q \<Rightarrow> s0\<lparr>mg_scheduling_policy := q\<rparr>); ms = get_gpu_metrics t;
          able = filter (\<lambda>m. incapable m j = None) ms; n = jb_required_gpus j in
      if int (length ms) < n then
        Inr (s, refused (jb_job_id j) (mg_scheduling_policy s)
          [Txt (''Insufficient GPUs: need '' @ int_str n @ '', have '' @ nat_str (length ms))])
      else if int (length able) < n then
        Inr (s, refused (jb_job_id j) (mg_scheduling_policy s)
          ([Txt (''Insufficient capable GPUs: need '' @ int_str n @ '', have '' @ nat_str (length able) @ ''. Skipped: '')]
           @ separated ''; '' (take 5 (List.map_filter (\<lambda>m. incapable m j) ms))))
      else try_bind (scored p s (pool_for j able)) (\<lambda>zs. Inr (decide now j (pick_best n zs) s)))"

subsection \<open>Power caps\<close>

definition new_cap :: "manager \<Rightarrow> rat \<Rightarrow> gpu_metrics \<Rightarrow> py_error + rat \<times> piece list" where
  "new_cap s risk m =
     (let cap = mx_power_cap_watts m; temp = mx_gpu_temp_c m; hot = mg_thermal_threshold_c s; limit = mg_risk_threshold s in
      case mg_power_cap_mode s of
        CAP_OFF \<Rightarrow> Inr (cap, [])
      | CAP_TEMPERATURE_GUIDED \<Rightarrow> Inr
          (if hot - 5 < temp then (max (cap * (5 / 10)) (cap - min 100 ((temp - hot + 5) * 15)),
             [Txt ''Temp '', Fmt ''.0f'' (JFloat temp), Txt ''C near threshold''])
           else if temp < 60 then (min cap (cap + 20), [Txt ''Low temp, increasing cap''])
           else (cap, []))
      | CAP_RISK_GUIDED \<Rightarrow> Inr
          (if limit < risk then (max (cap * (4 / 10)) (cap - min 200 (risk * 300)),
             [Txt ''Risk '', Fmt ''.2f'' (JFloat risk), Txt '' > threshold '', Val (JFloat limit)])
           else if risk < limit * (5 / 10) then (cap, [Txt ''Low risk, full cap''])
           else (cap, []))
      | CAP_PREDICTIVE \<Rightarrow>
          try_bind (py_div temp hot) (\<lambda>ratio. let combined = risk * (5 / 10) + ratio * (5 / 10) in Inr
            (if 6 / 10 < combined then (max (cap * (35 / 100)) (cap - min 250 (combined * 350)),
               [Txt ''Predictive: risk='', Fmt ''.2f'' (JFloat risk), Txt '', temp_ratio='', Fmt ''.2f'' (JFloat ratio)])
             else if combined < 3 / 10 \<and> temp < 65 then (cap, [Txt ''Predictive: safe envelope''])
             else (cap, []))))"

definition cap_action_for :: "predictor \<Rightarrow> manager \<Rightarrow> gpu_metrics \<Rightarrow> py_error + cap_action list" where
  "cap_action_for p s m =
     try_bind (predict_failure_risk p m) (\<lambda>risk.
     try_bind (new_cap s risk m) (\<lambda>(cap, why).
       if cap = mx_power_cap_watts m then Inr []
       else try_bind (py_div (mx_power_cap_watts m - cap) (mx_power_cap_watts m)) (\<lambda>q. Inr
         [\<lparr>ca_gpu_key = metric_key m, ca_current_power_watts = mx_power_watts m, ca_new_cap_watts = py_round 0 cap, ca_reason = why,
           ca_temp_before = mx_gpu_temp_c m, ca_temp_after_estimate = py_round 1 (mx_gpu_temp_c m - max 0 q * 8)\<rparr>])))"

definition compute_power_caps :: "predictor \<Rightarrow> datetime \<Rightarrow> topology \<Rightarrow> cap_mode option \<Rightarrow> manager \<Rightarrow> py_error + manager \<times> cap_action list" where
  "compute_power_caps p now t mode s0 =
     (let s = (case mode of None \<Rightarrow> s0 | Some q \<Rightarrow> s0\<lparr>mg_power_cap_mode := q\<rparr>) in
      try_bind (try_map (cap_action_for p s) (get_gpu_metrics t)) (\<lambda>as. let actions = concat as in Inr
        (s\<lparr>mg_cap_log := mg_cap_log s @ map (\<lambda>a. \<lparr>ce_timestamp = now, ce_gpu_key = ca_gpu_key a, ce_from = ca_current_power_watts a,
           ce_to = ca_new_cap_watts a, ce_reason = ca_reason a\<rparr>) actions\<rparr>, actions)))"

subsection \<open>Drains\<close>

text \<open>The urgencies are compared as texts.\<close>

definition drain_signs :: "manager \<Rightarrow> rat \<Rightarrow> gpu_metrics \<Rightarrow> (bool \<times> piece list \<times> string) list" where
  "drain_signs s risk m =
     (let wear = mx_wear_factor m; temp = mx_gpu_temp_c m in
      [(mg_risk_threshold s < risk, [Txt ''Failure risk '', Fmt ''.2f'' (JFloat risk), Txt '' exceeds threshold''], ''critical''),
       (mg_degradation_drain_threshold s < wear, [Txt ''Wear factor '', Fmt ''.3f'' (JFloat wear), Txt '' exceeds drain threshold''], ''high''),
       (5 < mx_xid_errors m, [Txt (''XID errors elevated ('' @ int_str (mx_xid_errors m) @ '')'')], ''high''),
       (50 < mx_ecc_errors m, [Txt (''ECC errors elevated ('' @ int_str (mx_ecc_errors m) @ '')'')], ''medium''),
       (mg_thermal_threshold_c s < temp, [Txt ''Temperature '', Fmt ''.0f'' (JFloat temp), Txt ''C above threshold''], ''medium''),
       (mg_degradation_warn_threshold s < wear \<and> wear \<le> mg_degradation_drain_threshold s,
        [Txt ''Wear factor '', Fmt ''.3f'' (JFloat wear), Txt '' entering warning zone''], ''low'')])"

text \<open>The first sign sets the urgency, every later one takes the maximum with its own.\<close>

definition drain_urgency :: "(bool \<times> piece list \<times> string) list \<Rightarrow> string" where
  "drain_urgency signs =
     (case signs of
        [] \<Rightarrow> ''low''
      | (b, _, u) # rest \<Rightarrow> fold (\<lambda>(b', _, u') w. if b' then max w u' else w) rest (if b then u else ''low''))"

definition drain_for :: "predictor \<Rightarrow> manager \<Rightarrow> gpu_metrics \<Rightarrow> py_error + drain list" where
  "drain_for p s m =
     try_bind (predict_failure_risk p m) (\<lambda>risk.
       let signs = drain_signs s risk m; reasons = map (\<lambda>(_, r, _). r) (filter fst signs); u = drain_urgency signs in
       Inr (if reasons = [] then []
            else [\<lparr>dn_gpu_key = metric_key m, dn_risk_score = py_round 4 risk, dn_reason = separated ''; '' reasons,
                  dn_suggested_action = (if u = ''critical'' \<or> u = ''high'' then ''drain_immediately'' else ''monitor_closely''), dn_urgency = u\<rparr>]))"

definition urgency_rank :: "string \<Rightarrow> nat" where
  "urgency_rank u = (if u = ''critical'' then 0 else if u = ''high'' then 1 else if u = ''medium'' then 2 else 3)"

definition recommend_drain :: "predictor \<Rightarrow> datetime \<Rightarrow> topology \<Rightarrow> manager \<Rightarrow> py_error + manager \<times> drain list" where
  "recommend_drain p now t s =
     try_bind (try_map (drain_for p s) (get_gpu_metrics t)) (\<lambda>ds. let recs = sorted_by (\<lambda>r. urgency_rank (dn_urgency r)) (concat ds) in Inr
       (s\<lparr>mg_drain_log := mg_drain_log s @ map (\<lambda>r. \<lparr>dl_timestamp = now, dl_gpu_key = dn_gpu_key r, dl_risk = dn_risk_score r,
          dl_urgency = dn_urgency r, dl_action = dn_suggested_action r\<rparr>) recs\<rparr>, recs))"

subsection \<open>Throttling and balance\<close>

record throttle =
  th_risk :: rat
  th_clock_reduction_pct :: rat
  th_power_reduction_pct :: rat
  th_recommended_clock_mhz :: rat
  th_reason :: "piece list"
  th_action_needed :: bool

text \<open>The reductions of clock and power, and why.\<close>

definition reductions :: "manager \<Rightarrow> rat \<Rightarrow> gpu_metrics \<Rightarrow> py_error + rat \<times> rat \<times> piece list" where
  "reductions s risk m =
     (if mg_risk_threshold s < risk then
        try_bind (py_div (risk - mg_risk_threshold s) (1 - mg_risk_threshold s)) (\<lambda>severity. Inr
          (min (5 / 10) (severity * (5 / 10)), min (4 / 10) (severity * (4 / 10)),
           [Txt ''Risk-based: risk='', Fmt ''.2f'' (JFloat risk), Txt '', severity='', Fmt ''.2f'' (JFloat severity)]))
      else if mg_thermal_threshold_c s < mx_gpu_temp_c m then
        (let severity = (mx_gpu_temp_c m - mg_thermal_threshold_c s) / 15 in Inr
          (min (3 / 10) (severity * (3 / 10)), min (25 / 100) (severity * (25 / 100)),
           [Txt ''Thermal: temp='', Fmt ''.0f'' (JFloat (mx_gpu_temp_c m)), Txt ''C'']))
      else Inr (0, 0, []))"

definition adaptive_throttle :: "predictor \<Rightarrow> manager \<Rightarrow> gpu_metrics \<Rightarrow> rat option \<Rightarrow> py_error + throttle" where
  "adaptive_throttle p s m given =
     try_bind (case given of None \<Rightarrow> predict_failure_risk p m | Some r \<Rightarrow> Inr r) (\<lambda>risk.
     try_bind (reductions s risk m) (\<lambda>(clock, watts, why). Inr
       \<lparr>th_risk = py_round 4 risk, th_clock_reduction_pct = py_round 1 (clock * 100), th_power_reduction_pct = py_round 1 (watts * 100),
        th_recommended_clock_mhz = py_round 0 (mx_clock_mhz m * (1 - clock)), th_reason = why, th_action_needed = 5 / 100 < clock\<rparr>))"

record move =
  mv_from :: gpu_key
  mv_to :: gpu_key
  mv_drift_pct :: rat
  mv_src_util :: rat
  mv_dst_util :: rat

datatype balance = Moves "move list" | Balanced rat rat

definition mean_rat :: "rat list \<Rightarrow> rat" where
  "mean_rat xs = (if xs = [] then 0 else sum_list xs / of_nat (length xs))"

text \<open>The moves off one GPU, as long as there are fewer moves than overloaded GPUs.\<close>

fun moves_from :: "nat \<Rightarrow> gpu_metrics \<Rightarrow> gpu_metrics list \<Rightarrow> move list \<Rightarrow> move list" where
  "moves_from limit src [] acc = acc"
| "moves_from limit src (dst # ds) acc =
     (if limit \<le> length acc then acc
      else let drift = mx_engine_util_pct src - mx_engine_util_pct dst in
        moves_from limit src ds
          (if 20 < drift then acc @ [\<lparr>mv_from = metric_key src, mv_to = metric_key dst, mv_drift_pct = py_round 1 drift,
             mv_src_util = mx_engine_util_pct src, mv_dst_util = mx_engine_util_pct dst\<rparr>] else acc))"

definition balance_load :: "(rat list \<Rightarrow> rat) \<Rightarrow> topology \<Rightarrow> rat \<Rightarrow> balance" where
  "balance_load std t threshold =
     (let ms = get_gpu_metrics t; utils = map mx_engine_util_pct ms; mu = mean_rat utils; sd = (if 1 < length utils then std utils else 0);
          flat = Balanced (py_round 1 mu) (py_round 1 sd) in
      if ms = [] then Moves []
      else if sd / max mu 1 < threshold then flat
      else let over = filter (\<lambda>m. mu + sd * (15 / 10) < mx_engine_util_pct m) ms;
               under = filter (\<lambda>m. mx_engine_util_pct m < mu - sd * (5 / 10)) ms;
               moves = fold (\<lambda>src. moves_from (length over) src under) over [] in
           if moves = [] then flat else Moves moves)"

subsection \<open>Health report\<close>

record health_report =
  hr_timestamp :: datetime
  hr_gpu_count :: int
  hr_avg_util_pct :: rat
  hr_avg_temp_c :: rat
  hr_max_temp_c :: rat
  hr_total_power_watts :: rat
  hr_avg_risk :: rat
  hr_max_risk :: rat
  hr_gpus_at_risk :: int
  hr_gpus_warning :: int
  hr_power_cap_actions :: "cap_action list"
  hr_drain_recommendations :: "drain list"
  hr_throttle_actions :: "(gpu_key \<times> throttle) list"
  hr_load_balance_actions :: balance
  hr_scheduling :: string
  hr_power_cap_mode :: string
  hr_risk_threshold :: rat
  hr_thermal_threshold_c :: rat
  hr_degradation_drain_threshold :: rat

text \<open>Without healthy GPUs there is no report.\<close>

definition get_cluster_health_report ::
  "predictor \<Rightarrow> (rat list \<Rightarrow> rat) \<Rightarrow> datetime \<Rightarrow> topology \<Rightarrow> manager \<Rightarrow> py_error + manager \<times> health_report option" where
  "get_cluster_health_report p std now t s =
     (let ms = get_gpu_metrics t in
      if ms = [] then Inr (s, None)
      else
        try_bind (try_map (predict_failure_risk p) ms) (\<lambda>risks.
        try_bind (compute_power_caps p now t None s) (\<lambda>(s1, caps).
        try_bind (recommend_drain p now t s1) (\<lambda>(s2, drains).
        try_bind (try_map (\<lambda>(m, r). adaptive_throttle p s2 m (Some r)) (zip ms risks)) (\<lambda>ths. Inr (s2, Some
          \<lparr>hr_timestamp = now, hr_gpu_count = int (length ms), hr_avg_util_pct = py_round 1 (mean_rat (map mx_engine_util_pct ms)),
           hr_avg_temp_c = py_round 1 (mean_rat (map mx_gpu_temp_c ms)), hr_max_temp_c = py_round 1 (Max (set (map mx_gpu_temp_c ms))),
           hr_total_power_watts = py_round 1 (sum_list (map mx_power_watts ms)), hr_avg_risk = py_round 4 (mean_rat risks),
           hr_max_risk = py_round 4 (Max (set risks)),
           hr_gpus_at_risk = int (length (filter (\<lambda>r. mg_risk_threshold s2 < r) risks)),
           hr_gpus_warning = int (length (filter (\<lambda>r. mg_risk_threshold s2 * (6 / 10) < r \<and> r \<le> mg_risk_threshold s2) risks)),
           hr_power_cap_actions = take 10 caps, hr_drain_recommendations = drains,
           hr_throttle_actions = filter (\<lambda>(_, h). th_action_needed h) (zip (map metric_key ms) ths),
           hr_load_balance_actions = balance_load std t (25 / 100), hr_scheduling = scheduling_policy_value (mg_scheduling_policy s2),
           hr_power_cap_mode = cap_mode_value (mg_power_cap_mode s2), hr_risk_threshold = mg_risk_threshold s2,
           hr_thermal_threshold_c = mg_thermal_threshold_c s2,
           hr_degradation_drain_threshold = mg_degradation_drain_threshold s2\<rparr>))))))"

subsection \<open>The GPUs a job gets\<close>

lemma best_picked:
  assumes "0 \<le> n"
  shows "\<exists>rest. mset zs = mset (pick_best n zs) + mset rest \<and> length (pick_best n zs) = min (nat n) (length zs)
    \<and> (\<forall>x \<in> set (pick_best n zs). \<forall>y \<in> set rest. gz_raw_score (snd y) \<le> gz_raw_score (snd x))"
proof -
  define f where "f = (\<lambda>x :: gpu_metrics \<times> gpu_score. gz_raw_score (snd x))"
  define ys where "ys = sorted_by_desc f zs"
  have pick: "pick_best n zs = take (nat n) ys" using assms by (simp add: pick_best_def slice_first_def ys_def f_def)
  have ys: "mset ys = mset zs" "length ys = length zs" by (simp_all add: ys_def sorted_by_desc_def)
  have "sorted_wrt (\<lambda>x y. f y \<le> f x) ys" unfolding ys_def by (rule sorted_by_desc_sorted)
  then have "\<forall>x \<in> set (take (nat n) ys). \<forall>y \<in> set (drop (nat n) ys). f y \<le> f x"
    by (metis append_take_drop_id sorted_wrt_append)
  moreover have "mset zs = mset (take (nat n) ys) + mset (drop (nat n) ys)" by (metis append_take_drop_id mset_append ys(1))
  ultimately show ?thesis using ys(2) unfolding pick f_def by (intro exI [of _ "drop (nat n) ys"]) (auto simp: min_def)
qed

lemma scored_metrics: "scored p s ms = Inr zs \<Longrightarrow> map fst zs = ms"
  by (induction ms arbitrary: zs) (auto simp: scored_def try_bind_Inr_iff)

lemma pool_capable: "m \<in> set (pool_for j (filter (\<lambda>m. incapable m j = None) (get_gpu_metrics t))) \<Longrightarrow>
   m \<in> set (get_gpu_metrics t) \<and> incapable m j = None"
  by (auto simp: pool_for_def Let_def split: if_splits)

text \<open>
  A job gets GPUs only when enough of the healthy ones can take it, otherwise none and nothing is logged. Those it
  gets come from the GPUs that have room, or from all that can take it when none has; they are as many
  as asked for or as the pool holds, no GPU left in the pool scores higher than one picked, and the
  decision is logged.
\<close>

theorem job_gets_best:
  assumes "schedule_job p now j t pol s0 = Inr (s, d)" and "0 \<le> jb_required_gpus j"
    and "pool = pool_for j (filter (\<lambda>m. incapable m j = None) (get_gpu_metrics t))"
  shows "if int (length (filter (\<lambda>m. incapable m j = None) (get_gpu_metrics t))) < jb_required_gpus j
    then sd_assigned_gpus d = [] \<and> mg_decision_log s = mg_decision_log s0
    else \<exists>(zs :: (gpu_metrics \<times> gpu_score) list) picked rest. map fst zs = pool \<and> mset zs = mset picked + mset rest
      \<and> sd_assigned_gpus d = map (metric_key \<circ> fst) picked
      \<and> length picked = min (nat (jb_required_gpus j)) (length pool)
      \<and> (\<forall>x \<in> set picked. \<forall>y \<in> set rest. gz_raw_score (snd y) \<le> gz_raw_score (snd x))
      \<and> (\<forall>x \<in> set picked. fst x \<in> set (get_gpu_metrics t) \<and> incapable (fst x) j = None)
      \<and> map de_assigned_gpus (mg_decision_log s) = map de_assigned_gpus (mg_decision_log s0) @ [sd_assigned_gpus d]"
proof (cases "int (length (filter (\<lambda>m. incapable m j = None) (get_gpu_metrics t))) < jb_required_gpus j")
  case True
  then show ?thesis using assms(1) by (auto simp: schedule_job_def refused_def Let_def split: if_splits option.splits)
next
  case False
  let ?able = "filter (\<lambda>m. incapable m j = None) (get_gpu_metrics t)"
  define s1 where "s1 = (case pol of None \<Rightarrow> s0 | Some q \<Rightarrow> s0\<lparr>mg_scheduling_policy := q\<rparr>)"
  have "length ?able \<le> length (get_gpu_metrics t)" by simp
  then have "\<not> int (length (get_gpu_metrics t)) < jb_required_gpus j" using False by linarith
  then obtain zs where zs: "scored p s1 pool = Inr zs" "(s, d) = decide now j (pick_best (jb_required_gpus j) zs) s1"
    using assms(1,3) False by (auto simp: schedule_job_def Let_def s1_def try_bind_Inr_iff)
  have ms: "map fst zs = pool" using scored_metrics [OF zs(1)] .
  obtain rest where rest: "mset zs = mset (pick_best (jb_required_gpus j) zs) + mset rest"
    "length (pick_best (jb_required_gpus j) zs) = min (nat (jb_required_gpus j)) (length zs)"
    "\<forall>x \<in> set (pick_best (jb_required_gpus j) zs). \<forall>y \<in> set rest. gz_raw_score (snd y) \<le> gz_raw_score (snd x)"
    using best_picked [OF assms(2)] by blast
  have "set (pick_best (jb_required_gpus j) zs) \<subseteq> set zs"
    using rest(1) by (metis mset_subset_eq_add_left set_mset_mono set_mset_mset)
  then have "\<forall>x \<in> set (pick_best (jb_required_gpus j) zs). fst x \<in> set pool" using ms by (metis imageI list.set_map subsetD)
  then have "\<forall>x \<in> set (pick_best (jb_required_gpus j) zs). fst x \<in> set (get_gpu_metrics t) \<and> incapable (fst x) j = None"
    using pool_capable unfolding assms(3) by blast
  moreover have "length zs = length pool" using ms by (metis length_map)
  moreover have "mg_decision_log s1 = mg_decision_log s0" by (simp add: s1_def split: option.split)
  moreover have "sd_assigned_gpus d = map (metric_key \<circ> fst) (pick_best (jb_required_gpus j) zs)"
    "map de_assigned_gpus (mg_decision_log s) = map de_assigned_gpus (mg_decision_log s1) @ [sd_assigned_gpus d]"
    using zs(2) by (simp_all add: decide_def Let_def comp_def)
  ultimately have "map fst zs = pool \<and> mset zs = mset (pick_best (jb_required_gpus j) zs) + mset rest
      \<and> sd_assigned_gpus d = map (metric_key \<circ> fst) (pick_best (jb_required_gpus j) zs)
      \<and> length (pick_best (jb_required_gpus j) zs) = min (nat (jb_required_gpus j)) (length pool)
      \<and> (\<forall>x \<in> set (pick_best (jb_required_gpus j) zs). \<forall>y \<in> set rest. gz_raw_score (snd y) \<le> gz_raw_score (snd x))
      \<and> (\<forall>x \<in> set (pick_best (jb_required_gpus j) zs). fst x \<in> set (get_gpu_metrics t) \<and> incapable (fst x) j = None)
      \<and> map de_assigned_gpus (mg_decision_log s) = map de_assigned_gpus (mg_decision_log s0) @ [sd_assigned_gpus d]"
    using ms rest by simp
  then show ?thesis unfolding if_not_P [OF False] by (intro exI)
qed

subsection \<open>Caps\<close>

lemma lowered_range:
  assumes "0 \<le> cap" and "35 / 100 \<le> k" and "k \<le> 1" and "0 \<le> d"
  shows "35 / 100 * cap \<le> max (cap * k) (cap - d) \<and> max (cap * k) (cap - d) \<le> (cap :: rat)"
proof -
  have "35 / 100 * cap \<le> k * cap" using assms by (intro mult_right_mono)
  moreover have "cap * k \<le> cap" using assms by (simp add: mult_left_le)
  moreover have "cap * k \<le> max (cap * k) (cap - d)" by (rule max.cobounded1)
  ultimately have "35 / 100 * cap \<le> max (cap * k) (cap - d)" unfolding mult.commute [of k] by (blast intro: order_trans)
  then show ?thesis using \<open>cap * k \<le> cap\<close> assms(4) by simp
qed

lemma new_cap_range:
  assumes "new_cap s risk m = Inr (c, why)" and "0 \<le> mx_power_cap_watts m" and "0 \<le> mg_risk_threshold s"
  shows "35 / 100 * mx_power_cap_watts m \<le> c \<and> c \<le> mx_power_cap_watts m"
proof -
  let ?cap = "mx_power_cap_watts m"
  have "c = ?cap \<or> (\<exists>k d. c = max (?cap * k) (?cap - d) \<and> 35 / 100 \<le> k \<and> k \<le> 1 \<and> 0 \<le> d) \<or> c = min ?cap (?cap + 20)"
  proof (cases "mg_power_cap_mode s")
    case CAP_OFF
    then show ?thesis using assms(1) by (simp add: new_cap_def)
  next
    case CAP_TEMPERATURE_GUIDED
    let ?d = "min 100 ((mx_gpu_temp_c m - mg_thermal_threshold_c s + 5) * 15)"
    have "mg_thermal_threshold_c s - 5 < mx_gpu_temp_c m \<Longrightarrow> 0 \<le> ?d" by simp
    then have "mg_thermal_threshold_c s - 5 < mx_gpu_temp_c m \<Longrightarrow>
      \<exists>k d. max (?cap * (5 / 10)) (?cap - ?d) = max (?cap * k) (?cap - d) \<and> 35 / 100 \<le> k \<and> k \<le> 1 \<and> 0 \<le> d"
      by (intro exI [of _ "5 / 10"] exI [of _ ?d]) simp
    then show ?thesis using assms(1) CAP_TEMPERATURE_GUIDED by (simp only: new_cap_def Let_def cap_mode.case split: if_splits) auto
  next
    case CAP_RISK_GUIDED
    let ?d = "min 200 (risk * 300)"
    have "mg_risk_threshold s < risk \<Longrightarrow> 0 \<le> ?d" using assms(3) by simp
    then have "mg_risk_threshold s < risk \<Longrightarrow>
      \<exists>k d. max (?cap * (4 / 10)) (?cap - ?d) = max (?cap * k) (?cap - d) \<and> 35 / 100 \<le> k \<and> k \<le> 1 \<and> 0 \<le> d"
      by (intro exI [of _ "4 / 10"] exI [of _ ?d]) simp
    then show ?thesis using assms(1) CAP_RISK_GUIDED by (simp only: new_cap_def Let_def cap_mode.case split: if_splits) auto
  next
    case CAP_PREDICTIVE
    have low: "6 / 10 < x \<Longrightarrow>
      \<exists>k d. max (?cap * (35 / 100)) (?cap - min 250 (x * 350)) = max (?cap * k) (?cap - d) \<and> 35 / 100 \<le> k \<and> k \<le> 1 \<and> 0 \<le> d" for x :: rat
      by (intro exI [of _ "35 / 100"] exI [of _ "min 250 (x * 350)"]) simp
    have "\<exists>ratio w1 w2. (if 6 / 10 < risk * (5 / 10) + ratio * (5 / 10)
        then (max (?cap * (35 / 100)) (?cap - min 250 ((risk * (5 / 10) + ratio * (5 / 10)) * 350)), w1)
        else if risk * (5 / 10) + ratio * (5 / 10) < 3 / 10 \<and> mx_gpu_temp_c m < 65 then (?cap, w2) else (?cap, [])) = (c, why)"
      using assms(1) unfolding new_cap_def Let_def CAP_PREDICTIVE cap_mode.case try_bind_Inr_iff sum.inject by blast
    then show ?thesis using low by (elim exE) (simp only: prod.inject split: if_splits; blast)
  qed
  then show ?thesis using lowered_range [OF assms(2)] assms(2) by (elim disjE exE conjE) auto
qed

lemma try_map_mem: "try_map f xs = Inr ys \<Longrightarrow> y \<in> set ys \<Longrightarrow> \<exists>x \<in> set xs. f x = Inr y"
  by (induction xs arbitrary: ys) (auto simp: try_bind_Inr_iff)

text \<open>
  Whatever the mode, a change of a power cap names a healthy GPU and never raises its cap, but for the
  rounding to a whole watt, nor lowers it below thirty-five percent; without a mode nothing changes.
\<close>

theorem caps_only_lowered:
  assumes "compute_power_caps p now t mode s0 = Inr (s, actions)" and "0 \<le> mg_risk_threshold s0"
    and "list_all (\<lambda>m. 0 \<le> mx_power_cap_watts m) (get_gpu_metrics t)" and "a \<in> set actions"
  shows "mg_power_cap_mode s \<noteq> CAP_OFF \<and> (\<exists>m \<in> set (get_gpu_metrics t). ca_gpu_key a = metric_key m
    \<and> 35 / 100 * mx_power_cap_watts m - 1 / 2 \<le> ca_new_cap_watts a \<and> ca_new_cap_watts a \<le> mx_power_cap_watts m + 1 / 2)"
proof -
  define s1 where "s1 = (case mode of None \<Rightarrow> s0 | Some q \<Rightarrow> s0\<lparr>mg_power_cap_mode := q\<rparr>)"
  obtain xs where xs: "try_map (cap_action_for p s1) (get_gpu_metrics t) = Inr xs" "actions = concat xs"
    "mg_power_cap_mode s = mg_power_cap_mode s1"
    using assms(1) by (auto simp: compute_power_caps_def Let_def s1_def try_bind_Inr_iff)
  then obtain ys where ys: "ys \<in> set xs" "a \<in> set ys" using assms(4) by auto
  then obtain m where m: "m \<in> set (get_gpu_metrics t)" "cap_action_for p s1 m = Inr ys" using try_map_mem [OF xs(1)] by blast
  then obtain risk c why where c: "new_cap s1 risk m = Inr (c, why)" "c \<noteq> mx_power_cap_watts m" "ca_new_cap_watts a = py_round 0 c"
    "ca_gpu_key a = metric_key m"
    using ys(2) by (auto simp: cap_action_for_def try_bind_Inr_iff split: prod.splits if_splits)
  have "0 \<le> mg_risk_threshold s1" using assms(2) by (simp add: s1_def split: option.split)
  then have "35 / 100 * mx_power_cap_watts m \<le> c \<and> c \<le> mx_power_cap_watts m"
    using new_cap_range [OF c(1)] assms(3) m(1) by (auto simp: list_all_iff)
  moreover have "\<bar>py_round 0 c - c\<bar> \<le> 1 / 2" using py_round_near [of 0 c] by simp
  moreover have "mg_power_cap_mode s1 \<noteq> CAP_OFF" using c(1,2) by (auto simp: new_cap_def Let_def)
  moreover have "35 / 100 * mx_power_cap_watts m - 1 / 2 \<le> py_round 0 c" "py_round 0 c \<le> mx_power_cap_watts m + 1 / 2"
    using calculation(1,2) by linarith+
  ultimately show ?thesis using m(1) c(3,4) xs(3) by (intro conjI bexI [of _ m]) simp_all
qed

subsection \<open>Drains\<close>

lemma urgency_max:
  "max ''critical'' ''high'' = ''high''" "max ''low'' ''high'' = ''low''" "max ''high'' ''high'' = ''high''" "max ''critical'' ''medium'' = ''medium''"
  "max ''high'' ''medium'' = ''medium''" "max ''medium'' ''medium'' = ''medium''" "max ''low'' ''medium'' = ''medium''" "max ''critical'' ''low'' = ''low''"
  "max ''high'' ''low'' = ''low''" "max ''medium'' ''low'' = ''medium''" "max ''low'' ''low'' = ''low''"
  by code_simp+

lemma urgency_cases:
  "drain_urgency [(a, r1, ''critical''), (b, r2, ''high''), (c, r3, ''high''), (d, r4, ''medium''), (e, r5, ''medium''), (f, r6, ''low'')] =
     (if d \<or> e then ''medium'' else if \<not> a \<or> f then ''low'' else if b \<or> c then ''high'' else ''critical'')"
  by (cases a; cases b; cases c; cases d; cases e; cases f) (simp_all add: drain_urgency_def urgency_max)

text \<open>
  A GPU is recommended for draining when its risk, wear, errors or temperature is over a limit, and only then. Draining
  it at once is advised exactly when its risk is over the threshold and it has no elevated ECC errors, is
  not too hot and not in the warning zone of wear: any of these signs lowers the urgency.
\<close>

theorem drain_advice:
  assumes "drain_for p s m = Inr ds" and "predict_failure_risk p m = Inr risk"
  shows "(ds = [] \<longleftrightarrow> risk \<le> mg_risk_threshold s \<and> mx_xid_errors m \<le> 5 \<and> mx_ecc_errors m \<le> 50 \<and> mx_gpu_temp_c m \<le> mg_thermal_threshold_c s
      \<and> mx_wear_factor m \<le> mg_degradation_drain_threshold s \<and> mx_wear_factor m \<le> mg_degradation_warn_threshold s)
    \<and> (\<forall>d \<in> set ds. dn_gpu_key d = metric_key m \<and> (dn_suggested_action d = ''drain_immediately'' \<longleftrightarrow>
         mg_risk_threshold s < risk \<and> mx_ecc_errors m \<le> 50 \<and> mx_gpu_temp_c m \<le> mg_thermal_threshold_c s
         \<and> \<not> (mg_degradation_warn_threshold s < mx_wear_factor m \<and> mx_wear_factor m \<le> mg_degradation_drain_threshold s)))"
proof -
  define u where "u = drain_urgency (drain_signs s risk m)"
  define why where "why = map (\<lambda>(_, r, _). r) (filter fst (drain_signs s risk m))"
  have "Inr ds = drain_for p s m" using assms(1) by simp
  also have "\<dots> = Inr (if why = [] then []
      else [\<lparr>dn_gpu_key = metric_key m, dn_risk_score = py_round 4 risk, dn_reason = separated ''; '' why,
            dn_suggested_action = (if u = ''critical'' \<or> u = ''high'' then ''drain_immediately'' else ''monitor_closely''), dn_urgency = u\<rparr>])"
    by (simp add: drain_for_def try_bind_def assms(2) Let_def why_def u_def)
  finally have ds: "ds = (if why = [] then []
      else [\<lparr>dn_gpu_key = metric_key m, dn_risk_score = py_round 4 risk, dn_reason = separated ''; '' why,
            dn_suggested_action = (if u = ''critical'' \<or> u = ''high'' then ''drain_immediately'' else ''monitor_closely''), dn_urgency = u\<rparr>])"
    by simp
  have u: "u = ''critical'' \<or> u = ''high'' \<longleftrightarrow> mg_risk_threshold s < risk \<and> mx_ecc_errors m \<le> 50 \<and> mx_gpu_temp_c m \<le> mg_thermal_threshold_c s
      \<and> \<not> (mg_degradation_warn_threshold s < mx_wear_factor m \<and> mx_wear_factor m \<le> mg_degradation_drain_threshold s)"
    by (auto simp: u_def drain_signs_def Let_def urgency_cases)
  have "why = [] \<longleftrightarrow> risk \<le> mg_risk_threshold s \<and> mx_xid_errors m \<le> 5 \<and> mx_ecc_errors m \<le> 50 \<and> mx_gpu_temp_c m \<le> mg_thermal_threshold_c s
      \<and> mx_wear_factor m \<le> mg_degradation_drain_threshold s \<and> mx_wear_factor m \<le> mg_degradation_warn_threshold s"
    by (auto simp: why_def drain_signs_def Let_def filter_empty_conv not_less)
  then show ?thesis using u by (auto simp: ds)
qed

subsection \<open>Witnesses\<close>

text \<open>One node with one GPU at ninety degrees.\<close>

definition hot_gpu :: sim_gpu where
  "hot_gpu = (new_gpu 0 ''n0'' h100 400)\<lparr>xg_gpu_temp_c := 90\<rparr>"

definition hot_node :: sim_node where
  "hot_node = new_node ''n0'' [hot_gpu] (cooled_by COOL_AIR (15 / 10))"

definition hot_cluster :: topology where
  "hot_cluster = new_topology\<lparr>xt_nodes := [hot_node]\<rparr>"

definition small_job :: job_spec where
  "small_job =
     \<lparr>jb_job_id = ''j1'', jb_name = ''train'', jb_required_gpus = 1, jb_required_memory_gib = 16, jb_estimated_runtime_hours = 1,
      jb_priority = 1, jb_workload_type = ''training'', jb_tensor_intensity = 5 / 10, jb_mem_intensity = 5 / 10, jb_require_ecc = False,
      jb_min_memory_bandwidth_gbps = 0, jb_preferred_memory_type = [], jb_min_cpu_cores = 0, jb_cpu_vendor_preference = []\<rparr>"

abbreviation pessimist :: predictor where
  "pessimist \<equiv> \<lambda>_. Some (9 / 10)"

lemma hot_metrics: "get_gpu_metrics hot_cluster = [metric_of hot_node hot_gpu]"
  by (simp add: get_gpu_metrics_def hot_cluster_def node_metrics_def hot_node_def new_node_def hot_gpu_def new_gpu_def)

lemma hot_fields:
  "mx_power_cap_watts (metric_of hot_node hot_gpu) = 400" "mx_gpu_temp_c (metric_of hot_node hot_gpu) = 90"
  "mx_ecc_errors (metric_of hot_node hot_gpu) = 0" "mx_xid_errors (metric_of hot_node hot_gpu) = 0"
  by (simp_all add: metric_of_def hot_gpu_def new_gpu_def)

lemma hot_risk: "predict_failure_risk pessimist m = Inr (9 / 10)"
  by (simp add: predict_failure_risk_def)

theorem job_gets_best_witness:
  "\<exists>s d. schedule_job pessimist 0 small_job hot_cluster None new_manager = Inr (s, d) \<and> length (sd_assigned_gpus d) = 1"
proof -
  let ?m = "metric_of hot_node hot_gpu"
  have able: "incapable ?m small_job = None" by (simp add: incapable_def small_job_def Let_def)
  have need: "jb_required_gpus small_job = 1" by (simp add: small_job_def)
  have pool: "pool_for small_job [?m] = [?m]" by (simp add: pool_for_def Let_def)
  have "\<exists>zs. scored pessimist new_manager [?m] = Inr zs"
    by (simp add: scored_def compute_gpu_score_def hot_risk py_div_def new_manager_def try_bind_def Let_def)
  then have "\<exists>r. schedule_job pessimist 0 small_job hot_cluster None new_manager = Inr r"
    using able pool by (auto simp: schedule_job_def Let_def hot_metrics need try_bind_def)
  then obtain s d where r: "schedule_job pessimist 0 small_job hot_cluster None new_manager = Inr (s, d)" by auto
  have "0 \<le> jb_required_gpus small_job" by (simp add: need)
  from job_gets_best [OF r this refl] have "length (sd_assigned_gpus d) = 1"
    using able by (auto simp: pool hot_metrics need split: if_splits)
  then show ?thesis using r by blast
qed

theorem caps_only_lowered_witness:
  "\<exists>s a. compute_power_caps pessimist 0 hot_cluster None new_manager = Inr (s, [a])
     \<and> 140 - 1 / 2 \<le> ca_new_cap_watts a \<and> ca_new_cap_watts a \<le> 400 + 1 / 2"
proof -
  have "new_cap new_manager (9 / 10) (metric_of hot_node hot_gpu) = Inr (150, [Txt ''Predictive: risk='', Fmt ''.2f'' (JFloat (9 / 10)),
      Txt '', temp_ratio='', Fmt ''.2f'' (JFloat (90 / 82))])"
    by (simp add: new_cap_def new_manager_def py_div_def try_bind_def Let_def hot_fields)
  then obtain s a where r: "compute_power_caps pessimist 0 hot_cluster None new_manager = Inr (s, [a])"
    by (simp add: compute_power_caps_def cap_action_for_def hot_metrics hot_risk hot_fields py_div_def try_bind_def Let_def)
  have "0 \<le> mg_risk_threshold new_manager" "list_all (\<lambda>m. 0 \<le> mx_power_cap_watts m) (get_gpu_metrics hot_cluster)"
    by (simp_all add: new_manager_def hot_metrics hot_fields)
  from caps_only_lowered [OF r this] show ?thesis using r by (auto simp: hot_metrics hot_fields)
qed

theorem drain_advice_witness:
  "\<exists>d. drain_for pessimist new_manager (metric_of hot_node hot_gpu) = Inr [d] \<and> dn_suggested_action d = ''monitor_closely''"
proof -
  let ?m = "metric_of hot_node hot_gpu"
  obtain ds where r: "drain_for pessimist new_manager ?m = Inr ds" "length ds \<le> 1"
    "list_all (\<lambda>d. dn_suggested_action d \<in> {''drain_immediately'', ''monitor_closely''}) ds"
    by (simp add: drain_for_def hot_risk try_bind_def Let_def)
  from drain_advice [OF r(1) hot_risk] have "ds \<noteq> []" "\<forall>d \<in> set ds. dn_suggested_action d \<noteq> ''drain_immediately''"
    by (simp_all add: hot_fields new_manager_def)
  then show ?thesis using r by (cases ds) (auto simp: list_all_iff)
qed

end
