(* ===== verification/Spec2Isabelle.thy ===== *)
theory Spec2Isabelle
  imports Rbac AuthPipeline Approval Policy Actuation Governance Operator RateLimit Preemption Autoscaler Agents Alerts Remediation
    Fairness Flavors TenantControls Canary RiskModules Federation Healer SlurmActions Optimizer
    DomainStores Scheduling Twin Tenants SlurmConnector WatchCache TelemetryQuality
    Traces JobSubmission ExperimentStore Workflow PolicyEvolution RiskGates Intelligence
    Guardrails FinOps Queues ClusterManager
begin

text \<open>
  A model of the decision-making core of GPUOpt (src/src/gpuopt): who may act, what blocks or
  approves an action, what an action does to the recorded state of a cluster, the engines that act by
  themselves, the schedulers, and the analyses they rest on. Everything is defined by functions on
  explicit state that Isabelle can evaluate, and the theorems hold for all inputs.

  \<^bold>\<open>Foundations.\<close>

  \<^item> \<open>Prelude\<close>: dictionaries in insertion order, JSON values, slices, stable sorting, \<open>round\<close>,
    exceptions as values with sequencing, and the interfaces: \<open>keyed_store\<close> (a lookup after an
    insertion or a removal; Python's dict provides it), \<open>invariant_machine\<close> (operations that keep an
    invariant: every run of allowed operations keeps it) and \<open>bounded_log\<close> (a log that keeps the
    newest entries).
  \<^item> \<open>Values\<close>: comparison of dynamically typed values and the reading of numbers and identifiers.
  \<^item> \<open>Repository\<close> (repository.py on SQLite, records of schemas.py): tables as lists of rows; the
    interface \<open>record_store\<close> with the tables of approvals and policies as its providers.
  \<^item> \<open>ClusterState\<close> (schemas.py): the snapshot of a cluster that most other parts read.

  \<^bold>\<open>Access and guardrails.\<close>

  \<^item> \<open>Rbac\<close> (rbac.py): roles, users, API keys and the permission check of routes: the invariant of the
    key index, who can log in, least privilege of the system roles. \<open>AuthPipeline\<close> (middleware.py,
    auth/): how a request is authenticated and when a guarded route is reached. \<open>RateLimit\<close>
    (ratelimit.py): sliding windows per client. \<open>Tenants\<close> (s23_features.py): teams, projects, name spaces.
  \<^item> \<open>Approval\<close> and \<open>Policy\<close> (guarded_automation.py): approvals in several steps, their finality and
    completion; rule evaluation refined by the meaning \<open>permits\<close>, pre-flight verdicts, chaos experiments.
    \<open>TenantControls\<close> (governance_extended.py): envelopes and quotas. \<open>RiskGates\<close> (risk_gates.py),
    \<open>RiskModules\<close> (risk_r07_r09_r13_r14.py), \<open>Canary\<close> (risk_r03_canary.py): gates, caches and rollouts.
  \<^item> \<open>ModelRegistry\<close> and \<open>Governance\<close> (model_governance/): versions, champions and challengers,
    certification, shadow evaluation, drift scores, the fallback engine and the governor's predictions.

  \<^bold>\<open>Actions.\<close>

  \<^item> \<open>Actuation\<close> (actuation.py): recommendations applied to the nodes of a stored twin, records of every
    outcome, rollback. \<open>Alerts\<close> (s23_features.py) and \<open>Remediation\<close> (remediation.py): rules that fire on
    a state and rules that answer them by actions, with a cooldown. \<open>Guardrails\<close>: remediation does not
    consult policies and approvals.
  \<^item> \<open>Operator\<close> (k8s_operator/): reconciliation of custom objects as the list of calls made.
    \<open>Preemption\<close> (preemption.py), \<open>Autoscaler\<close> (autoscaler.py, also as a step relation), \<open>Healer\<close>
    (healing/auto_healer.py), \<open>Agents\<close> (agent_protocol.py), \<open>SlurmActions\<close> (slurm_actions.py),
    \<open>Workflow\<close> (deployment_workflow.py): engines with their cycles, bounds and histories.

  \<^bold>\<open>Scheduling.\<close>

  \<^item> \<open>Scheduling\<close> (scheduler/service.py): suggestions by score; \<open>RlScheduler\<close> (scheduler/rl_scheduler.py):
    Q-learning, with the exceptions it raises; \<open>Flavors\<close> (scheduler/resource_flavors.py) and \<open>Fairness\<close>:
    node flavors and fair shares; \<open>Queues\<close> (scheduler/kueue_adapter.py, volcano_adapter.py, router.py):
    submission and listing of workloads; \<open>Federation\<close> (federation/): clusters and placement across them,
    by the learned scheduler; \<open>JobSubmission\<close> (versioning.py): the submission of a job through five
    components, with \<open>FailurePredictor\<close> (predictor/failure_predictor.py); \<open>Optimizer\<close> (optimizer/): the
    best admissible placement.
  \<^item> \<open>SimCluster\<close> (ml/node_simulation.py) and \<open>ClusterManager\<close> (ml/cluster_algorithm.py): the simulated
    cluster and the algorithm that places jobs, caps power and drains GPUs in it.

  \<^bold>\<open>Observation and analysis.\<close>

  \<^item> \<open>SlurmConnector\<close> (connectors/slurm.py): the readers of Slurm's texts, against what Slurm prints;
    \<open>WatchCache\<close> (watch_stream.py), \<open>DomainStores\<close> (domains/stores.py), \<open>TelemetryQuality\<close>
    (telemetry_quality.py), \<open>Traces\<close> (trace.py), \<open>Twin\<close> (digital_twin.py): caches, stores, onboarding,
    replay and drift of recorded states.
  \<^item> \<open>Analysis\<close> (analysis.py), \<open>Advice\<close> and \<open>Recommend\<close> (recommendations.py), \<open>RecModel\<close>
    (ml/recommendation_model.py), \<open>Costs\<close> (cost_analysis.py), \<open>FinOps\<close> (finops.py), \<open>Intelligence\<close>
    (intelligence/), \<open>PolicyEvolution\<close> (policy/evolution.py), \<open>ExperimentStore\<close> (ml/model_registry.py):
    from stored states to advice, costs and plans, and the engines that learn.

  \<^bold>\<open>How the parts interact.\<close> A route checks a permission (\<open>Rbac\<close>) after the limiter (\<open>RateLimit\<close>) and the
  authentication (\<open>AuthPipeline\<close>) let the request pass. \<open>Approval\<close>, \<open>Policy\<close>, \<open>Actuation\<close> and
  \<open>Remediation\<close> share the repository's state \<open>repo\<close>; the remediation engine calls \<open>actuate\<close>. The governor
  calls registry, approvals, drift monitor and fallback engine, whose states are fields of its own.
  The queues, the federation and the job submission call the learned scheduler, whose table is part of
  their state and whose exceptions they pass on or catch as the code does. The operator, preemption,
  autoscaler and queues act on a Kubernetes cluster through a client.

  \<^bold>\<open>Correspondence.\<close> A class with attributes is a record of the same fields, an enumeration a datatype
  with a function giving its text, a method a function from arguments and state to state and
  result; \<open>py_error + 'a\<close> is a method that may raise. A UUID is its text, a \<open>datetime\<close> its
  microseconds (rational seconds where the code calls \<open>time.time\<close>), a float a rational number, so
  that rounding errors of floating-point arithmetic are left out. An f-string that prints more than
  texts is the list of its pieces. Identifiers, tokens, random numbers and readings of the clock are
  arguments; where an invariant needs them fresh or in order, the run's \<open>allowed\<close> predicate says so.
  Where objects are shared and changed in place (\<open>PolicyEvolution\<close>) the store is explicit.

  \<^bold>\<open>Parameters.\<close> Code outside the repository is an argument: the hash of an API key, the answers of
  the Kubernetes API and of Slurm's commands, the functions of numpy, pydantic's reading of a field.
  Theorems that rely on them name what is assumed, and their witnesses give instances. What another
  system prints or stores is specified independently of the code that reads it: the lines of squeue
  (\<open>queue_text\<close>) with the values they stand for, the workload the API lists (\<open>stands_for\<close>).

  \<^bold>\<open>Termination.\<close> Every function is total in Isabelle. Loops are folds or recursion over the lists the
  code iterates over, so no fuel is needed; the recursions that are not structural (printing of
  numbers, removal of a substring, breeding of a population, the fair-share loop) have a decreasing
  length or value. Threads that repeat a cycle are modelled by the cycle, and runs of them by folds
  over any list of operations.

  \<^bold>\<open>Theorems.\<close> The texts before them carry their numbers. They cover: recorded outcomes (actuation,
  remediation, submissions), guards (approvals, policies, permissions, certification, fallback, dry
  runs), invariants of runs (key index, registry roles, event log, cooldowns, rollouts, onboarding,
  evolution), exact results (rule evaluation, recommendations, suggestions, placements, fair shares,
  optimisation), round trips (squeue, workloads, the registry as a map), and the places where the code
  does less than it suggests: guardrails that remediation does not consult, a limiter that records
  nothing, a model that never learns, a placement that raises for clusters without GPUs, a watch that
  loses deletions, times below an hour that are read as hours.

  \<^bold>\<open>Not modelled.\<close> Logging, locks and threads; failures of the database itself and the PostgreSQL
  branches; the functions that run nvidia-smi; HTTP routing, but for the routes named above; the
  collectors and commands, which are I/O; numerical learning on numpy and scikit-learn but for what
  is named above; inference planning and language-model assistants, which produce texts; the catalogs,
  which are tables of constants; and the files that engines are saved to.
\<close>

end
